(* ===== verification/Prelude.thy ===== *)
theory Prelude
  imports Main "HOL-Library.Word" "HOL-Library.List_Lexorder" "HOL-Library.Char_ord"
    "HOL-Library.Sublist"
begin

text \<open>
  What the component theories share: the lemma collections of the development, the model of
  the C++ standard library the source uses (\<^verbatim>\<open>std::map\<close> as an association list sorted by
  key, \<^verbatim>\<open>std::string\<close> searches and splits, decimal conversion, the C locale's character
  classes), fixed-width signed arithmetic, and the generic facts about them that the
  component proofs use as simplification rules.

  Strings are byte strings: \<^typ>\<open>char\<close> is an 8-bit byte, the order on \<^typ>\<open>string\<close> is the
  lexicographic order of unsigned bytes, which is the order of \<^verbatim>\<open>std::string::operator<\<close>.
\<close>

named_theorems std_map_simps \<open>laws of the ordered map\<close>
named_theorems str_simps \<open>laws of the string helpers\<close>
named_theorems result_simps \<open>laws of the result combinators\<close>

section \<open>Signed 64-bit values\<close>

text \<open>\<^verbatim>\<open>std::int64_t\<close> values are integers; \<open>wrap_i64\<close> is the two's complement value of a result
  that leaves the range (what the compiled code computes where it multiplies or adds without a
  check).\<close>

definition i64_max :: int where
  "i64_max = 9223372036854775807"

definition wrap_i64 :: "int \<Rightarrow> int" where
  "wrap_i64 x = (x + 9223372036854775808) mod 18446744073709551616 - 9223372036854775808"

definition in_i64 :: "int \<Rightarrow> bool" where
  "in_i64 x \<longleftrightarrow> - 9223372036854775808 \<le> x \<and> x \<le> i64_max"

lemma wrap_i64_in_range: "in_i64 (wrap_i64 x)"
proof -
  have "0 \<le> (x + 9223372036854775808) mod 18446744073709551616"
    and "(x + 9223372036854775808) mod 18446744073709551616 < 18446744073709551616"
    by simp_all
  then show ?thesis unfolding in_i64_def wrap_i64_def i64_max_def by linarith
qed

lemma wrap_i64_id: "in_i64 x \<Longrightarrow> wrap_i64 x = x"
  by (simp add: in_i64_def wrap_i64_def i64_max_def)

lemma wrap_i64_shift: "wrap_i64 (x - 18446744073709551616) = wrap_i64 x"
proof -
  have "x - 18446744073709551616 + 9223372036854775808 =
      (x + 9223372036854775808) - 18446744073709551616" by simp
  then show ?thesis unfolding wrap_i64_def by (simp only: minus_mod_self2)
qed

lemma wrap_i64_unsigned:
  assumes "0 \<le> x" "x < 18446744073709551616"
  shows "wrap_i64 x = (if x < 9223372036854775808 then x else x - 18446744073709551616)"
proof (cases "x < 9223372036854775808")
  case True
  then show ?thesis using assms by (simp add: wrap_i64_id in_i64_def i64_max_def)
next
  case False
  then have "wrap_i64 (x - 18446744073709551616) = x - 18446744073709551616"
    using assms by (intro wrap_i64_id) (simp add: in_i64_def i64_max_def)
  with False show ?thesis by (simp add: wrap_i64_shift)
qed

text \<open>C++ integer division truncates towards zero.\<close>

definition tdiv :: "int \<Rightarrow> int \<Rightarrow> int" where
  "tdiv a b = sgn a * sgn b * (\<bar>a\<bar> div \<bar>b\<bar>)"

definition tmod :: "int \<Rightarrow> int \<Rightarrow> int" where
  "tmod a b = a - b * tdiv a b"

lemma tdiv_nonneg [simp]: "0 \<le> a \<Longrightarrow> 0 < b \<Longrightarrow> tdiv a b = a div b"
  by (cases "a = 0") (simp_all add: tdiv_def)

lemma tmod_nonneg [simp]: "0 \<le> a \<Longrightarrow> 0 < b \<Longrightarrow> tmod a b = a mod b"
  by (simp add: tmod_def minus_mult_div_eq_mod)

section \<open>std::map as a sorted association list\<close>

text \<open>Lookup is \<^const>\<open>map_of\<close>. Iteration over the map is the list itself: ascending keys.\<close>

fun map_put :: "'k::linorder \<Rightarrow> 'v \<Rightarrow> ('k \<times> 'v) list \<Rightarrow> ('k \<times> 'v) list" where
  "map_put k v [] = [(k, v)]"
| "map_put k v ((a, b) # m) =
     (if k < a then (k, v) # (a, b) # m
      else if k = a then (k, v) # m
      else (a, b) # map_put k v m)"

definition map_erase :: "'k \<Rightarrow> ('k \<times> 'v) list \<Rightarrow> ('k \<times> 'v) list" where
  "map_erase k m = filter (\<lambda>p. fst p \<noteq> k) m"

definition map_wf :: "('k::linorder \<times> 'v) list \<Rightarrow> bool" where
  "map_wf m \<longleftrightarrow> sorted_wrt (<) (map fst m)"

lemma map_of_put [std_map_simps, simp]: "map_of (map_put k v m) = (map_of m)(k \<mapsto> v)"
  by (induction m) (auto simp: fun_eq_iff)

lemma map_of_erase [std_map_simps, simp]: "map_of (map_erase k m) = (map_of m)(k := None)"
  by (induction m) (auto simp: map_erase_def fun_eq_iff)

lemma keys_put: "fst ` set (map_put k v m) = insert k (fst ` set m)"
  by (induction k v m rule: map_put.induct) auto

lemma map_wf_Nil [simp]: "map_wf []"
  by (simp add: map_wf_def)

lemma map_wf_single [simp]: "map_wf [p]"
  by (simp add: map_wf_def)

lemma map_wf_Cons: "map_wf (p # m) \<longleftrightarrow> (\<forall>k \<in> fst ` set m. fst p < k) \<and> map_wf m"
  by (auto simp: map_wf_def)

lemma map_wf_put [simp, intro]: "map_wf m \<Longrightarrow> map_wf (map_put k v m)"
  by (induction k v m rule: map_put.induct) (auto simp: map_wf_Cons keys_put dest: less_trans)

lemma map_wf_filter [simp, intro]: "map_wf m \<Longrightarrow> map_wf (filter P m)"
  by (induction m) (auto simp: map_wf_Cons)

lemma map_wf_erase [simp, intro]: "map_wf m \<Longrightarrow> map_wf (map_erase k m)"
  by (simp add: map_erase_def)

lemma map_wf_distinct: "map_wf m \<Longrightarrow> distinct (map fst m)"
  by (induction m) (auto simp: map_wf_Cons)

lemma map_wf_lookup: "map_wf m \<Longrightarrow> map_of m k = Some v \<longleftrightarrow> (k, v) \<in> set m"
  by (simp add: map_of_eq_Some_iff map_wf_distinct)

lemma set_map_put: "map_wf m \<Longrightarrow> set (map_put k v m) = insert (k, v) {p \<in> set m. fst p \<noteq> k}"
  by (induction k v m rule: map_put.induct) (auto simp: map_wf_Cons)

text \<open>Two well-formed maps with the same lookups are the same map: an ordered map is
  determined by its content.\<close>

lemma map_wf_ext:
  assumes "map_wf m" "map_wf n" "map_of m = map_of n"
  shows "m = n"
proof -
  have keys: "set (map fst m) = set (map fst n)"
    using assms(3) by (metis dom_map_of_conv_image_fst list.set_map)
  have "map fst m = map fst n"
    using assms(1,2) keys by (auto simp: map_wf_def intro: strict_sorted_equal)
  moreover have "map snd m = map snd n"
  proof -
    have "map snd m = map (\<lambda>k. the (map_of m k)) (map fst m)"
      using assms(1) by (auto simp: map_wf_lookup [symmetric])
    moreover have "map snd n = map (\<lambda>k. the (map_of n k)) (map fst n)"
      using assms(2) by (auto simp: map_wf_lookup [symmetric])
    ultimately show ?thesis using assms(3) \<open>map fst m = map fst n\<close> by metis
  qed
  ultimately show ?thesis by (metis zip_map_fst_snd)
qed

text \<open>The interface the repositories rely on: whatever implements an ordered map, an update
  is seen by the lookup of that key and by no other, in the well-formed states.\<close>

locale ordered_map =
  fixes lookup :: "'m \<Rightarrow> 'k \<Rightarrow> 'v option"
    and put :: "'k \<Rightarrow> 'v \<Rightarrow> 'm \<Rightarrow> 'm"
    and erase :: "'k \<Rightarrow> 'm \<Rightarrow> 'm"
    and wf :: "'m \<Rightarrow> bool"
  assumes lookup_put: "wf m \<Longrightarrow> lookup (put k v m) = (lookup m)(k \<mapsto> v)"
    and lookup_erase: "wf m \<Longrightarrow> lookup (erase k m) = (lookup m)(k := None)"
    and wf_put: "wf m \<Longrightarrow> wf (put k v m)"
    and wf_erase: "wf m \<Longrightarrow> wf (erase k m)"
    and ext: "wf m \<Longrightarrow> wf n \<Longrightarrow> lookup m = lookup n \<Longrightarrow> m = n"
begin

lemma put_put: "wf m \<Longrightarrow> put k v (put k w m) = put k v m"
  by (rule ext) (simp_all add: wf_put lookup_put)

lemma put_commute: "wf m \<Longrightarrow> k \<noteq> j \<Longrightarrow> put k v (put j w m) = put j w (put k v m)"
  by (rule ext) (simp_all add: wf_put lookup_put fun_upd_twist)

lemma erase_put_fresh: "wf m \<Longrightarrow> lookup m k = None \<Longrightarrow> erase k (put k v m) = m"
  by (rule ext) (simp_all add: wf_put wf_erase lookup_put lookup_erase fun_upd_idem)

lemma erase_fresh: "wf m \<Longrightarrow> lookup m k = None \<Longrightarrow> erase k m = m"
  by (rule ext) (simp_all add: wf_erase lookup_erase fun_upd_idem)

lemma put_same: "wf m \<Longrightarrow> lookup m k = Some v \<Longrightarrow> put k v m = m"
  by (rule ext) (simp_all add: wf_put lookup_put fun_upd_idem)

end

interpretation std_map: ordered_map map_of map_put map_erase map_wf
  by unfold_locales (simp_all add: map_wf_ext)

section \<open>Strings\<close>

definition starts_with :: "string \<Rightarrow> string \<Rightarrow> bool" where
  "starts_with p s \<longleftrightarrow> take (length p) s = p"

lemma starts_with_append [str_simps, simp]: "starts_with p (p @ s)"
  by (simp add: starts_with_def)

lemma starts_with_iff: "starts_with p s \<longleftrightarrow> (\<exists>r. s = p @ r)"
  by (metis append_take_drop_id append_eq_conv_conj starts_with_def)

text \<open>\<^verbatim>\<open>s.find(needle) != npos\<close>\<close>

fun contains_str :: "string \<Rightarrow> string \<Rightarrow> bool" where
  "contains_str p [] = (p = [])"
| "contains_str p (c # s) = (starts_with p (c # s) \<or> contains_str p s)"

text \<open>Splitting at every separator: the loop over \<^verbatim>\<open>find(sep, start)\<close>. There is always at least
  one segment.\<close>

fun split_on :: "char \<Rightarrow> string \<Rightarrow> string list" where
  "split_on sep [] = [[]]"
| "split_on sep (c # s) =
     (if c = sep then [] # split_on sep s
      else (case split_on sep s of [] \<Rightarrow> [[c]] | w # ws \<Rightarrow> (c # w) # ws))"

fun join_with :: "char \<Rightarrow> string list \<Rightarrow> string" where
  "join_with sep [] = []"
| "join_with sep [w] = w"
| "join_with sep (w # v # ws) = w @ sep # join_with sep (v # ws)"

lemma split_on_not_Nil [simp]: "split_on sep s \<noteq> []"
  by (induction s) (auto split: list.splits)

lemma split_on_no_sep [str_simps]: "sep \<notin> set s \<Longrightarrow> split_on sep s = [s]"
  by (induction s) (auto split: list.splits)

lemma split_on_append [str_simps]:
  "sep \<notin> set s \<Longrightarrow> split_on sep (s @ sep # t) = s # split_on sep t"
  by (induction s) (auto split: list.splits)

lemma split_on_segments: "w \<in> set (split_on sep s) \<Longrightarrow> sep \<notin> set w"
  by (induction s arbitrary: w) (fastforce split: list.splits if_splits)+

lemma join_with_Cons_char: "join_with sep ((c # w) # ws) = c # join_with sep (w # ws)"
  by (cases ws) simp_all

lemma join_with_empty_head: "ws \<noteq> [] \<Longrightarrow> join_with sep ([] # ws) = sep # join_with sep ws"
  by (cases ws) simp_all

lemma join_split: "join_with sep (split_on sep s) = s"
proof (induction s)
  case (Cons c s)
  then show ?case
    by (auto simp: join_with_Cons_char join_with_empty_head split: list.splits)
qed simp

lemma split_join:
  "ws \<noteq> [] \<Longrightarrow> (\<And>w. w \<in> set ws \<Longrightarrow> sep \<notin> set w) \<Longrightarrow> split_on sep (join_with sep ws) = ws"
  by (induction ws rule: join_with.induct) (auto simp: split_on_no_sep split_on_append)

text \<open>Splitting at the first separator only.\<close>

definition before_first :: "char \<Rightarrow> string \<Rightarrow> string" where
  "before_first sep s = takeWhile (\<lambda>c. c \<noteq> sep) s"

definition after_first :: "char \<Rightarrow> string \<Rightarrow> string" where
  "after_first sep s = tl (dropWhile (\<lambda>c. c \<noteq> sep) s)"

lemma takeWhile_no_sep: "sep \<notin> set s \<Longrightarrow> takeWhile (\<lambda>c. c \<noteq> sep) (s @ sep # t) = s"
  by (induction s) auto

lemma dropWhile_no_sep: "sep \<notin> set s \<Longrightarrow> dropWhile (\<lambda>c. c \<noteq> sep) (s @ sep # t) = sep # t"
  by (induction s) auto

lemma before_first_append [str_simps]: "sep \<notin> set s \<Longrightarrow> before_first sep (s @ sep # t) = s"
  by (simp add: before_first_def takeWhile_no_sep)

lemma after_first_append [str_simps]: "sep \<notin> set s \<Longrightarrow> after_first sep (s @ sep # t) = t"
  by (simp add: after_first_def dropWhile_no_sep)

lemma first_sep_split: "sep \<in> set s \<Longrightarrow> before_first sep s @ sep # after_first sep s = s"
  by (induction s) (auto simp: before_first_def after_first_def)

section \<open>Characters of the C locale\<close>

definition isdigit :: "char \<Rightarrow> bool" where
  "isdigit c \<longleftrightarrow> 48 \<le> (of_char c :: nat) \<and> (of_char c :: nat) \<le> 57"

definition isupper :: "char \<Rightarrow> bool" where
  "isupper c \<longleftrightarrow> 65 \<le> (of_char c :: nat) \<and> (of_char c :: nat) \<le> 90"

definition islower :: "char \<Rightarrow> bool" where
  "islower c \<longleftrightarrow> 97 \<le> (of_char c :: nat) \<and> (of_char c :: nat) \<le> 122"

definition isalpha :: "char \<Rightarrow> bool" where
  "isalpha c \<longleftrightarrow> isupper c \<or> islower c"

definition isalnum :: "char \<Rightarrow> bool" where
  "isalnum c \<longleftrightarrow> isalpha c \<or> isdigit c"

definition tolower :: "char \<Rightarrow> char" where
  "tolower c = (if isupper c then char_of ((of_char c :: nat) + 32) else c)"

definition is_control :: "char \<Rightarrow> bool" where
  "is_control c \<longleftrightarrow> (of_char c :: nat) < 32 \<or> (of_char c :: nat) = 127"

definition isspace :: "char \<Rightarrow> bool" where
  "isspace c \<longleftrightarrow> (of_char c :: nat) = 32 \<or> (9 \<le> (of_char c :: nat) \<and> (of_char c :: nat) \<le> 13)"

definition toupper :: "char \<Rightarrow> char" where
  "toupper c = (if islower c then char_of ((of_char c :: nat) - 32) else c)"

lemmas ctype_defs = isdigit_def isupper_def islower_def isalpha_def isalnum_def is_control_def

section \<open>Decimal conversion\<close>

text \<open>\<^verbatim>\<open>std::to_string\<close> and the digit accumulation of the hand-written parsers.\<close>

definition digit_char :: "nat \<Rightarrow> char" where
  "digit_char d = char_of (48 + d)"

definition digit_val :: "char \<Rightarrow> nat" where
  "digit_val c = of_char c - 48"

fun nat_to_string :: "nat \<Rightarrow> string" where
  "nat_to_string n =
     (if n < 10 then [digit_char n] else nat_to_string (n div 10) @ [digit_char (n mod 10)])"

declare nat_to_string.simps [simp del]

definition to_string :: "int \<Rightarrow> string" where
  "to_string i = (if i < 0 then ''-'' @ nat_to_string (nat (- i)) else nat_to_string (nat i))"

definition decimal :: "string \<Rightarrow> nat" where
  "decimal s = foldl (\<lambda>n c. n * 10 + digit_val c) 0 s"

lemma digit_char_numerals [simp]:
  "digit_char 0 = CHR ''0''" "digit_char (Suc 0) = CHR ''1''" "digit_char 1 = CHR ''1''" "digit_char 2 = CHR ''2''"
  "digit_char 3 = CHR ''3''" "digit_char 4 = CHR ''4''" "digit_char 5 = CHR ''5''"
  "digit_char 6 = CHR ''6''" "digit_char 7 = CHR ''7''" "digit_char 8 = CHR ''8''"
  "digit_char 9 = CHR ''9''"
  by code_simp+

lemma of_char_digit_char: "d < 10 \<Longrightarrow> (of_char (digit_char d) :: nat) = 48 + d"
  by (simp add: digit_char_def)

lemma isdigit_digit_char [simp]: "d < 10 \<Longrightarrow> isdigit (digit_char d)"
  by (simp add: isdigit_def of_char_digit_char)

lemma digit_val_digit_char [simp]: "d < 10 \<Longrightarrow> digit_val (digit_char d) = d"
  by (simp add: digit_val_def of_char_digit_char)

lemma digit_char_digit_val: "isdigit c \<Longrightarrow> digit_char (digit_val c) = c"
  by (simp add: isdigit_def digit_char_def digit_val_def)

lemma digit_val_less: "isdigit c \<Longrightarrow> digit_val c < 10"
  by (auto simp: isdigit_def digit_val_def)

lemma decimal_snoc [simp]: "decimal (s @ [c]) = decimal s * 10 + digit_val c"
  by (simp add: decimal_def)

lemma decimal_Nil [simp]: "decimal [] = 0"
  by (simp add: decimal_def)

lemma decimal_foldl: "foldl (\<lambda>n c. n * 10 + digit_val c) a s = a * 10 ^ length s + decimal s"
proof (induction s rule: rev_induct)
  case (snoc x xs)
  then show ?case by (simp add: algebra_simps)
qed simp

lemma decimal_Cons: "decimal (c # s) = digit_val c * 10 ^ length s + decimal s"
proof -
  have "decimal (c # s) = foldl (\<lambda>n c. n * 10 + digit_val c) (digit_val c) s"
    by (simp add: decimal_def)
  then show ?thesis by (simp only: decimal_foldl)
qed

lemma nat_to_string_not_Nil [simp]: "nat_to_string n \<noteq> []"
  by (subst nat_to_string.simps) simp

lemma nat_to_string_digits: "c \<in> set (nat_to_string n) \<Longrightarrow> isdigit c"
proof (induction n rule: nat_to_string.induct)
  case (1 n)
  then show ?case
    by (subst (asm) (2) nat_to_string.simps) (auto split: if_splits)
qed

lemma decimal_nat_to_string [simp]: "decimal (nat_to_string n) = n"
proof (induction n rule: nat_to_string.induct)
  case (1 n)
  show ?case
  proof (cases "n < 10")
    case True
    then show ?thesis by (simp add: nat_to_string.simps [of n] decimal_def)
  next
    case False
    with "1.IH" show ?thesis by (simp add: nat_to_string.simps [of n])
  qed
qed

lemma decimal_bound: "(\<And>c. c \<in> set s \<Longrightarrow> isdigit c) \<Longrightarrow> decimal s < 10 ^ length s"
proof (induction s rule: rev_induct)
  case (snoc c s)
  have "decimal s < 10 ^ length s" using snoc by simp
  moreover have "digit_val c < 10" using snoc.prems by (simp add: digit_val_less)
  ultimately show ?case by simp
qed simp

lemma length_nat_to_string: "n < 10 ^ k \<Longrightarrow> 0 < k \<Longrightarrow> length (nat_to_string n) \<le> k"
proof (induction n arbitrary: k rule: nat_to_string.induct)
  case (1 n)
  show ?case
  proof (cases "n < 10")
    case True
    with 1 show ?thesis by (simp add: nat_to_string.simps [of n])
  next
    case False
    then have "k \<noteq> 1" using "1.prems" by (intro notI) simp
    with "1.prems" obtain j where k: "k = Suc j" "0 < j" by (cases k) auto
    then have "n div 10 < 10 ^ j"
      using "1.prems"(1) by (simp add: less_mult_imp_div_less mult.commute)
    with "1.IH" [OF False] k show ?thesis
      using False by (simp add: nat_to_string.simps [of n])
  qed
qed

lemma length_nat_to_string_lower: "10 ^ k \<le> n \<Longrightarrow> k < length (nat_to_string n)"
proof (rule ccontr)
  assume n: "10 ^ k \<le> n" and "\<not> k < length (nat_to_string n)"
  then have "(10::nat) ^ length (nat_to_string n) \<le> 10 ^ k" by (intro power_increasing) auto
  moreover have "n < 10 ^ length (nat_to_string n)"
    using decimal_bound [of "nat_to_string n"] nat_to_string_digits [of _ n] by simp
  ultimately show False using n by linarith
qed

lemma length_nat_to_string_exact:
  "10 ^ k \<le> n \<Longrightarrow> n < 10 ^ Suc k \<Longrightarrow> length (nat_to_string n) = Suc k"
  using length_nat_to_string [of n "Suc k"] length_nat_to_string_lower [of k n] by simp

section \<open>UTF-8 literals\<close>

text \<open>A byte string from its hexadecimal notation, for the literals of the source that are not
  ASCII.\<close>

definition hex_digit_val :: "char \<Rightarrow> nat" where
  "hex_digit_val c =
     (let n = of_char c in if 97 \<le> n then n - 87 else if 65 \<le> n then n - 55 else n - 48)"

fun utf8 :: "string \<Rightarrow> string" where
  "utf8 (a # b # s) = char_of (16 * hex_digit_val a + hex_digit_val b) # utf8 s"
| "utf8 _ = []"

section \<open>Generic list facts\<close>

lemma filter_map_fst_distinct: "distinct (map fst m) \<Longrightarrow> distinct (map fst (filter P m))"
  by (induction m) auto

end
