(* ===== verification/Messages.thy ===== *)
theory Messages
  imports Prelude
begin

text \<open>
  The diagnostic texts of the service that are not plain ASCII. The source writes them as
  UTF-8 string literals (mostly Chinese); a constant below is the literal's exact byte
  sequence, its name an English gloss of the text. The client-visible contract messages of
  the OSDU interface are ASCII and stand verbatim in the definitions that produce them.
\<close>

definition msg_acl_must_be_object :: string where
  "msg_acl_must_be_object = ''acl '' @ utf8 ''e5bf85e9a1bbe698afe5afb9e8b1a1''"

definition msg_acl_principal_invalid :: string where
  "msg_acl_principal_invalid = ''ACL '' @ utf8 ''e4b8bbe4bd93e6a0bce5bc8fe99d9ee6b395efbc9a''"

definition msg_actually_read :: string where
  "msg_actually_read = utf8 ''efbc8ce5ae9ee99985e8afbbe58f96'' @ ''=''"

definition msg_any_needs_role :: string where
  "msg_any_needs_role = ''AuthorizeCallerAny '' @ utf8 ''e8a681e6b182e887b3e5b091e4b880e4b8aae8a792e889b2''"

definition msg_any_roles :: string where
  "msg_any_roles = ''AuthorizeAny '' @ utf8 ''e8a681e6b182e887b3e5b091e4b880e4b8aae8a792e889b2''"

definition msg_audit_failed :: string where
  "msg_audit_failed = utf8 ''e5aea1e8aea1e58699e585a5e5a4b1e8b4a5efbc88'' @ ''audit_fail_closed=true'' @ utf8 ''efbc89efbc9a''"

definition msg_audit_injected :: string where
  "msg_audit_injected = utf8 ''e5aea1e8aea1e5908ee7abafe4b88de58fafe794a8efbc88'' @ ''FSS_AUDIT_FAULT_INJECT=1 '' @ utf8 ''e6b3a8e585a5e79a84e5bf85e784b6e5a4b1e8b4a5efbc89''"

definition msg_auth_closed :: string where
  "msg_auth_closed = utf8 ''e5bf85e9a1bbe4b8ba'' @ '' true'' @ utf8 ''efbc9ae4be9de8b596e4b88de58fafe794a8e4b88de58fafe9998de7baa7e4b8bae694bee8a18c''"

definition msg_auth_disabled :: string where
  "msg_auth_disabled = ''production '' @ utf8 ''e78eafe5a283e4b88de58581e8aeb8'' @ '' disabled'' @ utf8 ''efbc88e982a3e7ad89e4ba8ee6b2a1e69c89e989b4e69d83efbc89''"

definition msg_auth_jwks :: string where
  "msg_auth_jwks = ''RS256/JWKS '' @ utf8 ''e5b09ae69caae5ae9ee78eb0efbc88'' @ ''ADR-012 '' @ utf8 ''c2a7'' @ ''5.3'' @ utf8 ''efbc89efbc9ae9858de7bdaee5ae83e4bc9ae8aea9e69c8de58aa1e3808ce79c8be8b5b7e69da5e9858de4ba86e989b4e69d83e3808defbc8ce59ba0e6ada4e8bf99e9878ce79bb4e68ea5e68b92e7bb9de590afe58aa8''"

definition msg_auth_mode :: string where
  "msg_auth_mode = ''production '' @ utf8 ''e78eafe5a283e8a681e6b182'' @ '' auth.mode=jwt'' @ utf8 ''efbc88e5bd93e5898d'' @ ''='' @ utf8 ''27''"

definition msg_auth_mode_end :: string where
  "msg_auth_mode_end = utf8 ''27efbc89''"

definition msg_auth_remote :: string where
  "msg_auth_remote = ''auth.mode=remote-entitlements '' @ utf8 ''e697b6e5bf85e9a1bbe9858de7bdae'' @ '' Entitlements '' @ utf8 ''e59cb0e59d80''"

definition msg_auth_secret :: string where
  "msg_auth_secret = ''production '' @ utf8 ''e78eafe5a283e5bf85e9a1bbe9858de7bdaee585b1e4baabe5af86e992a5efbc88e590a6e58899e69cace5ae9ee4be8be4bc9ae68b92e7bb9de68980e69c89'' @ '' token'' @ utf8 ''efbc89''"

definition msg_auth_verify :: string where
  "msg_auth_verify = ''production '' @ utf8 ''e78eafe5a283e5bf85e9a1bbe4b8ba'' @ '' true'' @ utf8 ''efbc88e4b88de68ea5e58f97e4b88de9aa8ce7adbee79a84'' @ '' token'' @ utf8 ''efbc89''"

definition msg_authorize_any_empty :: string where
  "msg_authorize_any_empty = ''AuthorizeAny '' @ utf8 ''e8a681e6b182e887b3e5b091e4b880e4b8aae8a792e889b2''"

definition msg_bad_path_key :: string where
  "msg_bad_path_key = utf8 ''e99d9ee6b395e8b7afe5be84e994ae'' @ '' '' @ utf8 ''22''"

definition msg_body_read_failed :: string where
  "msg_body_read_failed = utf8 ''e8afb7e6b182e4bd93e8afbbe58f96e5a4b1e8b4a5e68896e8a2abe4b8ade6ada2''"

definition msg_budget_buffer :: string where
  "msg_budget_buffer = '') '' @ utf8 ''c397'' @ '' '' @ utf8 ''e7bc93e586b2'' @ ''(''"

definition msg_budget_total :: string where
  "msg_budget_total = '') '' @ utf8 ''e8b685e8bf87e9a284e7ae97'' @ ''(''"

definition msg_budget_workers :: string where
  "msg_budget_workers = utf8 ''e5b9b6e58f91e4b88ae99990'' @ ''(''"

definition msg_buffer_sink :: string where
  "msg_buffer_sink = ''BufferSink '' @ utf8 ''e7bc93e586b2e6baa2e587ba''"

definition msg_bytes :: string where
  "msg_bytes = '' '' @ utf8 ''e5ad97e88a82''"

definition msg_cfg_absent :: string where
  "msg_cfg_absent = utf8 ''e9858de7bdaee9a1b9e4b88de5ad98e59ca8'' @ '': ''"

definition msg_cfg_cli_unknown :: string where
  "msg_cfg_cli_unknown = utf8 ''e591bde4bba4e8a18ce8a686e79b96e4ba86e69caae79fa5e9858de7bdaee9a1b9''"

definition msg_cfg_enum :: string where
  "msg_cfg_enum = utf8 ''e58f96e580bce99d9ee6b395efbc9a27''"

definition msg_cfg_enum_allowed :: string where
  "msg_cfg_enum_allowed = utf8 ''27efbc8ce58581e8aeb8'' @ '' ''"

definition msg_cfg_env :: string where
  "msg_cfg_env = utf8 ''e78eafe5a283e58f98e9878f'' @ '' ''"

definition msg_cfg_env_default :: string where
  "msg_cfg_env_default = '' '' @ utf8 ''e69caae8aebee7bdaeefbc8ce5b7b2e59b9ee98080e9bb98e8aea4e580bcefbc88e8afb7e7a1aee8aea4e8bf99e698afe9a284e69c9fefbc89''"

definition msg_cfg_failed :: string where
  "msg_cfg_failed = utf8 ''e9858de7bdaee6a0a1e9aa8ce5a4b1e8b4a5efbc8ce585b1'' @ '' ''"

definition msg_cfg_failed_count :: string where
  "msg_cfg_failed_count = '' '' @ utf8 ''e4b8aae997aee9a298efbc9a''"

definition msg_cfg_missing :: string where
  "msg_cfg_missing = utf8 ''e5bf85e5a1abe9a1b9e7bcbae5a4b1''"

definition msg_cfg_not_array :: string where
  "msg_cfg_not_array = utf8 ''e9858de7bdaee9a1b9e4b88de698afe695b0e7bb84'' @ '': ''"

definition msg_cfg_not_bool :: string where
  "msg_cfg_not_bool = utf8 ''e9858de7bdaee9a1b9e4b88de698afe5b883e5b094'' @ '': ''"

definition msg_cfg_not_int :: string where
  "msg_cfg_not_int = utf8 ''e9858de7bdaee9a1b9e4b88de698afe695b4e695b0'' @ '': ''"

definition msg_cfg_not_string :: string where
  "msg_cfg_not_string = utf8 ''e9858de7bdaee9a1b9e4b88de698afe5ad97e7aca6e4b8b2'' @ '': ''"

definition msg_cfg_open :: string where
  "msg_cfg_open = utf8 ''e697a0e6b395e68993e5bc80e9858de7bdaee69687e4bbb6'' @ '': ''"

definition msg_cfg_parse :: string where
  "msg_cfg_parse = utf8 ''e9858de7bdaee8a7a3e69e90e5a4b1e8b4a5'' @ '': ''"

definition msg_cfg_range :: string where
  "msg_cfg_range = utf8 ''e8b685e587bae88c83e59bb4'' @ '' [''"

definition msg_cfg_range_actual :: string where
  "msg_cfg_range_actual = '']'' @ utf8 ''efbc8ce5ae9ee99985'' @ '' ''"

definition msg_cfg_ref :: string where
  "msg_cfg_ref = utf8 ''e5bc95e794a8e79a84e78eafe5a283e58f98e9878f'' @ '' ''"

definition msg_cfg_ref_unset :: string where
  "msg_cfg_ref_unset = '' '' @ utf8 ''e69caae8aebee7bdae''"

definition msg_cfg_top :: string where
  "msg_cfg_top = utf8 ''e9858de7bdaee9a1b6e5b182e5bf85e9a1bbe698af'' @ '' JSON object''"

definition msg_cfg_unknown :: string where
  "msg_cfg_unknown = utf8 ''e69caae79fa5e9858de7bdaee9a1b9efbc88e58fafe883bde698afe68bbce58699e99499e8afafefbc9be88ba5e4b8bae58aa8e68081e5ad90e6a091e8afb7e59ca8'' @ '' Schema '' @ utf8 ''e9878ce5a3b0e6988e'' @ '' AllowDynamicPrefix'' @ utf8 ''efbc89''"

definition msg_cfg_want_bool :: string where
  "msg_cfg_want_bool = utf8 ''e7b1bbe59e8be99499e8afafefbc9ae69c9fe69c9be5b883e5b094e580bcefbc88'' @ ''true/false'' @ utf8 ''efbc89efbc8ce5ae9ee99985'' @ '' '' @ utf8 ''27''"

definition msg_cfg_want_int :: string where
  "msg_cfg_want_int = utf8 ''e7b1bbe59e8be99499e8afafefbc9ae69c9fe69c9be695b4e695b0efbc8ce5ae9ee99985'' @ '' '' @ utf8 ''27''"

definition msg_cfg_want_list :: string where
  "msg_cfg_want_list = utf8 ''e7b1bbe59e8be99499e8afafefbc9ae69c9fe69c9be5ad97e7aca6e4b8b2e695b0e7bb84''"

definition msg_cfg_want_scalar :: string where
  "msg_cfg_want_scalar = utf8 ''e7b1bbe59e8be99499e8afafefbc9ae69c9fe69c9be6a087e9878fefbc8ce5ae9ee99985e698af'' @ '' object''"

definition msg_checksum_algorithm_unsupported :: string where
  "msg_checksum_algorithm_unsupported = utf8 ''e4b88de694afe68c81e79a84e6a0a1e9aa8ce5928ce7ae97e6b395efbc9a''"

definition msg_checksum_failed :: string where
  "msg_checksum_failed = utf8 ''e8aea1e7ae97e6a0a1e9aa8ce5928ce5a4b1e8b4a5efbc9a''"

definition msg_checksum_mismatch :: string where
  "msg_checksum_mismatch = utf8 ''e6a0a1e9aa8ce5928ce4b88de7aca6''"

definition msg_checksum_needs_algorithm :: string where
  "msg_checksum_needs_algorithm = utf8 ''e68f90e4be9b'' @ '' expected_checksum '' @ utf8 ''e697b6e5bf85e9a1bbe5908ce697b6e7bb99'' @ '' checksum_algorithm''"

definition msg_claiming_elsewhere :: string where
  "msg_claiming_elsewhere = utf8 ''e58fa6e4b880e5ae9ee4be8be6ada3e59ca8e799bbe8aeb0e5908ce4b880'' @ '' fileSource'' @ utf8 ''efbc88'' @ ''claiming '' @ utf8 ''e4b8adefbc89efbc8ce8afb7e9878de8af95''"

definition msg_clock_skew_is :: string where
  "msg_clock_skew_is = utf8 ''e5ae9ee4be8be697b6e9929fe4b88ee58f82e88083e697b6e9929fefbc88e695b0e68daee5ba93'' @ '' now()'' @ utf8 ''efbc89e5818fe5b7ae'' @ '' ''"

definition msg_close_failed :: string where
  "msg_close_failed = ''close '' @ utf8 ''e5a4b1e8b4a5''"

definition msg_close_paren :: string where
  "msg_close_paren = utf8 ''efbc89''"

definition msg_close_paren_full :: string where
  "msg_close_paren_full = utf8 ''efbc89''"

definition msg_colon :: string where
  "msg_colon = utf8 ''efbc9a''"

definition msg_comma_actual :: string where
  "msg_comma_actual = utf8 ''efbc8ce5ae9ee99985'' @ '' ''"

definition msg_configured_container :: string where
  "msg_configured_container = utf8 ''e9858de7bdaee79a84e5aeb9e599a8e5908d''"

definition msg_container_missing :: string where
  "msg_container_missing = utf8 ''e5aeb9e599a8e4b88de5ad98e59ca8efbc9a''"

definition msg_container_name_empty :: string where
  "msg_container_name_empty = utf8 ''e5aeb9e599a8e5908de4b88de883bde4b8bae7a9ba''"

definition msg_container_override :: string where
  "msg_container_override = ''container '' @ utf8 ''e4b88ee5b7b2e7adbee58f91e79a84e4bd8de7bdaee8aeb0e5bd95e4b88de4b880e887b4efbc88e4b88de68ea5e58f97e59d90e6a087e8a686e79b96efbc89''"

definition msg_copy_failed :: string where
  "msg_copy_failed = utf8 ''e5a48de588b6e588b0'' @ '' persistent '' @ utf8 ''e5a4b1e8b4a5efbc9a''"

definition msg_copy_source_missing :: string where
  "msg_copy_source_missing = utf8 ''e5a48de588b6e6ba90e4b88de5ad98e59ca8efbc9a''"

definition msg_countries_empty :: string where
  "msg_countries_empty = ''legal.otherRelevantDataCountries '' @ utf8 ''e4b88de883bde4b8bae7a9ba''"

definition msg_countries_unique :: string where
  "msg_countries_unique = ''legal.otherRelevantDataCountries '' @ utf8 ''e58583e7b4a0e5bf85e9a1bbe594afe4b880''"

definition msg_country_two_letters :: string where
  "msg_country_two_letters = utf8 ''e59bbde5aeb6e4bba3e7a081e5bf85e9a1bbe698af'' @ '' 2 '' @ utf8 ''e4b8aae5ad97e6af8defbc9a''"

definition msg_create_copy_target_failed :: string where
  "msg_create_copy_target_failed = utf8 ''e5889be5bbbae5a48de588b6e79baee6a087e5a4b1e8b4a5''"

definition msg_create_target_failed :: string where
  "msg_create_target_failed = utf8 ''e5889be5bbbae79baee6a087e69687e4bbb6e5a4b1e8b4a5''"

definition msg_create_tmp_failed :: string where
  "msg_create_tmp_failed = utf8 ''e5889be5bbbae4b8b4e697b6e69687e4bbb6e5a4b1e8b4a5''"

definition msg_curl_init :: string where
  "msg_curl_init = ''curl_easy_init '' @ utf8 ''e5a4b1e8b4a5''"

definition msg_data_must_be_object :: string where
  "msg_data_must_be_object = ''data '' @ utf8 ''e5bf85e9a1bbe698afe5afb9e8b1a1''"

definition msg_dataset_sources :: string where
  "msg_dataset_sources = ''datasetSources '' @ utf8 ''e5bf85e9a1bbe698afe695b0e7bb84''"

definition msg_dot_segment :: string where
  "msg_dot_segment = utf8 ''e5ad98e59ca8'' @ '' '' @ utf8 ''27'' @ ''.'' @ utf8 ''27'' @ '' '' @ utf8 ''e8b7afe5be84e6aeb5''"

definition msg_dotdot_segment :: string where
  "msg_dotdot_segment = utf8 ''e5ad98e59ca8'' @ '' '' @ utf8 ''27'' @ ''..'' @ utf8 ''27'' @ '' '' @ utf8 ''e8b7afe5be84e6aeb5efbc88e8b7afe5be84e7a9bfe8b68aefbc89''"

definition msg_download_needs_id :: string where
  "msg_download_needs_id = ''DownloadFile '' @ utf8 ''e8a681e6b182'' @ '' file_id '' @ utf8 ''e68896'' @ '' file_source''"

definition msg_ellipsis :: string where
  "msg_ellipsis = utf8 ''e280a6''"

definition msg_empty_segment :: string where
  "msg_empty_segment = utf8 ''e5ad98e59ca8e7a9bae8b7afe5be84e6aeb5efbc88e5a682'' @ '' '' @ utf8 ''27'' @ ''a//b'' @ utf8 ''27efbc89''"

definition msg_ensure_first :: string where
  "msg_ensure_first = utf8 ''efbc88e8b083e794a8e696b9e5bf85e9a1bbe58588'' @ '' ensure_container'' @ utf8 ''efbc89''"

definition msg_ent_401 :: string where
  "msg_ent_401 = ''Entitlements '' @ utf8 ''e68b92e7bb9de4ba86e8afa5e587ade8af81efbc88'' @ ''401'' @ utf8 ''efbc89''"

definition msg_ent_allowed :: string where
  "msg_ent_allowed = ''Entitlements '' @ utf8 ''e79a84e5938de5ba94e7bcbae5b091e5b883e5b094e5ad97e6aeb5'' @ '' allowed'' @ utf8 ''efbc88'' @ ''fail-closed'' @ utf8 ''efbc89''"

definition msg_ent_denied :: string where
  "msg_ent_denied = ''Entitlements '' @ utf8 ''e69caae68e88e4ba88e4bbbbe4b880e5bf85e99c80e8a792e889b2efbc9a''"

definition msg_ent_json :: string where
  "msg_ent_json = ''Entitlements '' @ utf8 ''e79a84e5938de5ba94e4b88de698afe59088e6b395'' @ '' JSON '' @ utf8 ''e5afb9e8b1a1efbc88'' @ ''fail-closed'' @ utf8 ''efbc89''"

definition msg_ent_no_url :: string where
  "msg_ent_no_url = utf8 ''e69caae9858de7bdae'' @ '' auth.remote_entitlements.base_url'' @ utf8 ''efbc88'' @ ''fail-closed'' @ utf8 ''efbc89''"

definition msg_ent_status :: string where
  "msg_ent_status = ''Entitlements '' @ utf8 ''e8bf94e59b9ee99d9e'' @ '' 200'' @ utf8 ''efbc88''"

definition msg_ent_unreachable :: string where
  "msg_ent_unreachable = ''Entitlements '' @ utf8 ''e4b88de58fafe8bebee68896e8b685e697b6efbc88'' @ ''fail-closed'' @ utf8 ''efbc89efbc9a''"

definition msg_epoch_must_be_positive :: string where
  "msg_epoch_must_be_positive = ''epochMillis '' @ utf8 ''e5bf85e9a1bbe4b8bae6ada3''"

definition msg_fail_closed :: string where
  "msg_fail_closed = utf8 ''efbc8c'' @ ''fail-closed'' @ utf8 ''efbc89''"

definition msg_fdatasync_failed :: string where
  "msg_fdatasync_failed = ''fdatasync '' @ utf8 ''e5a4b1e8b4a5''"

definition msg_field_missing_or_mistyped :: string where
  "msg_field_missing_or_mistyped = utf8 ''22'' @ '' '' @ utf8 ''e7bcbae5a4b1e68896e7b1bbe59e8be4b88de7aca6efbc88e69c9fe69c9b'' @ '' ''"

definition msg_field_open :: string where
  "msg_field_open = utf8 ''e5ad97e6aeb5'' @ '' '' @ utf8 ''22''"

definition msg_file_id_empty :: string where
  "msg_file_id_empty = ''file_id '' @ utf8 ''e4b88de883bde4b8bae7a9ba''"

definition msg_file_segment_invalid :: string where
  "msg_file_segment_invalid = ''fileID '' @ utf8 ''e6aeb5e99d9ee6b395efbc9a''"

definition msg_file_size_failed :: string where
  "msg_file_size_failed = utf8 ''e58f96e69687e4bbb6e5a4a7e5b08fe5a4b1e8b4a5''"

definition msg_file_source_empty :: string where
  "msg_file_source_empty = ''file_source '' @ utf8 ''e4b88de883bde4b8bae7a9ba''"

definition msg_file_source_too_long :: string where
  "msg_file_source_too_long = ''FileSource '' @ utf8 ''e8b685e8bf87e995bfe5baa6e4b88ae99990'' @ '' ''"

definition msg_fstat_failed :: string where
  "msg_fstat_failed = ''fstat '' @ utf8 ''e5a4b1e8b4a5''"

definition msg_fsync_dir_failed :: string where
  "msg_fsync_dir_failed = ''fsync '' @ utf8 ''e79baee5bd95e5a4b1e8b4a5''"

definition msg_gc_claim_limit :: string where
  "msg_gc_claim_limit = ''claim_limit '' @ utf8 ''e5bf85e9a1bb'' @ '' > 0''"

definition msg_gc_needs_partition :: string where
  "msg_gc_needs_partition = ''GC '' @ utf8 ''e5bf85e9a1bbe68c87e5ae9a'' @ '' partition''"

definition msg_gc_no_staging :: string where
  "msg_gc_no_staging = utf8 ''e697a0e6b395e8a7a3e69e90'' @ '' staging '' @ utf8 ''e5ad98e582a8efbc9a''"

definition msg_gc_running :: string where
  "msg_gc_running = ''GC '' @ utf8 ''e5b7b2e59ca8e8bf90e8a18cefbc88e4b88ae4b880e8bdaee5b09ae69caae7bb93e69d9fefbc89efbc8ce8afb7e7a88de5908ee9878de8af95''"

definition msg_has_illegal_characters :: string where
  "msg_has_illegal_characters = '' '' @ utf8 ''e590abe99d9ee6b395e5ad97e7aca6efbc9a''"

definition msg_help_bytes :: string where
  "msg_help_bytes = utf8 ''e6b581e7bb8fe5ad98e582a8e79a84e5ad97e88a82e695b0efbc88'' @ ''direction=in|out'' @ utf8 ''efbc89''"

definition msg_help_ops :: string where
  "msg_help_ops = utf8 ''e5ad98e582a8e6938de4bd9ce6aca1e695b0efbc88e68c89e9a9b1e58aa8'' @ ''/'' @ utf8 ''e6938de4bd9c'' @ ''/'' @ utf8 ''e7bb93e69e9cefbc89''"

definition msg_hook_endpoint :: string where
  "msg_hook_endpoint = utf8 ''efbc88e7abafe782b9'' @ '' ''"

definition msg_hook_http :: string where
  "msg_hook_http = utf8 ''efbc89efbc9a'' @ ''HTTP ''"

definition msg_hook_init :: string where
  "msg_hook_init = ''curl_easy_init '' @ utf8 ''e5a4b1e8b4a5efbc88'' @ ''kind=''"

definition msg_hook_ms :: string where
  "msg_hook_ms = ''ms'' @ utf8 ''efbc89''"

definition msg_hook_no_url :: string where
  "msg_hook_no_url = utf8 ''e69caae9858de7bdae'' @ '' events.webhook.url'' @ utf8 ''efbc8ce4ba8be4bbb6e69caae58f91e5b883efbc88'' @ ''kind=''"

definition msg_hook_status :: string where
  "msg_hook_status = utf8 ''e4ba8be4bbb6e58f91e5b883e5a4b1e8b4a5efbc88e99d9e'' @ '' 2xx'' @ utf8 ''efbc8c'' @ ''kind=''"

definition msg_hook_timeout :: string where
  "msg_hook_timeout = utf8 ''efbc8c'' @ ''timeout=''"

definition msg_hook_transport :: string where
  "msg_hook_transport = utf8 ''e4ba8be4bbb6e58f91e5b883e5a4b1e8b4a5efbc88e4bca0e8be93e5b182efbc8c'' @ ''kind=''"

definition msg_id_other_source :: string where
  "msg_id_other_source = utf8 ''e5908c'' @ '' id '' @ utf8 ''e5b7b2e5ad98e59ca8e4b894'' @ '' file_source '' @ utf8 ''e4b88de5908cefbc9a''"

definition msg_inconsistent_state :: string where
  "msg_inconsistent_state = utf8 ''e58583e695b0e68daee78ab6e68081e4b88de4b880e887b4efbc9a'' @ ''fileSource '' @ utf8 ''e5b7b2e69c89e99d9e'' @ '' ready/claiming '' @ utf8 ''e79a84e6b4bbe58aa8e8aeb0e5bd95efbc8ce68b92e7bb9de5a48de588b6''"

definition msg_ipv6_open :: string where
  "msg_ipv6_open = ''IPv6 '' @ utf8 ''e59cb0e59d80e7bcbae5b091'' @ '' '' @ utf8 ''27'' @ '']'' @ utf8 ''27efbc9a27''"

definition msg_ipv6_tail :: string where
  "msg_ipv6_tail = ''IPv6 '' @ utf8 ''e59cb0e59d80e5908ee79a84e5ad97e7aca6e99d9ee6b395efbc9a27''"

definition msg_items_positive :: string where
  "msg_items_positive = ''Items '' @ utf8 ''e5bf85e9a1bb'' @ '' > 0''"

definition msg_json_top_must_be_object :: string where
  "msg_json_top_must_be_object = ''JSON '' @ utf8 ''e9a1b6e5b182e5bf85e9a1bbe698af'' @ '' object'' @ utf8 ''efbc8ce5ae9ee99985e698af'' @ '' ''"

definition msg_jwt_algorithm :: string where
  "msg_jwt_algorithm = utf8 ''e4b88de694afe68c81e79a84'' @ '' JWT '' @ utf8 ''e7ae97e6b395efbc88e58faae68ea5e58f97'' @ '' HS256'' @ utf8 ''efbc89efbc9a''"

definition msg_jwt_aud :: string where
  "msg_jwt_aud = ''JWT '' @ utf8 ''e79a84'' @ '' aud '' @ utf8 ''e4b88de58cb9e9858d''"

definition msg_jwt_bad_base64 :: string where
  "msg_jwt_bad_base64 = ''JWT '' @ utf8 ''e6aeb5e4b88de698afe59088e6b395e79a84'' @ '' base64url''"

definition msg_jwt_bad_json :: string where
  "msg_jwt_bad_json = ''JWT '' @ utf8 ''e79a84'' @ '' header/payload '' @ utf8 ''e4b88de698afe59088e6b395'' @ '' JSON '' @ utf8 ''e5afb9e8b1a1''"

definition msg_jwt_empty_part :: string where
  "msg_jwt_empty_part = ''JWT '' @ utf8 ''e6a0bce5bc8fe99d9ee6b395efbc88e5ad98e59ca8e7a9bae6aeb5efbc89''"

definition msg_jwt_expired :: string where
  "msg_jwt_expired = ''JWT '' @ utf8 ''e5b7b2e8bf87e69c9f''"

definition msg_jwt_iss :: string where
  "msg_jwt_iss = ''JWT '' @ utf8 ''e79a84'' @ '' iss '' @ utf8 ''e4b88de58cb9e9858d''"

definition msg_jwt_lacks :: string where
  "msg_jwt_lacks = utf8 ''e7bcbae5b091'' @ '' ''"

definition msg_jwt_nbf :: string where
  "msg_jwt_nbf = ''JWT '' @ utf8 ''e5b09ae69caae7949fe69588efbc88'' @ ''nbf'' @ utf8 ''efbc89''"

definition msg_jwt_no_exp :: string where
  "msg_jwt_no_exp = ''JWT '' @ utf8 ''e7bcbae5b091'' @ '' exp'' @ utf8 ''efbc88e68b92e7bb9de697a0e8bf87e69c9fe697b6e997b4e79a84'' @ '' token'' @ utf8 ''efbc89''"

definition msg_jwt_no_secret :: string where
  "msg_jwt_no_secret = utf8 ''e69cace5ae9ee4be8be69caae9858de7bdae'' @ '' JWT '' @ utf8 ''e9aa8ce7adbee5af86e992a5efbc8ce68b92e7bb9de68980e69c89'' @ '' token'' @ utf8 ''efbc88'' @ ''fail-closed'' @ utf8 ''efbc89''"

definition msg_jwt_not_ready :: string where
  "msg_jwt_not_ready = ''auth.jwt.verify_signature=true '' @ utf8 ''e4bd86e6b2a1e69c89e9858de7bdae'' @ '' auth.jwt.hmac_secret '' @ utf8 ''e28094e28094'' @ '' '' @ utf8 ''e69cace5ae9ee4be8be4bc9ae68b92e7bb9de68980e69c89'' @ '' token'' @ utf8 ''efbc88'' @ ''fail-closed'' @ utf8 ''efbc89e38082e8afb7e9858de7bdaee585b1e4baabe5af86e992a5efbc8ce68896e698bee5bc8fe585b3e997ade9aa8ce7adbeefbc88e4bb85e5bc80e58f91efbc89e38082''"

definition msg_jwt_sig_base64 :: string where
  "msg_jwt_sig_base64 = ''JWT '' @ utf8 ''e7adbee5908de4b88de698afe59088e6b395e79a84'' @ '' base64url''"

definition msg_jwt_sig_length :: string where
  "msg_jwt_sig_length = ''JWT '' @ utf8 ''e7adbee5908de995bfe5baa6e99d9ee6b395efbc88'' @ ''HS256 '' @ utf8 ''e69c9fe69c9b'' @ '' 32 '' @ utf8 ''e5ad97e88a82efbc89''"

definition msg_jwt_sig_wrong :: string where
  "msg_jwt_sig_wrong = ''JWT '' @ utf8 ''e9aa8ce7adbee5a4b1e8b4a5''"

definition msg_jwt_tenant_claim :: string where
  "msg_jwt_tenant_claim = '' claim'' @ utf8 ''efbc88e7a79fe688b7e7bb91e5ae9ae79a84e4be9de68daeefbc89''"

definition msg_jwt_tenant_differs :: string where
  "msg_jwt_tenant_differs = '' '' @ utf8 ''e4b88ee8afb7e6b182e79a84'' @ '' data-partition-id '' @ utf8 ''e4b88de4b880e887b4''"

definition msg_jwt_three_parts :: string where
  "msg_jwt_three_parts = ''JWT '' @ utf8 ''e6a0bce5bc8fe99d9ee6b395efbc88e69c9fe69c9b'' @ '' header.payload.signature '' @ utf8 ''e4b889e6aeb5efbc89''"

definition msg_key_absolute :: string where
  "msg_key_absolute = utf8 ''e4b88de58581e8aeb8e7bb9de5afb9e8b7afe5be84''"

definition msg_key_empty :: string where
  "msg_key_empty = utf8 ''e994aee4b8bae7a9ba''"

definition msg_key_nul :: string where
  "msg_key_nul = utf8 ''e590ab'' @ '' NUL '' @ utf8 ''e5ad97e88a82''"

definition msg_key_override :: string where
  "msg_key_override = ''key '' @ utf8 ''e4b88ee5b7b2e7adbee58f91e79a84e4bd8de7bdaee8aeb0e5bd95e4b88de4b880e887b4efbc88e4b88de68ea5e58f97e59d90e6a087e8a686e79b96efbc89''"

definition msg_key_slash_end :: string where
  "msg_key_slash_end = utf8 ''e4b88de58581e8aeb8e4bba5'' @ '' '' @ utf8 ''27'' @ ''/'' @ utf8 ''27'' @ '' '' @ utf8 ''e7bb93e5b0beefbc88e58faae68ea5e58f97e69687e4bbb6e994aeefbc89''"

definition msg_key_too_long :: string where
  "msg_key_too_long = utf8 ''e994aee8bf87e995bfefbc88'' @ ''>''"

definition msg_key_too_long_end :: string where
  "msg_key_too_long_end = '' '' @ utf8 ''e5ad97e88a82efbc89''"

definition msg_kind_too_long :: string where
  "msg_kind_too_long = ''kind '' @ utf8 ''e8bf87e995bf''"

definition msg_lacks_any_role :: string where
  "msg_lacks_any_role = utf8 ''e8b083e794a8e696b9e7bcbae5b091e4bbbbe4b880e5bf85e99c80e8a792e889b2efbc9a''"

definition msg_lacks_role :: string where
  "msg_lacks_role = utf8 ''e8b083e794a8e696b9e7bcbae5b091e8a792e889b2efbc9a''"

definition msg_lease_acquire_failed :: string where
  "msg_lease_acquire_failed = utf8 ''e88eb7e58f96e59ca8e98094e7a79fe7baa6e5a4b1e8b4a5efbc9a''"

definition msg_lease_foreign :: string where
  "msg_lease_foreign = utf8 ''e7a79fe7baa6e5b19ee4ba8ee588abe79a84e5ae9ee4be8b''"

definition msg_lease_held :: string where
  "msg_lease_held = utf8 ''e7a79fe7baa6e5b7b2e8a2abe58da0e794a8''"

definition msg_lease_lost :: string where
  "msg_lease_lost = utf8 ''e59ca8e98094e7a79fe7baa6e7bbade7a79fe5a4b1e8b4a5efbc8ce5b7b2e59b9ee6bb9ae5a48de588b6efbc88'' @ ''fail-closed'' @ utf8 ''efbc8ce998b2e6ada2'' @ '' GC '' @ utf8 ''e59b9ee694b6e59ca8e98094e5afb9e8b1a1efbc89''"

definition msg_lease_missing :: string where
  "msg_lease_missing = utf8 ''e7a79fe7baa6e4b88de5ad98e59ca8''"

definition msg_lease_renew_failed :: string where
  "msg_lease_renew_failed = utf8 ''e7bbade7a79fe59ca8e98094e7a79fe7baa6e5a4b1e8b4a5efbc9a''"

definition msg_lease_taken :: string where
  "msg_lease_taken = utf8 ''e8afa5'' @ '' fileSource '' @ utf8 ''e79a84e59ca8e98094e4b88ae4bca0e5b7b2e8a2abe585b6e5ae83e5ae9ee4be8be58da0e794a8''"

definition msg_legal_must_be_object :: string where
  "msg_legal_must_be_object = ''legal '' @ utf8 ''e5bf85e9a1bbe698afe5afb9e8b1a1''"

definition msg_legal_no_url :: string where
  "msg_legal_no_url = utf8 ''e69caae9858de7bdae'' @ '' legal.remote.base_url'' @ utf8 ''efbc88'' @ ''fail-closed'' @ utf8 ''efbc89''"

definition msg_legal_tag_invalid :: string where
  "msg_legal_tag_invalid = ''legal tag '' @ utf8 ''e99d9ee6b395efbc9a''"

definition msg_legal_tags_empty :: string where
  "msg_legal_tags_empty = ''legal tags '' @ utf8 ''e4b88de883bde4b8bae7a9ba''"

definition msg_length_differs :: string where
  "msg_length_differs = '' '' @ utf8 ''e995bfe5baa6e4b88de7aca6efbc9a'' @ ''Content-Length=''"

definition msg_limit_at :: string where
  "msg_limit_at = '' '' @ utf8 ''e5ad97e88a82efbc88e8afbbe588b0e7acac'' @ '' ''"

definition msg_limit_byte :: string where
  "msg_limit_byte = '' '' @ utf8 ''e5ad97e88a82efbc89''"

definition msg_limit_passed :: string where
  "msg_limit_passed = '' '' @ utf8 ''e5b7b2e8b685e99990efbc8ce68b92e7bb9de7bba7e7bbade8afbbe58f96''"

definition msg_limit_positive :: string where
  "msg_limit_positive = ''limit '' @ utf8 ''e5bf85e9a1bb'' @ '' > 0''"

definition msg_list_limit :: string where
  "msg_list_limit = ''list '' @ utf8 ''e79a84'' @ '' limit '' @ utf8 ''e5bf85e9a1bb'' @ '' > 0''"

definition msg_location_missing :: string where
  "msg_location_missing = utf8 ''e4bd8de7bdaee8aeb0e5bd95e4b88de5ad98e59ca8efbc9a''"

definition msg_location_missing_by_source :: string where
  "msg_location_missing_by_source = utf8 ''e4bd8de7bdaee8aeb0e5bd95e4b88de5ad98e59ca8efbc88e68c89'' @ '' file_source'' @ utf8 ''efbc89efbc9a''"

definition msg_location_missing_partition :: string where
  "msg_location_missing_partition = utf8 ''e4bd8de7bdaee8aeb0e5bd95e4b88de5ad98e59ca8efbc9a'' @ ''partition=''"

definition msg_location_no_ref :: string where
  "msg_location_no_ref = utf8 ''e4bd8de7bdaee8aeb0e5bd95e7bcbae5b091e789a9e79086e5bc95e794a8efbc88'' @ ''extra.container / extra.object_key'' @ utf8 ''efbc89''"

definition msg_mark_ready_source :: string where
  "msg_mark_ready_source = ''MarkReady '' @ utf8 ''e4b88de5be97e694b9e58699'' @ '' (partition, file_source) '' @ utf8 ''e5b982e7ad89e994ae''"

definition msg_metadata_source_differs :: string where
  "msg_metadata_source_differs = ''metadata '' @ utf8 ''e79a84'' @ '' data.FileSource '' @ utf8 ''e4b88ee4b88ae4bca0e79baee6a087e4b88de4b880e887b4''"

definition msg_missing_id :: string where
  "msg_missing_id = utf8 ''e7bcbae5b091e8b7afe5be84e58f82e695b0'' @ '' id''"

definition msg_missing_marker :: string where
  "msg_missing_marker = ''<'' @ utf8 ''e7bcbae5a4b1'' @ ''>''"

definition msg_missing_token :: string where
  "msg_missing_token = utf8 ''e7bcbae5b091e8b7afe5be84e58f82e695b0'' @ '' token''"

definition msg_mkdir_failed :: string where
  "msg_mkdir_failed = utf8 ''e5889be5bbbae79baee5bd95e5a4b1e8b4a5'' @ '': ''"

definition msg_mount_close :: string where
  "msg_mount_close = utf8 ''efbc89''"

definition msg_mount_comma :: string where
  "msg_mount_comma = utf8 ''e38081''"

definition msg_mount_dev :: string where
  "msg_mount_dev = utf8 ''efbc88'' @ ''st_dev=''"

definition msg_mount_dir :: string where
  "msg_mount_dir = '' '' @ utf8 ''e79baee5bd95'' @ '' ''"

definition msg_mount_empty :: string where
  "msg_mount_empty = '' '' @ utf8 ''e6a0a1e9aa8ce5a4b1e8b4a5efbc9ae6b2a1e69c89'' @ '' partition '' @ utf8 ''e58fafe6a380e69fa5e38082e7a9bae8be93e585a5e4b88be3808ce585a8e983a8e9809ae8bf87e3808de698afe68192e79c9fe591bde9a298efbc8ce4b88de698afe8af81e68daeefbc9be7bb84e59088e6a0b9e5bf85e9a1bbe887b3e5b091e7bb99e587bae4b880e4b8aa'' @ '' partition '' @ utf8 ''e79a84e79baee5bd95e38082e4b88be4b880e6ada5efbc9ae7a1aee8aea4'' @ '' partition '' @ utf8 ''e6b3a8e5868ce8a1a8e99d9ee7a9baefbc88e7bb84e59088e6a0b9e5bd93e5898de794b1'' @ '' partition.file.opendes.* '' @ utf8 ''e69e84e980a0e594afe4b880e79a84'' @ '' partition'' @ utf8 ''efbc89e38082''"

definition msg_mount_failed :: string where
  "msg_mount_failed = '' '' @ utf8 ''e6a0a1e9aa8ce5a4b1e8b4a5efbc9ae983a8e7bdb2e696ade8a880e3808ce6af8fe4b8aa'' @ '' partition '' @ utf8 ''e78bace58da0e69687e4bbb6e7b3bbe7bb9fe3808de4b88de68890e7ab8be38082''"

definition msg_mount_fix :: string where
  "msg_mount_fix = utf8 ''e68a8ae8afa5e79baee5bd95e68c82e588b0e887aae5b7b1e79a84e69687e4bbb6e7b3bbe7bb9fefbc88e78bace7ab8be58db7'' @ '' / '' @ utf8 ''e78bace7ab8b'' @ '' export'' @ utf8 ''efbc89e5908ee9878de590afefbc9be88ba5e983a8e7bdb2e4b88ae7a1aee5ae9ee4b88de68993e7ae97e68c89'' @ '' partition '' @ utf8 ''e58886e79b98efbc8ce5b0b1e68a8a'' @ '' storage.posix.one_filesystem_per_partition '' @ utf8 ''e8aebee59b9e'' @ '' false'' @ utf8 ''efbc88e694bee5bc83e8bf99e69da1e696ade8a880efbc89''"

definition msg_mount_fix_label :: string where
  "msg_mount_fix_label = ''  '' @ utf8 ''e4bfaee6b395efbc9a''"

definition msg_mount_no_dir :: string where
  "msg_mount_no_dir = '' '' @ utf8 ''e79baee5bd95e4b88de5ad98e59ca8e68896e697a0e6b395'' @ '' stat'' @ utf8 ''efbc9a''"

definition msg_mount_no_root :: string where
  "msg_mount_no_root = '' '' @ utf8 ''e6a0a1e9aa8ce5a4b1e8b4a5efbc9a'' @ ''storage.posix.root '' @ utf8 ''e4b88de5ad98e59ca8e68896e697a0e6b395'' @ '' stat'' @ utf8 ''efbc9a''"

definition msg_mount_no_root_end :: string where
  "msg_mount_no_root_end = utf8 ''efbc89e38082e4b88be4b880e6ada5efbc9ae58588e5889be5bbba'' @ ''/'' @ utf8 ''e68c82e8bdbde8afa5e79baee5bd95e5868de590afe58aa8e38082''"

definition msg_mount_of :: string where
  "msg_mount_of = '' '' @ utf8 ''e79a84'' @ '' ''"

definition msg_mount_open :: string where
  "msg_mount_open = utf8 ''efbc88''"

definition msg_mount_partition :: string where
  "msg_mount_partition = '' '' @ utf8 ''e6a0a1e9aa8ce5a4b1e8b4a5efbc9a'' @ ''partition ''"

definition msg_mount_partitions :: string where
  "msg_mount_partitions = '' '' @ utf8 ''e4b8aa'' @ '' partition '' @ utf8 ''e4bdbfe794a8efbc9a''"

definition msg_mount_persistent :: string where
  "msg_mount_persistent = utf8 ''efbc8c'' @ ''persistent=''"

definition msg_mount_read_only :: string where
  "msg_mount_read_only = utf8 ''efbc89e38082e69cace6a380e69fa5'' @ ''**'' @ utf8 ''e58faae8afbb'' @ ''**'' @ utf8 ''efbc8ce4b88de4bc9ae69bbfe8bf90e7bbb4e5889be5bbbae79baee5bd95'' @ '' '' @ utf8 ''e28094e28094'' @ '' '' @ utf8 ''e8afb7e58588e5889be5bbba'' @ ''/'' @ utf8 ''e68c82e8bdbde5ae83e5868de590afe58aa8efbc88'' @ ''POSIX '' @ utf8 ''e9a9b1e58aa8e69cace8baabe4b99fe8a681e6b182e5aeb9e599a8e79baee5bd95e5ad98e59ca8efbc89e38082''"

definition msg_mount_relative :: string where
  "msg_mount_relative = '' '' @ utf8 ''e79a84e79baee5bd95e5bf85e9a1bbe698afe7bb9de5afb9e8b7afe5be84efbc88'' @ ''staging=''"

definition msg_mount_relative_end :: string where
  "msg_mount_relative_end = utf8 ''efbc89e38082e79bb8e5afb9e8b7afe5be84e4bc9ae99a8fe8bf9be7a88be79a84e5b7a5e4bd9ce79baee5bd95e8a7a3e69e90efbc8ce6a380e69fa5e7bb93e69e9ce4b88de58fafe5a48de78eb0e38082''"

definition msg_mount_root_relative :: string where
  "msg_mount_root_relative = '' '' @ utf8 ''e6a0a1e9aa8ce5a4b1e8b4a5efbc9a'' @ ''storage.posix.root '' @ utf8 ''e5bf85e9a1bbe698afe7bb9de5afb9e8b7afe5be84efbc88e5ae9ee99985efbc9a''"

definition msg_mount_root_relative_end :: string where
  "msg_mount_root_relative_end = utf8 ''efbc89e38082e79bb8e5afb9e8b7afe5be84e4bc9ae99a8fe8bf9be7a88be79a84e5b7a5e4bd9ce79baee5bd95e8a7a3e69e90efbc8ce6a380e69fa5e7bb93e69e9ce4b88de58fafe5a48de78eb0e38082e4b88be4b880e6ada5efbc9ae68a8a'' @ '' storage.posix.root '' @ utf8 ''e58699e68890e7bb9de5afb9e8b7afe5be84e38082''"

definition msg_mount_rule_a :: string where
  "msg_mount_rule_a = ''  ---- '' @ utf8 ''e8a784e58899'' @ '' A'' @ utf8 ''efbc9a'' @ ''partition '' @ utf8 ''e79a84e79baee5bd95e5bf85e9a1bbe4b88e'' @ '' root '' @ utf8 ''e58886e79b98'' @ '' ----''"

definition msg_mount_rule_b :: string where
  "msg_mount_rule_b = ''  ---- '' @ utf8 ''e8a784e58899'' @ '' B'' @ utf8 ''efbc9ae4b8a4e4b8aa'' @ '' partition '' @ utf8 ''e4b88de5be97e585b1e794a8e4b880e4b8aae69687e4bbb6e7b3bbe7bb9f'' @ '' ----''"

definition msg_mount_same :: string where
  "msg_mount_same = utf8 ''efbc89e4b88e'' @ '' storage.posix.root '' @ utf8 ''e59ca8'' @ ''**'' @ utf8 ''e5908ce4b880e4b8aae69687e4bbb6e7b3bbe7bb9f'' @ ''**'' @ utf8 ''e4b88ae38082''"

definition msg_mount_stop :: string where
  "msg_mount_stop = utf8 ''e38082''"

definition msg_mount_unnamed :: string where
  "msg_mount_unnamed = '' '' @ utf8 ''e6a0a1e9aa8ce5a4b1e8b4a5efbc9ae5ad98e59ca8'' @ '' partition '' @ utf8 ''e5908de4b8bae7a9bae79a84e69da1e79baeefbc88e697a0e6b395e5ae9ae4bd8de8b4a3e4bbbbe58886e58cbaefbc89e38082''"

definition msg_mount_used_by :: string where
  "msg_mount_used_by = '' '' @ utf8 ''e5908ce697b6e8a2ab'' @ '' ''"

definition msg_mount_why :: string where
  "msg_mount_why = ''syncfs(2) '' @ utf8 ''e698af'' @ ''**'' @ utf8 ''e69687e4bbb6e7b3bbe7bb9fe7baa7'' @ ''**'' @ utf8 ''e6938de4bd9cefbc9ae689b9e68f90e4baa4e4bc9a'' @ '' flush '' @ utf8 ''e695b4e4b8aae69687e4bbb6e7b3bbe7bb9fefbc8ce4b88ee8afa5'' @ '' partition '' @ utf8 ''e585b1e79b98e79a84e4bbbbe4bd95e58699e585a5e983bde4bc9ae4ba92e79bb8e789b5e8bf9eefbc88'' @ ''ADR-009 '' @ utf8 ''c2a7'' @ ''6.3/'' @ utf8 ''c2a7'' @ ''8.3'' @ utf8 ''efbc9b'' @ ''docs/operations.md '' @ utf8 ''c2a7'' @ ''10.3'' @ utf8 ''efbc89''"

definition msg_mount_why_label :: string where
  "msg_mount_why_label = ''  '' @ utf8 ''e4b8bae4bb80e4b988e9878de8a681efbc9a''"

definition msg_multi_gc :: string where
  "msg_multi_gc = ''multi '' @ utf8 ''e697b6e5bf85e9a1bbe4b8ba'' @ '' true'' @ utf8 ''efbc88e590a6e58899'' @ '' GC '' @ utf8 ''e4bc9ae8afafe588a0e59ca8e98094e4b88ae4bca0efbc89''"

definition msg_multi_leader :: string where
  "msg_multi_leader = ''multi '' @ utf8 ''e697b6e5bf85e9a1bbe5bc80e590afefbc88'' @ ''GC '' @ utf8 ''e5bf85e9a1bbe58d95e4be8be8bf90e8a18cefbc89''"

definition msg_multi_leases :: string where
  "msg_multi_leases = ''multi '' @ utf8 ''e697b6e5bf85e9a1bbe5bc80e590afefbc88e590a6e58899'' @ '' GC '' @ utf8 ''e4bc9ae8afafe588a0e59ca8e98094e4b88ae4bca0efbc89''"

definition msg_multi_location :: string where
  "msg_multi_location = ''deployment.mode=multi '' @ utf8 ''e697b6e5bf85e9a1bbe698af'' @ '' postgres''"

definition msg_multi_metadata :: string where
  "msg_multi_metadata = ''deployment.mode=multi '' @ utf8 ''e697b6e5bf85e9a1bbe698af'' @ '' postgres'' @ utf8 ''efbc88e590a6e58899e59084e5ae9ee4be8be78ab6e68081e58f91e695a3efbc89''"

definition msg_multi_mount :: string where
  "msg_multi_mount = ''multi '' @ utf8 ''e697b6e5bf85e9a1bbe4b8ba'' @ '' true''"

definition msg_multi_skew :: string where
  "msg_multi_skew = ''multi '' @ utf8 ''e697b6e5bf85e9a1bb'' @ '' > 0 '' @ utf8 ''e4b894'' @ '' <= 60 '' @ utf8 ''e7a792efbc88e697b6e9929fe5818fe5b7aee8bf87e5a4a7e4bc9ae8aea9e7a79fe7baa6'' @ ''/'' @ utf8 ''e8bf87e69c9fe8afafe588a4efbc89''"

definition msg_must_not_be_empty :: string where
  "msg_must_not_be_empty = '' '' @ utf8 ''e4b88de883bde4b8bae7a9ba''"

definition msg_must_not_exist :: string where
  "msg_must_not_exist = utf8 ''22'' @ '' '' @ utf8 ''e4b88de5ba94e5ad98e59ca8efbc88'' @ ''OSDU '' @ utf8 ''e79a84'' @ '' data '' @ utf8 ''e58685e5ad97e6aeb5e698af'' @ '' PascalCase'' @ utf8 ''efbc9be587bae78eb0e58db3e8afb4e6988ee5a4a7e5b08fe58699e794a8e99499efbc89''"

definition msg_native_null :: string where
  "msg_native_null = ''OpenNativeRead '' @ utf8 ''e8bf94e59b9ee4ba86e7a9bae69da5e6ba90''"

definition msg_no_ancestor :: string where
  "msg_no_ancestor = utf8 ''e8b7afe5be84e6b2a1e69c89e5b7b2e5ad98e59ca8e79a84e7a596e58588e79baee5bd95''"

definition msg_no_claim_open :: string where
  "msg_no_claim_open = utf8 ''e8bf9ce7abaf'' @ '' Storage Service '' @ utf8 ''e58583e695b0e68daee4bb93e582a8e4b88de694afe68c81e58e9fe5ad90e9a286e58f96efbc88'' @ ''capabilities().atomic_claim=false'' @ utf8 ''efbc89efbc9a''"

definition msg_no_claim_tail :: string where
  "msg_no_claim_tail = '' '' @ utf8 ''e99c80e8a681'' @ '' ADR-009 '' @ utf8 ''c2a7'' @ ''4.2 '' @ utf8 ''e79a8422e69da1e4bbb6e68f92e585a522e695b0e68daee5ba93e58e9fe8afade4b88ee4b880e4b8aa'' @ ''**'' @ utf8 ''e4b88de5b19ee4ba8e'' @ '' OSDU '' @ utf8 ''e8aeb0e5bd95'' @ ''**'' @ utf8 ''e79a84'' @ '' state '' @ utf8 ''e58897efbc8ce8bf9ce7abafe4b8a4e88085e983bde6b2a1e69c89e38082e794a8e4be8be5bf85e9a1bbe68c89'' @ '' capabilities() '' @ utf8 ''e8b5b0e697a0e9a286e58f96e8b7afe5be84efbc88e69cace5bda2e68081e4b88be8afa5e696b9e6b395e6b0b8e4b88de8a2abe8b083e794a8efbc89e38082''"

definition msg_no_copy :: string where
  "msg_no_copy = utf8 ''e8afa5e5ad98e582a8e4b88de694afe68c81e69c8de58aa1e7abafe5a48de588b6efbc88'' @ ''server_side_copy=false'' @ utf8 ''efbc89''"

definition msg_no_location_close :: string where
  "msg_no_location_close = '' '' @ utf8 ''e79a84e4bd8de7bdaee8aeb0e5bd95efbc88e8afb7e58588e8b083e794a8'' @ '' GetUploadLocation'' @ utf8 ''efbc89''"

definition msg_no_location_open :: string where
  "msg_no_location_open = utf8 ''e6b2a1e69c89'' @ '' FileSource = ''"

definition msg_no_native_presign :: string where
  "msg_no_native_presign = utf8 ''e58685e5ad98e5ad98e582a8e4b88de68f90e4be9be58e9fe7949fe9a284e7adbee5908d'' @ '' URL'' @ utf8 ''efbc88'' @ ''native_presign=false'' @ utf8 ''efbc89''"

definition msg_no_persistent_store :: string where
  "msg_no_persistent_store = utf8 ''e697a0e6b395e8a7a3e69e90'' @ '' persistent '' @ utf8 ''e5ad98e582a8efbc9a''"

definition msg_no_range_read :: string where
  "msg_no_range_read = utf8 ''e8afa5e5ad98e582a8e4b88de694afe68c81e58cbae997b4e8afbbefbc88'' @ ''range_read=false'' @ utf8 ''efbc89''"

definition msg_not_claiming :: string where
  "msg_not_claiming = ''Record Not Found'' @ utf8 ''efbc88e8afa5e78988e69cace4b88de698af'' @ '' claiming '' @ utf8 ''e78ab6e68081efbc89''"

definition msg_object_missing :: string where
  "msg_object_missing = utf8 ''e5afb9e8b1a1e4b88de5ad98e59ca8efbc9a''"

definition msg_object_missing_at :: string where
  "msg_object_missing_at = utf8 ''e5afb9e8b1a1e4b88de5ad98e59ca8efbc9a''"

definition msg_of :: string where
  "msg_of = utf8 ''e79a84'' @ '' ''"

definition msg_offset_nonnegative :: string where
  "msg_offset_nonnegative = ''offset '' @ utf8 ''e5bf85e9a1bb'' @ '' >= 0''"

definition msg_open_copy_source_failed :: string where
  "msg_open_copy_source_failed = utf8 ''e68993e5bc80e5a48de588b6e6ba90e5a4b1e8b4a5''"

definition msg_open_dir_failed :: string where
  "msg_open_dir_failed = utf8 ''e68993e5bc80e79baee5bd95e5a4b1e8b4a5''"

definition msg_open_file_failed :: string where
  "msg_open_file_failed = utf8 ''e68993e5bc80e69687e4bbb6e5a4b1e8b4a5''"

definition msg_open_object_failed :: string where
  "msg_open_object_failed = utf8 ''e68993e5bc80e5afb9e8b1a1e5a4b1e8b4a5''"

definition msg_opt_above_workers :: string where
  "msg_opt_above_workers = '') '' @ utf8 ''e4b88de5be97e5a4a7e4ba8e'' @ '' worker_threads(''"

definition msg_opt_buffer :: string where
  "msg_opt_buffer = ''server.http.transfer_buffer_bytes '' @ utf8 ''e5bf85e9a1bbe4b8bae6ada3''"

definition msg_opt_connections :: string where
  "msg_opt_connections = ''server.http.max_connections '' @ utf8 ''e4b88de883bde4b8bae8b49f''"

definition msg_opt_format :: string where
  "msg_opt_format = ''http.error_format '' @ utf8 ''e58f96e580bce99d9ee6b395efbc9a''"

definition msg_opt_over_budget :: string where
  "msg_opt_over_budget = '' '' @ utf8 ''e8b685e8bf87'' @ '' transfer_memory_budget_bytes(''"

definition msg_opt_port :: string where
  "msg_opt_port = ''server.http.port '' @ utf8 ''e5bf85e9a1bbe59ca8'' @ '' [0, 65535] '' @ utf8 ''e58685''"

definition msg_opt_queueing :: string where
  "msg_opt_queueing = '')'' @ utf8 ''efbc8ce590a6e58899e8b685e99990e8afb7e6b182e4bc9ae58588e68e92e9989fe8808ce4b88de698afe7ab8be588bb'' @ '' 503''"

definition msg_opt_times :: string where
  "msg_opt_times = '') '' @ utf8 ''c397'' @ '' transfer_buffer_bytes(''"

definition msg_opt_workers :: string where
  "msg_opt_workers = ''server.http.worker_threads '' @ utf8 ''e4b88de883bde4b8bae8b49f''"

definition msg_over_limit :: string where
  "msg_over_limit = '' '' @ utf8 ''e8b685e8bf87e4b88ae99990'' @ '' ''"

definition msg_page_num :: string where
  "msg_page_num = ''PageNum '' @ utf8 ''e5bf85e9a1bb'' @ '' >= 0''"

definition msg_param_empty :: string where
  "msg_param_empty = utf8 ''27'' @ '' '' @ utf8 ''e4b8bae7a9ba''"

definition msg_param_missing :: string where
  "msg_param_missing = utf8 ''e7bcbae5b091e69fa5e8afa2e58f82e695b0'' @ '' '' @ utf8 ''27''"

definition msg_param_not_int :: string where
  "msg_param_not_int = utf8 ''27'' @ '' '' @ utf8 ''e4b88de698afe59088e6b395e695b4e695b0efbc9a27''"

definition msg_param_open :: string where
  "msg_param_open = utf8 ''e69fa5e8afa2e58f82e695b0'' @ '' '' @ utf8 ''27''"

definition msg_paren_colon :: string where
  "msg_paren_colon = utf8 ''efbc89efbc9a''"

definition msg_partition_empty :: string where
  "msg_partition_empty = ''partition '' @ utf8 ''e4b88de883bde4b8bae7a9ba''"

definition msg_partition_unregistered :: string where
  "msg_partition_unregistered = ''partition '' @ utf8 ''e69caae6b3a8e5868cefbc9a''"

definition msg_path_escapes :: string where
  "msg_path_escapes = utf8 ''e8b7afe5be84e98083e980b8e587ba'' @ '' root'' @ utf8 ''efbc88e58fafe883bde698afe7aca6e58fb7e993bee68ea5e68c87e59091e5a496e983a8efbc89''"

definition msg_path_unresolvable :: string where
  "msg_path_unresolvable = utf8 ''e697a0e6b395e8a7a3e69e90e8b7afe5be84e79c9fe5ae9ee8b7afe5be84''"

definition msg_percent_bad :: string where
  "msg_percent_bad = utf8 ''e799bee58886e58fb7e7bc96e7a081e99d9ee6b395efbc9a27'' @ ''%''"

definition msg_percent_short :: string where
  "msg_percent_short = utf8 ''e799bee58886e58fb7e7bc96e7a081e4b88de5ae8ce695b4efbc9a27''"

definition msg_persistent_missing :: string where
  "msg_persistent_missing = ''persistent '' @ utf8 ''e5afb9e8b1a1e7bcbae5a4b1efbc88e4bd8de7bdaee8aeb0e5bd95e5b7b2e8bf81e7a7bbe4bd86e5afb9e8b1a1e4b88de5ad98e59ca8efbc89''"

definition msg_plane_threw :: string where
  "msg_plane_threw = utf8 ''e69caae9a284e69c9fe5bc82e5b8b8efbc9a''"

definition msg_plane_threw_unknown :: string where
  "msg_plane_threw_unknown = utf8 ''e69caae9a284e69c9fe5bc82e5b8b8''"

definition msg_port_bad :: string where
  "msg_port_bad = utf8 ''e7abafe58fa3e99d9ee6b395efbc9a27''"

definition msg_posix_copy_failed :: string where
  "msg_posix_copy_failed = utf8 ''e5a48de588b6e5a4b1e8b4a5''"

definition msg_posix_no_copy :: string where
  "msg_posix_no_copy = utf8 ''e8afa5e5ad98e582a8e4b88de694afe68c81e69c8de58aa1e7abafe5a48de588b6''"

definition msg_posix_no_presign :: string where
  "msg_posix_no_presign = ''POSIX '' @ utf8 ''e5ad98e582a8e4b88de68f90e4be9be58e9fe7949fe9a284e7adbee5908d'' @ '' URL''"

definition msg_posix_no_range :: string where
  "msg_posix_no_range = utf8 ''e8afa5e5ad98e582a8e4b88de694afe68c81e58cbae997b4e8afbb''"

definition msg_pread_failed :: string where
  "msg_pread_failed = ''pread '' @ utf8 ''e5a4b1e8b4a5''"

definition msg_probe_max_age :: string where
  "msg_probe_max_age = utf8 ''e585b1e4baabe68c82e8bdbde68ea2e99288e6b885e79086e5a4b1e8b4a5efbc9a'' @ ''max_age '' @ utf8 ''e5bf85e9a1bbe4b8bae6ada3''"

definition msg_probe_no_id :: string where
  "msg_probe_no_id = utf8 ''e585b1e4baabe68c82e8bdbde68ea2e99288e58699e585a5e5a4b1e8b4a5efbc9ae69cace5ae9ee4be8be79a84'' @ '' instance_id '' @ utf8 ''e4b8bae7a9ba''"

definition msg_probe_not_own :: string where
  "msg_probe_not_own = '' '' @ utf8 ''e79a84e58685e5aeb9e4b88de698afe69cace5ae9ee4be8be58699e585a5e79a84''"

definition msg_probe_read_back :: string where
  "msg_probe_read_back = utf8 ''e585b1e4baabe68c82e8bdbde68ea2e99288e8afbbe59b9ee6a0a1e9aa8ce5a4b1e8b4a5efbc9a''"

definition msg_put_size_mismatch :: string where
  "msg_put_size_mismatch = utf8 ''e58699e585a5e995bfe5baa6e4b88e'' @ '' expected_size '' @ utf8 ''e4b88de7aca6''"

definition msg_put_without_body :: string where
  "msg_put_without_body = ''PUT '' @ utf8 ''e7bcbae5b091e8afb7e6b182e4bd93e6b581''"

definition msg_range_both_empty :: string where
  "msg_range_both_empty = utf8 ''27'' @ ''-'' @ utf8 ''27'' @ '' '' @ utf8 ''e4b8a4e4bea7e983bde4b8bae7a9ba''"

definition msg_range_dash :: string where
  "msg_range_dash = utf8 ''e7bcbae5b091'' @ '' '' @ utf8 ''27'' @ ''-'' @ utf8 ''27efbc9a''"

definition msg_range_empty :: string where
  "msg_range_empty = utf8 ''e7a9bae58cbae997b4''"

definition msg_range_eq :: string where
  "msg_range_eq = utf8 ''e7bcbae5b091'' @ '' '' @ utf8 ''27'' @ ''='' @ utf8 ''27''"

definition msg_range_first :: string where
  "msg_range_first = utf8 ''e58cbae997b4e8b5b7e782b9e99d9ee6b395efbc9a''"

definition msg_range_last :: string where
  "msg_range_last = utf8 ''e58cbae997b4e7bb88e782b9e99d9ee6b395efbc9a''"

definition msg_range_no_set :: string where
  "msg_range_no_set = utf8 ''e7a9bae79a84e58cbae997b4e99b86e59088''"

definition msg_range_none :: string where
  "msg_range_none = utf8 ''e6b2a1e69c89e58fafe8a7a3e69e90e79a84e58cbae997b4''"

definition msg_range_order :: string where
  "msg_range_order = utf8 ''e7bb88e782b9e5b08fe4ba8ee8b5b7e782b9efbc9a''"

definition msg_range_start :: string where
  "msg_range_start = utf8 ''e58cbae997b4e8b5b7e782b9e8b68ae7958c''"

definition msg_range_suffix :: string where
  "msg_range_suffix = utf8 ''e5908ee7bc80e995bfe5baa6e99d9ee6b395efbc9a''"

definition msg_range_suffix_unknown :: string where
  "msg_range_suffix_unknown = utf8 ''e680bbe995bfe69caae79fa5e697b6e697a0e6b395e8a7a3e69e90e5908ee7bc80e58cbae997b4''"

definition msg_range_too_many :: string where
  "msg_range_too_many = utf8 ''e58cbae997b4e695b0e9878fe8b685e8bf87e4b88ae99990'' @ '' ''"

definition msg_range_unit :: string where
  "msg_range_unit = utf8 ''e69caae79fa5e58d95e4bd8d'' @ '' ''"

definition msg_range_unsatisfiable :: string where
  "msg_range_unsatisfiable = utf8 ''e585a8e983a8e58cbae997b4e4b88de58fafe6bba1e8b6b3efbc88'' @ ''total=''"

definition msg_rcreate_source :: string where
  "msg_rcreate_source = utf8 ''e8bf9ce7abafe58583e695b0e68daee4bb93e582a8'' @ '' Create '' @ utf8 ''e99c80e8a681e99d9ee7a9ba'' @ '' FileSource'' @ utf8 ''efbc88e5b982e7ad89e994aeefbc89efbc9ae697a0e6b395e6b4bee7949fe8aeb0e5bd95'' @ '' id''"

definition msg_rdelete_what :: string where
  "msg_rdelete_what = ''POST /records/{id}:delete'' @ utf8 ''efbc88e8a681e6b182'' @ '' 204'' @ utf8 ''efbc89''"

definition msg_record_id_empty :: string where
  "msg_record_id_empty = ''record.id '' @ utf8 ''e4b88de883bde4b8bae7a9ba''"

definition msg_record_must_be_object :: string where
  "msg_record_must_be_object = utf8 ''e58583e695b0e68daee8aeb0e5bd95e5bf85e9a1bbe698af'' @ '' JSON '' @ utf8 ''e5afb9e8b1a1''"

definition msg_record_tenant_mismatch :: string where
  "msg_record_tenant_mismatch = ''record.id '' @ utf8 ''e79a84e7a79fe688b7e5898de7bc80e4b88e'' @ '' partition '' @ utf8 ''e58f82e695b0e4b88de4b880e887b4''"

definition msg_record_write_failed :: string where
  "msg_record_write_failed = utf8 ''e58699e585a5e58583e695b0e68daee8aeb0e5bd95e5a4b1e8b4a5efbc9a''"

definition msg_ref_container_empty :: string where
  "msg_ref_container_empty = ''ObjectRef.container '' @ utf8 ''e4b88de883bde4b8bae7a9ba''"

definition msg_ref_key_empty :: string where
  "msg_ref_key_empty = ''ObjectRef.key '' @ utf8 ''e4b88de883bde4b8bae7a9ba''"

definition msg_register_needs_metadata :: string where
  "msg_register_needs_metadata = ''register_metadata=true '' @ utf8 ''e697b6e5bf85e9a1bbe68f90e4be9b'' @ '' metadata''"

definition msg_registry_ids :: string where
  "msg_registry_ids = ''datasetRegistryIds '' @ utf8 ''e5bf85e9a1bbe698afe5ad97e7aca6e4b8b2e695b0e7bb84''"

definition msg_remote_help :: string where
  "msg_remote_help = utf8 ''e8bf9ce7abaf'' @ '' Storage Service '' @ utf8 ''e58583e695b0e68daee4bb93e582a8e79a84e587bae7ab99e8afb7e6b182e695b0efbc88'' @ ''op=put|get|delete|probe'' @ utf8 ''efbc9b'' @ ''outcome=ok|error'' @ utf8 ''efbc89''"

definition msg_remote_no_url :: string where
  "msg_remote_no_url = utf8 ''e69caae9858de7bdae'' @ '' metadata.remote.base_url'' @ utf8 ''efbc88'' @ ''fail-closed'' @ utf8 ''efbc89''"

definition msg_remote_write_failed :: string where
  "msg_remote_write_failed = utf8 ''e8bf9ce7abafe58583e695b0e68daee8aeb0e5bd95e58699e585a5e5a4b1e8b4a5efbc9a''"

definition msg_remove_failed :: string where
  "msg_remove_failed = utf8 ''e588a0e999a4e69687e4bbb6e5a4b1e8b4a5''"

definition msg_remove_object_failed :: string where
  "msg_remove_object_failed = utf8 ''e588a0e999a4e5afb9e8b1a1e5a4b1e8b4a5''"

definition msg_remove_tmp_failed :: string where
  "msg_remove_tmp_failed = utf8 ''e588a0e999a4e4b8b4e697b6e69687e4bbb6e5a4b1e8b4a5efbc9a''"

definition msg_rename_failed :: string where
  "msg_rename_failed = ''rename '' @ utf8 ''e5a4b1e8b4a5''"

definition msg_renew_interval :: string where
  "msg_renew_interval = utf8 ''e5bf85e9a1bbe5b08fe4ba8e'' @ '' leases.ttl_seconds'' @ utf8 ''efbc88e590a6e58899e7a79fe7baa6e4bc9ae59ca8e7bbade7a79fe5898de8bf87e69c9fefbc89''"

definition msg_renew_thread_failed :: string where
  "msg_renew_thread_failed = utf8 ''e7bbade7a79fe7babfe7a88be5889be5bbbae5a4b1e8b4a5efbc9a''"

definition msg_renew_unavailable :: string where
  "msg_renew_unavailable = utf8 ''e59ca8e98094e7a79fe7baa6e7bbade7a79fe4b88de58fafe794a8efbc8ce68b92e7bb9de5a48de588b6efbc88'' @ ''fail-closed'' @ utf8 ''efbc89''"

definition msg_repeating_seek :: string where
  "msg_repeating_seek = ''RepeatingSource '' @ utf8 ''e8b68ae7958c'' @ '' seek''"

definition msg_revoke_notice :: string where
  "msg_revoke_notice = ''revokeURL '' @ utf8 ''e59ca8e5bd93e5898de99b86e4b8ade5ad98e582a8e9a9b1e58aa8e4b88be697a0e5a794e6b4bee5af86e992a5e58fafe5908ae99480efbc9be5b7b2e8aeb0e5bd95e5aea1e8aea1e4ba8be4bbb6''"

definition msg_rf_401 :: string where
  "msg_rf_401 = utf8 ''e8bf9ce7abaf'' @ '' Storage Service '' @ utf8 ''e68b92e7bb9de8aea4e8af81efbc88'' @ ''HTTP 401'' @ utf8 ''efbc8c'' @ ''op=''"

definition msg_rf_401_tail :: string where
  "msg_rf_401_tail = utf8 ''efbc89e4b88e'' @ '' token_provider=static'' @ utf8 ''efbc9be69cace98082e9858de599a8e58faae694afe68c81e99d99e68081'' @ '' Bearer token'' @ utf8 ''efbc88e8a781e8bf90e7bbb4e69687e6a1a3'' @ '' '' @ utf8 ''c2a7'' @ ''1.2.7'' @ utf8 ''efbc89e38082''"

definition msg_rf_403 :: string where
  "msg_rf_403 = utf8 ''e8bf9ce7abaf'' @ '' Storage Service '' @ utf8 ''e68b92e7bb9de68e88e69d83efbc88'' @ ''HTTP 403'' @ utf8 ''efbc8c'' @ ''op=''"

definition msg_rf_403_tail :: string where
  "msg_rf_403_tail = utf8 ''efbc89efbc9ae8afa5'' @ '' token '' @ utf8 ''e6b2a1e69c89'' @ '' Storage '' @ utf8 ''e8aeb0e5bd95e58699e585a5e69d83e99990e38082''"

definition msg_rf_404 :: string where
  "msg_rf_404 = utf8 ''e8bf9ce7abaf'' @ '' Storage Service '' @ utf8 ''e689bee4b88de588b0e79baee6a087e8aeb0e5bd95efbc88'' @ ''HTTP 404'' @ utf8 ''efbc8c'' @ ''op=''"

definition msg_rf_check :: string where
  "msg_rf_check = utf8 ''efbc8c'' @ ''fail-closed '' @ utf8 ''e28692'' @ '' 401'' @ utf8 ''efbc89efbc9ae8afb7e6a380e69fa5'' @ '' ''"

definition msg_rf_comma :: string where
  "msg_rf_comma = utf8 ''efbc8c''"

definition msg_rf_empty :: string where
  "msg_rf_empty = utf8 ''e4b8bae7a9ba''"

definition msg_rf_log :: string where
  "msg_rf_log = utf8 ''e8bf9ce7abafe58583e695b0e68daee4bb93e582a8e8afb7e6b182e5a4b1e8b4a5efbc9a''"

definition msg_rf_ms :: string where
  "msg_rf_ms = ''ms'' @ utf8 ''efbc89efbc9a''"

definition msg_rf_now :: string where
  "msg_rf_now = utf8 ''efbc88e5bd93e5898d''"

definition msg_rf_op :: string where
  "msg_rf_op = utf8 ''efbc8c'' @ ''op=''"

definition msg_rf_set :: string where
  "msg_rf_set = utf8 ''e5b7b2e9858de7bdae''"

definition msg_rf_status :: string where
  "msg_rf_status = utf8 ''e8bf9ce7abaf'' @ '' Storage Service '' @ utf8 ''e8bf94e59b9ee99d9ee68890e58a9fe78ab6e68081efbc88'' @ ''HTTP ''"

definition msg_rf_status_tail :: string where
  "msg_rf_status_tail = utf8 ''efbc9b'' @ ''fail-closed '' @ utf8 ''e28692'' @ '' 503'' @ utf8 ''efbc8ce7bb9de4b88de68a8ae4be9de8b596e69585e99a9ce5bd93e68890e68890e58a9fefbc89e38082''"

definition msg_rf_stop :: string where
  "msg_rf_stop = utf8 ''efbc89e38082''"

definition msg_rf_timeout :: string where
  "msg_rf_timeout = utf8 ''efbc8c'' @ ''timeout=''"

definition msg_rf_unreachable :: string where
  "msg_rf_unreachable = utf8 ''e8bf9ce7abaf'' @ '' Storage Service '' @ utf8 ''e4b88de58fafe8bebee68896e8b685e697b6efbc88''"

definition msg_rlatest_what :: string where
  "msg_rlatest_what = ''GET /records/{derived_id}'' @ utf8 ''efbc88e68c89'' @ '' FileSource '' @ utf8 ''e58f96efbc89''"

definition msg_rlist :: string where
  "msg_rlist = utf8 ''e8bf9ce7abaf'' @ '' Storage Service '' @ utf8 ''e58583e695b0e68daee4bb93e582a8e4b88de5ae9ee78eb0'' @ '' List'' @ utf8 ''efbc9a'' @ ''ADR-004 '' @ utf8 ''e79a84e4b889e696b9e6b395e88d89e59bbee4b88e'' @ '' docs/01-osdu-research.md '' @ utf8 ''e983bde6b2a1e69c8922e68c89e69da1e4bbb6e58897e4b8bee8aeb0e5bd9522e79a84e7abafe782b9e4be9de68daeefbc8ce69cace98082e9858de599a8e4b88de58f91e6988ee4b880e4b8aae69caae69687e6a1a3e58c96e79a84'' @ '' query '' @ utf8 ''e7abafe782b9e38082e8afbbe8b7afe5be84e794a8'' @ '' GetById / GetLatestByFileSource'' @ utf8 ''e38082''"

definition msg_root_empty :: string where
  "msg_root_empty = ''root '' @ utf8 ''e4b8bae7a9ba''"

definition msg_root_unresolvable :: string where
  "msg_root_unresolvable = utf8 ''e697a0e6b395e8a7a3e69e90'' @ '' root '' @ utf8 ''e79c9fe5ae9ee8b7afe5be84''"

definition msg_route_unregistered :: string where
  "msg_route_unregistered = utf8 ''e8b7afe794b1e69caae799bbe8aeb0e8a792e889b2e8a681e6b182efbc9a''"

definition msg_rp_closed :: string where
  "msg_rp_closed = utf8 ''efbc88'' @ ''fail-closed '' @ utf8 ''e28692'' @ '' 503'' @ utf8 ''efbc89''"

definition msg_rp_colon :: string where
  "msg_rp_colon = utf8 ''efbc89efbc9a''"

definition msg_rp_json :: string where
  "msg_rp_json = utf8 ''e8bf9ce7abaf'' @ '' Storage Service '' @ utf8 ''e79a84e5938de5ba94e4b88de698afe59088e6b395'' @ '' JSON '' @ utf8 ''e5afb9e8b1a1efbc88'' @ ''op=''"

definition msg_rp_record :: string where
  "msg_rp_record = utf8 ''e8bf9ce7abaf'' @ '' Storage Service '' @ utf8 ''e8bf94e59b9ee79a84e8aeb0e5bd95'' @ '' JSON '' @ utf8 ''e7bcbae5bf85e99c80e5ad97e6aeb5e68896e7bb93e69e84e99d9ee6b395efbc88'' @ ''op=''"

definition msg_rp_shape :: string where
  "msg_rp_shape = utf8 ''e8bf9ce7abaf'' @ '' Storage Service '' @ utf8 ''e79a84e5938de5ba94e697a2e4b88de698afe8aeb0e5bd95'' @ '' JSON '' @ utf8 ''e4b99fe4b88de698af'' @ '' upsert '' @ utf8 ''e4bfa1e5b081efbc88e7bcba'' @ '' kind/data '' @ utf8 ''e4b88e'' @ '' versions'' @ utf8 ''efbc8c'' @ ''op=''"

definition msg_rp_tail :: string where
  "msg_rp_tail = utf8 ''efbc9b'' @ ''fail-closed '' @ utf8 ''e28692'' @ '' 503'' @ utf8 ''efbc89''"

definition msg_rp_version :: string where
  "msg_rp_version = utf8 ''e8bf9ce7abaf'' @ '' Storage Service '' @ utf8 ''e79a84e4bfa1e5b081e9878c'' @ '' versions[0] '' @ utf8 ''e4b88de698afe695b4e695b0'' @ ''/'' @ utf8 ''e695b0e5ad97e4b8b2efbc88'' @ ''op=''"

definition msg_rprobe_what :: string where
  "msg_rprobe_what = ''GET /records/{probe_id}'' @ utf8 ''efbc88e5b0b1e7bbaae68ea2e99288efbc9b'' @ ''404 = '' @ utf8 ''e69c8de58aa1e6b4bbe79d80efbc89''"

definition msg_rput_log :: string where
  "msg_rput_log = utf8 ''e8bf9ce7abafe58583e695b0e68daee4bb93e582a8e5938de5ba94e697a0e6b395e8a7a3e69e90efbc9a''"

definition msg_rupdate_id :: string where
  "msg_rupdate_id = utf8 ''e8bf9ce7abafe58583e695b0e68daee4bb93e582a8'' @ '' Update '' @ utf8 ''e99c80e8a681e99d9ee7a9bae8aeb0e5bd95'' @ '' id''"

definition msg_rupdate_what :: string where
  "msg_rupdate_what = ''PUT /records'' @ utf8 ''efbc88e69bb4e696b0efbc89''"

definition msg_schema_no_url :: string where
  "msg_schema_no_url = utf8 ''e69caae9858de7bdae'' @ '' schema.remote.base_url'' @ utf8 ''efbc88'' @ ''fail-closed'' @ utf8 ''efbc89''"

definition msg_seconds_over_tolerance :: string where
  "msg_seconds_over_tolerance = '' '' @ utf8 ''e7a792efbc8ce8b685e8bf87e5aeb9e5bf8de88c83e59bb4'' @ '' ''"

definition msg_seconds_refusing :: string where
  "msg_seconds_refusing = '' '' @ utf8 ''e7a792'' @ '' '' @ utf8 ''e28094e28094'' @ '' '' @ utf8 ''e68b92e7bb9de69c8de58aa1efbc88e794a8e69cace59cb0e9929fe5819ae7a79fe7baa6'' @ ''/'' @ utf8 ''e8bf87e69c9fe588a4e5ae9ae4bc9ae8afafe588a0e59ca8e98094e695b0e68daeefbc8c'' @ ''ADR-009'' @ utf8 ''efbc89''"

definition msg_seek_range :: string where
  "msg_seek_range = ''Seek '' @ utf8 ''e8b68ae7958c''"

definition msg_short_stream :: string where
  "msg_short_stream = utf8 ''e6b581e68f90e5898de7bb93e69d9fefbc9ae69c9fe69c9b'' @ '' ''"

definition msg_short_stream_got :: string where
  "msg_short_stream_got = '' '' @ utf8 ''e5ad97e88a82efbc8ce5ae9ee99985'' @ '' ''"

definition msg_sig_access_key :: string where
  "msg_sig_access_key = ''SigV4'' @ utf8 ''efbc9ae9a284e7adbee5908de99c80e8a681'' @ '' access_key''"

definition msg_sig_date :: string where
  "msg_sig_date = ''SigV4'' @ utf8 ''efbc9a'' @ ''amz_date '' @ utf8 ''e5bf85e9a1bbe5bda2e5a682'' @ '' 20130524T000000Z'' @ utf8 ''efbc88'' @ ''16 '' @ utf8 ''e5ad97e7aca6efbc89''"

definition msg_sig_endpoint :: string where
  "msg_sig_endpoint = ''SigV4'' @ utf8 ''efbc9a'' @ ''endpoint '' @ utf8 ''e69caae9858de7bdaeefbc8ce697a0e6b395e68bbc'' @ '' URL''"

definition msg_sig_expires :: string where
  "msg_sig_expires = ''SigV4'' @ utf8 ''efbc9a'' @ ''X-Amz-Expires '' @ utf8 ''e5bf85e9a1bbe59ca8'' @ '' 1..604800 '' @ utf8 ''e7a792e4b98be997b4efbc88'' @ ''S3 '' @ utf8 ''e4b88ae99990'' @ '' 7 '' @ utf8 ''e5a4a9efbc89''"

definition msg_sig_host :: string where
  "msg_sig_host = ''SigV4'' @ utf8 ''efbc9a'' @ ''host '' @ utf8 ''e4b88de883bde4b8bae7a9ba''"

definition msg_sig_method :: string where
  "msg_sig_method = ''SigV4'' @ utf8 ''efbc9a'' @ ''method '' @ utf8 ''e4b88de883bde4b8bae7a9ba''"

definition msg_sig_no_date :: string where
  "msg_sig_no_date = ''SigV4'' @ utf8 ''efbc9a'' @ ''SignedHeaders '' @ utf8 ''e5bf85e9a1bbe58c85e590ab'' @ '' x-amz-date''"

definition msg_sig_no_host :: string where
  "msg_sig_no_host = ''SigV4'' @ utf8 ''efbc9a'' @ ''SignedHeaders '' @ utf8 ''e5bf85e9a1bbe58c85e590ab'' @ '' host''"

definition msg_sink_closed :: string where
  "msg_sink_closed = utf8 ''e59091e5b7b2e585b3e997ade79a84'' @ '' StringSink '' @ utf8 ''e58699e585a5''"

definition msg_slash_config :: string where
  "msg_slash_config = '' / '' @ utf8 ''e9858de7bdae'' @ '' ''"

definition msg_source_key_empty :: string where
  "msg_source_key_empty = ''file_source '' @ utf8 ''e4b88de883bde4b8bae7a9baefbc88e5ae83e698afe5889be5bbbae5b982e7ad89e994aeefbc89''"

definition msg_source_taken :: string where
  "msg_source_taken = ''file_source '' @ utf8 ''e5b7b2e8a2abe58fa6e4b880e4b8aa'' @ '' file_id '' @ utf8 ''e58da0e794a8efbc9a''"

definition msg_srns :: string where
  "msg_srns = ''srns '' @ utf8 ''e5bf85e9a1bbe698afe5ad97e7aca6e4b8b2e695b0e7bb84''"

definition msg_stream_length :: string where
  "msg_stream_length = utf8 ''e6b581e995bfe5baa6'' @ '' ''"

definition msg_stream_over :: string where
  "msg_stream_over = utf8 ''e6b581e58685e5aeb9e8b685e8bf87e4b88ae99990'' @ '' ''"

definition msg_string_or_number :: string where
  "msg_string_or_number = ''string '' @ utf8 ''e68896'' @ '' number''"

definition msg_string_seek :: string where
  "msg_string_seek = ''StringSource '' @ utf8 ''e8b68ae7958c'' @ '' seek''"

definition msg_syncfs_failed :: string where
  "msg_syncfs_failed = ''syncfs '' @ utf8 ''e5a4b1e8b4a5''"

definition msg_tags_unique :: string where
  "msg_tags_unique = ''legal.legaltags '' @ utf8 ''e58583e7b4a0e5bf85e9a1bbe594afe4b880''"

definition msg_target_container_missing :: string where
  "msg_target_container_missing = utf8 ''e79baee6a087e5aeb9e599a8e4b88de5ad98e59ca8efbc9a''"

definition msg_target_source_bad :: string where
  "msg_target_source_bad = ''target_file_source '' @ utf8 ''e99d9ee6b395efbc9a''"

definition msg_throttled :: string where
  "msg_throttled = utf8 ''e99990e6b581efbc9ae4bba4e7898ce4b88de8b6b3''"

definition msg_time_field_range :: string where
  "msg_time_field_range = utf8 ''e697b6e997b4e5ad97e6aeb5e8b68ae7958c''"

definition msg_time_not_iso :: string where
  "msg_time_not_iso = utf8 ''e697b6e997b4e6a0bce5bc8fe4b88de7aca6e59088'' @ '' ISO-8601''"

definition msg_time_not_iso_shape :: string where
  "msg_time_not_iso_shape = utf8 ''e697b6e997b4e6a0bce5bc8fe4b88de7aca6e59088'' @ '' ISO-8601'' @ utf8 ''efbc88e8a681e6b182'' @ '' yyyy-MM-ddTHH:mm:ss'' @ utf8 ''efbc89''"

definition msg_time_range :: string where
  "msg_time_range = ''TimeFrom/TimeTo '' @ utf8 ''e4b88de698afe59088e6b395e79a84'' @ '' ISO-8601''"

definition msg_time_too_short :: string where
  "msg_time_too_short = utf8 ''e697b6e997b4e5ad97e7aca6e4b8b2e8bf87e79fad''"

definition msg_timestamp_shape :: string where
  "msg_timestamp_shape = utf8 ''e697b6e997b4e688b3e6a0bce5bc8fe5bf85e9a1bbe698af'' @ '' yyyy-MM-dd-HH-mm-ss-SSS'' @ utf8 ''efbc9a''"

definition msg_token_bad_base64 :: string where
  "msg_token_bad_base64 = ''transfer token '' @ utf8 ''e4b88de698afe59088e6b395e79a84'' @ '' base64url''"

definition msg_token_bad_json :: string where
  "msg_token_bad_json = ''transfer token '' @ utf8 ''e8bdbde88db7e4b88de698af'' @ '' JSON '' @ utf8 ''e5afb9e8b1a1''"

definition msg_token_bad_op :: string where
  "msg_token_bad_op = ''transfer token '' @ utf8 ''e79a84'' @ '' op '' @ utf8 ''e99d9ee6b395''"

definition msg_token_bad_signature :: string where
  "msg_token_bad_signature = ''transfer token '' @ utf8 ''e7adbee5908de4b88de58cb9e9858d''"

definition msg_token_bad_zone :: string where
  "msg_token_bad_zone = ''transfer token '' @ utf8 ''e79a84'' @ '' zone '' @ utf8 ''e99d9ee6b395''"

definition msg_token_empty :: string where
  "msg_token_empty = ''transfer token '' @ utf8 ''e4b8bae7a9ba''"

definition msg_token_exp_differs :: string where
  "msg_token_exp_differs = ''transfer token '' @ utf8 ''e79a84'' @ '' exp '' @ utf8 ''e4b88ee8bdbde88db7e4b88de4b880e887b4''"

definition msg_token_exp_not_integer :: string where
  "msg_token_exp_not_integer = ''transfer token '' @ utf8 ''e79a84'' @ '' exp '' @ utf8 ''e4b88de698afe695b4e695b0''"

definition msg_token_expired :: string where
  "msg_token_expired = ''transfer token '' @ utf8 ''e5b7b2e8bf87e69c9f''"

definition msg_token_key_id_differs :: string where
  "msg_token_key_id_differs = ''transfer token '' @ utf8 ''e79a84'' @ '' key_id '' @ utf8 ''e4b88ee5bd93e5898de9858de7bdaee4b88de58cb9e9858defbc88e8bdbde88db7'' @ '' ''"

definition msg_token_no_container :: string where
  "msg_token_no_container = ''transfer token '' @ utf8 ''e7bcbae5b091'' @ '' container''"

definition msg_token_no_exp :: string where
  "msg_token_no_exp = ''transfer token '' @ utf8 ''e7bcbae5b091'' @ '' exp''"

definition msg_token_no_exp_sig :: string where
  "msg_token_no_exp_sig = ''transfer token '' @ utf8 ''e7bcbae5b091'' @ '' exp '' @ utf8 ''e68896'' @ '' sig''"

definition msg_token_no_key_id :: string where
  "msg_token_no_key_id = ''transfer token '' @ utf8 ''e7bcbae5b091'' @ '' key_id'' @ utf8 ''efbc88e5bd93e5898de9858de7bdae'' @ '' key_id=''"

definition msg_token_no_object_key :: string where
  "msg_token_no_object_key = ''transfer token '' @ utf8 ''e7bcbae5b091'' @ '' object_key''"

definition msg_token_no_partition :: string where
  "msg_token_no_partition = ''transfer token '' @ utf8 ''e7bcbae5b091'' @ '' partition''"

definition msg_token_no_secret :: string where
  "msg_token_no_secret = ''transfer token '' @ utf8 ''e5af86e992a5e69caae9858de7bdae''"

definition msg_token_no_target :: string where
  "msg_token_no_target = ''transfer token '' @ utf8 ''e7bcbae5b091'' @ '' container/object_key''"

definition msg_token_no_zone :: string where
  "msg_token_no_zone = ''transfer token '' @ utf8 ''e7bcbae5b091'' @ '' zone''"

definition msg_token_op_mismatch :: string where
  "msg_token_op_mismatch = ''transfer token '' @ utf8 ''e79a84e6938de4bd9ce7b1bbe59e8be4b88de58cb9e9858defbc88e69c9fe69c9b'' @ '' ''"

definition msg_token_partition_mismatch :: string where
  "msg_token_partition_mismatch = ''transfer token '' @ utf8 ''e4b88ee8afb7e6b182e79a84'' @ '' partition '' @ utf8 ''e4b88de4b880e887b4''"

definition msg_transfer_target_missing :: string where
  "msg_transfer_target_missing = utf8 ''e4bca0e8be93e79baee6a087e5afb9e8b1a1e4b88de5ad98e59ca8efbc9a''"

definition msg_tt_container_empty :: string where
  "msg_tt_container_empty = ''TransferToken.container '' @ utf8 ''e4b88de883bde4b8bae7a9ba''"

definition msg_tt_exp :: string where
  "msg_tt_exp = ''TransferToken.expires_at_epoch_seconds '' @ utf8 ''e5bf85e9a1bbe4b8bae6ada3''"

definition msg_tt_key_empty :: string where
  "msg_tt_key_empty = ''TransferToken.object_key '' @ utf8 ''e4b88de883bde4b8bae7a9ba''"

definition msg_tt_op :: string where
  "msg_tt_op = ''TransferToken.op '' @ utf8 ''e58faae883bde698af'' @ '' put / get''"

definition msg_tt_partition_empty :: string where
  "msg_tt_partition_empty = ''TransferToken.partition '' @ utf8 ''e4b88de883bde4b8bae7a9ba''"

definition msg_unexpected :: string where
  "msg_unexpected = utf8 ''e69caae9a284e69c9fe5bc82e5b8b8efbc9a''"

definition msg_unexpected_unknown :: string where
  "msg_unexpected_unknown = utf8 ''e69caae9a284e69c9fe5bc82e5b8b8''"

definition msg_update_source :: string where
  "msg_update_source = ''Update '' @ utf8 ''e4b88de5be97e694b9e58699'' @ '' (partition, file_source) '' @ utf8 ''e5b982e7ad89e994ae''"

definition msg_upload_needs_source :: string where
  "msg_upload_needs_source = ''UploadFile '' @ utf8 ''e8a681e6b182'' @ '' file_source'' @ utf8 ''efbc88e58588e8b083e794a8'' @ '' GetUploadLocation '' @ utf8 ''e58f96e5be97efbc89''"

definition msg_url_host_control :: string where
  "msg_url_host_control = ''host '' @ utf8 ''e590abe7a9bae799bd'' @ ''/'' @ utf8 ''e68ea7e588b6e5ad97e7aca6efbc9a27''"

definition msg_url_no_host :: string where
  "msg_url_no_host = ''URL '' @ utf8 ''e7bcbae5b091'' @ '' host'' @ utf8 ''efbc9a27''"

definition msg_url_no_scheme :: string where
  "msg_url_no_scheme = ''URL '' @ utf8 ''e7bcbae5b091'' @ '' scheme'' @ utf8 ''efbc9a27''"

definition msg_url_scheme :: string where
  "msg_url_scheme = utf8 ''e4b88de694afe68c81e79a84'' @ '' scheme'' @ utf8 ''efbc9a27''"

definition msg_user_id_empty :: string where
  "msg_user_id_empty = ''user_id '' @ utf8 ''e4b88de883bde4b8bae7a9ba''"

definition msg_user_segment_invalid :: string where
  "msg_user_segment_invalid = ''userId '' @ utf8 ''e6aeb5e99d9ee6b395efbc9a''"

definition msg_val_failed :: string where
  "msg_val_failed = '' '' @ utf8 ''e6a0a1e9aa8ce69caae9809ae8bf87''"

definition msg_val_json :: string where
  "msg_val_json = '' '' @ utf8 ''e6a0a1e9aa8ce599a8e79a84e5938de5ba94e4b88de698afe59088e6b395'' @ '' JSON '' @ utf8 ''e5afb9e8b1a1efbc88'' @ ''fail-closed'' @ utf8 ''efbc89''"

definition msg_val_status :: string where
  "msg_val_status = '' '' @ utf8 ''e6a0a1e9aa8ce599a8e8bf94e59b9ee99d9e'' @ '' 200'' @ utf8 ''efbc88''"

definition msg_val_unreachable :: string where
  "msg_val_unreachable = '' '' @ utf8 ''e6a0a1e9aa8ce599a8e4b88de58fafe8bebee68896e8b685e697b6efbc88'' @ ''fail-closed'' @ utf8 ''efbc89efbc9a''"

definition msg_val_valid :: string where
  "msg_val_valid = '' '' @ utf8 ''e6a0a1e9aa8ce599a8e79a84e5938de5ba94e7bcbae5b091e5b883e5b094e5ad97e6aeb5'' @ '' valid'' @ utf8 ''efbc88'' @ ''fail-closed'' @ utf8 ''efbc89''"

definition msg_write_failed :: string where
  "msg_write_failed = utf8 ''e58699e585a5e5a4b1e8b4a5''"

definition msg_write_tmp_failed :: string where
  "msg_write_tmp_failed = utf8 ''e58699e585a5e4b8b4e697b6e69687e4bbb6e5a4b1e8b4a5''"

definition msg_zone_format :: string where
  "msg_zone_format = utf8 ''e697b6e58cbae5818fe7a7bbe6a0bce5bc8fe99499e8afaf''"

definition msg_zone_range :: string where
  "msg_zone_range = utf8 ''e697b6e58cbae5818fe7a7bbe8b68ae7958c''"

definition msg_zone_unknown :: string where
  "msg_zone_unknown = utf8 ''e697a0e6b395e8af86e588abe79a84e697b6e58cbae6a087e8aeb0''"

end
