(* ===== verification/Result_Type.thy ===== *)
theory Result_Type
  imports Messages
begin

text \<open>
  \<^verbatim>\<open>common/result\<close>: the explicit error values every operation of the service returns.
  \<open>Result\<close> is a sum with the error on the left; \<open>FSS_TRY\<close> is the early-return macro of the
  source (bind in the error monad). Operations on state return the new state paired with the
  result: the state changes made before an early return stay, as they do in the code, and
  \<open>FSS_TRY_ST\<close> is the macro for those.
\<close>

section \<open>Error kinds and errors\<close>

datatype ErrorKind =
    kOk
  | kInvalidArgument
  | kFileSourceEmpty
  | kInvalidSourcePath
  | kLocationAlreadyExists
  | kChecksumMismatch
  | kUnauthenticated
  | kPermissionDenied
  | kStorageAccessDenied
  | kNotFound
  | kUnimplemented
  | kInternal
  | kBadGateway
  | kUnavailable

fun ErrorKindName :: "ErrorKind \<Rightarrow> string" where
  "ErrorKindName kOk = ''kOk''"
| "ErrorKindName kInvalidArgument = ''kInvalidArgument''"
| "ErrorKindName kFileSourceEmpty = ''kFileSourceEmpty''"
| "ErrorKindName kInvalidSourcePath = ''kInvalidSourcePath''"
| "ErrorKindName kLocationAlreadyExists = ''kLocationAlreadyExists''"
| "ErrorKindName kChecksumMismatch = ''kChecksumMismatch''"
| "ErrorKindName kUnauthenticated = ''kUnauthenticated''"
| "ErrorKindName kPermissionDenied = ''kPermissionDenied''"
| "ErrorKindName kStorageAccessDenied = ''kStorageAccessDenied''"
| "ErrorKindName kNotFound = ''kNotFound''"
| "ErrorKindName kUnimplemented = ''kUnimplemented''"
| "ErrorKindName kInternal = ''kInternal''"
| "ErrorKindName kBadGateway = ''kBadGateway''"
| "ErrorKindName kUnavailable = ''kUnavailable''"

definition all_error_kinds :: "ErrorKind list" where
  "all_error_kinds = [kOk, kInvalidArgument, kFileSourceEmpty, kInvalidSourcePath,
     kLocationAlreadyExists, kChecksumMismatch, kUnauthenticated, kPermissionDenied,
     kStorageAccessDenied, kNotFound, kUnimplemented, kInternal, kBadGateway, kUnavailable]"

lemma all_error_kinds_complete: "set all_error_kinds = UNIV"
proof -
  have "k \<in> set all_error_kinds" for k
    by (cases k) (simp_all add: all_error_kinds_def)
  then show ?thesis by auto
qed

record Error =
  error_kind :: ErrorKind
  error_message :: string
  error_details :: "(string \<times> string) list"

definition mk_error :: "ErrorKind \<Rightarrow> string \<Rightarrow> Error" where
  "mk_error k m = \<lparr>error_kind = k, error_message = m, error_details = []\<rparr>"

lemma mk_error_sel [simp]:
  "error_kind (mk_error k m) = k" "error_message (mk_error k m) = m"
  "error_details (mk_error k m) = []"
  by (simp_all add: mk_error_def)

lemma mk_error_inject [simp]: "mk_error k m = mk_error k' m' \<longleftrightarrow> k = k' \<and> m = m'"
  by (auto simp: mk_error_def)

definition With :: "string \<Rightarrow> string \<Rightarrow> Error \<Rightarrow> Error" where
  "With key val e = e\<lparr>error_details := error_details e @ [(key, val)]\<rparr>"

definition Find_detail :: "string \<Rightarrow> Error \<Rightarrow> string option" where
  "Find_detail key e = map_of (error_details e) key"

fun join_details :: "string \<Rightarrow> (string \<times> string) list \<Rightarrow> string" where
  "join_details sep [] = []"
| "join_details sep [(k, v)] = k @ ''='' @ v"
| "join_details sep ((k, v) # d # ds) = k @ ''='' @ v @ sep @ join_details sep (d # ds)"

definition ErrorToString :: "Error \<Rightarrow> string" where
  "ErrorToString e =
     ErrorKindName (error_kind e) @ '': '' @ error_message e @
     (if error_details e = [] then []
      else '' ['' @ join_details '', '' (error_details e) @ '']'')"

section \<open>Results\<close>

type_synonym 'a Result = "Error + 'a"

definition Ok :: "'a \<Rightarrow> 'a Result" where
  "Ok x = Inr x"

definition Err :: "ErrorKind \<Rightarrow> string \<Rightarrow> 'a Result" where
  "Err k m = Inl (mk_error k m)"

definition is_ok :: "'a Result \<Rightarrow> bool" where
  "is_ok r \<longleftrightarrow> (case r of Inl _ \<Rightarrow> False | Inr _ \<Rightarrow> True)"

definition value_or :: "'a Result \<Rightarrow> 'a \<Rightarrow> 'a" where
  "value_or r d = (case r of Inl _ \<Rightarrow> d | Inr x \<Rightarrow> x)"

definition FSS_TRY :: "'a Result \<Rightarrow> ('a \<Rightarrow> 'b Result) \<Rightarrow> 'b Result" where
  "FSS_TRY r f = (case r of Inl e \<Rightarrow> Inl e | Inr x \<Rightarrow> f x)"

definition FSS_TRY_ST ::
  "'s \<times> 'a Result \<Rightarrow> ('s \<Rightarrow> 'a \<Rightarrow> 's \<times> 'b Result) \<Rightarrow> 's \<times> 'b Result" where
  "FSS_TRY_ST rs f = (case rs of (s, Inl e) \<Rightarrow> (s, Inl e) | (s, Inr x) \<Rightarrow> f s x)"

text \<open>The kind of the error of a failed result.\<close>

definition err_kind :: "'a Result \<Rightarrow> ErrorKind option" where
  "err_kind r = (case r of Inl e \<Rightarrow> Some (error_kind e) | Inr _ \<Rightarrow> None)"

lemma FSS_TRY_simps [result_simps, simp]:
  "FSS_TRY (Inl e) f = Inl e" "FSS_TRY (Inr x) f = f x" "FSS_TRY (Ok x) f = f x"
  "FSS_TRY (Err k m) f = Err k m"
  by (simp_all add: FSS_TRY_def Ok_def Err_def)

lemma FSS_TRY_ST_simps [result_simps, simp]:
  "FSS_TRY_ST (s, Inl e) g = (s, Inl e)" "FSS_TRY_ST (s, Inr x) g = g s x"
  "FSS_TRY_ST (s, Ok x) g = g s x" "FSS_TRY_ST (s, Err k m) g = (s, Err k m)"
  by (simp_all add: FSS_TRY_ST_def Ok_def Err_def)

lemma is_ok_simps [result_simps, simp]:
  "is_ok (Ok x)" "is_ok (Inr x)" "\<not> is_ok (Err k m)" "\<not> is_ok (Inl e)"
  by (simp_all add: is_ok_def Ok_def Err_def)

lemma Ok_Err_distinct [simp]: "Ok x \<noteq> Err k m" "Err k m \<noteq> Ok x"
  by (simp_all add: Ok_def Err_def)

lemma Ok_inject [simp]: "Ok x = Ok y \<longleftrightarrow> x = y"
  by (simp add: Ok_def)

lemma Err_inject [simp]: "Err k m = Err k' m' \<longleftrightarrow> k = k' \<and> m = m'"
  by (simp add: Err_def)

lemma Ok_Inl [simp]: "Ok x \<noteq> Inl e" "Inl e \<noteq> Ok x" "Ok x = Inr y \<longleftrightarrow> x = y" "Inr y = Ok x \<longleftrightarrow> y = x"
  by (auto simp: Ok_def)

lemma Err_Inr [simp]: "Err k m \<noteq> Inr y" "Inr y \<noteq> Err k m"
  by (simp_all add: Err_def)

lemma err_kind_simps [simp]:
  "err_kind (Ok x) = None" "err_kind (Err k m) = Some k" "err_kind (Inr x) = None"
  "err_kind (Inl e) = Some (error_kind e)"
  by (simp_all add: err_kind_def Ok_def Err_def)

lemma case_Ok_Err [simp]:
  "(case Ok x of Inl e \<Rightarrow> f e | Inr y \<Rightarrow> g y) = g x"
  "(case Err k m of Inl e \<Rightarrow> f e | Inr y \<Rightarrow> g y) = f (mk_error k m)"
  by (simp_all add: Ok_def Err_def)

lemma FSS_TRY_eq_Ok: "FSS_TRY r f = Ok y \<longleftrightarrow> (\<exists>x. r = Ok x \<and> f x = Ok y)"
  by (cases r) (simp_all add: FSS_TRY_def Ok_def)

lemma FSS_TRY_eq_Inr: "FSS_TRY r f = Inr y \<longleftrightarrow> (\<exists>x. r = Inr x \<and> f x = Inr y)"
  by (cases r) (simp_all add: FSS_TRY_def)

lemma FSS_TRY_ST_eq_Ok:
  "FSS_TRY_ST rs f = (t, Ok y) \<longleftrightarrow> (\<exists>s x. rs = (s, Ok x) \<and> f s x = (t, Ok y))"
  by (cases rs; cases "snd rs") (auto simp: FSS_TRY_ST_def Ok_def)

lemma FSS_TRY_ST_E:
  assumes "FSS_TRY_ST rs f = (t, r)"
  obtains (error) e where "rs = (t, Inl e)" "r = Inl e"
    | (go) s x where "rs = (s, Ok x)" "f s x = (t, r)"
  using assms by (cases rs; cases "snd rs") (auto simp: FSS_TRY_ST_def Ok_def)

lemma FSS_TRY_E:
  assumes "FSS_TRY r f = q"
  obtains (error) e where "r = Inl e" "q = Inl e"
    | (go) x where "r = Ok x" "f x = q"
  using assms by (cases r) (auto simp: FSS_TRY_def Ok_def)

lemma FSS_TRY_ST_pure: "FSS_TRY_ST (s, r) f = (case r of Inl e \<Rightarrow> (s, Inl e) | Inr x \<Rightarrow> f s x)"
  by (cases r) simp_all

lemma is_ok_iff: "is_ok r \<longleftrightarrow> (\<exists>x. r = Ok x)"
  by (cases r) (simp_all add: is_ok_def Ok_def)

text \<open>The bind is associative: splitting a sequence of early returns into helper functions does
  not change it.\<close>

lemma FSS_TRY_assoc: "FSS_TRY (FSS_TRY r f) g = FSS_TRY r (\<lambda>x. FSS_TRY (f x) g)"
  by (cases r) (simp_all add: FSS_TRY_def)

lemma FSS_TRY_ST_assoc:
  "FSS_TRY_ST (FSS_TRY_ST rs f) g = FSS_TRY_ST rs (\<lambda>s x. FSS_TRY_ST (f s x) g)"
  by (cases rs; cases "snd rs") (auto simp: FSS_TRY_ST_def)

end
