(* ===== verification/Json.thy ===== *)
theory Json
  imports Result_Type
begin

text \<open>
  \<^verbatim>\<open>common/json\<close>: JSON values and the case-sensitive typed accessors.

  The value type is that of the vendored \<^verbatim>\<open>nlohmann::json\<close> 3.10.5 with its default object type,
  a \<^verbatim>\<open>std::map\<close>: members are kept in ascending key order. Its integer test
  \<^verbatim>\<open>is_number_integer\<close> is true of the signed and of the unsigned integer constructor. A
  floating-point number is its IEEE bit pattern. Text parsing and printing belong to the vendored
  library: where the service calls them they are arguments of the definitions.
\<close>

section \<open>Values\<close>

datatype json =
    JNull
  | JBool bool
  | JInt int
  | JUInt nat
  | JFloat "64 word"
  | JString string
  | JArray "json list"
  | JObject "(string \<times> json) list"

type_synonym members = "(string \<times> json) list"

definition is_object :: "json \<Rightarrow> bool" where
  "is_object v \<longleftrightarrow> (case v of JObject _ \<Rightarrow> True | _ \<Rightarrow> False)"

definition is_array :: "json \<Rightarrow> bool" where
  "is_array v \<longleftrightarrow> (case v of JArray _ \<Rightarrow> True | _ \<Rightarrow> False)"

definition is_string :: "json \<Rightarrow> bool" where
  "is_string v \<longleftrightarrow> (case v of JString _ \<Rightarrow> True | _ \<Rightarrow> False)"

definition is_null :: "json \<Rightarrow> bool" where
  "is_null v \<longleftrightarrow> (case v of JNull \<Rightarrow> True | _ \<Rightarrow> False)"

definition is_boolean :: "json \<Rightarrow> bool" where
  "is_boolean v \<longleftrightarrow> (case v of JBool _ \<Rightarrow> True | _ \<Rightarrow> False)"

definition is_number_integer :: "json \<Rightarrow> bool" where
  "is_number_integer v \<longleftrightarrow> (case v of JInt _ \<Rightarrow> True | JUInt _ \<Rightarrow> True | _ \<Rightarrow> False)"

definition is_number_unsigned :: "json \<Rightarrow> bool" where
  "is_number_unsigned v \<longleftrightarrow> (case v of JUInt _ \<Rightarrow> True | _ \<Rightarrow> False)"

definition is_number_float :: "json \<Rightarrow> bool" where
  "is_number_float v \<longleftrightarrow> (case v of JFloat _ \<Rightarrow> True | _ \<Rightarrow> False)"

text \<open>\<^verbatim>\<open>get<std::int64_t>()\<close> converts an unsigned value by wrap-around.\<close>

definition get_int64 :: "json \<Rightarrow> int" where
  "get_int64 v = (case v of JInt i \<Rightarrow> i | JUInt n \<Rightarrow> wrap_i64 (int n) | _ \<Rightarrow> 0)"

text \<open>\<^verbatim>\<open>find\<close> on a value that is no object finds nothing.\<close>

definition jfind :: "json \<Rightarrow> string \<Rightarrow> json option" where
  "jfind v key = (case v of JObject m \<Rightarrow> map_of m key | _ \<Rightarrow> None)"

definition jempty :: "json \<Rightarrow> bool" where
  "jempty v \<longleftrightarrow> (case v of JNull \<Rightarrow> True | JArray xs \<Rightarrow> xs = [] | JObject m \<Rightarrow> m = [] | _ \<Rightarrow> False)"

definition jobject :: json where
  "jobject = JObject []"

text \<open>\<open>value[key] = x\<close> on an object.\<close>

definition jset :: "string \<Rightarrow> json \<Rightarrow> members \<Rightarrow> members" where
  "jset = map_put"

definition jstrings :: "string list \<Rightarrow> json" where
  "jstrings xs = JArray (map JString xs)"

lemmas json_kind_defs = is_object_def is_array_def is_string_def is_null_def is_boolean_def
  is_number_integer_def is_number_unsigned_def is_number_float_def

lemma jfind_JObject [simp]: "jfind (JObject m) k = map_of m k"
  by (simp add: jfind_def)

lemma is_object_JObject [simp]: "is_object (JObject m)"
  by (simp add: is_object_def)

lemma is_objectE: "is_object v \<Longrightarrow> (\<And>m. v = JObject m \<Longrightarrow> P) \<Longrightarrow> P"
  by (cases v) (auto simp: is_object_def)

section \<open>Typed access\<close>

definition TypeName :: "json \<Rightarrow> string" where
  "TypeName v =
     (if is_null v then ''null''
      else if is_string v then ''string''
      else if is_number_integer v then ''integer''
      else if is_number_unsigned v then ''unsigned''
      else if is_number_float v then ''number''
      else if is_boolean v then ''boolean''
      else if is_object v then ''object''
      else if is_array v then ''array''
      else ''unknown'')"

definition FieldError :: "string \<Rightarrow> string \<Rightarrow> json \<Rightarrow> Error" where
  "FieldError key expected actual =
     With ''actual'' (TypeName actual)
       (With ''expected'' expected
         (With ''field'' key
           (mk_error kInvalidArgument
             (msg_field_open @ key @ msg_field_missing_or_mistyped @ expected @
              msg_comma_actual @ TypeName actual @ msg_close_paren))))"

definition Lookup :: "json \<Rightarrow> string \<Rightarrow> json option" where
  "Lookup obj key = (if \<not> is_object obj then None else jfind obj key)"

definition Has :: "json \<Rightarrow> string \<Rightarrow> bool" where
  "Has obj key \<longleftrightarrow> Lookup obj key \<noteq> None"

definition or_null :: "json option \<Rightarrow> json" where
  "or_null v = (case v of None \<Rightarrow> JNull | Some x \<Rightarrow> x)"

definition GetString :: "json \<Rightarrow> string \<Rightarrow> string Result" where
  "GetString obj key =
     (case Lookup obj key of
        Some (JString s) \<Rightarrow> Ok s
      | v \<Rightarrow> Inl (FieldError key ''string'' (or_null v)))"

definition GetInt :: "json \<Rightarrow> string \<Rightarrow> int Result" where
  "GetInt obj key =
     (case Lookup obj key of
        None \<Rightarrow> Inl (FieldError key ''integer'' JNull)
      | Some v \<Rightarrow> if is_number_integer v then Ok (get_int64 v)
                  else Inl (FieldError key ''integer'' v))"

definition GetBool :: "json \<Rightarrow> string \<Rightarrow> bool Result" where
  "GetBool obj key =
     (case Lookup obj key of
        Some (JBool b) \<Rightarrow> Ok b
      | v \<Rightarrow> Inl (FieldError key ''boolean'' (or_null v)))"

definition GetObject :: "json \<Rightarrow> string \<Rightarrow> json Result" where
  "GetObject obj key =
     (case Lookup obj key of
        None \<Rightarrow> Inl (FieldError key ''object'' JNull)
      | Some v \<Rightarrow> if is_object v then Ok v else Inl (FieldError key ''object'' v))"

definition GetArray :: "json \<Rightarrow> string \<Rightarrow> json Result" where
  "GetArray obj key =
     (case Lookup obj key of
        None \<Rightarrow> Inl (FieldError key ''array'' JNull)
      | Some v \<Rightarrow> if is_array v then Ok v else Inl (FieldError key ''array'' v))"

definition GetOptionalString :: "json \<Rightarrow> string \<Rightarrow> string option Result" where
  "GetOptionalString obj key =
     (case Lookup obj key of
        None \<Rightarrow> Ok None
      | Some (JString s) \<Rightarrow> Ok (Some s)
      | Some v \<Rightarrow> Inl (FieldError key ''string'' v))"

definition GetStringLenient :: "json \<Rightarrow> string \<Rightarrow> string Result" where
  "GetStringLenient obj key =
     (case Lookup obj key of
        None \<Rightarrow> Inl (FieldError key msg_string_or_number JNull)
      | Some v \<Rightarrow>
          (case v of
             JString s \<Rightarrow> Ok s
           | _ \<Rightarrow>
             if is_number_integer v then Ok (to_string (get_int64 v))
             else if is_number_unsigned v
               then Ok (to_string (case v of JUInt n \<Rightarrow> int n | _ \<Rightarrow> 0))
             else Inl (FieldError key msg_string_or_number v)))"

definition RequireAbsent :: "json \<Rightarrow> string \<Rightarrow> unit Result" where
  "RequireAbsent obj key =
     (if Has obj key
      then Inl (With ''field'' key
             (mk_error kInvalidArgument
               (msg_field_open @ key @
                msg_must_not_exist)))
      else Ok ())"

text \<open>\<^verbatim>\<open>ParseObject\<close>: the text parser of the vendored library is the argument \<open>parse\<close>.\<close>

definition ParseObject :: "(string \<Rightarrow> json Result) \<Rightarrow> string \<Rightarrow> json Result" where
  "ParseObject parse txt =
     FSS_TRY (parse txt) (\<lambda>v.
       if \<not> is_object v
       then Inl (With ''actual'' (TypeName v) (With ''expected'' ''object''
              (mk_error kInvalidArgument (msg_json_top_must_be_object @ TypeName v))))
       else Ok v)"

section \<open>Facts\<close>

lemma Lookup_JObject [simp]: "Lookup (JObject m) k = map_of m k"
  by (simp add: Lookup_def)

text \<open>The \<open>unsigned\<close> answers of \<^const>\<open>TypeName\<close> and the unsigned branch of
  \<^const>\<open>GetStringLenient\<close> are never taken: the integer test comes first and holds of both.\<close>

lemma TypeName_never_unsigned: "TypeName v \<noteq> ''unsigned''"
  by (cases v) (simp_all add: TypeName_def json_kind_defs)

lemma GetStringLenient_uint:
  "map_of m k = Some (JUInt n) \<Longrightarrow>
   GetStringLenient (JObject m) k = Ok (to_string (wrap_i64 (int n)))"
  by (simp add: GetStringLenient_def is_number_integer_def get_int64_def)

text \<open>A stored number is read back as its decimal text when it fits in 64 signed bits; an
  unsigned number of 2^63 or more is read as the text of a negative number.\<close>

lemma GetStringLenient_numbers:
  assumes "map_of m k = Some (JUInt n)" and "n < 18446744073709551616"
  shows "GetStringLenient (JObject m) k =
    (if n < 9223372036854775808 then Ok (to_string (int n))
     else Ok (to_string (int n - 18446744073709551616)))"
proof -
  have "wrap_i64 (int n) =
      (if n < 9223372036854775808 then int n else int n - 18446744073709551616)"
    using assms(2) by (subst wrap_i64_unsigned) auto
  then show ?thesis by (simp add: GetStringLenient_uint [OF assms(1)])
qed

lemma GetStringLenient_numbers_witness:
  "GetStringLenient (JObject [(''FileSize'', JUInt 18446744073709551615)]) ''FileSize'' = Ok ''-1''"
proof -
  have "to_string (- 1) = ''-1''"
    by code_simp
  then show ?thesis
    using GetStringLenient_numbers [of "[(''FileSize'', JUInt 18446744073709551615)]" "''FileSize''"
      18446744073709551615] by simp
qed

end
