(* ===== verification/Error_Contract.thy ===== *)
theory Error_Contract
  imports Json
begin

text \<open>
  \<^verbatim>\<open>domain/contract/error_table\<close> and its two projections, \<^verbatim>\<open>adapters/http/http_error_mapper\<close> and
  \<^verbatim>\<open>adapters/grpc/grpc_error_mapper\<close>: one table decides the REST status, its reason phrase and
  the gRPC status of every error kind, and both protocol adapters read it.
\<close>

section \<open>The contract table\<close>

record ErrorContractRow =
  row_kind :: ErrorKind
  rest_status :: int
  rest_reason :: string
  grpc_status :: int
  grpc_name :: string

definition row :: "ErrorKind \<Rightarrow> int \<Rightarrow> string \<Rightarrow> int \<Rightarrow> string \<Rightarrow> ErrorContractRow" where
  "row k s r g n = \<lparr>row_kind = k, rest_status = s, rest_reason = r, grpc_status = g, grpc_name = n\<rparr>"

definition kTable :: "ErrorContractRow list" where
  "kTable =
    [row kOk 500 ''Internal Server Error'' 13 ''INTERNAL'',
     row kInvalidArgument 400 ''Bad Request'' 3 ''INVALID_ARGUMENT'',
     row kFileSourceEmpty 400 ''Bad Request'' 3 ''INVALID_ARGUMENT'',
     row kInvalidSourcePath 400 ''Bad Request'' 3 ''INVALID_ARGUMENT'',
     row kLocationAlreadyExists 400 ''Bad Request'' 6 ''ALREADY_EXISTS'',
     row kChecksumMismatch 400 ''Bad Request'' 3 ''INVALID_ARGUMENT'',
     row kUnauthenticated 401 ''Unauthorized'' 16 ''UNAUTHENTICATED'',
     row kPermissionDenied 403 ''Forbidden'' 7 ''PERMISSION_DENIED'',
     row kStorageAccessDenied 403 ''Forbidden'' 7 ''PERMISSION_DENIED'',
     row kNotFound 404 ''Not Found'' 5 ''NOT_FOUND'',
     row kUnimplemented 501 ''Not Implemented'' 12 ''UNIMPLEMENTED'',
     row kInternal 500 ''Internal Server Error'' 13 ''INTERNAL'',
     row kBadGateway 502 ''Bad Gateway'' 14 ''UNAVAILABLE'',
     row kUnavailable 503 ''Service Unavailable'' 14 ''UNAVAILABLE'']"

definition FindErrorContract :: "ErrorKind \<Rightarrow> ErrorContractRow option" where
  "FindErrorContract k = find (\<lambda>r. row_kind r = k) kTable"

definition ReasonForStatus :: "int \<Rightarrow> string" where
  "ReasonForStatus status =
     (case find (\<lambda>r. rest_status r = status) kTable of
        Some r \<Rightarrow> rest_reason r
      | None \<Rightarrow> ''Unknown'')"

section \<open>The REST projection\<close>

datatype ErrorFormat = kAppError | kLegacy | kApiError

definition ParseErrorFormat :: "string \<Rightarrow> ErrorFormat option" where
  "ParseErrorFormat t =
     (if t = ''apperror'' then Some kAppError
      else if t = ''legacy'' then Some kLegacy
      else if t = ''api_error'' then Some kApiError
      else None)"

fun ErrorFormatName :: "ErrorFormat \<Rightarrow> string" where
  "ErrorFormatName kAppError = ''apperror''"
| "ErrorFormatName kLegacy = ''legacy''"
| "ErrorFormatName kApiError = ''api_error''"

definition HttpStatusFor :: "ErrorKind \<Rightarrow> int" where
  "HttpStatusFor k = (case FindErrorContract k of None \<Rightarrow> 500 | Some r \<Rightarrow> rest_status r)"

definition ReasonFor :: "int \<Rightarrow> string" where
  "ReasonFor status =
     (let from_contract = ReasonForStatus status in
      if from_contract \<noteq> ''Unknown'' then from_contract
      else if status = 409 then ''Conflict''
      else if status = 413 then ''Payload Too Large''
      else if status = 416 then ''Range Not Satisfiable''
      else ''Error'')"

definition ApiErrorStatusFor :: "int \<Rightarrow> string" where
  "ApiErrorStatusFor status =
     (if status = 400 then ''BAD_REQUEST''
      else if status = 401 then ''UNAUTHORIZED''
      else if status = 403 then ''FORBIDDEN''
      else if status = 404 then ''NOT_FOUND''
      else if status = 413 then ''PAYLOAD_TOO_LARGE''
      else if status = 416 then ''RANGE_NOT_SATISFIABLE''
      else if status = 500 then ''INTERNAL_SERVER_ERROR''
      else if status = 501 then ''NOT_IMPLEMENTED''
      else if status = 502 then ''BAD_GATEWAY''
      else if status = 503 then ''SERVICE_UNAVAILABLE''
      else ''ERROR'')"

text \<open>The value the error body prints. \<open>dump\<close> is the printer of the vendored JSON library.\<close>

definition error_body :: "ErrorKind \<Rightarrow> string \<Rightarrow> ErrorFormat \<Rightarrow> json" where
  "error_body k message fmt =
     (let status = HttpStatusFor k; reason = ReasonFor status in
      case fmt of
        kAppError \<Rightarrow>
          JObject (jset ''message'' (JString message)
            (jset ''reason'' (JString reason) (jset ''code'' (JInt status) [])))
      | kLegacy \<Rightarrow>
          let entry = JObject (jset ''message'' (JString message)
                (jset ''reason'' (JString reason) []));
              inner = JObject (jset ''errors'' (JArray [entry])
                (jset ''message'' (JString message) (jset ''code'' (JInt status) [])))
          in JObject (jset ''error'' inner [])
      | kApiError \<Rightarrow>
          JObject (jset ''errors'' (JArray [JString message])
            (jset ''message'' (JString message)
              (jset ''status'' (JString (ApiErrorStatusFor status)) []))))"

definition RenderErrorBody ::
  "(json \<Rightarrow> string) \<Rightarrow> ErrorKind \<Rightarrow> string \<Rightarrow> ErrorFormat \<Rightarrow> string" where
  "RenderErrorBody dump k message fmt = dump (error_body k message fmt)"

record Response =
  resp_status :: int
  resp_headers :: "(string \<times> string) list"
  resp_body :: string

definition ErrorToResponse :: "(json \<Rightarrow> string) \<Rightarrow> Error \<Rightarrow> ErrorFormat \<Rightarrow> Response" where
  "ErrorToResponse dump e fmt =
     \<lparr>resp_status = HttpStatusFor (error_kind e),
      resp_headers = [(''Content-Type'', ''application/json''),
                      (''X-FSS-Error-Kind'', ErrorKindName (error_kind e))],
      resp_body = RenderErrorBody dump (error_kind e) (error_message e) fmt\<rparr>"

section \<open>The gRPC projection\<close>

definition RenderDetails :: "Error \<Rightarrow> string" where
  "RenderDetails e = join_details ''; '' (error_details e)"

definition GrpcStatusFor :: "ErrorKind \<Rightarrow> int" where
  "GrpcStatusFor k = (case FindErrorContract k of None \<Rightarrow> 13 | Some r \<Rightarrow> grpc_status r)"

definition ToGrpcStatus :: "Error \<Rightarrow> int \<times> string" where
  "ToGrpcStatus e = (GrpcStatusFor (error_kind e), error_message e)"

definition AttachErrorMetadata :: "Error \<Rightarrow> (string \<times> string) list" where
  "AttachErrorMetadata e =
     (''fss-error-kind'', ErrorKindName (error_kind e)) #
     (if RenderDetails e = [] then [] else [(''fss-error-details'', RenderDetails e)])"

section \<open>Properties\<close>

lemma row_sel [simp]:
  "row_kind (row k s r g n) = k" "rest_status (row k s r g n) = s"
  "rest_reason (row k s r g n) = r" "grpc_status (row k s r g n) = g"
  "grpc_name (row k s r g n) = n"
  by (simp_all add: row_def)

lemma FindErrorContract_total: "\<exists>r. FindErrorContract k = Some r \<and> row_kind r = k"
  by (cases k) (simp_all add: FindErrorContract_def kTable_def)

lemma kTable_kinds_distinct: "map row_kind kTable = all_error_kinds"
  by (simp add: kTable_def all_error_kinds_def)

text \<open>The status pairs of the table: the gRPC status is a function of the REST status except for
  the 400 row of an existing location, which gRPC reports as ALREADY_EXISTS.\<close>

definition grpc_of_rest :: "int \<Rightarrow> int" where
  "grpc_of_rest s = (if s = 400 then 3 else if s = 401 then 16 else if s = 403 then 7
     else if s = 404 then 5 else if s = 501 then 12 else if s = 500 then 13 else 14)"

lemma grpc_status_of_rest:
  "GrpcStatusFor k = (if k = kLocationAlreadyExists then 6 else grpc_of_rest (HttpStatusFor k))"
  by (cases k) (simp_all add: GrpcStatusFor_def HttpStatusFor_def FindErrorContract_def kTable_def
      grpc_of_rest_def)

text \<open>The error contract is total and consistent: the table lists every error kind exactly
  once, both protocols read the row of the kind, the REST status is a 4xx or 5xx status whose
  reason phrase is the row's own, and the gRPC status is never OK.\<close>

lemma error_contract_total_consistent:
  "\<exists>r. FindErrorContract k = Some r \<and> row_kind r = k \<and>
       length (filter (\<lambda>x. row_kind x = k) kTable) = 1 \<and>
       HttpStatusFor k = rest_status r \<and> GrpcStatusFor k = grpc_status r \<and>
       ReasonFor (HttpStatusFor k) = rest_reason r \<and>
       400 \<le> HttpStatusFor k \<and> HttpStatusFor k < 600 \<and> GrpcStatusFor k \<noteq> 0 \<and>
       ApiErrorStatusFor (HttpStatusFor k) \<noteq> ''ERROR''"
  by (cases k) (simp_all add: FindErrorContract_def kTable_def HttpStatusFor_def GrpcStatusFor_def
      ReasonFor_def ReasonForStatus_def ApiErrorStatusFor_def)

text \<open>Where a rendered body carries the status and the message.\<close>

definition body_code :: "json \<Rightarrow> json option" where
  "body_code b =
     (case jfind b ''code'' of
        Some c \<Rightarrow> Some c
      | None \<Rightarrow> (case jfind b ''error'' of Some i \<Rightarrow> jfind i ''code'' | None \<Rightarrow> jfind b ''status''))"

definition body_message :: "json \<Rightarrow> json option" where
  "body_message b =
     (case jfind b ''message'' of
        Some c \<Rightarrow> Some c
      | None \<Rightarrow> (case jfind b ''error'' of Some i \<Rightarrow> jfind i ''message'' | None \<Rightarrow> None))"

lemma error_body_message: "body_message (error_body k m f) = Some (JString m)"
  by (cases f) (simp_all add: error_body_def body_message_def Let_def jset_def)

text \<open>The three body formats carry the same message, and the same status: its number in the
  first two, its symbolic name in the third.\<close>

lemma error_body_formats_agree:
  "body_message (error_body k m f) = Some (JString m) \<and>
   body_code (error_body k m f) =
     Some (if f = kApiError then JString (ApiErrorStatusFor (HttpStatusFor k))
           else JInt (HttpStatusFor k))"
  by (cases f) (simp_all add: error_body_message, simp_all add: error_body_def body_code_def Let_def jset_def)

lemma ErrorFormat_roundtrip: "ParseErrorFormat (ErrorFormatName f) = Some f"
  by (cases f) (simp_all add: ParseErrorFormat_def)

lemma RenderDetails_empty: "RenderDetails e = [] \<longleftrightarrow> error_details e = []"
proof -
  have "join_details ''; '' ds = [] \<longleftrightarrow> ds = []" for ds
    by (cases ds; cases "hd ds"; cases "tl ds") auto
  then show ?thesis by (simp add: RenderDetails_def)
qed

lemma AttachErrorMetadata_details:
  "map_of (AttachErrorMetadata e) ''fss-error-details'' =
     (if error_details e = [] then None else Some (RenderDetails e))"
  by (simp add: AttachErrorMetadata_def RenderDetails_empty)

end
