(* ===== verification/Expiry_Policy.thy ===== *)
theory Expiry_Policy
  imports Result_Type
begin

text \<open>
  \<^verbatim>\<open>app/services/expiry_policy\<close> and \<^verbatim>\<open>app/services/clock_skew_guard\<close>: the \<open>expiryTime\<close> query
  parameter (\<open>digits\<close> followed by \<open>M\<close>, \<open>H\<close> or \<open>D\<close>), its default and its silent cap, and the
  check of the local clock against the reference clock.

  Seconds are 64-bit signed. The product of the number and the unit is computed without a check:
  the model keeps the wrapped value the compiled code gets (\<^const>\<open>wrap_i64\<close>).
\<close>

section \<open>The policy\<close>

definition kDefaultExpirySeconds :: int where
  "kDefaultExpirySeconds = 3600"

definition kMaxExpirySeconds :: int where
  "kMaxExpirySeconds = 7 * 86400"

definition kExpiryInvalidMessage :: string where
  "kExpiryInvalidMessage =
     ''expiryTime pattern isn'' @ [CHR 0x27] @
     ''t supported. Value should be one of these regex patterns '' @
     ''^[0-9]+M$ , ^[0-9]+H$ , ^[0-9]+D$''"

record ExpiryOptions =
  default_seconds :: int
  max_seconds :: int

definition default_expiry_options :: ExpiryOptions where
  "default_expiry_options = \<lparr>default_seconds = kDefaultExpirySeconds, max_seconds = kMaxExpirySeconds\<rparr>"

fun parse_digits_loop :: "int \<Rightarrow> string \<Rightarrow> int option" where
  "parse_digits_loop v [] = Some v"
| "parse_digits_loop v (c # cs) =
     (if \<not> isdigit c then None
      else let digit = int (digit_val c) in
        if v > tdiv (i64_max - digit) 10 then None
        else parse_digits_loop (v * 10 + digit) cs)"

definition ParseDigits :: "string \<Rightarrow> int option" where
  "ParseDigits t = (if t = [] \<or> length t > 18 then None else parse_digits_loop 0 t)"

definition unit_seconds :: "char \<Rightarrow> int option" where
  "unit_seconds c =
     (if c = CHR ''M'' then Some 60
      else if c = CHR ''H'' then Some 3600
      else if c = CHR ''D'' then Some 86400
      else None)"

definition expiry_invalid :: "int Result" where
  "expiry_invalid = Err kInvalidArgument kExpiryInvalidMessage"

definition ParseSeconds :: "string option \<Rightarrow> int Result" where
  "ParseSeconds raw =
     (case raw of
        None \<Rightarrow> expiry_invalid
      | Some t \<Rightarrow>
          if t = [] then expiry_invalid
          else (case ParseDigits (butlast t) of
                  None \<Rightarrow> expiry_invalid
                | Some v \<Rightarrow>
                    (case unit_seconds (last t) of
                       None \<Rightarrow> expiry_invalid
                     | Some u \<Rightarrow> Ok (wrap_i64 (v * u)))))"

definition CapWith :: "int \<Rightarrow> ExpiryOptions \<Rightarrow> int" where
  "CapWith seconds opts = (if seconds < 0 then 0 else min seconds (max_seconds opts))"

definition Cap :: "int \<Rightarrow> int" where
  "Cap seconds = CapWith seconds default_expiry_options"

definition ExpiryParse :: "string option \<Rightarrow> ExpiryOptions \<Rightarrow> int Result" where
  "ExpiryParse raw opts =
     (case raw of
        None \<Rightarrow> Ok (default_seconds opts)
      | Some t \<Rightarrow>
          if t = [] then Ok (default_seconds opts)
          else (case ParseDigits (butlast t) of
                  None \<Rightarrow> expiry_invalid
                | Some v \<Rightarrow>
                    (case unit_seconds (last t) of
                       None \<Rightarrow> expiry_invalid
                     | Some u \<Rightarrow> Ok (CapWith (wrap_i64 (v * u)) opts))))"

definition ParseExact :: "string option \<Rightarrow> int Result" where
  "ParseExact raw = ParseSeconds raw"

definition ExpiryFormat :: "int \<Rightarrow> string" where
  "ExpiryFormat seconds =
     (let capped = Cap seconds in
      if capped > 0 \<and> tmod capped 86400 = 0 then to_string (tdiv capped 86400) @ ''D''
      else if capped > 0 \<and> tmod capped 3600 = 0 then to_string (tdiv capped 3600) @ ''H''
      else if capped > 0 \<and> tmod capped 60 = 0 then to_string (tdiv capped 60) @ ''M''
      else to_string (tdiv capped 60 + (if tmod capped 60 \<noteq> 0 then 1 else 0)) @ ''M'')"

section \<open>The clock guard\<close>

definition SkewSeconds :: "int \<Rightarrow> int \<Rightarrow> int" where
  "SkewSeconds local_now reference_now = wrap_i64 (local_now - reference_now)"

definition ClockSkewCheck :: "int \<Rightarrow> int \<Rightarrow> int \<Rightarrow> unit Result" where
  "ClockSkewCheck local_now reference_now tolerance =
     (let skew = SkewSeconds local_now reference_now in
      if wrap_i64 \<bar>skew\<bar> > tolerance
      then Err kUnavailable
        (msg_clock_skew_is @ to_string skew @
         msg_seconds_over_tolerance @ to_string tolerance @
         msg_seconds_refusing)
      else Ok ())"

section \<open>The digit parser\<close>

lemma parse_digits_loop_digits:
  assumes "\<And>c. c \<in> set s \<Longrightarrow> isdigit c" "0 \<le> v" "v * 10 ^ length s + 10 ^ length s \<le> i64_max"
  shows "parse_digits_loop v s = Some (v * 10 ^ length s + int (decimal s))"
  using assms
proof (induction s arbitrary: v)
  case Nil
  then show ?case by simp
next
  case (Cons c s)
  let ?d = "int (digit_val c)" and ?p = "(10::int) ^ length s"
  have d: "isdigit c" "?d < 10" "0 \<le> ?d" using Cons.prems(1) digit_val_less by auto
  have p: "1 \<le> ?p" by simp
  have bound: "(v * 10 + ?d) * ?p + ?p \<le> i64_max"
  proof -
    have "(v * 10 + ?d) * ?p + ?p \<le> (v * 10 + 9) * ?p + ?p" using d p by simp
    also have "\<dots> = v * 10 ^ length (c # s) + 10 ^ length (c # s)" by (simp add: algebra_simps)
    finally show ?thesis using Cons.prems(3) by simp
  qed
  have "v * 10 + ?d + 1 \<le> (v * 10 + ?d) * ?p + ?p"
  proof -
    have "(v * 10 + ?d + 1) * 1 \<le> (v * 10 + ?d + 1) * ?p"
      using d p Cons.prems(2) by (intro mult_left_mono) auto
    then show ?thesis by (simp add: distrib_right)
  qed
  then have "v * 10 \<le> i64_max - ?d" using bound by simp
  then have ok: "\<not> v > tdiv (i64_max - ?d) 10" using d by (simp add: i64_max_def)
  have dec: "int (decimal (c # s)) = ?d * ?p + int (decimal s)"
    by (simp add: decimal_Cons)
  have "parse_digits_loop (v * 10 + ?d) s = Some ((v * 10 + ?d) * ?p + int (decimal s))"
    using Cons.prems d bound by (intro Cons.IH) auto
  then show ?case using d ok dec by (simp add: Let_def algebra_simps)
qed

lemma parse_digits_loop_Some_digits: "parse_digits_loop v s = Some n \<Longrightarrow> \<forall>c \<in> set s. isdigit c"
  by (induction v s rule: parse_digits_loop.induct) (auto simp: Let_def split: if_splits)

text \<open>The digit parser accepts exactly the strings of one to eighteen digits, and computes their
  value.\<close>

lemma ParseDigits_iff:
  "ParseDigits t = Some v \<longleftrightarrow>
     t \<noteq> [] \<and> length t \<le> 18 \<and> (\<forall>c \<in> set t. isdigit c) \<and> v = int (decimal t)"
proof -
  have dig: "parse_digits_loop 0 t = Some (int (decimal t))"
    if "length t \<le> 18" "\<forall>c \<in> set t. isdigit c"
  proof -
    have "(10::int) ^ length t \<le> 10 ^ 18" using that(1) by (intro power_increasing) auto
    then show ?thesis
      using that(2) parse_digits_loop_digits [of t 0] by (simp add: i64_max_def)
  qed
  show ?thesis
    unfolding ParseDigits_def
    using dig parse_digits_loop_Some_digits [of 0 t v] by (auto simp: not_less)
qed

lemma ParseDigits_None:
  "ParseDigits t = None \<longleftrightarrow> \<not> (t \<noteq> [] \<and> length t \<le> 18 \<and> (\<forall>c \<in> set t. isdigit c))"
  by (metis ParseDigits_iff not_None_eq)

lemma ParseDigits_bound: "ParseDigits t = Some v \<Longrightarrow> 0 \<le> v \<and> v < 10 ^ 18"
proof -
  assume "ParseDigits t = Some v"
  then have t: "length t \<le> 18" "\<And>c. c \<in> set t \<Longrightarrow> isdigit c" "v = int (decimal t)"
    by (auto simp: ParseDigits_iff)
  have "decimal t < 10 ^ length t" using t(2) by (rule decimal_bound)
  also have "\<dots> \<le> 10 ^ 18" using t(1) by (intro power_increasing) auto
  finally show ?thesis using t(3) by (simp flip: of_nat_less_iff)
qed

section \<open>Properties of the policy\<close>

text \<open>A text is well-formed when it is one to eighteen digits and a unit.\<close>

definition expiry_syntax :: "string \<Rightarrow> bool" where
  "expiry_syntax t \<longleftrightarrow>
     t \<noteq> [] \<and> butlast t \<noteq> [] \<and> length (butlast t) \<le> 18 \<and> (\<forall>c \<in> set (butlast t). isdigit c) \<and>
     last t \<in> {CHR ''M'', CHR ''H'', CHR ''D''}"

definition expiry_value :: "string \<Rightarrow> int" where
  "expiry_value t = int (decimal (butlast t)) * the (unit_seconds (last t))"

lemma ExpiryParse_Some:
  "t \<noteq> [] \<Longrightarrow> ExpiryParse (Some t) opts =
     (if expiry_syntax t then Ok (CapWith (wrap_i64 (expiry_value t)) opts) else expiry_invalid)"
  by (auto simp: ExpiryParse_def expiry_syntax_def expiry_value_def unit_seconds_def ParseDigits_iff
      ParseDigits_None split: option.splits)

lemma CapWith_bounds:
  "0 \<le> max_seconds opts \<Longrightarrow> 0 \<le> CapWith s opts \<and> CapWith s opts \<le> max_seconds opts"
  by (simp add: CapWith_def)

text \<open>\<open>expiryTime\<close>: an absent or empty parameter gives the default; a
  text that is not one to eighteen digits and a unit gives kInvalidArgument with the fixed
  message; a well-formed text gives its number of seconds, silently capped at the maximum. The
  hypothesis on the text excludes numbers whose seconds leave the 64-bit range.\<close>

theorem ExpiryParse_correct:
  assumes "\<And>t. raw = Some t \<Longrightarrow> expiry_value t \<le> i64_max"
  shows "ExpiryParse raw opts =
    (case raw of
       None \<Rightarrow> Ok (default_seconds opts)
     | Some t \<Rightarrow>
         if t = [] then Ok (default_seconds opts)
         else if expiry_syntax t then Ok (min (expiry_value t) (max_seconds opts))
         else Err kInvalidArgument kExpiryInvalidMessage)"
proof (cases raw)
  case None
  then show ?thesis by (simp add: ExpiryParse_def)
next
  case (Some t)
  have "CapWith (wrap_i64 (expiry_value t)) opts = min (expiry_value t) (max_seconds opts)"
    if "expiry_syntax t"
  proof -
    have "0 \<le> expiry_value t"
      using that by (auto simp: expiry_syntax_def expiry_value_def unit_seconds_def)
    then show ?thesis using assms [OF Some] by (simp add: wrap_i64_id in_i64_def CapWith_def)
  qed
  then show ?thesis
    using Some by (auto simp: ExpiryParse_Some expiry_invalid_def ExpiryParse_def [of "Some []"])
qed

theorem ExpiryParse_correct_witness:
  "ExpiryParse (Some ''10D'') default_expiry_options = Ok 604800"
proof -
  have syn: "expiry_syntax ''10D''" by (simp add: expiry_syntax_def isdigit_def)
  have v: "expiry_value ''10D'' = 864000"
    by (simp add: expiry_value_def unit_seconds_def decimal_def digit_val_def)
  show ?thesis
    using ExpiryParse_correct [of "Some ''10D''" default_expiry_options] syn v
    by (simp add: i64_max_def default_expiry_options_def kMaxExpirySeconds_def)
qed

text \<open>Where the number of seconds leaves the 64-bit range, the cap is not
  what comes out: the product wraps before it is compared, so a number of days far above the
  maximum can be answered with no lifetime at all.\<close>

theorem ExpiryParse_overflow:
  "expiry_syntax ''150000000000000D'' \<and> max_seconds default_expiry_options < expiry_value ''150000000000000D'' \<and>
   ExpiryParse (Some ''150000000000000D'') default_expiry_options = Ok 0"
proof -
  have syn: "expiry_syntax ''150000000000000D''" by (simp add: expiry_syntax_def isdigit_def)
  have v: "expiry_value ''150000000000000D'' = 12960000000000000000"
    by (simp add: expiry_value_def unit_seconds_def decimal_def digit_val_def)
  have "wrap_i64 12960000000000000000 < 0" by (simp add: wrap_i64_unsigned)
  then show ?thesis
    using syn v by (simp add: ExpiryParse_Some CapWith_def default_expiry_options_def kMaxExpirySeconds_def)
qed

section \<open>Formatting\<close>

lemma expiry_syntax_format:
  assumes "0 \<le> n" "n < 10 ^ 18" "u \<in> {CHR ''M'', CHR ''H'', CHR ''D''}"
  shows "expiry_syntax (to_string n @ [u])"
    and "expiry_value (to_string n @ [u]) = n * the (unit_seconds u)"
proof -
  have "nat n < 10 ^ 18" using assms(2) by (simp add: nat_less_iff)
  then have "length (nat_to_string (nat n)) \<le> 18" by (rule length_nat_to_string) simp
  then show "expiry_syntax (to_string n @ [u])"
    using assms by (auto simp: expiry_syntax_def to_string_def dest: nat_to_string_digits)
  show "expiry_value (to_string n @ [u]) = n * the (unit_seconds u)"
    using assms by (simp add: expiry_value_def to_string_def)
qed

lemma ExpiryParse_format:
  assumes "0 \<le> n" "n \<le> 604800" "u \<in> {CHR ''M'', CHR ''H'', CHR ''D''}"
  shows "ExpiryParse (Some (to_string n @ [u])) opts =
    Ok (min (n * the (unit_seconds u)) (max_seconds opts))"
proof -
  have v: "expiry_value (to_string n @ [u]) = n * the (unit_seconds u)"
    and s: "expiry_syntax (to_string n @ [u])"
    using expiry_syntax_format [of n u] assms by simp_all
  have "0 \<le> n * the (unit_seconds u) \<and> n * the (unit_seconds u) \<le> i64_max"
    using assms by (auto simp: unit_seconds_def i64_max_def)
  then show ?thesis
    using s by (simp add: ExpiryParse_Some v CapWith_def wrap_i64_id in_i64_def)
qed

lemma Cap_bounds: "0 \<le> Cap s \<and> Cap s \<le> 604800"
  by (simp add: Cap_def CapWith_def default_expiry_options_def kMaxExpirySeconds_def)

lemma ceil_minute_multiple: "(60 * q + 59) div (60::int) = q"
  by simp

lemma ceil_minute_rest: "0 < r \<Longrightarrow> r < 60 \<Longrightarrow> (60 * q + r + 59) div (60::int) = q + 1"
proof -
  assume "0 < r" "r < 60"
  then have "(r - 1) div 60 = 0" by simp
  moreover have "60 * q + r + 59 = (r - 1) + 60 * (q + 1)" by simp
  ultimately show ?thesis by (simp only: div_mult_self2)
qed

lemma ceil_minute_cases:
  fixes c :: int
  shows "c mod 86400 = 0 \<Longrightarrow> c div 86400 * 86400 = 60 * ((c + 59) div 60)"
    and "c mod 3600 = 0 \<Longrightarrow> c div 3600 * 3600 = 60 * ((c + 59) div 60)"
    and "c mod 60 = 0 \<Longrightarrow> c div 60 * 60 = 60 * ((c + 59) div 60)"
    and "c mod 60 \<noteq> 0 \<Longrightarrow> (c div 60 + 1) * 60 = 60 * ((c + 59) div 60)"
proof -
  show "c div 86400 * 86400 = 60 * ((c + 59) div 60)" if "c mod 86400 = 0"
  proof -
    obtain k where "c = 86400 * k" using \<open>c mod 86400 = 0\<close> by (auto elim: dvdE simp: dvd_eq_mod_eq_0 [symmetric])
    then show ?thesis using ceil_minute_multiple [of "1440 * k"] by simp
  qed
  show "c div 3600 * 3600 = 60 * ((c + 59) div 60)" if "c mod 3600 = 0"
  proof -
    obtain k where "c = 3600 * k" using \<open>c mod 3600 = 0\<close> by (auto elim: dvdE simp: dvd_eq_mod_eq_0 [symmetric])
    then show ?thesis using ceil_minute_multiple [of "60 * k"] by simp
  qed
  show "c div 60 * 60 = 60 * ((c + 59) div 60)" if "c mod 60 = 0"
  proof -
    obtain k where "c = 60 * k" using \<open>c mod 60 = 0\<close> by (auto elim: dvdE simp: dvd_eq_mod_eq_0 [symmetric])
    then show ?thesis using ceil_minute_multiple [of k] by simp
  qed
  show "(c div 60 + 1) * 60 = 60 * ((c + 59) div 60)" if "c mod 60 \<noteq> 0"
  proof -
    have "0 < c mod 60" "c mod 60 < 60" using that pos_mod_bound [of 60 c] pos_mod_sign [of 60 c] by linarith+
    then show ?thesis using ceil_minute_rest [of "c mod 60" "c div 60"] by (simp add: mult_div_mod_eq)
  qed
qed

text \<open>Formatting a lifetime and parsing the text again gives the capped
  lifetime rounded up to a whole minute: the printed form never shortens it.\<close>

theorem ExpiryFormat_roundtrip:
  "ExpiryParse (Some (ExpiryFormat s)) default_expiry_options = Ok (60 * ((Cap s + 59) div 60))"
proof -
  let ?c = "Cap s"
  have c: "0 \<le> ?c" "?c \<le> 604800" using Cap_bounds by auto
  have le: "60 * ((?c + 59) div 60) \<le> 604800" using zdiv_mono1 [of "?c + 59" "604859" 60] c by simp
  have m: "max_seconds default_expiry_options = 604800"
    by (simp add: default_expiry_options_def kMaxExpirySeconds_def)
  have b: "?c div 86400 \<le> 604800" "?c div 3600 \<le> 604800" "?c div 60 + 1 \<le> 604800" "?c div 60 \<le> 604800"
    using zdiv_mono1 [OF c(2), of 86400] zdiv_mono1 [OF c(2), of 3600] zdiv_mono1 [OF c(2), of 60]
    by simp_all
  have parse: "ExpiryParse (Some (to_string n @ [u])) default_expiry_options = Ok (60 * ((?c + 59) div 60))"
    if "0 \<le> n" "n \<le> 604800" "unit_seconds u = Some k" "n * k = 60 * ((?c + 59) div 60)" for n u k
  proof -
    have "u \<in> {CHR ''M'', CHR ''H'', CHR ''D''}" using that(3) by (auto simp: unit_seconds_def split: if_splits)
    then show ?thesis
      using ExpiryParse_format [OF that(1,2), of u default_expiry_options] that(3,4) le m by simp
  qed
  have pos: "0 \<le> ?c div 86400" "0 \<le> ?c div 3600" "0 \<le> ?c div 60" "0 \<le> ?c div 60 + 1"
    using c by (simp_all add: pos_imp_zdiv_nonneg_iff)
  consider "?c > 0" "?c mod 86400 = 0" | "?c > 0" "?c mod 86400 \<noteq> 0" "?c mod 3600 = 0"
    | "?c > 0" "?c mod 86400 \<noteq> 0" "?c mod 3600 \<noteq> 0" "?c mod 60 = 0" | "?c > 0" "?c mod 86400 \<noteq> 0" "?c mod 3600 \<noteq> 0" "?c mod 60 \<noteq> 0" | "?c = 0"
    using c by linarith
  then show ?thesis
  proof cases
    case 1
    then have "ExpiryFormat s = to_string (?c div 86400) @ ''D''"
      using c by (simp add: ExpiryFormat_def Let_def)
    then show ?thesis
      using parse [OF pos(1) b(1), of "CHR ''D''" 86400] ceil_minute_cases(1) [of ?c] 1
      by (simp only: unit_seconds_def) simp
  next
    case 2
    then have "ExpiryFormat s = to_string (?c div 3600) @ ''H''"
      using c by (simp add: ExpiryFormat_def Let_def)
    then show ?thesis
      using parse [OF pos(2) b(2), of "CHR ''H''" 3600] ceil_minute_cases(2) [of ?c] 2
      by (simp only: unit_seconds_def) simp
  next
    case 3
    then have "ExpiryFormat s = to_string (?c div 60) @ ''M''"
      using c by (simp add: ExpiryFormat_def Let_def)
    then show ?thesis
      using parse [OF pos(3) b(4), of "CHR ''M''" 60] ceil_minute_cases(3) [of ?c] 3
      by (simp only: unit_seconds_def) simp
  next
    case 4
    then have "ExpiryFormat s = to_string (?c div 60 + 1) @ ''M''"
      using c by (simp add: ExpiryFormat_def Let_def)
    then show ?thesis
      using parse [OF pos(4) b(3), of "CHR ''M''" 60] ceil_minute_cases(4) [of ?c] 4
      by (simp only: unit_seconds_def) simp
  next
    case 5
    then show ?thesis using parse [of 0 "CHR ''M''" 60]
      by (simp add: ExpiryFormat_def Let_def unit_seconds_def)
  qed
qed

section \<open>The clock guard accepts exactly the tolerated skews\<close>

text \<open>For clocks within the 64-bit range whose difference does not
  overflow, the guard succeeds exactly when the two clocks differ by at most the tolerance, and
  fails with kUnavailable otherwise.\<close>

lemma ClockSkewCheck_correct:
  assumes "\<bar>l - r\<bar> \<le> i64_max"
  shows "err_kind (ClockSkewCheck l r tol) = (if \<bar>l - r\<bar> \<le> tol then None else Some kUnavailable)"
proof -
  have "in_i64 (l - r)" "in_i64 \<bar>l - r\<bar>" using assms by (auto simp: in_i64_def i64_max_def)
  then show ?thesis
    by (simp add: ClockSkewCheck_def SkewSeconds_def wrap_i64_id Let_def)
qed

end
