(* ===== verification/Time_Format.thy ===== *)
theory Time_Format
  imports Result_Type
begin

text \<open>
  \<^verbatim>\<open>common/time/time_format\<close>: UTC timestamps in the ISO-8601, OSDU and RFC 1123 forms, and the
  strict parser of the first two.

  The calendar functions of the C library are modelled by counting: \<open>gmtime_r\<close> walks from 1970
  year by year and month by month, \<open>timegm\<close> sums the same lengths, \<open>sscanf\<close>'s \<^verbatim>\<open>%Nd\<close> skips white
  space, takes an optional sign and up to N characters. \<open>strftime\<close>'s \<^verbatim>\<open>%Y\<close> prints the year
  without padding.
\<close>

section \<open>The calendar\<close>

definition leap_year :: "int \<Rightarrow> bool" where
  "leap_year year \<longleftrightarrow> (year mod 4 = 0 \<and> year mod 100 \<noteq> 0) \<or> year mod 400 = 0"

definition DaysInMonth :: "int \<Rightarrow> int \<Rightarrow> int" where
  "DaysInMonth year month =
     (if month < 1 \<or> month > 12 then 0
      else if month = 2 then (if leap_year year then 29 else 28)
      else [31, 28, 31, 30, 31, 30, 31, 31, 30, 31, 30, 31] ! nat (month - 1))"

definition year_len :: "int \<Rightarrow> int" where
  "year_len y = (if leap_year y then 366 else 365)"

definition days_to_year :: "int \<Rightarrow> int" where
  "days_to_year y =
     (if 1970 \<le> y then sum_list (map year_len [1970..y - 1])
      else - sum_list (map year_len [y..1969]))"

definition days_to_month :: "int \<Rightarrow> int \<Rightarrow> int" where
  "days_to_month y m = sum_list (map (DaysInMonth y) [1..m - 1])"

function year_of :: "int \<Rightarrow> int \<Rightarrow> int \<times> int" where
  "year_of y d =
     (if d < 0 then year_of (y - 1) (d + year_len (y - 1))
      else if d \<ge> year_len y then year_of (y + 1) (d - year_len y)
      else (y, d))"
  by pat_completeness auto
termination
  by (relation "measure (\<lambda>(y, d). if d < 0 then nat (- d) + 400 else nat d)")
     (auto simp: year_len_def split: if_splits)

function month_of :: "int \<Rightarrow> int \<Rightarrow> int \<Rightarrow> int \<times> int" where
  "month_of y m d =
     (if m \<ge> 12 \<or> d < DaysInMonth y m then (m, d)
      else month_of y (m + 1) (d - DaysInMonth y m))"
  by pat_completeness auto
termination
  by (relation "measure (\<lambda>(y, m, d). nat (12 - m))") auto

declare year_of.simps [simp del] month_of.simps [simp del]

record tm =
  tm_year :: int
  tm_mon :: int
  tm_mday :: int
  tm_hour :: int
  tm_min :: int
  tm_sec :: int
  tm_wday :: int

text \<open>The broken-down time holds the civil year and month, not the offsets of C's struct. A year
  that does not fit in an \<^verbatim>\<open>int\<close> makes \<open>gmtime_r\<close> fail and leaves the zeroed structure.\<close>

definition gmtime :: "int \<Rightarrow> tm" where
  "gmtime t =
     (let days = t div 86400; secs = t mod 86400;
          (y, yd) = year_of 1970 days; (m, d) = month_of y 1 yd in
      if - 2147483648 \<le> y - 1900 \<and> y - 1900 \<le> 2147483647
      then \<lparr>tm_year = y, tm_mon = m, tm_mday = d + 1, tm_hour = secs div 3600,
            tm_min = secs mod 3600 div 60, tm_sec = secs mod 60, tm_wday = (days + 4) mod 7\<rparr>
      else \<lparr>tm_year = 1900, tm_mon = 1, tm_mday = 0, tm_hour = 0, tm_min = 0, tm_sec = 0,
            tm_wday = 0\<rparr>)"

definition timegm :: "int \<Rightarrow> int \<Rightarrow> int \<Rightarrow> int \<Rightarrow> int \<Rightarrow> int \<Rightarrow> int" where
  "timegm y mo d h mi s =
     (days_to_year y + days_to_month y mo + (d - 1)) * 86400 + h * 3600 + mi * 60 + s"

section \<open>Formatting\<close>

definition pad2 :: "int \<Rightarrow> string" where
  "pad2 n = (if 0 \<le> n \<and> n < 10 then ''0'' @ to_string n else to_string n)"

definition pad3 :: "int \<Rightarrow> string" where
  "pad3 n = (if 0 \<le> n \<and> n < 10 then ''00'' @ to_string n
             else if 0 \<le> n \<and> n < 100 then ''0'' @ to_string n
             else if - 10 < n \<and> n < 0 then ''-0'' @ to_string (- n) else to_string n)"

definition date_time_text :: "tm \<Rightarrow> string" where
  "date_time_text tm =
     to_string (tm_year tm) @ ''-'' @ pad2 (tm_mon tm) @ ''-'' @ pad2 (tm_mday tm) @ ''T'' @
     pad2 (tm_hour tm) @ '':'' @ pad2 (tm_min tm) @ '':'' @ pad2 (tm_sec tm)"

definition ToIso8601Utc :: "int \<Rightarrow> int \<Rightarrow> string" where
  "ToIso8601Utc epoch_seconds millis =
     date_time_text (gmtime epoch_seconds) @ ''.'' @ pad3 (tmod millis 1000) @ ''Z''"

definition ToOsduTimestamp :: "int \<Rightarrow> int \<Rightarrow> string" where
  "ToOsduTimestamp epoch_seconds millis =
     date_time_text (gmtime epoch_seconds) @ ''.'' @ pad3 (tmod millis 1000) @ ''+0000''"

definition ToRfc1123 :: "int \<Rightarrow> string" where
  "ToRfc1123 epoch_seconds =
     (let tm = gmtime epoch_seconds in
      [''Sun'', ''Mon'', ''Tue'', ''Wed'', ''Thu'', ''Fri'', ''Sat''] ! nat (tm_wday tm) @ '', '' @
      pad2 (tm_mday tm) @ '' '' @
      [''Jan'', ''Feb'', ''Mar'', ''Apr'', ''May'', ''Jun'', ''Jul'', ''Aug'', ''Sep'', ''Oct'',
       ''Nov'', ''Dec''] ! nat (tm_mon tm - 1) @ '' '' @
      to_string (tm_year tm) @ '' '' @
      pad2 (tm_hour tm) @ '':'' @ pad2 (tm_min tm) @ '':'' @ pad2 (tm_sec tm) @ '' GMT'')"

section \<open>Parsing\<close>

text \<open>One \<^verbatim>\<open>%Nd\<close> conversion: the value and the rest of the input.\<close>

definition scan_int :: "nat \<Rightarrow> string \<Rightarrow> (int \<times> string) option" where
  "scan_int width s0 =
     (let s = dropWhile isspace s0;
          signed = (case s of [] \<Rightarrow> False | c # _ \<Rightarrow> c = CHR ''-'' \<or> c = CHR ''+'');
          neg = (case s of [] \<Rightarrow> False | c # _ \<Rightarrow> c = CHR ''-'');
          body = (if signed then tl s else s);
          w = (if signed then width - 1 else width);
          ds = takeWhile isdigit (take w body) in
      if ds = [] then None
      else Some ((if neg then - int (decimal ds) else int (decimal ds)), drop (length ds) body))"

definition scan_lit :: "char \<Rightarrow> string \<Rightarrow> string option" where
  "scan_lit c s = (case s of [] \<Rightarrow> None | d # r \<Rightarrow> if d = c then Some r else None)"

text \<open>The format \<^verbatim>\<open>%4d-%2d-%2dT%2d:%2d:%2d%n\<close>: six values and what is left of the input.\<close>

fun scan_fields :: "(nat \<times> char option) list \<Rightarrow> string \<Rightarrow> (int list \<times> string) option" where
  "scan_fields [] s = Some ([], s)"
| "scan_fields ((w, lit) # fs) s =
     (case scan_int w s of
        None \<Rightarrow> None
      | Some (v, r) \<Rightarrow>
          (case (case lit of None \<Rightarrow> Some r | Some c \<Rightarrow> scan_lit c r) of
             None \<Rightarrow> None
           | Some r' \<Rightarrow> map_option (\<lambda>(vs, q). (v # vs, q)) (scan_fields fs r')))"

definition date_time_format :: "(nat \<times> char option) list" where
  "date_time_format =
     [(4, Some CHR ''-''), (2, Some CHR ''-''), (2, Some CHR ''T''), (2, Some CHR '':''),
      (2, Some CHR '':''), (2, None)]"

definition c_str :: "string \<Rightarrow> string" where
  "c_str s = takeWhile (\<lambda>c. (of_char c :: nat) \<noteq> 0) s"

definition skip_fraction :: "string \<Rightarrow> string" where
  "skip_fraction rest =
     (case rest of [] \<Rightarrow> [] | c # r \<Rightarrow> if c = CHR ''.'' then dropWhile isdigit r else rest)"

definition parse_offset :: "string \<Rightarrow> int Result" where
  "parse_offset rest =
     (let bad = Err kInvalidArgument msg_zone_format;
          pair = (if length rest = 5 \<and> rest ! 2 = CHR '':''
                  then map_option fst (scan_fields [(2, Some CHR '':''), (2, None)] (c_str rest))
                  else if length rest \<ge> 4
                  then map_option fst (scan_fields [(2, None), (2, None)] (c_str rest))
                  else None) in
      case pair of
        None \<Rightarrow> bad
      | Some vs \<Rightarrow>
          if vs ! 0 > 23 \<or> vs ! 1 > 59 then Err kInvalidArgument msg_zone_range
          else Ok (vs ! 0 * 60 + vs ! 1))"

definition parse_zone :: "string \<Rightarrow> int Result" where
  "parse_zone rest =
     (case rest of
        [] \<Rightarrow> Ok 0
      | c # r \<Rightarrow>
          if c = CHR ''Z'' then Ok 0
          else if c = CHR ''+'' then parse_offset r
          else if c = CHR ''-'' then FSS_TRY (parse_offset r) (\<lambda>m. Ok (- m))
          else Err kInvalidArgument msg_zone_unknown)"

definition ParseCommon :: "string \<Rightarrow> int Result" where
  "ParseCommon t =
     (if length t < 19 then Err kInvalidArgument msg_time_too_short
      else (case scan_fields date_time_format (c_str t) of
              None \<Rightarrow> Err kInvalidArgument msg_time_not_iso
            | Some (vs, rest) \<Rightarrow>
                let consumed = length (c_str t) - length rest;
                    y = vs ! 0; mo = vs ! 1; d = vs ! 2; h = vs ! 3; mi = vs ! 4; s = vs ! 5 in
                if consumed \<noteq> 19
                then Err kInvalidArgument msg_time_not_iso_shape
                else if mo < 1 \<or> mo > 12 \<or> d < 1 \<or> d > DaysInMonth y mo \<or> h < 0 \<or> h > 23 \<or>
                        mi < 0 \<or> mi > 59 \<or> s < 0 \<or> s > 59
                then Err kInvalidArgument msg_time_field_range
                else FSS_TRY (parse_zone (skip_fraction (drop consumed t))) (\<lambda>offset_minutes.
                  let utc = timegm y mo d h mi s in
                  if utc = - 1 \<and> \<not> (y = 1969 \<and> mo = 12)
                  then Err kInvalidArgument msg_time_field_range
                  else Ok (utc - offset_minutes * 60))))"

definition ParseIso8601 :: "string \<Rightarrow> int Result" where
  "ParseIso8601 t = ParseCommon t"

definition ParseOsduTimestamp :: "string \<Rightarrow> int Result" where
  "ParseOsduTimestamp t = ParseCommon t"

section \<open>Counting days\<close>

lemma days_to_year_succ: "days_to_year (y + 1) = days_to_year y + year_len y"
proof (cases "1970 \<le> y")
  case True
  then have "[1970..y] = [1970..y - 1] @ [y]" using upto_rec2 [of 1970 y] by simp
  with True show ?thesis by (simp add: days_to_year_def)
next
  case False
  then have "[y..1969] = y # [y + 1..1969]" using upto_rec1 [of y 1969] by simp
  with False show ?thesis by (cases "y = 1969") (simp_all add: days_to_year_def)
qed

lemma year_of_correct:
  "year_of y d = (y', d') \<Longrightarrow>
   days_to_year y' + d' = days_to_year y + d \<and> 0 \<le> d' \<and> d' < year_len y'"
proof (induction y d arbitrary: y' d' rule: year_of.induct)
  case (1 y d)
  show ?case
  proof (cases "d < 0")
    case True
    with 1 show ?thesis
      using days_to_year_succ [of "y - 1"] by (auto simp: year_of.simps [of y d])
  next
    case False
    with 1 show ?thesis
      using days_to_year_succ [of y] by (auto simp: year_of.simps [of y d] split: if_splits)
  qed
qed

lemma days_to_month_succ: "1 \<le> m \<Longrightarrow> days_to_month y (m + 1) = days_to_month y m + DaysInMonth y m"
  using upto_rec2 [of 1 m] by (simp add: days_to_month_def)

lemma days_to_month_13: "days_to_month y 13 = year_len y"
proof -
  have "[1..12::int] = [1, 2, 3, 4, 5, 6, 7, 8, 9, 10, 11, 12]" by (simp add: upto.simps)
  then show ?thesis by (simp add: days_to_month_def DaysInMonth_def year_len_def)
qed

lemma month_of_correct:
  assumes "month_of y m d = (m', d')" "1 \<le> m" "m \<le> 12" "0 \<le> d" "days_to_month y m + d < year_len y"
  shows "days_to_month y m' + d' = days_to_month y m + d \<and> 1 \<le> m' \<and> m' \<le> 12 \<and>
    0 \<le> d' \<and> d' < DaysInMonth y m'"
  using assms
proof (induction y m d arbitrary: m' d' rule: month_of.induct)
  case (1 y m d)
  show ?case
  proof (cases "m \<ge> 12 \<or> d < DaysInMonth y m")
    case True
    moreover have "d < DaysInMonth y m" if "m = 12"
      using "1.prems" that days_to_month_succ [of 12 y] days_to_month_13 [of y] by simp
    ultimately show ?thesis using "1.prems" by (auto simp: month_of.simps [of y m d])
  next
    case False
    then have "month_of y (m + 1) (d - DaysInMonth y m) = (m', d')"
      using "1.prems"(1) by (simp add: month_of.simps [of y m d])
    with False "1.prems" show ?thesis
      using "1.IH" [of m' d'] days_to_month_succ [of m y] by auto
  qed
qed

text \<open>What \<^const>\<open>gmtime\<close> returns is a valid civil date that \<^const>\<open>timegm\<close> maps back.\<close>

definition tm_valid :: "tm \<Rightarrow> bool" where
  "tm_valid tm \<longleftrightarrow> 1 \<le> tm_mon tm \<and> tm_mon tm \<le> 12 \<and> 1 \<le> tm_mday tm \<and>
     tm_mday tm \<le> DaysInMonth (tm_year tm) (tm_mon tm) \<and> 0 \<le> tm_hour tm \<and> tm_hour tm \<le> 23 \<and>
     0 \<le> tm_min tm \<and> tm_min tm \<le> 59 \<and> 0 \<le> tm_sec tm \<and> tm_sec tm \<le> 59"

lemma secs_split:
  fixes t :: int
  shows "t div 86400 * 86400 + (t mod 86400 div 3600) * 3600 + (t mod 86400 mod 3600 div 60) * 60 +
    t mod 86400 mod 60 = t"
proof -
  have "t mod 86400 mod 60 = t mod 86400 mod 3600 mod 60" by (simp add: mod_mod_cancel)
  then show ?thesis
    using div_mult_mod_eq [of "t mod 86400 mod 3600" 60] div_mult_mod_eq [of "t mod 86400" 3600]
      div_mult_mod_eq [of t 86400] by linarith
qed

lemma gmtime_inverse:
  assumes "year_of 1970 (t div 86400) = (y, yd)" "- 2147483648 \<le> y - 1900" "y - 1900 \<le> 2147483647"
  shows "tm_valid (gmtime t) \<and> tm_year (gmtime t) = y \<and>
    timegm (tm_year (gmtime t)) (tm_mon (gmtime t)) (tm_mday (gmtime t)) (tm_hour (gmtime t))
      (tm_min (gmtime t)) (tm_sec (gmtime t)) = t"
proof -
  obtain m d where md: "month_of y 1 yd = (m, d)" by fastforce
  have y: "days_to_year y + yd = t div 86400" "0 \<le> yd" "yd < year_len y"
    using year_of_correct [OF assms(1)] by (simp_all add: days_to_year_def)
  have m: "days_to_month y m + d = yd" "1 \<le> m" "m \<le> 12" "0 \<le> d" "d < DaysInMonth y m"
    using month_of_correct [OF md] y by (simp_all add: days_to_month_def)
  have g: "gmtime t = \<lparr>tm_year = y, tm_mon = m, tm_mday = d + 1, tm_hour = t mod 86400 div 3600,
      tm_min = t mod 86400 mod 3600 div 60, tm_sec = t mod 86400 mod 60, tm_wday = (t div 86400 + 4) mod 7\<rparr>"
    using assms md by (simp add: gmtime_def Let_def)
  have h: "0 \<le> t mod 86400 div 3600" "t mod 86400 div 3600 \<le> 23"
    using zdiv_mono1 [of "t mod 86400" 86399 3600] by (simp_all add: pos_imp_zdiv_nonneg_iff)
  have mi: "0 \<le> t mod 86400 mod 3600 div 60" "t mod 86400 mod 3600 div 60 \<le> 59"
    using zdiv_mono1 [of "t mod 86400 mod 3600" 3599 60] by (simp_all add: pos_imp_zdiv_nonneg_iff)
  have s: "0 \<le> t mod 86400 mod 60" "t mod 86400 mod 60 \<le> 59"
    using pos_mod_bound [of 60 "t mod 86400"] by simp_all
  define H M S where "H = t mod 86400 div 3600" and "M = t mod 86400 mod 3600 div 60"
    and "S = t mod 86400 mod 60"
  note HMS = H_def M_def S_def
  have b: "0 \<le> H \<and> H \<le> 23 \<and> 0 \<le> M \<and> M \<le> 59 \<and> 0 \<le> S \<and> S \<le> 59"
    unfolding HMS by (intro conjI h mi s)
  have days: "days_to_year y + days_to_month y m + (d + 1 - 1) = t div 86400"
    using m(1) y(1) by linarith
  have tg: "timegm y m (d + 1) H M S = t"
    unfolding HMS timegm_def days by (rule secs_split)
  have g': "tm_year (gmtime t) = y \<and> tm_mon (gmtime t) = m \<and> tm_mday (gmtime t) = d + 1 \<and>
      tm_hour (gmtime t) = H \<and> tm_min (gmtime t) = M \<and> tm_sec (gmtime t) = S"
    by (simp only: g tm.simps H_def M_def S_def)
  show ?thesis using m tg b by (simp add: g' tm_valid_def)
qed

section \<open>Round trip\<close>

definition digits_of_width :: "nat \<Rightarrow> string \<Rightarrow> int \<Rightarrow> bool" where
  "digits_of_width w ds n \<longleftrightarrow>
     length ds = w \<and> (\<forall>c \<in> set ds. isdigit c) \<and> int (decimal ds) = n"

lemma digit_not_space: "isdigit c \<Longrightarrow> \<not> isspace c"
  by (auto simp: isdigit_def isspace_def)

lemma digit_not_sign: "isdigit c \<Longrightarrow> c \<noteq> CHR ''-'' \<and> c \<noteq> CHR ''+''"
  by (auto simp: isdigit_def)

lemma scan_int_digits:
  assumes "digits_of_width w ds n" "0 < w"
  shows "scan_int w (ds @ r) = Some (n, r)"
proof -
  have ds: "length ds = w" "\<And>c. c \<in> set ds \<Longrightarrow> isdigit c" "int (decimal ds) = n"
    using assms by (auto simp: digits_of_width_def)
  then obtain c cs where c: "ds = c # cs" using assms(2) by (cases ds) auto
  then have "isdigit c" using ds by simp
  then have h: "\<not> isspace c" "c \<noteq> CHR ''-''" "c \<noteq> CHR ''+''"
    using digit_not_space digit_not_sign by auto
  have "takeWhile isdigit (take w (ds @ r)) = ds" using ds by simp
  moreover have "drop (length ds) (ds @ r) = r" by simp
  ultimately show ?thesis using c h ds(3) by (simp add: scan_int_def Let_def)
qed

lemma width_to_string:
  assumes "10 ^ k \<le> n" "n < 10 ^ Suc k"
  shows "digits_of_width (Suc k) (to_string n) n"
proof -
  have pos: "0 \<le> n" using assms(1) by (meson order_trans zero_le_power zero_le_numeral)
  have "10 ^ k \<le> nat n" using assms(1) by (simp add: le_nat_iff pos)
  moreover have "nat n < 10 ^ Suc k" using assms(2) by (simp add: nat_less_iff pos)
  ultimately have "length (nat_to_string (nat n)) = Suc k" by (rule length_nat_to_string_exact)
  then show ?thesis
    using pos nat_to_string_digits by (auto simp: digits_of_width_def to_string_def)
qed

lemma width_one: "0 \<le> n \<Longrightarrow> n < 10 \<Longrightarrow> digits_of_width 1 (to_string n) n"
  using nat_to_string_digits [of _ "nat n"] decimal_nat_to_string [of "nat n"]
  by (auto simp: digits_of_width_def to_string_def nat_to_string.simps [of "nat n"] simp del: decimal_nat_to_string)

lemma digits_of_width_zero:
  "digits_of_width w ds n \<Longrightarrow> digits_of_width (Suc w) (CHR ''0'' # ds) n"
  by (auto simp: digits_of_width_def decimal_Cons digit_val_def isdigit_def)

lemma width_pad2: "0 \<le> n \<Longrightarrow> n < 100 \<Longrightarrow> digits_of_width 2 (pad2 n) n"
  using width_to_string [of 1 n] digits_of_width_zero [OF width_one, of n]
  by (auto simp: pad2_def numeral_2_eq_2)

lemma width_pad3: "0 \<le> n \<Longrightarrow> n < 1000 \<Longrightarrow> digits_of_width 3 (pad3 n) n"
  using width_to_string [of 2 n] digits_of_width_zero [OF width_to_string [of 1 n]]
    digits_of_width_zero [OF digits_of_width_zero [OF width_one, of n]]
  by (auto simp: pad3_def numeral_2_eq_2 numeral_3_eq_3)

lemma dropWhile_digits: "digits_of_width w ds n \<Longrightarrow> \<not> isdigit c \<Longrightarrow> dropWhile isdigit (ds @ c # r) = c # r"
  by (simp add: digits_of_width_def dropWhile_append)

lemma digit_not_nul: "isdigit c \<Longrightarrow> (of_char c :: nat) \<noteq> 0"
  by (auto simp: isdigit_def)

definition no_nul :: "string \<Rightarrow> bool" where
  "no_nul s \<longleftrightarrow> (\<forall>c \<in> set s. (of_char c :: nat) \<noteq> 0)"

lemma c_str_no_nul: "no_nul s \<Longrightarrow> c_str s = s"
  by (simp add: c_str_def no_nul_def)

lemma no_nul_simps [simp]:
  "no_nul (s @ t) \<longleftrightarrow> no_nul s \<and> no_nul t" "no_nul (c # s) \<longleftrightarrow> (of_char c :: nat) \<noteq> 0 \<and> no_nul s" "no_nul []"
  by (auto simp: no_nul_def)

lemma no_nul_digits: "digits_of_width w ds n \<Longrightarrow> no_nul ds"
  by (auto simp: no_nul_def digits_of_width_def digit_not_nul)

definition civil_year :: "int \<Rightarrow> int" where
  "civil_year t = fst (year_of 1970 (t div 86400))"

lemma DaysInMonth_le: "DaysInMonth y m \<le> 31"
proof (cases "m < 1 \<or> m > 12")
  case False
  then have "m \<in> {1, 2, 3, 4, 5, 6, 7, 8, 9, 10, 11, 12}" by simp presburger
  then show ?thesis by (auto simp: DaysInMonth_def)
qed (simp add: DaysInMonth_def)

lemma scan_date_time:
  assumes "tm_valid tm" "1000 \<le> tm_year tm" "tm_year tm \<le> 9999"
  shows "scan_fields date_time_format (date_time_text tm @ r) =
      Some ([tm_year tm, tm_mon tm, tm_mday tm, tm_hour tm, tm_min tm, tm_sec tm], r)"
    and "length (date_time_text tm) = 19" and "no_nul (date_time_text tm)"
proof -
  have y: "digits_of_width 4 (to_string (tm_year tm)) (tm_year tm)"
    using width_to_string [of 3 "tm_year tm"] assms by simp
  have "tm_mday tm < 100" using assms(1) DaysInMonth_le [of "tm_year tm" "tm_mon tm"]
    by (simp add: tm_valid_def)
  then have p: "digits_of_width 2 (pad2 (tm_mon tm)) (tm_mon tm)"
    "digits_of_width 2 (pad2 (tm_mday tm)) (tm_mday tm)"
    "digits_of_width 2 (pad2 (tm_hour tm)) (tm_hour tm)"
    "digits_of_width 2 (pad2 (tm_min tm)) (tm_min tm)"
    "digits_of_width 2 (pad2 (tm_sec tm)) (tm_sec tm)"
    using assms(1) by (simp_all add: tm_valid_def width_pad2)
  note scans = scan_int_digits [OF y] scan_int_digits [OF p(1)] scan_int_digits [OF p(2)]
    scan_int_digits [OF p(3)] scan_int_digits [OF p(4)] scan_int_digits [OF p(5)]
  show "scan_fields date_time_format (date_time_text tm @ r) =
      Some ([tm_year tm, tm_mon tm, tm_mday tm, tm_hour tm, tm_min tm, tm_sec tm], r)"
    by (simp add: date_time_format_def date_time_text_def scans scan_lit_def)
  show "length (date_time_text tm) = 19"
    using y p by (simp add: date_time_text_def digits_of_width_def)
  show "no_nul (date_time_text tm)"
    using y p by (simp add: date_time_text_def no_nul_digits)
qed

lemma ParseCommon_date_time:
  assumes "tm_valid tm" "1000 \<le> tm_year tm" "tm_year tm \<le> 9999" "no_nul r"
    and "timegm (tm_year tm) (tm_mon tm) (tm_mday tm) (tm_hour tm) (tm_min tm) (tm_sec tm) \<noteq> - 1"
  shows "ParseCommon (date_time_text tm @ r) =
    FSS_TRY (parse_zone (skip_fraction r)) (\<lambda>off. Ok
      (timegm (tm_year tm) (tm_mon tm) (tm_mday tm) (tm_hour tm) (tm_min tm) (tm_sec tm) - off * 60))"
proof -
  note scan = scan_date_time [OF assms(1-3)]
  have c: "c_str (date_time_text tm @ r) = date_time_text tm @ r"
    using scan(3) assms(4) by (simp add: c_str_no_nul)
  show ?thesis
    using assms(1,5) by (auto simp: ParseCommon_def c scan Let_def tm_valid_def)
qed

lemma skip_fraction_zone:
  "0 \<le> ms \<Longrightarrow> ms < 1000 \<Longrightarrow> \<not> isdigit c \<Longrightarrow> skip_fraction (CHR ''.'' # pad3 ms @ c # r) = c # r"
  using dropWhile_digits [OF width_pad3] by (simp add: skip_fraction_def)

text \<open>Timestamps survive the round trip: for a non-negative instant whose
  civil year has four digits, parsing the ISO-8601 text or the OSDU text the service prints gives
  the same number of seconds, whatever the milliseconds.\<close>

theorem time_format_roundtrip:
  assumes "0 \<le> e" "0 \<le> ms" "1000 \<le> civil_year e" "civil_year e \<le> 9999"
  shows "ParseIso8601 (ToIso8601Utc e ms) = Ok e \<and> ParseOsduTimestamp (ToOsduTimestamp e ms) = Ok e"
proof -
  obtain y yd where y: "year_of 1970 (e div 86400) = (y, yd)" by fastforce
  then have cy: "civil_year e = y" by (simp add: civil_year_def)
  have b: "- 2147483648 \<le> y - 1900" "y - 1900 \<le> 2147483647" using assms(3,4) cy by simp_all
  have g: "tm_valid (gmtime e)" "tm_year (gmtime e) = y"
    "timegm (tm_year (gmtime e)) (tm_mon (gmtime e)) (tm_mday (gmtime e)) (tm_hour (gmtime e))
      (tm_min (gmtime e)) (tm_sec (gmtime e)) = e"
    using gmtime_inverse [OF y b] by blast+
  let ?m = "tmod ms 1000"
  have m: "0 \<le> ?m" "?m < 1000" using assms(2) by simp_all
  have n: "no_nul (pad3 ?m)" using width_pad3 [OF m] by (rule no_nul_digits)
  have off: "parse_offset ''0000'' = Ok 0" by code_simp
  have "ParseCommon (date_time_text (gmtime e) @ CHR ''.'' # pad3 ?m @ ''Z'') = Ok e"
    by (subst ParseCommon_date_time)
       (use g assms cy n m in \<open>simp_all add: skip_fraction_zone isdigit_def parse_zone_def\<close>)
  moreover have "ParseCommon (date_time_text (gmtime e) @ CHR ''.'' # pad3 ?m @ ''+0000'') = Ok e"
    by (subst ParseCommon_date_time)
       (use g assms cy n m off in \<open>simp_all add: skip_fraction_zone isdigit_def parse_zone_def\<close>)
  ultimately show ?thesis
    by (simp add: ParseIso8601_def ParseOsduTimestamp_def ToIso8601Utc_def ToOsduTimestamp_def)
qed

lemma civil_year_2021: "civil_year 1614784413 = 2021"
  by (simp add: civil_year_def year_of.simps year_len_def leap_year_def)

theorem time_format_roundtrip_witness:
  "ParseIso8601 (ToIso8601Utc 1614784413 120) = Ok 1614784413"
  using time_format_roundtrip [of 1614784413 120] by (simp add: civil_year_2021)

end
