(* ===== verification/Regex.thy ===== *)
theory Regex
  imports Prelude
begin

text \<open>
  The part of \<^verbatim>\<open>std::regex\<close> (ECMAScript grammar, C locale) the source uses, with
  \<^verbatim>\<open>std::regex_match\<close>: the whole text has to match, so the anchors at both ends of the
  source's patterns add nothing. Matching is by derivatives and is proved equal to the language
  of the expression.
\<close>

datatype rx =
    RNone
  | REps
  | RCls "char \<Rightarrow> bool"
  | RSeq rx rx
  | RAlt rx rx
  | RStar rx

fun nullable :: "rx \<Rightarrow> bool" where
  "nullable RNone = False"
| "nullable REps = True"
| "nullable (RCls p) = False"
| "nullable (RSeq r s) = (nullable r \<and> nullable s)"
| "nullable (RAlt r s) = (nullable r \<or> nullable s)"
| "nullable (RStar r) = True"

text \<open>Sequence and alternative that drop what cannot match, so that derivatives stay small.\<close>

definition mk_seq :: "rx \<Rightarrow> rx \<Rightarrow> rx" where
  "mk_seq r s = (case r of RNone \<Rightarrow> RNone | REps \<Rightarrow> s | _ \<Rightarrow> RSeq r s)"

definition mk_alt :: "rx \<Rightarrow> rx \<Rightarrow> rx" where
  "mk_alt r s = (case r of RNone \<Rightarrow> s | _ \<Rightarrow> (case s of RNone \<Rightarrow> r | _ \<Rightarrow> RAlt r s))"

fun deriv :: "char \<Rightarrow> rx \<Rightarrow> rx" where
  "deriv c RNone = RNone"
| "deriv c REps = RNone"
| "deriv c (RCls p) = (if p c then REps else RNone)"
| "deriv c (RSeq r s) =
     (if nullable r then mk_alt (mk_seq (deriv c r) s) (deriv c s) else mk_seq (deriv c r) s)"
| "deriv c (RAlt r s) = mk_alt (deriv c r) (deriv c s)"
| "deriv c (RStar r) = mk_seq (deriv c r) (RStar r)"

definition regex_match :: "rx \<Rightarrow> string \<Rightarrow> bool" where
  "regex_match r s = nullable (fold deriv s r)"

definition rplus :: "rx \<Rightarrow> rx" where
  "rplus r = RSeq r (RStar r)"

definition ropt :: "rx \<Rightarrow> rx" where
  "ropt r = RAlt REps r"

fun rupto :: "nat \<Rightarrow> rx \<Rightarrow> rx" where
  "rupto 0 r = REps"
| "rupto (Suc n) r = RAlt REps (RSeq r (rupto n r))"

fun rlit :: "string \<Rightarrow> rx" where
  "rlit [] = REps"
| "rlit (c # s) = RSeq (RCls (\<lambda>x. x = c)) (rlit s)"

text \<open>\<^verbatim>\<open>\w\<close>, and \<^verbatim>\<open>.\<close> which matches anything but a line terminator.\<close>

definition word_char :: "char \<Rightarrow> bool" where
  "word_char c \<longleftrightarrow> isalnum c \<or> c = CHR ''_''"

definition any_char :: "char \<Rightarrow> bool" where
  "any_char c \<longleftrightarrow> (of_char c :: nat) \<noteq> 10 \<and> (of_char c :: nat) \<noteq> 13"

section \<open>The language of an expression\<close>

inductive in_star :: "(string \<Rightarrow> bool) \<Rightarrow> string \<Rightarrow> bool" for P where
  star_Nil: "in_star P []"
| star_append: "P u \<Longrightarrow> in_star P v \<Longrightarrow> in_star P (u @ v)"

fun lang :: "rx \<Rightarrow> string \<Rightarrow> bool" where
  "lang RNone s = False"
| "lang REps s = (s = [])"
| "lang (RCls p) s = (\<exists>c. s = [c] \<and> p c)"
| "lang (RSeq r q) s = (\<exists>u v. s = u @ v \<and> lang r u \<and> lang q v)"
| "lang (RAlt r q) s = (lang r s \<or> lang q s)"
| "lang (RStar r) s = in_star (lang r) s"

lemma lang_mk_seq [simp]: "lang (mk_seq r s) x \<longleftrightarrow> lang (RSeq r s) x"
  by (cases r) (simp_all add: mk_seq_def)

lemma lang_mk_alt [simp]: "lang (mk_alt r s) x \<longleftrightarrow> lang r x \<or> lang s x"
  by (cases r; cases s) (simp_all add: mk_alt_def)

lemma lang_nullable: "nullable r \<longleftrightarrow> lang r []"
  by (induction r) (auto intro: star_Nil)

lemma in_star_Cons:
  "in_star P (c # s) \<longleftrightarrow> (\<exists>u v. s = u @ v \<and> P (c # u) \<and> in_star P v)"
proof
  assume "in_star P (c # s)"
  then show "\<exists>u v. s = u @ v \<and> P (c # u) \<and> in_star P v"
  proof (induction "c # s" arbitrary: c s rule: in_star.induct)
    case (star_append u v)
    then show ?case by (cases u) auto
  qed
next
  assume "\<exists>u v. s = u @ v \<and> P (c # u) \<and> in_star P v"
  then show "in_star P (c # s)" by (metis append_Cons star_append)
qed

lemma lang_deriv: "lang (deriv c r) s \<longleftrightarrow> lang r (c # s)"
proof (induction r arbitrary: s)
  case (RSeq r q)
  have "lang (RSeq r q) (c # s) \<longleftrightarrow>
      (lang r [] \<and> lang q (c # s)) \<or> (\<exists>u v. s = u @ v \<and> lang r (c # u) \<and> lang q v)"
    by (auto simp: Cons_eq_append_conv)
  with RSeq show ?case by (auto simp: lang_nullable)
next
  case (RStar r)
  then show ?case by (simp add: in_star_Cons)
qed auto

lemma regex_match_lang: "regex_match r s \<longleftrightarrow> lang r s"
  by (induction s arbitrary: r) (simp_all add: regex_match_def lang_nullable lang_deriv)

lemma in_star_all: "in_star (\<lambda>s. \<exists>c. s = [c] \<and> p c) s \<longleftrightarrow> (\<forall>c \<in> set s. p c)"
  by (induction s) (auto simp: in_star_Cons intro: star_Nil)

lemma lang_seq_cls: "lang (RSeq (RCls p) q) s \<longleftrightarrow> (\<exists>c v. s = c # v \<and> p c \<and> lang q v)"
proof
  assume "\<exists>c v. s = c # v \<and> p c \<and> lang q v"
  then obtain c v where "s = [c] @ v" "p c" "lang q v" by auto
  then show "lang (RSeq (RCls p) q) s" unfolding lang.simps by blast
qed auto

lemma lang_star_cls: "lang (RStar (RCls p)) t \<longleftrightarrow> (\<forall>c \<in> set t. p c)"
proof -
  have cls: "lang (RCls p) = (\<lambda>s. \<exists>c. s = [c] \<and> p c)" by (simp add: fun_eq_iff)
  show ?thesis by (simp only: lang.simps(6) cls in_star_all)
qed

lemma lang_rplus_cls: "lang (rplus (RCls p)) s \<longleftrightarrow> s \<noteq> [] \<and> (\<forall>c \<in> set s. p c)"
  by (cases s) (auto simp: rplus_def lang_seq_cls lang_star_cls simp del: lang.simps(4,6))

lemma lang_seq_plus:
  "lang (RSeq (rplus (RCls p)) q) s \<longleftrightarrow>
     (\<exists>u v. s = u @ v \<and> u \<noteq> [] \<and> (\<forall>c \<in> set u. p c) \<and> lang q v)"
  by (simp add: lang_rplus_cls)

lemma lang_rlit [simp]: "lang (rlit w) s \<longleftrightarrow> s = w"
  by (induction w arbitrary: s) (auto simp: Cons_eq_append_conv)

end
