(* ===== verification/Kind_Validator.thy ===== *)
theory Kind_Validator
  imports Result_Type Regex
begin

text \<open>
  \<^verbatim>\<open>app/services/kind_validator\<close>: the syntactic and the semantic check of an OSDU \<open>kind\<close>, with
  their three fixed messages. The dots between the version numbers of the source's pattern are
  unescaped and match any character; the model keeps that.
\<close>

definition kInvalidKindMessage :: string where
  "kInvalidKindMessage = ''Invalid kind''"

definition kInvalidKindSourceMessage :: string where
  "kInvalidKindSourceMessage = ''Invalid source in kind''"

definition kInvalidKindEntityMessage :: string where
  "kInvalidKindEntityMessage = ''Invalid entity in kind''"

definition kFileGenericEntity :: string where
  "kFileGenericEntity = ''dataset--File.Generic''"

definition kWorkspaceSource :: string where
  "kWorkspaceSource = ''wks''"

record KindParts =
  kp_partition :: string
  kp_source :: string
  kp_entity :: string
  kp_version :: string

definition kind_char :: "char \<Rightarrow> bool" where
  "kind_char c \<longleftrightarrow> word_char c \<or> c = CHR ''-'' \<or> c = CHR ''.''"

definition KindRegex :: rx where
  "KindRegex =
     (let seg = rplus (RCls kind_char); colon = RCls (\<lambda>c. c = CHR '':'');
          num = rplus (RCls isdigit); dot = RCls any_char in
      RSeq seg (RSeq colon (RSeq seg (RSeq colon (RSeq seg (RSeq colon
        (RSeq num (RSeq dot (RSeq num (RSeq dot num))))))))))"

definition MatchesSyntax :: "string \<Rightarrow> bool" where
  "MatchesSyntax k = regex_match KindRegex k"

definition KindValidate :: "string \<Rightarrow> KindParts Result" where
  "KindValidate k =
     (if \<not> MatchesSyntax k then Err kInvalidArgument kInvalidKindMessage
      else let parts = split_on (CHR '':'') k in
        if length parts \<noteq> 4 then Err kInvalidArgument kInvalidKindMessage
        else if parts ! 1 \<noteq> kWorkspaceSource then Err kInvalidArgument kInvalidKindSourceMessage
        else if parts ! 2 \<noteq> kFileGenericEntity then Err kInvalidArgument kInvalidKindEntityMessage
        else Ok \<lparr>kp_partition = parts ! 0, kp_source = parts ! 1, kp_entity = parts ! 2,
                 kp_version = parts ! 3\<rparr>)"

section \<open>Properties\<close>

text \<open>The version segment: three numbers with any character (but a line break) between them.\<close>

definition kind_version :: "string \<Rightarrow> bool" where
  "kind_version v \<longleftrightarrow>
     (\<exists>a x b y c. v = a @ x # b @ y # c \<and> a \<noteq> [] \<and> b \<noteq> [] \<and> c \<noteq> [] \<and>
        (\<forall>d \<in> set (a @ b @ c). isdigit d) \<and> any_char x \<and> any_char y)"

definition kind_segment :: "string \<Rightarrow> bool" where
  "kind_segment s \<longleftrightarrow> s \<noteq> [] \<and> (\<forall>c \<in> set s. kind_char c)"

lemma kind_segment_no_colon: "kind_segment s \<Longrightarrow> CHR '':'' \<notin> set s"
  by (auto simp: kind_segment_def kind_char_def word_char_def ctype_defs)

lemma lang_kind_version:
  "lang (RSeq (rplus (RCls isdigit)) (RSeq (RCls any_char) (RSeq (rplus (RCls isdigit))
     (RSeq (RCls any_char) (rplus (RCls isdigit)))))) v \<longleftrightarrow> kind_version v"
  (is "?L \<longleftrightarrow> _")
proof
  assume ?L
  then obtain a x b y c where "v = a @ x # b @ y # c" "a \<noteq> []" "b \<noteq> []" "c \<noteq> []"
    "\<forall>d \<in> set a. isdigit d" "\<forall>d \<in> set b. isdigit d" "\<forall>d \<in> set c. isdigit d" "any_char x" "any_char y"
    unfolding lang_seq_plus lang_seq_cls lang_rplus_cls by blast
  then show "kind_version v" unfolding kind_version_def set_append ball_Un by blast
next
  assume "kind_version v"
  then show ?L
    unfolding kind_version_def lang_seq_plus lang_seq_cls lang_rplus_cls set_append ball_Un by blast
qed

lemma lang_segment_colon:
  "lang (RSeq (rplus (RCls kind_char)) (RSeq (RCls (\<lambda>c. c = CHR '':'')) q)) s \<longleftrightarrow>
     (\<exists>u v. s = u @ '':'' @ v \<and> kind_segment u \<and> lang q v)"
  unfolding lang_seq_plus lang_seq_cls kind_segment_def append_Cons append_Nil by blast

lemma MatchesSyntax_iff:
  "MatchesSyntax k \<longleftrightarrow>
     (\<exists>p s e v. k = p @ '':'' @ s @ '':'' @ e @ '':'' @ v \<and>
        kind_segment p \<and> kind_segment s \<and> kind_segment e \<and> kind_version v)"
  unfolding MatchesSyntax_def regex_match_lang KindRegex_def Let_def lang_segment_colon lang_kind_version
  by blast

lemma kind_split:
  assumes "kind_segment p" "kind_segment s" "kind_segment e"
  shows "split_on (CHR '':'') (p @ '':'' @ s @ '':'' @ e @ '':'' @ v) = p # s # e # split_on (CHR '':'') v"
  using assms [THEN kind_segment_no_colon] by (simp add: split_on_append)

lemma KindValidate_complete:
  assumes "kind_segment p" "kind_version v" "CHR '':'' \<notin> set v"
  shows "KindValidate (p @ '':wks:dataset--File.Generic:'' @ v) =
    Ok \<lparr>kp_partition = p, kp_source = ''wks'', kp_entity = ''dataset--File.Generic'', kp_version = v\<rparr>"
proof -
  let ?k = "p @ '':'' @ ''wks'' @ '':'' @ ''dataset--File.Generic'' @ '':'' @ v"
  have seg: "kind_segment ''wks''" "kind_segment ''dataset--File.Generic''"
    by (simp_all add: kind_segment_def kind_char_def word_char_def ctype_defs)
  have "MatchesSyntax ?k" unfolding MatchesSyntax_iff using assms seg by blast
  moreover have "split_on (CHR '':'') ?k = [p, ''wks'', ''dataset--File.Generic'', v]"
    using kind_split [OF assms(1) seg, of v] assms(3) by (simp add: split_on_no_sep)
  ultimately show ?thesis
    by (simp add: KindValidate_def kWorkspaceSource_def kFileGenericEntity_def)
qed

lemma KindValidate_error:
  "KindValidate k = Inl e \<Longrightarrow> error_kind e = kInvalidArgument \<and>
     error_message e \<in> {kInvalidKindMessage, kInvalidKindSourceMessage, kInvalidKindEntityMessage}"
  by (auto simp: KindValidate_def Let_def Err_def split: if_splits)

lemma KindValidate_sound:
  assumes ok: "KindValidate k = Ok parts"
  shows "\<exists>p v. k = p @ '':wks:dataset--File.Generic:'' @ v \<and> kind_segment p \<and> kind_version v \<and>
        CHR '':'' \<notin> set v"
proof -
  from ok have syn: "MatchesSyntax k" and len: "length (split_on (CHR '':'') k) = 4"
    and wks: "split_on (CHR '':'') k ! 1 = ''wks''"
    and ent: "split_on (CHR '':'') k ! 2 = ''dataset--File.Generic''"
    by (auto simp: KindValidate_def Let_def kWorkspaceSource_def kFileGenericEntity_def split: if_splits)
  obtain p s e v where k: "k = p @ '':'' @ s @ '':'' @ e @ '':'' @ v"
    and seg: "kind_segment p" "kind_segment s" "kind_segment e" and v: "kind_version v"
    using syn by (auto simp: MatchesSyntax_iff)
  have sp: "split_on (CHR '':'') k = p # s # e # split_on (CHR '':'') v"
    using kind_split [OF seg] k by simp
  have "length (split_on (CHR '':'') v) = 1" using len sp by simp
  then obtain w where w: "split_on (CHR '':'') v = [w]" by (auto simp: length_Suc_conv)
  then have "v = w" using join_split [of "CHR '':''" v] by simp
  moreover have "CHR '':'' \<notin> set w" using split_on_segments [of w "CHR '':''" v] w by simp
  moreover have "s = ''wks''" "e = ''dataset--File.Generic''" using wks ent sp by simp_all
  ultimately show ?thesis using k seg v by auto
qed

text \<open>A kind is accepted exactly when it is
  \<open>partition:wks:dataset--File.Generic:version\<close> with a non-empty partition of word characters,
  dashes and dots and a version of three numbers, separated by single characters, that holds no
  further colon; the parts returned are those segments.\<close>

theorem KindValidate_correct:
  "KindValidate k = Ok parts \<longleftrightarrow>
     (\<exists>p v. k = p @ '':wks:dataset--File.Generic:'' @ v \<and> kind_segment p \<and> kind_version v \<and>
        CHR '':'' \<notin> set v \<and>
        parts = \<lparr>kp_partition = p, kp_source = ''wks'', kp_entity = ''dataset--File.Generic'',
          kp_version = v\<rparr>)"
  using KindValidate_sound [of k parts] KindValidate_complete by fastforce

end
