(* ===== verification/Domain_Types.thy ===== *)
theory Domain_Types
  imports Json
begin

text \<open>
  \<^verbatim>\<open>domain/model/types.h\<close> and the structures of \<^verbatim>\<open>domain/ports/ports.h\<close>: zones, drivers, object
  references, location records, queries, tokens and capabilities, with the source's defaults.
\<close>

section \<open>Zones and drivers\<close>

datatype StorageZone = kStaging | kPersistent

datatype StorageDriver = kPosix | kS3

fun StorageZoneName :: "StorageZone \<Rightarrow> string" where
  "StorageZoneName kStaging = ''STAGING''"
| "StorageZoneName kPersistent = ''PERSISTENT''"

definition ParseStorageZone :: "string \<Rightarrow> StorageZone option" where
  "ParseStorageZone t =
     (if t = ''STAGING'' then Some kStaging
      else if t = ''PERSISTENT'' then Some kPersistent else None)"

fun StorageDriverName :: "StorageDriver \<Rightarrow> string" where
  "StorageDriverName kPosix = ''POSIX''"
| "StorageDriverName kS3 = ''S3''"

definition ParseStorageDriver :: "string \<Rightarrow> StorageDriver option" where
  "ParseStorageDriver t =
     (if t = ''POSIX'' then Some kPosix else if t = ''S3'' then Some kS3 else None)"

lemma storage_names_roundtrip:
  "ParseStorageZone (StorageZoneName z) = Some z \<and> ParseStorageDriver (StorageDriverName d) = Some d"
  by (cases z; cases d) (simp_all add: ParseStorageZone_def ParseStorageDriver_def)

section \<open>Objects\<close>

record ObjectRef =
  or_container :: string
  or_key :: string
  or_version_id :: "string option"

definition ObjectRefToString :: "ObjectRef \<Rightarrow> string" where
  "ObjectRefToString r =
     or_container r @ ''/'' @ or_key r @
     (case or_version_id r of None \<Rightarrow> [] | Some v \<Rightarrow> ''@'' @ v)"

record ObjectStat =
  os_size :: int
  os_content_type :: string
  os_checksum :: string
  os_checksum_algorithm :: string
  os_last_modified :: int
  os_exists :: bool

record ListEntry =
  le_key :: string
  le_size :: int
  le_last_modified :: int

record ListPage =
  lp_entries :: "ListEntry list"
  lp_continuation_token :: string
  lp_truncated :: bool

record ByteRange =
  br_offset :: nat
  br_length :: nat

definition IsWholeObject :: "ByteRange \<Rightarrow> bool" where
  "IsWholeObject r \<longleftrightarrow> br_offset r = 0 \<and> br_length r = 0"

record SignedLocation =
  sl_url :: string
  sl_method :: string
  sl_file_source :: string
  sl_expires_at :: int
  sl_required_headers :: "(string \<times> string) list"
  sl_native :: bool

definition default_SignedLocation :: SignedLocation where
  "default_SignedLocation = \<lparr>sl_url = [], sl_method = [], sl_file_source = [], sl_expires_at = 0,
     sl_required_headers = [], sl_native = False\<rparr>"

definition IsExpired :: "SignedLocation \<Rightarrow> int \<Rightarrow> bool" where
  "IsExpired l now \<longleftrightarrow> sl_expires_at l > 0 \<and> now \<ge> sl_expires_at l"

record FileLocation =
  fl_file_id :: string
  fl_driver :: StorageDriver
  fl_zone :: StorageZone
  fl_file_source :: string
  fl_user_id :: string
  fl_signed_url :: string
  fl_created_at :: int
  fl_updated_at :: int
  fl_extra :: json

definition default_FileLocation :: FileLocation where
  "default_FileLocation = \<lparr>fl_file_id = [], fl_driver = kPosix, fl_zone = kStaging,
     fl_file_source = [], fl_user_id = [], fl_signed_url = [], fl_created_at = 0,
     fl_updated_at = 0, fl_extra = jobject\<rparr>"

section \<open>Structures of the ports\<close>

record BlobCapabilities =
  bc_native_presign :: bool
  bc_server_side_copy :: bool
  bc_range_read :: bool
  bc_streaming_put :: bool
  bc_recommended_part_size :: nat
  bc_driver_name :: string

record PresignOptions =
  po_expires_in_seconds :: int
  po_content_type :: string
  po_file_name :: string
  po_method :: string

record PutOptions =
  pu_content_type :: string
  pu_expected_checksum :: string
  pu_checksum_algorithm :: string
  pu_expected_size :: int

definition default_PutOptions :: PutOptions where
  "default_PutOptions = \<lparr>pu_content_type = [], pu_expected_checksum = [],
     pu_checksum_algorithm = [], pu_expected_size = - 1\<rparr>"

record TempSweepResult =
  ts_removed :: int
  ts_skipped_too_young :: int
  ts_skipped_unknown_mtime :: int

record LocationQuery =
  lq_user_id :: string
  lq_created_after :: int
  lq_created_before :: int
  lq_limit :: int
  lq_offset :: int

record LocationPage =
  lpg_records :: "FileLocation list"
  lpg_total :: int

record Lease =
  ls_file_id :: string
  ls_owner :: string
  ls_file_source :: string
  ls_expires_at :: int

record PartitionConfig =
  pc_partition :: string
  pc_driver :: StorageDriver
  pc_posix_root :: string
  pc_s3_bucket_prefix :: string
  pc_s3_endpoint :: string
  pc_s3_region :: string
  pc_max_object_bytes :: int
  pc_quota_bytes :: int
  pc_legal_tag_validation :: bool
  pc_schema_validation :: bool
  pc_staging_container :: string
  pc_persistent_container :: string
  pc_storage_driver :: string
  pc_extra :: json

definition default_PartitionConfig :: PartitionConfig where
  "default_PartitionConfig = \<lparr>pc_partition = [], pc_driver = kPosix, pc_posix_root = [],
     pc_s3_bucket_prefix = [], pc_s3_endpoint = [], pc_s3_region = [], pc_max_object_bytes = - 1,
     pc_quota_bytes = - 1, pc_legal_tag_validation = True, pc_schema_validation = False,
     pc_staging_container = [], pc_persistent_container = [], pc_storage_driver = [],
     pc_extra = jobject\<rparr>"

record TransferToken =
  tt_partition :: string
  tt_file_id :: string
  tt_container :: string
  tt_object_key :: string
  tt_zone :: StorageZone
  tt_op :: string
  tt_expires_at :: int
  tt_key_id :: string

section \<open>Roles\<close>

definition kRoleFileViewers :: string where "kRoleFileViewers = ''service.file.viewers''"
definition kRoleFileEditors :: string where "kRoleFileEditors = ''service.file.editors''"
definition kRoleFileAdmin :: string where "kRoleFileAdmin = ''service.file.admin''"
definition kRoleDeliveryViewer :: string where "kRoleDeliveryViewer = ''service.delivery.viewer''"
definition kRoleDatasetViewers :: string where "kRoleDatasetViewers = ''service.dataset.viewers''"
definition kRoleDatasetEditors :: string where "kRoleDatasetEditors = ''service.dataset.editors''"
definition kRoleStorageViewer :: string where "kRoleStorageViewer = ''service.storage.viewer''"
definition kRoleStorageCreator :: string where "kRoleStorageCreator = ''service.storage.creator''"
definition kRoleStorageAdmin :: string where "kRoleStorageAdmin = ''service.storage.admin''"

end
