(* ===== verification/Object_Key_Policy.thy ===== *)
theory Object_Key_Policy
  imports Domain_Types Time_Format
begin

text \<open>
  \<^verbatim>\<open>app/services/object_key_policy\<close>: the \<open>FileSource\<close> locator
  \<open>/user/epochMillis-timestamp/fileID\<close>, the object keys and container names derived from it, and
  the white lists that make it the security boundary of the data plane.
\<close>

definition kMaxFileSourceLength :: nat where
  "kMaxFileSourceLength = 1024"

definition kMaxFileIdLength :: nat where
  "kMaxFileIdLength = 512"

record SourcePath =
  sp_user_id :: string
  sp_epoch_millis :: int
  sp_timestamp :: string
  sp_file_id :: string

definition AllDigits :: "string \<Rightarrow> bool" where
  "AllDigits s \<longleftrightarrow> s \<noteq> [] \<and> list_all isdigit s"

definition timestamp_dashes :: "nat list" where
  "timestamp_dashes = [4, 7, 10, 13, 16, 19]"

definition IsTimestampShape :: "string \<Rightarrow> bool" where
  "IsTimestampShape ts \<longleftrightarrow>
     length ts = 23 \<and> list_all (\<lambda>i. ts ! i = CHR ''-'') timestamp_dashes \<and>
     list_all (\<lambda>i. i \<in> set timestamp_dashes \<or> isdigit (ts ! i)) [0..<23]"

definition safe_char :: "char \<Rightarrow> bool" where
  "safe_char c \<longleftrightarrow>
     \<not> is_control c \<and> c \<noteq> CHR ''/'' \<and> c \<noteq> CHR 0x5C \<and> c \<noteq> CHR ''%'' \<and>
     (isalnum c \<or> c = CHR ''.'' \<or> c = CHR ''_'' \<or> c = CHR ''-'')"

definition IsSafeSegment :: "string \<Rightarrow> bool" where
  "IsSafeSegment s \<longleftrightarrow> s \<noteq> [] \<and> s \<noteq> ''.'' \<and> s \<noteq> ''..'' \<and> list_all safe_char s"

definition UpperToLower :: "string \<Rightarrow> string" where
  "UpperToLower s = map tolower s"

definition FormatTimestamp :: "int \<Rightarrow> int \<Rightarrow> string" where
  "FormatTimestamp epoch_seconds millis =
     (let iso = ToIso8601Utc epoch_seconds millis in
      if length iso < 20 then []
      else map (\<lambda>c. if c = CHR ''T'' \<or> c = CHR '':'' then CHR ''-'' else c) (take 19 iso) @
           ''-'' @ take 3 (drop 20 iso))"

definition invalid_source_path :: "string \<Rightarrow> 'a Result" where
  "invalid_source_path fs = Err kInvalidArgument (''Invalid source file path to copy from '' @ fs)"

definition too_long_message :: string where
  "too_long_message = msg_file_source_too_long @ to_string (int kMaxFileSourceLength)"

definition MakeFileSource :: "SourcePath \<Rightarrow> string Result" where
  "MakeFileSource parts =
     (if \<not> IsSafeSegment (sp_user_id parts)
      then Err kInvalidArgument (msg_user_segment_invalid @ sp_user_id parts)
      else if \<not> IsSafeSegment (sp_file_id parts) \<or> length (sp_file_id parts) > kMaxFileIdLength
      then Err kInvalidArgument (msg_file_segment_invalid @ sp_file_id parts)
      else if sp_epoch_millis parts \<le> 0
      then Err kInvalidArgument msg_epoch_must_be_positive
      else if \<not> IsTimestampShape (sp_timestamp parts)
      then Err kInvalidArgument (msg_timestamp_shape @ sp_timestamp parts)
      else let out = ''/'' @ sp_user_id parts @ ''/'' @ to_string (sp_epoch_millis parts) @ ''-'' @
                     sp_timestamp parts @ ''/'' @ sp_file_id parts in
        if length out > kMaxFileSourceLength then Err kInvalidArgument too_long_message
        else Ok out)"

text \<open>\<^verbatim>\<open>strtoll\<close> on digits saturates at the largest value.\<close>

definition strtoll_digits :: "string \<Rightarrow> int" where
  "strtoll_digits s = min (int (decimal s)) i64_max"

definition ParseFileSource :: "string \<Rightarrow> SourcePath Result" where
  "ParseFileSource fs =
     (if fs = [] then Err kInvalidArgument ''FileSource can not be empty''
      else if length fs > kMaxFileSourceLength then Err kInvalidArgument too_long_message
      else if hd fs \<noteq> CHR ''/'' then invalid_source_path fs
      else if list_ex (\<lambda>c. is_control c \<or> c = CHR 0x5C \<or> c = CHR ''%'') fs
      then invalid_source_path fs
      else let segments = split_on (CHR ''/'') (tl fs) in
        if length segments \<noteq> 3 then invalid_source_path fs
        else if \<not> IsSafeSegment (segments ! 0) then invalid_source_path fs
        else let epoch_and_ts = segments ! 1 in
          if CHR ''-'' \<notin> set epoch_and_ts then invalid_source_path fs
          else let epoch_text = before_first (CHR ''-'') epoch_and_ts;
                   ts = after_first (CHR ''-'') epoch_and_ts in
            if \<not> AllDigits epoch_text \<or> length epoch_text > 19 \<or> \<not> IsTimestampShape ts
            then invalid_source_path fs
            else if \<not> IsSafeSegment (segments ! 2) \<or> length (segments ! 2) > kMaxFileIdLength
            then invalid_source_path fs
            else Ok \<lparr>sp_user_id = segments ! 0, sp_epoch_millis = strtoll_digits epoch_text,
                     sp_timestamp = ts, sp_file_id = segments ! 2\<rparr>)"

definition MakePosixKey :: "SourcePath \<Rightarrow> string" where
  "MakePosixKey parts =
     sp_user_id parts @ ''/'' @ to_string (sp_epoch_millis parts) @ ''-'' @ sp_timestamp parts @
     ''/'' @ sp_file_id parts"

definition MakeS3Key :: "SourcePath \<Rightarrow> string" where
  "MakeS3Key parts =
     (let ts = sp_timestamp parts in
      if length ts < 10 then sp_file_id parts
      else take 4 ts @ ''/'' @ take 2 (drop 5 ts) @ ''/'' @ take 2 (drop 8 ts) @ ''/'' @
           sp_file_id parts)"

definition ValidateContainerName :: "string \<Rightarrow> string \<Rightarrow> string Result" where
  "ValidateContainerName name what =
     (if name = [] then Err kInvalidArgument (what @ msg_must_not_be_empty)
      else if list_ex (\<lambda>c. is_control c \<or> c = CHR ''/'' \<or> c = CHR 0x5C \<or> c = CHR ''%'') name
      then Err kInvalidArgument (what @ msg_has_illegal_characters @ name)
      else Ok name)"

definition ContainerFor :: "string \<Rightarrow> StorageZone \<Rightarrow> string Result" where
  "ContainerFor part zone =
     FSS_TRY (ValidateContainerName part ''partition'') (\<lambda>name.
       Ok (UpperToLower name @ ''-'' @ (if zone = kStaging then ''staging'' else ''persistent'')))"

definition ContainerForConfig :: "PartitionConfig \<Rightarrow> StorageZone \<Rightarrow> string Result" where
  "ContainerForConfig config zone =
     (let override_name = (if zone = kStaging then pc_staging_container config
                           else pc_persistent_container config) in
      if override_name = [] then ContainerFor (pc_partition config) zone
      else ValidateContainerName override_name msg_configured_container)"

text \<open>The partition registry is a port: the argument \<open>registry\<close> is its \<open>Get\<close>.\<close>

definition ContainerForRegistry ::
  "(string \<Rightarrow> PartitionConfig Result) \<Rightarrow> string \<Rightarrow> StorageZone \<Rightarrow> string Result" where
  "ContainerForRegistry registry part zone =
     (case registry part of
        Inr config \<Rightarrow> ContainerForConfig config zone
      | Inl _ \<Rightarrow> ContainerFor part zone)"

definition file_id_char :: "char \<Rightarrow> bool" where
  "file_id_char c \<longleftrightarrow> isalnum c \<or> c = CHR ''_'' \<or> c = CHR ''-'' \<or> c = CHR '','' \<or> c = CHR '' '' \<or>
     (of_char c :: nat) = 9"

definition IsValidFileId :: "string \<Rightarrow> bool" where
  "IsValidFileId file_id \<longleftrightarrow>
     (if file_id = [] \<or> length file_id > kMaxFileIdLength then False
      else let base = takeWhile file_id_char file_id; rest = dropWhile file_id_char file_id in
        if base = [] then False
        else if rest = [] then True
        else if hd rest \<noteq> CHR ''.'' then False
        else tl rest \<noteq> [] \<and> list_all (\<lambda>c. isalnum c \<or> c = CHR ''_'') (tl rest))"

section \<open>Safe segments\<close>

lemma safe_char_facts:
  "safe_char c \<Longrightarrow> c \<noteq> CHR ''/'' \<and> \<not> is_control c \<and> c \<noteq> CHR 0x5C \<and> c \<noteq> CHR ''%''"
  by (simp add: safe_char_def)

lemma IsSafeSegment_chars: "IsSafeSegment s \<Longrightarrow> c \<in> set s \<Longrightarrow> safe_char c"
  by (simp add: IsSafeSegment_def list_all_iff)

lemma IsSafeSegment_no_slash: "IsSafeSegment s \<Longrightarrow> CHR ''/'' \<notin> set s"
  using IsSafeSegment_chars safe_char_facts by blast

lemma digit_safe: "isdigit c \<Longrightarrow> safe_char c"
  by (auto simp: safe_char_def ctype_defs)

lemma dash_safe: "safe_char (CHR ''-'')"
  by (simp add: safe_char_def ctype_defs)

lemma timestamp_chars: "IsTimestampShape ts \<Longrightarrow> c \<in> set ts \<Longrightarrow> isdigit c \<or> c = CHR ''-''"
proof -
  assume ts: "IsTimestampShape ts" and "c \<in> set ts"
  then obtain i where i: "i < 23" "c = ts ! i" by (auto simp: in_set_conv_nth IsTimestampShape_def)
  then show "isdigit c \<or> c = CHR ''-''"
    using ts by (auto simp: IsTimestampShape_def list_all_iff)
qed

lemma timestamp_safe: "IsTimestampShape ts \<Longrightarrow> c \<in> set ts \<Longrightarrow> safe_char c"
  using timestamp_chars digit_safe dash_safe by blast

lemma IsTimestampShape_length: "IsTimestampShape ts \<Longrightarrow> length ts = 23"
  by (simp add: IsTimestampShape_def)

text \<open>The middle segment of a locator.\<close>

lemma middle_segment_safe:
  assumes "AllDigits e" "IsTimestampShape ts"
  shows "IsSafeSegment (e @ ''-'' @ ts)"
proof -
  have "x \<noteq> []" "x \<noteq> ''.''" "x \<noteq> ''..''" if "CHR ''-'' \<in> set x" for x :: string
    using that by auto
  then have "e @ ''-'' @ ts \<noteq> []" "e @ ''-'' @ ts \<noteq> ''.''" "e @ ''-'' @ ts \<noteq> ''..''"
    by (metis append_Cons append_Nil in_set_conv_decomp)+
  moreover have "list_all safe_char (e @ ''-'' @ ts)"
    using assms by (auto simp: AllDigits_def list_all_iff digit_safe dash_safe timestamp_safe)
  ultimately show ?thesis by (simp add: IsSafeSegment_def)
qed

lemma AllDigits_to_string: "0 \<le> n \<Longrightarrow> AllDigits (to_string n)"
  using nat_to_string_digits by (auto simp: AllDigits_def to_string_def list_all_iff)

lemma AllDigits_no_dash: "AllDigits e \<Longrightarrow> CHR ''-'' \<notin> set e"
  by (auto simp: AllDigits_def list_all_iff isdigit_def)

section \<open>Locators\<close>

lemma ParseFileSource_Ok_iff:
  "ParseFileSource fs = Ok p \<longleftrightarrow>
     (\<exists>u e ts f. fs = ''/'' @ u @ ''/'' @ e @ ''-'' @ ts @ ''/'' @ f \<and>
        length fs \<le> kMaxFileSourceLength \<and> IsSafeSegment u \<and> AllDigits e \<and> length e \<le> 19 \<and>
        IsTimestampShape ts \<and> IsSafeSegment f \<and> length f \<le> kMaxFileIdLength \<and>
        p = \<lparr>sp_user_id = u, sp_epoch_millis = strtoll_digits e, sp_timestamp = ts, sp_file_id = f\<rparr>)"
  (is "?L \<longleftrightarrow> ?R")
proof
  assume ?L
  then have fs: "fs \<noteq> []" "length fs \<le> kMaxFileSourceLength" "hd fs = CHR ''/''"
    and len: "length (split_on (CHR ''/'') (tl fs)) = 3"
    by (auto simp: ParseFileSource_def invalid_source_path_def Let_def not_less split: if_splits)
  obtain u m f where segs: "split_on (CHR ''/'') (tl fs) = [u, m, f]"
    using len by (auto simp: length_Suc_conv numeral_3_eq_3)
  have join: "fs = ''/'' @ u @ ''/'' @ m @ ''/'' @ f"
    using join_split [of "CHR ''/''" "tl fs"] segs fs(1,3) by (cases fs) auto
  let ?e = "before_first (CHR ''-'') m" and ?ts = "after_first (CHR ''-'') m"
  from \<open>?L\<close> have r: "IsSafeSegment u" "CHR ''-'' \<in> set m" "AllDigits ?e" "length ?e \<le> 19"
    "IsTimestampShape ?ts" "IsSafeSegment f" "length f \<le> kMaxFileIdLength"
    "p = \<lparr>sp_user_id = u, sp_epoch_millis = strtoll_digits ?e, sp_timestamp = ?ts, sp_file_id = f\<rparr>"
    using segs by (auto simp: ParseFileSource_def invalid_source_path_def Let_def not_less split: if_splits)
  have "m = ?e @ ''-'' @ ?ts" using first_sep_split [OF r(2)] by simp
  with join r fs show ?R by auto
next
  assume ?R
  then obtain u e ts f where fs: "fs = ''/'' @ u @ ''/'' @ e @ ''-'' @ ts @ ''/'' @ f"
    and r: "length fs \<le> kMaxFileSourceLength" "IsSafeSegment u" "AllDigits e" "length e \<le> 19"
      "IsTimestampShape ts" "IsSafeSegment f" "length f \<le> kMaxFileIdLength"
    and p: "p = \<lparr>sp_user_id = u, sp_epoch_millis = strtoll_digits e, sp_timestamp = ts, sp_file_id = f\<rparr>"
    by blast
  let ?m = "e @ ''-'' @ ts"
  have m: "IsSafeSegment ?m" using r by (intro middle_segment_safe)
  have segs: "split_on (CHR ''/'') (tl fs) = [u, ?m, f]"
    using fs r m [THEN IsSafeSegment_no_slash] r(2,6) [THEN IsSafeSegment_no_slash]
    by (simp add: split_on_append [of _ u] split_on_append [of _ "e @ CHR ''-'' # ts", simplified] split_on_no_sep)
  have "\<not> list_ex (\<lambda>c. is_control c \<or> c = CHR 0x5C \<or> c = CHR ''%'') fs"
    using IsSafeSegment_chars [OF r(2)] IsSafeSegment_chars [OF r(6)] IsSafeSegment_chars [OF m] safe_char_facts
    by (auto simp: fs list_ex_iff is_control_def)
  moreover have "before_first (CHR ''-'') ?m = e" "after_first (CHR ''-'') ?m = ts"
    using AllDigits_no_dash [OF r(3)] by (simp_all add: before_first_append after_first_append)
  ultimately show ?L
    using fs segs r p by (simp add: ParseFileSource_def Let_def)
qed

lemma MakeFileSource_Ok_iff:
  "MakeFileSource p = Ok fs \<longleftrightarrow>
     IsSafeSegment (sp_user_id p) \<and> IsSafeSegment (sp_file_id p) \<and>
     length (sp_file_id p) \<le> kMaxFileIdLength \<and> 0 < sp_epoch_millis p \<and>
     IsTimestampShape (sp_timestamp p) \<and> fs = ''/'' @ MakePosixKey p \<and>
     length fs \<le> kMaxFileSourceLength"
  by (auto simp: MakeFileSource_def MakePosixKey_def Let_def not_less not_le)

lemma strtoll_to_string: "0 \<le> n \<Longrightarrow> n \<le> i64_max \<Longrightarrow> strtoll_digits (to_string n) = n"
  by (simp add: strtoll_digits_def to_string_def)

lemma to_string_length_i64: "0 \<le> n \<Longrightarrow> n \<le> i64_max \<Longrightarrow> length (to_string n) \<le> 19"
  using length_nat_to_string [of "nat n" 19] by (simp add: to_string_def i64_max_def nat_less_iff)

text \<open>The locator round trip: whatever \<open>MakeFileSource\<close> produces from the four
  parts, \<open>ParseFileSource\<close> accepts and takes apart into the same four parts.\<close>

theorem FileSource_roundtrip:
  assumes "MakeFileSource p = Ok fs" "sp_epoch_millis p \<le> i64_max"
  shows "ParseFileSource fs = Ok p"
proof -
  have m: "IsSafeSegment (sp_user_id p)" "IsSafeSegment (sp_file_id p)"
    "length (sp_file_id p) \<le> kMaxFileIdLength" "0 < sp_epoch_millis p"
    "IsTimestampShape (sp_timestamp p)" "fs = ''/'' @ MakePosixKey p"
    "length fs \<le> kMaxFileSourceLength"
    using assms(1) unfolding MakeFileSource_Ok_iff by blast+
  have "ParseFileSource fs = Ok \<lparr>sp_user_id = sp_user_id p,
      sp_epoch_millis = strtoll_digits (to_string (sp_epoch_millis p)),
      sp_timestamp = sp_timestamp p, sp_file_id = sp_file_id p\<rparr>"
    unfolding ParseFileSource_Ok_iff
    using m assms(2) AllDigits_to_string [of "sp_epoch_millis p"] to_string_length_i64
    by (auto simp: MakePosixKey_def)
  then show ?thesis using m(4) assms(2) by (simp add: strtoll_to_string)
qed

lemma sample_timestamp_shape: "IsTimestampShape ''2021-03-03-15-13-33-120''"
  by code_simp

lemmas key_eval = IsSafeSegment_def safe_char_def ctype_defs sample_timestamp_shape
  to_string_def nat_to_string.simps kMaxFileIdLength_def kMaxFileSourceLength_def AllDigits_def

definition sample_source_path :: SourcePath where
  "sample_source_path = \<lparr>sp_user_id = ''osdu-user'', sp_epoch_millis = 1614784413120,
     sp_timestamp = ''2021-03-03-15-13-33-120'', sp_file_id = ''f1''\<rparr>"

lemma sample_source_path_ok:
  "MakeFileSource sample_source_path =
     Ok ''/osdu-user/1614784413120-2021-03-03-15-13-33-120/f1''"
  by (simp add: MakeFileSource_def sample_source_path_def key_eval)

lemma sample_source_path_parses:
  "ParseFileSource ''/osdu-user/1614784413120-2021-03-03-15-13-33-120/f1'' = Ok sample_source_path"
  by (simp add: ParseFileSource_def sample_source_path_def key_eval before_first_def after_first_def Let_def
      strtoll_digits_def decimal_def digit_val_def i64_max_def)

theorem FileSource_roundtrip_witness:
  "ParseFileSource ''/osdu-user/1614784413120-2021-03-03-15-13-33-120/f1'' = Ok sample_source_path"
  using FileSource_roundtrip [OF sample_source_path_ok]
  by (simp add: sample_source_path_def i64_max_def)

text \<open>The object key of an accepted locator has exactly three path segments, all of them safe: no
  empty segment, no \<open>.\<close> or \<open>..\<close>, no separator, control or escape character in any of them.\<close>

lemma strtoll_nonneg: "0 \<le> strtoll_digits e"
  by (simp add: strtoll_digits_def i64_max_def)

text \<open>A path segment written out: not empty, no dot segment, letters, digits, dots, underscores and dashes only.\<close>

definition plain_chars :: string where
  "plain_chars = ''ABCDEFGHIJKLMNOPQRSTUVWXYZabcdefghijklmnopqrstuvwxyz0123456789._-''"

lemma plain_char: "isalnum c \<or> c = CHR ''.'' \<or> c = CHR ''_'' \<or> c = CHR ''-'' \<Longrightarrow> c \<in> set plain_chars"
proof -
  have "list_all (\<lambda>n. char_of n \<in> set plain_chars) ([65..<91] @ [97..<123] @ [48..<58])" by code_simp
  then have all: "\<forall>n \<in> {65..<91} \<union> {97..<123} \<union> {48..<58 :: nat}. char_of n \<in> set plain_chars"
    by (simp only: list_all_iff set_append set_upt Un_assoc)
  assume c: "isalnum c \<or> c = CHR ''.'' \<or> c = CHR ''_'' \<or> c = CHR ''-''"
  show ?thesis
  proof (cases "isalnum c")
    case True
    then have "(of_char c :: nat) \<in> {65..<91} \<union> {97..<123} \<union> {48..<58}" by (auto simp: ctype_defs)
    then have "char_of (of_char c :: nat) \<in> set plain_chars" using all by blast
    then show ?thesis by simp
  qed (use c in \<open>auto simp: plain_chars_def\<close>)
qed

lemma safe_segment_plain: "IsSafeSegment s \<Longrightarrow> s \<noteq> [] \<and> s \<noteq> ''.'' \<and> s \<noteq> ''..'' \<and> set s \<subseteq> set plain_chars"
  using plain_char by (auto simp: IsSafeSegment_def list_all_iff safe_char_def)

text \<open>C39. No accepted locator leaves the tree. It is at most 1024 bytes long and consists of exactly three
  segments after its leading slash, and so does the object key derived from it, without the slash; no segment of either is
  empty, \<open>.\<close> or \<open>..\<close>, and each is made of letters, digits, dots, underscores and dashes only. User and file id are the first
  and the last segment of both.\<close>

theorem FileSource_no_traversal:
  assumes "ParseFileSource fs = Ok p"
  shows "\<exists>m k. fs = ''/'' @ sp_user_id p @ ''/'' @ m @ ''/'' @ sp_file_id p \<and>
    MakePosixKey p = sp_user_id p @ ''/'' @ k @ ''/'' @ sp_file_id p \<and> length fs \<le> 1024 \<and>
    (\<forall>segment \<in> {sp_user_id p, m, k, sp_file_id p}. segment \<noteq> [] \<and> segment \<noteq> ''.'' \<and> segment \<noteq> ''..'' \<and>
       set segment \<subseteq> set ''ABCDEFGHIJKLMNOPQRSTUVWXYZabcdefghijklmnopqrstuvwxyz0123456789._-'')"
proof -
  from assms obtain u e ts f where r: "IsSafeSegment u" "AllDigits e" "IsTimestampShape ts" "IsSafeSegment f"
    and fs: "fs = ''/'' @ u @ ''/'' @ e @ ''-'' @ ts @ ''/'' @ f" "length fs \<le> kMaxFileSourceLength"
    and p: "p = \<lparr>sp_user_id = u, sp_epoch_millis = strtoll_digits e, sp_timestamp = ts, sp_file_id = f\<rparr>"
    unfolding ParseFileSource_Ok_iff by blast
  let ?m = "e @ ''-'' @ ts" and ?k = "to_string (strtoll_digits e) @ ''-'' @ ts"
  have "IsSafeSegment ?m" "IsSafeSegment ?k"
    using r(2,3) by (auto intro: middle_segment_safe AllDigits_to_string strtoll_nonneg simp del: append.simps)
  then have "\<forall>segment \<in> {sp_user_id p, ?m, ?k, sp_file_id p}. IsSafeSegment segment" using r(1,4) by (simp add: p)
  then have "\<forall>segment \<in> {sp_user_id p, ?m, ?k, sp_file_id p}. segment \<noteq> [] \<and> segment \<noteq> ''.'' \<and> segment \<noteq> ''..'' \<and>
      set segment \<subseteq> set plain_chars"
    using safe_segment_plain by blast
  then show ?thesis
    using fs unfolding plain_chars_def
    by (intro exI [of _ ?m] exI [of _ ?k]) (simp add: p MakePosixKey_def kMaxFileSourceLength_def)
qed

theorem FileSource_no_traversal_witness:
  "set (sp_file_id sample_source_path) \<subseteq> set ''ABCDEFGHIJKLMNOPQRSTUVWXYZabcdefghijklmnopqrstuvwxyz0123456789._-'' \<and>
   length ''/osdu-user/1614784413120-2021-03-03-15-13-33-120/f1'' \<le> 1024"
proof -
  from FileSource_no_traversal [OF sample_source_path_parses] show ?thesis by blast
qed

text \<open>The key is not always the locator without its slash: a locator whose
  epoch part has leading zeros is accepted, and shares its object key with the locator without
  them. The idempotency key of a record is the locator, so the two count as different files.\<close>

theorem FileSource_key_collision:
  "\<exists>fs1 fs2 p1 p2. fs1 \<noteq> fs2 \<and> ParseFileSource fs1 = Ok p1 \<and> ParseFileSource fs2 = Ok p2 \<and>
     MakePosixKey p1 = MakePosixKey p2 \<and> fs2 \<noteq> ''/'' @ MakePosixKey p2"
proof (intro exI conjI)
  let ?a = "''/u/7-2021-03-03-15-13-33-120/f''" and ?b = "''/u/007-2021-03-03-15-13-33-120/f''"
  let ?p = "\<lparr>sp_user_id = ''u'', sp_epoch_millis = 7, sp_timestamp = ''2021-03-03-15-13-33-120'', sp_file_id = ''f''\<rparr>"
  show "?a \<noteq> ?b" by simp
  show "ParseFileSource ?a = Ok ?p" by code_simp
  show "ParseFileSource ?b = Ok ?p" by code_simp
  show "MakePosixKey ?p = MakePosixKey ?p" ..
  show "?b \<noteq> ''/'' @ MakePosixKey ?p" by code_simp
qed

text \<open>\<open>IsValidFileId\<close> lets blanks and commas through, as the upstream
  pattern does, but the locator builder refuses every file id with such a character.\<close>

theorem FileId_accepted_then_refused:
  "IsValidFileId ''well log,v2'' \<and>
   err_kind (MakeFileSource (sample_source_path\<lparr>sp_file_id := ''well log,v2''\<rparr>)) = Some kInvalidArgument"
  by code_simp

section \<open>Containers\<close>

lemma ValidateContainerName_Ok_iff:
  "ValidateContainerName n w = Ok m \<longleftrightarrow>
     m = n \<and> n \<noteq> [] \<and> (\<forall>c \<in> set n. \<not> is_control c \<and> c \<noteq> CHR ''/'' \<and> c \<noteq> CHR 0x5C \<and> c \<noteq> CHR ''%'')"
  by (auto simp: ValidateContainerName_def list_ex_iff)

definition zone_suffix :: "StorageZone \<Rightarrow> string" where
  "zone_suffix z = (if z = kStaging then ''staging'' else ''persistent'')"

lemma zone_suffix_last: "last (zone_suffix z) = (if z = kStaging then CHR ''g'' else CHR ''t'')"
  by (simp add: zone_suffix_def)

lemma ContainerFor_Ok_iff:
  "ContainerFor p z = Ok c \<longleftrightarrow>
     is_ok (ValidateContainerName p ''partition'') \<and> c = UpperToLower p @ ''-'' @ zone_suffix z"
  by (auto simp: ContainerFor_def FSS_TRY_eq_Ok zone_suffix_def is_ok_iff ValidateContainerName_Ok_iff)

text \<open>Capital and small letters, and texts that differ at most in the case of letters.\<close>

definition letter_cases :: "(char \<times> char) list" where
  "letter_cases = zip ''ABCDEFGHIJKLMNOPQRSTUVWXYZ'' ''abcdefghijklmnopqrstuvwxyz''"

definition same_letters :: "string \<Rightarrow> string \<Rightarrow> bool" where
  "same_letters p q \<longleftrightarrow>
     list_all2 (\<lambda>a b. a = b \<or> (a, b) \<in> set letter_cases \<or> (b, a) \<in> set letter_cases) p q"

lemma upper_letter_case: "isupper c \<Longrightarrow> (c, tolower c) \<in> set letter_cases"
proof -
  have "list_all (\<lambda>n. (char_of n, char_of (n + 32)) \<in> set letter_cases) [65..<91]" by code_simp
  then have all: "\<forall>n \<in> {65..<91 :: nat}. (char_of n, char_of (n + 32)) \<in> set letter_cases" by (simp only: list_all_iff set_upt)
  assume c: "isupper c"
  then have "(char_of (of_char c :: nat), char_of ((of_char c :: nat) + 32)) \<in> set letter_cases"
    using bspec [OF all, of "of_char c"] by (simp only: isupper_def atLeastLessThan_iff) simp
  then show ?thesis using c by (simp add: tolower_def)
qed

lemma letter_cases_lower: "(a, b) \<in> set letter_cases \<Longrightarrow> tolower a = b \<and> tolower b = b"
proof -
  have "list_all (\<lambda>(a, b). tolower a = b \<and> tolower b = b) letter_cases" by code_simp
  then show "(a, b) \<in> set letter_cases \<Longrightarrow> ?thesis" by (auto simp: list_all_iff)
qed

lemma letter_cases_unique: "(a, c) \<in> set letter_cases \<Longrightarrow> (b, c) \<in> set letter_cases \<Longrightarrow> a = b"
proof -
  have "list_all (\<lambda>(a, c). list_all (\<lambda>(b, d). c = d \<longrightarrow> a = b) letter_cases) letter_cases" by code_simp
  then show "(a, c) \<in> set letter_cases \<Longrightarrow> (b, c) \<in> set letter_cases \<Longrightarrow> ?thesis" by (fastforce simp: list_all_iff)
qed

lemma tolower_eq: "tolower a = tolower b \<longleftrightarrow> a = b \<or> (a, b) \<in> set letter_cases \<or> (b, a) \<in> set letter_cases"
proof
  assume e: "tolower a = tolower b"
  show "a = b \<or> (a, b) \<in> set letter_cases \<or> (b, a) \<in> set letter_cases"
  proof (cases "isupper a"; cases "isupper b")
    assume "isupper a" "isupper b"
    then show ?thesis using upper_letter_case [of a] upper_letter_case [of b] e letter_cases_unique by auto
  next
    assume "isupper a" "\<not> isupper b"
    then show ?thesis using upper_letter_case [of a] e by (auto simp: tolower_def split: if_splits)
  next
    assume "\<not> isupper a" "isupper b"
    then show ?thesis using upper_letter_case [of b] e by (auto simp: tolower_def split: if_splits)
  qed (use e in \<open>simp add: tolower_def\<close>)
qed (auto dest: letter_cases_lower)

lemma UpperToLower_eq: "UpperToLower p = UpperToLower q \<longleftrightarrow> same_letters p q"
proof -
  have "map tolower p = map tolower q \<longleftrightarrow> list_all2 (\<lambda>a b. tolower a = tolower b) p q"
    by (simp add: list_all2_conv_all_nth list_eq_iff_nth_eq) (metis nth_map)
  then show ?thesis by (simp add: UpperToLower_def same_letters_def tolower_eq)
qed

lemma default_containers:
  assumes "ContainerFor p z = Ok c" "ContainerFor q y = Ok d"
  shows "c = d \<longleftrightarrow> z = y \<and> same_letters p q"
proof -
  have cd: "c = UpperToLower p @ ''-'' @ zone_suffix z" "d = UpperToLower q @ ''-'' @ zone_suffix y"
    using assms by (simp_all add: ContainerFor_Ok_iff)
  have "z = y" if "c = d"
  proof -
    have "last (zone_suffix z) = last (zone_suffix y)"
      using arg_cong [OF that [unfolded cd], of last] by (simp add: zone_suffix_def split: if_splits)
    then show "z = y" by (cases z; cases y) (simp_all add: zone_suffix_def)
  qed
  then show ?thesis by (auto simp: cd UpperToLower_eq [symmetric])
qed

lemma tolower_clean:
  assumes "\<not> is_control x \<and> x \<noteq> CHR ''/'' \<and> x \<noteq> CHR 0x5C \<and> x \<noteq> CHR ''%''"
  shows "\<not> is_control (tolower x) \<and> tolower x \<noteq> CHR ''/'' \<and> tolower x \<noteq> CHR 0x5C \<and> tolower x \<noteq> CHR ''%''"
proof (cases "isupper x")
  case True
  then have "(of_char (tolower x) :: nat) = of_char x + 32" by (simp add: tolower_def isupper_def)
  then have "97 \<le> (of_char (tolower x) :: nat) \<and> (of_char (tolower x) :: nat) \<le> 122" using True by (simp add: isupper_def)
  then show ?thesis by (auto simp: is_control_def)
qed (use assms in \<open>simp add: tolower_def\<close>)

lemma default_container_chars:
  assumes "ContainerFor p z = Ok c"
  shows "c \<noteq> [] \<and> (\<forall>x \<in> set c. \<not> is_control x \<and> x \<noteq> CHR ''/'' \<and> x \<noteq> CHR 0x5C \<and> x \<noteq> CHR ''%'')"
proof -
  have c: "c = UpperToLower p @ ''-'' @ zone_suffix z"
    "\<forall>x \<in> set p. \<not> is_control x \<and> x \<noteq> CHR ''/'' \<and> x \<noteq> CHR 0x5C \<and> x \<noteq> CHR ''%''"
    using assms by (auto simp: ContainerFor_Ok_iff is_ok_iff ValidateContainerName_Ok_iff)
  have "list_all (\<lambda>x. \<not> is_control x \<and> x \<noteq> CHR ''/'' \<and> x \<noteq> CHR 0x5C \<and> x \<noteq> CHR ''%'') (''-'' @ zone_suffix kStaging)"
    "list_all (\<lambda>x. \<not> is_control x \<and> x \<noteq> CHR ''/'' \<and> x \<noteq> CHR 0x5C \<and> x \<noteq> CHR ''%'') (''-'' @ zone_suffix kPersistent)"
    by code_simp+
  then have "\<forall>x \<in> set (''-'' @ zone_suffix z). \<not> is_control x \<and> x \<noteq> CHR ''/'' \<and> x \<noteq> CHR 0x5C \<and> x \<noteq> CHR ''%''"
    by (cases z) (simp_all only: list_all_iff)
  moreover have "\<forall>x \<in> set (UpperToLower p). \<not> is_control x \<and> x \<noteq> CHR ''/'' \<and> x \<noteq> CHR 0x5C \<and> x \<noteq> CHR ''%''"
    using c(2) tolower_clean by (fastforce simp: UpperToLower_def)
  ultimately show ?thesis unfolding c(1) by (simp only: set_append ball_Un) simp
qed

text \<open>The container name an operator has configured for a zone of a partition, if any.\<close>

definition configured_container :: "(string \<Rightarrow> PartitionConfig Result) \<Rightarrow> string \<Rightarrow> StorageZone \<Rightarrow> string option" where
  "configured_container registry part zone =
     (case registry part of
        Inl _ \<Rightarrow> None
      | Inr config \<Rightarrow>
          let name = (if zone = kStaging then pc_staging_container config else pc_persistent_container config) in
          if name = [] then None else Some name)"

text \<open>C40. Where the objects of a partition and zone go. A container an operator has configured for them is
  used as it is written; without one, the names of two zones or partitions are equal only for the same
  zone and for partitions that differ at most in the case of letters. No container name is empty or contains a slash,
  backslash, percent sign or control character. So data of different tenants meet only where partition names differ in case alone, or
  where a configured name makes them meet.\<close>

theorem ContainerFor_isolation:
  assumes "ContainerForRegistry registry p z = Ok c" "ContainerForRegistry registry q y = Ok d"
    and "\<And>part config. registry part = Ok config \<Longrightarrow> pc_partition config = part"
  shows "(case (configured_container registry p z, configured_container registry q y) of
      (None, None) \<Rightarrow> c = d \<longleftrightarrow> z = y \<and> same_letters p q
    | (Some name, None) \<Rightarrow> c = name
    | (None, Some name) \<Rightarrow> d = name
    | (Some name, Some name') \<Rightarrow> c = name \<and> d = name') \<and>
    c \<noteq> [] \<and> (\<forall>x \<in> set c. x \<noteq> CHR ''/'' \<and> x \<noteq> CHR 0x5C \<and> x \<noteq> CHR ''%'' \<and> (of_char x :: nat) \<ge> 32 \<and> (of_char x :: nat) \<noteq> 127)"
proof -
  have split: "case configured_container registry part zone of
      None \<Rightarrow> ContainerFor part zone = Ok n | Some name \<Rightarrow> n = name"
    and clean: "n \<noteq> []" "\<forall>x \<in> set n. \<not> is_control x \<and> x \<noteq> CHR ''/'' \<and> x \<noteq> CHR 0x5C \<and> x \<noteq> CHR ''%''"
    if "ContainerForRegistry registry part zone = Ok n" for part zone n
  proof -
    show "case configured_container registry part zone of None \<Rightarrow> ContainerFor part zone = Ok n | Some name \<Rightarrow> n = name"
    proof (cases "registry part")
      case (Inr config)
      then have "pc_partition config = part" using assms(3) by (simp add: Ok_def)
      then show ?thesis using that Inr
        by (simp add: ContainerForRegistry_def ContainerForConfig_def configured_container_def Let_def ValidateContainerName_Ok_iff split: if_splits)
    qed (use that in \<open>simp add: ContainerForRegistry_def configured_container_def\<close>)
    show "n \<noteq> []" "\<forall>x \<in> set n. \<not> is_control x \<and> x \<noteq> CHR ''/'' \<and> x \<noteq> CHR 0x5C \<and> x \<noteq> CHR ''%''"
      using that default_container_chars
      by (auto simp: ContainerForRegistry_def ContainerForConfig_def Let_def ValidateContainerName_Ok_iff split: sum.splits if_splits)
  qed
  have "(case (configured_container registry p z, configured_container registry q y) of
      (None, None) \<Rightarrow> c = d \<longleftrightarrow> z = y \<and> same_letters p q
    | (Some name, None) \<Rightarrow> c = name
    | (None, Some name) \<Rightarrow> d = name
    | (Some name, Some name') \<Rightarrow> c = name \<and> d = name')"
    using split [OF assms(1)] split [OF assms(2)] default_containers [of p z c q y] by (auto split: option.splits)
  moreover have "\<forall>x \<in> set c. x \<noteq> CHR ''/'' \<and> x \<noteq> CHR 0x5C \<and> x \<noteq> CHR ''%'' \<and> (of_char x :: nat) \<ge> 32 \<and> (of_char x :: nat) \<noteq> 127"
    using clean(2) [OF assms(1)] unfolding is_control_def by (metis not_less)
  ultimately show ?thesis using clean(1) [OF assms(1)] by (intro conjI)
qed

definition sample_registry :: "string \<Rightarrow> PartitionConfig Result" where
  "sample_registry part =
     (if part = ''opendes'' then Ok (default_PartitionConfig\<lparr>pc_partition := ''opendes'', pc_persistent_container := ''vault''\<rparr>)
      else Err kNotFound ''no such partition'')"

theorem ContainerFor_isolation_witness:
  "\<exists>c d e. ContainerForRegistry sample_registry ''opendes'' kStaging = Ok c \<and> ContainerForRegistry sample_registry ''OPENDES'' kStaging = Ok d \<and>
     ContainerForRegistry sample_registry ''open-des'' kStaging = Ok e \<and> c = d \<and> c \<noteq> e"
proof -
  have run: "ContainerForRegistry sample_registry ''opendes'' kStaging = Ok ''opendes-staging''"
    "ContainerForRegistry sample_registry ''OPENDES'' kStaging = Ok ''opendes-staging''"
    "ContainerForRegistry sample_registry ''open-des'' kStaging = Ok ''open-des-staging''" by code_simp+
  have reg: "sample_registry part = Ok config \<Longrightarrow> pc_partition config = part" for part config
    by (auto simp: sample_registry_def split: if_splits)
  have none: "configured_container sample_registry ''opendes'' kStaging = None" "configured_container sample_registry ''OPENDES'' kStaging = None"
    "configured_container sample_registry ''open-des'' kStaging = None" by code_simp+
  have "same_letters ''opendes'' ''OPENDES''" "\<not> same_letters ''opendes'' ''open-des''" by code_simp+
  then show ?thesis
    using ContainerFor_isolation [OF run(1,2) reg] ContainerFor_isolation [OF run(1,3) reg] run none by simp
qed

text \<open>Timestamps of four-digit years have the shape the locator requires.\<close>

lemma dash_map_digits:
  "digits_of_width w ds n \<Longrightarrow>
   map (\<lambda>c. if c = CHR ''T'' \<or> c = CHR '':'' then CHR ''-'' else c) ds = ds"
  by (rule map_idI) (auto simp: digits_of_width_def isdigit_def)

lemma upt_0_23: "[0..<23] = [0, 1, 2, 3, 4, 5, 6, 7, 8, 9, 10, 11, 12, 13, 14, 15, 16, 17, 18, 19, 20, 21, 22]"
  by code_simp

lemma digits_of_width_chars:
  "digits_of_width 2 s n \<Longrightarrow> \<exists>a b. s = [a, b] \<and> isdigit a \<and> isdigit b"
  "digits_of_width 3 s n \<Longrightarrow> \<exists>a b c. s = [a, b, c] \<and> isdigit a \<and> isdigit b \<and> isdigit c"
  "digits_of_width 4 s n \<Longrightarrow> \<exists>a b c d. s = [a, b, c, d] \<and> isdigit a \<and> isdigit b \<and> isdigit c \<and> isdigit d"
  by (auto simp: digits_of_width_def length_Suc_conv numeral_2_eq_2 numeral_3_eq_3 eval_nat_numeral)

lemma timestamp_shape_of_digits:
  assumes "digits_of_width 4 y n0" "digits_of_width 2 mo n1" "digits_of_width 2 d n2"
    "digits_of_width 2 h n3" "digits_of_width 2 mi n4" "digits_of_width 2 s n5" "digits_of_width 3 ms n6"
  shows "IsTimestampShape (y @ ''-'' @ mo @ ''-'' @ d @ ''-'' @ h @ ''-'' @ mi @ ''-'' @ s @ ''-'' @ ms)"
  using digits_of_width_chars(3) [OF assms(1)] digits_of_width_chars(1) [OF assms(2)]
    digits_of_width_chars(1) [OF assms(3)] digits_of_width_chars(1) [OF assms(4)]
    digits_of_width_chars(1) [OF assms(5)] digits_of_width_chars(1) [OF assms(6)]
    digits_of_width_chars(2) [OF assms(7)]
  by (elim exE conjE) (simp add: IsTimestampShape_def timestamp_dashes_def upt_0_23)

lemma FormatTimestamp_shape:
  assumes "0 \<le> ms" "1000 \<le> civil_year e" "civil_year e \<le> 9999"
  shows "IsTimestampShape (FormatTimestamp e ms)"
proof -
  obtain y yd where y: "year_of 1970 (e div 86400) = (y, yd)" by fastforce
  have b: "- 2147483648 \<le> y - 1900" "y - 1900 \<le> 2147483647"
    using assms(2,3) y by (simp_all add: civil_year_def)
  have g: "tm_valid (gmtime e)" "tm_year (gmtime e) = y" using gmtime_inverse [OF y b] by blast+
  let ?m = "tmod ms 1000" and ?t = "gmtime e"
  have yr: "1000 \<le> tm_year ?t" "tm_year ?t \<le> 9999" using assms(2,3) y g by (simp_all add: civil_year_def)
  have w: "digits_of_width 4 (to_string (tm_year ?t)) (tm_year ?t)"
    "digits_of_width 2 (pad2 (tm_mon ?t)) (tm_mon ?t)" "digits_of_width 2 (pad2 (tm_mday ?t)) (tm_mday ?t)"
    "digits_of_width 2 (pad2 (tm_hour ?t)) (tm_hour ?t)" "digits_of_width 2 (pad2 (tm_min ?t)) (tm_min ?t)"
    "digits_of_width 2 (pad2 (tm_sec ?t)) (tm_sec ?t)" "digits_of_width 3 (pad3 ?m) ?m"
    using width_to_string [of 3 "tm_year ?t"] yr g(1) DaysInMonth_le [of "tm_year ?t" "tm_mon ?t"] assms(1)
    by (auto simp: tm_valid_def intro!: width_pad2 width_pad3)
  have len: "length (date_time_text ?t) = 19" by (rule scan_date_time(2) [OF g(1) yr])
  have len3: "length (pad3 ?m) = 3" using w(7) by (simp add: digits_of_width_def)
  have "FormatTimestamp e ms = to_string (tm_year ?t) @ ''-'' @ pad2 (tm_mon ?t) @ ''-'' @ pad2 (tm_mday ?t) @
      ''-'' @ pad2 (tm_hour ?t) @ ''-'' @ pad2 (tm_min ?t) @ ''-'' @ pad2 (tm_sec ?t) @ ''-'' @ pad3 ?m"
    using len len3 w [THEN dash_map_digits]
    by (simp add: FormatTimestamp_def ToIso8601Utc_def Let_def) (simp add: date_time_text_def)
  then show ?thesis using timestamp_shape_of_digits [OF w] by simp
qed

end
