(* ===== verification/File_Metadata.thy ===== *)
theory File_Metadata
  imports Domain_Types Regex
begin

text \<open>
  \<^verbatim>\<open>domain/model/file_metadata\<close>: the \<open>dataset--File.Generic\<close> record, its mapping to and from JSON
  with unknown members carried through, and the validation of the required content. Structures
  are records with the source's members; \<open>extra\<close> members hold what the model does not name.
\<close>

section \<open>The record\<close>

record Acl =
  acl_viewers :: "string list"
  acl_owners :: "string list"
  acl_extra :: json

datatype LegalStatus = kCompliant | kIncompliant

record Legal =
  legal_tags :: "string list"
  legal_countries :: "string list"
  legal_status :: LegalStatus
  legal_extra :: json

record Ancestry =
  anc_parent :: "string option"
  anc_parents :: "string list"
  anc_extra :: json

record FileSourceInfo =
  fsi_file_source :: string
  fsi_present :: bool
  fsi_preload_file_path :: "string option"
  fsi_preload_file_create_user :: "string option"
  fsi_preload_file_create_date :: "string option"
  fsi_preload_file_modify_user :: "string option"
  fsi_preload_file_modify_date :: "string option"
  fsi_name :: "string option"
  fsi_file_size :: "string option"
  fsi_encoding_format_type_id :: "string option"
  fsi_checksum :: "string option"
  fsi_checksum_algorithm :: "string option"
  fsi_extra :: json

record DatasetProperties =
  dp_file_source_info :: FileSourceInfo
  dp_present :: bool
  dp_extra :: json

record FileData =
  fd_name :: "string option"
  fd_description :: "string option"
  fd_total_size :: "string option"
  fd_encoding_format_type_id :: "string option"
  fd_schema_format_type_id :: "string option"
  fd_endian :: "string option"
  fd_checksum :: "string option"
  fd_checksum_algorithm :: "string option"
  fd_resource_home_region_id :: "string option"
  fd_resource_host_region_ids :: "string list"
  fd_resource_curation_status :: "string option"
  fd_resource_lifecycle_status :: "string option"
  fd_resource_security_classification :: "string option"
  fd_source :: "string option"
  fd_existence_kind :: "string option"
  fd_dataset_properties :: DatasetProperties
  fd_extension_properties :: json
  fd_extra :: json

record FileMetadataRecord =
  fm_id :: string
  fm_kind :: string
  fm_version :: int
  fm_acl :: Acl
  fm_legal :: Legal
  fm_data :: FileData
  fm_ancestry :: "Ancestry option"
  fm_meta :: json
  fm_tags :: json
  fm_extra :: json

text \<open>The values the constructors of the source give.\<close>

definition default_FileSourceInfo :: FileSourceInfo where
  "default_FileSourceInfo = \<lparr>fsi_file_source = [], fsi_present = False, fsi_preload_file_path = None,
     fsi_preload_file_create_user = None, fsi_preload_file_create_date = None,
     fsi_preload_file_modify_user = None, fsi_preload_file_modify_date = None, fsi_name = None,
     fsi_file_size = None, fsi_encoding_format_type_id = None, fsi_checksum = None,
     fsi_checksum_algorithm = None, fsi_extra = jobject\<rparr>"

definition default_DatasetProperties :: DatasetProperties where
  "default_DatasetProperties = \<lparr>dp_file_source_info = default_FileSourceInfo, dp_present = False,
     dp_extra = jobject\<rparr>"

definition default_FileData :: FileData where
  "default_FileData = \<lparr>fd_name = None, fd_description = None, fd_total_size = None,
     fd_encoding_format_type_id = None, fd_schema_format_type_id = None, fd_endian = None,
     fd_checksum = None, fd_checksum_algorithm = None, fd_resource_home_region_id = None,
     fd_resource_host_region_ids = [], fd_resource_curation_status = None,
     fd_resource_lifecycle_status = None, fd_resource_security_classification = None,
     fd_source = None, fd_existence_kind = None, fd_dataset_properties = default_DatasetProperties,
     fd_extension_properties = jobject, fd_extra = jobject\<rparr>"

definition default_FileMetadataRecord :: FileMetadataRecord where
  "default_FileMetadataRecord = \<lparr>fm_id = [], fm_kind = [], fm_version = 0,
     fm_acl = \<lparr>acl_viewers = [], acl_owners = [], acl_extra = jobject\<rparr>,
     fm_legal = \<lparr>legal_tags = [], legal_countries = [], legal_status = kCompliant, legal_extra = jobject\<rparr>,
     fm_data = default_FileData, fm_ancestry = None, fm_meta = JArray [], fm_tags = jobject,
     fm_extra = jobject\<rparr>"

fun LegalStatusName :: "LegalStatus \<Rightarrow> string" where
  "LegalStatusName kCompliant = ''compliant''"
| "LegalStatusName kIncompliant = ''incompliant''"

definition ParseLegalStatus :: "string \<Rightarrow> LegalStatus option" where
  "ParseLegalStatus t =
     (if t = ''compliant'' then Some kCompliant
      else if t = ''incompliant'' then Some kIncompliant else None)"

definition RecordPartition :: "FileMetadataRecord \<Rightarrow> string" where
  "RecordPartition r =
     (if CHR '':'' \<notin> set (fm_id r) \<or> before_first (CHR '':'') (fm_id r) = [] then []
      else before_first (CHR '':'') (fm_id r))"

definition FileSourceOf :: "FileMetadataRecord \<Rightarrow> string" where
  "FileSourceOf r = fsi_file_source (dp_file_source_info (fd_dataset_properties (fm_data r)))"

section \<open>Member access\<close>

definition SetOpt :: "string \<Rightarrow> string option \<Rightarrow> members \<Rightarrow> members" where
  "SetOpt field v obj =
     (case v of None \<Rightarrow> obj | Some s \<Rightarrow> if s = [] then obj else jset field (JString s) obj)"

definition GetOpt :: "json \<Rightarrow> string \<Rightarrow> string option" where
  "GetOpt obj field =
     (case jfind obj field of Some (JString s) \<Rightarrow> if s = [] then None else Some s | _ \<Rightarrow> None)"

definition string_items :: "json list \<Rightarrow> string list" where
  "string_items xs = concat (map (\<lambda>v. case v of JString s \<Rightarrow> [s] | _ \<Rightarrow> []) xs)"

definition GetStrings :: "json \<Rightarrow> string \<Rightarrow> string list" where
  "GetStrings obj field =
     (case jfind obj field of Some (JArray xs) \<Rightarrow> string_items xs | _ \<Rightarrow> [])"

definition CollectExtra :: "json \<Rightarrow> string list \<Rightarrow> json" where
  "CollectExtra obj known =
     (case obj of JObject m \<Rightarrow> JObject (filter (\<lambda>p. fst p \<notin> set known) m) | _ \<Rightarrow> jobject)"

definition object_members :: "json \<Rightarrow> members" where
  "object_members v = (case v of JObject m \<Rightarrow> m | _ \<Rightarrow> [])"

definition HasControlChars :: "string \<Rightarrow> bool" where
  "HasControlChars s = list_ex is_control s"

definition AllUnique :: "string list \<Rightarrow> bool" where
  "AllUnique items = distinct items"

section \<open>To and from JSON\<close>

definition AclToJson :: "Acl \<Rightarrow> json" where
  "AclToJson a =
     JObject (jset ''owners'' (jstrings (acl_owners a))
       (jset ''viewers'' (jstrings (acl_viewers a)) (object_members (acl_extra a))))"

definition acl_known :: "string list" where
  "acl_known = [''viewers'', ''owners'']"

definition AclFromJson :: "json \<Rightarrow> Acl" where
  "AclFromJson v =
     \<lparr>acl_viewers = GetStrings v ''viewers'', acl_owners = GetStrings v ''owners'',
      acl_extra = CollectExtra v acl_known\<rparr>"

definition LegalToJson :: "Legal \<Rightarrow> json" where
  "LegalToJson l =
     JObject (jset ''status'' (JString (LegalStatusName (legal_status l)))
       (jset ''otherRelevantDataCountries'' (jstrings (legal_countries l))
         (jset ''legaltags'' (jstrings (legal_tags l)) (object_members (legal_extra l)))))"

definition legal_known :: "string list" where
  "legal_known = [''legaltags'', ''otherRelevantDataCountries'', ''status'']"

definition LegalFromJson :: "json \<Rightarrow> Legal" where
  "LegalFromJson v =
     \<lparr>legal_tags = GetStrings v ''legaltags'',
      legal_countries = GetStrings v ''otherRelevantDataCountries'',
      legal_status = (case GetOpt v ''status'' of
          None \<Rightarrow> kCompliant
        | Some s \<Rightarrow> (case ParseLegalStatus s of None \<Rightarrow> kCompliant | Some st \<Rightarrow> st)),
      legal_extra = CollectExtra v legal_known\<rparr>"

definition AncestryToJson :: "Ancestry \<Rightarrow> json" where
  "AncestryToJson a =
     (let out = object_members (anc_extra a);
          out = (case anc_parent a of None \<Rightarrow> out | Some p \<Rightarrow> jset ''parent'' (JString p) out);
          out = (if anc_parents a = [] then out else jset ''parents'' (jstrings (anc_parents a)) out)
      in JObject out)"

definition ancestry_known :: "string list" where
  "ancestry_known = [''parent'', ''parents'']"

definition AncestryFromJson :: "json \<Rightarrow> Ancestry" where
  "AncestryFromJson v =
     \<lparr>anc_parent = GetOpt v ''parent'', anc_parents = GetStrings v ''parents'',
      anc_extra = CollectExtra v ancestry_known\<rparr>"

definition FileSourceInfoToJson :: "FileSourceInfo \<Rightarrow> json" where
  "FileSourceInfoToJson i =
     JObject (SetOpt ''ChecksumAlgorithm'' (fsi_checksum_algorithm i)
       (SetOpt ''Checksum'' (fsi_checksum i)
       (SetOpt ''EncodingFormatTypeID'' (fsi_encoding_format_type_id i)
       (SetOpt ''FileSize'' (fsi_file_size i)
       (SetOpt ''Name'' (fsi_name i)
       (SetOpt ''PreloadFileModifyDate'' (fsi_preload_file_modify_date i)
       (SetOpt ''PreloadFileModifyUser'' (fsi_preload_file_modify_user i)
       (SetOpt ''PreloadFileCreateDate'' (fsi_preload_file_create_date i)
       (SetOpt ''PreloadFileCreateUser'' (fsi_preload_file_create_user i)
       (SetOpt ''PreloadFilePath'' (fsi_preload_file_path i)
       (jset ''FileSource'' (JString (fsi_file_source i)) (object_members (fsi_extra i)))))))))))))"

definition fsi_known :: "string list" where
  "fsi_known = [''FileSource'', ''PreloadFilePath'', ''PreloadFileCreateUser'',
     ''PreloadFileCreateDate'', ''PreloadFileModifyUser'', ''PreloadFileModifyDate'', ''Name'',
     ''FileSize'', ''EncodingFormatTypeID'', ''Checksum'', ''ChecksumAlgorithm'']"

definition FileSourceInfoFromJson :: "json \<Rightarrow> FileSourceInfo" where
  "FileSourceInfoFromJson v =
     \<lparr>fsi_file_source = (case GetOpt v ''FileSource'' of None \<Rightarrow> [] | Some s \<Rightarrow> s),
      fsi_present = False,
      fsi_preload_file_path = GetOpt v ''PreloadFilePath'',
      fsi_preload_file_create_user = GetOpt v ''PreloadFileCreateUser'',
      fsi_preload_file_create_date = GetOpt v ''PreloadFileCreateDate'',
      fsi_preload_file_modify_user = GetOpt v ''PreloadFileModifyUser'',
      fsi_preload_file_modify_date = GetOpt v ''PreloadFileModifyDate'',
      fsi_name = GetOpt v ''Name'',
      fsi_file_size = GetOpt v ''FileSize'',
      fsi_encoding_format_type_id = GetOpt v ''EncodingFormatTypeID'',
      fsi_checksum = GetOpt v ''Checksum'',
      fsi_checksum_algorithm = GetOpt v ''ChecksumAlgorithm'',
      fsi_extra = CollectExtra v fsi_known\<rparr>"

definition FileDataToJson :: "FileData \<Rightarrow> json" where
  "FileDataToJson d =
     (let out = object_members (fd_extra d);
          out = SetOpt ''Name'' (fd_name d) out;
          out = SetOpt ''Description'' (fd_description d) out;
          out = SetOpt ''TotalSize'' (fd_total_size d) out;
          out = SetOpt ''EncodingFormatTypeID'' (fd_encoding_format_type_id d) out;
          out = SetOpt ''SchemaFormatTypeID'' (fd_schema_format_type_id d) out;
          out = SetOpt ''Endian'' (fd_endian d) out;
          out = SetOpt ''Checksum'' (fd_checksum d) out;
          out = SetOpt ''ChecksumAlgorithm'' (fd_checksum_algorithm d) out;
          out = SetOpt ''ResourceHomeRegionID'' (fd_resource_home_region_id d) out;
          out = (if fd_resource_host_region_ids d = [] then out
                 else jset ''ResourceHostRegionIDs'' (jstrings (fd_resource_host_region_ids d)) out);
          out = SetOpt ''ResourceCurationStatus'' (fd_resource_curation_status d) out;
          out = SetOpt ''ResourceLifecycleStatus'' (fd_resource_lifecycle_status d) out;
          out = SetOpt ''ResourceSecurityClassification'' (fd_resource_security_classification d) out;
          out = SetOpt ''Source'' (fd_source d) out;
          out = SetOpt ''ExistenceKind'' (fd_existence_kind d) out;
          ds = jset ''FileSourceInfo''
                 (FileSourceInfoToJson (dp_file_source_info (fd_dataset_properties d)))
                 (object_members (dp_extra (fd_dataset_properties d)));
          out = jset ''DatasetProperties'' (JObject ds) out;
          out = jset ''ExtensionProperties'' (JObject (object_members (fd_extension_properties d))) out
      in JObject out)"

definition fd_known :: "string list" where
  "fd_known = [''Name'', ''Description'', ''TotalSize'', ''EncodingFormatTypeID'',
     ''SchemaFormatTypeID'', ''Endian'', ''Checksum'', ''ChecksumAlgorithm'',
     ''ResourceHomeRegionID'', ''ResourceHostRegionIDs'', ''ResourceCurationStatus'',
     ''ResourceLifecycleStatus'', ''ResourceSecurityClassification'', ''Source'', ''ExistenceKind'',
     ''DatasetProperties'', ''ExtensionProperties'']"

definition DatasetPropertiesFromJson :: "json option \<Rightarrow> DatasetProperties" where
  "DatasetPropertiesFromJson v =
     (case v of
        Some (JObject m) \<Rightarrow>
          \<lparr>dp_file_source_info =
             (case map_of m ''FileSourceInfo'' of
                Some (JObject fs) \<Rightarrow> (FileSourceInfoFromJson (JObject fs))\<lparr>fsi_present := True\<rparr>
              | _ \<Rightarrow> default_FileSourceInfo),
           dp_present = True,
           dp_extra = CollectExtra (JObject m) [''FileSourceInfo'']\<rparr>
      | _ \<Rightarrow> default_DatasetProperties)"

definition FileDataFromJson :: "json \<Rightarrow> FileData" where
  "FileDataFromJson v =
     \<lparr>fd_name = GetOpt v ''Name'',
      fd_description = GetOpt v ''Description'',
      fd_total_size = GetOpt v ''TotalSize'',
      fd_encoding_format_type_id = GetOpt v ''EncodingFormatTypeID'',
      fd_schema_format_type_id = GetOpt v ''SchemaFormatTypeID'',
      fd_endian = GetOpt v ''Endian'',
      fd_checksum = GetOpt v ''Checksum'',
      fd_checksum_algorithm = GetOpt v ''ChecksumAlgorithm'',
      fd_resource_home_region_id = GetOpt v ''ResourceHomeRegionID'',
      fd_resource_host_region_ids = GetStrings v ''ResourceHostRegionIDs'',
      fd_resource_curation_status = GetOpt v ''ResourceCurationStatus'',
      fd_resource_lifecycle_status = GetOpt v ''ResourceLifecycleStatus'',
      fd_resource_security_classification = GetOpt v ''ResourceSecurityClassification'',
      fd_source = GetOpt v ''Source'',
      fd_existence_kind = GetOpt v ''ExistenceKind'',
      fd_dataset_properties = DatasetPropertiesFromJson (jfind v ''DatasetProperties''),
      fd_extension_properties =
        (case jfind v ''ExtensionProperties'' of None \<Rightarrow> jobject | Some e \<Rightarrow> e),
      fd_extra = CollectExtra v fd_known\<rparr>"

definition ToJson :: "FileMetadataRecord \<Rightarrow> json" where
  "ToJson r =
     (let out = object_members (fm_extra r);
          out = (if fm_id r = [] then out else jset ''id'' (JString (fm_id r)) out);
          out = (if fm_kind r = [] then out else jset ''kind'' (JString (fm_kind r)) out);
          out = (if fm_version r > 0 then jset ''version'' (JInt (fm_version r)) out else out);
          out = jset ''acl'' (AclToJson (fm_acl r)) out;
          out = jset ''legal'' (LegalToJson (fm_legal r)) out;
          out = jset ''data'' (FileDataToJson (fm_data r)) out;
          out = (case fm_ancestry r of None \<Rightarrow> out | Some a \<Rightarrow> jset ''ancestry'' (AncestryToJson a) out);
          out = (if is_null (fm_meta r) then out else jset ''meta'' (fm_meta r) out);
          out = (if is_object (fm_tags r) \<and> \<not> jempty (fm_tags r) then jset ''tags'' (fm_tags r) out else out)
      in JObject out)"

definition scalar_ok :: "string \<Rightarrow> bool" where
  "scalar_ok s \<longleftrightarrow> s = ''STANDARD'' \<or> s = ''NOSCALE'' \<or> s = ''OVERRIDE''"

fun check_scalars :: "json list \<Rightarrow> unit Result" where
  "check_scalars [] = Ok ()"
| "check_scalars (item # items) =
     (case jfind item ''ScalarIndicator'' of
        None \<Rightarrow> check_scalars items
      | Some (JString s) \<Rightarrow>
          if scalar_ok s then check_scalars items
          else Err kInvalidArgument (''Invalid value of '' @ s @ '' for ScalarIndicator'')
      | Some _ \<Rightarrow> Err kInvalidArgument ''Invalid value of null for ScalarIndicator'')"

definition CheckEnums :: "json \<Rightarrow> unit Result" where
  "CheckEnums d =
     FSS_TRY
       (case jfind d ''Endian'' of
          Some (JString s) \<Rightarrow>
            if s \<noteq> ''BIG'' \<and> s \<noteq> ''LITTLE''
            then Err kInvalidArgument (''Invalid value of '' @ s @ '' for Endian'') else Ok ()
        | _ \<Rightarrow> Ok ())
       (\<lambda>_. case jfind d ''VectorHeaderMapping'' of Some (JArray xs) \<Rightarrow> check_scalars xs | _ \<Rightarrow> Ok ())"

text \<open>The four required sections, in the order the parser looks for them. An empty object counts
  as missing for \<open>data\<close> only.\<close>

fun require_sections :: "(string \<times> string \<times> bool) list \<Rightarrow> json \<Rightarrow> unit Result" where
  "require_sections [] v = Ok ()"
| "require_sections ((key, message, empty_is_missing) # ss) v =
     (case jfind v key of
        None \<Rightarrow> Err kInvalidArgument message
      | Some x \<Rightarrow>
          if empty_is_missing \<and> is_object x \<and> jempty x then Err kInvalidArgument message
          else require_sections ss v)"

definition required_sections :: "(string \<times> string \<times> bool) list" where
  "required_sections =
     [(''kind'', ''kind must not be null'', False), (''acl'', ''acl must not be null'', False),
      (''legal'', ''legal tag cannot be empty'', False), (''data'', ''data cannot be empty'', True)]"

definition fm_known :: "string list" where
  "fm_known = [''id'', ''kind'', ''version'', ''acl'', ''legal'', ''data'', ''ancestry'', ''meta'', ''tags'']"

definition ParseFileMetadataRecord :: "json \<Rightarrow> FileMetadataRecord Result" where
  "ParseFileMetadataRecord v =
     (if \<not> is_object v then Err kInvalidArgument msg_record_must_be_object
      else FSS_TRY (require_sections required_sections v) (\<lambda>_.
        let r = default_FileMetadataRecord;
            r = (case GetOpt v ''id'' of None \<Rightarrow> r | Some s \<Rightarrow> r\<lparr>fm_id := s\<rparr>);
            r = (case GetOpt v ''kind'' of None \<Rightarrow> r | Some s \<Rightarrow> r\<lparr>fm_kind := s\<rparr>);
            r = (case jfind v ''version'' of
                   Some x \<Rightarrow> if is_number_integer x then r\<lparr>fm_version := get_int64 x\<rparr> else r
                 | None \<Rightarrow> r) in
        FSS_TRY
          (case jfind v ''acl'' of
             None \<Rightarrow> Ok r
           | Some a \<Rightarrow> if \<not> is_object a then Err kInvalidArgument msg_acl_must_be_object
                       else Ok (r\<lparr>fm_acl := AclFromJson a\<rparr>)) (\<lambda>r.
        FSS_TRY
          (case jfind v ''legal'' of
             None \<Rightarrow> Ok r
           | Some l \<Rightarrow> if \<not> is_object l then Err kInvalidArgument msg_legal_must_be_object
                       else Ok (r\<lparr>fm_legal := LegalFromJson l\<rparr>)) (\<lambda>r.
        FSS_TRY
          (case jfind v ''data'' of
             None \<Rightarrow> Ok r
           | Some d \<Rightarrow> if \<not> is_object d then Err kInvalidArgument msg_data_must_be_object
                       else FSS_TRY (CheckEnums d) (\<lambda>_. Ok (r\<lparr>fm_data := FileDataFromJson d\<rparr>))) (\<lambda>r.
        let r = (case jfind v ''ancestry'' of
                   Some a \<Rightarrow> if is_object a then r\<lparr>fm_ancestry := Some (AncestryFromJson a)\<rparr> else r
                 | None \<Rightarrow> r);
            r = (case jfind v ''meta'' of Some m \<Rightarrow> r\<lparr>fm_meta := m\<rparr> | None \<Rightarrow> r);
            r = (case jfind v ''tags'' of
                   Some t \<Rightarrow> if is_object t then r\<lparr>fm_tags := t\<rparr> else r
                 | None \<Rightarrow> r)
        in Ok (r\<lparr>fm_extra := CollectExtra v fm_known\<rparr>))))))"

section \<open>Validation\<close>

definition principal_char :: "char \<Rightarrow> bool" where
  "principal_char c \<longleftrightarrow> isalnum c \<or> c = CHR ''_'' \<or> c = CHR ''+'' \<or> c = CHR ''&'' \<or> c = CHR ''*'' \<or> c = CHR ''-''"

definition label_char :: "char \<Rightarrow> bool" where
  "label_char c \<longleftrightarrow> isalnum c \<or> c = CHR ''-''"

definition acl_principal_regex :: rx where
  "acl_principal_regex =
     (let name = rplus (RCls principal_char); dot = RCls (\<lambda>c. c = CHR ''.'');
          label = RSeq (RCls isalpha) (ropt (RSeq (rupto 61 (RCls label_char)) (RCls isalnum))) in
      RSeq (rlit ''data.'') (RSeq name (RSeq (RStar (RSeq dot name)) (RSeq (RCls (\<lambda>c. c = CHR ''@''))
        (RSeq (rplus (RSeq label dot)) label)))))"

definition IsValidAclPrincipal :: "string \<Rightarrow> bool" where
  "IsValidAclPrincipal s = regex_match acl_principal_regex s"

definition IsValidLegalTag :: "string \<Rightarrow> bool" where
  "IsValidLegalTag t \<longleftrightarrow> t \<noteq> [] \<and> \<not> HasControlChars t \<and> length t \<le> 256"

type_synonym issue = "string \<times> string"

definition add_if :: "bool \<Rightarrow> string \<Rightarrow> string \<Rightarrow> issue list" where
  "add_if b path message = (if b then [(path, message)] else [])"

definition kind_issues :: "FileMetadataRecord \<Rightarrow> issue list" where
  "kind_issues r =
     (if fm_kind r = [] then [(''kind'', ''kind must not be null'')]
      else add_if (1 + count_list (fm_kind r) (CHR '':'') \<noteq> 4) ''kind'' ''Invalid kind'' @
           add_if (length (fm_kind r) > 512) ''kind'' msg_kind_too_long)"

definition acl_issues :: "Acl \<Rightarrow> issue list" where
  "acl_issues a =
     add_if (acl_viewers a = []) ''acl.viewers'' ''Record acl.viewers cannot be empty'' @
     add_if (acl_owners a = []) ''acl.owners'' ''Record acl.owners cannot be empty'' @
     concat (map (\<lambda>v. add_if (\<not> IsValidAclPrincipal v) ''acl.viewers'' (msg_acl_principal_invalid @ v))
       (acl_viewers a)) @
     concat (map (\<lambda>v. add_if (\<not> IsValidAclPrincipal v) ''acl.owners'' (msg_acl_principal_invalid @ v))
       (acl_owners a))"

definition country_code :: "string \<Rightarrow> bool" where
  "country_code c \<longleftrightarrow> length c = 2 \<and> isalpha (c ! 0) \<and> isalpha (c ! 1)"

definition legal_issues :: "Legal \<Rightarrow> issue list" where
  "legal_issues l =
     add_if (legal_tags l = []) ''legal.legaltags'' ''legal tag cannot be empty'' @
     add_if (legal_countries l = []) ''legal.otherRelevantDataCountries''
       msg_countries_empty @
     add_if (\<not> AllUnique (legal_tags l)) ''legal.legaltags'' msg_tags_unique @
     add_if (\<not> AllUnique (legal_countries l)) ''legal.otherRelevantDataCountries''
       msg_countries_unique @
     concat (map (\<lambda>t. add_if (\<not> IsValidLegalTag t) ''legal.legaltags'' (msg_legal_tag_invalid @ t))
       (legal_tags l)) @
     concat (map (\<lambda>c. add_if (\<not> country_code c) ''legal.otherRelevantDataCountries''
         (msg_country_two_letters @ c)) (legal_countries l))"

definition file_source_path :: string where
  "file_source_path = ''data.DatasetProperties.FileSourceInfo.FileSource''"

definition file_source_issues :: "string \<Rightarrow> issue list" where
  "file_source_issues fs =
     (if fs = [] then [(file_source_path, ''FileSource can not be empty'')]
      else let message = ''Invalid source file path to copy from '' @ fs in
        add_if (hd fs \<noteq> CHR ''/'') file_source_path message @
        add_if (contains_str ''..'' fs) file_source_path message @
        add_if (HasControlChars fs) file_source_path message)"

definition scalar_issues :: "json \<Rightarrow> issue list" where
  "scalar_issues item =
     (case jfind item ''ScalarIndicator'' of
        None \<Rightarrow> []
      | Some (JString s) \<Rightarrow>
          add_if (\<not> scalar_ok s) ''data.VectorHeaderMapping.ScalarIndicator''
            (''Invalid value of '' @ s @ '' for ScalarIndicator'')
      | Some _ \<Rightarrow> [(''data.VectorHeaderMapping.ScalarIndicator'',
                    ''Invalid value of null for ScalarIndicator'')])"

definition data_issues :: "FileData \<Rightarrow> issue list" where
  "data_issues d =
     (let props = fd_dataset_properties d; info = dp_file_source_info props;
          props_present = (dp_present props \<or> \<not> jempty (dp_extra props) \<or> fsi_file_source info \<noteq> []) in
      file_source_issues (fsi_file_source info) @
      (case fd_endian d of
         Some e \<Rightarrow> add_if (e \<noteq> ''BIG'' \<and> e \<noteq> ''LITTLE'') ''data.Endian'' (''Invalid value of '' @ e @ '' for Endian'')
       | None \<Rightarrow> []) @
      (if \<not> props_present then [(''data.DatasetProperties'', ''DatasetProperties cannot be empty'')]
       else add_if (\<not> fsi_present info \<and> fsi_file_source info = [])
         ''data.DatasetProperties.FileSourceInfo'' ''FileSourceInfo cannot be empty'') @
      (case jfind (fd_extra d) ''VectorHeaderMapping'' of
         Some (JArray xs) \<Rightarrow> concat (map scalar_issues xs)
       | _ \<Rightarrow> []))"

definition ValidateMetadataRecord :: "FileMetadataRecord \<Rightarrow> issue list" where
  "ValidateMetadataRecord r =
     kind_issues r @ acl_issues (fm_acl r) @ legal_issues (fm_legal r) @ data_issues (fm_data r)"

section \<open>Reading what was written\<close>

definition opt_ok :: "string option \<Rightarrow> bool" where
  "opt_ok v \<longleftrightarrow> v \<noteq> Some []"

definition extra_ok :: "string list \<Rightarrow> json \<Rightarrow> bool" where
  "extra_ok known e \<longleftrightarrow> is_object e \<and> list_all (\<lambda>p. fst p \<notin> set known) (object_members e)"

lemma map_of_SetOpt:
  "map_of (SetOpt k v m) x =
     (if x = k \<and> v \<noteq> None \<and> v \<noteq> Some [] then Some (JString (the v)) else map_of m x)"
  by (auto simp: SetOpt_def jset_def split: option.splits)

lemma map_of_jset: "map_of (jset k v m) x = (if x = k then Some v else map_of m x)"
  by (simp add: jset_def)

lemma GetOpt_SetOpt_same [simp]:
  "opt_ok v \<Longrightarrow> map_of m k = None \<Longrightarrow> GetOpt (JObject (SetOpt k v m)) k = v"
  by (cases v) (auto simp: GetOpt_def map_of_SetOpt opt_ok_def)

lemma GetOpt_SetOpt_other [simp]: "x \<noteq> k \<Longrightarrow> GetOpt (JObject (SetOpt k v m)) x = GetOpt (JObject m) x"
  by (simp add: GetOpt_def map_of_SetOpt)

lemma GetOpt_jset_other [simp]: "x \<noteq> k \<Longrightarrow> GetOpt (JObject (jset k v m)) x = GetOpt (JObject m) x"
  by (simp add: GetOpt_def map_of_jset)

lemma GetOpt_jset_same [simp]: "GetOpt (JObject (jset k (JString s) m)) k = (if s = [] then None else Some s)"
  by (simp add: GetOpt_def map_of_jset)

lemma GetOpt_absent [simp]: "map_of m k = None \<Longrightarrow> GetOpt (JObject m) k = None"
  by (simp add: GetOpt_def)

lemma string_items_JString [simp]: "string_items (map JString xs) = xs"
  by (induction xs) (simp_all add: string_items_def)

lemma GetStrings_jset_same [simp]: "GetStrings (JObject (jset k (jstrings xs) m)) k = xs"
  by (simp add: GetStrings_def map_of_jset jstrings_def)

lemma GetStrings_other [simp]:
  "x \<noteq> k \<Longrightarrow> GetStrings (JObject (jset k v m)) x = GetStrings (JObject m) x"
  "x \<noteq> k \<Longrightarrow> GetStrings (JObject (SetOpt k o' m)) x = GetStrings (JObject m) x"
  by (simp_all add: GetStrings_def map_of_jset map_of_SetOpt)

lemma GetStrings_absent [simp]: "map_of m k = None \<Longrightarrow> GetStrings (JObject m) k = []"
  by (simp add: GetStrings_def)

lemma filter_jset_known [simp]:
  "k \<in> set known \<Longrightarrow> filter (\<lambda>p. fst p \<notin> set known) (jset k v m) = filter (\<lambda>p. fst p \<notin> set known) m"
  by (induction k v m rule: map_put.induct) (auto simp: jset_def)

lemma filter_SetOpt_known [simp]:
  "k \<in> set known \<Longrightarrow> filter (\<lambda>p. fst p \<notin> set known) (SetOpt k v m) = filter (\<lambda>p. fst p \<notin> set known) m"
  by (auto simp: SetOpt_def split: option.splits)

lemma CollectExtra_jset [simp]:
  "k \<in> set known \<Longrightarrow> CollectExtra (JObject (jset k v m)) known = CollectExtra (JObject m) known"
  "k \<in> set known \<Longrightarrow> CollectExtra (JObject (SetOpt k w m)) known = CollectExtra (JObject m) known"
  by (simp_all add: CollectExtra_def)

lemma CollectExtra_extra [simp]:
  "extra_ok known e \<Longrightarrow> CollectExtra (JObject (object_members e)) known = e"
  by (cases e) (auto simp: extra_ok_def CollectExtra_def object_members_def list_all_iff is_object_def
      intro!: filter_True)

lemma extra_absent:
  assumes "extra_ok known e" "k \<in> set known"
  shows "map_of (object_members e) k = None"
  using assms by (auto simp: extra_ok_def list_all_iff map_of_eq_None_iff)

lemma object_members_object [simp]: "is_object e \<Longrightarrow> JObject (object_members e) = e"
  by (cases e) (simp_all add: is_object_def object_members_def)

section \<open>Round trip of the record\<close>

definition acl_canonical :: "Acl \<Rightarrow> bool" where
  "acl_canonical a \<longleftrightarrow> extra_ok acl_known (acl_extra a)"

definition legal_canonical :: "Legal \<Rightarrow> bool" where
  "legal_canonical l \<longleftrightarrow> extra_ok legal_known (legal_extra l)"

definition ancestry_canonical :: "Ancestry \<Rightarrow> bool" where
  "ancestry_canonical a \<longleftrightarrow> extra_ok ancestry_known (anc_extra a) \<and> opt_ok (anc_parent a)"

definition fsi_canonical :: "FileSourceInfo \<Rightarrow> bool" where
  "fsi_canonical i \<longleftrightarrow> fsi_present i \<and> extra_ok fsi_known (fsi_extra i) \<and>
     list_all opt_ok [fsi_preload_file_path i, fsi_preload_file_create_user i,
       fsi_preload_file_create_date i, fsi_preload_file_modify_user i, fsi_preload_file_modify_date i,
       fsi_name i, fsi_file_size i, fsi_encoding_format_type_id i, fsi_checksum i,
       fsi_checksum_algorithm i]"

definition fd_canonical :: "FileData \<Rightarrow> bool" where
  "fd_canonical d \<longleftrightarrow> extra_ok fd_known (fd_extra d) \<and>
     list_all opt_ok [fd_name d, fd_description d, fd_total_size d, fd_encoding_format_type_id d,
       fd_schema_format_type_id d, fd_endian d, fd_checksum d, fd_checksum_algorithm d,
       fd_resource_home_region_id d, fd_resource_curation_status d, fd_resource_lifecycle_status d,
       fd_resource_security_classification d, fd_source d, fd_existence_kind d] \<and>
     dp_present (fd_dataset_properties d) \<and>
     extra_ok [''FileSourceInfo''] (dp_extra (fd_dataset_properties d)) \<and>
     fsi_canonical (dp_file_source_info (fd_dataset_properties d)) \<and>
     is_object (fd_extension_properties d) \<and> fd_endian d \<in> {None, Some ''BIG'', Some ''LITTLE''} \<and>
     (case jfind (fd_extra d) ''VectorHeaderMapping'' of
        Some (JArray xs) \<Rightarrow> check_scalars xs = Ok () | _ \<Rightarrow> True)"

definition record_canonical :: "FileMetadataRecord \<Rightarrow> bool" where
  "record_canonical r \<longleftrightarrow> fm_kind r \<noteq> [] \<and> 0 \<le> fm_version r \<and> acl_canonical (fm_acl r) \<and>
     legal_canonical (fm_legal r) \<and> fd_canonical (fm_data r) \<and>
     (case fm_ancestry r of None \<Rightarrow> True | Some a \<Rightarrow> ancestry_canonical a) \<and>
     \<not> is_null (fm_meta r) \<and> is_object (fm_tags r) \<and> extra_ok fm_known (fm_extra r)"

lemma Acl_roundtrip: "acl_canonical a \<Longrightarrow> AclFromJson (AclToJson a) = a"
  by (simp add: acl_canonical_def AclFromJson_def AclToJson_def) (simp add: acl_known_def)

lemma Legal_roundtrip: "legal_canonical l \<Longrightarrow> LegalFromJson (LegalToJson l) = l"
  by (cases "legal_status l")
     (simp_all add: legal_canonical_def LegalFromJson_def LegalToJson_def legal_known_def ParseLegalStatus_def)

lemma Ancestry_roundtrip:
  assumes "ancestry_canonical a"
  shows "AncestryFromJson (AncestryToJson a) = a"
proof -
  have absent: "map_of (object_members (anc_extra a)) k = None" if "k \<in> set ancestry_known" for k
    using assms that by (auto simp: ancestry_canonical_def intro: extra_absent)
  have "CollectExtra (JObject (object_members (anc_extra a))) ancestry_known = anc_extra a"
    using assms by (simp add: ancestry_canonical_def)
  then show ?thesis
    using assms absent
    by (cases "anc_parent a"; cases "anc_parents a = []")
       (simp_all add: ancestry_canonical_def AncestryFromJson_def AncestryToJson_def Let_def
          ancestry_known_def opt_ok_def)
qed

lemma FileSourceInfo_roundtrip:
  assumes "fsi_canonical i"
  shows "(FileSourceInfoFromJson (FileSourceInfoToJson i))\<lparr>fsi_present := True\<rparr> = i"
proof -
  have absent: "map_of (object_members (fsi_extra i)) k = None" if "k \<in> set fsi_known" for k
    using assms that by (auto simp: fsi_canonical_def intro: extra_absent)
  have "CollectExtra (JObject (object_members (fsi_extra i))) fsi_known = fsi_extra i"
    using assms by (simp add: fsi_canonical_def)
  then show ?thesis
    using assms absent
    by (simp add: fsi_canonical_def FileSourceInfoFromJson_def FileSourceInfoToJson_def
        map_of_SetOpt map_of_jset fsi_known_def)
qed

lemma DatasetProperties_roundtrip:
  assumes "dp_present p" "extra_ok [''FileSourceInfo''] (dp_extra p)"
    "fsi_canonical (dp_file_source_info p)"
  shows "DatasetPropertiesFromJson (Some (JObject (jset ''FileSourceInfo''
           (FileSourceInfoToJson (dp_file_source_info p)) (object_members (dp_extra p))))) = p"
proof -
  obtain m where m: "FileSourceInfoToJson (dp_file_source_info p) = JObject m"
    by (simp add: FileSourceInfoToJson_def)
  have "(FileSourceInfoFromJson (JObject m))\<lparr>fsi_present := True\<rparr> = dp_file_source_info p"
    using FileSourceInfo_roundtrip [OF assms(3)] by (simp add: m)
  then show ?thesis
    using assms by (simp add: DatasetPropertiesFromJson_def map_of_jset m)
qed

text \<open>A sequence of member writes, as one fold: the keys written are those of the list, an absent
  value leaves the member alone.\<close>

definition put_opt :: "string \<times> json option \<Rightarrow> members \<Rightarrow> members" where
  "put_opt kv m = (case snd kv of None \<Rightarrow> m | Some v \<Rightarrow> jset (fst kv) v m)"

definition opt_member :: "string option \<Rightarrow> json option" where
  "opt_member v = (case v of None \<Rightarrow> None | Some s \<Rightarrow> if s = [] then None else Some (JString s))"

lemma SetOpt_put: "SetOpt k v m = put_opt (k, opt_member v) m"
  by (simp add: SetOpt_def put_opt_def opt_member_def split: option.split)

lemma map_of_put_opt:
  "map_of (put_opt kv m) k = (if fst kv = k \<and> snd kv \<noteq> None then snd kv else map_of m k)"
  by (auto simp: put_opt_def map_of_jset split: option.split)

lemma map_of_puts_other: "k \<notin> fst ` set kvs \<Longrightarrow> map_of (fold put_opt kvs m) k = map_of m k"
  by (induction kvs arbitrary: m) (auto simp: map_of_put_opt)

lemma map_of_puts:
  assumes "distinct (map fst kvs)" "map_of kvs k = Some v"
  shows "map_of (fold put_opt kvs m) k = (if v = None then map_of m k else v)"
  using assms
proof (induction kvs arbitrary: m)
  case (Cons kv kvs)
  show ?case
  proof (cases "fst kv = k")
    case True
    then have "k \<notin> fst ` set kvs" using Cons.prems(1) by auto
    then show ?thesis using True Cons.prems by (cases kv) (simp add: map_of_puts_other map_of_put_opt)
  next
    case False
    then show ?thesis using Cons by (cases kv) (simp add: map_of_put_opt)
  qed
qed simp

lemma CollectExtra_puts:
  "fst ` set kvs \<subseteq> set known \<Longrightarrow>
     CollectExtra (JObject (fold put_opt kvs m)) known = CollectExtra (JObject m) known"
  by (induction kvs arbitrary: m) (auto simp: put_opt_def split: option.split)

lemma GetOpt_member: "jfind v k = opt_member x \<Longrightarrow> opt_ok x \<Longrightarrow> GetOpt v k = x"
  by (auto simp: GetOpt_def opt_member_def opt_ok_def split: option.splits if_splits)

definition fd_members :: "FileData \<Rightarrow> (string \<times> json option) list" where
  "fd_members d =
     [(''Name'', opt_member (fd_name d)), (''Description'', opt_member (fd_description d)),
      (''TotalSize'', opt_member (fd_total_size d)),
      (''EncodingFormatTypeID'', opt_member (fd_encoding_format_type_id d)),
      (''SchemaFormatTypeID'', opt_member (fd_schema_format_type_id d)),
      (''Endian'', opt_member (fd_endian d)), (''Checksum'', opt_member (fd_checksum d)),
      (''ChecksumAlgorithm'', opt_member (fd_checksum_algorithm d)),
      (''ResourceHomeRegionID'', opt_member (fd_resource_home_region_id d)),
      (''ResourceHostRegionIDs'', if fd_resource_host_region_ids d = [] then None
         else Some (jstrings (fd_resource_host_region_ids d))),
      (''ResourceCurationStatus'', opt_member (fd_resource_curation_status d)),
      (''ResourceLifecycleStatus'', opt_member (fd_resource_lifecycle_status d)),
      (''ResourceSecurityClassification'', opt_member (fd_resource_security_classification d)),
      (''Source'', opt_member (fd_source d)), (''ExistenceKind'', opt_member (fd_existence_kind d)),
      (''DatasetProperties'', Some (JObject (jset ''FileSourceInfo''
         (FileSourceInfoToJson (dp_file_source_info (fd_dataset_properties d)))
         (object_members (dp_extra (fd_dataset_properties d)))))),
      (''ExtensionProperties'', Some (JObject (object_members (fd_extension_properties d))))]"

lemma FileDataToJson_fold: "FileDataToJson d = JObject (fold put_opt (fd_members d) (object_members (fd_extra d)))"
  by (simp add: FileDataToJson_def Let_def SetOpt_put fd_members_def) (simp add: put_opt_def)

lemma fd_members_keys: "map fst (fd_members d) = fd_known"
  by (simp add: fd_members_def fd_known_def)

lemma distinct_fd_known: "distinct fd_known"
  by (simp add: fd_known_def)

lemma FileDataToJson_member:
  assumes "extra_ok fd_known (fd_extra d)" "(k, v) \<in> set (fd_members d)"
  shows "jfind (FileDataToJson d) k = v"
proof -
  have k: "map_of (fd_members d) k = Some v"
    using assms(2) by (simp add: map_of_eq_Some_iff fd_members_keys distinct_fd_known)
  have "k \<in> set fd_known" unfolding fd_members_keys [of d, symmetric] using assms(2) by force
  then have "map_of (object_members (fd_extra d)) k = None" using extra_absent [OF assms(1)] by simp
  then show ?thesis
    using map_of_puts [OF _ k, of "object_members (fd_extra d)"]
    by (simp add: FileDataToJson_fold fd_members_keys distinct_fd_known split: if_splits)
qed

lemma FileDataToJson_opt:
  assumes "extra_ok fd_known (fd_extra d)" "(k, opt_member x) \<in> set (fd_members d)" "opt_ok x"
  shows "GetOpt (FileDataToJson d) k = x"
  using FileDataToJson_member [OF assms(1,2)] assms(3) by (rule GetOpt_member)

lemma FileData_roundtrip:
  assumes "fd_canonical d"
  shows "FileDataFromJson (FileDataToJson d) = d"
proof -
  have ok: "extra_ok fd_known (fd_extra d)" using assms by (simp add: fd_canonical_def)
  note member = FileDataToJson_member [OF ok] and opt = FileDataToJson_opt [OF ok]
  have extra: "CollectExtra (FileDataToJson d) fd_known = fd_extra d"
    unfolding FileDataToJson_fold using ok
    by (subst CollectExtra_puts) (simp_all add: fd_members_keys [symmetric, of d] image_set del: image_set [symmetric])
  have props: "DatasetPropertiesFromJson (jfind (FileDataToJson d) ''DatasetProperties'') = fd_dataset_properties d"
    using assms by (subst member) (auto simp: fd_members_def DatasetProperties_roundtrip fd_canonical_def)
  have ext: "jfind (FileDataToJson d) ''ExtensionProperties'' = Some (fd_extension_properties d)"
    using assms by (subst member) (auto simp: fd_members_def fd_canonical_def)
  have "jfind (FileDataToJson d) ''ResourceHostRegionIDs'' = (if fd_resource_host_region_ids d = [] then None
         else Some (jstrings (fd_resource_host_region_ids d)))"
    by (rule member) (simp add: fd_members_def)
  then have regions: "GetStrings (FileDataToJson d) ''ResourceHostRegionIDs'' = fd_resource_host_region_ids d"
    by (simp add: GetStrings_def jstrings_def)
  have opts: "opt_ok (fd_name d)" "opt_ok (fd_description d)" "opt_ok (fd_total_size d)"
      "opt_ok (fd_encoding_format_type_id d)" "opt_ok (fd_schema_format_type_id d)" "opt_ok (fd_endian d)"
      "opt_ok (fd_checksum d)" "opt_ok (fd_checksum_algorithm d)" "opt_ok (fd_resource_home_region_id d)"
      "opt_ok (fd_resource_curation_status d)" "opt_ok (fd_resource_lifecycle_status d)"
      "opt_ok (fd_resource_security_classification d)" "opt_ok (fd_source d)" "opt_ok (fd_existence_kind d)"
    using assms by (simp_all add: fd_canonical_def)
  note strings = opts [THEN opt [rotated]]
  show ?thesis
    by (simp add: FileDataFromJson_def extra props ext regions strings fd_members_def)
qed

lemma map_of_FileDataToJson:
  assumes "k \<notin> set fd_known"
  shows "jfind (FileDataToJson d) k = map_of (object_members (fd_extra d)) k"
  using assms by (simp add: FileDataToJson_def Let_def map_of_SetOpt map_of_jset fd_known_def)

lemma CheckEnums_written:
  assumes "fd_canonical d"
  shows "CheckEnums (FileDataToJson d) = Ok ()"
proof -
  have vhm: "jfind (FileDataToJson d) ''VectorHeaderMapping'' = jfind (fd_extra d) ''VectorHeaderMapping''"
    using assms by (subst map_of_FileDataToJson)
      (auto simp: fd_known_def fd_canonical_def extra_ok_def object_members_def elim!: is_objectE)
  have endian: "jfind (FileDataToJson d) ''Endian'' = map_option JString (fd_endian d)"
    using assms extra_absent [of fd_known "fd_extra d" "''Endian''"]
    by (auto simp: fd_canonical_def FileDataToJson_def Let_def map_of_SetOpt map_of_jset fd_known_def)
  show ?thesis
    using assms unfolding CheckEnums_def vhm endian
    by (auto simp: fd_canonical_def split: option.splits json.splits)
qed

lemma ToJson_find:
  assumes "k \<in> set fm_known" "record_canonical r"
  shows "jfind (ToJson r) k =
    (if k = ''id'' then (if fm_id r = [] then None else Some (JString (fm_id r)))
     else if k = ''kind'' then Some (JString (fm_kind r))
     else if k = ''version'' then (if fm_version r > 0 then Some (JInt (fm_version r)) else None)
     else if k = ''acl'' then Some (AclToJson (fm_acl r))
     else if k = ''legal'' then Some (LegalToJson (fm_legal r))
     else if k = ''data'' then Some (FileDataToJson (fm_data r))
     else if k = ''ancestry'' then map_option AncestryToJson (fm_ancestry r)
     else if k = ''meta'' then Some (fm_meta r)
     else if jempty (fm_tags r) then None else Some (fm_tags r))"
proof -
  have absent: "map_of (object_members (fm_extra r)) k = None" if "k \<in> set fm_known" for k
    using assms that by (auto simp: record_canonical_def intro: extra_absent)
  show ?thesis
    using assms absent
    by (auto simp: record_canonical_def ToJson_def Let_def map_of_jset fm_known_def split: option.splits)
qed

lemma ToJson_extra:
  assumes "record_canonical r"
  shows "CollectExtra (ToJson r) fm_known = fm_extra r"
proof -
  have "CollectExtra (JObject (object_members (fm_extra r))) fm_known = fm_extra r"
    using assms by (simp add: record_canonical_def)
  moreover have "k \<in> set fm_known \<Longrightarrow>
      CollectExtra (JObject (jset k v m)) fm_known = CollectExtra (JObject m) fm_known" for k v m
    by simp
  ultimately show ?thesis
    by (auto simp: ToJson_def Let_def split: option.split) (simp_all add: fm_known_def)
qed

text \<open>
  C25: parsing the JSON image of a stored record gives the record back, the
  members the model does not name included. The hypothesis
  asks what the parser itself establishes: no empty optional strings, the required sections
  present, unknown members disjoint from the known ones, legal enumeration values.
\<close>

theorem record_roundtrip:
  assumes "record_canonical r"
  shows "ParseFileMetadataRecord (ToJson r) = Ok r"
proof -
  note find = ToJson_find [OF _ assms]
  have objs: "is_object (ToJson r)" "is_object (AclToJson a)" "is_object (LegalToJson l)"
      "is_object (FileDataToJson d)" "is_object (AncestryToJson an)" for a l d an
    by (simp_all add: ToJson_def Let_def AclToJson_def LegalToJson_def FileDataToJson_def
        AncestryToJson_def)
  have data_nonempty: "\<not> jempty (FileDataToJson d)" for d
  proof -
    have "jfind (FileDataToJson d) ''DatasetProperties'' \<noteq> None"
      by (simp add: FileDataToJson_def Let_def map_of_jset)
    then show ?thesis by (auto simp: jempty_def jfind_def split: json.splits)
  qed
  have sections: "require_sections required_sections (ToJson r) = Ok ()"
    by (simp add: required_sections_def find fm_known_def data_nonempty)
  have opts: "GetOpt (ToJson r) ''id'' = (if fm_id r = [] then None else Some (fm_id r))"
      "GetOpt (ToJson r) ''kind'' = Some (fm_kind r)"
    using assms by (simp_all add: GetOpt_def find fm_known_def record_canonical_def)
  have parts: "AclFromJson (AclToJson (fm_acl r)) = fm_acl r"
      "LegalFromJson (LegalToJson (fm_legal r)) = fm_legal r"
      "FileDataFromJson (FileDataToJson (fm_data r)) = fm_data r"
      "CheckEnums (FileDataToJson (fm_data r)) = Ok ()"
      "\<And>a. fm_ancestry r = Some a \<Longrightarrow> AncestryFromJson (AncestryToJson a) = a"
    using assms by (auto simp: record_canonical_def Acl_roundtrip Legal_roundtrip FileData_roundtrip
        CheckEnums_written Ancestry_roundtrip)
  have tags: "jempty (fm_tags r) \<Longrightarrow> fm_tags r = jobject"
    using assms by (auto simp: record_canonical_def jempty_def jobject_def elim!: is_objectE)
  show ?thesis
    using assms tags
    by (cases "fm_ancestry r")
       (auto simp: ParseFileMetadataRecord_def objs sections opts find fm_known_def parts Let_def
          ToJson_extra [OF assms, unfolded fm_known_def] default_FileMetadataRecord_def
          record_canonical_def is_number_integer_def get_int64_def)
qed

definition sample_record :: FileMetadataRecord where
  "sample_record = default_FileMetadataRecord
     \<lparr>fm_id := ''p:dataset--File.Generic:1'', fm_kind := ''osdu:wks:dataset--File.Generic:1.0.0'', fm_version := 7,
      fm_acl := \<lparr>acl_viewers = [''data.v@a.b''], acl_owners = [''data.o@a.b''], acl_extra = jobject\<rparr>,
      fm_legal := \<lparr>legal_tags = [''t''], legal_countries = [''US''], legal_status = kCompliant, legal_extra = jobject\<rparr>,
      fm_data := default_FileData\<lparr>fd_endian := Some ''BIG'',
        fd_extra := JObject [(''Vendor'', JInt 3)],
        fd_dataset_properties := \<lparr>dp_file_source_info =
          default_FileSourceInfo\<lparr>fsi_file_source := ''/u/f'', fsi_present := True\<rparr>,
          dp_present = True, dp_extra = jobject\<rparr>\<rparr>,
      fm_extra := JObject [(''x-note'', JString ''kept'')]\<rparr>"

theorem record_roundtrip_witness:
  "ParseFileMetadataRecord (ToJson sample_record) = Ok sample_record"
  by (rule record_roundtrip) code_simp

lemma map_of_filter_key: "map_of (filter (\<lambda>p. P (fst p)) m) k = (if P k then map_of m k else None)"
  by (induction m) auto

lemma CollectExtra_find:
  "is_object v \<Longrightarrow> k \<notin> set known \<Longrightarrow> map_of (object_members (CollectExtra v known)) k = jfind v k"
  by (auto simp: CollectExtra_def object_members_def map_of_filter_key [of "\<lambda>k. k \<notin> set known"]
      elim!: is_objectE)

lemma optional_sections [simp]:
  "fm_data (case x of None \<Rightarrow> r | Some a \<Rightarrow> if P a then r\<lparr>fm_ancestry := f a\<rparr> else r) = fm_data r"
  "fm_data (case x of None \<Rightarrow> r | Some m \<Rightarrow> r\<lparr>fm_meta := m\<rparr>) = fm_data r"
  "fm_data (case x of None \<Rightarrow> r | Some t \<Rightarrow> if P t then r\<lparr>fm_tags := t\<rparr> else r) = fm_data r"
  by (simp_all split: option.split)

lemma sections_present:
  "require_sections required_sections v = Ok u \<Longrightarrow> \<exists>d. jfind v ''data'' = Some d"
  by (cases "jfind v ''data''") (auto simp: required_sections_def split: option.splits if_splits)

lemma Parse_shape:
  assumes "ParseFileMetadataRecord v = Ok r"
  shows "is_object v" "fm_extra r = CollectExtra v fm_known"
    "\<exists>d. jfind v ''data'' = Some d \<and> is_object d \<and> fm_data r = FileDataFromJson d"
proof -
  show obj: "is_object v"
    using assms by (cases "is_object v") (simp_all add: ParseFileMetadataRecord_def)
  then have sec: "require_sections required_sections v = Ok ()"
    using assms by (auto simp: ParseFileMetadataRecord_def FSS_TRY_eq_Ok)
  then obtain d where d: "jfind v ''data'' = Some d" using sections_present by blast
  moreover have "is_object d"
    using assms obj sec d by (cases "is_object d") (auto simp: ParseFileMetadataRecord_def FSS_TRY_eq_Ok Let_def)
  ultimately show "\<exists>d. jfind v ''data'' = Some d \<and> is_object d \<and> fm_data r = FileDataFromJson d"
    using assms obj sec by (auto simp: ParseFileMetadataRecord_def FSS_TRY_eq_Ok Let_def)
  show "fm_extra r = CollectExtra v fm_known"
    using assms obj sec by (auto simp: ParseFileMetadataRecord_def FSS_TRY_eq_Ok Let_def)
qed

text \<open>
  No member the model does not name is lost or altered between what a
  client sends and what the service writes back: at the top level of the record and inside
  \<open>data\<close>, every unknown member of the input stands unchanged in the output.
\<close>

theorem unknown_members_kept:
  assumes "ParseFileMetadataRecord v = Ok r"
  shows "(\<forall>k. k \<notin> set fm_known \<longrightarrow> jfind (ToJson r) k = jfind v k) \<and>
    (\<exists>d d'. jfind v ''data'' = Some d \<and> jfind (ToJson r) ''data'' = Some d' \<and>
       (\<forall>k. k \<notin> set fd_known \<longrightarrow> jfind d' k = jfind d k))"
proof -
  obtain d where d: "jfind v ''data'' = Some d" "is_object d" "fm_data r = FileDataFromJson d"
    using Parse_shape(3) [OF assms] by blast
  have "jfind (ToJson r) k = map_of (object_members (fm_extra r)) k" if "k \<notin> set fm_known" for k
    using that by (simp add: ToJson_def Let_def map_of_jset fm_known_def split: option.splits)
  moreover have "jfind (ToJson r) ''data'' = Some (FileDataToJson (fm_data r))"
    by (simp add: ToJson_def Let_def map_of_jset split: option.splits)
  moreover have "jfind (FileDataToJson (fm_data r)) k = jfind d k" if "k \<notin> set fd_known" for k
    using that d by (simp add: map_of_FileDataToJson FileDataFromJson_def CollectExtra_find)
  ultimately show ?thesis
    using d Parse_shape(1,2) [OF assms] by (auto simp: CollectExtra_find)
qed

theorem unknown_members_kept_witness:
  "jfind (ToJson sample_record) ''x-note'' = Some (JString ''kept'') \<and>
   ParseFileMetadataRecord (ToJson sample_record) = Ok sample_record \<and>
   (\<exists>d d'. jfind (ToJson sample_record) ''data'' = Some d \<and>
      jfind (ToJson sample_record) ''data'' = Some d' \<and> jfind d' ''Vendor'' = jfind d ''Vendor'')"
proof -
  have p: "ParseFileMetadataRecord (ToJson sample_record) = Ok sample_record" by code_simp
  show ?thesis
    using unknown_members_kept [OF p] p
    by (auto simp: sample_record_def ToJson_def Let_def map_of_jset object_members_def
        default_FileMetadataRecord_def split: option.splits)
qed

section \<open>What validation accepts\<close>

lemma add_if_Nil [simp]: "add_if b p m = [] \<longleftrightarrow> \<not> b"
  by (simp add: add_if_def)

lemma concat_map_add_if [simp]:
  "concat (map (\<lambda>x. add_if (b x) (p x) (m x)) xs) = [] \<longleftrightarrow> (\<forall>x \<in> set xs. \<not> b x)"
  by (induction xs) auto

lemma scalar_issues_Nil:
  "scalar_issues item = [] \<longleftrightarrow> jfind item ''ScalarIndicator'' = None \<or>
     (\<exists>s. jfind item ''ScalarIndicator'' = Some (JString s) \<and> scalar_ok s)"
  by (auto simp: scalar_issues_def split: option.splits json.splits)

lemma check_scalars_ok_iff:
  "check_scalars xs = Ok () \<longleftrightarrow> (\<forall>x \<in> set xs. scalar_issues x = [])"
  by (induction xs rule: check_scalars.induct)
     (auto simp: scalar_issues_Nil split: option.splits json.splits)

definition file_source_ok :: "string \<Rightarrow> bool" where
  "file_source_ok fs \<longleftrightarrow> fs \<noteq> [] \<and> hd fs = CHR ''/'' \<and> \<not> contains_str ''..'' fs \<and>
     (\<forall>c \<in> set fs. \<not> is_control c)"

lemma file_source_issues_Nil: "file_source_issues fs = [] \<longleftrightarrow> file_source_ok fs"
  by (auto simp: file_source_issues_def file_source_ok_def Let_def HasControlChars_def list_ex_iff)

lemma sample_record_accepted: "ValidateMetadataRecord sample_record = []"
proof -
  have p: "IsValidAclPrincipal ''data.v@a.b''" "IsValidAclPrincipal ''data.o@a.b''" by code_simp+
  show ?thesis
    by (simp add: ValidateMetadataRecord_def kind_issues_def acl_issues_def legal_issues_def data_issues_def
        file_source_issues_def Let_def sample_record_def default_FileMetadataRecord_def default_FileData_def
        default_FileSourceInfo_def add_if_def p AllUnique_def IsValidLegalTag_def country_code_def
        HasControlChars_def starts_with_def jempty_def jobject_def ctype_defs)
qed

text \<open>
  C26: the issue list is empty exactly for the records that meet the required
  content: a kind of four segments, non-empty access lists whose principals all match the group
  pattern, non-empty and duplicate-free legal tags and countries of legal form, a file source that
  starts with a slash, never climbs with \<open>..\<close> and holds no control character, and legal
  enumeration values.
\<close>

theorem validate_accepts:
  "ValidateMetadataRecord r = [] \<longleftrightarrow>
     fm_kind r \<noteq> [] \<and> count_list (fm_kind r) (CHR '':'') = 3 \<and> length (fm_kind r) \<le> 512 \<and>
     acl_viewers (fm_acl r) \<noteq> [] \<and> acl_owners (fm_acl r) \<noteq> [] \<and>
     (\<forall>p \<in> set (acl_viewers (fm_acl r) @ acl_owners (fm_acl r)). lang acl_principal_regex p) \<and>
     legal_tags (fm_legal r) \<noteq> [] \<and> legal_countries (fm_legal r) \<noteq> [] \<and>
     distinct (legal_tags (fm_legal r)) \<and> distinct (legal_countries (fm_legal r)) \<and>
     (\<forall>t \<in> set (legal_tags (fm_legal r)). IsValidLegalTag t) \<and>
     (\<forall>c \<in> set (legal_countries (fm_legal r)). country_code c) \<and>
     file_source_ok (FileSourceOf r) \<and> fd_endian (fm_data r) \<in> {None, Some ''BIG'', Some ''LITTLE''} \<and>
     (case jfind (fd_extra (fm_data r)) ''VectorHeaderMapping'' of
        Some (JArray xs) \<Rightarrow> check_scalars xs = Ok () | _ \<Rightarrow> True)"
proof -
  have kind: "kind_issues r = [] \<longleftrightarrow>
      fm_kind r \<noteq> [] \<and> count_list (fm_kind r) (CHR '':'') = 3 \<and> length (fm_kind r) \<le> 512"
    by (auto simp: kind_issues_def)
  have acl: "acl_issues a = [] \<longleftrightarrow> acl_viewers a \<noteq> [] \<and> acl_owners a \<noteq> [] \<and>
      (\<forall>p \<in> set (acl_viewers a @ acl_owners a). lang acl_principal_regex p)" for a
    by (auto simp: acl_issues_def IsValidAclPrincipal_def regex_match_lang)
  have legal: "legal_issues l = [] \<longleftrightarrow> legal_tags l \<noteq> [] \<and> legal_countries l \<noteq> [] \<and>
      distinct (legal_tags l) \<and> distinct (legal_countries l) \<and>
      (\<forall>t \<in> set (legal_tags l). IsValidLegalTag t) \<and> (\<forall>c \<in> set (legal_countries l). country_code c)" for l
    by (auto simp: legal_issues_def AllUnique_def)
  have data: "data_issues d = [] \<longleftrightarrow>
      file_source_ok (fsi_file_source (dp_file_source_info (fd_dataset_properties d))) \<and>
      fd_endian d \<in> {None, Some ''BIG'', Some ''LITTLE''} \<and>
      (case jfind (fd_extra d) ''VectorHeaderMapping'' of
         Some (JArray xs) \<Rightarrow> check_scalars xs = Ok () | _ \<Rightarrow> True)" for d
    by (auto simp: data_issues_def Let_def file_source_issues_Nil check_scalars_ok_iff
        file_source_ok_def split: option.splits json.splits)
  show ?thesis
    unfolding ValidateMetadataRecord_def FileSourceOf_def append_is_Nil_conv kind acl legal data
    by blast
qed

theorem validate_accepts_witness:
  "ValidateMetadataRecord sample_record = [] \<and> file_source_ok (FileSourceOf sample_record)"
  using validate_accepts [of sample_record] sample_record_accepted by blast

end
