(* ===== verification/Location_Repository.thy ===== *)
theory Location_Repository
  imports Domain_Types "HOL-Library.Product_Lexorder"
begin

text \<open>
  \<^verbatim>\<open>infra/location/memory/memory_location_repository\<close>: the location records of the staged files,
  by partition and file id, with a second index that makes the file source unique inside a
  partition. The port contract is the locale \<open>location_port\<close>; its interpretation on the
  operations below discharges the contract's laws. Every method of the source runs under one
  mutex, so an operation is one step on the state.
\<close>

section \<open>State and operations\<close>

record LocState =
  lr_by_id :: "(string \<times> (string \<times> FileLocation) list) list"
  lr_source_index :: "((string \<times> string) \<times> string) list"

definition loc_empty :: LocState where
  "loc_empty = \<lparr>lr_by_id = [], lr_source_index = []\<rparr>"

definition LocFindPartition :: "LocState \<Rightarrow> string \<Rightarrow> (string \<times> FileLocation) list option" where
  "LocFindPartition s part = map_of (lr_by_id s) part"

text \<open>\<^verbatim>\<open>by_id_[part]\<close> inserts an empty bucket when there is none, before the uniqueness check.\<close>

definition LocSave :: "LocState \<Rightarrow> string \<Rightarrow> FileLocation \<Rightarrow> LocState \<times> unit Result" where
  "LocSave s part location =
     (if part = [] then (s, Err kInvalidArgument msg_partition_empty)
      else if fl_file_id location = [] then (s, Err kInvalidArgument msg_file_id_empty)
      else if fl_file_source location = [] then (s, Err kInvalidArgument msg_file_source_empty)
      else
        let bucket = (case LocFindPartition s part of None \<Rightarrow> [] | Some b \<Rightarrow> b);
            s = s\<lparr>lr_by_id := map_put part bucket (lr_by_id s)\<rparr>;
            key = (part, fl_file_source location);
            taken = (case map_of (lr_source_index s) key of
                       None \<Rightarrow> False | Some owner \<Rightarrow> owner \<noteq> fl_file_id location) in
        if taken
        then (s, Err kLocationAlreadyExists
                   (msg_source_taken @ fl_file_source location))
        else
          let index = (case map_of bucket (fl_file_id location) of
                         Some old \<Rightarrow>
                           if fl_file_source old \<noteq> fl_file_source location
                           then map_erase (part, fl_file_source old) (lr_source_index s)
                           else lr_source_index s
                       | None \<Rightarrow> lr_source_index s)
          in (s\<lparr>lr_by_id := map_put part (map_put (fl_file_id location) location bucket) (lr_by_id s),
                lr_source_index := map_put key (fl_file_id location) index\<rparr>, Ok ()))"

definition location_not_found :: "string \<Rightarrow> 'a Result" where
  "location_not_found file_id = Err kNotFound (msg_location_missing @ file_id)"

definition location_partition_not_found :: "string \<Rightarrow> 'a Result" where
  "location_partition_not_found part = Err kNotFound (msg_location_missing_partition @ part)"

definition LocFind :: "LocState \<Rightarrow> string \<Rightarrow> string \<Rightarrow> FileLocation Result" where
  "LocFind s part file_id =
     (case LocFindPartition s part of
        None \<Rightarrow> location_partition_not_found part
      | Some bucket \<Rightarrow>
          (case map_of bucket file_id of
             None \<Rightarrow> Err kNotFound (''Not found location for fileID : '' @ file_id)
           | Some l \<Rightarrow> Ok l))"

definition LocUpdateSignedUrl ::
  "LocState \<Rightarrow> string \<Rightarrow> string \<Rightarrow> string \<Rightarrow> int \<Rightarrow> LocState \<times> unit Result" where
  "LocUpdateSignedUrl s part file_id signed_url updated_at =
     (case LocFindPartition s part of
        None \<Rightarrow> (s, location_not_found file_id)
      | Some bucket \<Rightarrow>
          (case map_of bucket file_id of
             None \<Rightarrow> (s, location_not_found file_id)
           | Some l \<Rightarrow>
               (s\<lparr>lr_by_id := map_put part
                    (map_put file_id (l\<lparr>fl_signed_url := signed_url, fl_updated_at := updated_at\<rparr>) bucket)
                    (lr_by_id s)\<rparr>, Ok ())))"

definition LocDelete :: "LocState \<Rightarrow> string \<Rightarrow> string \<Rightarrow> LocState \<times> unit Result" where
  "LocDelete s part file_id =
     (case LocFindPartition s part of
        None \<Rightarrow> (s, location_not_found file_id)
      | Some bucket \<Rightarrow>
          (case map_of bucket file_id of
             None \<Rightarrow> (s, location_not_found file_id)
           | Some l \<Rightarrow>
               (s\<lparr>lr_by_id := map_put part (map_erase file_id bucket) (lr_by_id s),
                  lr_source_index := map_erase (part, fl_file_source l) (lr_source_index s)\<rparr>, Ok ())))"

definition LocFindByFileSource :: "LocState \<Rightarrow> string \<Rightarrow> string \<Rightarrow> FileLocation Result" where
  "LocFindByFileSource s part file_source =
     (case map_of (lr_source_index s) (part, file_source) of
        None \<Rightarrow> Err kNotFound (msg_location_missing_by_source @ file_source)
      | Some owner \<Rightarrow>
          (case LocFindPartition s part of
             None \<Rightarrow> location_partition_not_found part
           | Some bucket \<Rightarrow>
               (case map_of bucket owner of
                  None \<Rightarrow> Err kNotFound (''Not found location for fileID : '' @ owner)
                | Some l \<Rightarrow> Ok l)))"

definition LocSize :: "LocState \<Rightarrow> string \<Rightarrow> nat" where
  "LocSize s part = (case LocFindPartition s part of None \<Rightarrow> 0 | Some b \<Rightarrow> length b)"

definition loc_matches :: "LocationQuery \<Rightarrow> FileLocation \<Rightarrow> bool" where
  "loc_matches q l \<longleftrightarrow>
     \<not> (lq_user_id q \<noteq> [] \<and> fl_user_id l \<noteq> lq_user_id q) \<and>
     \<not> (lq_created_after q \<ge> 0 \<and> fl_created_at l < lq_created_after q) \<and>
     \<not> (lq_created_before q \<ge> 0 \<and> fl_created_at l > lq_created_before q)"

text \<open>The comparison given to \<^verbatim>\<open>std::sort\<close> is a strict total order on the records of a bucket
  (creation second, then file id), so the sorted sequence is determined by it.\<close>

definition loc_sort_key :: "FileLocation \<Rightarrow> int \<times> string" where
  "loc_sort_key l = (fl_created_at l, fl_file_id l)"

definition loc_matched :: "LocationQuery \<Rightarrow> (string \<times> FileLocation) list \<Rightarrow> FileLocation list" where
  "loc_matched q bucket = sort_key loc_sort_key (filter (loc_matches q) (map snd bucket))"

definition LocList :: "LocState \<Rightarrow> string \<Rightarrow> LocationQuery \<Rightarrow> LocationPage Result" where
  "LocList s part q =
     (if lq_limit q \<le> 0 then Err kInvalidArgument msg_limit_positive
      else if lq_offset q < 0 then Err kInvalidArgument msg_offset_nonnegative
      else case LocFindPartition s part of
             None \<Rightarrow> Ok \<lparr>lpg_records = [], lpg_total = 0\<rparr>
           | Some bucket \<Rightarrow>
               Ok \<lparr>lpg_records = take (nat (lq_limit q)) (drop (nat (lq_offset q)) (loc_matched q bucket)),
                   lpg_total = int (length (loc_matched q bucket))\<rparr>)"

section \<open>The invariant of the two indexes\<close>

definition loc_at :: "LocState \<Rightarrow> string \<Rightarrow> string \<Rightarrow> FileLocation option" where
  "loc_at s p i = (case map_of (lr_by_id s) p of None \<Rightarrow> None | Some b \<Rightarrow> map_of b i)"

definition loc_wf :: "LocState \<Rightarrow> bool" where
  "loc_wf s \<longleftrightarrow> map_wf (lr_by_id s) \<and> (\<forall>b \<in> snd ` set (lr_by_id s). map_wf b) \<and>
     map_wf (lr_source_index s)"

definition loc_inv :: "LocState \<Rightarrow> bool" where
  "loc_inv s \<longleftrightarrow> loc_wf s \<and>
     (\<forall>p i l. loc_at s p i = Some l \<longrightarrow>
        fl_file_id l = i \<and> map_of (lr_source_index s) (p, fl_file_source l) = Some i) \<and>
     (\<forall>p f i. map_of (lr_source_index s) (p, f) = Some i \<longrightarrow>
        (\<exists>l. loc_at s p i = Some l \<and> fl_file_source l = f))"

lemma LocFind_Ok [simp]: "LocFind s p i = Ok l \<longleftrightarrow> loc_at s p i = Some l"
  by (auto simp: LocFind_def LocFindPartition_def loc_at_def location_partition_not_found_def
      split: option.splits)

lemma loc_at_put [simp]:
  "loc_at (s\<lparr>lr_by_id := map_put p b m\<rparr>) q i =
     (if q = p then map_of b i else (case map_of m q of None \<Rightarrow> None | Some b \<Rightarrow> map_of b i))"
  "loc_at (s\<lparr>lr_by_id := map_put p b m, lr_source_index := x\<rparr>) q i =
     (if q = p then map_of b i else (case map_of m q of None \<Rightarrow> None | Some b \<Rightarrow> map_of b i))"
  by (auto simp: loc_at_def)

lemma bucket_at: "map_of (case LocFindPartition s p of None \<Rightarrow> [] | Some b \<Rightarrow> b) i = loc_at s p i"
  by (simp add: LocFindPartition_def loc_at_def split: option.splits)

text \<open>What the three writers do to the logical content.\<close>

lemma LocSave_at:
  assumes "LocSave s p l = (s', r)"
  shows "loc_at s' q i =
    (if r = Ok () \<and> q = p \<and> i = fl_file_id l then Some l else loc_at s q i)"
  using assms
  by (auto simp: LocSave_def Let_def bucket_at split: if_splits)
     (auto simp: loc_at_def split: option.splits)

lemma LocUpdateSignedUrl_at:
  assumes "LocUpdateSignedUrl s p f u t = (s', r)"
  shows "loc_at s' q i =
    (if r = Ok () \<and> q = p \<and> i = f
     then map_option (\<lambda>l. l\<lparr>fl_signed_url := u, fl_updated_at := t\<rparr>) (loc_at s p f) else loc_at s q i)"
  using assms
  by (auto simp: LocUpdateSignedUrl_def location_not_found_def LocFindPartition_def loc_at_def
      split: option.splits if_splits)

lemma LocDelete_at:
  assumes "LocDelete s p f = (s', r)"
  shows "loc_at s' q i = (if r = Ok () \<and> q = p \<and> i = f then None else loc_at s q i)"
  using assms
  by (auto simp: LocDelete_def location_not_found_def LocFindPartition_def loc_at_def
      split: option.splits if_splits)

lemma LocSave_index:
  assumes "LocSave s p l = (s', Ok ())"
  shows "map_of (lr_source_index s') k =
      (if k = (p, fl_file_source l) then Some (fl_file_id l)
       else if \<exists>old. loc_at s p (fl_file_id l) = Some old \<and> k = (p, fl_file_source old) then None
       else map_of (lr_source_index s) k)"
    and "map_of (lr_source_index s) (p, fl_file_source l) \<in> {None, Some (fl_file_id l)}"
  using assms
  by (auto simp: LocSave_def Let_def bucket_at split: if_splits option.splits)

lemma LocSave_index_error:
  "LocSave s p l = (s', Inl e) \<Longrightarrow> lr_source_index s' = lr_source_index s"
  by (auto simp: LocSave_def Let_def split: if_splits)

lemma LocUpdateSignedUrl_index:
  "LocUpdateSignedUrl s p f u t = (s', r) \<Longrightarrow> lr_source_index s' = lr_source_index s"
  by (auto simp: LocUpdateSignedUrl_def split: option.splits)

lemma LocDelete_index:
  "LocDelete s p f = (s', Ok ()) \<Longrightarrow> \<exists>l. loc_at s p f = Some l \<and>
     lr_source_index s' = map_erase (p, fl_file_source l) (lr_source_index s)"
  "LocDelete s p f = (s', Inl e) \<Longrightarrow> s' = s"
  by (auto simp: LocDelete_def LocFindPartition_def loc_at_def location_not_found_def split: option.splits)

lemma loc_wf_put:
  "loc_wf s \<Longrightarrow> map_wf b \<Longrightarrow> loc_wf (s\<lparr>lr_by_id := map_put p b (lr_by_id s)\<rparr>)"
  "loc_wf s \<Longrightarrow> map_wf b \<Longrightarrow> map_wf x \<Longrightarrow>
     loc_wf (s\<lparr>lr_by_id := map_put p b (lr_by_id s), lr_source_index := x\<rparr>)"
  "loc_wf s \<Longrightarrow> map_wf b \<Longrightarrow> map_wf x \<Longrightarrow>
     loc_wf (s\<lparr>lr_by_id := map_put p b (map_put p b' (lr_by_id s)), lr_source_index := x\<rparr>)"
  by (auto simp: loc_wf_def std_map.put_put set_map_put)

lemma loc_wf_bucket:
  "loc_wf s \<Longrightarrow> LocFindPartition s p = Some b \<Longrightarrow> map_wf b"
  by (force simp: loc_wf_def LocFindPartition_def dest: map_of_SomeD)

lemma loc_wf_index: "loc_wf s \<Longrightarrow> map_wf (lr_source_index s)"
  by (simp add: loc_wf_def)

lemmas loc_wf_intros = loc_wf_put loc_wf_bucket loc_wf_index map_wf_put map_wf_erase map_wf_Nil

lemma LocSave_wf: "loc_wf s \<Longrightarrow> LocSave s p l = (s', r) \<Longrightarrow> loc_wf s'"
  by (auto simp: LocSave_def Let_def split: if_splits option.splits intro: loc_wf_intros
      intro!: loc_wf_put(3) map_wf_single)

lemma LocUpdateSignedUrl_wf: "loc_wf s \<Longrightarrow> LocUpdateSignedUrl s p f u t = (s', r) \<Longrightarrow> loc_wf s'"
  by (auto simp: LocUpdateSignedUrl_def split: option.splits intro: loc_wf_intros)

lemma LocDelete_wf: "loc_wf s \<Longrightarrow> LocDelete s p f = (s', r) \<Longrightarrow> loc_wf s'"
  by (auto simp: LocDelete_def split: option.splits intro: loc_wf_intros)

lemma loc_invI:
  assumes "loc_wf s"
    "\<And>p i l. loc_at s p i = Some l \<Longrightarrow>
       fl_file_id l = i \<and> map_of (lr_source_index s) (p, fl_file_source l) = Some i"
    "\<And>p f i. map_of (lr_source_index s) (p, f) = Some i \<Longrightarrow>
       \<exists>l. loc_at s p i = Some l \<and> fl_file_source l = f"
  shows "loc_inv s"
  using assms by (simp add: loc_inv_def)

lemma loc_invD:
  assumes "loc_inv s"
  shows "loc_wf s"
    "loc_at s p i = Some l \<Longrightarrow> fl_file_id l = i"
    "loc_at s p i = Some l \<Longrightarrow> map_of (lr_source_index s) (p, fl_file_source l) = Some i"
    "map_of (lr_source_index s) (p, f) = Some i \<Longrightarrow> \<exists>l. loc_at s p i = Some l \<and> fl_file_source l = f"
  using assms by (auto simp: loc_inv_def)

lemma loc_inv_empty: "loc_inv loc_empty"
  by (simp add: loc_inv_def loc_wf_def loc_empty_def loc_at_def)

lemma loc_inv_save:
  assumes "loc_inv s" "LocSave s p l = (s', r)"
  shows "loc_inv s'"
proof (cases r)
  case (Inl e)
  then show ?thesis
    using assms LocSave_wf [OF _ assms(2)] LocSave_at [OF assms(2)] LocSave_index_error [of s p l s' e]
    by (auto simp: loc_inv_def)
next
  case (Inr u)
  then have save: "LocSave s p l = (s', Ok ())" using assms(2) by simp
  note at = LocSave_at [OF save] and ix = LocSave_index [OF save]
  have inv: "fl_file_id m = i" "map_of (lr_source_index s) (q, fl_file_source m) = Some i"
    if "loc_at s q i = Some m" for q i m
    using assms(1) that by (auto simp: loc_inv_def)
  have ex: "\<exists>m. loc_at s q i = Some m \<and> fl_file_source m = f"
    if "map_of (lr_source_index s) (q, f) = Some i" for q f i
    using assms(1) that by (auto simp: loc_inv_def)
  have "fl_file_id m = i \<and> map_of (lr_source_index s') (q, fl_file_source m) = Some i"
    if "loc_at s' q i = Some m" for q i m
  proof (cases "q = p \<and> i = fl_file_id l")
    case True
    then show ?thesis using that by (simp add: at ix(1))
  next
    case False
    then have m: "loc_at s q i = Some m" using that by (auto simp: at split: if_splits)
    have "(q, fl_file_source m) \<noteq> (p, fl_file_source l)"
      using False inv [OF m] ix(2) by auto
    moreover have "(q, fl_file_source m) \<noteq> (p, fl_file_source old)"
      if "loc_at s p (fl_file_id l) = Some old" for old
      using False inv [OF m] inv [OF that] by auto
    ultimately show ?thesis using inv [OF m] unfolding ix(1) by auto
  qed
  moreover have "\<exists>m. loc_at s' q i = Some m \<and> fl_file_source m = f"
    if "map_of (lr_source_index s') (q, f) = Some i" for q f i
    using that ex [of q f i] inv by (auto simp: at ix(1) split: if_splits)
  ultimately show ?thesis
    using assms(1) LocSave_wf [OF _ save] by (simp add: loc_inv_def)
qed

lemma loc_inv_update:
  assumes "loc_inv s" "LocUpdateSignedUrl s p f u t = (s', r)"
  shows "loc_inv s'"
proof (rule loc_invI)
  show "loc_wf s'" using LocUpdateSignedUrl_wf [OF loc_invD(1)] assms by blast
next
  fix q i m assume "loc_at s' q i = Some m"
  then obtain l where "loc_at s q i = Some l" "fl_file_id m = fl_file_id l" "fl_file_source m = fl_file_source l"
    by (auto simp: LocUpdateSignedUrl_at [OF assms(2)] split: if_splits)
  then show "fl_file_id m = i \<and> map_of (lr_source_index s') (q, fl_file_source m) = Some i"
    using loc_invD(2,3) [OF assms(1)] LocUpdateSignedUrl_index [OF assms(2)] by simp
next
  fix q g i assume "map_of (lr_source_index s') (q, g) = Some i"
  then obtain l where "loc_at s q i = Some l" "fl_file_source l = g"
    using loc_invD(4) [OF assms(1)] LocUpdateSignedUrl_index [OF assms(2)] by metis
  then show "\<exists>l. loc_at s' q i = Some l \<and> fl_file_source l = g"
    by (auto simp: LocUpdateSignedUrl_at [OF assms(2)])
qed

lemma loc_inv_delete:
  assumes "loc_inv s" "LocDelete s p f = (s', r)"
  shows "loc_inv s'"
proof (cases r)
  case (Inl e)
  then show ?thesis using assms LocDelete_index(2) [of s p f s' e] by simp
next
  case (Inr u)
  then have del: "LocDelete s p f = (s', Ok ())" using assms(2) by simp
  then obtain l where l: "loc_at s p f = Some l"
      "lr_source_index s' = map_erase (p, fl_file_source l) (lr_source_index s)"
    using LocDelete_index(1) by blast
  note at = LocDelete_at [OF del] and inv = loc_invD [OF assms(1)]
  show ?thesis
  proof (rule loc_invI)
    show "loc_wf s'" using LocDelete_wf [OF inv(1) del] .
  next
    fix q i m assume "loc_at s' q i = Some m"
    then have m: "loc_at s q i = Some m" "(q, i) \<noteq> (p, f)" by (auto simp: at split: if_splits)
    then have "(q, fl_file_source m) \<noteq> (p, fl_file_source l)"
      using inv(3) [OF m(1)] inv(3) [OF l(1)] by auto
    then show "fl_file_id m = i \<and> map_of (lr_source_index s') (q, fl_file_source m) = Some i"
      using inv(2,3) [OF m(1)] by (simp add: l(2))
  next
    fix q g i assume "map_of (lr_source_index s') (q, g) = Some i"
    then have g: "map_of (lr_source_index s) (q, g) = Some i" "(q, g) \<noteq> (p, fl_file_source l)"
      by (auto simp: l(2) split: if_splits)
    then obtain m where m: "loc_at s q i = Some m" "fl_file_source m = g" using inv(4) by blast
    then have "(q, i) \<noteq> (p, f)" using g(2) l(1) by auto
    with m show "\<exists>m. loc_at s' q i = Some m \<and> fl_file_source m = g" by (auto simp: at)
  qed
qed

section \<open>The port contract\<close>

text \<open>What the use cases rely on: lookups after a write, the frame of every write, agreement of
  the two indexes.\<close>

locale location_port =
  fixes save :: "'s \<Rightarrow> string \<Rightarrow> FileLocation \<Rightarrow> 's \<times> unit Result"
    and lookup :: "'s \<Rightarrow> string \<Rightarrow> string \<Rightarrow> FileLocation Result"
    and by_source :: "'s \<Rightarrow> string \<Rightarrow> string \<Rightarrow> FileLocation Result"
    and remove :: "'s \<Rightarrow> string \<Rightarrow> string \<Rightarrow> 's \<times> unit Result"
    and inv :: "'s \<Rightarrow> bool"
  assumes save_inv: "inv s \<Longrightarrow> save s p l = (s', r) \<Longrightarrow> inv s'"
    and remove_inv: "inv s \<Longrightarrow> remove s p i = (s', r) \<Longrightarrow> inv s'"
    and save_lookup: "inv s \<Longrightarrow> save s p l = (s', r) \<Longrightarrow> lookup s' q j = Ok m \<longleftrightarrow>
      (if r = Ok () \<and> q = p \<and> j = fl_file_id l then m = l else lookup s q j = Ok m)"
    and save_ok: "inv s \<Longrightarrow> save s p l = (s', r) \<Longrightarrow> r = Ok () \<longleftrightarrow>
      p \<noteq> [] \<and> fl_file_id l \<noteq> [] \<and> fl_file_source l \<noteq> [] \<and>
      (\<forall>m. by_source s p (fl_file_source l) = Ok m \<longrightarrow> fl_file_id m = fl_file_id l)"
    and remove_lookup: "inv s \<Longrightarrow> remove s p i = (s', r) \<Longrightarrow> lookup s' q j = Ok m \<longleftrightarrow>
      \<not> (r = Ok () \<and> q = p \<and> j = i) \<and> lookup s q j = Ok m"
    and lookup_id: "inv s \<Longrightarrow> lookup s p i = Ok l \<Longrightarrow> fl_file_id l = i"
    and by_source_iff: "inv s \<Longrightarrow> by_source s p f = Ok l \<longleftrightarrow>
      lookup s p (fl_file_id l) = Ok l \<and> fl_file_source l = f"
begin

lemma source_unique:
  assumes "inv s" "lookup s p i = Ok l" "lookup s p j = Ok m" "fl_file_source l = fl_file_source m"
  shows "l = m \<and> i = j"
proof -
  have "by_source s p (fl_file_source m) = Ok l" "by_source s p (fl_file_source m) = Ok m"
    using assms lookup_id [OF assms(1)] by (simp_all add: by_source_iff)
  then have "l = m" by simp
  then show ?thesis using lookup_id [OF assms(1,2)] lookup_id [OF assms(1,3)] by simp
qed

lemma save_then_by_source:
  assumes "inv s" "save s p l = (s', Ok ())"
  shows "by_source s' p (fl_file_source l) = Ok l"
  using save_inv [OF assms] save_lookup [OF assms] by (simp add: by_source_iff)

lemma save_source_taken:
  assumes "inv s" "by_source s p (fl_file_source l) = Ok m" "fl_file_id m \<noteq> fl_file_id l"
    "save s p l = (s', r)"
  shows "r \<noteq> Ok () \<and> (\<forall>q j n. lookup s' q j = Ok n \<longleftrightarrow> lookup s q j = Ok n)"
  using assms save_ok [OF assms(1,4)] save_lookup [OF assms(1,4)] by auto

text \<open>Changing the file source of a record frees the old one; so does removing the record.\<close>

lemma resave_frees_source:
  assumes "inv s" "lookup s p (fl_file_id l) = Ok old" "fl_file_source old \<noteq> fl_file_source l"
    "save s p l = (s', Ok ())"
  shows "by_source s' p (fl_file_source old) \<noteq> Ok m"
proof
  assume "by_source s' p (fl_file_source old) = Ok m"
  then have m: "lookup s' p (fl_file_id m) = Ok m" "fl_file_source m = fl_file_source old"
    using save_inv [OF assms(1,4)] by (simp_all add: by_source_iff)
  then have "fl_file_id m \<noteq> fl_file_id l" "lookup s p (fl_file_id m) = Ok m"
    using assms(3) save_lookup [OF assms(1,4)] by (auto split: if_splits)
  then show False using source_unique [OF assms(1) _ assms(2)] m(2) by blast
qed

lemma remove_frees_source:
  assumes "inv s" "lookup s p i = Ok old" "remove s p i = (s', Ok ())"
  shows "by_source s' p (fl_file_source old) \<noteq> Ok m"
proof
  assume "by_source s' p (fl_file_source old) = Ok m"
  then have "lookup s p (fl_file_id m) = Ok m" "fl_file_id m \<noteq> i" "fl_file_source m = fl_file_source old"
    using remove_inv [OF assms(1,3)] remove_lookup [OF assms(1,3)] by (auto simp: by_source_iff)
  then show False using source_unique [OF assms(1) _ assms(2)] by blast
qed

end

lemma LocFindByFileSource_Ok:
  assumes "loc_inv s"
  shows "LocFindByFileSource s p f = Ok l \<longleftrightarrow> loc_at s p (fl_file_id l) = Some l \<and> fl_file_source l = f"
proof
  assume "LocFindByFileSource s p f = Ok l"
  then obtain i where "map_of (lr_source_index s) (p, f) = Some i" "loc_at s p i = Some l"
    by (auto simp: LocFindByFileSource_def loc_at_def LocFindPartition_def location_partition_not_found_def
        split: option.splits)
  then show "loc_at s p (fl_file_id l) = Some l \<and> fl_file_source l = f"
    using loc_invD(2,4) [OF assms] by fastforce
next
  assume "loc_at s p (fl_file_id l) = Some l \<and> fl_file_source l = f"
  then show "LocFindByFileSource s p f = Ok l"
    using loc_invD(3) [OF assms, of p "fl_file_id l" l]
    by (auto simp: LocFindByFileSource_def loc_at_def LocFindPartition_def split: option.splits)
qed

lemma LocSave_Ok_iff:
  "LocSave s p l = (s', r) \<Longrightarrow> r = Ok () \<longleftrightarrow>
     p \<noteq> [] \<and> fl_file_id l \<noteq> [] \<and> fl_file_source l \<noteq> [] \<and>
     map_of (lr_source_index s) (p, fl_file_source l) \<in> {None, Some (fl_file_id l)}"
  by (auto simp: LocSave_def Let_def split: if_splits option.splits)

interpretation loc: location_port LocSave LocFind LocFindByFileSource LocDelete loc_inv
proof unfold_locales
  fix s p l s' r assume inv: "loc_inv s" and save: "LocSave s p l = (s', r)"
  have "map_of (lr_source_index s) (p, f) \<in> {None, Some i} \<longleftrightarrow>
      (\<forall>m. LocFindByFileSource s p f = Ok m \<longrightarrow> fl_file_id m = i)" for f i
  proof (cases "map_of (lr_source_index s) (p, f)")
    case None
    then show ?thesis by (simp add: LocFindByFileSource_def)
  next
    case (Some j)
    then obtain m where m: "loc_at s p j = Some m" "fl_file_source m = f" using loc_invD(4) [OF inv] by blast
    then have "fl_file_id m = j" using loc_invD(2) [OF inv] by blast
    then have "LocFindByFileSource s p f = Ok m" using m by (simp add: LocFindByFileSource_Ok [OF inv])
    then show ?thesis using Some \<open>fl_file_id m = j\<close> by auto
  qed
  then show "r = Ok () \<longleftrightarrow> p \<noteq> [] \<and> fl_file_id l \<noteq> [] \<and> fl_file_source l \<noteq> [] \<and>
      (\<forall>m. LocFindByFileSource s p (fl_file_source l) = Ok m \<longrightarrow> fl_file_id m = fl_file_id l)"
    using LocSave_Ok_iff [OF save] by simp
  show "loc_inv s'" using loc_inv_save [OF inv save] .
  show "LocFind s' q j = Ok m \<longleftrightarrow>
      (if r = Ok () \<and> q = p \<and> j = fl_file_id l then m = l else LocFind s q j = Ok m)" for q j m
    using LocSave_at [OF save] by auto
next
  fix s p i s' r assume "loc_inv s" and del: "LocDelete s p i = (s', r)"
  then show "loc_inv s'" by (rule loc_inv_delete)
  show "LocFind s' q j = Ok m \<longleftrightarrow> \<not> (r = Ok () \<and> q = p \<and> j = i) \<and> LocFind s q j = Ok m" for q j m
    using LocDelete_at [OF del] by auto
next
  fix s p i l f assume inv: "loc_inv s"
  show "LocFind s p i = Ok l \<Longrightarrow> fl_file_id l = i" using loc_invD(2) [OF inv] by simp
  show "LocFindByFileSource s p f = Ok l \<longleftrightarrow> LocFind s p (fl_file_id l) = Ok l \<and> fl_file_source l = f"
    using LocFindByFileSource_Ok [OF inv] by simp
qed

section \<open>Reachable states\<close>

inductive loc_reachable :: "LocState \<Rightarrow> bool" where
  reach_init: "loc_reachable loc_empty"
| reach_save: "loc_reachable s \<Longrightarrow> LocSave s p l = (s', r) \<Longrightarrow> loc_reachable s'"
| reach_update: "loc_reachable s \<Longrightarrow> LocUpdateSignedUrl s p f u t = (s', r) \<Longrightarrow> loc_reachable s'"
| reach_delete: "loc_reachable s \<Longrightarrow> LocDelete s p f = (s', r) \<Longrightarrow> loc_reachable s'"

lemma reachable_inv: "loc_reachable s \<Longrightarrow> loc_inv s"
  by (induction rule: loc_reachable.induct)
     (auto intro: loc_inv_empty loc_inv_save loc_inv_update loc_inv_delete)

definition sample_location :: "string \<Rightarrow> string \<Rightarrow> FileLocation" where
  "sample_location i f = default_FileLocation\<lparr>fl_file_id := i, fl_file_source := f\<rparr>"

definition sample_locations :: LocState where
  "sample_locations =
     fst (LocSave (fst (LocSave loc_empty ''p'' (sample_location ''a'' ''/u/a''))) ''p''
       (sample_location ''b'' ''/u/b''))"

lemma reach_save_fst: "loc_reachable s \<Longrightarrow> loc_reachable (fst (LocSave s p l))"
  by (rule reach_save [OF _ prod.collapse [symmetric]])

lemma sample_locations_reachable: "loc_reachable sample_locations"
  unfolding sample_locations_def by (intro reach_save_fst reach_init)

text \<open>
  C23: in every state the repository can reach, the source index and the
  records agree: looking a file source up returns exactly the record of that partition that holds
  it, so no entry dangles, and two file ids of one partition never share a file source.
\<close>

theorem location_source_unique:
  assumes "loc_reachable s"
  shows "(LocFindByFileSource s p f = Ok l \<longleftrightarrow> LocFind s p (fl_file_id l) = Ok l \<and> fl_file_source l = f) \<and>
    (LocFind s p i = Ok x \<and> LocFind s p j = Ok y \<and> fl_file_source x = fl_file_source y \<longrightarrow> i = j)"
  using loc.by_source_iff loc.source_unique reachable_inv [OF assms] by blast

theorem location_source_unique_witness:
  "(LocFindByFileSource sample_locations ''p'' ''/u/b'' = Ok (sample_location ''b'' ''/u/b'') \<longleftrightarrow>
      LocFind sample_locations ''p'' (fl_file_id (sample_location ''b'' ''/u/b'')) = Ok (sample_location ''b'' ''/u/b'') \<and>
      fl_file_source (sample_location ''b'' ''/u/b'') = ''/u/b'') \<and>
   LocFind sample_locations ''p'' ''b'' = Ok (sample_location ''b'' ''/u/b'')"
  using location_source_unique [OF sample_locations_reachable, of "''p''" "''/u/b''" "sample_location ''b'' ''/u/b''"]
  by (auto simp del: LocFind_Ok) code_simp

text \<open>
  Saving is an upsert on the file id. It succeeds exactly when
  partition, file id and file source are non-empty and no other file id of the partition holds the
  file source; then the record is found by its id and by its source, its former source is free,
  and every other record is untouched. When it fails nothing that can be looked up changes.
\<close>

theorem location_save_effect:
  assumes "loc_reachable s" "LocSave s p l = (s', r)"
  shows "(r = Ok () \<longleftrightarrow> p \<noteq> [] \<and> fl_file_id l \<noteq> [] \<and> fl_file_source l \<noteq> [] \<and>
      (\<forall>m. LocFindByFileSource s p (fl_file_source l) = Ok m \<longrightarrow> fl_file_id m = fl_file_id l)) \<and>
    (r = Ok () \<longrightarrow> LocFind s' p (fl_file_id l) = Ok l \<and>
      LocFindByFileSource s' p (fl_file_source l) = Ok l \<and>
      (\<forall>old m. LocFind s p (fl_file_id l) = Ok old \<and> fl_file_source old \<noteq> fl_file_source l \<longrightarrow>
         LocFindByFileSource s' p (fl_file_source old) \<noteq> Ok m)) \<and>
    (\<forall>q j m. r \<noteq> Ok () \<or> (q, j) \<noteq> (p, fl_file_id l) \<longrightarrow>
       LocFind s' q j = Ok m \<longleftrightarrow> LocFind s q j = Ok m)"
proof -
  note inv = reachable_inv [OF assms(1)]
  have frame: "r \<noteq> Ok () \<or> (q, j) \<noteq> (p, fl_file_id l) \<Longrightarrow>
      LocFind s' q j = Ok m \<longleftrightarrow> LocFind s q j = Ok m" for q j m
    unfolding loc.save_lookup [OF inv assms(2)] by auto
  have stored: "LocFind s' p (fl_file_id l) = Ok l" if "r = Ok ()"
    unfolding loc.save_lookup [OF inv assms(2)] using that by simp
  show ?thesis
    using loc.save_ok [OF inv assms(2)] frame stored
      loc.save_then_by_source [OF inv, of p l s'] loc.resave_frees_source [OF inv, of p l _ s'] assms(2)
    by blast
qed

theorem location_save_effect_witness:
  "\<exists>s' r. LocSave sample_locations ''p'' (sample_location ''a'' ''/u/c'') = (s', r) \<and> r = Ok () \<and>
     LocFindByFileSource s' ''p'' ''/u/c'' = Ok (sample_location ''a'' ''/u/c'')"
proof -
  have e: "snd (LocSave sample_locations ''p'' (sample_location ''a'' ''/u/c'')) = Ok ()" by code_simp
  obtain s' where s: "LocSave sample_locations ''p'' (sample_location ''a'' ''/u/c'') = (s', Ok ())"
    using e by (metis prod.collapse)
  then show ?thesis
    using location_save_effect [OF sample_locations_reachable s] by (auto simp: sample_location_def)
qed

section \<open>Listing\<close>

definition loc_page :: "LocState \<Rightarrow> string \<Rightarrow> LocationQuery \<Rightarrow> int \<Rightarrow> FileLocation list" where
  "loc_page s p q offset = (case LocList s p (q\<lparr>lq_offset := offset\<rparr>) of Inl e \<Rightarrow> [] | Inr pg \<Rightarrow> lpg_records pg)"

definition loc_expected :: "LocState \<Rightarrow> string \<Rightarrow> LocationQuery \<Rightarrow> FileLocation list" where
  "loc_expected s p q = (case map_of (lr_by_id s) p of None \<Rightarrow> [] | Some b \<Rightarrow> loc_matched q b)"

lemma concat_pages:
  "concat (map (\<lambda>k. take n (drop (k * n) xs)) [0..<m]) = take (m * n) xs"
proof (induction m)
  case (Suc m)
  then show ?case by (simp add: take_add [symmetric] add.commute)
qed simp

lemma LocList_Ok:
  assumes "0 < lq_limit q" "0 \<le> lq_offset q"
  shows "LocList s p q = Ok \<lparr>lpg_records = take (nat (lq_limit q)) (drop (nat (lq_offset q)) (loc_expected s p q)),
    lpg_total = int (length (loc_expected s p q))\<rparr>"
  using assms by (simp add: LocList_def loc_expected_def LocFindPartition_def split: option.split)

lemma set_loc_expected:
  assumes "loc_inv s"
  shows "l \<in> set (loc_expected s p q) \<longleftrightarrow> LocFind s p (fl_file_id l) = Ok l \<and> loc_matches q l"
proof (cases "map_of (lr_by_id s) p")
  case None
  then show ?thesis by (simp add: loc_expected_def loc_at_def)
next
  case (Some b)
  then have wf: "map_wf b" using loc_wf_bucket [OF loc_invD(1) [OF assms]] by (simp add: LocFindPartition_def)
  have id: "fl_file_id l = i" if "(i, l) \<in> set b" for i
    using loc_invD(2) [OF assms, of p i l] Some that map_wf_lookup [OF wf] by (simp add: loc_at_def)
  have "l \<in> snd ` set b \<longleftrightarrow> map_of b (fl_file_id l) = Some l"
  proof
    assume "l \<in> snd ` set b"
    then obtain i where "(i, l) \<in> set b" by auto
    then show "map_of b (fl_file_id l) = Some l" using id map_wf_lookup [OF wf] by simp
  next
    assume "map_of b (fl_file_id l) = Some l"
    from map_of_SomeD [OF this] show "l \<in> snd ` set b" by (rule rev_image_eqI) simp
  qed
  then show ?thesis using Some by (auto simp: loc_expected_def loc_matched_def loc_at_def)
qed

lemma distinct_loc_expected:
  assumes "loc_inv s"
  shows "distinct (map fl_file_id (loc_expected s p q))"
proof (cases "map_of (lr_by_id s) p")
  case None
  then show ?thesis by (simp add: loc_expected_def)
next
  case (Some b)
  then have wf: "map_wf b" using loc_wf_bucket [OF loc_invD(1) [OF assms]] by (simp add: LocFindPartition_def)
  have id: "fl_file_id l = i" if "(i, l) \<in> set b" for i l
    using loc_invD(2) [OF assms, of p i l] Some that map_wf_lookup [OF wf] by (simp add: loc_at_def)
  have "map fst b = map fl_file_id (map snd b)" using id by (auto simp: map_eq_conv)
  then have "distinct (map fl_file_id (map snd b))" using map_wf_distinct [OF wf] by (simp only:)
  then have "distinct (map fl_file_id (filter (loc_matches q) (map snd b)))" by (rule distinct_map_filter)
  then show ?thesis using Some
    by (simp add: loc_expected_def loc_matched_def distinct_map)
qed

text \<open>
  Walking through a listing page by page, with any page size and with
  enough pages to cover the reported total, returns every record of the partition that matches the
  query exactly once, in ascending order of creation second and file id, and nothing else.
\<close>

theorem location_list_pages:
  assumes "loc_reachable s" "0 < lq_limit q" "length (loc_expected s p q) \<le> n * nat (lq_limit q)"
  shows "(let out = concat (map (\<lambda>k. loc_page s p q (int (k * nat (lq_limit q)))) [0..<n]) in
      sorted (map loc_sort_key out) \<and> distinct (map fl_file_id out) \<and>
      (\<forall>l. l \<in> set out \<longleftrightarrow> LocFind s p (fl_file_id l) = Ok l \<and> loc_matches q l)) \<and>
    (\<exists>pg. LocList s p (q\<lparr>lq_offset := 0\<rparr>) = Ok pg \<and> lpg_total pg = int (length (loc_expected s p q)))"
proof -
  note inv = reachable_inv [OF assms(1)]
  have same: "loc_expected s p (q\<lparr>lq_offset := k\<rparr>) = loc_expected s p q" for k
  proof -
    have "loc_matches (q\<lparr>lq_offset := k\<rparr>) = loc_matches q" by (simp add: fun_eq_iff loc_matches_def)
    then show ?thesis by (simp add: loc_expected_def loc_matched_def split: option.split)
  qed
  have page: "loc_page s p q (int k) = take (nat (lq_limit q)) (drop k (loc_expected s p q))" for k
    using assms(2) by (simp add: loc_page_def LocList_Ok same)
  have "concat (map (\<lambda>k. loc_page s p q (int (k * nat (lq_limit q)))) [0..<n]) = loc_expected s p q"
    unfolding page concat_pages using assms(3) by simp
  moreover have "sorted (map loc_sort_key (loc_expected s p q))"
    by (simp add: loc_expected_def loc_matched_def split: option.split)
  ultimately show ?thesis
    using set_loc_expected [OF inv] distinct_loc_expected [OF inv] assms(2)
    by (simp add: LocList_Ok same Let_def del: LocFind_Ok)
qed

theorem location_list_pages_witness:
  "let q = \<lparr>lq_user_id = [], lq_created_after = - 1, lq_created_before = - 1, lq_limit = 1, lq_offset = 0\<rparr>;
       out = concat (map (\<lambda>k. loc_page sample_locations ''p'' q (int (k * nat (lq_limit q)))) [0..<2]) in
   map fl_file_id out = [''a'', ''b''] \<and> sorted (map loc_sort_key out) \<and> distinct (map fl_file_id out)"
proof -
  let ?q = "\<lparr>lq_user_id = [], lq_created_after = - 1, lq_created_before = - 1, lq_limit = 1, lq_offset = 0\<rparr>"
  have len: "length (loc_expected sample_locations ''p'' ?q) \<le> 2 * nat (lq_limit ?q)" by code_simp
  have out: "map fl_file_id (concat (map (\<lambda>k. loc_page sample_locations ''p'' ?q
      (int (k * nat (lq_limit ?q)))) [0..<2])) = [''a'', ''b'']" by code_simp
  show ?thesis
    using location_list_pages [OF sample_locations_reachable _ len] out by (simp add: Let_def)
qed

end
