(* ===== verification/Lease_Repository.thy ===== *)
theory Lease_Repository
  imports Domain_Types
begin

text \<open>
  \<^verbatim>\<open>infra/location/memory/memory_lease_repository\<close>: leases on files in flight. A live lease keeps
  every other instance away from the file; an expired one is claimed by exactly one collector.
  The clock reading is an argument of each operation; every method runs under one mutex, so an
  interleaving of instances is a sequence of operations. The port contract is the locale
  \<open>lease_port\<close>.
\<close>

section \<open>State and operations\<close>

type_synonym LeaseState = "(string \<times> Lease) list"

definition unit_separator :: char where
  "unit_separator = CHR 0x1F"

definition LeaseKey :: "string \<Rightarrow> string \<Rightarrow> string" where
  "LeaseKey part file_id = part @ [unit_separator] @ file_id"

definition LeaseAcquire ::
  "int \<Rightarrow> LeaseState \<Rightarrow> string \<Rightarrow> string \<Rightarrow> string \<Rightarrow> int \<Rightarrow> LeaseState \<times> Lease Result" where
  "LeaseAcquire now s part file_id owner ttl =
     (let key = LeaseKey part file_id;
          held = (case map_of s key of None \<Rightarrow> False | Some l \<Rightarrow> ls_expires_at l > now) in
      if held then (s, Err kUnavailable msg_lease_held)
      else let lease = \<lparr>ls_file_id = file_id, ls_owner = owner, ls_file_source = [],
                        ls_expires_at = now + ttl\<rparr>
           in (map_put key lease s, Ok lease))"

definition LeaseRenew ::
  "int \<Rightarrow> LeaseState \<Rightarrow> string \<Rightarrow> string \<Rightarrow> string \<Rightarrow> int \<Rightarrow> LeaseState \<times> unit Result" where
  "LeaseRenew now s part file_id owner ttl =
     (case map_of s (LeaseKey part file_id) of
        None \<Rightarrow> (s, Err kNotFound msg_lease_missing)
      | Some l \<Rightarrow>
          if ls_owner l \<noteq> owner then (s, Err kPermissionDenied msg_lease_foreign)
          else (map_put (LeaseKey part file_id) (l\<lparr>ls_expires_at := now + ttl\<rparr>) s, Ok ()))"

definition LeaseRelease ::
  "LeaseState \<Rightarrow> string \<Rightarrow> string \<Rightarrow> string \<Rightarrow> LeaseState \<times> unit Result" where
  "LeaseRelease s part file_id owner =
     (case map_of s (LeaseKey part file_id) of
        None \<Rightarrow> (s, Err kNotFound msg_lease_missing)
      | Some l \<Rightarrow>
          if ls_owner l \<noteq> owner then (s, Err kPermissionDenied msg_lease_foreign)
          else (map_erase (LeaseKey part file_id) s, Ok ()))"

definition expired_keys :: "int \<Rightarrow> LeaseState \<Rightarrow> string \<Rightarrow> string list" where
  "expired_keys now s part =
     map fst (filter (\<lambda>(key, l). starts_with (part @ [unit_separator]) key \<and> \<not> ls_expires_at l > now) s)"

text \<open>The second loop: at most \<open>limit\<close> keys are taken over, each pushed a minute ahead.\<close>

fun claim_keys ::
  "int \<Rightarrow> string \<Rightarrow> nat \<Rightarrow> string list \<Rightarrow> LeaseState \<Rightarrow> LeaseState \<times> Lease list" where
  "claim_keys now who limit [] s = (s, [])"
| "claim_keys now who 0 (k # ks) s = (s, [])"
| "claim_keys now who (Suc n) (k # ks) s =
     (case map_of s k of
        None \<Rightarrow> claim_keys now who (Suc n) ks s
      | Some l \<Rightarrow>
          let l' = l\<lparr>ls_owner := who, ls_expires_at := now + 60000\<rparr>;
              r = claim_keys now who n ks (map_put k l' s)
          in (fst r, l' # snd r))"

definition LeaseClaimExpired ::
  "int \<Rightarrow> LeaseState \<Rightarrow> string \<Rightarrow> int \<Rightarrow> string \<Rightarrow> LeaseState \<times> Lease list Result" where
  "LeaseClaimExpired now s part limit claimant =
     (if limit \<le> 0 then (s, Ok [])
      else let r = claim_keys now claimant (nat limit) (expired_keys now s part) s
           in (fst r, Ok (snd r)))"

definition LeaseSize :: "LeaseState \<Rightarrow> string \<Rightarrow> nat" where
  "LeaseSize s part = length (filter (\<lambda>(key, l). starts_with (part @ [unit_separator]) key) s)"

section \<open>Keys\<close>

text \<open>A partition name holds no control character (the container check of the key policy refuses
  them); the separator is one, so a key determines its partition and its file.\<close>

definition clean :: "string \<Rightarrow> bool" where
  "clean part \<longleftrightarrow> unit_separator \<notin> set part"

lemma LeaseKey_inj: "clean p \<Longrightarrow> clean q \<Longrightarrow> LeaseKey p f = LeaseKey q g \<longleftrightarrow> p = q \<and> f = g"
proof (induction p arbitrary: q)
  case Nil
  then show ?case by (cases q) (auto simp: LeaseKey_def clean_def)
next
  case (Cons c p)
  then show ?case by (cases q) (auto simp: LeaseKey_def clean_def)
qed

lemma LeaseKey_prefix:
  "clean p \<Longrightarrow> clean q \<Longrightarrow> starts_with (p @ [unit_separator]) (LeaseKey q g) \<longleftrightarrow> p = q"
proof (induction p arbitrary: q)
  case Nil
  then show ?case by (cases q) (auto simp: LeaseKey_def clean_def starts_with_def)
next
  case (Cons c p)
  then show ?case by (cases q) (auto simp: LeaseKey_def clean_def starts_with_def)
qed

definition lease_at :: "LeaseState \<Rightarrow> string \<Rightarrow> string \<Rightarrow> Lease option" where
  "lease_at s p f = map_of s (LeaseKey p f)"

definition lease_inv :: "LeaseState \<Rightarrow> bool" where
  "lease_inv s \<longleftrightarrow> map_wf s \<and>
     (\<forall>k l. map_of s k = Some l \<longrightarrow> (\<exists>p. clean p \<and> k = LeaseKey p (ls_file_id l)))"

definition claimed_by :: "int \<Rightarrow> string \<Rightarrow> Lease \<Rightarrow> Lease" where
  "claimed_by now who l = l\<lparr>ls_owner := who, ls_expires_at := now + 60000\<rparr>"

lemma claim_keys_eq:
  assumes "distinct ks" "\<forall>k \<in> set ks. map_of s k \<noteq> None"
  shows "map_of (fst (claim_keys now who n ks s)) k =
      (if k \<in> set (take n ks) then map_option (claimed_by now who) (map_of s k) else map_of s k) \<and>
    snd (claim_keys now who n ks s) = map (\<lambda>k. claimed_by now who (the (map_of s k))) (take n ks)"
  using assms
proof (induction ks arbitrary: n s)
  case (Cons a ks)
  obtain l where l: "map_of s a = Some l" using Cons.prems by auto
  let ?s = "map_put a (claimed_by now who l) s"
  show ?case
  proof (cases n)
    case (Suc m)
    have IH: "map_of (fst (claim_keys now who m ks ?s)) k =
        (if k \<in> set (take m ks) then map_option (claimed_by now who) (map_of ?s k) else map_of ?s k) \<and>
      snd (claim_keys now who m ks ?s) = map (\<lambda>k. claimed_by now who (the (map_of ?s k))) (take m ks)"
      by (rule Cons.IH) (use Cons.prems in auto)
    have a: "a \<notin> set (take m ks)" using Cons.prems by (auto dest: in_set_takeD)
    then have "map (\<lambda>k. claimed_by now who (the (map_of ?s k))) (take m ks) =
        map (\<lambda>k. claimed_by now who (the (map_of s k))) (take m ks)"
      by (intro map_cong refl) auto
    then show ?thesis
      using IH l a by (auto simp: Suc claimed_by_def [symmetric] Let_def)
  qed simp
qed simp

lemma map_wf_claim_keys: "map_wf s \<Longrightarrow> map_wf (fst (claim_keys now who n ks s))"
  by (induction now who n ks s rule: claim_keys.induct) (auto simp: Let_def split: option.split)

lemma expired_keys_present:
  assumes "map_wf s"
  shows "distinct (expired_keys now s p)" "\<forall>k \<in> set (expired_keys now s p). map_of s k \<noteq> None"
  using map_wf_distinct [OF assms]
  by (auto simp: expired_keys_def distinct_map_filter map_of_eq_None_iff split: prod.splits)

lemma expired_keys_iff:
  assumes "map_wf s"
  shows "k \<in> set (expired_keys now s p) \<longleftrightarrow>
    starts_with (p @ [unit_separator]) k \<and> (\<exists>l. map_of s k = Some l \<and> ls_expires_at l \<le> now)"
  using map_wf_lookup [OF assms] by (force simp: expired_keys_def)

text \<open>The effect of a claim on the leases, and the leases it returns.\<close>

lemma claim_effect:
  assumes "map_wf s" "LeaseClaimExpired now s p limit who = (s', r)"
  shows "map_of s' k =
      (if k \<in> set (take (nat limit) (expired_keys now s p)) then map_option (claimed_by now who) (map_of s k)
       else map_of s k)"
    and "r = Ok (map (\<lambda>k. claimed_by now who (the (map_of s k))) (take (nat limit) (expired_keys now s p)))"
  using assms(2) claim_keys_eq [OF expired_keys_present [OF assms(1)]]
  by (auto simp: LeaseClaimExpired_def Let_def split: if_splits)

lemma claim_keeps_live:
  assumes "map_wf s" "LeaseClaimExpired now s p limit who = (s', r)" "map_of s k = Some l"
    "now < ls_expires_at l"
  shows "map_of s' k = Some l"
proof -
  have "k \<notin> set (expired_keys now s p)" using assms(3,4) by (simp add: expired_keys_iff [OF assms(1)])
  then show ?thesis using claim_effect(1) [OF assms(1,2)] assms(3) by (auto dest: in_set_takeD)
qed

section \<open>The port contract\<close>

datatype LeaseOp =
    OpAcquire string string string int
  | OpRenew string string string int
  | OpRelease string string string
  | OpClaimExpired string int string

datatype LeaseReply =
    ReplyLease "Lease Result"
  | ReplyUnit "unit Result"
  | ReplyClaimed "Lease list Result"

fun lease_exec :: "int \<Rightarrow> LeaseState \<Rightarrow> LeaseOp \<Rightarrow> LeaseState \<times> LeaseReply" where
  "lease_exec now s (OpAcquire p f who ttl) = map_prod id ReplyLease (LeaseAcquire now s p f who ttl)"
| "lease_exec now s (OpRenew p f who ttl) = map_prod id ReplyUnit (LeaseRenew now s p f who ttl)"
| "lease_exec now s (OpRelease p f who) = map_prod id ReplyUnit (LeaseRelease s p f who)"
| "lease_exec now s (OpClaimExpired p limit who) = map_prod id ReplyClaimed (LeaseClaimExpired now s p limit who)"

fun op_partition :: "LeaseOp \<Rightarrow> string" where
  "op_partition (OpAcquire p f who ttl) = p"
| "op_partition (OpRenew p f who ttl) = p"
| "op_partition (OpRelease p f who) = p"
| "op_partition (OpClaimExpired p limit who) = p"

fun op_actor :: "LeaseOp \<Rightarrow> string" where
  "op_actor (OpAcquire p f who ttl) = who"
| "op_actor (OpRenew p f who ttl) = who"
| "op_actor (OpRelease p f who) = who"
| "op_actor (OpClaimExpired p limit who) = who"

locale lease_port =
  fixes exec :: "int \<Rightarrow> 's \<Rightarrow> LeaseOp \<Rightarrow> 's \<times> LeaseReply"
    and holder :: "'s \<Rightarrow> string \<Rightarrow> string \<Rightarrow> Lease option"
    and inv :: "'s \<Rightarrow> bool"
  assumes exec_inv: "inv s \<Longrightarrow> clean (op_partition c) \<Longrightarrow> inv (fst (exec now s c))"
    and live_kept: "inv s \<Longrightarrow> clean (op_partition c) \<Longrightarrow> clean p \<Longrightarrow> holder s p f = Some l \<Longrightarrow>
      now < ls_expires_at l \<Longrightarrow> op_actor c \<noteq> ls_owner l \<Longrightarrow> holder (fst (exec now s c)) p f = Some l"
    and acquire_live: "inv s \<Longrightarrow> holder s p f = Some l \<Longrightarrow> now < ls_expires_at l \<Longrightarrow>
      \<exists>e. exec now s (OpAcquire p f who ttl) = (s, ReplyLease (Inl e)) \<and> error_kind e = kUnavailable"
begin

definition run :: "'s \<Rightarrow> (int \<times> LeaseOp) list \<Rightarrow> 's" where
  "run s cs = fold (\<lambda>(now, c) s. fst (exec now s c)) cs s"

lemma run_inv: "inv s \<Longrightarrow> \<forall>(t, c) \<in> set cs. clean (op_partition c) \<Longrightarrow> inv (run s cs)"
  by (induction cs arbitrary: s) (auto simp: run_def exec_inv)

lemma run_keeps_live:
  assumes "inv s" "clean p" "holder s p f = Some l"
    "\<forall>(t, c) \<in> set cs. clean (op_partition c) \<and> t < ls_expires_at l \<and> op_actor c \<noteq> ls_owner l"
  shows "holder (run s cs) p f = Some l"
  using assms
proof (induction cs arbitrary: s)
  case (Cons tc cs)
  obtain t c where tc: "tc = (t, c)" by (cases tc)
  have "holder (fst (exec t s c)) p f = Some l" "inv (fst (exec t s c))"
    using Cons.prems tc live_kept exec_inv by auto
  then show ?case using Cons.IH Cons.prems by (simp add: tc run_def)
qed (simp add: run_def)

end

lemma lease_inv_exec:
  assumes "lease_inv s" "clean (op_partition c)"
  shows "lease_inv (fst (lease_exec now s c))"
proof (cases c)
  case (OpAcquire p f who ttl)
  then show ?thesis using assms by (auto simp: lease_inv_def LeaseAcquire_def Let_def)
next
  case (OpRenew p f who ttl)
  then show ?thesis using assms by (auto simp: lease_inv_def LeaseRenew_def split: option.split)
next
  case (OpRelease p f who)
  then show ?thesis using assms by (auto simp: lease_inv_def LeaseRelease_def split: option.split)
next
  case (OpClaimExpired p limit who)
  obtain s' r where c: "LeaseClaimExpired now s p limit who = (s', r)" by fastforce
  have wf: "map_wf s" using assms(1) by (simp add: lease_inv_def)
  then have "map_wf s'" using c map_wf_claim_keys [OF wf] by (auto simp: LeaseClaimExpired_def Let_def split: if_splits)
  moreover have "\<exists>p. clean p \<and> k = LeaseKey p (ls_file_id l)" if m: "map_of s' k = Some l" for k l
  proof -
    obtain l' where "map_of s k = Some l'" "ls_file_id l' = ls_file_id l"
      using m claim_effect(1) [OF wf c, of k] by (auto simp: claimed_by_def split: if_splits)
    then show ?thesis using assms(1) unfolding lease_inv_def by metis
  qed
  ultimately show ?thesis using OpClaimExpired c by (simp add: lease_inv_def)
qed

lemma lease_live_kept:
  assumes "lease_inv s" "clean (op_partition c)" "clean p" "lease_at s p f = Some l"
    "now < ls_expires_at l" "op_actor c \<noteq> ls_owner l"
  shows "lease_at (fst (lease_exec now s c)) p f = Some l"
proof (cases c)
  case (OpAcquire q g who ttl)
  then show ?thesis using assms LeaseKey_inj [of p q f g]
    by (auto simp: lease_at_def LeaseAcquire_def Let_def split: option.splits)
next
  case (OpRenew q g who ttl)
  then show ?thesis using assms LeaseKey_inj [of p q f g]
    by (auto simp: lease_at_def LeaseRenew_def split: option.splits)
next
  case (OpRelease q g who)
  then show ?thesis using assms LeaseKey_inj [of p q f g]
    by (auto simp: lease_at_def LeaseRelease_def split: option.splits)
next
  case (OpClaimExpired q limit who)
  then show ?thesis using assms claim_keeps_live [of s now q limit who]
    by (cases "LeaseClaimExpired now s q limit who") (auto simp: lease_at_def lease_inv_def)
qed

interpretation lease: lease_port lease_exec lease_at lease_inv
proof unfold_locales
  fix s :: LeaseState and p f l now who ttl
  assume "lease_at s p f = Some l" "now < ls_expires_at l"
  then show "\<exists>e. lease_exec now s (OpAcquire p f who ttl) = (s, ReplyLease (Inl e)) \<and> error_kind e = kUnavailable"
    by (auto simp: lease_at_def LeaseAcquire_def Let_def Err_def)
qed (auto intro: lease_inv_exec lease_live_kept)

definition lease_run :: "LeaseState \<Rightarrow> (int \<times> LeaseOp) list \<Rightarrow> LeaseState" where
  "lease_run s cs = fold (\<lambda>(now, c) s. fst (lease_exec now s c)) cs s"

lemma lease_run_eq: "lease_run = lease.run"
  by (simp add: fun_eq_iff lease_run_def lease.run_def)

lemma lease_inv_Nil: "lease_inv []"
  by (simp add: lease_inv_def)

text \<open>
  C20: while a lease is live, no interleaving of operations of other instances
  can take the file away from its owner: whatever they acquire, renew, release or claim before the
  expiry, the lease stays the owner's, unchanged, and an attempt to acquire it is refused as
  unavailable without any effect. (The state is one reached from the empty repository by
  operations on partitions whose names hold no separator.)
\<close>

theorem lease_exclusive:
  assumes "s = lease_run [] hist" "\<forall>(t, c) \<in> set hist. clean (op_partition c)"
    "clean p" "lease_at s p f = Some l"
    "\<forall>(t, c) \<in> set cs. clean (op_partition c) \<and> t < ls_expires_at l \<and> op_actor c \<noteq> ls_owner l"
    "now < ls_expires_at l"
  shows "lease_at (lease_run s cs) p f = Some l \<and>
    (\<exists>e. LeaseAcquire now (lease_run s cs) p f who ttl = (lease_run s cs, Inl e) \<and>
       error_kind e = kUnavailable)"
proof -
  have inv: "lease_inv s" using lease.run_inv [OF lease_inv_Nil assms(2)] assms(1) by (simp add: lease_run_eq)
  have kept: "lease_at (lease_run s cs) p f = Some l"
    using lease.run_keeps_live [OF inv assms(3,4,5)] by (simp add: lease_run_eq)
  moreover have "lease_inv (lease_run s cs)"
    using lease.run_inv [OF inv, of cs] assms(5) by (auto simp: lease_run_eq)
  ultimately show ?thesis
    using lease.acquire_live [of "lease_run s cs" p f l now who ttl] assms(6)
    by (cases "LeaseAcquire now (lease_run s cs) p f who ttl") auto
qed

theorem lease_exclusive_witness:
  "lease_at (lease_run (lease_run [] [(0, OpAcquire ''p'' ''f'' ''A'' 100)])
      [(10, OpAcquire ''p'' ''f'' ''B'' 50), (20, OpClaimExpired ''p'' 9 ''B''), (99, OpRelease ''p'' ''f'' ''B'')])
     ''p'' ''f'' = Some \<lparr>ls_file_id = ''f'', ls_owner = ''A'', ls_file_source = [], ls_expires_at = 100\<rparr>"
proof -
  have at: "lease_at (lease_run [] [(0, OpAcquire ''p'' ''f'' ''A'' 100)]) ''p'' ''f'' =
      Some \<lparr>ls_file_id = ''f'', ls_owner = ''A'', ls_file_source = [], ls_expires_at = 100\<rparr>" by code_simp
  show ?thesis
    by (rule lease_exclusive [OF refl _ _ at, where now = 5, THEN conjunct1])
       (simp_all add: clean_def unit_separator_def)
qed

text \<open>
  C21: an expired lease is handed to one collector only. A claim returns at
  most the requested number of leases, each of them expired, of the asked partition and now owned by
  the claimant, and a second claim by any instance within the following minute returns none of
  the files the first one returned.
\<close>

lemma claimed_keys:
  assumes "lease_inv s" "clean p" "LeaseClaimExpired now s p limit who = (s', Ok cs)" "c \<in> set cs"
  shows "map_of s' (LeaseKey p (ls_file_id c)) = Some c \<and> ls_owner c = who \<and>
    ls_expires_at c = now + 60000 \<and>
    (\<exists>l. map_of s (LeaseKey p (ls_file_id c)) = Some l \<and> ls_expires_at l \<le> now)"
proof -
  have wf: "map_wf s" using assms(1) by (simp add: lease_inv_def)
  obtain k where k: "k \<in> set (take (nat limit) (expired_keys now s p))" "c = claimed_by now who (the (map_of s k))"
    using claim_effect(2) [OF wf assms(3)] assms(4) by auto
  then obtain l where l: "map_of s k = Some l" "ls_expires_at l \<le> now" "starts_with (p @ [unit_separator]) k"
    using expired_keys_iff [OF wf] in_set_takeD by metis
  then obtain q where "clean q" "k = LeaseKey q (ls_file_id l)" using assms(1) by (auto simp: lease_inv_def)
  then have "k = LeaseKey p (ls_file_id c)"
    using l k(2) LeaseKey_prefix [OF assms(2)] by (auto simp: claimed_by_def)
  then show ?thesis
    using claim_effect(1) [OF wf assms(3), of k] k l by (auto simp: claimed_by_def)
qed

theorem lease_claimed_once:
  assumes "s = lease_run [] hist" "\<forall>(t, c) \<in> set hist. clean (op_partition c)" "clean p" "0 \<le> limit"
    "LeaseClaimExpired now s p limit who = (s', Ok cs)"
    "LeaseClaimExpired now' s' p limit' who' = (s'', Ok cs')" "now' < now + 60000"
  shows "int (length cs) \<le> limit \<and>
    (\<forall>c \<in> set cs. ls_owner c = who \<and> lease_at s' p (ls_file_id c) = Some c \<and>
       (\<exists>l. lease_at s p (ls_file_id c) = Some l \<and> ls_expires_at l \<le> now)) \<and>
    ls_file_id ` set cs \<inter> ls_file_id ` set cs' = {}"
proof -
  have inv: "lease_inv s" using lease.run_inv [OF lease_inv_Nil assms(2)] assms(1) by (simp add: lease_run_eq)
  then have wf: "map_wf s" by (simp add: lease_inv_def)
  have inv': "lease_inv s'"
    using lease_inv_exec [OF inv, of "OpClaimExpired p limit who" now] assms(3,5) by simp
  note c = claimed_keys [OF inv assms(3,5)] and c' = claimed_keys [OF inv' assms(3,6)]
  have "length cs \<le> nat limit" using claim_effect(2) [OF wf assms(5)] by simp
  moreover have "ls_file_id x \<noteq> ls_file_id y" if "x \<in> set cs" "y \<in> set cs'" for x y
    using c [OF that(1)] c' [OF that(2)] assms(7) by auto
  ultimately show ?thesis using c assms(4) by (auto simp: lease_at_def)
qed

definition sample_leases :: LeaseState where
  "sample_leases = lease_run [] [(0, OpAcquire ''p'' ''f'' ''A'' 1)]"

theorem lease_claimed_once_witness:
  "lease_at (fst (LeaseClaimExpired 5 sample_leases ''p'' 3 ''B'')) ''p'' ''f'' =
     Some \<lparr>ls_file_id = ''f'', ls_owner = ''B'', ls_file_source = [], ls_expires_at = 60005\<rparr> \<and>
   snd (LeaseClaimExpired 9 (fst (LeaseClaimExpired 5 sample_leases ''p'' 3 ''B'')) ''p'' 3 ''C'') = Ok []"
proof -
  let ?l = "\<lparr>ls_file_id = ''f'', ls_owner = ''B'', ls_file_source = [], ls_expires_at = 60005\<rparr>"
  define s1 where "s1 = fst (LeaseClaimExpired 5 sample_leases ''p'' 3 ''B'')"
  define s2 where "s2 = fst (LeaseClaimExpired 9 s1 ''p'' 3 ''C'')"
  have "snd (LeaseClaimExpired 5 sample_leases ''p'' 3 ''B'') = Ok [?l]" by code_simp
  then have r: "LeaseClaimExpired 5 sample_leases ''p'' 3 ''B'' = (s1, Ok [?l])"
    by (simp add: s1_def prod_eq_iff)
  have e: "snd (LeaseClaimExpired 9 s1 ''p'' 3 ''C'') = Ok []" unfolding s1_def by code_simp
  then have r': "LeaseClaimExpired 9 s1 ''p'' 3 ''C'' = (s2, Ok [])"
    by (simp add: s2_def prod_eq_iff)
  have "lease_at s1 ''p'' ''f'' = Some ?l"
    using lease_claimed_once [OF sample_leases_def _ _ _ r r'] by (simp add: clean_def unit_separator_def)
  then show ?thesis using e by (simp only: s1_def)
qed

end
