(* ===== verification/Metadata_Repository.thy ===== *)
theory Metadata_Repository
  imports File_Metadata "HOL-Library.Product_Lexorder"
begin

text \<open>
  \<^verbatim>\<open>infra/metadata/memory/memory_metadata_repository\<close>: version chains of metadata records by
  partition and record id, an index that makes the file source the idempotency key of a
  partition, and the write protocol \<open>claiming \<rightarrow> ready\<close> that lets exactly one instance register a
  file. The clock reading is an argument; each method of the source but \<open>Create\<close> runs under one
  mutex and is one step, \<open>Create\<close> is a claim step followed by a mark-ready step.
\<close>

section \<open>State\<close>

datatype MetadataState = kClaiming | kReady | kDeleted

record MetadataClaim =
  mc_claimed :: bool
  mc_record :: FileMetadataRecord
  mc_state :: MetadataState

record MetadataQuery =
  mq_kind :: "string option"
  mq_name_prefix :: "string option"
  mq_created_after :: int
  mq_created_before :: int
  mq_limit :: int
  mq_offset :: int

record MetadataPage =
  mp_records :: "FileMetadataRecord list"
  mp_total :: int

record Version =
  v_record :: FileMetadataRecord
  v_created_at :: int
  v_is_latest :: bool
  v_state :: MetadataState

type_synonym Chain = "Version list"

record MdState =
  md_by_id :: "(string \<times> (string \<times> Chain) list) list"
  md_source_index :: "((string \<times> string) \<times> string) list"

definition md_empty :: MdState where
  "md_empty = \<lparr>md_by_id = [], md_source_index = []\<rparr>"

section \<open>Operations\<close>

definition ValidatePartitionAndId :: "string \<Rightarrow> FileMetadataRecord \<Rightarrow> unit Result" where
  "ValidatePartitionAndId part record =
     (if part = [] then Err kInvalidArgument msg_partition_empty
      else if fm_id record = [] then Err kInvalidArgument msg_record_id_empty
      else if RecordPartition record \<noteq> part
      then Err kInvalidArgument msg_record_tenant_mismatch
      else Ok ())"

definition FindChain :: "MdState \<Rightarrow> string \<Rightarrow> string \<Rightarrow> Chain option" where
  "FindChain s part record_id =
     (case map_of (md_by_id s) part of None \<Rightarrow> None | Some bucket \<Rightarrow> map_of bucket record_id)"

definition record_not_found :: "'a Result" where
  "record_not_found = Err kNotFound ''Record Not Found''"

definition not_claiming :: "'a Result" where
  "not_claiming = Err kNotFound msg_not_claiming"

definition source_key_empty :: "'a Result" where
  "source_key_empty = Err kInvalidArgument msg_source_key_empty"

definition MdClaimForWrite ::
  "int \<Rightarrow> MdState \<Rightarrow> string \<Rightarrow> FileMetadataRecord \<Rightarrow> MdState \<times> MetadataClaim Result" where
  "MdClaimForWrite now s part record =
     (case ValidatePartitionAndId part record of
        Inl e \<Rightarrow> (s, Inl e)
      | Inr _ \<Rightarrow>
          let file_source = FileSourceOf record;
              existing = (case map_of (md_source_index s) (part, file_source) of
                            None \<Rightarrow> None
                          | Some owner \<Rightarrow>
                              (case FindChain s part owner of
                                 None \<Rightarrow> None | Some chain \<Rightarrow> if chain = [] then None else Some chain)) in
          if file_source = [] then (s, source_key_empty)
          else (case existing of
                  Some chain \<Rightarrow>
                    (s, Ok \<lparr>mc_claimed = False, mc_record = v_record (last chain), mc_state = v_state (last chain)\<rparr>)
                | None \<Rightarrow>
                    let bucket = (case map_of (md_by_id s) part of None \<Rightarrow> [] | Some b \<Rightarrow> b);
                        s = s\<lparr>md_by_id := map_put part bucket (md_by_id s)\<rparr> in
                    if map_of bucket (fm_id record) \<noteq> None
                    then (s, Err kInvalidArgument
                               (msg_id_other_source @ fm_id record))
                    else
                      let version = \<lparr>v_record = record\<lparr>fm_version := 1\<rparr>, v_created_at = now,
                                     v_is_latest = True, v_state = kClaiming\<rparr>
                      in (s\<lparr>md_by_id := map_put part (map_put (fm_id record) [version] bucket) (md_by_id s),
                            md_source_index := map_put (part, file_source) (fm_id record) (md_source_index s)\<rparr>,
                          Ok \<lparr>mc_claimed = True, mc_record = v_record version, mc_state = kClaiming\<rparr>)))"

text \<open>The loops over a chain stop at the first row of the given version: what stands before it,
  the row, and what stands after it.\<close>

fun find_row :: "int \<Rightarrow> Chain \<Rightarrow> (Chain \<times> Version \<times> Chain) option" where
  "find_row n [] = None"
| "find_row n (v # c) =
     (if fm_version (v_record v) \<noteq> n
      then map_option (\<lambda>(pre, x, post). (v # pre, x, post)) (find_row n c)
      else Some ([], v, c))"

definition set_chain :: "string \<Rightarrow> string \<Rightarrow> Chain \<Rightarrow> MdState \<Rightarrow> MdState" where
  "set_chain part record_id chain s =
     (case map_of (md_by_id s) part of
        None \<Rightarrow> s
      | Some bucket \<Rightarrow> s\<lparr>md_by_id := map_put part (map_put record_id chain bucket) (md_by_id s)\<rparr>)"

text \<open>Erasing a row; an empty chain goes together with its entry of the source index.\<close>

definition drop_row :: "string \<Rightarrow> string \<Rightarrow> Chain \<Rightarrow> string \<Rightarrow> MdState \<Rightarrow> MdState" where
  "drop_row part record_id rest file_source s =
     (if rest \<noteq> [] then set_chain part record_id rest s
      else case map_of (md_by_id s) part of
             None \<Rightarrow> s
           | Some bucket \<Rightarrow>
               s\<lparr>md_by_id := map_put part (map_erase record_id bucket) (md_by_id s),
                 md_source_index := map_erase (part, file_source) (md_source_index s)\<rparr>)"

definition MdMarkReady ::
  "MdState \<Rightarrow> string \<Rightarrow> string \<Rightarrow> int \<Rightarrow> FileMetadataRecord \<Rightarrow> MdState \<times> FileMetadataRecord Result" where
  "MdMarkReady s part record_id version record =
     (case ValidatePartitionAndId part record of
        Inl e \<Rightarrow> (s, Inl e)
      | Inr _ \<Rightarrow>
          (case FindChain s part record_id of
             None \<Rightarrow> (s, record_not_found)
           | Some chain \<Rightarrow>
               (case find_row version chain of
                  None \<Rightarrow> (s, record_not_found)
                | Some (pre, row, post) \<Rightarrow>
                    if v_state row \<noteq> kClaiming then (s, not_claiming)
                    else if FileSourceOf (v_record row) \<noteq> FileSourceOf record
                    then (s, Err kInvalidArgument msg_mark_ready_source)
                    else
                      let final = record\<lparr>fm_id := record_id, fm_version := version\<rparr>;
                          row = row\<lparr>v_record := final, v_state := kReady\<rparr>
                      in (set_chain part record_id (pre @ row # post) s, Ok final))))"

definition MdReleaseClaim :: "MdState \<Rightarrow> string \<Rightarrow> string \<Rightarrow> int \<Rightarrow> MdState \<times> unit Result" where
  "MdReleaseClaim s part record_id version =
     (if part = [] then (s, Err kInvalidArgument msg_partition_empty)
      else (case FindChain s part record_id of
              None \<Rightarrow> (s, record_not_found)
            | Some chain \<Rightarrow>
                (case find_row version chain of
                   None \<Rightarrow> (s, record_not_found)
                 | Some (pre, row, post) \<Rightarrow>
                     if v_state row \<noteq> kClaiming then (s, not_claiming)
                     else (drop_row part record_id (pre @ post) (FileSourceOf (v_record row)) s, Ok ()))))"

definition MdCreate ::
  "int \<Rightarrow> MdState \<Rightarrow> string \<Rightarrow> FileMetadataRecord \<Rightarrow> MdState \<times> FileMetadataRecord Result" where
  "MdCreate now s part record =
     (case ValidatePartitionAndId part record of
        Inl e \<Rightarrow> (s, Inl e)
      | Inr _ \<Rightarrow>
          FSS_TRY_ST (MdClaimForWrite now s part record) (\<lambda>s claim.
            if \<not> mc_claimed claim then (s, Ok (mc_record claim))
            else MdMarkReady s part (fm_id (mc_record claim)) (fm_version (mc_record claim)) (mc_record claim)))"

definition stale_claim :: "int \<Rightarrow> string list \<Rightarrow> Version \<Rightarrow> bool" where
  "stale_claim older_than allowed v \<longleftrightarrow>
     v_state v = kClaiming \<and> \<not> v_created_at v > older_than \<and> FileSourceOf (v_record v) \<in> set allowed"

definition victim_of :: "int \<Rightarrow> string list \<Rightarrow> string \<times> Chain \<Rightarrow> (string \<times> int) list" where
  "victim_of older_than allowed = (\<lambda>(record_id, chain).
     case find (stale_claim older_than allowed) chain of
       None \<Rightarrow> [] | Some v \<Rightarrow> [(record_id, fm_version (v_record v))])"

fun reclaim_victims :: "string \<Rightarrow> (string \<times> int) list \<Rightarrow> MdState \<times> int \<Rightarrow> MdState \<times> int" where
  "reclaim_victims part [] (s, n) = (s, n)"
| "reclaim_victims part ((record_id, version) # vs) (s, n) =
     reclaim_victims part vs
       (case FindChain s part record_id of
          None \<Rightarrow> (s, n)
        | Some chain \<Rightarrow>
            (case find_row version chain of
               None \<Rightarrow> (s, n)
             | Some (pre, row, post) \<Rightarrow>
                 if v_state row \<noteq> kClaiming then (s, n)
                 else (drop_row part record_id (pre @ post) (FileSourceOf (v_record row)) s, n + 1)))"

definition MdReclaimStaleClaiming ::
  "MdState \<Rightarrow> string \<Rightarrow> int \<Rightarrow> int \<Rightarrow> string list \<Rightarrow> MdState \<times> int Result" where
  "MdReclaimStaleClaiming s part older_than limit sources =
     (if part = [] then (s, Err kInvalidArgument msg_partition_empty)
      else if limit \<le> 0 then (s, Ok 0)
      else if sources = [] then (s, Ok 0)
      else (case map_of (md_by_id s) part of
              None \<Rightarrow> (s, Ok 0)
            | Some bucket \<Rightarrow>
                let victims = take (nat limit) (concat (map (victim_of older_than sources) bucket));
                    r = reclaim_victims part victims (s, 0)
                in (fst r, Ok (snd r))))"

definition ready_record :: "Chain option \<Rightarrow> FileMetadataRecord Result" where
  "ready_record chain =
     (case chain of
        None \<Rightarrow> record_not_found
      | Some c \<Rightarrow> if c = [] then record_not_found
                  else if v_state (last c) \<noteq> kReady then record_not_found
                  else Ok (v_record (last c)))"

definition MdGetById :: "MdState \<Rightarrow> string \<Rightarrow> string \<Rightarrow> FileMetadataRecord Result" where
  "MdGetById s part record_id = ready_record (FindChain s part record_id)"

definition MdGetLatestByFileSource :: "MdState \<Rightarrow> string \<Rightarrow> string \<Rightarrow> FileMetadataRecord Result" where
  "MdGetLatestByFileSource s part file_source =
     (case map_of (md_source_index s) (part, file_source) of
        None \<Rightarrow> record_not_found
      | Some owner \<Rightarrow> ready_record (FindChain s part owner))"

definition MdUpdate ::
  "int \<Rightarrow> MdState \<Rightarrow> string \<Rightarrow> FileMetadataRecord \<Rightarrow> MdState \<times> FileMetadataRecord Result" where
  "MdUpdate now s part record =
     (case ValidatePartitionAndId part record of
        Inl e \<Rightarrow> (s, Inl e)
      | Inr _ \<Rightarrow>
          (case FindChain s part (fm_id record) of
             None \<Rightarrow> (s, record_not_found)
           | Some chain \<Rightarrow>
               if chain = [] then (s, record_not_found)
               else if v_state (last chain) \<noteq> kReady then (s, record_not_found)
               else if FileSourceOf record = [] then (s, source_key_empty)
               else if FileSourceOf record \<noteq> FileSourceOf (v_record (last chain))
               then (s, Err kInvalidArgument msg_update_source)
               else
                 let final = record\<lparr>fm_version := fm_version (v_record (last chain)) + 1\<rparr>;
                     version = \<lparr>v_record = final, v_created_at = now, v_is_latest = True, v_state = kReady\<rparr>
                 in (set_chain part (fm_id record) (map (\<lambda>v. v\<lparr>v_is_latest := False\<rparr>) chain @ [version]) s,
                     Ok final)))"

definition MdDelete :: "MdState \<Rightarrow> string \<Rightarrow> string \<Rightarrow> MdState \<times> unit Result" where
  "MdDelete s part record_id =
     (case map_of (md_by_id s) part of
        None \<Rightarrow> (s, record_not_found)
      | Some bucket \<Rightarrow>
          (case map_of bucket record_id of
             None \<Rightarrow> (s, record_not_found)
           | Some chain \<Rightarrow>
               if chain = [] then (s, record_not_found)
               else (s\<lparr>md_by_id := map_put part (map_erase record_id bucket) (md_by_id s),
                       md_source_index :=
                         map_erase (part, FileSourceOf (v_record (last chain))) (md_source_index s)\<rparr>, Ok ())))"

definition md_row_matches :: "MetadataQuery \<Rightarrow> Version \<Rightarrow> bool" where
  "md_row_matches q v \<longleftrightarrow>
     v_is_latest v \<and> v_state v = kReady \<and>
     (case mq_kind q of None \<Rightarrow> True | Some k \<Rightarrow> fm_kind (v_record v) = k) \<and>
     (case mq_name_prefix q of
        None \<Rightarrow> True
      | Some pre \<Rightarrow> (case fd_name (fm_data (v_record v)) of None \<Rightarrow> False | Some n \<Rightarrow> starts_with pre n)) \<and>
     \<not> (mq_created_after q \<ge> 0 \<and> v_created_at v < mq_created_after q) \<and>
     \<not> (mq_created_before q \<ge> 0 \<and> v_created_at v > mq_created_before q)"

definition md_sort_key :: "Version \<Rightarrow> int \<times> string" where
  "md_sort_key v = (v_created_at v, fm_id (v_record v))"

definition md_matched :: "MetadataQuery \<Rightarrow> (string \<times> Chain) list \<Rightarrow> Version list" where
  "md_matched q bucket =
     sort_key md_sort_key (filter (md_row_matches q) (map last (filter (\<lambda>c. c \<noteq> []) (map snd bucket))))"

definition MdList :: "MdState \<Rightarrow> string \<Rightarrow> MetadataQuery \<Rightarrow> MetadataPage Result" where
  "MdList s part q =
     (if mq_limit q \<le> 0 then Err kInvalidArgument msg_limit_positive
      else if mq_offset q < 0 then Err kInvalidArgument msg_offset_nonnegative
      else case map_of (md_by_id s) part of
             None \<Rightarrow> Ok \<lparr>mp_records = [], mp_total = 0\<rparr>
           | Some bucket \<Rightarrow>
               let rows = md_matched q bucket in
               Ok \<lparr>mp_records = map v_record (take (nat (mq_limit q)) (drop (nat (mq_offset q)) rows)),
                   mp_total = int (length rows)\<rparr>)"

definition MdVersionCount :: "MdState \<Rightarrow> string \<Rightarrow> string \<Rightarrow> nat" where
  "MdVersionCount s part record_id = (case FindChain s part record_id of None \<Rightarrow> 0 | Some c \<Rightarrow> length c)"

section \<open>The invariant of chains and index\<close>

text \<open>Versions count from one without gaps, only the last row is marked latest, all rows carry the
  chain's record id and file source, and a claiming row is alone in its chain.\<close>

definition chain_ok :: "string \<Rightarrow> string \<Rightarrow> Chain \<Rightarrow> bool" where
  "chain_ok i f c \<longleftrightarrow> c \<noteq> [] \<and>
     (\<forall>v \<in> set c. fm_id (v_record v) = i \<and> FileSourceOf (v_record v) = f) \<and>
     map (\<lambda>v. fm_version (v_record v)) c = map (\<lambda>k. int k + 1) [0..<length c] \<and>
     (\<forall>v \<in> set (butlast c). \<not> v_is_latest v) \<and> v_is_latest (last c) \<and>
     (\<forall>v \<in> set c. v_state v = kReady \<or> v_state v = kClaiming \<and> c = [v])"

definition md_wf :: "MdState \<Rightarrow> bool" where
  "md_wf s \<longleftrightarrow> map_wf (md_by_id s) \<and> (\<forall>b \<in> snd ` set (md_by_id s). map_wf b) \<and>
     map_wf (md_source_index s)"

definition md_inv :: "MdState \<Rightarrow> bool" where
  "md_inv s \<longleftrightarrow> md_wf s \<and>
     (\<forall>p i c. FindChain s p i = Some c \<longrightarrow>
        (\<exists>f. f \<noteq> [] \<and> chain_ok i f c \<and> map_of (md_source_index s) (p, f) = Some i)) \<and>
     (\<forall>p f i. map_of (md_source_index s) (p, f) = Some i \<longrightarrow>
        (\<exists>c. FindChain s p i = Some c \<and> chain_ok i f c))"

lemma md_invI:
  assumes "md_wf s"
    "\<And>p i c. FindChain s p i = Some c \<Longrightarrow>
       \<exists>f. f \<noteq> [] \<and> chain_ok i f c \<and> map_of (md_source_index s) (p, f) = Some i"
    "\<And>p f i. map_of (md_source_index s) (p, f) = Some i \<Longrightarrow> \<exists>c. FindChain s p i = Some c \<and> chain_ok i f c"
  shows "md_inv s"
  using assms by (simp add: md_inv_def)

lemma md_invD:
  assumes "md_inv s"
  shows "md_wf s"
    "FindChain s p i = Some c \<Longrightarrow>
       \<exists>f. f \<noteq> [] \<and> chain_ok i f c \<and> map_of (md_source_index s) (p, f) = Some i"
    "map_of (md_source_index s) (p, f) = Some i \<Longrightarrow> \<exists>c. FindChain s p i = Some c \<and> chain_ok i f c"
  using assms unfolding md_inv_def by blast+

lemma chain_ok_source: "chain_ok i f c \<Longrightarrow> chain_ok j g c \<Longrightarrow> i = j \<and> f = g"
  by (cases c) (auto simp: chain_ok_def)

lemma chain_ok_last:
  assumes "chain_ok i f c"
  shows "c \<noteq> []" "fm_id (v_record (last c)) = i" "FileSourceOf (v_record (last c)) = f"
    "fm_version (v_record (last c)) = int (length c)"
proof -
  show "c \<noteq> []" using assms by (simp add: chain_ok_def)
  then have l: "last c \<in> set c" by simp
  then show "fm_id (v_record (last c)) = i" "FileSourceOf (v_record (last c)) = f"
    using assms by (auto simp: chain_ok_def)
  have "last (map (\<lambda>v. fm_version (v_record v)) c) = last (map (\<lambda>k. int k + 1) [0..<length c])"
    using assms by (simp add: chain_ok_def)
  then show "fm_version (v_record (last c)) = int (length c)"
    using \<open>c \<noteq> []\<close> by (cases "length c") (simp_all add: last_map)
qed

lemma chain_ok_single:
  "fm_id (v_record v) = i \<Longrightarrow> FileSourceOf (v_record v) = f \<Longrightarrow> fm_version (v_record v) = 1 \<Longrightarrow>
   v_is_latest v \<Longrightarrow> v_state v \<noteq> kDeleted \<Longrightarrow> chain_ok i f [v]"
  by (cases "v_state v") (auto simp: chain_ok_def)

lemma FileSourceOf_update [simp]:
  "FileSourceOf (r\<lparr>fm_version := n\<rparr>) = FileSourceOf r" "FileSourceOf (r\<lparr>fm_id := i\<rparr>) = FileSourceOf r"
  "FileSourceOf (r\<lparr>fm_id := i, fm_version := n\<rparr>) = FileSourceOf r"
  by (simp_all add: FileSourceOf_def)

lemma chain_ok_append:
  assumes "chain_ok i f c" "v_state (last c) = kReady" "fm_id (v_record v) = i"
    "FileSourceOf (v_record v) = f" "fm_version (v_record v) = fm_version (v_record (last c)) + 1"
    "v_is_latest v" "v_state v = kReady"
  shows "chain_ok i f (map (\<lambda>v. v\<lparr>v_is_latest := False\<rparr>) c @ [v])"
proof -
  have "v_state x = kReady" if "x \<in> set c" for x
    using assms(1,2) that by (auto simp: chain_ok_def)
  then show ?thesis
    using assms chain_ok_last(4) [OF assms(1)] by (auto simp: chain_ok_def comp_def)
qed

lemma find_row_Some: "find_row n c = Some (pre, v, post) \<Longrightarrow> c = pre @ v # post \<and> fm_version (v_record v) = n"
  by (induction c arbitrary: pre) (auto split: if_splits)

lemma chain_ok_claiming:
  assumes "chain_ok i f c" "find_row n c = Some (pre, v, post)" "v_state v = kClaiming"
  shows "c = [v]" "pre = []" "post = []" "n = 1"
proof -
  have c: "c = pre @ v # post" "fm_version (v_record v) = n" using find_row_Some [OF assms(2)] by auto
  then show "c = [v]" using assms(1,3) by (auto simp: chain_ok_def)
  then show "pre = []" "post = []" using c by (auto simp: append_eq_Cons_conv)
  have "chain_ok i f [v]" using assms(1) by (simp only: \<open>c = [v]\<close>)
  then show "n = 1" using c(2) by (simp add: chain_ok_def)
qed

section \<open>What the operations do to chains and index\<close>

lemma FindChain_put:
  "FindChain (s\<lparr>md_by_id := map_put p b m\<rparr>) q i =
     (if q = p then map_of b i else case map_of m q of None \<Rightarrow> None | Some b \<Rightarrow> map_of b i)"
  "FindChain (s\<lparr>md_by_id := map_put p b m, md_source_index := x\<rparr>) q i =
     (if q = p then map_of b i else case map_of m q of None \<Rightarrow> None | Some b \<Rightarrow> map_of b i)"
  by (simp_all add: FindChain_def)

lemma FindChain_set_chain:
  "FindChain s p i = Some c0 \<Longrightarrow>
     FindChain (set_chain p i c s) q j = (if (q, j) = (p, i) then Some c else FindChain s q j)"
  by (auto simp: set_chain_def FindChain_def split: option.splits)

lemma set_chain_index [simp]: "md_source_index (set_chain p i c s) = md_source_index s"
  by (simp add: set_chain_def split: option.split)

lemma FindChain_drop_row:
  "FindChain s p i = Some c0 \<Longrightarrow>
     FindChain (drop_row p i [] f s) q j = (if (q, j) = (p, i) then None else FindChain s q j)"
  "FindChain s p i = Some c0 \<Longrightarrow>
     md_source_index (drop_row p i [] f s) = map_erase (p, f) (md_source_index s)"
  by (auto simp: drop_row_def FindChain_def split: option.splits)

lemma md_wf_put:
  "md_wf s \<Longrightarrow> map_wf b \<Longrightarrow> md_wf (s\<lparr>md_by_id := map_put p b (md_by_id s)\<rparr>)"
  "md_wf s \<Longrightarrow> map_wf b \<Longrightarrow> map_wf x \<Longrightarrow>
     md_wf (s\<lparr>md_by_id := map_put p b (md_by_id s), md_source_index := x\<rparr>)"
  "md_wf s \<Longrightarrow> map_wf b \<Longrightarrow> map_wf x \<Longrightarrow>
     md_wf (s\<lparr>md_by_id := map_put p b (map_put p b' (md_by_id s)), md_source_index := x\<rparr>)"
  by (auto simp: md_wf_def std_map.put_put set_map_put)

lemma md_wf_bucket: "md_wf s \<Longrightarrow> map_of (md_by_id s) p = Some b \<Longrightarrow> map_wf b"
  by (force simp: md_wf_def dest: map_of_SomeD)

lemma md_wf_index: "md_wf s \<Longrightarrow> map_wf (md_source_index s)"
  by (simp add: md_wf_def)

lemmas md_wf_intros = md_wf_put md_wf_bucket md_wf_index map_wf_put map_wf_erase map_wf_Nil map_wf_single

lemma set_chain_wf: "md_wf s \<Longrightarrow> md_wf (set_chain p i c s)"
  by (auto simp: set_chain_def split: option.split intro: md_wf_intros)

lemma drop_row_wf: "md_wf s \<Longrightarrow> md_wf (drop_row p i c f s)"
  by (auto simp: drop_row_def set_chain_wf split: option.split intro: md_wf_intros)

lemma ValidatePartitionAndId_Ok:
  "ValidatePartitionAndId p r = Inr u \<longleftrightarrow> p \<noteq> [] \<and> fm_id r \<noteq> [] \<and> RecordPartition r = p"
  by (auto simp: ValidatePartitionAndId_def Ok_def Err_def)

definition new_row :: "int \<Rightarrow> FileMetadataRecord \<Rightarrow> Version" where
  "new_row now r = \<lparr>v_record = r\<lparr>fm_version := 1\<rparr>, v_created_at = now, v_is_latest = True, v_state = kClaiming\<rparr>"

lemma claim_cases:
  assumes "md_inv s" "MdClaimForWrite now s p r = (s', res)"
  obtains (error) e where "res = Inl e" "\<And>q j. FindChain s' q j = FindChain s q j"
      "md_source_index s' = md_source_index s"
  | (taken) i c where "s' = s" "map_of (md_source_index s) (p, FileSourceOf r) = Some i"
      "FindChain s p i = Some c"
      "res = Ok \<lparr>mc_claimed = False, mc_record = v_record (last c), mc_state = v_state (last c)\<rparr>"
  | (won) "ValidatePartitionAndId p r = Ok ()" "FileSourceOf r \<noteq> []"
      "map_of (md_source_index s) (p, FileSourceOf r) = None" "FindChain s p (fm_id r) = None"
      "\<And>q j. FindChain s' q j = (if (q, j) = (p, fm_id r) then Some [new_row now r] else FindChain s q j)"
      "md_source_index s' = map_put (p, FileSourceOf r) (fm_id r) (md_source_index s)"
      "res = Ok \<lparr>mc_claimed = True, mc_record = r\<lparr>fm_version := 1\<rparr>, mc_state = kClaiming\<rparr>"
proof (cases "ValidatePartitionAndId p r")
  case (Inl e)
  then show ?thesis using assms(2) by (intro error) (auto simp: MdClaimForWrite_def)
next
  case (Inr u)
  then have valid: "ValidatePartitionAndId p r = Ok ()" by simp
  show ?thesis
  proof (cases "FileSourceOf r = []")
    case True
    then show ?thesis using assms(2) Inr
      by (intro error) (auto simp: MdClaimForWrite_def Let_def source_key_empty_def Err_def)
  next
    case src: False
    show ?thesis
    proof (cases "map_of (md_source_index s) (p, FileSourceOf r)")
      case (Some i)
      then obtain c where c: "FindChain s p i = Some c" "c \<noteq> []"
        using md_invD(3) [OF assms(1)] chain_ok_last(1) by metis
      show ?thesis
        by (rule taken [OF _ Some c(1)]) (use assms(2) Inr src Some c in \<open>auto simp: MdClaimForWrite_def\<close>)
    next
      case None
      let ?b = "case map_of (md_by_id s) p of None \<Rightarrow> [] | Some b \<Rightarrow> b"
      have b: "map_of ?b j = FindChain s p j" for j by (simp add: FindChain_def split: option.split)
      have other: "(case map_of (md_by_id s) q of None \<Rightarrow> None | Some b \<Rightarrow> map_of b j) = FindChain s q j" for q j
        by (simp add: FindChain_def)
      show ?thesis
      proof (cases "FindChain s p (fm_id r)")
        case (Some c)
        then show ?thesis using assms(2) Inr src None
          by (intro error) (auto simp: MdClaimForWrite_def Let_def b FindChain_put other Err_def)
      next
        case free: None
        show ?thesis
          by (rule won [OF valid src None free])
             (use assms(2) Inr src None free in
               \<open>auto simp: MdClaimForWrite_def Let_def b FindChain_put other new_row_def split: if_splits\<close>)
      qed
    qed
  qed
qed

lemma claim_wf:
  assumes "md_wf s" "MdClaimForWrite now s p r = (s', res)"
  shows "md_wf s'"
  using assms by (auto simp: MdClaimForWrite_def Let_def split: sum.splits if_splits option.splits
      intro: md_wf_intros intro!: md_wf_put(3))

lemma md_inv_empty: "md_inv md_empty"
  by (simp add: md_inv_def md_wf_def md_empty_def FindChain_def)

lemma md_inv_cong:
  assumes "md_inv s" "md_wf s'" "\<And>q j. FindChain s' q j = FindChain s q j"
    "md_source_index s' = md_source_index s"
  shows "md_inv s'"
  using assms by (simp add: md_inv_def)

lemma md_inv_claim:
  assumes "md_inv s" "MdClaimForWrite now s p r = (s', res)"
  shows "md_inv s'"
  using assms
proof (cases rule: claim_cases)
  case (error e)
  then show ?thesis using md_inv_cong [OF assms(1) claim_wf [OF md_invD(1) [OF assms(1)] assms(2)]] by blast
next
  case (taken i c)
  then show ?thesis using assms(1) by simp
next
  case won
  have row: "chain_ok (fm_id r) (FileSourceOf r) [new_row now r]"
    by (rule chain_ok_single) (simp_all add: new_row_def)
  show ?thesis
  proof (rule md_invI)
    show "md_wf s'" using claim_wf [OF md_invD(1) [OF assms(1)] assms(2)] .
  next
    fix q i c assume c: "FindChain s' q i = Some c"
    show "\<exists>f. f \<noteq> [] \<and> chain_ok i f c \<and> map_of (md_source_index s') (q, f) = Some i"
    proof (cases "(q, i) = (p, fm_id r)")
      case True
      then show ?thesis using c row won by auto
    next
      case False
      then have "FindChain s q i = Some c" using c won(5) by auto
      from md_invD(2) [OF assms(1) this] obtain f where
        f: "f \<noteq> []" "chain_ok i f c" "map_of (md_source_index s) (q, f) = Some i" by (elim exE conjE)
      then have "(q, f) \<noteq> (p, FileSourceOf r)" using won(3) by auto
      then have "map_of (md_source_index s') (q, f) = Some i" using f(3) by (auto simp: won(6))
      with f show ?thesis by (intro exI [of _ f] conjI)
    qed
  next
    fix q f i assume x: "map_of (md_source_index s') (q, f) = Some i"
    show "\<exists>c. FindChain s' q i = Some c \<and> chain_ok i f c"
    proof (cases "(q, f) = (p, FileSourceOf r)")
      case True
      then show ?thesis using x row won by auto
    next
      case False
      then have "map_of (md_source_index s) (q, f) = Some i" using x won(6) by auto
      from md_invD(3) [OF assms(1) this] obtain c where c: "FindChain s q i = Some c" "chain_ok i f c"
        by auto
      then have "(q, i) \<noteq> (p, fm_id r)" using won(4) by auto
      then show ?thesis using c won(5) by auto
    qed
  qed
qed

text \<open>Replacing a chain by another good chain of the same id and source keeps the invariant.\<close>

lemma md_inv_set_chain:
  assumes "md_inv s" "FindChain s p i = Some c0" "chain_ok i f c0" "chain_ok i f c"
  shows "md_inv (set_chain p i c s)"
proof (rule md_invI)
  show "md_wf (set_chain p i c s)" using set_chain_wf [OF md_invD(1) [OF assms(1)]] .
next
  fix q j d assume "FindChain (set_chain p i c s) q j = Some d"
  then have "(q, j) = (p, i) \<and> d = c \<or> FindChain s q j = Some d"
    by (auto simp: FindChain_set_chain [OF assms(2)] split: if_splits)
  then consider "(q, j) = (p, i)" "d = c" | "FindChain s q j = Some d" by blast
  then show "\<exists>f. f \<noteq> [] \<and> chain_ok j f d \<and> map_of (md_source_index (set_chain p i c s)) (q, f) = Some j"
  proof cases
    case 1
    from md_invD(2) [OF assms(1,2)] obtain g where
      g: "g \<noteq> []" "chain_ok i g c0" "map_of (md_source_index s) (p, g) = Some i" by auto
    then have "g = f" using chain_ok_source [OF assms(3) g(2)] by simp
    then show ?thesis using 1 g assms(4) by auto
  next
    case 2
    from md_invD(2) [OF assms(1) this] show ?thesis by simp
  qed
next
  fix q g j assume "map_of (md_source_index (set_chain p i c s)) (q, g) = Some j"
  then have "map_of (md_source_index s) (q, g) = Some j" by simp
  from md_invD(3) [OF assms(1) this] obtain d where d: "FindChain s q j = Some d" "chain_ok j g d" by auto
  show "\<exists>d. FindChain (set_chain p i c s) q j = Some d \<and> chain_ok j g d"
  proof (cases "(q, j) = (p, i)")
    case True
    then have "g = f" using d assms(2,3) chain_ok_source [of j g d i f] by simp
    then show ?thesis using True assms(4) by (simp add: FindChain_set_chain [OF assms(2)])
  next
    case False
    then show ?thesis using d by (auto simp: FindChain_set_chain [OF assms(2)])
  qed
qed

text \<open>Removing a chain together with its index entry keeps the invariant.\<close>

lemma md_inv_remove:
  assumes "md_inv s" "FindChain s p i = Some c" "chain_ok i f c" "md_wf s'"
    "\<And>q j. FindChain s' q j = (if (q, j) = (p, i) then None else FindChain s q j)"
    "md_source_index s' = map_erase (p, f) (md_source_index s)"
  shows "md_inv s'"
proof (rule md_invI)
  show "md_wf s'" by fact
next
  from md_invD(2) [OF assms(1,2)] obtain h where
    h: "chain_ok i h c" "map_of (md_source_index s) (p, h) = Some i" by auto
  then have pf: "map_of (md_source_index s) (p, f) = Some i"
    using chain_ok_source [OF assms(3) h(1)] by simp
  fix q j d assume "FindChain s' q j = Some d"
  then have d: "FindChain s q j = Some d" "(q, j) \<noteq> (p, i)" using assms(5) by (auto split: if_splits)
  from md_invD(2) [OF assms(1) d(1)] obtain g where
    g: "g \<noteq> []" "chain_ok j g d" "map_of (md_source_index s) (q, g) = Some j" by auto
  then have "(q, g) \<noteq> (p, f)" using pf d(2) by auto
  then have "map_of (md_source_index s') (q, g) = Some j" using g(3) by (simp add: assms(6))
  with g show "\<exists>f. f \<noteq> [] \<and> chain_ok j f d \<and> map_of (md_source_index s') (q, f) = Some j"
    by (intro exI [of _ g] conjI)
next
  fix q g j assume "map_of (md_source_index s') (q, g) = Some j"
  then have g: "map_of (md_source_index s) (q, g) = Some j" "(q, g) \<noteq> (p, f)"
    using assms(6) by (auto split: if_splits)
  from md_invD(3) [OF assms(1) g(1)] obtain d where d: "FindChain s q j = Some d" "chain_ok j g d" by auto
  then have "(q, j) \<noteq> (p, i)" using g(2) assms(2,3) chain_ok_source [of j g d i f] by auto
  then show "\<exists>d. FindChain s' q j = Some d \<and> chain_ok j g d" using d assms(5) by auto
qed

text \<open>The successful outcome of each of the other writers, and that a failing one changes nothing.\<close>

lemma mark_ready_cases:
  assumes "md_inv s" "MdMarkReady s p i n r = (s', res)"
  obtains (error) e where "res = Inl e" "s' = s"
  | (ready) row where "FindChain s p i = Some [row]" "v_state row = kClaiming" "n = 1"
      "FileSourceOf (v_record row) = FileSourceOf r" "chain_ok i (FileSourceOf r) [row]"
      "s' = set_chain p i [row\<lparr>v_record := r\<lparr>fm_id := i, fm_version := 1\<rparr>, v_state := kReady\<rparr>] s"
      "res = Ok (r\<lparr>fm_id := i, fm_version := 1\<rparr>)"
proof (cases res)
  case (Inl e)
  then show ?thesis using assms(2)
    by (intro error) (auto simp: MdMarkReady_def Let_def split: sum.splits option.splits if_splits)
next
  case (Inr x)
  note run = assms(2) [unfolded MdMarkReady_def Inr] and fails = record_not_found_def not_claiming_def Err_def
  obtain u where valid: "ValidatePartitionAndId p r = Inr u"
    using run by (cases "ValidatePartitionAndId p r") simp_all
  obtain c where c: "FindChain s p i = Some c"
    using run valid by (cases "FindChain s p i") (simp_all add: fails)
  obtain pre row post where row: "find_row n c = Some (pre, row, post)"
    using run valid c by (cases "find_row n c") (auto simp: fails)
  have st: "v_state row = kClaiming"
    using run valid c row by (cases "v_state row = kClaiming") (simp_all add: fails)
  have src: "FileSourceOf (v_record row) = FileSourceOf r"
    using run valid c row st by (cases "FileSourceOf (v_record row) = FileSourceOf r") (simp_all add: fails)
  from md_invD(2) [OF assms(1) c] obtain f where ok: "chain_ok i f c" by (elim exE conjE)
  note cl = chain_ok_claiming [OF ok row st]
  have f: "f = FileSourceOf r" using ok src cl(1) by (simp add: chain_ok_def)
  show ?thesis
    by (rule ready [OF c [unfolded cl(1)] st cl(4) src ok [unfolded f cl(1)]])
       (use run valid c row st src Inr in \<open>auto simp: cl(2-4) Let_def\<close>)
qed

lemma release_cases:
  assumes "md_inv s" "MdReleaseClaim s p i n = (s', res)"
  obtains (error) e where "res = Inl e" "s' = s"
  | (released) row where "FindChain s p i = Some [row]" "v_state row = kClaiming" "n = 1"
      "chain_ok i (FileSourceOf (v_record row)) [row]"
      "s' = drop_row p i [] (FileSourceOf (v_record row)) s" "res = Ok ()"
proof (cases res)
  case (Inl e)
  then show ?thesis using assms(2)
    by (intro error) (auto simp: MdReleaseClaim_def split: option.splits if_splits)
next
  case (Inr x)
  note run = assms(2) [unfolded MdReleaseClaim_def Inr] and fails = record_not_found_def not_claiming_def Err_def
  have part: "p \<noteq> []" using run by (cases p) (simp_all add: fails)
  obtain c where c: "FindChain s p i = Some c"
    using run part by (cases "FindChain s p i") (simp_all add: fails)
  obtain pre row post where row: "find_row n c = Some (pre, row, post)"
    using run part c by (cases "find_row n c") (auto simp: fails)
  have st: "v_state row = kClaiming"
    using run part c row by (cases "v_state row = kClaiming") (simp_all add: fails)
  from md_invD(2) [OF assms(1) c] obtain f where ok: "chain_ok i f c" by (elim exE conjE)
  note cl = chain_ok_claiming [OF ok row st]
  have f: "f = FileSourceOf (v_record row)" using ok cl(1) by (simp add: chain_ok_def)
  show ?thesis
    by (rule released [OF c [unfolded cl(1)] st cl(4) ok [unfolded f cl(1)]])
       (use run part c row st Inr in \<open>simp_all add: cl(2,3)\<close>)
qed

lemma update_cases:
  assumes "md_inv s" "MdUpdate now s p r = (s', res)"
  obtains (error) e where "res = Inl e" "s' = s"
  | (updated) c v where "FindChain s p (fm_id r) = Some c" "chain_ok (fm_id r) (FileSourceOf r) c"
      "v_state (last c) = kReady" "ValidatePartitionAndId p r = Ok ()"
      "v = \<lparr>v_record = r\<lparr>fm_version := int (length c) + 1\<rparr>, v_created_at = now, v_is_latest = True, v_state = kReady\<rparr>"
      "s' = set_chain p (fm_id r) (map (\<lambda>v. v\<lparr>v_is_latest := False\<rparr>) c @ [v]) s"
      "res = Ok (r\<lparr>fm_version := int (length c) + 1\<rparr>)"
proof (cases res)
  case (Inl e)
  then show ?thesis using assms(2)
    by (intro error) (auto simp: MdUpdate_def Let_def split: sum.splits option.splits if_splits)
next
  case (Inr x)
  note run = assms(2) [unfolded MdUpdate_def Inr] and fails = record_not_found_def source_key_empty_def Err_def
  obtain u where valid: "ValidatePartitionAndId p r = Inr u"
    using run by (cases "ValidatePartitionAndId p r") simp_all
  obtain c where c: "FindChain s p (fm_id r) = Some c"
    using run valid by (cases "FindChain s p (fm_id r)") (simp_all add: fails)
  from md_invD(2) [OF assms(1) c] obtain f where ok: "chain_ok (fm_id r) f c" by (elim exE conjE)
  note l = chain_ok_last [OF ok]
  have st: "v_state (last c) = kReady"
    using run valid c l(1) by (cases "v_state (last c) = kReady") (simp_all add: fails)
  have src: "FileSourceOf r \<noteq> []"
    using run valid c l(1) st by (cases "FileSourceOf r = []") (simp_all add: fails)
  have f: "f = FileSourceOf r"
    using run valid c l(1,3) st src by (cases "FileSourceOf r = f") (simp_all add: fails)
  show ?thesis
    by (rule updated [OF c ok [unfolded f] st _ refl])
       (use run valid c l st src f Inr in \<open>auto simp: Let_def\<close>)
qed

lemma delete_cases:
  assumes "md_inv s" "MdDelete s p i = (s', res)"
  obtains (error) e where "res = Inl e" "s' = s" "FindChain s p i = None"
  | (deleted) c f where "FindChain s p i = Some c" "chain_ok i f c" "res = Ok ()"
      "\<And>q j. FindChain s' q j = (if (q, j) = (p, i) then None else FindChain s q j)"
      "md_source_index s' = map_erase (p, f) (md_source_index s)" "md_wf s'"
proof (cases "FindChain s p i")
  case None
  then show ?thesis using assms(2)
    by (intro error) (auto simp: MdDelete_def FindChain_def record_not_found_def Err_def split: option.splits)
next
  case (Some c)
  from md_invD(2) [OF assms(1) Some] obtain f where ok: "chain_ok i f c" by (elim exE conjE)
  obtain b where b: "map_of (md_by_id s) p = Some b" "map_of b i = Some c"
    using Some by (auto simp: FindChain_def split: option.splits)
  have s': "s' = s\<lparr>md_by_id := map_put p (map_erase i b) (md_by_id s), md_source_index := map_erase (p, f) (md_source_index s)\<rparr>"
    and res: "res = Ok ()"
    using assms(2) b chain_ok_last(1,3) [OF ok] by (auto simp: MdDelete_def)
  have wf: "md_wf s'"
    unfolding s' using md_invD(1) [OF assms(1)] b(1) by (auto intro: md_wf_intros)
  show ?thesis
    by (rule deleted [OF Some ok res _ _ wf])
       (use b in \<open>auto simp: s' FindChain_put FindChain_def split: option.splits\<close>)
qed

lemma md_inv_mark_ready:
  assumes "md_inv s" "MdMarkReady s p i n r = (s', res)"
  shows "md_inv s'"
  using assms
proof (cases rule: mark_ready_cases)
  case (ready row)
  then show ?thesis
    by (auto simp: chain_ok_def intro!: md_inv_set_chain [OF assms(1) ready(1,5)])
qed (use assms in simp)

lemma md_inv_release:
  assumes "md_inv s" "MdReleaseClaim s p i n = (s', res)"
  shows "md_inv s'"
  using assms
proof (cases rule: release_cases)
  case (released row)
  show ?thesis
    by (rule md_inv_remove [OF assms(1) released(1,4)])
       (simp_all add: released(5) drop_row_wf md_invD(1) [OF assms(1)] FindChain_drop_row [OF released(1)])
qed (use assms in simp)

lemma md_inv_update:
  assumes "md_inv s" "MdUpdate now s p r = (s', res)"
  shows "md_inv s'"
  using assms
proof (cases rule: update_cases)
  case (updated c v)
  have "chain_ok (fm_id r) (FileSourceOf r) (map (\<lambda>v. v\<lparr>v_is_latest := False\<rparr>) c @ [v])"
    by (rule chain_ok_append [OF updated(2,3)])
       (simp_all add: updated(5) chain_ok_last(4) [OF updated(2)])
  then show ?thesis using md_inv_set_chain [OF assms(1) updated(1,2)] updated(6) by simp
qed (use assms in simp)

lemma md_inv_delete:
  assumes "md_inv s" "MdDelete s p i = (s', res)"
  shows "md_inv s'"
  using assms
proof (cases rule: delete_cases)
  case (deleted c f)
  then show ?thesis using md_inv_remove [OF assms(1) deleted(1,2,6,4,5)] by simp
qed (use assms in simp)

text \<open>One victim of the reclaim loop is one release; the counter grows with it.\<close>

lemma reclaim_step:
  assumes "p \<noteq> []"
  shows "reclaim_victims p ((i, v) # vs) (s, n) =
    reclaim_victims p vs (case MdReleaseClaim s p i v of (s', Inl e) \<Rightarrow> (s, n) | (s', Inr u) \<Rightarrow> (s', n + 1))"
  using assms
  by (auto simp: MdReleaseClaim_def record_not_found_def not_claiming_def Err_def Ok_def split: option.split)

lemma reclaim_effect:
  assumes "md_inv s" "p \<noteq> []" "reclaim_victims p vs (s, n) = (s', m)"
  shows "md_inv s' \<and> n \<le> m \<and> m \<le> n + int (length vs) \<and>
    (\<forall>q j. FindChain s' q j \<noteq> FindChain s q j \<longrightarrow> q = p \<and> j \<in> fst ` set vs \<and> FindChain s' q j = None \<and>
       (\<exists>row. FindChain s q j = Some [row] \<and> v_state row = kClaiming))"
  using assms
proof (induction vs arbitrary: s n)
  case (Cons iv vs)
  obtain i v where iv: "iv = (i, v)" by (cases iv)
  obtain s1 r where rel: "MdReleaseClaim s p i v = (s1, r)" by (cases "MdReleaseClaim s p i v")
  from Cons.prems(1) rel show ?case
  proof (cases rule: release_cases)
    case (error e)
    then have "reclaim_victims p vs (s, n) = (s', m)"
      using Cons.prems rel by (simp add: iv reclaim_step del: reclaim_victims.simps)
    from Cons.IH [OF Cons.prems(1,2) this] show ?thesis by auto
  next
    case (released row)
    then have run: "reclaim_victims p vs (s1, n + 1) = (s', m)"
      using Cons.prems rel by (simp add: iv reclaim_step Ok_def del: reclaim_victims.simps)
    have at: "FindChain s1 q j = (if (q, j) = (p, i) then None else FindChain s q j)" for q j
      unfolding released(5) by (rule FindChain_drop_row(1) [OF released(1)])
    note IH = Cons.IH [OF md_inv_release [OF Cons.prems(1) rel] Cons.prems(2) run]
    have "q = p \<and> j \<in> fst ` set (iv # vs) \<and> FindChain s' q j = None \<and>
       (\<exists>row. FindChain s q j = Some [row] \<and> v_state row = kClaiming)"
      if "FindChain s' q j \<noteq> FindChain s q j" for q j
    proof (cases "FindChain s' q j = FindChain s1 q j")
      case True
      then have "(q, j) = (p, i)" "FindChain s' q j = None" using that at by (auto split: if_splits)
      then show ?thesis using released(1,2) iv by simp
    next
      case False
      with IH have b: "q = p" "j \<in> fst ` set vs" "FindChain s' q j = None"
          "\<exists>row. FindChain s1 q j = Some [row] \<and> v_state row = kClaiming" by blast+
      then have "FindChain s1 q j = FindChain s q j" using at [of q j] by (auto split: if_splits)
      with b show ?thesis by simp
    qed
    then show ?thesis using IH by simp
  qed
qed simp

lemma victims_stale:
  assumes "md_inv s" "map_of (md_by_id s) p = Some b"
    "(i, n) \<in> set (concat (map (victim_of t fs) b))"
  shows "\<exists>c. FindChain s p i = Some c \<and> (\<exists>row \<in> set c. stale_claim t fs row)"
proof -
  obtain c row where c: "(i, c) \<in> set b" "find (stale_claim t fs) c = Some row"
    using assms(3) by (fastforce simp: victim_of_def split: option.splits)
  have "map_of b i = Some c"
    using c(1) map_wf_lookup [OF md_wf_bucket [OF md_invD(1) [OF assms(1)] assms(2)]] by simp
  moreover have "row \<in> set c" "stale_claim t fs row" using c(2) by (auto simp: find_Some_iff)
  ultimately show ?thesis using assms(2) by (auto simp: FindChain_def)
qed

lemma reclaim_cases:
  assumes "md_inv s" "MdReclaimStaleClaiming s p t limit fs = (s', res)"
  shows "md_inv s' \<and> (\<forall>q j. FindChain s' q j \<noteq> FindChain s q j \<longrightarrow> q = p \<and> FindChain s' q j = None \<and>
      (\<exists>row. FindChain s q j = Some [row] \<and> stale_claim t fs row)) \<and>
    (\<forall>n. res = Ok n \<longrightarrow> 0 \<le> n \<and> n \<le> max 0 limit)"
proof (cases "p = [] \<or> limit \<le> 0 \<or> fs = [] \<or> map_of (md_by_id s) p = None")
  case True
  then have "s' = s" "res = Ok 0 \<or> (\<exists>e. res = Inl e)"
    using assms(2) by (auto simp: MdReclaimStaleClaiming_def Err_def split: if_splits option.splits)
  then show ?thesis using assms(1) by auto
next
  case False
  then obtain b where b: "map_of (md_by_id s) p = Some b" by auto
  define vs where "vs = take (nat limit) (concat (map (victim_of t fs) b))"
  obtain m where run: "reclaim_victims p vs (s, 0) = (s', m)" and res: "res = Ok m"
    using assms(2) False b by (cases "reclaim_victims p vs (s, 0)")
      (simp add: MdReclaimStaleClaiming_def vs_def Let_def)
  have "length vs \<le> nat limit" by (simp add: vs_def)
  note eff = reclaim_effect [OF assms(1) _ run]
  have "q = p \<and> FindChain s' q j = None \<and> (\<exists>row. FindChain s q j = Some [row] \<and> stale_claim t fs row)"
    if "FindChain s' q j \<noteq> FindChain s q j" for q j
  proof -
    have e: "q = p" "j \<in> fst ` set vs" "FindChain s' q j = None"
        "\<exists>row. FindChain s q j = Some [row] \<and> v_state row = kClaiming"
      using eff False that by blast+
    then obtain n where "(j, n) \<in> set vs" by force
    then have "(j, n) \<in> set (concat (map (victim_of t fs) b))" unfolding vs_def by (rule in_set_takeD)
    from victims_stale [OF assms(1) b this] e show ?thesis by auto
  qed
  then show ?thesis using eff False res \<open>length vs \<le> nat limit\<close> by auto
qed

section \<open>Reachable states\<close>

inductive md_reachable :: "MdState \<Rightarrow> bool" where
  md_init: "md_reachable md_empty"
| md_claim: "md_reachable s \<Longrightarrow> MdClaimForWrite now s p r = (s', cl) \<Longrightarrow> md_reachable s'"
| md_mark: "md_reachable s \<Longrightarrow> MdMarkReady s p i n r = (s', rr) \<Longrightarrow> md_reachable s'"
| md_release: "md_reachable s \<Longrightarrow> MdReleaseClaim s p i n = (s', ru) \<Longrightarrow> md_reachable s'"
| md_reclaim: "md_reachable s \<Longrightarrow> MdReclaimStaleClaiming s p t lim fs = (s', rn) \<Longrightarrow> md_reachable s'"
| md_update: "md_reachable s \<Longrightarrow> MdUpdate now s p r = (s', rr) \<Longrightarrow> md_reachable s'"
| md_delete: "md_reachable s \<Longrightarrow> MdDelete s p i = (s', ru) \<Longrightarrow> md_reachable s'"

lemma md_reachable_inv: "md_reachable s \<Longrightarrow> md_inv s"
  by (induction rule: md_reachable.induct)
     (auto intro: md_inv_empty md_inv_claim md_inv_mark_ready md_inv_release md_inv_update md_inv_delete
        dest: reclaim_cases)

lemma create_steps:
  "md_reachable s \<Longrightarrow> MdCreate now s p r = (s', res) \<Longrightarrow> md_reachable s'"
proof -
  assume s: "md_reachable s" and run: "MdCreate now s p r = (s', res)"
  obtain s1 cl where c: "MdClaimForWrite now s p r = (s1, cl)" by (cases "MdClaimForWrite now s p r")
  have "md_reachable s1" using md_claim [OF s c] .
  then show "md_reachable s'"
    using run s c by (cases cl) (auto simp: MdCreate_def split: sum.splits if_splits intro: md_mark)
qed

lemma ready_record_Ok:
  "ready_record oc = Ok r \<longleftrightarrow> (\<exists>c. oc = Some c \<and> c \<noteq> [] \<and> v_state (last c) = kReady \<and> r = v_record (last c))"
  by (auto simp: ready_record_def record_not_found_def split: option.split)

lemma source_reads_agree:
  assumes "md_inv s"
  shows "MdGetLatestByFileSource s p f = Ok r \<longleftrightarrow> MdGetById s p (fm_id r) = Ok r \<and> FileSourceOf r = f"
proof
  assume "MdGetLatestByFileSource s p f = Ok r"
  then obtain i c where i: "map_of (md_source_index s) (p, f) = Some i" "FindChain s p i = Some c"
      "c \<noteq> []" "v_state (last c) = kReady" "r = v_record (last c)"
    by (auto simp: MdGetLatestByFileSource_def ready_record_Ok record_not_found_def split: option.splits)
  from md_invD(3) [OF assms i(1)] i(2) have ok: "chain_ok i f c" by auto
  show "MdGetById s p (fm_id r) = Ok r \<and> FileSourceOf r = f"
    using i chain_ok_last [OF ok] by (auto simp: MdGetById_def ready_record_Ok)
next
  assume r: "MdGetById s p (fm_id r) = Ok r \<and> FileSourceOf r = f"
  then obtain c where c: "FindChain s p (fm_id r) = Some c" "c \<noteq> []" "v_state (last c) = kReady"
      "r = v_record (last c)"
    by (auto simp: MdGetById_def ready_record_Ok)
  from md_invD(2) [OF assms c(1)] obtain g where g: "chain_ok (fm_id r) g c"
      "map_of (md_source_index s) (p, g) = Some (fm_id r)" by (elim exE conjE)
  have "g = f" using chain_ok_last(3) [OF g(1)] c(4) r by simp
  then show "MdGetLatestByFileSource s p f = Ok r"
    using c g(2) by (auto simp: MdGetLatestByFileSource_def ready_record_Ok)
qed

text \<open>
  C18: in every reachable state of the repository each record id has a chain of
  versions numbered from one without gaps, with one record id and one file source, the latest mark
  on the last version only, and a claim that is not yet ready alone in its chain; two records of a
  partition never share a file source; and the two read paths agree.
\<close>

theorem metadata_chains:
  assumes "md_reachable s"
  shows "(FindChain s p i = Some c \<longrightarrow> chain_ok i (FileSourceOf (v_record (last c))) c) \<and>
    (FindChain s p i = Some c \<and> FindChain s p j = Some d \<and>
       FileSourceOf (v_record (last c)) = FileSourceOf (v_record (last d)) \<longrightarrow> i = j) \<and>
    (MdGetLatestByFileSource s p f = Ok r \<longleftrightarrow> MdGetById s p (fm_id r) = Ok r \<and> FileSourceOf r = f)"
proof -
  note inv = md_reachable_inv [OF assms]
  have ok: "\<exists>f. FileSourceOf (v_record (last c)) = f \<and> chain_ok i f c \<and> map_of (md_source_index s) (p, f) = Some i"
    if "FindChain s p i = Some c" for i c
    using md_invD(2) [OF inv that] chain_ok_last(3) by blast
  have "i = j" if "FindChain s p i = Some c" "FindChain s p j = Some d"
      "FileSourceOf (v_record (last c)) = FileSourceOf (v_record (last d))"
    using ok [OF that(1)] ok [OF that(2)] that(3) by auto
  then show ?thesis using ok source_reads_agree [OF inv] by blast
qed

definition sample_md :: MdState where
  "sample_md = fst (MdUpdate 9 (fst (MdCreate 5 md_empty ''p'' sample_record)) ''p'' sample_record)"

lemma sample_md_reachable: "md_reachable sample_md"
  unfolding sample_md_def
  by (rule md_update [OF create_steps [OF md_init prod.collapse [symmetric]] prod.collapse [symmetric]])

theorem metadata_chains_witness:
  "\<exists>c. FindChain sample_md ''p'' ''p:dataset--File.Generic:1'' = Some c \<and> length c = 2 \<and>
     chain_ok ''p:dataset--File.Generic:1'' (FileSourceOf (v_record (last c))) c"
proof -
  have "map_option length (FindChain sample_md ''p'' ''p:dataset--File.Generic:1'') = Some 2" by code_simp
  then obtain c where c: "FindChain sample_md ''p'' ''p:dataset--File.Generic:1'' = Some c" "length c = 2" by auto
  then show ?thesis using metadata_chains [OF sample_md_reachable] by blast
qed

section \<open>The write protocol\<close>

datatype MdOp =
    OpMdClaim int string FileMetadataRecord
  | OpMdMarkReady string string int FileMetadataRecord
  | OpMdRelease string string int
  | OpMdReclaim string int int "string list"
  | OpMdUpdate int string FileMetadataRecord
  | OpMdDelete string string

fun md_exec :: "MdOp \<Rightarrow> MdState \<Rightarrow> MdState" where
  "md_exec (OpMdClaim now p r) s = fst (MdClaimForWrite now s p r)"
| "md_exec (OpMdMarkReady p i n r) s = fst (MdMarkReady s p i n r)"
| "md_exec (OpMdRelease p i n) s = fst (MdReleaseClaim s p i n)"
| "md_exec (OpMdReclaim p t lim fs) s = fst (MdReclaimStaleClaiming s p t lim fs)"
| "md_exec (OpMdUpdate now p r) s = fst (MdUpdate now s p r)"
| "md_exec (OpMdDelete p i) s = fst (MdDelete s p i)"

text \<open>The steps that may end a claim on record \<open>i\<close>, file source \<open>f\<close>: its owner's mark-ready or
  release, a delete of the record, and a reclaim that names the file source.\<close>

fun ends_claim :: "string \<Rightarrow> string \<Rightarrow> string \<Rightarrow> MdOp \<Rightarrow> bool" where
  "ends_claim p i f (OpMdMarkReady q j n r) \<longleftrightarrow> q = p \<and> j = i"
| "ends_claim p i f (OpMdRelease q j n) \<longleftrightarrow> q = p \<and> j = i"
| "ends_claim p i f (OpMdReclaim q t lim fs) \<longleftrightarrow> q = p \<and> f \<in> set fs"
| "ends_claim p i f (OpMdDelete q j) \<longleftrightarrow> q = p \<and> j = i"
| "ends_claim p i f _ \<longleftrightarrow> False"

lemma md_exec_reachable: "md_reachable s \<Longrightarrow> md_reachable (md_exec c s)"
  by (cases c) (auto intro: md_reachable.intros prod.collapse [symmetric])

lemma claim_kept:
  assumes "md_inv s" "FindChain s p i = Some [row]" "v_state row = kClaiming"
    "\<not> ends_claim p i (FileSourceOf (v_record row)) c"
  shows "FindChain (md_exec c s) p i = Some [row]"
proof (cases c)
  case (OpMdClaim now q r)
  obtain s' res where run: "MdClaimForWrite now s q r = (s', res)" by (cases "MdClaimForWrite now s q r")
  from assms(1) run show ?thesis
    by (cases rule: claim_cases) (use OpMdClaim run assms(2) in auto)
next
  case (OpMdMarkReady q j n r)
  obtain s' res where run: "MdMarkReady s q j n r = (s', res)" by (cases "MdMarkReady s q j n r")
  from assms(1) run show ?thesis
    by (cases rule: mark_ready_cases) (use OpMdMarkReady run assms(2,4) in \<open>auto simp: FindChain_set_chain\<close>)
next
  case (OpMdRelease q j n)
  obtain s' res where run: "MdReleaseClaim s q j n = (s', res)" by (cases "MdReleaseClaim s q j n")
  from assms(1) run show ?thesis
    by (cases rule: release_cases) (use OpMdRelease run assms(2,4) in \<open>auto simp: FindChain_drop_row\<close>)
next
  case (OpMdReclaim q t lim fs)
  obtain s' res where run: "MdReclaimStaleClaiming s q t lim fs = (s', res)"
    by (cases "MdReclaimStaleClaiming s q t lim fs")
  have "FindChain s' p i = FindChain s p i"
    using reclaim_cases [OF assms(1) run] assms(2,4) OpMdReclaim by (fastforce simp: stale_claim_def)
  then show ?thesis using OpMdReclaim run assms(2) by simp
next
  case (OpMdUpdate now q r)
  obtain s' res where run: "MdUpdate now s q r = (s', res)" by (cases "MdUpdate now s q r")
  from assms(1) run show ?thesis
  proof (cases rule: update_cases)
    case (updated c' v)
    then have "(p, i) \<noteq> (q, fm_id r)" using assms(2,3) by auto
    then show ?thesis using updated(6) OpMdUpdate run assms(2)
      by (auto simp: FindChain_set_chain [OF updated(1)])
  qed (use OpMdUpdate run assms(2) in simp)
next
  case (OpMdDelete q j)
  obtain s' res where run: "MdDelete s q j = (s', res)" by (cases "MdDelete s q j")
  from assms(1) run show ?thesis
    by (cases rule: delete_cases) (use OpMdDelete run assms(2,4) in auto)
qed

lemma claim_kept_run:
  assumes "md_reachable s" "FindChain s p i = Some [row]" "v_state row = kClaiming"
    "\<forall>c \<in> set cs. \<not> ends_claim p i (FileSourceOf (v_record row)) c"
  shows "md_reachable (fold md_exec cs s) \<and> FindChain (fold md_exec cs s) p i = Some [row]"
  using assms
proof (induction cs arbitrary: s)
  case (Cons c cs)
  then have "FindChain (md_exec c s) p i = Some [row]" using claim_kept md_reachable_inv by simp
  then show ?case using Cons md_exec_reachable by simp
qed simp

lemma claim_won:
  assumes "md_reachable s" "MdClaimForWrite now s p r = (s', Ok cl)" "mc_claimed cl"
  shows "md_reachable s'" "FindChain s' p (fm_id r) = Some [new_row now r]"
    "map_of (md_source_index s') (p, FileSourceOf r) = Some (fm_id r)"
    "cl = \<lparr>mc_claimed = True, mc_record = r\<lparr>fm_version := 1\<rparr>, mc_state = kClaiming\<rparr>"
    "ValidatePartitionAndId p r = Ok ()" "FileSourceOf r \<noteq> []" "FindChain s p (fm_id r) = None"
    "map_of (md_source_index s) (p, FileSourceOf r) = None"
proof -
  show "md_reachable s'" using md_claim [OF assms(1,2)] .
  from md_reachable_inv [OF assms(1)] assms(2) show "FindChain s' p (fm_id r) = Some [new_row now r]"
    "map_of (md_source_index s') (p, FileSourceOf r) = Some (fm_id r)"
    "cl = \<lparr>mc_claimed = True, mc_record = r\<lparr>fm_version := 1\<rparr>, mc_state = kClaiming\<rparr>"
    "ValidatePartitionAndId p r = Ok ()" "FileSourceOf r \<noteq> []" "FindChain s p (fm_id r) = None"
    "map_of (md_source_index s) (p, FileSourceOf r) = None"
    by (cases rule: claim_cases; use assms(3) in auto)+
qed

text \<open>A claim on a file source that a claiming row holds is refused with that row.\<close>

lemma claim_refused:
  assumes "md_inv s" "FindChain s p i = Some [row]" "v_state row = kClaiming"
    "ValidatePartitionAndId p r = Ok ()" "FileSourceOf r = FileSourceOf (v_record row)"
  shows "MdClaimForWrite now s p r =
    (s, Ok \<lparr>mc_claimed = False, mc_record = v_record row, mc_state = kClaiming\<rparr>)"
proof -
  from md_invD(2) [OF assms(1,2)] obtain f where f: "f \<noteq> []" "chain_ok i f [row]"
      "map_of (md_source_index s) (p, f) = Some i" by (elim exE conjE)
  then have "f = FileSourceOf r" using assms(5) by (simp add: chain_ok_def)
  then show ?thesis using f(1,3) assms(2-4) by (simp add: MdClaimForWrite_def)
qed

text \<open>
  C17: once an instance has won the claim on a file source, then whatever steps
  of whatever instances follow, as long as none of them ends that claim (its own mark-ready or
  release, a delete of the record, a reclaim naming the file source), every other attempt to claim
  the same file source is refused with the winner's record and leaves the state alone, and the
  record stays invisible to both read paths.
\<close>

theorem claim_exclusive:
  assumes "md_reachable s" "MdClaimForWrite now s p r = (s', Ok cl)" "mc_claimed cl"
    "\<forall>c \<in> set cs. \<not> ends_claim p (fm_id r) (FileSourceOf r) c" "t = fold md_exec cs s'"
    "ValidatePartitionAndId p r' = Ok ()" "FileSourceOf r' = FileSourceOf r"
  shows "MdClaimForWrite now' t p r' =
      (t, Ok \<lparr>mc_claimed = False, mc_record = r\<lparr>fm_version := 1\<rparr>, mc_state = kClaiming\<rparr>) \<and>
    MdGetById t p (fm_id r) = record_not_found \<and>
    MdGetLatestByFileSource t p (FileSourceOf r) = record_not_found"
proof -
  note won = claim_won [OF assms(1-3)]
  have kept: "md_reachable t \<and> FindChain t p (fm_id r) = Some [new_row now r]"
    unfolding assms(5) by (rule claim_kept_run) (use won assms(4) in \<open>simp_all add: new_row_def\<close>)
  then have inv: "md_inv t" using md_reachable_inv by blast
  have "MdGetById t p (fm_id r) = record_not_found"
    using kept by (simp add: MdGetById_def ready_record_def new_row_def)
  moreover have "MdGetLatestByFileSource t p (FileSourceOf r) = record_not_found"
  proof -
    from md_invD(2) [OF inv conjunct2 [OF kept]] obtain f where
      "chain_ok (fm_id r) f [new_row now r]" "map_of (md_source_index t) (p, f) = Some (fm_id r)"
      by (elim exE conjE)
    then show ?thesis
      using kept by (simp add: MdGetLatestByFileSource_def ready_record_def chain_ok_def new_row_def)
  qed
  ultimately show ?thesis
    using claim_refused [OF inv conjunct2 [OF kept] _ assms(6)] assms(7) by (simp add: new_row_def)
qed

lemma sample_claim:
  "MdClaimForWrite 5 md_empty ''p'' sample_record =
     (fst (MdClaimForWrite 5 md_empty ''p'' sample_record),
      Ok \<lparr>mc_claimed = True, mc_record = sample_record\<lparr>fm_version := 1\<rparr>, mc_state = kClaiming\<rparr>)"
proof -
  have "snd (MdClaimForWrite 5 md_empty ''p'' sample_record) =
    Ok \<lparr>mc_claimed = True, mc_record = sample_record\<lparr>fm_version := 1\<rparr>, mc_state = kClaiming\<rparr>"
    by code_simp
  then show ?thesis by (metis prod.collapse)
qed

lemma sample_record_valid: "ValidatePartitionAndId ''p'' sample_record = Ok ()"
  by code_simp

theorem claim_exclusive_witness:
  "MdGetById (md_exec (OpMdReclaim ''p'' 99 10 [''/other'']) (fst (MdClaimForWrite 5 md_empty ''p'' sample_record)))
     ''p'' (fm_id sample_record) = record_not_found"
  using claim_exclusive [OF md_init sample_claim, of "[OpMdReclaim ''p'' 99 10 [''/other'']]",
      OF _ _ _ sample_record_valid refl]
  by (simp add: sample_record_def FileSourceOf_def)

lemma mark_ready_won:
  assumes "md_inv s" "FindChain s p i = Some [row]" "v_state row = kClaiming"
    "ValidatePartitionAndId p r = Ok ()" "FileSourceOf r = FileSourceOf (v_record row)"
  shows "MdMarkReady s p i 1 r =
    (set_chain p i [row\<lparr>v_record := r\<lparr>fm_id := i, fm_version := 1\<rparr>, v_state := kReady\<rparr>] s,
     Ok (r\<lparr>fm_id := i, fm_version := 1\<rparr>))"
proof -
  from md_invD(2) [OF assms(1,2)] obtain f where "chain_ok i f [row]" by (elim exE conjE)
  then have "fm_version (v_record row) = 1" by (simp add: chain_ok_def)
  then show ?thesis using assms by (simp add: MdMarkReady_def Let_def)
qed

lemma ValidatePartitionAndId_version [simp]:
  "ValidatePartitionAndId p (r\<lparr>fm_version := n\<rparr>) = ValidatePartitionAndId p r"
  by (simp add: ValidatePartitionAndId_def RecordPartition_def)

text \<open>The claim either finds the active record of the file source, or wins it.\<close>

lemma create_cases:
  assumes "md_reachable s" "MdCreate now s p r = (s', Ok x)"
  obtains (existing) i c where "s' = s" "map_of (md_source_index s) (p, FileSourceOf r) = Some i"
      "FindChain s p i = Some c" "x = v_record (last c)"
  | (created) "x = r\<lparr>fm_version := 1\<rparr>" "FindChain s p (fm_id r) = None"
      "map_of (md_source_index s') (p, FileSourceOf r) = Some (fm_id r)"
      "FindChain s' p (fm_id r) = Some [(new_row now r)\<lparr>v_state := kReady\<rparr>]"
proof -
  obtain s1 cl where claim: "MdClaimForWrite now s p r = (s1, Ok cl)" and valid: "ValidatePartitionAndId p r = Ok ()"
    and rest: "(if \<not> mc_claimed cl then (s1, Ok (mc_record cl))
      else MdMarkReady s1 p (fm_id (mc_record cl)) (fm_version (mc_record cl)) (mc_record cl)) = (s', Ok x)"
    using assms(2) by (auto simp: MdCreate_def FSS_TRY_ST_eq_Ok split: sum.splits)
  show ?thesis
  proof (cases "mc_claimed cl")
    case True
    note won = claim_won [OF assms(1) claim True]
    have row: "v_state (new_row now r) = kClaiming" "v_record (new_row now r) = r\<lparr>fm_version := 1\<rparr>"
      by (simp_all add: new_row_def)
    have "MdMarkReady s1 p (fm_id r) 1 (r\<lparr>fm_version := 1\<rparr>) = (s', Ok x)"
      using rest True won(4) by simp
    then have "s' = set_chain p (fm_id r) [(new_row now r)\<lparr>v_record := r\<lparr>fm_id := fm_id r, fm_version := 1\<rparr>, v_state := kReady\<rparr>] s1"
        "x = r\<lparr>fm_version := 1\<rparr>"
      using mark_ready_won [OF md_reachable_inv [OF won(1)] won(2) row(1), of "r\<lparr>fm_version := 1\<rparr>"] valid row(2)
      by auto
    then show ?thesis
      using created won by (simp add: FindChain_set_chain [OF won(2)] new_row_def)
  next
    case False
    from md_reachable_inv [OF assms(1)] claim show ?thesis
      by (cases rule: claim_cases) (use existing False rest in auto)
  qed
qed

text \<open>
  C24: creation is idempotent on the file source: after a successful create, a
  further create with the same file source, whatever else its record says, returns the very record
  the first one returned and changes nothing; a record that was really created is visible by its id.
\<close>

theorem create_idempotent:
  assumes "md_reachable s" "MdCreate now s p r = (s', Ok x)"
    "ValidatePartitionAndId p r' = Ok ()" "FileSourceOf r' = FileSourceOf r" "FileSourceOf r \<noteq> []"
  shows "MdCreate now' s' p r' = (s', Ok x) \<and>
    (map_of (md_source_index s) (p, FileSourceOf r) = None \<longrightarrow> MdGetById s' p (fm_id x) = Ok x)"
proof -
  have again: "MdCreate now' t p r' = (t, Ok (v_record (last c)))"
    if "map_of (md_source_index t) (p, FileSourceOf r) = Some i" "FindChain t p i = Some c" "c \<noteq> []" for t i c
    using that assms(3-5) by (simp add: MdCreate_def MdClaimForWrite_def)
  from assms(1,2) show ?thesis
  proof (cases rule: create_cases)
    case (existing i c)
    from md_invD(3) [OF md_reachable_inv [OF assms(1)] existing(2)] existing(3)
    have "c \<noteq> []" by (auto simp: chain_ok_def)
    then show ?thesis using existing again by simp
  next
    case created
    then show ?thesis
      using again [OF created(3,4)] by (simp add: new_row_def MdGetById_def ready_record_def)
  qed
qed

theorem create_idempotent_witness:
  "\<exists>s'. MdCreate 5 md_empty ''p'' sample_record = (s', Ok (sample_record\<lparr>fm_version := 1\<rparr>)) \<and>
     MdCreate 6 s' ''p'' (sample_record\<lparr>fm_id := ''p:x:2''\<rparr>) = (s', Ok (sample_record\<lparr>fm_version := 1\<rparr>))"
proof -
  have "snd (MdCreate 5 md_empty ''p'' sample_record) = Ok (sample_record\<lparr>fm_version := 1\<rparr>)" by code_simp
  then obtain s' where c: "MdCreate 5 md_empty ''p'' sample_record = (s', Ok (sample_record\<lparr>fm_version := 1\<rparr>))"
    by (metis prod.collapse)
  have v: "ValidatePartitionAndId ''p'' (sample_record\<lparr>fm_id := ''p:x:2''\<rparr>) = Ok ()" by code_simp
  have "FileSourceOf sample_record \<noteq> []" by code_simp
  then show ?thesis
    using create_idempotent [OF md_init c v, of 6] c by simp
qed

text \<open>
  Giving a claim back restores what was there before: every chain and
  every index entry is as before the claim, so the same file source can be claimed again, and the
  registered record becomes visible exactly when the claim is marked ready with the same file source.
\<close>

theorem claim_release_roundtrip:
  assumes "md_reachable s" "MdClaimForWrite now s p r = (s', Ok cl)" "mc_claimed cl"
  shows "(\<exists>s''. MdReleaseClaim s' p (fm_id r) 1 = (s'', Ok ()) \<and>
      (\<forall>q j. FindChain s'' q j = FindChain s q j) \<and>
      (\<forall>k. map_of (md_source_index s'') k = map_of (md_source_index s) k)) \<and>
    (\<exists>s'' x. MdMarkReady s' p (fm_id r) 1 r = (s'', Ok x) \<and> x = r\<lparr>fm_version := 1\<rparr> \<and>
      MdGetById s'' p (fm_id r) = Ok x \<and> MdGetLatestByFileSource s'' p (FileSourceOf r) = Ok x)"
proof -
  note won = claim_won [OF assms]
  have row: "v_state (new_row now r) = kClaiming" "v_record (new_row now r) = r\<lparr>fm_version := 1\<rparr>"
    by (simp_all add: new_row_def)
  have p: "p \<noteq> []" using won(5) by (auto simp: ValidatePartitionAndId_def)
  have rel: "MdReleaseClaim s' p (fm_id r) 1 = (drop_row p (fm_id r) [] (FileSourceOf r) s', Ok ())"
    using won(2) p row by (simp add: MdReleaseClaim_def)
  from md_reachable_inv [OF assms(1)] assms(2) have at:
      "FindChain s' q j = (if (q, j) = (p, fm_id r) then Some [new_row now r] else FindChain s q j)"
      "md_source_index s' = map_put (p, FileSourceOf r) (fm_id r) (md_source_index s)" for q j
    by (cases rule: claim_cases; use assms(3) in auto)+
  have "FindChain (drop_row p (fm_id r) [] (FileSourceOf r) s') q j = FindChain s q j" for q j
    using won(7) by (auto simp: FindChain_drop_row(1) [OF won(2)] at(1))
  moreover have "map_of (md_source_index (drop_row p (fm_id r) [] (FileSourceOf r) s')) k = map_of (md_source_index s) k" for k
    using won(8) by (simp add: FindChain_drop_row(2) [OF won(2)] at(2))
  moreover have "MdMarkReady s' p (fm_id r) 1 r = (set_chain p (fm_id r) [(new_row now r)\<lparr>v_state := kReady\<rparr>] s', Ok (r\<lparr>fm_version := 1\<rparr>))"
    using mark_ready_won [OF md_reachable_inv [OF won(1)] won(2) row(1), of r] won(5) row(2)
    by (simp add: new_row_def)
  ultimately show ?thesis
    using rel won(3) row(2)
    by (auto simp: MdGetById_def MdGetLatestByFileSource_def FindChain_set_chain [OF won(2)] ready_record_def)
qed

theorem claim_release_roundtrip_witness:
  "\<exists>s''. MdReleaseClaim (fst (MdClaimForWrite 5 md_empty ''p'' sample_record)) ''p'' (fm_id sample_record) 1 = (s'', Ok ()) \<and>
     (\<forall>q j. FindChain s'' q j = FindChain md_empty q j)"
  using claim_release_roundtrip [OF md_init sample_claim] by auto

text \<open>
  Reclaiming never touches a finished record. A chain that a reclaim
  changes is gone as a whole, belonged to the given partition, was a single claim not yet ready, no
  younger than the threshold, and its file source is one of those the collector holds the expired
  lease of; the reported number stays within the limit.
\<close>

theorem reclaim_only_stale:
  assumes "md_reachable s" "MdReclaimStaleClaiming s p t limit fs = (s', res)"
  shows "(FindChain s' q j \<noteq> FindChain s q j \<longrightarrow> q = p \<and> FindChain s' q j = None \<and>
      (\<exists>row. FindChain s q j = Some [row] \<and> v_state row = kClaiming \<and> v_created_at row \<le> t \<and>
         FileSourceOf (v_record row) \<in> set fs)) \<and>
    (MdGetById s q j = Ok x \<longrightarrow> MdGetById s' q j = Ok x) \<and>
    (res = Ok n \<longrightarrow> 0 \<le> n \<and> n \<le> max 0 limit)"
proof -
  note cases = reclaim_cases [OF md_reachable_inv [OF assms(1)] assms(2)]
  have "MdGetById s' q j = Ok x" if "MdGetById s q j = Ok x"
  proof -
    have "FindChain s' q j = FindChain s q j"
    proof (rule ccontr)
      assume "FindChain s' q j \<noteq> FindChain s q j"
      then obtain row where "FindChain s q j = Some [row]" "v_state row = kClaiming"
        using cases by (auto simp: stale_claim_def)
      then show False using that by (simp add: MdGetById_def ready_record_def record_not_found_def)
    qed
    then show ?thesis using that by (simp add: MdGetById_def)
  qed
  then show ?thesis using cases unfolding stale_claim_def by (auto simp: not_less)
qed

theorem reclaim_only_stale_witness:
  "MdGetById sample_md ''p'' ''p:dataset--File.Generic:1'' = Ok (sample_record\<lparr>fm_version := 2\<rparr>) \<and>
   MdGetById (fst (MdReclaimStaleClaiming sample_md ''p'' 99 5 [''/u/f''])) ''p'' ''p:dataset--File.Generic:1'' =
     Ok (sample_record\<lparr>fm_version := 2\<rparr>)"
proof -
  have "MdGetById sample_md ''p'' ''p:dataset--File.Generic:1'' = Ok (sample_record\<lparr>fm_version := 2\<rparr>)" by code_simp
  then show ?thesis
    using reclaim_only_stale [OF sample_md_reachable prod.collapse [symmetric]] by blast
qed

text \<open>
  An update adds exactly one version. It succeeds only on a ready
  record with the same file source; then the new version, numbered one above the last, is what both
  read paths return, the records of all earlier versions are kept, and no other chain changes. A
  failing update changes nothing.
\<close>

theorem metadata_update_history:
  assumes "md_reachable s" "MdUpdate now s p r = (s', res)"
  shows "(\<exists>e. res = Inl e \<and> s' = s) \<or>
    (\<exists>c c'. FindChain s p (fm_id r) = Some c \<and> FindChain s' p (fm_id r) = Some c' \<and>
       res = Ok (r\<lparr>fm_version := int (length c) + 1\<rparr>) \<and>
       map v_record c' = map v_record c @ [r\<lparr>fm_version := int (length c) + 1\<rparr>] \<and>
       FileSourceOf (v_record (last c)) = FileSourceOf r \<and>
       MdGetById s' p (fm_id r) = res \<and> MdGetLatestByFileSource s' p (FileSourceOf r) = res \<and>
       (\<forall>q j. (q, j) \<noteq> (p, fm_id r) \<longrightarrow> FindChain s' q j = FindChain s q j))"
proof -
  from md_reachable_inv [OF assms(1)] assms(2) show ?thesis
  proof (cases rule: update_cases)
    case (error e)
    then show ?thesis by blast
  next
    case (updated c v)
    have c': "FindChain s' p (fm_id r) = Some (map (\<lambda>v. v\<lparr>v_is_latest := False\<rparr>) c @ [v])"
      unfolding updated(6) by (simp add: FindChain_set_chain [OF updated(1)])
    have by_id: "MdGetById s' p (fm_id r) = res"
      using c' updated(5,7) by (simp add: MdGetById_def ready_record_def)
    have "MdGetLatestByFileSource s' p (FileSourceOf r) = res"
      using source_reads_agree [OF md_reachable_inv [OF md_update [OF assms]], of p "FileSourceOf r"]
        by_id updated(7) by simp
    then show ?thesis
      using c' by_id updated(1,5,7) chain_ok_last(3) [OF updated(2)]
      by (intro disjI2 exI conjI) (auto simp: updated(6) FindChain_set_chain [OF updated(1)] comp_def)
  qed
qed

theorem metadata_update_history_witness:
  "\<exists>s'. MdUpdate 12 sample_md ''p'' sample_record = (s', Ok (sample_record\<lparr>fm_version := 3\<rparr>)) \<and>
     MdGetLatestByFileSource s' ''p'' (FileSourceOf sample_record) = Ok (sample_record\<lparr>fm_version := 3\<rparr>)"
proof -
  have "snd (MdUpdate 12 sample_md ''p'' sample_record) = Ok (sample_record\<lparr>fm_version := 3\<rparr>)" by code_simp
  then obtain s' where u: "MdUpdate 12 sample_md ''p'' sample_record = (s', Ok (sample_record\<lparr>fm_version := 3\<rparr>))"
    by (metis prod.collapse)
  then show ?thesis using metadata_update_history [OF sample_md_reachable u] by auto
qed

end
