(* ===== verification/Blob_Store.thy ===== *)
theory Blob_Store
  imports Domain_Types
begin

text \<open>
  \<^verbatim>\<open>infra/blob/memory/memory_blob_store\<close>: the object store the service runs on without external
  storage, with its plan for injected faults (so the failing branches of its clients are states of
  the model too). SHA-256 is OpenSSL's: it is the argument \<open>sha256_hex\<close>. A byte source is its
  \<^verbatim>\<open>ReadAll\<close>: the bytes read to the end, or an error, under a limit; a sink receives one chunk,
  which \<open>BlobGet\<close> returns.
\<close>

section \<open>State\<close>

datatype BlobOp = opEnsureContainer | opPresignPut | opPresignGet | opPut | opGet | opStat | opRemove | opCopy | opList

definition OpName :: "BlobOp \<Rightarrow> string" where
  "OpName op = (case op of
     opEnsureContainer \<Rightarrow> ''ensure_container'' | opPresignPut \<Rightarrow> ''presign_put'' | opPresignGet \<Rightarrow> ''presign_get''
   | opPut \<Rightarrow> ''put'' | opGet \<Rightarrow> ''get'' | opStat \<Rightarrow> ''stat'' | opRemove \<Rightarrow> ''remove'' | opCopy \<Rightarrow> ''copy''
   | opList \<Rightarrow> ''list'')"

record FaultPlan =
  fp_op :: BlobOp
  fp_fail_count :: int
  fp_error :: ErrorKind
  fp_message :: string
  fp_truncate_put_to_bytes :: int
  fp_checksum_override :: string
  fp_latency_millis :: int

definition no_faults :: FaultPlan where
  "no_faults = \<lparr>fp_op = opPut, fp_fail_count = 0, fp_error = kUnavailable, fp_message = ''injected fault'',
     fp_truncate_put_to_bytes = - 1, fp_checksum_override = [], fp_latency_millis = 0\<rparr>"

record BlobObject =
  bo_data :: string
  bo_content_type :: string
  bo_checksum :: string
  bo_checksum_algorithm :: string
  bo_last_modified :: int

record BlobState =
  bs_containers :: "(string \<times> (string \<times> BlobObject) list) list"
  bs_fault :: FaultPlan
  bs_op_counts :: "BlobOp \<Rightarrow> nat"
  bs_injected_latency :: int

definition blob_empty :: BlobState where
  "blob_empty = \<lparr>bs_containers = [], bs_fault = no_faults, bs_op_counts = (\<lambda>_. 0), bs_injected_latency = 0\<rparr>"

definition kMaxObjectBytes :: nat where
  "kMaxObjectBytes = 1073741824"

section \<open>Operations\<close>

definition BlobCapabilitiesOf :: BlobCapabilities where
  "BlobCapabilitiesOf = \<lparr>bc_native_presign = False, bc_server_side_copy = True, bc_range_read = True,
     bc_streaming_put = True, bc_recommended_part_size = 0, bc_driver_name = ''memory''\<rparr>"

definition NormalizeAlgorithm :: "string \<Rightarrow> string" where
  "NormalizeAlgorithm t = map tolower (filter (\<lambda>c. c \<noteq> CHR ''-'' \<and> c \<noteq> CHR ''_'') t)"

definition BeginOp :: "BlobState \<Rightarrow> BlobOp \<Rightarrow> BlobState \<times> unit Result" where
  "BeginOp s op =
     (let s = s\<lparr>bs_op_counts := (bs_op_counts s)(op := bs_op_counts s op + 1)\<rparr>; f = bs_fault s in
      if fp_op f = op then
        let s = s\<lparr>bs_injected_latency := bs_injected_latency s + fp_latency_millis f\<rparr> in
        if fp_fail_count f > 0
        then (s\<lparr>bs_fault := f\<lparr>fp_fail_count := fp_fail_count f - 1\<rparr>\<rparr>, Err (fp_error f) (fp_message f))
        else (s, Ok ())
      else (s, Ok ()))"

definition ValidateRef :: "ObjectRef \<Rightarrow> unit Result" where
  "ValidateRef ref =
     (if or_container ref = [] then Err kInvalidArgument msg_ref_container_empty
      else if or_key ref = [] then Err kInvalidArgument msg_ref_key_empty
      else Ok ())"

definition BlobEnsureContainer :: "BlobState \<Rightarrow> string \<Rightarrow> BlobState \<times> unit Result" where
  "BlobEnsureContainer s container =
     FSS_TRY_ST (BeginOp s opEnsureContainer) (\<lambda>s _.
       if container = [] then (s, Err kInvalidArgument msg_container_name_empty)
       else (case map_of (bs_containers s) container of
               Some _ \<Rightarrow> (s, Ok ())
             | None \<Rightarrow> (s\<lparr>bs_containers := map_put container [] (bs_containers s)\<rparr>, Ok ())))"

definition BlobPresign :: "BlobOp \<Rightarrow> BlobState \<Rightarrow> ObjectRef \<Rightarrow> PresignOptions \<Rightarrow> BlobState \<times> SignedLocation Result" where
  "BlobPresign op s ref options =
     FSS_TRY_ST (BeginOp s op) (\<lambda>s _.
       (s, Err kUnimplemented msg_no_native_presign))"

definition find_object :: "BlobState \<Rightarrow> ObjectRef \<Rightarrow> BlobObject option" where
  "find_object s ref =
     (case map_of (bs_containers s) (or_container ref) of None \<Rightarrow> None | Some objs \<Rightarrow> map_of objs (or_key ref))"

definition store_object :: "ObjectRef \<Rightarrow> BlobObject \<Rightarrow> BlobState \<Rightarrow> BlobState" where
  "store_object ref obj s =
     (case map_of (bs_containers s) (or_container ref) of
        None \<Rightarrow> s
      | Some objs \<Rightarrow> s\<lparr>bs_containers := map_put (or_container ref) (map_put (or_key ref) obj objs) (bs_containers s)\<rparr>)"

definition check_put :: "(string \<Rightarrow> string) \<Rightarrow> PutOptions \<Rightarrow> string \<Rightarrow> unit Result" where
  "check_put sha256_hex options data =
     (if pu_expected_size options \<ge> 0 \<and> int (length data) \<noteq> pu_expected_size options
      then Inl (With ''actual'' (nat_to_string (length data))
             (With ''expected'' (to_string (pu_expected_size options))
               (mk_error kInvalidArgument msg_put_size_mismatch)))
      else if pu_expected_checksum options = [] then Ok ()
      else if pu_checksum_algorithm options = []
      then Err kInvalidArgument msg_checksum_needs_algorithm
      else if NormalizeAlgorithm (pu_checksum_algorithm options) \<noteq> ''sha256''
      then Err kInvalidArgument (msg_checksum_algorithm_unsupported @ pu_checksum_algorithm options)
      else if map tolower (sha256_hex data) \<noteq> map tolower (pu_expected_checksum options)
      then Inl (With ''actual'' (sha256_hex data) (With ''expected'' (pu_expected_checksum options)
             (mk_error kChecksumMismatch msg_checksum_mismatch)))
      else Ok ())"

definition stored_data :: "FaultPlan \<Rightarrow> string \<Rightarrow> string" where
  "stored_data f data =
     (if fp_op f = opPut \<and> fp_truncate_put_to_bytes f \<ge> 0 \<and> nat (fp_truncate_put_to_bytes f) < length data
      then take (nat (fp_truncate_put_to_bytes f)) data else data)"

definition stored_object :: "(string \<Rightarrow> string) \<Rightarrow> int \<Rightarrow> PutOptions \<Rightarrow> string \<Rightarrow> BlobObject" where
  "stored_object sha256_hex now options data =
     \<lparr>bo_data = data, bo_content_type = pu_content_type options, bo_checksum = sha256_hex data,
      bo_checksum_algorithm = ''SHA256'', bo_last_modified = now\<rparr>"

definition BlobPut ::
  "(string \<Rightarrow> string) \<Rightarrow> int \<Rightarrow> BlobState \<Rightarrow> ObjectRef \<Rightarrow> (nat \<Rightarrow> string Result) \<Rightarrow> PutOptions \<Rightarrow> BlobState \<times> unit Result" where
  "BlobPut sha256_hex now s ref source options =
     FSS_TRY_ST (BeginOp s opPut) (\<lambda>s _.
     FSS_TRY_ST (s, ValidateRef ref) (\<lambda>s _.
       case map_of (bs_containers s) (or_container ref) of
         None \<Rightarrow> (s, Err kNotFound (msg_container_missing @ or_container ref @ msg_ensure_first))
       | Some _ \<Rightarrow>
           FSS_TRY_ST (s, source kMaxObjectBytes) (\<lambda>s data.
           FSS_TRY_ST (s, check_put sha256_hex options data) (\<lambda>s _.
             (store_object ref (stored_object sha256_hex now options (stored_data (bs_fault s) data)) s, Ok ())))))"

definition object_missing :: "ObjectRef \<Rightarrow> 'a Result" where
  "object_missing ref = Err kNotFound (msg_object_missing @ ObjectRefToString ref)"

definition BlobGet :: "BlobState \<Rightarrow> ObjectRef \<Rightarrow> ByteRange \<Rightarrow> BlobState \<times> string Result" where
  "BlobGet s ref rg =
     FSS_TRY_ST (BeginOp s opGet) (\<lambda>s _.
     FSS_TRY_ST (s, ValidateRef ref) (\<lambda>s _.
       case find_object s ref of
         None \<Rightarrow> (s, object_missing ref)
       | Some obj \<Rightarrow>
           if IsWholeObject rg then (s, Ok (bo_data obj))
           else if \<not> bc_range_read BlobCapabilitiesOf
           then (s, Err kUnimplemented msg_no_range_read)
           else if br_offset rg \<ge> length (bo_data obj)
           then (s, Err kInvalidArgument msg_range_start)
           else
             let available = length (bo_data obj) - br_offset rg;
                 count = (if br_length rg = 0 then available else min (br_length rg) available)
             in (s, Ok (take count (drop (br_offset rg) (bo_data obj))))))"

definition missing_stat :: ObjectStat where
  "missing_stat = \<lparr>os_size = 0, os_content_type = [], os_checksum = [], os_checksum_algorithm = [],
     os_last_modified = 0, os_exists = False\<rparr>"

definition object_stat :: "BlobObject \<Rightarrow> ObjectStat" where
  "object_stat o' = \<lparr>os_size = int (length (bo_data o')), os_content_type = bo_content_type o',
     os_checksum = bo_checksum o', os_checksum_algorithm = bo_checksum_algorithm o',
     os_last_modified = bo_last_modified o', os_exists = True\<rparr>"

definition BlobStat :: "BlobState \<Rightarrow> ObjectRef \<Rightarrow> BlobState \<times> ObjectStat Result" where
  "BlobStat s ref =
     FSS_TRY_ST (BeginOp s opStat) (\<lambda>s _.
     FSS_TRY_ST (s, ValidateRef ref) (\<lambda>s _.
       case find_object s ref of
         None \<Rightarrow> (s, Ok missing_stat)
       | Some obj \<Rightarrow>
           (s, Ok (if fp_op (bs_fault s) = opStat \<and> fp_checksum_override (bs_fault s) \<noteq> []
                   then (object_stat obj)\<lparr>os_checksum := fp_checksum_override (bs_fault s)\<rparr>
                   else object_stat obj))))"

definition BlobRemove :: "BlobState \<Rightarrow> ObjectRef \<Rightarrow> BlobState \<times> unit Result" where
  "BlobRemove s ref =
     FSS_TRY_ST (BeginOp s opRemove) (\<lambda>s _.
     FSS_TRY_ST (s, ValidateRef ref) (\<lambda>s _.
       case map_of (bs_containers s) (or_container ref) of
         None \<Rightarrow> (s, Ok ())
       | Some objs \<Rightarrow>
           (s\<lparr>bs_containers := map_put (or_container ref) (map_erase (or_key ref) objs) (bs_containers s)\<rparr>, Ok ())))"

definition BlobCopy :: "int \<Rightarrow> BlobState \<Rightarrow> ObjectRef \<Rightarrow> ObjectRef \<Rightarrow> BlobState \<times> ObjectStat Result" where
  "BlobCopy now s from to =
     FSS_TRY_ST (BeginOp s opCopy) (\<lambda>s _.
     FSS_TRY_ST (s, ValidateRef from) (\<lambda>s _.
     FSS_TRY_ST (s, ValidateRef to) (\<lambda>s _.
       if \<not> bc_server_side_copy BlobCapabilitiesOf
       then (s, Err kUnimplemented msg_no_copy)
       else (case find_object s from of
               None \<Rightarrow> (s, Err kNotFound (msg_copy_source_missing @ ObjectRefToString from))
             | Some obj \<Rightarrow>
                 (case map_of (bs_containers s) (or_container to) of
                    None \<Rightarrow> (s, Err kNotFound (msg_target_container_missing @ or_container to))
                  | Some _ \<Rightarrow>
                      let copied = obj\<lparr>bo_last_modified := now\<rparr>
                      in (store_object to copied s, Ok (object_stat copied)))))))"

text \<open>Listing walks the ordered keys from the prefix, or from just after the continuation token,
  and stops at the first key outside the prefix.\<close>

definition list_start :: "string \<Rightarrow> string \<Rightarrow> (string \<times> BlobObject) list \<Rightarrow> (string \<times> BlobObject) list" where
  "list_start pfx token objs =
     (if token = [] then dropWhile (\<lambda>p. fst p < pfx) objs else dropWhile (\<lambda>p. fst p \<le> token) objs)"

fun list_loop :: "string \<Rightarrow> nat \<Rightarrow> (string \<times> BlobObject) list \<Rightarrow> ListEntry list \<Rightarrow> ListPage" where
  "list_loop pfx n [] acc = \<lparr>lp_entries = acc, lp_continuation_token = [], lp_truncated = False\<rparr>"
| "list_loop pfx n ((k, obj) # objs) acc =
     (if \<not> starts_with pfx k then \<lparr>lp_entries = acc, lp_continuation_token = [], lp_truncated = False\<rparr>
      else (case n of
              0 \<Rightarrow> \<lparr>lp_entries = acc, lp_continuation_token = le_key (last acc), lp_truncated = True\<rparr>
            | Suc m \<Rightarrow> list_loop pfx m objs
                (acc @ [\<lparr>le_key = k, le_size = int (length (bo_data obj)), le_last_modified = bo_last_modified obj\<rparr>])))"

definition BlobList :: "BlobState \<Rightarrow> string \<Rightarrow> string \<Rightarrow> string \<Rightarrow> int \<Rightarrow> BlobState \<times> ListPage Result" where
  "BlobList s container pfx token limit =
     FSS_TRY_ST (BeginOp s opList) (\<lambda>s _.
       if limit \<le> 0 then (s, Err kInvalidArgument msg_list_limit)
       else (case map_of (bs_containers s) container of
               None \<Rightarrow> (s, Err kNotFound (msg_container_missing @ container))
             | Some objs \<Rightarrow> (s, Ok (list_loop pfx (nat limit) (list_start pfx token objs) []))))"

text \<open>The sweep over temporary keys: old ones are erased, young ones only counted.\<close>

definition is_temp_key :: "string \<Rightarrow> bool" where
  "is_temp_key k = contains_str ''.tmp.'' k"

definition temp_victim :: "int \<Rightarrow> string \<times> BlobObject \<Rightarrow> bool" where
  "temp_victim older_than p \<longleftrightarrow> is_temp_key (fst p) \<and> \<not> bo_last_modified (snd p) > older_than"

definition BlobRemoveTempFiles :: "BlobState \<Rightarrow> string \<Rightarrow> int \<Rightarrow> bool \<Rightarrow> BlobState \<times> TempSweepResult Result" where
  "BlobRemoveTempFiles s container older_than dry_run =
     FSS_TRY_ST (BeginOp s opList) (\<lambda>s _.
       case map_of (bs_containers s) container of
         None \<Rightarrow> (s, Ok \<lparr>ts_removed = 0, ts_skipped_too_young = 0, ts_skipped_unknown_mtime = 0\<rparr>)
       | Some objs \<Rightarrow>
           ((if dry_run then s
             else s\<lparr>bs_containers := map_put container (filter (\<lambda>p. \<not> temp_victim older_than p) objs) (bs_containers s)\<rparr>),
            Ok \<lparr>ts_removed = int (length (filter (temp_victim older_than) objs)),
                ts_skipped_too_young =
                  int (length (filter (\<lambda>p. is_temp_key (fst p) \<and> bo_last_modified (snd p) > older_than) objs)),
                ts_skipped_unknown_mtime = 0\<rparr>))"

definition BlobObjectCount :: "BlobState \<Rightarrow> nat" where
  "BlobObjectCount s = sum_list (map (\<lambda>(name, objs). length objs) (bs_containers s))"

definition HasContainer :: "BlobState \<Rightarrow> string \<Rightarrow> bool" where
  "HasContainer s container \<longleftrightarrow> map_of (bs_containers s) container \<noteq> None"

definition Inject :: "BlobState \<Rightarrow> FaultPlan \<Rightarrow> BlobState" where
  "Inject s plan = s\<lparr>bs_fault := plan\<rparr>"

definition TakeInjectedLatencyMillis :: "BlobState \<Rightarrow> BlobState \<times> int" where
  "TakeInjectedLatencyMillis s = (s\<lparr>bs_injected_latency := 0\<rparr>, bs_injected_latency s)"

section \<open>What an operation does to the objects\<close>

definition blob_at :: "BlobState \<Rightarrow> string \<Rightarrow> string \<Rightarrow> BlobObject option" where
  "blob_at s c k = (case map_of (bs_containers s) c of None \<Rightarrow> None | Some objs \<Rightarrow> map_of objs k)"

definition blob_inv :: "BlobState \<Rightarrow> bool" where
  "blob_inv s \<longleftrightarrow> map_wf (bs_containers s) \<and>
     (\<forall>(c, objs) \<in> set (bs_containers s). map_wf objs \<and> [] \<notin> fst ` set objs)"

text \<open>No fault is armed for the operation.\<close>

definition healthy :: "BlobOp \<Rightarrow> BlobState \<Rightarrow> bool" where
  "healthy op s \<longleftrightarrow> fp_op (bs_fault s) \<noteq> op \<or> fp_fail_count (bs_fault s) \<le> 0"

definition no_truncation :: "BlobState \<Rightarrow> bool" where
  "no_truncation s \<longleftrightarrow> fp_op (bs_fault s) \<noteq> opPut \<or> fp_truncate_put_to_bytes (bs_fault s) < 0"

lemma find_object_at: "find_object s ref = blob_at s (or_container ref) (or_key ref)"
  by (simp add: find_object_def blob_at_def)

lemma blob_at_put [simp]:
  "blob_at (s\<lparr>bs_containers := map_put c objs (bs_containers s)\<rparr>) c' k =
     (if c' = c then map_of objs k else blob_at s c' k)"
  by (simp add: blob_at_def)

lemma store_object_at:
  "map_of (bs_containers s) (or_container ref) \<noteq> None \<Longrightarrow>
   blob_at (store_object ref obj s) c k =
     (if c = or_container ref \<and> k = or_key ref then Some obj else blob_at s c k)"
  by (auto simp: store_object_def blob_at_def)

lemma BeginOp_containers [simp]: "bs_containers (fst (BeginOp s op)) = bs_containers s"
  by (auto simp: BeginOp_def Let_def)

lemma BeginOp_cases:
  assumes "BeginOp s op = (s1, r)"
  shows "bs_containers s1 = bs_containers s \<and> (healthy op s \<longrightarrow> r = Ok () \<and> bs_fault s1 = bs_fault s) \<and>
    (r = Ok () \<longrightarrow> healthy op s)"
  using assms by (auto simp: BeginOp_def Let_def healthy_def split: if_splits)

lemma BeginOp_at: "BeginOp s op = (s1, r) \<Longrightarrow> blob_at s1 = blob_at s"
  using BeginOp_cases [of s op s1 r] by (simp add: blob_at_def fun_eq_iff)

lemma BeginOp_inv: "BeginOp s op = (s1, r) \<Longrightarrow> blob_inv s \<Longrightarrow> blob_inv s1"
  using BeginOp_cases [of s op s1 r] by (simp add: blob_inv_def)

lemma begin_healthy:
  assumes "healthy op s"
  obtains s1 where "BeginOp s op = (s1, Ok ())" "bs_containers s1 = bs_containers s" "bs_fault s1 = bs_fault s"
  using BeginOp_cases [of s op "fst (BeginOp s op)" "snd (BeginOp s op)"] assms by (metis prod.collapse)

lemma ValidateRef_Inr: "ValidateRef ref = Inr u \<longleftrightarrow> or_container ref \<noteq> [] \<and> or_key ref \<noteq> []"
  by (simp add: ValidateRef_def Err_def Ok_def)

lemma ValidateRef_Ok: "ValidateRef ref = Ok u \<longleftrightarrow> or_container ref \<noteq> [] \<and> or_key ref \<noteq> []"
  by (simp add: ValidateRef_def)

lemma blob_inv_put:
  "blob_inv s \<Longrightarrow> map_wf objs \<Longrightarrow> [] \<notin> fst ` set objs \<Longrightarrow>
   blob_inv (s\<lparr>bs_containers := map_put c objs (bs_containers s)\<rparr>)"
  by (auto simp: blob_inv_def set_map_put)

lemma blob_inv_bucket:
  "blob_inv s \<Longrightarrow> map_of (bs_containers s) c = Some objs \<Longrightarrow> map_wf objs \<and> [] \<notin> fst ` set objs"
  by (auto simp: blob_inv_def dest!: map_of_SomeD)

lemma blob_inv_filter:
  assumes "blob_inv s" "map_of (bs_containers s) c = Some objs"
  shows "blob_inv (s\<lparr>bs_containers := map_put c (filter P objs) (bs_containers s)\<rparr>)"
  using blob_inv_bucket [OF assms] by (intro blob_inv_put assms(1)) auto

lemma blob_inv_store:
  assumes "blob_inv s" "or_key ref \<noteq> []"
  shows "blob_inv (store_object ref obj s)"
proof (cases "map_of (bs_containers s) (or_container ref)")
  case (Some objs)
  then have "map_wf objs" "[] \<notin> fst ` set objs" using blob_inv_bucket assms(1) by blast+
  then have "map_wf (map_put (or_key ref) obj objs)" "[] \<notin> fst ` set (map_put (or_key ref) obj objs)"
    using assms(2) by (simp, simp only: keys_put, simp)
  with Some assms(1) show ?thesis by (simp add: store_object_def blob_inv_put del: map_of_put)
qed (simp add: store_object_def assms)

text \<open>Each operation's effect on the objects, whatever faults are armed: a failed operation
  changes no object.\<close>

definition put_outcome ::
  "(string \<Rightarrow> string) \<Rightarrow> BlobState \<Rightarrow> ObjectRef \<Rightarrow> (nat \<Rightarrow> string Result) \<Rightarrow> PutOptions \<Rightarrow> string Result" where
  "put_outcome sha256_hex s ref source options =
     FSS_TRY (ValidateRef ref) (\<lambda>_.
       if map_of (bs_containers s) (or_container ref) = None
       then Err kNotFound (msg_container_missing @ or_container ref @ msg_ensure_first)
       else FSS_TRY (source kMaxObjectBytes) (\<lambda>data. FSS_TRY (check_put sha256_hex options data) (\<lambda>_. Ok data)))"

lemma BlobPut_eq:
  "BlobPut sha now s ref source options =
     FSS_TRY_ST (BeginOp s opPut) (\<lambda>s1 _. FSS_TRY_ST (s1, put_outcome sha s ref source options) (\<lambda>s1 data.
       (store_object ref (stored_object sha now options (stored_data (bs_fault s) data)) s1, Ok ())))"
proof (cases "BeginOp s opPut"; cases "snd (BeginOp s opPut)")
  fix s1 r u assume b: "BeginOp s opPut = (s1, r)" "snd (BeginOp s opPut) = Inr u"
  show ?thesis
    using b BeginOp_cases [OF b(1)]
    by (auto simp: BlobPut_def put_outcome_def FSS_TRY_ST_pure FSS_TRY_def Ok_def Err_def split: sum.split option.split)
qed (simp add: BlobPut_def)

lemma put_outcome_Ok:
  "put_outcome sha s ref source options = Ok data \<longleftrightarrow>
     or_container ref \<noteq> [] \<and> or_key ref \<noteq> [] \<and> map_of (bs_containers s) (or_container ref) \<noteq> None \<and>
     source kMaxObjectBytes = Ok data \<and> check_put sha options data = Ok ()"
  by (auto simp: put_outcome_def FSS_TRY_eq_Ok ValidateRef_Ok split: if_splits)

lemma BlobEnsureContainer_effect:
  assumes "BlobEnsureContainer s c = (s', r)"
  shows "blob_at s' = blob_at s \<and>
    (r = Ok () \<longrightarrow> c \<noteq> [] \<and> (\<forall>c'. HasContainer s' c' \<longleftrightarrow> c' = c \<or> HasContainer s c')) \<and>
    (healthy opEnsureContainer s \<and> c \<noteq> [] \<longrightarrow> r = Ok ()) \<and> (healthy opEnsureContainer s \<longrightarrow> bs_fault s' = bs_fault s)"
  using assms unfolding BlobEnsureContainer_def
proof (cases rule: FSS_TRY_ST_E)
  case (error e)
  then show ?thesis using BeginOp_cases [OF error(1)] BeginOp_at [OF error(1)] by auto
next
  case (go s1 u)
  then show ?thesis using BeginOp_cases [OF go(1)] BeginOp_at [OF go(1)]
    by (cases "map_of (bs_containers s) c") (auto simp: HasContainer_def fun_eq_iff blob_at_def split: if_splits)
qed

lemma BlobPut_effect:
  assumes "BlobPut sha now s ref source options = (s', r)"
  shows "(\<exists>data. r = Ok () \<and> healthy opPut s \<and> put_outcome sha s ref source options = Ok data \<and>
            (\<forall>c k. blob_at s' c k = (if c = or_container ref \<and> k = or_key ref
               then Some (stored_object sha now options (stored_data (bs_fault s) data)) else blob_at s c k))) \<or>
         ((\<exists>e. r = Inl e) \<and> blob_at s' = blob_at s)"
  using assms unfolding BlobPut_eq
proof (cases rule: FSS_TRY_ST_E)
  case (go s1 u)
  note b = BeginOp_cases [OF go(1)] BeginOp_at [OF go(1)]
  from go(2) show ?thesis
    by (cases rule: FSS_TRY_ST_E) (use b in \<open>auto simp: put_outcome_Ok store_object_at\<close>)
qed (simp add: BeginOp_at)

lemma BlobRemove_effect:
  assumes "BlobRemove s ref = (s', r)"
  shows "(r = Ok () \<and> (\<forall>c k. blob_at s' c k = (if c = or_container ref \<and> k = or_key ref then None else blob_at s c k))) \<or>
         ((\<exists>e. r = Inl e) \<and> blob_at s' = blob_at s)"
  using assms unfolding BlobRemove_def
proof (cases rule: FSS_TRY_ST_E)
  case (go s1 u)
  note b = BeginOp_cases [OF go(1)] BeginOp_at [OF go(1)]
  from go(2) show ?thesis
  proof (cases rule: FSS_TRY_ST_E)
    case (go s2 v)
    then show ?thesis using b
      by (cases "map_of (bs_containers s) (or_container ref)") (auto simp: blob_at_def)
  qed (use b in auto)
qed (simp add: BeginOp_at)

lemma BlobCopy_effect:
  assumes "BlobCopy now s from to = (s', r)"
  shows "(\<exists>obj. blob_at s (or_container from) (or_key from) = Some obj \<and> or_key to \<noteq> [] \<and>
            map_of (bs_containers s) (or_container to) \<noteq> None \<and>
            r = Ok (object_stat (obj\<lparr>bo_last_modified := now\<rparr>)) \<and>
            (\<forall>c k. blob_at s' c k = (if c = or_container to \<and> k = or_key to
                                     then Some (obj\<lparr>bo_last_modified := now\<rparr>) else blob_at s c k))) \<or>
         ((\<exists>e. r = Inl e) \<and> blob_at s' = blob_at s)"
  using assms unfolding BlobCopy_def
proof (cases rule: FSS_TRY_ST_E)
  case (go s1 u)
  note b = BeginOp_cases [OF go(1)] BeginOp_at [OF go(1)]
  from go(2) show ?thesis
  proof (cases rule: FSS_TRY_ST_E)
    case (go s2 v)
    from go(2) show ?thesis
    proof (cases rule: FSS_TRY_ST_E)
      case (go s3 w)
      then show ?thesis using \<open>(s1, ValidateRef from) = (s2, Ok v)\<close> b
        by (auto simp: ValidateRef_Ok Err_def Let_def find_object_at BlobCapabilitiesOf_def store_object_at
            split: option.splits)
    qed (use go b in auto)
  qed (use b in auto)
qed (simp add: BeginOp_at)

lemma BlobGet_eq:
  "BlobGet s ref rg =
     FSS_TRY_ST (BeginOp s opGet) (\<lambda>s1 _. (s1, FSS_TRY (ValidateRef ref) (\<lambda>_.
       case blob_at s (or_container ref) (or_key ref) of
         None \<Rightarrow> object_missing ref
       | Some obj \<Rightarrow>
           if \<not> IsWholeObject rg \<and> length (bo_data obj) \<le> br_offset rg then Err kInvalidArgument msg_range_start
           else Ok (if br_length rg = 0 then drop (br_offset rg) (bo_data obj)
                    else take (br_length rg) (drop (br_offset rg) (bo_data obj))))))"
proof (cases "BeginOp s opGet"; cases "snd (BeginOp s opGet)")
  fix s1 r u assume b: "BeginOp s opGet = (s1, r)" "snd (BeginOp s opGet) = Inr u"
  show ?thesis
    using b BeginOp_at [OF b(1)]
    by (auto simp: BlobGet_def FSS_TRY_ST_pure FSS_TRY_def find_object_at BlobCapabilitiesOf_def IsWholeObject_def
        Let_def min_def Ok_def split: sum.split option.split)
qed (simp add: BlobGet_def)

section \<open>The invariant\<close>

lemma blob_inv_empty: "blob_inv blob_empty"
  by (simp add: blob_inv_def blob_empty_def)

lemma blob_inv_ensure:
  assumes "blob_inv s" "BlobEnsureContainer s c = (s', r)"
  shows "blob_inv s'"
  using assms(2) unfolding BlobEnsureContainer_def
  by (elim FSS_TRY_ST_E)
    (use assms(1) in \<open>auto intro!: blob_inv_put dest: BeginOp_inv split: if_splits option.splits\<close>)

lemma blob_inv_put_op: "blob_inv s \<Longrightarrow> BlobPut sha now s ref source options = (s', r) \<Longrightarrow> blob_inv s'"
  unfolding BlobPut_eq
  by (elim FSS_TRY_ST_E) (auto simp: put_outcome_Ok intro!: blob_inv_store dest: BeginOp_inv)

lemma blob_inv_remove:
  assumes "blob_inv s" "BlobRemove s ref = (s', r)"
  shows "blob_inv s'"
  using assms(2) unfolding BlobRemove_def
proof (cases rule: FSS_TRY_ST_E)
  case (go s1 u)
  then have i: "blob_inv s1" using assms(1) by (blast dest: BeginOp_inv)
  from go(2) show ?thesis
  proof (cases rule: FSS_TRY_ST_E)
    case (go s2 v)
    with i show ?thesis
      by (cases "map_of (bs_containers s1) (or_container ref)") (auto simp: map_erase_def blob_inv_filter)
  qed (use i in auto)
qed (use assms(1) in \<open>auto dest: BeginOp_inv\<close>)

lemma blob_inv_copy: "blob_inv s \<Longrightarrow> BlobCopy now s from to = (s', r) \<Longrightarrow> blob_inv s'"
  unfolding BlobCopy_def
  by (elim FSS_TRY_ST_E)
    (auto simp: ValidateRef_Ok Let_def intro!: blob_inv_store dest: BeginOp_inv split: option.splits if_splits)

lemma blob_inv_sweep:
  "blob_inv s \<Longrightarrow> BlobRemoveTempFiles s c t d = (s', r) \<Longrightarrow> blob_inv s'"
  unfolding BlobRemoveTempFiles_def
  by (elim FSS_TRY_ST_E)
    (auto intro!: blob_inv_filter dest!: BeginOp_inv split: option.splits if_splits)

section \<open>The port contract\<close>

text \<open>What the use cases rely on: a successful operation changes the one object it names, a failed
  one changes none.\<close>

locale blob_port =
  fixes put :: "'s \<Rightarrow> ObjectRef \<Rightarrow> string \<Rightarrow> 's \<times> unit Result"
    and copy :: "'s \<Rightarrow> ObjectRef \<Rightarrow> ObjectRef \<Rightarrow> 's \<times> ObjectStat Result"
    and remove :: "'s \<Rightarrow> ObjectRef \<Rightarrow> 's \<times> unit Result"
    and content :: "'s \<Rightarrow> string \<Rightarrow> string \<Rightarrow> string option"
    and faithful :: "'s \<Rightarrow> bool"
  assumes put_ok: "faithful s \<Longrightarrow> put s ref data = (s', Ok ()) \<Longrightarrow>
      content s' c k = (if c = or_container ref \<and> k = or_key ref then Some data else content s c k)"
    and put_err: "put s ref data = (s', Inl e) \<Longrightarrow> content s' = content s"
    and copy_ok: "copy s from to = (s', Ok st) \<Longrightarrow>
      content s (or_container from) (or_key from) \<noteq> None \<and>
      content s' c k = (if c = or_container to \<and> k = or_key to
                        then content s (or_container from) (or_key from) else content s c k)"
    and copy_err: "copy s from to = (s', Inl e) \<Longrightarrow> content s' = content s"
    and remove_ok: "remove s ref = (s', Ok ()) \<Longrightarrow>
      content s' c k = (if c = or_container ref \<and> k = or_key ref then None else content s c k)"
    and remove_err: "remove s ref = (s', Inl e) \<Longrightarrow> content s' = content s"
begin

lemma move:
  assumes "copy s from to = (s1, Ok st)" "remove s1 from = (s2, Ok ())"
    and "(or_container from, or_key from) \<noteq> (or_container to, or_key to)"
  shows "content s2 (or_container to) (or_key to) = content s (or_container from) (or_key from) \<and>
    content s2 (or_container from) (or_key from) = None \<and>
    ((c, k) \<noteq> (or_container from, or_key from) \<longrightarrow> (c, k) \<noteq> (or_container to, or_key to) \<longrightarrow>
     content s2 c k = content s c k)"
  using copy_ok [OF assms(1)] remove_ok [OF assms(2)] assms(3) by auto

text \<open>Undoing a copy by removing the target restores the store when the target was free.\<close>

lemma copy_undo:
  assumes "copy s from to = (s1, Ok st)" "remove s1 to = (s2, Ok ())"
    and "content s (or_container to) (or_key to) = None"
  shows "content s2 = content s"
  using copy_ok [OF assms(1)] remove_ok [OF assms(2)] assms(3) by (auto simp: fun_eq_iff)

lemma put_put:
  assumes "faithful s" "faithful s1" "put s ref d1 = (s1, Ok ())" "put s1 ref d2 = (s2, Ok ())"
  shows "content s2 (or_container ref) (or_key ref) = Some d2"
  using put_ok [OF assms(2,4)] by simp

end

definition blob_content :: "BlobState \<Rightarrow> string \<Rightarrow> string \<Rightarrow> string option" where
  "blob_content s c k = map_option bo_data (blob_at s c k)"

lemma stored_data_id: "no_truncation s \<Longrightarrow> stored_data (bs_fault s) data = data"
  by (auto simp: stored_data_def no_truncation_def)

interpretation blob: blob_port
  "\<lambda>s ref data. BlobPut sha now s ref (\<lambda>_. Ok data) options" "BlobCopy now" BlobRemove blob_content no_truncation
  for sha now options
proof
  show "no_truncation s \<Longrightarrow> BlobPut sha now s ref (\<lambda>_. Ok data) options = (s', Ok ()) \<Longrightarrow>
      blob_content s' c k = (if c = or_container ref \<and> k = or_key ref then Some data else blob_content s c k)"
    for s ref data s' c k
    by (auto dest!: BlobPut_effect simp: blob_content_def put_outcome_Ok stored_data_id stored_object_def)
  show "BlobPut sha now s ref (\<lambda>_. Ok data) options = (s', Inl e) \<Longrightarrow> blob_content s' = blob_content s" for s ref data s' e
    by (auto dest!: BlobPut_effect simp: blob_content_def fun_eq_iff)
  show "BlobCopy now s src dst = (s', Ok st) \<Longrightarrow>
      blob_content s (or_container src) (or_key src) \<noteq> None \<and>
      blob_content s' c k = (if c = or_container dst \<and> k = or_key dst
         then blob_content s (or_container src) (or_key src) else blob_content s c k)" for s src dst s' st c k
    by (drule BlobCopy_effect) (auto simp: blob_content_def)
  show "BlobCopy now s src dst = (s', Inl e) \<Longrightarrow> blob_content s' = blob_content s" for s src dst s' e
    by (drule BlobCopy_effect) (auto simp: blob_content_def fun_eq_iff)
  show "BlobRemove s ref = (s', Ok ()) \<Longrightarrow>
      blob_content s' c k = (if c = or_container ref \<and> k = or_key ref then None else blob_content s c k)" for s ref s' c k
    by (drule BlobRemove_effect) (auto simp: blob_content_def)
  show "BlobRemove s ref = (s', Inl e) \<Longrightarrow> blob_content s' = blob_content s" for s ref s' e
    by (drule BlobRemove_effect) (auto simp: blob_content_def fun_eq_iff)
qed

section \<open>Writing and reading\<close>

lemma BlobGet_Ok:
  assumes "healthy opGet s" "or_container ref \<noteq> []" "or_key ref \<noteq> []"
    "blob_at s (or_container ref) (or_key ref) = Some obj"
    "br_offset rg < length (bo_data obj) \<or> IsWholeObject rg"
  shows "snd (BlobGet s ref rg) =
    Ok (if br_length rg = 0 then drop (br_offset rg) (bo_data obj)
        else take (br_length rg) (drop (br_offset rg) (bo_data obj)))"
proof -
  obtain s1 where "BeginOp s opGet = (s1, Ok ())" using begin_healthy [OF assms(1)] by blast
  moreover have "ValidateRef ref = Ok ()" using assms(2,3) by (simp add: ValidateRef_Ok)
  ultimately show ?thesis using assms(4,5) by (auto simp: BlobGet_eq)
qed

lemma BlobStat_Ok:
  assumes "healthy opStat s" "fp_checksum_override (bs_fault s) = []" "or_container ref \<noteq> []" "or_key ref \<noteq> []"
  shows "snd (BlobStat s ref) = Ok (case blob_at s (or_container ref) (or_key ref) of
      None \<Rightarrow> missing_stat | Some obj \<Rightarrow> object_stat obj)"
proof -
  obtain s1 where b: "BeginOp s opStat = (s1, Ok ())" "bs_fault s1 = bs_fault s" using begin_healthy [OF assms(1)] by metis
  moreover have "ValidateRef ref = Ok ()" using assms(3,4) by (simp add: ValidateRef_Ok)
  ultimately show ?thesis using assms(2) BeginOp_at [OF b(1)]
    by (simp add: BlobStat_def find_object_at split: option.split)
qed

text \<open>C30: whatever bytes a put accepts are what every later read of that object
  returns, whole or by range (a range is cut at the end of the object), as long as no fault is
  injected; \<^verbatim>\<open>stat\<close> reports their length, content type and SHA-256; no other object changes.\<close>

theorem blob_put_get:
  assumes "bs_fault s = no_faults"
    and "BlobPut sha now s ref (\<lambda>_. Ok data) options = (s', Ok ())"
  shows "snd (BlobGet s' ref \<lparr>br_offset = 0, br_length = 0\<rparr>) = Ok data \<and>
    (\<forall>off n. off < length data \<longrightarrow> snd (BlobGet s' ref \<lparr>br_offset = off, br_length = n\<rparr>) =
       Ok (if n = 0 then drop off data else take n (drop off data))) \<and>
    (\<forall>off n. length data \<le> off \<longrightarrow> off \<noteq> 0 \<or> n \<noteq> 0 \<longrightarrow>
       err_kind (snd (BlobGet s' ref \<lparr>br_offset = off, br_length = n\<rparr>)) = Some kInvalidArgument) \<and>
    snd (BlobStat s' ref) = Ok \<lparr>os_size = int (length data), os_content_type = pu_content_type options,
       os_checksum = sha data, os_checksum_algorithm = ''SHA256'', os_last_modified = now, os_exists = True\<rparr> \<and>
    (\<forall>c k. (c, k) \<noteq> (or_container ref, or_key ref) \<longrightarrow> blob_at s' c k = blob_at s c k)"
proof -
  have t: "no_truncation s" using assms(1) by (simp add: no_truncation_def no_faults_def)
  from BlobPut_effect [OF assms(2)] have
    e: "or_container ref \<noteq> []" "or_key ref \<noteq> []"
      "blob_at s' c k = (if c = or_container ref \<and> k = or_key ref
          then Some (stored_object sha now options data) else blob_at s c k)" for c k
    by (auto simp: put_outcome_Ok stored_data_id [OF t])
  have f: "bs_fault s' = no_faults"
    using assms(2) BeginOp_cases [of s opPut] assms(1) unfolding BlobPut_eq
    by (elim FSS_TRY_ST_E) (auto simp: store_object_def split: option.split)
  then have h: "healthy op s'" for op by (simp add: healthy_def no_faults_def)
  have v: "ValidateRef ref = Ok ()" using e by (simp add: ValidateRef_Ok)
  obtain s2 where "BeginOp s' opGet = (s2, Ok ())" using begin_healthy [OF h] by blast
  then have "snd (BlobGet s' ref rg) =
      (if \<not> IsWholeObject rg \<and> length data \<le> br_offset rg then Err kInvalidArgument msg_range_start
       else Ok (if br_length rg = 0 then drop (br_offset rg) data else take (br_length rg) (drop (br_offset rg) data)))" for rg
    using v e by (simp add: BlobGet_eq stored_object_def)
  moreover have "snd (BlobStat s' ref) = Ok (object_stat (stored_object sha now options data))"
    using BlobStat_Ok [OF h _ e(1,2)] f e(3) by (simp add: no_faults_def)
  ultimately show ?thesis using e(3)
    by (auto simp: IsWholeObject_def object_stat_def stored_object_def)
qed

definition sample_ref :: ObjectRef where
  "sample_ref = \<lparr>or_container = ''c'', or_key = ''k'', or_version_id = None\<rparr>"

definition sample_store :: BlobState where
  "sample_store = fst (BlobEnsureContainer blob_empty ''c'')"

theorem blob_put_get_witness:
  "\<exists>s'. BlobPut (\<lambda>d. ''00'') 5 sample_store sample_ref (\<lambda>_. Ok ''abc'') default_PutOptions = (s', Ok ()) \<and>
     snd (BlobGet s' sample_ref \<lparr>br_offset = 1, br_length = 5\<rparr>) = Ok ''bc''"
proof -
  have f: "bs_fault sample_store = no_faults"
    by (simp add: sample_store_def BlobEnsureContainer_def BeginOp_def blob_empty_def no_faults_def Let_def)
  have p: "BlobPut (\<lambda>d. ''00'') 5 sample_store sample_ref (\<lambda>_. Ok ''abc'') default_PutOptions =
      (fst (BlobPut (\<lambda>d. ''00'') 5 sample_store sample_ref (\<lambda>_. Ok ''abc'') default_PutOptions), Ok ())"
    by (simp add: sample_store_def BlobEnsureContainer_def BeginOp_def blob_empty_def no_faults_def Let_def
        BlobPut_def ValidateRef_def sample_ref_def check_put_def default_PutOptions_def)
  show ?thesis
    using blob_put_get [OF f p] p by (intro exI conjI) (assumption, auto)
qed

section \<open>Listing\<close>

text \<open>In the byte order a prefix comes before its extensions, and the keys that extend it are
  consecutive: past the first key that does not, none does.\<close>

lemma prefix_le: "(p :: string) \<le> p @ r"
  by (induction p) auto

lemma starts_with_le: "starts_with p k \<Longrightarrow> p \<le> k"
  by (auto simp: starts_with_iff prefix_le)

lemma starts_with_Cons: "starts_with (a # p) (b # k) \<longleftrightarrow> a = b \<and> starts_with p k"
  by (auto simp: starts_with_def)

lemma starts_with_Nil [simp]: "starts_with [] k" "starts_with (a # p) [] = False"
  by (simp_all add: starts_with_def)

lemma past_prefix: "p \<le> k \<Longrightarrow> \<not> starts_with p k \<Longrightarrow> k < j \<Longrightarrow> \<not> starts_with p j"
proof (induction p arbitrary: k j)
  case (Cons a p)
  then obtain b k' where k: "k = b # k'" by (cases k) auto
  then obtain c j' where j: "j = c # j'" using Cons.prems by (cases j) auto
  show ?case
  proof (cases "a = b")
    case True
    then show ?thesis using Cons.prems k j Cons.IH [of k' j'] by (auto simp: starts_with_Cons)
  next
    case False
    then show ?thesis using Cons.prems k j by (auto simp: starts_with_Cons)
  qed
qed simp

lemma takeWhile_prefix:
  assumes "map_wf objs" "\<And>q. q \<in> set objs \<Longrightarrow> p \<le> fst q"
  shows "takeWhile (\<lambda>q. starts_with p (fst q)) objs = filter (\<lambda>q. starts_with p (fst q)) objs"
  using assms
proof (induction objs)
  case (Cons q objs)
  show ?case
  proof (cases "starts_with p (fst q)")
    case False
    then have "\<not> starts_with p (fst r)" if "r \<in> set objs" for r
      using Cons.prems that past_prefix [of p "fst q" "fst r"] by (auto simp: map_wf_Cons)
    then have "filter (\<lambda>q. starts_with p (fst q)) objs = []" by (simp add: filter_empty_conv)
    with False show ?thesis by simp
  qed (use Cons in \<open>auto simp: map_wf_Cons\<close>)
qed simp

lemma dropWhile_sorted_less:
  "map_wf (objs :: ('k::linorder \<times> 'v) list) \<Longrightarrow> dropWhile (\<lambda>q. fst q < t) objs = filter (\<lambda>q. t \<le> fst q) objs"
  by (induction objs) (fastforce simp: map_wf_Cons intro: filter_True [symmetric])+

lemma dropWhile_sorted_le:
  "map_wf (objs :: ('k::linorder \<times> 'v) list) \<Longrightarrow> dropWhile (\<lambda>q. fst q \<le> t) objs = filter (\<lambda>q. t < fst q) objs"
  by (induction objs) (fastforce simp: map_wf_Cons intro: filter_True [symmetric])+

definition entry_of :: "string \<times> BlobObject \<Rightarrow> ListEntry" where
  "entry_of q = \<lparr>le_key = fst q, le_size = int (length (bo_data (snd q))), le_last_modified = bo_last_modified (snd q)\<rparr>"

text \<open>The entries a listing has still to deliver after a continuation token.\<close>

definition remaining :: "string \<Rightarrow> string \<Rightarrow> (string \<times> BlobObject) list \<Rightarrow> (string \<times> BlobObject) list" where
  "remaining p token objs = filter (\<lambda>q. starts_with p (fst q) \<and> (token = [] \<or> token < fst q)) objs"

lemma list_start_remaining:
  assumes "map_wf objs" "token = [] \<or> starts_with p token"
  shows "takeWhile (\<lambda>q. starts_with p (fst q)) (list_start p token objs) = remaining p token objs"
proof (cases "token = []")
  case True
  have "takeWhile (\<lambda>q. starts_with p (fst q)) (filter (\<lambda>q. p \<le> fst q) objs) =
      filter (\<lambda>q. starts_with p (fst q)) (filter (\<lambda>q. p \<le> fst q) objs)"
    by (rule takeWhile_prefix) (use assms(1) in auto)
  also have "\<dots> = remaining p token objs"
    using True starts_with_le by (auto simp: remaining_def intro: filter_cong)
  finally show ?thesis using True by (simp add: list_start_def dropWhile_sorted_less [OF assms(1)])
next
  case False
  then have p: "p \<le> token" using assms(2) starts_with_le by blast
  have "takeWhile (\<lambda>q. starts_with p (fst q)) (filter (\<lambda>q. token < fst q) objs) =
      filter (\<lambda>q. starts_with p (fst q)) (filter (\<lambda>q. token < fst q) objs)"
    by (rule takeWhile_prefix) (use assms(1) p in auto)
  also have "\<dots> = remaining p token objs" using False by (auto simp: remaining_def intro: filter_cong)
  finally show ?thesis using False by (simp add: list_start_def dropWhile_sorted_le [OF assms(1)])
qed

lemma list_loop_eq:
  "list_loop p n objs acc =
     (let m = takeWhile (\<lambda>q. starts_with p (fst q)) objs; es = acc @ map entry_of (take n m) in
      if n < length m then \<lparr>lp_entries = es, lp_continuation_token = le_key (last es), lp_truncated = True\<rparr>
      else \<lparr>lp_entries = es, lp_continuation_token = [], lp_truncated = False\<rparr>)"
  by (induction p n objs acc rule: list_loop.induct) (auto simp: Let_def entry_of_def split: nat.split)

lemma BlobList_page:
  assumes "healthy opList s" "blob_inv s" "map_of (bs_containers s) c = Some objs" "0 < limit"
    and "token = [] \<or> starts_with p token"
  obtains s1 where "bs_containers s1 = bs_containers s" "bs_fault s1 = bs_fault s"
    "BlobList s c p token limit = (s1, Ok
       (let m = remaining p token objs; es = map entry_of (take (nat limit) m) in
        if nat limit < length m then \<lparr>lp_entries = es, lp_continuation_token = le_key (last es), lp_truncated = True\<rparr>
        else \<lparr>lp_entries = es, lp_continuation_token = [], lp_truncated = False\<rparr>))"
proof -
  obtain s1 where b: "BeginOp s opList = (s1, Ok ())" "bs_containers s1 = bs_containers s" "bs_fault s1 = bs_fault s"
    using begin_healthy [OF assms(1)] by blast
  have "map_wf objs" using blob_inv_bucket assms(2,3) by blast
  then show ?thesis
    using that [of s1] b assms(3,4) list_start_remaining [OF _ assms(5)]
    by (simp add: BlobList_def list_loop_eq)
qed

text \<open>The loop every client of the listing runs: ask for pages until one is not truncated.\<close>

fun list_walk :: "nat \<Rightarrow> BlobState \<Rightarrow> string \<Rightarrow> string \<Rightarrow> string \<Rightarrow> int \<Rightarrow> ListEntry list option" where
  "list_walk 0 s c p token limit = None"
| "list_walk (Suc fuel) s c p token limit =
     (case BlobList s c p token limit of
        (s', Inl e) \<Rightarrow> None
      | (s', Inr page) \<Rightarrow>
          if lp_truncated page
          then map_option ((@) (lp_entries page)) (list_walk fuel s' c p (lp_continuation_token page) limit)
          else Some (lp_entries page))"

lemma map_wf_last: "map_wf xs \<Longrightarrow> q \<in> set xs \<Longrightarrow> fst q \<le> fst (last xs)"
  by (induction xs) (auto simp: map_wf_Cons intro: less_imp_le)

declare list_walk.simps(2) [simp del]

lemma remaining_step:
  assumes "map_wf objs" "[] \<notin> fst ` set objs" "0 < n" "n < length (remaining p token objs)"
  shows "remaining p (fst (last (take n (remaining p token objs)))) objs = drop n (remaining p token objs)"
    and "starts_with p (fst (last (take n (remaining p token objs))))"
proof -
  let ?m = "remaining p token objs"
  let ?t = "fst (last (take n ?m))"
  have wf: "map_wf ?m" using assms(1) by (simp add: remaining_def)
  have ne: "take n ?m \<noteq> []" using assms(3,4) by auto
  then have last_in: "last (take n ?m) \<in> set (take n ?m)" by (rule last_in_set)
  then have in_m: "last (take n ?m) \<in> set ?m" by (rule in_set_takeD)
  then show "starts_with p ?t" by (simp add: remaining_def)
  have t_ne: "?t \<noteq> []" using in_m assms(2) by (force simp: remaining_def)
  have tok: "token = [] \<or> token < ?t" using in_m by (simp add: remaining_def)
  have "remaining p ?t objs = filter (\<lambda>q. ?t < fst q) ?m"
    using t_ne tok by (auto simp: remaining_def intro!: filter_cong)
  also have "\<dots> = filter (\<lambda>q. ?t < fst q) (take n ?m) @ filter (\<lambda>q. ?t < fst q) (drop n ?m)"
    by (metis append_take_drop_id filter_append)
  also have "filter (\<lambda>q. ?t < fst q) (take n ?m) = []"
  proof -
    have "map_wf (take n ?m)" using wf by (simp add: map_wf_def take_map [symmetric] sorted_wrt_take)
    then have "fst q \<le> ?t" if "q \<in> set (take n ?m)" for q
      using that by (rule map_wf_last)
    then show ?thesis by (auto simp: filter_empty_conv dest: leD)
  qed
  also have "filter (\<lambda>q. ?t < fst q) (drop n ?m) = drop n ?m"
  proof (rule filter_True, rule ballI)
    fix q assume "q \<in> set (drop n ?m)"
    moreover have "sorted_wrt (\<lambda>x y. fst x < fst y) (take n ?m @ drop n ?m)"
      using wf by (simp add: map_wf_def sorted_wrt_map)
    ultimately show "?t < fst q" using last_in unfolding sorted_wrt_append by blast
  qed
  finally show "remaining p ?t objs = drop n ?m" by simp
qed

lemma list_walk_remaining:
  assumes "healthy opList s" "blob_inv s" "map_of (bs_containers s) c = Some objs" "0 < limit"
    and "token = [] \<or> starts_with p token" "length (remaining p token objs) < fuel"
  shows "list_walk fuel s c p token limit = Some (map entry_of (remaining p token objs))"
  using assms
proof (induction fuel arbitrary: s token)
  case (Suc fuel)
  let ?m = "remaining p token objs"
  obtain s1 where s1: "bs_containers s1 = bs_containers s" "bs_fault s1 = bs_fault s"
    "BlobList s c p token limit = (s1, Ok
       (let m = ?m; es = map entry_of (take (nat limit) m) in
        if nat limit < length m then \<lparr>lp_entries = es, lp_continuation_token = le_key (last es), lp_truncated = True\<rparr>
        else \<lparr>lp_entries = es, lp_continuation_token = [], lp_truncated = False\<rparr>))"
    using BlobList_page [OF Suc.prems(1-5)] by blast
  show ?case
  proof (cases "nat limit < length ?m")
    case False
    then show ?thesis using s1(3) by (simp add: Ok_def list_walk.simps Let_def)
  next
    case True
    let ?t = "fst (last (take (nat limit) ?m))"
    have b: "map_wf objs" "[] \<notin> fst ` set objs" using blob_inv_bucket Suc.prems(2,3) by blast+
    have ne: "take (nat limit) ?m \<noteq> []" using True Suc.prems(4) by auto
    have t: "le_key (last (map entry_of (take (nat limit) ?m))) = ?t"
      using ne by (simp add: last_map entry_of_def)
    note step = remaining_step [OF b _ True]
    have "list_walk fuel s1 c p ?t limit = Some (map entry_of (remaining p ?t objs))"
      using Suc.prems step s1 True
      by (intro Suc.IH) (auto simp: healthy_def blob_inv_def)
    then show ?thesis
      using s1(3) True t step Suc.prems(4) by (simp add: Ok_def list_walk.simps Let_def map_append [symmetric] del: map_append)
  qed
qed simp

text \<open>Listing terminates and is complete. For every prefix and every page
  size, asking for pages until one is not truncated ends after at most one page per object plus
  one, and the concatenated pages are exactly the objects with that prefix, each once, in
  key order.\<close>

theorem blob_list_walk:
  assumes "blob_inv s" "healthy opList s" "map_of (bs_containers s) c = Some objs" "0 < limit"
  shows "list_walk (length objs + 1) s c p [] limit = Some (map entry_of (filter (\<lambda>q. starts_with p (fst q)) objs)) \<and>
    sorted_wrt (<) (map le_key (map entry_of (filter (\<lambda>q. starts_with p (fst q)) objs)))"
proof
  have "length (remaining p [] objs) < length objs + 1"
    by (simp add: remaining_def le_imp_less_Suc)
  then show "list_walk (length objs + 1) s c p [] limit = Some (map entry_of (filter (\<lambda>q. starts_with p (fst q)) objs))"
    using list_walk_remaining [OF assms(2,1,3,4), of "[]" p "length objs + 1"]
    by (simp add: remaining_def)
  have "map_wf (filter (\<lambda>q. starts_with p (fst q)) objs)" using blob_inv_bucket [OF assms(1,3)] by simp
  then show "sorted_wrt (<) (map le_key (map entry_of (filter (\<lambda>q. starts_with p (fst q)) objs)))"
    by (simp add: map_wf_def comp_def entry_of_def)
qed

definition tiny_object :: BlobObject where
  "tiny_object = \<lparr>bo_data = [], bo_content_type = [], bo_checksum = [], bo_checksum_algorithm = [], bo_last_modified = 0\<rparr>"

definition listed_store :: BlobState where
  "listed_store = blob_empty\<lparr>bs_containers := [(''c'', [(''a/1'', tiny_object), (''a/2'', tiny_object), (''b'', tiny_object)])]\<rparr>"

theorem blob_list_walk_witness:
  "map_option (map le_key) (list_walk (3 + 1) listed_store ''c'' ''a/'' [] 1) = Some [''a/1'', ''a/2'']"
proof -
  let ?objs = "[(''a/1'', tiny_object), (''a/2'', tiny_object), (''b'', tiny_object)]"
  have "blob_inv listed_store" by code_simp
  moreover have "healthy opList listed_store" by code_simp
  moreover have "map_of (bs_containers listed_store) ''c'' = Some ?objs"
    by (simp add: listed_store_def)
  ultimately show ?thesis
    using blob_list_walk [of listed_store "''c''" ?objs 1 "''a/''"]
    by (simp add: starts_with_def entry_of_def numeral_nat)
qed

section \<open>The temporary sweep\<close>

text \<open>The sweep removes exactly the temporary keys (those containing
  \<^verbatim>\<open>.tmp.\<close>) not modified after the cut-off, in its own container only, and counts them; a dry run
  counts the same and removes nothing; an object being uploaded or not temporary survives.\<close>

theorem temp_sweep_exact:
  assumes "healthy opList s" "blob_inv s" "map_of (bs_containers s) c = Some objs"
    and "BlobRemoveTempFiles s c older_than dry_run = (s', r)"
  shows "(\<exists>res. r = Ok res \<and>
      ts_removed res = int (card {k. \<exists>obj. blob_at s c k = Some obj \<and> contains_str ''.tmp.'' k \<and> bo_last_modified obj \<le> older_than})) \<and>
    (dry_run \<longrightarrow> blob_at s' = blob_at s) \<and>
    (\<not> dry_run \<longrightarrow> (\<forall>c' k. blob_at s' c' k =
        (case blob_at s c' k of
           None \<Rightarrow> None
         | Some obj \<Rightarrow> if c' = c \<and> contains_str ''.tmp.'' k \<and> bo_last_modified obj \<le> older_than then None else Some obj)))"
proof -
  obtain s1 where b: "BeginOp s opList = (s1, Ok ())" "bs_containers s1 = bs_containers s"
    using begin_healthy [OF assms(1)] by blast
  have wf: "map_wf objs" using blob_inv_bucket assms(2,3) by blast
  have "{k. \<exists>obj. blob_at s c k = Some obj \<and> contains_str ''.tmp.'' k \<and> bo_last_modified obj \<le> older_than} =
      fst ` set (filter (temp_victim older_than) objs)"
    using assms(3) map_wf_lookup [OF wf] by (force simp: blob_at_def temp_victim_def is_temp_key_def)
  moreover have "card (fst ` set (filter (temp_victim older_than) objs)) = length (filter (temp_victim older_than) objs)"
    using distinct_card [OF filter_map_fst_distinct [OF map_wf_distinct [OF wf]], of "temp_victim older_than"] by simp
  moreover have "map_of (filter (\<lambda>p. \<not> temp_victim older_than p) objs) k =
      (case map_of objs k of None \<Rightarrow> None | Some obj \<Rightarrow> if temp_victim older_than (k, obj) then None else Some obj)" for k
    using wf by (induction objs) (fastforce simp: map_wf_Cons split: option.split dest!: map_of_SomeD)+
  ultimately show ?thesis
    using assms(3,4) b BeginOp_at [OF b(1)]
    by (auto simp: BlobRemoveTempFiles_def blob_at_def temp_victim_def is_temp_key_def not_less split: if_splits option.split)
qed

theorem temp_sweep_exact_witness:
  "blob_at (fst (BlobRemoveTempFiles
     (blob_empty\<lparr>bs_containers := [(''c'', [(''a.tmp.1'', tiny_object), (''b'', tiny_object)])]\<rparr>) ''c'' 3 False)) ''c'' ''a.tmp.1'' = None"
proof -
  let ?s = "blob_empty\<lparr>bs_containers := [(''c'', [(''a.tmp.1'', tiny_object), (''b'', tiny_object)])]\<rparr>"
  have "healthy opList ?s" "blob_inv ?s" by code_simp+
  moreover have "map_of (bs_containers ?s) ''c'' = Some [(''a.tmp.1'', tiny_object), (''b'', tiny_object)]" by simp
  moreover have "contains_str ''.tmp.'' ''a.tmp.1''" by code_simp
  ultimately show ?thesis
    using temp_sweep_exact [of ?s "''c''" _ 3 False] by (cases "BlobRemoveTempFiles ?s ''c'' 3 False") (auto simp: blob_at_def tiny_object_def)
qed

end
