(* ===== verification/Crypto.thy ===== *)
theory Crypto
  imports Prelude
begin

text \<open>
  \<^verbatim>\<open>common/crypto\<close>: hexadecimal and base64 text, the constant-time comparison, checksum names and
  the SigV4 key derivation. Bytes are \<^typ>\<open>char\<close>s; the accumulators of the base64 routines are
  32-bit words as in the source. The digests and the HMAC are OpenSSL's and enter as arguments.
\<close>

unbundle bit_operations_syntax

section \<open>Hexadecimal text\<close>

definition kHexDigits :: string where
  "kHexDigits = ''0123456789abcdef''"

definition ToHex :: "string \<Rightarrow> string" where
  "ToHex bytes = concat (map (\<lambda>b. [kHexDigits ! (of_char b div 16), kHexDigits ! (of_char b mod 16)]) bytes)"

section \<open>Base64\<close>

definition kB64Std :: string where
  "kB64Std = ''ABCDEFGHIJKLMNOPQRSTUVWXYZabcdefghijklmnopqrstuvwxyz0123456789+/''"

definition kB64Url :: string where
  "kB64Url = ''ABCDEFGHIJKLMNOPQRSTUVWXYZabcdefghijklmnopqrstuvwxyz0123456789-_''"

definition byte32 :: "char \<Rightarrow> 32 word" where
  "byte32 c = word_of_nat (of_char c)"

definition sextet :: "nat \<Rightarrow> 32 word \<Rightarrow> 32 word" where
  "sextet shift v = drop_bit shift v AND 63"

definition octet :: "nat \<Rightarrow> 32 word \<Rightarrow> 32 word" where
  "octet shift v = drop_bit shift v AND 255"

definition b64_digit :: "string \<Rightarrow> 32 word \<Rightarrow> nat \<Rightarrow> char" where
  "b64_digit alphabet v shift = alphabet ! unat (sextet shift v)"

definition group3 :: "char \<Rightarrow> char \<Rightarrow> char \<Rightarrow> 32 word" where
  "group3 a b c = push_bit 16 (byte32 a) OR push_bit 8 (byte32 b) OR byte32 c"

definition group2 :: "char \<Rightarrow> char \<Rightarrow> 32 word" where
  "group2 a b = push_bit 16 (byte32 a) OR push_bit 8 (byte32 b)"

definition group1 :: "char \<Rightarrow> 32 word" where
  "group1 a = push_bit 16 (byte32 a)"

fun Base64Impl :: "string \<Rightarrow> bool \<Rightarrow> string \<Rightarrow> string" where
  "Base64Impl alphabet pad (a # b # c # rest) =
     (let v = group3 a b c in
      [b64_digit alphabet v 18, b64_digit alphabet v 12, b64_digit alphabet v 6, b64_digit alphabet v 0] @
      Base64Impl alphabet pad rest)"
| "Base64Impl alphabet pad [a] =
     (let v = group1 a in
      [b64_digit alphabet v 18, b64_digit alphabet v 12] @ (if pad then ''=='' else []))"
| "Base64Impl alphabet pad [a, b] =
     (let v = group2 a b in
      [b64_digit alphabet v 18, b64_digit alphabet v 12, b64_digit alphabet v 6] @ (if pad then ''='' else []))"
| "Base64Impl alphabet pad [] = []"

definition Base64UrlEncode :: "string \<Rightarrow> string" where
  "Base64UrlEncode data = Base64Impl kB64Url False data"

definition Base64Encode :: "string \<Rightarrow> string" where
  "Base64Encode data = Base64Impl kB64Std True data"

definition B64Value :: "char \<Rightarrow> nat option" where
  "B64Value c =
     (if isupper c then Some (of_char c - 65)
      else if islower c then Some (of_char c - 97 + 26)
      else if isdigit c then Some (of_char c - 48 + 52)
      else if c = CHR ''+'' \<or> c = CHR ''-'' then Some 62
      else if c = CHR ''/'' \<or> c = CHR ''_'' then Some 63
      else None)"

definition shift_in :: "32 word \<Rightarrow> 32 word \<Rightarrow> 32 word" where
  "shift_in acc v = push_bit 6 acc OR v"

fun decode_loop :: "32 word \<Rightarrow> nat \<Rightarrow> string \<Rightarrow> string \<Rightarrow> string option" where
  "decode_loop acc bits [] out =
     (if bits > 0 \<and> acc AND mask bits \<noteq> 0 then None else Some out)"
| "decode_loop acc bits (c # text) out =
     (case B64Value c of
        None \<Rightarrow> None
      | Some v \<Rightarrow>
          let acc = shift_in acc (word_of_nat v); bits = bits + 6 in
          if bits \<ge> 8
          then decode_loop acc (bits - 8) text (out @ [char_of (unat (octet (bits - 8) acc))])
          else decode_loop acc bits text out)"

definition strip_padding :: "string \<Rightarrow> string" where
  "strip_padding text = rev (dropWhile (\<lambda>c. c = CHR ''='') (rev text))"

definition Base64UrlDecode :: "string \<Rightarrow> string option" where
  "Base64UrlDecode text = decode_loop 0 0 (strip_padding text) []"

section \<open>Constant-time comparison\<close>

fun fold_diff :: "8 word \<Rightarrow> string \<Rightarrow> string \<Rightarrow> 8 word" where
  "fold_diff diff (a # as) (b # bs) = fold_diff (diff OR (word_of_nat (of_char a) XOR word_of_nat (of_char b))) as bs"
| "fold_diff diff _ _ = diff"

definition ConstantTimeEquals :: "string \<Rightarrow> string \<Rightarrow> bool" where
  "ConstantTimeEquals a b \<longleftrightarrow> (if length a \<noteq> length b then False else fold_diff 0 a b = 0)"

section \<open>Checksum algorithms\<close>

datatype ChecksumAlgorithm = kSha256 | kSha1 | kMd5

definition NormalizeAlgorithmName :: "string \<Rightarrow> string" where
  "NormalizeAlgorithmName name =
     map tolower (filter (\<lambda>c. \<not> (c = CHR ''-'' \<or> c = CHR ''_'' \<or> c = CHR '' '')) name)"

definition ParseChecksumAlgorithm :: "string \<Rightarrow> ChecksumAlgorithm option" where
  "ParseChecksumAlgorithm name =
     (let normalized = NormalizeAlgorithmName name in
      if normalized = ''sha256'' then Some kSha256
      else if normalized = ''sha1'' then Some kSha1
      else if normalized = ''md5'' then Some kMd5
      else None)"

fun CanonicalChecksumName :: "ChecksumAlgorithm \<Rightarrow> string" where
  "CanonicalChecksumName kSha256 = ''SHA256''"
| "CanonicalChecksumName kSha1 = ''SHA1''"
| "CanonicalChecksumName kMd5 = ''MD5''"

fun ChecksumHexLength :: "ChecksumAlgorithm \<Rightarrow> nat" where
  "ChecksumHexLength kSha256 = 64"
| "ChecksumHexLength kSha1 = 40"
| "ChecksumHexLength kMd5 = 32"

definition is_hex_char :: "char \<Rightarrow> bool" where
  "is_hex_char c \<longleftrightarrow> isdigit c \<or>
     97 \<le> (of_char c :: nat) \<and> (of_char c :: nat) \<le> 102 \<or> 65 \<le> (of_char c :: nat) \<and> (of_char c :: nat) \<le> 70"

definition IsHexDigestOf :: "string \<Rightarrow> ChecksumAlgorithm \<Rightarrow> bool" where
  "IsHexDigestOf text algorithm \<longleftrightarrow>
     (if length text \<noteq> ChecksumHexLength algorithm then False else list_all is_hex_char text)"

section \<open>Key derivation\<close>

definition kSigV4Terminator :: string where
  "kSigV4Terminator = ''aws4_request''"

definition DeriveSigningKey ::
  "(string \<Rightarrow> string \<Rightarrow> string) \<Rightarrow> string \<Rightarrow> string \<Rightarrow> string \<Rightarrow> string \<Rightarrow> string" where
  "DeriveSigningKey HmacSha256 secret date region service =
     (let k0 = ''AWS4'' @ secret;
          k_date = HmacSha256 k0 date;
          k_region = HmacSha256 k_date region;
          k_service = HmacSha256 k_region service
      in HmacSha256 k_service kSigV4Terminator)"

section \<open>Base64 round trip\<close>

lemma b64_value_url: "n < 64 \<Longrightarrow> B64Value (kB64Url ! n) = Some n"
proof -
  have "list_all (\<lambda>n. B64Value (kB64Url ! n) = Some n) [0..<64]" by code_simp
  then show "n < 64 \<Longrightarrow> ?thesis" by (simp add: list_all_iff)
qed

lemma b64_value_std: "n < 64 \<Longrightarrow> B64Value (kB64Std ! n) = Some n"
proof -
  have "list_all (\<lambda>n. B64Value (kB64Std ! n) = Some n) [0..<64]" by code_simp
  then show "n < 64 \<Longrightarrow> ?thesis" by (simp add: list_all_iff)
qed

lemma unat_sextet: "unat (sextet k w) < 64"
proof -
  have "sextet k w \<le> 63" unfolding sextet_def by (rule word_and_le1)
  then have "unat (sextet k w) \<le> unat (63 :: 32 word)" by (simp only: word_le_nat_alt)
  then show ?thesis by simp
qed

text \<open>Both alphabets decode: what the decoder needs of an alphabet.\<close>

definition decodes :: "string \<Rightarrow> bool" where
  "decodes alphabet \<longleftrightarrow> (\<forall>v k. B64Value (b64_digit alphabet v k) = Some (unat (sextet k v)))"

lemma decodes_url: "decodes kB64Url" and decodes_std: "decodes kB64Std"
  by (simp_all add: decodes_def b64_digit_def b64_value_url b64_value_std unat_sextet)

lemma decodes_value: "decodes alphabet \<Longrightarrow> B64Value (b64_digit alphabet v k) = Some (unat (sextet k v))"
  by (simp add: decodes_def)

lemma unat_byte32 [simp]: "unat (byte32 c) = of_char c"
proof -
  have "(of_char c :: nat) < 256" by (rule nat_of_char_less_256)
  then have "(of_char c :: nat) < 4294967296" by linarith
  then show ?thesis by (simp add: byte32_def unat_of_nat)
qed

lemma byte32_bound: "bit (byte32 c) n \<Longrightarrow> n < 8"
proof (rule ccontr)
  assume b: "bit (byte32 c) n" and n: "\<not> n < 8"
  have "take_bit 8 (of_char c :: nat) = of_char c" by (simp add: take_bit_nat_eq_self)
  then have "bit (of_char c :: nat) n \<Longrightarrow> n < 8" by (metis bit_take_bit_iff)
  then show False using b n by (simp add: byte32_def bit_simps)
qed

lemma mask_literals: "(63 :: 32 word) = mask 6" "(255 :: 32 word) = mask 8"
  by (simp_all add: mask_eq_exp_minus_1)

text \<open>The bit arithmetic of one group: its bytes come back out of the accumulator whatever it held
  before.\<close>

lemma group_octets:
  "octet 4 (shift_in (shift_in acc (sextet 18 v)) (sextet 12 v)) = octet 16 v"
  "octet 2 (shift_in (shift_in acc (sextet 12 v)) (sextet 6 v)) = octet 8 v"
  "octet 0 (shift_in (shift_in acc (sextet 6 v)) (sextet 0 v)) = octet 0 v"
  unfolding octet_def sextet_def shift_in_def
  by (rule bit_word_eqI; auto simp: mask_literals bit_simps)+

lemma group_bytes:
  "octet 16 (group3 a b c) = byte32 a" "octet 8 (group3 a b c) = byte32 b" "octet 0 (group3 a b c) = byte32 c"
  "octet 16 (group2 a b) = byte32 a" "octet 8 (group2 a b) = byte32 b" "octet 16 (group1 a) = byte32 a"
  unfolding octet_def group3_def group2_def group1_def
  by (rule bit_word_eqI; auto simp: mask_literals bit_simps dest: byte32_bound)+

lemma tail_bits:
  "shift_in acc (sextet 12 (group1 a)) AND mask 4 = 0" "shift_in acc (sextet 6 (group2 a b)) AND mask 2 = 0"
  unfolding shift_in_def sextet_def group2_def group1_def
  by (rule bit_word_eqI; auto simp: mask_literals bit_simps dest: byte32_bound)+

lemma decode_group:
  "decodes al \<Longrightarrow> \<exists>acc'. decode_loop acc 0 (Base64Impl al False (a # b # c # rest)) out =
    decode_loop acc' 0 (Base64Impl al False rest) (out @ [a, b, c])"
  by (simp add: Let_def decodes_value group_octets group_bytes) blast

lemma decode_encode: "decodes al \<Longrightarrow> decode_loop acc 0 (Base64Impl al False data) out = Some (out @ data)"
proof (induction data arbitrary: acc out rule: length_induct)
  case (1 data)
  consider "data = []" | a where "data = [a]" | a b where "data = [a, b]" | a b c rest where "data = a # b # c # rest"
    by (metis neq_Nil_conv)
  then show ?case
  proof cases
    case (4 a b c rest)
    obtain acc' where "decode_loop acc 0 (Base64Impl al False data) out =
        decode_loop acc' 0 (Base64Impl al False rest) (out @ [a, b, c])"
      using decode_group [OF "1.prems"] 4 by blast
    with 1 4 show ?thesis by simp
  qed (use 1 in \<open>simp_all add: Let_def decodes_value group_octets group_bytes tail_bits\<close>)
qed

text \<open>Padding: the url alphabet never produces it, the standard encoding only at the end.\<close>

lemma b64_digit_no_pad: "decodes al \<Longrightarrow> b64_digit al v k \<noteq> CHR ''=''"
  using decodes_value [of al v k] by (auto simp: B64Value_def ctype_defs)

lemma Base64Impl_no_pad: "decodes al \<Longrightarrow> CHR ''='' \<notin> set (Base64Impl al False data)"
  by (induction al False data rule: Base64Impl.induct) (auto simp: Let_def b64_digit_no_pad dest: b64_digit_no_pad [THEN not_sym])

lemma strip_padding_id: "CHR ''='' \<notin> set t \<Longrightarrow> strip_padding t = t"
  by (cases "rev t") (auto simp: strip_padding_def)

lemma Base64Impl_pad: "\<exists>n. Base64Impl al True data = Base64Impl al False data @ replicate n CHR ''=''"
proof (induction al True data rule: Base64Impl.induct)
  case (2 al a)
  show ?case by (rule exI [of _ "Suc (Suc 0)"]) (simp add: Let_def)
next
  case (3 al a b)
  show ?case by (rule exI [of _ "Suc 0"]) (simp add: Let_def)
qed (auto simp: Let_def)

lemma dropWhile_replicate: "dropWhile (\<lambda>c. c = x) (replicate n x @ t) = dropWhile (\<lambda>c. c = x) t"
  by (induction n) simp_all

lemma strip_padding_append: "CHR ''='' \<notin> set t \<Longrightarrow> strip_padding (t @ replicate n CHR ''='') = t"
  using strip_padding_id [of t] by (simp add: strip_padding_def dropWhile_replicate)

lemma base64_decode_url [simp]: "Base64UrlDecode (Base64UrlEncode data) = Some data"
  using decode_encode [OF decodes_url]
  by (simp add: Base64UrlDecode_def Base64UrlEncode_def strip_padding_id Base64Impl_no_pad decodes_url)

lemma base64_text_empty: "Base64UrlEncode data = [] \<longleftrightarrow> data = []"
  using base64_decode_url [of data] by (auto simp: Base64UrlEncode_def Base64UrlDecode_def strip_padding_def)

text \<open>Decoding what either encoder produces gives the bytes back, with or
  without padding; and the decoder is not injective: text no encoder produces is accepted too (a
  single digit, and the two alphabets mixed).\<close>

theorem base64_roundtrip:
  "Base64UrlDecode (Base64UrlEncode data) = Some data \<and> Base64UrlDecode (Base64Encode data) = Some data \<and>
   Base64UrlDecode ''A'' = Some [] \<and> Base64UrlDecode ''-_-_'' = Base64UrlDecode ''+/+/''"
proof (intro conjI)
  show "Base64UrlDecode (Base64UrlEncode data) = Some data" by (rule base64_decode_url)
  obtain n where "Base64Impl kB64Std True data = Base64Impl kB64Std False data @ replicate n CHR ''=''"
    using Base64Impl_pad by blast
  then show "Base64UrlDecode (Base64Encode data) = Some data"
    using decode_encode [OF decodes_std]
    by (simp add: Base64UrlDecode_def Base64Encode_def strip_padding_append Base64Impl_no_pad decodes_std)
qed code_simp+

section \<open>Comparison and checksums\<close>

lemma fold_diff_zero: "length a = length b \<Longrightarrow> fold_diff d a b = 0 \<longleftrightarrow> d = 0 \<and> a = b"
proof (induction d a b rule: fold_diff.induct)
  case (1 d a as b bs)
  have "x XOR y = 0 \<longleftrightarrow> x = y" for x y :: "8 word"
    by (metis xor.assoc xor_self_eq xor.left_neutral xor.right_neutral)
  moreover have "(word_of_nat (of_char a) :: 8 word) = word_of_nat (of_char b) \<longleftrightarrow> a = b"
    by (simp add: word_of_nat_eq_iff take_bit_nat_eq_self)
  ultimately show ?case using 1 by (auto simp: or_eq_0_iff)
qed auto

lemma ConstantTimeEquals_iff: "ConstantTimeEquals a b \<longleftrightarrow> a = b"
  by (auto simp: ConstantTimeEquals_def fold_diff_zero)

lemma length_ToHex: "length (ToHex bytes) = 2 * length bytes"
  by (induction bytes) (simp_all add: ToHex_def)

lemma hex_digit_chars: "n < 16 \<Longrightarrow> is_hex_char (kHexDigits ! n)"
proof -
  have "list_all (\<lambda>n. is_hex_char (kHexDigits ! n)) [0..<16]" by code_simp
  then show "n < 16 \<Longrightarrow> ?thesis" by (simp add: list_all_iff)
qed

lemma ToHex_chars: "c \<in> set (ToHex bytes) \<Longrightarrow> is_hex_char c"
proof -
  have "(of_char b :: nat) div 16 < 16" for b
    using nat_of_char_less_256 [of b] by (simp add: less_mult_imp_div_less)
  then show "c \<in> set (ToHex bytes) \<Longrightarrow> ?thesis" by (auto simp: ToHex_def hex_digit_chars)
qed

text \<open>The text form of a 32-byte digest passes the service's own shape check for SHA-256 and for no
  other algorithm, so a checksum the service computed itself is always usable; every canonical
  name parses back to its algorithm.\<close>

lemma IsHexDigestOf_ToHex: "length digest = 32 \<Longrightarrow> IsHexDigestOf (ToHex digest) algorithm \<longleftrightarrow> algorithm = kSha256"
  using ToHex_chars by (cases algorithm) (auto simp: IsHexDigestOf_def length_ToHex list_all_iff)

lemma ParseChecksumAlgorithm_canonical [simp]:
  "ParseChecksumAlgorithm (CanonicalChecksumName algorithm) = Some algorithm"
  by (cases algorithm) (simp; code_simp)+

end
