(* ===== verification/Transfer_Token.thy ===== *)
theory Transfer_Token
  imports Domain_Types Crypto Blob_Store
begin

text \<open>
  \<^verbatim>\<open>infra/transfer\<close>: the self-signed transfer tokens, the kernel behind \<^verbatim>\<open>/v1/transfer\<close> and the byte
  source that reads an object piece by piece. HMAC-SHA256 is OpenSSL's and the JSON text form is
  the vendored library's: both are arguments. A random nonce is an argument of the encoder.
\<close>

section \<open>std::stoll\<close>

text \<open>Optional white space, an optional sign, digits up to the first other character; nothing to
  convert and a value outside 64 bits raise an exception (\<^const>\<open>None\<close>).\<close>

definition stoll :: "string \<Rightarrow> int option" where
  "stoll t =
     (let t = dropWhile isspace t;
          neg = (t \<noteq> [] \<and> hd t = CHR ''-'');
          t = (if t \<noteq> [] \<and> (hd t = CHR ''-'' \<or> hd t = CHR ''+'') then tl t else t);
          ds = takeWhile isdigit t;
          n = (if neg then - int (decimal ds) else int (decimal ds))
      in if ds = [] \<or> \<not> in_i64 n then None else Some n)"

section \<open>The token codec\<close>

record TokenCodec =
  tc_secret :: string
  tc_key_id :: string

record Primitives =
  pr_HmacSha256 :: "string \<Rightarrow> string \<Rightarrow> string"
  pr_json_dump :: "json \<Rightarrow> string"
  pr_json_parse :: "string \<Rightarrow> json Result"

definition IsKnownOp :: "string \<Rightarrow> bool" where
  "IsKnownOp op \<longleftrightarrow> op = ''put'' \<or> op = ''get''"

definition kKeyDomain :: string where
  "kKeyDomain = ''fss-transfer-token-v1''"

definition SigningKey :: "Primitives \<Rightarrow> TokenCodec \<Rightarrow> string" where
  "SigningKey pr codec = ToHex (pr_HmacSha256 pr (tc_secret codec) kKeyDomain)"

definition ComputeSignature :: "Primitives \<Rightarrow> TokenCodec \<Rightarrow> string \<Rightarrow> string \<Rightarrow> string" where
  "ComputeSignature pr codec token expires =
     Base64UrlEncode (pr_HmacSha256 pr (SigningKey pr codec) (token @ ''.'' @ expires))"

definition token_payload :: "TokenCodec \<Rightarrow> string \<Rightarrow> TransferToken \<Rightarrow> json" where
  "token_payload codec nonce token =
     (let m = [];
          m = jset ''partition'' (JString (tt_partition token)) m;
          m = jset ''file_id'' (JString (tt_file_id token)) m;
          m = jset ''container'' (JString (tt_container token)) m;
          m = jset ''object_key'' (JString (tt_object_key token)) m;
          m = jset ''zone'' (JString (StorageZoneName (tt_zone token))) m;
          m = jset ''op'' (JString (tt_op token)) m;
          m = jset ''exp'' (JInt (tt_expires_at token)) m;
          m = (if tc_key_id codec = [] then m else jset ''key_id'' (JString (tc_key_id codec)) m);
          m = jset ''nonce'' (JString nonce) m
      in JObject m)"

definition strip_slashes :: "string \<Rightarrow> string" where
  "strip_slashes base = rev (dropWhile (\<lambda>c. c = CHR ''/'') (rev base))"

definition TokenEncode :: "Primitives \<Rightarrow> TokenCodec \<Rightarrow> string \<Rightarrow> TransferToken \<Rightarrow> string \<Rightarrow> string Result" where
  "TokenEncode pr codec nonce token base_url =
     (if tc_secret codec = [] then Err kInvalidArgument msg_token_no_secret
      else if tt_partition token = [] then Err kInvalidArgument msg_tt_partition_empty
      else if tt_container token = [] then Err kInvalidArgument msg_tt_container_empty
      else if tt_object_key token = [] then Err kInvalidArgument msg_tt_key_empty
      else if \<not> IsKnownOp (tt_op token) then Err kInvalidArgument msg_tt_op
      else if tt_expires_at token \<le> 0
      then Err kInvalidArgument msg_tt_exp
      else
        let encoded_token = Base64UrlEncode (pr_json_dump pr (token_payload codec nonce token));
            expires = to_string (tt_expires_at token);
            signature = ComputeSignature pr codec encoded_token expires
        in Ok (strip_slashes base_url @ ''/v1/transfer/'' @ encoded_token @ ''?exp='' @ expires @ ''&sig='' @ signature))"

definition Unauthenticated :: "string \<Rightarrow> 'a Result" where
  "Unauthenticated m = Err kUnauthenticated m"

definition find_string :: "json \<Rightarrow> string \<Rightarrow> string option" where
  "find_string v key = (case jfind v key of Some (JString s) \<Rightarrow> Some s | _ \<Rightarrow> None)"

definition require_string :: "json \<Rightarrow> string \<Rightarrow> string \<Rightarrow> string Result" where
  "require_string v key message =
     (case find_string v key of None \<Rightarrow> Unauthenticated message | Some s \<Rightarrow> Ok s)"

definition check_key_id :: "TokenCodec \<Rightarrow> string option \<Rightarrow> unit Result" where
  "check_key_id codec key_id =
     (if tc_key_id codec = [] then Ok ()
      else (case key_id of
              None \<Rightarrow> Unauthenticated (msg_token_no_key_id @ tc_key_id codec @ msg_close_paren)
            | Some k \<Rightarrow>
                if k \<noteq> tc_key_id codec
                then Unauthenticated (msg_token_key_id_differs @ k @ msg_slash_config @
                       tc_key_id codec @ msg_close_paren)
                else Ok ()))"

definition payload_zone :: "json \<Rightarrow> StorageZone Result" where
  "payload_zone v =
     FSS_TRY (require_string v ''zone'' msg_token_no_zone) (\<lambda>z.
       case ParseStorageZone z of
         None \<Rightarrow> Unauthenticated msg_token_bad_zone
       | Some zone \<Rightarrow> Ok zone)"

definition payload_exp :: "json \<Rightarrow> int Result" where
  "payload_exp v =
     (case jfind v ''exp'' of
        None \<Rightarrow> Unauthenticated msg_token_no_exp
      | Some e \<Rightarrow> if is_number_integer e then Ok (get_int64 e) else Unauthenticated msg_token_no_exp)"

definition check_expiry :: "int \<Rightarrow> string \<Rightarrow> int \<Rightarrow> unit Result" where
  "check_expiry now expires exp =
     (case stoll expires of
        None \<Rightarrow> Unauthenticated msg_token_exp_not_integer
      | Some query_exp \<Rightarrow>
          if query_exp \<noteq> exp then Unauthenticated msg_token_exp_differs
          else if now \<ge> exp then Unauthenticated msg_token_expired
          else Ok ())"

definition decode_payload :: "TokenCodec \<Rightarrow> int \<Rightarrow> string \<Rightarrow> json \<Rightarrow> TransferToken Result" where
  "decode_payload codec now expires v =
     FSS_TRY (require_string v ''partition'' msg_token_no_partition) (\<lambda>part.
     FSS_TRY (require_string v ''container'' msg_token_no_container) (\<lambda>container.
     FSS_TRY (require_string v ''object_key'' msg_token_no_object_key) (\<lambda>object_key.
     FSS_TRY (require_string v ''op'' msg_token_bad_op) (\<lambda>op.
     FSS_TRY (if IsKnownOp op then Ok () else Unauthenticated msg_token_bad_op) (\<lambda>_.
     let file_id = (case find_string v ''file_id'' of None \<Rightarrow> [] | Some s \<Rightarrow> s);
         key_id = find_string v ''key_id'' in
     FSS_TRY (check_key_id codec key_id) (\<lambda>_.
     FSS_TRY (payload_zone v) (\<lambda>zone.
     FSS_TRY (payload_exp v) (\<lambda>exp.
     FSS_TRY (check_expiry now expires exp) (\<lambda>_.
       Ok \<lparr>tt_partition = part, tt_file_id = file_id, tt_container = container, tt_object_key = object_key,
           tt_zone = zone, tt_op = op, tt_expires_at = exp,
           tt_key_id = (case key_id of None \<Rightarrow> [] | Some k \<Rightarrow> k)\<rparr>)))))))))"

definition TokenDecode ::
  "Primitives \<Rightarrow> TokenCodec \<Rightarrow> int \<Rightarrow> string \<Rightarrow> string \<Rightarrow> string \<Rightarrow> TransferToken Result" where
  "TokenDecode pr codec now token expires signature =
     (if tc_secret codec = [] then Err kInvalidArgument msg_token_no_secret
      else if token = [] then Unauthenticated msg_token_empty
      else if expires = [] \<or> signature = [] then Unauthenticated msg_token_no_exp_sig
      else if \<not> ConstantTimeEquals (ComputeSignature pr codec token expires) signature
      then Unauthenticated msg_token_bad_signature
      else (case Base64UrlDecode token of
              None \<Rightarrow> Unauthenticated msg_token_bad_base64
            | Some raw \<Rightarrow>
                (case pr_json_parse pr raw of
                   Inl _ \<Rightarrow> Unauthenticated msg_token_bad_json
                 | Inr v \<Rightarrow>
                     if \<not> is_object v then Unauthenticated msg_token_bad_json
                     else decode_payload codec now expires v)))"

section \<open>The transfer kernel\<close>

record TransferRequest =
  tr_token :: string
  tr_expires :: string
  tr_signature :: string
  tr_op :: string
  tr_partition :: string

definition ObjectRefFromToken :: "TransferToken \<Rightarrow> ObjectRef" where
  "ObjectRefFromToken token =
     \<lparr>or_container = tt_container token, or_key = tt_object_key token, or_version_id = None\<rparr>"

definition TransferResolve ::
  "Primitives \<Rightarrow> TokenCodec \<Rightarrow> int \<Rightarrow> TransferRequest \<Rightarrow> string \<Rightarrow> TransferToken Result" where
  "TransferResolve pr codec now request expected_op =
     FSS_TRY (TokenDecode pr codec now (tr_token request) (tr_expires request) (tr_signature request)) (\<lambda>token.
       if tt_op token \<noteq> expected_op
       then Err kPermissionDenied (msg_token_op_mismatch @ expected_op @
              msg_comma_actual @ tt_op token @ msg_close_paren)
       else if tr_partition request \<noteq> [] \<and> tr_partition request \<noteq> tt_partition token
       then Err kPermissionDenied msg_token_partition_mismatch
       else if tt_container token = [] \<or> tt_object_key token = []
       then Unauthenticated msg_token_no_target
       else Ok token)"

text \<open>The store a token's partition and zone resolve to is the factory's choice; the kernel is
  stated on the store it returned.\<close>

definition TransferPut ::
  "Primitives \<Rightarrow> TokenCodec \<Rightarrow> (string \<Rightarrow> StorageZone \<Rightarrow> unit Result) \<Rightarrow> (string \<Rightarrow> string) \<Rightarrow> int \<Rightarrow>
   BlobState \<Rightarrow> TransferRequest \<Rightarrow> (nat \<Rightarrow> string Result) \<Rightarrow> BlobState \<times> unit Result" where
  "TransferPut pr codec ForPartition sha256_hex now s request body =
     FSS_TRY_ST (s, TransferResolve pr codec now request ''put'') (\<lambda>s token.
     FSS_TRY_ST (s, ForPartition (tt_partition token) (tt_zone token)) (\<lambda>s _.
     FSS_TRY_ST (BlobEnsureContainer s (or_container (ObjectRefFromToken token))) (\<lambda>s _.
       BlobPut sha256_hex now s (ObjectRefFromToken token) body default_PutOptions)))"

definition TransferStat ::
  "Primitives \<Rightarrow> TokenCodec \<Rightarrow> (string \<Rightarrow> StorageZone \<Rightarrow> unit Result) \<Rightarrow> int \<Rightarrow>
   BlobState \<Rightarrow> TransferRequest \<Rightarrow> BlobState \<times> ObjectStat Result" where
  "TransferStat pr codec ForPartition now s request =
     FSS_TRY_ST (s, TransferResolve pr codec now request ''get'') (\<lambda>s token.
     FSS_TRY_ST (s, ForPartition (tt_partition token) (tt_zone token)) (\<lambda>s _.
     FSS_TRY_ST (BlobStat s (ObjectRefFromToken token)) (\<lambda>s stat.
       if \<not> os_exists stat
       then (s, Err kNotFound (msg_transfer_target_missing @ tt_object_key token))
       else (s, Ok stat))))"

text \<open>Reading into a sink, which may refuse the bytes or fail to close: the store hands the object, or the part of it that
  is asked for, to the sink in one piece.\<close>

definition BlobGetTo ::
  "(string \<Rightarrow> 'k \<Rightarrow> 'k \<times> unit Result) \<Rightarrow> ('k \<Rightarrow> 'k \<times> unit Result) \<Rightarrow> BlobState \<Rightarrow> ObjectRef \<Rightarrow> ByteRange \<Rightarrow> 'k \<Rightarrow>
   (BlobState \<times> 'k) \<times> unit Result" where
  "BlobGetTo wr close s ref rg k =
     (case BlobGet s ref rg of
        (s, Inl e) \<Rightarrow> ((s, k), Inl e)
      | (s, Inr d) \<Rightarrow> (case FSS_TRY_ST (wr d k) (\<lambda>k _. close k) of (k, r) \<Rightarrow> ((s, k), r)))"

definition TransferGet ::
  "Primitives \<Rightarrow> TokenCodec \<Rightarrow> (string \<Rightarrow> StorageZone \<Rightarrow> unit Result) \<Rightarrow>
   (string \<Rightarrow> 'k \<Rightarrow> 'k \<times> unit Result) \<Rightarrow> ('k \<Rightarrow> 'k \<times> unit Result) \<Rightarrow> int \<Rightarrow>
   BlobState \<Rightarrow> TransferRequest \<Rightarrow> ByteRange \<Rightarrow> 'k \<Rightarrow> (BlobState \<times> 'k) \<times> unit Result" where
  "TransferGet pr codec ForPartition wr close now s request rg k =
     FSS_TRY_ST ((s, k), TransferResolve pr codec now request ''get'') (\<lambda>(s, k) token.
     FSS_TRY_ST ((s, k), ForPartition (tt_partition token) (tt_zone token)) (\<lambda>(s, k) _.
       BlobGetTo wr close s (ObjectRefFromToken token) rg k))"

section \<open>What a decoded token guarantees\<close>

lemma require_string_Ok: "require_string v k m = Ok s \<longleftrightarrow> find_string v k = Some s"
  by (auto simp: require_string_def Unauthenticated_def split: option.splits)

lemma check_key_id_Ok: "check_key_id codec k = Ok u \<longleftrightarrow> tc_key_id codec = [] \<or> k = Some (tc_key_id codec)"
  by (auto simp: check_key_id_def Unauthenticated_def split: option.splits)

lemma check_expiry_Ok: "check_expiry now expires e = Ok u \<longleftrightarrow> stoll expires = Some e \<and> now < e"
  by (auto simp: check_expiry_def Unauthenticated_def split: option.splits)

lemma payload_zone_Ok:
  "payload_zone v = Ok z \<longleftrightarrow> (\<exists>t. find_string v ''zone'' = Some t \<and> ParseStorageZone t = Some z)"
  by (auto simp: payload_zone_def FSS_TRY_eq_Ok require_string_Ok Unauthenticated_def split: option.splits)

lemma payload_exp_Ok:
  "payload_exp v = Ok e \<longleftrightarrow> (\<exists>j. jfind v ''exp'' = Some j \<and> is_number_integer j \<and> e = get_int64 j)"
  by (auto simp: payload_exp_def Unauthenticated_def split: option.splits if_splits)

lemma if_Ok: "(if b then Ok x else Unauthenticated m) = Ok y \<longleftrightarrow> b \<and> x = y"
  by (simp add: Unauthenticated_def)

lemmas decode_Ok_simps = FSS_TRY_eq_Ok require_string_Ok check_key_id_Ok check_expiry_Ok payload_zone_Ok
  payload_exp_Ok if_Ok

lemma decode_payload_Ok:
  "decode_payload codec now expires v = Ok tok \<longleftrightarrow>
     find_string v ''partition'' = Some (tt_partition tok) \<and> find_string v ''container'' = Some (tt_container tok) \<and>
     find_string v ''object_key'' = Some (tt_object_key tok) \<and> find_string v ''op'' = Some (tt_op tok) \<and>
     IsKnownOp (tt_op tok) \<and> tt_file_id tok = (case find_string v ''file_id'' of None \<Rightarrow> [] | Some s \<Rightarrow> s) \<and>
     tt_key_id tok = (case find_string v ''key_id'' of None \<Rightarrow> [] | Some k \<Rightarrow> k) \<and>
     (tc_key_id codec = [] \<or> find_string v ''key_id'' = Some (tc_key_id codec)) \<and>
     payload_zone v = Ok (tt_zone tok) \<and> payload_exp v = Ok (tt_expires_at tok) \<and>
     stoll expires = Some (tt_expires_at tok) \<and> now < tt_expires_at tok"
  unfolding decode_payload_def Let_def
  by (cases tok) (simp only: decode_Ok_simps, auto)

lemma TokenDecode_Ok:
  "TokenDecode pr codec now token expires signature = Ok tok \<longleftrightarrow>
     tc_secret codec \<noteq> [] \<and> token \<noteq> [] \<and> expires \<noteq> [] \<and> signature \<noteq> [] \<and>
     signature = ComputeSignature pr codec token expires \<and>
     (\<exists>raw v. Base64UrlDecode token = Some raw \<and> pr_json_parse pr raw = Inr v \<and> is_object v \<and>
        decode_payload codec now expires v = Ok tok)"
  by (auto simp: TokenDecode_def ConstantTimeEquals_iff Unauthenticated_def split: option.splits sum.splits)

lemma TransferResolve_Ok:
  "TransferResolve pr codec now request op = Ok tok \<longleftrightarrow>
     TokenDecode pr codec now (tr_token request) (tr_expires request) (tr_signature request) = Ok tok \<and>
     tt_op tok = op \<and> (tr_partition request = [] \<or> tr_partition request = tt_partition tok) \<and>
     tt_container tok \<noteq> [] \<and> tt_object_key tok \<noteq> []"
  by (auto simp: TransferResolve_def FSS_TRY_eq_Ok Unauthenticated_def split: if_splits)

section \<open>Encoding and decoding\<close>

text \<open>What parsing the text form of a value gives: the library reads a non-negative integer as an
  unsigned one.\<close>

fun as_parsed :: "json \<Rightarrow> json" where
  "as_parsed (JInt i) = (if 0 \<le> i then JUInt (nat i) else JInt i)"
| "as_parsed (JArray xs) = JArray (map as_parsed xs)"
| "as_parsed (JObject m) = JObject (map (\<lambda>(k, v). (k, as_parsed v)) m)"
| "as_parsed v = v"

lemma jfind_as_parsed: "jfind (as_parsed (JObject m)) k = map_option as_parsed (map_of m k)"
  by (simp add: map_of_map)

lemma find_string_as_parsed: "find_string (as_parsed (JObject m)) k = find_string (JObject m) k"
proof -
  have "(case map_option as_parsed x of Some (JString s) \<Rightarrow> Some s | _ \<Rightarrow> None) =
      (case x of Some (JString s) \<Rightarrow> Some s | _ \<Rightarrow> None)" for x
    by (cases x; cases "the x") simp_all
  then show ?thesis by (simp add: find_string_def jfind_as_parsed del: as_parsed.simps)
qed

lemma stoll_to_string: "0 < e \<Longrightarrow> in_i64 e \<Longrightarrow> stoll (to_string e) = Some e"
proof -
  assume e: "0 < e" "in_i64 e"
  let ?t = "nat_to_string (nat e)"
  have d: "\<And>c. c \<in> set ?t \<Longrightarrow> isdigit c" by (rule nat_to_string_digits)
  have "isdigit (hd ?t)" by (rule d) simp
  then have h: "\<not> isspace (hd ?t)" "hd ?t \<noteq> CHR ''-''" "hd ?t \<noteq> CHR ''+''"
    by (auto simp: isspace_def isdigit_def)
  obtain a r where t: "?t = a # r" by (cases ?t) auto
  have tw: "takeWhile isdigit ?t = ?t" using d by simp
  show ?thesis
    using e h tw t decimal_nat_to_string [of "nat e"] by (simp add: stoll_def to_string_def Let_def)
qed

lemma token_payload_find:
  "token_payload codec nonce token = JObject m \<Longrightarrow>
     map_of m ''partition'' = Some (JString (tt_partition token)) \<and>
     map_of m ''file_id'' = Some (JString (tt_file_id token)) \<and>
     map_of m ''container'' = Some (JString (tt_container token)) \<and>
     map_of m ''object_key'' = Some (JString (tt_object_key token)) \<and>
     map_of m ''zone'' = Some (JString (StorageZoneName (tt_zone token))) \<and>
     map_of m ''op'' = Some (JString (tt_op token)) \<and>
     map_of m ''exp'' = Some (JInt (tt_expires_at token)) \<and>
     map_of m ''key_id'' = (if tc_key_id codec = [] then None else Some (JString (tc_key_id codec)))"
  by (auto simp: token_payload_def jset_def Let_def)

text \<open>C28: a token the service signs is one it accepts. The URL is the base
  without trailing slashes, the token, its expiry and its signature; decoding those three before
  the expiry gives the token back (with the configured key id bound to it), and from the expiry
  on it is refused as unauthenticated. The hypotheses on the primitives are that JSON text parses
  back to the value it came from and that a digest is not empty.\<close>

theorem transfer_token_roundtrip:
  assumes enc: "TokenEncode pr codec nonce token base = Ok url"
    and json: "pr_json_parse pr (pr_json_dump pr (token_payload codec nonce token)) =
        Inr (as_parsed (token_payload codec nonce token))"
    and dumped: "pr_json_dump pr (token_payload codec nonce token) \<noteq> []"
    and mac: "\<And>k d. pr_HmacSha256 pr k d \<noteq> []"
    and exp: "in_i64 (tt_expires_at token)"
  shows "\<exists>t sig. url = strip_slashes base @ ''/v1/transfer/'' @ t @ ''?exp='' @ to_string (tt_expires_at token) @ ''&sig='' @ sig \<and>
    (\<forall>now < tt_expires_at token.
       TokenDecode pr codec now t (to_string (tt_expires_at token)) sig = Ok (token\<lparr>tt_key_id := tc_key_id codec\<rparr>)) \<and>
    (\<forall>now \<ge> tt_expires_at token.
       TokenDecode pr codec now t (to_string (tt_expires_at token)) sig = Err kUnauthenticated msg_token_expired)"
proof -
  let ?p = "token_payload codec nonce token" and ?e = "to_string (tt_expires_at token)"
  let ?t = "Base64UrlEncode (pr_json_dump pr ?p)"
  let ?sig = "ComputeSignature pr codec ?t ?e"
  from enc have c: "tc_secret codec \<noteq> []" "IsKnownOp (tt_op token)" "0 < tt_expires_at token"
    and url: "url = strip_slashes base @ ''/v1/transfer/'' @ ?t @ ''?exp='' @ ?e @ ''&sig='' @ ?sig"
    by (auto simp: TokenEncode_def Let_def split: if_splits)
  have b64_ne: "Base64UrlEncode d \<noteq> []" if "d \<noteq> []" for d
    using that base64_text_empty by blast
  obtain m where m: "?p = JObject m" by (simp add: token_payload_def Let_def)
  note f = token_payload_find [OF m]
  have fs: "find_string (as_parsed ?p) k = (case map_of m k of Some (JString s) \<Rightarrow> Some s | _ \<Rightarrow> None)" for k
    unfolding m find_string_as_parsed by (simp add: find_string_def)
  have e: "jfind (as_parsed ?p) ''exp'' = Some (JUInt (nat (tt_expires_at token)))"
    unfolding m jfind_as_parsed using f c(3) by simp
  have zone: "payload_zone (as_parsed ?p) = Ok (tt_zone token)"
    using f storage_names_roundtrip by (simp add: payload_zone_Ok fs)
  have pe: "payload_exp (as_parsed ?p) = Ok (tt_expires_at token)"
    using e c(3) exp by (simp add: payload_exp_Ok is_number_integer_def get_int64_def wrap_i64_id)
  have st: "stoll ?e = Some (tt_expires_at token)" by (rule stoll_to_string [OF c(3) exp])
  have dec: "TokenDecode pr codec now ?t ?e ?sig = decode_payload codec now ?e (as_parsed ?p)" for now
    using c(1) b64_ne [OF dumped] b64_ne [OF mac] json m base64_decode_url
    by (auto simp: TokenDecode_def ConstantTimeEquals_iff to_string_def ComputeSignature_def)
  have "decode_payload codec now ?e (as_parsed ?p) = Ok (token\<lparr>tt_key_id := tc_key_id codec\<rparr>)"
    if "now < tt_expires_at token" for now
    using that f c(2) zone pe st by (auto simp: decode_payload_Ok fs)
  moreover have "decode_payload codec now ?e (as_parsed ?p) = Err kUnauthenticated msg_token_expired"
    if "tt_expires_at token \<le> now" for now
    using that f c(2) zone pe st
    by (simp add: decode_payload_def Let_def require_string_def fs check_key_id_def check_expiry_def Unauthenticated_def)
  ultimately show ?thesis using url dec by (intro exI [of _ ?t] exI [of _ ?sig] conjI allI impI) simp_all
qed

definition sample_codec :: TokenCodec where
  "sample_codec = \<lparr>tc_secret = ''s'', tc_key_id = ''k1''\<rparr>"

definition sample_token :: TransferToken where
  "sample_token = \<lparr>tt_partition = ''p'', tt_file_id = ''f'', tt_container = ''c'', tt_object_key = ''k'',
     tt_zone = kStaging, tt_op = ''put'', tt_expires_at = 100, tt_key_id = []\<rparr>"

text \<open>A stand-in for the primitives: one message authentication code and one document.\<close>

definition sample_primitives :: Primitives where
  "sample_primitives = \<lparr>pr_HmacSha256 = (\<lambda>key data. take 32 (key @ data @ ''.'')), pr_json_dump = (\<lambda>_. ''{}''),
     pr_json_parse = (\<lambda>t. if t = ''{}'' then Inr (as_parsed (token_payload sample_codec ''00'' sample_token))
                          else Err kInvalidArgument [])\<rparr>"

theorem transfer_token_roundtrip_witness:
  "\<exists>t sig. TokenEncode sample_primitives sample_codec ''00'' sample_token ''http://h/'' =
       Ok (''http://h/v1/transfer/'' @ t @ ''?exp=100&sig='' @ sig) \<and>
     TokenDecode sample_primitives sample_codec 99 t ''100'' sig = Ok (sample_token\<lparr>tt_key_id := ''k1''\<rparr>) \<and>
     TokenDecode sample_primitives sample_codec 100 t ''100'' sig = Err kUnauthenticated msg_token_expired"
proof -
  have e: "TokenEncode sample_primitives sample_codec ''00'' sample_token ''http://h/'' =
      Ok (strip_slashes ''http://h/'' @ ''/v1/transfer/'' @ Base64UrlEncode ''{}'' @ ''?exp='' @ to_string 100 @ ''&sig='' @
          ComputeSignature sample_primitives sample_codec (Base64UrlEncode ''{}'') (to_string 100))"
    by (simp add: TokenEncode_def sample_codec_def sample_token_def IsKnownOp_def sample_primitives_def Let_def)
  have h: "to_string 100 = ''100''" "strip_slashes ''http://h/'' = ''http://h''" by code_simp+
  have x: "tt_expires_at sample_token = 100" "tc_key_id sample_codec = ''k1''"
    by (simp_all add: sample_token_def sample_codec_def)
  have p: "pr_json_parse sample_primitives (pr_json_dump sample_primitives (token_payload sample_codec ''00'' sample_token)) =
      Inr (as_parsed (token_payload sample_codec ''00'' sample_token))"
    "pr_json_dump sample_primitives (token_payload sample_codec ''00'' sample_token) \<noteq> []"
    "in_i64 (tt_expires_at sample_token)"
    by (simp_all add: sample_primitives_def sample_token_def in_i64_def i64_max_def)
  have m: "\<And>k d. pr_HmacSha256 sample_primitives k d \<noteq> []" by (simp add: sample_primitives_def)
  show ?thesis
    using transfer_token_roundtrip [OF e p(1,2) m p(3)] e unfolding x h by (elim exE conjE) (intro exI conjI, auto)
qed

section \<open>Confinement\<close>

text \<open>What a request may do: its signature is the service's own over the token and the expiry received, the
  signed document names the operation, the container and the key, is bound to the partition the request states, has
  not expired, and its partition and zone have a store.\<close>

definition signed_access ::
  "Primitives \<Rightarrow> TokenCodec \<Rightarrow> (string \<Rightarrow> StorageZone \<Rightarrow> unit Result) \<Rightarrow> int \<Rightarrow> TransferRequest \<Rightarrow> string \<Rightarrow> string \<Rightarrow> string \<Rightarrow> bool"
where
  "signed_access pr codec factory now request op container key \<longleftrightarrow>
     tr_signature request = Base64UrlEncode (pr_HmacSha256 pr
       (ToHex (pr_HmacSha256 pr (tc_secret codec) ''fss-transfer-token-v1'')) (tr_token request @ ''.'' @ tr_expires request)) \<and>
     container \<noteq> [] \<and> key \<noteq> [] \<and>
     (\<exists>raw m part zone_name zone x.
        Base64UrlDecode (tr_token request) = Some raw \<and> pr_json_parse pr raw = Ok (JObject m) \<and>
        map_of m ''op'' = Some (JString op) \<and> map_of m ''container'' = Some (JString container) \<and>
        map_of m ''object_key'' = Some (JString key) \<and> map_of m ''partition'' = Some (JString part) \<and>
        (tr_partition request = [] \<or> tr_partition request = part) \<and>
        map_of m ''zone'' = Some (JString zone_name) \<and> ParseStorageZone zone_name = Some zone \<and> factory part zone = Ok () \<and>
        (tc_key_id codec = [] \<or> map_of m ''key_id'' = Some (JString (tc_key_id codec))) \<and>
        map_of m ''exp'' = Some x \<and> is_number_integer x \<and> stoll (tr_expires request) = Some (get_int64 x) \<and> now < get_int64 x)"

lemma find_string_object: "find_string (JObject m) k = Some t \<longleftrightarrow> map_of m k = Some (JString t)"
  by (auto simp: find_string_def split: option.splits json.splits)

lemma resolved_access:
  assumes "TransferResolve pr codec now request op = Ok tok" "factory (tt_partition tok) (tt_zone tok) = Ok u"
  shows "signed_access pr codec factory now request op (tt_container tok) (tt_object_key tok)"
proof -
  from assms(1) obtain raw v where d: "Base64UrlDecode (tr_token request) = Some raw" "pr_json_parse pr raw = Inr v" "is_object v"
      "decode_payload codec now (tr_expires request) v = Ok tok"
      "tr_signature request = ComputeSignature pr codec (tr_token request) (tr_expires request)"
    and t: "tt_op tok = op" "tr_partition request = [] \<or> tr_partition request = tt_partition tok" "tt_container tok \<noteq> []"
      "tt_object_key tok \<noteq> []"
    unfolding TransferResolve_Ok TokenDecode_Ok by blast
  obtain m where v: "v = JObject m" using d(3) by (cases v) (auto simp: is_object_def)
  from d(4) obtain z x where p: "map_of m ''partition'' = Some (JString (tt_partition tok))"
      "map_of m ''container'' = Some (JString (tt_container tok))" "map_of m ''object_key'' = Some (JString (tt_object_key tok))"
      "map_of m ''op'' = Some (JString op)" "tc_key_id codec = [] \<or> map_of m ''key_id'' = Some (JString (tc_key_id codec))"
      "map_of m ''zone'' = Some (JString z)" "ParseStorageZone z = Some (tt_zone tok)"
      "map_of m ''exp'' = Some x" "is_number_integer x" "get_int64 x = tt_expires_at tok"
      "stoll (tr_expires request) = Some (tt_expires_at tok)" "now < tt_expires_at tok"
    unfolding decode_payload_Ok v payload_zone_Ok payload_exp_Ok find_string_object using t(1) by auto
  show ?thesis
    unfolding signed_access_def
    using d(1,2,5) t(2-4) p assms(2) v by (auto simp: ComputeSignature_def SigningKey_def kKeyDomain_def Ok_def)
qed

lemma put_confined:
  assumes "TransferPut pr codec factory sha now s request body = (s1, r)"
  shows "(\<exists>e. r = Inl e) \<and> blob_at s1 = blob_at s \<or>
      (\<exists>container key data. r = Ok () \<and> signed_access pr codec factory now request ''put'' container key \<and>
        body kMaxObjectBytes = Ok data \<and> (bs_fault s = no_faults \<longrightarrow> blob_content s1 container key = Some data) \<and>
        (\<forall>c k. (c, k) \<noteq> (container, key) \<longrightarrow> blob_at s1 c k = blob_at s c k))"
  using assms unfolding TransferPut_def
proof (cases rule: FSS_TRY_ST_E)
  case (go s' tok)
  then have res: "TransferResolve pr codec now request ''put'' = Ok tok" "s' = s" by simp_all
  from go(2) show ?thesis
  proof (cases rule: FSS_TRY_ST_E)
    case (go s' u)
    then have access: "signed_access pr codec factory now request ''put'' (tt_container tok) (tt_object_key tok)" and same: "s' = s"
      using resolved_access [where factory = factory, OF res(1)] res(2) by auto
    from go(2) show ?thesis unfolding same
    proof (cases rule: FSS_TRY_ST_E)
      case (go s' u)
      note e = BlobEnsureContainer_effect [OF go(1)]
      from BlobPut_effect [OF go(2)] show ?thesis
      proof (elim disjE exE conjE)
        fix data assume p: "r = Ok ()" "put_outcome sha s' (ObjectRefFromToken tok) body default_PutOptions = Ok data"
          "\<forall>c k. blob_at s1 c k = (if c = or_container (ObjectRefFromToken tok) \<and> k = or_key (ObjectRefFromToken tok)
             then Some (stored_object sha now default_PutOptions (stored_data (bs_fault s') data)) else blob_at s' c k)"
        have "body kMaxObjectBytes = Ok data" using p(2) by (simp add: put_outcome_Ok)
        moreover have "bs_fault s' = no_faults" if "bs_fault s = no_faults"
        proof -
          have "healthy opEnsureContainer s" using that by (simp add: healthy_def no_faults_def)
          then show ?thesis using e that by simp
        qed
        moreover have "stored_data no_faults data = data" by (simp add: stored_data_def no_faults_def)
        ultimately show ?thesis using access p(1,3) e
          by (intro disjI2 exI [of _ "tt_container tok"] exI [of _ "tt_object_key tok"] exI [of _ data])
            (auto simp: ObjectRefFromToken_def blob_content_def stored_object_def)
      qed (use e in auto)
    qed (auto dest: BlobEnsureContainer_effect)
  qed (use res in auto)
qed simp_all

lemma get_confined:
  assumes "TransferGet pr codec factory wr close now s request rg k = ((s2, k2), q)"
  shows "blob_at s2 = blob_at s \<and>
    ((\<exists>e. q = Inl e) \<and> k2 = k \<or>
      (\<exists>container key obj. signed_access pr codec factory now request ''get'' container key \<and> blob_at s container key = Some obj \<and>
        (k2, q) = FSS_TRY_ST (wr (if br_length rg = 0 then drop (br_offset rg) (bo_data obj)
                                  else take (br_length rg) (drop (br_offset rg) (bo_data obj))) k) (\<lambda>k _. close k)))"
proof (cases "\<exists>tok. TransferResolve pr codec now request ''get'' = Ok tok \<and> factory (tt_partition tok) (tt_zone tok) = Ok ()")
  case False
  show ?thesis
  proof (cases "TransferResolve pr codec now request ''get''")
    case (Inl e)
    then show ?thesis using assms by (auto simp: TransferGet_def)
  next
    case (Inr tok)
    then obtain e where "factory (tt_partition tok) (tt_zone tok) = Inl e"
      using False by (cases "factory (tt_partition tok) (tt_zone tok)") (auto simp: Ok_def)
    then have "TransferGet pr codec factory wr close now s request rg k = ((s, k), Inl e)" using Inr by (simp add: TransferGet_def)
    then show ?thesis using assms by simp
  qed
next
  case True
  then obtain tok where tok: "TransferResolve pr codec now request ''get'' = Ok tok" "factory (tt_partition tok) (tt_zone tok) = Ok ()" by blast
  obtain s' d where got: "BlobGet s (ObjectRefFromToken tok) rg = (s', d)" by fastforce
  have run: "TransferGet pr codec factory wr close now s request rg k = BlobGetTo wr close s (ObjectRefFromToken tok) rg k"
    using tok by (simp add: TransferGet_def Ok_def)
  have at: "blob_at s' = blob_at s \<and> (\<forall>t. d = Inr t \<longrightarrow> (\<exists>obj. blob_at s (tt_container tok) (tt_object_key tok) = Some obj \<and>
      t = (if br_length rg = 0 then drop (br_offset rg) (bo_data obj) else take (br_length rg) (drop (br_offset rg) (bo_data obj)))))"
    using got unfolding BlobGet_eq
    by (elim FSS_TRY_ST_E) (auto simp: ObjectRefFromToken_def FSS_TRY_def Ok_def Err_def object_missing_def dest: BeginOp_at
        split: sum.splits option.splits if_splits)
  show ?thesis
  proof (cases d)
    case (Inl e)
    then have same: "s2 = s'" "k2 = k" "q = Inl e" using assms unfolding run by (simp_all add: BlobGetTo_def got)
    show ?thesis unfolding same using at by blast
  next
    case (Inr t)
    then obtain obj where obj: "blob_at s (tt_container tok) (tt_object_key tok) = Some obj"
      "t = (if br_length rg = 0 then drop (br_offset rg) (bo_data obj) else take (br_length rg) (drop (br_offset rg) (bo_data obj)))"
      using at by blast
    have "s2 = s'" "(k2, q) = FSS_TRY_ST (wr t k) (\<lambda>k _. close k)"
      using assms unfolding run by (auto simp: BlobGetTo_def got Inr split: prod.splits)
    then show ?thesis using at obj resolved_access [where factory = factory, OF tok] by blast
  qed
qed

lemma stat_confined:
  assumes "TransferStat pr codec factory now s request = (s3, st)"
  shows "blob_at s3 = blob_at s \<and>
    (\<forall>x. st = Ok x \<longrightarrow>
      (\<exists>container key obj. signed_access pr codec factory now request ''get'' container key \<and> blob_at s container key = Some obj \<and>
        os_exists x \<and> os_size x = int (length (bo_data obj))))"
  using assms unfolding TransferStat_def
proof (cases rule: FSS_TRY_ST_E)
  case (go s' tok)
  then have res: "TransferResolve pr codec now request ''get'' = Ok tok" "s' = s" by simp_all
  from go(2) show ?thesis
  proof (cases rule: FSS_TRY_ST_E)
    case (go s' u)
    then have access: "signed_access pr codec factory now request ''get'' (tt_container tok) (tt_object_key tok)" and same: "s' = s"
      using resolved_access [where factory = factory, OF res(1)] res(2) by auto
    obtain s' x where got: "BlobStat s (ObjectRefFromToken tok) = (s', x)" by fastforce
    have at: "blob_at s' = blob_at s \<and> (\<forall>y. x = Inr y \<and> os_exists y \<longrightarrow> (\<exists>obj. blob_at s (tt_container tok) (tt_object_key tok) = Some obj \<and>
        os_size y = int (length (bo_data obj))))"
      using got unfolding BlobStat_def
      by (elim FSS_TRY_ST_E) (auto simp: ObjectRefFromToken_def find_object_at missing_stat_def object_stat_def Ok_def dest: BeginOp_at
          elim!: FSS_TRY_ST_E split: option.splits if_splits)
    show ?thesis using go(2) at access unfolding same got by (cases x) (auto simp: Ok_def split: if_splits)
  qed (use res in auto)
qed simp_all

text \<open>C5: whatever a request carries, the transfer kernel touches at most the one object its signed
  document names, for the operation, the partition and the time it names. An upload either fails without changing any
  object, or stores exactly the body under the named container and key and changes nothing else. A download changes no
  object and either fails without a byte reaching the sink, or hands the sink the requested part of the named object and returns the
  sink's own result. The stat that goes before a download answers with the size of the named object.\<close>

theorem transfer_confined:
  assumes put: "TransferPut pr codec factory sha now s request body = (s1, r)"
    and get: "TransferGet pr codec factory wr close now s request rg k = ((s2, k2), q)"
    and stat: "TransferStat pr codec factory now s request = (s3, st)"
  shows "((\<exists>e. r = Inl e) \<and> blob_at s1 = blob_at s \<or>
      (\<exists>container key data. r = Ok () \<and> signed_access pr codec factory now request ''put'' container key \<and>
        body kMaxObjectBytes = Ok data \<and> (bs_fault s = no_faults \<longrightarrow> blob_content s1 container key = Some data) \<and>
        (\<forall>c k. (c, k) \<noteq> (container, key) \<longrightarrow> blob_at s1 c k = blob_at s c k))) \<and>
    blob_at s2 = blob_at s \<and>
    ((\<exists>e. q = Inl e) \<and> k2 = k \<or>
      (\<exists>container key obj. signed_access pr codec factory now request ''get'' container key \<and> blob_at s container key = Some obj \<and>
        (k2, q) = FSS_TRY_ST (wr (if br_length rg = 0 then drop (br_offset rg) (bo_data obj)
                                  else take (br_length rg) (drop (br_offset rg) (bo_data obj))) k) (\<lambda>k _. close k))) \<and>
    blob_at s3 = blob_at s \<and>
    (\<forall>x. st = Ok x \<longrightarrow>
      (\<exists>container key obj. signed_access pr codec factory now request ''get'' container key \<and> blob_at s container key = Some obj \<and>
        os_exists x \<and> os_size x = int (length (bo_data obj))))"
proof (intro conjI)
  show "(\<exists>e. r = Inl e) \<and> blob_at s1 = blob_at s \<or>
      (\<exists>container key data. r = Ok () \<and> signed_access pr codec factory now request ''put'' container key \<and>
        body kMaxObjectBytes = Ok data \<and> (bs_fault s = no_faults \<longrightarrow> blob_content s1 container key = Some data) \<and>
        (\<forall>c k. (c, k) \<noteq> (container, key) \<longrightarrow> blob_at s1 c k = blob_at s c k))"
    by (rule put_confined [OF put])
  show "blob_at s2 = blob_at s"
    "(\<exists>e. q = Inl e) \<and> k2 = k \<or>
      (\<exists>container key obj. signed_access pr codec factory now request ''get'' container key \<and> blob_at s container key = Some obj \<and>
        (k2, q) = FSS_TRY_ST (wr (if br_length rg = 0 then drop (br_offset rg) (bo_data obj)
                                  else take (br_length rg) (drop (br_offset rg) (bo_data obj))) k) (\<lambda>k _. close k))"
    using get_confined [OF get] by blast+
  show "blob_at s3 = blob_at s"
    "\<forall>x. st = Ok x \<longrightarrow>
      (\<exists>container key obj. signed_access pr codec factory now request ''get'' container key \<and> blob_at s container key = Some obj \<and>
        os_exists x \<and> os_size x = int (length (bo_data obj)))"
    using stat_confined [OF stat] by blast+
qed

definition sample_request :: TransferRequest where
  "sample_request = \<lparr>tr_token = Base64UrlEncode ''{}'', tr_expires = ''100'',
     tr_signature = ComputeSignature sample_primitives sample_codec (Base64UrlEncode ''{}'') ''100'',
     tr_op = ''put'', tr_partition = ''p''\<rparr>"

theorem transfer_confined_witness:
  "\<exists>s1. TransferPut sample_primitives sample_codec (\<lambda>_ _. Ok ()) id 7 sample_store sample_request (\<lambda>_. Ok ''abc'') = (s1, Ok ()) \<and>
     blob_content s1 ''c'' ''k'' = Some ''abc'' \<and> blob_at s1 ''c'' ''other'' = None"
proof -
  let ?factory = "\<lambda>_ _. Ok () :: unit Result"
  let ?put = "TransferPut sample_primitives sample_codec ?factory id 7 sample_store sample_request (\<lambda>_. Ok ''abc'')"
  let ?get = "TransferGet sample_primitives sample_codec ?factory (\<lambda>d k. (k @ d, Ok ())) (\<lambda>k. (k, Ok ())) 7 sample_store sample_request whole_object []"
  obtain s1 r where put: "?put = (s1, r)" by fastforce
  obtain s2 k2 q where get: "?get = ((s2, k2), q)" by (metis prod.exhaust)
  obtain s3 st where stat: "TransferStat sample_primitives sample_codec ?factory 7 sample_store sample_request = (s3, st)" by fastforce
  have "snd ?put = Ok ()" by code_simp
  then have r: "r = Ok ()" by (simp add: put)
  have doc: "Base64UrlDecode (tr_token sample_request) = Some ''{}''" by code_simp
  have "pr_json_parse sample_primitives ''{}'' = Inr (as_parsed (token_payload sample_codec ''00'' sample_token))"
    by (simp add: sample_primitives_def)
  moreover have "jfind (as_parsed (token_payload sample_codec ''00'' sample_token)) ''container'' = Some (JString ''c'')"
    "jfind (as_parsed (token_payload sample_codec ''00'' sample_token)) ''object_key'' = Some (JString ''k'')" by code_simp+
  ultimately have named: "c = ''c'' \<and> k = ''k''" if "signed_access sample_primitives sample_codec ?factory 7 sample_request op c k" for op c k
    using that doc by (auto simp: signed_access_def Ok_def)
  have none: "blob_at sample_store ''c'' ''other'' = None" by code_simp
  have f: "bs_fault sample_store = no_faults" by code_simp
  from transfer_confined [OF put get stat, THEN conjunct1] r obtain container key data where
    stored: "signed_access sample_primitives sample_codec ?factory 7 sample_request ''put'' container key"
      "(\<lambda>_. Ok ''abc'') kMaxObjectBytes = Ok data" "blob_content s1 container key = Some data"
      "\<forall>c k. (c, k) \<noteq> (container, key) \<longrightarrow> blob_at s1 c k = blob_at sample_store c k"
    using f by (auto simp del: split_paired_All)
  then show ?thesis using named [OF stored(1)] none put r by simp
qed

end
