(* ===== verification/Ports.thy ===== *)
theory Ports
  imports Metadata_Repository Lease_Repository Location_Repository Transfer_Token Expiry_Policy Object_Key_Policy
    Kind_Validator Time_Format
begin

text \<open>
  The boundary of the application layer: the caller's context and the set of ports the use cases
  of \<^verbatim>\<open>app/usecases\<close> are given (\<^verbatim>\<open>UseCasePorts\<close>), as a record of functions on a world \<^typ>\<open>'w\<close> that holds
  everything outside the application layer: repositories, object stores, the audit and event
  sinks, clocks, the id supply, other instances. A store is a handle \<^typ>\<open>'st\<close>; the use cases only
  compare handles and pass them back. What happens in the world while a use case sleeps or while
  the renewal thread runs is part of the world's functions too.
\<close>

section \<open>Callers, events and audit records\<close>

record CallerContext =
  cc_partition :: string
  cc_user_id :: string
  cc_bearer_token :: string
  cc_correlation_id :: string

record StatusChangedEvent =
  se_record_id :: string
  se_partition :: string
  se_status :: string
  se_dataset_sync :: string
  se_version :: int

record DatasetDetailsEvent =
  de_partition :: string
  de_correlation_id :: string
  de_dataset_id :: string
  de_dataset_version_id :: string
  de_dataset_type :: string
  de_record_count :: int
  de_timestamp_millis :: int

record AuditEvent =
  ae_operation :: string
  ae_user :: string
  ae_partition :: string
  ae_object_id :: string
  ae_result :: string
  ae_epoch_millis :: int
  ae_correlation_id :: string

section \<open>The ports\<close>

text \<open>The byte sources the application layer hands on: a string, the body of a request (its
  \<^verbatim>\<open>ReadAll\<close> under a limit), and an object read piece by piece from another store.\<close>

datatype 'st ByteSource = StringSource string | RequestBody "nat \<Rightarrow> string Result" | StoreByteSource 'st ObjectRef int

type_synonym ('w, 'a) action = "'w \<Rightarrow> 'w \<times> 'a Result"

record SelfSignedTtlOptions =
  st_default_seconds :: int
  st_max_seconds :: int

record ('w, 'st) Ports =
  p_ForPartition :: "string \<Rightarrow> StorageZone \<Rightarrow> 'st Result"
  p_capabilities :: "'st \<Rightarrow> BlobCapabilities"
  p_ensure_container :: "'st \<Rightarrow> string \<Rightarrow> ('w, unit) action"
  p_presign_put :: "'st \<Rightarrow> ObjectRef \<Rightarrow> PresignOptions \<Rightarrow> ('w, SignedLocation) action"
  p_presign_get :: "'st \<Rightarrow> ObjectRef \<Rightarrow> PresignOptions \<Rightarrow> ('w, SignedLocation) action"
  p_put :: "'st \<Rightarrow> ObjectRef \<Rightarrow> 'st ByteSource \<Rightarrow> PutOptions \<Rightarrow> ('w, unit) action"
  p_get :: "'st \<Rightarrow> ObjectRef \<Rightarrow> ByteRange \<Rightarrow> ('w, string) action"
  p_stat :: "'st \<Rightarrow> ObjectRef \<Rightarrow> ('w, ObjectStat) action"
  p_remove :: "'st \<Rightarrow> ObjectRef \<Rightarrow> ('w, unit) action"
  p_copy :: "'st \<Rightarrow> ObjectRef \<Rightarrow> ObjectRef \<Rightarrow> ('w, ObjectStat) action"
  p_loc_Save :: "string \<Rightarrow> FileLocation \<Rightarrow> ('w, unit) action"
  p_loc_Find :: "string \<Rightarrow> string \<Rightarrow> ('w, FileLocation) action"
  p_loc_Delete :: "string \<Rightarrow> string \<Rightarrow> ('w, unit) action"
  p_loc_FindByFileSource :: "string \<Rightarrow> string \<Rightarrow> ('w, FileLocation) action"
  p_loc_List :: "string \<Rightarrow> LocationQuery \<Rightarrow> ('w, LocationPage) action"
  p_md_atomic_claim :: bool
  p_md_Create :: "string \<Rightarrow> FileMetadataRecord \<Rightarrow> ('w, FileMetadataRecord) action"
  p_md_ClaimForWrite :: "string \<Rightarrow> FileMetadataRecord \<Rightarrow> ('w, MetadataClaim) action"
  p_md_MarkReady :: "string \<Rightarrow> string \<Rightarrow> int \<Rightarrow> FileMetadataRecord \<Rightarrow> ('w, FileMetadataRecord) action"
  p_md_ReleaseClaim :: "string \<Rightarrow> string \<Rightarrow> int \<Rightarrow> ('w, unit) action"
  p_md_GetById :: "string \<Rightarrow> string \<Rightarrow> ('w, FileMetadataRecord) action"
  p_md_GetLatestByFileSource :: "string \<Rightarrow> string \<Rightarrow> ('w, FileMetadataRecord) action"
  p_md_Delete :: "string \<Rightarrow> string \<Rightarrow> ('w, unit) action"
  p_Authorize :: "string \<Rightarrow> string \<Rightarrow> string \<Rightarrow> ('w, unit) action"
  p_AuthorizeAny :: "string list \<Rightarrow> string \<Rightarrow> string \<Rightarrow> ('w, unit) action"
  p_PublishStatusChanged :: "string \<Rightarrow> StatusChangedEvent \<Rightarrow> ('w, unit) action"
  p_PublishDatasetDetails :: "string \<Rightarrow> DatasetDetailsEvent \<Rightarrow> ('w, unit) action"
  p_Record :: "AuditEvent \<Rightarrow> ('w, unit) action"
  p_partition_Get :: "string \<Rightarrow> PartitionConfig Result"
  p_legal_Validate :: "string \<Rightarrow> string list \<Rightarrow> ('w, unit) action"
  p_schema_Validate :: "string \<Rightarrow> json \<Rightarrow> ('w, unit) action"
  p_NowEpochSeconds :: "'w \<Rightarrow> int"
  p_NowEpochMillis :: "'w \<Rightarrow> int"
  p_NewUuidNoDash :: "'w \<Rightarrow> 'w \<times> string"
  p_Encode :: "TransferToken \<Rightarrow> string \<Rightarrow> ('w, string) action"
  p_HexDigest :: "ChecksumAlgorithm \<Rightarrow> string \<Rightarrow> string"
  p_lease_Acquire :: "string \<Rightarrow> string \<Rightarrow> string \<Rightarrow> int \<Rightarrow> ('w, Lease) action"
  p_lease_Renew :: "string \<Rightarrow> string \<Rightarrow> string \<Rightarrow> int \<Rightarrow> ('w, unit) action"
  p_lease_Release :: "string \<Rightarrow> string \<Rightarrow> string \<Rightarrow> ('w, unit) action"
  p_thread_start :: "'w \<Rightarrow> unit Result"
  p_renew_rounds :: "'w \<Rightarrow> nat"
  p_sleep_millis :: "int \<Rightarrow> 'w \<Rightarrow> 'w"
  p_steady_nanos :: "'w \<Rightarrow> int"
  p_self_base_url :: string
  p_expiry :: ExpiryOptions
  p_issuer_registry :: bool
  p_self_signed_ttl :: SelfSignedTtlOptions
  p_auth_mode :: string
  p_io_engine :: string
  p_io_uring_available :: bool
  p_large_file_plane :: string
  p_build_version :: string
  p_audit_fail_closed :: bool
  p_leases_present :: bool
  p_leases_enabled :: bool
  p_lease_ttl_seconds :: int
  p_lease_renew_interval_seconds :: int
  p_instance_id :: string
  p_claim_hold_millis :: int

section \<open>The location issuer\<close>

text \<open>\<^verbatim>\<open>app/services/location_issuer\<close>: the one place that branches on what a store can do.\<close>

record LocationResult =
  lres_file_id :: string
  lres_file_source :: string
  lres_signed_url :: string
  lres_driver :: string
  lres_zone :: StorageZone
  lres_expires_at :: int
  lres_native_presign :: bool

definition kExtraContainer :: string where "kExtraContainer = ''container''"
definition kExtraObjectKey :: string where "kExtraObjectKey = ''object_key''"
definition kExtraDriverName :: string where "kExtraDriverName = ''driver_name''"

definition ApplySelfSignedTtl :: "SelfSignedTtlOptions \<Rightarrow> int \<Rightarrow> BlobCapabilities \<Rightarrow> bool \<Rightarrow> int" where
  "ApplySelfSignedTtl opts ttl_seconds caps expiry_time_provided =
     (if bc_native_presign caps then ttl_seconds
      else let bounded = min ttl_seconds (st_max_seconds opts) in
           if \<not> expiry_time_provided then min bounded (st_default_seconds opts) else bounded)"

definition expiry_provided :: "string option \<Rightarrow> bool" where
  "expiry_provided expiry_time \<longleftrightarrow> (case expiry_time of None \<Rightarrow> False | Some t \<Rightarrow> t \<noteq> [])"

definition SignAndShape ::
  "('w, 'st) Ports \<Rightarrow> 'st \<Rightarrow> ObjectRef \<Rightarrow> FileLocation \<Rightarrow> BlobCapabilities \<Rightarrow> string \<Rightarrow> int \<Rightarrow> bool \<Rightarrow>
   ('w, LocationResult) action" where
  "SignAndShape P store ref location caps part ttl_seconds upload w =
     (let options = \<lparr>po_expires_in_seconds = ttl_seconds, po_content_type = [], po_file_name = [],
                     po_method = (if upload then ''PUT'' else ''GET'')\<rparr> in
      FSS_TRY_ST
        (if bc_native_presign caps
         then (if upload then p_presign_put P store ref options w else p_presign_get P store ref options w)
         else
           let token = \<lparr>tt_partition = part, tt_file_id = fl_file_id location, tt_container = or_container ref,
                        tt_object_key = or_key ref, tt_zone = fl_zone location,
                        tt_op = (if upload then ''put'' else ''get''),
                        tt_expires_at = p_NowEpochSeconds P w + ttl_seconds, tt_key_id = []\<rparr> in
           FSS_TRY_ST (p_Encode P token (p_self_base_url P) w) (\<lambda>w url.
             (w, Ok \<lparr>sl_url = url, sl_method = po_method options, sl_file_source = fl_file_source location,
                     sl_expires_at = tt_expires_at token, sl_required_headers = [], sl_native = False\<rparr>)))
        (\<lambda>w signed_loc.
           (w, Ok \<lparr>lres_file_id = fl_file_id location, lres_file_source = fl_file_source location,
                   lres_signed_url = sl_url signed_loc, lres_driver = bc_driver_name caps,
                   lres_zone = fl_zone location,
                   lres_expires_at = (if sl_expires_at signed_loc > 0 then sl_expires_at signed_loc
                                      else p_NowEpochSeconds P w + ttl_seconds),
                   lres_native_presign = bc_native_presign caps\<rparr>)))"

definition choose_file_id :: "('w, 'st) Ports \<Rightarrow> string \<Rightarrow> string option \<Rightarrow> ('w, string) action" where
  "choose_file_id P part requested_file_id w =
     (case requested_file_id of
        Some file_id \<Rightarrow>
          if file_id = [] then (let (w, fresh) = p_NewUuidNoDash P w in (w, Ok fresh))
          else if \<not> IsValidFileId file_id then (w, Err kInvalidArgument ''Invalid FileID'')
          else (case p_loc_Find P part file_id w of
                  (w, Inr _) \<Rightarrow> (w, Err kLocationAlreadyExists
                                  (''Location for fileID = '' @ file_id @ '' already exists''))
                | (w, Inl _) \<Rightarrow> (w, Ok file_id))
      | None \<Rightarrow> (let (w, fresh) = p_NewUuidNoDash P w in (w, Ok fresh)))"

definition issuer_container :: "('w, 'st) Ports \<Rightarrow> string \<Rightarrow> StorageZone \<Rightarrow> string Result" where
  "issuer_container P part zone =
     (if p_issuer_registry P then ContainerForRegistry (p_partition_Get P) part zone else ContainerFor part zone)"

definition source_parts :: "string \<Rightarrow> int \<Rightarrow> string \<Rightarrow> SourcePath" where
  "source_parts user_id now_ms file_id =
     \<lparr>sp_user_id = user_id, sp_epoch_millis = now_ms,
      sp_timestamp = FormatTimestamp (tdiv now_ms 1000) (tmod now_ms 1000), sp_file_id = file_id\<rparr>"

definition new_location :: "string \<Rightarrow> string \<Rightarrow> string \<Rightarrow> int \<Rightarrow> ObjectRef \<Rightarrow> BlobCapabilities \<Rightarrow> FileLocation" where
  "new_location file_id file_source user_id now ref caps =
     default_FileLocation\<lparr>fl_file_id := file_id, fl_zone := kStaging, fl_file_source := file_source,
       fl_user_id := user_id, fl_created_at := now, fl_updated_at := now,
       fl_driver := (case ParseStorageDriver (bc_driver_name caps) of None \<Rightarrow> fl_driver default_FileLocation | Some d \<Rightarrow> d),
       fl_extra := JObject (jset kExtraDriverName (JString (bc_driver_name caps))
                     (jset kExtraObjectKey (JString (or_key ref))
                       (jset kExtraContainer (JString (or_container ref)) [])))\<rparr>"

definition IssueUploadLocation ::
  "('w, 'st) Ports \<Rightarrow> string \<Rightarrow> string \<Rightarrow> string option \<Rightarrow> string option \<Rightarrow> ('w, LocationResult) action" where
  "IssueUploadLocation P part user_id requested_file_id expiry_time w =
     (if part = [] then (w, Err kInvalidArgument msg_partition_empty)
      else if user_id = [] then (w, Err kInvalidArgument msg_user_id_empty)
      else
        FSS_TRY_ST (w, ExpiryParse expiry_time (p_expiry P)) (\<lambda>w ttl_seconds.
        FSS_TRY_ST (choose_file_id P part requested_file_id w) (\<lambda>w file_id.
        let parts = source_parts user_id (p_NowEpochMillis P w) file_id in
        FSS_TRY_ST (w, MakeFileSource parts) (\<lambda>w file_source.
        FSS_TRY_ST (w, issuer_container P part kStaging) (\<lambda>w container.
        let ref = \<lparr>or_container = container, or_key = MakePosixKey parts, or_version_id = None\<rparr> in
        FSS_TRY_ST (w, p_ForPartition P part kStaging) (\<lambda>w store.
        FSS_TRY_ST (p_ensure_container P store (or_container ref) w) (\<lambda>w _.
        FSS_TRY_ST (p_put P store ref (StringSource []) default_PutOptions w) (\<lambda>w _.
        let caps = p_capabilities P store;
            ttl_seconds = ApplySelfSignedTtl (p_self_signed_ttl P) ttl_seconds caps (expiry_provided expiry_time);
            location = new_location file_id file_source user_id (p_NowEpochSeconds P w) ref caps in
        FSS_TRY_ST (p_loc_Save P part location w) (\<lambda>w _.
          SignAndShape P store ref location caps part ttl_seconds True w)))))))))"

text \<open>\<^verbatim>\<open>get<std::string>()\<close> of a member that is present but no string throws; the records the service
  writes hold strings there.\<close>

definition extra_string :: "json \<Rightarrow> string \<Rightarrow> string option" where
  "extra_string extra key = (case jfind extra key of Some (JString s) \<Rightarrow> Some s | _ \<Rightarrow> None)"

definition missing_physical_ref :: "'a Result" where
  "missing_physical_ref = Err kInternal msg_location_no_ref"

definition type_error :: "'a Result" where
  "type_error = Err kInternal ''type_error''"

definition ObjectRefFromLocation :: "FileLocation \<Rightarrow> ObjectRef Result" where
  "ObjectRefFromLocation location =
     (let extra = fl_extra location in
      if \<not> is_object extra \<or> jfind extra kExtraContainer = None \<or> jfind extra kExtraObjectKey = None
      then missing_physical_ref
      else (case (extra_string extra kExtraContainer, extra_string extra kExtraObjectKey) of
              (Some c, Some k) \<Rightarrow> Ok \<lparr>or_container = c, or_key = k, or_version_id = None\<rparr>
            | _ \<Rightarrow> type_error))"

definition IssueDownloadLocation ::
  "('w, 'st) Ports \<Rightarrow> string \<Rightarrow> string \<Rightarrow> string option \<Rightarrow> ('w, LocationResult) action" where
  "IssueDownloadLocation P part file_id expiry_time w =
     (if part = [] then (w, Err kInvalidArgument msg_partition_empty)
      else if file_id = [] then (w, Err kInvalidArgument msg_file_id_empty)
      else
        FSS_TRY_ST (w, ExpiryParse expiry_time (p_expiry P)) (\<lambda>w ttl_seconds.
        FSS_TRY_ST (p_loc_Find P part file_id w) (\<lambda>w location.
        FSS_TRY_ST (w, ObjectRefFromLocation location) (\<lambda>w ref.
        FSS_TRY_ST (w, p_ForPartition P part (fl_zone location)) (\<lambda>w store.
        let caps = p_capabilities P store in
        SignAndShape P store ref location caps part
          (ApplySelfSignedTtl (p_self_signed_ttl P) ttl_seconds caps (expiry_provided expiry_time)) False w)))))"

end
