(* ===== verification/Use_Cases.thy ===== *)
theory Use_Cases
  imports Ports
begin

text \<open>
  \<^verbatim>\<open>app/usecases/usecases\<close>: the sixteen use cases over the ports, with the helpers they share, the
  audit guard, and the lease handling of \<^verbatim>\<open>app/services/lease_renewer\<close>.

  A use case returns the new world and its result. The guard objects of the source act when a
  scope is left: \<open>audited\<close> wraps a body the way \<^verbatim>\<open>AuditGuard\<close> does, \<open>ReleaseNow\<close> runs where the
  lease guard is destroyed. \<open>CreateFileMetadata\<close> may have to wait for another instance and is
  therefore a partial function of the world: \<^const>\<open>None\<close> means it never returns.
\<close>

section \<open>Authorization and audit\<close>

definition AuthorizeCaller ::
  "('w, 'st) Ports \<Rightarrow> CallerContext \<Rightarrow> string \<Rightarrow> bool \<Rightarrow> ('w, unit) action" where
  "AuthorizeCaller P caller role require_partition w =
     (if require_partition \<and> cc_partition caller = [] then (w, Err kUnauthenticated ''Missing partitionID'')
      else p_Authorize P role (cc_partition caller) (cc_bearer_token caller) w)"

definition AuthorizeCallerAny ::
  "('w, 'st) Ports \<Rightarrow> CallerContext \<Rightarrow> string list \<Rightarrow> bool \<Rightarrow> ('w, unit) action" where
  "AuthorizeCallerAny P caller roles require_partition w =
     (if require_partition \<and> cc_partition caller = [] then (w, Err kUnauthenticated ''Missing partitionID'')
      else if roles = [] then (w, Err kInternal msg_any_needs_role)
      else p_AuthorizeAny P roles (cc_partition caller) (cc_bearer_token caller) w)"

definition audit_event :: "('w, 'st) Ports \<Rightarrow> string \<Rightarrow> CallerContext \<Rightarrow> string \<Rightarrow> bool \<Rightarrow> 'w \<Rightarrow> AuditEvent" where
  "audit_event P operation caller object_id success w =
     \<lparr>ae_operation = operation, ae_user = cc_user_id caller, ae_partition = cc_partition caller,
      ae_object_id = object_id, ae_result = (if success then ''success'' else ''failure''),
      ae_epoch_millis = p_NowEpochMillis P w, ae_correlation_id = cc_correlation_id caller\<rparr>"

definition RecordAudit ::
  "('w, 'st) Ports \<Rightarrow> string \<Rightarrow> CallerContext \<Rightarrow> string \<Rightarrow> bool \<Rightarrow> ('w, unit) action" where
  "RecordAudit P operation caller object_id success w =
     (case p_Record P (audit_event P operation caller object_id success w) w of
        (w, Inl e) \<Rightarrow>
          if p_audit_fail_closed P
          then (w, Err kInternal (msg_audit_failed @ error_message e))
          else (w, Ok ())
      | (w, Inr _) \<Rightarrow> (w, Ok ()))"

text \<open>How a guarded body is left: through \<^verbatim>\<open>audit.Success()\<close> with the object id set by then, or by a
  return that does not call it.\<close>

datatype 'a Exit = Audited string 'a | Unaudited 'a

definition audited ::
  "('w, 'st) Ports \<Rightarrow> CallerContext \<Rightarrow> string \<Rightarrow> string \<Rightarrow> 'w \<times> 'a Exit Result \<Rightarrow> 'w \<times> 'a Result" where
  "audited P caller operation object_id outcome =
     (case outcome of
        (w, Inl e) \<Rightarrow> (fst (RecordAudit P (operation @ ''Failure'') caller object_id False w), Inl e)
      | (w, Inr (Audited oid x)) \<Rightarrow>
          FSS_TRY_ST (RecordAudit P (operation @ ''Success'') caller oid True w) (\<lambda>w _. (w, Ok x))
      | (w, Inr (Unaudited x)) \<Rightarrow> (fst (RecordAudit P (operation @ ''Failure'') caller object_id False w), Ok x))"

section \<open>Events\<close>

definition PublishStatus :: "('w, 'st) Ports \<Rightarrow> CallerContext \<Rightarrow> string \<Rightarrow> int \<Rightarrow> string \<Rightarrow> 'w \<Rightarrow> 'w" where
  "PublishStatus P caller status version record_id w =
     fst (p_PublishStatusChanged P ''status-changed''
       \<lparr>se_record_id = record_id, se_partition = cc_partition caller, se_status = status,
        se_dataset_sync = ''DATASET_SYNC'', se_version = version\<rparr> w)"

definition PublishDatasetDetails :: "('w, 'st) Ports \<Rightarrow> CallerContext \<Rightarrow> string \<Rightarrow> int \<Rightarrow> 'w \<Rightarrow> 'w" where
  "PublishDatasetDetails P caller record_id version w =
     fst (p_PublishDatasetDetails P ''datasetDetails''
       \<lparr>de_partition = cc_partition caller, de_correlation_id = cc_correlation_id caller,
        de_dataset_id = record_id, de_dataset_version_id = to_string version, de_dataset_type = ''FILE'',
        de_record_count = 1, de_timestamp_millis = p_NowEpochMillis P w\<rparr> w)"

section \<open>Objects\<close>

definition ToUpper :: "string \<Rightarrow> string" where
  "ToUpper t = map toupper t"

definition ToLower :: "string \<Rightarrow> string" where
  "ToLower t = map tolower t"

definition PhysicalLocationOf :: "FileLocation \<Rightarrow> string" where
  "PhysicalLocationOf location =
     (case ObjectRefFromLocation location of
        Inl _ \<Rightarrow> fl_file_source location
      | Inr ref \<Rightarrow> or_container ref @ ''/'' @ or_key ref)"

definition ProviderKeyOf :: "FileLocation \<Rightarrow> string" where
  "ProviderKeyOf location =
     (case (if is_object (fl_extra location) then extra_string (fl_extra location) kExtraDriverName else None) of
        Some d \<Rightarrow> ToUpper d
      | None \<Rightarrow> ToUpper (StorageDriverName (fl_driver location)))"

definition LooksLikeFileSource :: "string \<Rightarrow> bool" where
  "LooksLikeFileSource v \<longleftrightarrow> v \<noteq> [] \<and> hd v = CHR ''/'' \<and> \<not> contains_str ''..'' v"

definition whole_object :: ByteRange where
  "whole_object = \<lparr>br_offset = 0, br_length = 0\<rparr>"

definition ComputeChecksumStreaming ::
  "('w, 'st) Ports \<Rightarrow> string \<Rightarrow> ObjectRef \<Rightarrow> StorageZone \<Rightarrow> ChecksumAlgorithm \<Rightarrow> ('w, string) action" where
  "ComputeChecksumStreaming P part ref zone algorithm w =
     FSS_TRY_ST (w, p_ForPartition P part zone) (\<lambda>w store.
     FSS_TRY_ST (p_get P store ref whole_object w) (\<lambda>w data.
       (w, Ok (p_HexDigest P algorithm data))))"

definition CopyBetweenZones ::
  "('w, 'st) Ports \<Rightarrow> string \<Rightarrow> ObjectRef \<Rightarrow> ObjectRef \<Rightarrow> StorageZone \<Rightarrow> StorageZone \<Rightarrow> ('w, ObjectStat) action" where
  "CopyBetweenZones P part from_ref to_ref from_zone to_zone w =
     FSS_TRY_ST (w, p_ForPartition P part from_zone) (\<lambda>w from_store.
     FSS_TRY_ST (w, p_ForPartition P part to_zone) (\<lambda>w to_store.
     FSS_TRY_ST (p_ensure_container P to_store (or_container to_ref) w) (\<lambda>w _.
       if from_store = to_store then p_copy P to_store from_ref to_ref w
       else
         FSS_TRY_ST (p_stat P from_store from_ref w) (\<lambda>w stat.
         FSS_TRY_ST (p_put P to_store to_ref (StoreByteSource from_store from_ref (os_size stat)) default_PutOptions w) (\<lambda>w _.
           p_stat P to_store to_ref w)))))"

definition remove_quietly :: "('w, 'st) Ports \<Rightarrow> string \<Rightarrow> StorageZone \<Rightarrow> ObjectRef \<Rightarrow> 'w \<Rightarrow> 'w" where
  "remove_quietly P part zone ref w =
     (case p_ForPartition P part zone of Inl _ \<Rightarrow> w | Inr store \<Rightarrow> fst (p_remove P store ref w))"

section \<open>Helpers of the registration\<close>

definition RollbackCreatedObject ::
  "('w, 'st) Ports \<Rightarrow> CallerContext \<Rightarrow> ObjectRef \<Rightarrow> string \<Rightarrow> string \<Rightarrow> 'w \<Rightarrow> 'w" where
  "RollbackCreatedObject P caller to_ref file_source record_id w =
     (let (w, existing) = p_md_GetLatestByFileSource P (cc_partition caller) file_source w;
          w = (if is_ok existing then w else remove_quietly P (cc_partition caller) kPersistent to_ref w);
          w = PublishStatus P caller ''FAILED'' 0 record_id w
      in fst (RecordAudit P ''createMetadataFailure'' caller record_id False w))"

definition ReturnExistingRecord ::
  "('w, 'st) Ports \<Rightarrow> CallerContext \<Rightarrow> FileMetadataRecord \<Rightarrow> ('w, string) action" where
  "ReturnExistingRecord P caller existing w =
     (let w = PublishStatus P caller ''SUCCESS'' (fm_version existing) (fm_id existing) w;
          w = PublishDatasetDetails P caller (fm_id existing) (fm_version existing) w
      in FSS_TRY_ST (RecordAudit P ''createMetadataSuccess'' caller (fm_id existing) True w) (\<lambda>w _.
           (w, Ok (fm_id existing))))"

definition claim_poll_millis :: int where "claim_poll_millis = 50"
definition claim_budget_nanos :: int where "claim_budget_nanos = 2000 * 1000000"

partial_function (option) wait_loop ::
  "('w, 'st) Ports \<Rightarrow> CallerContext \<Rightarrow> string \<Rightarrow> int \<Rightarrow> 'w \<Rightarrow> ('w \<times> string Result) option" where
  "wait_loop P caller file_source deadline w =
     (case p_md_GetLatestByFileSource P (cc_partition caller) file_source w of
        (w, Inr existing) \<Rightarrow> Some (ReturnExistingRecord P caller existing w)
      | (w, Inl _) \<Rightarrow>
          let now = p_steady_nanos P w in
          if now \<ge> deadline
          then Some (w, Err kUnavailable msg_claiming_elsewhere)
          else let remaining = (deadline - now) div 1000000 in
            wait_loop P caller file_source deadline
              (p_sleep_millis P (if remaining < claim_poll_millis then remaining else claim_poll_millis) w))"

definition WaitForExistingClaim ::
  "('w, 'st) Ports \<Rightarrow> CallerContext \<Rightarrow> string \<Rightarrow> 'w \<Rightarrow> ('w \<times> string Result) option" where
  "WaitForExistingClaim P caller file_source w =
     wait_loop P caller file_source (p_steady_nanos P w + claim_budget_nanos) w"

section \<open>Leases\<close>

definition LeaseEnabled :: "('w, 'st) Ports \<Rightarrow> bool" where
  "LeaseEnabled P \<longleftrightarrow> p_leases_enabled P \<and> p_leases_present P"

definition LeaseTtlMillis :: "('w, 'st) Ports \<Rightarrow> int" where
  "LeaseTtlMillis P = (if p_lease_ttl_seconds P > 0 then wrap_i64 (p_lease_ttl_seconds P * 1000) else 1000)"

definition RemoveIssuedUpload ::
  "('w, 'st) Ports \<Rightarrow> CallerContext \<Rightarrow> LocationResult \<Rightarrow> 'w \<Rightarrow> 'w" where
  "RemoveIssuedUpload P caller location w =
     (let (w, stored) = p_loc_Find P (cc_partition caller) (lres_file_id location) w;
          w = (case stored of
                 Inl _ \<Rightarrow> w
               | Inr l \<Rightarrow> (case ObjectRefFromLocation l of
                            Inl _ \<Rightarrow> w
                          | Inr ref \<Rightarrow> remove_quietly P (cc_partition caller) (fl_zone l) ref w))
      in fst (p_loc_Delete P (cc_partition caller) (lres_file_id location) w))"

definition lease_taken :: "'a Result" where
  "lease_taken = Err kUnavailable msg_lease_taken"

definition lease_refused :: "Error \<Rightarrow> 'a Result" where
  "lease_refused e =
     (if error_kind e = kUnavailable then lease_taken
      else Err kUnavailable (msg_lease_acquire_failed @ error_message e))"

definition AcquireUploadLease ::
  "('w, 'st) Ports \<Rightarrow> CallerContext \<Rightarrow> LocationResult \<Rightarrow> ('w, unit) action" where
  "AcquireUploadLease P caller location w =
     (if \<not> LeaseEnabled P then (w, Ok ())
      else (case p_lease_Acquire P (cc_partition caller) (lres_file_source location) (p_instance_id P) (LeaseTtlMillis P) w of
              (w, Inr _) \<Rightarrow> (w, Ok ())
            | (w, Inl e) \<Rightarrow> (RemoveIssuedUpload P caller location w, lease_refused e)))"

definition EnsureLeaseOwnership ::
  "('w, 'st) Ports \<Rightarrow> CallerContext \<Rightarrow> string \<Rightarrow> ('w, unit) action" where
  "EnsureLeaseOwnership P caller file_source w =
     (if \<not> LeaseEnabled P then (w, Ok ())
      else (case p_lease_Renew P (cc_partition caller) file_source (p_instance_id P) (LeaseTtlMillis P) w of
              (w, Inr _) \<Rightarrow> (w, Ok ())
            | (w, Inl e) \<Rightarrow>
                if error_kind e \<noteq> kNotFound \<and> error_kind e \<noteq> kPermissionDenied
                then (w, Err kUnavailable (msg_lease_renew_failed @ error_message e))
                else (case p_lease_Acquire P (cc_partition caller) file_source (p_instance_id P) (LeaseTtlMillis P) w of
                        (w, Inr _) \<Rightarrow> (w, Ok ())
                      | (w, Inl e) \<Rightarrow> (w, lease_refused e))))"

text \<open>\<^verbatim>\<open>LeaseRenewer\<close>: a background thread that renews the lease every interval until it is stopped.
  A round renews once and remembers the last outcome; how many rounds pass between two points
  where the use case looks is the world's \<open>p_renew_rounds\<close>.\<close>

record LeaseRenewer =
  ren_partition :: string
  ren_lease_key :: string
  ren_instance_id :: string
  ren_ttl_millis :: int
  ren_interval_millis :: int
  ren_active :: bool
  ren_last_error :: "Error option"

definition LeaseRenewerStart :: "('w, 'st) Ports \<Rightarrow> string \<Rightarrow> string \<Rightarrow> int \<Rightarrow> int \<Rightarrow> 'w \<Rightarrow> LeaseRenewer" where
  "LeaseRenewerStart P part lease_key ttl_millis interval_millis w =
     (let started = p_thread_start P w in
      \<lparr>ren_partition = part, ren_lease_key = lease_key, ren_instance_id = p_instance_id P,
       ren_ttl_millis = (if ttl_millis \<le> 0 then 1000 else ttl_millis),
       ren_interval_millis = (if interval_millis \<le> 0 then 1000 else interval_millis),
       ren_active = is_ok started,
       ren_last_error = (case started of
          Inr _ \<Rightarrow> None
        | Inl e \<Rightarrow> Some (mk_error kUnavailable (msg_renew_thread_failed @ error_message e)))\<rparr>)"

definition LeaseRenewerRound :: "('w, 'st) Ports \<Rightarrow> LeaseRenewer \<times> 'w \<Rightarrow> LeaseRenewer \<times> 'w" where
  "LeaseRenewerRound P = (\<lambda>(r, w).
     case p_lease_Renew P (ren_partition r) (ren_lease_key r) (ren_instance_id r) (ren_ttl_millis r) w of
       (w, Inr _) \<Rightarrow> (r\<lparr>ren_last_error := None\<rparr>, w)
     | (w, Inl e) \<Rightarrow> (r\<lparr>ren_last_error := Some e\<rparr>, w))"

definition LeaseRenewerRounds :: "('w, 'st) Ports \<Rightarrow> LeaseRenewer \<times> 'w \<Rightarrow> LeaseRenewer \<times> 'w" where
  "LeaseRenewerRounds P rw =
     (if ren_active (fst rw) then (LeaseRenewerRound P ^^ p_renew_rounds P (snd rw)) rw else rw)"

definition LeaseRenewerFailed :: "LeaseRenewer \<Rightarrow> bool" where
  "LeaseRenewerFailed r \<longleftrightarrow> ren_last_error r \<noteq> None"

text \<open>The lease guard: stop the renewal (after the rounds that ran until then), release the lease,
  record an audit event when that fails. It runs once.\<close>

definition ReleaseNow ::
  "('w, 'st) Ports \<Rightarrow> CallerContext \<Rightarrow> string \<Rightarrow> string \<Rightarrow> LeaseRenewer \<Rightarrow> 'w \<Rightarrow> 'w" where
  "ReleaseNow P caller file_source record_id r w =
     (let (r, w) = LeaseRenewerRounds P (r, w) in
      case p_lease_Release P (cc_partition caller) file_source (p_instance_id P) w of
        (w, Inr _) \<Rightarrow> w
      | (w, Inl _) \<Rightarrow> fst (RecordAudit P ''createMetadataLeaseReleaseFailure'' caller record_id False w))"

section \<open>Locations and listings\<close>

definition GetUploadLocation ::
  "('w, 'st) Ports \<Rightarrow> CallerContext \<Rightarrow> string option \<Rightarrow> string option \<Rightarrow> ('w, LocationResult) action" where
  "GetUploadLocation P caller requested_file_id expiry_time w =
     audited P caller ''createLocation'' (case requested_file_id of None \<Rightarrow> [] | Some i \<Rightarrow> i)
       (FSS_TRY_ST (AuthorizeCaller P caller kRoleFileEditors True w) (\<lambda>w _.
        FSS_TRY_ST (IssueUploadLocation P (cc_partition caller) (cc_user_id caller) requested_file_id expiry_time w) (\<lambda>w result.
        FSS_TRY_ST (AcquireUploadLease P caller result w) (\<lambda>w _.
          (w, Ok (Audited (lres_file_id result) result))))))"

record FileLocationView =
  flv_driver :: string
  flv_location :: string
  flv_file_source :: string

definition GetFileLocation :: "('w, 'st) Ports \<Rightarrow> CallerContext \<Rightarrow> string \<Rightarrow> ('w, FileLocationView) action" where
  "GetFileLocation P caller file_id w =
     audited P caller ''readFileLocation'' file_id
       (FSS_TRY_ST (AuthorizeCaller P caller kRoleFileEditors True w) (\<lambda>w _.
        FSS_TRY_ST (p_loc_Find P (cc_partition caller) file_id w) (\<lambda>w location.
          (w, Ok (Audited file_id \<lparr>flv_driver = ToLower (ProviderKeyOf location),
             flv_location = PhysicalLocationOf location, flv_file_source = fl_file_source location\<rparr>)))))"

record DownloadLocationResult =
  dl_file_id :: string
  dl_signed_url :: string
  dl_driver :: string
  dl_expires_at :: int
  dl_native_presign :: bool

definition GetDownloadLocation ::
  "('w, 'st) Ports \<Rightarrow> CallerContext \<Rightarrow> string \<Rightarrow> string option \<Rightarrow> ('w, DownloadLocationResult) action" where
  "GetDownloadLocation P caller file_id expiry_time w =
     audited P caller ''createDownloadLocation'' file_id
       (FSS_TRY_ST (AuthorizeCaller P caller kRoleFileViewers True w) (\<lambda>w _.
        FSS_TRY_ST (IssueDownloadLocation P (cc_partition caller) file_id expiry_time w) (\<lambda>w result.
          (w, Ok (Audited file_id \<lparr>dl_file_id = lres_file_id result, dl_signed_url = lres_signed_url result,
             dl_driver = lres_driver result, dl_expires_at = lres_expires_at result,
             dl_native_presign = lres_native_presign result\<rparr>)))))"

record FileListRequest =
  flr_user_id :: string
  flr_time_from :: int
  flr_time_to :: int
  flr_page_num :: int
  flr_items :: int

record FileListEntry =
  fle_file_id :: string
  fle_driver :: string
  fle_location :: string
  fle_created_at :: int
  fle_created_by :: string

record FileListResult =
  flt_content :: "FileListEntry list"
  flt_number :: int
  flt_number_of_elements :: int
  flt_size :: int
  flt_total :: int

definition check_list_request :: "FileListRequest \<Rightarrow> unit Result" where
  "check_list_request request =
     (if flr_items request \<le> 0 then Err kInvalidArgument msg_items_positive
      else if flr_page_num request < 0 then Err kInvalidArgument msg_page_num
      else if flr_time_from request \<ge> 0 \<and> flr_time_to request \<ge> 0 \<and> flr_time_from request > flr_time_to request
      then Err kInvalidArgument ''TimeFrom should be before TimeTo''
      else Ok ())"

text \<open>\<open>page_num * items\<close> is a product of two \<^verbatim>\<open>int\<close>s.\<close>

definition wrap_i32 :: "int \<Rightarrow> int" where
  "wrap_i32 x = (x + 2147483648) mod 4294967296 - 2147483648"

definition list_query :: "FileListRequest \<Rightarrow> LocationQuery" where
  "list_query request =
     \<lparr>lq_user_id = flr_user_id request, lq_created_after = flr_time_from request,
      lq_created_before = flr_time_to request, lq_limit = flr_items request,
      lq_offset = wrap_i32 (flr_page_num request * flr_items request)\<rparr>"

definition list_entry :: "FileLocation \<Rightarrow> FileListEntry" where
  "list_entry location =
     \<lparr>fle_file_id = fl_file_id location, fle_driver = ToLower (ProviderKeyOf location),
      fle_location = PhysicalLocationOf location, fle_created_at = fl_created_at location,
      fle_created_by = fl_user_id location\<rparr>"

definition nothing_found :: "FileListRequest \<Rightarrow> 'a Result" where
  "nothing_found request =
     Err kInvalidArgument (''Nothing found for such filter and page(num: '' @ to_string (flr_page_num request) @
       '', size: '' @ to_string (flr_items request) @ '').'')"

definition GetFileList :: "('w, 'st) Ports \<Rightarrow> CallerContext \<Rightarrow> FileListRequest \<Rightarrow> ('w, FileListResult) action" where
  "GetFileList P caller request w =
     audited P caller ''getFileList'' []
       (FSS_TRY_ST (AuthorizeCaller P caller kRoleFileEditors True w) (\<lambda>w _.
        FSS_TRY_ST (w, check_list_request request) (\<lambda>w _.
        FSS_TRY_ST (p_loc_List P (cc_partition caller) (list_query request) w) (\<lambda>w page.
          if lpg_total page = 0 \<or> lpg_records page = [] then (w, nothing_found request)
          else
            let content = map list_entry (lpg_records page) in
            (w, Ok (Audited [] \<lparr>flt_content = content, flt_number = flr_page_num request,
               flt_number_of_elements = int (length content), flt_size = flr_items request,
               flt_total = lpg_total page\<rparr>))))))"

section \<open>CreateFileMetadata\<close>

text \<open>Steps 2 to 3c: kind, content, file source, legal tags, schema.\<close>

definition first_issue_error :: "issue \<Rightarrow> Error" where
  "first_issue_error first =
     (let message = snd first in
      mk_error (if message = ''FileSource can not be empty'' then kFileSourceEmpty
                else if starts_with ''Invalid source file path to copy from '' message then kInvalidSourcePath
                else kInvalidArgument) message)"

definition create_validate :: "('w, 'st) Ports \<Rightarrow> CallerContext \<Rightarrow> FileMetadataRecord \<Rightarrow> ('w, unit) action" where
  "create_validate P caller record w =
     FSS_TRY_ST (w, KindValidate (fm_kind record)) (\<lambda>w _.
     FSS_TRY_ST (w, case ValidateMetadataRecord record of [] \<Rightarrow> Ok () | first # _ \<Rightarrow> Inl (first_issue_error first)) (\<lambda>w _.
     FSS_TRY_ST (w, if FileSourceOf record = [] then Err kFileSourceEmpty ''FileSource can not be empty'' else Ok ()) (\<lambda>w _.
     FSS_TRY_ST (p_legal_Validate P (cc_partition caller) (legal_tags (fm_legal record)) w) (\<lambda>w _.
       p_schema_Validate P (fm_kind record) (ToJson record) w))))"

text \<open>\<^verbatim>\<open>abort_create\<close>: remove the copy while the claim is still held, then release the claim.\<close>

definition abort_create ::
  "('w, 'st) Ports \<Rightarrow> CallerContext \<Rightarrow> string \<Rightarrow> string \<Rightarrow> ObjectRef option \<Rightarrow> int \<Rightarrow> 'w \<Rightarrow> 'w" where
  "abort_create P caller file_source record_id rollback_ref version w =
     (let w = (case rollback_ref of
                 None \<Rightarrow> w
               | Some ref \<Rightarrow> RollbackCreatedObject P caller ref file_source record_id w)
      in if p_md_atomic_claim P
         then (case p_md_ReleaseClaim P (cc_partition caller) record_id version w of
                 (w, Inr _) \<Rightarrow> w
               | (w, Inl _) \<Rightarrow> fst (RecordAudit P ''createMetadataClaimReleaseFailure'' caller record_id False w))
         else w)"

text \<open>Steps 1 to 4d: what the claim on the file source gives.\<close>

datatype ClaimStep = ReturnExisting FileMetadataRecord | InProgress | Proceed FileMetadataRecord int

definition create_claim ::
  "('w, 'st) Ports \<Rightarrow> CallerContext \<Rightarrow> FileMetadataRecord \<Rightarrow> ('w, ClaimStep) action" where
  "create_claim P caller record w =
     FSS_TRY_ST (AuthorizeCaller P caller kRoleFileEditors True w) (\<lambda>w _.
     FSS_TRY_ST (create_validate P caller record (PublishStatus P caller ''IN_PROGRESS'' 0 [] w)) (\<lambda>w _.
     let (w, uuid) = p_NewUuidNoDash P w;
         out = record\<lparr>fm_id := cc_partition caller @ '':dataset--File.Generic:'' @ uuid, fm_version := 1\<rparr> in
     case p_md_GetLatestByFileSource P (cc_partition caller) (FileSourceOf record) w of
       (w, Inr existing) \<Rightarrow> (w, Ok (ReturnExisting existing))
     | (w, Inl _) \<Rightarrow>
         if \<not> p_md_atomic_claim P then (w, Ok (Proceed out 0))
         else
           FSS_TRY_ST (p_md_ClaimForWrite P (cc_partition caller) out w) (\<lambda>w claim.
             if mc_claimed claim then (w, Ok (Proceed out (fm_version (mc_record claim))))
             else (case mc_state claim of
                     kReady \<Rightarrow> (w, Ok (ReturnExisting (mc_record claim)))
                   | kClaiming \<Rightarrow> (w, Ok InProgress)
                   | kDeleted \<Rightarrow> (w, Err kInternal
                       msg_inconsistent_state)))))"

text \<open>Step 6: the copy into the persistent zone, or the object a previous registration moved there.\<close>

datatype CopyStep = Copied ObjectStat | AlreadyRegistered FileMetadataRecord

definition create_copy ::
  "('w, 'st) Ports \<Rightarrow> CallerContext \<Rightarrow> string \<Rightarrow> string \<Rightarrow> int \<Rightarrow> FileLocation \<Rightarrow> ObjectRef \<Rightarrow> ObjectRef \<Rightarrow> ('w, CopyStep) action" where
  "create_copy P caller file_source record_id version location from_ref to_ref w =
     (let part = cc_partition caller; abort = abort_create P caller file_source record_id (Some to_ref) version in
      if fl_zone location = kStaging then
        (case CopyBetweenZones P part from_ref to_ref (fl_zone location) kPersistent w of
           (w, Inr stat) \<Rightarrow> (w, Ok (Copied stat))
         | (w, Inl e) \<Rightarrow>
             (case p_md_GetLatestByFileSource P part file_source w of
                (w, Inr existing) \<Rightarrow>
                  (if p_md_atomic_claim P then fst (p_md_ReleaseClaim P part record_id version w) else w,
                   Ok (AlreadyRegistered existing))
              | (w, Inl _) \<Rightarrow>
                  (abort w, Err kBadGateway (msg_copy_failed @ error_message e))))
      else
        (case p_ForPartition P part kPersistent of
           Inl e \<Rightarrow> (abort w, Err kBadGateway (msg_no_persistent_store @ error_message e))
         | Inr store \<Rightarrow>
             (case p_stat P store to_ref w of
                (w, Inr stat) \<Rightarrow>
                  if os_exists stat then (w, Ok (Copied stat))
                  else (abort w, Err kBadGateway msg_persistent_missing)
              | (w, Inl _) \<Rightarrow> (abort w, Err kBadGateway msg_persistent_missing))))"

text \<open>Step 7: the store's own digest when it is one the service understands, else recomputed.\<close>

definition native_checksum :: "ObjectStat \<Rightarrow> (string \<times> string) option" where
  "native_checksum stat =
     (case ParseChecksumAlgorithm (os_checksum_algorithm stat) of
        None \<Rightarrow> None
      | Some algorithm \<Rightarrow>
          if IsHexDigestOf (os_checksum stat) algorithm
          then Some (os_checksum stat, CanonicalChecksumName algorithm) else None)"

definition create_checksum ::
  "('w, 'st) Ports \<Rightarrow> CallerContext \<Rightarrow> string \<Rightarrow> string \<Rightarrow> int \<Rightarrow> ObjectRef \<Rightarrow> ObjectStat \<Rightarrow> ('w, string \<times> string) action" where
  "create_checksum P caller file_source record_id version to_ref stat w =
     (case native_checksum stat of
        Some ca \<Rightarrow> (w, Ok ca)
      | None \<Rightarrow>
          (case ComputeChecksumStreaming P (cc_partition caller) to_ref kPersistent kSha256 w of
             (w, Inr checksum) \<Rightarrow> (w, Ok (checksum, CanonicalChecksumName kSha256))
           | (w, Inl e) \<Rightarrow>
               (abort_create P caller file_source record_id (Some to_ref) version w,
                Err kBadGateway (msg_checksum_failed @ error_message e))))"

definition set_checksum :: "string \<times> string \<Rightarrow> FileMetadataRecord \<Rightarrow> FileMetadataRecord" where
  "set_checksum ca out =
     (let (checksum, algorithm) = ca in
      if checksum = [] then out
      else
        let algorithm = (if algorithm = [] then ''SHA256'' else algorithm);
            data = fm_data out;
            props = fd_dataset_properties data;
            info = (dp_file_source_info props)\<lparr>fsi_checksum := Some checksum, fsi_checksum_algorithm := Some algorithm\<rparr>
        in out\<lparr>fm_data := data\<lparr>fd_dataset_properties := props\<lparr>dp_file_source_info := info\<rparr>,
                 fd_checksum := Some checksum, fd_checksum_algorithm := Some algorithm\<rparr>\<rparr>)"

text \<open>Steps 8 and 9: the record becomes visible.\<close>

definition keep_kind :: "ErrorKind \<Rightarrow> bool" where
  "keep_kind k \<longleftrightarrow> k = kUnavailable \<or> k = kUnauthenticated \<or> k = kPermissionDenied \<or> k = kNotFound"

definition create_register ::
  "('w, 'st) Ports \<Rightarrow> CallerContext \<Rightarrow> string \<Rightarrow> int \<Rightarrow> ObjectRef \<Rightarrow> FileMetadataRecord \<Rightarrow> ('w, FileMetadataRecord) action" where
  "create_register P caller file_source version to_ref out w =
     (let part = cc_partition caller; abort = abort_create P caller file_source (fm_id out) (Some to_ref) version in
      if p_md_atomic_claim P then
        (case p_md_MarkReady P part (fm_id out) version out w of
           (w, Inr created) \<Rightarrow> (w, Ok created)
         | (w, Inl e) \<Rightarrow> (abort w, Err kInternal (msg_record_write_failed @ error_message e)))
      else
        (case p_md_Create P part out w of
           (w, Inr created) \<Rightarrow> (w, Ok created)
         | (w, Inl e) \<Rightarrow>
             (abort w, Err (if keep_kind (error_kind e) then error_kind e else kBadGateway)
                (msg_remote_write_failed @ error_message e))))"

text \<open>Steps 10 and 11: events, the moved location record, the staging object.\<close>

definition moved_location :: "FileLocation \<Rightarrow> ObjectRef \<Rightarrow> string \<Rightarrow> int \<Rightarrow> FileLocation" where
  "moved_location location to_ref user_id now =
     location\<lparr>fl_zone := kPersistent,
       fl_extra := JObject (jset kExtraObjectKey (JString (or_key to_ref))
                     (jset kExtraContainer (JString (or_container to_ref)) (object_members (fl_extra location)))),
       fl_user_id := user_id, fl_updated_at := now\<rparr>"

definition create_finish ::
  "('w, 'st) Ports \<Rightarrow> CallerContext \<Rightarrow> FileLocation \<Rightarrow> ObjectRef \<Rightarrow> ObjectRef \<Rightarrow> FileMetadataRecord \<Rightarrow> 'w \<Rightarrow> 'w" where
  "create_finish P caller location from_ref to_ref created w =
     (let part = cc_partition caller;
          w = PublishStatus P caller ''SUCCESS'' (fm_version created) (fm_id created) w;
          w = PublishDatasetDetails P caller (fm_id created) (fm_version created) w;
          w = fst (p_loc_Save P part (moved_location location to_ref (cc_user_id caller) (p_NowEpochSeconds P w)) w)
      in if fl_zone location = kStaging
         then (case p_ForPartition P part kStaging of
                 Inl _ \<Rightarrow> w
               | Inr store \<Rightarrow>
                   (case p_remove P store from_ref w of
                      (w, Inr _) \<Rightarrow> w
                    | (w, Inl _) \<Rightarrow> fst (RecordAudit P ''createMetadataStagingCleanupFailure'' caller (fm_id created) False w)))
         else w)"

text \<open>The lease during the registration: the renewer while it runs, \<^const>\<open>None\<close> when there is none or
  once it has been released. \<open>lease_lost\<close> is the check at a step boundary.\<close>

definition lease_lost_error :: "'a Result" where
  "lease_lost_error = Err kUnavailable msg_lease_lost"

definition renew_until_now ::
  "('w, 'st) Ports \<Rightarrow> 'w \<times> LeaseRenewer option \<Rightarrow> 'w \<times> LeaseRenewer option" where
  "renew_until_now P s =
     (case s of
        (w, None) \<Rightarrow> (w, None)
      | (w, Some r) \<Rightarrow> (let (r, w) = LeaseRenewerRounds P (r, w) in (w, Some r)))"

definition abort_if_lease_lost ::
  "('w, 'st) Ports \<Rightarrow> CallerContext \<Rightarrow> string \<Rightarrow> string \<Rightarrow> ObjectRef \<Rightarrow> int \<Rightarrow>
   ('w \<times> LeaseRenewer option, unit) action" where
  "abort_if_lease_lost P caller file_source record_id to_ref version s =
     (case renew_until_now P s of
        (w, Some r) \<Rightarrow>
          if LeaseRenewerFailed r
          then ((abort_create P caller file_source record_id (Some to_ref) version w, Some r), lease_lost_error)
          else ((w, Some r), Ok ())
      | (w, None) \<Rightarrow> ((w, None), Ok ()))"

definition with_lease :: "'w \<times> LeaseRenewer option \<Rightarrow> ('w, 'a) action \<Rightarrow> ('w \<times> LeaseRenewer option) \<times> 'a Result" where
  "with_lease s act = (case s of (w, l) \<Rightarrow> (case act w of (w, r) \<Rightarrow> ((w, l), r)))"

definition release_lease ::
  "('w, 'st) Ports \<Rightarrow> CallerContext \<Rightarrow> string \<Rightarrow> string \<Rightarrow> 'w \<times> LeaseRenewer option \<Rightarrow> 'w \<times> LeaseRenewer option" where
  "release_lease P caller file_source record_id s =
     (case s of (w, None) \<Rightarrow> (w, None) | (w, Some r) \<Rightarrow> (ReleaseNow P caller file_source record_id r w, None))"

text \<open>Steps 5 to 11 under the lease.\<close>

definition create_move ::
  "('w, 'st) Ports \<Rightarrow> CallerContext \<Rightarrow> string \<Rightarrow> FileMetadataRecord \<Rightarrow> int \<Rightarrow>
   ('w \<times> LeaseRenewer option, string Exit) action" where
  "create_move P caller file_source out version s =
     (let part = cc_partition caller; record_id = fm_id out in
      case with_lease s (p_loc_FindByFileSource P part file_source) of
        ((w, l), Inl _) \<Rightarrow>
          ((abort_create P caller file_source record_id None version w, l),
           Err kInvalidSourcePath (''Invalid source file path to copy from '' @ file_source))
      | (s, Inr location) \<Rightarrow>
          FSS_TRY_ST (s, ObjectRefFromLocation location) (\<lambda>s from_ref.
          FSS_TRY_ST (s, ContainerForRegistry (p_partition_Get P) part kPersistent) (\<lambda>s persistent_container.
          let to_ref = \<lparr>or_container = persistent_container, or_key = or_key from_ref, or_version_id = None\<rparr> in
          FSS_TRY_ST (with_lease s (create_copy P caller file_source record_id version location from_ref to_ref)) (\<lambda>s copied.
          case copied of
            AlreadyRegistered existing \<Rightarrow>
              FSS_TRY_ST (with_lease s (ReturnExistingRecord P caller existing)) (\<lambda>s i. (s, Ok (Unaudited i)))
          | Copied stat \<Rightarrow>
              FSS_TRY_ST (abort_if_lease_lost P caller file_source record_id to_ref version s) (\<lambda>s _.
              FSS_TRY_ST (with_lease s (create_checksum P caller file_source record_id version to_ref stat)) (\<lambda>s ca.
              let out = set_checksum ca out in
              FSS_TRY_ST (abort_if_lease_lost P caller file_source record_id to_ref version s) (\<lambda>s _.
              FSS_TRY_ST (with_lease s (create_register P caller file_source version to_ref out)) (\<lambda>s created.
              let (w, l) = release_lease P caller file_source record_id s in
                ((create_finish P caller location from_ref to_ref created w, l),
                 Ok (Audited (fm_id created) (fm_id created)))))))))))"

text \<open>Step 4e: take over or acquire the lease, start the renewal; the guard releases it at the end.\<close>

definition create_leased ::
  "('w, 'st) Ports \<Rightarrow> CallerContext \<Rightarrow> string \<Rightarrow> FileMetadataRecord \<Rightarrow> int \<Rightarrow> ('w, string Exit) action" where
  "create_leased P caller file_source out version w =
     (let hold = (\<lambda>w. if p_claim_hold_millis P > 0 then p_sleep_millis P (p_claim_hold_millis P) w else w);
          record_id = fm_id out in
      if p_md_atomic_claim P \<and> LeaseEnabled P then
        (case EnsureLeaseOwnership P caller file_source w of
           (w, Inl e) \<Rightarrow> (abort_create P caller file_source record_id None version w, Inl e)
         | (w, Inr _) \<Rightarrow>
             let r = LeaseRenewerStart P (cc_partition caller) file_source (LeaseTtlMillis P)
                       (p_lease_renew_interval_seconds P * 1000) w;
                 (r, w) = LeaseRenewerRounds P (r, w);
                 (s, result) =
                   (if LeaseRenewerFailed r
                    then ((abort_create P caller file_source record_id None version w, Some r),
                          Err kUnavailable msg_renew_unavailable)
                    else create_move P caller file_source out version (hold w, Some r))
             in (fst (release_lease P caller file_source record_id s), result))
      else
        (case create_move P caller file_source out version (hold w, None) of ((w, _), result) \<Rightarrow> (w, result)))"

definition CreateFileMetadata ::
  "('w, 'st) Ports \<Rightarrow> CallerContext \<Rightarrow> FileMetadataRecord \<Rightarrow> 'w \<Rightarrow> ('w \<times> string Result) option" where
  "CreateFileMetadata P caller record w =
     (let file_source = FileSourceOf record in
      map_option (audited P caller ''createMetadata'' file_source)
        (case create_claim P caller record w of
           (w, Inl e) \<Rightarrow> Some (w, Inl e)
         | (w, Inr (ReturnExisting existing)) \<Rightarrow>
             Some (FSS_TRY_ST (ReturnExistingRecord P caller existing w) (\<lambda>w i. (w, Ok (Unaudited i))))
         | (w, Inr InProgress) \<Rightarrow>
             map_option (\<lambda>rs. FSS_TRY_ST rs (\<lambda>w i. (w, Ok (Unaudited i)))) (WaitForExistingClaim P caller file_source w)
         | (w, Inr (Proceed out version)) \<Rightarrow> Some (create_leased P caller file_source out version w)))"

section \<open>Records\<close>

definition GetFileMetadata ::
  "('w, 'st) Ports \<Rightarrow> CallerContext \<Rightarrow> string \<Rightarrow> ('w, FileMetadataRecord) action" where
  "GetFileMetadata P caller record_id w =
     audited P caller ''readMetadata'' record_id
       (FSS_TRY_ST (AuthorizeCaller P caller kRoleFileViewers True w) (\<lambda>w _.
        FSS_TRY_ST (p_md_GetById P (cc_partition caller) record_id w) (\<lambda>w record.
          (w, Ok (Audited record_id record)))))"

definition delete_object_of :: "('w, 'st) Ports \<Rightarrow> string \<Rightarrow> string \<Rightarrow> 'w \<Rightarrow> 'w" where
  "delete_object_of P part file_source w =
     (if file_source = [] then w
      else (case p_loc_FindByFileSource P part file_source w of
              (w, Inl _) \<Rightarrow> w
            | (w, Inr location) \<Rightarrow>
                let w = (case ObjectRefFromLocation location of
                           Inl _ \<Rightarrow> w
                         | Inr ref \<Rightarrow> remove_quietly P part (fl_zone location) ref w)
                in fst (p_loc_Delete P part (fl_file_id location) w)))"

definition DeleteFileMetadata :: "('w, 'st) Ports \<Rightarrow> CallerContext \<Rightarrow> string \<Rightarrow> ('w, unit) action" where
  "DeleteFileMetadata P caller record_id w =
     audited P caller ''deleteMetadata'' record_id
       (FSS_TRY_ST (AuthorizeCallerAny P caller [kRoleFileEditors, kRoleFileAdmin] True w) (\<lambda>w _.
        FSS_TRY_ST (p_md_GetById P (cc_partition caller) record_id w) (\<lambda>w record.
        FSS_TRY_ST (p_md_Delete P (cc_partition caller) record_id w) (\<lambda>w _.
          (delete_object_of P (cc_partition caller) (FileSourceOf record) w, Ok (Audited record_id ()))))))"

section \<open>Dataset and delivery interfaces\<close>

record StorageInstructions =
  si_provider_key :: string
  si_signed_url :: string
  si_file_source :: string
  si_created_by :: string
  si_expires_at :: int

definition GetStorageInstructions ::
  "('w, 'st) Ports \<Rightarrow> CallerContext \<Rightarrow> string option \<Rightarrow> ('w, StorageInstructions) action" where
  "GetStorageInstructions P caller expiry_time w =
     audited P caller ''getStorageInstructions'' []
       (FSS_TRY_ST (AuthorizeCaller P caller kRoleDatasetEditors True w) (\<lambda>w _.
        FSS_TRY_ST (IssueUploadLocation P (cc_partition caller) (cc_user_id caller) None expiry_time w) (\<lambda>w location.
          (w, Ok (Audited (lres_file_id location)
             \<lparr>si_provider_key = ToUpper (lres_driver location), si_signed_url = lres_signed_url location,
              si_file_source = lres_file_source location, si_created_by = cc_user_id caller,
              si_expires_at = lres_expires_at location\<rparr>)))))"

record RetrievalInstruction =
  ri_dataset_registry_id :: string
  ri_signed_url :: string
  ri_provider_key :: string
  ri_file_source :: string
  ri_created_by :: string
  ri_expires_at :: int

text \<open>One id of the request: an id that does not resolve is left out.\<close>

definition retrieve_one ::
  "('w, 'st) Ports \<Rightarrow> CallerContext \<Rightarrow> string option \<Rightarrow> string \<Rightarrow> 'w \<Rightarrow> 'w \<times> RetrievalInstruction option" where
  "retrieve_one P caller expiry_time registry_id w =
     (case p_md_GetById P (cc_partition caller) registry_id w of
        (w, Inl _) \<Rightarrow> (w, None)
      | (w, Inr record) \<Rightarrow>
          if FileSourceOf record = [] then (w, None)
          else (case p_loc_FindByFileSource P (cc_partition caller) (FileSourceOf record) w of
                  (w, Inl _) \<Rightarrow> (w, None)
                | (w, Inr location) \<Rightarrow>
                    (case IssueDownloadLocation P (cc_partition caller) (fl_file_id location) expiry_time w of
                       (w, Inl _) \<Rightarrow> (w, None)
                     | (w, Inr signed_url) \<Rightarrow>
                         (w, Some \<lparr>ri_dataset_registry_id = registry_id, ri_signed_url = lres_signed_url signed_url,
                            ri_provider_key = ProviderKeyOf location, ri_file_source = fl_file_source location,
                            ri_created_by = cc_user_id caller, ri_expires_at = lres_expires_at signed_url\<rparr>))))"

fun retrieve_all ::
  "('w, 'st) Ports \<Rightarrow> CallerContext \<Rightarrow> string option \<Rightarrow> string list \<Rightarrow> 'w \<Rightarrow> 'w \<times> RetrievalInstruction list" where
  "retrieve_all P caller expiry_time [] w = (w, [])"
| "retrieve_all P caller expiry_time (i # ids) w =
     (let (w, x) = retrieve_one P caller expiry_time i w; (w, xs) = retrieve_all P caller expiry_time ids w
      in (w, (case x of None \<Rightarrow> xs | Some y \<Rightarrow> y # xs)))"

definition GetRetrievalInstructions ::
  "('w, 'st) Ports \<Rightarrow> CallerContext \<Rightarrow> string list \<Rightarrow> string option \<Rightarrow> ('w, RetrievalInstruction list) action" where
  "GetRetrievalInstructions P caller dataset_registry_ids expiry_time w =
     audited P caller ''getRetrievalInstructions'' []
       (FSS_TRY_ST (AuthorizeCaller P caller kRoleDatasetViewers True w) (\<lambda>w _.
          let (w, out) = retrieve_all P caller expiry_time dataset_registry_ids w in (w, Ok (Audited [] out))))"

record CopyFileOutcome =
  cf_success :: bool
  cf_dataset_blob_storage_path :: string

definition copy_failed :: CopyFileOutcome where
  "copy_failed = \<lparr>cf_success = False, cf_dataset_blob_storage_path = []\<rparr>"

definition copy_one :: "('w, 'st) Ports \<Rightarrow> CallerContext \<Rightarrow> string \<Rightarrow> ('w, CopyFileOutcome) action" where
  "copy_one P caller file_source w =
     (if \<not> LooksLikeFileSource file_source
      then (w, Err kInvalidSourcePath (''Invalid source file path to copy from '' @ file_source))
      else (case p_loc_FindByFileSource P (cc_partition caller) file_source w of
              (w, Inl _) \<Rightarrow> (w, Ok copy_failed)
            | (w, Inr location) \<Rightarrow>
                (case (ObjectRefFromLocation location,
                       ContainerForRegistry (p_partition_Get P) (cc_partition caller) kPersistent) of
                   (Inr from_ref, Inr persistent_container) \<Rightarrow>
                     let to_ref = \<lparr>or_container = persistent_container, or_key = or_key from_ref, or_version_id = None\<rparr>;
                         (w, copied) = CopyBetweenZones P (cc_partition caller) from_ref to_ref (fl_zone location) kPersistent w
                     in (w, Ok \<lparr>cf_success = is_ok copied,
                               cf_dataset_blob_storage_path = or_container to_ref @ ''/'' @ or_key to_ref\<rparr>)
                 | _ \<Rightarrow> (w, Ok copy_failed))))"

fun copy_all :: "('w, 'st) Ports \<Rightarrow> CallerContext \<Rightarrow> string list \<Rightarrow> ('w, CopyFileOutcome list) action" where
  "copy_all P caller [] w = (w, Ok [])"
| "copy_all P caller (f # fs) w =
     FSS_TRY_ST (copy_one P caller f w) (\<lambda>w x. FSS_TRY_ST (copy_all P caller fs w) (\<lambda>w xs. (w, Ok (x # xs))))"

definition CopyFiles :: "('w, 'st) Ports \<Rightarrow> CallerContext \<Rightarrow> string list \<Rightarrow> ('w, CopyFileOutcome list) action" where
  "CopyFiles P caller sources w =
     audited P caller ''copyFiles'' []
       (FSS_TRY_ST (AuthorizeCallerAny P caller [kRoleStorageCreator, kRoleStorageAdmin] True w) (\<lambda>w _.
        FSS_TRY_ST (copy_all P caller sources w) (\<lambda>w out. (w, Ok (Audited [] out)))))"

record SignedUrlEntry =
  su_signed_url :: string
  su_unsigned_url :: string
  su_kind :: string

record SignedUrlResult =
  sr_processed :: "(string \<times> SignedUrlEntry) list"
  sr_unprocessed :: "string list"

definition kSrnPrefix :: string where "kSrnPrefix = ''srn:file/''"

definition sign_one ::
  "('w, 'st) Ports \<Rightarrow> CallerContext \<Rightarrow> string option \<Rightarrow> string \<Rightarrow> 'w \<Rightarrow> 'w \<times> SignedUrlEntry option" where
  "sign_one P caller expiry_time srn w =
     (if \<not> starts_with kSrnPrefix srn \<or> length srn = length kSrnPrefix then (w, None)
      else
        let file_id = drop (length kSrnPrefix) srn in
        (case p_loc_Find P (cc_partition caller) file_id w of
           (w, Inl _) \<Rightarrow> (w, None)
         | (w, Inr location) \<Rightarrow>
             (case IssueDownloadLocation P (cc_partition caller) file_id expiry_time w of
                (w, Inl _) \<Rightarrow> (w, None)
              | (w, Inr signed_url) \<Rightarrow>
                  let (w, record) = p_md_GetLatestByFileSource P (cc_partition caller) (fl_file_source location) w
                  in (w, Some \<lparr>su_signed_url = lres_signed_url signed_url, su_unsigned_url = lres_file_source signed_url,
                               su_kind = (case record of Inl _ \<Rightarrow> [] | Inr r \<Rightarrow> fm_kind r)\<rparr>))))"

text \<open>\<^verbatim>\<open>processed.emplace\<close> keeps the first entry of a key.\<close>

fun sign_all ::
  "('w, 'st) Ports \<Rightarrow> CallerContext \<Rightarrow> string option \<Rightarrow> string list \<Rightarrow> SignedUrlResult \<Rightarrow> 'w \<Rightarrow> 'w \<times> SignedUrlResult" where
  "sign_all P caller expiry_time [] out w = (w, out)"
| "sign_all P caller expiry_time (srn # srns) out w =
     (case sign_one P caller expiry_time srn w of
        (w, None) \<Rightarrow> sign_all P caller expiry_time srns (out\<lparr>sr_unprocessed := sr_unprocessed out @ [srn]\<rparr>) w
      | (w, Some e) \<Rightarrow> sign_all P caller expiry_time srns
          (if map_of (sr_processed out) srn = None
           then out\<lparr>sr_processed := map_put srn e (sr_processed out)\<rparr> else out) w)"

definition GetFileSignedUrl ::
  "('w, 'st) Ports \<Rightarrow> CallerContext \<Rightarrow> string list \<Rightarrow> string option \<Rightarrow> ('w, SignedUrlResult) action" where
  "GetFileSignedUrl P caller srns expiry_time w =
     audited P caller ''getFileSignedUrl'' []
       (FSS_TRY_ST (AuthorizeCaller P caller kRoleDeliveryViewer True w) (\<lambda>w _.
          let (w, out) = sign_all P caller expiry_time srns \<lparr>sr_processed = [], sr_unprocessed = []\<rparr> w
          in (w, Ok (Audited [] out))))"

definition RevokeUrl :: "('w, 'st) Ports \<Rightarrow> CallerContext \<Rightarrow> ('w, unit) action" where
  "RevokeUrl P caller w =
     audited P caller ''revokeUrl'' []
       (FSS_TRY_ST (AuthorizeCaller P caller kRoleFileAdmin False w) (\<lambda>w _. (w, Ok (Audited [] ()))))"

record VersionInfo =
  vi_version :: string
  vi_build_version :: string
  vi_connected_outer_services :: "string list"
  vi_auth_mode :: string
  vi_io_engine :: string
  vi_io_uring_available :: bool
  vi_instance_id :: string
  vi_large_file_plane :: string

definition GetInfo :: "('w, 'st) Ports \<Rightarrow> VersionInfo Result" where
  "GetInfo P = Ok \<lparr>vi_version = ''v2'', vi_build_version = p_build_version P,
     vi_connected_outer_services = [''storage''], vi_auth_mode = p_auth_mode P, vi_io_engine = p_io_engine P,
     vi_io_uring_available = p_io_uring_available P, vi_instance_id = p_instance_id P,
     vi_large_file_plane = p_large_file_plane P\<rparr>"

section \<open>Streaming extensions\<close>

record UploadStreamRequest =
  us_file_source :: string
  us_container :: "string option"
  us_key :: "string option"
  us_content_type :: string
  us_expected_checksum :: string
  us_checksum_algorithm :: string
  us_register_metadata :: bool
  us_metadata :: "FileMetadataRecord option"

record UploadStreamResult =
  ur_file_id :: string
  ur_file_source :: string
  ur_checksum :: string
  ur_checksum_algorithm :: string
  ur_bytes_written :: nat
  ur_metadata_record_id :: string

definition upload_target ::
  "('w, 'st) Ports \<Rightarrow> CallerContext \<Rightarrow> UploadStreamRequest \<Rightarrow> ('w, FileLocation \<times> ObjectRef) action" where
  "upload_target P caller request w =
     FSS_TRY_ST (AuthorizeCaller P caller kRoleFileEditors True w) (\<lambda>w _.
       if us_file_source request = []
       then (w, Err kInvalidArgument msg_upload_needs_source)
       else (case p_loc_FindByFileSource P (cc_partition caller) (us_file_source request) w of
               (w, Inl _) \<Rightarrow> (w, Err kNotFound (msg_no_location_open @ us_file_source request @
                  msg_no_location_close))
             | (w, Inr location) \<Rightarrow>
                 FSS_TRY_ST (w, ObjectRefFromLocation location) (\<lambda>w ref.
                   if us_container request \<noteq> None \<and> the (us_container request) \<noteq> or_container ref
                   then (w, Err kPermissionDenied msg_container_override)
                   else if us_key request \<noteq> None \<and> the (us_key request) \<noteq> or_key ref
                   then (w, Err kPermissionDenied msg_key_override)
                   else (w, Ok (location, ref)))))"

definition upload_bytes ::
  "('w, 'st) Ports \<Rightarrow> CallerContext \<Rightarrow> UploadStreamRequest \<Rightarrow> (nat \<Rightarrow> string Result) \<Rightarrow> FileLocation \<Rightarrow> ObjectRef \<Rightarrow>
   ('w, UploadStreamResult) action" where
  "upload_bytes P caller request body location ref w =
     FSS_TRY_ST (w, p_ForPartition P (cc_partition caller) (fl_zone location)) (\<lambda>w store.
     FSS_TRY_ST (p_ensure_container P store (or_container ref) w) (\<lambda>w _.
     FSS_TRY_ST (p_put P store ref (RequestBody body)
        \<lparr>pu_content_type = us_content_type request, pu_expected_checksum = us_expected_checksum request,
         pu_checksum_algorithm = us_checksum_algorithm request, pu_expected_size = - 1\<rparr> w) (\<lambda>w _.
     FSS_TRY_ST (p_stat P store ref w) (\<lambda>w stat.
     FSS_TRY_ST
       (if os_checksum stat = []
        then FSS_TRY_ST (ComputeChecksumStreaming P (cc_partition caller) ref (fl_zone location) kSha256 w)
               (\<lambda>w computed. (w, Ok (computed, ''SHA256'')))
        else (w, Ok (os_checksum stat, os_checksum_algorithm stat))) (\<lambda>w ca.
       (w, Ok \<lparr>ur_file_id = fl_file_id location, ur_file_source = fl_file_source location,
               ur_checksum = fst ca, ur_checksum_algorithm = snd ca,
               ur_bytes_written = (if os_size stat > 0 then nat (os_size stat) else 0),
               ur_metadata_record_id = []\<rparr>))))))"

definition UploadFile ::
  "('w, 'st) Ports \<Rightarrow> CallerContext \<Rightarrow> UploadStreamRequest \<Rightarrow> (nat \<Rightarrow> string Result) \<Rightarrow> 'w \<Rightarrow>
   ('w \<times> UploadStreamResult Result) option" where
  "UploadFile P caller request body w =
     map_option (audited P caller ''uploadFile'' (us_file_source request))
       (case FSS_TRY_ST (upload_target P caller request w) (\<lambda>w (location, ref).
               upload_bytes P caller request body location ref w) of
          (w, Inl e) \<Rightarrow> Some (w, Inl e)
        | (w, Inr out) \<Rightarrow>
            if \<not> us_register_metadata request then Some (w, Ok (Audited (ur_file_id out) out))
            else (case us_metadata request of
                    None \<Rightarrow> Some (w, Err kInvalidArgument msg_register_needs_metadata)
                  | Some record \<Rightarrow>
                      if FileSourceOf record \<noteq> us_file_source request
                      then Some (w, Err kInvalidArgument msg_metadata_source_differs)
                      else map_option (\<lambda>rs. FSS_TRY_ST rs (\<lambda>w i.
                             (w, Ok (Audited (ur_file_id out) (out\<lparr>ur_metadata_record_id := i\<rparr>)))))
                             (CreateFileMetadata P caller record w)))"

record DownloadStreamResult =
  ds_total_size :: int
  ds_checksum :: string
  ds_checksum_algorithm :: string
  ds_bytes_written :: nat

text \<open>The bytes the sink received are returned beside the result.\<close>

definition DownloadFile ::
  "('w, 'st) Ports \<Rightarrow> CallerContext \<Rightarrow> string \<Rightarrow> string \<Rightarrow> nat \<Rightarrow> nat \<Rightarrow> ('w, DownloadStreamResult \<times> string) action" where
  "DownloadFile P caller file_id file_source offset len w =
     (let object_id = (if file_id = [] then file_source else file_id) in
      audited P caller ''downloadFile'' object_id
        (FSS_TRY_ST (AuthorizeCaller P caller kRoleFileViewers True w) (\<lambda>w _.
           if file_id = [] \<and> file_source = []
           then (w, Err kInvalidArgument msg_download_needs_id)
           else
             FSS_TRY_ST (if file_id = [] then p_loc_FindByFileSource P (cc_partition caller) file_source w
                         else p_loc_Find P (cc_partition caller) file_id w) (\<lambda>w resolved.
             FSS_TRY_ST (w, ObjectRefFromLocation resolved) (\<lambda>w ref.
             FSS_TRY_ST (w, p_ForPartition P (cc_partition caller) (fl_zone resolved)) (\<lambda>w store.
             FSS_TRY_ST (p_stat P store ref w) (\<lambda>w stat.
               if \<not> os_exists stat then (w, Err kNotFound (msg_object_missing @ or_key ref))
               else
                 FSS_TRY_ST (p_get P store ref \<lparr>br_offset = offset, br_length = len\<rparr> w) (\<lambda>w data.
                   (w, Ok (Audited object_id
                      (\<lparr>ds_total_size = os_size stat, ds_checksum = os_checksum stat,
                        ds_checksum_algorithm = os_checksum_algorithm stat,
                        ds_bytes_written = length data\<rparr>, data)))))))))))"

record ServerSideCopyResult =
  sc_file_source :: string
  sc_bytes_copied :: nat

definition ServerSideCopy ::
  "('w, 'st) Ports \<Rightarrow> CallerContext \<Rightarrow> string \<Rightarrow> string \<Rightarrow> StorageZone \<Rightarrow> ('w, ServerSideCopyResult) action" where
  "ServerSideCopy P caller source_file_source target_file_source target_zone w =
     audited P caller ''serverSideCopy'' source_file_source
       (FSS_TRY_ST (AuthorizeCallerAny P caller [kRoleStorageCreator, kRoleStorageAdmin] True w) (\<lambda>w _.
          if \<not> LooksLikeFileSource source_file_source
          then (w, Err kInvalidSourcePath (''Invalid source file path to copy from '' @ source_file_source))
          else if \<not> LooksLikeFileSource target_file_source
          then (w, Err kInvalidArgument (msg_target_source_bad @ target_file_source))
          else
            FSS_TRY_ST (p_loc_FindByFileSource P (cc_partition caller) source_file_source w) (\<lambda>w source_location.
            FSS_TRY_ST (w, ObjectRefFromLocation source_location) (\<lambda>w from_ref.
            FSS_TRY_ST (w, ParseFileSource target_file_source) (\<lambda>w parts.
            FSS_TRY_ST (w, ContainerForRegistry (p_partition_Get P) (cc_partition caller) target_zone) (\<lambda>w container.
            let to_ref = \<lparr>or_container = container, or_key = MakePosixKey parts, or_version_id = None\<rparr> in
            FSS_TRY_ST (CopyBetweenZones P (cc_partition caller) from_ref to_ref (fl_zone source_location) target_zone w) (\<lambda>w stat.
              (w, Ok (Audited (fl_file_id source_location)
                 \<lparr>sc_file_source = target_file_source,
                  sc_bytes_copied = (if os_size stat > 0 then nat (os_size stat) else 0)\<rparr>)))))))))"

section \<open>Callers and wire shapes\<close>

definition CallerFromHeaders :: "(string \<Rightarrow> string option) \<Rightarrow> string \<Rightarrow> string \<Rightarrow> CallerContext" where
  "CallerFromHeaders lookup correlation_id default_user_id =
     (let get = (\<lambda>k. case lookup k of None \<Rightarrow> [] | Some v \<Rightarrow> v); user_id = get ''x-user-id'' in
      \<lparr>cc_partition = get ''data-partition-id'',
       cc_user_id = (if user_id = [] then default_user_id else user_id),
       cc_bearer_token = get ''authorization'', cc_correlation_id = correlation_id\<rparr>)"

definition FileNameOfPath :: "string \<Rightarrow> string" where
  "FileNameOfPath path = rev (takeWhile (\<lambda>c. c \<noteq> CHR ''/'') (rev path))"

text \<open>\<^verbatim>\<open>find\<close> on a value that is no object returns its end: nothing is found.\<close>

definition FileSourceFromRecordNode :: "json \<Rightarrow> string" where
  "FileSourceFromRecordNode node =
     (case node of
        JString s \<Rightarrow> s
      | JObject m \<Rightarrow>
          (case jfind node ''FileSource'' of
             Some (JString s) \<Rightarrow> s
           | _ \<Rightarrow>
               (case jfind node ''data'' of
                  None \<Rightarrow> []
                | Some data \<Rightarrow>
                    (case jfind data ''DatasetProperties'' of
                       None \<Rightarrow> []
                     | Some props \<Rightarrow>
                         (case jfind props ''FileSourceInfo'' of
                            None \<Rightarrow> []
                          | Some info \<Rightarrow> (case jfind info ''FileSource'' of Some (JString s) \<Rightarrow> s | _ \<Rightarrow> [])))))
      | _ \<Rightarrow> [])"

definition DmsLocationJson :: "string \<Rightarrow> string \<Rightarrow> string \<Rightarrow> int \<Rightarrow> bool \<Rightarrow> int \<Rightarrow> string list \<Rightarrow> json" where
  "DmsLocationJson signed_url source created_by expires_at collection file_count file_names =
     (let m = jset ''signedUrl'' (JString signed_url) [];
          m = jset (if collection then ''fileCollectionSource'' else ''fileSource'') (JString source) m;
          m = (if collection then
                 let names = (if file_names = [] \<and> source \<noteq> [] then [FileNameOfPath source] else file_names);
                     m = jset ''fileCount'' (JInt (if names = [] then file_count else int (length names))) m
                 in jset ''fileNames'' (jstrings names) m
               else m);
          m = jset ''createdBy'' (JString created_by) m
      in JObject (jset ''expiryTime'' (JString (ToOsduTimestamp expires_at 0)) m))"

end
