(* ===== verification/Memory_World.thy ===== *)
theory Memory_World
  imports Use_Cases
begin

text \<open>
  The service assembled as the composition root does without external systems
  (\<^verbatim>\<open>main/server_main\<close>): one object store for all partitions and zones, as its \<^verbatim>\<open>SingleStoreFactory\<close> gives, the
  repositories, the log-only event publisher, the validators that check only presence, the single registered partition.
  The in-memory implementations stand for the drivers the configuration can choose. The authorizer, the audit
  sink (log, none, or one that fails), the token codec, the digests and the configuration come from \<open>cfg\<close>; the rest of
  the ports is the model of the components.
\<close>

section \<open>Clock and identifiers\<close>

record ManualClock =
  mc_seconds :: int
  mc_millis :: int
  mc_steady_nanos :: int

definition ClockNowEpochMillis :: "ManualClock \<Rightarrow> int" where
  "ClockNowEpochMillis c = mc_seconds c * 1000 + mc_millis c"

definition AdvanceMillis :: "int \<Rightarrow> ManualClock \<Rightarrow> ManualClock" where
  "AdvanceMillis ms c =
     (let m = mc_millis c + ms in c\<lparr>mc_seconds := mc_seconds c + tdiv m 1000, mc_millis := tmod m 1000\<rparr>)"

definition AdvanceSteady :: "int \<Rightarrow> ManualClock \<Rightarrow> ManualClock" where
  "AdvanceSteady ms c = c\<lparr>mc_steady_nanos := mc_steady_nanos c + ms * 1000000\<rparr>"

fun hex_digits :: "nat \<Rightarrow> nat \<Rightarrow> string" where
  "hex_digits 0 n = []"
| "hex_digits (Suc w) n = hex_digits w (n div 16) @ [kHexDigits ! (n mod 16)]"

text \<open>\<^verbatim>\<open>%032llx\<close> of a 64-bit counter.\<close>

definition SequentialNewUuidNoDash :: "nat \<Rightarrow> nat \<times> string" where
  "SequentialNewUuidNoDash next = ((next + 1) mod 2 ^ 64, hex_digits 32 next)"

section \<open>The world\<close>

record World =
  w_md :: MdState
  w_loc :: LocState
  w_lease :: LeaseState
  w_blob :: BlobState
  w_clock :: ManualClock
  w_next_id :: nat
  w_audit :: "AuditEvent list"
  w_status :: "StatusChangedEvent list"
  w_details :: "DatasetDetailsEvent list"

definition on_md :: "(MdState \<Rightarrow> MdState \<times> 'a) \<Rightarrow> World \<Rightarrow> World \<times> 'a" where
  "on_md f w = (case f (w_md w) of (s, r) \<Rightarrow> (w\<lparr>w_md := s\<rparr>, r))"

definition on_loc :: "(LocState \<Rightarrow> LocState \<times> 'a) \<Rightarrow> World \<Rightarrow> World \<times> 'a" where
  "on_loc f w = (case f (w_loc w) of (s, r) \<Rightarrow> (w\<lparr>w_loc := s\<rparr>, r))"

definition on_lease :: "(LeaseState \<Rightarrow> LeaseState \<times> 'a) \<Rightarrow> World \<Rightarrow> World \<times> 'a" where
  "on_lease f w = (case f (w_lease w) of (s, r) \<Rightarrow> (w\<lparr>w_lease := s\<rparr>, r))"

definition on_blob :: "(BlobState \<Rightarrow> BlobState \<times> 'a) \<Rightarrow> World \<Rightarrow> World \<times> 'a" where
  "on_blob f w = (case f (w_blob w) of (s, r) \<Rightarrow> (w\<lparr>w_blob := s\<rparr>, r))"

lemmas on_defs = on_md_def on_loc_def on_lease_def on_blob_def

definition now_seconds :: "World \<Rightarrow> int" where
  "now_seconds w = mc_seconds (w_clock w)"

definition now_millis :: "World \<Rightarrow> int" where
  "now_millis w = ClockNowEpochMillis (w_clock w)"

section \<open>Parts of the composition root\<close>

definition AllowAllAuthorize :: "string \<Rightarrow> string \<Rightarrow> string \<Rightarrow> unit Result" where
  "AllowAllAuthorize required_role part bearer_token =
     (if bearer_token = [] then Err kUnauthenticated ''Missing authorization token''
      else if part = [] then Err kUnauthenticated ''Missing partitionID''
      else Ok ())"

definition AllowAllAuthorizeAny :: "string list \<Rightarrow> string \<Rightarrow> string \<Rightarrow> unit Result" where
  "AllowAllAuthorizeAny required_roles part bearer_token =
     (case required_roles of
        [] \<Rightarrow> Err kInternal msg_authorize_any_empty
      | r # _ \<Rightarrow> AllowAllAuthorize r part bearer_token)"

definition NoopLegalValidate :: "string \<Rightarrow> string list \<Rightarrow> unit Result" where
  "NoopLegalValidate part tags = (if tags = [] then Err kInvalidArgument msg_legal_tags_empty else Ok ())"

definition NoopSchemaValidate :: "string \<Rightarrow> json \<Rightarrow> unit Result" where
  "NoopSchemaValidate kind record = Ok ()"

definition StaticPartitionGet :: "PartitionConfig \<Rightarrow> string \<Rightarrow> PartitionConfig Result" where
  "StaticPartitionGet config part =
     (if part \<noteq> pc_partition config then Err kNotFound (msg_partition_unregistered @ part) else Ok config)"

definition LogPublishStatusChanged :: "string \<Rightarrow> StatusChangedEvent \<Rightarrow> World \<Rightarrow> World \<times> unit Result" where
  "LogPublishStatusChanged topic event w = (w\<lparr>w_status := w_status w @ [event]\<rparr>, Ok ())"

definition LogPublishDatasetDetails :: "string \<Rightarrow> DatasetDetailsEvent \<Rightarrow> World \<Rightarrow> World \<times> unit Result" where
  "LogPublishDatasetDetails topic event w = (w\<lparr>w_details := w_details w @ [event]\<rparr>, Ok ())"

definition LogAuditRecord :: "AuditEvent \<Rightarrow> World \<Rightarrow> World \<times> unit Result" where
  "LogAuditRecord event w = (w\<lparr>w_audit := w_audit w @ [event]\<rparr>, Ok ())"

text \<open>The sink when auditing is off, and the one that injects faults.\<close>

definition NoopAuditRecord :: "AuditEvent \<Rightarrow> World \<Rightarrow> World \<times> unit Result" where
  "NoopAuditRecord event w = (w, Ok ())"

definition FailingAuditRecord :: "AuditEvent \<Rightarrow> World \<Rightarrow> World \<times> unit Result" where
  "FailingAuditRecord event w = (w, Err kInternal msg_audit_injected)"

definition SingleStoreForPartition :: "string \<Rightarrow> StorageZone \<Rightarrow> unit Result" where
  "SingleStoreForPartition part zone = Ok ()"

text \<open>With one store no object is ever read through a byte source into another store; such a source
  would be an object of the same store, and is refused.\<close>

fun read_all :: "unit ByteSource \<Rightarrow> nat \<Rightarrow> string Result" where
  "read_all (StringSource d) limit = Ok d"
| "read_all (RequestBody body) limit = body limit"
| "read_all (StoreByteSource st ref n) limit = Err kInternal []"

section \<open>The ports of this world\<close>

definition mem_ports :: "(string \<Rightarrow> string) \<Rightarrow> PartitionConfig \<Rightarrow> (World, unit) Ports \<Rightarrow> (World, unit) Ports" where
  "mem_ports sha256_hex config cfg = cfg\<lparr>
     p_ForPartition := SingleStoreForPartition,
     p_capabilities := (\<lambda>_. BlobCapabilitiesOf),
     p_ensure_container := (\<lambda>_ c. on_blob (\<lambda>s. BlobEnsureContainer s c)),
     p_presign_put := (\<lambda>_ ref o'. on_blob (\<lambda>s. BlobPresign opPresignPut s ref o')),
     p_presign_get := (\<lambda>_ ref o'. on_blob (\<lambda>s. BlobPresign opPresignGet s ref o')),
     p_put := (\<lambda>_ ref src o' w. on_blob (\<lambda>s. BlobPut sha256_hex (now_seconds w) s ref (read_all src) o') w),
     p_get := (\<lambda>_ ref rg. on_blob (\<lambda>s. BlobGet s ref rg)),
     p_stat := (\<lambda>_ ref. on_blob (\<lambda>s. BlobStat s ref)),
     p_remove := (\<lambda>_ ref. on_blob (\<lambda>s. BlobRemove s ref)),
     p_copy := (\<lambda>_ a b w. on_blob (\<lambda>s. BlobCopy (now_seconds w) s a b) w),
     p_loc_Save := (\<lambda>part l. on_loc (\<lambda>s. LocSave s part l)),
     p_loc_Find := (\<lambda>part i w. (w, LocFind (w_loc w) part i)),
     p_loc_Delete := (\<lambda>part i. on_loc (\<lambda>s. LocDelete s part i)),
     p_loc_FindByFileSource := (\<lambda>part f w. (w, LocFindByFileSource (w_loc w) part f)),
     p_loc_List := (\<lambda>part q w. (w, LocList (w_loc w) part q)),
     p_md_atomic_claim := True,
     p_md_Create := (\<lambda>part r w. on_md (\<lambda>s. MdCreate (now_seconds w) s part r) w),
     p_md_ClaimForWrite := (\<lambda>part r w. on_md (\<lambda>s. MdClaimForWrite (now_seconds w) s part r) w),
     p_md_MarkReady := (\<lambda>part i v r. on_md (\<lambda>s. MdMarkReady s part i v r)),
     p_md_ReleaseClaim := (\<lambda>part i v. on_md (\<lambda>s. MdReleaseClaim s part i v)),
     p_md_GetById := (\<lambda>part i w. (w, MdGetById (w_md w) part i)),
     p_md_GetLatestByFileSource := (\<lambda>part f w. (w, MdGetLatestByFileSource (w_md w) part f)),
     p_md_Delete := (\<lambda>part i. on_md (\<lambda>s. MdDelete s part i)),
     p_PublishStatusChanged := LogPublishStatusChanged,
     p_PublishDatasetDetails := LogPublishDatasetDetails,
     p_partition_Get := StaticPartitionGet config,
     p_legal_Validate := (\<lambda>part tags w. (w, NoopLegalValidate part tags)),
     p_schema_Validate := (\<lambda>kind r w. (w, NoopSchemaValidate kind r)),
     p_NowEpochSeconds := now_seconds,
     p_NowEpochMillis := now_millis,
     p_NewUuidNoDash := (\<lambda>w. case SequentialNewUuidNoDash (w_next_id w) of (n, i) \<Rightarrow> (w\<lparr>w_next_id := n\<rparr>, i)),
     p_lease_Acquire := (\<lambda>part f who ttl w. on_lease (\<lambda>s. LeaseAcquire (now_millis w) s part f who ttl) w),
     p_lease_Renew := (\<lambda>part f who ttl w. on_lease (\<lambda>s. LeaseRenew (now_millis w) s part f who ttl) w),
     p_lease_Release := (\<lambda>part f who. on_lease (\<lambda>s. LeaseRelease s part f who)),
     p_sleep_millis := (\<lambda>ms w. w\<lparr>w_clock := AdvanceSteady ms (AdvanceMillis ms (w_clock w))\<rparr>),
     p_steady_nanos := (\<lambda>w. mc_steady_nanos (w_clock w))\<rparr>"

lemma mem_ports_sel [simp]:
  "p_ForPartition (mem_ports sha config cfg) = SingleStoreForPartition"
  "p_capabilities (mem_ports sha config cfg) = (\<lambda>_. BlobCapabilitiesOf)"
  "p_ensure_container (mem_ports sha config cfg) = (\<lambda>_ c. on_blob (\<lambda>s. BlobEnsureContainer s c))"
  "p_put (mem_ports sha config cfg) = (\<lambda>_ ref src o' w. on_blob (\<lambda>s. BlobPut sha (now_seconds w) s ref (read_all src) o') w)"
  "p_get (mem_ports sha config cfg) = (\<lambda>_ ref rg. on_blob (\<lambda>s. BlobGet s ref rg))"
  "p_stat (mem_ports sha config cfg) = (\<lambda>_ ref. on_blob (\<lambda>s. BlobStat s ref))"
  "p_remove (mem_ports sha config cfg) = (\<lambda>_ ref. on_blob (\<lambda>s. BlobRemove s ref))"
  "p_copy (mem_ports sha config cfg) = (\<lambda>_ a b w. on_blob (\<lambda>s. BlobCopy (now_seconds w) s a b) w)"
  "p_loc_Save (mem_ports sha config cfg) = (\<lambda>part l. on_loc (\<lambda>s. LocSave s part l))"
  "p_loc_Find (mem_ports sha config cfg) = (\<lambda>part i w. (w, LocFind (w_loc w) part i))"
  "p_loc_Delete (mem_ports sha config cfg) = (\<lambda>part i. on_loc (\<lambda>s. LocDelete s part i))"
  "p_loc_FindByFileSource (mem_ports sha config cfg) = (\<lambda>part f w. (w, LocFindByFileSource (w_loc w) part f))"
  "p_loc_List (mem_ports sha config cfg) = (\<lambda>part q w. (w, LocList (w_loc w) part q))"
  "p_md_atomic_claim (mem_ports sha config cfg)"
  "p_md_ClaimForWrite (mem_ports sha config cfg) = (\<lambda>part r w. on_md (\<lambda>s. MdClaimForWrite (now_seconds w) s part r) w)"
  "p_md_MarkReady (mem_ports sha config cfg) = (\<lambda>part i v r. on_md (\<lambda>s. MdMarkReady s part i v r))"
  "p_md_ReleaseClaim (mem_ports sha config cfg) = (\<lambda>part i v. on_md (\<lambda>s. MdReleaseClaim s part i v))"
  "p_md_GetById (mem_ports sha config cfg) = (\<lambda>part i w. (w, MdGetById (w_md w) part i))"
  "p_md_GetLatestByFileSource (mem_ports sha config cfg) = (\<lambda>part f w. (w, MdGetLatestByFileSource (w_md w) part f))"
  "p_md_Delete (mem_ports sha config cfg) = (\<lambda>part i. on_md (\<lambda>s. MdDelete s part i))"
  "p_PublishStatusChanged (mem_ports sha config cfg) = LogPublishStatusChanged"
  "p_PublishDatasetDetails (mem_ports sha config cfg) = LogPublishDatasetDetails"
  "p_partition_Get (mem_ports sha config cfg) = StaticPartitionGet config"
  "p_legal_Validate (mem_ports sha config cfg) = (\<lambda>part tags w. (w, NoopLegalValidate part tags))"
  "p_schema_Validate (mem_ports sha config cfg) = (\<lambda>kind r w. (w, NoopSchemaValidate kind r))"
  "p_NowEpochSeconds (mem_ports sha config cfg) = now_seconds"
  "p_NowEpochMillis (mem_ports sha config cfg) = now_millis"
  "p_NewUuidNoDash (mem_ports sha config cfg) =
     (\<lambda>w. case SequentialNewUuidNoDash (w_next_id w) of (n, i) \<Rightarrow> (w\<lparr>w_next_id := n\<rparr>, i))"
  "p_lease_Acquire (mem_ports sha config cfg) = (\<lambda>part f who ttl w. on_lease (\<lambda>s. LeaseAcquire (now_millis w) s part f who ttl) w)"
  "p_lease_Renew (mem_ports sha config cfg) = (\<lambda>part f who ttl w. on_lease (\<lambda>s. LeaseRenew (now_millis w) s part f who ttl) w)"
  "p_lease_Release (mem_ports sha config cfg) = (\<lambda>part f who. on_lease (\<lambda>s. LeaseRelease s part f who))"
  "p_sleep_millis (mem_ports sha config cfg) = (\<lambda>ms w. w\<lparr>w_clock := AdvanceSteady ms (AdvanceMillis ms (w_clock w))\<rparr>)"
  "p_steady_nanos (mem_ports sha config cfg) = (\<lambda>w. mc_steady_nanos (w_clock w))"
  by (simp_all add: mem_ports_def)

lemma mem_ports_cfg [simp]:
  "p_Authorize (mem_ports sha config cfg) = p_Authorize cfg"
  "p_AuthorizeAny (mem_ports sha config cfg) = p_AuthorizeAny cfg"
  "p_HexDigest (mem_ports sha config cfg) = p_HexDigest cfg"
  "p_Record (mem_ports sha config cfg) = p_Record cfg"
  "p_Encode (mem_ports sha config cfg) = p_Encode cfg"
  "p_thread_start (mem_ports sha config cfg) = p_thread_start cfg"
  "p_renew_rounds (mem_ports sha config cfg) = p_renew_rounds cfg"
  "p_audit_fail_closed (mem_ports sha config cfg) = p_audit_fail_closed cfg"
  "p_leases_enabled (mem_ports sha config cfg) = p_leases_enabled cfg"
  "p_leases_present (mem_ports sha config cfg) = p_leases_present cfg"
  "p_instance_id (mem_ports sha config cfg) = p_instance_id cfg"
  "p_claim_hold_millis (mem_ports sha config cfg) = p_claim_hold_millis cfg"
  "p_issuer_registry (mem_ports sha config cfg) = p_issuer_registry cfg"
  "p_expiry (mem_ports sha config cfg) = p_expiry cfg"
  "p_self_signed_ttl (mem_ports sha config cfg) = p_self_signed_ttl cfg"
  "p_self_base_url (mem_ports sha config cfg) = p_self_base_url cfg"
  by (simp_all add: mem_ports_def)

section \<open>A configuration\<close>

text \<open>The settings of a development deployment: any bearer token is accepted, tokens are carried in
  the clear, a digest is the length of the content.\<close>

definition dev_ports :: "(World, unit) Ports" where
  "dev_ports =
     \<lparr>p_ForPartition = SingleStoreForPartition, p_capabilities = (\<lambda>_. BlobCapabilitiesOf),
      p_ensure_container = (\<lambda>_ c. on_blob (\<lambda>s. BlobEnsureContainer s c)),
      p_presign_put = (\<lambda>_ ref o'. on_blob (\<lambda>s. BlobPresign opPresignPut s ref o')),
      p_presign_get = (\<lambda>_ ref o'. on_blob (\<lambda>s. BlobPresign opPresignGet s ref o')),
      p_put = (\<lambda>_ ref src o' w. (w, Err kInternal [])), p_get = (\<lambda>_ ref rg. on_blob (\<lambda>s. BlobGet s ref rg)),
      p_stat = (\<lambda>_ ref. on_blob (\<lambda>s. BlobStat s ref)), p_remove = (\<lambda>_ ref. on_blob (\<lambda>s. BlobRemove s ref)),
      p_copy = (\<lambda>_ a b w. on_blob (\<lambda>s. BlobCopy (now_seconds w) s a b) w),
      p_loc_Save = (\<lambda>part l. on_loc (\<lambda>s. LocSave s part l)), p_loc_Find = (\<lambda>part i w. (w, LocFind (w_loc w) part i)),
      p_loc_Delete = (\<lambda>part i. on_loc (\<lambda>s. LocDelete s part i)),
      p_loc_FindByFileSource = (\<lambda>part f w. (w, LocFindByFileSource (w_loc w) part f)),
      p_loc_List = (\<lambda>part q w. (w, LocList (w_loc w) part q)), p_md_atomic_claim = True,
      p_md_Create = (\<lambda>part r w. on_md (\<lambda>s. MdCreate (now_seconds w) s part r) w),
      p_md_ClaimForWrite = (\<lambda>part r w. on_md (\<lambda>s. MdClaimForWrite (now_seconds w) s part r) w),
      p_md_MarkReady = (\<lambda>part i v r. on_md (\<lambda>s. MdMarkReady s part i v r)),
      p_md_ReleaseClaim = (\<lambda>part i v. on_md (\<lambda>s. MdReleaseClaim s part i v)),
      p_md_GetById = (\<lambda>part i w. (w, MdGetById (w_md w) part i)),
      p_md_GetLatestByFileSource = (\<lambda>part f w. (w, MdGetLatestByFileSource (w_md w) part f)),
      p_md_Delete = (\<lambda>part i. on_md (\<lambda>s. MdDelete s part i)),
      p_Authorize = (\<lambda>role part token w. (w, AllowAllAuthorize role part token)),
      p_AuthorizeAny = (\<lambda>roles part token w. (w, AllowAllAuthorizeAny roles part token)),
      p_PublishStatusChanged = LogPublishStatusChanged, p_PublishDatasetDetails = LogPublishDatasetDetails,
      p_Record = LogAuditRecord, p_partition_Get = (\<lambda>_. Err kNotFound []),
      p_legal_Validate = (\<lambda>part tags w. (w, NoopLegalValidate part tags)),
      p_schema_Validate = (\<lambda>kind r w. (w, NoopSchemaValidate kind r)), p_NowEpochSeconds = now_seconds,
      p_NowEpochMillis = now_millis, p_NewUuidNoDash = (\<lambda>w. (w, [])),
      p_Encode = (\<lambda>t base w. (w, Ok (base @ tt_object_key t))), p_HexDigest = (\<lambda>_ d. to_string (int (length d))),
      p_lease_Acquire = (\<lambda>part f who ttl w. on_lease (\<lambda>s. LeaseAcquire (now_millis w) s part f who ttl) w),
      p_lease_Renew = (\<lambda>part f who ttl w. on_lease (\<lambda>s. LeaseRenew (now_millis w) s part f who ttl) w),
      p_lease_Release = (\<lambda>part f who. on_lease (\<lambda>s. LeaseRelease s part f who)), p_thread_start = (\<lambda>_. Ok ()),
      p_renew_rounds = (\<lambda>_. 1), p_sleep_millis = (\<lambda>_ w. w), p_steady_nanos = (\<lambda>w. mc_steady_nanos (w_clock w)),
      p_self_base_url = ''http://localhost:8080'', p_expiry = default_expiry_options, p_issuer_registry = True,
      p_self_signed_ttl = \<lparr>st_default_seconds = 3600, st_max_seconds = 604800\<rparr>, p_auth_mode = ''none'',
      p_io_engine = ''sync'', p_io_uring_available = False, p_large_file_plane = [], p_build_version = [],
      p_audit_fail_closed = False, p_leases_present = True, p_leases_enabled = True, p_lease_ttl_seconds = 60,
      p_lease_renew_interval_seconds = 20, p_instance_id = ''i-1'', p_claim_hold_millis = 0\<rparr>"

definition dev_partition :: PartitionConfig where
  "dev_partition = default_PartitionConfig\<lparr>pc_partition := ''p''\<rparr>"

definition empty_World :: World where
  "empty_World = \<lparr>w_md = md_empty, w_loc = loc_empty, w_lease = [], w_blob = blob_empty,
     w_clock = \<lparr>mc_seconds = 1700000000, mc_millis = 0, mc_steady_nanos = 0\<rparr>, w_next_id = 1,
     w_audit = [], w_status = [], w_details = []\<rparr>"

definition dev_caller :: CallerContext where
  "dev_caller = \<lparr>cc_partition = ''p'', cc_user_id = ''u'', cc_bearer_token = ''t'', cc_correlation_id = []\<rparr>"

end
