(* ===== verification/Use_Case_Properties.thy ===== *)
theory Use_Case_Properties
  imports Memory_World
begin

text \<open>
  What the use cases guarantee: first over arbitrary ports (authorization comes before every
  other effect; waiting for another instance ends), then in the assembled world of
  \<open>Memory_World\<close> (a registration moves the object and makes one record visible, a failed one makes
  none visible and keeps the staged bytes, a retry changes nothing).
\<close>

section \<open>Authorization comes first\<close>

text \<open>C4: a use case whose caller is not authorized does nothing but record the
  refused attempt: the result is the authorizer's error (or the missing-partition error before
  the authorizer is even asked), and the world is the one the authorizer left plus one failure
  audit event. This holds of every use case that takes a caller, for the roles listed, over
  arbitrary ports.\<close>

theorem authorization_first:
  "(AuthorizeCaller P caller kRoleFileEditors True w = (w1, Inl e) \<longrightarrow>
      GetUploadLocation P caller fid expiry w =
        (fst (RecordAudit P ''createLocationFailure'' caller (case fid of None \<Rightarrow> [] | Some i \<Rightarrow> i) False w1), Inl e) \<and>
      GetFileLocation P caller i w = (fst (RecordAudit P ''readFileLocationFailure'' caller i False w1), Inl e) \<and>
      GetFileList P caller request w = (fst (RecordAudit P ''getFileListFailure'' caller [] False w1), Inl e) \<and>
      CreateFileMetadata P caller record w =
        Some (fst (RecordAudit P ''createMetadataFailure'' caller (FileSourceOf record) False w1), Inl e) \<and>
      UploadFile P caller upload body w =
        Some (fst (RecordAudit P ''uploadFileFailure'' caller (us_file_source upload) False w1), Inl e)) \<and>
   (AuthorizeCaller P caller kRoleFileViewers True w = (w1, Inl e) \<longrightarrow>
      GetDownloadLocation P caller i expiry w =
        (fst (RecordAudit P ''createDownloadLocationFailure'' caller i False w1), Inl e) \<and>
      GetFileMetadata P caller i w = (fst (RecordAudit P ''readMetadataFailure'' caller i False w1), Inl e) \<and>
      DownloadFile P caller i src off len w =
        (fst (RecordAudit P ''downloadFileFailure'' caller (if i = [] then src else i) False w1), Inl e)) \<and>
   (AuthorizeCallerAny P caller [kRoleFileEditors, kRoleFileAdmin] True w = (w1, Inl e) \<longrightarrow>
      DeleteFileMetadata P caller i w = (fst (RecordAudit P ''deleteMetadataFailure'' caller i False w1), Inl e)) \<and>
   (AuthorizeCaller P caller kRoleDatasetEditors True w = (w1, Inl e) \<longrightarrow>
      GetStorageInstructions P caller expiry w =
        (fst (RecordAudit P ''getStorageInstructionsFailure'' caller [] False w1), Inl e)) \<and>
   (AuthorizeCaller P caller kRoleDatasetViewers True w = (w1, Inl e) \<longrightarrow>
      GetRetrievalInstructions P caller ids expiry w =
        (fst (RecordAudit P ''getRetrievalInstructionsFailure'' caller [] False w1), Inl e)) \<and>
   (AuthorizeCallerAny P caller [kRoleStorageCreator, kRoleStorageAdmin] True w = (w1, Inl e) \<longrightarrow>
      CopyFiles P caller ids w = (fst (RecordAudit P ''copyFilesFailure'' caller [] False w1), Inl e) \<and>
      ServerSideCopy P caller src tgt zone w =
        (fst (RecordAudit P ''serverSideCopyFailure'' caller src False w1), Inl e)) \<and>
   (AuthorizeCaller P caller kRoleDeliveryViewer True w = (w1, Inl e) \<longrightarrow>
      GetFileSignedUrl P caller ids expiry w =
        (fst (RecordAudit P ''getFileSignedUrlFailure'' caller [] False w1), Inl e)) \<and>
   (AuthorizeCaller P caller kRoleFileAdmin False w = (w1, Inl e) \<longrightarrow>
      RevokeUrl P caller w = (fst (RecordAudit P ''revokeUrlFailure'' caller [] False w1), Inl e)) \<and>
   (cc_partition caller = [] \<longrightarrow>
      AuthorizeCaller P caller role True w = (w, Err kUnauthenticated ''Missing partitionID'') \<and>
      AuthorizeCallerAny P caller roles True w = (w, Err kUnauthenticated ''Missing partitionID''))"
  by (simp add: audited_def GetUploadLocation_def GetFileLocation_def GetFileList_def CreateFileMetadata_def
      create_claim_def UploadFile_def upload_target_def GetDownloadLocation_def GetFileMetadata_def DownloadFile_def
      DeleteFileMetadata_def GetStorageInstructions_def GetRetrievalInstructions_def CopyFiles_def ServerSideCopy_def
      GetFileSignedUrl_def RevokeUrl_def AuthorizeCaller_def [of P caller role] AuthorizeCallerAny_def [of P caller roles])

theorem authorization_first_witness:
  "CopyFiles (mem_ports (\<lambda>d. d) dev_partition dev_ports) (dev_caller\<lparr>cc_bearer_token := []\<rparr>) [''/a''] empty_World =
     (fst (RecordAudit (mem_ports (\<lambda>d. d) dev_partition dev_ports) ''copyFilesFailure''
        (dev_caller\<lparr>cc_bearer_token := []\<rparr>) [] False empty_World), Err kUnauthenticated ''Missing authorization token'')"
  using authorization_first [where P = "mem_ports (\<lambda>d. d) dev_partition dev_ports"
      and caller = "dev_caller\<lparr>cc_bearer_token := []\<rparr>" and w = empty_World and ?w1.0 = empty_World
      and e = "mk_error kUnauthenticated ''Missing authorization token''" and ids = "[''/a'']"]
  by (simp add: AuthorizeCallerAny_def dev_ports_def dev_caller_def AllowAllAuthorizeAny_def AllowAllAuthorize_def Err_def
      kRoleStorageCreator_def kRoleStorageAdmin_def)

section \<open>Waiting for another instance\<close>

text \<open>Time passes while a thread sleeps: at least what it asked for, and never nothing; looking a
  record up does not turn the clock back.\<close>

definition clock_advances :: "('w, 'st) Ports \<Rightarrow> bool" where
  "clock_advances P \<longleftrightarrow>
     (\<forall>ms w. 0 \<le> ms \<longrightarrow> p_steady_nanos P w + max 1 (ms * 1000000) \<le> p_steady_nanos P (p_sleep_millis P ms w)) \<and>
     (\<forall>part f w. p_steady_nanos P w \<le> p_steady_nanos P (fst (p_md_GetLatestByFileSource P part f w)))"

lemma wait_loop_outcome:
  assumes "clock_advances P"
  shows "\<exists>w' r. wait_loop P caller f deadline w = Some (w', r) \<and>
    ((\<exists>w1 w2 existing. p_md_GetLatestByFileSource P (cc_partition caller) f w1 = (w2, Inr existing) \<and>
        (w', r) = ReturnExistingRecord P caller existing w2) \<or>
     r = Err kUnavailable msg_claiming_elsewhere \<and> deadline \<le> p_steady_nanos P w')"
proof (induction "nat (deadline - p_steady_nanos P w)" arbitrary: w rule: less_induct)
  case less
  let ?get = "p_md_GetLatestByFileSource P (cc_partition caller) f w"
  show ?case
  proof (cases "snd ?get")
    case (Inr existing)
    then obtain w2 where g: "?get = (w2, Inr existing)" by (metis prod.collapse)
    obtain w' r where r: "ReturnExistingRecord P caller existing w2 = (w', r)" by fastforce
    have "wait_loop P caller f deadline w = Some (w', r)" using g r by (subst wait_loop.simps) simp
    with g r show ?thesis by metis
  next
    case (Inl e)
    then obtain w2 where g: "?get = (w2, Inl e)" by (metis prod.collapse)
    show ?thesis
    proof (cases "deadline \<le> p_steady_nanos P w2")
      case True
      with g show ?thesis by (subst wait_loop.simps) simp
    next
      case False
      let ?rem = "(deadline - p_steady_nanos P w2) div 1000000"
      let ?w3 = "p_sleep_millis P (if ?rem < claim_poll_millis then ?rem else claim_poll_millis) w2"
      have "p_steady_nanos P w \<le> p_steady_nanos P w2" using assms g unfolding clock_advances_def by (metis fst_conv)
      moreover have "p_steady_nanos P w2 + 1 \<le> p_steady_nanos P ?w3"
        using assms False unfolding clock_advances_def claim_poll_millis_def
        by (smt (verit) pos_imp_zdiv_nonneg_iff)
      ultimately have "nat (deadline - p_steady_nanos P ?w3) < nat (deadline - p_steady_nanos P w)" using False by simp
      from less [OF this] show ?thesis
        using g False by (subst wait_loop.simps) (simp add: Let_def)
    qed
  qed
qed

text \<open>C3: registration always returns. Even when another instance holds the claim on
  the file source, the wait ends with that instance's record or, once the two-second budget is
  used up, with a retryable error; so do uploads that register.\<close>

theorem create_returns:
  assumes "clock_advances P"
  shows "(\<exists>w' r. CreateFileMetadata P caller record w = Some (w', r)) \<and>
    (\<exists>w' r. UploadFile P caller upload body w = Some (w', r)) \<and>
    (\<exists>w' r. WaitForExistingClaim P caller f w = Some (w', r) \<and>
       ((\<exists>w1 w2 existing. p_md_GetLatestByFileSource P (cc_partition caller) f w1 = (w2, Inr existing) \<and>
           (w', r) = ReturnExistingRecord P caller existing w2) \<or>
        r = Err kUnavailable msg_claiming_elsewhere \<and> p_steady_nanos P w + claim_budget_nanos \<le> p_steady_nanos P w'))"
proof -
  have waits: "\<exists>y. WaitForExistingClaim P caller f w = Some y" for f w
    using wait_loop_outcome [OF assms] unfolding WaitForExistingClaim_def by blast
  have create: "\<exists>w' r. CreateFileMetadata P caller rec w = Some (w', r)" for rec w
  proof -
    obtain w1 q where c: "create_claim P caller rec w = (w1, q)" by fastforce
    obtain y where y: "WaitForExistingClaim P caller (FileSourceOf rec) w1 = Some y" using waits by blast
    have "CreateFileMetadata P caller rec w \<noteq> None"
      using c y by (simp add: CreateFileMetadata_def Let_def split: sum.split ClaimStep.split)
    then show ?thesis by auto
  qed
  then have ne: "CreateFileMetadata P caller rec w \<noteq> None" for rec w by fastforce
  have "UploadFile P caller upload body w \<noteq> None"
    unfolding UploadFile_def
    by (cases "FSS_TRY_ST (upload_target P caller upload w) (\<lambda>w (l, ref). upload_bytes P caller upload body l ref w)")
      (simp add: ne del: not_None_eq split: sum.split option.split)
  then show ?thesis
    using create wait_loop_outcome [OF assms] by (auto simp: WaitForExistingClaim_def)
qed

text \<open>The clock of the assembled world stands still in a sleep of less than a millisecond; real time
  does not.\<close>

definition ticking_ports :: "(World, unit) Ports" where
  "ticking_ports = (mem_ports (\<lambda>d. d) dev_partition dev_ports)
     \<lparr>p_sleep_millis := (\<lambda>ms w. w\<lparr>w_clock := (w_clock w)\<lparr>mc_steady_nanos := mc_steady_nanos (w_clock w) + ms * 1000000 + 1\<rparr>\<rparr>)\<rparr>"

theorem create_returns_witness:
  "\<exists>w' r. CreateFileMetadata ticking_ports dev_caller sample_record empty_World = Some (w', r)"
proof -
  have "clock_advances ticking_ports" by (simp add: clock_advances_def ticking_ports_def)
  from create_returns [OF this] show ?thesis by blast
qed

section \<open>The assembled world: what stays the same\<close>

lemma RecordAudit_mem [simp]:
  "p_Record cfg = LogAuditRecord \<Longrightarrow> RecordAudit (mem_ports sha config cfg) op caller i ok w =
     (w\<lparr>w_audit := w_audit w @ [audit_event (mem_ports sha config cfg) op caller i ok w]\<rparr>, Ok ())"
  by (simp add: RecordAudit_def LogAuditRecord_def)

text \<open>An audit sink keeps a trail of its own and may refuse an event; the rest of the world it leaves alone.\<close>

definition audit_sink :: "(AuditEvent \<Rightarrow> World \<Rightarrow> World \<times> unit Result) \<Rightarrow> bool" where
  "audit_sink record_event \<longleftrightarrow> (\<forall>event w. \<exists>trail. fst (record_event event w) = w\<lparr>w_audit := trail\<rparr>)"

lemma audit_sinks: "audit_sink LogAuditRecord" "audit_sink NoopAuditRecord" "audit_sink FailingAuditRecord"
proof -
  have "\<exists>trail. w = w\<lparr>w_audit := trail\<rparr>" for w :: World by (rule exI [of _ "w_audit w"]) simp
  then show "audit_sink LogAuditRecord" "audit_sink NoopAuditRecord" "audit_sink FailingAuditRecord"
    by (auto simp: audit_sink_def LogAuditRecord_def NoopAuditRecord_def FailingAuditRecord_def)
qed

lemma RecordAudit_fst: "fst (RecordAudit P op caller i ok w) = fst (p_Record P (audit_event P op caller i ok w) w)"
  by (simp add: RecordAudit_def split: prod.split sum.split)

lemma PublishStatus_mem [simp]:
  "PublishStatus (mem_ports sha config cfg) caller st v i w =
     w\<lparr>w_status := w_status w @ [\<lparr>se_record_id = i, se_partition = cc_partition caller, se_status = st,
        se_dataset_sync = ''DATASET_SYNC'', se_version = v\<rparr>]\<rparr>"
  by (simp add: PublishStatus_def LogPublishStatusChanged_def)

text \<open>Nothing visible changes and no object outside the container \<open>c\<close>: readers see the same
  records, the location records are the same.\<close>

definition quiet :: "string \<Rightarrow> World \<Rightarrow> World \<Rightarrow> bool" where
  "quiet c w w' \<longleftrightarrow>
     (md_inv (w_md w) \<longrightarrow> md_inv (w_md w') \<and> (\<forall>p i. MdGetById (w_md w') p i = MdGetById (w_md w) p i)) \<and>
     (\<forall>c' k. c' \<noteq> c \<longrightarrow> blob_content (w_blob w') c' k = blob_content (w_blob w) c' k) \<and> w_loc w' = w_loc w"

lemma quiet_refl [simp]: "quiet c w w"
  by (simp add: quiet_def)

lemma quiet_trans: "quiet c w w1 \<Longrightarrow> quiet c w1 w2 \<Longrightarrow> quiet c w w2"
  by (auto simp: quiet_def)

lemma quiet_same: "w_md w' = w_md w \<Longrightarrow> w_blob w' = w_blob w \<Longrightarrow> w_loc w' = w_loc w \<Longrightarrow> quiet c w w'"
  by (simp add: quiet_def)

lemma quiet_logs [simp]:
  "quiet c w (w'\<lparr>w_audit := x\<rparr>) \<longleftrightarrow> quiet c w w'" "quiet c w (w'\<lparr>w_status := y\<rparr>) \<longleftrightarrow> quiet c w w'"
  "quiet c w (w'\<lparr>w_details := z\<rparr>) \<longleftrightarrow> quiet c w w'" "quiet c w (w'\<lparr>w_lease := l\<rparr>) \<longleftrightarrow> quiet c w w'"
  "quiet c w (w'\<lparr>w_clock := t\<rparr>) \<longleftrightarrow> quiet c w w'" "quiet c w (w'\<lparr>w_next_id := n\<rparr>) \<longleftrightarrow> quiet c w w'"
  by (simp_all add: quiet_def)

lemma quiet_audit [simp]:
  "audit_sink (p_Record cfg) \<Longrightarrow> quiet c w (fst (RecordAudit (mem_ports sha config cfg) op caller i ok w')) \<longleftrightarrow> quiet c w w'"
  by (metis (no_types) RecordAudit_fst audit_sink_def mem_ports_cfg quiet_logs(1))

lemma quiet_details [simp]: "quiet c w (PublishDatasetDetails (mem_ports sha config cfg) caller i v w') \<longleftrightarrow> quiet c w w'"
  by (simp add: PublishDatasetDetails_def LogPublishDatasetDetails_def)

text \<open>An action, and an action that fails.\<close>

definition calm :: "string \<Rightarrow> World \<Rightarrow> World \<times> 'a Result \<Rightarrow> bool" where
  "calm c w rs \<longleftrightarrow> quiet c w (fst rs)"

definition calm_error :: "string \<Rightarrow> World \<Rightarrow> World \<times> 'a Result \<Rightarrow> bool" where
  "calm_error c w rs \<longleftrightarrow> (case snd rs of Inl _ \<Rightarrow> quiet c w (fst rs) | Inr _ \<Rightarrow> True)"

lemma calm_pair [simp]: "calm c w (w', r) \<longleftrightarrow> quiet c w w'"
  by (simp add: calm_def)

lemma calm_audit: "audit_sink (p_Record cfg) \<Longrightarrow> calm c w (RecordAudit (mem_ports sha config cfg) op caller i ok w)"
  by (simp add: calm_def)

lemma calm_error_pair [simp]:
  "calm_error c w (w', Inl e) \<longleftrightarrow> quiet c w w'" "calm_error c w (w', Err k m) \<longleftrightarrow> quiet c w w'"
  "calm_error c w (w', Inr x)" "calm_error c w (w', Ok x)"
  by (simp_all add: calm_error_def Err_def Ok_def)

lemma calm_imp_error: "calm c w rs \<Longrightarrow> calm_error c w rs"
  by (simp add: calm_def calm_error_def split: sum.split)

lemma calm_try:
  "calm c w rs \<Longrightarrow> (\<And>w1 x. rs = (w1, Ok x) \<Longrightarrow> calm c w1 (f w1 x)) \<Longrightarrow> calm c w (FSS_TRY_ST rs f)"
  by (cases rs; cases "snd rs") (auto simp: calm_def Ok_def intro: quiet_trans)

lemma calm_error_try:
  "calm c w rs \<Longrightarrow> (\<And>w1 x. rs = (w1, Ok x) \<Longrightarrow> calm_error c w1 (f w1 x)) \<Longrightarrow> calm_error c w (FSS_TRY_ST rs f)"
  by (cases rs; cases "snd rs") (auto simp: calm_def calm_error_def Ok_def intro: quiet_trans split: sum.splits)

lemma quiet_md:
  assumes "md_inv (w_md w) \<Longrightarrow> md_inv s \<and> (\<forall>p i. MdGetById s p i = MdGetById (w_md w) p i)"
  shows "quiet c w (w\<lparr>w_md := s\<rparr>)"
  using assms by (simp add: quiet_def)

lemma quiet_blob:
  "(\<And>c' k. c' \<noteq> c \<Longrightarrow> blob_content s c' k = blob_content (w_blob w) c' k) \<Longrightarrow> quiet c w (w\<lparr>w_blob := s\<rparr>)"
  by (simp add: quiet_def)

lemma MdGetById_cong: "FindChain s' p i = FindChain s p i \<Longrightarrow> MdGetById s' p i = MdGetById s p i"
  by (simp add: MdGetById_def)

lemma quiet_claim: "calm c w (on_md (\<lambda>s. MdClaimForWrite now s part r) w)"
proof (cases "MdClaimForWrite now (w_md w) part r")
  case (Pair s' res)
  have "md_inv s' \<and> (\<forall>p i. MdGetById s' p i = MdGetById (w_md w) p i)" if i: "md_inv (w_md w)"
  proof
    show "md_inv s'" by (rule md_inv_claim [OF i Pair])
    from i Pair show "\<forall>p i. MdGetById s' p i = MdGetById (w_md w) p i"
    proof (cases rule: claim_cases)
      case won
      then show ?thesis by (auto simp: MdGetById_def ready_record_def new_row_def)
    qed (auto intro: MdGetById_cong)
  qed
  then show ?thesis using Pair by (simp add: on_md_def quiet_md)
qed

lemma quiet_release: "calm c w (on_md (\<lambda>s. MdReleaseClaim s part i n) w)"
proof (cases "MdReleaseClaim (w_md w) part i n")
  case (Pair s' res)
  have "md_inv s' \<and> (\<forall>p j. MdGetById s' p j = MdGetById (w_md w) p j)" if iv: "md_inv (w_md w)"
  proof
    show "md_inv s'" by (rule md_inv_release [OF iv Pair])
    from iv Pair show "\<forall>p j. MdGetById s' p j = MdGetById (w_md w) p j"
    proof (cases rule: release_cases)
      case (released row)
      then show ?thesis
        by (auto simp: MdGetById_def FindChain_drop_row(1) [OF released(1)] ready_record_def)
    qed simp
  qed
  then show ?thesis using Pair by (simp add: on_md_def quiet_md)
qed

lemma quiet_mark_ready_error: "calm_error c w (on_md (\<lambda>s. MdMarkReady s part i n r) w)"
proof (cases "MdMarkReady (w_md w) part i n r")
  case (Pair s' res)
  show ?thesis
  proof (cases res)
    case (Inl e)
    have "s' = w_md w" if iv: "md_inv (w_md w)"
      using iv Pair by (cases rule: mark_ready_cases) (use Inl in auto)
    then show ?thesis using Pair Inl by (simp add: on_md_def quiet_md)
  qed (use Pair in \<open>simp add: on_md_def\<close>)
qed

lemma quiet_remove: "or_container ref = c \<Longrightarrow> calm c w (on_blob (\<lambda>s. BlobRemove s ref) w)"
  by (cases "BlobRemove (w_blob w) ref") (auto dest: BlobRemove_effect simp: on_blob_def blob_content_def intro!: quiet_blob)

lemma quiet_copy_op: "or_container to_ref = c \<Longrightarrow> calm c w (on_blob (\<lambda>s. BlobCopy now s from_ref to_ref) w)"
  by (cases "BlobCopy now (w_blob w) from_ref to_ref") (auto dest: BlobCopy_effect simp: on_blob_def blob_content_def intro!: quiet_blob)

lemma quiet_ensure: "calm c w (on_blob (\<lambda>s. BlobEnsureContainer s c') w)"
  by (cases "BlobEnsureContainer (w_blob w) c'") (auto dest: BlobEnsureContainer_effect simp: on_blob_def blob_content_def intro!: quiet_blob)

lemma BlobGet_at: "blob_at (fst (BlobGet s ref rg)) = blob_at s"
  by (cases "BeginOp s opGet"; cases "snd (BeginOp s opGet)") (auto simp: BlobGet_eq dest: BeginOp_at)

lemma quiet_get: "calm c w (on_blob (\<lambda>s. BlobGet s ref rg) w)"
  using BlobGet_at [of "w_blob w" ref rg]
  by (cases "BlobGet (w_blob w) ref rg") (auto simp: on_blob_def blob_content_def intro!: quiet_blob)

lemma BlobStat_at: "blob_at (fst (BlobStat s ref)) = blob_at s"
  unfolding BlobStat_def
  by (cases "BeginOp s opStat"; cases "snd (BeginOp s opStat)")
    (auto simp: FSS_TRY_ST_pure dest: BeginOp_at split: sum.split option.split)

lemma quiet_stat: "calm c w (on_blob (\<lambda>s. BlobStat s ref) w)"
  using BlobStat_at [of "w_blob w" ref]
  by (cases "BlobStat (w_blob w) ref") (auto simp: on_blob_def blob_content_def intro!: quiet_blob)

lemma quiet_lease: "calm c w (on_lease f w)"
  by (simp add: on_lease_def split: prod.split)

lemmas quiet_ops = quiet_claim quiet_release quiet_remove quiet_copy_op quiet_ensure quiet_get quiet_stat quiet_lease

section \<open>A failed registration\<close>

lemma calm_fst: "calm c w rs \<Longrightarrow> quiet c w (fst rs)"
  by (simp add: calm_def)

lemma calm_step: "quiet c w w1 \<Longrightarrow> calm c w1 rs \<Longrightarrow> calm c w rs"
  by (simp add: calm_def quiet_trans)

lemma quiet_remove_quietly:
  "or_container ref = c \<Longrightarrow> quiet c w (remove_quietly (mem_ports sha config cfg) part zone ref w)"
  by (simp add: remove_quietly_def SingleStoreForPartition_def calm_fst quiet_remove)

lemma quiet_rollback:
  "audit_sink (p_Record cfg) \<Longrightarrow> or_container ref = c \<Longrightarrow> quiet c w (RollbackCreatedObject (mem_ports sha config cfg) caller ref f i w)"
  by (simp add: RollbackCreatedObject_def Let_def quiet_remove_quietly)

lemma quiet_abort:
  assumes "audit_sink (p_Record cfg)" "\<And>ref. rollback = Some ref \<Longrightarrow> or_container ref = c"
  shows "quiet c w (abort_create (mem_ports sha config cfg) caller f i rollback v w)"
proof -
  let ?w = "case rollback of None \<Rightarrow> w
    | Some ref \<Rightarrow> RollbackCreatedObject (mem_ports sha config cfg) caller ref f i w"
  have "quiet c w ?w" using assms by (simp add: quiet_rollback split: option.split)
  moreover have "quiet c ?w (fst (on_md (\<lambda>s. MdReleaseClaim s (cc_partition caller) i v) ?w))"
    by (rule calm_fst [OF quiet_release])
  ultimately show ?thesis
    by (auto simp: abort_create_def assms(1) split: prod.split sum.split intro: quiet_trans)
qed

lemma calm_CopyBetweenZones:
  "or_container to_ref = c \<Longrightarrow> calm c w (CopyBetweenZones (mem_ports sha config cfg) part from_ref to_ref z z' w)"
  unfolding CopyBetweenZones_def
  by (simp add: SingleStoreForPartition_def calm_try quiet_ensure quiet_copy_op)

lemma calm_create_copy:
  assumes "audit_sink (p_Record cfg)" "or_container to_ref = c"
  shows "calm c w (create_copy (mem_ports sha config cfg) caller f i v location from_ref to_ref w)"
proof -
  let ?P = "mem_ports sha config cfg"
  obtain w1 r where cp: "CopyBetweenZones ?P (cc_partition caller) from_ref to_ref (fl_zone location) kPersistent w = (w1, r)"
    by fastforce
  obtain w2 q where st: "on_blob (\<lambda>s. BlobStat s to_ref) w = (w2, q)" by fastforce
  have q1: "quiet c w w1" using calm_CopyBetweenZones [OF assms(2), of w] cp by (metis calm_pair)
  have q2: "quiet c w w2" using quiet_stat st by (metis calm_pair)
  have a: "quiet c x (abort_create ?P caller f i (Some to_ref) v x)" for x
    using assms by (intro quiet_abort) auto
  have rel: "quiet c x (fst (on_md (\<lambda>s. MdReleaseClaim s (cc_partition caller) i v) x))" for x
    by (rule calm_fst [OF quiet_release])
  show ?thesis
    using cp st by (auto simp: create_copy_def Let_def SingleStoreForPartition_def split: sum.split
        intro: q1 q2 quiet_trans [OF q1 a] quiet_trans [OF q2 a] quiet_trans [OF q1 rel])
qed

lemma calm_ComputeChecksum: "calm c w (ComputeChecksumStreaming (mem_ports sha config cfg) part ref z alg w)"
  unfolding ComputeChecksumStreaming_def
  by (simp add: SingleStoreForPartition_def calm_try quiet_get)

lemma calm_create_checksum:
  assumes "audit_sink (p_Record cfg)" "or_container to_ref = c"
  shows "calm c w (create_checksum (mem_ports sha config cfg) caller f i v to_ref stat w)"
proof -
  let ?P = "mem_ports sha config cfg"
  obtain w1 r where k: "ComputeChecksumStreaming ?P (cc_partition caller) to_ref kPersistent kSha256 w = (w1, r)" by fastforce
  have q1: "quiet c w w1" using calm_ComputeChecksum k by (metis calm_pair)
  have a: "quiet c x (abort_create ?P caller f i (Some to_ref) v x)" for x
    using assms by (intro quiet_abort) auto
  show ?thesis
    using k by (auto simp: create_checksum_def split: option.split sum.split intro: q1 quiet_trans [OF q1 a])
qed

lemma calm_create_register:
  assumes "audit_sink (p_Record cfg)" "or_container to_ref = c"
  shows "calm_error c w (create_register (mem_ports sha config cfg) caller f v to_ref out w)"
proof -
  let ?P = "mem_ports sha config cfg"
  obtain w1 r where k: "on_md (\<lambda>s. MdMarkReady s (cc_partition caller) (fm_id out) v out) w = (w1, r)" by fastforce
  have e: "calm_error c w (w1, r)" using quiet_mark_ready_error k by metis
  have a: "quiet c x (abort_create ?P caller f i (Some to_ref) v x)" for x i
    using assms by (intro quiet_abort) auto
  show ?thesis
    using k e by (cases r) (auto simp: create_register_def Let_def intro: quiet_trans [OF _ a])
qed

lemma quiet_rounds: "quiet c w (snd (LeaseRenewerRounds (mem_ports sha config cfg) (r, w)))"
proof -
  have "quiet c w (snd ((LeaseRenewerRound (mem_ports sha config cfg) ^^ n) (r, w)))" for n
  proof (induction n)
    case (Suc n)
    obtain r1 w1 where s: "(LeaseRenewerRound (mem_ports sha config cfg) ^^ n) (r, w) = (r1, w1)" by fastforce
    with Suc show ?case
      by (auto simp: LeaseRenewerRound_def on_lease_def split: prod.split sum.split)
  qed simp
  then show ?thesis by (simp add: LeaseRenewerRounds_def)
qed

lemma quiet_release_now: "audit_sink (p_Record cfg) \<Longrightarrow> quiet c w (ReleaseNow (mem_ports sha config cfg) caller f i r w)"
  using quiet_rounds [of c w sha config cfg r]
  by (auto simp: ReleaseNow_def on_lease_def split: prod.split sum.split)

lemma calm_ensure_lease: "calm c w (EnsureLeaseOwnership (mem_ports sha config cfg) caller f w)"
  by (auto simp: EnsureLeaseOwnership_def on_lease_def split: prod.split sum.split)

text \<open>The same for actions that carry the lease beside the world.\<close>

definition lcalm :: "string \<Rightarrow> World \<Rightarrow> (World \<times> 'l) \<times> 'a Result \<Rightarrow> bool" where
  "lcalm c w rs \<longleftrightarrow> quiet c w (fst (fst rs))"

definition lcalm_error :: "string \<Rightarrow> World \<Rightarrow> (World \<times> 'l) \<times> 'a Result \<Rightarrow> bool" where
  "lcalm_error c w rs \<longleftrightarrow> (\<forall>e. snd rs = Inl e \<longrightarrow> quiet c w (fst (fst rs)))"

lemma lcalm_error_pair [simp]:
  "lcalm_error c w (s, Inl e) \<longleftrightarrow> quiet c w (fst s)" "lcalm_error c w (s, Err k m) \<longleftrightarrow> quiet c w (fst s)"
  "lcalm_error c w (s, Ok x)"
  by (simp_all add: lcalm_error_def Err_def Ok_def)

lemma lcalm_error_try:
  "lcalm c w rs \<Longrightarrow> (\<And>s x. rs = (s, Ok x) \<Longrightarrow> lcalm_error c (fst s) (g s x)) \<Longrightarrow> lcalm_error c w (FSS_TRY_ST rs g)"
  by (cases rs; cases "snd rs") (auto simp: lcalm_def lcalm_error_def Ok_def intro: quiet_trans)

lemma lcalm_error_try_error:
  "lcalm_error c w rs \<Longrightarrow> (\<And>s x e. rs = (s, Ok x) \<Longrightarrow> snd (g s x) \<noteq> Inl e) \<Longrightarrow> lcalm_error c w (FSS_TRY_ST rs g)"
  by (cases rs; cases "snd rs") (auto simp: lcalm_error_def Ok_def)

lemma lcalm_pure: "lcalm c (fst s) (s, r)"
  by (simp add: lcalm_def)

lemma with_lease_parts: "with_lease s act = ((fst (act (fst s)), snd s), snd (act (fst s)))"
  by (cases s) (simp add: with_lease_def split: prod.split)

lemma lcalm_with_lease: "(\<And>x. calm c x (act x)) \<Longrightarrow> lcalm c (fst s) (with_lease s act)"
  by (simp add: with_lease_parts lcalm_def calm_def)

lemma lcalm_error_with_lease:
  assumes "\<And>x. calm_error c x (act x)"
  shows "lcalm_error c (fst s) (with_lease s act)"
  using assms [of "fst s"] by (auto simp: with_lease_parts lcalm_error_def calm_error_def)

lemma quiet_renew_until_now: "renew_until_now (mem_ports sha config cfg) s = (w', l) \<Longrightarrow> quiet c (fst s) w'"
  using quiet_rounds [of c "fst s" sha config cfg "the (snd s)"]
  by (auto simp: renew_until_now_def Let_def split: prod.splits option.splits)

lemma lcalm_lease_lost:
  assumes "audit_sink (p_Record cfg)" "or_container to_ref = c"
  shows "lcalm c (fst s) (abort_if_lease_lost (mem_ports sha config cfg) caller f i to_ref v s)"
proof -
  obtain w' l where r: "renew_until_now (mem_ports sha config cfg) s = (w', l)" by fastforce
  have q: "quiet c (fst s) w'" by (rule quiet_renew_until_now [OF r])
  have a: "quiet c w' (abort_create (mem_ports sha config cfg) caller f i (Some to_ref) v w')"
    using assms by (intro quiet_abort) auto
  show ?thesis using r q quiet_trans [OF q a]
    by (auto simp: abort_if_lease_lost_def lcalm_def split: option.split)
qed

lemma quiet_existing: "audit_sink (p_Record cfg) \<Longrightarrow> calm c w (ReturnExistingRecord (mem_ports sha config cfg) caller r w)"
  unfolding ReturnExistingRecord_def Let_def by (rule calm_step [OF _ calm_try [OF calm_audit]]) simp_all

lemma lcalm_existing:
  "audit_sink (p_Record cfg) \<Longrightarrow> lcalm_error c (fst s) (with_lease s (ReturnExistingRecord (mem_ports sha config cfg) caller r))"
  by (intro lcalm_error_with_lease calm_imp_error quiet_existing)

lemma quiet_abort_None: "audit_sink (p_Record cfg) \<Longrightarrow> quiet c w (abort_create (mem_ports sha config cfg) caller f i None v w)"
  by (rule quiet_abort) simp_all

lemma lcalm_create_move:
  assumes "audit_sink (p_Record cfg)" "ContainerForRegistry (StaticPartitionGet config) (cc_partition caller) kPersistent = Ok c"
  shows "lcalm_error c (fst s) (create_move (mem_ports sha config cfg) caller f out v s)"
proof (cases "LocFindByFileSource (w_loc (fst s)) (cc_partition caller) f")
  case (Inl e)
  then show ?thesis using quiet_abort_None [OF assms(1)] by (cases s) (simp add: create_move_def with_lease_parts)
next
  case (Inr location)
  let ?P = "mem_ports sha config cfg"
  obtain w l where s: "s = (w, l)" by fastforce
  have start: "with_lease (w, l) (p_loc_FindByFileSource ?P (cc_partition caller) f) = ((w, l), Inr location)"
    using Inr s by (simp add: with_lease_parts)
  show ?thesis
    unfolding s create_move_def Let_def start prod.case sum.case
  proof (rule lcalm_error_try [OF lcalm_pure [of c "(w, l)"]], rule lcalm_error_try [OF lcalm_pure], goal_cases)
    case (1 s1 from_ref s2 c2)
    then have c2: "c2 = c" using assms(2) by simp
    show ?case unfolding c2
    proof (rule lcalm_error_try [OF lcalm_with_lease [OF calm_create_copy [OF assms(1)]]], goal_cases)
      case (2 s3 copied)
      show ?case
      proof (cases copied)
        case (AlreadyRegistered existing)
        then show ?thesis by (simp add: lcalm_error_try_error lcalm_existing [OF assms(1)])
      next
        case (Copied stat)
        show ?thesis unfolding Copied CopyStep.case
          by (intro lcalm_error_try [OF lcalm_lease_lost [OF assms(1)]] lcalm_error_try [OF lcalm_with_lease [OF calm_create_checksum [OF assms(1)]]]
              lcalm_error_try_error [OF lcalm_error_with_lease [OF calm_create_register [OF assms(1)]]])
            (simp_all split: prod.split)
      qed
    qed simp
  qed
qed

lemma calm_create_leased:
  assumes "audit_sink (p_Record cfg)" "ContainerForRegistry (StaticPartitionGet config) (cc_partition caller) kPersistent = Ok c"
  shows "calm_error c w (create_leased (mem_ports sha config cfg) caller f out v w)"
proof -
  let ?P = "mem_ports sha config cfg"
  let ?hold = "\<lambda>w. if p_claim_hold_millis ?P > 0 then p_sleep_millis ?P (p_claim_hold_millis ?P) w else w"
  have hold: "quiet c x (?hold x)" for x by simp
  have move: "snd (create_move ?P caller f out v (?hold x, l)) = Inl e \<Longrightarrow>
      quiet c x (fst (fst (create_move ?P caller f out v (?hold x, l))))" for x l e
    using lcalm_create_move [OF assms, where s = "(?hold x, l)" and sha = sha and f = f and out = out and v = v] hold
    unfolding lcalm_error_def fst_conv by (blast intro: quiet_trans)
  have rel: "quiet c x (fst (release_lease ?P caller f i (x, l)))" for x i l
    by (simp add: release_lease_def quiet_release_now assms(1) split: option.split)
  show ?thesis
  proof (cases "LeaseEnabled ?P")
    case False
    then have run: "create_leased ?P caller f out v w =
        (fst (fst (create_move ?P caller f out v (?hold w, None))), snd (create_move ?P caller f out v (?hold w, None)))"
      by (simp add: create_leased_def case_prod_beta)
    show ?thesis using move [of w None] unfolding run calm_error_def
      by (cases "snd (create_move ?P caller f out v (?hold w, None))") simp_all
  next
    case True
    obtain w1 q where e: "EnsureLeaseOwnership ?P caller f w = (w1, q)" by fastforce
    have q1: "quiet c w w1" using calm_ensure_lease e by (metis calm_pair)
    show ?thesis
    proof (cases q)
      case (Inl err)
      then show ?thesis using True e quiet_trans [OF q1 quiet_abort_None [OF assms(1)]]
        by (simp add: create_leased_def Let_def)
    next
      case (Inr u)
      let ?r = "LeaseRenewerStart ?P (cc_partition caller) f (LeaseTtlMillis ?P) (p_lease_renew_interval_seconds ?P * 1000) w1"
      obtain r w2 where rw: "LeaseRenewerRounds ?P (?r, w1) = (r, w2)" by fastforce
      have q2: "quiet c w w2" using quiet_trans [OF q1 quiet_rounds] rw by (metis snd_conv)
      let ?res = "if LeaseRenewerFailed r
          then ((abort_create ?P caller f (fm_id out) None v w2, Some r), Err kUnavailable msg_renew_unavailable)
          else create_move ?P caller f out v (?hold w2, Some r)"
      have run: "create_leased ?P caller f out v w = (fst (release_lease ?P caller f (fm_id out) (fst ?res)), snd ?res)"
        using True e Inr rw by (simp add: create_leased_def Let_def case_prod_beta)
      have "quiet c w2 (fst (fst ?res))" if "snd ?res = Inl err" for err
        using that move [of w2 "Some r" err] quiet_abort_None [OF assms(1)] by (auto split: if_splits)
      then have res: "snd ?res = Inl err \<Longrightarrow> quiet c w (fst (fst ?res))" for err by (rule quiet_trans [OF q2])
      obtain x l q where xl: "?res = ((x, l), q)" by (metis prod.exhaust)
      show ?thesis
        using res rel [of x "fm_id out" l] unfolding run calm_error_def xl by (auto split: sum.split intro: quiet_trans)
    qed
  qed
qed

lemma quiet_wait_loop:
  assumes "audit_sink (p_Record cfg)" "wait_loop (mem_ports sha config cfg) caller f d w = Some y"
  shows "quiet c w (fst y)"
proof -
  let ?Q = "\<lambda>((((P, caller), f), d), w) y. P = mem_ports sha config cfg \<longrightarrow> quiet c w (fst y)"
  have "?Q ((((mem_ports sha config cfg, caller), f), d), w) y"
  proof (rule wait_loop.raw_induct [of ?Q, OF _ assms(2)], goal_cases)
    case (1 wl P caller f d w y)
    show ?case unfolding prod.case
    proof
      assume P: "P = mem_ports sha config cfg"
      show "quiet c w (fst y)"
      proof (cases "MdGetLatestByFileSource (w_md w) (cc_partition caller) f")
        case (Inr r)
        then show ?thesis using 1(2) P calm_fst [OF quiet_existing [OF assms(1)]] by auto
      next
        case (Inl e)
        show ?thesis
        proof (cases "d \<le> mc_steady_nanos (w_clock w)")
          case True
          then show ?thesis using 1(2) Inl P by auto
        next
          case False
          then obtain ms where "wl P caller f d (p_sleep_millis P ms w) = Some y"
            using 1(2) Inl P by (auto simp: Let_def)
          from 1(1) [OF this] have "quiet c (p_sleep_millis P ms w) (fst y)" using P by simp
          moreover have "quiet c w (p_sleep_millis P ms w)" using P by simp
          ultimately show ?thesis by (rule quiet_trans [rotated])
        qed
      qed
    qed
  qed
  then show ?thesis by (simp only: prod.case)
qed

lemma calm_validate: "calm c w (create_validate (mem_ports sha config cfg) caller r w)"
  by (simp add: create_validate_def FSS_TRY_ST_pure split: sum.split list.split if_splits)

definition passive_authorizer :: "(World, unit) Ports \<Rightarrow> bool" where
  "passive_authorizer cfg \<longleftrightarrow> (\<forall>role part token w. fst (p_Authorize cfg role part token w) = w)"

lemma calm_create_claim:
  assumes "passive_authorizer cfg"
  shows "calm c w (create_claim (mem_ports sha config cfg) caller r w)"
  unfolding create_claim_def
proof (rule calm_try, goal_cases)
  case 1
  have "fst (AuthorizeCaller (mem_ports sha config cfg) caller kRoleFileEditors True w) = w"
    using assms by (simp add: AuthorizeCaller_def passive_authorizer_def)
  then show ?case by (simp add: calm_def)
next
  case (2 w1 u)
  show ?case
  proof (rule calm_try, goal_cases)
    case 1
    show ?case by (rule calm_step [OF _ calm_validate]) simp
  next
    case (2 w2 u)
    obtain n i where n: "SequentialNewUuidNoDash (w_next_id w2) = (n, i)" by fastforce
    let ?w = "w2\<lparr>w_next_id := n\<rparr>"
    have "calm c ?w (FSS_TRY_ST (on_md (\<lambda>s. MdClaimForWrite t s p q) ?w) g)"
      if "\<And>x y. calm c x (g x y)" for t p q and g :: "World \<Rightarrow> MetadataClaim \<Rightarrow> World \<times> ClaimStep Result"
      by (rule calm_try [OF quiet_claim]) (rule that)
    then have "calm c w2 (FSS_TRY_ST (on_md (\<lambda>s. MdClaimForWrite t s p q) ?w) g)"
      if "\<And>x y. calm c x (g x y)" for t p q and g :: "World \<Rightarrow> MetadataClaim \<Rightarrow> World \<times> ClaimStep Result"
      using that by (intro calm_step [of c w2 ?w]) simp_all
    then show ?case
      by (simp add: n Let_def split: sum.split MetadataState.split)
  qed
qed

text \<open>What is visible after a registration that got as far as its success event: the record.\<close>

lemma register_visible:
  assumes "create_register (mem_ports sha config cfg) caller f v to_ref out w = (w1, Inr created)" "md_inv (w_md w)"
  shows "md_inv (w_md w1) \<and> is_ok (MdGetById (w_md w1) (cc_partition caller) (fm_id created))"
proof -
  obtain s q where run: "MdMarkReady (w_md w) (cc_partition caller) (fm_id out) v out = (s, q)" by fastforce
  then have q: "q = Inr created" and w1: "w1 = w\<lparr>w_md := s\<rparr>"
    using assms(1) by (auto simp: create_register_def Let_def on_md_def split: sum.splits)
  have "md_inv s" by (rule md_inv_mark_ready [OF assms(2) run])
  moreover from assms(2) run have "is_ok (MdGetById s (cc_partition caller) (fm_id created))"
  proof (cases rule: mark_ready_cases)
    case (ready row)
    then show ?thesis
      using q by (auto simp: Ok_def MdGetById_def ready_record_def FindChain_set_chain [OF ready(1)])
  qed (use q in simp)
  ultimately show ?thesis by (simp add: w1)
qed

lemma audit_md [simp]:
  "audit_sink (p_Record cfg) \<Longrightarrow> w_md (fst (RecordAudit (mem_ports sha config cfg) op caller i ok w)) = w_md w"
proof -
  assume "audit_sink (p_Record cfg)"
  then obtain trail where "fst (p_Record cfg (audit_event (mem_ports sha config cfg) op caller i ok w) w) = w\<lparr>w_audit := trail\<rparr>"
    by (metis audit_sink_def)
  then show ?thesis by (simp add: RecordAudit_fst)
qed

lemma create_finish_md:
  "audit_sink (p_Record cfg) \<Longrightarrow> w_md (create_finish (mem_ports sha config cfg) caller location a b created w) = w_md w"
  by (simp add: create_finish_def Let_def PublishDatasetDetails_def LogPublishDatasetDetails_def on_loc_def on_blob_def
      SingleStoreForPartition_def split: prod.split sum.split)

definition lregisters :: "string \<Rightarrow> World \<Rightarrow> (World \<times> 'l) \<times> string Exit Result \<Rightarrow> bool" where
  "lregisters part w rs \<longleftrightarrow> (\<forall>i x. snd rs = Inr (Audited i x) \<longrightarrow> md_inv (w_md w) \<longrightarrow>
     md_inv (w_md (fst (fst rs))) \<and> is_ok (MdGetById (w_md (fst (fst rs))) part i))"

lemma lregisters_try:
  "lcalm c w rs \<Longrightarrow> (\<And>s x. rs = (s, Ok x) \<Longrightarrow> lregisters part (fst s) (g s x)) \<Longrightarrow> lregisters part w (FSS_TRY_ST rs g)"
  by (cases rs; cases "snd rs") (auto simp: lregisters_def lcalm_def quiet_def Ok_def)

lemma lregisters_simps [simp]:
  "lregisters part w (s, Inl e)" "lregisters part w (s, Err k m)" "lregisters part w (s, Ok (Unaudited x))"
  by (simp_all add: lregisters_def Ok_def Err_def)

lemma lregisters_unaudited: "lregisters part w (FSS_TRY_ST rs (\<lambda>s i. (s, Ok (Unaudited i))))"
  by (cases rs; cases "snd rs") (auto simp: lregisters_def Ok_def)

lemma lregisters_last:
  assumes "audit_sink (p_Record cfg)"
  shows "lregisters (cc_partition caller) (fst s)
    (FSS_TRY_ST (with_lease s (create_register (mem_ports sha config cfg) caller f v to_ref out)) (\<lambda>s created.
      let (w, l) = release_lease (mem_ports sha config cfg) caller f i s in
        ((create_finish (mem_ports sha config cfg) caller location a b created w, l), Ok (Audited (fm_id created) (fm_id created)))))"
proof -
  let ?P = "mem_ports sha config cfg"
  obtain w l where s: "s = (w, l)" by fastforce
  obtain w1 q where run: "create_register ?P caller f v to_ref out w = (w1, q)" by fastforce
  show ?thesis
  proof (cases q)
    case (Inr created)
    obtain w2 l2 where rel: "release_lease ?P caller f i (w1, l) = (w2, l2)" by fastforce
    have "quiet c w1 w2" for c
      using rel quiet_release_now [OF assms, of c w1 sha config caller f i]
      by (auto simp: release_lease_def split: option.splits)
    then have "md_inv (w_md w) \<Longrightarrow> md_inv (w_md w2) \<and> is_ok (MdGetById (w_md w2) (cc_partition caller) (fm_id created))"
      using register_visible [OF run [unfolded Inr]] by (simp add: quiet_def)
    then show ?thesis
      by (simp add: s with_lease_parts run Inr rel lregisters_def create_finish_md [OF assms] Ok_def)
  qed (simp add: s with_lease_parts run)
qed

lemma create_move_registers:
  assumes "audit_sink (p_Record cfg)"
  shows "lregisters (cc_partition caller) (fst s) (create_move (mem_ports sha config cfg) caller f out v s)"
proof (cases "LocFindByFileSource (w_loc (fst s)) (cc_partition caller) f")
  case (Inl e)
  then show ?thesis by (cases s) (simp add: create_move_def with_lease_parts)
next
  case (Inr location)
  let ?P = "mem_ports sha config cfg"
  obtain w l where s: "s = (w, l)" by fastforce
  have start: "with_lease (w, l) (p_loc_FindByFileSource ?P (cc_partition caller) f) = ((w, l), Inr location)"
    using Inr s by (simp add: with_lease_parts)
  show ?thesis
    unfolding s create_move_def Let_def start prod.case sum.case
  proof (rule lregisters_try [OF lcalm_pure], rule lregisters_try [OF lcalm_pure], goal_cases)
    case (1 s1 from_ref s2 c)
    show ?case
    proof (rule lregisters_try [OF lcalm_with_lease [OF calm_create_copy [OF assms refl]]], goal_cases)
      case (1 s3 copied)
      show ?case
      proof (cases copied)
        case (Copied stat)
        show ?thesis unfolding Copied CopyStep.case
          by (intro lregisters_try [OF lcalm_lease_lost [OF assms refl]]
              lregisters_try [OF lcalm_with_lease [OF calm_create_checksum [OF assms refl]]]
              lregisters_last [OF assms, unfolded Let_def])
      qed (simp add: lregisters_unaudited)
    qed
  qed
qed

lemma create_leased_registers:
  assumes "audit_sink (p_Record cfg)" "md_inv (w_md w)"
    and "create_leased (mem_ports sha config cfg) caller f out v w = (w', Inr (Audited i x))"
  shows "md_inv (w_md w') \<and> is_ok (MdGetById (w_md w') (cc_partition caller) i)"
proof -
  let ?P = "mem_ports sha config cfg"
  let ?hold = "\<lambda>w. if p_claim_hold_millis ?P > 0 then p_sleep_millis ?P (p_claim_hold_millis ?P) w else w"
  have hold: "w_md (?hold x) = w_md x" for x by simp
  have move: "snd (create_move ?P caller f out v (?hold y, l)) = Inr (Audited i x) \<Longrightarrow> md_inv (w_md y) \<Longrightarrow>
      md_inv (w_md (fst (fst (create_move ?P caller f out v (?hold y, l))))) \<and>
      is_ok (MdGetById (w_md (fst (fst (create_move ?P caller f out v (?hold y, l))))) (cc_partition caller) i)" for y l
    using create_move_registers [OF assms(1), where s = "(?hold y, l)" and f = f and out = out and v = v] hold [of y]
    unfolding lregisters_def fst_conv by simp
  show ?thesis
  proof (cases "LeaseEnabled ?P")
    case False
    then have "create_leased ?P caller f out v w =
        (fst (fst (create_move ?P caller f out v (?hold w, None))), snd (create_move ?P caller f out v (?hold w, None)))"
      by (simp add: create_leased_def case_prod_beta)
    then show ?thesis using move [of w None] assms(2,3) by (metis Pair_inject)
  next
    case True
    obtain w1 q where e: "EnsureLeaseOwnership ?P caller f w = (w1, q)" by fastforce
    have q1: "quiet [] w w1" using calm_ensure_lease e by (metis calm_pair)
    show ?thesis
    proof (cases q)
      case (Inl err)
      then show ?thesis using True e assms(3) by (simp add: create_leased_def Let_def)
    next
      case (Inr u)
      let ?r = "LeaseRenewerStart ?P (cc_partition caller) f (LeaseTtlMillis ?P) (p_lease_renew_interval_seconds ?P * 1000) w1"
      obtain r w2 where rw: "LeaseRenewerRounds ?P (?r, w1) = (r, w2)" by fastforce
      have q2: "quiet [] w w2" using quiet_trans [OF q1 quiet_rounds] rw by (metis snd_conv)
      let ?res = "if LeaseRenewerFailed r
          then ((abort_create ?P caller f (fm_id out) None v w2, Some r), Err kUnavailable msg_renew_unavailable)
          else create_move ?P caller f out v (?hold w2, Some r)"
      have run: "create_leased ?P caller f out v w = (fst (release_lease ?P caller f (fm_id out) (fst ?res)), snd ?res)"
        using True e Inr rw by (simp add: create_leased_def Let_def case_prod_beta)
      have ok: "snd ?res = Inr (Audited i x)" and w': "w' = fst (release_lease ?P caller f (fm_id out) (fst ?res))"
        using assms(3) unfolding run by simp_all
      have "\<not> LeaseRenewerFailed r" using ok by (auto simp: Err_def)
      then have "md_inv (w_md (fst (fst ?res))) \<and> is_ok (MdGetById (w_md (fst (fst ?res))) (cc_partition caller) i)"
        using move [of w2 "Some r"] ok q2 assms(2) by (simp add: quiet_def)
      moreover have "quiet [] (fst (fst ?res)) w'"
        unfolding w' by (cases "fst ?res") (simp add: release_lease_def quiet_release_now assms(1) split: option.split)
      ultimately show ?thesis by (simp add: quiet_def)
    qed
  qed
qed

lemma unaudited_result: "FSS_TRY_ST rs (\<lambda>w i. (w, Ok (Unaudited i))) = (w', Inr (Audited i x)) \<Longrightarrow> False"
  by (cases rs; cases "snd rs") (auto simp: Ok_def)

text \<open>C2: what an error of \<open>CreateFileMetadata\<close> leaves behind, in the assembled world with an authorizer
  that only answers and any audit sink, failing ones included. Either the registration is invisible: every record readers can
  see is as before (none added, none changed), the location records are as before, every object outside the
  partition's persistent container, the staged upload above all, still has its bytes, and the failed attempt was handed to the
  audit sink. Or, and only under \<open>observability.audit_fail_closed\<close>, the error is the internal one of an audit sink that
  refused the success event: then the registration is complete and its record is visible all the same.\<close>

theorem create_failure_atomic:
  assumes "passive_authorizer cfg" "audit_sink (p_Record cfg)" "md_inv (w_md w)"
    and "ContainerForRegistry (StaticPartitionGet config) (cc_partition caller) kPersistent = Ok c"
    and "CreateFileMetadata (mem_ports sha config cfg) caller rec w = Some (w', Inl e)"
  shows "md_inv (w_md w') \<and>
    ((\<forall>p i. MdGetById (w_md w') p i = MdGetById (w_md w) p i) \<and> w_loc w' = w_loc w \<and>
     (\<forall>c' k. c' \<noteq> c \<longrightarrow> blob_content (w_blob w') c' k = blob_content (w_blob w) c' k) \<and>
     (\<exists>w1. w' = fst (p_Record cfg \<lparr>ae_operation = ''createMetadataFailure'', ae_user = cc_user_id caller,
        ae_partition = cc_partition caller, ae_object_id = FileSourceOf rec, ae_result = ''failure'',
        ae_epoch_millis = now_millis w1, ae_correlation_id = cc_correlation_id caller\<rparr> w1)) \<or>
     p_audit_fail_closed cfg \<and> error_kind e = kInternal \<and>
     (\<exists>i w1 e1. p_Record cfg \<lparr>ae_operation = ''createMetadataSuccess'', ae_user = cc_user_id caller,
        ae_partition = cc_partition caller, ae_object_id = i, ae_result = ''success'', ae_epoch_millis = now_millis w1,
        ae_correlation_id = cc_correlation_id caller\<rparr> w1 = (w', Inl e1) \<and>
        is_ok (MdGetById (w_md w') (cc_partition caller) i)))"
proof -
  let ?P = "mem_ports sha config cfg" and ?f = "FileSourceOf rec"
  note sink = assms(2)
  obtain w1 q where cl: "create_claim ?P caller rec w = (w1, q)" by fastforce
  have q1: "quiet c w w1" using calm_create_claim [OF assms(1)] cl by (metis calm_pair)
  then have inv1: "md_inv (w_md w1)" using assms(3) by (simp add: quiet_def)
  obtain y where y: "audited ?P caller ''createMetadata'' ?f y = (w', Inl e)"
    and body: "(case create_claim ?P caller rec w of
           (w, Inl e) \<Rightarrow> Some (w, Inl e)
         | (w, Inr (ReturnExisting existing)) \<Rightarrow>
             Some (FSS_TRY_ST (ReturnExistingRecord ?P caller existing w) (\<lambda>w i. (w, Ok (Unaudited i))))
         | (w, Inr InProgress) \<Rightarrow>
             map_option (\<lambda>rs. FSS_TRY_ST rs (\<lambda>w i. (w, Ok (Unaudited i)))) (WaitForExistingClaim ?P caller (FileSourceOf rec) w)
         | (w, Inr (Proceed out version)) \<Rightarrow> Some (create_leased ?P caller (FileSourceOf rec) out version w)) = Some y"
    using assms(5) unfolding CreateFileMetadata_def Let_def by (auto simp: map_option_eq_Some)
  obtain w2 r where y2: "y = (w2, r)" by fastforce
  show ?thesis
  proof (cases r)
    case (Inl e2)
    have "quiet c w w2"
    proof (cases q)
      case (Inl e1)
      then show ?thesis using body cl q1 y2 by auto
    next
      case (Inr step)
      show ?thesis
      proof (cases step)
        case (ReturnExisting x)
        have "calm c w1 (ReturnExistingRecord ?P caller x w1)" by (rule quiet_existing [OF sink])
        moreover have "w2 = fst (ReturnExistingRecord ?P caller x w1)"
          using body cl Inr ReturnExisting y2 by (cases "ReturnExistingRecord ?P caller x w1"; cases "snd (ReturnExistingRecord ?P caller x w1)") auto
        ultimately show ?thesis using quiet_trans [OF q1] by (simp add: calm_def)
      next
        case InProgress
        then obtain z where z: "WaitForExistingClaim ?P caller (FileSourceOf rec) w1 = Some z"
          "y = FSS_TRY_ST z (\<lambda>w i. (w, Ok (Unaudited i)))"
          using body cl Inr by (auto simp: map_option_eq_Some)
        then have "w2 = fst z" using y2 by (cases z; cases "snd z") auto
        then show ?thesis using quiet_wait_loop [OF sink] z(1) quiet_trans [OF q1] unfolding WaitForExistingClaim_def by metis
      next
        case (Proceed out v)
        have "calm_error c w1 (w2, r)"
          using body cl Inr Proceed y2 calm_create_leased [OF sink assms(4), of w1 sha ?f out v] by simp
        then show ?thesis using quiet_trans [OF q1] by (simp add: calm_error_def \<open>r = Inl e2\<close>)
      qed
    qed
    moreover have w': "w' = fst (RecordAudit ?P ''createMetadataFailure'' caller ?f False w2)"
      using y by (simp add: audited_def y2 Inl)
    ultimately have "quiet c w w'" by (simp add: sink)
    then show ?thesis using assms(3) w' by (auto simp: quiet_def RecordAudit_fst audit_event_def)
  next
    case (Inr ex)
    show ?thesis
    proof (cases ex)
      case (Unaudited x)
      then show ?thesis using y by (simp add: audited_def y2 Inr)
    next
      case (Audited i x)
      obtain w3 a where ev: "p_Record cfg (audit_event ?P ''createMetadataSuccess'' caller i True w2) w2 = (w3, a)" by fastforce
      then obtain e1 where a: "a = Inl e1" "p_audit_fail_closed cfg" "w' = w3" "error_kind e = kInternal"
        using y by (auto simp: audited_def y2 Inr Audited RecordAudit_def Err_def split: sum.splits if_splits)
      have "md_inv (w_md w2) \<and> is_ok (MdGetById (w_md w2) (cc_partition caller) i)"
      proof -
        obtain out v where "q = Inr (Proceed out v)" "create_leased ?P caller ?f out v w1 = (w2, Inr (Audited i x))"
          using body cl y2 Inr Audited by (auto split: sum.splits ClaimStep.splits simp: map_option_eq_Some dest!: unaudited_result)
        then show ?thesis using create_leased_registers [OF sink inv1] by blast
      qed
      moreover obtain trail where "w3 = w2\<lparr>w_audit := trail\<rparr>" using sink ev by (metis audit_sink_def fst_conv)
      ultimately show ?thesis using a ev by (auto simp: audit_event_def)
    qed
  qed
qed

theorem create_failure_atomic_witness:
  "\<exists>w' e. CreateFileMetadata (mem_ports (\<lambda>d. d) dev_partition dev_ports) dev_caller (sample_record\<lparr>fm_kind := []\<rparr>) empty_World =
     Some (w', Inl e) \<and> w_loc w' = loc_empty"
proof -
  let ?P = "mem_ports (\<lambda>d. d) dev_partition dev_ports" and ?r = "sample_record\<lparr>fm_kind := []\<rparr>"
  have "\<not> is_ok (KindValidate [])" by code_simp
  then obtain e where k: "KindValidate [] = Inl e" by (cases "KindValidate []") simp_all
  have run: "CreateFileMetadata ?P dev_caller ?r empty_World =
      Some (fst (the (CreateFileMetadata ?P dev_caller ?r empty_World)), Inl e)"
    using k by (simp add: CreateFileMetadata_def create_claim_def create_validate_def AuthorizeCaller_def audited_def
        dev_ports_def AllowAllAuthorize_def dev_caller_def)
  have c: "ContainerForRegistry (StaticPartitionGet dev_partition) (cc_partition dev_caller) kPersistent = Ok ''p-persistent''"
    by code_simp
  have p: "passive_authorizer dev_ports" by (simp add: passive_authorizer_def dev_ports_def)
  have m: "md_inv (w_md empty_World)" by (simp add: empty_World_def md_inv_empty)
  have k: "audit_sink (p_Record dev_ports)" "\<not> p_audit_fail_closed dev_ports" by (simp_all add: dev_ports_def audit_sinks)
  have "w_loc empty_World = loc_empty" by (simp add: empty_World_def)
  then show ?thesis using create_failure_atomic [OF p k(1) m c run] k(2) run by metis
qed

end
