(* ===== verification/Registration.thy ===== *)
theory Registration
  imports Use_Case_Properties
begin

text \<open>
  A registration that succeeds, step by step in the assembled world: the claim is won, the lease is
  held, the staged object is copied into the persistent container, its digest goes into the record,
  the record becomes visible, the location record moves, the staged object is removed.
\<close>

section \<open>Steps that succeed\<close>

text \<open>The object store without injected faults.\<close>

lemma healthy_no_faults [simp]: "bs_fault s = no_faults \<Longrightarrow> healthy op s"
  by (simp add: healthy_def no_faults_def)

lemma BlobEnsureContainer_ok:
  assumes "bs_fault s = no_faults" "c \<noteq> []"
  obtains s' where "BlobEnsureContainer s c = (s', Ok ())" "bs_fault s' = no_faults" "blob_at s' = blob_at s"
    "HasContainer s' c"
proof -
  obtain s' r where e: "BlobEnsureContainer s c = (s', r)" by fastforce
  show ?thesis using BlobEnsureContainer_effect [OF e] assms e by (intro that [of s']) auto
qed

lemma BlobCopy_ok:
  assumes "bs_fault s = no_faults" "blob_at s (or_container a) (or_key a) = Some obj" "HasContainer s (or_container b)"
    "or_container a \<noteq> []" "or_key a \<noteq> []" "or_container b \<noteq> []" "or_key b \<noteq> []"
  obtains s' where "BlobCopy now s a b = (s', Ok (object_stat (obj\<lparr>bo_last_modified := now\<rparr>)))" "bs_fault s' = no_faults"
    "\<And>c k. blob_at s' c k =
       (if c = or_container b \<and> k = or_key b then Some (obj\<lparr>bo_last_modified := now\<rparr>) else blob_at s c k)"
proof -
  obtain s1 where b: "BeginOp s opCopy = (s1, Ok ())" "bs_containers s1 = bs_containers s" "bs_fault s1 = bs_fault s"
    using begin_healthy assms(1) healthy_no_faults by metis
  have v: "ValidateRef a = Ok ()" "ValidateRef b = Ok ()" using assms by (simp_all add: ValidateRef_Ok)
  obtain objs where objs: "map_of (bs_containers s1) (or_container b) = Some objs"
    using assms(3) b(2) by (auto simp: HasContainer_def)
  let ?s = "store_object b (obj\<lparr>bo_last_modified := now\<rparr>) s1"
  have "BlobCopy now s a b = (?s, Ok (object_stat (obj\<lparr>bo_last_modified := now\<rparr>)))"
    using b v objs assms(2) BeginOp_at [OF b(1)]
    by (simp add: BlobCopy_def find_object_at BlobCapabilitiesOf_def Let_def)
  moreover have "bs_fault ?s = no_faults" using b(3) assms(1) objs by (simp add: store_object_def)
  moreover have "blob_at ?s c k = (if c = or_container b \<and> k = or_key b then Some (obj\<lparr>bo_last_modified := now\<rparr>) else blob_at s c k)" for c k
    using objs BeginOp_at [OF b(1)] b(2) by (simp add: store_object_at)
  ultimately show ?thesis by (rule that)
qed

lemma BlobRemove_ok:
  assumes "bs_fault s = no_faults" "or_container a \<noteq> []" "or_key a \<noteq> []"
  obtains s' where "BlobRemove s a = (s', Ok ())"
    "\<And>c k. blob_at s' c k = (if c = or_container a \<and> k = or_key a then None else blob_at s c k)"
proof -
  obtain s1 where b: "BeginOp s opRemove = (s1, Ok ())" using begin_healthy assms(1) healthy_no_faults by metis
  have v: "ValidateRef a = Ok ()" using assms by (simp add: ValidateRef_Ok)
  obtain s' r where e: "BlobRemove s a = (s', r)" by fastforce
  have "r = Ok ()" using e b v by (auto simp: BlobRemove_def split: option.splits)
  then show ?thesis using that e BlobRemove_effect [OF e] by auto
qed

lemma BlobGet_ok:
  assumes "bs_fault s = no_faults" "blob_at s (or_container a) (or_key a) = Some obj"
    "or_container a \<noteq> []" "or_key a \<noteq> []"
  obtains s' where "BlobGet s a whole_object = (s', Ok (bo_data obj))" "bs_fault s' = no_faults" "blob_at s' = blob_at s"
proof -
  obtain s1 where b: "BeginOp s opGet = (s1, Ok ())" "bs_fault s1 = bs_fault s"
    using begin_healthy assms(1) healthy_no_faults by metis
  have "ValidateRef a = Ok ()" using assms by (simp add: ValidateRef_Ok)
  then have "BlobGet s a whole_object = (s1, Ok (bo_data obj))"
    using b assms(2) by (simp add: BlobGet_eq whole_object_def IsWholeObject_def)
  then show ?thesis using that b assms(1) BeginOp_at [OF b(1)] by metis
qed

text \<open>The digest a registration records for an object.\<close>

definition recorded_checksum :: "(World, unit) Ports \<Rightarrow> BlobObject \<Rightarrow> string \<times> string" where
  "recorded_checksum cfg obj =
     (case native_checksum (object_stat obj) of
        Some ca \<Rightarrow> ca | None \<Rightarrow> (p_HexDigest cfg kSha256 (bo_data obj), CanonicalChecksumName kSha256))"

lemma create_copy_ok:
  assumes "bs_fault (w_blob w) = no_faults" "fl_zone location = kStaging"
    "blob_at (w_blob w) (or_container a) (or_key a) = Some obj"
    "or_container a \<noteq> []" "or_key a \<noteq> []" "or_container b \<noteq> []" "or_key b \<noteq> []"
  obtains s where "create_copy (mem_ports sha config cfg) caller f i v location a b w =
      (w\<lparr>w_blob := s\<rparr>, Ok (Copied (object_stat (obj\<lparr>bo_last_modified := now_seconds w\<rparr>))))" "bs_fault s = no_faults"
    "\<And>c k. blob_at s c k = (if c = or_container b \<and> k = or_key b then Some (obj\<lparr>bo_last_modified := now_seconds w\<rparr>)
       else blob_at (w_blob w) c k)"
proof -
  obtain s1 where s1: "BlobEnsureContainer (w_blob w) (or_container b) = (s1, Ok ())" "bs_fault s1 = no_faults"
    "blob_at s1 = blob_at (w_blob w)" "HasContainer s1 (or_container b)"
    using BlobEnsureContainer_ok [OF assms(1,6)] .
  have at: "blob_at s1 (or_container a) (or_key a) = Some obj" using s1(3) assms(3) by simp
  obtain s where s: "BlobCopy (now_seconds w) s1 a b = (s, Ok (object_stat (obj\<lparr>bo_last_modified := now_seconds w\<rparr>)))"
    "bs_fault s = no_faults"
    "\<And>c k. blob_at s c k = (if c = or_container b \<and> k = or_key b then Some (obj\<lparr>bo_last_modified := now_seconds w\<rparr>)
       else blob_at s1 c k)"
    using BlobCopy_ok [OF s1(2) at s1(4) assms(4-7)] by blast
  have "now_seconds (w\<lparr>w_blob := s1\<rparr>) = now_seconds w" by (simp add: now_seconds_def)
  then have "create_copy (mem_ports sha config cfg) caller f i v location a b w =
      (w\<lparr>w_blob := s\<rparr>, Ok (Copied (object_stat (obj\<lparr>bo_last_modified := now_seconds w\<rparr>))))"
    using s1(1) s(1) assms(2)
    by (simp add: create_copy_def CopyBetweenZones_def SingleStoreForPartition_def on_blob_def)
  then show ?thesis using that s(2,3) s1(3) by metis
qed

lemma create_checksum_ok:
  assumes "bs_fault (w_blob w) = no_faults" "blob_at (w_blob w) (or_container b) (or_key b) = Some obj"
    "or_container b \<noteq> []" "or_key b \<noteq> []"
  obtains s where "create_checksum (mem_ports sha config cfg) caller f i v b (object_stat obj) w =
      (w\<lparr>w_blob := s\<rparr>, Ok (recorded_checksum cfg obj))" "bs_fault s = no_faults" "blob_at s = blob_at (w_blob w)"
proof (cases "native_checksum (object_stat obj)")
  case None
  obtain s where s: "BlobGet (w_blob w) b whole_object = (s, Ok (bo_data obj))" "bs_fault s = no_faults"
      "blob_at s = blob_at (w_blob w)" by (rule BlobGet_ok [OF assms])
  then show ?thesis using None that [of s]
    by (simp add: create_checksum_def ComputeChecksumStreaming_def SingleStoreForPartition_def on_blob_def recorded_checksum_def)
next
  case (Some ca)
  then show ?thesis using that [of "w_blob w"] assms(1)
    by (simp add: create_checksum_def recorded_checksum_def)
qed

section \<open>Holding the lease\<close>

definition owned :: "(World, unit) Ports \<Rightarrow> CallerContext \<Rightarrow> string \<Rightarrow> LeaseState \<Rightarrow> bool" where
  "owned cfg caller f s \<longleftrightarrow>
     (\<exists>l. map_of s (LeaseKey (cc_partition caller) f) = Some l \<and> ls_owner l = p_instance_id cfg)"

definition renewing :: "(World, unit) Ports \<Rightarrow> CallerContext \<Rightarrow> string \<Rightarrow> LeaseRenewer \<Rightarrow> bool" where
  "renewing cfg caller f r \<longleftrightarrow> ren_partition r = cc_partition caller \<and> ren_lease_key r = f \<and>
     ren_instance_id r = p_instance_id cfg \<and> ren_last_error r = None"

text \<open>The lease is held: no renewer is needed, or one runs whose renewals have all succeeded.\<close>

definition holding :: "(World, unit) Ports \<Rightarrow> CallerContext \<Rightarrow> string \<Rightarrow> LeaseState \<Rightarrow> LeaseRenewer option \<Rightarrow> bool" where
  "holding cfg caller f s l \<longleftrightarrow> (case l of None \<Rightarrow> True | Some r \<Rightarrow> owned cfg caller f s \<and> renewing cfg caller f r)"

lemma rounds_holding:
  assumes "owned cfg caller f (w_lease w)" "renewing cfg caller f r"
  obtains s r' where "LeaseRenewerRounds (mem_ports sha config cfg) (r, w) = (r', w\<lparr>w_lease := s\<rparr>)"
    "owned cfg caller f s" "renewing cfg caller f r'"
proof -
  have step: "\<exists>s r'. LeaseRenewerRound (mem_ports sha config cfg) (r, w\<lparr>w_lease := t\<rparr>) = (r', w\<lparr>w_lease := s\<rparr>) \<and>
      owned cfg caller f s \<and> renewing cfg caller f r'" if "owned cfg caller f t" "renewing cfg caller f r" for t r
  proof -
    let ?w = "LeaseRenewerRound (mem_ports sha config cfg) (r, w\<lparr>w_lease := t\<rparr>)"
    have "snd ?w = w\<lparr>w_lease := w_lease (snd ?w)\<rparr> \<and> owned cfg caller f (w_lease (snd ?w)) \<and> renewing cfg caller f (fst ?w)"
      using that by (auto simp: LeaseRenewerRound_def on_lease_def LeaseRenew_def owned_def renewing_def)
    then show ?thesis by (metis prod.collapse)
  qed
  have "\<exists>s r'. (LeaseRenewerRound (mem_ports sha config cfg) ^^ n) (r, w) = (r', w\<lparr>w_lease := s\<rparr>) \<and>
      owned cfg caller f s \<and> renewing cfg caller f r'" for n
  proof (induction n)
    case 0
    show ?case using assms by (auto intro: exI [of _ "w_lease w"])
  next
    case (Suc n)
    then obtain s r' where n: "(LeaseRenewerRound (mem_ports sha config cfg) ^^ n) (r, w) = (r', w\<lparr>w_lease := s\<rparr>)"
      "owned cfg caller f s" "renewing cfg caller f r'" by blast
    from step [OF n(2,3)] n(1) show ?case by simp
  qed
  then obtain s r' where "(LeaseRenewerRound (mem_ports sha config cfg) ^^ p_renew_rounds cfg w) (r, w) = (r', w\<lparr>w_lease := s\<rparr>)"
      "owned cfg caller f s" "renewing cfg caller f r'" by blast
  then show ?thesis
    using that [of r' s] that [of r "w_lease w"] assms by (cases "ren_active r") (simp_all add: LeaseRenewerRounds_def)
qed

lemma lease_not_lost:
  assumes "holding cfg caller f (w_lease w) l"
  obtains s l' where "abort_if_lease_lost (mem_ports sha config cfg) caller f i b v (w, l) = ((w\<lparr>w_lease := s\<rparr>, l'), Ok ())"
    "holding cfg caller f s l'" "l' = None \<longleftrightarrow> l = None"
proof (cases l)
  case None
  then show ?thesis using that [of "w_lease w" None]
    by (simp add: abort_if_lease_lost_def renew_until_now_def holding_def)
next
  case (Some r)
  have held: "owned cfg caller f (w_lease w)" "renewing cfg caller f r" using assms Some by (simp_all add: holding_def)
  obtain s r' where "LeaseRenewerRounds (mem_ports sha config cfg) (r, w) = (r', w\<lparr>w_lease := s\<rparr>)"
    "owned cfg caller f s" "renewing cfg caller f r'"
    by (rule rounds_holding [OF held])
  then show ?thesis using that [of s "Some r'"] Some
    by (simp add: abort_if_lease_lost_def renew_until_now_def holding_def LeaseRenewerFailed_def renewing_def)
qed

lemma lease_released:
  assumes "holding cfg caller f (w_lease w) l"
  obtains s where "release_lease (mem_ports sha config cfg) caller f i (w, l) = (w\<lparr>w_lease := s\<rparr>, None)"
    "l \<noteq> None \<longrightarrow> map_of s (LeaseKey (cc_partition caller) f) = None"
proof (cases l)
  case None
  then show ?thesis using that [of "w_lease w"] by (simp add: release_lease_def)
next
  case (Some r)
  have held: "owned cfg caller f (w_lease w)" "renewing cfg caller f r" using assms Some by (simp_all add: holding_def)
  obtain s r' where r: "LeaseRenewerRounds (mem_ports sha config cfg) (r, w) = (r', w\<lparr>w_lease := s\<rparr>)"
    "owned cfg caller f s" "renewing cfg caller f r'"
    by (rule rounds_holding [OF held])
  then show ?thesis using that [of "map_erase (LeaseKey (cc_partition caller) f) s"] Some
    by (auto simp: release_lease_def ReleaseNow_def on_lease_def LeaseRelease_def owned_def)
qed

text \<open>Nobody else holds the lease on the file source: there is none, it is ours, or it has expired.\<close>

definition lease_free :: "(World, unit) Ports \<Rightarrow> CallerContext \<Rightarrow> string \<Rightarrow> World \<Rightarrow> bool" where
  "lease_free cfg caller f w \<longleftrightarrow>
     (case map_of (w_lease w) (LeaseKey (cc_partition caller) f) of
        None \<Rightarrow> True | Some l \<Rightarrow> ls_owner l = p_instance_id cfg \<or> ls_expires_at l \<le> now_millis w)"

lemma ensure_lease_ok:
  assumes "lease_free cfg caller f w" "LeaseEnabled (mem_ports sha config cfg)"
  obtains s where "EnsureLeaseOwnership (mem_ports sha config cfg) caller f w = (w\<lparr>w_lease := s\<rparr>, Ok ())"
    "owned cfg caller f s"
proof -
  let ?w = "EnsureLeaseOwnership (mem_ports sha config cfg) caller f w"
  have "fst ?w = w\<lparr>w_lease := w_lease (fst ?w)\<rparr> \<and> snd ?w = Ok () \<and> owned cfg caller f (w_lease (fst ?w))"
    using assms
    by (auto simp: EnsureLeaseOwnership_def on_lease_def LeaseRenew_def LeaseAcquire_def lease_free_def owned_def
        now_millis_def Let_def split: option.splits)
  then show ?thesis using that by (metis prod.collapse)
qed

section \<open>The registration\<close>

definition new_record :: "CallerContext \<Rightarrow> FileMetadataRecord \<Rightarrow> World \<Rightarrow> FileMetadataRecord" where
  "new_record caller rec w =
     rec\<lparr>fm_id := cc_partition caller @ '':dataset--File.Generic:'' @ snd (SequentialNewUuidNoDash (w_next_id w)), fm_version := 1\<rparr>"

lemma set_checksum_keeps [simp]:
  "fm_id (set_checksum ca out) = fm_id out" "fm_version (set_checksum ca out) = fm_version out"
  "FileSourceOf (set_checksum ca out) = FileSourceOf out"
  "ValidatePartitionAndId part (set_checksum ca out) = ValidatePartitionAndId part out"
  by (simp_all add: set_checksum_def FileSourceOf_def ValidatePartitionAndId_def RecordPartition_def Let_def split: prod.split)

lemma recorded_checksum_touched [simp]: "recorded_checksum cfg (obj\<lparr>bo_last_modified := t\<rparr>) = recorded_checksum cfg obj"
  by (simp add: recorded_checksum_def native_checksum_def object_stat_def split: option.split)

lemma moved_location_keeps [simp]:
  "fl_file_id (moved_location l b u t) = fl_file_id l" "fl_file_source (moved_location l b u t) = fl_file_source l"
  by (simp_all add: moved_location_def)

lemma moved_location_saved:
  assumes "loc_inv s" "LocFindByFileSource s p f = Ok l" "p \<noteq> []" "f \<noteq> []" "fl_file_id l \<noteq> []"
  obtains s' where "LocSave s p (moved_location l b u t) = (s', Ok ())"
    "LocFindByFileSource s' p f = Ok (moved_location l b u t)" "LocFind s' p (fl_file_id l) = Ok (moved_location l b u t)"
proof -
  obtain s' r where e: "LocSave s p (moved_location l b u t) = (s', r)" by fastforce
  have l: "fl_file_source l = f" using loc.by_source_iff [OF assms(1)] assms(2) by auto
  have r: "r = Ok ()" using loc.save_ok [OF assms(1) e] assms(2-5) l by auto
  have "LocFindByFileSource s' p (fl_file_source (moved_location l b u t)) = Ok (moved_location l b u t)"
    using loc.save_then_by_source [OF assms(1)] e r by blast
  moreover have "LocFind s' p (fl_file_id l) = Ok (moved_location l b u t)"
    unfolding loc.save_lookup [OF assms(1) e] using r by simp
  ultimately show ?thesis using that e r l by simp
qed

lemma create_finish_ok:
  assumes "loc_inv (w_loc w)" "LocFindByFileSource (w_loc w) (cc_partition caller) f = Ok location"
    "cc_partition caller \<noteq> []" "f \<noteq> []" "fl_file_id location \<noteq> []" "fl_zone location = kStaging"
    "bs_fault (w_blob w) = no_faults" "or_container a \<noteq> []" "or_key a \<noteq> []"
  obtains w' where "create_finish (mem_ports sha config cfg) caller location a b created w = w'"
    "w_md w' = w_md w" "w_lease w' = w_lease w" "w_audit w' = w_audit w" "w_clock w' = w_clock w"
    "w_status w' = w_status w @ [\<lparr>se_record_id = fm_id created, se_partition = cc_partition caller, se_status = ''SUCCESS'',
        se_dataset_sync = ''DATASET_SYNC'', se_version = fm_version created\<rparr>]"
    "LocFindByFileSource (w_loc w') (cc_partition caller) f = Ok (moved_location location b (cc_user_id caller) (now_seconds w))"
    "LocFind (w_loc w') (cc_partition caller) (fl_file_id location) = Ok (moved_location location b (cc_user_id caller) (now_seconds w))"
    "\<And>c k. blob_at (w_blob w') c k = (if c = or_container a \<and> k = or_key a then None else blob_at (w_blob w) c k)"
proof -
  obtain s1 where s1: "LocSave (w_loc w) (cc_partition caller) (moved_location location b (cc_user_id caller) (now_seconds w)) = (s1, Ok ())"
    "LocFindByFileSource s1 (cc_partition caller) f = Ok (moved_location location b (cc_user_id caller) (now_seconds w))"
    "LocFind s1 (cc_partition caller) (fl_file_id location) = Ok (moved_location location b (cc_user_id caller) (now_seconds w))"
    using moved_location_saved [OF assms(1-5)] by metis
  obtain s2 where s2: "BlobRemove (w_blob w) a = (s2, Ok ())"
    "\<And>c k. blob_at s2 c k = (if c = or_container a \<and> k = or_key a then None else blob_at (w_blob w) c k)"
    using BlobRemove_ok [OF assms(7-9)] by blast
  show ?thesis
    by (rule that [OF refl])
      (simp_all add: create_finish_def Let_def PublishDatasetDetails_def LogPublishDatasetDetails_def on_loc_def on_blob_def
        SingleStoreForPartition_def now_seconds_def [of "w\<lparr>w_status := _, w_details := _\<rparr>"] assms(6)
        s1 [unfolded now_seconds_def] s2 now_seconds_def)
qed

lemma create_register_ok:
  assumes "md_inv (w_md w)" "FindChain (w_md w) (cc_partition caller) (fm_id out) = Some [row]" "v_state row = kClaiming"
    "ValidatePartitionAndId (cc_partition caller) out = Ok ()" "FileSourceOf (v_record row) = FileSourceOf out" "fm_version out = 1"
  shows "create_register (mem_ports sha config cfg) caller f 1 b out w =
    (w\<lparr>w_md := set_chain (cc_partition caller) (fm_id out) [row\<lparr>v_record := out, v_state := kReady\<rparr>] (w_md w)\<rparr>, Ok out)"
proof -
  have "out\<lparr>fm_id := fm_id out, fm_version := 1\<rparr> = out" using assms(6) by (cases out) simp
  then show ?thesis
    using mark_ready_won [OF assms(1-4)] assms(5) by (simp add: create_register_def on_md_def)
qed

lemma create_move_ok:
  assumes "holding cfg caller f (w_lease w) l" "md_inv (w_md w)"
    "FindChain (w_md w) (cc_partition caller) (fm_id out) = Some [row]" "v_state row = kClaiming"
    "ValidatePartitionAndId (cc_partition caller) out = Ok ()" "FileSourceOf (v_record row) = FileSourceOf out" "fm_version out = 1"
    and loc: "loc_inv (w_loc w)" "LocFindByFileSource (w_loc w) (cc_partition caller) f = Ok location"
    "cc_partition caller \<noteq> []" "f \<noteq> []" "fl_file_id location \<noteq> []" "fl_zone location = kStaging"
    and refs: "ObjectRefFromLocation location = Ok a" "or_container a \<noteq> []" "or_key a \<noteq> []"
    and blob: "bs_fault (w_blob w) = no_faults" "blob_at (w_blob w) (or_container a) (or_key a) = Some obj"
    and cont: "ContainerForRegistry (StaticPartitionGet config) (cc_partition caller) kPersistent = Ok c" "c \<noteq> []" "c \<noteq> or_container a"
  obtains w' where "create_move (mem_ports sha config cfg) caller f out 1 (w, l) = ((w', None), Ok (Audited (fm_id out) (fm_id out)))"
    "w_md w' = set_chain (cc_partition caller) (fm_id out)
       [row\<lparr>v_record := set_checksum (recorded_checksum cfg obj) out, v_state := kReady\<rparr>] (w_md w)"
    "w_audit w' = w_audit w"
    "w_status w' = w_status w @ [\<lparr>se_record_id = fm_id out, se_partition = cc_partition caller, se_status = ''SUCCESS'',
        se_dataset_sync = ''DATASET_SYNC'', se_version = 1\<rparr>]"
    "l \<noteq> None \<longrightarrow> map_of (w_lease w') (LeaseKey (cc_partition caller) f) = None"
    "LocFindByFileSource (w_loc w') (cc_partition caller) f =
       Ok (moved_location location \<lparr>or_container = c, or_key = or_key a, or_version_id = None\<rparr> (cc_user_id caller) (now_seconds w))"
    "LocFind (w_loc w') (cc_partition caller) (fl_file_id location) =
       Ok (moved_location location \<lparr>or_container = c, or_key = or_key a, or_version_id = None\<rparr> (cc_user_id caller) (now_seconds w))"
    "\<And>d k. blob_at (w_blob w') d k = (if d = or_container a \<and> k = or_key a then None
        else if d = c \<and> k = or_key a then Some (obj\<lparr>bo_last_modified := now_seconds w\<rparr>) else blob_at (w_blob w) d k)"
proof -
  let ?P = "mem_ports sha config cfg" and ?i = "fm_id out" and ?part = "cc_partition caller"
  let ?b = "\<lparr>or_container = c, or_key = or_key a, or_version_id = None\<rparr>"
  let ?obj = "obj\<lparr>bo_last_modified := now_seconds w\<rparr>"
  let ?out = "set_checksum (recorded_checksum cfg obj) out"
  have b: "or_container ?b \<noteq> []" "or_key ?b \<noteq> []" using refs cont by simp_all
  obtain s1 where s1: "create_copy ?P caller f ?i 1 location a ?b w = (w\<lparr>w_blob := s1\<rparr>, Ok (Copied (object_stat ?obj)))"
    "bs_fault s1 = no_faults"
    "\<And>d k. blob_at s1 d k = (if d = or_container ?b \<and> k = or_key ?b then Some ?obj else blob_at (w_blob w) d k)"
    using create_copy_ok [OF blob(1) loc(6) blob(2) refs(2,3) b] by blast
  let ?w1 = "w\<lparr>w_blob := s1\<rparr>"
  have h1: "holding cfg caller f (w_lease ?w1) l" using assms(1) by simp
  obtain e2 l2 where l2: "abort_if_lease_lost ?P caller f ?i ?b 1 (?w1, l) = ((?w1\<lparr>w_lease := e2\<rparr>, l2), Ok ())"
    "holding cfg caller f e2 l2" "l2 = None \<longleftrightarrow> l = None" by (rule lease_not_lost [OF h1])
  let ?w2 = "?w1\<lparr>w_lease := e2\<rparr>"
  have at2: "bs_fault (w_blob ?w2) = no_faults" "blob_at (w_blob ?w2) (or_container ?b) (or_key ?b) = Some ?obj"
    using s1(2,3) by simp_all
  obtain s3 where s3: "create_checksum ?P caller f ?i 1 ?b (object_stat ?obj) ?w2 =
      (?w2\<lparr>w_blob := s3\<rparr>, Ok (recorded_checksum cfg ?obj))" "bs_fault s3 = no_faults" "blob_at s3 = blob_at (w_blob ?w2)"
    by (rule create_checksum_ok [OF at2 b])
  let ?w3 = "?w2\<lparr>w_blob := s3\<rparr>"
  have h3: "holding cfg caller f (w_lease ?w3) l2" using l2(2) by simp
  obtain e4 l4 where l4: "abort_if_lease_lost ?P caller f ?i ?b 1 (?w3, l2) = ((?w3\<lparr>w_lease := e4\<rparr>, l4), Ok ())"
    "holding cfg caller f e4 l4" "l4 = None \<longleftrightarrow> l2 = None" by (rule lease_not_lost [OF h3])
  let ?w4 = "?w3\<lparr>w_lease := e4\<rparr>"
  let ?md = "set_chain ?part ?i [row\<lparr>v_record := ?out, v_state := kReady\<rparr>] (w_md w)"
  have reg: "create_register ?P caller f 1 ?b ?out ?w4 = (?w4\<lparr>w_md := ?md\<rparr>, Ok ?out)"
    using create_register_ok [of ?w4 caller ?out row sha config cfg f ?b] assms(2-7) by simp
  let ?w5 = "?w4\<lparr>w_md := ?md\<rparr>"
  have h5: "holding cfg caller f (w_lease ?w5) l4" using l4(2) by simp
  obtain e6 where l6: "release_lease ?P caller f ?i (?w5, l4) = (?w5\<lparr>w_lease := e6\<rparr>, None)"
    "l4 \<noteq> None \<longrightarrow> map_of e6 (LeaseKey ?part f) = None"
    by (rule lease_released [OF h5])
  let ?w6 = "?w5\<lparr>w_lease := e6\<rparr>"
  have loc6: "loc_inv (w_loc ?w6)" "LocFindByFileSource (w_loc ?w6) ?part f = Ok location" "bs_fault (w_blob ?w6) = no_faults"
    using loc(1,2) s3(2) by simp_all
  obtain w' where w': "create_finish ?P caller location a ?b ?out ?w6 = w'"
    "w_md w' = w_md ?w6" "w_lease w' = w_lease ?w6" "w_audit w' = w_audit ?w6" "w_clock w' = w_clock ?w6"
    "w_status w' = w_status ?w6 @ [\<lparr>se_record_id = fm_id ?out, se_partition = cc_partition caller, se_status = ''SUCCESS'',
        se_dataset_sync = ''DATASET_SYNC'', se_version = fm_version ?out\<rparr>]"
    "LocFindByFileSource (w_loc w') (cc_partition caller) f = Ok (moved_location location ?b (cc_user_id caller) (now_seconds ?w6))"
    "LocFind (w_loc w') (cc_partition caller) (fl_file_id location) = Ok (moved_location location ?b (cc_user_id caller) (now_seconds ?w6))"
    "\<And>d k. blob_at (w_blob w') d k = (if d = or_container a \<and> k = or_key a then None else blob_at (w_blob ?w6) d k)"
    using create_finish_ok [OF loc6(1,2) loc(3-6) loc6(3) refs(2,3)] by blast
  have "create_move ?P caller f out 1 (w, l) = ((w', None), Ok (Audited ?i ?i))"
    using loc(2) refs(1) cont(1) s1(1) l2(1) s3(1) l4(1) reg l6(1) w'(1)
    by (simp add: create_move_def with_lease_parts Let_def)
  then show ?thesis
    by (rule that) (use w' l6(2) l2(3) l4(3) s3(3) s1(3) assms(7) cont(3) in \<open>auto simp: now_seconds_def\<close>)
qed

lemma create_leased_ok:
  assumes "lease_free cfg caller f w" "\<And>x. p_thread_start cfg x = Ok ()" "md_inv (w_md w)"
    "FindChain (w_md w) (cc_partition caller) (fm_id out) = Some [row]" "v_state row = kClaiming"
    "ValidatePartitionAndId (cc_partition caller) out = Ok ()" "FileSourceOf (v_record row) = FileSourceOf out" "fm_version out = 1"
    and loc: "loc_inv (w_loc w)" "LocFindByFileSource (w_loc w) (cc_partition caller) f = Ok location"
    "cc_partition caller \<noteq> []" "f \<noteq> []" "fl_file_id location \<noteq> []" "fl_zone location = kStaging"
    and refs: "ObjectRefFromLocation location = Ok a" "or_container a \<noteq> []" "or_key a \<noteq> []"
    and blob: "bs_fault (w_blob w) = no_faults" "blob_at (w_blob w) (or_container a) (or_key a) = Some obj"
    and cont: "ContainerForRegistry (StaticPartitionGet config) (cc_partition caller) kPersistent = Ok c" "c \<noteq> []" "c \<noteq> or_container a"
  obtains w' now where "create_leased (mem_ports sha config cfg) caller f out 1 w = (w', Ok (Audited (fm_id out) (fm_id out)))"
    "w_md w' = set_chain (cc_partition caller) (fm_id out)
       [row\<lparr>v_record := set_checksum (recorded_checksum cfg obj) out, v_state := kReady\<rparr>] (w_md w)"
    "w_audit w' = w_audit w"
    "w_status w' = w_status w @ [\<lparr>se_record_id = fm_id out, se_partition = cc_partition caller, se_status = ''SUCCESS'',
        se_dataset_sync = ''DATASET_SYNC'', se_version = 1\<rparr>]"
    "LeaseEnabled (mem_ports sha config cfg) \<longrightarrow> map_of (w_lease w') (LeaseKey (cc_partition caller) f) = None"
    "LocFindByFileSource (w_loc w') (cc_partition caller) f =
       Ok (moved_location location \<lparr>or_container = c, or_key = or_key a, or_version_id = None\<rparr> (cc_user_id caller) now)"
    "LocFind (w_loc w') (cc_partition caller) (fl_file_id location) =
       Ok (moved_location location \<lparr>or_container = c, or_key = or_key a, or_version_id = None\<rparr> (cc_user_id caller) now)"
    "\<And>d k. blob_at (w_blob w') d k = (if d = or_container a \<and> k = or_key a then None
        else if d = c \<and> k = or_key a then Some (obj\<lparr>bo_last_modified := now\<rparr>) else blob_at (w_blob w) d k)"
proof -
  let ?P = "mem_ports sha config cfg"
  note conclude = that
  define hold where "hold = (\<lambda>w. if p_claim_hold_millis ?P > 0 then p_sleep_millis ?P (p_claim_hold_millis ?P) w else w)"
  have keep [simp]: "w_md (hold x) = w_md x" "w_loc (hold x) = w_loc x" "w_blob (hold x) = w_blob x" "w_lease (hold x) = w_lease x"
      "w_audit (hold x) = w_audit x" "w_status (hold x) = w_status x" for x
    by (simp_all add: hold_def)
  have move: thesis if run: "\<And>w1 m. create_move ?P caller f out 1 (hold (w\<lparr>w_lease := e\<rparr>), l) = ((w1, None), m) \<Longrightarrow>
      create_leased ?P caller f out 1 w = (w1, m)"
    and h: "holding cfg caller f e l" and le: "LeaseEnabled ?P \<Longrightarrow> l \<noteq> None" for e l
  proof -
    let ?w = "hold (w\<lparr>w_lease := e\<rparr>)"
    have pre: "holding cfg caller f (w_lease ?w) l" "md_inv (w_md ?w)"
      "FindChain (w_md ?w) (cc_partition caller) (fm_id out) = Some [row]" "loc_inv (w_loc ?w)"
      "LocFindByFileSource (w_loc ?w) (cc_partition caller) f = Ok location" "bs_fault (w_blob ?w) = no_faults"
      "blob_at (w_blob ?w) (or_container a) (or_key a) = Some obj"
      using h assms(3,4) loc(1,2) blob by simp_all
    obtain w' where w': "create_move ?P caller f out 1 (?w, l) = ((w', None), Ok (Audited (fm_id out) (fm_id out)))"
      "w_md w' = set_chain (cc_partition caller) (fm_id out)
         [row\<lparr>v_record := set_checksum (recorded_checksum cfg obj) out, v_state := kReady\<rparr>] (w_md ?w)"
      "w_audit w' = w_audit ?w"
      "w_status w' = w_status ?w @ [\<lparr>se_record_id = fm_id out, se_partition = cc_partition caller, se_status = ''SUCCESS'',
          se_dataset_sync = ''DATASET_SYNC'', se_version = 1\<rparr>]"
      "l \<noteq> None \<longrightarrow> map_of (w_lease w') (LeaseKey (cc_partition caller) f) = None"
      "LocFindByFileSource (w_loc w') (cc_partition caller) f =
         Ok (moved_location location \<lparr>or_container = c, or_key = or_key a, or_version_id = None\<rparr> (cc_user_id caller) (now_seconds ?w))"
      "LocFind (w_loc w') (cc_partition caller) (fl_file_id location) =
         Ok (moved_location location \<lparr>or_container = c, or_key = or_key a, or_version_id = None\<rparr> (cc_user_id caller) (now_seconds ?w))"
      "\<And>d k. blob_at (w_blob w') d k = (if d = or_container a \<and> k = or_key a then None
          else if d = c \<and> k = or_key a then Some (obj\<lparr>bo_last_modified := now_seconds ?w\<rparr>) else blob_at (w_blob ?w) d k)"
      by (rule create_move_ok [OF pre(1-3) assms(5-8) pre(4,5) loc(3-6) refs pre(6,7) cont]) blast
    show thesis by (rule conclude [OF run [OF w'(1)], of "now_seconds ?w"]) (use w' le in simp_all)
  qed
  show ?thesis
  proof (cases "LeaseEnabled ?P")
    case False
    then have "create_leased ?P caller f out 1 w = (case create_move ?P caller f out 1 (hold w, None) of ((w, _), m) \<Rightarrow> (w, m))"
      by (simp add: create_leased_def hold_def)
    then show ?thesis using False by (intro move [of "w_lease w" None]) (simp_all add: holding_def)
  next
    case True
    obtain e1 where e1: "EnsureLeaseOwnership ?P caller f w = (w\<lparr>w_lease := e1\<rparr>, Ok ())" "owned cfg caller f e1"
      by (rule ensure_lease_ok [OF assms(1) True])
    let ?r = "LeaseRenewerStart ?P (cc_partition caller) f (LeaseTtlMillis ?P) (p_lease_renew_interval_seconds ?P * 1000) (w\<lparr>w_lease := e1\<rparr>)"
    have r: "renewing cfg caller f ?r" using assms(2) by (simp add: renewing_def LeaseRenewerStart_def Let_def)
    have o: "owned cfg caller f (w_lease (w\<lparr>w_lease := e1\<rparr>))" using e1(2) by simp
    obtain e2 r2 where r2: "LeaseRenewerRounds ?P (?r, w\<lparr>w_lease := e1\<rparr>) = (r2, w\<lparr>w_lease := e1, w_lease := e2\<rparr>)"
      "owned cfg caller f e2" "renewing cfg caller f r2" by (rule rounds_holding [OF o r])
    have "create_leased ?P caller f out 1 w =
        (case create_move ?P caller f out 1 (hold (w\<lparr>w_lease := e2\<rparr>), Some r2) of
           (s, m) \<Rightarrow> (fst (release_lease ?P caller f (fm_id out) s), m))"
      using True e1(1) r2(1,3) by (simp add: create_leased_def Let_def LeaseRenewerFailed_def renewing_def hold_def)
    then show ?thesis
      using r2(2,3) by (intro move [of e2 "Some r2"]) (simp_all add: holding_def release_lease_def)
  qed
qed

lemma new_record_valid:
  assumes "cc_partition caller \<noteq> []" "CHR '':'' \<notin> set (cc_partition caller)"
  shows "ValidatePartitionAndId (cc_partition caller) (new_record caller rec w) = Ok ()"
  using assms
  by (simp add: ValidatePartitionAndId_def RecordPartition_def new_record_def before_first_def takeWhile_no_sep)

lemma create_validate_ok:
  assumes "KindValidate (fm_kind rec) = Ok k" "ValidateMetadataRecord rec = []"
  shows "create_validate (mem_ports sha config cfg) caller rec w = (w, Ok ())" "FileSourceOf rec \<noteq> []"
proof -
  have "legal_tags (fm_legal rec) \<noteq> []" "FileSourceOf rec \<noteq> []"
    using assms(2)
    by (auto simp: ValidateMetadataRecord_def legal_issues_def data_issues_def file_source_issues_def FileSourceOf_def
        add_if_def Let_def split: if_splits)
  then show "create_validate (mem_ports sha config cfg) caller rec w = (w, Ok ())" "FileSourceOf rec \<noteq> []"
    using assms by (simp_all add: create_validate_def NoopLegalValidate_def NoopSchemaValidate_def)
qed

lemma create_claim_ok:
  assumes "p_Authorize cfg kRoleFileEditors (cc_partition caller) (cc_bearer_token caller) w = (w, Ok ())"
    "cc_partition caller \<noteq> []" "CHR '':'' \<notin> set (cc_partition caller)"
    "KindValidate (fm_kind rec) = Ok k" "ValidateMetadataRecord rec = []" "md_inv (w_md w)"
    "map_of (md_source_index (w_md w)) (cc_partition caller, FileSourceOf rec) = None"
    "FindChain (w_md w) (cc_partition caller) (fm_id (new_record caller rec w)) = None"
  obtains s where "create_claim (mem_ports sha config cfg) caller rec w =
      (w\<lparr>w_status := w_status w @ [\<lparr>se_record_id = [], se_partition = cc_partition caller, se_status = ''IN_PROGRESS'',
            se_dataset_sync = ''DATASET_SYNC'', se_version = 0\<rparr>],
         w_next_id := fst (SequentialNewUuidNoDash (w_next_id w)), w_md := s\<rparr>, Ok (Proceed (new_record caller rec w) 1))"
    "md_inv s" "\<And>q j. FindChain s q j = (if (q, j) = (cc_partition caller, fm_id (new_record caller rec w))
       then Some [new_row (now_seconds w) (new_record caller rec w)] else FindChain (w_md w) q j)"
    "md_source_index s = map_put (cc_partition caller, FileSourceOf rec) (fm_id (new_record caller rec w)) (md_source_index (w_md w))"
proof -
  let ?part = "cc_partition caller" and ?out = "new_record caller rec w"
  have src: "FileSourceOf ?out = FileSourceOf rec" by (simp add: new_record_def FileSourceOf_def)
  note v = create_validate_ok [OF assms(4,5)] and pv = new_record_valid [OF assms(2,3), of rec w]
  obtain s res where c: "MdClaimForWrite (now_seconds w) (w_md w) ?part ?out = (s, res)" by fastforce
  have ne: "\<not> (\<exists>e. res = Inl e)"
    using c pv assms(7,8) v(2) src
    by (auto simp: MdClaimForWrite_def Let_def FindChain_def split: option.splits if_splits)
  from assms(6) c have e: "res = Ok \<lparr>mc_claimed = True, mc_record = ?out\<lparr>fm_version := 1\<rparr>, mc_state = kClaiming\<rparr>"
    "\<And>q j. FindChain s q j = (if (q, j) = (?part, fm_id ?out) then Some [new_row (now_seconds w) ?out] else FindChain (w_md w) q j)"
    "md_source_index s = map_put (?part, FileSourceOf ?out) (fm_id ?out) (md_source_index (w_md w))"
    by (cases rule: claim_cases; use ne assms(7) src in auto)+
  have get: "\<exists>e. MdGetLatestByFileSource (w_md w) ?part (FileSourceOf rec) = Inl e"
    using assms(7) by (simp add: MdGetLatestByFileSource_def record_not_found_def Err_def)
  have "create_claim (mem_ports sha config cfg) caller rec w =
      (w\<lparr>w_status := w_status w @ [\<lparr>se_record_id = [], se_partition = ?part, se_status = ''IN_PROGRESS'',
            se_dataset_sync = ''DATASET_SYNC'', se_version = 0\<rparr>],
         w_next_id := fst (SequentialNewUuidNoDash (w_next_id w)), w_md := s\<rparr>, Ok (Proceed ?out 1))"
    using assms(1,2) get c e(1) v(1)
    by (auto simp: create_claim_def AuthorizeCaller_def new_record_def on_md_def now_seconds_def Let_def split: prod.split)
  then show ?thesis using that md_inv_claim [OF assms(6) c] e(2,3) src by simp
qed

text \<open>The digest of an object that a registration may take over from the store: one of a known algorithm, in hexadecimal and of
  the length of that algorithm, with the name the record gets.\<close>

definition store_digest :: "BlobObject \<Rightarrow> (string \<times> string) option" where
  "store_digest obj =
     (case map_of [(''sha256'', (''SHA256'', 64)), (''sha1'', (''SHA1'', 40)), (''md5'', (''MD5'', 32))]
             (map tolower (filter (\<lambda>c. c \<noteq> CHR ''-'' \<and> c \<noteq> CHR ''_'' \<and> c \<noteq> CHR '' '') (bo_checksum_algorithm obj))) of
        None \<Rightarrow> None
      | Some (name, digits) \<Rightarrow>
          if length (bo_checksum obj) = digits \<and> list_all is_hex_char (bo_checksum obj) then Some (bo_checksum obj, name) else None)"

lemma recorded_checksum_digest:
  "recorded_checksum cfg obj =
     (case store_digest obj of Some ca \<Rightarrow> ca | None \<Rightarrow> (p_HexDigest cfg kSha256 (bo_data obj), ''SHA256''))"
  by (simp add: recorded_checksum_def native_checksum_def store_digest_def object_stat_def ParseChecksumAlgorithm_def
      NormalizeAlgorithmName_def IsHexDigestOf_def Let_def)

lemma store_digest_nonempty: "store_digest obj = Some (digest, algorithm) \<Longrightarrow> digest \<noteq> [] \<and> algorithm \<noteq> []"
  by (auto simp: store_digest_def split: if_splits)

lemma moved_location_parts:
  assumes "ObjectRefFromLocation location = Ok a"
  shows "ObjectRefFromLocation (moved_location location b u t) = Ok \<lparr>or_container = or_container b, or_key = or_key b, or_version_id = None\<rparr>"
    "moved_location location b u t =
       location\<lparr>fl_zone := kPersistent, fl_extra := fl_extra (moved_location location b u t), fl_user_id := u, fl_updated_at := t\<rparr>"
    "jfind (fl_extra (moved_location location b u t)) k =
       (if k = ''container'' then Some (JString (or_container b)) else if k = ''object_key'' then Some (JString (or_key b))
        else jfind (fl_extra location) k)"
proof -
  obtain m where m: "fl_extra location = JObject m"
    using assms by (cases "fl_extra location") (simp_all add: ObjectRefFromLocation_def Let_def is_object_def missing_physical_ref_def)
  show find: "jfind (fl_extra (moved_location location b u t)) k =
       (if k = ''container'' then Some (JString (or_container b)) else if k = ''object_key'' then Some (JString (or_key b))
        else jfind (fl_extra location) k)" for k
    by (simp add: moved_location_def m jset_def kExtraContainer_def kExtraObjectKey_def object_members_def)
  have "is_object (fl_extra (moved_location location b u t))" by (simp add: moved_location_def is_object_def)
  then show "ObjectRefFromLocation (moved_location location b u t) = Ok \<lparr>or_container = or_container b, or_key = or_key b, or_version_id = None\<rparr>"
    by (simp add: ObjectRefFromLocation_def Let_def extra_string_def find kExtraContainer_def kExtraObjectKey_def)
qed (simp add: moved_location_def)

lemma create_body:
  fixes w :: World and rec :: FileMetadataRecord and caller :: CallerContext and sha and config and cfg
  defines "P \<equiv> mem_ports sha config cfg" and "part \<equiv> cc_partition caller" and "f \<equiv> FileSourceOf rec"
    and "i \<equiv> fm_id (new_record caller rec w)"
  assumes auth: "p_Authorize cfg kRoleFileEditors part (cc_bearer_token caller) w = (w, Ok ())"
    and part: "part \<noteq> []" "CHR '':'' \<notin> set part"
    and valid: "KindValidate (fm_kind rec) = Ok k" "ValidateMetadataRecord rec = []"
    and md: "md_inv (w_md w)" "map_of (md_source_index (w_md w)) (part, f) = None" "FindChain (w_md w) part i = None"
    and loc: "loc_inv (w_loc w)" "LocFindByFileSource (w_loc w) part f = Ok location" "fl_file_id location \<noteq> []"
      "fl_zone location = kStaging" "ObjectRefFromLocation location = Ok a" "or_container a \<noteq> []" "or_key a \<noteq> []"
    and blob: "bs_fault (w_blob w) = no_faults" "blob_at (w_blob w) (or_container a) (or_key a) = Some obj"
    and cont: "ContainerForRegistry (StaticPartitionGet config) part kPersistent = Ok c" "c \<noteq> []" "c \<noteq> or_container a"
    and lease: "lease_free cfg caller f w" "\<And>x. p_thread_start cfg x = Ok ()"
  obtains w1 now where "CreateFileMetadata P caller rec w = Some (audited P caller ''createMetadata'' f (w1, Ok (Audited i i)))"
    "MdGetById (w_md w1) part i = Ok (set_checksum (recorded_checksum cfg obj) (new_record caller rec w))"
    "MdGetLatestByFileSource (w_md w1) part f = Ok (set_checksum (recorded_checksum cfg obj) (new_record caller rec w))"
    "\<And>q j. (q, j) \<noteq> (part, i) \<Longrightarrow> MdGetById (w_md w1) q j = MdGetById (w_md w) q j"
    "\<And>d k. blob_content (w_blob w1) d k =
       (if d = or_container a \<and> k = or_key a then None
        else if d = c \<and> k = or_key a then Some (bo_data obj) else blob_content (w_blob w) d k)"
    "LocFindByFileSource (w_loc w1) part f =
      Ok (moved_location location \<lparr>or_container = c, or_key = or_key a, or_version_id = None\<rparr> (cc_user_id caller) now)"
    "LocFind (w_loc w1) part (fl_file_id location) =
      Ok (moved_location location \<lparr>or_container = c, or_key = or_key a, or_version_id = None\<rparr> (cc_user_id caller) now)"
    "LeaseEnabled P \<longrightarrow> map_of (w_lease w1) (LeaseKey part f) = None"
    "w_audit w1 = w_audit w" "map se_status (w_status w1) = map se_status (w_status w) @ [''IN_PROGRESS'', ''SUCCESS'']"
proof -
  let ?out = "new_record caller rec w"
  note defs = P_def part_def f_def i_def
  have src: "FileSourceOf ?out = f" by (simp add: new_record_def FileSourceOf_def f_def)
  have ver: "fm_version ?out = 1" by (simp add: new_record_def)
  obtain s where s: "create_claim P caller rec w =
      (w\<lparr>w_status := w_status w @ [\<lparr>se_record_id = [], se_partition = part, se_status = ''IN_PROGRESS'',
            se_dataset_sync = ''DATASET_SYNC'', se_version = 0\<rparr>],
         w_next_id := fst (SequentialNewUuidNoDash (w_next_id w)), w_md := s\<rparr>, Ok (Proceed ?out 1))"
    "md_inv s" "\<And>q j. FindChain s q j = (if (q, j) = (part, i) then Some [new_row (now_seconds w) ?out] else FindChain (w_md w) q j)"
    "md_source_index s = map_put (part, f) i (md_source_index (w_md w))"
    unfolding defs
    by (rule create_claim_ok [OF auth [unfolded part_def] part [unfolded part_def] valid md [unfolded defs], of sha config]) blast
  let ?w = "w\<lparr>w_status := w_status w @ [\<lparr>se_record_id = [], se_partition = part, se_status = ''IN_PROGRESS'',
            se_dataset_sync = ''DATASET_SYNC'', se_version = 0\<rparr>],
         w_next_id := fst (SequentialNewUuidNoDash (w_next_id w)), w_md := s\<rparr>"
  let ?row = "new_row (now_seconds w) ?out"
  have chain: "FindChain (w_md ?w) (cc_partition caller) (fm_id ?out) = Some [?row]" using s(3) by (simp add: defs)
  have row: "v_state ?row = kClaiming" "FileSourceOf (v_record ?row) = FileSourceOf ?out"
    by (simp_all add: new_row_def FileSourceOf_def)
  have pre: "lease_free cfg caller f ?w" "md_inv (w_md ?w)" "loc_inv (w_loc ?w)"
    "LocFindByFileSource (w_loc ?w) (cc_partition caller) f = Ok location" "bs_fault (w_blob ?w) = no_faults"
    "blob_at (w_blob ?w) (or_container a) (or_key a) = Some obj"
    using lease(1) s(2) loc(1,2) blob by (simp_all add: lease_free_def now_millis_def part_def split: option.splits)
  obtain w1 now where w1: "create_leased P caller f ?out 1 ?w = (w1, Ok (Audited (fm_id ?out) (fm_id ?out)))"
    "w_md w1 = set_chain (cc_partition caller) (fm_id ?out)
       [?row\<lparr>v_record := set_checksum (recorded_checksum cfg obj) ?out, v_state := kReady\<rparr>] (w_md ?w)"
    "w_audit w1 = w_audit ?w"
    "w_status w1 = w_status ?w @ [\<lparr>se_record_id = fm_id ?out, se_partition = cc_partition caller, se_status = ''SUCCESS'',
        se_dataset_sync = ''DATASET_SYNC'', se_version = 1\<rparr>]"
    "LeaseEnabled P \<longrightarrow> map_of (w_lease w1) (LeaseKey (cc_partition caller) f) = None"
    "LocFindByFileSource (w_loc w1) (cc_partition caller) f =
       Ok (moved_location location \<lparr>or_container = c, or_key = or_key a, or_version_id = None\<rparr> (cc_user_id caller) now)"
    "LocFind (w_loc w1) (cc_partition caller) (fl_file_id location) =
       Ok (moved_location location \<lparr>or_container = c, or_key = or_key a, or_version_id = None\<rparr> (cc_user_id caller) now)"
    "\<And>d k. blob_at (w_blob w1) d k = (if d = or_container a \<and> k = or_key a then None
        else if d = c \<and> k = or_key a then Some (obj\<lparr>bo_last_modified := now\<rparr>) else blob_at (w_blob ?w) d k)"
    unfolding P_def
    by (rule create_leased_ok [OF pre(1) lease(2) pre(2) chain row(1) new_record_valid [OF part [unfolded part_def]] row(2) ver pre(3,4)
        part(1) [unfolded part_def] create_validate_ok(2) [OF valid, folded f_def] loc(3-7) pre(5,6) cont(1) [unfolded part_def] cont(2,3)]) blast
  let ?final = "set_checksum (recorded_checksum cfg obj) ?out"
  have md1: "FindChain (w_md w1) q j = (if (q, j) = (part, i) then Some [?row\<lparr>v_record := ?final, v_state := kReady\<rparr>] else FindChain (w_md w) q j)" for q j
    using s(3) chain by (simp add: w1(2) FindChain_set_chain defs)
  have idx: "map_of (md_source_index (w_md w1)) (part, f) = Some i" by (simp add: w1(2) s(4))
  have run: "CreateFileMetadata P caller rec w = Some (audited P caller ''createMetadata'' f (w1, Ok (Audited i i)))"
    using s(1) w1(1) by (simp add: CreateFileMetadata_def defs Let_def)
  have content: "blob_content (w_blob w1) d k = (if d = or_container a \<and> k = or_key a then None
      else if d = c \<and> k = or_key a then Some (bo_data obj) else blob_content (w_blob w) d k)" for d k
    by (simp add: blob_content_def w1(8))
  have reads: "MdGetById (w_md w1) part i = Ok ?final" "MdGetLatestByFileSource (w_md w1) part f = Ok ?final"
    "\<And>q j. (q, j) \<noteq> (part, i) \<Longrightarrow> MdGetById (w_md w1) q j = MdGetById (w_md w) q j"
    using idx by (auto simp: MdGetById_def MdGetLatestByFileSource_def md1 ready_record_def)
  have "w_audit w1 = w_audit w" "map se_status (w_status w1) = map se_status (w_status w) @ [''IN_PROGRESS'', ''SUCCESS'']"
    by (simp_all add: w1(3,4))
  with that [OF run reads content w1(6,7) [folded part_def] w1(5) [folded part_def]] show ?thesis by blast
qed

text \<open>C1: a registration that finds its upload succeeds and moves it. In the assembled
  world with a log as audit sink, for an authorized caller, a record that passes validation, a file source nobody has
  registered or is registering, a staged object, a free lease and a store without injected faults,
  \<open>CreateFileMetadata\<close> returns the new id. Both read paths return the given record with that id, version 1 and, in its data and in its
  file source information, the object's digest: the one of the store when it is a well-formed one of a known algorithm, else the
  SHA-256 of the bytes. No other record changes. The persistent container holds the staged bytes under
  the same key, the staged object is gone and no other object changes. The location record, found by file source
  and by file id, names the persistent zone, that container and key, and the caller, and is otherwise as before. The lease
  is released; exactly one success is audited and the events are published in order.\<close>

theorem create_success:
  fixes w :: World and rec :: FileMetadataRecord and caller :: CallerContext and sha and config and cfg
  defines "P \<equiv> mem_ports sha config cfg" and "part \<equiv> cc_partition caller" and "f \<equiv> FileSourceOf rec"
    and "i \<equiv> fm_id (new_record caller rec w)"
  assumes sink: "p_Record cfg = LogAuditRecord"
    and digest: "p_HexDigest cfg kSha256 (bo_data obj) \<noteq> []"
    and auth: "p_Authorize cfg kRoleFileEditors part (cc_bearer_token caller) w = (w, Ok ())"
    and part: "part \<noteq> []" "CHR '':'' \<notin> set part"
    and valid: "KindValidate (fm_kind rec) = Ok k" "ValidateMetadataRecord rec = []"
    and md: "md_inv (w_md w)" "map_of (md_source_index (w_md w)) (part, f) = None" "FindChain (w_md w) part i = None"
    and loc: "loc_inv (w_loc w)" "LocFindByFileSource (w_loc w) part f = Ok location" "fl_file_id location \<noteq> []"
      "fl_zone location = kStaging" "ObjectRefFromLocation location = Ok a" "or_container a \<noteq> []" "or_key a \<noteq> []"
    and blob: "bs_fault (w_blob w) = no_faults" "blob_at (w_blob w) (or_container a) (or_key a) = Some obj"
    and cont: "ContainerForRegistry (StaticPartitionGet config) part kPersistent = Ok c" "c \<noteq> []" "c \<noteq> or_container a"
    and lease: "lease_free cfg caller f w" "\<And>x. p_thread_start cfg x = Ok ()"
  shows "\<exists>w' now r l' digest algorithm. CreateFileMetadata P caller rec w = Some (w', Ok i) \<and>
    MdGetById (w_md w') part i = Ok r \<and> MdGetLatestByFileSource (w_md w') part f = Ok r \<and>
    (let data = fm_data rec; props = fd_dataset_properties data; info = dp_file_source_info props in
      r = rec\<lparr>fm_id := i, fm_version := 1,
        fm_data := data\<lparr>fd_dataset_properties := props\<lparr>dp_file_source_info :=
            info\<lparr>fsi_checksum := Some digest, fsi_checksum_algorithm := Some algorithm\<rparr>\<rparr>,
          fd_checksum := Some digest, fd_checksum_algorithm := Some algorithm\<rparr>\<rparr>) \<and>
    (digest, algorithm) = (case store_digest obj of Some d \<Rightarrow> d | None \<Rightarrow> (p_HexDigest cfg kSha256 (bo_data obj), ''SHA256'')) \<and>
    (\<forall>q j. (q, j) \<noteq> (part, i) \<longrightarrow> MdGetById (w_md w') q j = MdGetById (w_md w) q j) \<and>
    (\<forall>d k. blob_content (w_blob w') d k =
       (if d = or_container a \<and> k = or_key a then None
        else if d = c \<and> k = or_key a then Some (bo_data obj) else blob_content (w_blob w) d k)) \<and>
    LocFindByFileSource (w_loc w') part f = Ok l' \<and> LocFind (w_loc w') part (fl_file_id location) = Ok l' \<and>
    ObjectRefFromLocation l' = Ok \<lparr>or_container = c, or_key = or_key a, or_version_id = None\<rparr> \<and>
    (\<forall>k. jfind (fl_extra l') k = (if k = ''container'' then Some (JString c)
       else if k = ''object_key'' then Some (JString (or_key a)) else jfind (fl_extra location) k)) \<and>
    l' = location\<lparr>fl_zone := kPersistent, fl_extra := fl_extra l', fl_user_id := cc_user_id caller, fl_updated_at := now\<rparr> \<and>
    (LeaseEnabled P \<longrightarrow> map_of (w_lease w') (LeaseKey part f) = None) \<and>
    map ae_operation (w_audit w') = map ae_operation (w_audit w) @ [''createMetadataSuccess''] \<and>
    map se_status (w_status w') = map se_status (w_status w) @ [''IN_PROGRESS'', ''SUCCESS'']"
proof -
  obtain w1 now where w1: "CreateFileMetadata P caller rec w = Some (audited P caller ''createMetadata'' f (w1, Ok (Audited i i)))"
    "MdGetById (w_md w1) part i = Ok (set_checksum (recorded_checksum cfg obj) (new_record caller rec w))"
    "MdGetLatestByFileSource (w_md w1) part f = Ok (set_checksum (recorded_checksum cfg obj) (new_record caller rec w))"
    "\<And>q j. (q, j) \<noteq> (part, i) \<Longrightarrow> MdGetById (w_md w1) q j = MdGetById (w_md w) q j"
    "\<And>d k. blob_content (w_blob w1) d k =
       (if d = or_container a \<and> k = or_key a then None
        else if d = c \<and> k = or_key a then Some (bo_data obj) else blob_content (w_blob w) d k)"
    "LocFindByFileSource (w_loc w1) part f =
      Ok (moved_location location \<lparr>or_container = c, or_key = or_key a, or_version_id = None\<rparr> (cc_user_id caller) now)"
    "LocFind (w_loc w1) part (fl_file_id location) =
      Ok (moved_location location \<lparr>or_container = c, or_key = or_key a, or_version_id = None\<rparr> (cc_user_id caller) now)"
    "LeaseEnabled P \<longrightarrow> map_of (w_lease w1) (LeaseKey part f) = None"
    "w_audit w1 = w_audit w" "map se_status (w_status w1) = map se_status (w_status w) @ [''IN_PROGRESS'', ''SUCCESS'']"
    unfolding P_def part_def f_def i_def
    by (rule create_body [OF auth [unfolded part_def] part [unfolded part_def] valid md [unfolded part_def f_def i_def]
        loc [unfolded part_def f_def] blob cont [unfolded part_def] lease [unfolded f_def], of sha]) blast
  let ?b = "\<lparr>or_container = c, or_key = or_key a, or_version_id = None\<rparr>"
  obtain dig alg where d: "recorded_checksum cfg obj = (dig, alg)" by fastforce
  have ne: "dig \<noteq> []" "alg \<noteq> []"
    using d digest store_digest_nonempty [of obj] unfolding recorded_checksum_digest by (auto split: option.splits)
  let ?w = "w1\<lparr>w_audit := w_audit w1 @ [audit_event P ''createMetadataSuccess'' caller i True w1]\<rparr>"
  have run: "CreateFileMetadata P caller rec w = Some (?w, Ok i)"
    unfolding w1(1) by (simp add: audited_def P_def sink)
  have r: "set_checksum (recorded_checksum cfg obj) (new_record caller rec w) =
      (let data = fm_data rec; props = fd_dataset_properties data; info = dp_file_source_info props in
      rec\<lparr>fm_id := i, fm_version := 1,
        fm_data := data\<lparr>fd_dataset_properties := props\<lparr>dp_file_source_info :=
            info\<lparr>fsi_checksum := Some dig, fsi_checksum_algorithm := Some alg\<rparr>\<rparr>,
          fd_checksum := Some dig, fd_checksum_algorithm := Some alg\<rparr>\<rparr>)"
    by (simp add: d set_checksum_def ne new_record_def i_def Let_def)
  note l = moved_location_parts [OF loc(5), of ?b "cc_user_id caller" now]
  show ?thesis
    unfolding Let_def
    by (rule exI [of _ ?w], rule exI [of _ now], rule exI [of _ "set_checksum (recorded_checksum cfg obj) (new_record caller rec w)"],
        rule exI [of _ "moved_location location ?b (cc_user_id caller) now"], rule exI [of _ dig], rule exI [of _ alg],
        intro conjI run r [unfolded Let_def] d [symmetric, unfolded recorded_checksum_digest] l(2))
      (use w1 l(1,3) in \<open>simp_all add: audit_event_def\<close>)
qed

text \<open>Under \<open>observability.audit_fail_closed\<close> a sink that refuses turns the same registration into an error although it is complete:
  the second case of \<open>create_failure_atomic\<close> occurs.\<close>

lemma complete_but_refused:
  fixes w :: World and rec :: FileMetadataRecord and caller :: CallerContext and sha and config and cfg
  defines "P \<equiv> mem_ports sha config cfg" and "part \<equiv> cc_partition caller" and "f \<equiv> FileSourceOf rec"
    and "i \<equiv> fm_id (new_record caller rec w)"
  assumes auth: "p_Authorize cfg kRoleFileEditors part (cc_bearer_token caller) w = (w, Ok ())"
    and part: "part \<noteq> []" "CHR '':'' \<notin> set part"
    and valid: "KindValidate (fm_kind rec) = Ok k" "ValidateMetadataRecord rec = []"
    and md: "md_inv (w_md w)" "map_of (md_source_index (w_md w)) (part, f) = None" "FindChain (w_md w) part i = None"
    and loc: "loc_inv (w_loc w)" "LocFindByFileSource (w_loc w) part f = Ok location" "fl_file_id location \<noteq> []"
      "fl_zone location = kStaging" "ObjectRefFromLocation location = Ok a" "or_container a \<noteq> []" "or_key a \<noteq> []"
    and blob: "bs_fault (w_blob w) = no_faults" "blob_at (w_blob w) (or_container a) (or_key a) = Some obj"
    and cont: "ContainerForRegistry (StaticPartitionGet config) part kPersistent = Ok c" "c \<noteq> []" "c \<noteq> or_container a"
    and lease: "lease_free cfg caller f w" "\<And>x. p_thread_start cfg x = Ok ()"
    and refusing: "p_Record cfg = FailingAuditRecord" "p_audit_fail_closed cfg"
  shows "\<exists>w' e. CreateFileMetadata P caller rec w = Some (w', Inl e) \<and> error_kind e = kInternal \<and>
    is_ok (MdGetById (w_md w') part i) \<and> is_ok (MdGetLatestByFileSource (w_md w') part f)"
proof -
  obtain w1 where w1: "CreateFileMetadata P caller rec w = Some (audited P caller ''createMetadata'' f (w1, Ok (Audited i i)))"
    "MdGetById (w_md w1) part i = Ok (set_checksum (recorded_checksum cfg obj) (new_record caller rec w))"
    "MdGetLatestByFileSource (w_md w1) part f = Ok (set_checksum (recorded_checksum cfg obj) (new_record caller rec w))"
    unfolding P_def part_def f_def i_def
    by (rule create_body [OF auth [unfolded part_def] part [unfolded part_def] valid md [unfolded part_def f_def i_def]
        loc [unfolded part_def f_def] blob cont [unfolded part_def] lease [unfolded f_def], of sha]) blast
  have "audited P caller ''createMetadata'' f (w1, Ok (Audited i i)) =
      (w1, Err kInternal (msg_audit_failed @ msg_audit_injected))"
    by (simp add: audited_def P_def RecordAudit_def refusing FailingAuditRecord_def Err_def)
  then show ?thesis using w1 by (simp add: Err_def)
qed

section \<open>A staged upload\<close>

definition staged_location :: FileLocation where
  "staged_location = (sample_location ''a'' ''/u/f'')\<lparr>fl_zone := kStaging,
     fl_extra := JObject [(''container'', JString ''s''), (''object_key'', JString ''u/f'')]\<rparr>"

definition staged_world :: World where
  "staged_world = empty_World\<lparr>w_loc := fst (LocSave loc_empty ''p'' staged_location),
     w_blob := blob_empty\<lparr>bs_containers := [(''s'', [(''u/f'', tiny_object)])]\<rparr>\<rparr>"

abbreviation dev_world_ports :: "(World, unit) Ports" where
  "dev_world_ports \<equiv> mem_ports (\<lambda>d. d) dev_partition dev_ports"

lemma staged_facts:
  "loc_inv (w_loc staged_world)" "LocFindByFileSource (w_loc staged_world) ''p'' ''/u/f'' = Ok staged_location"
  "ObjectRefFromLocation staged_location = Ok \<lparr>or_container = ''s'', or_key = ''u/f'', or_version_id = None\<rparr>"
  "blob_at (w_blob staged_world) ''s'' ''u/f'' = Some tiny_object" "bs_fault (w_blob staged_world) = no_faults"
  "w_md staged_world = md_empty" "w_lease staged_world = []"
proof -
  show "loc_inv (w_loc staged_world)"
    by (simp add: staged_world_def reachable_inv reach_save_fst reach_init)
  show "LocFindByFileSource (w_loc staged_world) ''p'' ''/u/f'' = Ok staged_location" by code_simp
  show "ObjectRefFromLocation staged_location = Ok \<lparr>or_container = ''s'', or_key = ''u/f'', or_version_id = None\<rparr>" by code_simp
qed (simp_all add: staged_world_def blob_at_def blob_empty_def empty_World_def)

theorem create_success_witness:
  "\<exists>w'. CreateFileMetadata dev_world_ports dev_caller sample_record staged_world =
       Some (w', Ok ''p:dataset--File.Generic:00000000000000000000000000000001'') \<and>
     blob_content (w_blob w') ''p-persistent'' ''u/f'' = Some (bo_data tiny_object)"
proof -
  have "is_ok (KindValidate (fm_kind sample_record))" by code_simp
  then obtain k where k: "KindValidate (fm_kind sample_record) = Ok k" by (auto simp: is_ok_iff)
  have c: "ContainerForRegistry (StaticPartitionGet dev_partition) ''p'' kPersistent = Ok ''p-persistent''" by code_simp
  have h: "hex_digits 32 1 = ''00000000000000000000000000000001''" by code_simp
  have i: "fm_id (new_record dev_caller sample_record staged_world) = ''p:dataset--File.Generic:00000000000000000000000000000001''"
    using h by (simp add: new_record_def SequentialNewUuidNoDash_def dev_caller_def staged_world_def empty_World_def)
  have src: "FileSourceOf sample_record = ''/u/f''" by code_simp
  have z: "fl_file_id staged_location = ''a''" "fl_zone staged_location = kStaging" by code_simp+
  have auth: "p_Authorize dev_ports kRoleFileEditors (cc_partition dev_caller) (cc_bearer_token dev_caller) staged_world =
      (staged_world, Ok ())"
    by (simp add: dev_ports_def AllowAllAuthorize_def dev_caller_def)
  have part: "cc_partition dev_caller = ''p''" by (simp add: dev_caller_def)
  have thr: "p_thread_start dev_ports x = Ok ()" for x by (simp add: dev_ports_def)
  have free: "lease_free dev_ports dev_caller ''/u/f'' staged_world" by (simp add: lease_free_def staged_facts)
  let ?a = "\<lparr>or_container = ''s'', or_key = ''u/f'', or_version_id = None\<rparr>"
  have pre: "cc_partition dev_caller \<noteq> []" "CHR '':'' \<notin> set (cc_partition dev_caller)" "md_inv (w_md staged_world)"
    "map_of (md_source_index (w_md staged_world)) (cc_partition dev_caller, FileSourceOf sample_record) = None"
    "FindChain (w_md staged_world) (cc_partition dev_caller) (fm_id (new_record dev_caller sample_record staged_world)) = None"
    "LocFindByFileSource (w_loc staged_world) (cc_partition dev_caller) (FileSourceOf sample_record) = Ok staged_location"
    "fl_file_id staged_location \<noteq> []" "or_container ?a \<noteq> []" "or_key ?a \<noteq> []"
    "blob_at (w_blob staged_world) (or_container ?a) (or_key ?a) = Some tiny_object"
    "ContainerForRegistry (StaticPartitionGet dev_partition) (cc_partition dev_caller) kPersistent = Ok ''p-persistent''"
    "''p-persistent'' \<noteq> []" "''p-persistent'' \<noteq> or_container ?a"
    "lease_free dev_ports dev_caller (FileSourceOf sample_record) staged_world"
    using staged_facts c free z(1) unfolding part src
    by (simp_all add: md_inv_empty [unfolded md_empty_def] md_empty_def FindChain_def)
  have sink: "p_Record dev_ports = LogAuditRecord" "p_HexDigest dev_ports kSha256 (bo_data tiny_object) \<noteq> []"
    by (simp add: dev_ports_def) (simp add: dev_ports_def tiny_object_def, code_simp)
  show ?thesis
    using create_success [OF sink auth pre(1,2) k sample_record_accepted pre(3-5) staged_facts(1) pre(6,7) z(2) staged_facts(3) pre(8,9)
        staged_facts(5) pre(10-14) thr, of "\<lambda>d. d"] unfolding i by auto
qed

section \<open>Retries\<close>

text \<open>C27: registering a file source again is idempotent: with a ready record for it,
  \<open>CreateFileMetadata\<close> returns that record's id and leaves the records, locations, objects and leases as
  they are. The audit trail, however, gets a success event followed by a failure event for the same
  request, because the early return leaves the audit guard unrecorded.\<close>

theorem create_retry:
  assumes sink: "p_Record cfg = LogAuditRecord"
    and "p_Authorize cfg kRoleFileEditors (cc_partition caller) (cc_bearer_token caller) w = (w, Ok ())"
    and "cc_partition caller \<noteq> []" "KindValidate (fm_kind rec) = Ok k" "ValidateMetadataRecord rec = []"
    and "MdGetLatestByFileSource (w_md w) (cc_partition caller) (FileSourceOf rec) = Ok r"
  shows "\<exists>w'. CreateFileMetadata (mem_ports sha config cfg) caller rec w = Some (w', Ok (fm_id r)) \<and>
    w_md w' = w_md w \<and> w_loc w' = w_loc w \<and> w_blob w' = w_blob w \<and> w_lease w' = w_lease w \<and>
    map ae_operation (w_audit w') = map ae_operation (w_audit w) @ [''createMetadataSuccess'', ''createMetadataFailure'']"
proof -
  let ?P = "mem_ports sha config cfg"
  obtain n i where n: "SequentialNewUuidNoDash (w_next_id w) = (n, i)" by fastforce
  have claim: "create_claim ?P caller rec w =
      ((PublishStatus ?P caller ''IN_PROGRESS'' 0 [] w)\<lparr>w_next_id := n\<rparr>, Ok (ReturnExisting r))"
    using assms create_validate_ok(1) [OF assms(4,5)] n by (simp add: create_claim_def AuthorizeCaller_def Let_def)
  have "\<exists>w'. CreateFileMetadata ?P caller rec w = Some w' \<and> snd w' = Ok (fm_id r) \<and>
    w_md (fst w') = w_md w \<and> w_loc (fst w') = w_loc w \<and> w_blob (fst w') = w_blob w \<and> w_lease (fst w') = w_lease w \<and>
    map ae_operation (w_audit (fst w')) = map ae_operation (w_audit w) @ [''createMetadataSuccess'', ''createMetadataFailure'']"
    by (simp add: CreateFileMetadata_def claim audited_def ReturnExistingRecord_def Let_def PublishDatasetDetails_def
        LogPublishDatasetDetails_def audit_event_def sink)
  then show ?thesis by (metis prod.collapse)
qed

definition registered_world :: World where
  "registered_world = empty_World\<lparr>w_md := fst (MdCreate 5 md_empty ''p'' sample_record)\<rparr>"

theorem create_retry_witness:
  "\<exists>w'. CreateFileMetadata dev_world_ports dev_caller sample_record registered_world = Some (w', Ok ''p:dataset--File.Generic:1'') \<and>
     w_md w' = w_md registered_world"
proof -
  have "is_ok (KindValidate (fm_kind sample_record))" by code_simp
  then obtain k where k: "KindValidate (fm_kind sample_record) = Ok k" by (auto simp: is_ok_iff)
  have g: "MdGetLatestByFileSource (w_md registered_world) (cc_partition dev_caller) (FileSourceOf sample_record) =
      Ok (sample_record\<lparr>fm_version := 1\<rparr>)" by code_simp
  have a: "p_Authorize dev_ports kRoleFileEditors (cc_partition dev_caller) (cc_bearer_token dev_caller) registered_world =
      (registered_world, Ok ())"
    by (simp add: dev_ports_def AllowAllAuthorize_def dev_caller_def)
  have "cc_partition dev_caller \<noteq> []" by (simp add: dev_caller_def)
  have sink: "p_Record dev_ports = LogAuditRecord" by (simp add: dev_ports_def)
  from create_retry [OF sink a \<open>cc_partition dev_caller \<noteq> []\<close> k sample_record_accepted g, of "\<lambda>d. d" dev_partition] show ?thesis
    by (auto simp: sample_record_def)
qed

text \<open>A location record without a physical reference makes the registration fail
  after the claim is won, on a path that does not release it: the claiming row stays, so every later
  attempt on that file source is told another instance is registering it, until the row is reclaimed as
  stale.\<close>

theorem create_claim_leak:
  assumes sink: "audit_sink (p_Record cfg)" and "p_Authorize cfg kRoleFileEditors (cc_partition caller) (cc_bearer_token caller) w = (w, Ok ())"
    "cc_partition caller \<noteq> []" "CHR '':'' \<notin> set (cc_partition caller)"
    "KindValidate (fm_kind rec) = Ok k" "ValidateMetadataRecord rec = []" "md_inv (w_md w)"
    "map_of (md_source_index (w_md w)) (cc_partition caller, FileSourceOf rec) = None"
    "FindChain (w_md w) (cc_partition caller) (fm_id (new_record caller rec w)) = None"
    and "LocFindByFileSource (w_loc w) (cc_partition caller) (FileSourceOf rec) = Ok location"
    and "ObjectRefFromLocation location = Inl e" and "\<not> LeaseEnabled (mem_ports sha config cfg)"
  shows "\<exists>w'. CreateFileMetadata (mem_ports sha config cfg) caller rec w = Some (w', Inl e) \<and>
    (\<forall>now r. ValidatePartitionAndId (cc_partition caller) r = Ok () \<and> FileSourceOf r = FileSourceOf rec \<longrightarrow>
       MdClaimForWrite now (w_md w') (cc_partition caller) r =
         (w_md w', Ok \<lparr>mc_claimed = False, mc_record = new_record caller rec w, mc_state = kClaiming\<rparr>))"
proof -
  let ?P = "mem_ports sha config cfg" and ?out = "new_record caller rec w" and ?part = "cc_partition caller"
  obtain s where s: "create_claim ?P caller rec w =
      (w\<lparr>w_status := w_status w @ [\<lparr>se_record_id = [], se_partition = cc_partition caller, se_status = ''IN_PROGRESS'',
            se_dataset_sync = ''DATASET_SYNC'', se_version = 0\<rparr>],
         w_next_id := fst (SequentialNewUuidNoDash (w_next_id w)), w_md := s\<rparr>, Ok (Proceed ?out 1))"
    "md_inv s" "\<And>q j. FindChain s q j = (if (q, j) = (?part, fm_id ?out) then Some [new_row (now_seconds w) ?out] else FindChain (w_md w) q j)"
    by (rule create_claim_ok [OF assms(2-9), of sha config]) blast
  have "\<exists>w'. CreateFileMetadata ?P caller rec w = Some w' \<and> snd w' = Inl e \<and> w_md (fst w') = s"
    using s(1) assms(10-12)
    by (simp add: sink CreateFileMetadata_def create_leased_def create_move_def with_lease_parts audited_def Let_def)
  then obtain w' where w': "CreateFileMetadata ?P caller rec w = Some (w', Inl e)" "w_md w' = s" by (metis prod.collapse)
  have c: "FindChain s ?part (fm_id ?out) = Some [new_row (now_seconds w) ?out]" using s(3) by simp
  have row: "v_state (new_row (now_seconds w) ?out) = kClaiming" "v_record (new_row (now_seconds w) ?out) = ?out"
    "FileSourceOf ?out = FileSourceOf rec"
    by (simp_all add: new_row_def new_record_def FileSourceOf_def)
  show ?thesis using w' claim_refused [OF s(2) c row(1)] row by auto
qed

definition broken_world :: World where
  "broken_world = empty_World\<lparr>w_loc := fst (LocSave loc_empty ''p'' (sample_location ''a'' ''/u/f''))\<rparr>"

theorem create_claim_leak_witness:
  "\<exists>w' e. CreateFileMetadata (mem_ports (\<lambda>d. d) dev_partition (dev_ports\<lparr>p_leases_enabled := False\<rparr>)) dev_caller sample_record broken_world =
     Some (w', Inl e) \<and> snd (MdClaimForWrite 9 (w_md w') ''p'' sample_record) =
     Ok \<lparr>mc_claimed = False, mc_record = new_record dev_caller sample_record broken_world, mc_state = kClaiming\<rparr>"
proof -
  let ?cfg = "dev_ports\<lparr>p_leases_enabled := False\<rparr>"
  have sink: "audit_sink (p_Record ?cfg)" by (simp add: dev_ports_def audit_sinks)
  have "is_ok (KindValidate (fm_kind sample_record))" by code_simp
  then obtain k where k: "KindValidate (fm_kind sample_record) = Ok k" by (auto simp: is_ok_iff)
  have l: "LocFindByFileSource (w_loc broken_world) (cc_partition dev_caller) (FileSourceOf sample_record) = Ok (sample_location ''a'' ''/u/f'')"
    by code_simp
  have "\<not> is_ok (ObjectRefFromLocation (sample_location ''a'' ''/u/f''))" by code_simp
  then obtain e where r: "ObjectRefFromLocation (sample_location ''a'' ''/u/f'') = Inl e"
    by (cases "ObjectRefFromLocation (sample_location ''a'' ''/u/f'')") simp_all
  have pre: "p_Authorize ?cfg kRoleFileEditors (cc_partition dev_caller) (cc_bearer_token dev_caller) broken_world = (broken_world, Ok ())"
    "cc_partition dev_caller \<noteq> []" "CHR '':'' \<notin> set (cc_partition dev_caller)"
    by (simp_all add: dev_ports_def AllowAllAuthorize_def dev_caller_def)
  have md: "md_inv (w_md broken_world)"
    "map_of (md_source_index (w_md broken_world)) (cc_partition dev_caller, FileSourceOf sample_record) = None"
    "FindChain (w_md broken_world) (cc_partition dev_caller) (fm_id (new_record dev_caller sample_record broken_world)) = None"
    by (simp_all add: broken_world_def empty_World_def md_inv_empty) (simp_all add: md_empty_def FindChain_def)
  have off: "\<not> LeaseEnabled (mem_ports (\<lambda>d. d) dev_partition ?cfg)" by (simp add: LeaseEnabled_def)
  have v: "ValidatePartitionAndId (cc_partition dev_caller) sample_record = Ok ()" by code_simp
  show ?thesis
    using create_claim_leak [OF sink pre k sample_record_accepted md l r off] v by (fastforce simp: dev_caller_def)
qed

end
