(* ===== verification/Gc_Task.thy ===== *)
theory Gc_Task
  imports Memory_World
begin

text \<open>
  \<^verbatim>\<open>app/tasks/gc_task\<close>: the collector of expired leases, stale claims, staged leftovers, orphaned
  objects and temporary files, over the ports. The task has, beside the ports of the use cases, the
  four port operations only it calls; it runs without a metrics registry. The two paging loops may
  in principle run for ever, so they are partial functions; that they end on the in-memory stores is
  proved with the properties.
\<close>

section \<open>Options, report and collaborators\<close>

record GcOptions =
  go_dry_run :: bool
  go_require_lease_expiry :: bool
  go_staging_ttl_hours :: int
  go_orphan_grace_hours :: int
  go_claim_limit :: int
  go_lease_ttl_seconds :: int

definition default_GcOptions :: GcOptions where
  "default_GcOptions = \<lparr>go_dry_run = True, go_require_lease_expiry = True, go_staging_ttl_hours = 24,
     go_orphan_grace_hours = 72, go_claim_limit = 100, go_lease_ttl_seconds = 60\<rparr>"

record GcReport =
  gr_dry_run :: bool
  gr_expired_leases_claimed :: int
  gr_reclaimed_claiming :: int
  gr_deleted_objects :: int
  gr_deleted_locations :: int
  gr_skipped_has_record :: int
  gr_skipped_no_location :: int
  gr_skipped_too_young :: int
  gr_tmp_removed :: int
  gr_tmp_skipped_too_young :: int
  gr_tmp_skipped_unknown_mtime :: int
  gr_errors :: int
  gr_deleted_file_ids :: "string list"

definition empty_GcReport :: "bool \<Rightarrow> GcReport" where
  "empty_GcReport dry_run =
     \<lparr>gr_dry_run = dry_run, gr_expired_leases_claimed = 0, gr_reclaimed_claiming = 0, gr_deleted_objects = 0,
      gr_deleted_locations = 0, gr_skipped_has_record = 0, gr_skipped_no_location = 0, gr_skipped_too_young = 0,
      gr_tmp_removed = 0, gr_tmp_skipped_too_young = 0, gr_tmp_skipped_unknown_mtime = 0, gr_errors = 0,
      gr_deleted_file_ids = []\<rparr>"

definition gc_error :: "GcReport \<Rightarrow> GcReport" where
  "gc_error report = report\<lparr>gr_errors := gr_errors report + 1\<rparr>"

record ('w, 'st) GcTask =
  gt_ports :: "('w, 'st) Ports"
  gt_ReclaimStaleClaiming :: "string \<Rightarrow> int \<Rightarrow> int \<Rightarrow> string list \<Rightarrow> ('w, int) action"
  gt_ClaimExpired :: "string \<Rightarrow> int \<Rightarrow> string \<Rightarrow> ('w, Lease list) action"
  gt_list :: "'st \<Rightarrow> string \<Rightarrow> string \<Rightarrow> string \<Rightarrow> int \<Rightarrow> ('w, ListPage) action"
  gt_remove_temp_files :: "'st \<Rightarrow> string \<Rightarrow> int \<Rightarrow> bool \<Rightarrow> ('w, TempSweepResult) action"
  gt_instance_id :: string
  gt_try_lock :: "'w \<Rightarrow> bool"

section \<open>Candidates\<close>

definition kTempKeyMarker :: string where "kTempKeyMarker = ''.tmp.''"

definition IsTempKey :: "string \<Rightarrow> bool" where
  "IsTempKey key = contains_str kTempKeyMarker key"

definition PairKey :: "string \<Rightarrow> string \<Rightarrow> string" where
  "PairKey container key = container @ [unit_separator] @ key"

definition LeaseKeyOf :: "Lease \<Rightarrow> string" where
  "LeaseKeyOf lease = (if ls_file_source lease = [] then ls_file_id lease else ls_file_source lease)"

definition HasMetadataRecord :: "('w, 'st) GcTask \<Rightarrow> string \<Rightarrow> string \<Rightarrow> 'w \<Rightarrow> 'w \<times> bool" where
  "HasMetadataRecord T part file_source w =
     (if file_source = [] then (w, False)
      else (case p_md_GetLatestByFileSource (gt_ports T) part file_source w of (w, r) \<Rightarrow> (w, is_ok r)))"

definition DeleteCandidate ::
  "('w, 'st) GcTask \<Rightarrow> GcOptions \<Rightarrow> 'st \<Rightarrow> ObjectRef \<Rightarrow> string \<Rightarrow> bool \<Rightarrow> string \<Rightarrow> 'w \<times> GcReport \<Rightarrow> 'w \<times> GcReport" where
  "DeleteCandidate T options store ref file_id delete_location part = (\<lambda>(w, report).
     let counted = report\<lparr>gr_deleted_objects := gr_deleted_objects report + 1,
                          gr_deleted_file_ids := gr_deleted_file_ids report @ [file_id]\<rparr> in
     if go_dry_run options then (w, counted)
     else (case p_remove (gt_ports T) store ref w of
             (w, Inl _) \<Rightarrow> (w, gc_error report)
           | (w, Inr _) \<Rightarrow>
               if delete_location
               then (case p_loc_Delete (gt_ports T) part file_id w of
                       (w, Inr _) \<Rightarrow> (w, counted\<lparr>gr_deleted_locations := gr_deleted_locations counted + 1\<rparr>)
                     | (w, Inl _) \<Rightarrow> (w, counted))
               else (w, counted)))"

section \<open>Expired leases\<close>

definition resolve_lease :: "('w, 'st) GcTask \<Rightarrow> string \<Rightarrow> Lease \<Rightarrow> 'w \<Rightarrow> 'w \<times> FileLocation option" where
  "resolve_lease T part lease w =
     (let (w, by_id) = (if ls_file_id lease = [] then (w, None)
                        else (case p_loc_Find (gt_ports T) part (ls_file_id lease) w of
                                (w, Inr l) \<Rightarrow> (w, Some l) | (w, Inl _) \<Rightarrow> (w, None))) in
      case by_id of
        Some l \<Rightarrow> (w, Some l)
      | None \<Rightarrow>
          if LeaseKeyOf lease = [] then (w, None)
          else (case p_loc_FindByFileSource (gt_ports T) part (LeaseKeyOf lease) w of
                  (w, Inr l) \<Rightarrow> (w, Some l) | (w, Inl _) \<Rightarrow> (w, None)))"

definition collect_lease ::
  "('w, 'st) GcTask \<Rightarrow> string \<Rightarrow> GcOptions \<Rightarrow> 'st \<Rightarrow> 'st \<Rightarrow> Lease \<Rightarrow> 'w \<times> GcReport \<Rightarrow> 'w \<times> GcReport" where
  "collect_lease T part options staging persistent lease = (\<lambda>(w, report).
     case resolve_lease T part lease w of
       (w, None) \<Rightarrow> (w, report\<lparr>gr_skipped_no_location := gr_skipped_no_location report + 1\<rparr>)
     | (w, Some location) \<Rightarrow>
         let (w, registered) = HasMetadataRecord T part (fl_file_source location) w in
         if registered then (w, report\<lparr>gr_skipped_has_record := gr_skipped_has_record report + 1\<rparr>)
         else (case ObjectRefFromLocation location of
                 Inl _ \<Rightarrow> (w, gc_error report)
               | Inr ref \<Rightarrow>
                   DeleteCandidate T options (if fl_zone location = kPersistent then persistent else staging) ref
                     (fl_file_id location) True part (w, report)))"

definition reclaim_claims ::
  "('w, 'st) GcTask \<Rightarrow> string \<Rightarrow> GcOptions \<Rightarrow> int \<Rightarrow> Lease list \<Rightarrow> 'w \<times> GcReport \<Rightarrow> 'w \<times> GcReport" where
  "reclaim_claims T part options now_secs leases = (\<lambda>(w, report).
     if leases = [] then (w, report)
     else (case gt_ReclaimStaleClaiming T part (now_secs - go_lease_ttl_seconds options) (go_claim_limit options)
                  (map LeaseKeyOf leases) w of
             (w, Inl _) \<Rightarrow> (w, gc_error report)
           | (w, Inr n) \<Rightarrow> (w, report\<lparr>gr_reclaimed_claiming := n\<rparr>)))"

definition CollectExpiredLeases ::
  "('w, 'st) GcTask \<Rightarrow> string \<Rightarrow> GcOptions \<Rightarrow> 'st \<Rightarrow> 'st \<Rightarrow> int \<Rightarrow> 'w \<times> GcReport \<Rightarrow> 'w \<times> GcReport" where
  "CollectExpiredLeases T part options staging persistent now_secs = (\<lambda>(w, report).
     case gt_ClaimExpired T part (go_claim_limit options) (gt_instance_id T) w of
       (w, Inl _) \<Rightarrow> (w, gc_error report)
     | (w, Inr claimed) \<Rightarrow>
         fold (collect_lease T part options staging persistent) claimed
           (reclaim_claims T part options now_secs claimed
             (w, report\<lparr>gr_expired_leases_claimed := int (length claimed)\<rparr>)))"

section \<open>Referenced objects\<close>

type_synonym RefMap = "(string \<times> (string \<times> string)) list"

definition add_ref :: "FileLocation \<Rightarrow> RefMap \<Rightarrow> RefMap" where
  "add_ref location refs =
     (if \<not> is_object (fl_extra location) then refs
      else (case (extra_string (fl_extra location) kExtraContainer, extra_string (fl_extra location) kExtraObjectKey) of
              (Some c, Some k) \<Rightarrow> map_put (PairKey c k) (fl_file_id location, fl_file_source location) refs
            | _ \<Rightarrow> refs))"

definition refs_query :: "int \<Rightarrow> LocationQuery" where
  "refs_query offset = \<lparr>lq_user_id = [], lq_created_after = - 1, lq_created_before = - 1, lq_limit = 500, lq_offset = offset\<rparr>"

text \<open>The running offset and the total are narrowed to \<^verbatim>\<open>int\<close>.\<close>

partial_function (option) refs_loop ::
  "('w, 'st) GcTask \<Rightarrow> string \<Rightarrow> int \<Rightarrow> RefMap \<Rightarrow> 'w \<Rightarrow> ('w \<times> RefMap Result) option" where
  "refs_loop T part offset refs w =
     (case p_loc_List (gt_ports T) part (refs_query offset) w of
        (w, Inl e) \<Rightarrow> Some (w, Inl e)
      | (w, Inr page) \<Rightarrow>
          let refs = fold add_ref (lpg_records page) refs;
              offset = wrap_i32 (offset + wrap_i32 (int (length (lpg_records page)))) in
          if lpg_records page = [] \<or> offset \<ge> wrap_i32 (lpg_total page) then Some (w, Ok refs)
          else refs_loop T part offset refs w)"

definition ReferencedRefs :: "('w, 'st) GcTask \<Rightarrow> string \<Rightarrow> 'w \<Rightarrow> ('w \<times> RefMap Result) option" where
  "ReferencedRefs T part w = refs_loop T part 0 [] w"

section \<open>Scanning a container\<close>

text \<open>One entry of a listing, for the staging and for the persistent container.\<close>

definition object_at :: "string \<Rightarrow> string \<Rightarrow> ObjectRef" where
  "object_at container key = \<lparr>or_container = container, or_key = key, or_version_id = None\<rparr>"

definition temp_entry ::
  "('w, 'st) GcTask \<Rightarrow> GcOptions \<Rightarrow> 'st \<Rightarrow> string \<Rightarrow> string \<Rightarrow> int \<Rightarrow> ListEntry \<Rightarrow> 'w \<times> GcReport \<Rightarrow> 'w \<times> GcReport" where
  "temp_entry T options store part container cutoff entry = (\<lambda>(w, report).
     if le_last_modified entry > cutoff
     then (w, report\<lparr>gr_tmp_skipped_too_young := gr_tmp_skipped_too_young report + 1\<rparr>)
     else DeleteCandidate T options store (object_at container (le_key entry)) (le_key entry) False part
            (w, report\<lparr>gr_tmp_removed := gr_tmp_removed report + 1\<rparr>))"

definition too_young :: "GcReport \<Rightarrow> GcReport" where
  "too_young report = report\<lparr>gr_skipped_too_young := gr_skipped_too_young report + 1\<rparr>"

definition staging_entry ::
  "('w, 'st) GcTask \<Rightarrow> GcOptions \<Rightarrow> 'st \<Rightarrow> string \<Rightarrow> string \<Rightarrow> RefMap \<Rightarrow> int \<Rightarrow> ListEntry \<Rightarrow> 'w \<times> GcReport \<Rightarrow> 'w \<times> GcReport" where
  "staging_entry T options staging part container refs cutoff entry = (\<lambda>(w, report).
     if IsTempKey (le_key entry) then temp_entry T options staging part container cutoff entry (w, report)
     else if le_last_modified entry > cutoff then (w, too_young report)
     else (case map_of refs (PairKey container (le_key entry)) of
             None \<Rightarrow> DeleteCandidate T options staging (object_at container (le_key entry)) (le_key entry) False part (w, report)
           | Some (file_id, file_source) \<Rightarrow>
               let (w, registered) = HasMetadataRecord T part file_source w in
               if registered then (w, report\<lparr>gr_skipped_has_record := gr_skipped_has_record report + 1\<rparr>)
               else DeleteCandidate T options staging (object_at container (le_key entry)) file_id True part (w, report)))"

definition orphan_entry ::
  "('w, 'st) GcTask \<Rightarrow> GcOptions \<Rightarrow> 'st \<Rightarrow> string \<Rightarrow> string \<Rightarrow> RefMap \<Rightarrow> int \<Rightarrow> ListEntry \<Rightarrow> 'w \<times> GcReport \<Rightarrow> 'w \<times> GcReport" where
  "orphan_entry T options persistent part container refs cutoff entry = (\<lambda>(w, report).
     if IsTempKey (le_key entry) then temp_entry T options persistent part container cutoff entry (w, report)
     else if map_of refs (PairKey container (le_key entry)) \<noteq> None then (w, report)
     else if le_last_modified entry > cutoff then (w, too_young report)
     else DeleteCandidate T options persistent (object_at container (le_key entry)) (le_key entry) False part (w, report))"

text \<open>The loop over the pages of a listing; the body runs on every entry before the next page is
  fetched.\<close>

partial_function (option) scan_pages ::
  "('w, 'st) GcTask \<Rightarrow> 'st \<Rightarrow> string \<Rightarrow> (ListEntry \<Rightarrow> 'w \<times> GcReport \<Rightarrow> 'w \<times> GcReport) \<Rightarrow> string \<Rightarrow> 'w \<times> GcReport \<Rightarrow>
   ('w \<times> GcReport) option" where
  "scan_pages T store container body token s =
     (case gt_list T store container [] token 500 (fst s) of
        (w, Inl _) \<Rightarrow> Some (w, gc_error (snd s))
      | (w, Inr page) \<Rightarrow>
          let s = fold body (lp_entries page) (w, snd s); token = lp_continuation_token page in
          if token = [] then Some s else scan_pages T store container body token s)"

definition collect_container ::
  "('w, 'st) GcTask \<Rightarrow> string \<Rightarrow> StorageZone \<Rightarrow> 'st \<Rightarrow>
   (string \<Rightarrow> RefMap \<Rightarrow> ListEntry \<Rightarrow> 'w \<times> GcReport \<Rightarrow> 'w \<times> GcReport) \<Rightarrow> 'w \<times> GcReport \<Rightarrow> ('w \<times> GcReport) option" where
  "collect_container T part zone store body = (\<lambda>(w, report).
     case ContainerForRegistry (p_partition_Get (gt_ports T)) part zone of
       Inl _ \<Rightarrow> Some (w, gc_error report)
     | Inr container \<Rightarrow>
         Option.bind (ReferencedRefs T part w) (\<lambda>(w, r). case r of
           Inl _ \<Rightarrow> Some (w, gc_error report)
         | Inr refs \<Rightarrow> scan_pages T store container (body container refs) [] (w, report)))"

definition CollectExpiredStaging ::
  "('w, 'st) GcTask \<Rightarrow> string \<Rightarrow> GcOptions \<Rightarrow> 'st \<Rightarrow> int \<Rightarrow> 'w \<times> GcReport \<Rightarrow> ('w \<times> GcReport) option" where
  "CollectExpiredStaging T part options staging now_secs =
     collect_container T part kStaging staging (\<lambda>container refs.
       staging_entry T options staging part container refs (now_secs - go_staging_ttl_hours options * 3600))"

definition CollectOrphanObjects ::
  "('w, 'st) GcTask \<Rightarrow> string \<Rightarrow> GcOptions \<Rightarrow> 'st \<Rightarrow> int \<Rightarrow> 'w \<times> GcReport \<Rightarrow> ('w \<times> GcReport) option" where
  "CollectOrphanObjects T part options persistent now_secs =
     collect_container T part kPersistent persistent (\<lambda>container refs.
       orphan_entry T options persistent part container refs (now_secs - go_orphan_grace_hours options * 3600))"

section \<open>A run\<close>

definition sweep_temp ::
  "('w, 'st) GcTask \<Rightarrow> string \<Rightarrow> GcOptions \<Rightarrow> int \<Rightarrow> 'st \<times> StorageZone \<Rightarrow> 'w \<times> GcReport \<Rightarrow> 'w \<times> GcReport" where
  "sweep_temp T part options cutoff target = (\<lambda>(w, report).
     case ContainerForRegistry (p_partition_Get (gt_ports T)) part (snd target) of
       Inl _ \<Rightarrow> (w, gc_error report)
     | Inr container \<Rightarrow>
         (case gt_remove_temp_files T (fst target) container cutoff (go_dry_run options) w of
            (w, Inl _) \<Rightarrow> (w, gc_error report)
          | (w, Inr swept) \<Rightarrow>
              (w, report\<lparr>gr_tmp_removed := gr_tmp_removed report + ts_removed swept,
                         gr_tmp_skipped_too_young := gr_tmp_skipped_too_young report + ts_skipped_too_young swept,
                         gr_tmp_skipped_unknown_mtime := gr_tmp_skipped_unknown_mtime report + ts_skipped_unknown_mtime swept\<rparr>)))"

definition gc_phases ::
  "('w, 'st) GcTask \<Rightarrow> string \<Rightarrow> GcOptions \<Rightarrow> 'st \<Rightarrow> 'st \<Rightarrow> 'w \<Rightarrow> ('w \<times> GcReport) option" where
  "gc_phases T part options staging persistent w =
     (let now_secs = p_NowEpochSeconds (gt_ports T) w;
          s = CollectExpiredLeases T part options staging persistent now_secs (w, empty_GcReport (go_dry_run options)) in
      Option.bind (if go_require_lease_expiry options then Some s
                   else CollectExpiredStaging T part options staging now_secs s) (\<lambda>s.
      map_option (\<lambda>s.
        let cutoff = now_secs - go_staging_ttl_hours options * 3600 in
        fold (sweep_temp T part options cutoff) [(staging, kStaging), (persistent, kPersistent)] s)
        (CollectOrphanObjects T part options persistent now_secs s)))"

definition GcRun :: "('w, 'st) GcTask \<Rightarrow> string \<Rightarrow> GcOptions \<Rightarrow> 'w \<Rightarrow> ('w \<times> GcReport Result) option" where
  "GcRun T part options w =
     (if \<not> gt_try_lock T w then Some (w, Err kUnavailable msg_gc_running)
      else if part = [] then Some (w, Err kInvalidArgument msg_gc_needs_partition)
      else if go_claim_limit options \<le> 0 then Some (w, Err kInvalidArgument msg_gc_claim_limit)
      else
        (case (p_ForPartition (gt_ports T) part kStaging, p_ForPartition (gt_ports T) part kPersistent) of
           (Inl e, _) \<Rightarrow> Some (w, Err kUnavailable (msg_gc_no_staging @ error_message e))
         | (Inr _, Inl e) \<Rightarrow> Some (w, Err kUnavailable (msg_no_persistent_store @ error_message e))
         | (Inr staging, Inr persistent) \<Rightarrow>
             map_option (\<lambda>(w, report). (w, Ok report)) (gc_phases T part options staging persistent w)))"

section \<open>The task of the assembled world\<close>

definition mem_gc :: "(string \<Rightarrow> string) \<Rightarrow> PartitionConfig \<Rightarrow> (World, unit) Ports \<Rightarrow> string \<Rightarrow> (World, unit) GcTask" where
  "mem_gc sha config cfg instance_id =
     \<lparr>gt_ports = mem_ports sha config cfg,
      gt_ReclaimStaleClaiming = (\<lambda>part t n fs. on_md (\<lambda>s. MdReclaimStaleClaiming s part t n fs)),
      gt_ClaimExpired = (\<lambda>part n who w. on_lease (\<lambda>s. LeaseClaimExpired (now_millis w) s part n who) w),
      gt_list = (\<lambda>_ c p t n. on_blob (\<lambda>s. BlobList s c p t n)),
      gt_remove_temp_files = (\<lambda>_ c t dry. on_blob (\<lambda>s. BlobRemoveTempFiles s c t dry)),
      gt_instance_id = instance_id, gt_try_lock = (\<lambda>_. True)\<rparr>"

lemma mem_gc_sel [simp]:
  "gt_ports (mem_gc sha config cfg me) = mem_ports sha config cfg"
  "gt_ReclaimStaleClaiming (mem_gc sha config cfg me) = (\<lambda>part t n fs. on_md (\<lambda>s. MdReclaimStaleClaiming s part t n fs))"
  "gt_ClaimExpired (mem_gc sha config cfg me) = (\<lambda>part n who w. on_lease (\<lambda>s. LeaseClaimExpired (now_millis w) s part n who) w)"
  "gt_list (mem_gc sha config cfg me) = (\<lambda>_ c p t n. on_blob (\<lambda>s. BlobList s c p t n))"
  "gt_remove_temp_files (mem_gc sha config cfg me) = (\<lambda>_ c t dry. on_blob (\<lambda>s. BlobRemoveTempFiles s c t dry))"
  "gt_instance_id (mem_gc sha config cfg me) = me" "gt_try_lock (mem_gc sha config cfg me) = (\<lambda>_. True)"
  by (simp_all add: mem_gc_def)

end
