(* ===== verification/Gc_Properties.thy ===== *)
theory Gc_Properties
  imports Gc_Task
begin

text \<open>
  The steps of the collector in the assembled world: the reference map covers every location, and no
  step on a lease or a listed entry touches the object, location or record of a registered file.
\<close>

section \<open>The reference map\<close>

definition ref_key :: "FileLocation \<Rightarrow> string option" where
  "ref_key l =
     (if \<not> is_object (fl_extra l) then None
      else (case (extra_string (fl_extra l) kExtraContainer, extra_string (fl_extra l) kExtraObjectKey) of
              (Some c, Some k) \<Rightarrow> Some (PairKey c k) | _ \<Rightarrow> None))"

lemma ref_key_of_ref:
  "ObjectRefFromLocation l = Ok ref \<Longrightarrow> ref_key l = Some (PairKey (or_container ref) (or_key ref))"
  by (auto simp: ObjectRefFromLocation_def ref_key_def Let_def missing_physical_ref_def type_error_def
      split: if_splits option.splits)

lemma add_ref_key:
  "add_ref l refs = (case ref_key l of None \<Rightarrow> refs | Some k \<Rightarrow> map_put k (fl_file_id l, fl_file_source l) refs)"
  by (simp add: add_ref_def ref_key_def split: option.split)

lemma refs_sound:
  "map_of (fold add_ref ls m) key = Some v \<Longrightarrow>
   (\<exists>l \<in> set ls. ref_key l = Some key \<and> v = (fl_file_id l, fl_file_source l)) \<or> map_of m key = Some v"
  by (induction ls arbitrary: m) (fastforce simp: add_ref_key split: option.splits if_splits)+

lemma refs_complete:
  "(l \<in> set ls \<and> ref_key l = Some key) \<or> map_of m key \<noteq> None \<Longrightarrow> map_of (fold add_ref ls m) key \<noteq> None"
  by (induction ls arbitrary: m) (fastforce simp: add_ref_key split: option.splits)+

text \<open>The paging loop reads every location of the partition, as long as their number fits an \<^verbatim>\<open>int\<close>.\<close>

definition all_locations :: "LocState \<Rightarrow> string \<Rightarrow> FileLocation list" where
  "all_locations s part = loc_expected s part (refs_query 0)"

lemma loc_expected_offset [simp]: "loc_expected s part (refs_query n) = all_locations s part"
proof -
  have "loc_matches (refs_query n) = loc_matches (refs_query 0)" by (simp add: fun_eq_iff loc_matches_def refs_query_def)
  then show ?thesis by (simp add: all_locations_def loc_expected_def loc_matched_def split: option.split)
qed

lemma refs_query_sel [simp]: "lq_limit (refs_query n) = 500" "lq_offset (refs_query n) = n"
  by (simp_all add: refs_query_def)

lemma wrap_i32_id: "0 \<le> x \<Longrightarrow> x < 2147483648 \<Longrightarrow> wrap_i32 x = x"
  by (simp add: wrap_i32_def)

lemma refs_loop_all:
  assumes "length (all_locations (w_loc w) part) < 2147483648" "off \<le> length (all_locations (w_loc w) part)"
  shows "refs_loop (mem_gc sha config cfg me) part (int off) refs w =
    Some (w, Ok (fold add_ref (drop off (all_locations (w_loc w) part)) refs))"
  using assms(2)
proof (induction "length (all_locations (w_loc w) part) - off" arbitrary: off refs rule: less_induct)
  case less
  let ?L = "all_locations (w_loc w) part"
  let ?pg = "take 500 (drop off ?L)"
  have page: "LocList (w_loc w) part (refs_query (int off)) = Ok \<lparr>lpg_records = ?pg, lpg_total = int (length ?L)\<rparr>"
    using LocList_Ok [of "refs_query (int off)" "w_loc w" part] by simp
  have n: "length ?pg \<le> 500" "off + length ?pg \<le> length ?L" using less.prems by simp_all
  have w1: "wrap_i32 (int (length ?pg)) = int (length ?pg)" using n(1) by (intro wrap_i32_id) linarith+
  have w2: "wrap_i32 (int off + int (length ?pg)) = int (off + length ?pg)"
    using n(2) assms(1) by (simp add: wrap_i32_id)
  have w3: "wrap_i32 (int (length ?L)) = int (length ?L)" using assms(1) by (simp add: wrap_i32_id)
  have split: "drop off ?L = ?pg @ drop (off + length ?pg) ?L"
  proof -
    have "drop (length ?pg) (drop off ?L) = drop 500 (drop off ?L)" by (cases "500 \<le> length (drop off ?L)") simp_all
    then show ?thesis using append_take_drop_id [of 500 "drop off ?L"] by (simp add: add.commute)
  qed
  show ?case
  proof (cases "?pg = [] \<or> length ?L \<le> off + length ?pg")
    case True
    then have "drop off ?L = ?pg" using split by auto
    then show ?thesis using page True w1 w2 w3 by (subst refs_loop.simps) (auto simp: Let_def)
  next
    case False
    then have "length ?L - (off + length ?pg) < length ?L - off" using less.prems by (cases ?pg) auto
    from less.hyps [OF this, of "fold add_ref ?pg refs"] n(2) False
    have "refs_loop (mem_gc sha config cfg me) part (int (off + length ?pg)) (fold add_ref ?pg refs) w =
        Some (w, Ok (fold add_ref (drop (off + length ?pg) ?L) (fold add_ref ?pg refs)))" by simp
    moreover have "fold add_ref (drop off ?L) refs = fold add_ref (drop (off + length ?pg) ?L) (fold add_ref ?pg refs)"
      by (subst split) simp
    ultimately show ?thesis using page False w1 w2 w3 by (subst refs_loop.simps) (simp add: Let_def)
  qed
qed

lemma ReferencedRefs_all:
  "length (all_locations (w_loc w) part) < 2147483648 \<Longrightarrow>
   ReferencedRefs (mem_gc sha config cfg me) part w = Some (w, Ok (fold add_ref (all_locations (w_loc w) part) []))"
  using refs_loop_all [of w part 0 sha config cfg me "[]"] by (simp add: ReferencedRefs_def)

lemma in_all_locations: "loc_inv s \<Longrightarrow> l \<in> set (all_locations s part) \<longleftrightarrow> loc_at s part (fl_file_id l) = Some l"
  by (simp add: all_locations_def set_loc_expected loc_matches_def refs_query_def)

section \<open>A registered object\<close>

text \<open>The object of the location \<open>l\<close>, whose file source has the visible record \<open>r\<close>: the locations and
  records are consistent, no other location of the partition points to the object, and the object has
  the content \<open>x\<close>.\<close>

definition registered :: "string \<Rightarrow> FileLocation \<Rightarrow> FileMetadataRecord \<Rightarrow> string \<Rightarrow> string \<Rightarrow> string option \<Rightarrow> World \<Rightarrow> bool" where
  "registered part l r c k x w \<longleftrightarrow>
     md_inv (w_md w) \<and> loc_inv (w_loc w) \<and> MdGetLatestByFileSource (w_md w) part (fl_file_source l) = Ok r \<and>
     loc_at (w_loc w) part (fl_file_id l) = Some l \<and>
     (\<forall>i l'. loc_at (w_loc w) part i = Some l' \<and> ref_key l' = Some (PairKey c k) \<longrightarrow> l' = l) \<and>
     blob_content (w_blob w) c k = x"

lemma registered_cong:
  "w_md w' = w_md w \<Longrightarrow> w_loc w' = w_loc w \<Longrightarrow> blob_content (w_blob w') c k = blob_content (w_blob w) c k \<Longrightarrow>
   registered part l r c k x w \<Longrightarrow> registered part l r c k x w'"
  by (simp add: registered_def)

lemma registered_blob:
  "(\<And>s' res. f (w_blob w) = (s', res) \<Longrightarrow> blob_content s' c k = blob_content (w_blob w) c k) \<Longrightarrow>
   registered part l r c k x w \<Longrightarrow> registered part l r c k x (fst (on_blob f w))"
  by (auto simp: on_blob_def registered_def split: prod.split)

lemma BlobList_at: "BlobList s c p t n = (s', r) \<Longrightarrow> blob_at s' = blob_at s"
  unfolding BlobList_def by (elim FSS_TRY_ST_E) (auto dest: BeginOp_at split: if_splits option.splits)

lemma BlobRemoveTempFiles_at:
  assumes "BlobRemoveTempFiles s c t d = (s', r)" "\<not> is_temp_key k"
  shows "blob_at s' c' k = blob_at s c' k"
proof -
  have f: "map_of (filter (\<lambda>p. \<not> temp_victim t p) objs) k = map_of objs k" for objs
    using assms(2) by (induction objs) (auto simp: temp_victim_def)
  from assms(1) show ?thesis unfolding BlobRemoveTempFiles_def
  proof (cases rule: FSS_TRY_ST_E)
    case (go s1 u)
    then show ?thesis using BeginOp_cases [OF go(1)] by (auto simp: blob_at_def f split: if_splits option.splits)
  qed (simp add: BeginOp_at)
qed

lemma registered_delete:
  assumes "registered part l r c k x w" "or_container ref \<noteq> c \<or> or_key ref \<noteq> k" "del \<Longrightarrow> i \<noteq> fl_file_id l"
  shows "registered part l r c k x (fst (DeleteCandidate (mem_gc sha config cfg me) options st ref i del part (w, report)))"
proof (cases "go_dry_run options")
  case True
  then show ?thesis using assms(1) by (simp add: DeleteCandidate_def)
next
  case False
  obtain s1 q where rm: "BlobRemove (w_blob w) ref = (s1, q)" by fastforce
  let ?w = "w\<lparr>w_blob := s1\<rparr>"
  have "blob_content s1 c k = blob_content (w_blob w) c k"
    using BlobRemove_effect [OF rm] assms(2) by (auto simp: blob_content_def)
  then have r1: "registered part l r c k x ?w" using assms(1) by (auto intro: registered_cong)
  obtain s2 v where d: "LocDelete (w_loc ?w) part i = (s2, v)" by fastforce
  have inv: "loc_inv (w_loc ?w)" using r1 by (simp add: registered_def)
  have at: "loc_at s2 q j = Some m \<longleftrightarrow> \<not> (v = Ok () \<and> q = part \<and> j = i) \<and> loc_at (w_loc w) q j = Some m" for q j m
    using loc.remove_lookup [OF inv d, of q j m] by simp
  have "registered part l r c k x (?w\<lparr>w_loc := s2\<rparr>)" if del
    using r1 assms(3) [OF that] loc.remove_inv [OF inv d] at by (auto simp: registered_def)
  then show ?thesis using False rm d r1
    by (cases q; cases v) (auto simp: DeleteCandidate_def Let_def on_blob_def on_loc_def)
qed

lemma registered_claim_expired:
  "registered part l r c k x w \<Longrightarrow> registered part l r c k x (fst (on_lease f w))"
  by (simp add: on_lease_def registered_def split: prod.split)

lemma registered_reclaim:
  assumes "registered part l r c k x w"
  shows "registered part l r c k x (fst (on_md (\<lambda>s. MdReclaimStaleClaiming s p t n fs) w))"
proof -
  obtain s' res where e: "MdReclaimStaleClaiming (w_md w) p t n fs = (s', res)" by fastforce
  have inv: "md_inv (w_md w)" and get: "MdGetLatestByFileSource (w_md w) part (fl_file_source l) = Ok r"
    using assms by (simp_all add: registered_def)
  note rc = reclaim_cases [OF inv e]
  have by_id: "MdGetById (w_md w) part (fm_id r) = Ok r" "FileSourceOf r = fl_file_source l"
    using source_reads_agree [OF inv] get by blast+
  then obtain ch where ch: "FindChain (w_md w) part (fm_id r) = Some ch" "v_state (last ch) = kReady"
    by (auto simp: MdGetById_def ready_record_Ok)
  have "FindChain s' part (fm_id r) = FindChain (w_md w) part (fm_id r)"
    using rc ch by (fastforce simp: stale_claim_def)
  then have "MdGetById s' part (fm_id r) = Ok r" using by_id(1) by (simp add: MdGetById_def)
  then have "MdGetLatestByFileSource s' part (fl_file_source l) = Ok r"
    using source_reads_agree [of s'] rc by_id(2) by blast
  then show ?thesis using assms e rc by (simp add: on_md_def registered_def)
qed

lemma registered_reclaim_claims:
  "registered part l r c k x w \<Longrightarrow>
   registered part l r c k x (fst (reclaim_claims (mem_gc sha config cfg me) p options now ls (w, report)))"
  using registered_reclaim [of part l r c k x w]
  by (auto simp: reclaim_claims_def split: prod.split sum.split) (metis fst_conv)+

lemma registered_has_record:
  "registered part l r c k x w \<Longrightarrow> fl_file_source l \<noteq> [] \<Longrightarrow>
   HasMetadataRecord (mem_gc sha config cfg me) part (fl_file_source l) w = (w, True)"
  by (simp add: HasMetadataRecord_def registered_def)

lemma HasMetadataRecord_world [simp]: "fst (HasMetadataRecord (mem_gc sha config cfg me) part f w) = w"
  by (simp add: HasMetadataRecord_def)

lemma resolve_lease_found:
  assumes "loc_inv (w_loc w)"
  shows "fst (resolve_lease (mem_gc sha config cfg me) part lease w) = w \<and>
    (\<forall>l'. snd (resolve_lease (mem_gc sha config cfg me) part lease w) = Some l' \<longrightarrow> loc_at (w_loc w) part (fl_file_id l') = Some l')"
proof (cases "if ls_file_id lease = [] then Err kNotFound [] else LocFind (w_loc w) part (ls_file_id lease)")
  case (Inr l1)
  then have "LocFind (w_loc w) part (ls_file_id lease) = Ok l1" by (auto simp: Ok_def simp del: LocFind_Ok split: if_splits)
  then have "loc_at (w_loc w) part (fl_file_id l1) = Some l1" using loc.lookup_id [OF assms] by fastforce
  then show ?thesis using Inr by (auto simp: resolve_lease_def split: if_splits)
next
  case (Inl e)
  have "loc_at (w_loc w) part (fl_file_id l') = Some l'" if "LocFindByFileSource (w_loc w) part (LeaseKeyOf lease) = Inr l'" for l'
    using loc.by_source_iff [OF assms, of part "LeaseKeyOf lease" l'] that by simp
  then show ?thesis using Inl
    by (cases "ls_file_id lease = []"; cases "LocFindByFileSource (w_loc w) part (LeaseKeyOf lease)")
      (auto simp: resolve_lease_def)
qed

lemma registered_collect_lease:
  assumes "registered part l r c k x w" "fl_file_source l \<noteq> []"
  shows "registered part l r c k x (fst (collect_lease (mem_gc sha config cfg me) part options st st' lease (w, report)))"
proof -
  let ?T = "mem_gc sha config cfg me"
  have inv: "loc_inv (w_loc w)" using assms(1) by (simp add: registered_def)
  note f = resolve_lease_found [OF inv, of sha config cfg me part lease]
  show ?thesis
  proof (cases "snd (resolve_lease ?T part lease w)")
    case None
    then show ?thesis using f assms(1) by (cases "resolve_lease ?T part lease w") (simp add: collect_lease_def)
  next
    case (Some l')
    with f have res: "resolve_lease ?T part lease w = (w, Some l')" and at: "loc_at (w_loc w) part (fl_file_id l') = Some l'"
      by (metis prod.collapse, blast)
    obtain g where h: "HasMetadataRecord ?T part (fl_file_source l') w = (w, g)"
      by (metis HasMetadataRecord_world prod.collapse)
    show ?thesis
    proof (cases "g \<or> (\<exists>e. ObjectRefFromLocation l' = Inl e)")
      case True
      then show ?thesis using res h assms(1) by (auto simp: collect_lease_def)
    next
      case False
      then obtain ref where ref: "ObjectRefFromLocation l' = Ok ref" by (cases "ObjectRefFromLocation l'") (auto simp: Ok_def)
      have ne: "l' \<noteq> l" using False h registered_has_record [OF assms, of sha config cfg me] by auto
      then have "fl_file_id l' \<noteq> fl_file_id l" using at assms(1) by (auto simp: registered_def)
      moreover have "or_container ref \<noteq> c \<or> or_key ref \<noteq> k"
        using ref_key_of_ref [OF ref] at ne assms(1) by (auto simp: registered_def)
      ultimately show ?thesis using registered_delete [OF assms(1)] res h False ref by (simp add: collect_lease_def)
    qed
  qed
qed

lemma fold_invariant:
  "(\<And>e s. e \<in> set es \<Longrightarrow> Q (fst s) \<Longrightarrow> Q (fst (f e s))) \<Longrightarrow> Q (fst s) \<Longrightarrow> Q (fst (fold f es s))"
  by (induction es arbitrary: s) auto

lemma registered_leases:
  assumes "registered part l r c k x w" "fl_file_source l \<noteq> []"
  shows "registered part l r c k x (fst (CollectExpiredLeases (mem_gc sha config cfg me) part options st st' now (w, report)))"
proof -
  let ?T = "mem_gc sha config cfg me"
  obtain w1 q where cl: "on_lease (\<lambda>s. LeaseClaimExpired (now_millis w) s part (go_claim_limit options) me) w = (w1, q)" by fastforce
  have r1: "registered part l r c k x w1" using registered_claim_expired [OF assms(1)] cl by (metis fst_conv)
  have "registered part l r c k x (fst (fold (collect_lease ?T part options st st') ls
      (reclaim_claims ?T part options now ls (w1, rep))))" for ls rep
    by (rule fold_invariant [where Q = "registered part l r c k x"])
      (metis registered_collect_lease assms(2) prod.collapse, rule registered_reclaim_claims [OF r1])
  then show ?thesis using cl r1 by (auto simp: CollectExpiredLeases_def split: sum.split)
qed

section \<open>Scanning\<close>

lemma tolower_separator: "unit_separator = tolower c \<longleftrightarrow> unit_separator = c"
proof (cases "isupper c")
  case True
  then have "(of_char (tolower c) :: nat) \<noteq> of_char unit_separator" "(of_char c :: nat) \<noteq> of_char unit_separator"
    by (simp_all add: tolower_def isupper_def unit_separator_def)
  then show ?thesis by metis
qed (simp add: tolower_def)

lemma container_clean:
  assumes "ContainerForRegistry registry part zone = Ok container"
  shows "unit_separator \<notin> set container"
proof -
  have u: "is_control unit_separator" by code_simp
  have z: "unit_separator \<notin> set (''-'' @ zone_suffix z)" for z by (cases z) (simp_all add: zone_suffix_def unit_separator_def)
  have v: "unit_separator \<notin> set n" if "ValidateContainerName n what = Ok m" for n what m
    using that u by (auto simp: ValidateContainerName_Ok_iff)
  have d: "unit_separator \<notin> set container'" if "ContainerFor p zone = Ok container'" for p container'
    using that z [of zone] v [of p] by (auto simp: ContainerFor_Ok_iff is_ok_iff UpperToLower_def tolower_separator)
  show ?thesis using assms d v
    by (auto simp: ContainerForRegistry_def ContainerForConfig_def Let_def ValidateContainerName_Ok_iff split: sum.splits if_splits)
qed

lemma PairKey_inject:
  assumes "unit_separator \<notin> set a" "unit_separator \<notin> set b"
  shows "PairKey a k = PairKey b j \<longleftrightarrow> a = b \<and> k = j"
proof
  assume "PairKey a k = PairKey b j"
  then have e: "a @ unit_separator # k = b @ unit_separator # j" by (simp add: PairKey_def)
  then have "a = b" using takeWhile_no_sep [OF assms(1), of k] takeWhile_no_sep [OF assms(2), of j] by simp
  with e show "a = b \<and> k = j" by simp
qed simp

definition sound_refs :: "string \<Rightarrow> FileLocation \<Rightarrow> string \<Rightarrow> string \<Rightarrow> RefMap \<Rightarrow> bool" where
  "sound_refs part l c k refs \<longleftrightarrow>
     map_of refs (PairKey c k) = Some (fl_file_id l, fl_file_source l) \<and>
     (\<forall>key i g. map_of refs key = Some (i, g) \<and> i = fl_file_id l \<longrightarrow> key = PairKey c k)"

lemma refs_sound_registered:
  assumes "registered part l r c k x w" "ref_key l = Some (PairKey c k)"
  shows "sound_refs part l c k (fold add_ref (all_locations (w_loc w) part) [])"
proof -
  let ?refs = "fold add_ref (all_locations (w_loc w) part) []"
  have inv: "loc_inv (w_loc w)" and at: "loc_at (w_loc w) part (fl_file_id l) = Some l"
    and lone: "\<And>i l'. loc_at (w_loc w) part i = Some l' \<Longrightarrow> ref_key l' = Some (PairKey c k) \<Longrightarrow> l' = l"
    using assms(1) by (auto simp: registered_def)
  have snd: "\<exists>l'. loc_at (w_loc w) part (fl_file_id l') = Some l' \<and> ref_key l' = Some key \<and> v = (fl_file_id l', fl_file_source l')"
    if "map_of ?refs key = Some v" for key v
    using refs_sound [OF that] in_all_locations [OF inv] by auto
  have "map_of ?refs (PairKey c k) \<noteq> None"
    using refs_complete [of l "all_locations (w_loc w) part" "PairKey c k" "[]"] in_all_locations [OF inv] at assms(2) by blast
  then obtain v where v: "map_of ?refs (PairKey c k) = Some v" by auto
  from snd [OF this] obtain l' where l': "loc_at (w_loc w) part (fl_file_id l') = Some l'" "ref_key l' = Some (PairKey c k)"
      "v = (fl_file_id l', fl_file_source l')" by blast
  have "v = (fl_file_id l, fl_file_source l)" using lone [OF l'(1,2)] l'(3) by simp
  moreover have "key = PairKey c k" if m: "map_of ?refs key = Some (fl_file_id l, g)" for key g
  proof -
    from snd [OF m] obtain l'' where l'': "loc_at (w_loc w) part (fl_file_id l'') = Some l''" "ref_key l'' = Some key"
      "(fl_file_id l, g) = (fl_file_id l'', fl_file_source l'')" by blast
    have "fl_file_id l'' = fl_file_id l" using l''(3) by (rule Pair_inject) (rule sym)
    then have "Some l'' = Some l" using l''(1) at by (metis (no_types))
    then show ?thesis using l''(2) assms(2) by (metis option.inject)
  qed
  ultimately show ?thesis using v unfolding sound_refs_def by blast
qed

lemma registered_temp_entry:
  assumes "registered part l r c k x w" "IsTempKey (le_key e)" "\<not> IsTempKey k"
  shows "registered part l r c k x (fst (temp_entry (mem_gc sha config cfg me) options st part ct limit e (w, report)))"
proof -
  have "le_key e \<noteq> k" using assms by blast
  then show ?thesis using registered_delete [OF assms(1)] assms(1) by (simp add: temp_entry_def object_at_def)
qed

lemma registered_staging_entry:
  assumes "registered part l r c k x w" "sound_refs part l c k refs" "\<not> IsTempKey k" "fl_file_source l \<noteq> []"
    and "unit_separator \<notin> set c" "unit_separator \<notin> set ct"
  shows "registered part l r c k x (fst (staging_entry (mem_gc sha config cfg me) options st part ct refs limit e (w, report)))"
proof (cases "IsTempKey (le_key e) \<or> le_last_modified e > limit")
  case True
  then show ?thesis using registered_temp_entry assms(1,3) by (auto simp: staging_entry_def)
next
  case False
  let ?T = "mem_gc sha config cfg me"
  show ?thesis
  proof (cases "map_of refs (PairKey ct (le_key e))")
    case None
    then have "ct \<noteq> c \<or> le_key e \<noteq> k" using assms(2) by (auto simp: sound_refs_def)
    then show ?thesis using registered_delete [OF assms(1)] False None by (simp add: staging_entry_def object_at_def)
  next
    case (Some v)
    obtain i g where v: "v = (i, g)" by fastforce
    obtain b where b: "HasMetadataRecord ?T part g w = (w, b)" by (metis HasMetadataRecord_world prod.collapse)
    show ?thesis
    proof (cases "ct = c \<and> le_key e = k")
      case True
      then have "b" using Some v b assms(2) registered_has_record [OF assms(1,4), of sha config cfg me] by (auto simp: sound_refs_def)
      then show ?thesis using Some v b False assms(1) by (simp add: staging_entry_def)
    next
      case ne: False
      then have "i \<noteq> fl_file_id l" using Some v assms(2) PairKey_inject [OF assms(6,5)] by (auto simp: sound_refs_def)
      then show ?thesis using registered_delete [OF assms(1)] ne Some v b False assms(1)
        by (auto simp: staging_entry_def object_at_def)
    qed
  qed
qed

lemma registered_orphan_entry:
  assumes "registered part l r c k x w" "sound_refs part l c k refs" "\<not> IsTempKey k"
  shows "registered part l r c k x (fst (orphan_entry (mem_gc sha config cfg me) options st part ct refs limit e (w, report)))"
proof (cases "IsTempKey (le_key e) \<or> map_of refs (PairKey ct (le_key e)) \<noteq> None \<or> le_last_modified e > limit")
  case True
  then show ?thesis using registered_temp_entry assms(1,3) by (auto simp: orphan_entry_def)
next
  case False
  then have "ct \<noteq> c \<or> le_key e \<noteq> k" using assms(2) by (auto simp: sound_refs_def)
  then show ?thesis using registered_delete [OF assms(1)] False by (simp add: orphan_entry_def object_at_def)
qed

text \<open>A property the body and the listing keep holds after the whole scan.\<close>

lemma scan_pages_invariant:
  assumes "scan_pages T st ct body t s = Some s'"
    and "\<And>token w. Q w \<Longrightarrow> Q (fst (gt_list T st ct [] token 500 w))"
    and "\<And>e s. Q (fst s) \<Longrightarrow> Q (fst (body e s))" "Q (fst s)"
  shows "Q (fst s')"
proof -
  have "(\<forall>token w. Q w \<longrightarrow> Q (fst (gt_list T st ct [] token 500 w))) \<longrightarrow>
      (\<forall>e s. Q (fst s) \<longrightarrow> Q (fst (body e s))) \<longrightarrow> Q (fst s) \<longrightarrow> Q (fst s')"
  proof (rule scan_pages.raw_induct [where P = "\<lambda>T st ct body t s s'.
      (\<forall>token w. Q w \<longrightarrow> Q (fst (gt_list T st ct [] token 500 w))) \<longrightarrow>
      (\<forall>e s. Q (fst s) \<longrightarrow> Q (fst (body e s))) \<longrightarrow> Q (fst s) \<longrightarrow> Q (fst s')", OF _ assms(1)], goal_cases)
    case (1 sp T st ct body t s s')
    show ?case
    proof (intro impI)
      assume ls: "\<forall>token w. Q w \<longrightarrow> Q (fst (gt_list T st ct [] token 500 w))"
        and b: "\<forall>e s. Q (fst s) \<longrightarrow> Q (fst (body e s))" and q: "Q (fst s)"
      obtain w1 pg where p: "gt_list T st ct [] t 500 (fst s) = (w1, pg)" by fastforce
      have q1: "Q w1" using ls q p by (metis fst_conv)
      show "Q (fst s')"
      proof (cases pg)
        case (Inl e)
        then show ?thesis using 1(2) p q1 by auto
      next
        case (Inr page)
        let ?s = "fold body (lp_entries page) (w1, snd s)"
        have q2: "Q (fst ?s)" by (rule fold_invariant [where Q = Q]) (use b q1 in auto)
        show ?thesis
        proof (cases "lp_continuation_token page = []")
          case True
          then show ?thesis using 1(2) p Inr q2 by auto
        next
          case False
          then have "sp T st ct body (lp_continuation_token page) ?s = Some s'" using 1(2) p Inr by (simp add: Let_def)
          from 1(1) [OF this] show ?thesis using ls b q2 by blast
        qed
      qed
    qed
  qed
  then show ?thesis using assms(2-4) by blast
qed

end
