(* ===== verification/Gc_Safety.thy ===== *)
theory Gc_Safety
  imports Gc_Properties Registration
begin

text \<open>
  Whole runs of the collector: it always finishes, a registered object and its records survive, and a
  dry run removes no object and no location.
\<close>

section \<open>What every step keeps, every run keeps\<close>

lemma collect_container_cases:
  assumes "collect_container T part zone st body s = Some s'"
  obtains (refused) "s' = (fst s, gc_error (snd s))"
  | (unread) w1 e where "ReferencedRefs T part (fst s) = Some (w1, Inl e)" "s' = (w1, gc_error (snd s))"
  | (scan) ct m w1 where "ContainerForRegistry (p_partition_Get (gt_ports T)) part zone = Ok ct"
      "ReferencedRefs T part (fst s) = Some (w1, Ok m)" "scan_pages T st ct (body ct m) [] (w1, snd s) = Some s'"
proof -
  obtain w report where s: "s = (w, report)" by fastforce
  show thesis
  proof (cases "ContainerForRegistry (p_partition_Get (gt_ports T)) part zone")
    case (Inl e)
    then show thesis using assms s by (intro refused) (auto simp: collect_container_def)
  next
    case (Inr ct)
    then obtain w1 r where r: "ReferencedRefs T part w = Some (w1, r)"
      using assms s by (auto simp: collect_container_def bind_eq_Some_conv)
    show thesis
    proof (cases r)
      case (Inl e)
      then show thesis using assms s Inr r by (intro unread) (auto simp: collect_container_def)
    next
      case m: (Inr m)
      then show thesis using assms s Inr r by (intro scan) (auto simp: collect_container_def Ok_def)
    qed
  qed
qed

lemma gc_phases_E:
  assumes "gc_phases T part options st st' w = Some s'"
  obtains s1 s2 where
    "(if go_require_lease_expiry options
      then Some (CollectExpiredLeases T part options st st' (p_NowEpochSeconds (gt_ports T) w) (w, empty_GcReport (go_dry_run options)))
      else CollectExpiredStaging T part options st (p_NowEpochSeconds (gt_ports T) w)
             (CollectExpiredLeases T part options st st' (p_NowEpochSeconds (gt_ports T) w) (w, empty_GcReport (go_dry_run options)))) = Some s1"
    "CollectOrphanObjects T part options st' (p_NowEpochSeconds (gt_ports T) w) s1 = Some s2"
    "s' = fold (sweep_temp T part options (p_NowEpochSeconds (gt_ports T) w - go_staging_ttl_hours options * 3600))
            [(st, kStaging), (st', kPersistent)] s2"
  using assms unfolding gc_phases_def Let_def by (auto simp: bind_eq_Some_conv)

locale gc_frame =
  fixes T :: "('w, 'st) GcTask" and part :: string and options :: GcOptions and Q :: "'w \<Rightarrow> bool"
  assumes delete: "Q (fst s) \<Longrightarrow> Q (fst (DeleteCandidate T options st ref i del part s))"
    and record_read: "Q w \<Longrightarrow> Q (fst (HasMetadataRecord T part f w))"
    and lease_read: "Q w \<Longrightarrow> Q (fst (resolve_lease T part lease w))"
    and claim_expired: "Q w \<Longrightarrow> Q (fst (gt_ClaimExpired T part n who w))"
    and reclaim: "Q w \<Longrightarrow> Q (fst (gt_ReclaimStaleClaiming T part t n fs w))"
    and refs: "Q w \<Longrightarrow> ReferencedRefs T part w = Some (w', r) \<Longrightarrow> Q w'"
    and list: "Q w \<Longrightarrow> Q (fst (gt_list T st c p token n w))"
    and sweep: "Q w \<Longrightarrow> Q (fst (gt_remove_temp_files T st c t (go_dry_run options) w))"
begin

lemma keep_temp: "Q (fst s) \<Longrightarrow> Q (fst (temp_entry T options st part ct limit e s))"
  by (cases s) (simp add: temp_entry_def delete)

lemma keep_staging:
  assumes "Q (fst s)"
  shows "Q (fst (staging_entry T options st part ct m limit e s))"
proof -
  obtain w report where s: "s = (w, report)" by fastforce
  have "Q (fst (HasMetadataRecord T part f w))" for f using assms s record_read by simp
  then have "Q w'" if "HasMetadataRecord T part f w = (w', b)" for f w' b using that by (metis fst_conv)
  then show ?thesis using assms s delete keep_temp
    by (auto simp: staging_entry_def split: option.split prod.split)
qed

lemma keep_orphan: "Q (fst s) \<Longrightarrow> Q (fst (orphan_entry T options st part ct m limit e s))"
  using delete keep_temp by (cases s) (auto simp: orphan_entry_def)

lemma keep_lease:
  assumes "Q (fst s)"
  shows "Q (fst (collect_lease T part options st st' lease s))"
proof -
  obtain w report where s: "s = (w, report)" by fastforce
  obtain w1 l where l: "resolve_lease T part lease w = (w1, l)" by fastforce
  have q1: "Q w1" using lease_read [of w lease] assms s l by simp
  show ?thesis
  proof (cases l)
    case None
    then show ?thesis using s l q1 by (simp add: collect_lease_def)
  next
    case (Some loc)
    obtain w2 b where h: "HasMetadataRecord T part (fl_file_source loc) w1 = (w2, b)" by fastforce
    have "Q w2" using record_read [OF q1, of "fl_file_source loc"] h by simp
    then show ?thesis using s l Some h delete by (auto simp: collect_lease_def split: sum.split)
  qed
qed

lemma keep_leases:
  assumes "Q (fst s)"
  shows "Q (fst (CollectExpiredLeases T part options st st' now s))"
proof -
  obtain w report where s: "s = (w, report)" by fastforce
  obtain w1 q where c: "gt_ClaimExpired T part (go_claim_limit options) (gt_instance_id T) w = (w1, q)" by fastforce
  have q1: "Q w1" using claim_expired [of w] assms s c by (metis fst_conv)
  have "Q (fst (reclaim_claims T part options now ls (w1, rep)))" for ls rep
    using reclaim [OF q1] q1 by (auto simp: reclaim_claims_def split: prod.split sum.split) (metis fst_conv)+
  then have "Q (fst (fold (collect_lease T part options st st') ls (reclaim_claims T part options now ls (w1, rep))))" for ls rep
    by (intro fold_invariant [where Q = Q] keep_lease)
  then show ?thesis using s c q1 by (auto simp: CollectExpiredLeases_def split: sum.split)
qed

lemma keep_container:
  assumes "collect_container T part zone st body s = Some s'" "Q (fst s)"
    and "\<And>ct m e s. Q (fst s) \<Longrightarrow> Q (fst (body ct m e s))"
  shows "Q (fst s')"
  using assms(1)
proof (cases rule: collect_container_cases)
  case (scan ct m w1)
  have "Q w1" using refs scan(2) assms(2) by blast
  then show ?thesis
    by (intro scan_pages_invariant [OF scan(3), where Q = Q]) (use assms(3) list in auto)
qed (use assms(2) refs in auto)

lemma keep_sweep: "Q (fst s) \<Longrightarrow> Q (fst (sweep_temp T part options cutoff target s))"
  using sweep by (cases s) (auto simp: sweep_temp_def split: sum.split prod.split, (metis fst_conv)+)

lemma keep_phases:
  assumes "Q w" "gc_phases T part options st st' w = Some s'"
  shows "Q (fst s')"
proof -
  let ?now = "p_NowEpochSeconds (gt_ports T) w"
  let ?s = "CollectExpiredLeases T part options st st' ?now (w, empty_GcReport (go_dry_run options))"
  have q: "Q (fst ?s)" by (rule keep_leases) (simp add: assms(1))
  from assms(2) obtain s1 s2 where s1: "(if go_require_lease_expiry options then Some ?s
        else CollectExpiredStaging T part options st ?now ?s) = Some s1"
    and s2: "CollectOrphanObjects T part options st' ?now s1 = Some s2"
    and s': "s' = fold (sweep_temp T part options (?now - go_staging_ttl_hours options * 3600)) [(st, kStaging), (st', kPersistent)] s2"
    by (rule gc_phases_E)
  have "Q (fst s1)"
  proof (cases "go_require_lease_expiry options")
    case False
    then have "CollectExpiredStaging T part options st ?now ?s = Some s1" using s1 by simp
    from this [unfolded CollectExpiredStaging_def] show ?thesis by (rule keep_container) (use q keep_staging in auto)
  qed (use s1 q in auto)
  from s2 [unfolded CollectOrphanObjects_def] have "Q (fst s2)"
    by (rule keep_container) (use \<open>Q (fst s1)\<close> keep_orphan in auto)
  then show ?thesis unfolding s' by (intro fold_invariant [where Q = Q] keep_sweep)
qed

lemma keep_run: "Q w \<Longrightarrow> GcRun T part options w = Some (w', r) \<Longrightarrow> Q w'"
  using keep_phases [of w] by (auto simp: GcRun_def split: if_splits sum.splits)

end

section \<open>Runs end\<close>

definition few :: "string \<Rightarrow> World \<Rightarrow> bool" where
  "few part w \<longleftrightarrow> length (all_locations (w_loc w) part) < 2147483648"

text \<open>A run adds no object and no location to those of \<open>w0\<close>.\<close>

definition shrunk :: "string \<Rightarrow> World \<Rightarrow> World \<Rightarrow> bool" where
  "shrunk part w0 w \<longleftrightarrow> few part w \<and> blob_inv (w_blob w) \<and>
     (\<forall>c k. blob_at (w_blob w0) c k = None \<longrightarrow> blob_at (w_blob w) c k = None)"

lemma length_all_locations: "length (all_locations s part) = (case map_of (lr_by_id s) part of None \<Rightarrow> 0 | Some b \<Rightarrow> length b)"
  by (auto simp: all_locations_def loc_expected_def loc_matched_def loc_matches_def refs_query_def split: option.split)

lemma few_delete_location:
  assumes "few part w"
  shows "few part (fst (on_loc (\<lambda>s. LocDelete s q i) w))"
proof -
  have e: "length (map_erase i b) \<le> length b" for b :: "(string \<times> FileLocation) list"
    by (simp add: map_erase_def)
  have "length (map_erase i b) < 2147483648" if "length b < 2147483648" for b :: "(string \<times> FileLocation) list"
    using e [of b] that by linarith
  then show ?thesis using assms
    by (auto simp: few_def length_all_locations on_loc_def LocDelete_def LocFindPartition_def split: option.splits)
qed

lemma shrunk_blob_inv: "shrunk part w0 w \<Longrightarrow> blob_inv (w_blob w)"
  by (simp add: shrunk_def)

lemma shrunk_objects: "shrunk part w0 w \<Longrightarrow> blob_at (w_blob w0) c k = None \<Longrightarrow> blob_at (w_blob w) c k = None"
  by (simp add: shrunk_def)

lemma shrunk_blob:
  assumes "shrunk part w0 w" "\<And>s r. f (w_blob w) = (s, r) \<Longrightarrow> blob_inv s"
    and "\<And>s r c k. f (w_blob w) = (s, r) \<Longrightarrow> blob_at (w_blob w) c k = None \<Longrightarrow> blob_at s c k = None"
  shows "shrunk part w0 (fst (on_blob f w))"
proof -
  obtain s r where e: "f (w_blob w) = (s, r)" by fastforce
  then show ?thesis using assms(1) assms(2) [OF e] assms(3) [OF e] by (simp add: shrunk_def few_def on_blob_def)
qed

lemma shrunk_on [simp]: "shrunk part w0 (fst (on_lease g w)) \<longleftrightarrow> shrunk part w0 w" "shrunk part w0 (fst (on_md h w)) \<longleftrightarrow> shrunk part w0 w"
  by (simp_all add: on_defs shrunk_def few_def split: prod.split)

lemma shrunk_loc: "shrunk part w0 w \<Longrightarrow> shrunk part w0 (fst (on_loc (\<lambda>s. LocDelete s q i) w))"
  using few_delete_location [of part w q i] by (simp add: shrunk_def on_loc_def split: prod.splits)

lemma shrunk_remove:
  assumes "shrunk part w0 w"
  shows "shrunk part w0 (fst (on_blob (\<lambda>s. BlobRemove s ref) w))"
proof (rule shrunk_blob [OF assms])
  fix s r c k assume e: "BlobRemove (w_blob w) ref = (s, r)"
  show "blob_inv s" using shrunk_blob_inv [OF assms] e by (rule blob_inv_remove)
  show "blob_at s c k = None" if "blob_at (w_blob w) c k = None"
    using BlobRemove_effect [OF e] that by auto
qed

lemma BlobList_inv: "blob_inv s \<Longrightarrow> BlobList s c p t n = (s', r) \<Longrightarrow> blob_inv s'"
  unfolding BlobList_def by (elim FSS_TRY_ST_E) (auto dest: BeginOp_inv split: if_splits option.splits)

lemma sweep_shrinks:
  assumes "BlobRemoveTempFiles s c t d = (s', r)" "blob_at s c' k = None"
  shows "blob_at s' c' k = None"
proof -
  have f: "map_of (filter P objs) k = None" if "map_of objs k = None" for P and objs :: "(string \<times> BlobObject) list"
    using that by (auto simp: map_of_eq_None_iff)
  from assms(1) show ?thesis unfolding BlobRemoveTempFiles_def
  proof (cases rule: FSS_TRY_ST_E)
    case (go s1 u)
    then show ?thesis using BeginOp_cases [OF go(1)] assms(2) by (auto simp: blob_at_def f split: if_splits option.splits)
  qed (simp add: BeginOp_at assms(2))
qed

lemma shrunk_delete:
  assumes "shrunk part w0 (fst s)"
  shows "shrunk part w0 (fst (DeleteCandidate (mem_gc sha config cfg me) options st ref i del q s))"
proof -
  obtain w report where s: "s = (w, report)" by fastforce
  obtain w1 v where r: "on_blob (\<lambda>s. BlobRemove s ref) w = (w1, v)" by fastforce
  obtain w2 u where d: "on_loc (\<lambda>s. LocDelete s q i) w1 = (w2, u)" by fastforce
  have "shrunk part w0 w1" using assms s r shrunk_remove by (metis fst_conv)
  moreover from this have "shrunk part w0 w2" using shrunk_loc d by (metis fst_conv)
  ultimately show ?thesis using assms s r d by (auto simp: DeleteCandidate_def Let_def split: sum.split)
qed

lemma resolve_lease_world [simp]: "fst (resolve_lease (mem_gc sha config cfg me) part lease w) = w"
  by (auto simp: resolve_lease_def split: option.split sum.split)

interpretation gc_shrinks: gc_frame "mem_gc sha config cfg me" part options "shrunk part w0"
  for sha config cfg me part options w0
proof
  fix w w' r assume "shrunk part w0 w" and r: "ReferencedRefs (mem_gc sha config cfg me) part w = Some (w', r)"
  then have "length (all_locations (w_loc w) part) < 2147483648" by (simp add: shrunk_def few_def)
  then show "shrunk part w0 w'" using ReferencedRefs_all r \<open>shrunk part w0 w\<close> by auto
qed (auto simp: shrunk_delete intro!: shrunk_blob dest: BlobList_at shrunk_blob_inv
      intro: BlobList_inv [OF shrunk_blob_inv] blob_inv_sweep [OF shrunk_blob_inv] sweep_shrinks)

lemma BlobList_token:
  assumes "blob_inv s" "BlobList s c [] t n = (s', Inr page)" "lp_continuation_token page \<noteq> []"
  shows "t < lp_continuation_token page" "blob_at s c (lp_continuation_token page) \<noteq> None"
proof -
  from assms(2) obtain objs where objs: "map_of (bs_containers s) c = Some objs" and n: "0 < n"
    and pg: "page = list_loop [] (nat n) (list_start [] t objs) []"
    unfolding BlobList_def by (auto elim!: FSS_TRY_ST_E dest: BeginOp_cases simp: Ok_def split: if_splits option.splits)
  have wf: "map_wf objs" using blob_inv_bucket assms(1) objs by blast
  let ?m = "remaining [] t objs"
  have m: "takeWhile (\<lambda>q. starts_with [] (fst q)) (list_start [] t objs) = ?m" by (rule list_start_remaining [OF wf]) simp
  have len: "nat n < length ?m" and tok: "lp_continuation_token page = le_key (last (map entry_of (take (nat n) ?m)))"
    using pg assms(3) m unfolding list_loop_eq Let_def by (auto split: if_splits)
  have ne: "take (nat n) ?m \<noteq> []" using len n by auto
  then have "last (take (nat n) ?m) \<in> set ?m" by (meson in_set_takeD last_in_set)
  moreover have key: "lp_continuation_token page = fst (last (take (nat n) ?m))"
    using tok ne by (simp add: last_map entry_of_def)
  ultimately have "(t = [] \<or> t < lp_continuation_token page) \<and> lp_continuation_token page \<in> fst ` set objs"
    by (auto simp: remaining_def)
  then show "t < lp_continuation_token page" "blob_at s c (lp_continuation_token page) \<noteq> None"
    using objs assms(3) by (auto simp: blob_at_def map_of_eq_None_iff neq_Nil_conv)
qed

lemma scan_pages_returns:
  assumes "shrunk part w0 (fst s)" "\<And>e s. shrunk part w0 (fst s) \<Longrightarrow> shrunk part w0 (fst (body e s))"
  shows "\<exists>s'. scan_pages (mem_gc sha config cfg me) st ct body t s = Some s'"
  using assms(1)
proof (induction "card {k. blob_at (w_blob w0) ct k \<noteq> None \<and> t < k}" arbitrary: t s rule: less_induct)
  case less
  let ?T = "mem_gc sha config cfg me"
  have fin: "finite {k. blob_at (w_blob w0) ct k \<noteq> None \<and> P k}" for P
  proof -
    have "blob_at (w_blob w0) ct = (case map_of (bs_containers (w_blob w0)) ct of None \<Rightarrow> Map.empty | Some objs \<Rightarrow> map_of objs)"
      by (auto simp: blob_at_def fun_eq_iff split: option.split)
    then have "finite (dom (blob_at (w_blob w0) ct))" by (simp add: finite_dom_map_of split: option.split)
    then show ?thesis by (rule rev_finite_subset) auto
  qed
  obtain w1 r where g: "gt_list ?T st ct [] t 500 (fst s) = (w1, r)" by fastforce
  have q1: "shrunk part w0 w1" using gc_shrinks.list [OF less.prems] g by (metis fst_conv)
  show ?case
  proof (cases r)
    case (Inl e)
    then show ?thesis using g by (subst scan_pages.simps) simp
  next
    case (Inr page)
    let ?s = "fold body (lp_entries page) (w1, snd s)" and ?t = "lp_continuation_token page"
    have q2: "shrunk part w0 (fst ?s)" by (rule fold_invariant) (use assms(2) q1 in auto)
    show ?thesis
    proof (cases "?t = []")
      case True
      then show ?thesis using g Inr by (subst scan_pages.simps) (simp add: Let_def)
    next
      case False
      have b: "BlobList (w_blob (fst s)) ct [] t 500 = (w_blob w1, Inr page)"
        using g Inr by (auto simp: on_blob_def split: prod.splits)
      note n = BlobList_token [OF shrunk_blob_inv [OF less.prems] b False]
      have "blob_at (w_blob w0) ct ?t \<noteq> None" using n(2) shrunk_objects [OF less.prems, of ct ?t] by metis
      then have "{k. blob_at (w_blob w0) ct k \<noteq> None \<and> ?t < k} \<subset> {k. blob_at (w_blob w0) ct k \<noteq> None \<and> t < k}"
        using n(1) by auto
      from less.hyps [OF psubset_card_mono [OF fin this] q2] show ?thesis
        using g Inr False by (subst scan_pages.simps) (simp add: Let_def)
    qed
  qed
qed

lemma collect_container_returns:
  assumes "shrunk part w0 (fst s)" "\<And>ct m e s. shrunk part w0 (fst s) \<Longrightarrow> shrunk part w0 (fst (body ct m e s))"
  shows "\<exists>s'. collect_container (mem_gc sha config cfg me) part zone st body s = Some s'"
proof -
  obtain w report where s: "s = (w, report)" by fastforce
  have refs: "ReferencedRefs (mem_gc sha config cfg me) part w = Some (w, Ok (fold add_ref (all_locations (w_loc w) part) []))"
    using assms(1) s by (intro ReferencedRefs_all) (simp add: shrunk_def few_def)
  show ?thesis using scan_pages_returns [OF assms(1), of "body ct m" for ct m] assms(2) refs s
    by (auto simp: collect_container_def split: sum.split)
qed

lemma staging_returns:
  "shrunk part w0 (fst s) \<Longrightarrow> \<exists>s'. CollectExpiredStaging (mem_gc sha config cfg me) part options st now s = Some s'"
  unfolding CollectExpiredStaging_def by (rule collect_container_returns) (assumption, rule gc_shrinks.keep_staging)

lemma orphans_return:
  "shrunk part w0 (fst s) \<Longrightarrow> \<exists>s'. CollectOrphanObjects (mem_gc sha config cfg me) part options st now s = Some s'"
  unfolding CollectOrphanObjects_def by (rule collect_container_returns) (assumption, rule gc_shrinks.keep_orphan)

lemma gc_run_returns:
  assumes "blob_inv (w_blob w)" "length (all_locations (w_loc w) part) < 2147483648"
  shows "\<exists>w' r. GcRun (mem_gc sha config cfg me) part options w = Some (w', r)"
proof -
  let ?T = "mem_gc sha config cfg me"
  let ?s = "CollectExpiredLeases ?T part options () () (now_seconds w) (w, empty_GcReport (go_dry_run options))"
  have q: "shrunk part w (fst ?s)" by (rule gc_shrinks.keep_leases) (use assms in \<open>simp add: shrunk_def few_def\<close>)
  obtain s1 where s1: "(if go_require_lease_expiry options then Some ?s
        else CollectExpiredStaging ?T part options () (now_seconds w) ?s) = Some s1" "shrunk part w (fst s1)"
  proof (cases "go_require_lease_expiry options")
    case False
    obtain s1 where s1: "CollectExpiredStaging ?T part options () (now_seconds w) ?s = Some s1"
      using staging_returns [OF q] by blast
    from s1 [unfolded CollectExpiredStaging_def] have "shrunk part w (fst s1)"
      by (rule gc_shrinks.keep_container) (use q gc_shrinks.keep_staging in auto)
    then show ?thesis using that s1 False by simp
  qed (use that q in simp)
  obtain s2 where "CollectOrphanObjects ?T part options () (now_seconds w) s1 = Some s2"
    using orphans_return [OF s1(2)] by blast
  then have "\<exists>s'. gc_phases ?T part options () () w = Some s'"
    using s1(1) by (auto simp: gc_phases_def Let_def)
  then show ?thesis by (auto simp: GcRun_def SingleStoreForPartition_def Ok_def)
qed

text \<open>C16: a run of the collector ends. On a consistent object store and with fewer than
  \<open>2 ^ 31\<close> locations in the partition, \<open>GcRun\<close> returns for all options, although it pages through
  listings that it shrinks while it walks them.\<close>

theorem gc_returns:
  assumes "blob_inv (w_blob w)" "length (all_locations (w_loc w) part) < 2147483648"
  shows "\<exists>w' r. GcRun (mem_gc sha config cfg me) part options w = Some (w', r)"
  by (rule gc_run_returns [OF assms])

theorem gc_returns_witness:
  "\<exists>w' r. GcRun (mem_gc (\<lambda>d. d) dev_partition dev_ports ''gc'') ''p'' default_GcOptions empty_World = Some (w', r)"
  by (rule gc_returns) (simp_all add: empty_World_def blob_inv_empty length_all_locations loc_empty_def)

section \<open>Registered objects survive\<close>

lemma registered_list:
  "registered part l r c k x w \<Longrightarrow> registered part l r c k x (fst (gt_list (mem_gc sha config cfg me) st ct p t n w))"
  by (simp, rule registered_blob) (auto simp: blob_content_def dest: BlobList_at)

lemma few_on [simp]: "few part (fst (on_blob f w)) \<longleftrightarrow> few part w"
  by (simp add: on_blob_def few_def split: prod.split)

lemma kept_container:
  assumes "collect_container (mem_gc sha config cfg me) part zone st body s = Some s'" "registered part l r c k x (fst s)" "few part (fst s)"
    and "ref_key l = Some (PairKey c k)"
    and body: "\<And>ct m e s. registered part l r c k x (fst s) \<Longrightarrow> sound_refs part l c k m \<Longrightarrow> unit_separator \<notin> set ct \<Longrightarrow>
      registered part l r c k x (fst (body ct m e s))"
  shows "registered part l r c k x (fst s')"
proof -
  have refs: "ReferencedRefs (mem_gc sha config cfg me) part (fst s) = Some (fst s, Ok (fold add_ref (all_locations (w_loc (fst s)) part) []))"
    using assms(3) by (intro ReferencedRefs_all) (simp add: few_def)
  from assms(1) show ?thesis
  proof (cases rule: collect_container_cases)
    case (scan ct m w1)
    have "sound_refs part l c k m" using refs_sound_registered [OF assms(2,4)] refs scan(2) by simp
    moreover have "unit_separator \<notin> set ct" using container_clean scan(1) by blast
    ultimately show ?thesis using refs scan(2) assms(2) body registered_list
      by (intro scan_pages_invariant [OF scan(3), where Q = "registered part l r c k x"]) auto
  qed (use assms(2) refs in auto)
qed

lemma kept_sweep:
  assumes "registered part l r c k x (fst s)" "\<not> IsTempKey k"
  shows "registered part l r c k x (fst (sweep_temp (mem_gc sha config cfg me) part options limit target s))"
proof -
  obtain w report where s: "s = (w, report)" by fastforce
  have "\<not> is_temp_key k" using assms(2) by (simp add: IsTempKey_def is_temp_key_def kTempKeyMarker_def)
  then have "registered part l r c k x (fst (on_blob (\<lambda>s. BlobRemoveTempFiles s ct limit (go_dry_run options)) w))" for ct
    using assms(1) s by (intro registered_blob) (auto simp: blob_content_def BlobRemoveTempFiles_at)
  then show ?thesis using assms(1) s
    by (auto simp: sweep_temp_def split: sum.split prod.split) (metis fst_conv)+
qed

lemma registered_run:
  assumes "GcRun (mem_gc sha config cfg me) part options w = Some (w', res)" "registered part l r c k x w" "shrunk part w w"
    and l: "ref_key l = Some (PairKey c k)" "\<not> IsTempKey k" "fl_file_source l \<noteq> []" "unit_separator \<notin> set c"
  shows "registered part l r c k x w'"
proof -
  let ?T = "mem_gc sha config cfg me"
  let ?s = "CollectExpiredLeases ?T part options () () (now_seconds w) (w, empty_GcReport (go_dry_run options))"
  have phases: "registered part l r c k x (fst s')" if "gc_phases ?T part options () () w = Some s'" for s'
  proof -
    have n: "p_NowEpochSeconds (gt_ports ?T) w = now_seconds w" by simp
    from that obtain s1 s2 where s1: "(if go_require_lease_expiry options then Some ?s
          else CollectExpiredStaging ?T part options () (now_seconds w) ?s) = Some s1"
      and s2: "CollectOrphanObjects ?T part options () (now_seconds w) s1 = Some s2"
      and s': "s' = fold (sweep_temp ?T part options (now_seconds w - go_staging_ttl_hours options * 3600)) [((), kStaging), ((), kPersistent)] s2"
      by (rule gc_phases_E [of ?T part options "()" "()" w, unfolded n])
    have q: "registered part l r c k x (fst ?s)" by (rule registered_leases [OF assms(2) l(3)])
    have f: "shrunk part w (fst ?s)" by (rule gc_shrinks.keep_leases) (simp add: assms(3))
    have "registered part l r c k x (fst s1) \<and> shrunk part w (fst s1)"
    proof (cases "go_require_lease_expiry options")
      case False
      then have e: "CollectExpiredStaging ?T part options () (now_seconds w) ?s = Some s1" using s1 by simp
      note e' = e [unfolded CollectExpiredStaging_def]
      have "shrunk part w (fst s1)" using e' by (rule gc_shrinks.keep_container) (use f gc_shrinks.keep_staging in auto)
      moreover have "registered part l r c k x (fst (staging_entry ?T options () part ct m limit e t))"
        if "registered part l r c k x (fst t)" "sound_refs part l c k m" "unit_separator \<notin> set ct" for ct m limit e t
        using registered_staging_entry [OF that(1,2) l(2,3,4) that(3), of sha config cfg me options "()" limit e "snd t"] by simp
      then have "registered part l r c k x (fst s1)"
        by (intro kept_container [OF e' q _ l(1)]) (use f in \<open>auto simp: shrunk_def\<close>)
      ultimately show ?thesis by simp
    qed (use s1 q f in auto)
    then have q1: "registered part l r c k x (fst s1)" and f1: "few part (fst s1)" by (auto simp: shrunk_def)
    have "registered part l r c k x (fst (orphan_entry ?T options () part ct m limit e t))"
      if "registered part l r c k x (fst t)" "sound_refs part l c k m" for ct m limit e t
      using registered_orphan_entry [OF that l(2), of sha config cfg me options "()" ct limit e "snd t"] by simp
    then have "registered part l r c k x (fst s2)"
      by (intro kept_container [OF s2 [unfolded CollectOrphanObjects_def] q1 f1 l(1)]) auto
    then show ?thesis unfolding s' by (intro fold_invariant [where Q = "registered part l r c k x"] kept_sweep l(2))
  qed
  then show ?thesis using assms(1,2) by (auto simp: GcRun_def split: if_splits sum.splits)
qed

text \<open>C15: the collector never deletes what is registered. Let a location of the
  partition have a visible metadata record for its file source, and let it be the only location that
  points to its object. Then no run, whatever its options, its leases and the age of the objects,
  removes the object or changes its content, and the location and the record are still found.\<close>

theorem gc_keeps_registered:
  assumes "GcRun (mem_gc sha config cfg me) part options w = Some (w', res)"
    and "md_inv (w_md w)" "loc_inv (w_loc w)" "blob_inv (w_blob w)" "length (all_locations (w_loc w) part) < 2147483648"
    and "LocFind (w_loc w) part (fl_file_id l) = Ok l" "fl_file_source l \<noteq> []"
    and "MdGetLatestByFileSource (w_md w) part (fl_file_source l) = Ok r"
    and "ObjectRefFromLocation l = Ok ref" "\<not> IsTempKey (or_key ref)" "unit_separator \<notin> set (or_container ref)"
    and "\<forall>i l'. LocFind (w_loc w) part i = Ok l' \<and> ref_key l' = ref_key l \<longrightarrow> l' = l"
  shows "blob_content (w_blob w') (or_container ref) (or_key ref) = blob_content (w_blob w) (or_container ref) (or_key ref) \<and>
    LocFind (w_loc w') part (fl_file_id l) = Ok l \<and> MdGetLatestByFileSource (w_md w') part (fl_file_source l) = Ok r"
proof -
  note k = ref_key_of_ref [OF assms(9)]
  have "loc_at (w_loc w) part (fl_file_id l) = Some l" using assms(6) by simp
  moreover have "\<forall>i l'. loc_at (w_loc w) part i = Some l' \<and> ref_key l' = Some (PairKey (or_container ref) (or_key ref)) \<longrightarrow> l' = l"
    using assms(12) k by (metis LocFind_Ok)
  ultimately have "registered part l r (or_container ref) (or_key ref) (blob_content (w_blob w) (or_container ref) (or_key ref)) w"
    unfolding registered_def using assms(2,3,8) by blast
  moreover have "shrunk part w w" using assms(4,5) by (simp add: shrunk_def few_def)
  ultimately have "registered part l r (or_container ref) (or_key ref) (blob_content (w_blob w) (or_container ref) (or_key ref)) w'"
    by (intro registered_run [OF assms(1) _ _ k assms(10,7,11)])
  then show ?thesis unfolding registered_def LocFind_Ok by blast
qed

definition collected_world :: World where
  "collected_world = staged_world\<lparr>w_md := sample_md\<rparr>"

lemma staged_only: "LocFind (w_loc staged_world) ''p'' i = Ok l' \<Longrightarrow> l' = staged_location"
proof -
  have "map_of (lr_by_id (w_loc staged_world)) ''p'' = Some [(''a'', staged_location)]" by code_simp
  then show "LocFind (w_loc staged_world) ''p'' i = Ok l' \<Longrightarrow> l' = staged_location"
    by (auto simp: loc_at_def split: if_splits)
qed

lemma staged_counts:
  "blob_inv (w_blob staged_world)" "length (all_locations (w_loc staged_world) ''p'') < 2147483648"
proof -
  have "map_of (lr_by_id (w_loc staged_world)) ''p'' = Some [(''a'', staged_location)]" by code_simp
  then show "length (all_locations (w_loc staged_world) ''p'') < 2147483648" by (simp add: length_all_locations)
qed (simp add: staged_world_def blob_inv_def blob_empty_def map_wf_def)

text \<open>The file is registered, its object is older than every limit, and the run deletes.\<close>

theorem gc_keeps_registered_witness:
  "\<exists>w' res. GcRun (mem_gc (\<lambda>d. d) dev_partition dev_ports ''gc'') ''p'' (default_GcOptions\<lparr>go_dry_run := False, go_require_lease_expiry := False\<rparr>)
       collected_world = Some (w', res) \<and>
     blob_content (w_blob w') ''s'' ''u/f'' = Some (bo_data tiny_object)"
proof -
  let ?o = "default_GcOptions\<lparr>go_dry_run := False, go_require_lease_expiry := False\<rparr>"
  have w: "w_loc collected_world = w_loc staged_world" "w_blob collected_world = w_blob staged_world" "w_md collected_world = sample_md"
    by (simp_all add: collected_world_def)
  have b: "blob_inv (w_blob collected_world)" and n: "length (all_locations (w_loc collected_world) ''p'') < 2147483648"
    unfolding w by (fact staged_counts)+
  obtain w' res where run: "GcRun (mem_gc (\<lambda>d. d) dev_partition dev_ports ''gc'') ''p'' ?o collected_world = Some (w', res)"
    using gc_run_returns [OF b n] by blast
  have f: "LocFind (w_loc collected_world) ''p'' (fl_file_id staged_location) = Ok staged_location" unfolding w by code_simp
  have z: "fl_file_source staged_location \<noteq> []" "\<not> IsTempKey ''u/f''" "unit_separator \<notin> set ''s''" by code_simp+
  have m: "MdGetLatestByFileSource (w_md collected_world) ''p'' (fl_file_source staged_location) = Ok (sample_record\<lparr>fm_version := 2\<rparr>)"
    unfolding w by code_simp
  have u: "\<forall>i l'. LocFind (w_loc collected_world) ''p'' i = Ok l' \<and> ref_key l' = ref_key staged_location \<longrightarrow> l' = staged_location"
    unfolding w using staged_only by blast
  have "blob_content (w_blob w') ''s'' ''u/f'' = blob_content (w_blob staged_world) ''s'' ''u/f''"
    using gc_keeps_registered [OF run _ _ b n f z(1) m staged_facts(3) _ _ u] z(2,3) staged_facts(1)
      md_reachable_inv [OF sample_md_reachable] w by simp
  then show ?thesis using run staged_facts(4) by (auto simp: blob_content_def)
qed

section \<open>Dry runs\<close>

definition frozen :: "GcOptions \<Rightarrow> string \<Rightarrow> World \<Rightarrow> World \<Rightarrow> bool" where
  "frozen options part w0 w \<longleftrightarrow> go_dry_run options \<longrightarrow>
     few part w \<and> w_loc w = w_loc w0 \<and> blob_at (w_blob w) = blob_at (w_blob w0)"

lemma frozen_on [simp]:
  "frozen options part w0 (fst (on_lease g w)) \<longleftrightarrow> frozen options part w0 w"
  "frozen options part w0 (fst (on_md h w)) \<longleftrightarrow> frozen options part w0 w"
  by (simp_all add: on_defs frozen_def few_def split: prod.split)

lemma dry_sweep: "BlobRemoveTempFiles s c t True = (s', r) \<Longrightarrow> blob_at s' = blob_at s"
  unfolding BlobRemoveTempFiles_def by (elim FSS_TRY_ST_E) (auto dest: BeginOp_at split: option.splits)

lemma frozen_delete:
  "frozen options part w0 (fst s) \<Longrightarrow> frozen options part w0 (fst (DeleteCandidate T options st ref i del q s))"
  by (cases s) (simp add: frozen_def DeleteCandidate_def Let_def)

lemma frozen_blob:
  assumes "frozen options part w0 w" "\<And>s r. go_dry_run options \<Longrightarrow> f (w_blob w) = (s, r) \<Longrightarrow> blob_at s = blob_at (w_blob w)"
  shows "frozen options part w0 (fst (on_blob f w))"
  using assms by (auto simp: frozen_def few_def on_blob_def split: prod.split)

interpretation gc_freezes: gc_frame "mem_gc sha config cfg me" part options "frozen options part w0"
  for sha config cfg me part options w0
proof
  fix w w' r assume f: "frozen options part w0 w" and r: "ReferencedRefs (mem_gc sha config cfg me) part w = Some (w', r)"
  show "frozen options part w0 w'"
  proof (cases "go_dry_run options")
    case True
    then have "length (all_locations (w_loc w) part) < 2147483648" using f unfolding frozen_def few_def by blast
    then show ?thesis using ReferencedRefs_all r f by auto
  qed (simp add: frozen_def)
qed (auto simp: frozen_delete intro!: frozen_blob dest: BlobList_at dry_sweep)

text \<open>A dry run, the default, removes no object and no location: every object, with its
  content and attributes, and every location are as before.\<close>

theorem gc_dry_run:
  assumes "GcRun (mem_gc sha config cfg me) part options w = Some (w', res)" "go_dry_run options"
    and "length (all_locations (w_loc w) part) < 2147483648"
  shows "w_loc w' = w_loc w \<and> blob_at (w_blob w') = blob_at (w_blob w)"
proof -
  have "frozen options part w w" using assms(3) by (simp add: frozen_def few_def)
  then have "frozen options part w w'" using gc_freezes.keep_run assms(1) by blast
  then show ?thesis using assms(2) by (simp add: frozen_def)
qed

text \<open>An upload whose lease ran out, with the claim of a registration that never finished.\<close>

definition abandoned_world :: World where
  "abandoned_world = staged_world\<lparr>w_lease := fst (LeaseAcquire 0 [] ''p'' ''/u/f'' ''i-0'' 1000),
     w_md := fst (MdClaimForWrite 5 md_empty ''p'' sample_record)\<rparr>"

lemma abandoned_claim:
  "map_option (map LeaseKeyOf) (case snd (LeaseClaimExpired 1700000000000 (w_lease abandoned_world) ''p'' 100 ''gc'') of Inl _ \<Rightarrow> None | Inr x \<Rightarrow> Some x) =
     Some [''/u/f'']"
  by code_simp

lemma abandoned_reclaim:
  "(case MdReclaimStaleClaiming (w_md abandoned_world) ''p'' 1699999940 100 [''/u/f''] of (s, r) \<Rightarrow>
     (FindChain s ''p'' (fm_id sample_record), r)) = (None, Ok 1)"
  by code_simp

lemma abandoned_chain: "FindChain (w_md abandoned_world) ''p'' (fm_id sample_record) \<noteq> None"
  by code_simp

lemma DeleteCandidate_md: "w_md (fst (DeleteCandidate (mem_gc sha config cfg me) options st ref i del part s)) = w_md (fst s)"
  by (cases s) (auto simp: DeleteCandidate_def Let_def on_blob_def on_loc_def split: prod.split sum.split)

lemma collect_lease_md: "w_md (fst (collect_lease (mem_gc sha config cfg me) part options st st' lease s)) = w_md (fst s)"
proof -
  obtain w report where s: "s = (w, report)" by fastforce
  obtain l where l: "resolve_lease (mem_gc sha config cfg me) part lease w = (w, l)"
    by (metis resolve_lease_world prod.collapse)
  show ?thesis
  proof (cases l)
    case None
    then show ?thesis using s l by (simp add: collect_lease_def)
  next
    case (Some loc)
    obtain b where "HasMetadataRecord (mem_gc sha config cfg me) part (fl_file_source loc) w = (w, b)"
      by (metis HasMetadataRecord_world prod.collapse)
    then show ?thesis using s l Some by (auto simp: collect_lease_def DeleteCandidate_md split: sum.split)
  qed
qed

text \<open>What a dry run does change: the claim of the unfinished registration is gone afterwards, although
  the option is documented to delete nothing.\<close>

lemma dry_run_reclaims:
  assumes "CollectExpiredLeases (mem_gc (\<lambda>d. d) dev_partition dev_ports ''gc'') ''p'' default_GcOptions () () 1700000000
             (abandoned_world, empty_GcReport True) = (w', report)"
  shows "go_dry_run default_GcOptions" "FindChain (w_md abandoned_world) ''p'' (fm_id sample_record) \<noteq> None"
    "FindChain (w_md w') ''p'' (fm_id sample_record) = None"
proof -
  let ?T = "mem_gc (\<lambda>d. d) dev_partition dev_ports ''gc''"
  let ?w = abandoned_world
  have now: "now_millis ?w = 1700000000000"
    by (simp add: abandoned_world_def staged_world_def empty_World_def now_millis_def ClockNowEpochMillis_def)
  obtain s1 ls where c: "LeaseClaimExpired 1700000000000 (w_lease ?w) ''p'' 100 ''gc'' = (s1, Ok ls)" "map LeaseKeyOf ls = [''/u/f'']"
    using abandoned_claim by (cases "LeaseClaimExpired 1700000000000 (w_lease ?w) ''p'' 100 ''gc''") (auto simp: Ok_def split: sum.splits)
  obtain s2 where m: "MdReclaimStaleClaiming (w_md ?w) ''p'' 1699999940 100 [''/u/f''] = (s2, Ok 1)"
      "FindChain s2 ''p'' (fm_id sample_record) = None"
    using abandoned_reclaim by (auto split: prod.splits)
  let ?s = "reclaim_claims ?T ''p'' default_GcOptions 1700000000 ls (?w\<lparr>w_lease := s1\<rparr>, (empty_GcReport True)\<lparr>gr_expired_leases_claimed := int (length ls)\<rparr>)"
  have "w_md (fst ?s) = s2"
    using c(2) m(1) by (auto simp: reclaim_claims_def on_md_def default_GcOptions_def)
  moreover have "w_md (fst (fold (collect_lease ?T ''p'' default_GcOptions () ()) ls t)) = w_md (fst t)" for t
    using fold_invariant [where Q = "\<lambda>x. w_md x = w_md (fst t)"] collect_lease_md by metis
  moreover have "(w', report) = fold (collect_lease ?T ''p'' default_GcOptions () ()) ls ?s"
    using assms c(1) now by (simp add: CollectExpiredLeases_def on_lease_def default_GcOptions_def)
  ultimately show "FindChain (w_md w') ''p'' (fm_id sample_record) = None" using m(2) by (metis fst_conv)
qed (simp_all add: default_GcOptions_def abandoned_chain)

text \<open>The object is old enough to be collected; the dry run leaves it.\<close>

theorem gc_dry_run_witness:
  "\<exists>w' res. GcRun (mem_gc (\<lambda>d. d) dev_partition dev_ports ''gc'') ''p'' default_GcOptions abandoned_world = Some (w', res) \<and>
     blob_at (w_blob w') ''s'' ''u/f'' = Some tiny_object"
proof -
  have w: "w_loc abandoned_world = w_loc staged_world" "w_blob abandoned_world = w_blob staged_world"
    by (simp_all add: abandoned_world_def)
  obtain w' res where run: "GcRun (mem_gc (\<lambda>d. d) dev_partition dev_ports ''gc'') ''p'' default_GcOptions abandoned_world = Some (w', res)"
    using gc_run_returns [of abandoned_world "''p''"] staged_counts unfolding w by blast
  then show ?thesis
    using gc_dry_run [OF run] staged_counts(2) staged_facts(4) w by (simp add: default_GcOptions_def)
qed

end
