(* ===== verification/Jwt_Authorizer.thy ===== *)
theory Jwt_Authorizer
  imports Transfer_Token
begin

text \<open>
  \<^verbatim>\<open>infra/auth/local/local_jwt_authorizer\<close>: verification of HS256 tokens, roles and the binding of a
  token to its tenant. HMAC-SHA256 and the JSON parser are arguments, as for the transfer tokens; the
  clock reading is an argument.
\<close>

section \<open>Strings\<close>

definition kMissingToken :: string where
  "kMissingToken = ''Missing authorization token''"

definition StripBearer :: "string \<Rightarrow> string" where
  "StripBearer v = (if length v \<ge> 7 \<and> map tolower (take 7 v) = ''bearer '' then drop 7 v else v)"

definition TrimSpace :: "string \<Rightarrow> string" where
  "TrimSpace v = rev (dropWhile isspace (rev (dropWhile isspace v)))"

section \<open>Claims\<close>

text \<open>The conversion of a \<^verbatim>\<open>double\<close> to a 64-bit integer truncates; what is outside the range, infinities
  and NaN included, has no defined result in C++, and gives the smallest integer on x86-64.\<close>

definition f64_exponent :: "64 word \<Rightarrow> nat" where
  "f64_exponent b = unat (drop_bit 52 b) mod 2048"

definition f64_magnitude :: "64 word \<Rightarrow> nat" where
  "f64_magnitude b =
     (let e = f64_exponent b; f = unat b mod 2 ^ 52; m = (if e = 0 then f else f + 2 ^ 52) in
      if e \<ge> 1075 then m * 2 ^ (e - 1075) else m div 2 ^ (1075 - e))"

definition double_to_int64 :: "64 word \<Rightarrow> int" where
  "double_to_int64 b =
     (let n = (if unat b \<ge> 2 ^ 63 then - int (f64_magnitude b) else int (f64_magnitude b)) in
      if f64_exponent b < 2047 \<and> in_i64 n then n else - 9223372036854775808)"

definition NumberClaim :: "json \<Rightarrow> string \<Rightarrow> int option" where
  "NumberClaim payload name =
     (case jfind payload name of
        None \<Rightarrow> None
      | Some v \<Rightarrow>
          if is_number_integer v then Some (get_int64 v)
          else (case v of JFloat b \<Rightarrow> Some (double_to_int64 b) | _ \<Rightarrow> None))"

definition StringClaim :: "json \<Rightarrow> string \<Rightarrow> string option" where
  "StringClaim payload name = (case jfind payload name of Some (JString s) \<Rightarrow> Some s | _ \<Rightarrow> None)"

definition value_or_empty :: "string option \<Rightarrow> string" where
  "value_or_empty v = (case v of None \<Rightarrow> [] | Some s \<Rightarrow> s)"

fun strings_of :: "json list \<Rightarrow> string list" where
  "strings_of [] = []"
| "strings_of (JString s # vs) = s # strings_of vs"
| "strings_of (v # vs) = strings_of vs"

definition AudienceMatches :: "json \<Rightarrow> string \<Rightarrow> bool" where
  "AudienceMatches payload expected =
     (case jfind payload ''aud'' of
        Some (JString s) \<Rightarrow> s = expected
      | Some (JArray vs) \<Rightarrow> expected \<in> set (strings_of vs)
      | _ \<Rightarrow> False)"

definition RolesFromClaim :: "json \<Rightarrow> string \<Rightarrow> string list" where
  "RolesFromClaim payload claim =
     (case jfind payload claim of
        Some (JArray vs) \<Rightarrow> strings_of vs
      | Some (JString raw) \<Rightarrow>
          if raw = [] then [] else filter (\<lambda>piece. piece \<noteq> []) (map TrimSpace (split_on (CHR '','') raw))
      | _ \<Rightarrow> [])"

definition Contains :: "string list \<Rightarrow> string \<Rightarrow> bool" where
  "Contains values needle \<longleftrightarrow> needle \<in> set values"

section \<open>The authorizer\<close>

record LocalJwtOptions =
  jo_hmac_secret :: string
  jo_issuer :: string
  jo_audience :: string
  jo_verify_signature :: bool
  jo_roles_claim :: string
  jo_user_id_claim :: string
  jo_partition_claim :: string
  jo_require_partition_claim :: bool
  jo_local_roles :: "(string \<times> string list) list"
  jo_clock_skew_seconds :: int

definition default_LocalJwtOptions :: LocalJwtOptions where
  "default_LocalJwtOptions =
     \<lparr>jo_hmac_secret = [], jo_issuer = [], jo_audience = [], jo_verify_signature = True, jo_roles_claim = ''roles'',
      jo_user_id_claim = ''email'', jo_partition_claim = ''data-partition-id'', jo_require_partition_claim = True,
      jo_local_roles = [], jo_clock_skew_seconds = 5\<rparr>"

record JwtClaims =
  jc_subject :: string
  jc_user_id :: string
  jc_partition :: string
  jc_roles :: "string list"
  jc_expires_at :: int
  jc_issued_at :: int

definition JwtReady :: "LocalJwtOptions \<Rightarrow> bool" where
  "JwtReady opt \<longleftrightarrow> \<not> jo_verify_signature opt \<or> jo_hmac_secret opt \<noteq> []"

definition NotReadyReason :: "LocalJwtOptions \<Rightarrow> string" where
  "NotReadyReason opt =
     (if jo_verify_signature opt \<and> jo_hmac_secret opt = []
      then msg_jwt_not_ready
      else [])"

text \<open>The three segments between the dots.\<close>

definition jwt_segments :: "string \<Rightarrow> (string \<times> string \<times> string) Result" where
  "jwt_segments token =
     (let dot = CHR ''.''; rest = after_first dot token; signature = after_first dot rest in
      if dot \<notin> set token \<or> dot \<notin> set rest \<or> dot \<in> set signature
      then Unauthenticated msg_jwt_three_parts
      else if before_first dot token = [] \<or> before_first dot rest = [] \<or> signature = []
      then Unauthenticated msg_jwt_empty_part
      else Ok (before_first dot token, before_first dot rest, signature))"

definition jwt_parse :: "Primitives \<Rightarrow> string \<Rightarrow> string \<Rightarrow> (json \<times> json) Result" where
  "jwt_parse pr header_b64 payload_b64 =
     (case (Base64UrlDecode header_b64, Base64UrlDecode payload_b64) of
        (Some header_bytes, Some payload_bytes) \<Rightarrow>
          (case (pr_json_parse pr header_bytes, pr_json_parse pr payload_bytes) of
             (Inr header, Inr payload) \<Rightarrow>
               if is_object header \<and> is_object payload then Ok (header, payload)
               else Unauthenticated msg_jwt_bad_json
           | _ \<Rightarrow> Unauthenticated msg_jwt_bad_json)
      | _ \<Rightarrow> Unauthenticated msg_jwt_bad_base64)"

definition check_algorithm :: "json \<Rightarrow> unit Result" where
  "check_algorithm header =
     (let algorithm = value_or_empty (StringClaim header ''alg'') in
      if algorithm \<noteq> ''HS256''
      then Unauthenticated (msg_jwt_algorithm @
             (if algorithm = [] then msg_missing_marker else algorithm))
      else Ok ())"

definition check_signature :: "Primitives \<Rightarrow> LocalJwtOptions \<Rightarrow> string \<Rightarrow> string \<Rightarrow> unit Result" where
  "check_signature pr opt signing_input signature_b64 =
     (if \<not> jo_verify_signature opt then Ok ()
      else (case Base64UrlDecode signature_b64 of
              None \<Rightarrow> Unauthenticated msg_jwt_sig_base64
            | Some signature \<Rightarrow>
                let expected = pr_HmacSha256 pr (jo_hmac_secret opt) signing_input in
                if length signature \<noteq> length expected
                then Unauthenticated msg_jwt_sig_length
                else if \<not> ConstantTimeEquals expected signature then Unauthenticated msg_jwt_sig_wrong
                else Ok ()))"

text \<open>The sums with the tolerated clock skew are 64-bit additions.\<close>

definition check_times :: "LocalJwtOptions \<Rightarrow> int \<Rightarrow> json \<Rightarrow> int Result" where
  "check_times opt now payload =
     (case NumberClaim payload ''exp'' of
        None \<Rightarrow> Unauthenticated msg_jwt_no_exp
      | Some expires \<Rightarrow>
          if now > wrap_i64 (expires + jo_clock_skew_seconds opt) then Unauthenticated msg_jwt_expired
          else (case NumberClaim payload ''nbf'' of
                  Some not_before \<Rightarrow>
                    if wrap_i64 (now + jo_clock_skew_seconds opt) < not_before
                    then Unauthenticated msg_jwt_nbf else Ok expires
                | None \<Rightarrow> Ok expires))"

definition check_parties :: "LocalJwtOptions \<Rightarrow> json \<Rightarrow> unit Result" where
  "check_parties opt payload =
     (if jo_issuer opt \<noteq> [] \<and> value_or_empty (StringClaim payload ''iss'') \<noteq> jo_issuer opt
      then Unauthenticated msg_jwt_iss
      else if jo_audience opt \<noteq> [] \<and> \<not> AudienceMatches payload (jo_audience opt)
      then Unauthenticated msg_jwt_aud
      else Ok ())"

definition add_role :: "string \<Rightarrow> string list \<Rightarrow> string list" where
  "add_role role roles = (if \<not> Contains roles role then roles @ [role] else roles)"

definition jwt_claims :: "LocalJwtOptions \<Rightarrow> json \<Rightarrow> int \<Rightarrow> JwtClaims" where
  "jwt_claims opt payload expires =
     (let user_id = value_or_empty (StringClaim payload (jo_user_id_claim opt));
          roles = RolesFromClaim payload (jo_roles_claim opt) in
      \<lparr>jc_subject = value_or_empty (StringClaim payload ''sub''), jc_user_id = user_id,
       jc_partition = value_or_empty (StringClaim payload (jo_partition_claim opt)),
       jc_roles = (if user_id = [] then roles
                   else (case map_of (jo_local_roles opt) user_id of
                           None \<Rightarrow> roles | Some extra \<Rightarrow> fold add_role extra roles)),
       jc_expires_at = expires,
       jc_issued_at = (case NumberClaim payload ''iat'' of None \<Rightarrow> 0 | Some n \<Rightarrow> n)\<rparr>)"

definition check_tenant :: "LocalJwtOptions \<Rightarrow> string \<Rightarrow> JwtClaims \<Rightarrow> unit Result" where
  "check_tenant opt request_partition claims =
     (if jo_require_partition_claim opt \<and> request_partition \<noteq> [] then
        if jc_partition claims = []
        then Unauthenticated (''JWT '' @ msg_jwt_lacks @ jo_partition_claim opt @ msg_jwt_tenant_claim)
        else if jc_partition claims \<noteq> request_partition
        then Err kPermissionDenied (''JWT '' @ msg_of @ jo_partition_claim opt @ msg_jwt_tenant_differs)
        else Ok ()
      else Ok ())"

definition JwtVerify :: "Primitives \<Rightarrow> LocalJwtOptions \<Rightarrow> int \<Rightarrow> string \<Rightarrow> string \<Rightarrow> JwtClaims Result" where
  "JwtVerify pr opt now bearer_token request_partition =
     (let token = TrimSpace (StripBearer bearer_token) in
      if token = [] then Unauthenticated kMissingToken
      else if jo_verify_signature opt \<and> jo_hmac_secret opt = []
      then Unauthenticated msg_jwt_no_secret
      else
        FSS_TRY (jwt_segments token) (\<lambda>(header_b64, payload_b64, signature_b64).
        FSS_TRY (jwt_parse pr header_b64 payload_b64) (\<lambda>(header, payload).
        FSS_TRY (check_algorithm header) (\<lambda>_.
        FSS_TRY (check_signature pr opt (header_b64 @ ''.'' @ payload_b64) signature_b64) (\<lambda>_.
        FSS_TRY (check_times opt now payload) (\<lambda>expires.
        FSS_TRY (check_parties opt payload) (\<lambda>_.
        let claims = jwt_claims opt payload expires in
        FSS_TRY (check_tenant opt request_partition claims) (\<lambda>_. Ok claims))))))))"

definition JwtAuthorize :: "Primitives \<Rightarrow> LocalJwtOptions \<Rightarrow> int \<Rightarrow> string \<Rightarrow> string \<Rightarrow> string \<Rightarrow> unit Result" where
  "JwtAuthorize pr opt now required_role part bearer_token =
     FSS_TRY (JwtVerify pr opt now bearer_token part) (\<lambda>claims.
       if \<not> Contains (jc_roles claims) required_role
       then Err kPermissionDenied (msg_lacks_role @ required_role)
       else Ok ())"

definition join_roles :: "string list \<Rightarrow> string" where
  "join_roles roles = fold (\<lambda>role wanted. (if wanted \<noteq> [] then wanted @ '', '' else wanted) @ role) roles []"

definition JwtAuthorizeAny :: "Primitives \<Rightarrow> LocalJwtOptions \<Rightarrow> int \<Rightarrow> string list \<Rightarrow> string \<Rightarrow> string \<Rightarrow> unit Result" where
  "JwtAuthorizeAny pr opt now required_roles part bearer_token =
     (if required_roles = [] then Err kInternal msg_authorize_any_empty
      else FSS_TRY (JwtVerify pr opt now bearer_token part) (\<lambda>claims.
             if list_ex (Contains (jc_roles claims)) required_roles then Ok ()
             else Err kPermissionDenied (msg_lacks_any_role @ join_roles required_roles)))"

section \<open>What is accepted\<close>

lemma set_add_roles [simp]: "set (fold add_role extra roles) = set roles \<union> set extra"
  by (induction extra arbitrary: roles) (auto simp: add_role_def Contains_def)

lemma jwt_segments_iff:
  "jwt_segments token = Ok (h, p, s) \<longleftrightarrow>
     token = h @ ''.'' @ p @ ''.'' @ s \<and> CHR ''.'' \<notin> set h \<union> set p \<union> set s \<and> h \<noteq> [] \<and> p \<noteq> [] \<and> s \<noteq> []"
proof
  assume a: "jwt_segments token = Ok (h, p, s)"
  let ?dot = "CHR ''.''"
  let ?rest = "after_first ?dot token"
  have c: "?dot \<in> set token" "?dot \<in> set ?rest" "?dot \<notin> set s" "h = before_first ?dot token" "p = before_first ?dot ?rest"
    "s = after_first ?dot ?rest" "h \<noteq> []" "p \<noteq> []" "s \<noteq> []"
    using a by (auto simp: jwt_segments_def Let_def Unauthenticated_def split: if_splits)
  have "token = h @ ?dot # ?rest" using first_sep_split [OF c(1)] unfolding c(4) by (rule sym)
  moreover have "?rest = p @ ?dot # s" using first_sep_split [OF c(2)] unfolding c(5,6) by (rule sym)
  ultimately have t: "token = h @ ''.'' @ p @ ''.'' @ s" by (metis append_Cons append_Nil)
  have "?dot \<notin> set h" "?dot \<notin> set p" unfolding c(4,5) before_first_def by (auto dest: set_takeWhileD)
  with t show "token = h @ ''.'' @ p @ ''.'' @ s \<and> ?dot \<notin> set h \<union> set p \<union> set s \<and> h \<noteq> [] \<and> p \<noteq> [] \<and> s \<noteq> []"
    using c(3,7-9) by blast
next
  assume "token = h @ ''.'' @ p @ ''.'' @ s \<and> CHR ''.'' \<notin> set h \<union> set p \<union> set s \<and> h \<noteq> [] \<and> p \<noteq> [] \<and> s \<noteq> []"
  then show "jwt_segments token = Ok (h, p, s)"
    by (simp add: jwt_segments_def Let_def before_first_append after_first_append)
qed

lemma jwt_parse_iff:
  "jwt_parse pr h p = Ok (header, payload) \<longleftrightarrow>
     (\<exists>hb pb. Base64UrlDecode h = Some hb \<and> Base64UrlDecode p = Some pb \<and> pr_json_parse pr hb = Ok header \<and>
        pr_json_parse pr pb = Ok payload \<and> is_object header \<and> is_object payload)"
  by (auto simp: jwt_parse_def Unauthenticated_def Ok_def [symmetric] split: option.splits sum.splits if_splits)

lemma value_or_empty_iff: "s \<noteq> [] \<Longrightarrow> value_or_empty v = s \<longleftrightarrow> v = Some s"
  by (auto simp: value_or_empty_def split: option.split)

lemma check_algorithm_iff: "check_algorithm header = Ok () \<longleftrightarrow> StringClaim header ''alg'' = Some ''HS256''"
  using value_or_empty_iff [of "''HS256''" "StringClaim header ''alg''"] by (auto simp: check_algorithm_def Let_def Unauthenticated_def)

lemma check_signature_iff:
  "jo_verify_signature opt \<Longrightarrow>
   check_signature pr opt input s = Ok () \<longleftrightarrow> Base64UrlDecode s = Some (pr_HmacSha256 pr (jo_hmac_secret opt) input)"
  by (auto simp: check_signature_def Let_def Unauthenticated_def ConstantTimeEquals_iff split: option.splits)

lemma check_times_iff:
  "check_times opt now payload = Ok e \<longleftrightarrow>
     NumberClaim payload ''exp'' = Some e \<and> now \<le> wrap_i64 (e + jo_clock_skew_seconds opt) \<and>
     (\<forall>n. NumberClaim payload ''nbf'' = Some n \<longrightarrow> n \<le> wrap_i64 (now + jo_clock_skew_seconds opt))"
  by (auto simp: check_times_def Unauthenticated_def split: option.splits)

lemma check_parties_iff:
  "check_parties opt payload = Ok () \<longleftrightarrow>
     (jo_issuer opt \<noteq> [] \<longrightarrow> StringClaim payload ''iss'' = Some (jo_issuer opt)) \<and>
     (jo_audience opt \<noteq> [] \<longrightarrow> AudienceMatches payload (jo_audience opt))"
  using value_or_empty_iff [of "jo_issuer opt" "StringClaim payload ''iss''"]
  by (auto simp: check_parties_def Unauthenticated_def)

lemma check_tenant_iff:
  "check_tenant opt part claims = Ok () \<longleftrightarrow> (jo_require_partition_claim opt \<and> part \<noteq> [] \<longrightarrow> jc_partition claims = part)"
  by (auto simp: check_tenant_def Unauthenticated_def)

text \<open>Who has a role: the token lists it, or the static table gives it to the token's user.\<close>

definition has_role :: "LocalJwtOptions \<Rightarrow> json \<Rightarrow> string \<Rightarrow> bool" where
  "has_role opt payload role \<longleftrightarrow>
     role \<in> set (RolesFromClaim payload (jo_roles_claim opt)) \<or>
     (\<exists>user extra. StringClaim payload (jo_user_id_claim opt) = Some user \<and> user \<noteq> [] \<and>
        map_of (jo_local_roles opt) user = Some extra \<and> role \<in> set extra)"

lemma jwt_claims_roles: "role \<in> set (jc_roles (jwt_claims opt payload e)) \<longleftrightarrow> has_role opt payload role"
  by (auto simp: jwt_claims_def Let_def has_role_def value_or_empty_def split: option.splits)

text \<open>A token that this instance's secret signed, and one that is valid now for the tenant of the request.\<close>

definition signed_jwt :: "Primitives \<Rightarrow> LocalJwtOptions \<Rightarrow> string \<Rightarrow> json \<Rightarrow> bool" where
  "signed_jwt pr opt token payload \<longleftrightarrow>
     (\<exists>h p s header hb pb. token = h @ ''.'' @ p @ ''.'' @ s \<and> CHR ''.'' \<notin> set h \<union> set p \<union> set s \<and> h \<noteq> [] \<and> p \<noteq> [] \<and> s \<noteq> [] \<and>
        Base64UrlDecode h = Some hb \<and> Base64UrlDecode p = Some pb \<and> pr_json_parse pr hb = Ok header \<and>
        pr_json_parse pr pb = Ok payload \<and> is_object header \<and> is_object payload \<and>
        StringClaim header ''alg'' = Some ''HS256'' \<and>
        Base64UrlDecode s = Some (pr_HmacSha256 pr (jo_hmac_secret opt) (h @ ''.'' @ p)))"

definition valid_jwt :: "LocalJwtOptions \<Rightarrow> int \<Rightarrow> string \<Rightarrow> json \<Rightarrow> int \<Rightarrow> bool" where
  "valid_jwt opt now part payload e \<longleftrightarrow>
     NumberClaim payload ''exp'' = Some e \<and> now \<le> wrap_i64 (e + jo_clock_skew_seconds opt) \<and>
     (\<forall>n. NumberClaim payload ''nbf'' = Some n \<longrightarrow> n \<le> wrap_i64 (now + jo_clock_skew_seconds opt)) \<and>
     (jo_issuer opt \<noteq> [] \<longrightarrow> StringClaim payload ''iss'' = Some (jo_issuer opt)) \<and>
     (jo_audience opt \<noteq> [] \<longrightarrow> AudienceMatches payload (jo_audience opt)) \<and>
     (jo_require_partition_claim opt \<and> part \<noteq> [] \<longrightarrow> StringClaim payload (jo_partition_claim opt) = Some part)"

lemma signed_jwt_iff:
  assumes "jo_verify_signature opt"
  shows "signed_jwt pr opt token payload \<longleftrightarrow>
    (\<exists>h p s header. jwt_segments token = Ok (h, p, s) \<and> jwt_parse pr h p = Ok (header, payload) \<and>
       check_algorithm header = Ok () \<and> check_signature pr opt (h @ ''.'' @ p) s = Ok ())"
  unfolding signed_jwt_def jwt_segments_iff jwt_parse_iff check_algorithm_iff check_signature_iff [OF assms] by blast

lemma valid_jwt_iff:
  "valid_jwt opt now part payload e \<longleftrightarrow>
     check_times opt now payload = Ok e \<and> check_parties opt payload = Ok () \<and> check_tenant opt part (jwt_claims opt payload e) = Ok ()"
proof -
  have "(part \<noteq> [] \<longrightarrow> jc_partition (jwt_claims opt payload e) = part) \<longleftrightarrow>
      (part \<noteq> [] \<longrightarrow> StringClaim payload (jo_partition_claim opt) = Some part)"
    using value_or_empty_iff by (auto simp: jwt_claims_def Let_def)
  then show ?thesis unfolding valid_jwt_def check_times_iff check_parties_iff check_tenant_iff by blast
qed

lemma JwtVerify_iff:
  assumes "jo_verify_signature opt"
  shows "JwtVerify pr opt now bearer part = Ok claims \<longleftrightarrow>
     jo_hmac_secret opt \<noteq> [] \<and>
     (\<exists>payload e. signed_jwt pr opt (TrimSpace (StripBearer bearer)) payload \<and> valid_jwt opt now part payload e \<and>
        claims = jwt_claims opt payload e)"
proof -
  let ?t = "TrimSpace (StripBearer bearer)"
  have ne: "jwt_segments [] \<noteq> Ok x" for x by (simp add: jwt_segments_def Unauthenticated_def)
  have "JwtVerify pr opt now bearer part = Ok claims \<longleftrightarrow> ?t \<noteq> [] \<and> jo_hmac_secret opt \<noteq> [] \<and>
    (\<exists>h p s header payload e. jwt_segments ?t = Ok (h, p, s) \<and> jwt_parse pr h p = Ok (header, payload) \<and>
       check_algorithm header = Ok () \<and> check_signature pr opt (h @ ''.'' @ p) s = Ok () \<and> check_times opt now payload = Ok e \<and>
       check_parties opt payload = Ok () \<and> check_tenant opt part (jwt_claims opt payload e) = Ok () \<and> claims = jwt_claims opt payload e)"
    using assms by (auto simp: JwtVerify_def Let_def Unauthenticated_def FSS_TRY_eq_Ok split: prod.splits)
  also have "\<dots> \<longleftrightarrow> jo_hmac_secret opt \<noteq> [] \<and>
     (\<exists>payload e. signed_jwt pr opt ?t payload \<and> valid_jwt opt now part payload e \<and> claims = jwt_claims opt payload e)"
    unfolding signed_jwt_iff [OF assms] valid_jwt_iff using ne by metis
  finally show ?thesis .
qed

text \<open>C31: the authorizer lets a caller through exactly when the token, after an optional
  \<open>Bearer\<close> prefix and white space, has three segments, its header names HS256, its signature is the HMAC of the
  first two segments under the configured secret, it has an expiry that is not past, it is in force, issuer and
  audience match where they are configured, it is bound to the partition of the request, and it carries
  the role or the static table gives the role to its user. Without a secret nobody is let through.\<close>

theorem jwt_authorize_exact:
  assumes "jo_verify_signature opt"
  shows "JwtAuthorize pr opt now role part bearer = Ok () \<longleftrightarrow>
     jo_hmac_secret opt \<noteq> [] \<and>
     (\<exists>payload e. signed_jwt pr opt (TrimSpace (StripBearer bearer)) payload \<and> valid_jwt opt now part payload e \<and>
        has_role opt payload role)"
proof -
  have "JwtAuthorize pr opt now role part bearer = Ok () \<longleftrightarrow>
      (\<exists>claims. JwtVerify pr opt now bearer part = Ok claims \<and> role \<in> set (jc_roles claims))"
    by (auto simp: JwtAuthorize_def FSS_TRY_eq_Ok Contains_def)
  then show ?thesis unfolding JwtVerify_iff [OF assms] using jwt_claims_roles by blast
qed

text \<open>A deployment with a secret, whose parser reads two texts, and a token for the partition \<open>p\<close>.\<close>

definition jwt_sample_payload :: json where
  "jwt_sample_payload = JObject [(''data-partition-id'', JString ''p''), (''email'', JString ''u''),
     (''exp'', JInt 1700000100), (''roles'', JArray [JString ''service.file.viewers''])]"

definition jwt_sample_primitives :: Primitives where
  "jwt_sample_primitives = \<lparr>pr_HmacSha256 = (\<lambda>key d. key @ rev d), pr_json_dump = (\<lambda>_. []),
     pr_json_parse = (\<lambda>t. if t = ''H'' then Ok (JObject [(''alg'', JString ''HS256'')])
                          else if t = ''P'' then Ok jwt_sample_payload else Err kInvalidArgument [])\<rparr>"

definition jwt_sample_options :: LocalJwtOptions where
  "jwt_sample_options = default_LocalJwtOptions\<lparr>jo_hmac_secret := ''k'', jo_local_roles := [(''u'', [''service.file.editors''])]\<rparr>"

definition jwt_sample_token :: string where
  "jwt_sample_token =
     (let input = Base64UrlEncode ''H'' @ ''.'' @ Base64UrlEncode ''P'' in
      ''Bearer '' @ input @ ''.'' @ Base64UrlEncode (''k'' @ rev input))"

theorem jwt_authorize_exact_witness:
  "\<exists>payload e. signed_jwt jwt_sample_primitives jwt_sample_options (TrimSpace (StripBearer jwt_sample_token)) payload \<and>
     valid_jwt jwt_sample_options 1700000000 ''p'' payload e \<and> has_role jwt_sample_options payload ''service.file.editors''"
proof -
  have v: "jo_verify_signature jwt_sample_options" by (simp add: jwt_sample_options_def default_LocalJwtOptions_def)
  have "JwtAuthorize jwt_sample_primitives jwt_sample_options 1700000000 ''service.file.editors'' ''p'' jwt_sample_token = Ok ()"
    by code_simp
  then show ?thesis using jwt_authorize_exact [OF v] by blast
qed

lemma jwt_sample_refused:
  "err_kind (JwtAuthorize jwt_sample_primitives jwt_sample_options 1700000000 ''service.file.admin'' ''p'' jwt_sample_token) = Some kPermissionDenied"
  "err_kind (JwtAuthorize jwt_sample_primitives jwt_sample_options 1700000000 ''service.file.editors'' ''q'' jwt_sample_token) = Some kPermissionDenied"
  "err_kind (JwtAuthorize jwt_sample_primitives jwt_sample_options 1700000106 ''service.file.editors'' ''p'' jwt_sample_token) = Some kUnauthenticated"
  by code_simp+

lemma JwtAuthorizeAny_iff:
  "JwtAuthorizeAny pr opt now roles part bearer = Ok () \<longleftrightarrow> (\<exists>role \<in> set roles. JwtAuthorize pr opt now role part bearer = Ok ())"
  by (auto simp: JwtAuthorizeAny_def JwtAuthorize_def FSS_TRY_eq_Ok list_ex_iff Contains_def)

text \<open>A start of validity that is not a number is treated like a missing one, not as an invalid token.\<close>

lemma nbf_mistyped_ignored:
  assumes "jfind payload ''nbf'' = Some (JString x)" "jfind payload ''exp'' = Some (JInt e)"
    and "now \<le> wrap_i64 (e + jo_clock_skew_seconds opt)"
  shows "check_times opt now payload = Ok e"
  using assms by (simp add: check_times_iff NumberClaim_def is_number_integer_def get_int64_def)

end
