(* ===== verification/Sigv4.thy ===== *)
theory Sigv4
  imports Crypto Result_Type "HOL-Library.Product_Lexorder" "HOL-Library.Multiset"
begin

text \<open>
  \<^verbatim>\<open>infra/blob/s3/sigv4_signer\<close>: canonical requests, header signatures and presigned URLs of AWS
  Signature Version 4. SHA-256 and HMAC-SHA-256 are arguments.
\<close>

section \<open>Encoding\<close>

type_synonym pairs = "(string \<times> string) list"

definition newline :: string where "newline = [CHR 0x0A]"
definition kAlgorithm :: string where "kAlgorithm = ''AWS4-HMAC-SHA256''"
definition kMaxPresignSeconds :: int where "kMaxPresignSeconds = 7 * 24 * 3600"

definition IsUnreserved :: "char \<Rightarrow> bool" where
  "IsUnreserved c \<longleftrightarrow> isupper c \<or> islower c \<or> isdigit c \<or>
     c = CHR ''-'' \<or> c = CHR ''_'' \<or> c = CHR ''.'' \<or> c = CHR ''~''"

definition kUpperHexDigits :: string where
  "kUpperHexDigits = ''0123456789ABCDEF''"

definition encode_char :: "bool \<Rightarrow> char \<Rightarrow> string" where
  "encode_char keep_slash c =
     (if IsUnreserved c \<or> (keep_slash \<and> c = CHR ''/'') then [c]
      else [CHR ''%'', kUpperHexDigits ! (of_char c div 16), kUpperHexDigits ! (of_char c mod 16)])"

definition SigV4Encode :: "string \<Rightarrow> bool \<Rightarrow> string" where
  "SigV4Encode v keep_slash = concat (map (encode_char keep_slash) v)"

definition SigV4EncodePath :: "string \<Rightarrow> string" where "SigV4EncodePath path = SigV4Encode path True"
definition SigV4EncodeQuery :: "string \<Rightarrow> string" where "SigV4EncodeQuery v = SigV4Encode v False"

section \<open>Canonical parts\<close>

definition is_blank :: "char \<Rightarrow> bool" where
  "is_blank c \<longleftrightarrow> c = CHR '' '' \<or> c = CHR 0x09"

definition TrimBlanks :: "string \<Rightarrow> string" where
  "TrimBlanks t = rev (dropWhile is_blank (rev (dropWhile is_blank t)))"

definition LowerCase :: "string \<Rightarrow> string" where
  "LowerCase t = map tolower t"

fun collapse_loop :: "string \<Rightarrow> bool \<Rightarrow> string \<Rightarrow> string" where
  "collapse_loop [] in_space out = out"
| "collapse_loop (c # t) in_space out =
     (if is_blank c then collapse_loop t True (if \<not> in_space \<and> out \<noteq> [] then out @ '' '' else out)
      else collapse_loop t False (out @ [c]))"

definition CollapseSpaces :: "string \<Rightarrow> string" where
  "CollapseSpaces t =
     (let out = collapse_loop t False [] in if out \<noteq> [] \<and> last out = CHR '' '' then butlast out else out)"

definition CanonicalQuery :: "pairs \<Rightarrow> string" where
  "CanonicalQuery query =
     fold (\<lambda>(key, v) out. (if out \<noteq> [] then out @ ''&'' else out) @ key @ ''='' @ v)
       (sort (map (\<lambda>(key, v). (SigV4EncodeQuery key, SigV4EncodeQuery v)) query)) []"

record CanonicalHeaders =
  ch_block :: string
  ch_names :: string

definition collect_header :: "string \<times> string \<Rightarrow> (string \<times> string list) list \<Rightarrow> (string \<times> string list) list" where
  "collect_header = (\<lambda>(name, v) m.
     let name = LowerCase name in
     map_put name ((case map_of m name of None \<Rightarrow> [] | Some vs \<Rightarrow> vs) @ [v]) m)"

definition emit_header :: "string \<times> string list \<Rightarrow> CanonicalHeaders \<Rightarrow> CanonicalHeaders" where
  "emit_header = (\<lambda>(name, vs) out.
     \<lparr>ch_block = ch_block out @ name @ '':'' @ CollapseSpaces (TrimBlanks (join_with (CHR '','') vs)) @ newline,
      ch_names = (if ch_names out \<noteq> [] then ch_names out @ '';'' else ch_names out) @ name\<rparr>)"

definition BuildCanonicalHeaders :: "pairs \<Rightarrow> CanonicalHeaders" where
  "BuildCanonicalHeaders headers = fold emit_header (fold collect_header headers []) \<lparr>ch_block = [], ch_names = []\<rparr>"

definition HasHeader :: "pairs \<Rightarrow> string \<Rightarrow> bool" where
  "HasHeader headers name \<longleftrightarrow> list_ex (\<lambda>(key, v). LowerCase key = name) headers"

section \<open>The signer\<close>

record SigV4Request =
  sq_method :: string
  sq_host :: string
  sq_path :: string
  sq_query :: pairs
  sq_headers :: pairs
  sq_payload_sha256_hex :: string

record AwsCredentials =
  aw_access_key :: string
  aw_secret_key :: string
  aw_session_token :: string

record SigV4Options =
  so_region :: string
  so_service :: string
  so_force_path_style :: bool
  so_endpoint :: string
  so_scheme :: string

record SigV4Signature =
  ss_canonical_request :: string
  ss_string_to_sign :: string
  ss_signature :: string
  ss_authorization :: string
  ss_amz_date :: string
  ss_signed_headers :: string

record SigV4Signer =
  sv_Sha256 :: "string \<Rightarrow> string"
  sv_HmacSha256 :: "string \<Rightarrow> string \<Rightarrow> string"
  sv_credentials :: AwsCredentials
  sv_options :: SigV4Options

definition ValidateRequest :: "SigV4Request \<Rightarrow> unit Result" where
  "ValidateRequest request =
     (if sq_method request = [] then Err kInvalidArgument msg_sig_method
      else if sq_host request = [] then Err kInvalidArgument msg_sig_host
      else if \<not> HasHeader (sq_headers request) ''host''
      then Err kInvalidArgument msg_sig_no_host
      else if \<not> HasHeader (sq_headers request) ''x-amz-date''
      then Err kInvalidArgument msg_sig_no_date
      else Ok ())"

definition SigScope :: "SigV4Signer \<Rightarrow> string \<Rightarrow> string" where
  "SigScope sg amz_date =
     take 8 amz_date @ ''/'' @ so_region (sv_options sg) @ ''/'' @ so_service (sv_options sg) @ ''/'' @ kSigV4Terminator"

definition HostFor :: "SigV4Options \<Rightarrow> string \<Rightarrow> string" where
  "HostFor opt bucket =
     (if so_force_path_style opt \<or> bucket = [] then so_endpoint opt else bucket @ ''.'' @ so_endpoint opt)"

definition BuildUrl :: "SigV4Signer \<Rightarrow> string \<Rightarrow> string \<Rightarrow> pairs \<Rightarrow> bool \<Rightarrow> string Result" where
  "BuildUrl sg bucket key query include_query =
     (let opt = sv_options sg in
      if so_endpoint opt = [] then Err kInvalidArgument msg_sig_endpoint
      else Ok (so_scheme opt @ ''://'' @ HostFor opt bucket @
               (if so_force_path_style opt \<and> bucket \<noteq> [] then ''/'' @ bucket else []) @
               (if key \<noteq> [] then ''/'' @ SigV4EncodePath key else []) @
               (if include_query \<and> query \<noteq> [] then ''?'' @ CanonicalQuery query else [])))"

definition canonical_request_of :: "SigV4Request \<Rightarrow> pairs \<Rightarrow> CanonicalHeaders \<Rightarrow> string" where
  "canonical_request_of request query ch =
     sq_method request @ newline @ SigV4EncodePath (sq_path request) @ newline @ CanonicalQuery query @ newline @
     ch_block ch @ newline @ ch_names ch @ newline @ sq_payload_sha256_hex request"

definition string_to_sign_of :: "SigV4Signer \<Rightarrow> string \<Rightarrow> string \<Rightarrow> string" where
  "string_to_sign_of sg amz_date canonical_request =
     kAlgorithm @ newline @ amz_date @ newline @ SigScope sg amz_date @ newline @ ToHex (sv_Sha256 sg canonical_request)"

definition signature_of :: "SigV4Signer \<Rightarrow> string \<Rightarrow> string \<Rightarrow> string" where
  "signature_of sg amz_date string_to_sign =
     ToHex (sv_HmacSha256 sg
       (DeriveSigningKey (sv_HmacSha256 sg) (aw_secret_key (sv_credentials sg)) (take 8 amz_date)
         (so_region (sv_options sg)) (so_service (sv_options sg))) string_to_sign)"

definition SignRequest :: "SigV4Signer \<Rightarrow> SigV4Request \<Rightarrow> string \<Rightarrow> SigV4Signature Result" where
  "SignRequest sg request amz_date =
     FSS_TRY (ValidateRequest request) (\<lambda>_.
       if length amz_date \<noteq> 16
       then Err kInvalidArgument msg_sig_date
       else
         let ch = BuildCanonicalHeaders (sq_headers request);
             canonical_request = canonical_request_of request (sq_query request) ch;
             string_to_sign = string_to_sign_of sg amz_date canonical_request;
             signature = signature_of sg amz_date string_to_sign in
         Ok \<lparr>ss_canonical_request = canonical_request, ss_string_to_sign = string_to_sign, ss_signature = signature,
             ss_authorization = kAlgorithm @ '' Credential='' @ aw_access_key (sv_credentials sg) @ ''/'' @
               SigScope sg amz_date @ '', SignedHeaders='' @ ch_names ch @ '', Signature='' @ signature,
             ss_amz_date = amz_date, ss_signed_headers = ch_names ch\<rparr>)"

definition presign_query :: "SigV4Signer \<Rightarrow> SigV4Request \<Rightarrow> string \<Rightarrow> int \<Rightarrow> CanonicalHeaders \<Rightarrow> pairs" where
  "presign_query sg request amz_date expires_in_seconds ch =
     sq_query request @
     [(''X-Amz-Algorithm'', kAlgorithm),
      (''X-Amz-Credential'', aw_access_key (sv_credentials sg) @ ''/'' @ SigScope sg amz_date),
      (''X-Amz-Date'', amz_date),
      (''X-Amz-Expires'', to_string expires_in_seconds),
      (''X-Amz-SignedHeaders'', ch_names ch)] @
     (if aw_session_token (sv_credentials sg) \<noteq> []
      then [(''X-Amz-Security-Token'', aw_session_token (sv_credentials sg))] else [])"

definition PresignUrl :: "SigV4Signer \<Rightarrow> SigV4Request \<Rightarrow> string \<Rightarrow> int \<Rightarrow> string Result" where
  "PresignUrl sg request amz_date expires_in_seconds =
     (if aw_access_key (sv_credentials sg) = []
      then Err kInvalidArgument msg_sig_access_key
      else if expires_in_seconds \<le> 0 \<or> expires_in_seconds > kMaxPresignSeconds
      then Err kInvalidArgument msg_sig_expires
      else
        let headers = (if sq_headers request = [] then [(''host'', sq_host request)] else sq_headers request);
            ch = BuildCanonicalHeaders headers;
            query = presign_query sg request amz_date expires_in_seconds ch;
            signature = signature_of sg amz_date (string_to_sign_of sg amz_date (canonical_request_of request query ch));
            query = query @ [(''X-Amz-Signature'', signature)] in
        Ok (so_scheme (sv_options sg) @ ''://'' @ sq_host request @ SigV4EncodePath (sq_path request) @ ''?'' @ CanonicalQuery query))"

definition MakeSigV4Request ::
  "SigV4Options \<Rightarrow> string \<Rightarrow> string \<Rightarrow> string \<Rightarrow> pairs \<Rightarrow> pairs \<Rightarrow> string \<Rightarrow> string \<Rightarrow> SigV4Request" where
  "MakeSigV4Request opt method bucket key query extra_headers payload_sha256_hex amz_date =
     (let host = HostFor opt bucket in
      \<lparr>sq_method = method, sq_host = host,
       sq_path = (if so_force_path_style opt \<and> bucket \<noteq> [] then ''/'' @ bucket @ (if key \<noteq> [] then ''/'' @ key else [])
                  else ''/'' @ key),
       sq_query = query,
       sq_headers = [(''host'', host)] @ (if amz_date \<noteq> [] then [(''x-amz-date'', amz_date)] else []) @
         [(''x-amz-content-sha256'', payload_sha256_hex)] @ map (\<lambda>(name, v). (LowerCase name, v)) extra_headers,
       sq_payload_sha256_hex = payload_sha256_hex\<rparr>)"

section \<open>The encoding is injective\<close>

text \<open>Percent decoding, as a server applies it.\<close>

fun percent_decode :: "string \<Rightarrow> string" where
  "percent_decode [] = []"
| "percent_decode (c # t) =
     (if c = CHR ''%''
      then (case t of a # b # r \<Rightarrow> char_of (16 * hex_digit_val a + hex_digit_val b) # percent_decode r | _ \<Rightarrow> c # t)
      else c # percent_decode t)"

lemma upper_hex_value: "n < 16 \<Longrightarrow> hex_digit_val (kUpperHexDigits ! n) = n"
proof -
  have "list_all (\<lambda>n. hex_digit_val (kUpperHexDigits ! n) = n) [0..<16]" by code_simp
  then show "n < 16 \<Longrightarrow> ?thesis" by (simp add: list_all_iff)
qed

lemma byte_halves: "(of_char c :: nat) div 16 < 16" "char_of (16 * ((of_char c :: nat) div 16) + of_char c mod 16) = c"
proof -
  show "(of_char c :: nat) div 16 < 16" using nat_of_char_less_256 [of c] by (simp add: less_mult_imp_div_less)
  have "16 * ((of_char c :: nat) div 16) + of_char c mod 16 = of_char c" by simp
  then show "char_of (16 * ((of_char c :: nat) div 16) + of_char c mod 16) = c" by (simp only: char_of_char)
qed

lemma decode_char: "percent_decode (encode_char keep c @ t) = c # percent_decode t"
proof (cases "IsUnreserved c \<or> (keep \<and> c = CHR ''/'')")
  case True
  then have "c \<noteq> CHR ''%''" by (auto simp: IsUnreserved_def ctype_defs)
  with True show ?thesis by (simp add: encode_char_def)
next
  case False
  then show ?thesis using byte_halves [of c] by (simp add: encode_char_def upper_hex_value)
qed

lemma sig_decode_encode: "percent_decode (SigV4Encode v keep) = v"
proof (induction v)
  case (Cons c v)
  have "SigV4Encode (c # v) keep = encode_char keep c @ SigV4Encode v keep" by (simp add: SigV4Encode_def)
  then show ?case using Cons decode_char by simp
qed (simp add: SigV4Encode_def)

lemma SigV4Encode_inject [simp]: "SigV4Encode v keep = SigV4Encode v' keep \<longleftrightarrow> v = v'"
  by (metis sig_decode_encode)

lemma upper_hex_safe: "n < 16 \<Longrightarrow> IsUnreserved (kUpperHexDigits ! n)"
proof -
  have "list_all (\<lambda>n. IsUnreserved (kUpperHexDigits ! n)) [0..<16]" by code_simp
  then show "n < 16 \<Longrightarrow> ?thesis" by (simp add: list_all_iff)
qed

lemma SigV4Encode_alphabet: "c \<in> set (SigV4Encode v keep) \<Longrightarrow> IsUnreserved c \<or> c = CHR ''%'' \<or> (keep \<and> c = CHR ''/'')"
proof -
  assume "c \<in> set (SigV4Encode v keep)"
  then obtain d where d: "c \<in> set (encode_char keep d)" by (auto simp: SigV4Encode_def)
  have "IsUnreserved (kUpperHexDigits ! (of_char d div 16))" "IsUnreserved (kUpperHexDigits ! (of_char d mod 16))"
    using byte_halves(1) [of d] by (simp_all add: upper_hex_safe)
  then show ?thesis using d by (auto simp: encode_char_def split: if_splits)
qed

lemma encoded_query_clean: "CHR ''&'' \<notin> set (SigV4EncodeQuery v)" "CHR ''='' \<notin> set (SigV4EncodeQuery v)"
    "CHR 0x0A \<notin> set (SigV4EncodeQuery v)"
  using SigV4Encode_alphabet by (fastforce simp: SigV4EncodeQuery_def IsUnreserved_def ctype_defs)+

lemma encoded_path_clean: "CHR 0x0A \<notin> set (SigV4EncodePath v)" "CHR ''?'' \<notin> set (SigV4EncodePath v)"
  using SigV4Encode_alphabet by (fastforce simp: SigV4EncodePath_def IsUnreserved_def ctype_defs)+

section \<open>The canonical query\<close>

definition encoded_pairs :: "pairs \<Rightarrow> pairs" where
  "encoded_pairs query = sort (map (\<lambda>(key, v). (SigV4EncodeQuery key, SigV4EncodeQuery v)) query)"

abbreviation equation :: "string \<times> string \<Rightarrow> string" where
  "equation q \<equiv> fst q @ ''='' @ snd q"

lemma query_fold: "out \<noteq> [] \<Longrightarrow>
    fold (\<lambda>(key, v) out. (if out \<noteq> [] then out @ ''&'' else out) @ key @ ''='' @ v) qs out =
    out @ concat (map (\<lambda>q. CHR ''&'' # equation q) qs)"
  by (induction qs arbitrary: out) (auto split: prod.split)

lemma join_equations: "join_with (CHR ''&'') (map equation (q # qs)) = equation q @ concat (map (\<lambda>q. CHR ''&'' # equation q) qs)"
  by (induction qs arbitrary: q) auto

lemma CanonicalQuery_join: "CanonicalQuery query = join_with (CHR ''&'') (map equation (encoded_pairs query))"
proof (cases "encoded_pairs query")
  case Nil
  then show ?thesis by (simp add: CanonicalQuery_def encoded_pairs_def)
next
  case (Cons q qs)
  then have "CanonicalQuery query = equation q @ concat (map (\<lambda>q. CHR ''&'' # equation q) qs)"
    using query_fold [of "equation q" qs] by (cases q) (simp add: CanonicalQuery_def encoded_pairs_def)
  then show ?thesis unfolding Cons join_equations .
qed

lemma encoded_pairs_mset:
  "mset (encoded_pairs q) = image_mset (\<lambda>(key, v). (SigV4EncodeQuery key, SigV4EncodeQuery v)) (mset q)"
  by (simp add: encoded_pairs_def)

lemma decoded_pairs: "image_mset (\<lambda>(key, v). (percent_decode key, percent_decode v)) (mset (encoded_pairs q)) = mset q"
proof -
  have "(\<lambda>(key, v). (percent_decode key, percent_decode v)) \<circ> (\<lambda>(key, v). (SigV4EncodeQuery key, SigV4EncodeQuery v)) = id"
    by (auto simp: fun_eq_iff SigV4EncodeQuery_def sig_decode_encode)
  then show ?thesis unfolding encoded_pairs_mset image_mset.compositionality by simp
qed

lemma encoded_pairs_eq: "encoded_pairs q = encoded_pairs q' \<longleftrightarrow> mset q = mset q'"
proof
  assume "mset q = mset q'"
  then have "mset (encoded_pairs q) = mset (encoded_pairs q')" by (simp add: encoded_pairs_mset)
  moreover have "sorted (encoded_pairs q)" for q unfolding encoded_pairs_def by (rule sorted_sort)
  ultimately show "encoded_pairs q = encoded_pairs q'" by (metis properties_for_sort)
qed (metis decoded_pairs)

lemma equation_inject:
  assumes "CHR ''='' \<notin> set (fst a)" "CHR ''='' \<notin> set (fst b)" "equation a = equation b"
  shows "a = b"
proof -
  have "fst a = fst b" using takeWhile_no_sep [OF assms(1), of "snd a"] takeWhile_no_sep [OF assms(2), of "snd b"] assms(3) by simp
  then show ?thesis using assms(3) by (simp add: prod_eq_iff)
qed

lemma encoded_pairs_clean:
  "q \<in> set (encoded_pairs query) \<Longrightarrow> CHR ''='' \<notin> set (fst q) \<and> CHR ''&'' \<notin> set (equation q) \<and> CHR 0x0A \<notin> set (equation q)"
  using encoded_query_clean by (auto simp: encoded_pairs_def)

lemma split_query:
  "encoded_pairs q \<noteq> [] \<Longrightarrow> split_on (CHR ''&'') (CanonicalQuery q) = map equation (encoded_pairs q)"
  unfolding CanonicalQuery_join by (rule split_join) (use encoded_pairs_clean in auto)

lemma CanonicalQuery_empty: "encoded_pairs q = [] \<longleftrightarrow> CanonicalQuery q = []"
proof (cases "encoded_pairs q")
  case (Cons p ps)
  then show ?thesis unfolding CanonicalQuery_join Cons join_equations by simp
qed (simp add: CanonicalQuery_join)

text \<open>The canonical query is the same for two queries exactly when they have the same parameters, counted
  with repetitions, in any order.\<close>

lemma CanonicalQuery_eq: "CanonicalQuery q = CanonicalQuery q' \<longleftrightarrow> mset q = mset q'"
proof
  assume e: "CanonicalQuery q = CanonicalQuery q'"
  have "encoded_pairs q = encoded_pairs q'"
  proof (cases "encoded_pairs q = []")
    case True
    then have "encoded_pairs q' = []" using e by (simp add: CanonicalQuery_empty)
    with True show ?thesis by simp
  next
    case False
    then have "encoded_pairs q' \<noteq> []" using e by (simp add: CanonicalQuery_empty)
    then have "map equation (encoded_pairs q) = map equation (encoded_pairs q')"
      using split_query [OF False] split_query [of q'] e by simp
    moreover have "inj_on equation (set (encoded_pairs q) \<union> set (encoded_pairs q'))"
    proof (rule inj_onI)
      fix x y assume "x \<in> set (encoded_pairs q) \<union> set (encoded_pairs q')" "y \<in> set (encoded_pairs q) \<union> set (encoded_pairs q')"
      then have "CHR ''='' \<notin> set (fst x)" "CHR ''='' \<notin> set (fst y)" using encoded_pairs_clean by blast+
      then show "equation x = equation y \<Longrightarrow> x = y" by (rule equation_inject)
    qed
    ultimately show ?thesis by (simp only: inj_on_map_eq_map)
  qed
  then show "mset q = mset q'" by (simp add: encoded_pairs_eq)
next
  assume "mset q = mset q'"
  then show "CanonicalQuery q = CanonicalQuery q'" unfolding CanonicalQuery_join encoded_pairs_eq [symmetric] by simp
qed

lemma CanonicalQuery_newline: "CHR 0x0A \<notin> set (CanonicalQuery q)"
proof (cases "encoded_pairs q")
  case (Cons p ps)
  have "CHR 0x0A \<notin> set (equation p)" "\<And>x. x \<in> set ps \<Longrightarrow> CHR 0x0A \<notin> set (equation x)"
    using encoded_pairs_clean [of _ q] Cons by (metis list.set_intros)+
  then show ?thesis unfolding CanonicalQuery_join Cons join_equations by auto
qed (simp add: CanonicalQuery_join)

section \<open>What a signature covers\<close>

lemma line_inject: "CHR 0x0A \<notin> set a \<Longrightarrow> CHR 0x0A \<notin> set b \<Longrightarrow> a @ newline @ s = b @ newline @ t \<Longrightarrow> a = b \<and> s = t"
proof -
  assume a: "CHR 0x0A \<notin> set a" "CHR 0x0A \<notin> set b" and e: "a @ newline @ s = b @ newline @ t"
  have "a = b" using takeWhile_no_sep [OF a(1), of s] takeWhile_no_sep [OF a(2), of t] e by (simp add: newline_def)
  then show "a = b \<and> s = t" using e by simp
qed

lemma canonical_request_eq:
  assumes "CHR 0x0A \<notin> set (sq_method r)" "CHR 0x0A \<notin> set (sq_method r')"
  shows "canonical_request_of r q ch = canonical_request_of r' q' ch' \<longleftrightarrow>
     sq_method r = sq_method r' \<and> sq_path r = sq_path r' \<and> mset q = mset q' \<and>
     ch_block ch @ newline @ ch_names ch @ newline @ sq_payload_sha256_hex r =
     ch_block ch' @ newline @ ch_names ch' @ newline @ sq_payload_sha256_hex r'"
proof
  assume e: "canonical_request_of r q ch = canonical_request_of r' q' ch'"
  note l1 = line_inject [OF assms e [unfolded canonical_request_of_def]]
  note l2 = line_inject [OF encoded_path_clean(1) encoded_path_clean(1) l1 [THEN conjunct2]]
  note l3 = line_inject [OF CanonicalQuery_newline CanonicalQuery_newline l2 [THEN conjunct2]]
  show "sq_method r = sq_method r' \<and> sq_path r = sq_path r' \<and> mset q = mset q' \<and>
     ch_block ch @ newline @ ch_names ch @ newline @ sq_payload_sha256_hex r =
     ch_block ch' @ newline @ ch_names ch' @ newline @ sq_payload_sha256_hex r'"
    using l1 l2 l3 CanonicalQuery_eq by (simp add: SigV4EncodePath_def)
next
  assume a: "sq_method r = sq_method r' \<and> sq_path r = sq_path r' \<and> mset q = mset q' \<and>
     ch_block ch @ newline @ ch_names ch @ newline @ sq_payload_sha256_hex r =
     ch_block ch' @ newline @ ch_names ch' @ newline @ sq_payload_sha256_hex r'"
  then have "CanonicalQuery q = CanonicalQuery q'" using CanonicalQuery_eq by blast
  with a show "canonical_request_of r q ch = canonical_request_of r' q' ch'" by (simp add: canonical_request_of_def)
qed

section \<open>The canonical headers\<close>

text \<open>What a service reads in the headers of one name, whose case does not matter: all their values, in the order they are sent and
  separated by commas, as words between blanks. A reference for the canonical form.\<close>

definition blank_words :: "string \<Rightarrow> string list" where
  "blank_words t = filter (\<lambda>w. w \<noteq> []) (split_on (CHR '' '') (map (\<lambda>c. if c = CHR 0x09 then CHR '' '' else c) t))"

definition signed_header :: "pairs \<Rightarrow> string \<Rightarrow> string list option" where
  "signed_header headers name =
     (let vs = map snd (filter (\<lambda>(k, v). map tolower k = name) headers) in
      if vs = [] then None else Some (blank_words (join_with (CHR '','') vs)))"

text \<open>Collapsing without the accumulator.\<close>

fun squeeze :: "string \<Rightarrow> bool \<Rightarrow> string" where
  "squeeze [] sp = []"
| "squeeze (c # t) sp =
     (if is_blank c then (if sp then squeeze t True else CHR '' '' # squeeze t True) else c # squeeze t False)"

lemma collapse_squeeze: "out \<noteq> [] \<Longrightarrow> collapse_loop t sp out = out @ squeeze t sp"
  by (induction t arbitrary: sp out) auto

lemma collapse_squeeze_start: "collapse_loop t sp [] = squeeze t True"
  by (induction t arbitrary: sp) (auto simp: collapse_squeeze)

definition ends_tight :: "string \<Rightarrow> bool" where
  "ends_tight t \<longleftrightarrow> t = [] \<or> \<not> is_blank (last t)"

lemma ends_tight_Cons: "ends_tight (c # t) \<Longrightarrow> ends_tight t \<and> (t = [] \<longrightarrow> \<not> is_blank c)"
  by (auto simp: ends_tight_def split: if_splits)

lemma squeeze_last: "t \<noteq> [] \<Longrightarrow> ends_tight t \<Longrightarrow> squeeze t sp \<noteq> [] \<and> last (squeeze t sp) = last t"
proof (induction t arbitrary: sp)
  case (Cons c t)
  then show ?case using ends_tight_Cons [OF Cons.prems(2)] by (cases "t = []") auto
qed simp

abbreviation detabbed :: "string \<Rightarrow> string" where
  "detabbed t \<equiv> map (\<lambda>c. if c = CHR 0x09 then CHR '' '' else c) t"

abbreviation pieces :: "string \<Rightarrow> string list" where
  "pieces t \<equiv> split_on (CHR '' '') (detabbed t)"

lemma pieces_Cons:
  "pieces (c # t) = (if is_blank c then [] # pieces t else (c # hd (pieces t)) # tl (pieces t))"
proof -
  obtain w ws where p: "pieces t = w # ws" by (cases "pieces t") auto
  consider "c = CHR 0x09" | "c = CHR '' ''" | "c \<noteq> CHR 0x09" "c \<noteq> CHR '' ''" by blast
  then show ?thesis by cases (simp_all add: p is_blank_def)
qed

lemma last_piece: "t \<noteq> [] \<Longrightarrow> ends_tight t \<Longrightarrow> last (pieces t) \<noteq> []"
proof (induction t)
  case (Cons c t)
  show ?case
  proof (cases "t = []")
    case True
    then show ?thesis using Cons.prems by (simp add: pieces_Cons ends_tight_def is_blank_def)
  next
    case False
    then have "last (pieces t) \<noteq> []" using Cons ends_tight_Cons by blast
    then show ?thesis unfolding pieces_Cons by (cases "pieces t") auto
  qed
qed simp

lemma squeeze_words:
  "ends_tight t \<Longrightarrow> squeeze t False = hd (pieces t) @ (if tl (pieces t) = [] then [] else CHR '' '' # join_with (CHR '' '') (filter (\<lambda>w. w \<noteq> []) (tl (pieces t)))) \<and>
   squeeze t True = join_with (CHR '' '') (blank_words t)"
proof (induction t)
  case Nil
  show ?case by (simp add: blank_words_def)
next
  case (Cons c t)
  note tight = ends_tight_Cons [OF Cons.prems]
  note IH = Cons.IH [OF tight [THEN conjunct1]]
  show ?case
  proof (cases "is_blank c")
    case True
    have p: "pieces (c # t) = [] # pieces t" unfolding pieces_Cons using True by simp
    show ?thesis unfolding blank_words_def p using IH [unfolded blank_words_def] True by simp
  next
    case False
    have tail: "filter (\<lambda>w. w \<noteq> []) (tl (pieces t)) \<noteq> []" if "tl (pieces t) \<noteq> []"
    proof -
      have "t \<noteq> []" using that by auto
      then have "last (pieces t) \<noteq> []" using last_piece tight by blast
      moreover have "last (pieces t) \<in> set (tl (pieces t))" using that by (cases "pieces t") auto
      ultimately show ?thesis by (auto simp: filter_empty_conv)
    qed
    have words: "blank_words (c # t) = (c # hd (pieces t)) # filter (\<lambda>w. w \<noteq> []) (tl (pieces t))"
      using False unfolding blank_words_def pieces_Cons by simp
    have "join_with (CHR '' '') (blank_words (c # t)) =
        c # hd (pieces t) @ (if tl (pieces t) = [] then [] else CHR '' '' # join_with (CHR '' '') (filter (\<lambda>w. w \<noteq> []) (tl (pieces t))))"
      unfolding words using tail by (cases "filter (\<lambda>w. w \<noteq> []) (tl (pieces t))") auto
    moreover have "pieces (c # t) = (c # hd (pieces t)) # tl (pieces t)" unfolding pieces_Cons using False by simp
    ultimately show ?thesis using IH False by (simp del: split_on.simps list.map)
  qed
qed

lemma split_on_snoc: "split_on sep (s @ [sep]) = split_on sep s @ [[]]"
  by (induction s) (auto split: list.splits)

lemma blank_words_ends:
  "is_blank c \<Longrightarrow> blank_words (c # t) = blank_words t" "is_blank c \<Longrightarrow> blank_words (t @ [c]) = blank_words t"
proof -
  assume c: "is_blank c"
  then show "blank_words (c # t) = blank_words t" unfolding blank_words_def pieces_Cons by simp
  have "detabbed (t @ [c]) = detabbed t @ [CHR '' '']" using c by (auto simp: is_blank_def)
  then show "blank_words (t @ [c]) = blank_words t" unfolding blank_words_def by (simp only: split_on_snoc filter_append) simp
qed

lemma blank_words_trim: "blank_words (TrimBlanks t) = blank_words t"
proof -
  have front: "blank_words (dropWhile is_blank t) = blank_words t" for t
    by (induction t) (simp_all add: blank_words_ends)
  have "blank_words (rev (dropWhile is_blank t)) = blank_words (rev t)" for t
    by (induction t) (simp_all add: blank_words_ends)
  from this [of "rev (dropWhile is_blank t)"] show ?thesis by (simp add: TrimBlanks_def front)
qed

lemma trimmed_tight: "ends_tight (TrimBlanks t)"
  using hd_dropWhile [of is_blank "rev (dropWhile is_blank t)"]
  by (auto simp: ends_tight_def TrimBlanks_def last_rev)

lemma collapsed_words: "CollapseSpaces (TrimBlanks t) = join_with (CHR '' '') (blank_words t)"
proof -
  let ?t = "TrimBlanks t"
  have s: "collapse_loop ?t False [] = squeeze ?t True" by (rule collapse_squeeze_start)
  have "squeeze ?t True = [] \<or> last (squeeze ?t True) \<noteq> CHR '' ''"
    using squeeze_last [OF _ trimmed_tight, of t True] trimmed_tight [of t] by (cases "?t = []") (auto simp: ends_tight_def is_blank_def)
  then show ?thesis
    using squeeze_words [OF trimmed_tight, of t] by (auto simp: CollapseSpaces_def s Let_def blank_words_trim)
qed

lemma set_join_with: "x \<in> set (join_with sep ws) \<Longrightarrow> x = sep \<or> (\<exists>w \<in> set ws. x \<in> set w)"
  by (induction ws rule: join_with.induct) auto

lemma set_split_on: "w \<in> set (split_on sep s) \<Longrightarrow> x \<in> set w \<Longrightarrow> x \<in> set s"
  by (induction s arbitrary: w) (fastforce split: list.splits if_splits)+

lemma blank_words_facts:
  assumes "w \<in> set (blank_words t)"
  shows "w \<noteq> []" "CHR '' '' \<notin> set w" "x \<in> set w \<Longrightarrow> x \<in> set t"
proof -
  have w: "w \<noteq> []" "w \<in> set (pieces t)" using assms by (auto simp: blank_words_def)
  show "w \<noteq> []" by (rule w)
  show c: "CHR '' '' \<notin> set w" by (rule split_on_segments [OF w(2)])
  show "x \<in> set w \<Longrightarrow> x \<in> set t" using set_split_on [OF w(2), of x] c by (auto split: if_splits)
qed

lemma join_words_inject:
  assumes "\<And>w. w \<in> set ws \<Longrightarrow> w \<noteq> [] \<and> sep \<notin> set w" "\<And>w. w \<in> set vs \<Longrightarrow> w \<noteq> [] \<and> sep \<notin> set w" "join_with sep ws = join_with sep vs"
  shows "ws = vs"
proof -
  have empty: "us = []" if "join_with sep us = []" "\<And>w. w \<in> set us \<Longrightarrow> w \<noteq> [] \<and> sep \<notin> set w" for us
    using that by (cases us; cases "tl us") auto
  show ?thesis
  proof (cases "ws = [] \<or> vs = []")
    case True
    then show ?thesis using empty [of ws] empty [of vs] assms by fastforce
  next
    case False
    then show ?thesis using split_join [of ws sep] split_join [of vs sep] assms by metis
  qed
qed

text \<open>The headers by name, with the words of their values.\<close>

lemma collect_headers:
  "map_wf m \<Longrightarrow> map_wf (fold collect_header headers m) \<and>
   map_of (fold collect_header headers m) name =
     (let vs = map snd (filter (\<lambda>(k, v). map tolower k = name) headers) in
      if vs = [] then map_of m name else Some ((case map_of m name of None \<Rightarrow> [] | Some ws \<Rightarrow> ws) @ vs))"
proof (induction headers arbitrary: m)
  case (Cons h headers)
  obtain k v where h: "h = (k, v)" by fastforce
  have "map_wf (collect_header h m)" using Cons.prems by (simp add: collect_header_def h Let_def)
  from Cons.IH [OF this] show ?case
    by (auto simp: h collect_header_def LowerCase_def Let_def split: option.splits)
qed simp

definition header_words :: "pairs \<Rightarrow> (string \<times> string list) list" where
  "header_words headers = map (\<lambda>(n, vs). (n, blank_words (join_with (CHR '','') vs))) (fold collect_header headers [])"

lemma header_words_lookup: "map_of (header_words headers) name = signed_header headers name"
  using collect_headers [OF map_wf_Nil, of headers name]
  by (simp add: header_words_def signed_header_def map_of_map Let_def)

lemma header_words_wf: "map_wf (header_words headers)"
  using collect_headers [OF map_wf_Nil, of headers] by (simp add: header_words_def map_wf_def comp_def case_prod_beta')

definition header_line :: "string \<times> string list \<Rightarrow> string" where
  "header_line = (\<lambda>(n, ws). n @ '':'' @ join_with (CHR '' '') ws)"

lemma emitted:
  "ch_block (fold emit_header m out) =
     ch_block out @ concat (map (\<lambda>(n, vs). header_line (n, blank_words (join_with (CHR '','') vs)) @ newline) m) \<and>
   ch_names (fold emit_header m out) = fold (\<lambda>n names. (if names \<noteq> [] then names @ '';'' else names) @ n) (map fst m) (ch_names out)"
  by (induction m arbitrary: out) (auto simp: emit_header_def header_line_def collapsed_words)

lemma built_headers:
  "ch_block (BuildCanonicalHeaders headers) = concat (map (\<lambda>l. header_line l @ newline) (header_words headers))"
  "ch_names (BuildCanonicalHeaders headers) =
     fold (\<lambda>n names. (if names \<noteq> [] then names @ '';'' else names) @ n) (map fst (header_words headers)) []"
proof -
  show "ch_block (BuildCanonicalHeaders headers) = concat (map (\<lambda>l. header_line l @ newline) (header_words headers))"
    by (simp add: BuildCanonicalHeaders_def emitted header_words_def comp_def case_prod_beta')
  show "ch_names (BuildCanonicalHeaders headers) =
     fold (\<lambda>n names. (if names \<noteq> [] then names @ '';'' else names) @ n) (map fst (header_words headers)) []"
    by (simp add: BuildCanonicalHeaders_def emitted header_words_def comp_def case_prod_beta')
qed

text \<open>The block can be read back: a line ends at its newline and a name at its colon, so two blocks that start two
  canonical requests are the same only when they list the same headers.\<close>

definition header_clean :: "string \<times> string list \<Rightarrow> bool" where
  "header_clean h \<longleftrightarrow> CHR '':'' \<notin> set (fst h) \<and> CHR 0x0A \<notin> set (fst h) \<and>
     (\<forall>w \<in> set (snd h). w \<noteq> [] \<and> CHR '' '' \<notin> set w \<and> CHR 0x0A \<notin> set w)"

lemma header_line_newline: "header_clean h \<Longrightarrow> CHR 0x0A \<notin> set (header_line h)"
  by (cases h) (auto simp: header_clean_def header_line_def dest: set_join_with)

lemma header_line_inject:
  assumes "header_clean g" "header_clean h" "header_line g = header_line h"
  shows "g = h"
proof -
  obtain n ws m vs where g: "g = (n, ws)" and h: "h = (m, vs)" by (cases g, cases h) blast
  have "n = m"
    using takeWhile_no_sep [of "CHR '':''" n "join_with (CHR '' '') ws"] takeWhile_no_sep [of "CHR '':''" m "join_with (CHR '' '') vs"] assms
    by (simp add: g h header_line_def header_clean_def)
  then have "join_with (CHR '' '') ws = join_with (CHR '' '') vs" using assms(3) by (simp add: g h header_line_def)
  then have "ws = vs"
    using assms(1,2) unfolding g h header_clean_def by (intro join_words_inject [of ws "CHR '' ''" vs]) auto
  then show ?thesis using \<open>n = m\<close> by (simp add: g h)
qed

lemma header_block_inject:
  assumes "list_all header_clean xs" "list_all header_clean ys"
    "concat (map (\<lambda>l. header_line l @ newline) xs) @ newline @ s = concat (map (\<lambda>l. header_line l @ newline) ys) @ newline @ t"
  shows "xs = ys \<and> s = t"
  using assms
proof (induction xs arbitrary: ys)
  case Nil
  show ?case
  proof (cases ys)
    case (Cons y zs)
    have "[] @ newline @ s = header_line y @ newline @ concat (map (\<lambda>l. header_line l @ newline) zs) @ newline @ t"
      using Nil.prems Cons by simp
    from line_inject [OF _ header_line_newline this] Nil.prems Cons have "[] = header_line y" by simp
    then show ?thesis by (cases y) (simp add: header_line_def)
  qed (use Nil.prems in simp)
next
  case (Cons x xs)
  show ?case
  proof (cases ys)
    case Nil
    have "header_line x @ newline @ concat (map (\<lambda>l. header_line l @ newline) xs) @ newline @ s = [] @ newline @ t"
      using Cons.prems Nil by simp
    from line_inject [OF header_line_newline _ this] Cons.prems have "header_line x = []" by simp
    then show ?thesis by (cases x) (simp add: header_line_def)
  next
    case (Cons y zs)
    note ys = Cons
    have clean: "header_clean x" "header_clean y" "list_all header_clean xs" "list_all header_clean zs"
      using Cons.prems ys by simp_all
    have "header_line x @ newline @ concat (map (\<lambda>l. header_line l @ newline) xs) @ newline @ s =
        header_line y @ newline @ concat (map (\<lambda>l. header_line l @ newline) zs) @ newline @ t"
      using Cons.prems ys by simp
    from line_inject [OF header_line_newline [OF clean(1)] header_line_newline [OF clean(2)] this]
    have "header_line x = header_line y"
      "concat (map (\<lambda>l. header_line l @ newline) xs) @ newline @ s = concat (map (\<lambda>l. header_line l @ newline) zs) @ newline @ t"
      by blast+
    then show ?thesis using header_line_inject [OF clean(1,2)] Cons.IH [OF clean(3,4)] ys by blast
  qed
qed

text \<open>No name and no value of a header holds a newline, and no name a colon: what HTTP allows in a field.\<close>

definition headers_clean :: "pairs \<Rightarrow> bool" where
  "headers_clean headers \<longleftrightarrow> list_all (\<lambda>(k, v). CHR '':'' \<notin> set k \<and> CHR 0x0A \<notin> set k \<and> CHR 0x0A \<notin> set v) headers"

lemma tolower_plain: "tolower c = CHR 0x0A \<longleftrightarrow> c = CHR 0x0A" "tolower c = CHR '':'' \<longleftrightarrow> c = CHR '':''"
proof -
  have up: "of_char (tolower c) = (of_char c + 32 :: nat)" if "isupper c"
    using that by (simp add: tolower_def isupper_def)
  have "tolower c = d \<longleftrightarrow> c = d" if d: "(of_char d :: nat) < 65" for d
  proof (cases "isupper c")
    case True
    then have "65 \<le> (of_char c :: nat)" by (simp add: isupper_def)
    then have "of_char (tolower c) \<noteq> (of_char d :: nat)" "of_char c \<noteq> (of_char d :: nat)" using up [OF True] d by linarith+
    then show ?thesis by metis
  qed (simp add: tolower_def)
  then show "tolower c = CHR 0x0A \<longleftrightarrow> c = CHR 0x0A" "tolower c = CHR '':'' \<longleftrightarrow> c = CHR '':''" by simp_all
qed

lemma tolower_absent: "CHR 0x0A \<in> set (map tolower k) \<longleftrightarrow> CHR 0x0A \<in> set k" "CHR '':'' \<in> set (map tolower k) \<longleftrightarrow> CHR '':'' \<in> set k"
proof -
  have e: "CHR 0x0A = tolower c \<longleftrightarrow> CHR 0x0A = c" "CHR '':'' = tolower c \<longleftrightarrow> CHR '':'' = c" for c
    using tolower_plain [of c] by metis+
  show "CHR 0x0A \<in> set (map tolower k) \<longleftrightarrow> CHR 0x0A \<in> set k" unfolding list.set_map image_iff e(1) by blast
  show "CHR '':'' \<in> set (map tolower k) \<longleftrightarrow> CHR '':'' \<in> set k" unfolding list.set_map image_iff e(2) by blast
qed

lemma header_words_clean:
  assumes "headers_clean headers"
  shows "list_all header_clean (header_words headers)"
proof -
  have one: "header_clean (name, ws)" if m: "(name, ws) \<in> set (header_words headers)" for name ws
  proof -
    have "map_of (header_words headers) name = Some ws"
      using m header_words_wf [of headers] by (auto simp: map_wf_def strict_sorted_iff)
    then have s: "signed_header headers name = Some ws" by (simp add: header_words_lookup)
    let ?vs = "map snd (filter (\<lambda>(k, v). map tolower k = name) headers)"
    have vs: "?vs \<noteq> []" and ws: "ws = blank_words (join_with (CHR '','') ?vs)"
      using s by (auto simp: signed_header_def Let_def split: if_splits)
    obtain k v where k: "(k, v) \<in> set headers" "map tolower k = name" using vs by (auto simp: filter_empty_conv)
    then have "CHR '':'' \<notin> set k" "CHR 0x0A \<notin> set k" using assms by (auto simp: headers_clean_def list_all_iff)
    then have n: "CHR '':'' \<notin> set name" "CHR 0x0A \<notin> set name" unfolding k(2) [symmetric] tolower_absent by blast+
    have "CHR 0x0A \<notin> set (join_with (CHR '','') ?vs)"
      using assms by (fastforce simp: headers_clean_def list_all_iff dest!: set_join_with)
    then have "w \<noteq> [] \<and> CHR '' '' \<notin> set w \<and> CHR 0x0A \<notin> set w" if "w \<in> set ws" for w
      using blank_words_facts [of w "join_with (CHR '','') ?vs"] that ws by blast
    then show ?thesis using n by (simp add: header_clean_def)
  qed
  then show ?thesis by (auto simp: list_all_iff)
qed

lemma built_block_inject:
  assumes "headers_clean hs" "headers_clean hs'"
  shows "ch_block (BuildCanonicalHeaders hs) @ newline @ ch_names (BuildCanonicalHeaders hs) @ newline @ p =
     ch_block (BuildCanonicalHeaders hs') @ newline @ ch_names (BuildCanonicalHeaders hs') @ newline @ p' \<longleftrightarrow>
   (\<forall>name. signed_header hs name = signed_header hs' name) \<and> p = p'" (is "?l = ?r")
proof
  assume e: ?l
  from header_block_inject [OF header_words_clean [OF assms(1)] header_words_clean [OF assms(2)] e [unfolded built_headers]]
  have w: "header_words hs = header_words hs'" and t: "ch_names (BuildCanonicalHeaders hs) @ newline @ p =
      ch_names (BuildCanonicalHeaders hs') @ newline @ p'" by (auto simp: built_headers)
  have "p = p'" using t by (simp add: built_headers(2) w)
  then show ?r using w by (metis header_words_lookup)
next
  assume r: ?r
  then have "header_words hs = header_words hs'"
    using map_wf_ext [OF header_words_wf [of hs] header_words_wf [of hs']] by (simp add: fun_eq_iff header_words_lookup)
  with r show ?l by (simp add: built_headers)
qed

lemma hex_value: "n < 16 \<Longrightarrow> hex_digit_val (kHexDigits ! n) = n"
proof -
  have "list_all (\<lambda>n. hex_digit_val (kHexDigits ! n) = n) [0..<16]" by code_simp
  then show "n < 16 \<Longrightarrow> ?thesis" by (simp add: list_all_iff)
qed

lemma ToHex_inject: "ToHex a = ToHex b \<longleftrightarrow> a = b"
proof
  have r: "utf8 (ToHex a) = a" for a
  proof (induction a)
    case (Cons c a)
    then show ?case using byte_halves [of c] by (simp add: ToHex_def hex_value)
  qed (simp add: ToHex_def)
  assume "ToHex a = ToHex b"
  then show "a = b" by (metis r)
qed simp

lemma SignRequest_ok:
  assumes "SignRequest sg r d = Ok s"
  shows "length d = 16"
    "ss_canonical_request s = canonical_request_of r (sq_query r) (BuildCanonicalHeaders (sq_headers r))"
    "ss_string_to_sign s = string_to_sign_of sg d (ss_canonical_request s)"
    "ss_signature s = signature_of sg d (ss_string_to_sign s)"
    "ss_authorization s = kAlgorithm @ '' Credential='' @ aw_access_key (sv_credentials sg) @ ''/'' @ SigScope sg d @
       '', SignedHeaders='' @ ss_signed_headers s @ '', Signature='' @ ss_signature s"
proof -
  have v: "ValidateRequest r = Ok ()" and d: "length d = 16"
    using assms by (cases "ValidateRequest r"; simp add: SignRequest_def Ok_def Err_def split: if_splits)+
  note s = assms [unfolded SignRequest_def v Let_def, simplified d, simplified, symmetric]
  show "length d = 16" by (rule d)
  show "ss_canonical_request s = canonical_request_of r (sq_query r) (BuildCanonicalHeaders (sq_headers r))"
    "ss_string_to_sign s = string_to_sign_of sg d (ss_canonical_request s)"
    "ss_signature s = signature_of sg d (ss_string_to_sign s)"
    "ss_authorization s = kAlgorithm @ '' Credential='' @ aw_access_key (sv_credentials sg) @ ''/'' @ SigScope sg d @
       '', SignedHeaders='' @ ss_signed_headers s @ '', Signature='' @ ss_signature s"
    unfolding s by simp_all
qed

text \<open>What makes two requests the same: nothing of it may be dropped, merged or moved from one part to another.\<close>

definition same_request :: "SigV4Request \<Rightarrow> SigV4Request \<Rightarrow> bool" where
  "same_request r r' \<longleftrightarrow> sq_method r = sq_method r' \<and> sq_path r = sq_path r' \<and> mset (sq_query r) = mset (sq_query r') \<and>
     (\<forall>name. signed_header (sq_headers r) name = signed_header (sq_headers r') name) \<and>
     sq_payload_sha256_hex r = sq_payload_sha256_hex r'"

text \<open>\<^bold>\<open>C32\<close>: what \<open>SignRequest\<close> signs. Two requests signed by one signer have the same canonical
  request exactly when they have the same method, path, query parameters (counted with repetitions, in any order), payload
  digest and, under every header name, the same values, in their order and up to the blanks that HTTP does not count. The
  string to sign names the algorithm, the date, the scope and the SHA-256 of that canonical request, and the signature is
  its HMAC under the key derived from the secret, the day, the region and the service. So two requests with the same
  signature are the same request at the same time, unless SHA-256 collides on their two canonical requests or HMAC on
  their two strings to sign.\<close>

theorem signature_covers_request:
  assumes "SignRequest sg r d = Ok s" "SignRequest sg r' d' = Ok s'"
    "CHR 0x0A \<notin> set (sq_method r)" "CHR 0x0A \<notin> set (sq_method r')"
    "list_all (\<lambda>(k, v). CHR '':'' \<notin> set k \<and> CHR 0x0A \<notin> set k \<and> CHR 0x0A \<notin> set v) (sq_headers r @ sq_headers r')"
  shows "(ss_canonical_request s = ss_canonical_request s' \<longleftrightarrow> same_request r r') \<and>
    ss_string_to_sign s = ''AWS4-HMAC-SHA256'' @ [CHR 0x0A] @ d @ [CHR 0x0A] @
      (take 8 d @ ''/'' @ so_region (sv_options sg) @ ''/'' @ so_service (sv_options sg) @ ''/aws4_request'') @ [CHR 0x0A] @
      ToHex (sv_Sha256 sg (ss_canonical_request s)) \<and>
    (let hmac = sv_HmacSha256 sg; secret = ''AWS4'' @ aw_secret_key (sv_credentials sg) in
      ss_signature s = ToHex (hmac (hmac (hmac (hmac (hmac secret (take 8 d)) (so_region (sv_options sg)))
        (so_service (sv_options sg))) ''aws4_request'') (ss_string_to_sign s))) \<and>
    (ss_signature s = ss_signature s' \<longrightarrow>
      same_request r r' \<and> d = d' \<or>
      ss_canonical_request s \<noteq> ss_canonical_request s' \<and>
        sv_Sha256 sg (ss_canonical_request s) = sv_Sha256 sg (ss_canonical_request s') \<or>
      ss_string_to_sign s \<noteq> ss_string_to_sign s')"
proof (intro conjI impI)
  note ok = SignRequest_ok [OF assms(1)] and ok' = SignRequest_ok [OF assms(2)]
  have clean: "headers_clean (sq_headers r)" "headers_clean (sq_headers r')" using assms(5) by (simp_all add: headers_clean_def)
  show canonical: "ss_canonical_request s = ss_canonical_request s' \<longleftrightarrow> same_request r r'"
    unfolding ok(2) ok'(2) canonical_request_eq [OF assms(3,4)] built_block_inject [OF clean] same_request_def by (rule refl)
  show "ss_string_to_sign s = ''AWS4-HMAC-SHA256'' @ [CHR 0x0A] @ d @ [CHR 0x0A] @
      (take 8 d @ ''/'' @ so_region (sv_options sg) @ ''/'' @ so_service (sv_options sg) @ ''/aws4_request'') @ [CHR 0x0A] @
      ToHex (sv_Sha256 sg (ss_canonical_request s))"
    unfolding ok(3) string_to_sign_of_def SigScope_def kSigV4Terminator_def kAlgorithm_def newline_def by simp
  show "let hmac = sv_HmacSha256 sg; secret = ''AWS4'' @ aw_secret_key (sv_credentials sg) in
      ss_signature s = ToHex (hmac (hmac (hmac (hmac (hmac secret (take 8 d)) (so_region (sv_options sg)))
        (so_service (sv_options sg))) ''aws4_request'') (ss_string_to_sign s))"
    unfolding ok(4) signature_of_def DeriveSigningKey_def kSigV4Terminator_def Let_def by (rule refl)
  show "same_request r r' \<and> d = d' \<or>
      ss_canonical_request s \<noteq> ss_canonical_request s' \<and>
        sv_Sha256 sg (ss_canonical_request s) = sv_Sha256 sg (ss_canonical_request s') \<or>
      ss_string_to_sign s \<noteq> ss_string_to_sign s'"
  proof (cases "ss_string_to_sign s = ss_string_to_sign s'")
    case True
    then have d: "d = d'" unfolding ok(3) ok'(3) string_to_sign_of_def using ok(1) ok'(1) by simp
    then have "sv_Sha256 sg (ss_canonical_request s) = sv_Sha256 sg (ss_canonical_request s')"
      using True unfolding ok(3) ok'(3) string_to_sign_of_def by (simp add: ToHex_inject)
    then show ?thesis using canonical d by blast
  qed blast
qed

text \<open>A request that \<open>MakeSigV4Request\<close> builds with a date passes the checks of \<open>SignRequest\<close>.\<close>

lemma made_request_signed:
  assumes "method \<noteq> []" "so_endpoint opt \<noteq> []" "length amz_date = 16"
  shows "is_ok (SignRequest sg (MakeSigV4Request opt method bucket key query extra payload amz_date) amz_date)"
proof -
  have "amz_date \<noteq> []" using assms(3) by auto
  moreover have "LowerCase ''host'' = ''host''" "LowerCase ''x-amz-date'' = ''x-amz-date''" by code_simp+
  ultimately have "ValidateRequest (MakeSigV4Request opt method bucket key query extra payload amz_date) = Ok ()"
    using assms by (simp add: ValidateRequest_def MakeSigV4Request_def Let_def HostFor_def HasHeader_def)
  then show ?thesis using assms(3) by (simp add: SignRequest_def Let_def)
qed

definition sample_signer :: SigV4Signer where
  "sample_signer = \<lparr>sv_Sha256 = (\<lambda>t. t), sv_HmacSha256 = (\<lambda>k m. k @ m),
     sv_credentials = \<lparr>aw_access_key = ''AKID'', aw_secret_key = ''k'', aw_session_token = []\<rparr>,
     sv_options = \<lparr>so_region = ''us-east-1'', so_service = ''s3'', so_force_path_style = True,
      so_endpoint = ''127.0.0.1:9000'', so_scheme = ''http''\<rparr>\<rparr>"

definition sample_sig_request :: "pairs \<Rightarrow> string \<Rightarrow> SigV4Request" where
  "sample_sig_request query meta =
     MakeSigV4Request (sv_options sample_signer) ''GET'' ''bucket'' ''dir/a b'' query [(''X-Amz-Meta'', meta)]
      ''UNSIGNED-PAYLOAD'' ''20130524T000000Z''"

theorem signature_covers_request_witness:
  "\<exists>s1 s2 s3.
     SignRequest sample_signer (sample_sig_request [(''list-type'', ''2''), (''prefix'', ''a&b'')] ''  x  y'') ''20130524T000000Z'' = Ok s1 \<and>
     SignRequest sample_signer (sample_sig_request [(''prefix'', ''a&b''), (''list-type'', ''2'')] ''x y'') ''20130524T000000Z'' = Ok s2 \<and>
     SignRequest sample_signer (sample_sig_request [(''list-type'', ''2''), (''prefix'', ''a''), (''b'', [])] ''x y'') ''20130524T000000Z'' = Ok s3 \<and>
     ss_canonical_request s1 = ss_canonical_request s2 \<and> ss_canonical_request s2 \<noteq> ss_canonical_request s3 \<and>
     ss_signature s2 \<noteq> ss_signature s3"
proof -
  let ?d = "''20130524T000000Z''"
  let ?r1 = "sample_sig_request [(''list-type'', ''2''), (''prefix'', ''a&b'')] ''  x  y''"
  let ?r2 = "sample_sig_request [(''prefix'', ''a&b''), (''list-type'', ''2'')] ''x y''"
  let ?r3 = "sample_sig_request [(''list-type'', ''2''), (''prefix'', ''a''), (''b'', [])] ''x y''"
  have ok: "\<exists>s. SignRequest sample_signer (sample_sig_request q m) ?d = Ok s" for q m
    using made_request_signed [of "''GET''" "sv_options sample_signer" ?d sample_signer "''bucket''" "''dir/a b''" q "[(''X-Amz-Meta'', m)]" "''UNSIGNED-PAYLOAD''"]
    by (cases "SignRequest sample_signer (sample_sig_request q m) ?d")
      (simp_all add: sample_sig_request_def sample_signer_def is_ok_def Ok_def)
  obtain s1 s2 s3 where s: "SignRequest sample_signer ?r1 ?d = Ok s1" "SignRequest sample_signer ?r2 ?d = Ok s2"
      "SignRequest sample_signer ?r3 ?d = Ok s3" using ok by metis
  have m: "CHR 0x0A \<notin> set (sq_method ?r1)" "CHR 0x0A \<notin> set (sq_method ?r2)" "CHR 0x0A \<notin> set (sq_method ?r3)" by code_simp+
  have h: "list_all (\<lambda>(k, v). CHR '':'' \<notin> set k \<and> CHR 0x0A \<notin> set k \<and> CHR 0x0A \<notin> set v) (sq_headers ?r1 @ sq_headers ?r2)"
    "list_all (\<lambda>(k, v). CHR '':'' \<notin> set k \<and> CHR 0x0A \<notin> set k \<and> CHR 0x0A \<notin> set v) (sq_headers ?r2 @ sq_headers ?r3)"
    by code_simp+
  have "header_words (sq_headers ?r1) = header_words (sq_headers ?r2)" by code_simp
  then have "signed_header (sq_headers ?r1) name = signed_header (sq_headers ?r2) name" for name by (metis header_words_lookup)
  then have "same_request ?r1 ?r2" by (simp add: same_request_def sample_sig_request_def MakeSigV4Request_def Let_def add_mset_commute)
  then have e: "ss_canonical_request s1 = ss_canonical_request s2" using signature_covers_request [OF s(1,2) m(1,2) h(1)] by blast
  have "\<not> same_request ?r2 ?r3" by (simp add: same_request_def sample_sig_request_def MakeSigV4Request_def Let_def)
  moreover note c = signature_covers_request [OF s(2,3) m(2,3) h(2)]
  ultimately have n: "ss_canonical_request s2 \<noteq> ss_canonical_request s3" by blast
  have "ss_signature s2 \<noteq> ss_signature s3"
    using n SignRequest_ok(3,4) [OF s(2)] SignRequest_ok(3,4) [OF s(3)]
    by (simp add: signature_of_def string_to_sign_of_def sample_signer_def ToHex_inject)
  with s e n show ?thesis by blast
qed

text \<open>The session token of temporary credentials is no part of a header signature: it is neither added
  to the signed headers nor required there.\<close>

lemma session_token_unsigned:
  "SignRequest (sg\<lparr>sv_credentials := (sv_credentials sg)\<lparr>aw_session_token := t\<rparr>\<rparr>) request amz_date = SignRequest sg request amz_date"
  by (simp add: SignRequest_def string_to_sign_of_def signature_of_def SigScope_def)

lemma presign_bounds: "PresignUrl sg request amz_date n = Ok url \<Longrightarrow> 0 < n \<and> n \<le> 604800"
  by (simp add: PresignUrl_def kMaxPresignSeconds_def split: if_splits)

end
