(* ===== verification/Net.thy ===== *)
theory Net
  imports Messages Result_Type
begin

text \<open>
  \<^verbatim>\<open>common/net\<close>: percent encoding, query strings and URLs.
\<close>

section \<open>Percent encoding\<close>

definition kHexUpper :: string where
  "kHexUpper = ''0123456789ABCDEF''"

definition net_unreserved :: "char \<Rightarrow> bool" where
  "net_unreserved c \<longleftrightarrow> isupper c \<or> islower c \<or> isdigit c \<or>
     c = CHR ''-'' \<or> c = CHR ''.'' \<or> c = CHR ''_'' \<or> c = CHR ''~''"

definition IsSubDelim :: "char \<Rightarrow> bool" where
  "IsSubDelim c \<longleftrightarrow> c \<in> set ''!$&()*+,;='' \<or> c = CHR 0x27"

definition HexValue :: "char \<Rightarrow> int" where
  "HexValue c =
     (let n = of_char c :: nat in
      if isdigit c then int n - 48
      else if 97 \<le> n \<and> n \<le> 102 then int n - 87
      else if 65 \<le> n \<and> n \<le> 70 then int n - 55
      else - 1)"

definition append_encoded :: "bool \<Rightarrow> char \<Rightarrow> string" where
  "append_encoded keep_sub_delims c =
     (if net_unreserved c \<or> keep_sub_delims \<and> (IsSubDelim c \<or> c = CHR '':'' \<or> c = CHR ''@'') then [c]
      else [CHR ''%'', kHexUpper ! (of_char c div 16), kHexUpper ! (of_char c mod 16)])"

definition AppendEncoded :: "string \<Rightarrow> string \<Rightarrow> bool \<Rightarrow> string" where
  "AppendEncoded out t keep_sub_delims = out @ concat (map (append_encoded keep_sub_delims) t)"

definition PercentEncode :: "string \<Rightarrow> string" where
  "PercentEncode t = AppendEncoded [] t False"

definition PercentEncodePathSegment :: "string \<Rightarrow> string" where
  "PercentEncodePathSegment t = AppendEncoded [] t True"

fun decode_percent :: "bool \<Rightarrow> string \<Rightarrow> string \<Rightarrow> string Result" where
  "decode_percent plus_as_space [] out = Ok out"
| "decode_percent plus_as_space (c # t) out =
     (if c = CHR ''%'' then
        (case t of
           a # b # r \<Rightarrow>
             if HexValue a < 0 \<or> HexValue b < 0
             then Err kInvalidArgument (msg_percent_bad @ [a, b] @ [CHR 0x27])
             else decode_percent plus_as_space r (out @ [char_of (nat (16 * HexValue a + HexValue b))])
         | _ \<Rightarrow> Err kInvalidArgument (msg_percent_short @ (c # t) @ [CHR 0x27]))
      else if c = CHR ''+'' \<and> plus_as_space then decode_percent plus_as_space t (out @ '' '')
      else decode_percent plus_as_space t (out @ [c]))"

definition PercentDecode :: "string \<Rightarrow> bool \<Rightarrow> string Result" where
  "PercentDecode t plus_as_space = decode_percent plus_as_space t []"

section \<open>Query strings\<close>

type_synonym QueryParams = "(string \<times> string) list"

definition parse_pair :: "bool \<Rightarrow> string \<Rightarrow> (string \<times> string) Result" where
  "parse_pair plus_as_space p =
     (let has_eq = CHR ''='' \<in> set p;
          raw_key = (if has_eq then before_first (CHR ''='') p else p);
          raw_value = (if has_eq then after_first (CHR ''='') p else []) in
      FSS_TRY (PercentDecode raw_key plus_as_space) (\<lambda>key.
      FSS_TRY (PercentDecode raw_value plus_as_space) (\<lambda>v. Ok (key, v))))"

fun parse_pairs :: "bool \<Rightarrow> string list \<Rightarrow> QueryParams \<Rightarrow> QueryParams Result" where
  "parse_pairs plus_as_space [] params = Ok params"
| "parse_pairs plus_as_space (p # ps) params =
     (if p = [] then parse_pairs plus_as_space ps params
      else FSS_TRY (parse_pair plus_as_space p) (\<lambda>kv. parse_pairs plus_as_space ps (params @ [kv])))"

definition ParseQuery :: "string \<Rightarrow> bool \<Rightarrow> QueryParams Result" where
  "ParseQuery query plus_as_space =
     (let query = (if query \<noteq> [] \<and> hd query = CHR ''?'' then tl query else query) in
      if query = [] then Ok [] else parse_pairs plus_as_space (split_on (CHR ''&'') query) [])"

definition BuildQuery :: "QueryParams \<Rightarrow> string" where
  "BuildQuery params = join_with (CHR ''&'') (map (\<lambda>(k, v). PercentEncode k @ ''='' @ PercentEncode v) params)"

fun GetQueryParam :: "QueryParams \<Rightarrow> string \<Rightarrow> string option" where
  "GetQueryParam [] key = None"
| "GetQueryParam ((k, v) # params) key = (if k = key then Some v else GetQueryParam params key)"

definition GetAllQueryParams :: "QueryParams \<Rightarrow> string \<Rightarrow> string list" where
  "GetAllQueryParams params key = map snd (filter (\<lambda>(k, v). k = key) params)"

text \<open>\<^verbatim>\<open>from_chars\<close> takes an optional minus sign and digits; the whole text has to be used and the value
  to fit 64 bits.\<close>

definition GetIntQueryParam :: "QueryParams \<Rightarrow> string \<Rightarrow> int Result" where
  "GetIntQueryParam params key =
     (case GetQueryParam params key of
        None \<Rightarrow> Err kInvalidArgument (msg_param_missing @ key @ [CHR 0x27])
      | Some s \<Rightarrow>
          if s = [] then Err kInvalidArgument (msg_param_open @ key @ msg_param_empty)
          else
            let neg = hd s = CHR ''-''; ds = (if neg then tl s else s);
                n = (if neg then - int (decimal ds) else int (decimal ds)) in
            if ds = [] \<or> \<not> list_all isdigit ds \<or> \<not> in_i64 n
            then Err kInvalidArgument (msg_param_open @ key @ msg_param_not_int @ s @ [CHR 0x27])
            else Ok n)"

section \<open>URLs\<close>

record Url =
  url_scheme :: string
  url_userinfo :: string
  url_host :: string
  url_port :: nat
  url_has_port :: bool
  url_path :: string
  url_query :: string
  url_fragment :: string
  url_has_fragment :: bool

definition EffectivePort :: "Url \<Rightarrow> nat" where
  "EffectivePort u =
     (if url_has_port u then url_port u
      else if url_scheme u = ''http'' then 80 else if url_scheme u = ''https'' then 443 else 0)"

definition BracketIfIpv6 :: "string \<Rightarrow> string" where
  "BracketIfIpv6 host =
     (if CHR '':'' \<notin> set host then host
      else if host \<noteq> [] \<and> hd host = CHR ''['' then host
      else ''['' @ host @ '']'')"

definition UrlAuthority :: "Url \<Rightarrow> string" where
  "UrlAuthority u =
     (if url_userinfo u \<noteq> [] then url_userinfo u @ ''@'' else []) @ BracketIfIpv6 (url_host u) @
     (if url_has_port u then '':'' @ nat_to_string (url_port u) else [])"

definition PathAndQuery :: "Url \<Rightarrow> string" where
  "PathAndQuery u =
     (if url_path u = [] then ''/'' else url_path u) @ (if url_query u \<noteq> [] then ''?'' @ url_query u else [])"

definition UrlToString :: "Url \<Rightarrow> bool \<Rightarrow> string" where
  "UrlToString u with_fragment =
     url_scheme u @ ''://'' @ UrlAuthority u @ (if url_path u = [] then ''/'' else url_path u) @
     (if url_query u \<noteq> [] then ''?'' @ url_query u else []) @
     (if with_fragment \<and> url_has_fragment u then ''#'' @ url_fragment u else [])"

text \<open>The running value stops at 65535, so it never overflows.\<close>

definition ParsePort :: "string \<Rightarrow> nat option" where
  "ParsePort t =
     (if t = [] \<or> \<not> list_all isdigit t \<or> decimal t > 65535 \<or> decimal t = 0 then None else Some (decimal t))"

definition split_at_first :: "char \<Rightarrow> string \<Rightarrow> string \<times> string option" where
  "split_at_first c t = (if c \<in> set t then (before_first c t, Some (after_first c t)) else (t, None))"

definition split_at_last :: "char \<Rightarrow> string \<Rightarrow> string option \<times> string" where
  "split_at_last c t =
     (case split_at_first c (rev t) of (a, None) \<Rightarrow> (None, t) | (a, Some b) \<Rightarrow> (Some (rev b), rev a))"

fun find_scheme :: "string \<Rightarrow> string \<Rightarrow> (string \<times> string) option" where
  "find_scheme acc t =
     (if starts_with ''://'' t then Some (acc, drop 3 t)
      else (case t of [] \<Rightarrow> None | c # r \<Rightarrow> find_scheme (acc @ [c]) r))"

definition bad_port :: "string \<Rightarrow> 'a Result" where
  "bad_port t = Err kInvalidArgument (msg_port_bad @ t @ [CHR 0x27])"

definition parse_host :: "string \<Rightarrow> (string \<times> nat \<times> bool) Result" where
  "parse_host authority =
     (if authority \<noteq> [] \<and> hd authority = CHR ''['' then
        (case split_at_first (CHR '']'') authority of
           (_, None) \<Rightarrow> Err kInvalidArgument (msg_ipv6_open @ authority @ [CHR 0x27])
         | (inside, Some tail) \<Rightarrow>
             let host = map tolower (drop 1 inside) in
             if tail = [] then Ok (host, 0, False)
             else if hd tail \<noteq> CHR '':''
             then Err kInvalidArgument (msg_ipv6_tail @ tail @ [CHR 0x27])
             else (case ParsePort (tl tail) of None \<Rightarrow> bad_port (tl tail) | Some n \<Rightarrow> Ok (host, n, True)))
      else
        (case split_at_last (CHR '':'') authority of
           (None, _) \<Rightarrow> Ok (map tolower authority, 0, False)
         | (Some host, port) \<Rightarrow>
             (case ParsePort port of None \<Rightarrow> bad_port port | Some n \<Rightarrow> Ok (map tolower host, n, True))))"

definition url_no_host :: "string \<Rightarrow> 'a Result" where
  "url_no_host t = Err kInvalidArgument (msg_url_no_host @ t @ [CHR 0x27])"

definition ParseUrl :: "string \<Rightarrow> Url Result" where
  "ParseUrl t =
     (case find_scheme [] t of
        None \<Rightarrow> Err kInvalidArgument (msg_url_no_scheme @ t @ [CHR 0x27])
      | Some (raw_scheme, rest) \<Rightarrow>
          let scheme = map tolower raw_scheme in
          if scheme \<noteq> ''http'' \<and> scheme \<noteq> ''https''
          then Err kInvalidArgument (msg_url_scheme @ scheme @ [CHR 0x27])
          else
            let (rest, fragment) = split_at_first (CHR ''#'') rest;
                (rest, query) = split_at_first (CHR ''?'') rest;
                (authority, path) = split_at_first (CHR ''/'') rest in
            if authority = [] then url_no_host t
            else
              let (userinfo, authority) = split_at_last (CHR ''@'') authority in
              FSS_TRY (parse_host authority) (\<lambda>(host, port, has_port).
                if host = [] then url_no_host t
                else if list_ex (\<lambda>c. (of_char c :: nat) \<le> 32 \<or> c = CHR 0x7F) host
                then Err kInvalidArgument (msg_url_host_control @ host @ [CHR 0x27])
                else Ok \<lparr>url_scheme = scheme, url_userinfo = (case userinfo of None \<Rightarrow> [] | Some i \<Rightarrow> i),
                         url_host = host, url_port = port, url_has_port = has_port,
                         url_path = (case path of None \<Rightarrow> ''/'' | Some p \<Rightarrow> ''/'' @ p),
                         url_query = (case query of None \<Rightarrow> [] | Some q \<Rightarrow> q),
                         url_fragment = (case fragment of None \<Rightarrow> [] | Some f \<Rightarrow> f),
                         url_has_fragment = (fragment \<noteq> None)\<rparr>))"

definition drop_trailing_slashes :: "string \<Rightarrow> string" where
  "drop_trailing_slashes t =
     (let s = rev (dropWhile (\<lambda>c. c = CHR ''/'') (rev t)) in if s = [] \<and> t \<noteq> [] then take 1 t else s)"

definition AppendPathSegment :: "string \<Rightarrow> string \<Rightarrow> string" where
  "AppendPathSegment base_url segment = drop_trailing_slashes base_url @ ''/'' @ PercentEncodePathSegment segment"

section \<open>Round trips\<close>

lemma hex_upper_value: "n < 16 \<Longrightarrow> HexValue (kHexUpper ! n) = int n"
proof -
  have "list_all (\<lambda>n. HexValue (kHexUpper ! n) = int n) [0..<16]" by code_simp
  then show "n < 16 \<Longrightarrow> ?thesis" by (simp add: list_all_iff)
qed

lemma hex_upper_unreserved: "n < 16 \<Longrightarrow> net_unreserved (kHexUpper ! n)"
proof -
  have "list_all (\<lambda>n. net_unreserved (kHexUpper ! n)) [0..<16]" by code_simp
  then show "n < 16 \<Longrightarrow> ?thesis" by (simp add: list_all_iff)
qed

lemma byte_split: "(of_char c :: nat) div 16 < 16" "char_of (nat (16 * int (of_char c div 16) + int (of_char c mod 16))) = c"
proof -
  show "(of_char c :: nat) div 16 < 16" using nat_of_char_less_256 [of c] by (simp add: less_mult_imp_div_less)
  have "16 * int (of_char c div 16) + int (of_char c mod 16) = int (16 * (of_char c div 16) + of_char c mod 16)" by (simp only: of_nat_add of_nat_mult of_nat_numeral)
  then have "nat (16 * int (of_char c div 16) + int (of_char c mod 16)) = (of_char c :: nat)" by (simp only: mult_div_mod_eq nat_int)
  then show "char_of (nat (16 * int (of_char c div 16) + int (of_char c mod 16))) = c" by (simp only: char_of_char)
qed

lemma decode_append_encoded:
  assumes "\<not> (blanks \<and> keep)"
  shows "decode_percent blanks (append_encoded keep c @ t) out = decode_percent blanks t (out @ [c])"
proof (cases "net_unreserved c \<or> keep \<and> (IsSubDelim c \<or> c = CHR '':'' \<or> c = CHR ''@'')")
  case True
  then have "c \<noteq> CHR ''%''" "\<not> (c = CHR ''+'' \<and> blanks)"
    using assms by (auto simp: net_unreserved_def IsSubDelim_def ctype_defs)
  with True show ?thesis by (auto simp: append_encoded_def)
next
  case False
  then have e: "append_encoded keep c = [CHR ''%'', kHexUpper ! (of_char c div 16), kHexUpper ! (of_char c mod 16)]"
    by (simp only: append_encoded_def if_False)
  show ?thesis unfolding e using byte_split [of c] by (simp add: hex_upper_value)
qed

lemma decode_encoded:
  "\<not> (blanks \<and> keep) \<Longrightarrow> decode_percent blanks (concat (map (append_encoded keep) t)) out = Ok (out @ t)"
  by (induction t arbitrary: out) (simp_all add: decode_append_encoded)

lemma PercentDecode_Encode [simp]: "PercentDecode (PercentEncode t) blanks = Ok t"
  by (simp add: PercentDecode_def PercentEncode_def AppendEncoded_def decode_encoded)

text \<open>A path segment survives only when the decoder leaves plus signs alone.\<close>

lemma PercentDecode_segment: "PercentDecode (PercentEncodePathSegment t) False = Ok t"
  by (simp add: PercentDecode_def PercentEncodePathSegment_def AppendEncoded_def decode_encoded)

lemma append_encoded_alphabet:
  "d \<in> set (append_encoded keep c) \<Longrightarrow> net_unreserved d \<or> d = CHR ''%'' \<or> keep \<and> (IsSubDelim d \<or> d = CHR '':'' \<or> d = CHR ''@'')"
  using byte_split(1) [of c] hex_upper_unreserved by (auto simp: append_encoded_def split: if_splits)

lemma PercentEncode_clean:
  "CHR ''&'' \<notin> set (PercentEncode t)" "CHR ''='' \<notin> set (PercentEncode t)" "CHR ''?'' \<notin> set (PercentEncode t)"
  using append_encoded_alphabet [of _ False]
  by (fastforce simp: PercentEncode_def AppendEncoded_def net_unreserved_def ctype_defs)+

lemma segment_no_slash: "CHR ''/'' \<notin> set (PercentEncodePathSegment t)"
  using append_encoded_alphabet [of _ True]
  by (fastforce simp: PercentEncodePathSegment_def AppendEncoded_def net_unreserved_def IsSubDelim_def ctype_defs)

abbreviation built_pair :: "string \<times> string \<Rightarrow> string" where
  "built_pair \<equiv> (\<lambda>(k, v). PercentEncode k @ ''='' @ PercentEncode v)"

lemma parse_built_pair: "parse_pair blanks (built_pair kv) = Ok kv"
  using PercentEncode_clean(2) [of "fst kv"]
  by (cases kv) (simp add: parse_pair_def Let_def before_first_append after_first_append)

lemma parse_built_pairs: "parse_pairs blanks (map built_pair ps) acc = Ok (acc @ ps)"
proof (induction ps arbitrary: acc)
  case (Cons kv ps)
  have "built_pair kv \<noteq> []" by (cases kv) simp
  then show ?case using Cons parse_built_pair [of blanks kv] by (cases kv) simp
qed simp

text \<open>Building a query string and parsing it gives the parameters back, in order and
  with repetitions, for keys and values of arbitrary bytes, whether or not the parser reads a plus
  sign as a blank. An encoded path segment decodes to itself and never contains a slash.\<close>

theorem query_roundtrip:
  "ParseQuery (BuildQuery params) blanks = Ok params \<and> PercentDecode (PercentEncode t) blanks = Ok t \<and>
   PercentDecode (PercentEncodePathSegment t) False = Ok t \<and> CHR ''/'' \<notin> set (PercentEncodePathSegment t)"
proof -
  have "ParseQuery (BuildQuery params) blanks = Ok params"
  proof (cases params)
    case (Cons kv ps)
    have amp: "CHR ''&'' \<notin> set w" if "w \<in> set (map built_pair params)" for w
      using that PercentEncode_clean by auto
    have s: "split_on (CHR ''&'') (BuildQuery params) = map built_pair params"
      unfolding BuildQuery_def by (rule split_join) (use Cons amp in auto)
    obtain r where r: "BuildQuery params = built_pair kv @ r" by (cases ps) (auto simp: BuildQuery_def Cons)
    then have "BuildQuery params \<noteq> []" by (cases kv) simp
    moreover have "hd (BuildQuery params) \<noteq> CHR ''?''"
    proof
      assume h: "hd (BuildQuery params) = CHR ''?''"
      obtain k v where kv: "kv = (k, v)" by fastforce
      have "hd (PercentEncode k @ ''='' @ PercentEncode v @ r) = CHR ''?''" using h r kv by simp
      then show False using PercentEncode_clean(3) [of k] by (cases "PercentEncode k") auto
    qed
    ultimately show ?thesis using s parse_built_pairs [of blanks params "[]"] by (simp add: ParseQuery_def)
  qed (simp add: ParseQuery_def BuildQuery_def)
  then show ?thesis using PercentDecode_segment segment_no_slash by simp
qed

end
