(* ===== verification/Byte_Range.thy ===== *)
theory Byte_Range
  imports Messages Result_Type
begin

text \<open>
  \<^verbatim>\<open>common/bytes\<close>: the normalisation of \<^verbatim>\<open>Range\<close> headers and the texts of \<^verbatim>\<open>Content-Range\<close>.
\<close>

section \<open>Parsing\<close>

record HttpRange =
  hr_first :: int
  hr_last :: int

datatype RangeStatus = kAbsent | kSingle | kMultiple | kUnsatisfiable | kMalformed

record RangeResult =
  rr_status :: RangeStatus
  rr_ranges :: "HttpRange list"
  rr_detail :: string

definition kMaxRanges :: nat where "kMaxRanges = 32"

fun RangeStatusName :: "RangeStatus \<Rightarrow> string" where
  "RangeStatusName kAbsent = ''absent''"
| "RangeStatusName kSingle = ''single''"
| "RangeStatusName kMultiple = ''multiple''"
| "RangeStatusName kUnsatisfiable = ''unsatisfiable''"
| "RangeStatusName kMalformed = ''malformed''"

definition u64_max :: nat where "u64_max = 18446744073709551615"

fun uint64_loop :: "nat \<Rightarrow> string \<Rightarrow> nat option" where
  "uint64_loop v [] = Some v"
| "uint64_loop v (c # t) =
     (if \<not> isdigit c then None
      else if v > (u64_max - digit_val c) div 10 then None
      else uint64_loop (v * 10 + digit_val c) t)"

definition ParseUint64 :: "string \<Rightarrow> int option" where
  "ParseUint64 t =
     (if t = [] then None
      else (case uint64_loop 0 t of
              None \<Rightarrow> None
            | Some v \<Rightarrow> if v > nat i64_max then None else Some (int v)))"

definition range_blank :: "char \<Rightarrow> bool" where
  "range_blank c \<longleftrightarrow> c = CHR '' '' \<or> c = CHR 0x09"

definition RangeTrim :: "string \<Rightarrow> string" where
  "RangeTrim s = rev (dropWhile range_blank (rev (dropWhile range_blank s)))"

definition Malformed :: "string \<Rightarrow> RangeResult" where
  "Malformed detail = \<lparr>rr_status = kMalformed, rr_ranges = [], rr_detail = detail\<rparr>"

text \<open>One element of the range set: malformed, unsatisfiable or a range.\<close>

datatype range_spec = BadSpec string | Unsatisfiable | Satisfiable HttpRange

definition quoted :: "string \<Rightarrow> string" where
  "quoted t = [CHR 0x27] @ t @ [CHR 0x27]"

definition suffix_spec :: "int \<Rightarrow> string \<Rightarrow> range_spec" where
  "suffix_spec total_size last_text =
     (case ParseUint64 last_text of
        None \<Rightarrow> BadSpec (msg_range_suffix @ quoted last_text)
      | Some n \<Rightarrow>
          if n = 0 then Unsatisfiable
          else if total_size < 0 then BadSpec msg_range_suffix_unknown
          else if total_size = 0 then Unsatisfiable
          else Satisfiable \<lparr>hr_first = (if n \<ge> total_size then 0 else total_size - n), hr_last = total_size - 1\<rparr>)"

definition bounded_spec :: "int \<Rightarrow> string \<Rightarrow> string \<Rightarrow> range_spec" where
  "bounded_spec total_size first_text last_text =
     (case ParseUint64 first_text of
        None \<Rightarrow> BadSpec (msg_range_first @ quoted first_text)
      | Some a \<Rightarrow>
          if last_text = [] then
            if total_size < 0 then Satisfiable \<lparr>hr_first = a, hr_last = i64_max\<rparr>
            else if a \<ge> total_size then Unsatisfiable
            else Satisfiable \<lparr>hr_first = a, hr_last = total_size - 1\<rparr>
          else (case ParseUint64 last_text of
                  None \<Rightarrow> BadSpec (msg_range_last @ quoted last_text)
                | Some b \<Rightarrow>
                    if b < a then BadSpec (msg_range_order @ to_string a @ ''-'' @ to_string b)
                    else if total_size \<ge> 0 then
                      if a \<ge> total_size then Unsatisfiable
                      else Satisfiable \<lparr>hr_first = a, hr_last = min b (total_size - 1)\<rparr>
                    else Satisfiable \<lparr>hr_first = a, hr_last = b\<rparr>))"

definition parse_spec :: "int \<Rightarrow> string \<Rightarrow> range_spec" where
  "parse_spec total_size spec =
     (if CHR ''-'' \<notin> set spec then BadSpec (msg_range_dash @ quoted spec)
      else
        let first_text = RangeTrim (before_first (CHR ''-'') spec);
            last_text = RangeTrim (after_first (CHR ''-'') spec) in
        if first_text = [] \<and> last_text = [] then BadSpec msg_range_both_empty
        else if first_text = [] then suffix_spec total_size last_text
        else bounded_spec total_size first_text last_text)"

text \<open>The loop over the comma-separated elements. It stops at the end of the text, so an empty element
  after the last comma is not looked at.\<close>

fun range_loop :: "int \<Rightarrow> string list \<Rightarrow> HttpRange list \<Rightarrow> nat \<Rightarrow> nat \<Rightarrow> string + (HttpRange list \<times> nat)" where
  "range_loop total_size [] sat unsat specs = Inr (sat, unsat)"
| "range_loop total_size (w # ws) sat unsat specs =
     (if w = [] \<and> ws = [] then Inr (sat, unsat)
      else
        let spec = RangeTrim w in
        if spec = [] then
          if specs = 0 \<and> ws = [] then Inl msg_range_empty
          else range_loop total_size ws sat unsat specs
        else if specs + 1 > kMaxRanges then Inl (msg_range_too_many @ to_string (int kMaxRanges))
        else (case parse_spec total_size spec of
                BadSpec d \<Rightarrow> Inl d
              | Unsatisfiable \<Rightarrow> range_loop total_size ws sat (unsat + 1) (specs + 1)
              | Satisfiable r \<Rightarrow> range_loop total_size ws (sat @ [r]) unsat (specs + 1)))"

definition ParseRangeHeader :: "string \<Rightarrow> int \<Rightarrow> RangeResult" where
  "ParseRangeHeader header_value total_size =
     (let header = RangeTrim header_value in
      if header = [] then \<lparr>rr_status = kAbsent, rr_ranges = [], rr_detail = []\<rparr>
      else if CHR ''='' \<notin> set header then Malformed msg_range_eq
      else
        let unit = map tolower (RangeTrim (before_first (CHR ''='') header));
            range_set = RangeTrim (after_first (CHR ''='') header) in
        if unit \<noteq> ''bytes'' then Malformed (msg_range_unit @ quoted unit)
        else if range_set = [] then Malformed msg_range_no_set
        else (case range_loop total_size (split_on (CHR '','') range_set) [] 0 0 of
                Inl d \<Rightarrow> Malformed d
              | Inr (sat, unsat) \<Rightarrow>
                  if sat = [] then
                    if unsat > 0
                    then \<lparr>rr_status = kUnsatisfiable, rr_ranges = [],
                          rr_detail = msg_range_unsatisfiable @ to_string total_size @ msg_close_paren\<rparr>
                    else Malformed msg_range_none
                  else \<lparr>rr_status = (if length sat = 1 then kSingle else kMultiple), rr_ranges = sat, rr_detail = []\<rparr>))"

section \<open>Response headers\<close>

definition FormatContentRange :: "HttpRange \<Rightarrow> int \<Rightarrow> string" where
  "FormatContentRange r total_size =
     ''bytes '' @ to_string (hr_first r) @ ''-'' @ to_string (hr_last r) @ ''/'' @
     (if total_size \<ge> 0 then to_string total_size else ''*'')"

definition FormatUnsatisfiedContentRange :: "int \<Rightarrow> string" where
  "FormatUnsatisfiedContentRange total_size = ''bytes */'' @ (if total_size \<ge> 0 then to_string total_size else ''*'')"

definition crlf :: string where "crlf = [CHR 0x0D, CHR 0x0A]"

definition FormatMultipartRangeHeader :: "string \<Rightarrow> HttpRange \<Rightarrow> int \<Rightarrow> string \<Rightarrow> string" where
  "FormatMultipartRangeHeader boundary r total_size content_type =
     ''--'' @ boundary @ crlf @ ''Content-Type: '' @
     (if content_type = [] then ''application/octet-stream'' else content_type) @
     crlf @ ''Content-Range: '' @ FormatContentRange r total_size @ crlf @ crlf"

section \<open>Numbers\<close>

lemma uint64_loop_decimal:
  "v \<le> u64_max \<Longrightarrow> uint64_loop v t =
     (if list_all isdigit t \<and> foldl (\<lambda>n c. n * 10 + digit_val c) v t \<le> u64_max
      then Some (foldl (\<lambda>n c. n * 10 + digit_val c) v t) else None)"
proof (induction t arbitrary: v)
  case (Cons c t)
  show ?case
  proof (cases "isdigit c")
    case True
    have d: "digit_val c < 10" by (rule digit_val_less [OF True])
    have step: "v > (u64_max - digit_val c) div 10 \<longleftrightarrow> v * 10 + digit_val c > u64_max"
      using d by (simp add: u64_max_def) linarith
    show ?thesis
    proof (cases "v * 10 + digit_val c \<le> u64_max")
      case False
      have "v * 10 + digit_val c \<le> foldl (\<lambda>n c. n * 10 + digit_val c) (v * 10 + digit_val c) t"
        unfolding decimal_foldl by (simp add: trans_le_add1)
      then show ?thesis using False step True by auto
    qed (use Cons.IH True step in auto)
  qed simp
qed simp

lemma ParseUint64_iff: "ParseUint64 t = Some n \<longleftrightarrow> t \<noteq> [] \<and> list_all isdigit t \<and> n = int (decimal t) \<and> n \<le> i64_max"
proof -
  have "foldl (\<lambda>n c. n * 10 + digit_val c) 0 t = decimal t" using decimal_foldl [of 0 t] by simp
  then have "uint64_loop 0 t = (if list_all isdigit t \<and> decimal t \<le> u64_max then Some (decimal t) else None)"
    using uint64_loop_decimal [of 0 t] by simp
  moreover have "decimal t \<le> u64_max" if "int (decimal t) \<le> i64_max" using that by (simp add: u64_max_def i64_max_def)
  moreover have "\<not> decimal t > nat i64_max \<longleftrightarrow> int (decimal t) \<le> i64_max" by (simp add: i64_max_def) linarith
  ultimately show ?thesis by (auto simp: ParseUint64_def)
qed

lemma ParseUint64_nonneg: "ParseUint64 t = Some n \<Longrightarrow> 0 \<le> n"
  by (simp add: ParseUint64_iff)

lemma ParseUint64_to_string: "0 \<le> n \<Longrightarrow> n \<le> i64_max \<Longrightarrow> ParseUint64 (to_string n) = Some n"
  using nat_to_string_digits by (auto simp: ParseUint64_iff to_string_def list_all_iff)

section \<open>Every range lies in the object\<close>

definition in_object :: "int \<Rightarrow> HttpRange \<Rightarrow> bool" where
  "in_object total_size r \<longleftrightarrow> 0 \<le> hr_first r \<and> hr_first r \<le> hr_last r \<and> hr_last r < total_size"

lemma parse_spec_in_object:
  assumes "parse_spec total_size spec = Satisfiable r" "0 \<le> total_size"
  shows "in_object total_size r"
proof -
  have "in_object total_size r" if "suffix_spec total_size t = Satisfiable r" for t
    using that assms(2) ParseUint64_nonneg
    by (force simp: suffix_spec_def in_object_def split: option.splits if_splits)
  moreover have "in_object total_size r" if "bounded_spec total_size t u = Satisfiable r" for t u
    using that assms(2) ParseUint64_nonneg
    by (force simp: bounded_spec_def in_object_def split: option.splits if_splits)
  ultimately show ?thesis using assms(1) by (auto simp: parse_spec_def Let_def split: if_splits)
qed

lemma range_loop_in_object:
  "range_loop total_size ws sat unsat specs = Inr (sat', unsat') \<Longrightarrow> 0 \<le> total_size \<Longrightarrow> list_all (in_object total_size) sat \<Longrightarrow>
   length sat \<le> specs \<Longrightarrow> specs \<le> kMaxRanges \<Longrightarrow> list_all (in_object total_size) sat' \<and> length sat' \<le> kMaxRanges"
proof (induction total_size ws sat unsat specs arbitrary: sat' unsat' rule: range_loop.induct)
  case (2 total_size w ws sat unsat specs)
  show ?case
  proof (cases "w = [] \<and> ws = [] \<or> RangeTrim w = [] \<or> (\<exists>d. parse_spec total_size (RangeTrim w) = BadSpec d)")
    case True
    then show ?thesis using 2 by (auto simp: Let_def split: if_splits)
  next
    case False
    then show ?thesis using "2.IH"(2,3) "2.prems" parse_spec_in_object [of total_size "RangeTrim w"]
      by (cases "parse_spec total_size (RangeTrim w)") (auto simp: Let_def split: if_splits)
  qed
qed simp

section \<open>The three written forms\<close>

definition byte_range_text :: "int option \<Rightarrow> int option \<Rightarrow> string" where
  "byte_range_text a b =
     (case a of None \<Rightarrow> [] | Some n \<Rightarrow> to_string n) @ ''-'' @ (case b of None \<Rightarrow> [] | Some n \<Rightarrow> to_string n)"

lemma RangeTrim_id: "list_all (\<lambda>c. \<not> range_blank c) s \<Longrightarrow> RangeTrim s = s"
proof -
  assume "list_all (\<lambda>c. \<not> range_blank c) s"
  then have "dropWhile range_blank s = s" "dropWhile range_blank (rev s) = rev s"
    by (auto simp: dropWhile_eq_self_iff list_all_iff hd_rev)
  then show ?thesis by (simp add: RangeTrim_def)
qed

lemma RangeTrim_Nil [simp]: "RangeTrim [] = []"
  by (simp add: RangeTrim_def)

lemma digit_not_blank: "isdigit c \<Longrightarrow> \<not> range_blank c"
  by (auto simp: range_blank_def isdigit_def)

lemma to_string_digits: "0 \<le> n \<Longrightarrow> c \<in> set (to_string n) \<Longrightarrow> isdigit c"
  using nat_to_string_digits by (simp add: to_string_def)

lemma to_string_plain [simp]:
  assumes "0 \<le> n"
  shows "CHR ''-'' \<notin> set (to_string n)" "CHR '','' \<notin> set (to_string n)" "RangeTrim (to_string n) = to_string n"
    "to_string n \<noteq> []"
proof -
  show "CHR ''-'' \<notin> set (to_string n)" "CHR '','' \<notin> set (to_string n)"
    using to_string_digits [OF assms] by (fastforce simp: isdigit_def)+
  show "RangeTrim (to_string n) = to_string n"
    using to_string_digits [OF assms] digit_not_blank by (intro RangeTrim_id) (simp add: list_all_iff)
  show "to_string n \<noteq> []" using assms by (simp add: to_string_def)
qed

definition one_range :: "int \<Rightarrow> range_spec \<Rightarrow> RangeResult" where
  "one_range total_size sp =
     (case sp of
        BadSpec d \<Rightarrow> Malformed d
      | Unsatisfiable \<Rightarrow> \<lparr>rr_status = kUnsatisfiable, rr_ranges = [],
          rr_detail = msg_range_unsatisfiable @ to_string total_size @ msg_close_paren\<rparr>
      | Satisfiable r \<Rightarrow> \<lparr>rr_status = kSingle, rr_ranges = [r], rr_detail = []\<rparr>)"

lemma header_one:
  assumes "list_all (\<lambda>c. \<not> range_blank c \<and> c \<noteq> CHR '','') t" "t \<noteq> []"
  shows "ParseRangeHeader (''bytes='' @ t) total_size = one_range total_size (parse_spec total_size t)"
proof -
  have [simp]: "RangeTrim t = t" using assms(1) by (intro RangeTrim_id) (simp add: list_all_iff)
  define h where "h = ''bytes='' @ t"
  have "RangeTrim h = h"
    unfolding h_def using assms(1) by (intro RangeTrim_id) (auto simp: list_all_iff range_blank_def)
  then have h: "RangeTrim h = h" "CHR ''='' \<in> set h" "h \<noteq> []"
    by (simp_all add: h_def)
  have u: "RangeTrim ''bytes'' = ''bytes''" by (rule RangeTrim_id) (simp add: range_blank_def)
  have b: "before_first (CHR ''='') h = ''bytes''" "after_first (CHR ''='') h = t"
    using before_first_append [of "CHR ''=''" "''bytes''" t] after_first_append [of "CHR ''=''" "''bytes''" t]
    by (simp_all add: h_def)
  have sp: "split_on (CHR '','') t = [t]" using assms by (intro split_on_no_sep) (auto simp: list_all_iff)
  have low: "map tolower ''bytes'' = ''bytes''" by code_simp
  have "range_loop total_size [t] [] 0 0 =
      (case parse_spec total_size t of BadSpec d \<Rightarrow> Inl d | Unsatisfiable \<Rightarrow> Inr ([], 1) | Satisfiable r \<Rightarrow> Inr ([r], 0))"
    using assms(2) by (simp add: Let_def kMaxRanges_def split: range_spec.split)
  then have "ParseRangeHeader h total_size = one_range total_size (parse_spec total_size t)"
    using assms(2) h b
    by (simp add: ParseRangeHeader_def Let_def one_range_def u sp low split: range_spec.split del: list.map)
  then show ?thesis by (simp only: h_def)
qed

lemma parse_bounded:
  assumes "0 \<le> a" "a \<le> i64_max" "0 \<le> b" "b \<le> i64_max"
  shows "parse_spec total_size (byte_range_text (Some a) (Some b)) =
    (if b < a then BadSpec (msg_range_order @ to_string a @ ''-'' @ to_string b)
     else if total_size \<ge> 0 then
       if a \<ge> total_size then Unsatisfiable else Satisfiable \<lparr>hr_first = a, hr_last = min b (total_size - 1)\<rparr>
     else Satisfiable \<lparr>hr_first = a, hr_last = b\<rparr>)"
  using assms by (simp add: parse_spec_def byte_range_text_def str_simps bounded_spec_def ParseUint64_to_string Let_def)

lemma parse_open:
  assumes "0 \<le> a" "a \<le> i64_max" "0 \<le> total_size"
  shows "parse_spec total_size (byte_range_text (Some a) None) =
    (if a \<ge> total_size then Unsatisfiable else Satisfiable \<lparr>hr_first = a, hr_last = total_size - 1\<rparr>)"
  using assms by (simp add: parse_spec_def byte_range_text_def str_simps bounded_spec_def ParseUint64_to_string Let_def)

lemma parse_suffix:
  assumes "0 \<le> n" "n \<le> i64_max" "0 \<le> total_size"
  shows "parse_spec total_size (byte_range_text None (Some n)) =
    (if n = 0 \<or> total_size = 0 then Unsatisfiable
     else Satisfiable \<lparr>hr_first = max 0 (total_size - n), hr_last = total_size - 1\<rparr>)"
  using assms before_first_append [of "CHR ''-''" "[]"] after_first_append [of "CHR ''-''" "[]"]
  by (simp add: parse_spec_def byte_range_text_def suffix_spec_def ParseUint64_to_string Let_def)

lemma byte_range_text_plain:
  assumes "\<forall>n \<in> set_option a \<union> set_option b. 0 \<le> n"
  shows "list_all (\<lambda>c. \<not> range_blank c \<and> c \<noteq> CHR '','') (byte_range_text a b)" "byte_range_text a b \<noteq> []"
proof -
  have "\<not> range_blank c \<and> c \<noteq> CHR '',''" if "0 \<le> n" "c \<in> set (to_string n)" for n c
    using to_string_digits [OF that] digit_not_blank [of c] by (auto simp: isdigit_def)
  then show "list_all (\<lambda>c. \<not> range_blank c \<and> c \<noteq> CHR '','') (byte_range_text a b)"
    using assms by (auto simp: byte_range_text_def list_all_iff range_blank_def split: option.splits)
qed (simp add: byte_range_text_def)

lemmas header_text = header_one [OF byte_range_text_plain(1,2)]

lemma range_header_parts:
  assumes "0 \<le> total_size" "0 \<le> a" "a \<le> i64_max" "0 \<le> b" "b \<le> i64_max"
  shows "let r = ParseRangeHeader h total_size in
      (rr_ranges r \<noteq> [] \<longleftrightarrow> rr_status r \<in> {kSingle, kMultiple}) \<and>
      (rr_status r = kSingle \<longleftrightarrow> length (rr_ranges r) = 1) \<and> length (rr_ranges r) \<le> kMaxRanges \<and>
      list_all (in_object total_size) (rr_ranges r)"
    and "ParseRangeHeader (''bytes='' @ byte_range_text (Some a) (Some b)) total_size =
      one_range total_size
        (if b < a then BadSpec (msg_range_order @ to_string a @ ''-'' @ to_string b)
         else if a \<ge> total_size then Unsatisfiable
         else Satisfiable \<lparr>hr_first = a, hr_last = min b (total_size - 1)\<rparr>)"
    and "ParseRangeHeader (''bytes='' @ byte_range_text (Some a) None) total_size =
      one_range total_size
        (if a \<ge> total_size then Unsatisfiable else Satisfiable \<lparr>hr_first = a, hr_last = total_size - 1\<rparr>)"
    and "ParseRangeHeader (''bytes='' @ byte_range_text None (Some b)) total_size =
      one_range total_size
        (if b = 0 \<or> total_size = 0 then Unsatisfiable
         else Satisfiable \<lparr>hr_first = max 0 (total_size - b), hr_last = total_size - 1\<rparr>)"
proof -
  have loop: "list_all (in_object total_size) sat \<and> length sat \<le> kMaxRanges"
    if "range_loop total_size ws [] 0 0 = Inr (sat, unsat)" for ws sat unsat
    using range_loop_in_object [OF that assms(1)] by simp
  show "let r = ParseRangeHeader h total_size in
      (rr_ranges r \<noteq> [] \<longleftrightarrow> rr_status r \<in> {kSingle, kMultiple}) \<and>
      (rr_status r = kSingle \<longleftrightarrow> length (rr_ranges r) = 1) \<and> length (rr_ranges r) \<le> kMaxRanges \<and>
      list_all (in_object total_size) (rr_ranges r)"
    using loop by (auto simp: ParseRangeHeader_def Malformed_def kMaxRanges_def Let_def split: sum.splits)
qed (subst header_text; use assms in \<open>simp add: parse_bounded parse_open parse_suffix\<close>)+

text \<open>\<^bold>\<open>C33\<close>: for an object of known length, whatever the \<^verbatim>\<open>Range\<close> header says, the result holds a range exactly
  when its status is single (one range) or multiple, there are at most 32 of them, and every one of them is
  non-empty and lies inside the object, so no length computed from it can underflow. The three written forms
  mean what RFC 7233 says: \<^verbatim>\<open>a-b\<close> is cut at the end of the object and refused as malformed when reversed, \<^verbatim>\<open>a-\<close> runs to
  the end, \<^verbatim>\<open>-n\<close> is the last \<^verbatim>\<open>n\<close> bytes or the whole object, and a form that starts beyond the end is
  unsatisfiable.\<close>

theorem range_header:
  assumes "0 \<le> total_size" "0 \<le> a" "a \<le> i64_max" "0 \<le> b" "b \<le> i64_max"
  shows "(let r = ParseRangeHeader h total_size in
      (rr_ranges r \<noteq> [] \<longleftrightarrow> rr_status r \<in> {kSingle, kMultiple}) \<and>
      (rr_status r = kSingle \<longleftrightarrow> length (rr_ranges r) = 1) \<and> length (rr_ranges r) \<le> kMaxRanges \<and>
      list_all (in_object total_size) (rr_ranges r)) \<and>
    (ParseRangeHeader (''bytes='' @ byte_range_text (Some a) (Some b)) total_size =
      one_range total_size
        (if b < a then BadSpec (msg_range_order @ to_string a @ ''-'' @ to_string b)
         else if a \<ge> total_size then Unsatisfiable
         else Satisfiable \<lparr>hr_first = a, hr_last = min b (total_size - 1)\<rparr>)) \<and>
    (ParseRangeHeader (''bytes='' @ byte_range_text (Some a) None) total_size =
      one_range total_size
        (if a \<ge> total_size then Unsatisfiable else Satisfiable \<lparr>hr_first = a, hr_last = total_size - 1\<rparr>)) \<and>
    (ParseRangeHeader (''bytes='' @ byte_range_text None (Some b)) total_size =
      one_range total_size
        (if b = 0 \<or> total_size = 0 then Unsatisfiable
         else Satisfiable \<lparr>hr_first = max 0 (total_size - b), hr_last = total_size - 1\<rparr>))"
  using range_header_parts [OF assms] by (intro conjI)

theorem range_header_witness:
  "rr_ranges (ParseRangeHeader (''bytes='' @ byte_range_text (Some 90) (Some 200)) 100) = [\<lparr>hr_first = 90, hr_last = 99\<rparr>] \<and>
   rr_ranges (ParseRangeHeader (''bytes='' @ byte_range_text None (Some 200)) 100) = [\<lparr>hr_first = 0, hr_last = 99\<rparr>]"
proof -
  have "(0::int) \<le> 100" "(0::int) \<le> 90" "90 \<le> i64_max" "(0::int) \<le> 200" "200 \<le> i64_max" by (simp_all add: i64_max_def)
  from range_header [OF this, of "[]"] show ?thesis by (simp add: one_range_def)
qed

end
