(* ===== verification/Http_Message.thy ===== *)
theory Http_Message
  imports Net Byte_Range Error_Contract Time_Format
begin

text \<open>
  \<^verbatim>\<open>common/http/http.h\<close> and the parts of \<^verbatim>\<open>common/http/server.cpp\<close> without state: header collections,
  methods, requests, responses, transport error bodies, server options, and the route table.
\<close>

section \<open>Headers\<close>

type_synonym HeaderMap = "(string \<times> string) list"

definition EqualsNoCase :: "string \<Rightarrow> string \<Rightarrow> bool" where
  "EqualsNoCase a b \<longleftrightarrow> length a = length b \<and> list_all2 (\<lambda>x y. tolower x = tolower y) a b"

fun HeaderSet :: "string \<Rightarrow> string \<Rightarrow> HeaderMap \<Rightarrow> HeaderMap" where
  "HeaderSet name v [] = [(name, v)]"
| "HeaderSet name v ((k, w) # h) = (if EqualsNoCase k name then (k, v) # h else (k, w) # HeaderSet name v h)"

definition HeaderAdd :: "string \<Rightarrow> string \<Rightarrow> HeaderMap \<Rightarrow> HeaderMap" where
  "HeaderAdd name v h = h @ [(name, v)]"

definition HeaderRemove :: "string \<Rightarrow> HeaderMap \<Rightarrow> HeaderMap \<times> bool" where
  "HeaderRemove name h =
     (let h' = filter (\<lambda>(k, v). \<not> EqualsNoCase k name) h in (h', length h' \<noteq> length h))"

fun HeaderGet :: "string \<Rightarrow> HeaderMap \<Rightarrow> string option" where
  "HeaderGet name [] = None"
| "HeaderGet name ((k, v) # h) = (if EqualsNoCase k name then Some v else HeaderGet name h)"

definition HeaderHas :: "string \<Rightarrow> HeaderMap \<Rightarrow> bool" where
  "HeaderHas name h \<longleftrightarrow> HeaderGet name h \<noteq> None"

definition HeaderCount :: "string \<Rightarrow> HeaderMap \<Rightarrow> nat" where
  "HeaderCount name h = length (filter (\<lambda>(k, v). EqualsNoCase k name) h)"

section \<open>Methods\<close>

datatype Method = kGet | kPost | kPut | kDelete | kHead | kOptions | kPatch | kUnknownMethod

definition ParseMethod :: "string \<Rightarrow> Method" where
  "ParseMethod raw =
     (if raw = ''GET'' then kGet else if raw = ''POST'' then kPost else if raw = ''PUT'' then kPut
      else if raw = ''DELETE'' then kDelete else if raw = ''HEAD'' then kHead
      else if raw = ''OPTIONS'' then kOptions else if raw = ''PATCH'' then kPatch else kUnknownMethod)"

fun MethodName :: "Method \<Rightarrow> string" where
  "MethodName kGet = ''GET''"
| "MethodName kPost = ''POST''"
| "MethodName kPut = ''PUT''"
| "MethodName kDelete = ''DELETE''"
| "MethodName kHead = ''HEAD''"
| "MethodName kOptions = ''OPTIONS''"
| "MethodName kPatch = ''PATCH''"
| "MethodName kUnknownMethod = ''UNKNOWN''"

section \<open>Requests and responses\<close>

text \<open>A streamed request body is not part of the record: \<open>hq_streamed\<close> says that the handler reads the body
  through the pump, and what it read is an argument of the handler.\<close>

record HttpRequest =
  hq_method :: Method
  hq_method_raw :: string
  hq_path :: string
  hq_query :: string
  hq_params :: QueryParams
  hq_headers :: HeaderMap
  hq_remote_addr :: string
  hq_correlation_id :: string
  hq_route_name :: string
  hq_body :: string
  hq_streamed :: bool
  hq_is_chunked :: bool
  hq_content_length :: int
  hq_is_head :: bool
  hq_route_params :: "(string \<times> string) list"

fun find_param :: "(string \<times> string) list \<Rightarrow> string \<Rightarrow> string option" where
  "find_param [] name = None"
| "find_param ((k, v) # ps) name = (if k = name then Some v else find_param ps name)"

definition RequestParam :: "HttpRequest \<Rightarrow> string \<Rightarrow> string option" where
  "RequestParam req name = find_param (hq_route_params req) name"

definition RequestQuery :: "HttpRequest \<Rightarrow> string \<Rightarrow> string option" where
  "RequestQuery req name = GetQueryParam (hq_params req) name"

text \<open>A response of the error mapper, with the streamed body that a download adds; the source of the bytes is
  whatever the caller of the model chooses.\<close>

record 'src HttpResponse = Response +
  resp_stream :: "'src option"
  resp_stream_length :: int

definition EmptyResponse :: "int \<Rightarrow> 'src HttpResponse" where
  "EmptyResponse status =
     \<lparr>resp_status = status, resp_headers = [], resp_body = [], resp_stream = None, resp_stream_length = - 1\<rparr>"

definition TextResponse :: "int \<Rightarrow> string \<Rightarrow> 'src HttpResponse" where
  "TextResponse status body =
     (EmptyResponse status)\<lparr>resp_body := body, resp_headers := HeaderSet ''Content-Type'' ''text/plain'' []\<rparr>"

definition JsonResponse :: "int \<Rightarrow> string \<Rightarrow> 'src HttpResponse" where
  "JsonResponse status body =
     (EmptyResponse status)\<lparr>resp_body := body, resp_headers := HeaderSet ''Content-Type'' ''application/json'' []\<rparr>"

definition StreamResponse :: "int \<Rightarrow> string \<Rightarrow> 'src option \<Rightarrow> int \<Rightarrow> 'src HttpResponse" where
  "StreamResponse status content_type source len =
     (EmptyResponse status)\<lparr>resp_stream := source, resp_stream_length := len,
        resp_headers := HeaderSet ''Accept-Ranges'' ''bytes'' (HeaderSet ''Content-Type'' content_type [])\<rparr>"

section \<open>Transport error bodies\<close>

definition dquote :: string where "dquote = [CHR 0x22]"

definition json_escape_char :: "char \<Rightarrow> string" where
  "json_escape_char c =
     (if c = CHR 0x22 then [CHR 0x5C, CHR 0x22]
      else if c = CHR 0x5C then [CHR 0x5C, CHR 0x5C]
      else if c = CHR 0x0A then [CHR 0x5C, CHR ''n'']
      else if c = CHR 0x0D then [CHR 0x5C, CHR ''r'']
      else if c = CHR 0x09 then [CHR 0x5C, CHR ''t'']
      else if (of_char c :: nat) < 32
      then CHR 0x5C # ''u00'' @ [''0123456789abcdef'' ! (of_char c div 16), ''0123456789abcdef'' ! (of_char c mod 16)]
      else [c])"

definition JsonEscape :: "string \<Rightarrow> string" where
  "JsonEscape s = concat (map json_escape_char s)"

definition StatusMessage :: "int \<Rightarrow> string" where
  "StatusMessage status =
     (case map_of [(400, ''Bad Request''), (404, ''Not Found''), (405, ''Method Not Allowed''), (408, ''Request Timeout''),
        (409, ''Conflict''), (413, ''Payload Too Large''), (414, ''URI Too Long''), (416, ''Range Not Satisfiable''),
        (429, ''Too Many Requests''), (431, ''Request Header Fields Too Large''), (500, ''Internal Server Error''),
        (501, ''Not Implemented''), (502, ''Bad Gateway''), (503, ''Service Unavailable'')] status of
        None \<Rightarrow> ''Error'' | Some m \<Rightarrow> m)"

definition member_text :: "string \<Rightarrow> string \<Rightarrow> string" where
  "member_text name v = dquote @ name @ dquote @ '':'' @ v"

definition string_text :: "string \<Rightarrow> string" where
  "string_text v = dquote @ v @ dquote"

definition reasons_text :: "string \<Rightarrow> string" where
  "reasons_text esc = ''['' @ (if esc \<noteq> [] then ''{'' @ member_text ''reason'' (string_text esc) @ ''}'' else []) @ '']''"

definition ErrorBody :: "int \<Rightarrow> string \<Rightarrow> string \<Rightarrow> string" where
  "ErrorBody status detail error_format =
     (let message = StatusMessage status; esc = JsonEscape detail in
      if error_format = ''legacy'' then
        ''{'' @ member_text ''error'' (''{'' @ member_text ''code'' (to_string status) @ '','' @
          member_text ''message'' (string_text message) @ '','' @ member_text ''errors'' (reasons_text esc) @ ''}'') @ ''}''
      else if error_format = ''api_error'' then
        ''{'' @ member_text ''code'' (to_string status) @ '','' @ member_text ''reason'' (string_text message) @ '','' @
          member_text ''message'' (string_text (if esc = [] then message else esc)) @ ''}''
      else
        ''{'' @ member_text ''code'' (to_string status) @ '','' @ member_text ''message'' (string_text message) @ '','' @
          member_text ''details'' (reasons_text esc) @ ''}'')"

section \<open>Server options\<close>

record ServerOptions =
  sopt_bind_address :: string
  sopt_port :: int
  sopt_worker_threads :: int
  sopt_max_connections :: int
  sopt_read_timeout_sec :: int
  sopt_json_request_timeout_sec :: int
  sopt_transfer_idle_timeout_sec :: int
  sopt_transfer_buffer_bytes :: int
  sopt_transfer_memory_budget_bytes :: int
  sopt_error_format :: string

definition default_ServerOptions :: ServerOptions where
  "default_ServerOptions =
     \<lparr>sopt_bind_address = ''0.0.0.0'', sopt_port = 0, sopt_worker_threads = 0, sopt_max_connections = 0,
      sopt_read_timeout_sec = 60, sopt_json_request_timeout_sec = 15, sopt_transfer_idle_timeout_sec = 120,
      sopt_transfer_buffer_bytes = 256 * 1024, sopt_transfer_memory_budget_bytes = 256 * 1024 * 1024,
      sopt_error_format = ''apperror''\<rparr>"

definition ErrorResponse :: "ServerOptions \<Rightarrow> int \<Rightarrow> string \<Rightarrow> 'src HttpResponse" where
  "ErrorResponse options status detail =
     (EmptyResponse status)\<lparr>resp_body := ErrorBody status detail (sopt_error_format options),
        resp_headers := HeaderSet ''Content-Type'' ''application/json'' []\<rparr>"

text \<open>\<^verbatim>\<open>std::thread::hardware_concurrency\<close> is the first argument. The casts to \<^verbatim>\<open>int\<close> keep the low 32 bits.\<close>

definition to_i32 :: "int \<Rightarrow> int" where
  "to_i32 x = (x + 2147483648) mod 4294967296 - 2147483648"

definition DefaultWorkerThreads :: "int \<Rightarrow> ServerOptions \<Rightarrow> int" where
  "DefaultWorkerThreads hw options =
     (let base = to_i32 (if hw = 0 then 8 else hw) * 4;
          n = max 16 base;
          n = (if sopt_transfer_buffer_bytes options > 0 \<and> sopt_transfer_memory_budget_bytes options > 0
               then min n (to_i32 (max 1 (sopt_transfer_memory_budget_bytes options div sopt_transfer_buffer_bytes options)))
               else n) in
      max 1 n)"

definition ValidateOptions :: "int \<Rightarrow> ServerOptions \<Rightarrow> unit Result" where
  "ValidateOptions hw options =
     (if sopt_port options < 0 \<or> sopt_port options > 65535
      then Err kInvalidArgument msg_opt_port
      else if sopt_worker_threads options < 0
      then Err kInvalidArgument msg_opt_workers
      else if sopt_max_connections options < 0
      then Err kInvalidArgument msg_opt_connections
      else
        let workers = (if sopt_worker_threads options > 0 then sopt_worker_threads options else DefaultWorkerThreads hw options);
            need = wrap_i64 (workers * sopt_transfer_buffer_bytes options) in
        if sopt_max_connections options > 0 \<and> sopt_max_connections options > workers
        then Err kInvalidArgument (''max_connections('' @ to_string (sopt_max_connections options) @
               msg_opt_above_workers @ to_string workers @
               msg_opt_queueing)
        else if sopt_transfer_buffer_bytes options \<le> 0
        then Err kInvalidArgument msg_opt_buffer
        else if sopt_transfer_memory_budget_bytes options > 0 \<and> need > sopt_transfer_memory_budget_bytes options
        then Err kInvalidArgument (''worker_threads('' @ to_string workers @ msg_opt_times @
               to_string (sopt_transfer_buffer_bytes options) @ '') = '' @ to_string need @
               msg_opt_over_budget @
               to_string (sopt_transfer_memory_budget_bytes options) @ '')'')
        else if sopt_error_format options \<notin> {''apperror'', ''legacy'', ''api_error''}
        then Err kInvalidArgument (msg_opt_format @ sopt_error_format options)
        else Ok ())"

section \<open>Routes\<close>

record RouteOptions =
  ro_max_body_bytes :: int
  ro_stream_body :: bool
  ro_name :: string
  ro_allow_head :: bool

definition default_RouteOptions :: RouteOptions where
  "default_RouteOptions = \<lparr>ro_max_body_bytes = 10 * 1024 * 1024, ro_stream_body = False, ro_name = [], ro_allow_head = True\<rparr>"

datatype RouteKind = kExact | kParam | kPrefix

record 'h Route =
  rt_method :: Method
  rt_pattern :: string
  rt_options :: RouteOptions
  rt_handler :: 'h
  rt_kind :: RouteKind
  rt_segments :: "string list"
  rt_prefix :: string

definition SplitPath :: "string \<Rightarrow> string list" where
  "SplitPath path = filter (\<lambda>w. w \<noteq> []) (split_on (CHR ''/'') path)"

definition MakeServerRoute :: "Method \<Rightarrow> string \<Rightarrow> RouteOptions \<Rightarrow> 'h \<Rightarrow> 'h Route" where
  "MakeServerRoute method pattern options handler =
     (if length pattern \<ge> 2 \<and> drop (length pattern - 2) pattern = ''/*'' then
        \<lparr>rt_method = method, rt_pattern = pattern, rt_options = options, rt_handler = handler,
         rt_kind = kPrefix, rt_segments = [], rt_prefix = butlast pattern\<rparr>
      else
        \<lparr>rt_method = method, rt_pattern = pattern, rt_options = options, rt_handler = handler,
         rt_kind = (if contains_str ''/:'' pattern then kParam else kExact),
         rt_segments = SplitPath pattern, rt_prefix = []\<rparr>)"

fun match_segments :: "string list \<Rightarrow> string list \<Rightarrow> (string \<times> string) list option" where
  "match_segments [] [] = Some []"
| "match_segments (p # ps) (s # ss) =
     (if p \<noteq> [] \<and> hd p = CHR '':'' then
        (case match_segments ps ss of None \<Rightarrow> None | Some m \<Rightarrow> Some ((tl p, s) # m))
      else if p = s then match_segments ps ss
      else None)"
| "match_segments _ _ = None"

definition route_matches :: "string \<Rightarrow> 'h Route \<Rightarrow> (string \<times> string) list option" where
  "route_matches path r =
     (if rt_kind r = kPrefix then
        if starts_with (rt_prefix r) path then Some [(''*'', drop (length (rt_prefix r)) path)] else None
      else match_segments (rt_segments r) (SplitPath path))"

fun MatchRoute :: "'h Route list \<Rightarrow> Method \<Rightarrow> string \<Rightarrow> ('h Route \<times> (string \<times> string) list) option" where
  "MatchRoute [] method path = None"
| "MatchRoute (r # rs) method path =
     (if rt_method r \<noteq> method then MatchRoute rs method path
      else (case route_matches path r of
              None \<Rightarrow> MatchRoute rs method path
            | Some params \<Rightarrow> Some (r, params)))"

definition AddRoute :: "Method \<Rightarrow> string \<Rightarrow> RouteOptions \<Rightarrow> 'h \<Rightarrow> 'h Route list \<Rightarrow> 'h Route list" where
  "AddRoute method pattern options handler routes =
     routes @ [MakeServerRoute method pattern options handler] @
     (if ro_allow_head options \<and> method = kGet then [MakeServerRoute kHead pattern options handler] else [])"

end
