(* ===== verification/Http_Server.thy ===== *)
theory Http_Server
  imports Http_Message
begin

text \<open>
  \<^verbatim>\<open>common/http/server.cpp\<close>: reading a request body with its limits and timeouts, the pump between the
  reading thread and a streaming handler, range normalisation, and the dispatch of one request.

  The HTTP library is an argument: the parsed request it delivers, and the chunks its content reader
  pushes, each with the steady time in nanoseconds at which it arrives, and whether the reader reports
  success after the last one. In streaming mode the reading thread and the handler run concurrently; a
  schedule, a list of \<open>PumpEvent\<close>s, says in which order they act. A thread that has to wait does nothing when it
  is scheduled.
\<close>

section \<open>The counting receiver\<close>

record CountingReceiver =
  cr_buffer :: "string option"
  cr_limit :: int
  cr_read :: int
  cr_exceeded :: bool
  cr_overall_timeout_ms :: int
  cr_idle_timeout_ms :: int
  cr_started :: int
  cr_last_progress :: int
  cr_timed_out :: bool

definition to_ms :: "int \<Rightarrow> int" where
  "to_ms nanos = tdiv nanos 1000000"

definition Receive :: "int \<Rightarrow> string \<Rightarrow> CountingReceiver \<Rightarrow> CountingReceiver \<times> bool" where
  "Receive now data c =
     (if cr_overall_timeout_ms c > 0 \<and> to_ms (now - cr_started c) > cr_overall_timeout_ms c
      then (c\<lparr>cr_timed_out := True\<rparr>, False)
      else if cr_idle_timeout_ms c > 0 \<and> to_ms (now - cr_last_progress c) > cr_idle_timeout_ms c
      then (c\<lparr>cr_timed_out := True\<rparr>, False)
      else
        let c = (if data \<noteq> [] then c\<lparr>cr_last_progress := now\<rparr> else c) in
        if cr_limit c > 0 \<and> cr_read c + int (length data) > cr_limit c
        then (c\<lparr>cr_exceeded := True\<rparr>, False)
        else (c\<lparr>cr_read := cr_read c + int (length data),
                cr_buffer := (case cr_buffer c of None \<Rightarrow> None | Some b \<Rightarrow> Some (b @ data))\<rparr>, True))"

text \<open>A content reader that pushes its chunks until the receiver refuses one.\<close>

record BodyInput =
  bi_chunks :: "(int \<times> string) list"
  bi_ok :: bool
  bi_start :: int
  bi_end :: int

fun read_body :: "(int \<times> string) list \<Rightarrow> bool \<Rightarrow> CountingReceiver \<Rightarrow> CountingReceiver \<times> bool" where
  "read_body [] ok c = (c, ok)"
| "read_body ((now, data) # chunks) ok c =
     (case Receive now data c of (c, go_on) \<Rightarrow> if go_on then read_body chunks ok c else (c, False))"

section \<open>The body pump\<close>

record BodyPump =
  bp_capacity :: nat
  bp_buf :: string
  bp_buffered :: nat
  bp_pushed :: nat
  bp_consumed :: nat
  bp_finished :: bool
  bp_pump_ok :: bool
  bp_stop :: bool

definition NewBodyPump :: "nat \<Rightarrow> BodyPump" where
  "NewBodyPump capacity =
     \<lparr>bp_capacity = (if capacity = 0 then 64 * 1024 else capacity), bp_buf = [], bp_buffered = 0, bp_pushed = 0,
      bp_consumed = 0, bp_finished = False, bp_pump_ok = True, bp_stop = False\<rparr>"

text \<open>\<^const>\<open>None\<close>: the caller waits.\<close>

definition PumpPush :: "string \<Rightarrow> BodyPump \<Rightarrow> (BodyPump \<times> bool) option" where
  "PumpPush data p =
     (if \<not> (bp_stop p \<or> bp_buffered p < bp_capacity p) then None
      else if bp_stop p then Some (p, False)
      else Some (p\<lparr>bp_buf := bp_buf p @ data, bp_buffered := bp_buffered p + length data,
                   bp_pushed := bp_pushed p + length data\<rparr>, True))"

definition PumpRead :: "nat \<Rightarrow> BodyPump \<Rightarrow> (BodyPump \<times> string Result) option" where
  "PumpRead capacity p =
     (if \<not> (bp_buf p \<noteq> [] \<or> bp_finished p \<or> bp_stop p) then None
      else if bp_buf p \<noteq> [] then
        let n = min capacity (length (bp_buf p)) in
        Some (p\<lparr>bp_buf := drop n (bp_buf p), bp_buffered := bp_buffered p - n, bp_consumed := bp_consumed p + n\<rparr>,
              Ok (take n (bp_buf p)))
      else if \<not> bp_finished p then Some (p, Ok [])
      else if \<not> bp_pump_ok p \<and> \<not> bp_stop p
      then Some (p, Err kInvalidArgument msg_body_read_failed)
      else Some (p, Ok []))"

definition PumpSignalStop :: "BodyPump \<Rightarrow> BodyPump" where
  "PumpSignalStop p = p\<lparr>bp_stop := True\<rparr>"

record PumpRun =
  pr_pump :: BodyPump
  pr_counting :: CountingReceiver
  pr_rest :: "(int \<times> string) list"
  pr_end_ok :: bool
  pr_reads :: "string Result list"

definition pump_finish :: "bool \<Rightarrow> BodyPump \<Rightarrow> BodyPump" where
  "pump_finish ok p = p\<lparr>bp_finished := True, bp_pump_ok := ok\<rparr>"

text \<open>One step of the reading thread: the next chunk goes through the receiver and into the queue.\<close>

definition produce :: "PumpRun \<Rightarrow> PumpRun" where
  "produce s =
     (if bp_finished (pr_pump s) then s
      else (case pr_rest s of
              [] \<Rightarrow> s\<lparr>pr_pump := pump_finish (pr_end_ok s) (pr_pump s)\<rparr>
            | (now, data) # rest \<Rightarrow>
                (case Receive now data (pr_counting s) of
                   (c, False) \<Rightarrow> s\<lparr>pr_pump := pump_finish False (pr_pump s), pr_counting := c, pr_rest := rest\<rparr>
                 | (c, True) \<Rightarrow>
                     (case PumpPush data (pr_pump s) of
                        None \<Rightarrow> s
                      | Some (p, True) \<Rightarrow> s\<lparr>pr_pump := p, pr_counting := c, pr_rest := rest\<rparr>
                      | Some (p, False) \<Rightarrow> s\<lparr>pr_pump := pump_finish False p, pr_counting := c, pr_rest := rest\<rparr>))))"

definition consume :: "nat \<Rightarrow> PumpRun \<Rightarrow> PumpRun" where
  "consume capacity s =
     (case PumpRead capacity (pr_pump s) of
        None \<Rightarrow> s
      | Some (p, r) \<Rightarrow> s\<lparr>pr_pump := p, pr_reads := pr_reads s @ [r]\<rparr>)"

datatype PumpEvent = Produce | Consume nat

fun pump_event :: "PumpEvent \<Rightarrow> PumpRun \<Rightarrow> PumpRun" where
  "pump_event Produce s = produce s"
| "pump_event (Consume n) s = consume n s"

definition pump_events :: "PumpEvent list \<Rightarrow> PumpRun \<Rightarrow> PumpRun" where
  "pump_events sched s = fold pump_event sched s"

text \<open>\<^verbatim>\<open>Stop\<close> signals and joins: a push that finds the stop flag is refused, so one more step ends the thread.\<close>

definition PumpStop :: "PumpRun \<Rightarrow> PumpRun" where
  "PumpStop s = produce (s\<lparr>pr_pump := PumpSignalStop (pr_pump s)\<rparr>)"

section \<open>Requests of the library\<close>

record LibRequest =
  lq_method :: string
  lq_path :: string
  lq_target :: string
  lq_headers :: HeaderMap
  lq_remote_addr :: string
  lq_ranges :: "(int \<times> int) list"

definition get_header_value :: "LibRequest \<Rightarrow> string \<Rightarrow> string" where
  "get_header_value h name = (case HeaderGet name (lq_headers h) of None \<Rightarrow> [] | Some v \<Rightarrow> v)"

text \<open>\<^verbatim>\<open>strtoll\<close> with the check that the whole text was used: blanks, a sign, digits, clamped to 64 bits.\<close>

definition strtoll_all :: "string \<Rightarrow> int option" where
  "strtoll_all text0 =
     (let t = c_str text0; u = dropWhile isspace t;
          neg = (u \<noteq> [] \<and> hd u = CHR ''-'');
          ds = (if u \<noteq> [] \<and> (hd u = CHR ''-'' \<or> hd u = CHR ''+'') then tl u else u);
          v = (if neg then - int (decimal ds) else int (decimal ds)) in
      if t = [] then Some 0
      else if ds = [] \<or> \<not> list_all isdigit ds then None
      else Some (max (- 9223372036854775808) (min i64_max v)))"

definition MakeRequest :: "string \<Rightarrow> LibRequest \<Rightarrow> HttpRequest" where
  "MakeRequest new_uuid src =
     (let query = (if CHR ''?'' \<in> set (lq_target src) then after_first (CHR ''?'') (lq_target src) else []);
          cl = get_header_value src ''Content-Length'' in
      \<lparr>hq_method = ParseMethod (lq_method src), hq_method_raw = lq_method src, hq_path = lq_path src, hq_query = query,
       hq_params = value_or (ParseQuery query True) [], hq_headers = lq_headers src,
       hq_remote_addr = lq_remote_addr src,
       hq_correlation_id =
         (case HeaderGet ''x-correlation-id'' (lq_headers src) of
            Some cid \<Rightarrow> if cid \<noteq> [] then cid else new_uuid | None \<Rightarrow> new_uuid),
       hq_route_name = [], hq_body = [], hq_streamed = False,
       hq_is_chunked = (HeaderHas ''Transfer-Encoding'' (lq_headers src) \<and>
          contains_str ''chunked'' (map tolower (get_header_value src ''Transfer-Encoding''))),
       hq_content_length = (if cl = [] then - 1 else (case strtoll_all cl of None \<Rightarrow> - 1 | Some n \<Rightarrow> n)),
       hq_is_head = (ParseMethod (lq_method src) = kHead), hq_route_params = []\<rparr>)"

section \<open>Statistics and access log\<close>

record ServerStats =
  st_requests_total :: nat
  st_rejected_busy :: nat
  st_rejected_too_large :: nat
  st_body_limit_aborted :: nat
  st_body_length_mismatch :: nat
  st_not_found :: nat
  st_request_timeout :: nat

datatype LogValue = LogText string | LogInt int

definition access_fields :: "HttpRequest \<Rightarrow> 'src HttpResponse \<Rightarrow> int \<Rightarrow> string \<Rightarrow> (string \<times> LogValue) list" where
  "access_fields req res duration_ms note =
     [(''method'', LogText (hq_method_raw req)), (''path'', LogText (hq_path req)),
      (''status'', LogInt (resp_status res)), (''duration_ms'', LogInt duration_ms)] @
     (if hq_correlation_id req \<noteq> [] then [(''correlation_id'', LogText (hq_correlation_id req))] else []) @
     (if hq_remote_addr req \<noteq> [] then [(''remote_addr'', LogText (hq_remote_addr req))] else []) @
     (if hq_route_name req \<noteq> [] then [(''route'', LogText (hq_route_name req))] else []) @
     (if hq_content_length req \<ge> 0 then [(''content_length'', LogInt (hq_content_length req))] else []) @
     (if note \<noteq> [] then [(''note'', LogText note)] else [])"

text \<open>The server as one dispatch sees it: counters, the access log (only kept when the level is enabled) and
  the world the handlers act on.\<close>

record 'w HttpServer =
  hs_options :: ServerOptions
  hs_log_enabled :: bool
  hs_stats :: ServerStats
  hs_log :: "(string \<times> LogValue) list list"
  hs_world :: 'w

definition LogAccess :: "HttpRequest \<Rightarrow> 'src HttpResponse \<Rightarrow> int \<Rightarrow> string \<Rightarrow> 'w HttpServer \<Rightarrow> 'w HttpServer" where
  "LogAccess req res duration_ms note s =
     (if hs_log_enabled s then s\<lparr>hs_log := hs_log s @ [access_fields req res duration_ms note]\<rparr> else s)"

definition on_stats :: "(ServerStats \<Rightarrow> ServerStats) \<Rightarrow> 'w HttpServer \<Rightarrow> 'w HttpServer" where
  "on_stats f s = s\<lparr>hs_stats := f (hs_stats s)\<rparr>"

section \<open>Body errors\<close>

text \<open>The error response and the note, or \<^const>\<open>None\<close> when the body was read completely.\<close>

definition HandleBodyError ::
  "HttpRequest \<Rightarrow> RouteOptions \<Rightarrow> CountingReceiver \<Rightarrow> bool \<Rightarrow> int \<Rightarrow> 'w HttpServer \<Rightarrow>
   'w HttpServer \<times> ('src HttpResponse \<times> string) option" where
  "HandleBodyError req ropt c reader_ok now s =
     (let options = hs_options s in
      if cr_timed_out c then
        (on_stats (st_request_timeout_update Suc) s,
         Some (ErrorResponse options 408 (''request body timed out (no progress within '' @
           to_string (if ro_stream_body ropt then sopt_transfer_idle_timeout_sec options
                      else sopt_json_request_timeout_sec options) @ ''s)''), ''request_body_timeout_408''))
      else if cr_exceeded c then
        let status = (if hq_content_length req \<ge> 0 then 413 else 400) in
        (on_stats (st_rejected_too_large_update Suc) s,
         Some (ErrorResponse options status (''request body exceeds limit '' @ to_string (ro_max_body_bytes ropt) @ '' bytes''),
               if status = 413 then ''body_too_large_413'' else ''body_too_large_400''))
      else if \<not> reader_ok \<and> cr_idle_timeout_ms c > 0 \<and> to_ms (now - cr_last_progress c) \<ge> cr_idle_timeout_ms c then
        (on_stats (st_request_timeout_update Suc) s,
         Some (ErrorResponse options 408 (''request body timed out (no progress for '' @
           to_string (tdiv (cr_idle_timeout_ms c) 1000) @ ''s)''), ''request_body_idle_timeout_408''))
      else if hq_content_length req \<ge> 0 \<and> cr_read c \<noteq> hq_content_length req then
        (on_stats (st_body_length_mismatch_update Suc) s,
         Some (ErrorResponse options 400 (''content-length mismatch: declared '' @ to_string (hq_content_length req) @
           '', read '' @ to_string (cr_read c)), ''content_length_mismatch''))
      else if \<not> reader_ok then
        (on_stats (st_body_limit_aborted_update Suc) s,
         Some (ErrorResponse options 400 ''failed to read request body'', ''body_read_failed''))
      else (s, None))"

section \<open>Ranges\<close>

definition drop_range :: "LibRequest \<Rightarrow> LibRequest" where
  "drop_range h = h\<lparr>lq_ranges := [], lq_headers := fst (HeaderRemove ''Range'' (lq_headers h))\<rparr>"

definition NormalizeRange ::
  "ServerOptions \<Rightarrow> ('src \<Rightarrow> bool) \<Rightarrow> LibRequest \<Rightarrow> 'src HttpResponse \<Rightarrow> string \<Rightarrow> LibRequest \<times> 'src HttpResponse \<times> string" where
  "NormalizeRange options seekable h res note =
     (let range_header = get_header_value h ''Range''; total_size = resp_stream_length res in
      case resp_stream res of
        None \<Rightarrow> (h, res, note)
      | Some source \<Rightarrow>
          if range_header = [] \<or> total_size < 0 then (h, res, note)
          else
            let parsed = ParseRangeHeader range_header total_size in
            (case rr_status parsed of
               kAbsent \<Rightarrow> (h, res, note)
             | kMalformed \<Rightarrow> (drop_range h, res, ''malformed_range_ignored'')
             | kUnsatisfiable \<Rightarrow>
                 let err = ErrorResponse options 416 (rr_detail parsed) in
                 (h\<lparr>lq_ranges := []\<rparr>,
                  err\<lparr>resp_headers := HeaderSet ''Content-Range'' (FormatUnsatisfiedContentRange total_size) (resp_headers err)\<rparr>,
                  ''range_unsatisfiable_416'')
             | _ \<Rightarrow>
                 if rr_status parsed = kMultiple \<and> \<not> seekable source
                 then (drop_range h, res, ''multi_range_requires_seekable_source'')
                 else (h\<lparr>lq_ranges := map (\<lambda>r. (hr_first r, hr_last r)) (rr_ranges parsed)\<rparr>, res, note)))"

section \<open>Dispatch\<close>

datatype 'src HandlerOutcome = Returned "'src HttpResponse" | Threw string | ThrewUnknown

text \<open>A handler acts on the world; a streaming handler also depends on the results of its reads.\<close>

type_synonym ('w, 'src) Handler = "'w \<Rightarrow> HttpRequest \<Rightarrow> string Result list \<Rightarrow> 'w \<times> 'src HandlerOutcome"

definition call_handler ::
  "('w, 'src) Handler \<Rightarrow> HttpRequest \<Rightarrow> string Result list \<Rightarrow> string \<Rightarrow> 'w HttpServer \<Rightarrow> 'w HttpServer \<times> 'src HttpResponse \<times> string" where
  "call_handler handler req reads note s =
     (case handler (hs_world s) req reads of
        (w, Returned res) \<Rightarrow> (s\<lparr>hs_world := w\<rparr>, res, note)
      | (w, Threw what) \<Rightarrow>
          (s\<lparr>hs_world := w\<rparr>, ErrorResponse (hs_options s) 500 (''handler threw: '' @ what), ''handler_exception'')
      | (w, ThrewUnknown) \<Rightarrow>
          (s\<lparr>hs_world := w\<rparr>, ErrorResponse (hs_options s) 500 ''handler threw unknown exception'', ''handler_exception''))"

definition start_counting :: "ServerOptions \<Rightarrow> RouteOptions \<Rightarrow> int \<Rightarrow> CountingReceiver" where
  "start_counting options ropt start =
     \<lparr>cr_buffer = (if ro_stream_body ropt then None else Some []), cr_limit = ro_max_body_bytes ropt, cr_read = 0,
      cr_exceeded = False,
      cr_overall_timeout_ms = (if ro_stream_body ropt then 0 else sopt_json_request_timeout_sec options * 1000),
      cr_idle_timeout_ms = (if ro_stream_body ropt then sopt_transfer_idle_timeout_sec options * 1000
                            else sopt_read_timeout_sec options * 1000),
      cr_started = start, cr_last_progress = start, cr_timed_out = False\<rparr>"

definition start_pump :: "ServerOptions \<Rightarrow> RouteOptions \<Rightarrow> BodyInput \<Rightarrow> PumpRun" where
  "start_pump options ropt body =
     \<lparr>pr_pump = NewBodyPump (nat (max 4096 (sopt_transfer_buffer_bytes options))),
      pr_counting = start_counting options ropt (bi_start body), pr_rest = bi_chunks body, pr_end_ok = bi_ok body,
      pr_reads = []\<rparr>"

definition succeeded :: "'src HttpResponse \<Rightarrow> bool" where
  "succeeded res \<longleftrightarrow> resp_status res < 0 \<or> 200 \<le> resp_status res \<and> resp_status res < 300"

text \<open>After a streaming handler: a read error replaces its success, or its error when the read error is conclusive;
  a success that left bytes unread becomes a server error.\<close>

definition finish_stream ::
  "HttpRequest \<Rightarrow> RouteOptions \<Rightarrow> PumpRun \<Rightarrow> int \<Rightarrow> 'w HttpServer \<times> 'src HttpResponse \<times> string \<Rightarrow>
   'w HttpServer \<times> 'src HttpResponse \<times> string" where
  "finish_stream req ropt run now = (\<lambda>(s, res, note).
     let c = pr_counting run in
     case HandleBodyError req ropt c (bp_pump_ok (pr_pump run)) now s of
       (s, Some (err, body_note)) \<Rightarrow>
         if succeeded res \<or> cr_timed_out c \<or> cr_exceeded c \<or> hq_content_length req \<ge> 0 \<and> cr_read c \<noteq> hq_content_length req
         then (s, err, body_note)
         else (s, res, ''handler_error_kept_over_body_read_failure'')
     | (s, None) \<Rightarrow>
         if succeeded res \<and> int (bp_consumed (pr_pump run)) \<noteq> cr_read c
         then (s, ErrorResponse (hs_options s) 500
                 (''streaming handler returned success without consuming the request body (consumed '' @
                  nat_to_string (bp_consumed (pr_pump run)) @ '' of '' @ to_string (cr_read c) @ '' bytes read)''),
               ''handler_did_not_consume_body'')
         else (s, res, note))"

definition run_streaming ::
  "('w, 'src) Handler \<Rightarrow> RouteOptions \<Rightarrow> BodyInput \<Rightarrow> PumpEvent list \<Rightarrow> HttpRequest \<Rightarrow> 'w HttpServer \<Rightarrow>
   'w HttpServer \<times> 'src HttpResponse \<times> string" where
  "run_streaming handler ropt body sched req s =
     (let run = pump_events sched (start_pump (hs_options s) ropt body);
          outcome = call_handler handler (req\<lparr>hq_streamed := True\<rparr>) (pr_reads run) [] s in
      finish_stream req ropt (PumpStop run) (bi_end body) outcome)"

definition run_buffered ::
  "('w, 'src) Handler \<Rightarrow> RouteOptions \<Rightarrow> BodyInput \<Rightarrow> HttpRequest \<Rightarrow> 'w HttpServer \<Rightarrow>
   'w HttpServer \<times> ('src HttpResponse \<times> string) + 'w HttpServer \<times> 'src HttpResponse \<times> string" where
  "run_buffered handler ropt body req s =
     (let (c, ok) = read_body (bi_chunks body) (bi_ok body) (start_counting (hs_options s) ropt (bi_start body));
          req = req\<lparr>hq_body := (case cr_buffer c of None \<Rightarrow> [] | Some b \<Rightarrow> b)\<rparr> in
      case HandleBodyError req ropt c ok (bi_end body) s of
        (s, Some err) \<Rightarrow> Inl (s, err)
      | (s, None) \<Rightarrow> Inr (call_handler handler req [] [] s))"

definition smuggling :: "HttpRequest \<Rightarrow> (string \<times> string) option" where
  "smuggling req =
     (let cl_count = HeaderCount ''Content-Length'' (hq_headers req) in
      if cl_count > 1 then Some (''duplicate Content-Length headers'', ''duplicate_content_length'')
      else if hq_is_chunked req \<and> cl_count = 1
      then Some (''Content-Length and Transfer-Encoding: chunked together'', ''content_length_with_chunked'')
      else None)"

definition early_return ::
  "HttpRequest \<Rightarrow> LibRequest \<Rightarrow> int \<Rightarrow> 'w HttpServer \<times> 'src HttpResponse \<times> string \<Rightarrow> 'w HttpServer \<times> LibRequest \<times> 'src HttpResponse" where
  "early_return req h duration_ms = (\<lambda>(s, res, note). (LogAccess req res duration_ms note s, h, res))"

definition late_return ::
  "('src \<Rightarrow> bool) \<Rightarrow> HttpRequest \<Rightarrow> LibRequest \<Rightarrow> int \<Rightarrow> 'w HttpServer \<times> 'src HttpResponse \<times> string \<Rightarrow>
   'w HttpServer \<times> LibRequest \<times> 'src HttpResponse" where
  "late_return seekable req h duration_ms = (\<lambda>(s, res, note).
     let (h, res, note) = NormalizeRange (hs_options s) seekable h res note;
         res = (if hq_correlation_id req \<noteq> []
                then res\<lparr>resp_headers := HeaderSet ''x-correlation-id'' (hq_correlation_id req) (resp_headers res)\<rparr> else res) in
     (LogAccess req res duration_ms note s, h, res))"

text \<open>The environment of one dispatch: a fresh identifier, the duration on the clock, what the body reader
  delivers (\<^const>\<open>None\<close>: the method has no body) and the schedule of a streaming handler.\<close>

record DispatchEnv =
  de_uuid :: string
  de_duration_ms :: int
  de_body :: "BodyInput option"
  de_sched :: "PumpEvent list"

definition route_label :: "'h Route \<Rightarrow> HttpRequest \<Rightarrow> string" where
  "route_label r req =
     (if ro_name (rt_options r) = [] then MethodName (hq_method req) @ '' '' @ rt_pattern r else ro_name (rt_options r))"

definition too_large :: "RouteOptions \<Rightarrow> HttpRequest \<Rightarrow> bool" where
  "too_large ropt req \<longleftrightarrow>
     hq_content_length req \<ge> 0 \<and> ro_max_body_bytes ropt > 0 \<and> hq_content_length req > ro_max_body_bytes ropt"

definition shown_path :: "string \<Rightarrow> string" where
  "shown_path path = (if length path > 256 then take 256 path @ msg_ellipsis else path)"

definition Dispatch ::
  "('w, 'src) Handler Route list \<Rightarrow> ('src \<Rightarrow> bool) \<Rightarrow> DispatchEnv \<Rightarrow> LibRequest \<Rightarrow> 'w HttpServer \<Rightarrow>
   'w HttpServer \<times> LibRequest \<times> 'src HttpResponse" where
  "Dispatch routes seekable env h s =
     (let req = MakeRequest (de_uuid env) h; options = hs_options s; d = de_duration_ms env;
          s = on_stats (st_requests_total_update Suc) s in
      case smuggling req of
        Some (detail, note) \<Rightarrow> early_return req h d (s, ErrorResponse options 400 detail, note)
      | None \<Rightarrow>
          (case MatchRoute routes (hq_method req) (hq_path req) of
             None \<Rightarrow>
               early_return req h d (on_stats (st_not_found_update Suc) s,
                 ErrorResponse options 404 (''no route for '' @ hq_method_raw req @ '' '' @ shown_path (hq_path req)),
                 ''route_not_found'')
           | Some (r, params) \<Rightarrow>
               let req = req\<lparr>hq_route_name := route_label r req, hq_route_params := params\<rparr>; ropt = rt_options r in
               (case de_body env of
                  None \<Rightarrow> late_return seekable req h d (call_handler (rt_handler r) req [] [] s)
                | Some body \<Rightarrow>
                    if too_large ropt req then
                      early_return req h d (on_stats (st_rejected_too_large_update Suc) s,
                        ErrorResponse options 413 (''content-length '' @ to_string (hq_content_length req) @
                          '' exceeds limit '' @ to_string (ro_max_body_bytes ropt)), ''content_length_too_large'')
                    else if ro_stream_body ropt then
                      late_return seekable req h d (run_streaming (rt_handler r) ropt body (de_sched env) req s)
                    else (case run_buffered (rt_handler r) ropt body req s of
                            Inl (s, err, note) \<Rightarrow> early_return req h d (s, err, note)
                          | Inr outcome \<Rightarrow> late_return seekable req h d outcome))))"

section \<open>Handing the response to the library\<close>

text \<open>What the library is told: status (negative: it chooses 200 or 206 itself), headers, and the content with its
  type, as a text or as a provider of a known number of bytes.\<close>

datatype 'src LibContent = NoContent | Content string string | Provider 'src int string

record 'src LibResponse =
  lr_status :: int
  lr_headers :: HeaderMap
  lr_content :: "'src LibContent"

definition other_headers :: "HeaderMap \<Rightarrow> HeaderMap" where
  "other_headers h = filter (\<lambda>(k, v). \<not> EqualsNoCase k ''Content-Type'') h"

definition ApplyToHttplib :: "ServerOptions \<Rightarrow> 'src HttpResponse \<Rightarrow> LibRequest \<Rightarrow> 'src LibResponse" where
  "ApplyToHttplib options res h =
     (let content_type = HeaderGet ''Content-Type'' (resp_headers res) in
      case resp_stream res of
        Some source \<Rightarrow>
          if resp_stream_length res < 0 then
            let err = ErrorResponse options 500 ''unknown-length stream is not supported yet'' :: 'src HttpResponse in
            \<lparr>lr_status = 500, lr_headers = other_headers (resp_headers res) @ other_headers (resp_headers err),
             lr_content = Content (resp_body err) ''application/json''\<rparr>
          else
            \<lparr>lr_status = (if lq_ranges h = [] then 200 else - 1), lr_headers = other_headers (resp_headers res),
             lr_content = Provider source (resp_stream_length res)
               (case content_type of None \<Rightarrow> ''application/octet-stream'' | Some t \<Rightarrow> t)\<rparr>
      | None \<Rightarrow>
          \<lparr>lr_status = resp_status res, lr_headers = other_headers (resp_headers res),
           lr_content = (case content_type of
                           Some t \<Rightarrow> Content (resp_body res) t
                         | None \<Rightarrow> if resp_body res \<noteq> [] then Content (resp_body res) ''text/plain'' else NoContent)\<rparr>)"

section \<open>Admission\<close>

text \<open>The library calls the first function when it routes a request and the second one before it writes the head of any
  response, also of one it writes without routing: to a request line or headers it cannot parse, to a target that is too long,
  to a malformed \<open>Accept\<close> or \<open>Range\<close> header.\<close>

definition connection_limit :: "int \<Rightarrow> ServerOptions \<Rightarrow> int" where
  "connection_limit hw options =
     (if sopt_max_connections options > 0 then sopt_max_connections options
      else if sopt_worker_threads options > 0 then sopt_worker_threads options
      else DefaultWorkerThreads hw options)"

record Admission =
  ad_in_flight :: int
  ad_rejected_busy :: nat

definition PreRouting :: "int \<Rightarrow> ServerOptions \<Rightarrow> Admission \<Rightarrow> Admission \<times> 'src LibResponse option" where
  "PreRouting hw options a =
     (let now = ad_in_flight a + 1; limit = connection_limit hw options; a = a\<lparr>ad_in_flight := now\<rparr> in
      if now > limit then
        (a\<lparr>ad_rejected_busy := Suc (ad_rejected_busy a)\<rparr>,
         Some \<lparr>lr_status = 503, lr_headers = [(''Retry-After'', ''1''), (''Content-Type'', ''application/json'')],
               lr_content = Content (ErrorBody 503 (''too many in-flight requests (limit '' @ to_string limit @ '')'')
                 (sopt_error_format options)) ''application/json''\<rparr>)
      else (a, None))"

definition PostRouting :: "Admission \<Rightarrow> Admission" where
  "PostRouting a = a\<lparr>ad_in_flight := ad_in_flight a - 1\<rparr>"

section \<open>Errors of the library\<close>

text \<open>The library answers 416 to a range it cannot parse before any route is looked up; a malformed one is
  dispatched again without the header. Other errors without a JSON body get one.\<close>

definition OnLibraryError ::
  "('w, 'src) Handler Route list \<Rightarrow> ('src \<Rightarrow> bool) \<Rightarrow> DispatchEnv \<Rightarrow> LibRequest \<Rightarrow> int \<Rightarrow> string \<Rightarrow> string \<Rightarrow> 'w HttpServer \<Rightarrow>
   'w HttpServer \<times> 'src LibResponse option" where
  "OnLibraryError routes seekable env h status body content_type s =
     (if status < 400 then (s, None)
      else if status = 416 \<and> lq_method h \<in> {''GET'', ''HEAD''} \<and> HeaderHas ''Range'' (lq_headers h) \<and>
        rr_status (ParseRangeHeader (get_header_value h ''Range'') (- 1)) = kMalformed
      then
        let sanitized = drop_range h;
            (s, h', out) = Dispatch routes seekable (env\<lparr>de_body := None\<rparr>) sanitized s in
        (s, Some (ApplyToHttplib (hs_options s) out h'))
      else if contains_str ''application/json'' content_type then (s, None)
      else
        (s, Some \<lparr>lr_status = status, lr_headers = [],
                  lr_content = Content (ErrorBody status (take 200 body) (sopt_error_format (hs_options s))) ''application/json''\<rparr>))"

end
