(* ===== verification/Http_Properties.thy ===== *)
theory Http_Properties
  imports Http_Server
begin

text \<open>
  The guarantees of the HTTP layer: no request whose body was cut short is answered with success, limits are
  enforced before anything is read, ranges given to the library lie in the object, the number of admitted requests is
  bounded.
\<close>

section \<open>Header collections\<close>

lemma EqualsNoCase_iff: "EqualsNoCase a b \<longleftrightarrow> map tolower a = map tolower b"
  by (auto simp: EqualsNoCase_def list_all2_conv_all_nth list_eq_iff_nth_eq)

text \<open>What clients of a header collection rely on.\<close>

locale header_store =
  fixes same :: "string \<Rightarrow> string \<Rightarrow> bool"
    and get :: "string \<Rightarrow> 'h \<Rightarrow> string option"
    and put :: "string \<Rightarrow> string \<Rightarrow> 'h \<Rightarrow> 'h"
    and remove :: "string \<Rightarrow> 'h \<Rightarrow> 'h"
  assumes same_equiv: "equivp same"
    and get_same: "same a b \<Longrightarrow> get a h = get b h"
    and get_put: "get n (put m v h) = (if same m n then Some v else get n h)"
    and get_remove: "get n (remove m h) = (if same m n then None else get n h)"
begin

lemma put_idem: "get n (put m v (put m' w h)) = (if same m n then Some v else if same m' n then Some w else get n h)"
  by (simp add: get_put)

lemma put_remove_other: "\<not> same m n \<Longrightarrow> get n (remove m (put n v h)) = Some v"
  using same_equiv by (simp add: get_remove get_put equivp_reflp)

lemma remove_gone: "same m n \<Longrightarrow> get n (remove m h) = None"
  by (simp add: get_remove)

end

lemma HeaderGet_same: "EqualsNoCase a b \<Longrightarrow> HeaderGet a h = HeaderGet b h"
  by (induction h) (auto simp: EqualsNoCase_iff)

lemma HeaderGet_Set: "HeaderGet n (HeaderSet m v h) = (if EqualsNoCase m n then Some v else HeaderGet n h)"
  by (induction h) (auto simp: EqualsNoCase_iff)

lemma HeaderGet_Remove: "HeaderGet n (fst (HeaderRemove m h)) = (if EqualsNoCase m n then None else HeaderGet n h)"
  by (induction h) (auto simp: HeaderRemove_def EqualsNoCase_iff Let_def)

interpretation headers: header_store EqualsNoCase HeaderGet HeaderSet "\<lambda>n h. fst (HeaderRemove n h)"
proof unfold_locales
  show "equivp EqualsNoCase"
    by (rule equivpI) (auto simp: EqualsNoCase_iff intro!: reflpI sympI transpI)
qed (rule HeaderGet_same HeaderGet_Set HeaderGet_Remove; assumption?)+

section \<open>The pump\<close>

definition received :: "string Result list \<Rightarrow> string" where
  "received reads = concat (map (\<lambda>r. case r of Inl _ \<Rightarrow> [] | Inr d \<Rightarrow> d) reads)"

lemma received_snoc: "received (reads @ [r]) = received reads @ (case r of Inl _ \<Rightarrow> [] | Inr d \<Rightarrow> d)"
  by (simp add: received_def)

definition all_data :: "(int \<times> string) list \<Rightarrow> string" where
  "all_data chunks = concat (map snd chunks)"

lemma all_data_simps [simp]: "all_data [] = []" "all_data ((t, d) # cs) = d @ all_data cs" "all_data (as @ bs) = all_data as @ all_data bs"
  by (simp_all add: all_data_def)

text \<open>A thread that has not failed has put everything it took from the reader into the queue, and counted it.\<close>

definition pump_inv :: "(int \<times> string) list \<Rightarrow> bool \<Rightarrow> PumpRun \<Rightarrow> bool" where
  "pump_inv chunks ok s \<longleftrightarrow>
     bp_buffered (pr_pump s) = length (bp_buf (pr_pump s)) \<and>
     bp_consumed (pr_pump s) = length (received (pr_reads s)) \<and> pr_end_ok s = ok \<and>
     (bp_finished (pr_pump s) \<and> \<not> bp_pump_ok (pr_pump s) \<or>
       (\<exists>taken. chunks = taken @ pr_rest s \<and> received (pr_reads s) @ bp_buf (pr_pump s) = all_data taken \<and>
          cr_read (pr_counting s) = int (length (all_data taken)) \<and>
          (cr_limit (pr_counting s) > 0 \<longrightarrow> cr_read (pr_counting s) \<le> cr_limit (pr_counting s)) \<and>
          (bp_finished (pr_pump s) \<longrightarrow> pr_rest s = [] \<and> ok)))"

lemma Receive_True:
  assumes "Receive now data c = (c', True)"
  shows "cr_read c' = cr_read c + int (length data)" "cr_limit c' = cr_limit c"
    "cr_limit c > 0 \<Longrightarrow> cr_read c' \<le> cr_limit c" "cr_exceeded c' = cr_exceeded c" "cr_timed_out c' = cr_timed_out c"
    "cr_buffer c' = map_option (\<lambda>b. b @ data) (cr_buffer c)"
  using assms by (auto simp: Receive_def Let_def split: if_splits option.splits)

lemma Receive_limit: "Receive now data c = (c', b) \<Longrightarrow> cr_limit c' = cr_limit c"
  by (auto simp: Receive_def Let_def split: if_splits)

lemma produce_inv: "pump_inv chunks ok s \<Longrightarrow> pump_inv chunks ok (produce s)"
proof (cases "bp_finished (pr_pump s)")
  case False
  assume inv: "pump_inv chunks ok s"
  then obtain taken where t: "chunks = taken @ pr_rest s" "received (pr_reads s) @ bp_buf (pr_pump s) = all_data taken"
      "cr_read (pr_counting s) = int (length (all_data taken))"
      "cr_limit (pr_counting s) > 0 \<longrightarrow> cr_read (pr_counting s) \<le> cr_limit (pr_counting s)"
    using False by (auto simp: pump_inv_def)
  show ?thesis
  proof (cases "pr_rest s")
    case Nil
    then show ?thesis using inv False t by (auto simp: produce_def pump_finish_def pump_inv_def)
  next
    case (Cons x rest)
    obtain now data c go_on where x: "x = (now, data)" and r: "Receive now data (pr_counting s) = (c, go_on)"
      by (cases x; cases "Receive (fst x) (snd x) (pr_counting s)") auto
    have step: "pump_inv chunks ok (s\<lparr>pr_pump := p, pr_counting := c, pr_rest := rest\<rparr>)"
      if "go_on" "PumpPush data (pr_pump s) = Some (p, True)" for p
    proof -
      have p: "p = (pr_pump s)\<lparr>bp_buf := bp_buf (pr_pump s) @ data, bp_buffered := bp_buffered (pr_pump s) + length data,
          bp_pushed := bp_pushed (pr_pump s) + length data\<rparr>"
        using that by (auto simp: PumpPush_def split: if_splits)
      have e: "chunks = (taken @ [x]) @ rest" "all_data (taken @ [x]) = all_data taken @ data"
        using t(1) Cons x by simp_all
      have c: "cr_read c = int (length (all_data (taken @ [x])))" "cr_limit c > 0 \<longrightarrow> cr_read c \<le> cr_limit c"
        using Receive_True [of now data "pr_counting s" c] r that(1) t(3) e(2) by auto
      have b: "received (pr_reads s) @ bp_buf (pr_pump s) @ data = all_data (taken @ [x])"
        using t(2) e(2) by simp
      have base: "bp_buffered (pr_pump s) = length (bp_buf (pr_pump s))"
          "bp_consumed (pr_pump s) = length (received (pr_reads s))" "pr_end_ok s = ok"
        using inv unfolding pump_inv_def by blast+
      show ?thesis unfolding pump_inv_def
        by (intro conjI disjI2 exI [of _ "taken @ [x]"]) (use base False e(1) c b in \<open>simp_all add: p\<close>)
    qed
    have failed: "pump_inv chunks ok (s\<lparr>pr_pump := pump_finish False (pr_pump s), pr_counting := c, pr_rest := rest\<rparr>)"
      using inv unfolding pump_inv_def pump_finish_def by simp
    have refused: "p = pr_pump s" if "PumpPush data (pr_pump s) = Some (p, False)" for p
      using that by (auto simp: PumpPush_def split: if_splits)
    show ?thesis
      using inv False Cons x r step failed refused
      by (cases go_on; cases "PumpPush data (pr_pump s)") (auto simp: produce_def split: bool.splits)
  qed
qed (simp add: produce_def)

lemma consume_inv: "pump_inv chunks ok s \<Longrightarrow> pump_inv chunks ok (consume n s)"
proof -
  assume inv: "pump_inv chunks ok s"
  show ?thesis
  proof (cases "bp_buf (pr_pump s) = []")
    case True
    then show ?thesis using inv by (auto simp: consume_def PumpRead_def pump_inv_def received_snoc)
  next
    case False
    let ?n = "min n (length (bp_buf (pr_pump s)))"
    have "received (pr_reads s) @ bp_buf (pr_pump s) =
        (received (pr_reads s) @ take ?n (bp_buf (pr_pump s))) @ drop ?n (bp_buf (pr_pump s))"
      by (metis append.assoc append_take_drop_id)
    then show ?thesis using inv False
      by (auto simp: consume_def PumpRead_def pump_inv_def received_snoc Let_def)
  qed
qed

lemma pump_events_inv: "pump_inv chunks ok s \<Longrightarrow> pump_inv chunks ok (pump_events sched s)"
proof (induction sched arbitrary: s)
  case (Cons e sched)
  then show ?case by (cases e) (auto simp: pump_events_def intro: produce_inv consume_inv)
qed (simp add: pump_events_def)

lemma start_pump_inv: "pump_inv (bi_chunks body) (bi_ok body) (start_pump options ropt body)"
  by (auto simp: start_pump_def pump_inv_def NewBodyPump_def start_counting_def received_def)

lemma PumpStop_finished: "bp_finished (pr_pump (PumpStop s))"
  by (auto simp: PumpStop_def produce_def PumpSignalStop_def PumpPush_def pump_finish_def
      split: list.splits prod.splits bool.splits)

lemma PumpStop_reads: "pr_reads (PumpStop s) = pr_reads s"
  by (auto simp: PumpStop_def produce_def PumpSignalStop_def PumpPush_def pump_finish_def
      split: list.splits prod.splits bool.splits)

lemma PumpStop_inv: "pump_inv chunks ok s \<Longrightarrow> pump_inv chunks ok (PumpStop s)"
  unfolding PumpStop_def by (rule produce_inv) (auto simp: pump_inv_def PumpSignalStop_def)

section \<open>Outcomes of reading\<close>

lemma read_body_complete:
  "read_body chunks ok c = (c', True) \<Longrightarrow> (cr_limit c > 0 \<Longrightarrow> cr_read c \<le> cr_limit c) \<Longrightarrow>
   ok \<and> cr_read c' = cr_read c + int (length (all_data chunks)) \<and>
   cr_buffer c' = map_option (\<lambda>b. b @ all_data chunks) (cr_buffer c) \<and> cr_limit c' = cr_limit c \<and>
   (cr_limit c > 0 \<longrightarrow> cr_read c' \<le> cr_limit c)"
proof (induction chunks ok c rule: read_body.induct)
  case (1 ok c)
  then show ?case by (cases "cr_buffer c") auto
next
  case (2 now data chunks ok c)
  obtain c1 go_on where r: "Receive now data c = (c1, go_on)" by (cases "Receive now data c") auto
  then have "go_on" "read_body chunks ok c1 = (c', True)" using "2.prems"(1) by (auto split: if_splits)
  then show ?case
    using "2.IH" [of c1 go_on] Receive_True [of now data c c1] r
    by (cases "cr_buffer c") auto
qed

lemma HandleBodyError_None:
  assumes "HandleBodyError req ropt c ok now s = (s', None)"
  shows "ok" "\<not> cr_timed_out c" "\<not> cr_exceeded c" "hq_content_length req \<ge> 0 \<Longrightarrow> cr_read c = hq_content_length req" "s' = s"
  using assms by (auto simp: HandleBodyError_def Let_def split: if_splits)

lemma ErrorResponse_sel [simp]:
  "resp_status (ErrorResponse options n d) = n" "resp_stream (ErrorResponse options n d) = None"
  by (simp_all add: ErrorResponse_def EmptyResponse_def)

lemma ErrorResponse_failed: "n \<ge> 300 \<Longrightarrow> \<not> succeeded (ErrorResponse options n d)"
  by (simp add: succeeded_def)

lemma HandleBodyError_Some:
  assumes "HandleBodyError req ropt c ok now s = (s', Some (err, note))"
  shows "\<not> succeeded err" "hs_world s' = hs_world s" "hs_options s' = hs_options s"
  using assms by (auto simp: HandleBodyError_def Let_def on_stats_def ErrorResponse_failed split: if_splits)

lemma NormalizeRange_succeeded:
  "NormalizeRange options seekable h res note = (h', res', note') \<Longrightarrow> succeeded res' \<Longrightarrow> res' = res"
  by (auto simp: NormalizeRange_def Let_def succeeded_def split: if_splits option.splits RangeStatus.splits)

lemma LogAccess_world [simp]: "hs_world (LogAccess req res d note s) = hs_world s"
  by (simp add: LogAccess_def)

lemma late_return_succeeded:
  assumes "late_return seekable req h d (s, res, note) = (s', h', res')" "succeeded res'"
  shows "succeeded res" "hs_world s' = hs_world s"
proof -
  obtain h1 res1 note1 where n: "NormalizeRange (hs_options s) seekable h res note = (h1, res1, note1)"
    by (cases "NormalizeRange (hs_options s) seekable h res note") auto
  then have "resp_status res' = resp_status res1" "hs_world s' = hs_world s"
    using assms(1) by (auto simp: late_return_def Let_def split: if_splits)
  then show "succeeded res" "hs_world s' = hs_world s"
    using NormalizeRange_succeeded [OF n] assms(2) by (auto simp: succeeded_def)
qed

lemma call_handler_world:
  "call_handler handler req reads note s = (s', res, note') \<Longrightarrow>
   hs_world s' = fst (handler (hs_world s) req reads) \<and> hs_options s' = hs_options s"
  by (auto simp: call_handler_def split: prod.splits HandlerOutcome.splits)

lemma finish_stream_succeeded:
  assumes "finish_stream req ropt run now (s, res, note) = (s', res', note')" "succeeded res'"
  shows "bp_pump_ok (pr_pump run)" "hq_content_length req \<ge> 0 \<Longrightarrow> cr_read (pr_counting run) = hq_content_length req"
    "int (bp_consumed (pr_pump run)) = cr_read (pr_counting run)" "s' = s"
proof -
  obtain s1 and e :: "('b HttpResponse \<times> string) option" where b: "HandleBodyError req ropt (pr_counting run) (bp_pump_ok (pr_pump run)) now s = (s1, e)"
    by (cases "HandleBodyError req ropt (pr_counting run) (bp_pump_ok (pr_pump run)) now s :: 'a HttpServer \<times> ('b HttpResponse \<times> string) option") auto
  have n: "e = None"
  proof (rule ccontr)
    assume "e \<noteq> None"
    then obtain err n where "e = Some (err, n)" by auto
    then show False using assms b HandleBodyError_Some(1) [OF b [unfolded \<open>e = Some (err, n)\<close>]]
      by (auto simp: finish_stream_def Let_def split: if_splits)
  qed
  show "bp_pump_ok (pr_pump run)" "hq_content_length req \<ge> 0 \<Longrightarrow> cr_read (pr_counting run) = hq_content_length req"
    using HandleBodyError_None [OF b [unfolded n]] by auto
  show "int (bp_consumed (pr_pump run)) = cr_read (pr_counting run)" "s' = s"
    using assms b HandleBodyError_None(5) [OF b [unfolded n]]
    by (auto simp: finish_stream_def n Let_def ErrorResponse_failed split: if_splits)
qed

lemma run_buffered_error:
  assumes "run_buffered handler ropt body req s = Inl (s', err, note)"
  shows "\<not> succeeded err"
  using assms HandleBodyError_Some(1)
  by (fastforce simp: run_buffered_def Let_def split: prod.splits option.splits)

lemma produce_limit: "cr_limit (pr_counting (produce s)) = cr_limit (pr_counting s)"
  by (auto simp: produce_def split: list.splits prod.splits bool.splits option.splits dest: Receive_limit)

lemma pump_events_limit: "cr_limit (pr_counting (pump_events sched s)) = cr_limit (pr_counting s)"
proof (induction sched arbitrary: s)
  case (Cons e sched)
  then show ?case
    by (cases e) (auto simp: pump_events_def produce_limit consume_def split: option.splits)
qed (simp add: pump_events_def)

lemma run_limit: "cr_limit (pr_counting (PumpStop (pump_events sched (start_pump options ropt body)))) = ro_max_body_bytes ropt"
  by (simp add: PumpStop_def produce_limit pump_events_limit start_pump_def start_counting_def)

lemma MakeRequest_sel [simp]:
  "hq_method (MakeRequest u h) = ParseMethod (lq_method h)" "hq_path (MakeRequest u h) = lq_path h"
  by (simp_all add: MakeRequest_def Let_def)

section \<open>No silent truncation\<close>

definition routed :: "'h Route \<Rightarrow> (string \<times> string) list \<Rightarrow> HttpRequest \<Rightarrow> HttpRequest" where
  "routed r params req = req\<lparr>hq_route_name := route_label r req, hq_route_params := params\<rparr>"

text \<open>The whole body reached the handler, and it is as long as declared and not longer than the limit.\<close>

definition body_delivered ::
  "('w, 'src) Handler Route \<Rightarrow> HttpRequest \<Rightarrow> BodyInput \<Rightarrow> 'w \<Rightarrow> 'w \<Rightarrow> bool" where
  "body_delivered r req body w w' \<longleftrightarrow>
     (let data = all_data (bi_chunks body) in
      bi_ok body \<and>
      (hq_content_length req \<ge> 0 \<longrightarrow> int (length data) = hq_content_length req) \<and>
      (ro_max_body_bytes (rt_options r) > 0 \<longrightarrow> int (length data) \<le> ro_max_body_bytes (rt_options r)) \<and>
      (if ro_stream_body (rt_options r)
       then \<exists>reads. received reads = data \<and> w' = fst (rt_handler r w (req\<lparr>hq_streamed := True\<rparr>) reads)
       else w' = fst (rt_handler r w (req\<lparr>hq_body := data\<rparr>) [])))"

lemma run_streaming_delivered:
  assumes "run_streaming (rt_handler r) (rt_options r) body sched req s = (s', res, note)" "succeeded res"
    "ro_stream_body (rt_options r)"
  shows "body_delivered r req body (hs_world s) (hs_world s')"
proof -
  let ?run = "pump_events sched (start_pump (hs_options s) (rt_options r) body)"
  let ?stopped = "PumpStop ?run"
  obtain s1 res1 note1 where h: "call_handler (rt_handler r) (req\<lparr>hq_streamed := True\<rparr>) (pr_reads ?run) [] s = (s1, res1, note1)"
    by (cases "call_handler (rt_handler r) (req\<lparr>hq_streamed := True\<rparr>) (pr_reads ?run) [] s") auto
  have f: "finish_stream req (rt_options r) ?stopped (bi_end body) (s1, res1, note1) = (s', res, note)"
    using assms(1) by (simp add: run_streaming_def h Let_def)
  note fs = finish_stream_succeeded [OF f assms(2)]
  have inv: "pump_inv (bi_chunks body) (bi_ok body) ?stopped"
    by (intro PumpStop_inv pump_events_inv start_pump_inv)
  then obtain taken where t: "bi_chunks body = taken @ pr_rest ?stopped"
      "received (pr_reads ?stopped) @ bp_buf (pr_pump ?stopped) = all_data taken"
      "cr_read (pr_counting ?stopped) = int (length (all_data taken))"
      "cr_limit (pr_counting ?stopped) > 0 \<longrightarrow> cr_read (pr_counting ?stopped) \<le> cr_limit (pr_counting ?stopped)"
      "pr_rest ?stopped = []" "bi_ok body" "bp_consumed (pr_pump ?stopped) = length (received (pr_reads ?stopped))"
    using fs(1) PumpStop_finished [of ?run] unfolding pump_inv_def by blast
  have "length (received (pr_reads ?stopped)) = length (all_data taken)" using fs(3) t(3,7) by simp
  then have "received (pr_reads ?stopped) = all_data taken" using t(2) by (metis append_eq_conv_conj take_all_iff order_refl)
  moreover have "taken = bi_chunks body" using t(1,5) by simp
  ultimately have data: "received (pr_reads ?stopped) = all_data (bi_chunks body)" "all_data taken = all_data (bi_chunks body)"
    by simp_all
  have lim: "cr_limit (pr_counting ?stopped) = ro_max_body_bytes (rt_options r)" by (simp add: run_limit)
  have "hs_world s' = fst (rt_handler r (hs_world s) (req\<lparr>hq_streamed := True\<rparr>) (pr_reads ?run))"
    using call_handler_world [OF h] fs(4) by simp
  then show ?thesis
    using assms(3) t(3,4,6) fs(2) data lim PumpStop_reads [of ?run] by (auto simp: body_delivered_def Let_def)
qed

lemma run_buffered_delivered:
  assumes "run_buffered (rt_handler r) (rt_options r) body req s = Inr (s', res, note)" "\<not> ro_stream_body (rt_options r)"
  shows "body_delivered r req body (hs_world s) (hs_world s')"
proof -
  let ?c0 = "start_counting (hs_options s) (rt_options r) (bi_start body)"
  obtain c ok where b: "read_body (bi_chunks body) (bi_ok body) ?c0 = (c, ok)"
    by (cases "read_body (bi_chunks body) (bi_ok body) ?c0") auto
  let ?req = "req\<lparr>hq_body := (case cr_buffer c of None \<Rightarrow> [] | Some b \<Rightarrow> b)\<rparr>"
  have "\<exists>s1. HandleBodyError ?req (rt_options r) c ok (bi_end body) s = (s1, None :: ('b HttpResponse \<times> string) option) \<and>
      call_handler (rt_handler r) ?req [] [] s1 = (s', res, note)"
    using assms(1) by (auto simp: run_buffered_def b Let_def split: prod.splits option.splits)
  then obtain s1 where e: "HandleBodyError ?req (rt_options r) c ok (bi_end body) s = (s1, None :: ('b HttpResponse \<times> string) option)"
    and h: "call_handler (rt_handler r) ?req [] [] s1 = (s', res, note)" by blast
  note n = HandleBodyError_None [OF e]
  have "cr_read ?c0 = 0" "cr_limit ?c0 = ro_max_body_bytes (rt_options r)" "cr_buffer ?c0 = Some []"
    using assms(2) by (simp_all add: start_counting_def)
  then show ?thesis
    using read_body_complete [of "bi_chunks body" "bi_ok body" ?c0 c] b n call_handler_world [OF h] assms(2)
    by (auto simp: body_delivered_def Let_def)
qed

text \<open>C6. When a request with a body is answered with success, the handler that ran got the whole body:
  the reader reported no error, its length is the declared one when one was declared and within the limit of the
  route, and the handler was given all of it, in one piece or through its reads. This holds for every way the reading thread
  and a streaming handler interleave, and whatever the handler returns: a handler that ignores a read error or leaves bytes
  unread cannot make the server answer with success.\<close>

theorem no_silent_truncation:
  assumes "Dispatch routes seekable env h s = (s', h', res)" "de_body env = Some body" "succeeded res"
  shows "\<exists>r params. MatchRoute routes (ParseMethod (lq_method h)) (lq_path h) = Some (r, params) \<and>
    body_delivered r (routed r params (MakeRequest (de_uuid env) h)) body (hs_world s) (hs_world s')"
proof -
  let ?req = "MakeRequest (de_uuid env) h"
  have fail: False if "early_return q h (de_duration_ms env) (t, e, nt) = (s', h', res)" "\<not> succeeded e" for q t e nt
    using that assms(3) by (simp add: early_return_def)
  let ?s = "on_stats (st_requests_total_update Suc) s"
  have [simp]: "hs_world ?s = hs_world s" by (simp add: on_stats_def)
  have err: "early_return q h (de_duration_ms env) (t, ErrorResponse opt n d, nt) \<noteq> (s', h', res)" if "n \<ge> 300" for q t opt n d nt
    using fail [of q t "ErrorResponse opt n d" nt] ErrorResponse_failed [OF that] by blast
  have sm: "smuggling ?req = None"
    using assms(1) by (cases "smuggling ?req") (auto simp: Dispatch_def Let_def err)
  obtain r params where m: "MatchRoute routes (ParseMethod (lq_method h)) (lq_path h) = Some (r, params)"
    using assms(1) by (cases "MatchRoute routes (ParseMethod (lq_method h)) (lq_path h)") (auto simp: Dispatch_def Let_def err sm)
  let ?q = "routed r params ?req"
  have notlarge: "\<not> too_large (rt_options r) ?q"
    using assms(1,2) by (auto simp: Dispatch_def Let_def routed_def err sm m)
  have "body_delivered r ?q body (hs_world s) (hs_world s')"
  proof (cases "ro_stream_body (rt_options r)")
    case True
    obtain s1 res1 note1 where run: "run_streaming (rt_handler r) (rt_options r) body (de_sched env) ?q ?s = (s1, res1, note1)"
      by (cases "run_streaming (rt_handler r) (rt_options r) body (de_sched env) ?q ?s") auto
    then have late: "late_return seekable ?q h (de_duration_ms env) (s1, res1, note1) = (s', h', res)"
      using assms(1,2) sm m notlarge True by (simp add: Dispatch_def Let_def routed_def)
    show ?thesis
      using run_streaming_delivered [OF run] late_return_succeeded [OF late assms(3)] True by simp
  next
    case False
    have buffered: "\<exists>t. run_buffered (rt_handler r) (rt_options r) body ?q ?s = Inr t \<and>
        late_return seekable ?q h (de_duration_ms env) t = (s', h', res)"
    proof (cases "run_buffered (rt_handler r) (rt_options r) body ?q ?s")
      case (Inl x)
      obtain s1 e n where x: "x = (s1, e, n)" by (cases x) auto
      have "early_return ?q h (de_duration_ms env) (s1, e, n) = (s', h', res)"
        using assms(1,2) sm m notlarge False Inl x by (simp add: Dispatch_def Let_def routed_def)
      moreover have "\<not> succeeded e" using Inl x run_buffered_error by blast
      ultimately show ?thesis using fail by blast
    qed (use assms(1,2) sm m notlarge False in \<open>simp add: Dispatch_def Let_def routed_def\<close>)
    then obtain s1 res1 note1 where run: "run_buffered (rt_handler r) (rt_options r) body ?q ?s = Inr (s1, res1, note1)"
      and late: "late_return seekable ?q h (de_duration_ms env) (s1, res1, note1) = (s', h', res)"
      by (metis prod_cases3)
    show ?thesis using run_buffered_delivered [OF run False] late_return_succeeded [OF late assms(3)] by simp
  qed
  then show ?thesis using m by blast
qed

text \<open>A route that keeps what it reads, and an upload of three bytes in two chunks.\<close>

definition sample_put_handler :: "(string, unit) Handler" where
  "sample_put_handler w req reads = (w @ received reads, Returned (EmptyResponse 200))"

definition sample_http_routes :: "(string, unit) Handler Route list" where
  "sample_http_routes =
     AddRoute kPut ''/t/:token'' \<lparr>ro_max_body_bytes = 10, ro_stream_body = True, ro_name = ''put'', ro_allow_head = True\<rparr>
       sample_put_handler []"

definition sample_http_server :: "string HttpServer" where
  "sample_http_server =
     \<lparr>hs_options = default_ServerOptions\<lparr>sopt_transfer_buffer_bytes := 4096\<rparr>, hs_log_enabled = False,
      hs_stats = \<lparr>st_requests_total = 0, st_rejected_busy = 0, st_rejected_too_large = 0, st_body_limit_aborted = 0,
        st_body_length_mismatch = 0, st_not_found = 0, st_request_timeout = 0\<rparr>,
      hs_log = [], hs_world = []\<rparr>"

definition sample_lib_request :: "string \<Rightarrow> LibRequest" where
  "sample_lib_request declared =
     \<lparr>lq_method = ''PUT'', lq_path = ''/t/k'', lq_target = ''/t/k'', lq_headers = [(''Content-Length'', declared)],
      lq_remote_addr = [], lq_ranges = []\<rparr>"

definition sample_body :: BodyInput where
  "sample_body = \<lparr>bi_chunks = [(0, ''ab''), (1, ''c'')], bi_ok = True, bi_start = 0, bi_end = 2\<rparr>"

definition sample_env :: "PumpEvent list \<Rightarrow> DispatchEnv" where
  "sample_env sched = \<lparr>de_uuid = ''u'', de_duration_ms = 0, de_body = Some sample_body, de_sched = sched\<rparr>"

lemma sample_upload:
  "let (s', h', res) = Dispatch sample_http_routes (\<lambda>_. True) (sample_env [Produce, Consume 1, Produce, Consume 9, Produce])
     (sample_lib_request ''3'') sample_http_server in hs_world s' = ''abc'' \<and> succeeded res"
  by code_simp

lemma sample_short_upload:
  "let (s', h', res) = Dispatch sample_http_routes (\<lambda>_. True) (sample_env [Produce, Consume 1, Produce, Consume 9, Produce])
     (sample_lib_request ''5'') sample_http_server in hs_world s' = ''abc'' \<and> resp_status res = 400"
  by code_simp

theorem no_silent_truncation_witness:
  "\<exists>r params. MatchRoute sample_http_routes (ParseMethod ''PUT'') ''/t/k'' = Some (r, params) \<and>
     body_delivered r (routed r params (MakeRequest ''u'' (sample_lib_request ''3''))) sample_body [] ''abc''"
proof -
  let ?sched = "[Produce, Consume 1, Produce, Consume 9, Produce]"
  obtain s' h' res where d: "Dispatch sample_http_routes (\<lambda>_. True) (sample_env ?sched) (sample_lib_request ''3'')
      sample_http_server = (s', h', res)"
    by (cases "Dispatch sample_http_routes (\<lambda>_. True) (sample_env ?sched) (sample_lib_request ''3'') sample_http_server") auto
  have w: "hs_world s' = ''abc''" "succeeded res" using sample_upload unfolding d by simp_all
  have "de_body (sample_env ?sched) = Some sample_body" "hs_world sample_http_server = []"
    "de_uuid (sample_env ?sched) = ''u''" "lq_method (sample_lib_request ''3'') = ''PUT''"
    "lq_path (sample_lib_request ''3'') = ''/t/k''"
    by (simp_all add: sample_env_def sample_http_server_def sample_lib_request_def)
  then show ?thesis using no_silent_truncation [OF d _ w(2), of sample_body] w(1) by simp
qed

section \<open>Requests refused before their body\<close>

text \<open>What decides a refusal, said of the request itself: the values sent under a header name, whose case does not matter, and the
  routes that fit, segment by segment or by prefix.\<close>

definition header_values :: "string \<Rightarrow> HeaderMap \<Rightarrow> string list" where
  "header_values name headers = map snd (filter (\<lambda>(k, v). map tolower k = name) headers)"

definition route_fits :: "LibRequest \<Rightarrow> 'h Route \<Rightarrow> bool" where
  "route_fits h r \<longleftrightarrow> rt_method r = ParseMethod (lq_method h) \<and>
     (if rt_kind r = kPrefix then \<exists>t. lq_path h = rt_prefix r @ t
      else list_all2 (\<lambda>p w. (\<exists>name. p = CHR '':'' # name) \<or> p = w) (rt_segments r)
             (filter (\<lambda>w. w \<noteq> []) (split_on (CHR ''/'') (lq_path h))))"

definition ambiguous_length :: "LibRequest \<Rightarrow> bool" where
  "ambiguous_length h \<longleftrightarrow>
     (case header_values ''content-length'' (lq_headers h) of
        [] \<Rightarrow> False
      | [n] \<Rightarrow> (\<exists>coding rest a b. header_values ''transfer-encoding'' (lq_headers h) = coding # rest \<and>
                 map tolower coding = a @ ''chunked'' @ b)
      | n # m # _ \<Rightarrow> True)"

lemma content_length_name: "map tolower ''Content-Length'' = ''content-length''" "map tolower ''Transfer-Encoding'' = ''transfer-encoding''"
  by code_simp+

lemma HeaderCount_values: "HeaderCount name headers = length (header_values (map tolower name) headers)"
  by (simp add: HeaderCount_def header_values_def EqualsNoCase_iff)

lemma HeaderGet_values:
  "HeaderGet name headers = (case header_values (map tolower name) headers of [] \<Rightarrow> None | v # _ \<Rightarrow> Some v)"
  by (induction headers) (auto simp: header_values_def EqualsNoCase_iff)

lemma contains_str_iff: "contains_str w t \<longleftrightarrow> (\<exists>a b. t = a @ w @ b)"
proof
  show "contains_str w t \<Longrightarrow> \<exists>a b. t = a @ w @ b"
  proof (induction t)
    case Nil
    then show ?case by (auto simp: starts_with_def)
  next
    case (Cons c t)
    then consider "starts_with w (c # t)" | "contains_str w t" by auto
    then show ?case
    proof cases
      case 1
      then have "c # t = [] @ w @ drop (length w) (c # t)" by (metis append_Nil append_take_drop_id starts_with_def)
      then show ?thesis by blast
    next
      case 2
      then show ?thesis using Cons.IH by (metis append_Cons)
    qed
  qed
  show "\<exists>a b. t = a @ w @ b \<Longrightarrow> contains_str w t"
  proof -
    have "contains_str w (w @ b)" for b
      using starts_with_append [of w b] by (cases "w @ b") (auto simp del: starts_with_append)
    then have "contains_str w (a @ w @ b)" for a b by (induction a) simp_all
    then show "\<exists>a b. t = a @ w @ b \<Longrightarrow> contains_str w t" by blast
  qed
qed

lemmas length_header_values = HeaderCount_values [of "''Content-Length''", unfolded content_length_name]
  HeaderGet_values [of "''Content-Length''", unfolded content_length_name]
  HeaderGet_values [of "''Transfer-Encoding''", unfolded content_length_name]

lemma smuggling_iff: "smuggling (MakeRequest u h) \<noteq> None \<longleftrightarrow> ambiguous_length h"
proof -
  let ?te = "header_values ''transfer-encoding'' (lq_headers h)"
  have chunked: "hq_is_chunked (MakeRequest u h) \<longleftrightarrow> (\<exists>coding rest a b. ?te = coding # rest \<and> map tolower coding = a @ ''chunked'' @ b)"
    by (cases ?te) (simp_all only: MakeRequest_def Let_def HttpRequest.simps HeaderHas_def get_header_value_def length_header_values
        contains_str_iff list.case option.case, auto)
  have "hq_headers (MakeRequest u h) = lq_headers h" by (simp add: MakeRequest_def Let_def)
  then show ?thesis
    unfolding smuggling_def Let_def length_header_values ambiguous_length_def chunked [symmetric] by (auto split: list.splits)
qed

lemma match_segments_fit:
  "match_segments ps ws \<noteq> None \<longleftrightarrow> list_all2 (\<lambda>p w. (\<exists>name. p = CHR '':'' # name) \<or> p = w) ps ws"
proof (induction ps ws rule: match_segments.induct)
  case (2 p ps w ws)
  then show ?case by (cases p) (auto split: option.splits)
qed simp_all

lemma route_fits_iff: "route_fits h r \<longleftrightarrow> rt_method r = ParseMethod (lq_method h) \<and> route_matches (lq_path h) r \<noteq> None"
  unfolding route_fits_def route_matches_def SplitPath_def match_segments_fit [symmetric]
  by (auto simp: starts_with_def) (metis append_take_drop_id)

lemma MatchRoute_none: "MatchRoute routes (ParseMethod (lq_method h)) (lq_path h) = None \<longleftrightarrow> (\<forall>r \<in> set routes. \<not> route_fits h r)"
  by (induction routes) (auto simp: route_fits_iff split: option.splits)

lemma MatchRoute_first:
  "\<forall>q \<in> set pre. \<not> route_fits h q \<Longrightarrow> route_fits h r \<Longrightarrow>
   \<exists>params. MatchRoute (pre @ r # post) (ParseMethod (lq_method h)) (lq_path h) = Some (r, params)"
  by (induction pre) (auto simp: route_fits_iff split: option.splits)

lemma strtoll_digits: "n \<noteq> [] \<Longrightarrow> list_all isdigit n \<Longrightarrow> strtoll_all n = Some (min i64_max (int (decimal n)))"
proof -
  assume n: "n \<noteq> []" "list_all isdigit n"
  have "c_str n = n" using n(2) by (auto simp: c_str_def list_all_iff isdigit_def takeWhile_eq_all_conv)
  moreover have "\<not> isspace (hd n)" "hd n \<noteq> CHR ''-''" "hd n \<noteq> CHR ''+''"
    using n by (cases n; auto simp: isspace_def isdigit_def)+
  moreover from this have "dropWhile isspace n = n" using n(1) by (cases n) auto
  ultimately show ?thesis using n by (simp add: strtoll_all_def Let_def i64_max_def)
qed



section \<open>Ranges\<close>

lemma ParseRangeHeader_ranges:
  assumes "0 \<le> total_size"
  shows "list_all (in_object total_size) (rr_ranges (ParseRangeHeader h total_size))"
  using range_loop_in_object [OF _ assms, of _ "[]" 0 0]
  by (auto simp: ParseRangeHeader_def Malformed_def Let_def split: sum.splits)

lemma absent_iff: "rr_status (ParseRangeHeader h total_size) = kAbsent \<longleftrightarrow> RangeTrim h = []"
  by (auto simp: ParseRangeHeader_def Malformed_def Let_def split: sum.splits)

text \<open>Whatever ranges the library had computed, those it is left with for a streamed response lie inside the object.
  The library has none when the header is absent or blank.\<close>

theorem ranges_in_object:
  assumes "NormalizeRange options seekable h res note = (h', res', note')"
    and "RangeTrim (get_header_value h ''Range'') = [] \<longrightarrow> lq_ranges h = []"
    and "resp_stream res' \<noteq> None" "0 \<le> resp_stream_length res'"
  shows "\<forall>(a, b) \<in> set (lq_ranges h'). 0 \<le> a \<and> a \<le> b \<and> b < resp_stream_length res'"
proof -
  have same: "res' = res" using assms(1,3) by (auto simp: NormalizeRange_def Let_def split: if_splits option.splits RangeStatus.splits)
  have "list_all (in_object (resp_stream_length res)) (rr_ranges (ParseRangeHeader (get_header_value h ''Range'') (resp_stream_length res)))"
    using ParseRangeHeader_ranges assms(4) by (simp add: same)
  then show ?thesis
    using assms by (auto simp: NormalizeRange_def same drop_range_def list_all_iff in_object_def Let_def absent_iff
        split: if_splits option.splits RangeStatus.splits)
qed

section \<open>Admission\<close>

text \<open>The library runs \<^const>\<open>PreRouting\<close> when it routes a request and \<^const>\<open>PostRouting\<close> before it writes the head of any response
  (\<^verbatim>\<open>write_response_core\<close>), so also of one it writes before it routes: to a malformed request line or header, a target that
  is too long, a bad \<^verbatim>\<open>Accept\<close> or \<^verbatim>\<open>Range\<close> header. Beside the counter of the server, a state holds how many routed requests
  have no response yet, how many are on their way out with a 503, and how many responses were written without routing.\<close>

inductive admission_step ::
  "int \<Rightarrow> ServerOptions \<Rightarrow> Admission \<times> nat \<times> nat \<times> nat \<Rightarrow> Admission \<times> nat \<times> nat \<times> nat \<Rightarrow> bool" for hw options where
  admit: "PreRouting hw options a = (a', None :: unit LibResponse option) \<Longrightarrow>
    admission_step hw options (a, n, m, e) (a', Suc n, m, e)"
| refuse: "PreRouting hw options a = (a', Some (r :: unit LibResponse)) \<Longrightarrow>
    admission_step hw options (a, n, m, e) (a', n, Suc m, e)"
| handled: "admission_step hw options (a, Suc n, m, e) (PostRouting a, n, m, e)"
| refused: "admission_step hw options (a, n, Suc m, e) (PostRouting a, n, m, e)"
| unrouted: "admission_step hw options (a, n, m, e) (PostRouting a, n, m, Suc e)"

inductive_cases admission_stepE: "admission_step hw options (a, n, m, e) (a', n', m', e')"

inductive admission_reachable :: "int \<Rightarrow> ServerOptions \<Rightarrow> Admission \<times> nat \<times> nat \<times> nat \<Rightarrow> bool" for hw options where
  start: "admission_reachable hw options (\<lparr>ad_in_flight = 0, ad_rejected_busy = k\<rparr>, 0, 0, 0)"
| step: "admission_reachable hw options x \<Longrightarrow> admission_step hw options x y \<Longrightarrow> admission_reachable hw options y"

lemma connection_limit_pos: "1 \<le> connection_limit hw options"
  by (auto simp: connection_limit_def DefaultWorkerThreads_def Let_def)

lemma PreRouting_cases:
  "PreRouting hw options a = (a', r) \<Longrightarrow>
   ad_in_flight a' = ad_in_flight a + 1 \<and> (r = None \<longleftrightarrow> ad_in_flight a < connection_limit hw options) \<and>
   (\<forall>res. r = Some res \<longrightarrow> lr_status res = 503)"
  by (auto simp: PreRouting_def Let_def split: if_splits)

lemma admission_inv:
  "admission_reachable hw options x \<Longrightarrow>
   (case x of (a, n, m, e) \<Rightarrow> ad_in_flight a = int n + int m - int e \<and> int n \<le> connection_limit hw options + int e)"
proof (induction rule: admission_reachable.induct)
  case (start k)
  show ?case using connection_limit_pos [of hw options] by simp
next
  case (step x y)
  from step(2,3) show ?case
    by (induction rule: admission_step.induct) (auto dest!: PreRouting_cases simp: PostRouting_def)
qed

text \<open>C22. However requests arrive and finish, the counter is the number of routed requests that have no response
  yet, less the number of responses written without routing. The next request is let in exactly while the counter is below the
  limit and is otherwise answered 503. So as long as every response was routed the counter is exact, never negative, and
  at most as many requests as the limit are handled at a time; every response written without routing raises that bound by one.\<close>

theorem admission_bounded:
  assumes "admission_reachable hw options (a, n, m, e)"
    and "PreRouting hw options a = (a', r :: 'src LibResponse option)"
  shows "ad_in_flight a = int n + int m - int e \<and> int n \<le> connection_limit hw options + int e \<and>
    ad_in_flight a' = ad_in_flight a + 1 \<and>
    (r = None \<longleftrightarrow> int n + int m < connection_limit hw options + int e) \<and> (\<forall>res. r = Some res \<longrightarrow> lr_status res = 503)"
  using admission_inv [OF assms(1)] PreRouting_cases [OF assms(2)] by auto

theorem admission_bounded_witness:
  "\<exists>res. snd (PreRouting 8 (default_ServerOptions\<lparr>sopt_max_connections := 1\<rparr>) \<lparr>ad_in_flight = 1, ad_rejected_busy = 0\<rparr>) =
     Some (res :: unit LibResponse) \<and> lr_status res = 503"
proof -
  let ?o = "default_ServerOptions\<lparr>sopt_max_connections := 1\<rparr>"
  let ?a = "\<lparr>ad_in_flight = 0, ad_rejected_busy = 0\<rparr>"
  have "PreRouting 8 ?o ?a = (\<lparr>ad_in_flight = 1, ad_rejected_busy = 0\<rparr>, None :: unit LibResponse option)"
    by (simp add: PreRouting_def connection_limit_def)
  from admission_step.admit [OF this, of 0 0 0]
  have "admission_step 8 ?o (?a, 0, 0, 0) (\<lparr>ad_in_flight = 1, ad_rejected_busy = 0\<rparr>, 1, 0, 0)" by simp
  note reached = admission_reachable.step [OF admission_reachable.start this]
  obtain a' r where p: "PreRouting 8 ?o \<lparr>ad_in_flight = 1, ad_rejected_busy = 0\<rparr> = (a', r :: unit LibResponse option)"
    by (meson surj_pair)
  have "connection_limit 8 ?o = 1" by (simp add: connection_limit_def)
  then have "r \<noteq> None" "\<forall>res. r = Some res \<longrightarrow> lr_status res = 503" using admission_bounded [OF reached p] by simp_all
  then show ?thesis by (auto simp: p)
qed

text \<open>The bound is reached: after \<open>k\<close> malformed requests the server handles \<open>k\<close> more requests than its limit at a time, and from then
  on for good.\<close>

lemma unrouted_responses: "\<exists>a. admission_reachable hw options (a, 0, 0, k) \<and> ad_in_flight a = - int k"
proof (induction k)
  case 0
  show ?case using admission_reachable.start [of hw options 0] by force
next
  case (Suc k)
  then obtain a where "admission_reachable hw options (a, 0, 0, k)" "ad_in_flight a = - int k" by blast
  then show ?case using admission_reachable.step [OF _ admission_step.unrouted] by (fastforce simp: PostRouting_def)
qed

lemma admission_bypassed:
  "int n \<le> connection_limit hw options + int k \<Longrightarrow> \<exists>a. admission_reachable hw options (a, n, 0, k) \<and> ad_in_flight a = int n - int k"
proof (induction n)
  case 0
  show ?case using unrouted_responses [of hw options k] by simp
next
  case (Suc n)
  then obtain a where a: "admission_reachable hw options (a, n, 0, k)" "ad_in_flight a = int n - int k" by auto
  obtain a' r where p: "PreRouting hw options a = (a', r :: unit LibResponse option)" by (meson surj_pair)
  have "r = None" "ad_in_flight a' = int (Suc n) - int k" using PreRouting_cases [OF p] a(2) Suc.prems by auto
  then show ?case using admission_reachable.step [OF a(1) admission_step.admit] p by blast
qed

section \<open>Departures from the documentation\<close>

text \<open>One malformed escape makes every query parameter disappear, a dry run request among them.\<close>

lemma malformed_query_drops_parameters:
  "RequestQuery (MakeRequest ''u'' \<lparr>lq_method = ''POST'', lq_path = ''/v2/gc:run'', lq_target = ''/v2/gc:run?dryRun=true&x=%'',
     lq_headers = [], lq_remote_addr = [], lq_ranges = []\<rparr>) ''dryRun'' = None"
  by code_simp

text \<open>A transport error in the format \<^verbatim>\<open>apperror\<close> has no \<^verbatim>\<open>reason\<close> and carries the reason phrase as its message.\<close>

lemma transport_error_shape:
  "ErrorBody 404 ''x'' ''apperror'' =
     ''{'' @ member_text ''code'' ''404'' @ '','' @ member_text ''message'' (string_text ''Not Found'') @ '','' @
     member_text ''details'' (''[{'' @ member_text ''reason'' (string_text ''x'') @ ''}]'') @ ''}''"
  by code_simp

end
