(* ===== verification/Router.thy ===== *)
theory Router
  imports Http_Message Use_Cases Gc_Task
begin

text \<open>
  \<^verbatim>\<open>adapters/http/router\<close>, \<^verbatim>\<open>adapters/http/dto\<close> and the counters of \<^verbatim>\<open>adapters/http/metrics\<close>: the REST interface. Each
  route is an action over the use cases, wrapped by the authorization of its route, the mapping of errors and the
  counting of the answer.

  The JSON parser and printer, the transfer endpoint and the collector behind the callbacks, and the rendered
  text of the metrics are fields of the record \<open>Router\<close>. An action whose use case may wait for ever returns
  \<^const>\<open>None\<close> then.
\<close>

section \<open>Counters\<close>

record HttpMetrics =
  hm_requests :: "((string \<times> string \<times> int) \<times> nat) list"
  hm_durations :: "((string \<times> string) \<times> nat) list"
  hm_transfer_token_rejected :: nat

fun bump :: "'k \<Rightarrow> ('k \<times> nat) list \<Rightarrow> ('k \<times> nat) list" where
  "bump k [] = [(k, 1)]"
| "bump k ((j, n) # m) = (if j = k then (j, Suc n) # m else (j, n) # bump k m)"

text \<open>The histogram of durations is only counted: its sums and buckets are floating-point.\<close>

definition Observe :: "string \<Rightarrow> string \<Rightarrow> int \<Rightarrow> HttpMetrics \<Rightarrow> HttpMetrics" where
  "Observe route method status m =
     (let route_key = (if route = [] then ''<unmatched>'' else route);
          method_key = (if method = [] then ''<unknown>'' else method) in
      m\<lparr>hm_requests := bump (route_key, method_key, status) (hm_requests m),
        hm_durations := bump (route_key, method_key) (hm_durations m)\<rparr>)"

definition RecordTransferTokenRejected :: "HttpMetrics \<Rightarrow> HttpMetrics" where
  "RecordTransferTokenRejected m = m\<lparr>hm_transfer_token_rejected := Suc (hm_transfer_token_rejected m)\<rparr>"

definition RequestCount :: "string \<Rightarrow> string \<Rightarrow> int \<Rightarrow> HttpMetrics \<Rightarrow> nat" where
  "RequestCount route method status m =
     (case map_of (hm_requests m) (route, method, status) of None \<Rightarrow> 0 | Some n \<Rightarrow> n)"

section \<open>JSON shapes\<close>

definition LocationResponseJson :: "LocationResult \<Rightarrow> json" where
  "LocationResponseJson r =
     JObject (jset ''Location''
       (JObject (jset ''FileSource'' (JString (lres_file_source r)) (jset ''SignedURL'' (JString (lres_signed_url r)) [])))
       (jset ''FileID'' (JString (lres_file_id r)) []))"

definition DownloadUrlResponseJson :: "DownloadLocationResult \<Rightarrow> json" where
  "DownloadUrlResponseJson r = JObject (jset ''SignedUrl'' (JString (dl_signed_url r)) [])"

definition FileLocationResponseJson :: "FileLocationView \<Rightarrow> json" where
  "FileLocationResponseJson v =
     JObject (jset ''Location'' (JString (flv_location v)) (jset ''Driver'' (JString (flv_driver v)) []))"

definition FileListEntryJson :: "FileListEntry \<Rightarrow> json" where
  "FileListEntryJson e =
     JObject (jset ''CreatedBy'' (JString (fle_created_by e))
       (jset ''CreatedAt'' (JString (ToOsduTimestamp (fle_created_at e) 0))
         (jset ''Location'' (JString (fle_location e))
           (jset ''Driver'' (JString (fle_driver e)) (jset ''FileID'' (JString (fle_file_id e)) [])))))"

definition FileListResponseJson :: "FileListResult \<Rightarrow> json" where
  "FileListResponseJson p =
     JObject (jset ''Size'' (JInt (flt_size p))
       (jset ''NumberOfElements'' (JInt (flt_number_of_elements p))
         (jset ''Number'' (JInt (flt_number p))
           (jset ''Content'' (JArray (map FileListEntryJson (flt_content p))) []))))"

definition VersionInfoResponseJson :: "VersionInfo \<Rightarrow> json" where
  "VersionInfoResponseJson i =
     (let m = jset ''version'' (JString (vi_version i)) [];
          m = jset ''buildVersion'' (JString (vi_build_version i)) m;
          m = jset ''connectedOuterServices'' (jstrings (vi_connected_outer_services i)) m;
          m = (if vi_auth_mode i \<noteq> [] then jset ''authMode'' (JString (vi_auth_mode i)) m else m);
          m = (if vi_io_engine i \<noteq> [] then jset ''ioEngine'' (JString (vi_io_engine i)) m else m);
          m = jset ''ioUringAvailable'' (JBool (vi_io_uring_available i)) m;
          m = jset ''instanceId'' (JString (vi_instance_id i)) m
      in JObject (jset ''largeFilePlane'' (JString (vi_large_file_plane i)) m))"

definition StorageInstructionsResponseJson :: "bool \<Rightarrow> StorageInstructions \<Rightarrow> json" where
  "StorageInstructionsResponseJson collection r =
     JObject (jset ''storageLocation''
       (DmsLocationJson (si_signed_url r) (si_file_source r) (si_created_by r) (si_expires_at r) collection 0 [])
       (jset ''providerKey'' (JString (si_provider_key r)) []))"

definition RetrievalInstructionJson :: "bool \<Rightarrow> RetrievalInstruction \<Rightarrow> json" where
  "RetrievalInstructionJson collection r =
     JObject (jset ''providerKey'' (JString (ri_provider_key r))
       (jset ''retrievalProperties''
         (DmsLocationJson (ri_signed_url r) (ri_file_source r) (ri_created_by r) (ri_expires_at r) collection 0 [])
         (jset ''datasetRegistryId'' (JString (ri_dataset_registry_id r)) [])))"

definition RetrievalInstructionsResponseJson :: "bool \<Rightarrow> RetrievalInstruction list \<Rightarrow> json" where
  "RetrievalInstructionsResponseJson collection rs =
     JObject (jset ''datasets'' (JArray (map (RetrievalInstructionJson collection) rs)) [])"

definition CopyDmsResponseJson :: "CopyFileOutcome list \<Rightarrow> json" where
  "CopyDmsResponseJson outcomes =
     JArray (map (\<lambda>x. JObject (jset ''datasetBlobStoragePath'' (JString (cf_dataset_blob_storage_path x))
        (jset ''success'' (JBool (cf_success x)) []))) outcomes)"

definition SignedUrlJson :: "SignedUrlEntry \<Rightarrow> json" where
  "SignedUrlJson e =
     JObject (jset ''connectionString'' JNull (jset ''kind'' (JString (su_kind e))
       (jset ''unsignedUrl'' (JString (su_unsigned_url e)) (jset ''signedUrl'' (JString (su_signed_url e)) []))))"

definition UrlSigningResponseJson :: "SignedUrlResult \<Rightarrow> json" where
  "UrlSigningResponseJson r =
     JObject (jset ''unprocessed'' (jstrings (sr_unprocessed r))
       (jset ''processed'' (JObject (fold (\<lambda>(srn, e). jset srn (SignedUrlJson e)) (sr_processed r) [])) []))"

definition GcRunResponseJson :: "string \<Rightarrow> bool \<Rightarrow> GcReport \<Rightarrow> json" where
  "GcRunResponseJson part scheduled r =
     JObject (fold (\<lambda>(k, v). jset k v)
       [(''dry_run'', JBool (gr_dry_run r)), (''partition'', JString part), (''scheduled'', JBool scheduled),
        (''expired_leases_claimed'', JInt (gr_expired_leases_claimed r)), (''deleted_objects'', JInt (gr_deleted_objects r)),
        (''deleted_locations'', JInt (gr_deleted_locations r)), (''skipped_has_record'', JInt (gr_skipped_has_record r)),
        (''skipped_no_location'', JInt (gr_skipped_no_location r)), (''skipped_too_young'', JInt (gr_skipped_too_young r)),
        (''tmp_removed'', JInt (gr_tmp_removed r)), (''tmp_skipped_too_young'', JInt (gr_tmp_skipped_too_young r)),
        (''tmp_skipped_unknown_mtime'', JInt (gr_tmp_skipped_unknown_mtime r)), (''errors'', JInt (gr_errors r))] [])"

section \<open>The role table\<close>

record RouteAuth =
  ra_roles :: "string list"
  ra_require_partition :: bool

definition open_route :: RouteAuth where "open_route = \<lparr>ra_roles = [], ra_require_partition = True\<rparr>"
definition kEditors :: RouteAuth where "kEditors = \<lparr>ra_roles = [''service.file.editors''], ra_require_partition = True\<rparr>"
definition kViewers :: RouteAuth where "kViewers = \<lparr>ra_roles = [''service.file.viewers''], ra_require_partition = True\<rparr>"
definition kEditorsOrAdmin :: RouteAuth where
  "kEditorsOrAdmin = \<lparr>ra_roles = [''service.file.editors'', ''service.file.admin''], ra_require_partition = True\<rparr>"
definition kDatasetEditors :: RouteAuth where "kDatasetEditors = \<lparr>ra_roles = [''service.dataset.editors''], ra_require_partition = True\<rparr>"
definition kDatasetViewers :: RouteAuth where "kDatasetViewers = \<lparr>ra_roles = [''service.dataset.viewers''], ra_require_partition = True\<rparr>"
definition kStorageCreatorOrAdmin :: RouteAuth where
  "kStorageCreatorOrAdmin = \<lparr>ra_roles = [''service.storage.creator'', ''service.storage.admin''], ra_require_partition = True\<rparr>"
definition kDeliveryViewer :: RouteAuth where "kDeliveryViewer = \<lparr>ra_roles = [''service.delivery.viewer''], ra_require_partition = True\<rparr>"
definition kAdminNoPartition :: RouteAuth where "kAdminNoPartition = \<lparr>ra_roles = [''service.file.admin''], ra_require_partition = False\<rparr>"

definition RouteAuthTable :: "string \<Rightarrow> RouteAuth option" where
  "RouteAuthTable route = map_of
     [(''ops.liveness'', open_route), (''ops.readiness'', open_route), (''ops.info'', open_route), (''ops.metrics'', open_route),
      (''transfer.put'', open_route), (''transfer.get'', open_route),
      (''location.upload_url'', kEditors), (''location.get_location'', kEditors), (''location.get_file_location'', kEditors),
      (''location.download_url'', kViewers), (''location.list'', kEditors), (''metadata.create'', kEditors),
      (''metadata.get'', kViewers), (''metadata.delete'', kEditorsOrAdmin),
      (''dms.storage_instructions'', kDatasetEditors), (''dms.retrieval_instructions'', kDatasetViewers),
      (''dms.copy'', kStorageCreatorOrAdmin), (''delivery.get_file_signed_url'', kDeliveryViewer),
      (''file.revoke_url'', kAdminNoPartition), (''ops.gc_run'', kAdminNoPartition)] route"

section \<open>The router\<close>

record RouterOptions =
  uo_base_path :: string
  uo_error_format :: ErrorFormat
  uo_default_user_id :: string
  uo_json_body_limit_bytes :: int
  uo_small_body_limit_bytes :: int
  uo_transfer_put_max_body_bytes :: int
  uo_metrics_enabled :: bool
  uo_metrics_path :: string

record 'w RouterState =
  rs_world :: 'w
  rs_metrics :: HttpMetrics

text \<open>A transfer callback gets token, expiry, signature and partition; the body of a put is what the endpoint reads from
  it.\<close>

record ('w, 'st, 'src) Router =
  ru_ports :: "('w, 'st) Ports"
  ru_parse :: "string \<Rightarrow> json Result"
  ru_dump :: "json \<Rightarrow> string"
  ru_shared_state_probe :: "('w \<Rightarrow> unit Result) option"
  ru_metadata_probe :: "('w, unit) action"
  ru_transfer_put :: "(string \<Rightarrow> string \<Rightarrow> string \<Rightarrow> string \<Rightarrow> string Result list \<Rightarrow> ('w, unit) action) option"
  ru_transfer_open_get :: "(string \<Rightarrow> string \<Rightarrow> string \<Rightarrow> string \<Rightarrow> ('w, 'src option) action) option"
  ru_source_size :: "'src \<Rightarrow> int option"
  ru_gc_run :: "(CallerContext \<Rightarrow> bool \<Rightarrow> ('w, GcReport) action) option"
  ru_gc_partition :: string
  ru_gc_scheduled :: bool
  ru_render_metrics :: "'w RouterState \<Rightarrow> string"
  ru_options :: RouterOptions

datatype 'a attempt = Finished "'a Result" | Raised "string option"

type_synonym ('w, 'src) RouterAction =
  "HttpRequest \<Rightarrow> CallerContext \<Rightarrow> string Result list \<Rightarrow> 'w RouterState \<Rightarrow> ('w RouterState \<times> 'src HttpResponse attempt) option"

type_synonym ('w, 'src) RouterHandler =
  "HttpRequest \<Rightarrow> string Result list \<Rightarrow> 'w RouterState \<Rightarrow> ('w RouterState \<times> 'src HttpResponse) option"

definition plain_response :: "Response \<Rightarrow> 'src HttpResponse" where
  "plain_response r = \<lparr>resp_status = resp_status r, resp_headers = resp_headers r, resp_body = resp_body r,
     resp_stream = None, resp_stream_length = - 1\<rparr>"

definition RouterError :: "('w, 'st, 'src) Router \<Rightarrow> Error \<Rightarrow> 'src HttpResponse" where
  "RouterError R e = plain_response (ErrorToResponse (ru_dump R) e (uo_error_format (ru_options R)))"

definition RouterCaller :: "('w, 'st, 'src) Router \<Rightarrow> HttpRequest \<Rightarrow> CallerContext" where
  "RouterCaller R req =
     CallerFromHeaders (\<lambda>name. HeaderGet name (hq_headers req)) (hq_correlation_id req) (uo_default_user_id (ru_options R))"

text \<open>The check before an action: the role entry of the route, then partition, token and authorizer.\<close>

definition RouteAuthorize :: "('w, 'st, 'src) Router \<Rightarrow> string \<Rightarrow> CallerContext \<Rightarrow> ('w, unit) action" where
  "RouteAuthorize R route caller w =
     (case RouteAuthTable route of
        None \<Rightarrow> (w, Err kInternal (msg_route_unregistered @ route))
      | Some auth \<Rightarrow>
          if ra_roles auth = [] then (w, Ok ())
          else if ra_require_partition auth \<and> cc_partition caller = []
          then (w, Err kUnauthenticated ''Missing partitionID'')
          else if cc_bearer_token caller = [] then (w, Err kUnauthenticated ''Missing authorization token'')
          else p_AuthorizeAny (ru_ports R) (ra_roles auth) (cc_partition caller) (cc_bearer_token caller) w)"

definition router_finish :: "HttpRequest \<Rightarrow> 'w RouterState \<times> 'src HttpResponse \<Rightarrow> 'w RouterState \<times> 'src HttpResponse" where
  "router_finish req = (\<lambda>(s, res).
     (s\<lparr>rs_metrics := Observe (hq_route_name req) (MethodName (hq_method req)) (resp_status res) (rs_metrics s)\<rparr>, res))"

definition RouterWrap :: "('w, 'st, 'src) Router \<Rightarrow> ('w, 'src) RouterAction \<Rightarrow> ('w, 'src) RouterHandler" where
  "RouterWrap R action req reads s =
     (let caller = RouterCaller R req in
      case RouteAuthorize R (hq_route_name req) caller (rs_world s) of
        (w, Inl e) \<Rightarrow> Some (router_finish req (s\<lparr>rs_world := w\<rparr>, RouterError R e))
      | (w, Inr _) \<Rightarrow>
          (case action req caller reads (s\<lparr>rs_world := w\<rparr>) of
             None \<Rightarrow> None
           | Some (s, Finished (Inl e)) \<Rightarrow> Some (router_finish req (s, RouterError R e))
           | Some (s, Finished (Inr res)) \<Rightarrow> Some (router_finish req (s, res))
           | Some (s, Raised (Some what)) \<Rightarrow>
               Some (router_finish req (s, RouterError R (mk_error kInternal (msg_unexpected @ what))))
           | Some (s, Raised None) \<Rightarrow>
               Some (router_finish req (s, RouterError R (mk_error kInternal msg_unexpected_unknown)))))"

definition RecordTransferRejection :: "Error \<Rightarrow> 'w RouterState \<Rightarrow> 'w RouterState" where
  "RecordTransferRejection e s =
     (if error_kind e \<in> {kUnauthenticated, kPermissionDenied}
      then s\<lparr>rs_metrics := RecordTransferTokenRejected (rs_metrics s)\<rparr> else s)"

section \<open>Actions\<close>

definition ok_action :: "'w RouterState \<times> 'src HttpResponse Result \<Rightarrow> ('w RouterState \<times> 'src HttpResponse attempt) option" where
  "ok_action = (\<lambda>(s, r). Some (s, Finished r))"

text \<open>A use case runs on the world inside the router's state; its result becomes a JSON answer.\<close>

definition on_world :: "('w, 'a) action \<Rightarrow> 'w RouterState \<Rightarrow> 'w RouterState \<times> 'a Result" where
  "on_world f s = (case f (rs_world s) of (w, r) \<Rightarrow> (s\<lparr>rs_world := w\<rparr>, r))"

definition json_answer :: "('w, 'st, 'src) Router \<Rightarrow> int \<Rightarrow> json \<Rightarrow> 'src HttpResponse Result" where
  "json_answer R status v = Ok (JsonResponse status (ru_dump R v))"

definition LivenessAction :: "('w, 'src) RouterAction" where
  "LivenessAction req caller reads s = ok_action (s, Ok (TextResponse 200 ''File service is alive''))"

definition ReadinessAction :: "('w, 'st, 'src) Router \<Rightarrow> ('w, 'src) RouterAction" where
  "ReadinessAction R req caller reads s =
     ok_action (case ru_shared_state_probe R of
        Some probe \<Rightarrow>
          (case probe (rs_world s) of
             Inl e \<Rightarrow> (s, Ok (TextResponse 503 (''File service is not ready: '' @ error_message e)))
           | Inr _ \<Rightarrow> (s, Ok (TextResponse 200 ''File service is ready'')))
      | None \<Rightarrow>
          (case on_world (ru_metadata_probe R) s of
             (s, Inl _) \<Rightarrow> (s, Ok (TextResponse 503 ''File service is not ready''))
           | (s, Inr _) \<Rightarrow> (s, Ok (TextResponse 200 ''File service is ready''))))"

definition InfoAction :: "('w, 'st, 'src) Router \<Rightarrow> ('w, 'src) RouterAction" where
  "InfoAction R req caller reads s =
     ok_action (FSS_TRY_ST (s, GetInfo (ru_ports R)) (\<lambda>s i. (s, json_answer R 200 (VersionInfoResponseJson i))))"

definition MetricsHandler :: "('w, 'st, 'src) Router \<Rightarrow> ('w, 'src) RouterHandler" where
  "MetricsHandler R req reads s =
     (let res = (EmptyResponse 200)\<lparr>resp_body := ru_render_metrics R s,
            resp_headers := HeaderSet ''Content-Type'' ''text/plain; version=0.0.4; charset=utf-8'' []\<rparr> in
      Some (s\<lparr>rs_metrics := Observe ''ops.metrics'' (MethodName (hq_method req)) 200 (rs_metrics s)\<rparr>, res))"

definition UploadUrlAction :: "('w, 'st, 'src) Router \<Rightarrow> ('w, 'src) RouterAction" where
  "UploadUrlAction R req caller reads s =
     ok_action (FSS_TRY_ST (on_world (GetUploadLocation (ru_ports R) caller None (RequestQuery req ''expiryTime'')) s) (\<lambda>s r.
       (s, json_answer R 200 (LocationResponseJson r))))"

definition member_string :: "json \<Rightarrow> string \<Rightarrow> string option" where
  "member_string v key = (case jfind v key of Some (JString t) \<Rightarrow> Some t | _ \<Rightarrow> None)"

definition GetLocationAction :: "('w, 'st, 'src) Router \<Rightarrow> ('w, 'src) RouterAction" where
  "GetLocationAction R req caller reads s =
     ok_action (FSS_TRY_ST
       (s, if hq_body req = [] then Ok None else FSS_TRY (ParseObject (ru_parse R) (hq_body req)) (\<lambda>v. Ok (member_string v ''FileID'')))
       (\<lambda>s requested_file_id.
         FSS_TRY_ST (on_world (GetUploadLocation (ru_ports R) caller requested_file_id (RequestQuery req ''expiryTime'')) s) (\<lambda>s r.
           (s, json_answer R 200 (LocationResponseJson r)))))"

definition kInvalidFileLocationRequest :: string where
  "kInvalidFileLocationRequest = ''ConstraintViolationException: Invalid FileLocationRequest''"

definition GetFileLocationAction :: "('w, 'st, 'src) Router \<Rightarrow> ('w, 'src) RouterAction" where
  "GetFileLocationAction R req caller reads s =
     ok_action (if hq_body req = [] then (s, Err kInvalidArgument kInvalidFileLocationRequest)
       else FSS_TRY_ST (s, ParseObject (ru_parse R) (hq_body req)) (\<lambda>s v.
         (case member_string v ''FileID'' of
            None \<Rightarrow> (s, Err kInvalidArgument kInvalidFileLocationRequest)
          | Some file_id \<Rightarrow>
              FSS_TRY_ST (on_world (GetFileLocation (ru_ports R) caller file_id) s) (\<lambda>s view.
                (s, json_answer R 200 (FileLocationResponseJson view))))))"

definition with_id :: "HttpRequest \<Rightarrow> 'w RouterState \<Rightarrow> (string \<Rightarrow> 'w RouterState \<times> 'a Result) \<Rightarrow> 'w RouterState \<times> 'a Result" where
  "with_id req s k =
     (case RequestParam req ''id'' of
        None \<Rightarrow> (s, Err kInvalidArgument msg_missing_id)
      | Some i \<Rightarrow> k i)"

definition DownloadUrlAction :: "('w, 'st, 'src) Router \<Rightarrow> ('w, 'src) RouterAction" where
  "DownloadUrlAction R req caller reads s =
     ok_action (with_id req s (\<lambda>i.
       FSS_TRY_ST (on_world (GetDownloadLocation (ru_ports R) caller i (RequestQuery req ''expiryTime'')) s) (\<lambda>s r.
         (s, json_answer R 200 (DownloadUrlResponseJson r)))))"

text \<open>\<^verbatim>\<open>get<int>()\<close> keeps the low 32 bits.\<close>

definition find_int :: "json \<Rightarrow> string \<Rightarrow> int \<Rightarrow> int" where
  "find_int v key d = (case jfind v key of Some x \<Rightarrow> if is_number_integer x then wrap_i32 (get_int64 x) else d | None \<Rightarrow> d)"

definition parse_time_field :: "json \<Rightarrow> string \<Rightarrow> int \<Rightarrow> int option" where
  "parse_time_field v key d =
     (case member_string v key of
        None \<Rightarrow> Some d
      | Some t \<Rightarrow> (case ParseIso8601 t of Inl _ \<Rightarrow> None | Inr n \<Rightarrow> Some n))"

definition default_FileListRequest :: FileListRequest where
  "default_FileListRequest = \<lparr>flr_user_id = [], flr_time_from = - 1, flr_time_to = - 1, flr_page_num = 0, flr_items = 0\<rparr>"

definition parse_list_request :: "json \<Rightarrow> FileListRequest Result" where
  "parse_list_request v =
     (case (parse_time_field v ''TimeFrom'' (- 1), parse_time_field v ''TimeTo'' (- 1)) of
        (Some f, Some t) \<Rightarrow>
          Ok \<lparr>flr_user_id = (case member_string v ''UserID'' of None \<Rightarrow> [] | Some u \<Rightarrow> u), flr_time_from = f, flr_time_to = t,
              flr_page_num = find_int v ''PageNum'' 0, flr_items = find_int v ''Items'' 0\<rparr>
      | _ \<Rightarrow> Err kInvalidArgument msg_time_range)"

definition FileListAction :: "('w, 'st, 'src) Router \<Rightarrow> ('w, 'src) RouterAction" where
  "FileListAction R req caller reads s =
     ok_action (FSS_TRY_ST
       (s, if hq_body req = [] then Ok default_FileListRequest
           else FSS_TRY (ParseObject (ru_parse R) (hq_body req)) parse_list_request) (\<lambda>s list_request.
       FSS_TRY_ST (on_world (GetFileList (ru_ports R) caller list_request) s) (\<lambda>s page.
         (s, json_answer R 200 (FileListResponseJson page)))))"

definition CreateAction :: "('w, 'st, 'src) Router \<Rightarrow> ('w, 'src) RouterAction" where
  "CreateAction R req caller reads s =
     (case FSS_TRY (ParseObject (ru_parse R) (hq_body req)) ParseFileMetadataRecord of
        Inl e \<Rightarrow> ok_action (s, Inl e)
      | Inr record \<Rightarrow>
          map_option (\<lambda>(w, r). (s\<lparr>rs_world := w\<rparr>,
              Finished (FSS_TRY r (\<lambda>i. json_answer R 201 (JObject (jset ''id'' (JString i) []))))))
            (CreateFileMetadata (ru_ports R) caller record (rs_world s)))"

definition GetMetadataAction :: "('w, 'st, 'src) Router \<Rightarrow> ('w, 'src) RouterAction" where
  "GetMetadataAction R req caller reads s =
     ok_action (with_id req s (\<lambda>i.
       FSS_TRY_ST (on_world (GetFileMetadata (ru_ports R) caller i) s) (\<lambda>s record.
         (s, json_answer R 200 (ToJson record)))))"

definition DeleteMetadataAction :: "('w, 'st, 'src) Router \<Rightarrow> ('w, 'src) RouterAction" where
  "DeleteMetadataAction R req caller reads s =
     ok_action (with_id req s (\<lambda>i.
       FSS_TRY_ST (on_world (DeleteFileMetadata (ru_ports R) caller i) s) (\<lambda>s _. (s, Ok (EmptyResponse 204)))))"

definition StorageInstructionsAction :: "('w, 'st, 'src) Router \<Rightarrow> bool \<Rightarrow> ('w, 'src) RouterAction" where
  "StorageInstructionsAction R collection req caller reads s =
     ok_action (FSS_TRY_ST (on_world (GetStorageInstructions (ru_ports R) caller (RequestQuery req ''expiryTime'')) s) (\<lambda>s r.
       (s, json_answer R 200 (StorageInstructionsResponseJson collection r))))"

definition all_strings :: "json list \<Rightarrow> string list option" where
  "all_strings xs = those (map (\<lambda>x. case x of JString t \<Rightarrow> Some t | _ \<Rightarrow> None) xs)"

text \<open>An optional member that has to be an array of strings.\<close>

definition string_array :: "json \<Rightarrow> string \<Rightarrow> string \<Rightarrow> string list Result" where
  "string_array v key message =
     (case jfind v key of
        None \<Rightarrow> Ok []
      | Some (JArray xs) \<Rightarrow> (case all_strings xs of None \<Rightarrow> Err kInvalidArgument message | Some ts \<Rightarrow> Ok ts)
      | Some _ \<Rightarrow> Err kInvalidArgument message)"

definition RetrievalInstructionsAction :: "('w, 'st, 'src) Router \<Rightarrow> bool \<Rightarrow> ('w, 'src) RouterAction" where
  "RetrievalInstructionsAction R collection req caller reads s =
     ok_action (FSS_TRY_ST (s, ParseObject (ru_parse R) (hq_body req)) (\<lambda>s v.
       FSS_TRY_ST (s, string_array v ''datasetRegistryIds'' msg_registry_ids) (\<lambda>s ids.
       FSS_TRY_ST (on_world (GetRetrievalInstructions (ru_ports R) caller ids (RequestQuery req ''expiryTime'')) s) (\<lambda>s rs.
         (s, json_answer R 200 (RetrievalInstructionsResponseJson collection rs))))))"

definition CopyAction :: "('w, 'st, 'src) Router \<Rightarrow> ('w, 'src) RouterAction" where
  "CopyAction R req caller reads s =
     ok_action (FSS_TRY_ST (s, ParseObject (ru_parse R) (hq_body req)) (\<lambda>s v.
       (case jfind v ''datasetSources'' of
          Some (JArray items) \<Rightarrow>
            FSS_TRY_ST (on_world (CopyFiles (ru_ports R) caller (map FileSourceFromRecordNode items)) s) (\<lambda>s outcomes.
              (s, json_answer R 200 (CopyDmsResponseJson outcomes)))
        | _ \<Rightarrow> (s, Err kInvalidArgument msg_dataset_sources))))"

definition SignedUrlAction :: "('w, 'st, 'src) Router \<Rightarrow> ('w, 'src) RouterAction" where
  "SignedUrlAction R req caller reads s =
     ok_action (FSS_TRY_ST (s, ParseObject (ru_parse R) (hq_body req)) (\<lambda>s v.
       FSS_TRY_ST (s, string_array v ''srns'' msg_srns) (\<lambda>s srns.
       FSS_TRY_ST (on_world (GetFileSignedUrl (ru_ports R) caller srns (RequestQuery req ''expiryTime'')) s) (\<lambda>s r.
         (s, json_answer R 200 (UrlSigningResponseJson r))))))"

definition RevokeUrlAction :: "('w, 'st, 'src) Router \<Rightarrow> ('w, 'src) RouterAction" where
  "RevokeUrlAction R req caller reads s =
     ok_action (FSS_TRY_ST (on_world (RevokeUrl (ru_ports R) caller) s) (\<lambda>s _.
       (s, Ok ((EmptyResponse 204)\<lparr>resp_headers :=
          HeaderSet ''X-FSS-Notice'' msg_revoke_notice []\<rparr>))))"

definition GcRunAction ::
  "('w, 'st, 'src) Router \<Rightarrow> (CallerContext \<Rightarrow> bool \<Rightarrow> ('w, GcReport) action) \<Rightarrow> ('w, 'src) RouterAction" where
  "GcRunAction R run req caller reads s =
     (let raw_dry_run = RequestQuery req ''dryRun'';
          force_dry_run = (raw_dry_run = Some ''true'' \<or> raw_dry_run = Some ''1'') in
      ok_action (FSS_TRY_ST (on_world (run caller force_dry_run) s) (\<lambda>s report.
        (s, json_answer R 200 (GcRunResponseJson (ru_gc_partition R) (ru_gc_scheduled R) report)))))"

definition query_or_empty :: "HttpRequest \<Rightarrow> string \<Rightarrow> string" where
  "query_or_empty req name = (case RequestQuery req name of None \<Rightarrow> [] | Some v \<Rightarrow> v)"

definition TransferPutAction ::
  "(string \<Rightarrow> string \<Rightarrow> string \<Rightarrow> string \<Rightarrow> string Result list \<Rightarrow> ('w, unit) action) \<Rightarrow> ('w, 'src) RouterAction" where
  "TransferPutAction put req caller reads s =
     ok_action (case RequestParam req ''token'' of
        None \<Rightarrow> (s, Err kInvalidArgument msg_missing_token)
      | Some token \<Rightarrow>
          if \<not> hq_streamed req then (s, Err kInvalidArgument msg_put_without_body)
          else (case on_world (put token (query_or_empty req ''exp'') (query_or_empty req ''sig'') (cc_partition caller) reads) s of
                  (s, Inl e) \<Rightarrow> (RecordTransferRejection e s, Inl e)
                | (s, Inr _) \<Rightarrow> (s, Ok (EmptyResponse 200))))"

definition TransferGetAction ::
  "('w, 'st, 'src) Router \<Rightarrow> (string \<Rightarrow> string \<Rightarrow> string \<Rightarrow> string \<Rightarrow> ('w, 'src option) action) \<Rightarrow> ('w, 'src) RouterAction" where
  "TransferGetAction R open_get req caller reads s =
     ok_action (case RequestParam req ''token'' of
        None \<Rightarrow> (s, Err kInvalidArgument msg_missing_token)
      | Some token \<Rightarrow>
          (case on_world (open_get token (query_or_empty req ''exp'') (query_or_empty req ''sig'') (cc_partition caller)) s of
             (s, Inl e) \<Rightarrow> (RecordTransferRejection e s, Inl e)
           | (s, Inr source) \<Rightarrow>
               let len = (case source of
                            None \<Rightarrow> 0
                          | Some src \<Rightarrow> (case ru_source_size R src of None \<Rightarrow> - 1 | Some n \<Rightarrow> n)) in
               (s, Ok (StreamResponse 200 ''application/octet-stream'' source len))))"

section \<open>Registration of the routes\<close>

definition kJsonBodyLimit :: int where "kJsonBodyLimit = 10 * 1024 * 1024"
definition kSmallBodyLimit :: int where "kSmallBodyLimit = 256 * 1024"

definition named_route :: "string \<Rightarrow> int \<Rightarrow> RouteOptions" where
  "named_route name max_body_bytes = default_RouteOptions\<lparr>ro_name := name, ro_max_body_bytes := max_body_bytes\<rparr>"

text \<open>The routes in the order of registration: method, pattern, options and handler.\<close>

definition ops_routes :: "('w, 'st, 'src) Router \<Rightarrow> (Method \<times> string \<times> RouteOptions \<times> ('w, 'src) RouterHandler) list" where
  "ops_routes R =
     (let base = uo_base_path (ru_options R) in
      [(kGet, base @ ''/v2/liveness_check'', named_route ''ops.liveness'' kSmallBodyLimit, RouterWrap R LivenessAction),
       (kGet, base @ ''/v2/readiness_check'', named_route ''ops.readiness'' kSmallBodyLimit, RouterWrap R (ReadinessAction R)),
       (kGet, base @ ''/v2/info'', named_route ''ops.info'' kSmallBodyLimit, RouterWrap R (InfoAction R))] @
      (if uo_metrics_enabled (ru_options R)
       then [(kGet, uo_metrics_path (ru_options R), named_route ''ops.metrics'' kSmallBodyLimit, MetricsHandler R)] else []))"

definition file_routes :: "('w, 'st, 'src) Router \<Rightarrow> (Method \<times> string \<times> RouteOptions \<times> ('w, 'src) RouterHandler) list" where
  "file_routes R =
     (let base = uo_base_path (ru_options R) in
      [(kGet, base @ ''/v2/files/uploadURL'', named_route ''location.upload_url'' kJsonBodyLimit, RouterWrap R (UploadUrlAction R)),
       (kPost, base @ ''/v2/getLocation'', named_route ''location.get_location'' kJsonBodyLimit, RouterWrap R (GetLocationAction R)),
       (kPost, base @ ''/v2/getFileLocation'', named_route ''location.get_file_location'' kJsonBodyLimit,
          RouterWrap R (GetFileLocationAction R)),
       (kGet, base @ ''/v2/files/:id/downloadURL'', named_route ''location.download_url'' kJsonBodyLimit,
          RouterWrap R (DownloadUrlAction R)),
       (kPost, base @ ''/v2/getFileList'', named_route ''location.list'' kSmallBodyLimit, RouterWrap R (FileListAction R)),
       (kPost, base @ ''/v2/files/metadata'', named_route ''metadata.create'' kJsonBodyLimit, RouterWrap R (CreateAction R)),
       (kGet, base @ ''/v2/files/:id/metadata'', named_route ''metadata.get'' kJsonBodyLimit, RouterWrap R (GetMetadataAction R)),
       (kDelete, base @ ''/v2/files/:id/metadata'', named_route ''metadata.delete'' kJsonBodyLimit,
          RouterWrap R (DeleteMetadataAction R))])"

definition dms_routes ::
  "('w, 'st, 'src) Router \<Rightarrow> string \<Rightarrow> (Method \<times> string \<times> RouteOptions \<times> ('w, 'src) RouterHandler) list" where
  "dms_routes R area =
     (let base = uo_base_path (ru_options R); collection = (area = ''/v2/file-collections'') in
      [(kPost, base @ area @ ''/storageInstructions'', named_route ''dms.storage_instructions'' kJsonBodyLimit,
          RouterWrap R (StorageInstructionsAction R collection)),
       (kPost, base @ area @ ''/retrievalInstructions'', named_route ''dms.retrieval_instructions'' kJsonBodyLimit,
          RouterWrap R (RetrievalInstructionsAction R collection)),
       (kPost, base @ area @ ''/copy'', named_route ''dms.copy'' kJsonBodyLimit, RouterWrap R (CopyAction R))])"

definition last_routes :: "('w, 'st, 'src) Router \<Rightarrow> (Method \<times> string \<times> RouteOptions \<times> ('w, 'src) RouterHandler) list" where
  "last_routes R =
     (let base = uo_base_path (ru_options R) in
      [(kPost, base @ ''/v2/delivery/GetFileSignedUrl'', named_route ''delivery.get_file_signed_url'' kJsonBodyLimit,
          RouterWrap R (SignedUrlAction R)),
       (kPost, base @ ''/v2/files/revokeURL'', named_route ''file.revoke_url'' kSmallBodyLimit, RouterWrap R (RevokeUrlAction R))] @
      (case ru_gc_run R of
         None \<Rightarrow> []
       | Some run \<Rightarrow> [(kPost, base @ ''/v2/gc:run'', named_route ''ops.gc_run'' kSmallBodyLimit, RouterWrap R (GcRunAction R run))]) @
      (case ru_transfer_put R of
         None \<Rightarrow> []
       | Some put \<Rightarrow>
           [(kPut, base @ ''/v1/transfer/:token'',
             (named_route ''transfer.put'' (uo_transfer_put_max_body_bytes (ru_options R)))\<lparr>ro_stream_body := True\<rparr>,
             RouterWrap R (TransferPutAction put))]) @
      (case ru_transfer_open_get R of
         None \<Rightarrow> []
       | Some open_get \<Rightarrow>
           [(kGet, base @ ''/v1/transfer/:token'', named_route ''transfer.get'' 0, RouterWrap R (TransferGetAction R open_get))]))"

definition router_routes :: "('w, 'st, 'src) Router \<Rightarrow> (Method \<times> string \<times> RouteOptions \<times> ('w, 'src) RouterHandler) list" where
  "router_routes R =
     ops_routes R @ file_routes R @ dms_routes R ''/v2/files'' @ dms_routes R ''/v2/file-collections'' @ last_routes R"

definition RouterRegister :: "('w, 'st, 'src) Router \<Rightarrow> ('w, 'src) RouterHandler Route list" where
  "RouterRegister R = fold (\<lambda>(method, pattern, options, handler). AddRoute method pattern options handler) (router_routes R) []"

end
