(* ===== verification/Router_Properties.thy ===== *)
theory Router_Properties
  imports Router Jwt_Authorizer
begin

text \<open>
  The guarantees of the REST interface: every registered route has an entry in the role table, a refused caller learns
  nothing about the body of its request, and the endpoints resolve to the intended routes.
\<close>

section \<open>The registered routes\<close>

lemma MatchRoute_member: "MatchRoute rs meth path = Some (r, params) \<Longrightarrow> r \<in> set rs \<and> rt_method r = meth"
  by (induction rs meth path rule: MatchRoute.induct) (auto split: if_splits option.splits)

lemma MakeServerRoute_sel [simp]:
  "rt_method (MakeServerRoute m p opt h) = m" "rt_pattern (MakeServerRoute m p opt h) = p"
  "rt_options (MakeServerRoute m p opt h) = opt" "rt_handler (MakeServerRoute m p opt h) = h"
  by (simp_all add: MakeServerRoute_def)

lemma registered_from:
  "r \<in> set (fold (\<lambda>(m, p, opt, h). AddRoute m p opt h) xs rs) \<Longrightarrow>
   r \<in> set rs \<or> (\<exists>m p. (m, p, rt_options r, rt_handler r) \<in> set xs)"
proof (induction xs arbitrary: rs)
  case (Cons x xs)
  obtain m p opt h where x: "x = (m, p, opt, h)" by (cases x) auto
  have "r \<in> set (AddRoute m p opt h rs) \<or> (\<exists>m p. (m, p, rt_options r, rt_handler r) \<in> set xs)"
    using Cons.IH [of "AddRoute m p opt h rs"] Cons.prems x by simp
  moreover have "rt_options r = opt \<and> rt_handler r = h" if "r \<in> set (AddRoute m p opt h rs)" "r \<notin> set rs"
    using that by (auto simp: AddRoute_def split: if_splits)
  ultimately show ?case using x by auto
qed simp

lemma RouterRegister_from:
  "r \<in> set (RouterRegister R) \<Longrightarrow> \<exists>m p. (m, p, rt_options r, rt_handler r) \<in> set (router_routes R)"
  using registered_from [of r "router_routes R" "[]"] by (simp add: RouterRegister_def)

text \<open>The routes without a role: the operations endpoints, and the transfer endpoint, whose token is its credential.\<close>

definition public_routes :: "string set" where
  "public_routes = {''ops.liveness'', ''ops.readiness'', ''ops.info'', ''ops.metrics'', ''transfer.put'', ''transfer.get''}"

definition wrapped_route :: "('w, 'st, 'src) Router \<Rightarrow> RouteOptions \<times> ('w, 'src) RouterHandler \<Rightarrow> bool" where
  "wrapped_route R = (\<lambda>(opt, h).
     (\<exists>auth. RouteAuthTable (ro_name opt) = Some auth \<and> (ra_roles auth = [] \<longleftrightarrow> ro_name opt \<in> public_routes)) \<and>
     (ro_name opt \<noteq> ''ops.metrics'' \<longrightarrow> (\<exists>action. h = RouterWrap R action)))"

lemmas role_entries = open_route_def kEditors_def kViewers_def kEditorsOrAdmin_def kDatasetEditors_def kDatasetViewers_def
  kStorageCreatorOrAdmin_def kDeliveryViewer_def kAdminNoPartition_def

lemma routes_wrapped:
  assumes "(m, p, opt, h) \<in> set (router_routes R)"
  shows "wrapped_route R (opt, h)"
proof -
  have "(m, p, opt, h) \<in> set (ops_routes R) \<Longrightarrow> ?thesis"
    by (auto simp: ops_routes_def wrapped_route_def named_route_def RouteAuthTable_def public_routes_def role_entries Let_def split: if_splits)
  moreover have "(m, p, opt, h) \<in> set (file_routes R) \<Longrightarrow> ?thesis"
    by (auto simp: file_routes_def wrapped_route_def named_route_def RouteAuthTable_def public_routes_def role_entries Let_def)
  moreover have "(m, p, opt, h) \<in> set (dms_routes R area) \<Longrightarrow> ?thesis" for area
    by (auto simp: dms_routes_def wrapped_route_def named_route_def RouteAuthTable_def public_routes_def role_entries Let_def)
  moreover have "(m, p, opt, h) \<in> set (last_routes R) \<Longrightarrow> ?thesis"
    by (auto simp: last_routes_def wrapped_route_def named_route_def RouteAuthTable_def public_routes_def role_entries Let_def
        split: option.splits)
  ultimately show ?thesis using assms by (auto simp: router_routes_def)
qed

section \<open>Authorization before anything else\<close>

lemma RouteAuthorize_Inr:
  assumes "RouteAuthorize R route caller w = (w', Inr u)" "RouteAuthTable route = Some auth" "ra_roles auth \<noteq> []"
  shows "(ra_require_partition auth \<longrightarrow> cc_partition caller \<noteq> []) \<and> cc_bearer_token caller \<noteq> [] \<and>
    p_AuthorizeAny (ru_ports R) (ra_roles auth) (cc_partition caller) (cc_bearer_token caller) w = (w', Ok ())"
  using assms by (auto simp: RouteAuthorize_def split: if_splits)

text \<open>C7. Every route that is not one of the six public ones has roles in the table. A request that reaches such a route either
  carries a token, a partition where one is required, and roles the authorizer accepts, or it is answered with the
  error of the check: then the answer is the same for every body, the action has not run, and the world is what the
  authorizer left.\<close>

theorem router_guarded:
  assumes "MatchRoute (RouterRegister R) method path = Some (r, params)" "ro_name (rt_options r) \<notin> public_routes"
    and "hq_route_name req = ro_name (rt_options r)"
  shows "\<exists>auth. RouteAuthTable (ro_name (rt_options r)) = Some auth \<and> ra_roles auth \<noteq> [] \<and>
    (let caller = RouterCaller R req in
     case RouteAuthorize R (ro_name (rt_options r)) caller (rs_world s) of
       (w, Inl e) \<Rightarrow>
         \<forall>body reads. rt_handler r (req\<lparr>hq_body := body\<rparr>) reads s =
           Some (s\<lparr>rs_world := w, rs_metrics := Observe (ro_name (rt_options r)) (MethodName (hq_method req))
             (HttpStatusFor (error_kind e)) (rs_metrics s)\<rparr>, RouterError R e)
     | (w, Inr _) \<Rightarrow>
         (ra_require_partition auth \<longrightarrow> cc_partition caller \<noteq> []) \<and> cc_bearer_token caller \<noteq> [] \<and>
         p_AuthorizeAny (ru_ports R) (ra_roles auth) (cc_partition caller) (cc_bearer_token caller) (rs_world s) = (w, Ok ()))"
proof -
  let ?n = "ro_name (rt_options r)" and ?caller = "RouterCaller R req"
  have wrapped: "wrapped_route R (rt_options r, rt_handler r)"
    using MatchRoute_member [OF assms(1)] RouterRegister_from [of r R] routes_wrapped by blast
  then obtain auth action where a: "RouteAuthTable ?n = Some auth" "ra_roles auth \<noteq> []" "rt_handler r = RouterWrap R action"
    using assms(2) by (auto simp: wrapped_route_def public_routes_def)
  have same: "RouterCaller R (req\<lparr>hq_body := body\<rparr>) = ?caller" for body by (simp add: RouterCaller_def)
  have "rt_handler r (req\<lparr>hq_body := body\<rparr>) reads s =
      Some (s\<lparr>rs_world := w, rs_metrics := Observe ?n (MethodName (hq_method req)) (HttpStatusFor (error_kind e)) (rs_metrics s)\<rparr>,
        RouterError R e)"
    if "RouteAuthorize R ?n ?caller (rs_world s) = (w, Inl e)" for w e body reads
    using that assms(3) same
    by (simp add: a(3) RouterWrap_def router_finish_def RouterError_def plain_response_def ErrorToResponse_def Let_def)
  moreover obtain w u where "RouteAuthorize R ?n ?caller (rs_world s) = (w, u)"
    by (cases "RouteAuthorize R ?n ?caller (rs_world s)") auto
  ultimately show ?thesis
    using a(1,2) RouteAuthorize_Inr [of R ?n ?caller "rs_world s" w _ auth]
    by (intro exI [of _ auth]) (cases u, simp_all add: Let_def)
qed

section \<open>Resolution of the endpoints\<close>

definition resolve :: "'h Route list \<Rightarrow> Method \<Rightarrow> string \<Rightarrow> (string \<times> (string \<times> string) list) option" where
  "resolve routes method path = map_option (\<lambda>(r, params). (ro_name (rt_options r), params)) (MatchRoute routes method path)"

text \<open>A reference for the table: the first entry with the method (a \<^verbatim>\<open>GET\<close> entry also serves \<^verbatim>\<open>HEAD\<close>) whose segments match.\<close>

fun first_match ::
  "(Method \<times> string list \<times> string) list \<Rightarrow> Method \<Rightarrow> string list \<Rightarrow> (string \<times> (string \<times> string) list) option" where
  "first_match [] method segments = None"
| "first_match ((m, pat, name) # rest) method segments =
     (if method = m \<or> method = kHead \<and> m = kGet then
        (case match_segments pat segments of None \<Rightarrow> first_match rest method segments | Some ps \<Rightarrow> Some (name, ps))
      else first_match rest method segments)"

definition no_wildcard :: "string \<Rightarrow> bool" where
  "no_wildcard p \<longleftrightarrow> p = [] \<or> last p \<noteq> CHR ''*''"

lemma drop_last_two: "length p \<ge> 2 \<Longrightarrow> drop (length p - 2) p = [a, b] \<Longrightarrow> last p = b"
  by (metis append_take_drop_id last_append last.simps list.distinct(1))

lemma MakeServerRoute_segments:
  assumes "no_wildcard p"
  shows "rt_kind (MakeServerRoute m p opt h) \<noteq> kPrefix" "rt_segments (MakeServerRoute m p opt h) = SplitPath p"
proof -
  have "\<not> (length p \<ge> 2 \<and> drop (length p - 2) p = ''/*'')"
    using assms drop_last_two [of p "CHR ''/''" "CHR ''*''"] by (cases "p = []") (auto simp: no_wildcard_def)
  then show "rt_kind (MakeServerRoute m p opt h) \<noteq> kPrefix" "rt_segments (MakeServerRoute m p opt h) = SplitPath p"
    by (auto simp: MakeServerRoute_def)
qed

lemma MatchRoute_append:
  "MatchRoute (rs @ qs) method path = (case MatchRoute rs method path of None \<Rightarrow> MatchRoute qs method path | Some x \<Rightarrow> Some x)"
  by (induction rs) (auto split: option.splits)

lemma fold_AddRoute: "fold (\<lambda>(m, p, opt, h). AddRoute m p opt h) xs rs = rs @ fold (\<lambda>(m, p, opt, h). AddRoute m p opt h) xs []"
proof (induction xs arbitrary: rs)
  case (Cons x xs)
  obtain m p opt h where "x = (m, p, opt, h)" by (cases x) auto
  then show ?case using Cons [of "AddRoute m p opt h rs"] Cons [of "AddRoute m p opt h []"] by (simp add: AddRoute_def)
qed simp

lemma resolve_first_match:
  assumes "list_all (\<lambda>(m, p, opt, h). no_wildcard p \<and> ro_allow_head opt) xs"
  shows "resolve (fold (\<lambda>(m, p, opt, h). AddRoute m p opt h) xs []) method path =
    first_match (map (\<lambda>(m, p, opt, h). (m, SplitPath p, ro_name opt)) xs) method (SplitPath path)"
  using assms
proof (induction xs)
  case (Cons x xs)
  obtain m p opt h where x: "x = (m, p, opt, h)" by (cases x) auto
  let ?rest = "fold (\<lambda>(m, p, opt, h). AddRoute m p opt h) xs []"
  have "fold (\<lambda>(m, p, opt, h). AddRoute m p opt h) (x # xs) [] =
      MakeServerRoute m p opt h # (if m = kGet then [MakeServerRoute kHead p opt h] else []) @ ?rest"
    using Cons.prems x fold_AddRoute [of xs "AddRoute m p opt h []"] by (simp add: AddRoute_def)
  moreover have "resolve ?rest method path =
      first_match (map (\<lambda>(m, p, opt, h). (m, SplitPath p, ro_name opt)) xs) method (SplitPath path)"
    using Cons by simp
  moreover have "no_wildcard p" using Cons.prems x by simp
  ultimately show ?case
    using x by (auto simp: resolve_def route_matches_def MakeServerRoute_segments split: option.splits)
qed (simp add: resolve_def)

text \<open>A router with every callback, at the default paths.\<close>

definition full_router :: "('w, 'st, 'src) Router \<Rightarrow> bool" where
  "full_router R \<longleftrightarrow> uo_base_path (ru_options R) = ''/api/file'' \<and> uo_metrics_enabled (ru_options R) \<and>
     uo_metrics_path (ru_options R) = ''/metrics'' \<and> ru_gc_run R \<noteq> None \<and> ru_transfer_put R \<noteq> None \<and> ru_transfer_open_get R \<noteq> None"

definition api_path :: "string list \<Rightarrow> string" where
  "api_path segments = concat (map (\<lambda>x. CHR ''/'' # x) segments)"

text \<open>The endpoints of the contract: method, segments of the path, route and path parameters.\<close>

definition endpoints :: "string \<Rightarrow> (Method \<times> string list \<times> string \<times> (string \<times> string) list) list" where
  "endpoints i =
     [(kGet, [''v2'', ''liveness_check''], ''ops.liveness'', []),
      (kGet, [''v2'', ''readiness_check''], ''ops.readiness'', []),
      (kGet, [''v2'', ''info''], ''ops.info'', []),
      (kGet, [''v2'', ''files'', ''uploadURL''], ''location.upload_url'', []),
      (kPost, [''v2'', ''getLocation''], ''location.get_location'', []),
      (kPost, [''v2'', ''getFileLocation''], ''location.get_file_location'', []),
      (kGet, [''v2'', ''files'', i, ''downloadURL''], ''location.download_url'', [(''id'', i)]),
      (kPost, [''v2'', ''getFileList''], ''location.list'', []),
      (kPost, [''v2'', ''files'', ''metadata''], ''metadata.create'', []),
      (kGet, [''v2'', ''files'', i, ''metadata''], ''metadata.get'', [(''id'', i)]),
      (kHead, [''v2'', ''files'', i, ''metadata''], ''metadata.get'', [(''id'', i)]),
      (kDelete, [''v2'', ''files'', i, ''metadata''], ''metadata.delete'', [(''id'', i)]),
      (kPost, [''v2'', ''files'', ''storageInstructions''], ''dms.storage_instructions'', []),
      (kPost, [''v2'', ''files'', ''retrievalInstructions''], ''dms.retrieval_instructions'', []),
      (kPost, [''v2'', ''files'', ''copy''], ''dms.copy'', []),
      (kPost, [''v2'', ''file-collections'', ''storageInstructions''], ''dms.storage_instructions'', []),
      (kPost, [''v2'', ''file-collections'', ''retrievalInstructions''], ''dms.retrieval_instructions'', []),
      (kPost, [''v2'', ''file-collections'', ''copy''], ''dms.copy'', []),
      (kPost, [''v2'', ''delivery'', ''GetFileSignedUrl''], ''delivery.get_file_signed_url'', []),
      (kPost, [''v2'', ''files'', ''revokeURL''], ''file.revoke_url'', []),
      (kPost, [''v2'', ''gc:run''], ''ops.gc_run'', []),
      (kPut, [''v1'', ''transfer'', i], ''transfer.put'', [(''token'', i)]),
      (kGet, [''v1'', ''transfer'', i], ''transfer.get'', [(''token'', i)])]"

text \<open>The patterns a full router registers.\<close>

definition full_patterns :: "(string \<times> Method \<times> string) list" where
  "full_patterns =
     [(''ops.liveness'', kGet, ''/api/file/v2/liveness_check''),
      (''ops.readiness'', kGet, ''/api/file/v2/readiness_check''),
      (''ops.info'', kGet, ''/api/file/v2/info''),
      (''ops.metrics'', kGet, ''/metrics''),
      (''location.upload_url'', kGet, ''/api/file/v2/files/uploadURL''),
      (''location.get_location'', kPost, ''/api/file/v2/getLocation''),
      (''location.get_file_location'', kPost, ''/api/file/v2/getFileLocation''),
      (''location.download_url'', kGet, ''/api/file/v2/files/:id/downloadURL''),
      (''location.list'', kPost, ''/api/file/v2/getFileList''),
      (''metadata.create'', kPost, ''/api/file/v2/files/metadata''),
      (''metadata.get'', kGet, ''/api/file/v2/files/:id/metadata''),
      (''metadata.delete'', kDelete, ''/api/file/v2/files/:id/metadata''),
      (''dms.storage_instructions'', kPost, ''/api/file/v2/files/storageInstructions''),
      (''dms.retrieval_instructions'', kPost, ''/api/file/v2/files/retrievalInstructions''),
      (''dms.copy'', kPost, ''/api/file/v2/files/copy''),
      (''dms.storage_instructions'', kPost, ''/api/file/v2/file-collections/storageInstructions''),
      (''dms.retrieval_instructions'', kPost, ''/api/file/v2/file-collections/retrievalInstructions''),
      (''dms.copy'', kPost, ''/api/file/v2/file-collections/copy''),
      (''delivery.get_file_signed_url'', kPost, ''/api/file/v2/delivery/GetFileSignedUrl''),
      (''file.revoke_url'', kPost, ''/api/file/v2/files/revokeURL''),
      (''ops.gc_run'', kPost, ''/api/file/v2/gc:run''),
      (''transfer.put'', kPut, ''/api/file/v1/transfer/:token''),
      (''transfer.get'', kGet, ''/api/file/v1/transfer/:token'')]"

definition full_table :: "(Method \<times> string list \<times> string) list" where
  "full_table =
     [(kGet, [''api'', ''file'', ''v2'', ''liveness_check''], ''ops.liveness''),
      (kGet, [''api'', ''file'', ''v2'', ''readiness_check''], ''ops.readiness''),
      (kGet, [''api'', ''file'', ''v2'', ''info''], ''ops.info''),
      (kGet, [''metrics''], ''ops.metrics''),
      (kGet, [''api'', ''file'', ''v2'', ''files'', ''uploadURL''], ''location.upload_url''),
      (kPost, [''api'', ''file'', ''v2'', ''getLocation''], ''location.get_location''),
      (kPost, [''api'', ''file'', ''v2'', ''getFileLocation''], ''location.get_file_location''),
      (kGet, [''api'', ''file'', ''v2'', ''files'', '':id'', ''downloadURL''], ''location.download_url''),
      (kPost, [''api'', ''file'', ''v2'', ''getFileList''], ''location.list''),
      (kPost, [''api'', ''file'', ''v2'', ''files'', ''metadata''], ''metadata.create''),
      (kGet, [''api'', ''file'', ''v2'', ''files'', '':id'', ''metadata''], ''metadata.get''),
      (kDelete, [''api'', ''file'', ''v2'', ''files'', '':id'', ''metadata''], ''metadata.delete''),
      (kPost, [''api'', ''file'', ''v2'', ''files'', ''storageInstructions''], ''dms.storage_instructions''),
      (kPost, [''api'', ''file'', ''v2'', ''files'', ''retrievalInstructions''], ''dms.retrieval_instructions''),
      (kPost, [''api'', ''file'', ''v2'', ''files'', ''copy''], ''dms.copy''),
      (kPost, [''api'', ''file'', ''v2'', ''file-collections'', ''storageInstructions''], ''dms.storage_instructions''),
      (kPost, [''api'', ''file'', ''v2'', ''file-collections'', ''retrievalInstructions''], ''dms.retrieval_instructions''),
      (kPost, [''api'', ''file'', ''v2'', ''file-collections'', ''copy''], ''dms.copy''),
      (kPost, [''api'', ''file'', ''v2'', ''delivery'', ''GetFileSignedUrl''], ''delivery.get_file_signed_url''),
      (kPost, [''api'', ''file'', ''v2'', ''files'', ''revokeURL''], ''file.revoke_url''),
      (kPost, [''api'', ''file'', ''v2'', ''gc:run''], ''ops.gc_run''),
      (kPut, [''api'', ''file'', ''v1'', ''transfer'', '':token''], ''transfer.put''),
      (kGet, [''api'', ''file'', ''v1'', ''transfer'', '':token''], ''transfer.get'')]"

lemma named_route_sel [simp]: "ro_name (named_route n k) = n" "ro_allow_head (named_route n k)"
  by (simp_all add: named_route_def default_RouteOptions_def)

lemma full_router_patterns:
  assumes "full_router R"
  shows "map (\<lambda>(m, p, opt, h). (ro_name opt, m, p)) (router_routes R) = full_patterns"
  using assms
  by (auto simp: full_router_def router_routes_def ops_routes_def file_routes_def dms_routes_def last_routes_def full_patterns_def Let_def)

lemma full_table_eq: "map (\<lambda>(n, m, p). (m, SplitPath p, n)) full_patterns = full_table"
  by code_simp

lemma full_router_heads:
  assumes "full_router R"
  shows "list_all (\<lambda>(m, p, opt, h). no_wildcard p \<and> ro_allow_head opt) (router_routes R)"
proof -
  have "list_all (\<lambda>(n, m, p). no_wildcard p) (map (\<lambda>(m, p, opt, h). (ro_name opt, m, p)) (router_routes R))"
    unfolding full_router_patterns [OF assms] by code_simp
  moreover have "list_all (\<lambda>(m, p, opt, h). ro_allow_head opt) (router_routes R)"
    by (auto simp: router_routes_def ops_routes_def file_routes_def dms_routes_def last_routes_def Let_def split: option.split)
  ultimately show ?thesis by (auto simp: list_all_iff)
qed

lemma full_router_resolves:
  assumes "full_router R"
  shows "resolve (RouterRegister R) method path = first_match full_table method (SplitPath path)"
proof -
  have "map (\<lambda>(m, p, opt, h). (m, SplitPath p, ro_name opt)) (router_routes R) =
      map (\<lambda>(n, m, p). (m, SplitPath p, n)) (map (\<lambda>(m, p, opt, h). (ro_name opt, m, p)) (router_routes R))"
    by (simp add: case_prod_unfold)
  then show ?thesis
    using resolve_first_match [OF full_router_heads [OF assms]] full_router_patterns [OF assms] full_table_eq
    by (simp add: RouterRegister_def)
qed

lemma SplitPath_api_path:
  assumes "list_all (\<lambda>w. w \<noteq> [] \<and> CHR ''/'' \<notin> set w) ws"
  shows "SplitPath (api_path ws) = ws"
proof (cases ws)
  case (Cons w vs)
  have "split_on (CHR ''/'') (x @ concat (map (\<lambda>x. CHR ''/'' # x) vs)) = x # vs"
    if "CHR ''/'' \<notin> set x" "list_all (\<lambda>w. w \<noteq> [] \<and> CHR ''/'' \<notin> set w) vs" for x vs
    using that by (induction vs arbitrary: x) (auto simp: str_simps)
  from this [of "[]" "w # vs"] have "split_on (CHR ''/'') (api_path ws) = [] # ws" using assms Cons by (simp add: api_path_def)
  moreover have "filter (\<lambda>w. w \<noteq> []) ws = ws" using assms by (simp add: list_all_iff)
  ultimately show ?thesis by (simp add: SplitPath_def)
qed (simp add: api_path_def SplitPath_def)

text \<open>With the default paths and every callback present, each endpoint of the REST contract resolves to its own route, with the
  id or token of the path as its parameter, for every id without a slash; \<^verbatim>\<open>HEAD\<close> is served by the \<^verbatim>\<open>GET\<close> route. No earlier route
  captures a request meant for a later one.\<close>

theorem endpoints_resolve:
  assumes "full_router R" "i \<noteq> []" "CHR ''/'' \<notin> set i"
  shows "list_all (\<lambda>(m, ws, name, params).
    resolve (RouterRegister R) m (api_path (''api'' # ''file'' # ws)) = Some (name, params)) (endpoints i)"
proof -
  have "list_all (\<lambda>(m, ws, name, params). list_all (\<lambda>w. w \<noteq> [] \<and> CHR ''/'' \<notin> set w) (''api'' # ''file'' # ws)) (endpoints i)"
    using assms(2,3) by (simp add: endpoints_def)
  moreover have "list_all (\<lambda>(m, ws, name, params). first_match full_table m (''api'' # ''file'' # ws) = Some (name, params)) (endpoints i)"
    by (simp add: endpoints_def full_table_def)
  ultimately show ?thesis
    unfolding full_router_resolves [OF assms(1)] using SplitPath_api_path by (fastforce simp: list_all_iff)
qed

section \<open>A sample router\<close>

definition sample_options :: RouterOptions where
  "sample_options =
     \<lparr>uo_base_path = ''/api/file'', uo_error_format = kAppError, uo_default_user_id = ''osdu-user'',
      uo_json_body_limit_bytes = 10 * 1024 * 1024, uo_small_body_limit_bytes = 256 * 1024, uo_transfer_put_max_body_bytes = 0,
      uo_metrics_enabled = True, uo_metrics_path = ''/metrics''\<rparr>"

definition sample_router :: "(World, unit, string) Router" where
  "sample_router =
     \<lparr>ru_ports = dev_ports, ru_parse = (\<lambda>t. Ok (JObject [])), ru_dump = (\<lambda>v. []), ru_shared_state_probe = None,
      ru_metadata_probe = (\<lambda>w. (w, Ok ())), ru_transfer_put = Some (\<lambda>t e g p reads w. (w, Ok ())),
      ru_transfer_open_get = Some (\<lambda>t e g p w. (w, Ok None)), ru_source_size = (\<lambda>src. Some (int (length src))),
      ru_gc_run = Some (\<lambda>caller dry w. (w, Ok (empty_GcReport dry))), ru_gc_partition = ''opendes'', ru_gc_scheduled = False,
      ru_render_metrics = (\<lambda>s. []), ru_options = sample_options\<rparr>"

lemma sample_router_full: "full_router sample_router"
  by (simp add: full_router_def sample_router_def sample_options_def)

theorem endpoints_resolve_witness:
  "resolve (RouterRegister sample_router) kDelete (api_path [''api'', ''file'', ''v2'', ''files'', ''x'', ''metadata'']) =
     Some (''metadata.delete'', [(''id'', ''x'')])"
proof -
  have "''x'' \<noteq> []" "CHR ''/'' \<notin> set ''x''" by simp_all
  from endpoints_resolve [OF sample_router_full this] show ?thesis by (simp add: endpoints_def)
qed

definition anonymous_delete :: HttpRequest where
  "anonymous_delete =
     \<lparr>hq_method = kDelete, hq_method_raw = ''DELETE'', hq_path = ''/api/file/v2/files/x/metadata'', hq_query = [], hq_params = [],
      hq_headers = [(''Data-Partition-Id'', ''p'')], hq_remote_addr = [], hq_correlation_id = ''c'', hq_route_name = ''metadata.delete'',
      hq_body = [], hq_streamed = False, hq_is_chunked = False, hq_content_length = - 1, hq_is_head = False,
      hq_route_params = [(''id'', ''x'')]\<rparr>"

lemma sample_delete_route:
  "\<exists>r params. MatchRoute (RouterRegister sample_router) kDelete ''/api/file/v2/files/x/metadata'' = Some (r, params) \<and>
     ro_name (rt_options r) = ''metadata.delete''"
proof -
  have "first_match full_table kDelete (SplitPath ''/api/file/v2/files/x/metadata'') = Some (''metadata.delete'', [(''id'', ''x'')])"
    by code_simp
  then have "resolve (RouterRegister sample_router) kDelete ''/api/file/v2/files/x/metadata'' = Some (''metadata.delete'', [(''id'', ''x'')])"
    by (simp only: full_router_resolves [OF sample_router_full])
  then show ?thesis unfolding resolve_def by (auto simp del: MatchRoute.simps)
qed

theorem router_guarded_witness:
  "\<exists>r params. MatchRoute (RouterRegister sample_router) kDelete ''/api/file/v2/files/x/metadata'' = Some (r, params) \<and>
     (\<exists>s. rt_handler r anonymous_delete [] \<lparr>rs_world = empty_World, rs_metrics = \<lparr>hm_requests = [], hm_durations = [],
        hm_transfer_token_rejected = 0\<rparr>\<rparr> =
       Some (s, RouterError sample_router (mk_error kUnauthenticated ''Missing authorization token'')))"
proof -
  let ?s = "\<lparr>rs_world = empty_World, rs_metrics = \<lparr>hm_requests = [], hm_durations = [], hm_transfer_token_rejected = 0\<rparr>\<rparr>"
  obtain r params where m: "MatchRoute (RouterRegister sample_router) kDelete ''/api/file/v2/files/x/metadata'' = Some (r, params)"
    and n: "ro_name (rt_options r) = ''metadata.delete''" using sample_delete_route by blast
  have caller: "cc_partition (RouterCaller sample_router anonymous_delete) = ''p'' \<and>
      cc_bearer_token (RouterCaller sample_router anonymous_delete) = []" by code_simp
  have "RouteAuthTable ''metadata.delete'' = Some kEditorsOrAdmin" by code_simp
  then have "RouteAuthorize sample_router (ro_name (rt_options r)) (RouterCaller sample_router anonymous_delete) empty_World =
      (empty_World, Err kUnauthenticated ''Missing authorization token'')"
    using caller by (simp add: RouteAuthorize_def n kEditorsOrAdmin_def)
  moreover have "hq_route_name anonymous_delete = ro_name (rt_options r)" "ro_name (rt_options r) \<notin> public_routes"
    by (simp_all add: n anonymous_delete_def public_routes_def)
  moreover have "anonymous_delete\<lparr>hq_body := []\<rparr> = anonymous_delete" by (simp add: anonymous_delete_def)
  ultimately have "rt_handler r anonymous_delete [] ?s =
      Some (?s\<lparr>rs_world := empty_World, rs_metrics := Observe (ro_name (rt_options r)) (MethodName (hq_method anonymous_delete))
        (HttpStatusFor kUnauthenticated) (rs_metrics ?s)\<rparr>,
        RouterError sample_router (mk_error kUnauthenticated ''Missing authorization token''))"
    using router_guarded [OF m, of anonymous_delete ?s] by (simp add: Let_def Err_def) metis
  then show ?thesis using m by blast
qed

section \<open>The two authorization checks\<close>

text \<open>What the interface and the use cases rely on between the two entries of an authorizer: a list of roles passes when one of
  them does, and a check leaves the world alone.\<close>

locale authorizer =
  fixes authorize :: "string \<Rightarrow> string \<Rightarrow> string \<Rightarrow> ('w, unit) action"
    and authorize_any :: "string list \<Rightarrow> string \<Rightarrow> string \<Rightarrow> ('w, unit) action"
  assumes any_world: "fst (authorize_any roles part token w) = w"
    and one_world: "fst (authorize role part token w) = w"
    and any_iff: "snd (authorize_any roles part token w) = Ok () \<longleftrightarrow>
      (\<exists>role \<in> set roles. snd (authorize role part token w) = Ok ())"
begin

lemma any_single:
  assumes "authorize_any [role] part token w = (w', Ok ())"
  shows "w' = w \<and> authorize role part token w = (w, Ok ())"
proof -
  have "snd (authorize role part token w) = Ok ()" using any_iff [of "[role]" part token w] assms by simp
  then show ?thesis using any_world [of "[role]" part token w] one_world [of role part token w] assms
    by (cases "authorize role part token w") simp
qed

lemma any_same: "authorize_any roles part token w = (w', Ok ()) \<Longrightarrow> w' = w"
  using any_world [of roles part token w] by simp

end

definition jwt_ports :: "Primitives \<Rightarrow> LocalJwtOptions \<Rightarrow> ('w, 'st) Ports \<Rightarrow> ('w, 'st) Ports" where
  "jwt_ports pr opt P = P\<lparr>
     p_Authorize := (\<lambda>role part token w. (w, JwtAuthorize pr opt (p_NowEpochSeconds P w) role part token)),
     p_AuthorizeAny := (\<lambda>roles part token w. (w, JwtAuthorizeAny pr opt (p_NowEpochSeconds P w) roles part token))\<rparr>"

interpretation jwt: authorizer
  "\<lambda>role part token w. (w, JwtAuthorize pr opt (now w) role part token)"
  "\<lambda>roles part token w. (w, JwtAuthorizeAny pr opt (now w) roles part token)" for pr opt now
  by unfold_locales (simp_all add: JwtAuthorizeAny_iff)

text \<open>The roles the use cases behind the routes ask for.\<close>

definition use_case_roles :: "(string \<times> string list \<times> bool) list" where
  "use_case_roles =
     [(''location.upload_url'', [kRoleFileEditors], True), (''location.get_location'', [kRoleFileEditors], True),
      (''location.get_file_location'', [kRoleFileEditors], True), (''location.download_url'', [kRoleFileViewers], True),
      (''location.list'', [kRoleFileEditors], True), (''metadata.get'', [kRoleFileViewers], True),
      (''metadata.delete'', [kRoleFileEditors, kRoleFileAdmin], True), (''dms.storage_instructions'', [kRoleDatasetEditors], True),
      (''dms.retrieval_instructions'', [kRoleDatasetViewers], True), (''dms.copy'', [kRoleStorageCreator, kRoleStorageAdmin], True),
      (''delivery.get_file_signed_url'', [kRoleDeliveryViewer], True), (''file.revoke_url'', [kRoleFileAdmin], False)]"

lemma role_table_agrees:
  "list_all (\<lambda>(route, roles, need). RouteAuthTable route = Some \<lparr>ra_roles = roles, ra_require_partition = need\<rparr>) use_case_roles"
  by code_simp

text \<open>With the token authorizer, a caller that the interface lets through passes the check of the use case as well.\<close>

lemma checks_agree:
  assumes "ru_ports R = jwt_ports pr opt P" "(route, roles, need) \<in> set use_case_roles"
    and "RouteAuthorize R route caller w = (w', Ok ())"
  shows "w' = w" "AuthorizeCallerAny (ru_ports R) caller roles need w = (w, Ok ())"
    "roles = [role] \<Longrightarrow> AuthorizeCaller (ru_ports R) caller role need w = (w, Ok ())"
proof -
  have t: "RouteAuthTable route = Some \<lparr>ra_roles = roles, ra_require_partition = need\<rparr>"
    using role_table_agrees assms(2) by (auto simp: list_all_iff)
  have ne: "roles \<noteq> []" using assms(2) by (auto simp: use_case_roles_def)
  have a: "need \<longrightarrow> cc_partition caller \<noteq> []"
      "p_AuthorizeAny (ru_ports R) roles (cc_partition caller) (cc_bearer_token caller) w = (w', Ok ())"
    using RouteAuthorize_Inr [OF assms(3) [unfolded Ok_def] t] ne by auto
  show w: "w' = w" using a(2) jwt.any_same by (simp add: assms(1) jwt_ports_def)
  show "AuthorizeCallerAny (ru_ports R) caller roles need w = (w, Ok ())"
    using a ne w by (simp add: AuthorizeCallerAny_def)
  show "AuthorizeCaller (ru_ports R) caller role need w = (w, Ok ())" if "roles = [role]"
    using a that w jwt.any_single
    by (simp add: AuthorizeCaller_def assms(1) jwt_ports_def)
qed

text \<open>The limits for JSON bodies that the options carry reach no route.\<close>

lemma json_limit_unused:
  "map (\<lambda>(m, p, opt, h). (m, p, opt)) (router_routes (R\<lparr>ru_options := (ru_options R)\<lparr>uo_json_body_limit_bytes := n,
     uo_small_body_limit_bytes := k\<rparr>\<rparr>)) = map (\<lambda>(m, p, opt, h). (m, p, opt)) (router_routes R)"
  by (simp add: router_routes_def ops_routes_def file_routes_def dms_routes_def last_routes_def Let_def split: option.split)

end
