(* ===== verification/Byte_Stream.thy ===== *)
theory Byte_Stream
  imports Messages Result_Type
begin

text \<open>
  \<^verbatim>\<open>common/bytes\<close>: pulling byte sources, pushing sinks, the loops that connect them, the wrappers that limit and throttle
  a source, and \<^verbatim>\<open>StreamPump\<close> of \<^verbatim>\<open>common/http/server.cpp\<close>, which serves a source by offset.

  A source is a state with a read operation, which returns the bytes the C++ operation writes to the caller's
  buffer; reading nothing means the end.
\<close>

section \<open>Sources and sinks\<close>

type_synonym 's reader = "nat \<Rightarrow> 's \<Rightarrow> 's \<times> string Result"
type_synonym 'k writer = "string \<Rightarrow> 'k \<Rightarrow> 'k \<times> unit Result"

text \<open>The loops. Every step that goes on makes progress, except that a source may return more than was asked for, against its
  contract; then the loop stops as if the request had been met.\<close>

function ReadFully :: "'s reader \<Rightarrow> nat \<Rightarrow> nat \<Rightarrow> string \<Rightarrow> 's \<Rightarrow> 's \<times> string Result" where
  "ReadFully read n got out s =
     (if got < n then
        FSS_TRY_ST (read (n - got) s) (\<lambda>s d.
          if d = [] then
            (s, Err kUnavailable (msg_short_stream @ nat_to_string n @ msg_short_stream_got @ nat_to_string got))
          else ReadFully read n (got + length d) (out @ d) s)
      else (s, Ok out))"
  by pat_completeness auto
termination by (relation "measure (\<lambda>(read, n, got, out, s). n - got)") (auto simp flip: length_greater_0_conv)

definition kReadAllBuffer :: nat where "kReadAllBuffer = 16 * 1024"

function read_all_loop :: "'s reader \<Rightarrow> nat \<Rightarrow> string \<Rightarrow> 's \<Rightarrow> 's \<times> string Result" where
  "read_all_loop read max_bytes out s =
     FSS_TRY_ST (read kReadAllBuffer s) (\<lambda>s d.
       if d = [] then (s, Ok out)
       else if length out + length d > max_bytes
       then (s, Err kInvalidArgument (msg_stream_over @ nat_to_string max_bytes @ msg_bytes))
       else read_all_loop read max_bytes (out @ d) s)"
  by pat_completeness auto
termination by (relation "measure (\<lambda>(read, max_bytes, out, s). max_bytes - length out)") (auto simp flip: length_greater_0_conv)

definition ReadAll :: "'s reader \<Rightarrow> ('s \<Rightarrow> int option) \<Rightarrow> nat \<Rightarrow> 's \<Rightarrow> 's \<times> string Result" where
  "ReadAll read size_of max_bytes s =
     (case size_of s of
        Some n \<Rightarrow>
          if n \<ge> 0 \<and> nat n > max_bytes
          then (s, Err kInvalidArgument (msg_stream_length @ to_string n @ msg_over_limit @ nat_to_string max_bytes))
          else read_all_loop read max_bytes [] s
      | None \<Rightarrow> read_all_loop read max_bytes [] s)"

text \<open>Copying ends only when the source does; \<^const>\<open>None\<close> is a copy that never ends.\<close>

partial_function (option) pump_loop ::
  "'s reader \<Rightarrow> 'k writer \<Rightarrow> nat \<Rightarrow> nat \<Rightarrow> 's \<Rightarrow> 'k \<Rightarrow> (('s \<times> 'k) \<times> nat Result) option" where
  "pump_loop read wr buffer_size total_bytes s k =
     (case read buffer_size s of
        (s, Inl e) \<Rightarrow> Some ((s, k), Inl e)
      | (s, Inr d) \<Rightarrow>
          if d = [] then Some ((s, k), Ok total_bytes)
          else (case wr d k of
                  (k, Inl e) \<Rightarrow> Some ((s, k), Inl e)
                | (k, Inr _) \<Rightarrow> pump_loop read wr buffer_size (total_bytes + length d) s k))"

definition PumpTo ::
  "'s reader \<Rightarrow> 'k writer \<Rightarrow> ('k \<Rightarrow> 'k \<times> unit Result) \<Rightarrow> nat \<Rightarrow> 's \<Rightarrow> 'k \<Rightarrow> (('s \<times> 'k) \<times> nat Result) option" where
  "PumpTo read wr close buffer_size s k =
     map_option (\<lambda>((s, k), r).
         (case r of
            Inl e \<Rightarrow> ((s, k), Inl e)
          | Inr n \<Rightarrow> (case close k of (k, Inl e) \<Rightarrow> ((s, k), Inl e) | (k, Inr _) \<Rightarrow> ((s, k), Ok n))))
       (pump_loop read wr (if buffer_size = 0 then 64 * 1024 else buffer_size) 0 s k)"

record StringSource =
  ss_data :: string
  ss_pos :: nat

definition StringSourceRead :: "StringSource reader" where
  "StringSourceRead capacity s =
     (let n = min capacity (length (ss_data s) - ss_pos s) in
      (s\<lparr>ss_pos := ss_pos s + n\<rparr>, Ok (take n (drop (ss_pos s) (ss_data s)))))"

definition StringSourceSeek :: "int \<Rightarrow> StringSource \<Rightarrow> StringSource \<times> unit Result" where
  "StringSourceSeek offset s =
     (if offset < 0 \<or> nat offset > length (ss_data s)
      then (s, Err kInvalidArgument msg_string_seek)
      else (s\<lparr>ss_pos := nat offset\<rparr>, Ok ()))"

record StringSink =
  sk_data :: string
  sk_closed :: bool

definition StringSinkWrite :: "StringSink writer" where
  "StringSinkWrite d k =
     (if sk_closed k then (k, Err kInternal msg_sink_closed)
      else (k\<lparr>sk_data := sk_data k @ d\<rparr>, Ok ()))"

definition StringSinkClose :: "StringSink \<Rightarrow> StringSink \<times> unit Result" where
  "StringSinkClose k = (k\<lparr>sk_closed := True\<rparr>, Ok ())"

record CountingSink =
  ck_written :: nat
  ck_calls :: nat

definition CountingSinkWrite :: "CountingSink writer" where
  "CountingSinkWrite d k = (k\<lparr>ck_written := ck_written k + length d, ck_calls := Suc (ck_calls k)\<rparr>, Ok ())"

text \<open>A sink over a caller's buffer: the state is what has been written.\<close>

definition BufferSinkWrite :: "nat \<Rightarrow> string writer" where
  "BufferSinkWrite capacity d written =
     (if length written + length d > capacity then (written, Err kInternal msg_buffer_sink)
      else (written @ d, Ok ()))"

record RepeatingSource =
  rp_total :: int
  rp_pos :: int
  rp_pattern :: string

definition NewRepeatingSource :: "int \<Rightarrow> string \<Rightarrow> RepeatingSource" where
  "NewRepeatingSource total_bytes pattern =
     \<lparr>rp_total = total_bytes, rp_pos = 0, rp_pattern = (if pattern = [] then ''0'' else pattern)\<rparr>"

definition RepeatingSourceRead :: "RepeatingSource reader" where
  "RepeatingSourceRead capacity s =
     (if rp_pos s \<ge> rp_total s then (s, Ok [])
      else
        let n = min capacity (nat (rp_total s - rp_pos s)) in
        (s\<lparr>rp_pos := rp_pos s + int n\<rparr>,
         Ok (map (\<lambda>i. rp_pattern s ! ((nat (rp_pos s) + i) mod length (rp_pattern s))) [0..<n])))"

definition RepeatingSourceSeek :: "int \<Rightarrow> RepeatingSource \<Rightarrow> RepeatingSource \<times> unit Result" where
  "RepeatingSourceSeek offset s =
     (if offset < 0 \<or> offset > rp_total s
      then (s, Err kInvalidArgument msg_repeating_seek)
      else (s\<lparr>rp_pos := offset\<rparr>, Ok ()))"

section \<open>Wrappers\<close>

record 's LimitedSource =
  lm_inner :: 's
  lm_limit :: int
  lm_what :: string
  lm_read :: int
  lm_exceeded :: bool

definition LimitedSourceRead :: "'s reader \<Rightarrow> 's LimitedSource reader" where
  "LimitedSourceRead read capacity s =
     (if lm_exceeded s
      then (s, Err kInvalidArgument (lm_what s @ msg_limit_passed))
      else if lm_limit s > 0 \<and> lm_limit s - lm_read s \<le> 0 then
        (case read 1 (lm_inner s) of
           (i, Inl e) \<Rightarrow> (s\<lparr>lm_inner := i\<rparr>, Inl e)
         | (i, Inr d) \<Rightarrow>
             if d = [] then (s\<lparr>lm_inner := i\<rparr>, Ok [])
             else (s\<lparr>lm_inner := i, lm_exceeded := True\<rparr>,
                   Err kInvalidArgument (lm_what s @ msg_over_limit @ to_string (lm_limit s) @
                     msg_limit_at @ to_string (lm_read s + 1) @ msg_limit_byte)))
      else
        let capacity = (if lm_limit s > 0 then min capacity (nat (lm_limit s - lm_read s)) else capacity) in
        (case read capacity (lm_inner s) of
           (i, Inl e) \<Rightarrow> (s\<lparr>lm_inner := i\<rparr>, Inl e)
         | (i, Inr d) \<Rightarrow> (s\<lparr>lm_inner := i, lm_read := lm_read s + int (length d)\<rparr>, Ok d)))"

definition LimitedSourceSize :: "('s \<Rightarrow> int option) \<Rightarrow> 's LimitedSource \<Rightarrow> int option" where
  "LimitedSourceSize size_of s =
     (case size_of (lm_inner s) of
        None \<Rightarrow> None
      | Some n \<Rightarrow> if lm_limit s > 0 \<and> n > lm_limit s then None else Some n)"

definition VerifyConsumed :: "'s LimitedSource \<Rightarrow> int \<Rightarrow> unit Result" where
  "VerifyConsumed s expected =
     (if lm_read s \<noteq> expected
      then Err kInvalidArgument (lm_what s @ msg_length_differs @ to_string expected @
             msg_actually_read @ to_string (lm_read s))
      else Ok ())"

record 's ThrottledSource =
  th_inner :: 's
  th_rate :: int
  th_burst :: int
  th_tokens :: int
  th_last_refill_ms :: int
  th_read :: int

definition NewThrottledSource :: "'s \<Rightarrow> int \<Rightarrow> int \<Rightarrow> int \<Rightarrow> 's ThrottledSource" where
  "NewThrottledSource inner rate burst now_ms =
     (let burst = (if burst \<le> 0 then 64 * 1024 else burst) in
      \<lparr>th_inner = inner, th_rate = rate, th_burst = burst, th_tokens = burst, th_last_refill_ms = now_ms, th_read = 0\<rparr>)"

definition ThrottledRefill :: "int \<Rightarrow> 's ThrottledSource \<Rightarrow> 's ThrottledSource" where
  "ThrottledRefill now_ms s =
     (let elapsed = now_ms - th_last_refill_ms s; add = tdiv (wrap_i64 (th_rate s * elapsed)) 1000 in
      if th_rate s \<le> 0 \<or> elapsed \<le> 0 \<or> add \<le> 0 then s
      else s\<lparr>th_tokens := min (th_burst s) (wrap_i64 (th_tokens s + add)), th_last_refill_ms := now_ms\<rparr>)"

definition WaitMillis :: "int \<Rightarrow> nat \<Rightarrow> 's ThrottledSource \<Rightarrow> 's ThrottledSource \<times> int" where
  "WaitMillis now_ms want s =
     (if th_rate s \<le> 0 then (s, 0)
      else
        let s = ThrottledRefill now_ms s in
        if int want \<le> th_tokens s then (s, 0)
        else (s, tdiv (wrap_i64 ((int want - th_tokens s) * 1000 + th_rate s - 1)) (th_rate s)))"

definition ThrottledSourceRead :: "'s reader \<Rightarrow> int \<Rightarrow> 's ThrottledSource reader" where
  "ThrottledSourceRead read now_ms capacity s =
     (if th_rate s \<le> 0 then
        (case read capacity (th_inner s) of
           (i, Inl e) \<Rightarrow> (s\<lparr>th_inner := i\<rparr>, Inl e)
         | (i, Inr d) \<Rightarrow> (s\<lparr>th_inner := i, th_read := th_read s + int (length d)\<rparr>, Ok d))
      else
        let s = ThrottledRefill now_ms s in
        if th_tokens s \<le> 0 then
          (case WaitMillis now_ms 1 s of
             (s, wait) \<Rightarrow>
               (s, Inl (With ''wait_ms'' (to_string wait) (mk_error kUnavailable msg_throttled))))
        else
          (case read (nat (min (th_tokens s) (int capacity))) (th_inner s) of
             (i, Inl e) \<Rightarrow> (s\<lparr>th_inner := i\<rparr>, Inl e)
           | (i, Inr d) \<Rightarrow>
               (s\<lparr>th_inner := i, th_tokens := th_tokens s - int (length d), th_read := th_read s + int (length d)\<rparr>, Ok d)))"

section \<open>Serving a source by offset\<close>

record 's SeekOps =
  sp_read :: "'s reader"
  sp_seek :: "int \<Rightarrow> 's \<Rightarrow> 's \<times> unit Result"
  sp_seekable :: bool

record 's StreamPump =
  pm_source :: 's
  pm_pos :: int
  pm_failed :: bool

definition kPumpBuffer :: nat where "kPumpBuffer = 64 * 1024"

text \<open>A source that cannot seek is read and discarded up to the target.\<close>

function skip_to :: "'s reader \<Rightarrow> int \<Rightarrow> int \<Rightarrow> 's \<Rightarrow> 's \<times> int \<times> bool" where
  "skip_to read target pos s =
     (if pos < target then
        (case read (nat (min (int kPumpBuffer) (target - pos))) s of
           (s, Inl e) \<Rightarrow> (s, pos, False)
         | (s, Inr d) \<Rightarrow> if d = [] then (s, pos, False) else skip_to read target (pos + int (length d)) s)
      else (s, pos, True))"
  by pat_completeness auto
termination by (relation "measure (\<lambda>(read, target, pos, s). nat (target - pos))") (auto simp flip: length_greater_0_conv)

definition JumpTo :: "'s SeekOps \<Rightarrow> int \<Rightarrow> 's StreamPump \<Rightarrow> 's StreamPump \<times> bool" where
  "JumpTo ops target p =
     (if sp_seekable ops then
        (case sp_seek ops target (pm_source p) of
           (s, Inl e) \<Rightarrow> (p\<lparr>pm_source := s\<rparr>, False)
         | (s, Inr _) \<Rightarrow> (p\<lparr>pm_source := s, pm_pos := target\<rparr>, True))
      else if target < pm_pos p then (p, False)
      else (case skip_to (sp_read ops) target (pm_pos p) (pm_source p) of
              (s, pos, ok) \<Rightarrow> (p\<lparr>pm_source := s, pm_pos := pos\<rparr>, ok)))"

text \<open>One call of the content provider: the bytes it hands to the sink, if any, and whether to go on. The sink accepts what it is
  given or the connection is gone.\<close>

definition PumpServe :: "'s SeekOps \<Rightarrow> (string \<Rightarrow> bool) \<Rightarrow> nat \<Rightarrow> nat \<Rightarrow> 's StreamPump \<Rightarrow> 's StreamPump \<times> string \<times> bool" where
  "PumpServe ops accept offset len p =
     (if pm_failed p then (p, [], False)
      else
        case (if int offset \<noteq> pm_pos p then JumpTo ops (int offset) p else (p, True)) of
          (p, False) \<Rightarrow> (p\<lparr>pm_failed := True\<rparr>, [], False)
        | (p, True) \<Rightarrow>
            let want = min len kPumpBuffer in
            if want = 0 then (p, [], True)
            else (case sp_read ops want (pm_source p) of
                    (s, Inl e) \<Rightarrow> (p\<lparr>pm_source := s, pm_failed := True\<rparr>, [], False)
                  | (s, Inr d) \<Rightarrow>
                      if d = [] then (p\<lparr>pm_source := s, pm_failed := True\<rparr>, [], False)
                      else
                        let p = p\<lparr>pm_source := s, pm_pos := pm_pos p + int (length d)\<rparr> in
                        if accept d then (p, d, True) else (p\<lparr>pm_failed := True\<rparr>, d, False)))"

declare ReadFully.simps [simp del] read_all_loop.simps [simp del] skip_to.simps [simp del]

section \<open>Sources with a known content\<close>

text \<open>The contract of a source: a read of a positive number of bytes never fails and returns the next bytes of its content, at least one while
  there are any.\<close>

locale byte_source =
  fixes read :: "'s reader" and content :: "'s \<Rightarrow> string"
  assumes read_content: "0 < n \<Longrightarrow> \<exists>k s'. read n s = (s', Ok (take k (content s))) \<and> content s' = drop k (content s) \<and>
      k \<le> n \<and> k \<le> length (content s) \<and> (content s \<noteq> [] \<longrightarrow> 0 < k)"
begin

lemma read_cases:
  assumes "0 < n"
  obtains s' where "content s = []" "read n s = (s', Ok [])" "content s' = []"
  | s' d where "read n s = (s', Ok d)" "d \<noteq> []" "content s = d @ content s'" "length d \<le> n"
proof -
  obtain k s' where k: "read n s = (s', Ok (take k (content s)))" "content s' = drop k (content s)" "k \<le> n"
      "k \<le> length (content s)" "content s \<noteq> [] \<longrightarrow> 0 < k"
    using read_content [OF assms, of s] by blast
  show thesis
  proof (cases "content s = []")
    case True
    then show thesis using that(1) [of s'] k by simp
  next
    case False
    then show thesis using that(2) [of s' "take k (content s)"] k by (auto simp flip: length_greater_0_conv)
  qed
qed

lemma read_all_loop_content:
  "\<exists>s'. read_all_loop read max_bytes out s =
     (s', if length out + length (content s) \<le> max_bytes \<or> content s = [] then Ok (out @ content s)
          else Err kInvalidArgument (msg_stream_over @ nat_to_string max_bytes @ msg_bytes))"
proof (induction "length (content s)" arbitrary: s out rule: less_induct)
  case less
  have pos: "0 < kReadAllBuffer" by (simp add: kReadAllBuffer_def)
  show ?case
  proof (rule read_cases [OF pos, of s])
    fix s' assume "content s = []" "read kReadAllBuffer s = (s', Ok [])"
    then show ?thesis by (subst read_all_loop.simps) simp
  next
    fix s' d assume r: "read kReadAllBuffer s = (s', Ok d)" "d \<noteq> []" "content s = d @ content s'"
    then have "length (content s') < length (content s)" by simp
    from less [OF this, of "out @ d"] r show ?thesis
      by (subst read_all_loop.simps) (auto simp: add.assoc)
  qed
qed

lemma read_fully_content:
  "got \<le> n \<Longrightarrow> n - got \<le> length (content s) \<Longrightarrow>
   \<exists>s'. ReadFully read n got out s = (s', Ok (out @ take (n - got) (content s))) \<and> content s' = drop (n - got) (content s)"
proof (induction "n - got" arbitrary: s out got rule: less_induct)
  case less
  show ?case
  proof (cases "got < n")
    case True
    then have pos: "0 < n - got" by simp
    show ?thesis
    proof (rule read_cases [OF pos, of s])
      fix s' assume "content s = []"
      then show ?thesis using less.prems True by simp
    next
      fix s' d assume r: "read (n - got) s = (s', Ok d)" "d \<noteq> []" "content s = d @ content s'" "length d \<le> n - got"
      have l: "0 < length d" using r(2) by simp
      have c: "length (content s) = length d + length (content s')" using r(3) by simp
      have "n - (got + length d) < n - got" "got + length d \<le> n" "n - (got + length d) \<le> length (content s')"
        using less.prems True r(4) l c by linarith+
      from less(1) [OF this, of "out @ d"] r True show ?thesis
        by (subst ReadFully.simps) (simp add: take_append drop_append)
    qed
  qed (subst ReadFully.simps, use less.prems in simp)
qed

lemma pump_loop_content:
  assumes "0 < n" "open_sink k"
    and wr: "\<And>d k. open_sink k \<Longrightarrow> \<exists>k'. wr d k = (k', Ok ()) \<and> open_sink k' \<and> gathered k' = gathered k @ d"
  shows "\<exists>s' k'. pump_loop read wr n total_bytes s k = Some ((s', k'), Ok (total_bytes + length (content s))) \<and>
    open_sink k' \<and> gathered k' = gathered k @ content s"
  using assms(2)
proof (induction "length (content s)" arbitrary: s k total_bytes rule: less_induct)
  case less
  show ?case
  proof (rule read_cases [OF assms(1), of s])
    fix s' assume "content s = []" "read n s = (s', Ok [])"
    then show ?thesis using less.prems by (subst pump_loop.simps) (simp add: Ok_def)
  next
    fix s' d assume r: "read n s = (s', Ok d)" "d \<noteq> []" "content s = d @ content s'"
    obtain k' where w: "wr d k = (k', Ok ())" "open_sink k'" "gathered k' = gathered k @ d" using wr less.prems by blast
    have "length (content s') < length (content s)" using r(2,3) by simp
    from less(1) [OF this w(2), of "total_bytes + length d"] r w show ?thesis
      by (subst pump_loop.simps) (auto simp: Ok_def add.assoc)
  qed
qed

text \<open>The limit lets through exactly the contents that fit, and stops after the limit otherwise.\<close>

lemma limited_loop:
  assumes "0 < lm_limit s" "\<not> lm_exceeded s" "0 \<le> lm_read s" "lm_read s \<le> lm_limit s"
    and "length out + nat (lm_limit s - lm_read s) \<le> max_bytes"
  shows "\<exists>s'. read_all_loop (LimitedSourceRead read) max_bytes out s =
    (s', if lm_read s + int (length (content (lm_inner s))) \<le> lm_limit s then Ok (out @ content (lm_inner s))
         else Err kInvalidArgument (lm_what s @ msg_over_limit @ to_string (lm_limit s) @
           msg_limit_at @ to_string (lm_limit s + 1) @ msg_limit_byte)) \<and>
    (lm_read s + int (length (content (lm_inner s))) \<le> lm_limit s \<longrightarrow>
       lm_read s' = lm_read s + int (length (content (lm_inner s))))"
  using assms
proof (induction "length (content (lm_inner s))" arbitrary: s out rule: less_induct)
  case less
  show ?case
  proof (cases "lm_read s < lm_limit s")
    case False
    then have full: "lm_read s = lm_limit s" using less.prems by simp
    show ?thesis
    proof (rule read_cases [OF zero_less_one, of "lm_inner s"])
      fix i assume "content (lm_inner s) = []" "read 1 (lm_inner s) = (i, Ok [])"
      then show ?thesis
        by (subst read_all_loop.simps) (use less.prems full in \<open>simp add: LimitedSourceRead_def Ok_def FSS_TRY_ST_def\<close>)
    next
      fix i d assume r: "read 1 (lm_inner s) = (i, Ok d)" "d \<noteq> []" "content (lm_inner s) = d @ content i"
      have "\<not> int (length d) + int (length (content i)) \<le> 0" using r(2) by (simp flip: length_greater_0_conv)
      then show ?thesis
        by (subst read_all_loop.simps)
          (use less.prems full r in \<open>simp add: LimitedSourceRead_def Ok_def Err_def FSS_TRY_ST_def\<close>)
    qed
  next
    case True
    let ?n = "min kReadAllBuffer (nat (lm_limit s - lm_read s))"
    have pos: "0 < ?n" using True by (simp add: kReadAllBuffer_def)
    show ?thesis
    proof (rule read_cases [OF pos, of "lm_inner s"])
      fix i assume "content (lm_inner s) = []" "read ?n (lm_inner s) = (i, Ok [])"
      then show ?thesis
        by (subst read_all_loop.simps) (use less.prems True in \<open>simp add: LimitedSourceRead_def Let_def Ok_def FSS_TRY_ST_def\<close>)
    next
      fix i d assume r: "read ?n (lm_inner s) = (i, Ok d)" "d \<noteq> []" "content (lm_inner s) = d @ content i" "length d \<le> ?n"
      let ?s = "s\<lparr>lm_inner := i, lm_read := lm_read s + int (length d)\<rparr>"
      have step: "LimitedSourceRead read kReadAllBuffer s = (?s, Ok d)"
        using less.prems True r(1) by (simp add: LimitedSourceRead_def Let_def Ok_def)
      have small: "length (content (lm_inner ?s)) < length (content (lm_inner s))" using r(2,3) by simp
      have d: "int (length d) \<le> lm_limit s - lm_read s" using r(4) True by linarith
      have "\<not> length out + length d > max_bytes" using d less.prems(5) by linarith
      then have "read_all_loop (LimitedSourceRead read) max_bytes out s =
          read_all_loop (LimitedSourceRead read) max_bytes (out @ d) ?s"
        using step r(2) by (subst read_all_loop.simps) (simp add: Ok_def FSS_TRY_ST_def)
      moreover have ok: "0 < lm_limit ?s" "\<not> lm_exceeded ?s" "0 \<le> lm_read ?s" "lm_read ?s \<le> lm_limit ?s"
          "length (out @ d) + nat (lm_limit ?s - lm_read ?s) \<le> max_bytes"
        using less.prems d by (simp_all add: nat_diff_distrib)
      moreover have sel: "lm_inner ?s = i" "lm_limit ?s = lm_limit s" "lm_what ?s = lm_what s" by simp_all
      from less(1) [OF small ok, unfolded sel] obtain s' where "read_all_loop (LimitedSourceRead read) max_bytes (out @ d) ?s =
          (s', if lm_read ?s + int (length (content i)) \<le> lm_limit s then Ok ((out @ d) @ content i)
               else Err kInvalidArgument (lm_what s @ msg_over_limit @ to_string (lm_limit s) @
                 msg_limit_at @ to_string (lm_limit s + 1) @ msg_limit_byte))"
          "lm_read ?s + int (length (content i)) \<le> lm_limit s \<longrightarrow> lm_read s' = lm_read ?s + int (length (content i))"
        by blast
      ultimately show ?thesis using r(3) by (intro exI [of _ s']) (simp add: add.assoc)
    qed
  qed
qed

end

section \<open>The sources of the program\<close>

definition string_content :: "StringSource \<Rightarrow> string" where
  "string_content s = drop (ss_pos s) (ss_data s)"

interpretation string_source: byte_source StringSourceRead string_content
proof unfold_locales
  fix n :: nat and s assume "0 < n"
  then show "\<exists>k s'. StringSourceRead n s = (s', Ok (take k (string_content s))) \<and> string_content s' = drop k (string_content s) \<and>
      k \<le> n \<and> k \<le> length (string_content s) \<and> (string_content s \<noteq> [] \<longrightarrow> 0 < k)"
    by (intro exI [of _ "min n (length (ss_data s) - ss_pos s)"] exI)
      (auto simp: StringSourceRead_def string_content_def Let_def add.commute)
qed

definition repeating_content :: "RepeatingSource \<Rightarrow> string" where
  "repeating_content s =
     map (\<lambda>i. rp_pattern s ! ((nat (rp_pos s) + i) mod length (rp_pattern s))) [0..<nat (rp_total s - rp_pos s)]"

lemma repeating_read:
  assumes "0 < n" "0 \<le> rp_pos s"
  shows "\<exists>k s'. RepeatingSourceRead n s = (s', Ok (take k (repeating_content s))) \<and>
    repeating_content s' = drop k (repeating_content s) \<and> k \<le> n \<and> k \<le> length (repeating_content s) \<and>
    (repeating_content s \<noteq> [] \<longrightarrow> 0 < k) \<and> 0 \<le> rp_pos s'"
proof (cases "rp_pos s \<ge> rp_total s")
  case True
  then show ?thesis using assms
    by (intro exI [of _ 0] exI [of _ s]) (simp add: RepeatingSourceRead_def repeating_content_def)
next
  case False
  let ?k = "min n (nat (rp_total s - rp_pos s))"
  let ?s = "s\<lparr>rp_pos := rp_pos s + int ?k\<rparr>"
  have "repeating_content ?s = drop ?k (repeating_content s)"
    by (rule nth_equalityI)
      (use assms False in \<open>auto simp: repeating_content_def nat_add_distrib nat_diff_distrib' add.assoc add.left_commute min_def\<close>)
  moreover have "RepeatingSourceRead n s = (?s, Ok (take ?k (repeating_content s)))"
    using False by (simp add: RepeatingSourceRead_def repeating_content_def Let_def take_map)
  ultimately show ?thesis using assms False
    by (intro exI [of _ ?k] exI [of _ ?s]) (auto simp: repeating_content_def)
qed

text \<open>Copying a source of known content into a sink ends, for every size of the buffer: the sink has received exactly the
  content and is closed, and the number of bytes is returned.\<close>

theorem pump_copies_all:
  "\<exists>s'. PumpTo StringSourceRead StringSinkWrite StringSinkClose buffer_size \<lparr>ss_data = data, ss_pos = 0\<rparr>
     \<lparr>sk_data = [], sk_closed = False\<rparr> = Some ((s', \<lparr>sk_data = data, sk_closed = True\<rparr>), Ok (length data))"
proof -
  let ?n = "if buffer_size = 0 then 64 * 1024 else buffer_size"
  have "0 < ?n" "\<not> sk_closed \<lparr>sk_data = [], sk_closed = False\<rparr>" by simp_all
  moreover have "\<exists>k'. StringSinkWrite d k = (k', Ok ()) \<and> \<not> sk_closed k' \<and> sk_data k' = sk_data k @ d" if "\<not> sk_closed k" for d k
    using that by (simp add: StringSinkWrite_def)
  ultimately obtain s' k' where
    "pump_loop StringSourceRead StringSinkWrite ?n 0 \<lparr>ss_data = data, ss_pos = 0\<rparr> \<lparr>sk_data = [], sk_closed = False\<rparr> =
       Some ((s', k'), Ok (length data))" "sk_data k' = data"
    using string_source.pump_loop_content [of ?n "\<lambda>k. \<not> sk_closed k" "\<lparr>sk_data = [], sk_closed = False\<rparr>" StringSinkWrite sk_data 0
        "\<lparr>ss_data = data, ss_pos = 0\<rparr>"] by (auto simp: string_content_def)
  then show ?thesis
    by (intro exI [of _ s']) (cases k', simp add: PumpTo_def StringSinkClose_def Ok_def)
qed

text \<open>Reading a source through a limit gives the whole content when it fits into the limit, a content exactly as long as the limit
  included, and then the count check accepts exactly the length of the content; one byte more and the read fails, so that a caller never
  takes a part for the whole.\<close>

theorem limited_source_exact:
  assumes "0 < limit" "limit \<le> int max_bytes"
  shows "\<exists>s. read_all_loop (LimitedSourceRead StringSourceRead) max_bytes []
      \<lparr>lm_inner = \<lparr>ss_data = data, ss_pos = 0\<rparr>, lm_limit = limit, lm_what = what, lm_read = 0, lm_exceeded = False\<rparr> =
    (s, if int (length data) \<le> limit then Ok data
        else Err kInvalidArgument (what @ msg_over_limit @ to_string limit @
          msg_limit_at @ to_string (limit + 1) @ msg_limit_byte)) \<and>
    (int (length data) \<le> limit \<longrightarrow> (VerifyConsumed s n = Ok () \<longleftrightarrow> n = int (length data)))"
proof -
  let ?s = "\<lparr>lm_inner = \<lparr>ss_data = data, ss_pos = 0\<rparr>, lm_limit = limit, lm_what = what, lm_read = 0, lm_exceeded = False\<rparr>"
  have "0 < lm_limit ?s" "\<not> lm_exceeded ?s" "0 \<le> lm_read ?s" "lm_read ?s \<le> lm_limit ?s"
      "length ([] :: string) + nat (lm_limit ?s - lm_read ?s) \<le> max_bytes"
    using assms by simp_all
  from string_source.limited_loop [OF this] show ?thesis
    by (auto simp: string_content_def VerifyConsumed_def Ok_def Err_def)
qed

theorem limited_source_exact_witness:
  "\<exists>s. read_all_loop (LimitedSourceRead StringSourceRead) 9 []
      \<lparr>lm_inner = \<lparr>ss_data = ''abc'', ss_pos = 0\<rparr>, lm_limit = 3, lm_what = ''body'', lm_read = 0, lm_exceeded = False\<rparr> = (s, Ok ''abc'')"
proof -
  have "(0::int) < 3" "(3::int) \<le> int 9" by simp_all
  from limited_source_exact [OF this, of "''abc''" "''body''"] show ?thesis by auto
qed

text \<open>A zero burst does not switch the throttle off: it is replaced by 64 KiB.\<close>

lemma zero_burst_throttles: "th_tokens (NewThrottledSource inner rate 0 now_ms) = 65536"
  by (simp add: NewThrottledSource_def Let_def)

section \<open>Serving by offset\<close>

definition string_ops :: "StringSource SeekOps" where
  "string_ops = \<lparr>sp_read = StringSourceRead, sp_seek = StringSourceSeek, sp_seekable = True\<rparr>"

text \<open>A pump over a seekable source of known content hands out the bytes at the offset it is asked for, at least one, so that the loop of
  the library that calls it makes progress.\<close>

lemma PumpServe_bytes:
  assumes "\<not> pm_failed p" "ss_data (pm_source p) = data" "ss_pos (pm_source p) = nat (pm_pos p)" "0 \<le> pm_pos p"
    and "offset < length data" "0 < len" "accept = (\<lambda>_. True)"
  shows "\<exists>p' d. PumpServe string_ops accept offset len p = (p', d, True) \<and> d = take (min len kPumpBuffer) (drop offset data) \<and> d \<noteq> [] \<and>
    \<not> pm_failed p' \<and> ss_data (pm_source p') = data \<and> ss_pos (pm_source p') = nat (pm_pos p') \<and> pm_pos p' = int (offset + length d)"
proof -
  define q where "q = (if int offset \<noteq> pm_pos p then p\<lparr>pm_source := (pm_source p)\<lparr>ss_pos := offset\<rparr>, pm_pos := int offset\<rparr> else p)"
  have jump: "(if int offset \<noteq> pm_pos p then JumpTo string_ops (int offset) p else (p, True)) = (q, True)"
    using assms by (simp add: q_def JumpTo_def string_ops_def StringSourceSeek_def Ok_def)
  have q: "ss_data (pm_source q) = data" "ss_pos (pm_source q) = offset" "pm_pos q = int offset" "\<not> pm_failed q"
    using assms by (auto simp: q_def)
  have "0 < kPumpBuffer" by (simp add: kPumpBuffer_def)
  then have ne: "take (min len kPumpBuffer) (drop offset data) \<noteq> []" using assms(5,6) by simp
  let ?k = "min (min len kPumpBuffer) (length data - offset)"
  have "take ?k (drop offset data) = take (min len kPumpBuffer) (drop offset data)" by (simp add: min_def)
  then have "StringSourceRead (min len kPumpBuffer) (pm_source q) =
      ((pm_source q)\<lparr>ss_pos := offset + ?k\<rparr>, Ok (take (min len kPumpBuffer) (drop offset data)))"
    using q by (simp add: StringSourceRead_def Let_def)
  then show ?thesis
    using assms(1,6,7) jump q ne \<open>0 < kPumpBuffer\<close> by (auto simp: PumpServe_def string_ops_def Let_def Ok_def nat_add_distrib)
qed

end
