(* ===== verification/Registry.thy ===== *)
theory Registry
  imports Metadata_Repository
begin

text \<open>
  What the metadata repository promises, without chains, buckets, version flags and indexes: a registry maps
  a partition and a record id to a claim or to the history of a registered record, and no two entries of a partition
  have the same file source. The repository is shown to implement it: every sequence of calls, from the empty
  repository, gives answers the registry allows, and every read is a function of the registry.
\<close>

section \<open>Simulation of an abstract system\<close>

fun run :: "('op \<Rightarrow> 's \<Rightarrow> 's \<times> 'out) \<Rightarrow> 'op list \<Rightarrow> 's \<Rightarrow> 's \<times> 'out list" where
  "run exec [] s = (s, [])"
| "run exec (a # as) s = (case exec a s of (s', out) \<Rightarrow> case run exec as s' of (t, outs) \<Rightarrow> (t, out # outs))"

inductive steps :: "('g \<Rightarrow> 'op \<Rightarrow> 'out \<Rightarrow> 'g \<Rightarrow> bool) \<Rightarrow> 'g \<Rightarrow> 'op list \<Rightarrow> 'out list \<Rightarrow> 'g \<Rightarrow> bool"
  for allowed where
  steps_Nil: "steps allowed g [] [] g"
| steps_Cons: "allowed g a out h \<Longrightarrow> steps allowed h as outs k \<Longrightarrow> steps allowed g (a # as) (out # outs) k"

inductive_cases steps_NilE: "steps allowed g [] outs h"
inductive_cases steps_ConsE: "steps allowed g (a # as) outs h"

locale simulation =
  fixes exec :: "'op \<Rightarrow> 's \<Rightarrow> 's \<times> 'out" and inv :: "'s \<Rightarrow> bool" and abs :: "'s \<Rightarrow> 'g"
    and allowed :: "'g \<Rightarrow> 'op \<Rightarrow> 'out \<Rightarrow> 'g \<Rightarrow> bool"
  assumes exec_inv: "inv s \<Longrightarrow> exec a s = (s', out) \<Longrightarrow> inv s'"
    and exec_allowed: "inv s \<Longrightarrow> exec a s = (s', out) \<Longrightarrow> allowed (abs s) a out (abs s')"
begin

lemma run_refines:
  "inv s \<Longrightarrow> inv (fst (run exec as s)) \<and> steps allowed (abs s) as (snd (run exec as s)) (abs (fst (run exec as s)))"
proof (induction as arbitrary: s)
  case (Cons a as)
  obtain s' out where e: "exec a s = (s', out)" by (cases "exec a s")
  obtain t outs where r: "run exec as s' = (t, outs)" by (cases "run exec as s'")
  show ?case
    using Cons.IH [OF exec_inv [OF Cons.prems e]] exec_allowed [OF Cons.prems e] by (simp add: e r steps_Cons)
qed (simp add: steps_Nil)

end

section \<open>The registry\<close>

text \<open>A claim, or the versions of a registered record with the times they were written, oldest first.\<close>

datatype entry = Claimed int FileMetadataRecord | Registered "(int \<times> FileMetadataRecord) list"

type_synonym registry = "string \<times> string \<Rightarrow> entry option"

fun newest :: "entry \<Rightarrow> FileMetadataRecord" where
  "newest (Claimed t r) = r"
| "newest (Registered h) = snd (last h)"

fun entry_state :: "entry \<Rightarrow> MetadataState" where
  "entry_state (Claimed t r) = kClaiming"
| "entry_state (Registered h) = kReady"

definition has_source :: "registry \<Rightarrow> string \<Rightarrow> string \<Rightarrow> string \<Rightarrow> entry \<Rightarrow> bool" where
  "has_source g p f i e \<longleftrightarrow> g (p, i) = Some e \<and> FileSourceOf (newest e) = f"

definition stale_ids :: "registry \<Rightarrow> string \<Rightarrow> int \<Rightarrow> string list \<Rightarrow> string set" where
  "stale_ids g p t fs = {i. \<exists>c r. g (p, i) = Some (Claimed c r) \<and> c \<le> t \<and> FileSourceOf r \<in> set fs}"

datatype MdOutcome =
    OutClaim "MetadataClaim Result"
  | OutRecord "FileMetadataRecord Result"
  | OutUnit "unit Result"
  | OutCount "int Result"

definition fails :: "ErrorKind \<Rightarrow> 'a Result \<Rightarrow> bool" where
  "fails k res \<longleftrightarrow> (\<exists>e. res = Inl e \<and> error_kind e = k)"

definition valid_for :: "string \<Rightarrow> FileMetadataRecord \<Rightarrow> bool" where
  "valid_for p r \<longleftrightarrow> p \<noteq> [] \<and> fm_id r \<noteq> [] \<and> RecordPartition r = p"

text \<open>The calls and the answers the registry allows. The conditions of the rules for one call exclude each other.\<close>

inductive reg_step :: "registry \<Rightarrow> MdOp \<Rightarrow> MdOutcome \<Rightarrow> registry \<Rightarrow> bool" where
  claim_invalid: "\<not> valid_for p r \<or> FileSourceOf r = [] \<Longrightarrow> fails kInvalidArgument res \<Longrightarrow>
    reg_step g (OpMdClaim now p r) (OutClaim res) g"
| claim_taken: "valid_for p r \<Longrightarrow> FileSourceOf r \<noteq> [] \<Longrightarrow> has_source g p (FileSourceOf r) i e \<Longrightarrow>
    reg_step g (OpMdClaim now p r)
      (OutClaim (Ok \<lparr>mc_claimed = False, mc_record = newest e, mc_state = entry_state e\<rparr>)) g"
| claim_id_used: "valid_for p r \<Longrightarrow> FileSourceOf r \<noteq> [] \<Longrightarrow> (\<nexists>i e. has_source g p (FileSourceOf r) i e) \<Longrightarrow>
    g (p, fm_id r) \<noteq> None \<Longrightarrow> fails kInvalidArgument res \<Longrightarrow> reg_step g (OpMdClaim now p r) (OutClaim res) g"
| claim_won: "valid_for p r \<Longrightarrow> FileSourceOf r \<noteq> [] \<Longrightarrow> (\<nexists>i e. has_source g p (FileSourceOf r) i e) \<Longrightarrow>
    g (p, fm_id r) = None \<Longrightarrow> r1 = r\<lparr>fm_version := 1\<rparr> \<Longrightarrow>
    reg_step g (OpMdClaim now p r) (OutClaim (Ok \<lparr>mc_claimed = True, mc_record = r1, mc_state = kClaiming\<rparr>))
      (g((p, fm_id r) \<mapsto> Claimed now r1))"
| ready_invalid: "\<not> valid_for p r \<Longrightarrow> fails kInvalidArgument res \<Longrightarrow> reg_step g (OpMdMarkReady p i n r) (OutRecord res) g"
| ready_missing: "valid_for p r \<Longrightarrow> n \<noteq> 1 \<or> (\<nexists>t c. g (p, i) = Some (Claimed t c)) \<Longrightarrow> fails kNotFound res \<Longrightarrow>
    reg_step g (OpMdMarkReady p i n r) (OutRecord res) g"
| ready_other_source: "valid_for p r \<Longrightarrow> g (p, i) = Some (Claimed t c) \<Longrightarrow> FileSourceOf c \<noteq> FileSourceOf r \<Longrightarrow>
    fails kInvalidArgument res \<Longrightarrow> reg_step g (OpMdMarkReady p i 1 r) (OutRecord res) g"
| ready: "valid_for p r \<Longrightarrow> g (p, i) = Some (Claimed t c) \<Longrightarrow> FileSourceOf c = FileSourceOf r \<Longrightarrow>
    r1 = r\<lparr>fm_id := i, fm_version := 1\<rparr> \<Longrightarrow>
    reg_step g (OpMdMarkReady p i 1 r) (OutRecord (Ok r1)) (g((p, i) \<mapsto> Registered [(t, r1)]))"
| release_invalid: "fails kInvalidArgument res \<Longrightarrow> reg_step g (OpMdRelease [] i n) (OutUnit res) g"
| release_missing: "p \<noteq> [] \<Longrightarrow> n \<noteq> 1 \<or> (\<nexists>t c. g (p, i) = Some (Claimed t c)) \<Longrightarrow> fails kNotFound res \<Longrightarrow>
    reg_step g (OpMdRelease p i n) (OutUnit res) g"
| released: "p \<noteq> [] \<Longrightarrow> g (p, i) = Some (Claimed t c) \<Longrightarrow>
    reg_step g (OpMdRelease p i 1) (OutUnit (Ok ())) (g((p, i) := None))"
| reclaim_invalid: "fails kInvalidArgument res \<Longrightarrow> reg_step g (OpMdReclaim [] t lim fs) (OutCount res) g"
| reclaimed: "p \<noteq> [] \<Longrightarrow> V \<subseteq> stale_ids g p t fs \<Longrightarrow> finite (stale_ids g p t fs) \<Longrightarrow>
    card V = min (nat lim) (card (stale_ids g p t fs)) \<Longrightarrow>
    reg_step g (OpMdReclaim p t lim fs) (OutCount (Ok (int (card V)))) (\<lambda>(q, i). if q = p \<and> i \<in> V then None else g (q, i))"
| update_invalid: "\<not> valid_for p r \<Longrightarrow> fails kInvalidArgument res \<Longrightarrow> reg_step g (OpMdUpdate now p r) (OutRecord res) g"
| update_missing: "valid_for p r \<Longrightarrow> (\<nexists>h. g (p, fm_id r) = Some (Registered h)) \<Longrightarrow> fails kNotFound res \<Longrightarrow>
    reg_step g (OpMdUpdate now p r) (OutRecord res) g"
| update_other_source: "valid_for p r \<Longrightarrow> g (p, fm_id r) = Some (Registered h) \<Longrightarrow> FileSourceOf r \<noteq> FileSourceOf (snd (last h)) \<Longrightarrow>
    fails kInvalidArgument res \<Longrightarrow> reg_step g (OpMdUpdate now p r) (OutRecord res) g"
| updated: "valid_for p r \<Longrightarrow> g (p, fm_id r) = Some (Registered h) \<Longrightarrow> FileSourceOf r = FileSourceOf (snd (last h)) \<Longrightarrow>
    r1 = r\<lparr>fm_version := int (length h) + 1\<rparr> \<Longrightarrow>
    reg_step g (OpMdUpdate now p r) (OutRecord (Ok r1)) (g((p, fm_id r) \<mapsto> Registered (h @ [(now, r1)])))"
| delete_missing: "g (p, i) = None \<Longrightarrow> fails kNotFound res \<Longrightarrow> reg_step g (OpMdDelete p i) (OutUnit res) g"
| deleted: "g (p, i) \<noteq> None \<Longrightarrow> reg_step g (OpMdDelete p i) (OutUnit (Ok ())) (g((p, i) := None))"

section \<open>The repository as an implementation\<close>

fun md_run :: "MdOp \<Rightarrow> MdState \<Rightarrow> MdState \<times> MdOutcome" where
  "md_run (OpMdClaim now p r) s = map_prod id OutClaim (MdClaimForWrite now s p r)"
| "md_run (OpMdMarkReady p i n r) s = map_prod id OutRecord (MdMarkReady s p i n r)"
| "md_run (OpMdRelease p i n) s = map_prod id OutUnit (MdReleaseClaim s p i n)"
| "md_run (OpMdReclaim p t lim fs) s = map_prod id OutCount (MdReclaimStaleClaiming s p t lim fs)"
| "md_run (OpMdUpdate now p r) s = map_prod id OutRecord (MdUpdate now s p r)"
| "md_run (OpMdDelete p i) s = map_prod id OutUnit (MdDelete s p i)"

definition entry_of :: "Chain \<Rightarrow> entry" where
  "entry_of c = (if v_state (last c) = kClaiming then Claimed (v_created_at (last c)) (v_record (last c))
     else Registered (map (\<lambda>v. (v_created_at v, v_record v)) c))"

definition registry_of :: "MdState \<Rightarrow> registry" where
  "registry_of s = (\<lambda>(p, i). map_option entry_of (FindChain s p i))"

lemma fails_simps [simp]:
  "fails k (Err k' m) \<longleftrightarrow> k' = k" "\<not> fails k (Ok x)"
  "fails k record_not_found \<longleftrightarrow> k = kNotFound" "fails k not_claiming \<longleftrightarrow> k = kNotFound"
  "fails k source_key_empty \<longleftrightarrow> k = kInvalidArgument"
  by (auto simp: fails_def Err_def Ok_def record_not_found_def not_claiming_def source_key_empty_def)

lemma valid_for_iff: "valid_for p r \<longleftrightarrow> ValidatePartitionAndId p r = Ok ()"
  by (simp add: valid_for_def ValidatePartitionAndId_Ok [of p r "()", folded Ok_def])

lemma validate_cases:
  obtains (valid) "valid_for p r" "ValidatePartitionAndId p r = Inr ()"
  | (invalid) e where "\<not> valid_for p r" "ValidatePartitionAndId p r = Inl e" "error_kind e = kInvalidArgument"
proof (cases "ValidatePartitionAndId p r")
  case (Inl e)
  then have "error_kind e = kInvalidArgument"
    by (auto simp: ValidatePartitionAndId_def Err_def Ok_def split: if_splits)
  then show ?thesis using Inl invalid by (simp add: valid_for_iff Ok_def)
qed (use valid in \<open>simp add: valid_for_iff Ok_def\<close>)

lemma registry_at: "registry_of s (p, i) = map_option entry_of (FindChain s p i)"
  by (simp add: registry_of_def)

lemma registry_cong:
  assumes "\<And>q j. FindChain s' q j = FindChain s q j"
  shows "registry_of s' = registry_of s"
  by (simp add: registry_of_def assms)

lemma registry_update:
  assumes "\<And>q j. FindChain s' q j = (if (q, j) = (p, i) then c else FindChain s q j)"
  shows "registry_of s' = (registry_of s)((p, i) := map_option entry_of c)"
  by (auto simp: registry_of_def assms fun_eq_iff)

lemma entry_of_claiming: "v_state row = kClaiming \<Longrightarrow> entry_of [row] = Claimed (v_created_at row) (v_record row)"
  by (simp add: entry_of_def)

lemma chain_last_state:
  assumes "chain_ok i f c"
  shows "v_state (last c) = kReady \<or> v_state (last c) = kClaiming \<and> c = [last c]"
proof -
  have "\<forall>v \<in> set c. v_state v = kReady \<or> v_state v = kClaiming \<and> c = [v]" "last c \<in> set c"
    using assms by (simp_all add: chain_ok_def)
  then show ?thesis by (rule bspec)
qed

lemma registry_claimed:
  assumes "md_inv s"
  shows "registry_of s (p, i) = Some (Claimed t r) \<longleftrightarrow>
    (\<exists>row. FindChain s p i = Some [row] \<and> v_state row = kClaiming \<and> v_created_at row = t \<and> v_record row = r)"
proof
  assume "registry_of s (p, i) = Some (Claimed t r)"
  then obtain c where c: "FindChain s p i = Some c" "entry_of c = Claimed t r" by (auto simp: registry_at)
  from md_invD(2) [OF assms c(1)] obtain f where ok: "chain_ok i f c" by (elim exE conjE)
  have l: "v_state (last c) = kClaiming" using c(2) by (simp add: entry_of_def split: if_splits)
  then have "c = [last c]" using chain_last_state [OF ok] by simp
  then show "\<exists>row. FindChain s p i = Some [row] \<and> v_state row = kClaiming \<and> v_created_at row = t \<and> v_record row = r"
    using c l by (intro exI [of _ "last c"]) (auto simp: entry_of_def)
qed (auto simp: registry_at entry_of_claiming)

lemma registry_registered:
  assumes "md_inv s"
  shows "registry_of s (p, i) = Some (Registered h) \<longleftrightarrow>
    (\<exists>c. FindChain s p i = Some c \<and> v_state (last c) = kReady \<and> h = map (\<lambda>v. (v_created_at v, v_record v)) c)"
proof -
  have "v_state (last c) = kReady \<or> v_state (last c) = kClaiming" if "FindChain s p i = Some c" for c
  proof -
    from md_invD(2) [OF assms that] obtain f where "chain_ok i f c" by (elim exE conjE)
    then show ?thesis using chain_last_state by blast
  qed
  then show ?thesis by (cases "FindChain s p i") (auto simp: registry_at entry_of_def)
qed

lemma newest_entry: "c \<noteq> [] \<Longrightarrow> newest (entry_of c) = v_record (last c)"
  by (simp add: entry_of_def last_map)

lemma entry_state_entry:
  assumes "md_inv s" "FindChain s p i = Some c"
  shows "entry_state (entry_of c) = v_state (last c)"
proof -
  from md_invD(2) [OF assms] obtain f where "chain_ok i f c" by (elim exE conjE)
  from chain_last_state [OF this] show ?thesis by (auto simp: entry_of_def)
qed

lemma has_source_index:
  assumes "md_inv s"
  shows "has_source (registry_of s) p f i e \<longleftrightarrow>
    map_of (md_source_index s) (p, f) = Some i \<and> (\<exists>c. FindChain s p i = Some c \<and> e = entry_of c)"
proof
  assume "has_source (registry_of s) p f i e"
  then obtain c where c: "FindChain s p i = Some c" "e = entry_of c" "FileSourceOf (newest e) = f"
    by (auto simp: has_source_def registry_at)
  from md_invD(2) [OF assms c(1)] obtain g where g: "chain_ok i g c" "map_of (md_source_index s) (p, g) = Some i"
    by (elim exE conjE)
  have "g = f" using c(2,3) chain_ok_last(1,3) [OF g(1)] by (simp add: newest_entry)
  then show "map_of (md_source_index s) (p, f) = Some i \<and> (\<exists>c. FindChain s p i = Some c \<and> e = entry_of c)"
    using c g by auto
next
  assume "map_of (md_source_index s) (p, f) = Some i \<and> (\<exists>c. FindChain s p i = Some c \<and> e = entry_of c)"
  then obtain c where c: "map_of (md_source_index s) (p, f) = Some i" "FindChain s p i = Some c" "e = entry_of c" by auto
  from md_invD(3) [OF assms c(1)] c(2) have "chain_ok i f c" by auto
  from chain_ok_last(1,3) [OF this] show "has_source (registry_of s) p f i e"
    using c by (simp add: has_source_def registry_at newest_entry)
qed

lemma source_free:
  assumes "md_inv s"
  shows "(\<nexists>i e. has_source (registry_of s) p f i e) \<longleftrightarrow> map_of (md_source_index s) (p, f) = None"
  unfolding has_source_index [OF assms] using md_invD(3) [OF assms, of p f] by (cases "map_of (md_source_index s) (p, f)") auto

lemma claim_refines:
  assumes "md_inv s" "MdClaimForWrite now s p r = (s', res)"
  shows "reg_step (registry_of s) (OpMdClaim now p r) (OutClaim res) (registry_of s')"
proof (cases rule: validate_cases [of p r])
  case (invalid e)
  then show ?thesis using assms(2) by (auto simp: MdClaimForWrite_def fails_def intro: claim_invalid)
next
  case valid
  from assms show ?thesis
  proof (cases rule: claim_cases)
    case (error e)
    note same = registry_cong [OF error(2)]
    show ?thesis
    proof (cases "FileSourceOf r = []")
      case True
      then show ?thesis using assms(2) valid by (auto simp: MdClaimForWrite_def intro: claim_invalid)
    next
      case False
      have free: "map_of (md_source_index s) (p, FileSourceOf r) = None"
      proof (rule ccontr)
        assume "map_of (md_source_index s) (p, FileSourceOf r) \<noteq> None"
        then obtain i where i: "map_of (md_source_index s) (p, FileSourceOf r) = Some i" by auto
        from md_invD(3) [OF assms(1) i] obtain c where "FindChain s p i = Some c" "chain_ok i (FileSourceOf r) c"
          by (elim exE conjE)
        then show False
          using assms(2) valid False i chain_ok_last(1) error(1) by (auto simp: MdClaimForWrite_def Ok_def)
      qed
      have used: "FindChain s p (fm_id r) \<noteq> None \<and> fails kInvalidArgument res"
        using assms(2) valid False free error(1)
        by (auto simp: MdClaimForWrite_def Let_def FindChain_def Ok_def fails_def Err_def split: option.splits if_splits)
      show ?thesis unfolding same
        by (rule claim_id_used [OF valid(1) False iffD2 [OF source_free [OF assms(1)] free]]) (use used in \<open>auto simp: registry_at\<close>)
    qed
  next
    case (taken i c)
    have "c \<noteq> []" using md_invD(2) [OF assms(1) taken(3)] chain_ok_last(1) by blast
    have src: "FileSourceOf r \<noteq> []" using assms(2) valid taken by (auto simp: MdClaimForWrite_def Let_def source_key_empty_def Err_def Ok_def)
    have "has_source (registry_of s) p (FileSourceOf r) i (entry_of c)"
      using taken by (simp add: has_source_index [OF assms(1)])
    from claim_taken [where g = "registry_of s", OF valid(1) src this] show ?thesis
      using taken \<open>c \<noteq> []\<close> entry_state_entry [OF assms(1) taken(3)] by (simp add: newest_entry)
  next
    case won
    have "registry_of s' = (registry_of s)((p, fm_id r) \<mapsto> Claimed now (r\<lparr>fm_version := 1\<rparr>))"
      unfolding registry_update [OF won(5)] by (simp add: entry_of_def new_row_def)
    then show ?thesis
      using claim_won [OF valid(1) won(2) iffD2 [OF source_free [OF assms(1)] won(3)]] won(4,7)
      by (simp add: registry_at)
  qed
qed

text \<open>The chain a mark-ready or a release of version \<open>n\<close> works on, if it is a claim.\<close>

lemma not_claimed_row:
  assumes "md_inv s" "FindChain s p i = Some c" "find_row n c = Some (pre, row, post)"
    "n \<noteq> 1 \<or> (\<nexists>t r. registry_of s (p, i) = Some (Claimed t r))"
  shows "v_state row \<noteq> kClaiming"
proof
  assume cl: "v_state row = kClaiming"
  from md_invD(2) [OF assms(1,2)] obtain f where "chain_ok i f c" by (elim exE conjE)
  from chain_ok_claiming [OF this assms(3) cl] have "c = [row]" "n = 1" by simp_all
  then show False using assms(2,4) cl by (auto simp: registry_claimed [OF assms(1)])
qed

lemma claimed_row:
  assumes "md_inv s" "registry_of s (p, i) = Some (Claimed t c)"
  obtains row where "FindChain s p i = Some [row]" "v_state row = kClaiming" "v_created_at row = t"
    "v_record row = c" "find_row 1 [row] = Some ([], row, [])"
proof -
  obtain row where row: "FindChain s p i = Some [row]" "v_state row = kClaiming" "v_created_at row = t" "v_record row = c"
    using assms by (auto simp: registry_claimed)
  from md_invD(2) [OF assms(1) row(1)] obtain f where "chain_ok i f [row]" by (elim exE conjE)
  then have "find_row 1 [row] = Some ([], row, [])" by (simp add: chain_ok_def)
  with row that show ?thesis by blast
qed

lemma mark_ready_refines:
  assumes "md_inv s" "MdMarkReady s p i n r = (s', res)"
  shows "reg_step (registry_of s) (OpMdMarkReady p i n r) (OutRecord res) (registry_of s')"
proof (cases rule: validate_cases [of p r])
  case (invalid e)
  then show ?thesis using assms(2) by (auto simp: MdMarkReady_def fails_def intro: ready_invalid)
next
  case valid
  show ?thesis
  proof (cases "n \<noteq> 1 \<or> (\<nexists>t c. registry_of s (p, i) = Some (Claimed t c))")
    case True
    then have "fails kNotFound res" "s' = s"
      using assms(2) valid not_claimed_row [OF assms(1)]
      by (auto simp: MdMarkReady_def Let_def split: option.splits if_splits)
    then show ?thesis using ready_missing [where g = "registry_of s", OF valid(1) True] by simp
  next
    case False
    then obtain t c where n: "n = 1" and cl: "registry_of s (p, i) = Some (Claimed t c)" by auto
    from claimed_row [OF assms(1) cl] obtain row where
      row: "FindChain s p i = Some [row]" "v_state row = kClaiming" "v_created_at row = t" "v_record row = c"
        "find_row 1 [row] = Some ([], row, [])" .
    show ?thesis
    proof (cases "FileSourceOf c = FileSourceOf r")
      case True
      let ?row = "row\<lparr>v_record := r\<lparr>fm_id := i, fm_version := 1\<rparr>, v_state := kReady\<rparr>"
      have s': "s' = set_chain p i [?row] s" "res = Ok (r\<lparr>fm_id := i, fm_version := 1\<rparr>)"
        using assms(2) valid row n True by (auto simp: MdMarkReady_def Let_def)
      have "registry_of s' = (registry_of s)((p, i) \<mapsto> Registered [(t, r\<lparr>fm_id := i, fm_version := 1\<rparr>)])"
        unfolding s' by (subst registry_update [OF FindChain_set_chain [OF row(1)]]) (simp add: entry_of_def row(3))
      then show ?thesis using ready [where g = "registry_of s", OF valid(1) cl True refl] s' n by simp
    next
      case False
      then have "fails kInvalidArgument res" "s' = s"
        using assms(2) valid row n by (auto simp: MdMarkReady_def)
      then show ?thesis using ready_other_source [where g = "registry_of s", OF valid(1) cl False] n by simp
    qed
  qed
qed

lemma release_claimed:
  assumes "md_inv s" "p \<noteq> []" "registry_of s (p, i) = Some (Claimed t c)"
  shows "\<exists>s'. MdReleaseClaim s p i 1 = (s', Ok ()) \<and>
    (\<forall>q j. FindChain s' q j = (if (q, j) = (p, i) then None else FindChain s q j))"
proof -
  from claimed_row [OF assms(1,3)] obtain row where
    row: "FindChain s p i = Some [row]" "v_state row = kClaiming" "find_row 1 [row] = Some ([], row, [])" .
  have "MdReleaseClaim s p i 1 = (drop_row p i [] (FileSourceOf (v_record row)) s, Ok ())"
    using assms(2) row by (simp add: MdReleaseClaim_def del: find_row.simps)
  with FindChain_drop_row(1) [OF row(1)] show ?thesis by blast
qed

lemma release_refines:
  assumes "md_inv s" "MdReleaseClaim s p i n = (s', res)"
  shows "reg_step (registry_of s) (OpMdRelease p i n) (OutUnit res) (registry_of s')"
proof (cases "p = []")
  case True
  then show ?thesis using assms(2) by (auto simp: MdReleaseClaim_def intro: release_invalid)
next
  case part: False
  show ?thesis
  proof (cases "n \<noteq> 1 \<or> (\<nexists>t c. registry_of s (p, i) = Some (Claimed t c))")
    case True
    then have "fails kNotFound res" "s' = s"
      using assms(2) part not_claimed_row [OF assms(1)]
      by (auto simp: MdReleaseClaim_def split: option.splits if_splits)
    then show ?thesis using release_missing [where g = "registry_of s", OF part True] by simp
  next
    case False
    then obtain t c where n: "n = 1" and cl: "registry_of s (p, i) = Some (Claimed t c)" by auto
    from release_claimed [OF assms(1) part cl] obtain t' where
      t': "MdReleaseClaim s p i 1 = (t', Ok ())"
        "\<And>q j. FindChain t' q j = (if (q, j) = (p, i) then None else FindChain s q j)" by blast
    then have "s' = t'" "res = Ok ()" using assms(2) n by simp_all
    then show ?thesis using released [where g = "registry_of s", OF part cl] registry_update [OF t'(2)] n by simp
  qed
qed

lemma update_refines:
  assumes "md_inv s" "MdUpdate now s p r = (s', res)"
  shows "reg_step (registry_of s) (OpMdUpdate now p r) (OutRecord res) (registry_of s')"
proof (cases rule: validate_cases [of p r])
  case (invalid e)
  then show ?thesis using assms(2) by (auto simp: MdUpdate_def fails_def intro: update_invalid)
next
  case valid
  show ?thesis
  proof (cases "\<exists>h. registry_of s (p, fm_id r) = Some (Registered h)")
    case False
    then have "fails kNotFound res" "s' = s"
      using assms(2) valid by (auto simp: MdUpdate_def Let_def registry_registered [OF assms(1)] split: option.splits if_splits)
    then show ?thesis using update_missing [where g = "registry_of s", OF valid(1)] False by simp
  next
    case True
    then obtain h where reg: "registry_of s (p, fm_id r) = Some (Registered h)" ..
    then obtain c where c: "FindChain s p (fm_id r) = Some c" "v_state (last c) = kReady"
      and h: "h = map (\<lambda>v. (v_created_at v, v_record v)) c" by (auto simp: registry_registered [OF assms(1)])
    from md_invD(2) [OF assms(1) c(1)] obtain f where f: "f \<noteq> []" "chain_ok (fm_id r) f c" by (elim exE conjE)
    note l = chain_ok_last [OF f(2)]
    have last_h: "snd (last h) = v_record (last c)" using l(1) by (simp add: h last_map)
    show ?thesis
    proof (cases "FileSourceOf r = FileSourceOf (snd (last h))")
      case True
      let ?r1 = "r\<lparr>fm_version := int (length h) + 1\<rparr>"
      let ?v = "\<lparr>v_record = ?r1, v_created_at = now, v_is_latest = True, v_state = kReady\<rparr>"
      have s': "s' = set_chain p (fm_id r) (map (\<lambda>v. v\<lparr>v_is_latest := False\<rparr>) c @ [?v]) s" "res = Ok ?r1"
        using assms(2) valid c l f(1) True last_h by (auto simp: MdUpdate_def Let_def h)
      have "registry_of s' = (registry_of s)((p, fm_id r) \<mapsto> Registered (h @ [(now, ?r1)]))"
        unfolding s'(1) by (subst registry_update [OF FindChain_set_chain [OF c(1)]])
          (simp add: entry_of_def h comp_def)
      then show ?thesis using updated [where g = "registry_of s", OF valid(1) reg True refl] s'(2) by simp
    next
      case False
      then have "fails kInvalidArgument res" "s' = s"
        using assms(2) valid c l last_h by (auto simp: MdUpdate_def Let_def split: if_splits)
      then show ?thesis using update_other_source [where g = "registry_of s", OF valid(1) reg False] by simp
    qed
  qed
qed

lemma delete_refines:
  assumes "md_inv s" "MdDelete s p i = (s', res)"
  shows "reg_step (registry_of s) (OpMdDelete p i) (OutUnit res) (registry_of s')"
  using assms
proof (cases rule: delete_cases)
  case (error e)
  have "fails kNotFound res" using assms(2) error(3) by (auto simp: MdDelete_def FindChain_def split: option.splits if_splits)
  then show ?thesis using error by (auto simp: registry_at intro: delete_missing)
next
  case (deleted c f)
  have "reg_step (registry_of s) (OpMdDelete p i) (OutUnit (Ok ())) ((registry_of s)((p, i) := None))"
    by (rule reg_step.deleted) (simp add: registry_at deleted(1))
  then show ?thesis using registry_update [OF deleted(4)] deleted(3) by simp
qed

text \<open>Reclaiming releases exactly its victims.\<close>

lemma reclaim_victims_exact:
  assumes "md_inv s" "p \<noteq> []" "distinct (map fst vs)"
    "\<forall>(i, n) \<in> set vs. n = 1 \<and> (\<exists>t c. registry_of s (p, i) = Some (Claimed t c))"
  shows "\<exists>s'. reclaim_victims p vs (s, m) = (s', m + int (length vs)) \<and>
    (\<forall>q j. FindChain s' q j = (if q = p \<and> j \<in> fst ` set vs then None else FindChain s q j))"
  using assms
proof (induction vs arbitrary: s m)
  case (Cons iv vs)
  obtain i where iv: "iv = (i, 1)" using Cons.prems(4) by auto
  then obtain t c where cl: "registry_of s (p, i) = Some (Claimed t c)" using Cons.prems(4) by auto
  from release_claimed [OF Cons.prems(1,2) cl] obtain s1 where
    s1: "MdReleaseClaim s p i 1 = (s1, Ok ())"
      "\<And>q j. FindChain s1 q j = (if (q, j) = (p, i) then None else FindChain s q j)" by blast
  have "\<forall>(j, n) \<in> set vs. n = 1 \<and> (\<exists>t c. registry_of s1 (p, j) = Some (Claimed t c))"
    using Cons.prems(3,4) by (force simp: registry_update [OF s1(2)] iv)
  from Cons.IH [OF md_inv_release [OF Cons.prems(1) s1(1)] Cons.prems(2) _ this, of "m + 1"] Cons.prems(3)
  obtain s' where s': "reclaim_victims p vs (s1, m + 1) = (s', m + 1 + int (length vs))"
      "\<And>q j. FindChain s' q j = (if q = p \<and> j \<in> fst ` set vs then None else FindChain s1 q j)" by auto
  have "reclaim_victims p (iv # vs) (s, m) = (s', m + int (length (iv # vs)))"
    using s' s1(1) by (simp add: iv reclaim_step [OF Cons.prems(2)] Ok_def del: reclaim_victims.simps)
  then show ?case using s'(2) s1(2) by (auto simp: iv)
qed simp

lemma victim_ids:
  "map fst (concat (map (victim_of t fs) b)) = map fst (filter (\<lambda>(i, c). find (stale_claim t fs) c \<noteq> None) b)"
  by (induction b) (auto simp: victim_of_def split: option.splits)

lemma victims_exact:
  assumes "md_inv s" "map_of (md_by_id s) p = Some b"
    and vs_def: "vs = concat (map (victim_of t fs) b)"
  shows "distinct (map fst vs)" "fst ` set vs = stale_ids (registry_of s) p t fs"
    "\<forall>(i, n) \<in> set vs. n = 1 \<and> (\<exists>t c. registry_of s (p, i) = Some (Claimed t c))"
proof -
  note wf = md_wf_bucket [OF md_invD(1) [OF assms(1)] assms(2)]
  have row: "\<exists>row. c = [row] \<and> v_state row = kClaiming \<and> v = row \<and> fm_version (v_record v) = 1"
    if "FindChain s p i = Some c" "find (stale_claim t fs) c = Some v" for i c v
  proof -
    from md_invD(2) [OF assms(1) that(1)] obtain f where ok: "chain_ok i f c" by (elim exE conjE)
    have v: "v \<in> set c" "v_state v = kClaiming" using that(2) by (auto simp: find_Some_iff stale_claim_def)
    then have "c = [v]" using ok by (auto simp: chain_ok_def)
    moreover have "fm_version (v_record v) = 1" using ok unfolding \<open>c = [v]\<close> by (simp add: chain_ok_def)
    ultimately show ?thesis using v(2) by blast
  qed
  have at: "(i, c) \<in> set b \<longleftrightarrow> FindChain s p i = Some c" for i c
    using map_wf_lookup [OF wf] assms(2) by (simp add: FindChain_def)
  show "distinct (map fst vs)"
    unfolding vs_def victim_ids using map_wf_distinct [OF wf] by (rule distinct_map_filter)
  have "fst ` set vs = {i. \<exists>c. FindChain s p i = Some c \<and> find (stale_claim t fs) c \<noteq> None}"
  proof -
    have "fst ` set vs = fst ` set (filter (\<lambda>(i, c). find (stale_claim t fs) c \<noteq> None) b)"
      unfolding vs_def by (metis list.set_map victim_ids)
    also have "\<dots> = {i. \<exists>c. (i, c) \<in> set b \<and> find (stale_claim t fs) c \<noteq> None}" by force
    finally show ?thesis by (simp only: at)
  qed
  also have "\<dots> = {i. \<exists>v. FindChain s p i = Some [v] \<and> stale_claim t fs v}"
  proof -
    have "(\<exists>c. FindChain s p i = Some c \<and> find (stale_claim t fs) c \<noteq> None) \<longleftrightarrow>
        (\<exists>v. FindChain s p i = Some [v] \<and> stale_claim t fs v)" for i
    proof
      assume "\<exists>c. FindChain s p i = Some c \<and> find (stale_claim t fs) c \<noteq> None"
      then obtain c v where c: "FindChain s p i = Some c" "find (stale_claim t fs) c = Some v" by auto
      then have "c = [v]" "stale_claim t fs v" using row [OF c] by (auto simp: find_Some_iff)
      then show "\<exists>v. FindChain s p i = Some [v] \<and> stale_claim t fs v" using c(1) by auto
    qed auto
    then show ?thesis by simp
  qed
  also have "\<dots> = stale_ids (registry_of s) p t fs"
    by (auto simp: stale_ids_def registry_claimed [OF assms(1)] stale_claim_def)
  finally show "fst ` set vs = stale_ids (registry_of s) p t fs" .
  have "n = 1 \<and> (\<exists>t c. registry_of s (p, i) = Some (Claimed t c))" if victim: "(i, n) \<in> set vs" for i n
  proof -
    obtain c v where "(i, c) \<in> set b" "find (stale_claim t fs) c = Some v" "n = fm_version (v_record v)"
      using victim by (auto simp: vs_def victim_of_def eq_commute [of "Some _"] split: option.splits)
    then show ?thesis using row [of i c v] by (auto simp: at registry_claimed [OF assms(1)])
  qed
  then show "\<forall>(i, n) \<in> set vs. n = 1 \<and> (\<exists>t c. registry_of s (p, i) = Some (Claimed t c))" by blast
qed

lemma reclaim_refines:
  assumes "md_inv s" "MdReclaimStaleClaiming s p t lim fs = (s', res)"
  shows "reg_step (registry_of s) (OpMdReclaim p t lim fs) (OutCount res) (registry_of s')"
proof (cases "p = []")
  case True
  then show ?thesis using assms(2) by (auto simp: MdReclaimStaleClaiming_def intro: reclaim_invalid)
next
  case part: False
  show ?thesis
  proof (cases "map_of (md_by_id s) p")
    case None
    then have "stale_ids (registry_of s) p t fs = {}" by (simp add: stale_ids_def registry_at FindChain_def)
    moreover have "s' = s" "res = Ok 0"
      using assms(2) part None by (auto simp: MdReclaimStaleClaiming_def split: if_splits)
    ultimately show ?thesis using reclaimed [OF part, of "{}" "registry_of s" t fs lim] by simp
  next
    case (Some b)
    define ws where "ws = concat (map (victim_of t fs) b)"
    define vs where "vs = take (nat lim) ws"
    note ex = victims_exact [OF assms(1) Some ws_def]
    have sub: "set vs \<subseteq> set ws" by (auto simp: vs_def dest: in_set_takeD)
    have dist: "distinct (map fst vs)" using ex(1) by (simp add: vs_def take_map [symmetric])
    have "\<forall>(i, n) \<in> set vs. n = 1 \<and> (\<exists>t c. registry_of s (p, i) = Some (Claimed t c))" using ex(3) sub by blast
    from reclaim_victims_exact [OF assms(1) part dist this, of 0] obtain s1 where
      s1: "reclaim_victims p vs (s, 0) = (s1, int (length vs))"
        "\<And>q j. FindChain s1 q j = (if q = p \<and> j \<in> fst ` set vs then None else FindChain s q j)" by auto
    have card: "card (fst ` set vs) = length vs" "card (stale_ids (registry_of s) p t fs) = length ws"
      using distinct_card [OF dist] distinct_card [OF ex(1)] ex(2) by simp_all
    have fin: "finite (stale_ids (registry_of s) p t fs)" using ex(2) by (metis List.finite_set finite_imageI)
    have "s' = s1 \<and> res = Ok (int (length vs))"
    proof (cases "lim \<le> 0 \<or> fs = []")
      case True
      then have "ws = [] \<or> nat lim = 0" using ex(2) by (auto simp: stale_ids_def)
      then have "vs = []" by (auto simp: vs_def)
      then show ?thesis using assms(2) part True s1(1) by (auto simp: MdReclaimStaleClaiming_def split: if_splits)
    next
      case False
      then show ?thesis using assms(2) part Some s1(1)
        by (auto simp: MdReclaimStaleClaiming_def vs_def ws_def Let_def)
    qed
    moreover have "registry_of s1 = (\<lambda>(q, i). if q = p \<and> i \<in> fst ` set vs then None else registry_of s (q, i))"
      using s1(2) by (auto simp: registry_of_def fun_eq_iff)
    moreover have "reg_step (registry_of s) (OpMdReclaim p t lim fs) (OutCount (Ok (int (card (fst ` set vs)))))
        (\<lambda>(q, i). if q = p \<and> i \<in> fst ` set vs then None else registry_of s (q, i))"
      by (rule reclaimed [OF part _ fin]) (use ex(2) sub card in \<open>auto simp: vs_def\<close>)
    ultimately show ?thesis using card(1) by simp
  qed
qed

interpretation md_registry: simulation md_run md_inv registry_of reg_step
proof
  fix s a s' and out :: MdOutcome
  assume s: "md_inv s" and run: "md_run a s = (s', out)"
  have "md_inv s' \<and> reg_step (registry_of s) a out (registry_of s')"
  proof (cases a)
    case (OpMdClaim now p r)
    then show ?thesis using run md_inv_claim [OF s] claim_refines [OF s] by (cases "MdClaimForWrite now s p r") auto
  next
    case (OpMdMarkReady p i n r)
    then show ?thesis using run md_inv_mark_ready [OF s] mark_ready_refines [OF s] by (cases "MdMarkReady s p i n r") auto
  next
    case (OpMdRelease p i n)
    then show ?thesis using run md_inv_release [OF s] release_refines [OF s] by (cases "MdReleaseClaim s p i n") auto
  next
    case (OpMdReclaim p t lim fs)
    then show ?thesis using run reclaim_cases [OF s] reclaim_refines [OF s]
      by (cases "MdReclaimStaleClaiming s p t lim fs") auto
  next
    case (OpMdUpdate now p r)
    then show ?thesis using run md_inv_update [OF s] update_refines [OF s] by (cases "MdUpdate now s p r") auto
  next
    case (OpMdDelete p i)
    then show ?thesis using run md_inv_delete [OF s] delete_refines [OF s] by (cases "MdDelete s p i") auto
  qed
  then show "md_inv s'" "reg_step (registry_of s) a out (registry_of s')" by simp_all
qed

section \<open>Reads\<close>

definition visible :: "registry \<Rightarrow> string \<Rightarrow> string \<Rightarrow> FileMetadataRecord option" where
  "visible g p i = (case g (p, i) of Some (Registered h) \<Rightarrow> Some (snd (last h)) | _ \<Rightarrow> None)"

lemma GetById_visible:
  assumes "md_inv s"
  shows "MdGetById s p i = (case visible (registry_of s) p i of None \<Rightarrow> record_not_found | Some r \<Rightarrow> Ok r)"
proof (cases "FindChain s p i")
  case (Some c)
  from md_invD(2) [OF assms Some] obtain f where ok: "chain_ok i f c" by (elim exE conjE)
  show ?thesis using chain_last_state [OF ok] chain_ok_last(1) [OF ok]
    by (auto simp: MdGetById_def ready_record_def Some visible_def registry_at entry_of_def last_map)
qed (simp add: MdGetById_def ready_record_def visible_def registry_at)

lemma VersionCount_history:
  assumes "md_inv s" "registry_of s (p, i) = Some (Registered h)"
  shows "MdVersionCount s p i = length h"
  using assms by (auto simp: MdVersionCount_def registry_registered)

text \<open>
  C19. The metadata repository implements the registry: whatever sequence of calls is made on an empty
  repository, each answer and each change of state is one the registry allows. Of the reads it is said what they find afterwards for three: by
  id a record is found exactly when the registry has it as registered, with its newest version; by file source
  a record is found exactly when it is the visible one of some id and has that source; the number of versions of a registered
  entry is the length of its history. Listing and version enumeration are not covered here.
\<close>

theorem registry_refinement:
  "let (s, outs) = run md_run calls md_empty; g = registry_of s in
   steps reg_step Map.empty calls outs g \<and>
   MdGetById s p i = (case visible g p i of None \<Rightarrow> record_not_found | Some r \<Rightarrow> Ok r) \<and>
   (MdGetLatestByFileSource s p f = Ok r \<longleftrightarrow> visible g p (fm_id r) = Some r \<and> FileSourceOf r = f) \<and>
   (case g (p, i) of Some (Registered h) \<Rightarrow> MdVersionCount s p i = length h | _ \<Rightarrow> True)"
proof -
  obtain s outs where run: "run md_run calls md_empty = (s, outs)" by (cases "run md_run calls md_empty")
  have empty: "registry_of md_empty = Map.empty" by (simp add: registry_of_def md_empty_def FindChain_def fun_eq_iff)
  have inv: "md_inv s" and st: "steps reg_step Map.empty calls outs (registry_of s)"
    using md_registry.run_refines [OF md_inv_empty, of calls] by (simp_all add: run empty)
  show ?thesis
    using st GetById_visible [OF inv] source_reads_agree [OF inv] VersionCount_history [OF inv]
    by (simp add: run record_not_found_def split: option.splits entry.splits)
qed

end
