(* ===== verification/Config_Loader.thy ===== *)
theory Config_Loader
  imports Json "HOL-Library.Sublist"
begin

text \<open>
  \<^verbatim>\<open>common/config/config\<close>: layered configuration. A value comes from the command line, else from the environment, else from the
  file, else it is the default of its field; every layer is validated against a schema and all problems are collected before
  the result is returned. The content of the file, the parser of JSON with comments, the process environment
  and the printing of floating-point numbers are arguments.
\<close>

section \<open>Schema\<close>

datatype ValueType = kString | kInt | kBool | kStringList

record FieldSpec =
  fs_path :: string
  fs_type :: ValueType
  fs_required :: bool
  fs_has_default :: bool
  fs_default_value :: string
  fs_min_value :: int
  fs_max_value :: int
  fs_secret :: bool
  fs_enum_values :: "string list"

text \<open>The description of a field is documentation and left out.\<close>

definition NewField :: "string \<Rightarrow> FieldSpec" where
  "NewField path = \<lparr>fs_path = path, fs_type = kString, fs_required = False, fs_has_default = False, fs_default_value = [],
     fs_min_value = 0, fs_max_value = - 1, fs_secret = False, fs_enum_values = []\<rparr>"

definition FieldStr :: "FieldSpec \<Rightarrow> FieldSpec" where
  "FieldStr f = f\<lparr>fs_type := kString\<rparr>"

definition FieldInt :: "int \<Rightarrow> int \<Rightarrow> FieldSpec \<Rightarrow> FieldSpec" where
  "FieldInt lo hi f = f\<lparr>fs_type := kInt, fs_min_value := lo, fs_max_value := hi\<rparr>"

definition FieldBool :: "FieldSpec \<Rightarrow> FieldSpec" where
  "FieldBool f = f\<lparr>fs_type := kBool\<rparr>"

definition FieldList :: "FieldSpec \<Rightarrow> FieldSpec" where
  "FieldList f = f\<lparr>fs_type := kStringList\<rparr>"

definition FieldRequired :: "FieldSpec \<Rightarrow> FieldSpec" where
  "FieldRequired f = f\<lparr>fs_required := True\<rparr>"

definition FieldDefault :: "string \<Rightarrow> FieldSpec \<Rightarrow> FieldSpec" where
  "FieldDefault v f = f\<lparr>fs_has_default := True, fs_default_value := v\<rparr>"

definition FieldSecret :: "FieldSpec \<Rightarrow> FieldSpec" where
  "FieldSecret f = f\<lparr>fs_secret := True\<rparr>"

definition FieldEnum :: "string list \<Rightarrow> FieldSpec \<Rightarrow> FieldSpec" where
  "FieldEnum vs f = f\<lparr>fs_enum_values := vs\<rparr>"

type_synonym CrossCheck = "json \<Rightarrow> (string \<times> string) list"

record Schema =
  sc_fields :: "FieldSpec list"
  sc_index :: "(string \<times> nat) list"
  sc_dynamic_prefixes :: "string list"
  sc_cross_checks :: "(string \<times> CrossCheck) list"

definition NewSchema :: Schema where
  "NewSchema = \<lparr>sc_fields = [], sc_index = [], sc_dynamic_prefixes = [], sc_cross_checks = []\<rparr>"

definition SchemaAdd :: "FieldSpec \<Rightarrow> Schema \<Rightarrow> Schema" where
  "SchemaAdd spec s = s\<lparr>sc_index := map_put (fs_path spec) (length (sc_fields s)) (sc_index s), sc_fields := sc_fields s @ [spec]\<rparr>"

definition AllowDynamicPrefix :: "string \<Rightarrow> Schema \<Rightarrow> Schema" where
  "AllowDynamicPrefix pre s = s\<lparr>sc_dynamic_prefixes := sc_dynamic_prefixes s @ [pre]\<rparr>"

definition AddCrossCheck :: "CrossCheck \<Rightarrow> string \<Rightarrow> Schema \<Rightarrow> Schema" where
  "AddCrossCheck check name s = s\<lparr>sc_cross_checks := sc_cross_checks s @ [(name, check)]\<rparr>"

definition SchemaFind :: "Schema \<Rightarrow> string \<Rightarrow> FieldSpec option" where
  "SchemaFind s path = map_option (\<lambda>i. sc_fields s ! i) (map_of (sc_index s) path)"

definition under_prefix :: "string \<Rightarrow> string \<Rightarrow> bool" where
  "under_prefix path p \<longleftrightarrow> length path \<ge> length p \<and> take (length p) path = p \<and>
     (length path = length p \<or> path ! length p = CHR ''.'')"

definition IsAllowedPath :: "Schema \<Rightarrow> string \<Rightarrow> bool" where
  "IsAllowedPath s path \<longleftrightarrow> SchemaFind s path \<noteq> None \<or> list_ex (under_prefix path) (sc_dynamic_prefixes s)"

section \<open>Values at dotted paths\<close>

definition segments :: "string \<Rightarrow> string list" where
  "segments path = split_on (CHR ''.'') path"

text \<open>Writing replaces what is no object on the way.\<close>

fun set_path :: "string list \<Rightarrow> json \<Rightarrow> json \<Rightarrow> json" where
  "set_path [] v cur = v"
| "set_path (seg # segs) v cur =
     (let m = (case cur of JObject m \<Rightarrow> m | _ \<Rightarrow> []) in
      JObject (jset seg (set_path segs v (case map_of m seg of None \<Rightarrow> jobject | Some x \<Rightarrow> x)) m))"

definition SetAt :: "json \<Rightarrow> string \<Rightarrow> json \<Rightarrow> json" where
  "SetAt root path v = set_path (segments path) v root"

fun get_path :: "json \<Rightarrow> string list \<Rightarrow> json option" where
  "get_path cur [] = Some cur"
| "get_path cur (seg # segs) = (case jfind cur seg of None \<Rightarrow> None | Some v \<Rightarrow> get_path v segs)"

definition GetAt :: "json \<Rightarrow> string \<Rightarrow> json option" where
  "GetAt root path = get_path root (segments path)"

text \<open>The paths of all leaves; an empty object below the root is a leaf.\<close>

fun CollectPaths :: "json \<Rightarrow> string \<Rightarrow> string list" where
  "CollectPaths (JObject m) pre =
     (if m = [] \<and> pre \<noteq> [] then [pre]
      else concat (map (\<lambda>(k, v). CollectPaths v (if pre = [] then k else pre @ ''.'' @ k)) m))"
| "CollectPaths v pre = (if pre \<noteq> [] then [pre] else [])"

section \<open>Scalars\<close>

record LoadEnv =
  le_read_file :: "string \<Rightarrow> string option"
  le_parse :: "string \<Rightarrow> json Result"
  le_env :: "string \<Rightarrow> string option"
  le_show_double :: "64 word \<Rightarrow> string"

definition EnvNameFor :: "string \<Rightarrow> string \<Rightarrow> string" where
  "EnvNameFor path pre = pre @ map (\<lambda>c. if c = CHR ''.'' \<or> c = CHR ''-'' then CHR ''_'' else toupper c) path"

definition RenderScalar :: "LoadEnv \<Rightarrow> json \<Rightarrow> string" where
  "RenderScalar env v =
     (case v of
        JString s \<Rightarrow> s
      | JBool b \<Rightarrow> if b then ''true'' else ''false''
      | JInt i \<Rightarrow> to_string i
      | JUInt n \<Rightarrow> to_string (wrap_i64 (int n))
      | JFloat w \<Rightarrow> le_show_double env w
      | _ \<Rightarrow> [])"

definition ParseBool :: "string \<Rightarrow> bool option" where
  "ParseBool s =
     (let v = map tolower s in
      if v = ''true'' \<or> v = ''1'' \<or> v = ''yes'' \<or> v = ''on'' then Some True
      else if v = ''false'' \<or> v = ''0'' \<or> v = ''no'' \<or> v = ''off'' then Some False
      else None)"

text \<open>\<^verbatim>\<open>strtol\<close> in base ten: leading blanks, a sign, digits; the value is clamped to 64 bits. \<^const>\<open>None\<close> when the text
  has no number at its start or does not end after it, where a C string ends at its first zero byte.\<close>

definition c_string :: "string \<Rightarrow> string" where
  "c_string s = takeWhile (\<lambda>c. of_char c \<noteq> (0 :: nat)) s"

definition ParseLong :: "string \<Rightarrow> int option" where
  "ParseLong text =
     (let t = dropWhile isspace (c_string text);
          neg = (t \<noteq> [] \<and> hd t = CHR ''-'');
          ds = (if t \<noteq> [] \<and> (hd t = CHR ''-'' \<or> hd t = CHR ''+'') then tl t else t);
          n = (if neg then - int (decimal ds) else int (decimal ds)) in
      if ds = [] \<or> \<not> list_all isdigit ds then None
      else Some (max (- i64_max - 1) (min i64_max n)))"

text \<open>References \<^verbatim>\<open>${ENV:NAME}\<close>: replaced from the environment; an unknown name is left in place and reported, the last one
  when there are several; an unclosed reference ends the search.\<close>

lemma length_after_first: "length (after_first sep s) \<le> length s"
  using length_dropWhile_le [of "\<lambda>c. c \<noteq> sep" s] by (simp add: after_first_def)

function expand_refs :: "(string \<Rightarrow> string option) \<Rightarrow> string \<Rightarrow> string \<times> string option" where
  "expand_refs env [] = ([], None)"
| "expand_refs env (c # s) =
     (if starts_with ''${ENV:'' (c # s) then
        let body = drop 5 s in
        if CHR ''}'' \<notin> set body then (c # s, None)
        else
          let var = before_first (CHR ''}'') body in
          (case expand_refs env (after_first (CHR ''}'') body) of
             (rest, missing) \<Rightarrow>
               (case env var of
                  None \<Rightarrow> (''${ENV:'' @ var @ ''}'' @ rest, Some (case missing of None \<Rightarrow> var | Some later \<Rightarrow> later))
                | Some v \<Rightarrow> (v @ rest, missing)))
      else (case expand_refs env s of (rest, missing) \<Rightarrow> (c # rest, missing)))"
  by pat_completeness auto
termination
  by (relation "measure (\<lambda>(env, s). length s)")
     (auto simp: less_Suc_eq_le intro: order_trans [OF length_after_first])

definition ExpandEnvRefs :: "LoadEnv \<Rightarrow> string \<Rightarrow> string \<times> string option" where
  "ExpandEnvRefs env s = expand_refs (le_env env) s"

definition split_items :: "string \<Rightarrow> string list" where
  "split_items s = filter (\<lambda>i. i \<noteq> []) (split_on (CHR '','') s)"

section \<open>Loading\<close>

record Problem =
  pb_path :: string
  pb_message :: string
  pb_source :: string

definition ProblemToString :: "Problem \<Rightarrow> string" where
  "ProblemToString p = ''['' @ pb_source p @ ''] '' @ pb_path p @ '': '' @ pb_message p"

record LoadRequest =
  lq_schema :: Schema
  lq_file_path :: string
  lq_env_enabled :: bool
  lq_env_prefix :: string
  lq_cli_overrides :: "(string \<times> string) list"

record Config =
  cf_effective :: json
  cf_sources :: "(string \<times> string) list"
  cf_problems :: "Problem list"

definition add_problem :: "string \<Rightarrow> string \<Rightarrow> string \<Rightarrow> Config \<Rightarrow> Config" where
  "add_problem path message source cfg =
     cfg\<lparr>cf_problems := cf_problems cfg @ [\<lparr>pb_path = path, pb_message = message, pb_source = source\<rparr>]\<rparr>"

definition set_source :: "string \<Rightarrow> string \<Rightarrow> Config \<Rightarrow> Config" where
  "set_source path source cfg = cfg\<lparr>cf_sources := map_put path source (cf_sources cfg)\<rparr>"

definition source_or_file :: "Config \<Rightarrow> string \<Rightarrow> string" where
  "source_or_file cfg path = (case map_of (cf_sources cfg) path of None \<Rightarrow> ''file'' | Some src \<Rightarrow> src)"

text \<open>First layer: the file.\<close>

definition load_file :: "LoadEnv \<Rightarrow> string \<Rightarrow> Config \<Rightarrow> json \<times> Config" where
  "load_file env path cfg =
     (if path = [] then (jobject, cfg)
      else case le_read_file env path of
             None \<Rightarrow> (jobject, add_problem ''<file>'' (msg_cfg_open @ path) ''file'' cfg)
           | Some text \<Rightarrow>
               (case le_parse env text of
                  Inl e \<Rightarrow> (jobject, add_problem ''<file>'' (msg_cfg_parse @ ErrorToString e) ''file'' cfg)
                | Inr v \<Rightarrow>
                    if \<not> is_object v
                    then (jobject, add_problem ''<file>'' msg_cfg_top ''file'' cfg)
                    else (v, cfg)))"

definition check_unknown :: "Schema \<Rightarrow> string \<Rightarrow> Config \<Rightarrow> Config" where
  "check_unknown schema p cfg =
     (if \<not> IsAllowedPath schema p
      then add_problem p msg_cfg_unknown ''schema'' cfg
      else cfg)"

text \<open>Second layer: the environment.\<close>

definition env_override :: "LoadEnv \<Rightarrow> string \<Rightarrow> FieldSpec \<Rightarrow> json \<times> Config \<Rightarrow> json \<times> Config" where
  "env_override env pre f = (\<lambda>(merged, cfg).
     case le_env env (EnvNameFor (fs_path f) pre) of
       None \<Rightarrow> (merged, cfg)
     | Some v \<Rightarrow> (SetAt merged (fs_path f) (JString v), set_source (fs_path f) ''env'' cfg))"

text \<open>Third layer: the command line.\<close>

definition cli_override :: "Schema \<Rightarrow> string \<times> string \<Rightarrow> json \<times> Config \<Rightarrow> json \<times> Config" where
  "cli_override schema = (\<lambda>(path, v) (merged, cfg).
     if \<not> IsAllowedPath schema path
     then (merged, add_problem path msg_cfg_cli_unknown ''cli'' cfg)
     else (SetAt merged path (JString v), set_source path ''cli'' cfg))"

text \<open>What is read of a field before it is typed: nothing, a problem, a text or a list.\<close>

datatype Input = InSkip | InProblem string string | InText string | InList "string list"

definition read_input :: "LoadEnv \<Rightarrow> FieldSpec \<Rightarrow> json option \<Rightarrow> string \<Rightarrow> Input" where
  "read_input env f raw src =
     (case raw of
        None \<Rightarrow>
          if fs_has_default f
          then (if fs_type f = kStringList then InList (split_items (fs_default_value f)) else InText (fs_default_value f))
          else if fs_required f then InProblem msg_cfg_missing ''file''
          else InSkip
      | Some v \<Rightarrow>
          if fs_type f = kStringList
          then (case v of
                  JArray es \<Rightarrow> InList (map (RenderScalar env) es)
                | JString s \<Rightarrow> InList (split_items s)
                | _ \<Rightarrow> InProblem msg_cfg_want_list src)
          else if is_object v then InProblem msg_cfg_want_scalar src
          else InText (RenderScalar env v))"

definition typed_value :: "FieldSpec \<Rightarrow> string \<Rightarrow> string list \<Rightarrow> string + json" where
  "typed_value f txt items =
     (case fs_type f of
        kString \<Rightarrow> Inr (JString txt)
      | kInt \<Rightarrow>
          (case ParseLong txt of
             None \<Rightarrow> Inl (msg_cfg_want_int @ txt @ [CHR 0x27])
           | Some n \<Rightarrow>
               if fs_max_value f \<ge> fs_min_value f \<and> (n < fs_min_value f \<or> n > fs_max_value f)
               then Inl (msg_cfg_range @ to_string (fs_min_value f) @ '', '' @ to_string (fs_max_value f) @
                         msg_cfg_range_actual @ txt)
               else Inr (JInt n))
      | kBool \<Rightarrow>
          (case ParseBool txt of
             None \<Rightarrow> Inl (msg_cfg_want_bool @ txt @ [CHR 0x27])
           | Some b \<Rightarrow> Inr (JBool b))
      | kStringList \<Rightarrow> Inr (jstrings items))"

fun join_str :: "string \<Rightarrow> string list \<Rightarrow> string" where
  "join_str sep [] = []"
| "join_str sep [w] = w"
| "join_str sep (w # ws) = w @ sep @ join_str sep ws"

definition enum_check :: "LoadEnv \<Rightarrow> FieldSpec \<Rightarrow> json \<Rightarrow> string + json" where
  "enum_check env f v =
     (let as_str = RenderScalar env v in
      if fs_enum_values f \<noteq> [] \<and> as_str \<notin> set (fs_enum_values f)
      then Inl (msg_cfg_enum @ as_str @ msg_cfg_enum_allowed @ join_str '' | '' (fs_enum_values f))
      else Inr v)"

text \<open>The problems of a field and its value, from what the layers hold at its path.\<close>

definition finish_field :: "LoadEnv \<Rightarrow> FieldSpec \<Rightarrow> string \<Rightarrow> string \<Rightarrow> string list \<Rightarrow> (string \<times> string) list \<times> json option" where
  "finish_field env f src txt items =
     (case (case typed_value f txt items of Inl m \<Rightarrow> Inl m | Inr v \<Rightarrow> enum_check env f v) of
        Inl m \<Rightarrow> ([(m, src)], None)
      | Inr v \<Rightarrow> ([], Some v))"

definition field_outcome :: "LoadEnv \<Rightarrow> FieldSpec \<Rightarrow> json option \<Rightarrow> string \<Rightarrow> (string \<times> string) list \<times> json option" where
  "field_outcome env f raw src =
     (case read_input env f raw src of
        InSkip \<Rightarrow> ([], None)
      | InProblem m s \<Rightarrow> ([(m, s)], None)
      | InList items \<Rightarrow> finish_field env f src [] items
      | InText txt \<Rightarrow>
          if fs_type f = kString then
            (case ExpandEnvRefs env txt of
               (txt, None) \<Rightarrow> finish_field env f src txt []
             | (txt, Some missing) \<Rightarrow>
                 if fs_has_default f
                 then map_prod (Cons (msg_cfg_env @ missing @ msg_cfg_env_default, ''file'')) id
                        (finish_field env f src (fs_default_value f) [])
                 else ([(msg_cfg_ref @ missing @ msg_cfg_ref_unset, ''file'')], None))
          else finish_field env f src txt [])"

definition load_field :: "LoadEnv \<Rightarrow> json \<Rightarrow> FieldSpec \<Rightarrow> Config \<Rightarrow> Config" where
  "load_field env merged f cfg =
     (let path = fs_path f;
          raw = GetAt merged path;
          cfg = (if raw = None \<and> fs_has_default f then set_source path ''default'' cfg else cfg);
          src = source_or_file cfg path;
          r = field_outcome env f raw src;
          cfg = fold (\<lambda>(m, s). add_problem path m s) (fst r) cfg in
      case snd r of
        None \<Rightarrow> cfg
      | Some v \<Rightarrow> set_source path src (cfg\<lparr>cf_effective := SetAt (cf_effective cfg) path v\<rparr>))"

definition copy_dynamic :: "json \<Rightarrow> string \<Rightarrow> Config \<Rightarrow> Config" where
  "copy_dynamic merged pre cfg =
     (case GetAt merged pre of
        Some (JObject m) \<Rightarrow> cfg\<lparr>cf_effective := SetAt (cf_effective cfg) pre (JObject m)\<rparr>
      | _ \<Rightarrow> cfg)"

definition cross_check :: "string \<times> CrossCheck \<Rightarrow> Config \<Rightarrow> Config" where
  "cross_check = (\<lambda>(name, check) cfg.
     fold (\<lambda>(path, m). add_problem path ((if name = [] then [] else ''['' @ name @ ''] '') @ m) ''cross'')
       (check (cf_effective cfg)) cfg)"

record LoadResult =
  lr_ok :: bool
  lr_config :: Config

definition Load :: "LoadEnv \<Rightarrow> LoadRequest \<Rightarrow> LoadResult" where
  "Load env req =
     (let schema = lq_schema req;
          (from_file, cfg) = load_file env (lq_file_path req) \<lparr>cf_effective = jobject, cf_sources = [], cf_problems = []\<rparr>;
          cfg = fold (check_unknown schema) (CollectPaths from_file []) cfg;
          (merged, cfg) = (if lq_env_enabled req
                           then fold (env_override env (lq_env_prefix req)) (sc_fields schema) (from_file, cfg)
                           else (from_file, cfg));
          (merged, cfg) = fold (cli_override schema) (lq_cli_overrides req) (merged, cfg);
          cfg = fold (load_field env merged) (sc_fields schema) cfg;
          cfg = fold (copy_dynamic merged) (sc_dynamic_prefixes schema) cfg;
          cfg = fold cross_check (sc_cross_checks schema) cfg in
      \<lparr>lr_ok = (cf_problems cfg = []), lr_config = cfg\<rparr>)"

section \<open>Access\<close>

definition ConfigHas :: "Config \<Rightarrow> string \<Rightarrow> bool" where
  "ConfigHas cfg path \<longleftrightarrow> GetAt (cf_effective cfg) path \<noteq> None"

definition no_config :: "string \<Rightarrow> 'a Result" where
  "no_config path = Err kNotFound (msg_cfg_absent @ path)"

definition ConfigGetString :: "Config \<Rightarrow> string \<Rightarrow> string Result" where
  "ConfigGetString cfg path =
     (case GetAt (cf_effective cfg) path of
        None \<Rightarrow> no_config path
      | Some (JString s) \<Rightarrow> Ok s
      | Some _ \<Rightarrow> Err kInvalidArgument (msg_cfg_not_string @ path))"

definition ConfigGetInt :: "Config \<Rightarrow> string \<Rightarrow> int Result" where
  "ConfigGetInt cfg path =
     (case GetAt (cf_effective cfg) path of
        None \<Rightarrow> no_config path
      | Some v \<Rightarrow> if is_number_integer v then Ok (get_int64 v)
                  else Err kInvalidArgument (msg_cfg_not_int @ path))"

definition ConfigGetBool :: "Config \<Rightarrow> string \<Rightarrow> bool Result" where
  "ConfigGetBool cfg path =
     (case GetAt (cf_effective cfg) path of
        None \<Rightarrow> no_config path
      | Some (JBool b) \<Rightarrow> Ok b
      | Some _ \<Rightarrow> Err kInvalidArgument (msg_cfg_not_bool @ path))"

definition ConfigGetStringList :: "LoadEnv \<Rightarrow> Config \<Rightarrow> string \<Rightarrow> string list Result" where
  "ConfigGetStringList env cfg path =
     (case GetAt (cf_effective cfg) path of
        None \<Rightarrow> no_config path
      | Some (JArray es) \<Rightarrow> Ok (map (RenderScalar env) es)
      | Some _ \<Rightarrow> Err kInvalidArgument (msg_cfg_not_array @ path))"

definition SourceOf :: "Config \<Rightarrow> string \<Rightarrow> string" where
  "SourceOf cfg path = (case map_of (cf_sources cfg) path of None \<Rightarrow> ''unknown'' | Some s \<Rightarrow> s)"

definition ProblemsToString :: "Config \<Rightarrow> string" where
  "ProblemsToString cfg =
     msg_cfg_failed @ nat_to_string (length (cf_problems cfg)) @ msg_cfg_failed_count @ [CHR 0x0A] @
     concat (map (\<lambda>(i, p). ''  '' @ nat_to_string (Suc i) @ '') '' @ ProblemToString p @ [CHR 0x0A])
       (enumerate 0 (cf_problems cfg)))"

text \<open>The value that is printed: secrets that are present are masked.\<close>

definition redact_field :: "FieldSpec \<Rightarrow> json \<Rightarrow> json" where
  "redact_field f v =
     (if fs_secret f \<and> GetAt v (fs_path f) \<noteq> None then SetAt v (fs_path f) (JString ''***'') else v)"

definition RedactedDump :: "(json \<Rightarrow> string) \<Rightarrow> Schema \<Rightarrow> Config \<Rightarrow> string" where
  "RedactedDump DumpPretty schema cfg = DumpPretty (fold redact_field (sc_fields schema) (cf_effective cfg))"

section \<open>Reads after writes\<close>

definition aside :: "string \<Rightarrow> string \<Rightarrow> bool" where
  "aside p q \<longleftrightarrow> parallel (segments p) (segments q)"

lemma aside_sym: "aside p q \<longleftrightarrow> aside q p"
  by (auto simp: aside_def)

lemma aside_irrefl [simp]: "\<not> aside p p"
  by (auto simp: aside_def)

lemma segments_not_Nil [simp]: "segments p \<noteq> []"
  by (simp add: segments_def)

lemma get_set_same: "get_path (set_path p v r) p = Some v"
  by (induction p arbitrary: r) (simp_all add: Let_def jset_def)

lemma get_set_parallel: "parallel p q \<Longrightarrow> get_path (set_path p v r) q = get_path r q"
proof (induction p arbitrary: q r)
  case (Cons a p)
  then obtain b q' where q: "q = b # q'" by (cases q) auto
  define m where "m = (case r of JObject m \<Rightarrow> m | _ \<Rightarrow> [])"
  have r: "jfind r k = map_of m k" for k by (cases r) (simp_all add: m_def jfind_def)
  show ?case
  proof (cases "a = b")
    case True
    then have par: "parallel p q'" using Cons.prems q by (auto simp: parallel_def)
    then have "q' \<noteq> []" by auto
    then show ?thesis
      using Cons.IH [OF par] by (cases q') (auto simp: q True Let_def jset_def m_def [symmetric] r jobject_def split: option.splits)
  qed (simp add: q Let_def jset_def m_def [symmetric] r)
qed auto

lemma GetAt_SetAt [simp]: "GetAt (SetAt r p v) p = Some v"
  by (simp add: GetAt_def SetAt_def get_set_same)

lemma GetAt_SetAt_aside: "aside p q \<Longrightarrow> GetAt (SetAt r p v) q = GetAt r q"
  by (simp add: GetAt_def SetAt_def aside_def get_set_parallel)

lemma split_on_dot: "split_on sep (d @ sep # t) = split_on sep d @ split_on sep t"
  by (induction d) (auto split: list.splits)

lemma under_prefix_segments:
  assumes "under_prefix q d"
  shows "prefix (segments d) (segments q)"
proof -
  have "q = d \<or> (\<exists>t. q = d @ CHR ''.'' # t)"
  proof (cases "length q = length d")
    case True
    then show ?thesis using assms by (simp add: under_prefix_def)
  next
    case False
    then have len: "length d < length q" and take: "take (length d) q = d" and dot: "q ! length d = CHR ''.''"
      using assms by (auto simp: under_prefix_def)
    then have "q = d @ q ! length d # drop (Suc (length d)) q" by (metis id_take_nth_drop)
    then show ?thesis using dot by auto
  qed
  then show ?thesis by (auto simp: segments_def split_on_dot)
qed

lemma aside_under: "aside p d \<Longrightarrow> under_prefix q d \<Longrightarrow> aside p q"
  using under_prefix_segments [of q d] by (auto simp: aside_def parallel_def dest: prefix_order.trans prefix_same_cases)

section \<open>What the layers leave at a path\<close>

lemma env_override_fold:
  assumes "sorted_wrt aside (map fs_path fs)"
  shows "(\<forall>p. (\<forall>f \<in> set fs. aside (fs_path f) p) \<longrightarrow> GetAt (fst (fold (env_override env pre) fs (m, cfg))) p = GetAt m p) \<and>
    (\<forall>f \<in> set fs. GetAt (fst (fold (env_override env pre) fs (m, cfg))) (fs_path f) =
      (case le_env env (EnvNameFor (fs_path f) pre) of None \<Rightarrow> GetAt m (fs_path f) | Some v \<Rightarrow> Some (JString v))) \<and>
    cf_problems (snd (fold (env_override env pre) fs (m, cfg))) = cf_problems cfg \<and>
    cf_effective (snd (fold (env_override env pre) fs (m, cfg))) = cf_effective cfg"
  using assms
proof (induction fs arbitrary: m cfg)
  case (Cons f fs)
  obtain m1 cfg1 where step: "env_override env pre f (m, cfg) = (m1, cfg1)" by (cases "env_override env pre f (m, cfg)")
  have m1: "aside (fs_path f) p \<Longrightarrow> GetAt m1 p = GetAt m p" for p
    using step by (auto simp: env_override_def GetAt_SetAt_aside split: option.splits)
  have f1: "GetAt m1 (fs_path f) = (case le_env env (EnvNameFor (fs_path f) pre) of None \<Rightarrow> GetAt m (fs_path f) | Some v \<Rightarrow> Some (JString v))"
    using step by (auto simp: env_override_def split: option.splits)
  have c1: "cf_problems cfg1 = cf_problems cfg" "cf_effective cfg1 = cf_effective cfg"
    using step by (auto simp: env_override_def set_source_def split: option.splits)
  have s: "sorted_wrt aside (map fs_path fs)" "\<forall>g \<in> set fs. aside (fs_path f) (fs_path g)" using Cons.prems by auto
  then have "\<forall>g \<in> set fs. aside (fs_path g) (fs_path f)" using aside_sym by blast
  with Cons.IH [OF s(1), of m1 cfg1] s(2) m1 f1 c1 show ?case by (simp add: step cong: option.case_cong)
qed simp

text \<open>The last override of a path on the command line.\<close>

definition cli_value :: "LoadRequest \<Rightarrow> string \<Rightarrow> json option" where
  "cli_value req p = map_option JString (map_of (rev (lq_cli_overrides req)) p)"

lemma cli_override_fold:
  assumes "\<forall>(q, v) \<in> set os. IsAllowedPath schema q \<longrightarrow> q = p \<or> aside q p" "IsAllowedPath schema p"
  shows "GetAt (fst (fold (cli_override schema) os (m, cfg))) p =
    (case map_of (rev os) p of None \<Rightarrow> GetAt m p | Some v \<Rightarrow> Some (JString v))"
  using assms(1)
proof (induction os arbitrary: m cfg)
  case (Cons o1 os)
  obtain q v where o1: "o1 = (q, v)" by (cases o1)
  obtain m1 cfg1 where step: "cli_override schema (q, v) (m, cfg) = (m1, cfg1)" by (cases "cli_override schema (q, v) (m, cfg)")
  have "GetAt m1 p = (if q = p then Some (JString v) else GetAt m p)"
    using step Cons.prems assms(2) by (auto simp: o1 cli_override_def GetAt_SetAt_aside split: if_splits)
  then show ?case
    using Cons.IH [of m1 cfg1] Cons.prems by (auto simp: o1 step map_add_def split: option.splits)
qed simp

lemma cli_override_problems:
  "cf_problems (snd (fold (cli_override schema) os (m, cfg))) = cf_problems cfg @
     map (\<lambda>(p, v). \<lparr>pb_path = p, pb_message = msg_cfg_cli_unknown, pb_source = ''cli''\<rparr>) (filter (\<lambda>(p, v). \<not> IsAllowedPath schema p) os) \<and>
   cf_effective (snd (fold (cli_override schema) os (m, cfg))) = cf_effective cfg"
proof (induction os arbitrary: m cfg)
  case (Cons o1 os)
  obtain q v where o1: "o1 = (q, v)" by (cases o1)
  then show ?case
    using Cons.IH by (auto simp: cli_override_def add_problem_def set_source_def)
qed simp

end
