(* ===== verification/Config_Schema.thy ===== *)
theory Config_Schema
  imports Config_Loader "HOL-Library.Multiset"
begin

text \<open>
  \<^verbatim>\<open>common/config/core_schema.cpp\<close>: the fields of the service's configuration, with their types, ranges, choices and defaults, the two
  subtrees with free keys, and the rules that span fields. The printing of floating-point numbers is an argument.
\<close>

section \<open>Fields\<close>

definition deployment_fields :: "FieldSpec list" where
  "deployment_fields = [
     FieldDefault ''development'' (FieldEnum [''development'', ''production''] (FieldStr (NewField ''deployment.environment''))),
     FieldDefault ''5'' (FieldInt 0 300 (NewField ''deployment.max_clock_skew_seconds'')),
     FieldDefault ''single'' (FieldEnum [''single'', ''multi''] (FieldStr (NewField ''deployment.mode''))),
     FieldDefault '''' (FieldStr (NewField ''deployment.instance_id'')),
     FieldDefault ''60'' (FieldInt 0 86400 (NewField ''deployment.clock_skew_tolerance_seconds'')),
     FieldDefault ''1'' (FieldInt 1 100000 (NewField ''deployment.expected_instances''))]"

definition http_fields :: "FieldSpec list" where
  "http_fields = [
     FieldDefault ''/api/file'' (FieldRequired (FieldStr (NewField ''server.http.base_path''))),
     FieldDefault ''0.0.0.0'' (FieldStr (NewField ''server.http.bind'')),
     FieldDefault ''8080'' (FieldInt 1 65535 (NewField ''server.http.port'')),
     FieldDefault ''16384'' (FieldInt 1024 1048576 (NewField ''server.http.max_header_bytes'')),
     FieldDefault ''8192'' (FieldInt 128 1048576 (NewField ''server.http.max_uri_bytes'')),
     FieldDefault ''10485760'' (FieldInt 1 1073741824 (NewField ''server.http.max_body_bytes'')),
     FieldDefault ''true'' (FieldBool (NewField ''server.http.tcp_nodelay'')),
     FieldDefault ''0'' (FieldInt 0 65536 (NewField ''server.http.worker_threads'')),
     FieldDefault ''0'' (FieldInt 0 65536 (NewField ''server.http.max_connections'')),
     FieldDefault ''0'' (FieldInt 0 65536 (NewField ''server.http.max_connections_per_partition'')),
     FieldDefault ''60'' (FieldInt 1 86400 (NewField ''server.http.idle_timeout_seconds'')),
     FieldDefault ''15'' (FieldInt 1 86400 (NewField ''server.http.json_request_timeout_seconds'')),
     FieldDefault ''120'' (FieldInt 1 86400 (NewField ''server.http.transfer_idle_timeout_seconds'')),
     FieldDefault ''0'' (FieldInt 0 1099511627776 (NewField ''server.http.transfer_max_body_bytes'')),
     FieldDefault ''262144'' (FieldInt 4096 67108864 (NewField ''server.http.transfer_buffer_bytes'')),
     FieldDefault ''268435456'' (FieldInt 1048576 0 (NewField ''server.http.transfer_memory_budget_bytes'')),
     FieldDefault ''false'' (FieldBool (NewField ''server.http.large_file_plane.enabled'')),
     FieldDefault ''0.0.0.0'' (FieldStr (NewField ''server.http.large_file_plane.bind'')),
     FieldDefault ''8081'' (FieldInt 1 65535 (NewField ''server.http.large_file_plane.port'')),
     FieldDefault ''true'' (FieldBool (NewField ''server.http.large_file_plane.use_sendfile'')),
     FieldDefault ''1073741824'' (FieldInt 65536 0 (NewField ''server.http.large_file_plane.sendfile_chunk_bytes'')),
     FieldDefault ''0'' (FieldInt 0 65536 (NewField ''server.http.large_file_plane.workers'')),
     FieldDefault ''0'' (FieldInt 0 65536 (NewField ''server.http.large_file_plane.max_connections''))]"

definition grpc_fields :: "FieldSpec list" where
  "grpc_fields = [
     FieldDefault ''true'' (FieldBool (NewField ''server.grpc.enabled'')),
     FieldDefault ''0.0.0.0'' (FieldStr (NewField ''server.grpc.bind'')),
     FieldDefault ''50051'' (FieldInt 1 65535 (NewField ''server.grpc.port'')),
     FieldDefault ''4194304'' (FieldInt 1024 0 (NewField ''server.grpc.max_message_bytes'')),
     FieldDefault ''262144'' (FieldInt 4096 0 (NewField ''server.grpc.streaming_chunk_bytes''))]"

definition storage_fields :: "FieldSpec list" where
  "storage_fields = [
     FieldDefault ''posix'' (FieldEnum [''posix'', ''s3''] (FieldStr (NewField ''storage.driver''))),
     FieldDefault ''auto'' (FieldEnum [''auto'', ''always''] (NewField ''storage.proxy_mode'')),
     FieldDefault '''' (FieldStr (NewField ''storage.driver_report_override'')),
     FieldDefault '''' (FieldStr (NewField ''storage.provider_key_override'')),
     FieldDefault ''blocking'' (FieldEnum [''blocking'', ''uring'', ''auto''] (FieldStr (NewField ''storage.io_engine''))),
     FieldDefault ''64'' (FieldInt 1 4096 (NewField ''storage.io_uring.queue_depth'')),
     FieldDefault ''false'' (FieldBool (NewField ''storage.io_uring.register_files'')),
     FieldDefault ''/var/lib/fss/data'' (FieldRequired (FieldStr (NewField ''storage.posix.root''))),
     FieldDefault ''batch'' (FieldEnum [''batch'', ''per_file''] (FieldStr (NewField ''storage.posix.durability''))),
     FieldDefault ''500'' (FieldInt 1 100000 (NewField ''storage.posix.group_commit_max_batch'')),
     FieldDefault ''true'' (FieldBool (NewField ''storage.posix.sync_dir_after_batch'')),
     FieldDefault ''0'' (FieldInt 0 1099511627776 (NewField ''storage.posix.fsync_threshold_bytes'')),
     FieldDefault ''true'' (FieldBool (NewField ''storage.posix.atomic_write'')),
     FieldDefault ''0750'' (FieldStr (NewField ''storage.posix.dir_mode'')),
     FieldDefault ''0640'' (FieldStr (NewField ''storage.posix.file_mode'')),
     FieldDefault ''true'' (FieldBool (NewField ''storage.posix.fadvise_random'')),
     FieldDefault ''false'' (FieldBool (NewField ''storage.posix.fadvise_dontneed_after_large_read'')),
     FieldDefault ''false'' (FieldBool (NewField ''storage.posix.shared_mount_required'')),
     FieldDefault ''false'' (FieldBool (NewField ''storage.posix.one_filesystem_per_partition'')),
     FieldDefault ''http://127.0.0.1:9000'' (FieldStr (NewField ''storage.s3.endpoint'')),
     FieldDefault ''us-east-1'' (FieldStr (NewField ''storage.s3.region'')),
     FieldDefault '''' (FieldSecret (FieldStr (NewField ''storage.s3.access_key''))),
     FieldDefault '''' (FieldSecret (FieldStr (NewField ''storage.s3.secret_key''))),
     FieldDefault ''true'' (FieldBool (NewField ''storage.s3.force_path_style'')),
     FieldDefault ''true'' (FieldBool (NewField ''storage.s3.verify_tls'')),
     FieldDefault ''3000'' (FieldInt 1 600000 (NewField ''storage.s3.connect_timeout_ms'')),
     FieldDefault ''30000'' (FieldInt 1 3600000 (NewField ''storage.s3.total_timeout_ms'')),
     FieldDefault ''3600'' (FieldInt 1 604800 (NewField ''storage.s3.presign_default_seconds'')),
     FieldDefault ''604800'' (FieldInt 1 604800 (NewField ''storage.s3.presign_max_seconds''))]"

definition self_signed_fields :: "FieldSpec list" where
  "self_signed_fields = [
     FieldDefault ''true'' (FieldBool (NewField ''self_signed.enabled'')),
     FieldDefault ''http://127.0.0.1:8080'' (FieldStr (NewField ''self_signed.public_base_url'')),
     FieldDefault '''' (FieldSecret (FieldStr (NewField ''self_signed.signing_key''))),
     FieldDefault ''k1'' (FieldStr (NewField ''self_signed.key_id'')),
     FieldDefault ''3600'' (FieldInt 1 604800 (NewField ''self_signed.default_ttl_seconds'')),
     FieldDefault ''604800'' (FieldInt 1 604800 (NewField ''self_signed.max_ttl_seconds'')),
     FieldDefault ''false'' (FieldBool (NewField ''self_signed.single_use_nonce'')),
     FieldDefault ''memory'' (FieldEnum [''memory'', ''postgres''] (NewField ''self_signed.nonce_store''))]"

definition expiry_fields :: "FieldSpec list" where
  "expiry_fields = [
     FieldDefault ''1H'' (FieldStr (NewField ''expiry.default'')),
     FieldDefault ''7D'' (FieldStr (NewField ''expiry.max'')),
     FieldDefault ''apperror'' (FieldEnum [''apperror'', ''legacy'', ''api_error''] (FieldStr (NewField ''http.error_format'')))]"

definition repository_fields :: "FieldSpec list" where
  "repository_fields = [
     FieldDefault ''sqlite'' (FieldEnum [''sqlite'', ''postgres'', ''remote''] (FieldStr (NewField ''metadata.repository''))),
     FieldDefault ''/var/lib/fss/meta.db'' (FieldStr (NewField ''metadata.sqlite.path'')),
     FieldDefault ''5000'' (FieldInt 0 600000 (NewField ''metadata.sqlite.busy_timeout_ms'')),
     FieldDefault ''WAL'' (FieldEnum [''WAL'', ''DELETE'', ''TRUNCATE''] (NewField ''metadata.sqlite.journal_mode'')),
     FieldDefault ''NORMAL'' (FieldEnum [''NORMAL'', ''FULL'', ''OFF''] (FieldStr (NewField ''metadata.sqlite.synchronous''))),
     FieldDefault ''8'' (FieldInt 1 256 (NewField ''metadata.sqlite.max_write_concurrency'')),
     FieldDefault ''true'' (FieldBool (NewField ''metadata.sqlite.group_commit'')),
     FieldDefault ''5'' (FieldInt 0 1000 (NewField ''metadata.sqlite.group_commit_max_wait_ms'')),
     FieldDefault ''64'' (FieldInt 1 100000 (NewField ''metadata.sqlite.group_commit_max_batch'')),
     FieldDefault '''' (FieldSecret (FieldStr (NewField ''metadata.postgres.dsn''))),
     FieldDefault ''16'' (FieldInt 1 10000 (NewField ''metadata.postgres.max_connections'')),
     FieldDefault ''5000'' (FieldInt 1 600000 (NewField ''metadata.postgres.statement_timeout_ms'')),
     FieldDefault ''true'' (FieldBool (NewField ''metadata.postgres.schema_version_check'')),
     FieldDefault '''' (FieldStr (NewField ''metadata.remote.base_url'')),
     FieldDefault ''static'' (FieldStr (NewField ''metadata.remote.token_provider'')),
     FieldDefault '''' (FieldSecret (FieldStr (NewField ''metadata.remote.static_token''))),
     FieldDefault ''5000'' (FieldInt 1 600000 (NewField ''metadata.remote.timeout_ms'')),
     FieldDefault ''sqlite'' (FieldEnum [''sqlite'', ''postgres''] (NewField ''location.repository'')),
     FieldDefault ''/var/lib/fss/location.db'' (FieldStr (NewField ''location.sqlite.path'')),
     FieldDefault ''10000'' (FieldInt 0 600000 (NewField ''location.sqlite.busy_timeout_ms'')),
     FieldDefault ''WAL'' (FieldEnum [''WAL'', ''DELETE'', ''TRUNCATE''] (NewField ''location.sqlite.journal_mode'')),
     FieldDefault ''NORMAL'' (FieldEnum [''NORMAL'', ''FULL'', ''OFF''] (NewField ''location.sqlite.synchronous'')),
     FieldDefault ''8'' (FieldInt 1 256 (NewField ''location.sqlite.max_write_concurrency'')),
     FieldDefault ''true'' (FieldBool (NewField ''location.sqlite.group_commit'')),
     FieldDefault ''5'' (FieldInt 0 1000 (NewField ''location.sqlite.group_commit_max_wait_ms'')),
     FieldDefault ''64'' (FieldInt 1 100000 (NewField ''location.sqlite.group_commit_max_batch'')),
     FieldDefault '''' (FieldSecret (FieldStr (NewField ''location.postgres.dsn''))),
     FieldDefault ''8'' (FieldInt 1 10000 (NewField ''location.postgres.max_connections''))]"

definition lease_fields :: "FieldSpec list" where
  "lease_fields = [
     FieldDefault ''false'' (FieldBool (NewField ''leases.enabled'')),
     FieldDefault ''60'' (FieldInt 1 86400 (NewField ''leases.ttl_seconds'')),
     FieldDefault ''20'' (FieldInt 1 86400 (NewField ''leases.renew_interval_seconds'')),
     FieldDefault ''database'' (FieldEnum [''database'', ''local''] (NewField ''leases.time_source'')),
     FieldDefault ''false'' (FieldBool (NewField ''leader_election.enabled'')),
     FieldDefault ''postgres_advisory_lock'' (FieldEnum [''postgres_advisory_lock''] (NewField ''leader_election.backend'')),
     FieldDefault ''1179865927'' (FieldInt 0 2147483647 (NewField ''leader_election.lock_key''))]"

definition auth_fields :: "FieldSpec list" where
  "auth_fields = [
     FieldDefault ''jwt'' (FieldEnum [''jwt'', ''remote-entitlements'', ''disabled''] (FieldStr (NewField ''auth.mode''))),
     FieldDefault '''' (FieldStr (NewField ''auth.jwt.jwks_url'')),
     FieldDefault '''' (FieldStr (NewField ''auth.jwt.issuer'')),
     FieldDefault '''' (FieldStr (NewField ''auth.jwt.audience'')),
     FieldDefault ''true'' (FieldBool (NewField ''auth.jwt.verify_signature'')),
     FieldDefault ''roles'' (FieldStr (NewField ''auth.jwt.roles_claim'')),
     FieldDefault ''email'' (FieldStr (NewField ''auth.jwt.user_id_claim'')),
     FieldDefault '''' (FieldSecret (FieldStr (NewField ''auth.jwt.hmac_secret''))),
     FieldDefault ''data-partition-id'' (FieldStr (NewField ''auth.jwt.partition_claim'')),
     FieldDefault ''true'' (FieldBool (NewField ''auth.jwt.require_partition_claim'')),
     FieldDefault '''' (FieldStr (NewField ''auth.remote_entitlements.base_url'')),
     FieldDefault ''/api/entitlements/v2/authorizeAny'' (FieldStr (NewField ''auth.remote_entitlements.authorize_path'')),
     FieldDefault ''1000'' (FieldInt 1 600000 (NewField ''auth.remote_entitlements.connect_timeout_ms'')),
     FieldDefault ''3000'' (FieldInt 1 600000 (NewField ''auth.remote_entitlements.timeout_ms'')),
     FieldDefault ''true'' (FieldBool (NewField ''auth.remote_entitlements.fail_closed''))]"

definition event_fields :: "FieldSpec list" where
  "event_fields = [
     FieldDefault ''noop'' (FieldEnum [''noop'', ''remote''] (NewField ''legal.validator'')),
     FieldDefault '''' (FieldStr (NewField ''legal.remote.base_url'')),
     FieldDefault ''3000'' (FieldInt 1 600000 (NewField ''legal.remote.timeout_ms'')),
     FieldDefault ''noop'' (FieldEnum [''noop'', ''remote''] (NewField ''schema.validator'')),
     FieldDefault '''' (FieldStr (NewField ''schema.remote.base_url'')),
     FieldDefault ''3000'' (FieldInt 1 600000 (NewField ''schema.remote.timeout_ms'')),
     FieldDefault ''log'' (FieldEnum [''log'', ''webhook'', ''none''] (NewField ''events.publisher'')),
     FieldDefault '''' (FieldStr (NewField ''events.webhook.url'')),
     FieldDefault ''3000'' (FieldInt 1 600000 (NewField ''events.webhook.timeout_ms'')),
     FieldDefault ''status-changed'' (FieldStr (NewField ''events.webhook.topic''))]"

definition gc_fields :: "FieldSpec list" where
  "gc_fields = [
     FieldDefault ''file'' (FieldEnum [''file'', ''remote''] (NewField ''partition.registry'')),
     FieldDefault ''false'' (FieldBool (NewField ''gc.enabled'')),
     FieldDefault ''true'' (FieldBool (NewField ''gc.dry_run'')),
     FieldDefault ''true'' (FieldBool (NewField ''gc.require_lease_expiry'')),
     FieldDefault ''24'' (FieldInt 1 87600 (NewField ''gc.staging_ttl_hours'')),
     FieldDefault ''72'' (FieldInt 1 87600 (NewField ''gc.orphan_grace_hours'')),
     FieldDefault ''3600'' (FieldInt 1 86400 (NewField ''gc.interval_seconds''))]"

definition observability_fields :: "FieldSpec list" where
  "observability_fields = [
     FieldDefault ''info'' (FieldEnum [''debug'', ''info'', ''warn'', ''error''] (NewField ''observability.log_level'')),
     FieldDefault ''json'' (FieldEnum [''json'', ''text''] (NewField ''observability.log_format'')),
     FieldDefault ''true'' (FieldBool (NewField ''observability.audit_enabled'')),
     FieldDefault ''false'' (FieldBool (NewField ''observability.audit_fail_closed'')),
     FieldDefault ''true'' (FieldBool (NewField ''observability.metrics_enabled'')),
     FieldDefault ''/metrics'' (FieldStr (NewField ''observability.metrics_path'')),
     FieldDefault ''secret_key,access_key,token,sig,signature,authorization,x-amz-signature,password,signing_key,dsn,static_token'' (FieldList (NewField ''observability.redact_keys''))]"

definition core_fields :: "FieldSpec list" where
  "core_fields = deployment_fields @ http_fields @ grpc_fields @ storage_fields @ self_signed_fields @ expiry_fields @
     repository_fields @ lease_fields @ auth_fields @ event_fields @ gc_fields @ observability_fields"

section \<open>Rules across fields\<close>

definition GetOr :: "json \<Rightarrow> string \<Rightarrow> string \<Rightarrow> json" where
  "GetOr root path fallback = (case GetAt root path of None \<Rightarrow> JString fallback | Some v \<Rightarrow> v)"

definition RenderScalarOr :: "(64 word \<Rightarrow> string) \<Rightarrow> json \<Rightarrow> string \<Rightarrow> string" where
  "RenderScalarOr dump v fallback =
     (case v of
        JString s \<Rightarrow> s
      | JBool b \<Rightarrow> if b then ''true'' else ''false''
      | JInt i \<Rightarrow> to_string i
      | JUInt n \<Rightarrow> to_string (wrap_i64 (int n))
      | JFloat w \<Rightarrow> dump w
      | _ \<Rightarrow> fallback)"

definition StrOr :: "(64 word \<Rightarrow> string) \<Rightarrow> json \<Rightarrow> string \<Rightarrow> string \<Rightarrow> string" where
  "StrOr dump root path fallback = RenderScalarOr dump (GetOr root path fallback) fallback"

definition problem_if :: "bool \<Rightarrow> string \<Rightarrow> string \<Rightarrow> (string \<times> string) list" where
  "problem_if b path message = (if b then [(path, message)] else [])"

definition multi_problems :: "(64 word \<Rightarrow> string) \<Rightarrow> json \<Rightarrow> (string \<times> string) list" where
  "multi_problems dump c =
     (let skew = GetOr c ''deployment.max_clock_skew_seconds'' ''5'' in
      if StrOr dump c ''deployment.mode'' ''single'' = ''multi'' then
        problem_if (StrOr dump c ''metadata.repository'' ''sqlite'' \<noteq> ''postgres'') ''metadata.repository''
          msg_multi_metadata @
        problem_if (StrOr dump c ''location.repository'' ''sqlite'' \<noteq> ''postgres'') ''location.repository''
          msg_multi_location @
        problem_if (StrOr dump c ''leases.enabled'' ''false'' \<noteq> ''true'') ''leases.enabled''
          msg_multi_leases @
        problem_if (StrOr dump c ''leader_election.enabled'' ''false'' \<noteq> ''true'') ''leader_election.enabled''
          msg_multi_leader @
        problem_if (StrOr dump c ''storage.posix.shared_mount_required'' ''false'' \<noteq> ''true'') ''storage.posix.shared_mount_required''
          msg_multi_mount @
        problem_if (StrOr dump c ''gc.require_lease_expiry'' ''true'' \<noteq> ''true'') ''gc.require_lease_expiry''
          msg_multi_gc @
        problem_if (is_number_integer skew \<and> (get_int64 skew \<le> 0 \<or> get_int64 skew > 60)) ''deployment.max_clock_skew_seconds''
          msg_multi_skew
      else [])"

definition auth_problems :: "(64 word \<Rightarrow> string) \<Rightarrow> json \<Rightarrow> (string \<times> string) list" where
  "auth_problems dump c =
     (let production = (StrOr dump c ''deployment.environment'' ''development'' = ''production'');
          auth_mode = StrOr dump c ''auth.mode'' ''jwt'';
          verify_signature = StrOr dump c ''auth.jwt.verify_signature'' ''true'' in
      (if production \<and> auth_mode = ''disabled''
       then [(''auth.mode'', msg_auth_disabled)]
       else problem_if (production \<and> auth_mode \<noteq> ''jwt'') ''auth.mode''
              (msg_auth_mode @ auth_mode @ msg_auth_mode_end)) @
      problem_if (production \<and> verify_signature \<noteq> ''true'') ''auth.jwt.verify_signature''
        msg_auth_verify @
      problem_if (production \<and> auth_mode = ''jwt'' \<and> verify_signature = ''true'' \<and> StrOr dump c ''auth.jwt.hmac_secret'' [] = [])
        ''auth.jwt.hmac_secret'' msg_auth_secret @
      (if auth_mode = ''remote-entitlements'' then
         problem_if (StrOr dump c ''auth.remote_entitlements.base_url'' [] = []) ''auth.remote_entitlements.base_url''
           msg_auth_remote @
         problem_if (StrOr dump c ''auth.remote_entitlements.fail_closed'' ''true'' \<noteq> ''true'') ''auth.remote_entitlements.fail_closed''
           msg_auth_closed
       else []) @
      problem_if (StrOr dump c ''auth.jwt.jwks_url'' [] \<noteq> []) ''auth.jwt.jwks_url''
        msg_auth_jwks)"

definition budget_problems :: "json \<Rightarrow> (string \<times> string) list" where
  "budget_problems c =
     (let buf = GetOr c ''server.http.transfer_buffer_bytes'' ''262144'';
          budget = GetOr c ''server.http.transfer_memory_budget_bytes'' ''268435456'';
          workers = GetOr c ''server.http.worker_threads'' ''0'' in
      problem_if (is_number_integer buf \<and> is_number_integer budget \<and> is_number_integer workers \<and> get_int64 workers > 0 \<and>
          wrap_i64 (get_int64 buf * get_int64 workers) > get_int64 budget)
        ''server.http.transfer_memory_budget_bytes''
        (msg_budget_workers @ to_string (get_int64 workers) @ msg_budget_buffer @ to_string (get_int64 buf) @
         msg_budget_total @ to_string (get_int64 budget) @ '')''))"

definition renew_problems :: "json \<Rightarrow> (string \<times> string) list" where
  "renew_problems c =
     (let ttl = GetOr c ''leases.ttl_seconds'' ''60''; renew = GetOr c ''leases.renew_interval_seconds'' ''20'' in
      problem_if (is_number_integer ttl \<and> is_number_integer renew \<and> get_int64 renew \<ge> get_int64 ttl) ''leases.renew_interval_seconds''
        msg_renew_interval)"

definition consistency :: "(64 word \<Rightarrow> string) \<Rightarrow> CrossCheck" where
  "consistency dump c = multi_problems dump c @ auth_problems dump c @ budget_problems c @ renew_problems c"

definition CoreSchema :: "(64 word \<Rightarrow> string) \<Rightarrow> Schema" where
  "CoreSchema dump = AddCrossCheck (consistency dump) ''consistency''
     (AllowDynamicPrefix ''partition.file'' (AllowDynamicPrefix ''auth.local_roles'' (fold SchemaAdd core_fields NewSchema)))"

section \<open>The paths of the fields lie apart\<close>

text \<open>Two paths are apart when neither is the other nor continues it after a dot; then a write to one leaves a read of the other as
  it was. The test compares strings from the left and stops at the first difference.\<close>

fun apart :: "string \<Rightarrow> string \<Rightarrow> bool" where
  "apart [] [] = False"
| "apart [] (c # t) = (c \<noteq> CHR ''.'')"
| "apart (c # t) [] = (c \<noteq> CHR ''.'')"
| "apart (c # s) (d # t) = (if c = d then apart s t else True)"

fun all_apart :: "string \<Rightarrow> string list \<Rightarrow> bool" where
  "all_apart p [] = True"
| "all_apart p (q # qs) = (if apart p q then all_apart p qs else False)"

fun pairwise_apart :: "string list \<Rightarrow> bool" where
  "pairwise_apart [] = True"
| "pairwise_apart (p # ps) = (if all_apart p ps then pairwise_apart ps else False)"

definition paths :: "FieldSpec list \<Rightarrow> string list" where
  "paths fs = map fs_path fs"

definition section_of :: "string \<Rightarrow> string" where
  "section_of p = takeWhile (\<lambda>c. c \<noteq> CHR ''.'') p"

definition in_sections :: "string list \<Rightarrow> string list \<Rightarrow> bool" where
  "in_sections ss ps \<longleftrightarrow> list_all (\<lambda>p. section_of p \<in> set ss) ps"

lemma segments_Cons:
  "segments (c # s) = (if c = CHR ''.'' then [] # segments s else (c # hd (segments s)) # tl (segments s))"
  by (simp add: segments_def split: list.split)

lemma apart_aside: "apart p q \<Longrightarrow> aside p q"
proof (induction p q rule: apart.induct)
  case (4 c s d t)
  obtain w ws v vs where seg: "segments s = w # ws" "segments t = v # vs"
    using segments_not_Nil by (metis neq_Nil_conv)
  show ?case
    using 4 by (auto simp: aside_def segments_Cons seg parallel_def split: if_splits)
qed (auto simp: aside_def segments_Cons parallel_def, auto simp: segments_def)

lemma all_apart_iff: "all_apart p ps \<longleftrightarrow> (\<forall>q \<in> set ps. apart p q)"
  by (induction ps) auto

lemma pairwise_apart_aside: "pairwise_apart ps \<Longrightarrow> sorted_wrt aside ps"
  by (induction ps) (auto simp: all_apart_iff apart_aside split: if_splits)

lemma section_aside: "section_of p \<noteq> section_of q \<Longrightarrow> aside p q"
proof -
  have "hd (segments p) = section_of p" for p
    by (induction p) (auto simp: segments_Cons section_of_def, simp add: segments_def)
  moreover assume "section_of p \<noteq> section_of q"
  ultimately have "hd (segments p) \<noteq> hd (segments q)" by simp
  then show ?thesis by (cases "segments p"; cases "segments q") (auto simp: aside_def parallel_def)
qed

lemma sorted_aside_iff:
  "sorted_wrt aside xs \<longleftrightarrow> distinct xs \<and> (\<forall>p \<in> set xs. \<forall>q \<in> set xs. p \<noteq> q \<longrightarrow> aside p q)"
proof (induction xs)
  case (Cons x xs)
  have "(\<forall>q \<in> set xs. aside x q) \<longleftrightarrow> x \<notin> set xs \<and> (\<forall>q \<in> set xs. x \<noteq> q \<longrightarrow> aside x q \<and> aside q x)"
    using aside_sym [of x] by auto
  then show ?case using Cons by auto
qed simp

lemma sorted_aside_perm: "mset xs = mset ys \<Longrightarrow> sorted_wrt aside xs \<longleftrightarrow> sorted_wrt aside ys"
  unfolding sorted_aside_iff using mset_eq_setD [of xs ys] mset_eq_imp_distinct_iff [of xs ys] by simp

fun sections_ok :: "(string list \<times> string list) list \<Rightarrow> bool" where
  "sections_ok [] = True"
| "sections_ok ((ss, ps) # gs) \<longleftrightarrow> in_sections ss ps \<and> pairwise_apart ps \<and>
     (\<forall>x \<in> set ss. \<forall>g \<in> set gs. x \<notin> set (fst g)) \<and> sections_ok gs"

lemma sections_ok_member: "sections_ok gs \<Longrightarrow> (ss, ps) \<in> set gs \<Longrightarrow> in_sections ss ps"
  by (induction gs) auto

lemma sections_ok_aside: "sections_ok gs \<Longrightarrow> sorted_wrt aside (concat (map snd gs))"
proof (induction gs)
  case (Cons g gs)
  obtain ss ps where g: "g = (ss, ps)" by (cases g)
  have "aside p q" if "p \<in> set ps" "q \<in> set qs" "(ts, qs) \<in> set gs" for p q ts qs
  proof -
    have "section_of p \<in> set ss" "section_of q \<in> set ts"
      using Cons.prems g that sections_ok_member [of gs ts qs] by (auto simp: in_sections_def list_all_iff)
    then have "section_of p \<noteq> section_of q" using Cons.prems g that(3) by fastforce
    then show ?thesis by (rule section_aside)
  qed
  then show ?case
    using Cons g pairwise_apart_aside by (auto simp: sorted_wrt_append)
qed simp

lemma deployment_paths: "in_sections [''deployment''] (paths deployment_fields) \<and> pairwise_apart (paths deployment_fields)"
  by code_simp

lemma server_paths: "in_sections [''server''] (paths (http_fields @ grpc_fields)) \<and> pairwise_apart (paths (http_fields @ grpc_fields))"
  by code_simp

lemma storage_paths: "in_sections [''storage''] (paths storage_fields) \<and> pairwise_apart (paths storage_fields)"
  by code_simp

lemma self_signed_paths: "in_sections [''self_signed''] (paths self_signed_fields) \<and> pairwise_apart (paths self_signed_fields)"
  by code_simp

lemma expiry_paths: "in_sections [''expiry'', ''http''] (paths expiry_fields) \<and> pairwise_apart (paths expiry_fields)"
  by code_simp

lemma repository_paths:
  "in_sections [''metadata'', ''location''] (paths repository_fields) \<and> pairwise_apart (paths repository_fields)"
  by code_simp

lemma lease_paths: "in_sections [''leases'', ''leader_election''] (paths lease_fields) \<and> pairwise_apart (paths lease_fields)"
  by code_simp

lemma auth_paths:
  "in_sections [''auth''] (''auth.local_roles'' # paths auth_fields) \<and> pairwise_apart (''auth.local_roles'' # paths auth_fields)"
  by code_simp

lemma event_paths: "in_sections [''legal'', ''schema'', ''events''] (paths event_fields) \<and> pairwise_apart (paths event_fields)"
  by code_simp

lemma gc_paths:
  "in_sections [''partition'', ''gc''] (''partition.file'' # paths gc_fields) \<and> pairwise_apart (''partition.file'' # paths gc_fields)"
  by code_simp

lemma observability_paths:
  "in_sections [''observability''] (paths observability_fields) \<and> pairwise_apart (paths observability_fields)"
  by code_simp

lemma core_paths: "sorted_wrt aside (paths core_fields @ [''auth.local_roles'', ''partition.file''])"
proof -
  let ?gs = "[([''deployment''], paths deployment_fields), ([''server''], paths (http_fields @ grpc_fields)),
    ([''storage''], paths storage_fields), ([''self_signed''], paths self_signed_fields), ([''expiry'', ''http''], paths expiry_fields),
    ([''metadata'', ''location''], paths repository_fields), ([''leases'', ''leader_election''], paths lease_fields),
    ([''auth''], ''auth.local_roles'' # paths auth_fields), ([''legal'', ''schema'', ''events''], paths event_fields),
    ([''partition'', ''gc''], ''partition.file'' # paths gc_fields), ([''observability''], paths observability_fields)]"
  have "sections_ok ?gs"
    using deployment_paths server_paths storage_paths self_signed_paths expiry_paths repository_paths lease_paths auth_paths
      event_paths gc_paths observability_paths by (simp del: pairwise_apart.simps)
  from sections_ok_aside [OF this] have "sorted_wrt aside (concat (map snd ?gs))" .
  moreover have "mset (concat (map snd ?gs)) = mset (paths core_fields @ [''auth.local_roles'', ''partition.file''])"
    by (simp add: core_fields_def paths_def ac_simps)
  ultimately show ?thesis using sorted_aside_perm by blast
qed

lemma fold_SchemaAdd:
  "sc_fields (fold SchemaAdd fs s) = sc_fields s @ fs \<and>
   fst ` set (sc_index (fold SchemaAdd fs s)) = fs_path ` set fs \<union> fst ` set (sc_index s) \<and>
   sc_dynamic_prefixes (fold SchemaAdd fs s) = sc_dynamic_prefixes s \<and> sc_cross_checks (fold SchemaAdd fs s) = sc_cross_checks s"
  by (induction fs arbitrary: s) (auto simp: SchemaAdd_def keys_put)

lemma CoreSchema_sel [simp]:
  "sc_fields (CoreSchema dump) = core_fields"
  "sc_dynamic_prefixes (CoreSchema dump) = [''auth.local_roles'', ''partition.file'']"
  "sc_cross_checks (CoreSchema dump) = [(''consistency'', consistency dump)]"
  "fst ` set (sc_index (CoreSchema dump)) = fs_path ` set core_fields"
  by (simp_all add: CoreSchema_def AddCrossCheck_def AllowDynamicPrefix_def fold_SchemaAdd NewSchema_def)

end
