(* ===== verification/Config_Properties.thy ===== *)
theory Config_Properties
  imports Config_Schema
begin

text \<open>
  What a loaded configuration guarantees: where each value comes from, that it has the type and range of its field, that all
  problems are reported at once, that secrets are masked, and what the rules across fields rule out in production and in
  deployments with several instances.
\<close>

section \<open>One field\<close>

definition well_typed :: "LoadEnv \<Rightarrow> FieldSpec \<Rightarrow> json \<Rightarrow> bool" where
  "well_typed env f v \<longleftrightarrow>
     (case fs_type f of
        kString \<Rightarrow> is_string v
      | kInt \<Rightarrow> (\<exists>n. v = JInt n \<and> in_i64 n \<and> (fs_min_value f \<le> fs_max_value f \<longrightarrow> fs_min_value f \<le> n \<and> n \<le> fs_max_value f))
      | kBool \<Rightarrow> is_boolean v
      | kStringList \<Rightarrow> (\<exists>xs. v = jstrings xs)) \<and>
     (fs_enum_values f \<noteq> [] \<longrightarrow> RenderScalar env v \<in> set (fs_enum_values f))"

text \<open>For evaluation: decimal numbers as integers.\<close>

definition decimal_int :: "string \<Rightarrow> int" where
  "decimal_int s = foldl (\<lambda>n c. n * 10 + int (digit_val c)) 0 s"

lemma decimal_int: "int (decimal s) = decimal_int s"
proof -
  have "int (foldl (\<lambda>n c. n * 10 + digit_val c) m s) = foldl (\<lambda>n c. n * 10 + int (digit_val c)) (int m) s" for m
    by (induction s arbitrary: m) simp_all
  then show ?thesis by (simp add: decimal_def decimal_int_def)
qed

lemma ParseLong_range: "ParseLong t = Some n \<Longrightarrow> in_i64 n"
  by (auto simp: ParseLong_def Let_def in_i64_def i64_max_def split: if_splits)

lemma finish_field_typed:
  assumes "finish_field env f src txt items = (ps, Some v)"
  shows "ps = [] \<and> well_typed env f v"
proof -
  have v: "ps = []" "(case typed_value f txt items of Inl m \<Rightarrow> Inl m | Inr v \<Rightarrow> enum_check env f v) = Inr v"
    using assms by (auto simp: finish_field_def split: sum.splits)
  then have t: "typed_value f txt items = Inr v" "enum_check env f v = Inr v"
    by (auto simp: enum_check_def Let_def split: sum.splits if_splits)
  then show ?thesis
    using v(1) by (auto intro: ParseLong_range simp: typed_value_def well_typed_def enum_check_def Let_def is_string_def is_boolean_def
        split: ValueType.splits option.splits if_splits)
qed

lemma outcome_typed:
  assumes "field_outcome env f raw src = (ps, Some v)"
  shows "well_typed env f v"
  using assms
  by (auto simp: field_outcome_def map_prod_def dest: finish_field_typed split: Input.splits if_splits option.splits prod.splits)

text \<open>The source of a value shows only in the problems.\<close>

definition field_value :: "LoadEnv \<Rightarrow> FieldSpec \<Rightarrow> json option \<Rightarrow> json option" where
  "field_value env f raw = snd (field_outcome env f raw ''file'')"

definition field_sound :: "LoadEnv \<Rightarrow> FieldSpec \<Rightarrow> json option \<Rightarrow> bool" where
  "field_sound env f raw \<longleftrightarrow> fst (field_outcome env f raw ''file'') = []"

lemma finish_source:
  "snd (finish_field env f src txt items) = snd (finish_field env f src' txt items)"
  "fst (finish_field env f src txt items) = [] \<longleftrightarrow> fst (finish_field env f src' txt items) = []"
  by (auto simp: finish_field_def split: sum.splits)

lemma read_input_source:
  "(case read_input env f raw src of InProblem m s \<Rightarrow> InProblem m [] | i \<Rightarrow> i) =
   (case read_input env f raw src' of InProblem m s \<Rightarrow> InProblem m [] | i \<Rightarrow> i)"
  by (auto simp: read_input_def split: option.splits json.splits)

lemma outcome_source:
  "snd (field_outcome env f raw src) = field_value env f raw"
  "fst (field_outcome env f raw src) = [] \<longleftrightarrow> field_sound env f raw"
proof -
  note same = read_input_source [of env f raw src "''file''"]
  have "snd (field_outcome env f raw src) = snd (field_outcome env f raw ''file'') \<and>
    (fst (field_outcome env f raw src) = [] \<longleftrightarrow> fst (field_outcome env f raw ''file'') = [])"
    using same finish_source [of env f src _ _ "''file''"]
    by (cases "read_input env f raw src"; cases "read_input env f raw ''file''")
       (auto simp: field_outcome_def split: option.splits prod.splits)
  then show "snd (field_outcome env f raw src) = field_value env f raw"
    "fst (field_outcome env f raw src) = [] \<longleftrightarrow> field_sound env f raw"
    by (simp_all add: field_value_def field_sound_def)
qed

lemma field_value_typed: "field_value env f raw = Some v \<Longrightarrow> well_typed env f v"
  unfolding field_value_def by (metis outcome_typed prod.collapse)

lemma finish_sound: "fst (finish_field env f src txt items) = [] \<Longrightarrow> \<exists>v. snd (finish_field env f src txt items) = Some v"
  by (auto simp: finish_field_def split: sum.splits)

lemma field_value_present:
  assumes "field_sound env f raw" "fs_has_default f \<or> fs_required f \<or> raw \<noteq> None"
  shows "\<exists>v. field_value env f raw = Some v"
proof -
  have "read_input env f raw ''file'' \<noteq> InSkip"
    using assms(2) by (auto simp: read_input_def split: option.splits json.splits)
  then show ?thesis
    using assms(1) finish_sound
    by (auto simp: field_sound_def field_value_def field_outcome_def split: Input.splits option.splits if_splits prod.splits)
qed

section \<open>All fields\<close>

definition field_source :: "json \<Rightarrow> Config \<Rightarrow> FieldSpec \<Rightarrow> string" where
  "field_source merged cfg f =
     (if GetAt merged (fs_path f) = None \<and> fs_has_default f then ''default'' else source_or_file cfg (fs_path f))"

definition field_problems :: "LoadEnv \<Rightarrow> json \<Rightarrow> Config \<Rightarrow> FieldSpec \<Rightarrow> Problem list" where
  "field_problems env merged cfg f =
     map (\<lambda>(m, s). \<lparr>pb_path = fs_path f, pb_message = m, pb_source = s\<rparr>)
       (fst (field_outcome env f (GetAt merged (fs_path f)) (field_source merged cfg f)))"

lemma field_problems_sound: "field_problems env merged cfg f = [] \<longleftrightarrow> field_sound env f (GetAt merged (fs_path f))"
  by (simp add: field_problems_def outcome_source)

lemma fold_add_problem [simp]:
  "cf_problems (fold (\<lambda>(m, s). add_problem p m s) ps cfg) =
     cf_problems cfg @ map (\<lambda>(m, s). \<lparr>pb_path = p, pb_message = m, pb_source = s\<rparr>) ps"
  "cf_effective (fold (\<lambda>(m, s). add_problem p m s) ps cfg) = cf_effective cfg"
  "cf_sources (fold (\<lambda>(m, s). add_problem p m s) ps cfg) = cf_sources cfg"
  by (induction ps arbitrary: cfg) (auto simp: add_problem_def)

lemma load_field_effect:
  assumes "load_field env merged f cfg = cfg'"
  shows "cf_problems cfg' = cf_problems cfg @ field_problems env merged cfg f"
    "GetAt (cf_effective cfg') (fs_path f) = (case field_value env f (GetAt merged (fs_path f)) of
        None \<Rightarrow> GetAt (cf_effective cfg) (fs_path f) | Some v \<Rightarrow> Some v)"
    "aside (fs_path f) p \<Longrightarrow> GetAt (cf_effective cfg') p = GetAt (cf_effective cfg) p"
    "p \<noteq> fs_path f \<Longrightarrow> map_of (cf_sources cfg') p = map_of (cf_sources cfg) p"
proof -
  define c1 where "c1 = (if GetAt merged (fs_path f) = None \<and> fs_has_default f then set_source (fs_path f) ''default'' cfg else cfg)"
  have src: "source_or_file c1 (fs_path f) = field_source merged cfg f"
    by (simp add: c1_def field_source_def source_or_file_def set_source_def)
  have c1: "cf_problems c1 = cf_problems cfg" "cf_effective c1 = cf_effective cfg"
    "p \<noteq> fs_path f \<Longrightarrow> map_of (cf_sources c1) p = map_of (cf_sources cfg) p"
    by (simp_all add: c1_def set_source_def)
  define r where "r = field_outcome env f (GetAt merged (fs_path f)) (field_source merged cfg f)"
  define c2 where "c2 = fold (\<lambda>(m, s). add_problem (fs_path f) m s) (fst r) c1"
  have cfg': "cfg' = (case snd r of None \<Rightarrow> c2
      | Some v \<Rightarrow> set_source (fs_path f) (field_source merged cfg f) (c2\<lparr>cf_effective := SetAt (cf_effective c2) (fs_path f) v\<rparr>))"
    using assms unfolding load_field_def Let_def c1_def [symmetric] src r_def [symmetric] c2_def [symmetric] by simp
  have c2: "cf_problems c2 = cf_problems cfg @ field_problems env merged cfg f" "cf_effective c2 = cf_effective cfg"
    "p \<noteq> fs_path f \<Longrightarrow> map_of (cf_sources c2) p = map_of (cf_sources cfg) p"
    by (simp_all add: c2_def c1 field_problems_def r_def)
  have v: "snd r = field_value env f (GetAt merged (fs_path f))" by (simp add: r_def outcome_source)
  show "cf_problems cfg' = cf_problems cfg @ field_problems env merged cfg f"
    "GetAt (cf_effective cfg') (fs_path f) = (case field_value env f (GetAt merged (fs_path f)) of
        None \<Rightarrow> GetAt (cf_effective cfg) (fs_path f) | Some v \<Rightarrow> Some v)"
    "aside (fs_path f) p \<Longrightarrow> GetAt (cf_effective cfg') p = GetAt (cf_effective cfg) p"
    "p \<noteq> fs_path f \<Longrightarrow> map_of (cf_sources cfg') p = map_of (cf_sources cfg) p"
    using c2 by (auto simp: cfg' v [symmetric] set_source_def GetAt_SetAt_aside split: option.splits)
qed

lemma field_problems_cong:
  "map_of (cf_sources cfg) (fs_path f) = map_of (cf_sources cfg') (fs_path f) \<Longrightarrow>
   field_problems env merged cfg f = field_problems env merged cfg' f"
  by (simp add: field_problems_def field_source_def source_or_file_def)

lemma load_fields_effect:
  assumes "sorted_wrt aside (map fs_path fs)" "fold (load_field env merged) fs cfg = cfg'"
  shows "cf_problems cfg' = cf_problems cfg @ concat (map (field_problems env merged cfg) fs) \<and>
    (\<forall>f \<in> set fs. GetAt (cf_effective cfg') (fs_path f) = (case field_value env f (GetAt merged (fs_path f)) of
        None \<Rightarrow> GetAt (cf_effective cfg) (fs_path f) | Some v \<Rightarrow> Some v)) \<and>
    (\<forall>p. (\<forall>f \<in> set fs. aside (fs_path f) p) \<longrightarrow> GetAt (cf_effective cfg') p = GetAt (cf_effective cfg) p)"
  using assms
proof (induction fs arbitrary: cfg)
  case (Cons f fs)
  define c1 where "c1 = load_field env merged f cfg"
  note eff = load_field_effect [OF c1_def [symmetric]]
  have s: "sorted_wrt aside (map fs_path fs)" "\<forall>g \<in> set fs. aside (fs_path f) (fs_path g)" using Cons.prems(1) by auto
  have run: "fold (load_field env merged) fs c1 = cfg'" using Cons.prems(2) by (simp add: c1_def)
  have same: "field_problems env merged c1 g = field_problems env merged cfg g" if "g \<in> set fs" for g
    using s(2) that by (intro field_problems_cong eff(4)) auto
  have "concat (map (field_problems env merged c1) fs) = concat (map (field_problems env merged cfg) fs)"
    by (rule arg_cong [OF map_cong]) (simp_all add: same)
  moreover have "\<forall>g \<in> set fs. aside (fs_path g) (fs_path f)" using s(2) aside_sym by blast
  ultimately show ?case
    using Cons.IH [OF s(1) run] eff(1-3) s(2) by (simp cong: option.case_cong)
qed simp

lemma copy_dynamic_effect:
  "cf_problems (fold (copy_dynamic merged) ds cfg) = cf_problems cfg \<and>
   ((\<forall>d \<in> set ds. aside d p) \<longrightarrow> GetAt (cf_effective (fold (copy_dynamic merged) ds cfg)) p = GetAt (cf_effective cfg) p)"
  by (induction ds arbitrary: cfg) (auto simp: copy_dynamic_def GetAt_SetAt_aside split: option.splits json.splits)

definition cross_problems :: "json \<Rightarrow> string \<times> CrossCheck \<Rightarrow> Problem list" where
  "cross_problems v = (\<lambda>(name, check).
     map (\<lambda>(p, m). \<lparr>pb_path = p, pb_message = (if name = [] then [] else ''['' @ name @ ''] '') @ m, pb_source = ''cross''\<rparr>) (check v))"

lemma fold_cross_add:
  "cf_problems (fold (\<lambda>(path, m). add_problem path (pre @ m) src) ps cfg) =
     cf_problems cfg @ map (\<lambda>(p, m). \<lparr>pb_path = p, pb_message = pre @ m, pb_source = src\<rparr>) ps \<and>
   cf_effective (fold (\<lambda>(path, m). add_problem path (pre @ m) src) ps cfg) = cf_effective cfg"
  by (induction ps arbitrary: cfg) (auto simp: add_problem_def)

lemma cross_check_effect:
  "cf_problems (fold cross_check cs cfg) = cf_problems cfg @ concat (map (cross_problems (cf_effective cfg)) cs) \<and>
   cf_effective (fold cross_check cs cfg) = cf_effective cfg"
proof (induction cs arbitrary: cfg)
  case (Cons c cs)
  obtain name check where c: "c = (name, check)" by (cases c)
  have "cf_problems (cross_check c cfg) = cf_problems cfg @ cross_problems (cf_effective cfg) c"
    "cf_effective (cross_check c cfg) = cf_effective cfg"
    using fold_cross_add [of "if name = [] then [] else ''['' @ name @ ''] ''"] by (simp_all add: c cross_check_def cross_problems_def)
  then show ?case using Cons.IH [of "cross_check c cfg"] by simp
qed simp

lemma check_unknown_effect:
  "cf_problems (fold (check_unknown schema) ps cfg) = cf_problems cfg @
     map (\<lambda>p. \<lparr>pb_path = p, pb_message = msg_cfg_unknown, pb_source = ''schema''\<rparr>) (filter (\<lambda>p. \<not> IsAllowedPath schema p) ps) \<and>
   cf_effective (fold (check_unknown schema) ps cfg) = cf_effective cfg"
  by (induction ps arbitrary: cfg) (auto simp: check_unknown_def add_problem_def)

section \<open>The whole configuration\<close>

text \<open>Fields and free subtrees lie aside of each other, and every declared field is found.\<close>

definition schema_ok :: "Schema \<Rightarrow> bool" where
  "schema_ok s \<longleftrightarrow> sorted_wrt aside (map fs_path (sc_fields s) @ sc_dynamic_prefixes s) \<and>
     fst ` set (sc_index s) = fs_path ` set (sc_fields s)"

lemma schema_okD:
  assumes "schema_ok s"
  shows "sorted_wrt aside (map fs_path (sc_fields s))"
    "f \<in> set (sc_fields s) \<Longrightarrow> d \<in> set (sc_dynamic_prefixes s) \<Longrightarrow> aside (fs_path f) d"
    "IsAllowedPath s p \<longleftrightarrow> p \<in> fs_path ` set (sc_fields s) \<or> (\<exists>d \<in> set (sc_dynamic_prefixes s). under_prefix p d)"
proof -
  show "sorted_wrt aside (map fs_path (sc_fields s))"
    "f \<in> set (sc_fields s) \<Longrightarrow> d \<in> set (sc_dynamic_prefixes s) \<Longrightarrow> aside (fs_path f) d"
    using assms by (auto simp: schema_ok_def sorted_wrt_append)
  have "SchemaFind s p \<noteq> None \<longleftrightarrow> p \<in> fs_path ` set (sc_fields s)"
    using assms by (simp add: schema_ok_def SchemaFind_def map_of_eq_None_iff)
  then show "IsAllowedPath s p \<longleftrightarrow> p \<in> fs_path ` set (sc_fields s) \<or> (\<exists>d \<in> set (sc_dynamic_prefixes s). under_prefix p d)"
    by (simp add: IsAllowedPath_def list_ex_iff)
qed

lemma sorted_aside:
  assumes "sorted_wrt aside ps" "p \<in> set ps" "q \<in> set ps" "p \<noteq> q"
  shows "aside p q"
  using assms by (induction ps) (auto simp: aside_sym)

lemma allowed_aside:
  assumes "schema_ok s" "f \<in> set (sc_fields s)" "IsAllowedPath s q"
  shows "q = fs_path f \<or> aside q (fs_path f)"
proof -
  consider (field) "q \<in> fs_path ` set (sc_fields s)" | (free) d where "d \<in> set (sc_dynamic_prefixes s)" "under_prefix q d"
    using assms(3) schema_okD(3) [OF assms(1)] by auto
  then show ?thesis
  proof cases
    case field
    then show ?thesis using sorted_aside [OF schema_okD(1) [OF assms(1)], of q "fs_path f"] assms(2) by auto
  next
    case free
    then show ?thesis using aside_under [OF schema_okD(2) [OF assms(1,2) free(1)] free(2)] aside_sym by blast
  qed
qed

definition file_layer :: "LoadEnv \<Rightarrow> LoadRequest \<Rightarrow> json" where
  "file_layer env req = fst (load_file env (lq_file_path req) \<lparr>cf_effective = jobject, cf_sources = [], cf_problems = []\<rparr>)"

definition file_problems :: "LoadEnv \<Rightarrow> LoadRequest \<Rightarrow> Problem list" where
  "file_problems env req =
     cf_problems (snd (load_file env (lq_file_path req) \<lparr>cf_effective = jobject, cf_sources = [], cf_problems = []\<rparr>))"

text \<open>What the layers say about a field: the command line, else the environment, else the file.\<close>

definition layered :: "LoadEnv \<Rightarrow> LoadRequest \<Rightarrow> FieldSpec \<Rightarrow> json option" where
  "layered env req f =
     (case cli_value req (fs_path f) of
        Some v \<Rightarrow> Some v
      | None \<Rightarrow>
          (case (if lq_env_enabled req then le_env env (EnvNameFor (fs_path f) (lq_env_prefix req)) else None) of
             Some v \<Rightarrow> Some (JString v)
           | None \<Rightarrow> GetAt (file_layer env req) (fs_path f)))"

definition unknown_problems :: "LoadEnv \<Rightarrow> LoadRequest \<Rightarrow> Problem list" where
  "unknown_problems env req =
     map (\<lambda>p. \<lparr>pb_path = p, pb_message = msg_cfg_unknown, pb_source = ''schema''\<rparr>)
       (filter (\<lambda>p. \<not> IsAllowedPath (lq_schema req) p) (CollectPaths (file_layer env req) []))"

definition cli_problems :: "LoadRequest \<Rightarrow> Problem list" where
  "cli_problems req =
     map (\<lambda>(p, v). \<lparr>pb_path = p, pb_message = msg_cfg_cli_unknown, pb_source = ''cli''\<rparr>)
       (filter (\<lambda>(p, v). \<not> IsAllowedPath (lq_schema req) p) (lq_cli_overrides req))"

lemma load_file_effective: "cf_effective (snd (load_file env path cfg)) = cf_effective cfg"
  by (simp add: load_file_def add_problem_def split: option.split sum.split)

text \<open>The run of \<^const>\<open>Load\<close>: the configuration before the fields are read, and the values of the merged layers.\<close>

lemma Load_run:
  assumes "schema_ok (lq_schema req)"
  obtains merged cfg where
    "cf_problems cfg = file_problems env req @ unknown_problems env req @ cli_problems req" "cf_effective cfg = jobject"
    "\<forall>f \<in> set (sc_fields (lq_schema req)). GetAt merged (fs_path f) = layered env req f"
    "lr_config (Load env req) = fold cross_check (sc_cross_checks (lq_schema req))
       (fold (copy_dynamic merged) (sc_dynamic_prefixes (lq_schema req)) (fold (load_field env merged) (sc_fields (lq_schema req)) cfg))"
    "lr_ok (Load env req) \<longleftrightarrow> cf_problems (lr_config (Load env req)) = []"
proof -
  let ?s = "lq_schema req" and ?c0 = "\<lparr>cf_effective = jobject, cf_sources = [], cf_problems = []\<rparr>"
  obtain ff c1 where lf: "load_file env (lq_file_path req) ?c0 = (ff, c1)" by (cases "load_file env (lq_file_path req) ?c0")
  have ffs: "file_layer env req = ff" "file_problems env req = cf_problems c1" "cf_effective c1 = jobject"
    using lf load_file_effective [of env "lq_file_path req" ?c0] by (simp_all add: file_layer_def file_problems_def)
  define c2 where "c2 = fold (check_unknown ?s) (CollectPaths ff []) c1"
  have c2: "cf_problems c2 = file_problems env req @ unknown_problems env req" "cf_effective c2 = jobject"
    using check_unknown_effect [of ?s "CollectPaths ff []" c1] by (simp_all add: c2_def ffs unknown_problems_def)
  define e where "e = (if lq_env_enabled req then fold (env_override env (lq_env_prefix req)) (sc_fields ?s) (ff, c2) else (ff, c2))"
  obtain m3 c3 where e3: "e = (m3, c3)" by (cases e)
  note envs = env_override_fold [OF schema_okD(1) [OF assms], of env "lq_env_prefix req" ff c2]
  have c3: "cf_problems c3 = cf_problems c2" "cf_effective c3 = jobject"
    using envs e3 c2(2) by (auto simp: e_def split: if_splits)
  have m3: "\<forall>f \<in> set (sc_fields ?s). GetAt m3 (fs_path f) =
      (case (if lq_env_enabled req then le_env env (EnvNameFor (fs_path f) (lq_env_prefix req)) else None) of
             Some v \<Rightarrow> Some (JString v) | None \<Rightarrow> GetAt ff (fs_path f))"
    using envs e3 by (auto simp: e_def split: if_splits option.splits)
  obtain m4 c4 where cli: "fold (cli_override ?s) (lq_cli_overrides req) (m3, c3) = (m4, c4)"
    by (cases "fold (cli_override ?s) (lq_cli_overrides req) (m3, c3)")
  have c4: "cf_problems c4 = file_problems env req @ unknown_problems env req @ cli_problems req" "cf_effective c4 = jobject"
    using cli_override_problems [of ?s "lq_cli_overrides req" m3 c3] by (simp_all add: cli c2 c3 cli_problems_def)
  have m4: "\<forall>f \<in> set (sc_fields ?s). GetAt m4 (fs_path f) = layered env req f"
  proof
    fix f assume f: "f \<in> set (sc_fields ?s)"
    have known: "IsAllowedPath ?s (fs_path f)" using f schema_okD(3) [OF assms] by blast
    have "\<forall>(q, v) \<in> set (lq_cli_overrides req). IsAllowedPath ?s q \<longrightarrow> q = fs_path f \<or> aside q (fs_path f)"
      using allowed_aside [OF assms f] by blast
    from cli_override_fold [OF this known, of m3 c3] m3 f show "GetAt m4 (fs_path f) = layered env req f"
      by (simp add: cli layered_def cli_value_def ffs split: option.splits)
  qed
  have "Load env req = (let cfg = fold cross_check (sc_cross_checks ?s)
       (fold (copy_dynamic m4) (sc_dynamic_prefixes ?s) (fold (load_field env m4) (sc_fields ?s) c4)) in
      \<lparr>lr_ok = (cf_problems cfg = []), lr_config = cfg\<rparr>)"
    unfolding Load_def Let_def lf prod.case c2_def [symmetric] unfolding e_def [symmetric] e3 prod.case cli ..
  then have "lr_config (Load env req) = fold cross_check (sc_cross_checks ?s)
       (fold (copy_dynamic m4) (sc_dynamic_prefixes ?s) (fold (load_field env m4) (sc_fields ?s) c4))"
    "lr_ok (Load env req) \<longleftrightarrow> cf_problems (lr_config (Load env req)) = []"
    by (simp_all add: Let_def)
  with c4 m4 that show ?thesis by blast
qed

text \<open>The values and the problems of the result, and when it is accepted.\<close>

lemma Load_result:
  assumes "schema_ok (lq_schema req)" "cfg = lr_config (Load env req)"
  shows "\<forall>f \<in> set (sc_fields (lq_schema req)). GetAt (cf_effective cfg) (fs_path f) = field_value env f (layered env req f)"
    "\<exists>ps. cf_problems cfg = file_problems env req @ unknown_problems env req @ cli_problems req @ concat (map ps (sc_fields (lq_schema req))) @
        concat (map (cross_problems (cf_effective cfg)) (sc_cross_checks (lq_schema req))) \<and>
      (\<forall>f \<in> set (sc_fields (lq_schema req)). (ps f = [] \<longleftrightarrow> field_sound env f (layered env req f)) \<and> (\<forall>q \<in> set (ps f). pb_path q = fs_path f))"
    "lr_ok (Load env req) \<longleftrightarrow> cf_problems cfg = []"
proof -
  let ?s = "lq_schema req"
  from Load_run [OF assms(1)] obtain merged c0 where
    run: "cf_effective c0 = jobject" "\<forall>f \<in> set (sc_fields ?s). GetAt merged (fs_path f) = layered env req f"
      "cf_problems c0 = file_problems env req @ unknown_problems env req @ cli_problems req"
      "cfg = fold cross_check (sc_cross_checks ?s)
        (fold (copy_dynamic merged) (sc_dynamic_prefixes ?s) (fold (load_field env merged) (sc_fields ?s) c0))"
      "lr_ok (Load env req) \<longleftrightarrow> cf_problems cfg = []" unfolding assms(2) by metis
  define c1 where "c1 = fold (load_field env merged) (sc_fields ?s) c0"
  define c2 where "c2 = fold (copy_dynamic merged) (sc_dynamic_prefixes ?s) c1"
  note c1 = load_fields_effect [OF schema_okD(1) [OF assms(1)] c1_def [symmetric]]
  have fin: "cf_effective cfg = cf_effective c2"
      "cf_problems cfg = cf_problems c2 @ concat (map (cross_problems (cf_effective cfg)) (sc_cross_checks ?s))"
    using cross_check_effect [of "sc_cross_checks ?s" c2] run(4) by (simp_all add: c1_def c2_def)
  have empty: "GetAt jobject p = None" for p
    using segments_not_Nil [of p] by (cases "segments p") (simp_all add: GetAt_def jobject_def)
  show "\<forall>f \<in> set (sc_fields ?s). GetAt (cf_effective cfg) (fs_path f) = field_value env f (layered env req f)"
  proof
    fix f assume f: "f \<in> set (sc_fields ?s)"
    have "\<forall>d \<in> set (sc_dynamic_prefixes ?s). aside d (fs_path f)"
      using schema_okD(2) [OF assms(1) f] aside_sym by blast
    then have "GetAt (cf_effective cfg) (fs_path f) = GetAt (cf_effective c1) (fs_path f)"
      using copy_dynamic_effect [of merged "sc_dynamic_prefixes ?s" c1 "fs_path f"] by (simp add: c2_def fin(1))
    also have "\<dots> = field_value env f (layered env req f)" using c1 f run(1,2) by (simp add: empty split: option.split)
    finally show "GetAt (cf_effective cfg) (fs_path f) = field_value env f (layered env req f)" .
  qed
  have "cf_problems c2 = cf_problems c1" using copy_dynamic_effect by (simp add: c2_def)
  then have ps: "cf_problems cfg = file_problems env req @ unknown_problems env req @ cli_problems req @
      concat (map (field_problems env merged c0) (sc_fields ?s)) @ concat (map (cross_problems (cf_effective cfg)) (sc_cross_checks ?s))"
    using fin(2) c1 run(3) by simp
  have "\<forall>f \<in> set (sc_fields ?s). (field_problems env merged c0 f = [] \<longleftrightarrow> field_sound env f (layered env req f)) \<and>
      (\<forall>q \<in> set (field_problems env merged c0 f). pb_path q = fs_path f)"
    using run(2) by (auto simp: field_problems_sound) (auto simp: field_problems_def)
  with ps show "\<exists>ps. cf_problems cfg = file_problems env req @ unknown_problems env req @ cli_problems req @ concat (map ps (sc_fields (lq_schema req))) @
        concat (map (cross_problems (cf_effective cfg)) (sc_cross_checks (lq_schema req))) \<and>
      (\<forall>f \<in> set (sc_fields (lq_schema req)). (ps f = [] \<longleftrightarrow> field_sound env f (layered env req f)) \<and> (\<forall>q \<in> set (ps f). pb_path q = fs_path f))"
    by blast
  show "lr_ok (Load env req) \<longleftrightarrow> cf_problems cfg = []" by (rule run(5))
qed

lemma cross_problems_Nil: "cross_problems v (name, check) = [] \<longleftrightarrow> check v = []"
  by (simp add: cross_problems_def)

lemma Load_ok_iff:
  assumes "schema_ok (lq_schema req)"
  shows "lr_ok (Load env req) \<longleftrightarrow>
    file_problems env req = [] \<and> (\<forall>p \<in> set (CollectPaths (file_layer env req) []). IsAllowedPath (lq_schema req) p) \<and>
    (\<forall>(p, v) \<in> set (lq_cli_overrides req). IsAllowedPath (lq_schema req) p) \<and>
    (\<forall>f \<in> set (sc_fields (lq_schema req)). field_sound env f (layered env req f)) \<and>
    (\<forall>(name, check) \<in> set (sc_cross_checks (lq_schema req)). check (cf_effective (lr_config (Load env req))) = [])"
proof -
  from Load_result(2) [OF assms refl, of env] obtain ps where
    ps: "cf_problems (lr_config (Load env req)) = file_problems env req @ unknown_problems env req @ cli_problems req @
        concat (map ps (sc_fields (lq_schema req))) @
        concat (map (cross_problems (cf_effective (lr_config (Load env req)))) (sc_cross_checks (lq_schema req)))"
      "\<forall>f \<in> set (sc_fields (lq_schema req)). ps f = [] \<longleftrightarrow> field_sound env f (layered env req f)" by blast
  have "concat (map (cross_problems v) cs) = [] \<longleftrightarrow> (\<forall>(name, check) \<in> set cs. check v = [])" for v cs
    by (auto simp: cross_problems_Nil)
  then show ?thesis
    using ps by (auto simp: Load_result(3) [OF assms refl] unknown_problems_def cli_problems_def filter_empty_conv)
qed

text \<open>
  C38. One run reports everything: the configuration is accepted exactly when the file could be read, every key of the file
  and every override on the command line is known, every field is sound in its layer and every rule across fields holds; and
  each violation of any of these is among the problems of the result, under its path.
\<close>

theorem config_report:
  assumes "schema_ok (lq_schema req)" "cfg = lr_config (Load env req)"
  shows "(lr_ok (Load env req) \<longleftrightarrow>
      file_problems env req = [] \<and> (\<forall>p \<in> set (CollectPaths (file_layer env req) []). IsAllowedPath (lq_schema req) p) \<and>
      (\<forall>(p, v) \<in> set (lq_cli_overrides req). IsAllowedPath (lq_schema req) p) \<and>
      (\<forall>f \<in> set (sc_fields (lq_schema req)). field_sound env f (layered env req f)) \<and>
      (\<forall>(name, check) \<in> set (sc_cross_checks (lq_schema req)). check (cf_effective cfg) = [])) \<and>
    (let reported = pb_path ` set (cf_problems cfg) in
     pb_path ` set (file_problems env req) \<subseteq> reported \<and>
     {p \<in> set (CollectPaths (file_layer env req) []). \<not> IsAllowedPath (lq_schema req) p} \<subseteq> reported \<and>
     {p \<in> fst ` set (lq_cli_overrides req). \<not> IsAllowedPath (lq_schema req) p} \<subseteq> reported \<and>
     fs_path ` {f \<in> set (sc_fields (lq_schema req)). \<not> field_sound env f (layered env req f)} \<subseteq> reported \<and>
     (\<forall>(name, check) \<in> set (sc_cross_checks (lq_schema req)). fst ` set (check (cf_effective cfg)) \<subseteq> reported))"
proof -
  let ?s = "lq_schema req"
  from Load_result(2) [OF assms] obtain ps where
    ps: "cf_problems cfg = file_problems env req @ unknown_problems env req @ cli_problems req @ concat (map ps (sc_fields ?s)) @
        concat (map (cross_problems (cf_effective cfg)) (sc_cross_checks ?s))"
      "\<forall>f \<in> set (sc_fields ?s). (ps f = [] \<longleftrightarrow> field_sound env f (layered env req f)) \<and> (\<forall>q \<in> set (ps f). pb_path q = fs_path f)" by blast
  have fields: "fs_path f \<in> pb_path ` set (cf_problems cfg)" if f: "f \<in> set (sc_fields ?s)" "\<not> field_sound env f (layered env req f)" for f
  proof -
    have "ps f \<noteq> []" using ps(2) f by auto
    then obtain q where q: "q \<in> set (ps f)" using last_in_set by blast
    then have "pb_path q = fs_path f" "q \<in> set (cf_problems cfg)" using ps f(1) by auto
    then show ?thesis by force
  qed
  have cross: "fst ` set (check (cf_effective cfg)) \<subseteq> pb_path ` set (cf_problems cfg)" if "(name, check) \<in> set (sc_cross_checks ?s)" for name check
  proof -
    have "pb_path ` set (cross_problems (cf_effective cfg) (name, check)) = fst ` set (check (cf_effective cfg))"
      by (force simp: cross_problems_def)
    moreover have "set (cross_problems (cf_effective cfg) (name, check)) \<subseteq> set (cf_problems cfg)" using ps(1) that by auto
    ultimately show ?thesis by blast
  qed
  have "{p \<in> set (CollectPaths (file_layer env req) []). \<not> IsAllowedPath ?s p} \<subseteq> pb_path ` set (unknown_problems env req)"
    "{p \<in> fst ` set (lq_cli_overrides req). \<not> IsAllowedPath ?s p} \<subseteq> pb_path ` set (cli_problems req)"
    by (force simp: unknown_problems_def cli_problems_def)+
  moreover have "pb_path ` set (file_problems env req) \<subseteq> pb_path ` set (cf_problems cfg)"
    "pb_path ` set (unknown_problems env req) \<subseteq> pb_path ` set (cf_problems cfg)"
    "pb_path ` set (cli_problems req) \<subseteq> pb_path ` set (cf_problems cfg)" using ps(1) by auto
  ultimately have lists: "pb_path ` set (file_problems env req) \<subseteq> pb_path ` set (cf_problems cfg)"
    "{p \<in> set (CollectPaths (file_layer env req) []). \<not> IsAllowedPath ?s p} \<subseteq> pb_path ` set (cf_problems cfg)"
    "{p \<in> fst ` set (lq_cli_overrides req). \<not> IsAllowedPath ?s p} \<subseteq> pb_path ` set (cf_problems cfg)"
    by (simp, metis subset_trans, metis subset_trans)
  show ?thesis
    unfolding Let_def
    by (intro conjI lists) (use Load_ok_iff [OF assms(1), of env] assms(2) in simp, use fields in blast, use cross in blast)
qed

lemma Load_field_typed:
  assumes "schema_ok (lq_schema req)" "lr_ok (Load env req)" "f \<in> set (sc_fields (lq_schema req))"
  shows "case GetAt (cf_effective (lr_config (Load env req))) (fs_path f) of
      None \<Rightarrow> \<not> fs_has_default f \<and> \<not> fs_required f \<and> layered env req f = None
    | Some v \<Rightarrow> well_typed env f v"
proof -
  have "GetAt (cf_effective (lr_config (Load env req))) (fs_path f) = field_value env f (layered env req f)"
    using Load_result(1) [OF assms(1) refl] assms(3) by blast
  moreover have "field_sound env f (layered env req f)" using Load_ok_iff [OF assms(1)] assms(2,3) by blast
  ultimately show ?thesis
    using field_value_present [of env f "layered env req f"] field_value_typed [of env f "layered env req f"]
    by (cases "layered env req f") (auto split: option.splits)
qed

text \<open>
  C37. In an accepted configuration every field with a default, every required field and every field that a layer sets has a
  value, namely the one of the command line, else of the environment, else of the file, else the default, and the getter of its type
  returns it: an integer within the declared range, a text among the declared choices. No field has a value of another type.
\<close>

theorem config_typed:
  assumes "schema_ok (lq_schema req)" "lr_ok (Load env req)" "f \<in> set (sc_fields (lq_schema req))"
  shows "let cfg = lr_config (Load env req); path = fs_path f in
    GetAt (cf_effective cfg) path = field_value env f (layered env req f) \<and>
    (fs_has_default f \<or> fs_required f \<or> layered env req f \<noteq> None \<longrightarrow> ConfigHas cfg path) \<and>
    (ConfigHas cfg path \<longrightarrow>
      (case fs_type f of
         kString \<Rightarrow> \<exists>s. ConfigGetString cfg path = Ok s \<and> (fs_enum_values f \<noteq> [] \<longrightarrow> s \<in> set (fs_enum_values f))
       | kInt \<Rightarrow> \<exists>n. ConfigGetInt cfg path = Ok n \<and> in_i64 n \<and>
           (fs_min_value f \<le> fs_max_value f \<longrightarrow> fs_min_value f \<le> n \<and> n \<le> fs_max_value f)
       | kBool \<Rightarrow> \<exists>b. ConfigGetBool cfg path = Ok b
       | kStringList \<Rightarrow> \<exists>xs. ConfigGetStringList env cfg path = Ok xs))"
  using Load_field_typed [OF assms] Load_result(1) [OF assms(1) refl] assms(3)
  by (cases "fs_type f")
     (auto simp: Let_def ConfigHas_def well_typed_def ConfigGetString_def ConfigGetInt_def ConfigGetBool_def ConfigGetStringList_def
       is_string_def is_boolean_def is_number_integer_def get_int64_def jstrings_def RenderScalar_def
       split: option.splits json.splits)

section \<open>The configuration of the service\<close>

lemma CoreSchema_ok: "schema_ok (CoreSchema dump)"
  using core_paths by (simp add: schema_ok_def paths_def)

definition core_config :: "LoadEnv \<Rightarrow> LoadRequest \<Rightarrow> (64 word \<Rightarrow> string) \<Rightarrow> Config \<Rightarrow> bool" where
  "core_config env req dump cfg \<longleftrightarrow> lq_schema req = CoreSchema dump \<and> lr_ok (Load env req) \<and> cfg = lr_config (Load env req)"

text \<open>A field of the schema, as the rules read it and as the service reads it.\<close>

lemma core_text:
  assumes "core_config env req dump cfg" "f \<in> set core_fields" "fs_type f = kString" "fs_has_default f"
  shows "ConfigGetString cfg (fs_path f) = Ok (StrOr dump (cf_effective cfg) (fs_path f) d)"
  using Load_field_typed [of req env f] assms CoreSchema_ok [of dump]
  by (auto simp: core_config_def well_typed_def ConfigGetString_def StrOr_def GetOr_def RenderScalarOr_def is_string_def
      split: option.splits json.splits)

lemma core_bool:
  assumes "core_config env req dump cfg" "f \<in> set core_fields" "fs_type f = kBool" "fs_has_default f"
  shows "ConfigGetBool cfg (fs_path f) = Ok (StrOr dump (cf_effective cfg) (fs_path f) d = ''true'')"
  using Load_field_typed [of req env f] assms CoreSchema_ok [of dump]
  by (auto simp: core_config_def well_typed_def ConfigGetBool_def StrOr_def GetOr_def RenderScalarOr_def is_boolean_def
      split: option.splits json.splits)

lemma core_int:
  assumes "core_config env req dump cfg" "f \<in> set core_fields" "fs_type f = kInt" "fs_has_default f"
  shows "\<exists>n. ConfigGetInt cfg (fs_path f) = Ok n \<and> GetOr (cf_effective cfg) (fs_path f) d = JInt n"
  using Load_field_typed [of req env f] assms CoreSchema_ok [of dump]
  by (auto simp: core_config_def well_typed_def ConfigGetInt_def GetOr_def is_number_integer_def get_int64_def
      split: option.splits)

lemma core_consistent:
  assumes "core_config env req dump cfg"
  shows "consistency dump (cf_effective cfg) = []"
  using assms CoreSchema_ok [of dump] by (auto simp: core_config_def Load_ok_iff)

text \<open>The fields the rules speak about, by position.\<close>

lemma core_members [simp]:
  "set deployment_fields \<subseteq> set core_fields" "set http_fields \<subseteq> set core_fields" "set repository_fields \<subseteq> set core_fields"
  "set lease_fields \<subseteq> set core_fields" "set auth_fields \<subseteq> set core_fields" "set storage_fields \<subseteq> set core_fields"
  "set gc_fields \<subseteq> set core_fields"
  by (auto simp: core_fields_def)

lemmas field_defs = NewField_def FieldStr_def FieldInt_def FieldBool_def FieldList_def FieldRequired_def FieldDefault_def FieldSecret_def FieldEnum_def

definition field_at :: "FieldSpec list \<Rightarrow> nat \<Rightarrow> string \<Rightarrow> ValueType \<Rightarrow> bool" where
  "field_at fs i path t \<longleftrightarrow> i < length fs \<and> fs_path (fs ! i) = path \<and> fs_type (fs ! i) = t \<and> fs_has_default (fs ! i)"

lemma rule_fields:
  "field_at deployment_fields 0 ''deployment.environment'' kString"
  "field_at deployment_fields 1 ''deployment.max_clock_skew_seconds'' kInt"
  "field_at deployment_fields 2 ''deployment.mode'' kString"
  "field_at auth_fields 0 ''auth.mode'' kString"
  "field_at auth_fields 1 ''auth.jwt.jwks_url'' kString"
  "field_at auth_fields 4 ''auth.jwt.verify_signature'' kBool"
  "field_at auth_fields 7 ''auth.jwt.hmac_secret'' kString"
  "field_at repository_fields 0 ''metadata.repository'' kString"
  "field_at repository_fields 17 ''location.repository'' kString"
  "field_at lease_fields 0 ''leases.enabled'' kBool"
  "field_at lease_fields 1 ''leases.ttl_seconds'' kInt"
  "field_at lease_fields 2 ''leases.renew_interval_seconds'' kInt"
  "field_at lease_fields 4 ''leader_election.enabled'' kBool"
  "field_at storage_fields 17 ''storage.posix.shared_mount_required'' kBool"
  "field_at gc_fields 3 ''gc.require_lease_expiry'' kBool"
  by (simp_all add: field_at_def deployment_fields_def auth_fields_def repository_fields_def lease_fields_def storage_fields_def
      gc_fields_def field_defs)

lemma field_at_core:
  assumes "field_at fs i path t" "set fs \<subseteq> set core_fields"
  shows "fs ! i \<in> set core_fields" "fs_path (fs ! i) = path"
  using assms nth_mem [of i fs] by (auto simp: field_at_def)

lemma core_text_at:
  "core_config env req dump cfg \<Longrightarrow> field_at fs i path kString \<Longrightarrow> set fs \<subseteq> set core_fields \<Longrightarrow>
   ConfigGetString cfg path = Ok (StrOr dump (cf_effective cfg) path d)"
  using core_text [of env req dump cfg "fs ! i" d] by (force simp: field_at_def)

lemma core_bool_at:
  "core_config env req dump cfg \<Longrightarrow> field_at fs i path kBool \<Longrightarrow> set fs \<subseteq> set core_fields \<Longrightarrow>
   ConfigGetBool cfg path = Ok (StrOr dump (cf_effective cfg) path d = ''true'')"
  using core_bool [of env req dump cfg "fs ! i" d] by (force simp: field_at_def)

lemma core_int_at:
  "core_config env req dump cfg \<Longrightarrow> field_at fs i path kInt \<Longrightarrow> set fs \<subseteq> set core_fields \<Longrightarrow>
   \<exists>n. ConfigGetInt cfg path = Ok n \<and> GetOr (cf_effective cfg) path d = JInt n"
  using core_int [of env req dump cfg "fs ! i" d] by (force simp: field_at_def)

lemma problem_if_Nil [simp]: "problem_if b p m = [] \<longleftrightarrow> \<not> b"
  by (simp add: problem_if_def)

lemma consistency_Nil:
  "consistency dump c = [] \<longleftrightarrow> multi_problems dump c = [] \<and> auth_problems dump c = [] \<and> budget_problems c = [] \<and> renew_problems c = []"
  by (simp add: consistency_def)

text \<open>
  C8. A configuration the service accepts for production authenticates by signed tokens: the mode is
  \<^verbatim>\<open>jwt\<close>, signatures are verified, the shared secret is not empty, and no key service that is not implemented is named. One
  accepted for several instances keeps metadata and locations in the shared database, uses leases and leader election, requires the
  shared mount and expired leases before collecting, and tolerates a clock skew of at most a minute. A lease is always renewed
  before it expires.
\<close>

theorem production_configuration:
  assumes "lq_schema req = CoreSchema dump" "lr_ok (Load env req)" "cfg = lr_config (Load env req)"
  shows "(ConfigGetString cfg ''deployment.environment'' = Ok ''production'' \<longrightarrow>
      ConfigGetString cfg ''auth.mode'' = Ok ''jwt'' \<and> ConfigGetBool cfg ''auth.jwt.verify_signature'' = Ok True \<and>
      ConfigGetString cfg ''auth.jwt.hmac_secret'' \<noteq> Ok [] \<and> ConfigGetString cfg ''auth.jwt.jwks_url'' = Ok []) \<and>
    (ConfigGetString cfg ''deployment.mode'' = Ok ''multi'' \<longrightarrow>
      ConfigGetString cfg ''metadata.repository'' = Ok ''postgres'' \<and> ConfigGetString cfg ''location.repository'' = Ok ''postgres'' \<and>
      ConfigGetBool cfg ''leases.enabled'' = Ok True \<and> ConfigGetBool cfg ''leader_election.enabled'' = Ok True \<and>
      ConfigGetBool cfg ''storage.posix.shared_mount_required'' = Ok True \<and> ConfigGetBool cfg ''gc.require_lease_expiry'' = Ok True \<and>
      (\<exists>n. ConfigGetInt cfg ''deployment.max_clock_skew_seconds'' = Ok n \<and> 0 < n \<and> n \<le> 60)) \<and>
    (\<exists>ttl renew. ConfigGetInt cfg ''leases.ttl_seconds'' = Ok ttl \<and> ConfigGetInt cfg ''leases.renew_interval_seconds'' = Ok renew \<and> renew < ttl)"
proof -
  have cc: "core_config env req dump cfg" using assms by (simp add: core_config_def)
  note rules = core_consistent [OF cc, unfolded consistency_Nil]
  note texts = core_text_at [OF cc rule_fields(1) core_members(1), of "''development''"]
    core_text_at [OF cc rule_fields(3) core_members(1), of "''single''"]
    core_text_at [OF cc rule_fields(4) core_members(5), of "''jwt''"]
    core_text_at [OF cc rule_fields(5) core_members(5), of "[]"] core_text_at [OF cc rule_fields(7) core_members(5), of "[]"]
    core_text_at [OF cc rule_fields(8) core_members(3), of "''sqlite''"] core_text_at [OF cc rule_fields(9) core_members(3), of "''sqlite''"]
  note bools = core_bool_at [OF cc rule_fields(6) core_members(5), of "''true''"]
    core_bool_at [OF cc rule_fields(10) core_members(4), of "''false''"] core_bool_at [OF cc rule_fields(13) core_members(4), of "''false''"]
    core_bool_at [OF cc rule_fields(14) core_members(6), of "''false''"] core_bool_at [OF cc rule_fields(15) core_members(7), of "''true''"]
  obtain skew where skew: "ConfigGetInt cfg ''deployment.max_clock_skew_seconds'' = Ok skew"
      "GetOr (cf_effective cfg) ''deployment.max_clock_skew_seconds'' ''5'' = JInt skew"
    using core_int_at [OF cc rule_fields(2) core_members(1)] by blast
  obtain ttl where ttl: "ConfigGetInt cfg ''leases.ttl_seconds'' = Ok ttl" "GetOr (cf_effective cfg) ''leases.ttl_seconds'' ''60'' = JInt ttl"
    using core_int_at [OF cc rule_fields(11) core_members(4)] by blast
  obtain renew where renew: "ConfigGetInt cfg ''leases.renew_interval_seconds'' = Ok renew"
      "GetOr (cf_effective cfg) ''leases.renew_interval_seconds'' ''20'' = JInt renew"
    using core_int_at [OF cc rule_fields(12) core_members(4)] by blast
  have "renew < ttl"
    using rules by (simp add: renew_problems_def Let_def ttl(2) renew(2) is_number_integer_def get_int64_def)
  moreover have "ConfigGetString cfg ''deployment.environment'' = Ok ''production'' \<longrightarrow>
      ConfigGetString cfg ''auth.mode'' = Ok ''jwt'' \<and> ConfigGetBool cfg ''auth.jwt.verify_signature'' = Ok True \<and>
      ConfigGetString cfg ''auth.jwt.hmac_secret'' \<noteq> Ok [] \<and> ConfigGetString cfg ''auth.jwt.jwks_url'' = Ok []"
    using conjunct1 [OF conjunct2 [OF rules]] texts bools by (simp add: auth_problems_def Let_def split: if_splits)
  moreover have "ConfigGetString cfg ''deployment.mode'' = Ok ''multi'' \<longrightarrow>
      ConfigGetString cfg ''metadata.repository'' = Ok ''postgres'' \<and> ConfigGetString cfg ''location.repository'' = Ok ''postgres'' \<and>
      ConfigGetBool cfg ''leases.enabled'' = Ok True \<and> ConfigGetBool cfg ''leader_election.enabled'' = Ok True \<and>
      ConfigGetBool cfg ''storage.posix.shared_mount_required'' = Ok True \<and> ConfigGetBool cfg ''gc.require_lease_expiry'' = Ok True \<and>
      (\<exists>n. ConfigGetInt cfg ''deployment.max_clock_skew_seconds'' = Ok n \<and> 0 < n \<and> n \<le> 60)"
    using conjunct1 [OF rules] texts bools skew(1)
    by (simp add: multi_problems_def Let_def skew(2) is_number_integer_def get_int64_def split: if_splits)
  ultimately show ?thesis using ttl(1) renew(1) by blast
qed

text \<open>The defaults of the service are sound, whatever the environment holds, by an evaluation that reads digits one by one.\<close>

definition digit_of :: "char \<Rightarrow> int option" where
  "digit_of c = map_of (zip ''0123456789'' [0, 1, 2, 3, 4, 5, 6, 7, 8, 9]) c"

fun digits_value :: "int \<Rightarrow> string \<Rightarrow> int option" where
  "digits_value n [] = Some n"
| "digits_value n (c # s) = (case digit_of c of None \<Rightarrow> None | Some d \<Rightarrow> digits_value (n * 10 + d) s)"

lemma digit_of_Some: "digit_of c = Some d \<Longrightarrow> isdigit c \<and> int (digit_val c) = d"
  by (auto simp: digit_of_def isdigit_def digit_val_def split: if_splits)

lemma digits_value_Some:
  "digits_value n s = Some m \<Longrightarrow> list_all isdigit s \<and> m = foldl (\<lambda>n c. n * 10 + int (digit_val c)) n s"
  by (induction n s rule: digits_value.induct) (auto dest: digit_of_Some split: option.splits)

lemma ParseLong_digits:
  assumes "digits_value 0 s = Some n" "s \<noteq> []" "n \<le> i64_max"
  shows "ParseLong s = Some n"
proof -
  have ds: "list_all isdigit s" and n: "n = int (decimal s)"
    using digits_value_Some [OF assms(1)] by (simp_all add: decimal_int decimal_int_def)
  have "c_string s = s"
    using ds unfolding c_string_def by (intro takeWhile_eq_all_conv [THEN iffD2]) (auto simp: list_all_iff isdigit_def)
  moreover obtain c t where c: "s = c # t" using assms(2) by (cases s) auto
  then have "isdigit c" using ds by simp
  then have "\<not> isspace c" "c \<noteq> CHR ''-''" "c \<noteq> CHR ''+''" by (auto simp: isspace_def isdigit_def)
  ultimately show ?thesis using ds n assms(3) c by (simp add: ParseLong_def Let_def i64_max_def)
qed

definition default_ok :: "FieldSpec \<Rightarrow> bool" where
  "default_ok f \<longleftrightarrow> fs_has_default f \<and>
     (case fs_type f of
        kString \<Rightarrow> CHR ''$'' \<notin> set (fs_default_value f) \<and> (fs_enum_values f = [] \<or> fs_default_value f \<in> set (fs_enum_values f))
      | kInt \<Rightarrow> fs_default_value f \<noteq> [] \<and> fs_enum_values f = [] \<and>
          (case digits_value 0 (fs_default_value f) of
             None \<Rightarrow> False
           | Some n \<Rightarrow> n \<le> i64_max \<and> (fs_max_value f < fs_min_value f \<or> fs_min_value f \<le> n \<and> n \<le> fs_max_value f))
      | kBool \<Rightarrow> (fs_default_value f = ''true'' \<or> fs_default_value f = ''false'') \<and> fs_enum_values f = []
      | kStringList \<Rightarrow> fs_enum_values f = [])"

lemma expand_refs_plain: "CHR ''$'' \<notin> set s \<Longrightarrow> expand_refs env s = (s, None)"
  by (induction s) (auto simp: starts_with_def)

lemma ParseBool_literals: "ParseBool ''true'' = Some True" "ParseBool ''false'' = Some False"
  by code_simp+

lemma default_sound:
  assumes "default_ok f"
  shows "field_sound env f None"
  using assms
  by (cases "fs_type f")
     (auto simp: default_ok_def field_sound_def field_outcome_def read_input_def ExpandEnvRefs_def expand_refs_plain finish_field_def
       typed_value_def enum_check_def RenderScalar_def ParseLong_digits ParseBool_literals Let_def split: option.splits)

lemma default_number:
  assumes "digits_value 0 (fs_default_value f) = Some n" "fs_default_value f \<noteq> []" "fs_type f = kInt" "fs_has_default f" "n \<le> i64_max"
    "fs_enum_values f = []" "fs_min_value f \<le> n" "n \<le> fs_max_value f"
  shows "field_value env f None = Some (JInt n)"
  using assms ParseLong_digits [OF assms(1,2,5)]
  by (simp add: field_value_def field_outcome_def read_input_def finish_field_def typed_value_def enum_check_def)

lemma default_text:
  assumes "CHR ''$'' \<notin> set (fs_default_value f)" "fs_type f = kString" "fs_has_default f"
    "fs_enum_values f = [] \<or> fs_default_value f \<in> set (fs_enum_values f)"
  shows "field_value env f None = Some (JString (fs_default_value f))"
  using assms
  by (auto simp: field_value_def field_outcome_def read_input_def ExpandEnvRefs_def expand_refs_plain finish_field_def typed_value_def
      enum_check_def RenderScalar_def)

lemma default_true:
  assumes "fs_default_value f = ''true''" "fs_type f = kBool" "fs_has_default f" "fs_enum_values f = []"
  shows "field_value env f None = Some (JBool True)"
  using assms
  by (simp add: field_value_def field_outcome_def read_input_def finish_field_def typed_value_def enum_check_def ParseBool_literals)

lemma core_defaults:
  "list_all default_ok deployment_fields" "list_all default_ok http_fields" "list_all default_ok grpc_fields"
  "list_all default_ok storage_fields" "list_all default_ok self_signed_fields" "list_all default_ok expiry_fields"
  "list_all default_ok repository_fields" "list_all default_ok lease_fields" "list_all default_ok auth_fields"
  "list_all default_ok event_fields" "list_all default_ok gc_fields" "list_all default_ok observability_fields"
  by code_simp+

lemma core_default_sound: "f \<in> set core_fields \<Longrightarrow> field_sound env f None"
  using core_defaults by (intro default_sound) (auto simp: core_fields_def list_all_iff)

text \<open>A sample: production, with a secret, from the command line.\<close>

definition sample_load_env :: LoadEnv where
  "sample_load_env = \<lparr>le_read_file = (\<lambda>p. None), le_parse = (\<lambda>t. Ok jobject),
     le_env = (\<lambda>n. None), le_show_double = (\<lambda>w. [])\<rparr>"

definition sample_load_request :: LoadRequest where
  "sample_load_request = \<lparr>lq_schema = CoreSchema (\<lambda>w. []), lq_file_path = [], lq_env_enabled = False, lq_env_prefix = ''FSS_'',
     lq_cli_overrides = [(''deployment.environment'', ''production''), (''auth.jwt.hmac_secret'', ''k'')]\<rparr>"

definition sample_config :: Config where
  "sample_config = lr_config (Load sample_load_env sample_load_request)"

lemma sample_schema: "lq_schema sample_load_request = CoreSchema (\<lambda>w. [])" "schema_ok (lq_schema sample_load_request)"
  by (simp_all add: sample_load_request_def CoreSchema_ok)

lemma sample_layers:
  "layered sample_load_env sample_load_request f =
     (if fs_path f = ''deployment.environment'' then Some (JString ''production'')
      else if fs_path f = ''auth.jwt.hmac_secret'' then Some (JString ''k'') else None)"
  using segments_not_Nil [of "fs_path f"]
  by (cases "segments (fs_path f)")
     (auto simp: layered_def cli_value_def sample_load_request_def file_layer_def load_file_def GetAt_def jobject_def)

lemma core_field_unique:
  assumes "field_at fs i path t" "set fs \<subseteq> set core_fields" "f \<in> set core_fields" "fs_path f = path"
  shows "f = fs ! i"
proof -
  have "distinct (map fs_path core_fields)"
    using core_paths by (simp add: sorted_aside_iff paths_def)
  moreover have "fs ! i \<in> set core_fields" "fs_path (fs ! i) = fs_path f"
    using field_at_core [OF assms(1,2)] assms(4) by simp_all
  ultimately show ?thesis using assms(3) by (auto simp: distinct_map inj_on_def)
qed

lemma sample_overrides:
  "field_outcome sample_load_env (deployment_fields ! 0) (Some (JString ''production'')) ''file'' = ([], Some (JString ''production''))"
  "field_outcome sample_load_env (auth_fields ! 7) (Some (JString ''k'')) ''file'' = ([], Some (JString ''k''))"
  by code_simp+

lemma sample_sound:
  assumes "f \<in> set core_fields"
  shows "field_sound sample_load_env f (layered sample_load_env sample_load_request f)"
proof -
  consider "fs_path f = ''deployment.environment''" | "fs_path f = ''auth.jwt.hmac_secret''"
    | "layered sample_load_env sample_load_request f = None"
    by (cases "fs_path f = ''deployment.environment''"; cases "fs_path f = ''auth.jwt.hmac_secret''") (simp_all add: sample_layers)
  then show ?thesis
  proof cases
    case 1
    from core_field_unique [OF rule_fields(1) core_members(1) assms this] show ?thesis
      using 1 sample_overrides by (simp add: sample_layers field_sound_def)
  next
    case 2
    from core_field_unique [OF rule_fields(7) core_members(5) assms this] show ?thesis
      using 2 sample_overrides by (simp add: sample_layers field_sound_def)
  qed (simp add: core_default_sound assms)
qed

definition sample_value :: "FieldSpec list \<Rightarrow> nat \<Rightarrow> json option" where
  "sample_value fs i = field_value sample_load_env (fs ! i)
     (if fs_path (fs ! i) = ''deployment.environment'' then Some (JString ''production'')
      else if fs_path (fs ! i) = ''auth.jwt.hmac_secret'' then Some (JString ''k'') else None)"

lemma sample_at:
  assumes "field_at fs i path t" "set fs \<subseteq> set core_fields" "sample_value fs i = v"
  shows "GetAt (cf_effective sample_config) path = v"
proof -
  note field_at_core [OF assms(1,2)]
  then show ?thesis
    using Load_result(1) [OF sample_schema(2) sample_config_def] assms(3) by (auto simp: sample_schema(1) sample_value_def sample_layers)
qed

lemma workers_field: "field_at http_fields 7 ''server.http.worker_threads'' kInt"
  by (simp add: field_at_def http_fields_def field_defs)

lemma sample_values:
  "sample_value deployment_fields 0 = Some (JString ''production'')" "sample_value deployment_fields 2 = Some (JString ''single'')"
  "sample_value auth_fields 0 = Some (JString ''jwt'')" "sample_value auth_fields 1 = Some (JString [])"
  "sample_value auth_fields 4 = Some (JBool True)" "sample_value auth_fields 7 = Some (JString ''k'')"
proof -
  show "sample_value deployment_fields 0 = Some (JString ''production'')" "sample_value auth_fields 7 = Some (JString ''k'')"
    using sample_overrides rule_fields(1,7) by (simp_all add: sample_value_def field_at_def field_value_def)
  show "sample_value deployment_fields 2 = Some (JString ''single'')" "sample_value auth_fields 0 = Some (JString ''jwt'')"
    "sample_value auth_fields 1 = Some (JString [])" "sample_value auth_fields 4 = Some (JBool True)"
    by (simp_all add: sample_value_def deployment_fields_def auth_fields_def field_defs default_text default_true)
qed

lemma sample_numbers:
  "sample_value lease_fields 1 = Some (JInt 60)" "sample_value lease_fields 2 = Some (JInt 20)" "sample_value http_fields 7 = Some (JInt 0)"
  by (simp_all add: sample_value_def lease_fields_def http_fields_def field_defs default_number digit_of_def i64_max_def)

lemmas sample_gets = sample_at [OF rule_fields(1) core_members(1) sample_values(1)]
  sample_at [OF rule_fields(3) core_members(1) sample_values(2)] sample_at [OF rule_fields(4) core_members(5) sample_values(3)]
  sample_at [OF rule_fields(5) core_members(5) sample_values(4)] sample_at [OF rule_fields(6) core_members(5) sample_values(5)]
  sample_at [OF rule_fields(7) core_members(5) sample_values(6)] sample_at [OF rule_fields(11) core_members(4) sample_numbers(1)]
  sample_at [OF rule_fields(12) core_members(4) sample_numbers(2)] sample_at [OF workers_field core_members(2) sample_numbers(3)]

lemma sample_ok: "lr_ok (Load sample_load_env sample_load_request)"
proof -
  have rules: "consistency (\<lambda>w. []) (cf_effective sample_config) = []"
    by (simp add: consistency_def multi_problems_def auth_problems_def budget_problems_def renew_problems_def StrOr_def GetOr_def
        RenderScalarOr_def sample_gets Let_def is_number_integer_def get_int64_def problem_if_def)
  have known: "fs_path f = p \<Longrightarrow> f \<in> set core_fields \<Longrightarrow> IsAllowedPath (CoreSchema (\<lambda>w. [])) p" for f p
    using schema_okD(3) [OF CoreSchema_ok] by auto
  have "IsAllowedPath (CoreSchema (\<lambda>w. [])) ''deployment.environment''" "IsAllowedPath (CoreSchema (\<lambda>w. [])) ''auth.jwt.hmac_secret''"
    using field_at_core [OF rule_fields(1) core_members(1)] field_at_core [OF rule_fields(7) core_members(5)] known by blast+
  then show ?thesis
    unfolding Load_ok_iff [OF sample_schema(2)] using rules sample_sound
    by (simp add: sample_schema(1) sample_config_def)
       (simp add: sample_load_request_def file_problems_def file_layer_def load_file_def jobject_def)
qed

theorem config_report_witness:
  "\<not> lr_ok (Load sample_load_env (sample_load_request\<lparr>lq_cli_overrides := [(''no.such'', [])]\<rparr>)) \<and>
   ''no.such'' \<in> pb_path ` set (cf_problems (lr_config (Load sample_load_env (sample_load_request\<lparr>lq_cli_overrides := [(''no.such'', [])]\<rparr>))))"
proof -
  let ?req = "sample_load_request\<lparr>lq_cli_overrides := [(''no.such'', [])]\<rparr>"
  have ok: "schema_ok (lq_schema ?req)" using sample_schema by simp
  have "\<not> IsAllowedPath (lq_schema ?req) ''no.such''"
  proof -
    have "''no.such'' \<notin> fs_path ` set core_fields"
    proof
      assume "''no.such'' \<in> fs_path ` set core_fields"
      then have "section_of ''no.such'' \<in> section_of ` fs_path ` set core_fields" by (rule imageI)
      then have "''no'' \<in> section_of ` fs_path ` set core_fields" by (simp add: section_of_def)
      moreover have "section_of ` fs_path ` set core_fields \<subseteq> {''deployment'', ''server'', ''storage'', ''self_signed'', ''expiry'', ''http'',
          ''metadata'', ''location'', ''leases'', ''leader_election'', ''auth'', ''legal'', ''schema'', ''events'', ''partition'', ''gc'', ''observability''}"
        using deployment_paths server_paths storage_paths self_signed_paths expiry_paths repository_paths lease_paths auth_paths
          event_paths gc_paths observability_paths
        by (auto simp: core_fields_def in_sections_def paths_def list_all_iff)
      ultimately show False by auto
    qed
    then show ?thesis using schema_okD(3) [OF ok] by (auto simp: sample_schema(1) under_prefix_def)
  qed
  then show ?thesis using config_report [OF ok refl, of sample_load_env] by (auto simp: Let_def)
qed

theorem config_typed_witness:
  "ConfigGetString sample_config ''deployment.environment'' = Ok ''production'' \<or>
   ConfigGetString sample_config ''deployment.environment'' = Ok ''development''"
proof -
  have f: "deployment_fields ! 0 \<in> set (sc_fields (lq_schema sample_load_request))"
    using field_at_core [OF rule_fields(1) core_members(1)] by (simp add: sample_schema(1))
  have "fs_enum_values (deployment_fields ! 0) = [''development'', ''production'']" "fs_path (deployment_fields ! 0) = ''deployment.environment''"
    "fs_type (deployment_fields ! 0) = kString" "fs_has_default (deployment_fields ! 0)"
    by (simp_all add: deployment_fields_def field_defs)
  then show ?thesis using config_typed [OF sample_schema(2) sample_ok f] by (auto simp: Let_def sample_config_def)
qed

theorem production_configuration_witness:
  "ConfigGetString sample_config ''auth.mode'' = Ok ''jwt'' \<and> ConfigGetBool sample_config ''auth.jwt.verify_signature'' = Ok True"
  using production_configuration [OF sample_schema(1) sample_ok sample_config_def]
  by (simp add: ConfigGetString_def sample_gets)

section \<open>Secrets\<close>

lemma redact_fold:
  assumes "sorted_wrt aside (map fs_path fs)"
  shows "(\<forall>f \<in> set fs. GetAt (fold redact_field fs v) (fs_path f) =
      (if fs_secret f then map_option (\<lambda>_. JString ''***'') (GetAt v (fs_path f)) else GetAt v (fs_path f))) \<and>
    (\<forall>p. (\<forall>f \<in> set fs. aside (fs_path f) p) \<longrightarrow> GetAt (fold redact_field fs v) p = GetAt v p)"
  using assms
proof (induction fs arbitrary: v)
  case (Cons f fs)
  have s: "sorted_wrt aside (map fs_path fs)" "\<forall>g \<in> set fs. aside (fs_path f) (fs_path g)" using Cons.prems by auto
  have v1: "aside (fs_path f) p \<Longrightarrow> GetAt (redact_field f v) p = GetAt v p" for p
    by (simp add: redact_field_def GetAt_SetAt_aside)
  have f1: "GetAt (redact_field f v) (fs_path f) =
      (if fs_secret f then map_option (\<lambda>_. JString ''***'') (GetAt v (fs_path f)) else GetAt v (fs_path f))"
    by (auto simp: redact_field_def)
  have "\<forall>g \<in> set fs. aside (fs_path g) (fs_path f)" using s(2) aside_sym by blast
  then show ?case using Cons.IH [OF s(1), of "redact_field f v"] s(2) v1 f1 by simp
qed simp

text \<open>What is printed of a configuration shows three stars in place of every declared secret and everything else as it is.\<close>

lemma secrets_masked:
  assumes "schema_ok schema" "f \<in> set (sc_fields schema)"
  shows "GetAt (fold redact_field (sc_fields schema) v) (fs_path f) =
    (if fs_secret f then map_option (\<lambda>_. JString ''***'') (GetAt v (fs_path f)) else GetAt v (fs_path f))"
  using redact_fold [OF schema_okD(1) [OF assms(1)]] assms(2) by blast

section \<open>Limits of the checks\<close>

text \<open>A reference to an unset variable makes the loading fail even when the field has a default.\<close>

lemma unset_reference_fails:
  "\<not> field_sound sample_load_env (FieldDefault ''x'' (NewField ''p'')) (Some (JString ''${ENV:X}''))"
  by code_simp

text \<open>A field declared with an upper bound below its lower bound accepts every number: the memory budget of transfers, declared to be
  at least a mebibyte, may be negative.\<close>

lemma unchecked_lower_bound:
  "field_outcome sample_load_env (http_fields ! 15) (Some (JInt (- 5))) ''file'' = ([], Some (JInt (- 5))) \<and>
   fs_min_value (http_fields ! 15) = 1048576"
  by code_simp

end
