(* ===== verification/Metrics.thy ===== *)
theory Metrics
  imports Result_Type
begin

text \<open>
  \<^verbatim>\<open>common/metrics/metrics\<close>: counters and gauges by name and labels, and their Prometheus text. Every method runs under one mutex
  and is one step.
\<close>

section \<open>State\<close>

datatype MetricKind = kCounter | kGauge

type_synonym Labels = "(string \<times> string) list"

record MetricsRegistry =
  mr_families :: "(string \<times> (MetricKind \<times> string)) list"
  mr_samples :: "(string \<times> int) list"
  mr_sample_index :: "(string \<times> (string \<times> Labels)) list"

definition mr_empty :: MetricsRegistry where
  "mr_empty = \<lparr>mr_families = [], mr_samples = [], mr_sample_index = []\<rparr>"

section \<open>Operations\<close>

fun EscapeLabelValue :: "string \<Rightarrow> string" where
  "EscapeLabelValue [] = []"
| "EscapeLabelValue (c # s) =
     (if c = CHR 0x5C then [CHR 0x5C, CHR 0x5C]
      else if c = CHR 0x22 then [CHR 0x5C, CHR 0x22]
      else if c = CHR 0x0A then [CHR 0x5C, CHR ''n'']
      else [c]) @ EscapeLabelValue s"

fun render_pairs :: "Labels \<Rightarrow> string" where
  "render_pairs [] = []"
| "render_pairs [(k, v)] = k @ [CHR ''='', CHR 0x22] @ EscapeLabelValue v @ [CHR 0x22]"
| "render_pairs ((k, v) # p # ps) = k @ [CHR ''='', CHR 0x22] @ EscapeLabelValue v @ [CHR 0x22, CHR '',''] @ render_pairs (p # ps)"

definition RenderLabels :: "Labels \<Rightarrow> string" where
  "RenderLabels labels = (if labels = [] then [] else ''{'' @ render_pairs labels @ ''}'')"

definition SampleKey :: "string \<Rightarrow> Labels \<Rightarrow> string" where
  "SampleKey name labels = name @ concat (map (\<lambda>(k, v). [CHR 0x1F] @ k @ ''='' @ v) labels)"

definition MetricRegister :: "string \<Rightarrow> MetricKind \<Rightarrow> string \<Rightarrow> MetricsRegistry \<Rightarrow> MetricsRegistry" where
  "MetricRegister name kind help r = r\<lparr>mr_families := map_put name (kind, help) (mr_families r)\<rparr>"

definition sample_value_of :: "MetricsRegistry \<Rightarrow> string \<Rightarrow> int" where
  "sample_value_of r key = (case map_of (mr_samples r) key of None \<Rightarrow> 0 | Some v \<Rightarrow> v)"

definition MetricIncrement :: "string \<Rightarrow> Labels \<Rightarrow> int \<Rightarrow> MetricsRegistry \<Rightarrow> MetricsRegistry" where
  "MetricIncrement name labels delta r =
     (let key = SampleKey name labels in
      r\<lparr>mr_samples := map_put key (wrap_i64 (sample_value_of r key + delta)) (mr_samples r),
        mr_sample_index := map_put key (name, labels) (mr_sample_index r)\<rparr>)"

definition MetricSetGauge :: "string \<Rightarrow> int \<Rightarrow> Labels \<Rightarrow> MetricsRegistry \<Rightarrow> MetricsRegistry" where
  "MetricSetGauge name v labels r =
     (let key = SampleKey name labels in
      r\<lparr>mr_samples := map_put key v (mr_samples r), mr_sample_index := map_put key (name, labels) (mr_sample_index r)\<rparr>)"

definition MetricValue :: "MetricsRegistry \<Rightarrow> string \<Rightarrow> Labels \<Rightarrow> int" where
  "MetricValue r name labels = sample_value_of r (SampleKey name labels)"

definition sample_line :: "string \<Rightarrow> Labels \<Rightarrow> int \<Rightarrow> string" where
  "sample_line name labels v = name @ RenderLabels labels @ '' '' @ to_string v"

definition lines_by_family :: "MetricsRegistry \<Rightarrow> (string \<times> string list) list" where
  "lines_by_family r = fold (\<lambda>(key, name, labels) m.
     case map_of (mr_samples r) key of
       None \<Rightarrow> m
     | Some v \<Rightarrow> map_put name ((case map_of m name of None \<Rightarrow> [] | Some ls \<Rightarrow> ls) @ [sample_line name labels v]) m)
     (mr_sample_index r) []"

definition family_header :: "MetricsRegistry \<Rightarrow> string \<Rightarrow> string" where
  "family_header r name =
     (case map_of (mr_families r) name of
        None \<Rightarrow> []
      | Some (kind, help) \<Rightarrow>
          ''# HELP '' @ name @ '' '' @ help @ [CHR 0x0A] @
          ''# TYPE '' @ name @ '' '' @ (if kind = kCounter then ''counter'' else ''gauge'') @ [CHR 0x0A])"

definition RenderPrometheus :: "MetricsRegistry \<Rightarrow> string" where
  "RenderPrometheus r = concat (map (\<lambda>(name, lines).
     family_header r name @ concat (map (\<lambda>l. l @ [CHR 0x0A]) (sort lines))) (lines_by_family r))"

definition MetricReset :: "MetricsRegistry \<Rightarrow> MetricsRegistry" where
  "MetricReset r = r\<lparr>mr_samples := [], mr_sample_index := []\<rparr>"

section \<open>Samples are kept apart\<close>

text \<open>Names and label texts without the separator, and label names without an equals sign, never share a sample.\<close>

definition plain_text :: "string \<Rightarrow> bool" where
  "plain_text s \<longleftrightarrow> CHR 0x1F \<notin> set s"

definition plain_labels :: "Labels \<Rightarrow> bool" where
  "plain_labels ls \<longleftrightarrow> (\<forall>(k, v) \<in> set ls. plain_text k \<and> plain_text v \<and> CHR ''='' \<notin> set k)"

lemma append_sep_inject:
  assumes "c \<notin> set a" "c \<notin> set b" "a @ c # s = b @ c # t"
  shows "a = b \<and> s = t"
proof -
  have "a = b"
    using arg_cong [OF assms(3), of "takeWhile (\<lambda>d. d \<noteq> c)"] by (simp add: takeWhile_no_sep assms(1,2))
  then show ?thesis using assms(3) by simp
qed

definition starts_sep :: "string \<Rightarrow> bool" where
  "starts_sep s \<longleftrightarrow> s = [] \<or> hd s = CHR 0x1F"

lemma append_sep_ends:
  assumes "CHR 0x1F \<notin> set a" "CHR 0x1F \<notin> set b" "a @ s = b @ t" "starts_sep s" "starts_sep t"
  shows "a = b \<and> s = t"
proof -
  have "takeWhile (\<lambda>d. d \<noteq> CHR 0x1F) (x @ y) = x" if "CHR 0x1F \<notin> set x" "starts_sep y" for x y
    using that by (cases y) (auto simp: starts_sep_def takeWhile_append)
  then have "a = b" using assms by metis
  then show ?thesis using assms(3) by simp
qed

definition label_text :: "Labels \<Rightarrow> string" where
  "label_text ls = concat (map (\<lambda>(k, v). [CHR 0x1F] @ k @ ''='' @ v) ls)"

lemma label_text_simps: "label_text [] = []" "label_text ((k, v) # ls) = CHR 0x1F # k @ CHR ''='' # v @ label_text ls"
  by (simp_all add: label_text_def)

lemma label_text_starts: "starts_sep (label_text ls)"
  by (cases ls) (auto simp: starts_sep_def label_text_simps)

lemma label_text_inject: "plain_labels ls \<Longrightarrow> plain_labels ms \<Longrightarrow> label_text ls = label_text ms \<Longrightarrow> ls = ms"
proof (induction ls arbitrary: ms)
  case Nil
  then show ?case by (cases ms) (auto simp: label_text_simps)
next
  case (Cons kv ls)
  obtain k v where kv: "kv = (k, v)" by (cases kv)
  from Cons.prems(3) obtain j w ms' where ms: "ms = (j, w) # ms'" by (cases ms) (auto simp: kv label_text_simps)
  have eq: "k @ CHR ''='' # v @ label_text ls = j @ CHR ''='' # w @ label_text ms'"
    using Cons.prems(3) by (simp add: kv ms label_text_simps)
  have keys: "CHR ''='' \<notin> set k" "CHR ''='' \<notin> set j" using Cons.prems(1,2) by (auto simp: plain_labels_def kv ms)
  note e = append_sep_inject [OF keys eq]
  have vals: "CHR 0x1F \<notin> set v" "CHR 0x1F \<notin> set w"
    using Cons.prems(1,2) by (auto simp: plain_labels_def plain_text_def kv ms)
  have "v = w \<and> label_text ls = label_text ms'"
    by (rule append_sep_ends [OF vals conjunct2 [OF e] label_text_starts label_text_starts])
  moreover have "plain_labels ls" "plain_labels ms'" using Cons.prems(1,2) by (simp_all add: plain_labels_def kv ms)
  ultimately show ?case using e Cons.IH [of ms'] by (simp add: kv ms)
qed

lemma SampleKey_inject:
  assumes "plain_text n" "plain_text m" "plain_labels ls" "plain_labels ms"
  shows "SampleKey n ls = SampleKey m ms \<longleftrightarrow> n = m \<and> ls = ms"
proof
  assume "SampleKey n ls = SampleKey m ms"
  then have "n @ label_text ls = m @ label_text ms" by (simp add: SampleKey_def label_text_def)
  with append_sep_ends [OF assms(1,2) [unfolded plain_text_def] this label_text_starts label_text_starts]
  show "n = m \<and> ls = ms" using label_text_inject [OF assms(3,4)] by blast
qed simp

lemma MetricValue_Increment:
  assumes "plain_text n" "plain_text m" "plain_labels ls" "plain_labels ms"
  shows "MetricValue (MetricIncrement n ls d r) m ms =
    (if n = m \<and> ls = ms then wrap_i64 (MetricValue r m ms + d) else MetricValue r m ms)"
  using SampleKey_inject [OF assms] by (auto simp: MetricValue_def MetricIncrement_def sample_value_of_def Let_def)

text \<open>An escaped label value can be read back, and never ends its line or its quotes.\<close>

fun unescape :: "string \<Rightarrow> string" where
  "unescape (c # d # s) = (if c = CHR 0x5C then (if d = CHR ''n'' then CHR 0x0A else d) # unescape s else c # unescape (d # s))"
| "unescape s = s"

lemma unescape_Cons: "c \<noteq> CHR 0x5C \<Longrightarrow> unescape (c # s) = c # unescape s"
  by (cases s) auto

lemma unescape_escape: "unescape (EscapeLabelValue s) = s"
  by (induction s) (auto simp: unescape_Cons)

lemma escape_one_line: "CHR 0x0A \<notin> set (EscapeLabelValue s)"
  by (induction s) auto

end
