(* ===== verification/Remote_Services.thy ===== *)
theory Remote_Services
  imports Ports Metrics
begin

text \<open>
  The clients of external services: the entitlements authorizer (\<^verbatim>\<open>infra/auth/remote\<close>), the legal and schema validators
  (\<^verbatim>\<open>infra/legal\<close>, \<^verbatim>\<open>infra/schema\<close>), the webhook publisher (\<^verbatim>\<open>infra/event\<close>) and the metadata repository on a storage
  service (\<^verbatim>\<open>infra/metadata/remote\<close>). The HTTP library, the JSON library and the digest are arguments: a request is a record of the options
  the code sets on a handle, its answer a transport error or a status and a body. No request follows redirects;
  URLs, headers and paths are handed over as C strings.
\<close>

section \<open>The library\<close>

datatype CurlMethod = CurlGet | CurlPost | CurlPut

text \<open>\<open>cq_body = None\<close>: the request sets no body of its own.\<close>

record CurlRequest =
  cq_url :: string
  cq_method :: CurlMethod
  cq_headers :: "string list"
  cq_body :: "string option"
  cq_connect_timeout_ms :: int
  cq_timeout_ms :: int
  cq_verify_tls :: bool
  cq_ca_bundle :: "string option"

record CurlReply =
  cy_error :: "string option"
  cy_status :: int
  cy_body :: string

record 'w RemoteLib =
  rl_init :: "'w \<Rightarrow> 'w \<times> bool"
  rl_perform :: "CurlRequest \<Rightarrow> 'w \<Rightarrow> 'w \<times> CurlReply"
  rl_parse :: "string \<Rightarrow> json Result"
  rl_dump :: "json \<Rightarrow> string"
  rl_sha256_hex :: "string \<Rightarrow> string"

definition Unavailable :: "string \<Rightarrow> 'a Result" where
  "Unavailable m = Err kUnavailable m"

definition ca_bundle :: "bool \<Rightarrow> string \<Rightarrow> string option" where
  "ca_bundle verify_tls path = (if verify_tls \<and> path \<noteq> [] then Some (c_str path) else None)"

definition json_headers :: "string list" where
  "json_headers = [''Content-Type: application/json'', ''Accept: application/json'']"

section \<open>The entitlements authorizer\<close>

record RemoteEntitlementsOptions =
  eo_base_url :: string
  eo_authorize_path :: string
  eo_timeout_ms :: int
  eo_connect_timeout_ms :: int
  eo_verify_tls :: bool
  eo_ca_bundle_path :: string

definition RenderRoles :: "'w RemoteLib \<Rightarrow> string list \<Rightarrow> string" where
  "RenderRoles lib roles = rl_dump lib (JObject (jset ''roles'' (jstrings roles) []))"

definition entitlements_request :: "'w RemoteLib \<Rightarrow> RemoteEntitlementsOptions \<Rightarrow> string list \<Rightarrow> string \<Rightarrow> string \<Rightarrow> CurlRequest" where
  "entitlements_request lib opt roles part token =
     \<lparr>cq_url = c_str (eo_base_url opt @ eo_authorize_path opt), cq_method = CurlPost,
      cq_headers = json_headers @ [c_str (''Authorization: '' @ token), c_str (''data-partition-id: '' @ part)],
      cq_body = Some (RenderRoles lib roles), cq_connect_timeout_ms = eo_connect_timeout_ms opt,
      cq_timeout_ms = eo_timeout_ms opt, cq_verify_tls = eo_verify_tls opt,
      cq_ca_bundle = ca_bundle (eo_verify_tls opt) (eo_ca_bundle_path opt)\<rparr>"

definition entitlements_answer :: "'w RemoteLib \<Rightarrow> CurlReply \<Rightarrow> bool Result" where
  "entitlements_answer lib reply =
     (case cy_error reply of
        Some e \<Rightarrow> Unavailable (msg_ent_unreachable @ e)
      | None \<Rightarrow>
          if cy_status reply = 401 then Err kUnauthenticated msg_ent_401
          else if cy_status reply \<noteq> 200
          then Unavailable (msg_ent_status @ to_string (cy_status reply) @ msg_fail_closed)
          else (case rl_parse lib (cy_body reply) of
                  Inr (JObject m) \<Rightarrow>
                    (case map_of m ''allowed'' of
                       Some (JBool b) \<Rightarrow> Ok b
                     | _ \<Rightarrow> Unavailable msg_ent_allowed)
                | _ \<Rightarrow> Unavailable msg_ent_json))"

definition AskEntitlements ::
  "'w RemoteLib \<Rightarrow> RemoteEntitlementsOptions \<Rightarrow> string list \<Rightarrow> string \<Rightarrow> string \<Rightarrow> ('w, bool) action" where
  "AskEntitlements lib opt roles part token w =
     (if eo_base_url opt = []
      then (w, Unavailable msg_ent_no_url)
      else (case rl_init lib w of
              (w, False) \<Rightarrow> (w, Unavailable msg_curl_init)
            | (w, True) \<Rightarrow>
                (case rl_perform lib (entitlements_request lib opt roles part token) w of
                   (w, reply) \<Rightarrow> (w, entitlements_answer lib reply))))"

definition comma_list :: "string list \<Rightarrow> string" where
  "comma_list roles = foldl (\<lambda>wanted r. (if wanted = [] then [] else wanted @ '', '') @ r) [] roles"

definition RemoteAuthorizeAny ::
  "'w RemoteLib \<Rightarrow> RemoteEntitlementsOptions \<Rightarrow> string list \<Rightarrow> string \<Rightarrow> string \<Rightarrow> ('w, unit) action" where
  "RemoteAuthorizeAny lib opt roles part token w =
     (if roles = [] then (w, Err kInternal msg_any_roles)
      else if token = [] then (w, Err kUnauthenticated ''Missing authorization token'')
      else FSS_TRY_ST (AskEntitlements lib opt roles part token w) (\<lambda>w allowed.
        if \<not> allowed then (w, Err kPermissionDenied (msg_ent_denied @ comma_list roles))
        else (w, Ok ())))"

definition RemoteAuthorize ::
  "'w RemoteLib \<Rightarrow> RemoteEntitlementsOptions \<Rightarrow> string \<Rightarrow> string \<Rightarrow> string \<Rightarrow> ('w, unit) action" where
  "RemoteAuthorize lib opt role part token = RemoteAuthorizeAny lib opt [role] part token"

section \<open>The validators\<close>

record RemoteValidatorOptions =
  vo_base_url :: string
  vo_timeout_ms :: int
  vo_connect_timeout_ms :: int
  vo_verify_tls :: bool
  vo_ca_bundle_path :: string

definition validator_request :: "RemoteValidatorOptions \<Rightarrow> string \<Rightarrow> CurlRequest" where
  "validator_request opt body =
     \<lparr>cq_url = c_str (vo_base_url opt), cq_method = CurlPost, cq_headers = json_headers, cq_body = Some body,
      cq_connect_timeout_ms = vo_connect_timeout_ms opt, cq_timeout_ms = vo_timeout_ms opt,
      cq_verify_tls = vo_verify_tls opt, cq_ca_bundle = ca_bundle (vo_verify_tls opt) (vo_ca_bundle_path opt)\<rparr>"

text \<open>Both validators read their answers alike; they differ in the name that opens their messages.\<close>

definition validator_answer :: "'w RemoteLib \<Rightarrow> string \<Rightarrow> CurlReply \<Rightarrow> unit Result" where
  "validator_answer lib who reply =
     (case cy_error reply of
        Some e \<Rightarrow> Unavailable (who @ msg_val_unreachable @ e)
      | None \<Rightarrow>
          if cy_status reply \<noteq> 200
          then Unavailable (who @ msg_val_status @ to_string (cy_status reply) @ msg_fail_closed)
          else (case rl_parse lib (cy_body reply) of
                  Inr (JObject m) \<Rightarrow>
                    (case map_of m ''valid'' of
                       Some (JBool True) \<Rightarrow> Ok ()
                     | Some (JBool False) \<Rightarrow>
                         Err kInvalidArgument
                           (case map_of m ''message'' of
                              Some (JString (c # t)) \<Rightarrow> c # t
                            | _ \<Rightarrow> who @ msg_val_failed)
                     | _ \<Rightarrow> Unavailable (who @ msg_val_valid))
                | _ \<Rightarrow> Unavailable (who @ msg_val_json)))"

definition ask_validator :: "'w RemoteLib \<Rightarrow> RemoteValidatorOptions \<Rightarrow> string \<Rightarrow> json \<Rightarrow> string \<Rightarrow> ('w, unit) action" where
  "ask_validator lib opt who body no_url w =
     (if vo_base_url opt = [] then (w, Unavailable no_url)
      else (case rl_init lib w of
              (w, False) \<Rightarrow> (w, Unavailable msg_curl_init)
            | (w, True) \<Rightarrow>
                (case rl_perform lib (validator_request opt (rl_dump lib body)) w of
                   (w, reply) \<Rightarrow> (w, validator_answer lib who reply))))"

definition RemoteLegalValidate :: "'w RemoteLib \<Rightarrow> RemoteValidatorOptions \<Rightarrow> string \<Rightarrow> string list \<Rightarrow> ('w, unit) action" where
  "RemoteLegalValidate lib opt part tags w =
     (if tags = [] then (w, Err kInvalidArgument msg_legal_tags_empty)
      else ask_validator lib opt ''Legal''
             (JObject (jset ''legaltags'' (jstrings tags) (jset ''partition'' (JString part) [])))
             msg_legal_no_url w)"

definition RemoteSchemaValidate :: "'w RemoteLib \<Rightarrow> RemoteValidatorOptions \<Rightarrow> string \<Rightarrow> json \<Rightarrow> ('w, unit) action" where
  "RemoteSchemaValidate lib opt kind record_json w =
     ask_validator lib opt ''Schema''
       (JObject (jset ''record'' record_json (jset ''kind'' (JString kind) [])))
       msg_schema_no_url w"

section \<open>The webhook publisher\<close>

record LogEntry =
  lg_message :: string
  lg_fields :: "(string \<times> string) list"

text \<open>The state of the clients that log and count.\<close>

record 'w RemoteState =
  rm_world :: 'w
  rm_log :: "LogEntry list"
  rm_metrics :: MetricsRegistry

definition log_warn :: "string \<Rightarrow> (string \<times> string) list \<Rightarrow> 'w RemoteState \<Rightarrow> 'w RemoteState" where
  "log_warn m fs s = s\<lparr>rm_log := rm_log s @ [\<lparr>lg_message = m, lg_fields = fs\<rparr>]\<rparr>"

record WebhookOptions =
  wo_url :: string
  wo_timeout_ms :: int
  wo_connect_timeout_ms :: int
  wo_topic :: string
  wo_verify_tls :: bool
  wo_ca_bundle_path :: string

definition default_connect_timeout :: "int \<Rightarrow> int \<Rightarrow> int" where
  "default_connect_timeout connect_ms timeout_ms =
     (if connect_ms \<le> 0 then (if timeout_ms < 1000 then timeout_ms else 1000) else connect_ms)"

definition NewWebhook :: "WebhookOptions \<Rightarrow> WebhookOptions" where
  "NewWebhook opt = opt\<lparr>wo_connect_timeout_ms := default_connect_timeout (wo_connect_timeout_ms opt) (wo_timeout_ms opt)\<rparr>"

definition EffectiveTopic :: "WebhookOptions \<Rightarrow> string \<Rightarrow> string" where
  "EffectiveTopic opt port_topic = (if wo_topic opt = [] then port_topic else wo_topic opt)"

definition publish_failed :: "string \<Rightarrow> string \<Rightarrow> 'w RemoteState \<Rightarrow> 'w RemoteState \<times> unit Result" where
  "publish_failed kind m s =
     (log_warn (''Failed to publish event: '' @ m) [(''component'', ''event_publisher''), (''kind'', kind)] s, Unavailable m)"

definition WebhookPost ::
  "'w RemoteLib \<Rightarrow> WebhookOptions \<Rightarrow> string \<Rightarrow> string \<Rightarrow> 'w RemoteState \<Rightarrow> 'w RemoteState \<times> unit Result" where
  "WebhookPost lib opt kind body s =
     (if wo_url opt = []
      then publish_failed kind (msg_hook_no_url @ kind @ msg_close_paren_full) s
      else (case rl_init lib (rm_world s) of
              (w, False) \<Rightarrow>
                publish_failed kind (msg_hook_init @ kind @ msg_close_paren_full) (s\<lparr>rm_world := w\<rparr>)
            | (w, True) \<Rightarrow>
                (case rl_perform lib
                   \<lparr>cq_url = c_str (wo_url opt), cq_method = CurlPost, cq_headers = json_headers, cq_body = Some body,
                    cq_connect_timeout_ms = wo_connect_timeout_ms opt, cq_timeout_ms = wo_timeout_ms opt,
                    cq_verify_tls = wo_verify_tls opt, cq_ca_bundle = ca_bundle (wo_verify_tls opt) (wo_ca_bundle_path opt)\<rparr> w of
                   (w, reply) \<Rightarrow>
                     let s = s\<lparr>rm_world := w\<rparr> in
                     (case cy_error reply of
                        Some e \<Rightarrow>
                          publish_failed kind (msg_hook_transport @ kind @ msg_paren_colon @ e @
                            msg_hook_endpoint @ wo_url opt @ msg_hook_timeout @ to_string (wo_timeout_ms opt) @
                            msg_hook_ms) s
                      | None \<Rightarrow>
                          if cy_status reply < 200 \<or> cy_status reply \<ge> 300 then
                            publish_failed kind (msg_hook_status @ kind @ msg_hook_http @
                              to_string (cy_status reply) @ msg_hook_endpoint @ wo_url opt @ msg_close_paren_full) s
                          else (s, Ok ())))))"

definition WebhookStatusChanged ::
  "'w RemoteLib \<Rightarrow> WebhookOptions \<Rightarrow> string \<Rightarrow> StatusChangedEvent \<Rightarrow> 'w RemoteState \<Rightarrow> 'w RemoteState \<times> unit Result" where
  "WebhookStatusChanged lib opt topic e =
     WebhookPost lib opt ''statusChanged'' (rl_dump lib
       (JObject (jset ''body''
         (JObject (jset ''version'' (JInt (se_version e)) (jset ''datasetSync'' (JString (se_dataset_sync e))
           (jset ''status'' (JString (se_status e)) (jset ''partition'' (JString (se_partition e))
             (jset ''recordId'' (JString (se_record_id e)) []))))))
         (jset ''kind'' (JString ''statusChanged'') (jset ''topic'' (JString (EffectiveTopic opt topic)) [])))))"

definition WebhookDatasetDetails ::
  "'w RemoteLib \<Rightarrow> WebhookOptions \<Rightarrow> string \<Rightarrow> DatasetDetailsEvent \<Rightarrow> 'w RemoteState \<Rightarrow> 'w RemoteState \<times> unit Result" where
  "WebhookDatasetDetails lib opt topic e =
     WebhookPost lib opt ''datasetDetails'' (rl_dump lib
       (JObject (jset ''body''
         (JArray [JObject (jset ''properties''
           (JObject (jset ''timestamp'' (JInt (de_timestamp_millis e)) (jset ''recordCount'' (JInt (de_record_count e))
             (jset ''datasetVersionId'' (JString (de_dataset_version_id e)) (jset ''datasetType'' (JString (de_dataset_type e))
               (jset ''datasetId'' (JString (de_dataset_id e)) (jset ''correlationId'' (JString (de_correlation_id e)) [])))))))
           [])])
         (jset ''kind'' (JString ''datasetDetails'') (jset ''topic'' (JString (EffectiveTopic opt topic)) [])))))"

end
