(* ===== verification/Remote_Metadata.thy ===== *)
theory Remote_Metadata
  imports Remote_Services
begin

text \<open>
  The metadata repository on a storage service (\<^verbatim>\<open>infra/metadata/remote\<close>): records are put, fetched and deleted by HTTP calls, the
  record id of a file is derived from its partition and file source, and every call is counted. The service behind the calls
  is the \<open>rl_perform\<close> of the library argument.
\<close>

section \<open>Options and helpers\<close>

record RemoteMetadataOptions =
  mo_base_url :: string
  mo_static_token :: string
  mo_timeout_ms :: int
  mo_connect_timeout_ms :: int
  mo_verify_tls :: bool
  mo_ca_bundle_path :: string
  mo_metrics :: bool

definition kMetricName :: string where
  "kMetricName = ''fss_metadata_remote_requests_total''"

definition NewRemoteMetadata :: "RemoteMetadataOptions \<Rightarrow> 'w RemoteState \<Rightarrow> RemoteMetadataOptions \<times> 'w RemoteState" where
  "NewRemoteMetadata opt s =
     (opt\<lparr>mo_connect_timeout_ms := default_connect_timeout (mo_connect_timeout_ms opt) (mo_timeout_ms opt)\<rparr>,
      if mo_metrics opt
      then s\<lparr>rm_metrics := MetricRegister kMetricName kCounter
               msg_remote_help (rm_metrics s)\<rparr>
      else s)"

definition Is2xx :: "int \<Rightarrow> bool" where
  "Is2xx status \<longleftrightarrow> 200 \<le> status \<and> status < 300"

definition ReadVersion :: "json \<Rightarrow> int option" where
  "ReadVersion v =
     (if is_number_integer v then Some (get_int64 v) else (case v of JString t \<Rightarrow> stoll t | _ \<Rightarrow> None))"

fun dash_groups :: "nat \<Rightarrow> string \<Rightarrow> string" where
  "dash_groups i [] = []"
| "dash_groups i (h # hex) = (if i = 8 \<or> i = 12 \<or> i = 16 \<or> i = 20 then [CHR ''-'', h] else [h]) @ dash_groups (Suc i) hex"

definition DeriveRemoteRecordId :: "(string \<Rightarrow> string) \<Rightarrow> string \<Rightarrow> string \<Rightarrow> string" where
  "DeriveRemoteRecordId sha256_hex part file_source =
     part @ '':dataset--File.Generic:'' @ dash_groups 0 (take 32 (sha256_hex (part @ [CHR 0x00] @ file_source)))"

section \<open>One call\<close>

definition RemoteRecord :: "RemoteMetadataOptions \<Rightarrow> string \<Rightarrow> bool \<Rightarrow> 'w RemoteState \<Rightarrow> 'w RemoteState" where
  "RemoteRecord opt op ok s =
     (if \<not> mo_metrics opt then s
      else s\<lparr>rm_metrics := MetricIncrement kMetricName
                 [(''op'', op), (''outcome'', if ok then ''ok'' else ''error'')] 1 (rm_metrics s)\<rparr>)"

definition storage_request :: "RemoteMetadataOptions \<Rightarrow> CurlMethod \<Rightarrow> string \<Rightarrow> string option \<Rightarrow> CurlRequest" where
  "storage_request opt verb path body =
     \<lparr>cq_url = c_str (mo_base_url opt @ path), cq_method = verb,
      cq_headers = json_headers @
        (if mo_static_token opt = [] then [] else [c_str (''Authorization: Bearer '' @ mo_static_token opt)]),
      cq_body = body, cq_connect_timeout_ms = mo_connect_timeout_ms opt, cq_timeout_ms = mo_timeout_ms opt,
      cq_verify_tls = mo_verify_tls opt, cq_ca_bundle = ca_bundle (mo_verify_tls opt) (mo_ca_bundle_path opt)\<rparr>"

definition not_sent :: "string \<Rightarrow> CurlReply" where
  "not_sent m = \<lparr>cy_error = Some m, cy_status = 0, cy_body = []\<rparr>"

definition RemoteCall ::
  "'w RemoteLib \<Rightarrow> RemoteMetadataOptions \<Rightarrow> CurlMethod \<Rightarrow> string \<Rightarrow> string option \<Rightarrow> 'w RemoteState \<Rightarrow>
   'w RemoteState \<times> CurlReply" where
  "RemoteCall lib opt verb path body s =
     (if mo_base_url opt = []
      then (s, not_sent msg_remote_no_url)
      else (case rl_init lib (rm_world s) of
              (w, False) \<Rightarrow> (s\<lparr>rm_world := w\<rparr>, not_sent msg_curl_init)
            | (w, True) \<Rightarrow>
                (case rl_perform lib (storage_request opt verb path body) w of
                   (w, reply) \<Rightarrow> (s\<lparr>rm_world := w\<rparr>, reply))))"

definition failure_of :: "RemoteMetadataOptions \<Rightarrow> string \<Rightarrow> CurlReply \<Rightarrow> string \<Rightarrow> Error" where
  "failure_of opt op reply what =
     (case cy_error reply of
        Some e \<Rightarrow>
          mk_error kUnavailable
            (msg_rf_unreachable @ what @ msg_rf_op @ op @ msg_rf_timeout @
             to_string (mo_timeout_ms opt) @ msg_rf_ms @ e)
      | None \<Rightarrow>
          if cy_status reply = 401 then
            mk_error kUnauthenticated
              (msg_rf_401 @ op @ msg_rf_check @
               ''metadata.remote.static_token'' @ msg_rf_now @
               (if mo_static_token opt = [] then msg_rf_empty else msg_rf_set) @
               msg_rf_401_tail)
          else if cy_status reply = 403 then
            mk_error kPermissionDenied
              (msg_rf_403 @ op @ msg_rf_403_tail)
          else if cy_status reply = 404 then
            mk_error kNotFound
              (msg_rf_404 @ op @ msg_rf_comma @ what @ msg_rf_stop)
          else
            mk_error kUnavailable
              (msg_rf_status @ to_string (cy_status reply) @ msg_rf_op @ op @
               msg_rf_comma @ what @ msg_rf_status_tail))"

definition RemoteFail ::
  "RemoteMetadataOptions \<Rightarrow> string \<Rightarrow> CurlReply \<Rightarrow> string \<Rightarrow> 'w RemoteState \<Rightarrow> 'w RemoteState \<times> 'a Result" where
  "RemoteFail opt op reply what s =
     (let e = failure_of opt op reply what in
      (log_warn (msg_rf_log @ error_message e)
         [(''component'', ''metadata_remote''), (''op'', op),
          (''status'', if cy_error reply = None then to_string (cy_status reply) else ''n/a''),
          (''error_kind'', ErrorKindName (error_kind e))] s, Inl e))"

definition RemoteParseRecord ::
  "'w RemoteLib \<Rightarrow> string \<Rightarrow> CurlReply \<Rightarrow> FileMetadataRecord option \<Rightarrow> FileMetadataRecord Result" where
  "RemoteParseRecord lib op reply fallback =
     (case rl_parse lib (cy_body reply) of
        Inr (JObject m) \<Rightarrow>
          if map_of m ''kind'' \<noteq> None \<and> map_of m ''data'' \<noteq> None then
            (case ParseFileMetadataRecord (JObject m) of
               Inl e \<Rightarrow>
                 Err kUnavailable (msg_rp_record @ op @ msg_rp_colon @
                   error_message e @ msg_rp_closed)
             | Inr r \<Rightarrow> Ok r)
          else
            (case (fallback, map_of m ''versions'') of
               (Some sent, Some (JArray (v # vs))) \<Rightarrow>
                 (case ReadVersion v of
                    None \<Rightarrow>
                      Err kUnavailable (msg_rp_version @ op @
                        msg_rp_tail)
                  | Some n \<Rightarrow>
                      Ok (case map_of m ''recordIds'' of
                            Some (JArray (JString i # is)) \<Rightarrow> sent\<lparr>fm_version := n, fm_id := i\<rparr>
                          | _ \<Rightarrow> sent\<lparr>fm_version := n\<rparr>))
             | _ \<Rightarrow>
                 Err kUnavailable (msg_rp_shape @
                   op @ msg_rp_tail))
      | _ \<Rightarrow> Err kUnavailable (msg_rp_json @ op @ msg_rp_tail))"

section \<open>Operations\<close>

text \<open>What \<^verbatim>\<open>Create\<close> and \<^verbatim>\<open>Update\<close> do with the record they send, and what the two reads do.\<close>

definition put_record ::
  "'w RemoteLib \<Rightarrow> RemoteMetadataOptions \<Rightarrow> string \<Rightarrow> FileMetadataRecord \<Rightarrow> 'w RemoteState \<Rightarrow>
   'w RemoteState \<times> FileMetadataRecord Result" where
  "put_record lib opt what record s =
     (case RemoteCall lib opt CurlPut ''/records'' (Some (rl_dump lib (ToJson record))) s of
        (s, reply) \<Rightarrow>
          if cy_error reply \<noteq> None \<or> \<not> Is2xx (cy_status reply)
          then RemoteFail opt ''put'' reply what (RemoteRecord opt ''put'' False s)
          else (case RemoteParseRecord lib ''put'' reply (Some record) of
                  Inl e \<Rightarrow>
                    (log_warn (msg_rput_log @ error_message e)
                       [(''component'', ''metadata_remote''), (''op'', ''put'')] (RemoteRecord opt ''put'' False s), Inl e)
                | Inr r \<Rightarrow> (RemoteRecord opt ''put'' True s, Ok r)))"

definition RemoteCreate ::
  "'w RemoteLib \<Rightarrow> RemoteMetadataOptions \<Rightarrow> string \<Rightarrow> FileMetadataRecord \<Rightarrow> 'w RemoteState \<Rightarrow>
   'w RemoteState \<times> FileMetadataRecord Result" where
  "RemoteCreate lib opt part record s =
     (if FileSourceOf record = []
      then (s, Err kInvalidArgument msg_rcreate_source)
      else put_record lib opt ''PUT /records''
             (record\<lparr>fm_id := DeriveRemoteRecordId (rl_sha256_hex lib) part (FileSourceOf record)\<rparr>) s)"

definition RemoteUpdate ::
  "'w RemoteLib \<Rightarrow> RemoteMetadataOptions \<Rightarrow> string \<Rightarrow> FileMetadataRecord \<Rightarrow> 'w RemoteState \<Rightarrow>
   'w RemoteState \<times> FileMetadataRecord Result" where
  "RemoteUpdate lib opt part record s =
     (if fm_id record = [] then (s, Err kInvalidArgument msg_rupdate_id)
      else put_record lib opt msg_rupdate_what record s)"

definition fetch_record ::
  "'w RemoteLib \<Rightarrow> RemoteMetadataOptions \<Rightarrow> string \<Rightarrow> string \<Rightarrow> 'w RemoteState \<Rightarrow>
   'w RemoteState \<times> FileMetadataRecord Result" where
  "fetch_record lib opt what record_id s =
     (case RemoteCall lib opt CurlGet (''/records/'' @ record_id) None s of
        (s, reply) \<Rightarrow>
          if cy_error reply \<noteq> None \<or> \<not> Is2xx (cy_status reply)
          then RemoteFail opt ''get'' reply what (RemoteRecord opt ''get'' False s)
          else (case RemoteParseRecord lib ''get'' reply None of
                  Inl e \<Rightarrow> (RemoteRecord opt ''get'' False s, Inl e)
                | Inr r \<Rightarrow> (RemoteRecord opt ''get'' True s, Ok r)))"

definition RemoteGetById ::
  "'w RemoteLib \<Rightarrow> RemoteMetadataOptions \<Rightarrow> string \<Rightarrow> string \<Rightarrow> 'w RemoteState \<Rightarrow>
   'w RemoteState \<times> FileMetadataRecord Result" where
  "RemoteGetById lib opt part record_id = fetch_record lib opt ''GET /records/{id}'' record_id"

definition RemoteGetLatestByFileSource ::
  "'w RemoteLib \<Rightarrow> RemoteMetadataOptions \<Rightarrow> string \<Rightarrow> string \<Rightarrow> 'w RemoteState \<Rightarrow>
   'w RemoteState \<times> FileMetadataRecord Result" where
  "RemoteGetLatestByFileSource lib opt part file_source =
     fetch_record lib opt msg_rlatest_what
       (DeriveRemoteRecordId (rl_sha256_hex lib) part file_source)"

definition RemoteDelete ::
  "'w RemoteLib \<Rightarrow> RemoteMetadataOptions \<Rightarrow> string \<Rightarrow> string \<Rightarrow> 'w RemoteState \<Rightarrow> 'w RemoteState \<times> unit Result" where
  "RemoteDelete lib opt part record_id s =
     (case RemoteCall lib opt CurlPost (''/records/'' @ record_id @ '':delete'') None s of
        (s, reply) \<Rightarrow>
          if cy_error reply \<noteq> None \<or> cy_status reply \<noteq> 204
          then RemoteFail opt ''delete'' reply msg_rdelete_what (RemoteRecord opt ''delete'' False s)
          else (RemoteRecord opt ''delete'' True s, Ok ()))"

definition NoAtomicClaim :: "string \<Rightarrow> 'a Result" where
  "NoAtomicClaim name =
     Err kUnimplemented
       (msg_no_claim_open @ name @
        msg_no_claim_tail)"

definition RemoteClaimForWrite :: "string \<Rightarrow> FileMetadataRecord \<Rightarrow> MetadataClaim Result" where
  "RemoteClaimForWrite part record = NoAtomicClaim ''ClaimForWrite''"

definition RemoteMarkReady :: "string \<Rightarrow> string \<Rightarrow> int \<Rightarrow> FileMetadataRecord \<Rightarrow> FileMetadataRecord Result" where
  "RemoteMarkReady part record_id version record = NoAtomicClaim ''MarkReady''"

definition RemoteReleaseClaim :: "string \<Rightarrow> string \<Rightarrow> int \<Rightarrow> unit Result" where
  "RemoteReleaseClaim part record_id version = NoAtomicClaim ''ReleaseClaim''"

definition RemoteReclaimStaleClaiming :: "string \<Rightarrow> int \<Rightarrow> int \<Rightarrow> string list \<Rightarrow> int Result" where
  "RemoteReclaimStaleClaiming part older_than lim live_expired_sources = NoAtomicClaim ''ReclaimStaleClaiming''"

definition RemoteList :: "string \<Rightarrow> MetadataQuery \<Rightarrow> MetadataPage Result" where
  "RemoteList part query =
     Err kUnimplemented msg_rlist"

definition RemoteProbe ::
  "'w RemoteLib \<Rightarrow> RemoteMetadataOptions \<Rightarrow> 'w RemoteState \<Rightarrow> 'w RemoteState \<times> unit Result" where
  "RemoteProbe lib opt s =
     (case RemoteCall lib opt CurlGet
             (''/records/'' @ DeriveRemoteRecordId (rl_sha256_hex lib) ''__probe__'' ''fss-readiness-probe:liveness'') None s of
        (s, reply) \<Rightarrow>
          if cy_error reply = None \<and> (cy_status reply = 404 \<or> Is2xx (cy_status reply))
          then (RemoteRecord opt ''probe'' True s, Ok ())
          else RemoteFail opt ''probe'' reply msg_rprobe_what
                 (RemoteRecord opt ''probe'' False s))"

end
