(* ===== verification/Remote_Properties.thy ===== *)
theory Remote_Properties
  imports Remote_Metadata Use_Cases
begin

text \<open>
  What the clients of external services guarantee: nothing but a definite answer of the service is read as its consent, every
  call on the storage service is counted once, records are keyed by partition and file source.
\<close>

section \<open>Only a definite answer is consent\<close>

text \<open>The request was sent and answered, without a transport error, with the given status.\<close>

definition answered :: "'w RemoteLib \<Rightarrow> CurlRequest \<Rightarrow> 'w \<Rightarrow> int \<Rightarrow> CurlReply \<Rightarrow> bool" where
  "answered lib req w status reply \<longleftrightarrow>
     snd (rl_init lib w) \<and> snd (rl_perform lib req (fst (rl_init lib w))) = reply \<and> cy_error reply = None \<and>
     cy_status reply = status"

definition says_true :: "'w RemoteLib \<Rightarrow> string \<Rightarrow> CurlReply \<Rightarrow> bool" where
  "says_true lib key reply \<longleftrightarrow>
     (case rl_parse lib (cy_body reply) of Inr (JObject m) \<Rightarrow> map_of m key = Some (JBool True) | _ \<Rightarrow> False)"

lemmas result_defs = Unavailable_def Ok_def Err_def

lemma entitlements_answer_true:
  "entitlements_answer lib reply = Inr True \<longleftrightarrow>
   cy_error reply = None \<and> cy_status reply = 200 \<and> says_true lib ''allowed'' reply"
  by (auto simp: entitlements_answer_def says_true_def result_defs split: option.splits sum.splits json.splits)

lemma validator_answer_ok:
  "validator_answer lib who reply = Inr () \<longleftrightarrow>
   cy_error reply = None \<and> cy_status reply = 200 \<and> says_true lib ''valid'' reply"
  by (auto simp: validator_answer_def says_true_def result_defs split: option.splits sum.splits json.splits bool.splits)

lemma ask_entitlements_true:
  "snd (AskEntitlements lib opt roles part token w) = Inr True \<longleftrightarrow>
   eo_base_url opt \<noteq> [] \<and>
   (\<exists>reply. answered lib (entitlements_request lib opt roles part token) w 200 reply \<and> says_true lib ''allowed'' reply)"
  by (auto simp: AskEntitlements_def answered_def entitlements_answer_true Unavailable_def Err_def split: prod.splits bool.splits)

lemma ask_validator_ok:
  "snd (ask_validator lib opt who body no_url w) = Inr () \<longleftrightarrow>
   vo_base_url opt \<noteq> [] \<and>
   (\<exists>reply. answered lib (validator_request opt (rl_dump lib body)) w 200 reply \<and> says_true lib ''valid'' reply)"
  by (auto simp: ask_validator_def answered_def validator_answer_ok Unavailable_def Err_def split: prod.splits bool.splits)

lemma authorize_any_ok:
  "snd (RemoteAuthorizeAny lib opt roles part token w) = Inr () \<longleftrightarrow>
   roles \<noteq> [] \<and> token \<noteq> [] \<and> snd (AskEntitlements lib opt roles part token w) = Inr True"
  by (cases "AskEntitlements lib opt roles part token w"; cases "snd (AskEntitlements lib opt roles part token w)")
     (auto simp: RemoteAuthorizeAny_def result_defs FSS_TRY_ST_def)

lemma remote_call_answered:
  "cy_error (snd (RemoteCall lib opt verb path body s)) = None \<longleftrightarrow>
   mo_base_url opt \<noteq> [] \<and>
   answered lib (storage_request opt verb path body) (rm_world s)
     (cy_status (snd (RemoteCall lib opt verb path body s))) (snd (RemoteCall lib opt verb path body s))"
  by (auto simp: RemoteCall_def answered_def not_sent_def split: prod.splits bool.splits)

lemma remote_call_is:
  "mo_base_url opt \<noteq> [] \<Longrightarrow> answered lib (storage_request opt verb path body) (rm_world s) n reply \<Longrightarrow>
   snd (RemoteCall lib opt verb path body s) = reply \<and> cy_error reply = None \<and> cy_status reply = n"
  by (auto simp: RemoteCall_def answered_def split: prod.splits bool.splits)

lemma remote_call_ok:
  "cy_error (snd (RemoteCall lib opt verb path body s)) = None \<and> cy_status (snd (RemoteCall lib opt verb path body s)) = n \<longleftrightarrow>
   mo_base_url opt \<noteq> [] \<and> (\<exists>reply. answered lib (storage_request opt verb path body) (rm_world s) n reply)"
  by (auto simp: RemoteCall_def answered_def not_sent_def split: prod.splits bool.splits)

lemma remote_delete_ok:
  "snd (RemoteDelete lib opt part i s) = Inr () \<longleftrightarrow>
   mo_base_url opt \<noteq> [] \<and>
   (\<exists>reply. answered lib (storage_request opt CurlPost (''/records/'' @ i @ '':delete'') None) (rm_world s) 204 reply)"
  unfolding remote_call_ok [symmetric]
  by (auto simp: RemoteDelete_def RemoteFail_def Ok_def Let_def split: prod.splits)

text \<open>A record as the service returns it: the whole record, or the envelope of a record that was sent, which names the version it
  got and may name its id.\<close>

definition recordIds :: "members \<Rightarrow> string \<Rightarrow> string" where
  "recordIds m i = (case map_of m ''recordIds'' of Some (JArray (JString j # _)) \<Rightarrow> j | _ \<Rightarrow> i)"

definition reply_record ::
  "'w RemoteLib \<Rightarrow> CurlReply \<Rightarrow> FileMetadataRecord option \<Rightarrow> FileMetadataRecord \<Rightarrow> bool" where
  "reply_record lib reply sent r \<longleftrightarrow>
     (\<exists>m. rl_parse lib (cy_body reply) = Inr (JObject m) \<and>
       (if map_of m ''kind'' \<noteq> None \<and> map_of m ''data'' \<noteq> None then ParseFileMetadataRecord (JObject m) = Inr r
        else \<exists>rec v vs n. sent = Some rec \<and> map_of m ''versions'' = Some (JArray (v # vs)) \<and>
          ((is_number_integer v \<and> n = get_int64 v) \<or> (\<exists>t. v = JString t \<and> stoll t = Some n)) \<and>
          r = rec\<lparr>fm_version := n, fm_id := recordIds m (fm_id rec)\<rparr>))"

lemma ReadVersion_some:
  "ReadVersion v = Some n \<longleftrightarrow> (is_number_integer v \<and> n = get_int64 v) \<or> (\<exists>t. v = JString t \<and> stoll t = Some n)"
  by (cases v) (auto simp: ReadVersion_def is_number_integer_def)

lemma envelope_ids:
  "(case map_of m ''recordIds'' of Some (JArray (JString i # js)) \<Rightarrow> rec\<lparr>fm_version := n, fm_id := i\<rparr> | _ \<Rightarrow> rec\<lparr>fm_version := n\<rparr>) =
   rec\<lparr>fm_version := n, fm_id := recordIds m (fm_id rec)\<rparr>"
  unfolding recordIds_def by (simp split: option.split json.split list.split)

lemma envelope_ok:
  "(case (sent, map_of m ''versions'') of
      (Some rec, Some (JArray (v # vs))) \<Rightarrow>
        (case ReadVersion v of None \<Rightarrow> Inl e | Some n \<Rightarrow> Inr (rec\<lparr>fm_version := n, fm_id := recordIds m (fm_id rec)\<rparr>))
    | _ \<Rightarrow> Inl e') = Inr r \<longleftrightarrow>
   (\<exists>rec v vs n. sent = Some rec \<and> map_of m ''versions'' = Some (JArray (v # vs)) \<and> ReadVersion v = Some n \<and>
      r = rec\<lparr>fm_version := n, fm_id := recordIds m (fm_id rec)\<rparr>)"
  by (cases sent; cases "map_of m ''versions''"; simp split: json.split list.split option.split; metis)

lemma parsed_record_ok:
  "RemoteParseRecord lib op reply sent = Inr r \<longleftrightarrow> reply_record lib reply sent r"
proof (cases "rl_parse lib (cy_body reply)")
  case (Inr v)
  show ?thesis
  proof (cases v)
    case (JObject m)
    show ?thesis
    proof (cases "map_of m ''kind'' \<noteq> None \<and> map_of m ''data'' \<noteq> None")
      case True
      then show ?thesis
        unfolding RemoteParseRecord_def reply_record_def Inr JObject
        by (cases "ParseFileMetadataRecord (JObject m)") (simp_all add: result_defs)
    next
      case False
      have one: "(\<exists>ma. Inr (JObject m) = (Inr (JObject ma) :: json Result) \<and> P ma) \<longleftrightarrow> P m" for P by simp
      show ?thesis
        unfolding RemoteParseRecord_def reply_record_def Inr JObject sum.case json.case one if_not_P [OF False] envelope_ids
          ReadVersion_some [symmetric] result_defs envelope_ok by (rule refl)
    qed
  qed (simp_all add: RemoteParseRecord_def reply_record_def Inr result_defs)
qed (simp add: RemoteParseRecord_def reply_record_def result_defs)

text \<open>A call that succeeds when its answer fits, over the answers there can be.\<close>

lemma remote_call_fits:
  "cy_error (snd (RemoteCall lib opt verb path body s)) = None \<and> P (snd (RemoteCall lib opt verb path body s)) \<longleftrightarrow>
   mo_base_url opt \<noteq> [] \<and>
   (\<exists>n reply. answered lib (storage_request opt verb path body) (rm_world s) n reply \<and> P reply)"
  by (metis remote_call_answered remote_call_is)

lemma parsed_case:
  "snd (case RemoteParseRecord lib op reply sent of Inl e \<Rightarrow> (f e, Inl e) | Inr q \<Rightarrow> (g, Ok q)) = Inr r \<longleftrightarrow>
   reply_record lib reply sent r"
  using parsed_record_ok [of lib op reply sent r] by (cases "RemoteParseRecord lib op reply sent") (simp_all add: Ok_def)

lemma put_record_ok:
  "snd (put_record lib opt what rec s) = Inr r \<longleftrightarrow>
   mo_base_url opt \<noteq> [] \<and>
   (\<exists>n reply. answered lib (storage_request opt CurlPut ''/records'' (Some (rl_dump lib (ToJson rec)))) (rm_world s) n reply \<and>
      Is2xx (cy_status reply) \<and> reply_record lib reply (Some rec) r)"
  unfolding remote_call_fits [symmetric]
  by (auto simp: put_record_def RemoteFail_def Let_def Ok_def parsed_case split: prod.splits)

lemma fetch_record_ok:
  "snd (fetch_record lib opt what i s) = Inr r \<longleftrightarrow>
   mo_base_url opt \<noteq> [] \<and>
   (\<exists>n reply. answered lib (storage_request opt CurlGet (''/records/'' @ i) None) (rm_world s) n reply \<and>
      Is2xx (cy_status reply) \<and> reply_record lib reply None r)"
  unfolding remote_call_fits [symmetric]
  by (auto simp: fetch_record_def RemoteFail_def Let_def Ok_def parsed_case split: prod.splits)

lemma probe_ok:
  "snd (RemoteProbe lib opt s) = Inr () \<longleftrightarrow>
   mo_base_url opt \<noteq> [] \<and>
   (\<exists>n reply. answered lib (storage_request opt CurlGet
        (''/records/'' @ DeriveRemoteRecordId (rl_sha256_hex lib) ''__probe__'' ''fss-readiness-probe:liveness'') None) (rm_world s) n reply \<and>
      (cy_status reply = 404 \<or> Is2xx (cy_status reply)))"
  unfolding remote_call_fits [symmetric]
  by (auto simp: RemoteProbe_def RemoteFail_def Let_def Ok_def split: prod.splits)

text \<open>A request of these clients, and the requests of the storage client. No client asks for redirects to be followed.\<close>

definition http_call ::
  "string \<Rightarrow> CurlMethod \<Rightarrow> string list \<Rightarrow> string option \<Rightarrow> int \<Rightarrow> int \<Rightarrow> bool \<Rightarrow> string \<Rightarrow> CurlRequest" where
  "http_call url verb extra body connect_ms ms verify bundle =
     \<lparr>cq_url = c_str url, cq_method = verb,
      cq_headers = [''Content-Type: application/json'', ''Accept: application/json''] @ map c_str extra, cq_body = body,
      cq_connect_timeout_ms = connect_ms, cq_timeout_ms = ms, cq_verify_tls = verify,
      cq_ca_bundle = (if verify \<and> bundle \<noteq> [] then Some (c_str bundle) else None)\<rparr>"

definition storage_reply ::
  "'w RemoteLib \<Rightarrow> RemoteMetadataOptions \<Rightarrow> CurlMethod \<Rightarrow> string \<Rightarrow> string option \<Rightarrow> 'w RemoteState \<Rightarrow> CurlReply \<Rightarrow> bool" where
  "storage_reply lib opt verb path body s reply \<longleftrightarrow> mo_base_url opt \<noteq> [] \<and>
     answered lib (http_call (mo_base_url opt @ path) verb
         (if mo_static_token opt = [] then [] else [''Authorization: Bearer '' @ mo_static_token opt]) body
         (mo_connect_timeout_ms opt) (mo_timeout_ms opt) (mo_verify_tls opt) (mo_ca_bundle_path opt)) (rm_world s) (cy_status reply) reply"

lemma storage_reply_request:
  "storage_reply lib opt verb path body s reply \<longleftrightarrow> mo_base_url opt \<noteq> [] \<and>
     (\<exists>n. answered lib (storage_request opt verb path body) (rm_world s) n reply)"
  by (auto simp: storage_reply_def storage_request_def http_call_def json_headers_def ca_bundle_def answered_def)

text \<open>C35. Fail closed. The entitlements service lets a caller pass exactly when roles are asked for, a token
  is there, an address is configured and the request, which carries the roles, the partition and the token, is answered by
  status 200 with a JSON object whose \<open>allowed\<close> is true; a legal or schema validator accepts exactly when its request is
  answered by status 200 and a true \<open>valid\<close>, legal tags not empty. The storage client creates and updates exactly when the
  record it sends, under the id derived from partition and file source on a creation, is answered by a 2xx status and a body that is the stored
  record or the envelope with its version; it reads a record exactly when it gets it with a 2xx status, deletes exactly when
  the answer is 204, and is ready exactly when the probe is answered by a 2xx status or by the 404 of a record that is
  not there. The operations it cannot offer, claims and lists, always refuse. Whatever else happens, transport errors,
  other statuses, bodies that cannot be read, is an error.\<close>

theorem remote_fail_closed:
  "(snd (RemoteAuthorizeAny lib eopt roles part token w) = Ok () \<longleftrightarrow>
      roles \<noteq> [] \<and> token \<noteq> [] \<and> eo_base_url eopt \<noteq> [] \<and>
      (\<exists>reply. answered lib (http_call (eo_base_url eopt @ eo_authorize_path eopt) CurlPost
          [''Authorization: '' @ token, ''data-partition-id: '' @ part]
          (Some (rl_dump lib (JObject [(''roles'', JArray (map JString roles))])))
          (eo_connect_timeout_ms eopt) (eo_timeout_ms eopt) (eo_verify_tls eopt) (eo_ca_bundle_path eopt)) w 200 reply \<and>
        says_true lib ''allowed'' reply)) \<and>
   (snd (RemoteLegalValidate lib vopt part tags w) = Ok () \<longleftrightarrow>
      tags \<noteq> [] \<and> vo_base_url vopt \<noteq> [] \<and>
      (\<exists>reply. answered lib (http_call (vo_base_url vopt) CurlPost []
          (Some (rl_dump lib (JObject [(''legaltags'', JArray (map JString tags)), (''partition'', JString part)])))
          (vo_connect_timeout_ms vopt) (vo_timeout_ms vopt) (vo_verify_tls vopt) (vo_ca_bundle_path vopt)) w 200 reply \<and>
        says_true lib ''valid'' reply)) \<and>
   (snd (RemoteSchemaValidate lib vopt kind json w) = Ok () \<longleftrightarrow>
      vo_base_url vopt \<noteq> [] \<and>
      (\<exists>reply. answered lib (http_call (vo_base_url vopt) CurlPost []
          (Some (rl_dump lib (JObject [(''kind'', JString kind), (''record'', json)])))
          (vo_connect_timeout_ms vopt) (vo_timeout_ms vopt) (vo_verify_tls vopt) (vo_ca_bundle_path vopt)) w 200 reply \<and>
        says_true lib ''valid'' reply)) \<and>
   (snd (RemoteCreate lib mopt part rec s) = Ok r \<longleftrightarrow> FileSourceOf rec \<noteq> [] \<and>
      (\<exists>reply sent. sent = rec\<lparr>fm_id := DeriveRemoteRecordId (rl_sha256_hex lib) part (FileSourceOf rec)\<rparr> \<and>
        storage_reply lib mopt CurlPut ''/records'' (Some (rl_dump lib (ToJson sent))) s reply \<and>
        200 \<le> cy_status reply \<and> cy_status reply < 300 \<and> reply_record lib reply (Some sent) r)) \<and>
   (snd (RemoteUpdate lib mopt part rec s) = Ok r \<longleftrightarrow> fm_id rec \<noteq> [] \<and>
      (\<exists>reply. storage_reply lib mopt CurlPut ''/records'' (Some (rl_dump lib (ToJson rec))) s reply \<and>
        200 \<le> cy_status reply \<and> cy_status reply < 300 \<and> reply_record lib reply (Some rec) r)) \<and>
   (snd (RemoteGetById lib mopt part i s) = Ok r \<longleftrightarrow>
      (\<exists>reply. storage_reply lib mopt CurlGet (''/records/'' @ i) None s reply \<and>
        200 \<le> cy_status reply \<and> cy_status reply < 300 \<and> reply_record lib reply None r)) \<and>
   (snd (RemoteGetLatestByFileSource lib mopt part f s) = Ok r \<longleftrightarrow>
      (\<exists>reply. storage_reply lib mopt CurlGet (''/records/'' @ DeriveRemoteRecordId (rl_sha256_hex lib) part f) None s reply \<and>
        200 \<le> cy_status reply \<and> cy_status reply < 300 \<and> reply_record lib reply None r)) \<and>
   (snd (RemoteDelete lib mopt part i s) = Ok () \<longleftrightarrow>
      (\<exists>reply. storage_reply lib mopt CurlPost (''/records/'' @ i @ '':delete'') None s reply \<and> cy_status reply = 204)) \<and>
   (snd (RemoteProbe lib mopt s) = Ok () \<longleftrightarrow>
      (\<exists>reply. storage_reply lib mopt CurlGet
          (''/records/'' @ DeriveRemoteRecordId (rl_sha256_hex lib) ''__probe__'' ''fss-readiness-probe:liveness'') None s reply \<and>
        (cy_status reply = 404 \<or> 200 \<le> cy_status reply \<and> cy_status reply < 300))) \<and>
   \<not> is_ok (RemoteClaimForWrite part rec) \<and> \<not> is_ok (RemoteMarkReady part i n rec) \<and> \<not> is_ok (RemoteReleaseClaim part i n) \<and>
   \<not> is_ok (RemoteReclaimStaleClaiming part t lim live) \<and> \<not> is_ok (RemoteList part q)"
proof (intro conjI)
  show "snd (RemoteAuthorizeAny lib eopt roles part token w) = Ok () \<longleftrightarrow>
      roles \<noteq> [] \<and> token \<noteq> [] \<and> eo_base_url eopt \<noteq> [] \<and>
      (\<exists>reply. answered lib (http_call (eo_base_url eopt @ eo_authorize_path eopt) CurlPost
          [''Authorization: '' @ token, ''data-partition-id: '' @ part]
          (Some (rl_dump lib (JObject [(''roles'', JArray (map JString roles))])))
          (eo_connect_timeout_ms eopt) (eo_timeout_ms eopt) (eo_verify_tls eopt) (eo_ca_bundle_path eopt)) w 200 reply \<and>
        says_true lib ''allowed'' reply)"
    by (simp add: authorize_any_ok [folded Ok_def] ask_entitlements_true [folded Ok_def] entitlements_request_def http_call_def json_headers_def
        ca_bundle_def RenderRoles_def jset_def jstrings_def)
  show "snd (RemoteLegalValidate lib vopt part tags w) = Ok () \<longleftrightarrow>
      tags \<noteq> [] \<and> vo_base_url vopt \<noteq> [] \<and>
      (\<exists>reply. answered lib (http_call (vo_base_url vopt) CurlPost []
          (Some (rl_dump lib (JObject [(''legaltags'', JArray (map JString tags)), (''partition'', JString part)])))
          (vo_connect_timeout_ms vopt) (vo_timeout_ms vopt) (vo_verify_tls vopt) (vo_ca_bundle_path vopt)) w 200 reply \<and>
        says_true lib ''valid'' reply)"
    by (auto simp: RemoteLegalValidate_def ask_validator_ok [folded Ok_def] validator_request_def http_call_def json_headers_def
        ca_bundle_def jset_def jstrings_def)
  show "snd (RemoteSchemaValidate lib vopt kind json w) = Ok () \<longleftrightarrow>
      vo_base_url vopt \<noteq> [] \<and>
      (\<exists>reply. answered lib (http_call (vo_base_url vopt) CurlPost []
          (Some (rl_dump lib (JObject [(''kind'', JString kind), (''record'', json)])))
          (vo_connect_timeout_ms vopt) (vo_timeout_ms vopt) (vo_verify_tls vopt) (vo_ca_bundle_path vopt)) w 200 reply \<and>
        says_true lib ''valid'' reply)"
    by (simp add: RemoteSchemaValidate_def ask_validator_ok [folded Ok_def] validator_request_def http_call_def json_headers_def
        ca_bundle_def jset_def)
qed (auto simp: RemoteCreate_def RemoteUpdate_def RemoteGetById_def RemoteGetLatestByFileSource_def put_record_ok [folded Ok_def]
      fetch_record_ok [folded Ok_def] remote_delete_ok [folded Ok_def] probe_ok [folded Ok_def] storage_reply_request Is2xx_def
      RemoteClaimForWrite_def RemoteMarkReady_def RemoteReleaseClaim_def RemoteReclaimStaleClaiming_def RemoteList_def NoAtomicClaim_def
      answered_def)

section \<open>Keys of remote records\<close>

lemma dash_groups_length: "length (dash_groups i hex) = length hex + card {j \<in> {i ..< i + length hex}. j = 8 \<or> j = 12 \<or> j = 16 \<or> j = 20}"
proof (induction i hex rule: dash_groups.induct)
  case (2 i h hex)
  let ?D = "\<lambda>j. j = 8 \<or> j = 12 \<or> j = 16 \<or> j = (20::nat)"
  have "{j \<in> {i ..< i + length (h # hex)}. ?D j} =
      (if ?D i then insert i {j \<in> {Suc i ..< Suc i + length hex}. ?D j} else {j \<in> {Suc i ..< Suc i + length hex}. ?D j})"
    by (auto simp: less_Suc_eq_le le_less)
  then show ?case using 2 by simp
qed simp

lemma dash_groups_inject: "length g = length h \<Longrightarrow> dash_groups i g = dash_groups i h \<longleftrightarrow> g = h"
  by (induction g h arbitrary: i rule: list_induct2) simp_all

text \<open>Record ids of different partitions are different; in one partition they differ with the first half of the digests.\<close>

lemma remote_ids_differ:
  assumes "\<And>x. length (sha x) = 64"
  shows "DeriveRemoteRecordId sha p f = DeriveRemoteRecordId sha q g \<longleftrightarrow>
    p = q \<and> take 32 (sha (p @ [CHR 0x00] @ f)) = take 32 (sha (p @ [CHR 0x00] @ g))"
proof -
  let ?h = "\<lambda>p f. take 32 (sha (p @ [CHR 0x00] @ f))"
  have len: "length (?h p f) = length (?h q g)" by (simp add: assms)
  then have "length (dash_groups 0 (?h p f)) = length (dash_groups 0 (?h q g))" by (simp only: dash_groups_length)
  then have "DeriveRemoteRecordId sha p f = DeriveRemoteRecordId sha q g \<longleftrightarrow> p = q \<and> dash_groups 0 (?h p f) = dash_groups 0 (?h q g)"
    by (auto simp: DeriveRemoteRecordId_def append_eq_append_conv)
  also have "\<dots> \<longleftrightarrow> p = q \<and> ?h p f = ?h q g" using dash_groups_inject [OF len] by simp
  finally show ?thesis by auto
qed

text \<open>Whatever id the caller chose for a file source, the creation is the same: the same request, the same answer.\<close>

lemma remote_create_keyed: "RemoteCreate lib opt p (r\<lparr>fm_id := i\<rparr>) s = RemoteCreate lib opt p r s"
  by (simp add: RemoteCreate_def FileSourceOf_def)

section \<open>Partitions\<close>

text \<open>The ports of a process whose metadata repository is the remote one.\<close>

definition with_remote_metadata ::
  "'w RemoteLib \<Rightarrow> RemoteMetadataOptions \<Rightarrow> ('w RemoteState, 'st) Ports \<Rightarrow> ('w RemoteState, 'st) Ports" where
  "with_remote_metadata lib opt P = P\<lparr>
     p_md_atomic_claim := False, p_md_Create := RemoteCreate lib opt,
     p_md_ClaimForWrite := (\<lambda>part r s. (s, RemoteClaimForWrite part r)),
     p_md_MarkReady := (\<lambda>part i n r s. (s, RemoteMarkReady part i n r)),
     p_md_ReleaseClaim := (\<lambda>part i n s. (s, RemoteReleaseClaim part i n)),
     p_md_GetById := RemoteGetById lib opt, p_md_GetLatestByFileSource := RemoteGetLatestByFileSource lib opt,
     p_md_Delete := RemoteDelete lib opt\<rparr>"

text \<open>
  Reading and deleting by id do not tell the service the partition, and the use case does not look at the partition of
  what it gets: a caller who may read files of one partition reads any record of any partition by its id.
\<close>

lemma remote_reads_ignore_partition:
  "RemoteGetById lib opt p i s = RemoteGetById lib opt q i s" "RemoteDelete lib opt p i s = RemoteDelete lib opt q i s"
  by (simp_all add: RemoteGetById_def RemoteDelete_def)

lemma foreign_record_read:
  assumes "AuthorizeCaller (with_remote_metadata lib opt P) caller kRoleFileViewers True s = (s1, Ok ())"
    and "RemoteGetById lib opt other_partition i s1 = (s2, Ok r)"
    and "RecordAudit (with_remote_metadata lib opt P) ''readMetadataSuccess'' caller i True s2 = (s3, Ok ())"
  shows "GetFileMetadata (with_remote_metadata lib opt P) caller i s = (s3, Ok r)"
proof -
  have "p_md_GetById (with_remote_metadata lib opt P) (cc_partition caller) i s1 = (s2, Ok r)"
    using assms(2) remote_reads_ignore_partition(1) [of lib opt other_partition i s1] by (simp add: with_remote_metadata_def)
  then show ?thesis using assms(1,3) by (simp add: GetFileMetadata_def audited_def Ok_def FSS_TRY_ST_def)
qed

end
