(* ===== verification/Metered_Store.thy ===== *)
theory Metered_Store
  imports Byte_Stream Metrics Domain_Types
begin

text \<open>
  \<^verbatim>\<open>infra/blob/metered\<close>: the store that counts what goes through another store. The inner store is an argument. It
  is handed a source or a sink and sees nothing of it but the answers of its methods: it is a tree of requests, each with what follows
  every answer, and \<open>run_reads\<close> and \<open>run_writes\<close> play it against a source or a sink.
\<close>

section \<open>Stores as users of sources and sinks\<close>

datatype 'a Reads =
    ReadsDone 'a
  | AskRead nat "string Result \<Rightarrow> 'a Reads"
  | AskSize "int option \<Rightarrow> 'a Reads"
  | AskSeekable "bool \<Rightarrow> 'a Reads"
  | AskSeek int "unit Result \<Rightarrow> 'a Reads"

datatype 'a Writes =
    WritesDone 'a
  | AskWrite string "unit Result \<Rightarrow> 'a Writes"
  | AskClose "unit Result \<Rightarrow> 'a Writes"

record 's Source =
  src_read :: "'s reader"
  src_size :: "'s \<Rightarrow> int option"
  src_seekable :: "'s \<Rightarrow> bool"
  src_seek :: "int \<Rightarrow> 's \<Rightarrow> 's \<times> unit Result"

record 'k Sink =
  snk_write :: "'k writer"
  snk_close :: "'k \<Rightarrow> 'k \<times> unit Result"

primrec run_reads :: "'s Source \<Rightarrow> 'a Reads \<Rightarrow> 's \<Rightarrow> 's \<times> 'a" where
  "run_reads S (ReadsDone x) = (\<lambda>s. (s, x))"
| "run_reads S (AskRead n f) = (\<lambda>s. case src_read S n s of (s, r) \<Rightarrow> run_reads S (f r) s)"
| "run_reads S (AskSize f) = (\<lambda>s. run_reads S (f (src_size S s)) s)"
| "run_reads S (AskSeekable f) = (\<lambda>s. run_reads S (f (src_seekable S s)) s)"
| "run_reads S (AskSeek n f) = (\<lambda>s. case src_seek S n s of (s, r) \<Rightarrow> run_reads S (f r) s)"

primrec run_writes :: "'k Sink \<Rightarrow> 'a Writes \<Rightarrow> 'k \<Rightarrow> 'k \<times> 'a" where
  "run_writes K (WritesDone x) = (\<lambda>k. (k, x))"
| "run_writes K (AskWrite d f) = (\<lambda>k. case snk_write K d k of (k, r) \<Rightarrow> run_writes K (f r) k)"
| "run_writes K (AskClose f) = (\<lambda>k. case snk_close K k of (k, r) \<Rightarrow> run_writes K (f r) k)"

record ('b, 'n) Store =
  so_ensure_container :: "string \<Rightarrow> 'b \<Rightarrow> 'b \<times> unit Result"
  so_presign_put :: "ObjectRef \<Rightarrow> PresignOptions \<Rightarrow> 'b \<Rightarrow> 'b \<times> SignedLocation Result"
  so_presign_get :: "ObjectRef \<Rightarrow> PresignOptions \<Rightarrow> 'b \<Rightarrow> 'b \<times> SignedLocation Result"
  so_put :: "ObjectRef \<Rightarrow> PutOptions \<Rightarrow> 'b \<Rightarrow> ('b \<times> unit Result) Reads"
  so_get :: "ObjectRef \<Rightarrow> ByteRange \<Rightarrow> 'b \<Rightarrow> ('b \<times> unit Result) Writes"
  so_OpenNativeRead :: "ObjectRef \<Rightarrow> 'b \<Rightarrow> 'b \<times> 'n option Result"
  so_stat :: "ObjectRef \<Rightarrow> 'b \<Rightarrow> 'b \<times> ObjectStat Result"
  so_remove :: "ObjectRef \<Rightarrow> 'b \<Rightarrow> 'b \<times> unit Result"
  so_copy :: "ObjectRef \<Rightarrow> ObjectRef \<Rightarrow> 'b \<Rightarrow> 'b \<times> ObjectStat Result"
  so_list :: "string \<Rightarrow> string \<Rightarrow> string \<Rightarrow> int \<Rightarrow> 'b \<Rightarrow> 'b \<times> ListPage Result"
  so_remove_temp_files :: "string \<Rightarrow> int \<Rightarrow> bool \<Rightarrow> 'b \<Rightarrow> 'b \<times> TempSweepResult Result"

section \<open>The counting source and sink\<close>

text \<open>The state of the wrapped source or sink with the counter.\<close>

definition CountingSourceRead :: "'s reader \<Rightarrow> ('s \<times> int) reader" where
  "CountingSourceRead read n = (\<lambda>(s, counter).
     (case read n s of
        (s, Inl e) \<Rightarrow> ((s, counter), Inl e)
      | (s, Inr d) \<Rightarrow> ((s, wrap_i64 (counter + int (length d))), Inr d)))"

definition CountingSource :: "'s Source \<Rightarrow> ('s \<times> int) Source" where
  "CountingSource S = \<lparr>src_read = CountingSourceRead (src_read S), src_size = (\<lambda>(s, _). src_size S s),
     src_seekable = (\<lambda>(s, _). src_seekable S s),
     src_seek = (\<lambda>n (s, counter). case src_seek S n s of (s, r) \<Rightarrow> ((s, counter), r))\<rparr>"

definition CountedSinkWrite :: "'k writer \<Rightarrow> ('k \<times> int) writer" where
  "CountedSinkWrite wr d = (\<lambda>(k, counter).
     (case wr d k of
        (k, Inl e) \<Rightarrow> ((k, counter), Inl e)
      | (k, Inr _) \<Rightarrow> ((k, wrap_i64 (counter + int (length d))), Ok ())))"

definition CountedSink :: "'k Sink \<Rightarrow> ('k \<times> int) Sink" where
  "CountedSink K = \<lparr>snk_write = CountedSinkWrite (snk_write K),
     snk_close = (\<lambda>(k, counter). case snk_close K k of (k, r) \<Rightarrow> ((k, counter), r))\<rparr>"

section \<open>The metered store\<close>

record 'b Metered =
  ms_inner :: 'b
  ms_metrics :: MetricsRegistry

definition kOperations :: string where "kOperations = ''fss_storage_operations_total''"
definition kBytes :: string where "kBytes = ''fss_storage_bytes_total''"

definition op_labels :: "string \<Rightarrow> string \<Rightarrow> bool \<Rightarrow> Labels" where
  "op_labels driver op ok = [(''driver'', driver), (''op'', op), (''outcome'', if ok then ''ok'' else ''error'')]"

definition NewMetered :: "'b \<Rightarrow> MetricsRegistry \<Rightarrow> 'b Metered" where
  "NewMetered inner r =
     \<lparr>ms_inner = inner,
      ms_metrics =
        MetricRegister kBytes kCounter msg_help_bytes
          (MetricRegister kOperations kCounter msg_help_ops r)\<rparr>"

definition count_op :: "string \<Rightarrow> string \<Rightarrow> bool \<Rightarrow> MetricsRegistry \<Rightarrow> MetricsRegistry" where
  "count_op driver op ok r = MetricIncrement kOperations (op_labels driver op ok) 1 r"

definition count_bytes :: "string \<Rightarrow> int \<Rightarrow> MetricsRegistry \<Rightarrow> MetricsRegistry" where
  "count_bytes direction n r = (if n > 0 then MetricIncrement kBytes [(''direction'', direction)] n r else r)"

text \<open>The methods without a stream: the call of the inner store and one count.\<close>

definition metered :: "string \<Rightarrow> string \<Rightarrow> ('b \<Rightarrow> 'b \<times> 'a Result) \<Rightarrow> 'b Metered \<Rightarrow> 'b Metered \<times> 'a Result" where
  "metered driver op call s =
     (case call (ms_inner s) of
        (b, result) \<Rightarrow> (\<lparr>ms_inner = b, ms_metrics = count_op driver op (is_ok result) (ms_metrics s)\<rparr>, result))"

definition MeteredEnsureContainer :: "('b, 'n) Store \<Rightarrow> string \<Rightarrow> string \<Rightarrow> 'b Metered \<Rightarrow> 'b Metered \<times> unit Result" where
  "MeteredEnsureContainer B driver container = metered driver ''ensure_container'' (so_ensure_container B container)"

definition MeteredPresignPut ::
  "('b, 'n) Store \<Rightarrow> string \<Rightarrow> ObjectRef \<Rightarrow> PresignOptions \<Rightarrow> 'b Metered \<Rightarrow> 'b Metered \<times> SignedLocation Result" where
  "MeteredPresignPut B driver ref options = metered driver ''presign_put'' (so_presign_put B ref options)"

definition MeteredPresignGet ::
  "('b, 'n) Store \<Rightarrow> string \<Rightarrow> ObjectRef \<Rightarrow> PresignOptions \<Rightarrow> 'b Metered \<Rightarrow> 'b Metered \<times> SignedLocation Result" where
  "MeteredPresignGet B driver ref options = metered driver ''presign_get'' (so_presign_get B ref options)"

definition MeteredPut ::
  "('b, 'n) Store \<Rightarrow> string \<Rightarrow> 's Source \<Rightarrow> ObjectRef \<Rightarrow> PutOptions \<Rightarrow> 'b Metered \<times> 's \<Rightarrow> ('b Metered \<times> 's) \<times> unit Result" where
  "MeteredPut B driver S ref options = (\<lambda>(s, src).
     (case run_reads (CountingSource S) (so_put B ref options (ms_inner s)) (src, 0) of
        ((src, bytes), (b, result)) \<Rightarrow>
          ((\<lparr>ms_inner = b, ms_metrics = count_op driver ''put'' (is_ok result) (count_bytes ''in'' bytes (ms_metrics s))\<rparr>, src),
           result)))"

definition MeteredGet ::
  "('b, 'n) Store \<Rightarrow> string \<Rightarrow> 'k Sink \<Rightarrow> ObjectRef \<Rightarrow> ByteRange \<Rightarrow> 'b Metered \<times> 'k \<Rightarrow> ('b Metered \<times> 'k) \<times> unit Result" where
  "MeteredGet B driver K ref rng = (\<lambda>(s, snk).
     (case run_writes (CountedSink K) (so_get B ref rng (ms_inner s)) (snk, 0) of
        ((snk, bytes), (b, result)) \<Rightarrow>
          ((\<lparr>ms_inner = b, ms_metrics = count_op driver ''get'' (is_ok result) (count_bytes ''out'' bytes (ms_metrics s))\<rparr>, snk),
           result)))"

definition MeteredStat :: "('b, 'n) Store \<Rightarrow> string \<Rightarrow> ObjectRef \<Rightarrow> 'b Metered \<Rightarrow> 'b Metered \<times> ObjectStat Result" where
  "MeteredStat B driver ref = metered driver ''stat'' (so_stat B ref)"

definition MeteredRemove :: "('b, 'n) Store \<Rightarrow> string \<Rightarrow> ObjectRef \<Rightarrow> 'b Metered \<Rightarrow> 'b Metered \<times> unit Result" where
  "MeteredRemove B driver ref = metered driver ''remove'' (so_remove B ref)"

definition MeteredCopy ::
  "('b, 'n) Store \<Rightarrow> string \<Rightarrow> ObjectRef \<Rightarrow> ObjectRef \<Rightarrow> 'b Metered \<Rightarrow> 'b Metered \<times> ObjectStat Result" where
  "MeteredCopy B driver src dst = metered driver ''copy'' (so_copy B src dst)"

definition MeteredList ::
  "('b, 'n) Store \<Rightarrow> string \<Rightarrow> string \<Rightarrow> string \<Rightarrow> string \<Rightarrow> int \<Rightarrow> 'b Metered \<Rightarrow> 'b Metered \<times> ListPage Result" where
  "MeteredList B driver container prefix_text token lim = metered driver ''list'' (so_list B container prefix_text token lim)"

definition MeteredRemoveTempFiles ::
  "('b, 'n) Store \<Rightarrow> string \<Rightarrow> string \<Rightarrow> int \<Rightarrow> bool \<Rightarrow> 'b Metered \<Rightarrow> 'b Metered \<times> TempSweepResult Result" where
  "MeteredRemoveTempFiles B driver container older_than dry_run =
     metered driver ''remove_temp_files'' (so_remove_temp_files B container older_than dry_run)"

section \<open>Native reads\<close>

record 'n MeteredNativeSource =
  mn_inner :: 'n
  mn_bytes_read :: int
  mn_read_calls :: int

definition MeteredOpenNativeRead ::
  "('b, 'n) Store \<Rightarrow> ObjectRef \<Rightarrow> 'b Metered \<Rightarrow> 'b Metered \<times> 'n MeteredNativeSource Result" where
  "MeteredOpenNativeRead B ref s =
     (case so_OpenNativeRead B ref (ms_inner s) of
        (b, Inl e) \<Rightarrow> (s\<lparr>ms_inner := b\<rparr>, Inl e)
      | (b, Inr None) \<Rightarrow> (s\<lparr>ms_inner := b\<rparr>, Err kInternal msg_native_null)
      | (b, Inr (Some n)) \<Rightarrow> (s\<lparr>ms_inner := b\<rparr>, Ok \<lparr>mn_inner = n, mn_bytes_read = 0, mn_read_calls = 0\<rparr>))"

definition MeteredNativeRead ::
  "'n reader \<Rightarrow> ('n MeteredNativeSource \<times> MetricsRegistry) reader" where
  "MeteredNativeRead read capacity = (\<lambda>(s, r).
     (case read capacity (mn_inner s) of
        (n, Inl e) \<Rightarrow> ((s\<lparr>mn_inner := n, mn_read_calls := mn_read_calls s + 1\<rparr>, r), Inl e)
      | (n, Inr d) \<Rightarrow>
          ((s\<lparr>mn_inner := n, mn_read_calls := mn_read_calls s + 1,
              mn_bytes_read := (if d = [] then mn_bytes_read s else wrap_i64 (mn_bytes_read s + int (length d)))\<rparr>,
            count_bytes ''out'' (int (length d)) r), Inr d)))"

definition MeteredNativeDestroy :: "string \<Rightarrow> 'n MeteredNativeSource \<Rightarrow> MetricsRegistry \<Rightarrow> MetricsRegistry" where
  "MeteredNativeDestroy driver s r = (if mn_read_calls s > 0 then count_op driver ''get'' True r else r)"

definition RecordNativeRead :: "string \<Rightarrow> int \<Rightarrow> bool \<Rightarrow> MetricsRegistry \<Rightarrow> MetricsRegistry" where
  "RecordNativeRead driver bytes ok r = count_op driver ''get'' ok (count_bytes ''out'' bytes r)"

section \<open>Counting changes nothing\<close>

lemma wrap_i64_add: "wrap_i64 (wrap_i64 a + b) = wrap_i64 (a + b)"
  by (simp add: wrap_i64_def mod_simps) (simp add: mod_add_left_eq algebra_simps)

text \<open>How many bytes a store reads from a source, and how many it writes into a sink, by calls that succeed.\<close>

primrec bytes_read :: "'s Source \<Rightarrow> 'a Reads \<Rightarrow> 's \<Rightarrow> nat" where
  "bytes_read S (ReadsDone x) = (\<lambda>s. 0)"
| "bytes_read S (AskRead n f) = (\<lambda>s. case src_read S n s of
     (s, r) \<Rightarrow> (case r of Inl e \<Rightarrow> 0 | Inr d \<Rightarrow> length d) + bytes_read S (f r) s)"
| "bytes_read S (AskSize f) = (\<lambda>s. bytes_read S (f (src_size S s)) s)"
| "bytes_read S (AskSeekable f) = (\<lambda>s. bytes_read S (f (src_seekable S s)) s)"
| "bytes_read S (AskSeek n f) = (\<lambda>s. case src_seek S n s of (s, r) \<Rightarrow> bytes_read S (f r) s)"

primrec bytes_written :: "'k Sink \<Rightarrow> 'a Writes \<Rightarrow> 'k \<Rightarrow> nat" where
  "bytes_written K (WritesDone x) = (\<lambda>k. 0)"
| "bytes_written K (AskWrite d f) = (\<lambda>k. case snk_write K d k of
     (k, r) \<Rightarrow> (case r of Inl e \<Rightarrow> 0 | Inr _ \<Rightarrow> length d) + bytes_written K (f r) k)"
| "bytes_written K (AskClose f) = (\<lambda>k. case snk_close K k of (k, r) \<Rightarrow> bytes_written K (f r) k)"

lemma counting_source_transparent:
  "run_reads (CountingSource S) t (s, wrap_i64 c) =
    (case run_reads S t s of (s', x) \<Rightarrow> ((s', wrap_i64 (c + int (bytes_read S t s))), x))"
proof (induction t arbitrary: s c)
  case (AskRead n f)
  then show ?case
    by (auto simp: CountingSource_def CountingSourceRead_def wrap_i64_add add.assoc split: prod.splits sum.splits)
next
  case (AskSeek n f)
  then show ?case by (auto simp: CountingSource_def split: prod.splits)
qed (auto simp: CountingSource_def)

lemma counted_sink_transparent:
  "run_writes (CountedSink K) t (k, wrap_i64 c) =
    (case run_writes K t k of (k', x) \<Rightarrow> ((k', wrap_i64 (c + int (bytes_written K t k))), x))"
proof (induction t arbitrary: k c)
  case (AskWrite d f)
  then show ?case
    by (auto simp: CountedSink_def CountedSinkWrite_def wrap_i64_add add.assoc Ok_def split: prod.splits sum.splits)
next
  case (AskClose f)
  then show ?case by (auto simp: CountedSink_def split: prod.splits)
qed (auto simp: CountedSink_def)

section \<open>What is counted\<close>

definition metric_after :: "string \<Rightarrow> string \<Rightarrow> bool \<Rightarrow> string \<Rightarrow> int \<Rightarrow> MetricsRegistry \<Rightarrow> string \<Rightarrow> Labels \<Rightarrow> int" where
  "metric_after driver op ok direction n r m ls =
     (if m = kOperations \<and> ls = op_labels driver op ok then wrap_i64 (MetricValue r m ls + 1)
      else if n > 0 \<and> m = kBytes \<and> ls = [(''direction'', direction)] then wrap_i64 (MetricValue r m ls + n)
      else MetricValue r m ls)"

lemma plain_names: "plain_text kOperations" "plain_text kBytes" "kOperations \<noteq> kBytes"
  by (simp_all add: plain_text_def kOperations_def kBytes_def)

lemma plain_op_labels: "plain_text driver \<Longrightarrow> plain_text op \<Longrightarrow> plain_labels (op_labels driver op ok)"
  by (simp add: plain_labels_def op_labels_def plain_text_def)

lemma plain_direction: "plain_text d \<Longrightarrow> plain_labels [(''direction'', d)]"
  by (simp add: plain_labels_def plain_text_def)

lemma counted:
  assumes "plain_text driver" "plain_text op" "plain_text direction" "plain_text m" "plain_labels ls"
  shows "MetricValue (count_op driver op ok (count_bytes direction n r)) m ls = metric_after driver op ok direction n r m ls"
  using assms plain_names plain_op_labels [OF assms(1,2)] plain_direction [OF assms(3)]
  by (auto simp: count_op_def count_bytes_def metric_after_def MetricValue_Increment)

lemma metered_exact:
  assumes "plain_text driver" "plain_text op" "plain_text m" "plain_labels ls"
  shows "case metered driver op call s of (s', result) \<Rightarrow>
    call (ms_inner s) = (ms_inner s', result) \<and>
    MetricValue (ms_metrics s') m ls = metric_after driver op (is_ok result) [] 0 (ms_metrics s) m ls"
  using counted [OF assms(1,2) _ assms(3,4), of "[]" _ 0]
  by (auto simp: metered_def count_bytes_def plain_text_def split: prod.splits)

text \<open>
  C36. The metered store does what the store inside it does: the same answer, the same state of the inner store, the same
  state of the caller's source or sink, whatever these are and in whatever order the store uses them. Of the metrics it
  changes the count of the operation with its driver and outcome, by one, and for a put or a get the bytes of the direction, by
  those that were read or written by calls that succeeded.
\<close>

theorem metered_transparent:
  assumes "plain_text driver" "plain_text m" "plain_labels ls"
  shows
    "(case MeteredPut B driver S ref options (s, src) of ((s', src'), result) \<Rightarrow>
        run_reads S (so_put B ref options (ms_inner s)) src = (src', (ms_inner s', result)) \<and>
        MetricValue (ms_metrics s') m ls =
          metric_after driver ''put'' (is_ok result) ''in''
            (wrap_i64 (int (bytes_read S (so_put B ref options (ms_inner s)) src))) (ms_metrics s) m ls) \<and>
     (case MeteredGet B driver K ref rng (s, snk) of ((s', snk'), result) \<Rightarrow>
        run_writes K (so_get B ref rng (ms_inner s)) snk = (snk', (ms_inner s', result)) \<and>
        MetricValue (ms_metrics s') m ls =
          metric_after driver ''get'' (is_ok result) ''out''
            (wrap_i64 (int (bytes_written K (so_get B ref rng (ms_inner s)) snk))) (ms_metrics s) m ls) \<and>
     (case MeteredRemove B driver ref s of (s', result) \<Rightarrow>
        so_remove B ref (ms_inner s) = (ms_inner s', result) \<and>
        MetricValue (ms_metrics s') m ls = metric_after driver ''remove'' (is_ok result) [] 0 (ms_metrics s) m ls) \<and>
     (case MeteredCopy B driver ref dst s of (s', result) \<Rightarrow>
        so_copy B ref dst (ms_inner s) = (ms_inner s', result) \<and>
        MetricValue (ms_metrics s') m ls = metric_after driver ''copy'' (is_ok result) [] 0 (ms_metrics s) m ls)"
proof (intro conjI)
  note plain = counted [OF assms(1) _ _ assms(2,3)]
  show "case MeteredPut B driver S ref options (s, src) of ((s', src'), result) \<Rightarrow>
      run_reads S (so_put B ref options (ms_inner s)) src = (src', (ms_inner s', result)) \<and>
      MetricValue (ms_metrics s') m ls =
        metric_after driver ''put'' (is_ok result) ''in''
          (wrap_i64 (int (bytes_read S (so_put B ref options (ms_inner s)) src))) (ms_metrics s) m ls"
    using counting_source_transparent [of S "so_put B ref options (ms_inner s)" src 0] plain [of "''put''" "''in''"]
    by (auto simp: MeteredPut_def wrap_i64_id in_i64_def i64_max_def plain_text_def split: prod.splits)
  show "case MeteredGet B driver K ref rng (s, snk) of ((s', snk'), result) \<Rightarrow>
      run_writes K (so_get B ref rng (ms_inner s)) snk = (snk', (ms_inner s', result)) \<and>
      MetricValue (ms_metrics s') m ls =
        metric_after driver ''get'' (is_ok result) ''out''
          (wrap_i64 (int (bytes_written K (so_get B ref rng (ms_inner s)) snk))) (ms_metrics s) m ls"
    using counted_sink_transparent [of K "so_get B ref rng (ms_inner s)" snk 0] plain [of "''get''" "''out''"]
    by (auto simp: MeteredGet_def wrap_i64_id in_i64_def i64_max_def plain_text_def split: prod.splits)
next
  have plain: "plain_text ''remove''" "plain_text ''copy''" by (simp_all add: plain_text_def)
  note calls = metered_exact [OF assms(1) plain(1) assms(2,3), of "so_remove B ref" s]
    metered_exact [OF assms(1) plain(2) assms(2,3), of "so_copy B ref dst" s]
  show "case MeteredRemove B driver ref s of (s', result) \<Rightarrow>
      so_remove B ref (ms_inner s) = (ms_inner s', result) \<and>
      MetricValue (ms_metrics s') m ls = metric_after driver ''remove'' (is_ok result) [] 0 (ms_metrics s) m ls"
    unfolding MeteredRemove_def by (rule calls(1))
  show "case MeteredCopy B driver ref dst s of (s', result) \<Rightarrow>
      so_copy B ref dst (ms_inner s) = (ms_inner s', result) \<and>
      MetricValue (ms_metrics s') m ls = metric_after driver ''copy'' (is_ok result) [] 0 (ms_metrics s) m ls"
    unfolding MeteredCopy_def by (rule calls(2))
qed

text \<open>A store that keeps one text, writes it out on a get, and forgets it on a removal.\<close>

definition one_text_store :: "(string, unit) Store" where
  "one_text_store =
     \<lparr>so_ensure_container = (\<lambda>c b. (b, Ok ())), so_presign_put = (\<lambda>r p b. (b, Err kUnimplemented [])),
      so_presign_get = (\<lambda>r p b. (b, Err kUnimplemented [])),
      so_put = (\<lambda>r p b. AskRead 16 (\<lambda>x. case x of Inl e \<Rightarrow> ReadsDone (b, Inl e) | Inr d \<Rightarrow> ReadsDone (d, Ok ()))),
      so_get = (\<lambda>r g b. AskWrite b (\<lambda>x. WritesDone (b, x))),
      so_OpenNativeRead = (\<lambda>r b. (b, Err kUnimplemented [])), so_stat = (\<lambda>r b. (b, Err kNotFound [])),
      so_remove = (\<lambda>r b. ([], Ok ())), so_copy = (\<lambda>r q b. (b, Err kNotFound [])),
      so_list = (\<lambda>c p t n b. (b, Err kInternal [])), so_remove_temp_files = (\<lambda>c t d b. (b, Err kInternal []))\<rparr>"

definition string_source :: "StringSource Source" where
  "string_source = \<lparr>src_read = StringSourceRead, src_size = (\<lambda>s. Some (int (length (ss_data s)))), src_seekable = (\<lambda>_. True),
     src_seek = StringSourceSeek\<rparr>"

definition string_sink :: "StringSink Sink" where
  "string_sink = \<lparr>snk_write = StringSinkWrite, snk_close = StringSinkClose\<rparr>"

theorem metered_transparent_witness:
  "(case MeteredPut one_text_store ''posix'' string_source \<lparr>or_container = ''c'', or_key = ''k'', or_version_id = None\<rparr> default_PutOptions
      (NewMetered [] mr_empty, \<lparr>ss_data = ''abc'', ss_pos = 0\<rparr>) of ((s', src'), result) \<Rightarrow>
      ms_inner s' = ''abc'' \<and> result = Ok () \<and>
      MetricValue (ms_metrics s') kBytes [(''direction'', ''in'')] = 3)"
proof -
  have plain: "plain_text ''posix''" "plain_text kBytes" "plain_labels [(''direction'', ''in'')]"
    by (simp_all add: plain_text_def plain_labels_def kBytes_def)
  have start: "MetricValue (ms_metrics (NewMetered ([] :: string) mr_empty)) m ls = 0" for m ls
    by (simp add: MetricValue_def sample_value_of_def NewMetered_def MetricRegister_def mr_empty_def)
  have inner: "ms_inner (NewMetered ([] :: string) mr_empty) = []" by (simp add: NewMetered_def)
  show ?thesis
    using conjunct1 [OF metered_transparent [OF plain, where B = one_text_store and S = string_source and
      ref = "\<lparr>or_container = ''c'', or_key = ''k'', or_version_id = None\<rparr>" and options = default_PutOptions and
      s = "NewMetered [] mr_empty" and src = "\<lparr>ss_data = ''abc'', ss_pos = 0\<rparr>"]]
    by (auto simp: one_text_store_def string_source_def StringSourceRead_def Ok_def metric_after_def plain_names start
      inner op_labels_def wrap_i64_def split: prod.splits)
qed

text \<open>A native read counts like a get: once for the source, however often it is read, and each byte; a source that is
  never read counts nothing, so that \<open>RecordNativeRead\<close> can count what the kernel sent.\<close>

fun native_reads :: "'n reader \<Rightarrow> nat list \<Rightarrow> 'n MeteredNativeSource \<times> MetricsRegistry \<Rightarrow> 'n MeteredNativeSource \<times> MetricsRegistry" where
  "native_reads read [] s = s"
| "native_reads read (n # ns) s = native_reads read ns (fst (MeteredNativeRead read n s))"

lemma native_reads_calls:
  "mn_read_calls (fst (native_reads read ns s)) = mn_read_calls (fst s) + int (length ns)"
proof (induction ns arbitrary: s)
  case (Cons n ns)
  have "mn_read_calls (fst (fst (MeteredNativeRead read n s))) = mn_read_calls (fst s) + 1"
    by (auto simp: MeteredNativeRead_def split: prod.splits sum.splits)
  then show ?case by (simp add: Cons.IH)
qed simp

lemma unread_native_source:
  "MeteredNativeDestroy driver (fst (native_reads read ns (\<lparr>mn_inner = n, mn_bytes_read = 0, mn_read_calls = 0\<rparr>, r))) r' =
   (if ns = [] then r' else count_op driver ''get'' True r')"
  by (simp add: MeteredNativeDestroy_def native_reads_calls)

end
