(* ===== verification/Large_File_Plane.thy ===== *)
theory Large_File_Plane
  imports Http_Server Byte_Stream Metrics
begin

text \<open>
  \<^verbatim>\<open>common/http/large_file_plane\<close>: the second listener, which serves downloads with \<^verbatim>\<open>sendfile\<close> or from user space. A connection
  is what its \<^verbatim>\<open>recv\<close> calls will return and how its \<^verbatim>\<open>send\<close> calls will go, two lists of events, and the bytes it has accepted.
  The handler and the source of a response are arguments; a native descriptor is the content of its file. The loop
  that accepts connections and the workers that serve them are a step relation.
\<close>

section \<open>Options and sockets\<close>

record LargeFilePlaneOptions =
  lo_use_sendfile :: bool
  lo_sendfile_chunk_bytes :: int
  lo_base_path :: string
  lo_error_format :: string
  lo_idle_timeout_sec :: int
  lo_keep_alive_max_count :: int
  lo_max_uri_bytes :: int
  lo_max_header_bytes :: int
  lo_userspace_buffer_bytes :: int
  lo_metrics :: bool
  lo_on_native_bytes :: bool

text \<open>Data of no bytes is the end of the stream; so is the end of the list.\<close>

datatype RecvEvent = RecvData string | RecvInterrupted | RecvTimeout | RecvFails

text \<open>At the end of the list every call takes all it is given.\<close>

datatype SendEvent = SendTakes nat | SendInterrupted | SendWouldBlock | SendFails

record 's PlaneSource =
  ls_read :: "'s reader"
  ls_seek :: "int \<Rightarrow> 's \<Rightarrow> 's \<times> unit Result"
  ls_native :: "'s \<Rightarrow> string option"

record 'w Plane =
  pl_recv :: "RecvEvent list"
  pl_send :: "SendEvent list"
  pl_out :: string
  pl_world :: 'w
  pl_log :: "(string \<times> LogValue) list list"
  pl_warnings :: "(string \<times> string) list"
  pl_metrics :: MetricsRegistry
  pl_native_bytes :: "(int \<times> bool) list"
  pl_sendfile_calls :: "64 word"
  pl_sendfile_bytes :: "64 word"
  pl_userspace_calls :: "64 word"
  pl_userspace_bytes :: "64 word"

definition kHeadChunk :: nat where "kHeadChunk = 16 * 1024"

definition ReasonPhrase :: "int \<Rightarrow> string" where
  "ReasonPhrase status =
     (case map_of [(200, ''OK''), (201, ''Created''), (204, ''No Content''), (206, ''Partial Content''), (400, ''Bad Request''),
        (401, ''Unauthorized''), (403, ''Forbidden''), (404, ''Not Found''), (405, ''Method Not Allowed''),
        (408, ''Request Timeout''), (413, ''Payload Too Large''), (414, ''URI Too Long''), (416, ''Range Not Satisfiable''),
        (431, ''Request Header Fields Too Large''), (500, ''Internal Server Error''), (503, ''Service Unavailable'')] status of
        None \<Rightarrow> ''Error'' | Some m \<Rightarrow> m)"

text \<open>What is left of the events, what was accepted, and whether all of it was.\<close>

fun send_all :: "SendEvent list \<Rightarrow> string \<Rightarrow> SendEvent list \<times> string \<times> bool" where
  "send_all es [] = (es, [], True)"
| "send_all [] (c # d) = ([], c # d, True)"
| "send_all (SendTakes n # es) (c # d) =
     (if n = 0 then (es, [], False)
      else (case send_all es (drop n (c # d)) of (es', out, ok) \<Rightarrow> (es', take n (c # d) @ out, ok)))"
| "send_all (SendInterrupted # es) (c # d) = send_all es (c # d)"
| "send_all (SendWouldBlock # es) (c # d) = (es, [], False)"
| "send_all (SendFails # es) (c # d) = (es, [], False)"

definition SendAll :: "string \<Rightarrow> 'w Plane \<Rightarrow> 'w Plane \<times> bool" where
  "SendAll d s = (case send_all (pl_send s) d of (es, out, ok) \<Rightarrow> (s\<lparr>pl_send := es, pl_out := pl_out s @ out\<rparr>, ok))"

section \<open>Request heads\<close>

datatype HeadStatus = HeadOk string | HeadClosed | HeadTimeout | HeadTooLarge

definition head_mark :: string where "head_mark = crlf @ crlf"

text \<open>What stands before the first blank line, and what follows it.\<close>

fun split_head :: "string \<Rightarrow> (string \<times> string) option" where
  "split_head [] = None"
| "split_head (c # s) =
     (if starts_with head_mark (c # s) then Some ([], drop 3 s) else map_option (\<lambda>(h, rest). (c # h, rest)) (split_head s))"

fun recv_size :: "RecvEvent list \<Rightarrow> nat" where
  "recv_size [] = 0"
| "recv_size (RecvData d # es) = Suc (length d + recv_size es)"
| "recv_size (_ # es) = Suc (recv_size es)"

text \<open>The next \<^verbatim>\<open>recv\<close> call that is not interrupted; data beyond the buffer stays for the next call.\<close>

function read_head :: "LargeFilePlaneOptions \<Rightarrow> string \<Rightarrow> RecvEvent list \<Rightarrow> HeadStatus \<times> string \<times> RecvEvent list" where
  "read_head opt pending es =
     (case split_head pending of
        Some (head, rest) \<Rightarrow> (HeadOk head, rest, es)
      | None \<Rightarrow>
          if int (length pending) > lo_max_header_bytes opt + lo_max_uri_bytes opt then (HeadTooLarge, pending, es)
          else (case es of
                  [] \<Rightarrow> (HeadClosed, pending, [])
                | RecvData d # es \<Rightarrow>
                    if d = [] then (HeadClosed, pending, es)
                    else read_head opt (pending @ take kHeadChunk d)
                           (if kHeadChunk < length d then RecvData (drop kHeadChunk d) # es else es)
                | RecvInterrupted # es \<Rightarrow> read_head opt pending es
                | RecvTimeout # es \<Rightarrow> (HeadTimeout, pending, es)
                | RecvFails # es \<Rightarrow> (HeadClosed, pending, es)))"
  by pat_completeness auto
termination
  by (relation "measure (\<lambda>(opt, pending, es). recv_size es)") (auto simp: kHeadChunk_def)

fun split_lines :: "string \<Rightarrow> string \<Rightarrow> string list" where
  "split_lines line [] = [rev line]"
| "split_lines line (c # s) =
     (case s of
        [] \<Rightarrow> split_lines (c # line) s
      | d # t \<Rightarrow> if c = CHR 0x0D \<and> d = CHR 0x0A then rev line # split_lines [] t else split_lines (c # line) s)"

record Parsed =
  pa_method :: Method
  pa_method_raw :: string
  pa_target :: string
  pa_path :: string
  pa_query :: string
  pa_headers :: HeaderMap
  pa_content_length :: int
  pa_is_chunked :: bool

definition plane_blank :: "char \<Rightarrow> bool" where
  "plane_blank c \<longleftrightarrow> c = CHR '' '' \<or> c = CHR 0x09"

definition TrimInPlace :: "string \<Rightarrow> string" where
  "TrimInPlace s = rev (dropWhile plane_blank (rev (dropWhile plane_blank s)))"

fun parse_header_lines :: "string list \<Rightarrow> HeaderMap \<Rightarrow> (int \<times> string) + HeaderMap" where
  "parse_header_lines [] h = Inr h"
| "parse_header_lines (line # lines) h =
     (if line = [] then parse_header_lines lines h
      else if plane_blank (hd line) then Inl (400, ''obsolete line folding is not accepted'')
      else if CHR '':'' \<notin> set line \<or> hd line = CHR '':'' then Inl (400, ''malformed header line'')
      else parse_header_lines lines (HeaderAdd (before_first (CHR '':'') line) (TrimInPlace (after_first (CHR '':'') line)) h))"

definition ParseHead :: "LargeFilePlaneOptions \<Rightarrow> string \<Rightarrow> (int \<times> string) + Parsed" where
  "ParseHead opt head =
     (let lines = split_lines [] head; request_line = hd lines;
          after_verb = after_first (CHR '' '') request_line in
      if request_line = [] \<or> CHR '' '' \<notin> set request_line \<or> CHR '' '' \<notin> set after_verb
      then Inl (400, ''malformed request line'')
      else
        let verb = before_first (CHR '' '') request_line; target = before_first (CHR '' '') after_verb in
        if int (length target) > lo_max_uri_bytes opt
        then Inl (414, ''request target exceeds '' @ to_string (lo_max_uri_bytes opt) @ '' bytes'')
        else
          (case parse_header_lines (tl lines) [] of
             Inl e \<Rightarrow> Inl e
           | Inr h \<Rightarrow>
               Inr \<lparr>pa_method = ParseMethod verb, pa_method_raw = verb, pa_target = target,
                    pa_path = before_first (CHR ''?'') target,
                    pa_query = (if CHR ''?'' \<in> set target then after_first (CHR ''?'') target else []),
                    pa_headers = h,
                    pa_content_length =
                      (case HeaderGet ''Content-Length'' h of
                         None \<Rightarrow> - 1
                       | Some cl \<Rightarrow> (case strtoll_all cl of None \<Rightarrow> - 1 | Some n \<Rightarrow> if n \<ge> 0 then n else - 1)),
                    pa_is_chunked =
                      (case HeaderGet ''Transfer-Encoding'' h of
                         None \<Rightarrow> False | Some te \<Rightarrow> contains_str ''chunked'' (map tolower te))\<rparr>))"

section \<open>Responses\<close>

record 's Outgoing =
  og_status :: int
  og_headers :: HeaderMap
  og_body :: string
  og_stream :: "'s option"
  og_offset :: int
  og_length :: int
  og_head_only :: bool
  og_close :: bool
  og_note :: string

definition HandlerError :: "LargeFilePlaneOptions \<Rightarrow> int \<Rightarrow> string \<Rightarrow> 's HttpResponse" where
  "HandlerError opt status detail = JsonResponse status (ErrorBody status detail (lo_error_format opt))"

definition json_error :: "LargeFilePlaneOptions \<Rightarrow> int \<Rightarrow> string \<Rightarrow> HeaderMap \<Rightarrow> 's Outgoing \<Rightarrow> 's Outgoing" where
  "json_error opt status detail extra out =
     out\<lparr>og_stream := None, og_status := status,
         og_headers := fold (\<lambda>(k, v). HeaderSet k v) extra (HeaderSet ''Content-Type'' ''application/json'' []),
         og_body := ErrorBody status detail (lo_error_format opt)\<rparr>"

definition Prepare :: "LargeFilePlaneOptions \<Rightarrow> HttpRequest \<Rightarrow> 's HttpResponse \<Rightarrow> 's Outgoing" where
  "Prepare opt req res =
     (let out = \<lparr>og_status = resp_status res, og_headers = resp_headers res, og_body = resp_body res, og_stream = resp_stream res,
                 og_offset = 0, og_length = 0, og_head_only = hq_is_head req, og_close = False, og_note = []\<rparr>;
          total_size = resp_stream_length res in
      case resp_stream res of
        None \<Rightarrow> out
      | Some _ \<Rightarrow>
          if total_size < 0 then json_error opt 500 ''unknown-length stream is not supported yet'' [] out
          else
            let out = out\<lparr>og_length := total_size\<rparr> in
            (case HeaderGet ''Range'' (hq_headers req) of
               None \<Rightarrow> out
             | Some range_header \<Rightarrow>
                 let parsed = ParseRangeHeader range_header total_size in
                 (case rr_status parsed of
                    kAbsent \<Rightarrow> out
                  | kSingle \<Rightarrow>
                      let r = hd (rr_ranges parsed) in
                      out\<lparr>og_status := 206, og_offset := hr_first r, og_length := hr_last r - hr_first r + 1,
                          og_headers := HeaderSet ''Content-Range'' (FormatContentRange r total_size) (og_headers out)\<rparr>
                  | kMultiple \<Rightarrow> out\<lparr>og_status := 200\<rparr>
                  | kMalformed \<Rightarrow> out\<lparr>og_status := 200\<rparr>
                  | kUnsatisfiable \<Rightarrow>
                      (json_error opt 416 (rr_detail parsed)
                         [(''Content-Range'', FormatUnsatisfiedContentRange total_size)] out)
                        \<lparr>og_length := 0, og_note := ''range_unsatisfiable_416''\<rparr>)))"

text \<open>The loop of \<^verbatim>\<open>sendfile\<close> calls: at the end of the file a call sends nothing.\<close>

lemma nat_minus_le: "nat (r - int k) \<le> nat r"
  by simp

function sendfile_loop ::
  "int \<Rightarrow> string \<Rightarrow> int \<Rightarrow> int \<Rightarrow> SendEvent list \<Rightarrow> string \<Rightarrow> SendEvent list \<times> string \<times> bool" where
  "sendfile_loop chunk content offset remaining es sent =
     (if remaining > 0 then
        let want = nat (min remaining (max 1 chunk)); available = take want (drop (nat offset) content) in
        (case es of
           [] \<Rightarrow>
             if available = [] then ([], sent, True)
             else sendfile_loop chunk content (offset + int (length available)) (remaining - int (length available)) [] (sent @ available)
         | SendTakes n # es \<Rightarrow>
             let d = take n available in
             if d = [] then (es, sent, True)
             else sendfile_loop chunk content (offset + int (length d)) (remaining - int (length d)) es (sent @ d)
         | SendInterrupted # es \<Rightarrow> sendfile_loop chunk content offset remaining es sent
         | SendWouldBlock # es \<Rightarrow> sendfile_loop chunk content offset remaining es sent
         | SendFails # es \<Rightarrow> (es, sent, False))
      else (es, sent, True))"
  by pat_completeness auto
termination
  by (relation "measure (\<lambda>(chunk, content, offset, remaining, es, sent). nat remaining + length es)")
     (auto simp: Let_def less_Suc_eq_le nat_minus_le)

function userspace_loop ::
  "'s reader \<Rightarrow> nat \<Rightarrow> int \<Rightarrow> 's \<Rightarrow> SendEvent list \<Rightarrow> string \<Rightarrow> int \<Rightarrow> 's \<times> SendEvent list \<times> string \<times> int \<times> bool" where
  "userspace_loop read capacity remaining src es out sent =
     (if remaining > 0 then
        (case read (nat (min remaining (int capacity))) src of
           (src, Inl e) \<Rightarrow> (src, es, out, sent, False)
         | (src, Inr d) \<Rightarrow>
             if d = [] then (src, es, out, sent, True)
             else (case send_all es d of
                     (es, accepted, False) \<Rightarrow> (src, es, out @ accepted, sent, False)
                   | (es, accepted, True) \<Rightarrow>
                       userspace_loop read capacity (remaining - int (length d)) src es (out @ accepted) (sent + int (length d))))
      else (src, es, out, sent, True))"
  by pat_completeness auto
termination
  by (relation "measure (\<lambda>(read, capacity, remaining, src, es, out, sent). nat remaining)") (auto simp flip: length_greater_0_conv)

declare read_head.simps [simp del] sendfile_loop.simps [simp del] userspace_loop.simps [simp del]

definition plane_count :: "LargeFilePlaneOptions \<Rightarrow> string \<Rightarrow> int \<Rightarrow> 'w Plane \<Rightarrow> 'w Plane" where
  "plane_count opt name n s = (if lo_metrics opt then s\<lparr>pl_metrics := MetricIncrement name [] n (pl_metrics s)\<rparr> else s)"

definition count_sendfile :: "LargeFilePlaneOptions \<Rightarrow> int \<Rightarrow> bool \<Rightarrow> 'w Plane \<Rightarrow> 'w Plane" where
  "count_sendfile opt sent complete s =
     (let s = (if lo_on_native_bytes opt then s\<lparr>pl_native_bytes := pl_native_bytes s @ [(sent, complete)]\<rparr> else s);
          s = s\<lparr>pl_sendfile_calls := pl_sendfile_calls s + 1, pl_sendfile_bytes := pl_sendfile_bytes s + of_int sent\<rparr>;
          s = plane_count opt ''fss_large_file_plane_sendfile_calls_total'' 1 s in
      if sent > 0 then plane_count opt ''fss_large_file_plane_sendfile_bytes_total'' sent s else s)"

definition count_userspace :: "LargeFilePlaneOptions \<Rightarrow> int \<Rightarrow> 'w Plane \<Rightarrow> 'w Plane" where
  "count_userspace opt sent s =
     (let s = s\<lparr>pl_userspace_calls := pl_userspace_calls s + 1, pl_userspace_bytes := pl_userspace_bytes s + of_int sent\<rparr>;
          s = plane_count opt ''fss_large_file_plane_userspace_calls_total'' 1 s in
      if sent > 0 then plane_count opt ''fss_large_file_plane_userspace_bytes_total'' sent s else s)"

definition PumpStream :: "LargeFilePlaneOptions \<Rightarrow> 's PlaneSource \<Rightarrow> 's \<Rightarrow> 's Outgoing \<Rightarrow> 'w Plane \<Rightarrow> 'w Plane \<times> bool" where
  "PumpStream opt S source out s =
     (if og_length out \<le> 0 then (s, True)
      else
        case ls_seek S (og_offset out) source of
          (source, Inl e) \<Rightarrow>
            (s\<lparr>pl_warnings := pl_warnings s @ [(''large_file_plane_seek_failed'', error_message e)]\<rparr>, False)
        | (source, Inr _) \<Rightarrow>
            (case (if lo_use_sendfile opt then ls_native S source else None) of
               Some content \<Rightarrow>
                 (case sendfile_loop
                         (if lo_sendfile_chunk_bytes opt > 0 then lo_sendfile_chunk_bytes opt else og_length out)
                         content (og_offset out) (og_length out) (pl_send s) [] of
                    (es, d, ok) \<Rightarrow>
                      let complete = (ok \<and> int (length d) = og_length out) in
                      (count_sendfile opt (int (length d)) complete (s\<lparr>pl_send := es, pl_out := pl_out s @ d\<rparr>), complete))
             | None \<Rightarrow>
                 (case userspace_loop (ls_read S)
                         (if lo_userspace_buffer_bytes opt > 0 then nat (lo_userspace_buffer_bytes opt) else 64 * 1024)
                         (og_length out) source (pl_send s) [] 0 of
                    (source, es, d, sent, ok) \<Rightarrow>
                      let complete = (ok \<and> sent = og_length out) in
                      (count_userspace opt sent (s\<lparr>pl_send := es, pl_out := pl_out s @ d\<rparr>), complete))))"

definition head_text :: "int \<Rightarrow> HeaderMap \<Rightarrow> string" where
  "head_text status h =
     ''HTTP/1.1 '' @ to_string status @ '' '' @ ReasonPhrase status @ crlf @
     concat (map (\<lambda>(name, v). name @ '': '' @ v @ crlf) h) @ crlf"

text \<open>The headers a response is sent with.\<close>

definition final_headers :: "LargeFilePlaneOptions \<Rightarrow> HttpRequest \<Rightarrow> nat \<Rightarrow> 's Outgoing \<Rightarrow> 's Outgoing" where
  "final_headers opt req served out =
     (let h = og_headers out;
          h = (if og_stream out = None \<and> HeaderGet ''Content-Type'' h = None \<and> og_body out \<noteq> []
               then HeaderSet ''Content-Type'' ''text/plain'' h else h);
          content_length = (case og_stream out of None \<Rightarrow> int (length (og_body out)) | Some _ \<Rightarrow> og_length out);
          h = HeaderSet ''Content-Length'' (to_string content_length) (fst (HeaderRemove ''Content-Length'' h));
          close_after =
            (og_close out \<or> int served + 1 \<ge> max 1 (lo_keep_alive_max_count opt) \<or>
             HeaderGet ''Connection'' (hq_headers req) = Some ''close'') in
      out\<lparr>og_close := close_after, og_headers := (if close_after then HeaderSet ''Connection'' ''close'' h else h)\<rparr>)"

definition WriteResponse ::
  "LargeFilePlaneOptions \<Rightarrow> 's PlaneSource \<Rightarrow> HttpRequest \<Rightarrow> 's Outgoing \<Rightarrow> nat \<Rightarrow> 'w Plane \<Rightarrow> 'w Plane \<times> 's Outgoing \<times> bool" where
  "WriteResponse opt S req out served s =
     (let out = final_headers opt req served out in
      case SendAll (head_text (og_status out) (og_headers out)) s of
        (s, False) \<Rightarrow> (s, out, False)
      | (s, True) \<Rightarrow>
          if og_head_only out then (s, out, True)
          else (case og_stream out of
                  Some source \<Rightarrow> (case PumpStream opt S source out s of (s, ok) \<Rightarrow> (s, out, ok))
                | None \<Rightarrow> (case SendAll (og_body out) s of (s, ok) \<Rightarrow> (s, out, ok))))"

section \<open>A connection\<close>

text \<open>What the process adds to the requests of one connection, by their number: fresh ids, durations on the clock, and
  whether the plane is being stopped.\<close>

record PlaneEnv =
  pe_remote_addr :: string
  pe_new_uuid :: "nat \<Rightarrow> string"
  pe_duration_ms :: "nat \<Rightarrow> int"
  pe_stop :: "nat \<Rightarrow> bool"

type_synonym ('w, 's) PlaneHandler = "'w \<Rightarrow> HttpRequest \<Rightarrow> 'w \<times> 's HandlerOutcome"

definition CallHandler ::
  "LargeFilePlaneOptions \<Rightarrow> ('w, 's) PlaneHandler \<Rightarrow> HttpRequest \<Rightarrow> 'w Plane \<Rightarrow> 'w Plane \<times> 's HttpResponse" where
  "CallHandler opt handler req s =
     (case handler (pl_world s) req of
        (w, Returned res) \<Rightarrow> (s\<lparr>pl_world := w\<rparr>, res)
      | (w, Threw what) \<Rightarrow> (s\<lparr>pl_world := w\<rparr>, HandlerError opt 500 (msg_plane_threw @ what))
      | (w, ThrewUnknown) \<Rightarrow> (s\<lparr>pl_world := w\<rparr>, HandlerError opt 500 msg_plane_threw_unknown))"

definition empty_request :: HttpRequest where
  "empty_request =
     \<lparr>hq_method = kUnknownMethod, hq_method_raw = [], hq_path = [], hq_query = [], hq_params = [], hq_headers = [],
      hq_remote_addr = [], hq_correlation_id = [], hq_route_name = [], hq_body = [], hq_streamed = False,
      hq_is_chunked = False, hq_content_length = - 1, hq_is_head = False, hq_route_params = []\<rparr>"

definition plane_request :: "PlaneEnv \<Rightarrow> nat \<Rightarrow> Parsed \<Rightarrow> HttpRequest" where
  "plane_request env served pa =
     \<lparr>hq_method = pa_method pa, hq_method_raw = pa_method_raw pa, hq_path = pa_path pa, hq_query = pa_query pa,
      hq_params = value_or (ParseQuery (pa_query pa) True) [], hq_headers = pa_headers pa,
      hq_remote_addr = pe_remote_addr env,
      hq_correlation_id =
        (case HeaderGet ''x-correlation-id'' (pa_headers pa) of
           Some cid \<Rightarrow> if cid \<noteq> [] then cid else pe_new_uuid env served | None \<Rightarrow> pe_new_uuid env served),
      hq_route_name = [], hq_body = [], hq_streamed = False, hq_is_chunked = pa_is_chunked pa,
      hq_content_length = pa_content_length pa, hq_is_head = (pa_method pa = kHead), hq_route_params = []\<rparr>"

definition plane_prefix :: "LargeFilePlaneOptions \<Rightarrow> string" where
  "plane_prefix opt = lo_base_path opt @ ''/v1/transfer/''"

text \<open>The checks before the handler: the error response and its note.\<close>

definition plane_refusal :: "LargeFilePlaneOptions \<Rightarrow> HttpRequest \<Rightarrow> ('s HttpResponse \<times> string) option" where
  "plane_refusal opt req =
     (case smuggling req of
        Some (detail, note) \<Rightarrow> Some (HandlerError opt 400 detail, note)
      | None \<Rightarrow>
          if \<not> (starts_with (plane_prefix opt) (hq_path req) \<and>
                 CHR ''/'' \<notin> set (drop (length (plane_prefix opt)) (hq_path req)))
          then Some (HandlerError opt 404 (''no route for '' @ hq_method_raw req @ '' '' @ shown_path (hq_path req)), ''route_not_found'')
          else if hq_method req \<noteq> kGet \<and> hq_method req \<noteq> kHead
          then let res = HandlerError opt 405 (''method not allowed on the download plane: '' @ hq_method_raw req @ '' (only GET/HEAD)'') in
               Some (res\<lparr>resp_headers := HeaderSet ''Allow'' ''GET, HEAD'' (resp_headers res)\<rparr>, ''method_not_allowed_405'')
          else None)"

text \<open>Sending one answer and logging it; whether the connection ends with it.\<close>

definition plane_finish ::
  "LargeFilePlaneOptions \<Rightarrow> 's PlaneSource \<Rightarrow> PlaneEnv \<Rightarrow> HttpRequest \<Rightarrow> 's Outgoing \<Rightarrow> 's HttpResponse \<Rightarrow> string \<Rightarrow> bool \<Rightarrow>
   string \<Rightarrow> nat \<Rightarrow> 'w Plane \<Rightarrow> 'w Plane \<times> bool" where
  "plane_finish opt S env req out res note force_close pending served s =
     (case WriteResponse opt S req (out\<lparr>og_close := og_close out \<or> force_close\<rparr>) served s of
        (s, out, delivered) \<Rightarrow>
          (s\<lparr>pl_log := pl_log s @ [access_fields req (res\<lparr>resp_status := og_status out\<rparr>) (pe_duration_ms env served) note]\<rparr>,
           \<not> delivered \<or> og_close out \<or> pending \<noteq> []))"

definition serve_request ::
  "LargeFilePlaneOptions \<Rightarrow> 's PlaneSource \<Rightarrow> ('w, 's) PlaneHandler \<Rightarrow> PlaneEnv \<Rightarrow> string \<Rightarrow> string \<Rightarrow> nat \<Rightarrow> 'w Plane \<Rightarrow>
   'w Plane \<times> bool" where
  "serve_request opt S handler env head pending served s =
     (case ParseHead opt head of
        Inl (status, detail) \<Rightarrow>
          let req = empty_request\<lparr>hq_remote_addr := pe_remote_addr env\<rparr>; res = HandlerError opt status detail in
          plane_finish opt S env req (Prepare opt req res) res (if status = 414 then ''uri_too_long_414'' else []) True pending served s
      | Inr pa \<Rightarrow>
          let req = plane_request env served pa in
          (case plane_refusal opt req of
             Some (res, note) \<Rightarrow> plane_finish opt S env req (Prepare opt req res) res note True pending served s
           | None \<Rightarrow>
               let req = req\<lparr>hq_route_name := ''transfer.get'',
                             hq_route_params := [(''token'', drop (length (plane_prefix opt)) (hq_path req))]\<rparr> in
               (case CallHandler opt handler req s of
                  (s, res) \<Rightarrow>
                    let out = Prepare opt req res in
                    plane_finish opt S env req out res (og_note out) (\<not> og_status out < 400) pending served s)))"

definition timeout_response :: "LargeFilePlaneOptions \<Rightarrow> 's HttpResponse" where
  "timeout_response opt =
     HandlerError opt 408 (''request head idle timeout (no progress within '' @ to_string (lo_idle_timeout_sec opt) @ ''s)'')"

definition timeout_out :: "LargeFilePlaneOptions \<Rightarrow> 's Outgoing" where
  "timeout_out opt =
     (Prepare opt empty_request (timeout_response opt))\<lparr>og_close := True, og_note := ''request_head_idle_timeout_408''\<rparr>"

definition serve_timeout ::
  "LargeFilePlaneOptions \<Rightarrow> 's PlaneSource \<Rightarrow> string \<Rightarrow> nat \<Rightarrow> 'w Plane \<Rightarrow> 'w Plane" where
  "serve_timeout opt S pending served s =
     (if pending = [] \<and> served \<noteq> 0 then s
      else
        case WriteResponse opt S empty_request (timeout_out opt) served s of
          (s, out, delivered) \<Rightarrow>
            s\<lparr>pl_log := pl_log s @ [access_fields empty_request (timeout_response opt :: unit HttpResponse) 0
                                   ''request_head_idle_timeout_408'']\<rparr>)"

definition too_large_out :: "LargeFilePlaneOptions \<Rightarrow> 's Outgoing" where
  "too_large_out opt =
     (Prepare opt empty_request (HandlerError opt 431 ''request head exceeds header limit''))\<lparr>og_close := True\<rparr>"

definition serve_too_large :: "LargeFilePlaneOptions \<Rightarrow> 's PlaneSource \<Rightarrow> nat \<Rightarrow> 'w Plane \<Rightarrow> 'w Plane" where
  "serve_too_large opt S served s = fst (WriteResponse opt S empty_request (too_large_out opt) served s)"

text \<open>Every round takes at least the blank line of one head from what is pending and still to come.\<close>

lemma split_head_length: "split_head s = Some (head, rest) \<Longrightarrow> length s = length head + 4 + length rest"
  by (induction s arbitrary: head rest)
     (auto simp: starts_with_def head_mark_def crlf_def split: if_splits dest!: arg_cong [where f = length])

lemma read_head_length:
  "read_head opt pending es = (HeadOk head, rest, es') \<Longrightarrow> length rest + recv_size es' < length pending + recv_size es"
proof (induction opt pending es rule: read_head.induct)
  case (1 opt pending es)
  show ?case
  proof (cases "split_head pending")
    case (Some hr)
    then show ?thesis using "1.prems" split_head_length [of pending head rest]
      by (cases hr) (simp add: read_head.simps)
  next
    case None
    then have small: "\<not> int (length pending) > lo_max_header_bytes opt + lo_max_uri_bytes opt"
      using "1.prems" by (auto simp: read_head.simps)
    note IH = "1.IH" [OF None small]
    show ?thesis
    proof (cases es)
      case (Cons e es0)
      show ?thesis
      proof (cases e)
        case (RecvData d)
        then have "d \<noteq> []" using "1.prems" None small Cons by (auto simp: read_head.simps)
        then show ?thesis using IH(1) [OF Cons RecvData] "1.prems" None small Cons RecvData
          by (auto simp: read_head.simps [of opt pending] kHeadChunk_def split: if_splits)
      next
        case RecvInterrupted
        then show ?thesis using IH(2) [OF Cons RecvInterrupted] "1.prems" None small Cons
          by (simp add: read_head.simps [of opt pending])
      qed (use "1.prems" None small Cons in \<open>auto simp: read_head.simps\<close>)
    qed (use "1.prems" None small in \<open>auto simp: read_head.simps\<close>)
  qed
qed

function serve_loop ::
  "LargeFilePlaneOptions \<Rightarrow> 's PlaneSource \<Rightarrow> ('w, 's) PlaneHandler \<Rightarrow> PlaneEnv \<Rightarrow> string \<Rightarrow> RecvEvent list \<Rightarrow> nat \<Rightarrow> 'w Plane \<Rightarrow>
   'w Plane" where
  "serve_loop opt S handler env pending es served s =
     (if pe_stop env served then s\<lparr>pl_recv := es\<rparr>
      else
        (case read_head opt pending es of
           (HeadOk head, rest, es') \<Rightarrow>
             (case serve_request opt S handler env head rest served s of
                (s, over) \<Rightarrow> if over then s\<lparr>pl_recv := es'\<rparr> else serve_loop opt S handler env rest es' (Suc served) s)
         | (HeadClosed, rest, es') \<Rightarrow> s\<lparr>pl_recv := es'\<rparr>
         | (HeadTimeout, rest, es') \<Rightarrow> serve_timeout opt S rest served (s\<lparr>pl_recv := es'\<rparr>)
         | (HeadTooLarge, rest, es') \<Rightarrow> serve_too_large opt S served (s\<lparr>pl_recv := es'\<rparr>)))"
  by pat_completeness auto
termination
  by (relation "measure (\<lambda>(opt, S, handler, env, pending, es, served, s). length pending + recv_size es)")
     (auto dest: sym [THEN read_head_length])

declare serve_loop.simps [simp del]

definition ServeConnection ::
  "LargeFilePlaneOptions \<Rightarrow> 's PlaneSource \<Rightarrow> ('w, 's) PlaneHandler \<Rightarrow> PlaneEnv \<Rightarrow> 'w Plane \<Rightarrow> 'w Plane" where
  "ServeConnection opt S handler env s = serve_loop opt S handler env [] (pl_recv s) 0 s"

section \<open>Accepting connections\<close>

record PlaneServer =
  ps_max_connections :: int
  ps_queue :: "nat list"
  ps_serving :: "nat list"
  ps_in_flight :: int
  ps_connections_total :: "64 word"
  ps_rejected_busy :: "64 word"
  ps_stopping :: bool

definition default_workers :: "nat \<Rightarrow> int" where
  "default_workers hardware = max 64 (2 * (if hardware = 0 then 8 else int hardware))"

definition NewPlaneServer :: "int \<Rightarrow> int \<Rightarrow> nat \<Rightarrow> PlaneServer" where
  "NewPlaneServer worker_threads max_connections hardware =
     (let workers = (if worker_threads > 0 then worker_threads else default_workers hardware) in
      \<lparr>ps_max_connections = (if max_connections > 0 then max_connections else workers), ps_queue = [], ps_serving = [],
       ps_in_flight = 0, ps_connections_total = 0, ps_rejected_busy = 0, ps_stopping = False\<rparr>)"

text \<open>A connection over the limit is answered, closed and counted out again by the accepting thread itself.\<close>

definition AcceptOne :: "nat \<Rightarrow> PlaneServer \<Rightarrow> PlaneServer" where
  "AcceptOne fd s =
     (let s = s\<lparr>ps_connections_total := ps_connections_total s + 1, ps_in_flight := ps_in_flight s + 1\<rparr> in
      if ps_in_flight s > ps_max_connections s
      then s\<lparr>ps_rejected_busy := ps_rejected_busy s + 1, ps_in_flight := ps_in_flight s - 1\<rparr>
      else s\<lparr>ps_queue := ps_queue s @ [fd]\<rparr>)"

definition busy_text :: "LargeFilePlaneOptions \<Rightarrow> int \<Rightarrow> string" where
  "busy_text opt limit =
     (let body = ErrorBody 503 (''too many in-flight requests (limit '' @ to_string limit @ '')'') (lo_error_format opt) in
      ''HTTP/1.1 503 Service Unavailable'' @ crlf @ ''Content-Type: application/json'' @ crlf @ ''Retry-After: 1'' @ crlf @
      ''Content-Length: '' @ nat_to_string (length body) @ crlf @ ''Connection: close'' @ head_mark @ body)"

inductive plane_step :: "PlaneServer \<Rightarrow> PlaneServer \<Rightarrow> bool" where
  plane_accept: "\<not> ps_stopping s \<Longrightarrow> plane_step s (AcceptOne fd s)"
| plane_take: "ps_queue s = fd # q \<Longrightarrow> \<not> ps_stopping s \<Longrightarrow>
    plane_step s (s\<lparr>ps_queue := q, ps_serving := fd # ps_serving s\<rparr>)"
| plane_drop: "ps_queue s = fd # q \<Longrightarrow> ps_stopping s \<Longrightarrow> plane_step s (s\<lparr>ps_queue := q, ps_in_flight := ps_in_flight s - 1\<rparr>)"
| plane_done: "fd \<in> set (ps_serving s) \<Longrightarrow>
    plane_step s (s\<lparr>ps_serving := remove1 fd (ps_serving s), ps_in_flight := ps_in_flight s - 1\<rparr>)"
| plane_stop: "plane_step s (s\<lparr>ps_stopping := True\<rparr>)"

inductive_cases plane_stepE: "plane_step s t"

lemma int_diff_one: "x \<in> set xs \<Longrightarrow> int (length xs - Suc 0) = int (length xs) - 1"
  using length_pos_if_in_set [of x xs] by linarith

lemma plane_in_flight_bounded:
  assumes "plane_step\<^sup>*\<^sup>* (NewPlaneServer w m hw) s"
  shows "ps_in_flight s = int (length (ps_queue s) + length (ps_serving s)) \<and> ps_in_flight s \<le> ps_max_connections s"
  using assms
proof (induction rule: rtranclp_induct)
  case base
  then show ?case by (simp add: NewPlaneServer_def default_workers_def Let_def le_max_iff_disj)
next
  case (step s t)
  from step.hyps(2) step.IH show ?case
    by (cases rule: plane_stepE) (auto simp: AcceptOne_def Let_def length_remove1 int_diff_one)
qed

end
