(* ===== verification/Large_File_Properties.thy ===== *)
theory Large_File_Properties
  imports Large_File_Plane Http_Properties
begin

text \<open>
  What the download plane puts on the wire: every connection carries whole answers whose declared length is right, the last one
  possibly cut, and a download carries exactly the range that was asked for.
\<close>

section \<open>Sending\<close>

lemma send_all_part:
  "send_all es d = (es', out, ok) \<Longrightarrow> prefix out d \<and> (ok \<longrightarrow> out = d)"
proof (induction es d arbitrary: es' out ok rule: send_all.induct)
  case (3 n es c d)
  show ?case
  proof (cases "n = 0")
    case False
    obtain es1 out1 ok1 where rest: "send_all es (drop n (c # d)) = (es1, out1, ok1)" by (metis prod_cases3)
    with "3.IH" [OF False] have "prefix out1 (drop n (c # d))" "ok1 \<longrightarrow> out1 = drop n (c # d)" by blast+
    moreover have "out = take n (c # d) @ out1" "ok = ok1" using "3.prems" False rest by auto
    ultimately show ?thesis by (metis append_take_drop_id same_prefix_prefix)
  qed (use "3.prems" in auto)
qed auto

lemma SendAll_part:
  assumes "SendAll d s = (s', ok)"
  shows "\<exists>w. pl_out s' = pl_out s @ w \<and> prefix w d \<and> (ok \<longrightarrow> w = d)"
  using assms send_all_part [of "pl_send s" d] by (auto simp: SendAll_def split: prod.splits)

lemma prefix_take_drop: "prefix (take n d) d"
  by (metis append_take_drop_id prefixI)

lemma prefix_after_take: "prefix w (drop (length d) c) \<Longrightarrow> prefix d c \<Longrightarrow> prefix (d @ w) c"
  by (metis append_eq_conv_conj prefix_def same_prefix_prefix)

text \<open>The kernel sends a prefix of what stands in the file from the offset on.\<close>

lemma sendfile_more:
  assumes "prefix d (drop (nat off) c)" "int (length d) \<le> rem" "0 \<le> off"
    and "\<exists>w. out = (sent @ d) @ w \<and> prefix w (drop (nat (off + int (length d))) c) \<and> int (length w) \<le> max 0 (rem - int (length d))"
  shows "\<exists>w. out = sent @ w \<and> prefix w (drop (nat off) c) \<and> int (length w) \<le> max 0 rem"
proof -
  obtain w where w: "out = (sent @ d) @ w" "prefix w (drop (nat (off + int (length d))) c)"
      "int (length w) \<le> max 0 (rem - int (length d))"
    using assms(4) by blast
  have "drop (nat (off + int (length d))) c = drop (length d) (drop (nat off) c)"
    using assms(3) by (simp add: nat_add_distrib add.commute)
  then have "prefix (d @ w) (drop (nat off) c)" using w(2) assms(1) by (simp add: prefix_after_take)
  then show ?thesis using w(1,3) assms(2) by (intro exI [of _ "d @ w"]) auto
qed

lemma sendfile_part:
  "sendfile_loop chunk c off rem es sent = (es', out, ok) \<Longrightarrow> 0 \<le> off \<Longrightarrow>
   \<exists>w. out = sent @ w \<and> prefix w (drop (nat off) c) \<and> int (length w) \<le> max 0 rem"
proof (induction chunk c off rem es sent rule: sendfile_loop.induct)
  case (1 chunk c off rem es sent)
  show ?case
  proof (cases "rem > 0")
    case pos: True
    define av where "av = take (nat (min rem (max 1 chunk))) (drop (nat off) c)"
    have part: "prefix (take n av) (drop (nat off) c)" "int (length (take n av)) \<le> rem" for n
    proof -
      show "prefix (take n av) (drop (nat off) c)" unfolding av_def by (rule prefix_order.trans [OF prefix_take_drop prefix_take_drop])
      have "length (take n av) \<le> nat (min rem (max 1 chunk))" unfolding av_def by (simp add: min.coboundedI2)
      then show "int (length (take n av)) \<le> rem" using pos by linarith
    qed
    have unfold: "sendfile_loop chunk c off rem xs sent =
        (case xs of
           [] \<Rightarrow> if av = [] then ([], sent, True)
               else sendfile_loop chunk c (off + int (length av)) (rem - int (length av)) [] (sent @ av)
         | SendTakes n # xs \<Rightarrow>
             (let d = take n av in
              if d = [] then (xs, sent, True)
              else sendfile_loop chunk c (off + int (length d)) (rem - int (length d)) xs (sent @ d))
         | SendInterrupted # xs \<Rightarrow> sendfile_loop chunk c off rem xs sent
         | SendWouldBlock # xs \<Rightarrow> sendfile_loop chunk c off rem xs sent
         | SendFails # xs \<Rightarrow> (xs, sent, False))" for xs
      by (subst sendfile_loop.simps) (simp only: pos if_True Let_def av_def)
    note IH = "1.IH" [OF pos refl refl, folded av_def]
    show ?thesis
    proof (cases es)
      case Nil
      show ?thesis
      proof (cases "av = []")
        case False
        then have "sendfile_loop chunk c (off + int (length av)) (rem - int (length av)) [] (sent @ av) = (es', out, ok)"
          using "1.prems"(1) by (simp add: unfold [of "[]"] Nil)
        from IH(1) [OF Nil False this] "1.prems"(2) show ?thesis
          by (intro sendfile_more [OF _ _ "1.prems"(2), of av]) (use part [of "length av"] in auto)
      qed (use "1.prems"(1) in \<open>auto simp: unfold [of "[]"] Nil\<close>)
    next
      case (Cons e es0)
      show ?thesis
      proof (cases e)
        case (SendTakes n)
        show ?thesis
        proof (cases "take n av = []")
          case False
          then have "sendfile_loop chunk c (off + int (length (take n av))) (rem - int (length (take n av))) es0
              (sent @ take n av) = (es', out, ok)"
            using "1.prems"(1) by (simp only: unfold [of "SendTakes n # es0"] Cons SendTakes Let_def list.case SendEvent.case if_False)
          from IH(2) [OF Cons SendTakes refl False this] "1.prems"(2) show ?thesis
            by (intro sendfile_more [OF part "1.prems"(2)]) auto
        qed (use "1.prems"(1) in \<open>auto simp: unfold [of "SendTakes n # es0"] Cons SendTakes Let_def\<close>)
      next
        case SendInterrupted
        then show ?thesis using IH(3) [OF Cons] "1.prems" by (simp add: unfold [of "SendInterrupted # es0"] Cons)
      next
        case SendWouldBlock
        then show ?thesis using IH(4) [OF Cons] "1.prems" by (simp add: unfold [of "SendWouldBlock # es0"] Cons)
      next
        case SendFails
        then show ?thesis using "1.prems"(1) by (simp add: unfold [of "SendFails # es0"] Cons)
      qed
    qed
  qed (use "1.prems"(1) in \<open>auto simp: sendfile_loop.simps [of chunk c off rem es sent]\<close>)
qed

text \<open>A source never returns more than it is asked for. One that serves a content returns it piece by piece.\<close>

definition bounded_reader :: "'s reader \<Rightarrow> bool" where
  "bounded_reader read \<longleftrightarrow> (\<forall>n s s' d. read n s = (s', Inr d) \<longrightarrow> length d \<le> n)"

coinductive serves :: "'s reader \<Rightarrow> 's \<Rightarrow> string \<Rightarrow> bool" for read where
  serves: "\<forall>n > 0. \<exists>k s'. read n s = (s', Ok (take k c)) \<and> k \<le> n \<and> (c \<noteq> [] \<longrightarrow> 0 < k) \<and> serves read s' (drop k c) \<Longrightarrow>
    serves read s c"

lemma servesD:
  assumes "serves read s c" "0 < n"
  obtains k s' where "read n s = (s', Inr (take k c))" "k \<le> n" "c \<noteq> [] \<Longrightarrow> 0 < k" "serves read s' (drop k c)"
  using assms by (elim serves.cases) (metis Ok_def)

lemma userspace_step:
  assumes "rem > 0" "read (nat (min rem (int cap))) src = (src', Inr d)" "d \<noteq> []"
  shows "userspace_loop read cap rem src es out sent =
    (case send_all es d of
       (es, accepted, False) \<Rightarrow> (src', es, out @ accepted, sent, False)
     | (es, accepted, True) \<Rightarrow>
         userspace_loop read cap (rem - int (length d)) src' es (out @ accepted) (sent + int (length d)))"
  by (subst userspace_loop.simps) (simp add: assms)

lemma userspace_part:
  "userspace_loop read cap rem src es out sent = (src', es', out', sent', ok) \<Longrightarrow> bounded_reader read \<Longrightarrow>
   \<exists>w. out' = out @ w \<and> int (length w) \<le> max 0 rem \<and> (ok \<longrightarrow> sent' = sent + int (length w)) \<and>
     (\<forall>c. 0 < cap \<and> serves read src c \<longrightarrow> prefix w c)"
proof (induction read cap rem src es out sent rule: userspace_loop.induct)
  case (1 read cap rem src es out sent)
  note unfold = userspace_loop.simps [of read cap rem src es out sent]
  show ?case
  proof (cases "rem > 0")
    case pos: True
    obtain src1 r where r: "read (nat (min rem (int cap))) src = (src1, r)" by fastforce
    show ?thesis
    proof (cases "\<exists>d. r = Inr d \<and> d \<noteq> []")
      case True
      then obtain d where d: "r = Inr d" "d \<noteq> []" by blast
      note step = userspace_step [where read = read and cap = cap and rem = rem and src = src, OF pos r [unfolded d(1)] d(2), of es out sent]
      have len: "int (length d) \<le> rem" using "1.prems"(2) r pos unfolding bounded_reader_def d(1) by fastforce
      have content: "d = take (length d) c \<and> serves read src1 (drop (length d) c)" if cap: "0 < cap" and c: "serves read src c" for c
      proof -
        have "0 < nat (min rem (int cap))" using pos cap by simp
        from servesD [OF c this] obtain k where k: "d = take k c" "serves read src1 (drop k c)"
          using r by (metis Inr_inject Pair_inject d(1))
        then have "drop (length d) c = drop k c" by (cases "k \<le> length c") simp_all
        then show ?thesis using k by (cases "k \<le> length c") (simp_all add: min_def)
      qed
      obtain es1 accepted sent_ok where send: "send_all es d = (es1, accepted, sent_ok)" by (metis prod_cases3)
      have part: "prefix accepted d" "sent_ok \<Longrightarrow> accepted = d" using send_all_part [OF send] by blast+
      show ?thesis
      proof (cases sent_ok)
        case False
        then have "out' = out @ accepted" "\<not> ok" using "1.prems"(1) by (simp_all add: step send)
        moreover have "length accepted \<le> length d" using part(1) by (rule prefix_length_le)
        moreover have "prefix accepted c" if "0 < cap" "serves read src c" for c
          using content [OF that] part(1) prefix_take_drop [of "length d" c] by (metis prefix_order.trans)
        ultimately show ?thesis using len by (intro exI [of _ accepted]) auto
      next
        case True
        then have eq: "userspace_loop read cap (rem - int (length d)) src1 es1 (out @ d) (sent + int (length d)) = (src', es', out', sent', ok)"
          using "1.prems"(1) part(2) by (simp add: step send)
        have "sent_ok = True" using True by simp
        from "1.IH" [OF pos r [symmetric] d send [symmetric] refl this _ "1.prems"(2)] eq True part(2)
        obtain w where w: "out' = (out @ d) @ w" "int (length w) \<le> max 0 (rem - int (length d))"
            "ok \<longrightarrow> sent' = sent + int (length d) + int (length w)"
            "\<forall>c. 0 < cap \<and> serves read src1 c \<longrightarrow> prefix w c"
          by auto
        moreover have "prefix (d @ w) c" if "0 < cap" "serves read src c" for c
          using content [OF that] w(4) that(1) by (metis append_take_drop_id same_prefix_prefix)
        ultimately show ?thesis using w(1-3) len by (intro exI [of _ "d @ w"]) auto
      qed
    next
      case False
      then show ?thesis using "1.prems"(1) pos by (cases r) (auto simp: unfold r)
    qed
  qed (use "1.prems"(1) in \<open>auto simp: unfold\<close>)
qed

text \<open>A source that holds a content: seeking inside it works, reading goes on from there, and the file behind a native
  descriptor has the same content.\<close>

definition source_holds :: "'s PlaneSource \<Rightarrow> 's \<Rightarrow> string \<Rightarrow> bool" where
  "source_holds S src c \<longleftrightarrow>
     (\<forall>off. 0 \<le> off \<and> off \<le> int (length c) \<longrightarrow>
        (\<exists>s'. ls_seek S off src = (s', Ok ()) \<and> serves (ls_read S) s' (drop (nat off) c) \<and>
          (case ls_native S s' of None \<Rightarrow> True | Some f \<Rightarrow> f = c)))"

lemma source_holdsD:
  "source_holds S src c \<Longrightarrow> 0 \<le> off \<Longrightarrow> off \<le> int (length c) \<Longrightarrow> ls_seek S off src = (s', r) \<Longrightarrow>
   serves (ls_read S) s' (drop (nat off) c) \<and> (\<forall>f. ls_native S s' = Some f \<longrightarrow> f = c)"
  by (fastforce simp: source_holds_def split: option.splits)

lemma counts_keep_out [simp]:
  "pl_out (plane_count opt name n s) = pl_out s" "pl_out (count_sendfile opt n b s) = pl_out s"
  "pl_out (count_userspace opt n s) = pl_out s"
  by (simp_all add: plane_count_def count_sendfile_def count_userspace_def Let_def)

lemma PumpStream_part:
  assumes run: "PumpStream opt S src out s = (s', ok)" and bounded: "bounded_reader (ls_read S)"
    and pos: "0 \<le> og_offset out" "0 \<le> og_length out"
  shows "\<exists>w. pl_out s' = pl_out s @ w \<and> int (length w) \<le> og_length out \<and> (ok \<longrightarrow> int (length w) = og_length out) \<and>
    (\<forall>c. source_holds S src c \<and> og_offset out \<le> int (length c) \<longrightarrow> prefix w (drop (nat (og_offset out)) c))"
proof (cases "og_length out \<le> 0")
  case True
  then show ?thesis using run pos by (intro exI [of _ "[]"]) (auto simp: PumpStream_def)
next
  case False
  obtain src1 r where seek: "ls_seek S (og_offset out) src = (src1, r)" by fastforce
  show ?thesis
  proof (cases r)
    case (Inl e)
    then show ?thesis using run pos False by (intro exI [of _ "[]"]) (auto simp: PumpStream_def seek)
  next
    case (Inr u)
    show ?thesis
    proof (cases "if lo_use_sendfile opt then ls_native S src1 else None")
      case (Some f)
      obtain es d k where loop: "sendfile_loop (if lo_sendfile_chunk_bytes opt > 0 then lo_sendfile_chunk_bytes opt else og_length out)
          f (og_offset out) (og_length out) (pl_send s) [] = (es, d, k)" by (metis prod_cases3)
      from sendfile_part [OF loop pos(1)] have d: "prefix d (drop (nat (og_offset out)) f)" "int (length d) \<le> og_length out"
        using pos(2) by auto
      have "ls_native S src1 = Some f" using Some by (auto split: if_splits)
      then have same: "f = c" if "source_holds S src c" "og_offset out \<le> int (length c)" for c
        using source_holdsD [OF that(1) pos(1) that(2) seek] by blast
      show ?thesis
        using run d same False Some
        by (intro exI [of _ d]) (auto simp: PumpStream_def seek Inr loop Let_def)
    next
      case None
      obtain src2 es d sent k where loop: "userspace_loop (ls_read S)
          (if lo_userspace_buffer_bytes opt > 0 then nat (lo_userspace_buffer_bytes opt) else 64 * 1024)
          (og_length out) src1 (pl_send s) [] 0 = (src2, es, d, sent, k)" by (metis prod_cases5)
      from userspace_part [OF loop bounded] have d: "int (length d) \<le> og_length out" "k \<longrightarrow> sent = int (length d)"
          "\<forall>c. serves (ls_read S) src1 c \<longrightarrow> prefix d c"
        using pos(2) by (auto split: if_splits)
      have content: "prefix d (drop (nat (og_offset out)) c)" if "source_holds S src c" "og_offset out \<le> int (length c)" for c
        using source_holdsD [OF that(1) pos(1) that(2) seek] d(3) by blast
      show ?thesis
        using run d(1,2) content False None
        by (intro exI [of _ d]) (auto simp: PumpStream_def seek Inr loop Let_def)
    qed
  qed
qed

section \<open>One answer\<close>

definition declared_length :: "'s Outgoing \<Rightarrow> int" where
  "declared_length out = (case og_stream out of None \<Rightarrow> int (length (og_body out)) | Some _ \<Rightarrow> og_length out)"

definition stream_valid :: "'s Outgoing \<Rightarrow> bool" where
  "stream_valid out \<longleftrightarrow> og_stream out = None \<or> 0 \<le> og_offset out \<and> 0 \<le> og_length out"

lemma final_headers_length:
  "HeaderGet ''Content-Length'' (og_headers (final_headers opt req served out)) = Some (to_string (declared_length out))"
  by (simp add: final_headers_def declared_length_def HeaderGet_Set EqualsNoCase_def Let_def split: option.splits)

lemma header_values_set:
  "header_values n (HeaderSet name v h) =
     (if map tolower name \<noteq> n then header_values n h else if header_values n h = [] then [v] else v # tl (header_values n h))"
  by (induction h) (auto simp: header_values_def EqualsNoCase_iff)

lemma header_values_removed: "header_values (map tolower name) (fst (HeaderRemove name h)) = []"
  by (auto simp: header_values_def HeaderRemove_def EqualsNoCase_iff Let_def filter_empty_conv)

lemma final_headers_one_length:
  "header_values ''content-length'' (og_headers (final_headers opt req served out)) = [to_string (declared_length out)]"
proof -
  have names: "map tolower ''Connection'' \<noteq> ''content-length''" "map tolower ''Content-Length'' = ''content-length''" by code_simp+
  have one: "header_values ''content-length'' (HeaderSet ''Content-Length'' v (fst (HeaderRemove ''Content-Length'' h))) = [v]" for v h
    using header_values_removed [of "''Content-Length''" h] unfolding header_values_set names by simp
  have two: "header_values ''content-length'' (HeaderSet ''Connection'' v h) = header_values ''content-length'' h" for v h
    unfolding header_values_set by (rule if_P [OF names(1)])
  show ?thesis by (simp add: final_headers_def Let_def declared_length_def one two split: option.split)
qed

lemma final_headers_keep:
  "og_status (final_headers opt req served out) = og_status out" "og_head_only (final_headers opt req served out) = og_head_only out"
  "og_stream (final_headers opt req served out) = og_stream out" "og_body (final_headers opt req served out) = og_body out"
  "og_offset (final_headers opt req served out) = og_offset out" "og_length (final_headers opt req served out) = og_length out"
  by (simp_all add: final_headers_def Let_def)

definition answer_body :: "'s PlaneSource \<Rightarrow> 's Outgoing \<Rightarrow> bool \<Rightarrow> string \<Rightarrow> bool" where
  "answer_body S out ok body \<longleftrightarrow>
     (if og_head_only out then body = []
      else case og_stream out of
             None \<Rightarrow> body = og_body out
           | Some src \<Rightarrow>
               int (length body) \<le> og_length out \<and> (ok \<longrightarrow> int (length body) = og_length out) \<and>
               (\<forall>c. source_holds S src c \<and> og_offset out \<le> int (length c) \<longrightarrow> prefix body (drop (nat (og_offset out)) c)))"

lemma WriteResponse_part:
  assumes run: "WriteResponse opt S req out served s = (s', out', ok)" and bounded: "bounded_reader (ls_read S)"
    and valid: "stream_valid out"
  shows "out' = final_headers opt req served out \<and>
    (\<exists>w body. pl_out s' = pl_out s @ w \<and> prefix w (head_text (og_status out') (og_headers out') @ body) \<and>
      (ok \<longrightarrow> w = head_text (og_status out') (og_headers out') @ body) \<and> answer_body S out ok body)"
proof -
  let ?out = "final_headers opt req served out"
  let ?head = "head_text (og_status out) (og_headers ?out)"
  obtain s1 k where head: "SendAll ?head s = (s1, k)" by fastforce
  obtain w where w: "pl_out s1 = pl_out s @ w" "prefix w ?head" "k \<longrightarrow> w = ?head" using SendAll_part [OF head] by blast
  show ?thesis
  proof (cases "k \<and> \<not> og_head_only out")
    case False
    define body where "body = (if og_head_only out then [] else case og_stream out of None \<Rightarrow> og_body out | Some _ \<Rightarrow> [])"
    have "answer_body S out ok body"
      using run False valid by (auto simp: WriteResponse_def Let_def final_headers_keep head answer_body_def body_def stream_valid_def split: option.splits if_splits)
    moreover have "out' = ?out" "s' = s1" "ok \<longrightarrow> k \<and> og_head_only out"
      using run False by (auto simp: WriteResponse_def Let_def head final_headers_keep split: bool.splits)
    ultimately show ?thesis using w by (intro conjI exI [of _ w] exI [of _ body]) (auto simp: body_def final_headers_keep intro: prefix_prefix)
  next
    case True
    show ?thesis
    proof (cases "og_stream out")
      case None
      obtain s2 l where body: "SendAll (og_body out) s1 = (s2, l)" by fastforce
      from SendAll_part [OF body] obtain v where v: "pl_out s2 = pl_out s1 @ v" "prefix v (og_body out)" "l \<longrightarrow> v = og_body out" by blast
      have "out' = ?out" "s' = s2" "ok = l"
        using run True None by (auto simp: WriteResponse_def Let_def head body final_headers_keep)
      then show ?thesis using w v True None
        by (intro conjI exI [of _ "?head @ v"] exI [of _ "og_body out"]) (auto simp: answer_body_def final_headers_keep)
    next
      case (Some src)
      obtain s2 l where body: "PumpStream opt S src ?out s1 = (s2, l)" by fastforce
      from PumpStream_part [OF body bounded] valid Some obtain v where v: "pl_out s2 = pl_out s1 @ v"
          "int (length v) \<le> og_length out" "l \<longrightarrow> int (length v) = og_length out"
          "\<forall>c. source_holds S src c \<and> og_offset out \<le> int (length c) \<longrightarrow> prefix v (drop (nat (og_offset out)) c)"
        by (auto simp: stream_valid_def final_headers_keep)
      have "out' = ?out" "s' = s2" "ok = l"
        using run True Some by (auto simp: WriteResponse_def Let_def head body final_headers_keep)
      then show ?thesis using w v True Some
        by (intro conjI exI [of _ "?head @ v"] exI [of _ v]) (auto simp: answer_body_def final_headers_keep)
    qed
  qed
qed

section \<open>Framing\<close>

text \<open>A whole answer declares the length of the body that follows it, or of the body a HEAD request would get without the HEAD. A cut answer is
  the beginning of one whose body is not longer than declared.\<close>

definition complete_answer :: "bool \<Rightarrow> string \<Rightarrow> bool" where
  "complete_answer head_only w \<longleftrightarrow>
     (\<exists>status h body n. w = head_text status h @ body \<and> header_values ''content-length'' h = [to_string n] \<and>
        (if head_only then body = [] else int (length body) = n))"

definition cut_answer :: "string \<Rightarrow> bool" where
  "cut_answer w \<longleftrightarrow>
     (\<exists>status h body n. prefix w (head_text status h @ body) \<and> header_values ''content-length'' h = [to_string n] \<and>
        int (length body) \<le> n)"

text \<open>A request that asks for the head of an answer only. The verb of a head that cannot be parsed is not looked at.\<close>

definition head_request :: "LargeFilePlaneOptions \<Rightarrow> string \<Rightarrow> bool" where
  "head_request opt head \<longleftrightarrow> starts_with ''HEAD '' head \<and> (\<exists>pa. ParseHead opt head = Inr pa)"

lemma first_line:
  "\<exists>u t. s = u @ t \<and> hd (split_lines line s) = rev line @ u \<and> (t = [] \<or> hd t = CHR 0x0D)"
proof (induction line s rule: split_lines.induct)
  case (2 line c s)
  show ?case
  proof (cases s)
    case Nil
    then show ?thesis by (intro exI [of _ "[c]"] exI [of _ "[]"]) simp
  next
    case (Cons d t)
    show ?thesis
    proof (cases "c = CHR 0x0D \<and> d = CHR 0x0A")
      case True
      then show ?thesis using Cons by (intro exI [of _ "[]"] exI [of _ "c # s"]) simp
    next
      case False
      obtain u v where "s = u @ v" "hd (split_lines (c # line) s) = rev (c # line) @ u" "v = [] \<or> hd v = CHR 0x0D"
        using "2.IH"(3) [OF Cons False] by blast
      then have "c # s = (c # u) @ v \<and> hd (split_lines (c # line) s) = rev line @ c # u \<and> (v = [] \<or> hd v = CHR 0x0D)" by simp
      moreover have "split_lines line (c # s) = split_lines (c # line) s"
        by (subst split_lines.simps) (simp only: Cons list.case if_not_P [OF False])
      ultimately show ?thesis by metis
    qed
  qed
qed simp

lemma starts_in_first_line:
  assumes "CHR 0x0D \<notin> set p"
  shows "starts_with p (hd (split_lines [] s)) \<longleftrightarrow> starts_with p s"
proof -
  obtain u t where u: "s = u @ t" "hd (split_lines [] s) = u" "t = [] \<or> hd t = CHR 0x0D"
    using first_line [of s "[]"] by (metis append_Nil rev.simps(1))
  have "starts_with p u" if "starts_with p (u @ t)" "t \<noteq> []"
  proof (cases "length p \<le> length u")
    case False
    have "(u @ t) ! length u = CHR 0x0D" using u(3) that(2) by (simp add: nth_append hd_conv_nth)
    moreover have "p = take (length p) (u @ t)" using that(1) by (simp add: starts_with_def)
    ultimately have "p ! length u = CHR 0x0D" using False by (metis not_le nth_take)
    then show ?thesis using assms False by (metis not_le nth_mem)
  qed (use that in \<open>simp add: starts_with_def\<close>)
  then show ?thesis unfolding u(2) using u(1) by (cases "t = []") (auto simp: starts_with_iff)
qed

lemma head_request_parsed: "ParseHead opt head = Inr pa \<Longrightarrow> head_request opt head \<longleftrightarrow> pa_method pa = kHead"
proof -
  assume pa: "ParseHead opt head = Inr pa"
  let ?line = "hd (split_lines [] head)"
  have line: "CHR '' '' \<in> set ?line" "pa_method pa = ParseMethod (before_first (CHR '' '') ?line)"
    using pa by (auto simp: ParseHead_def Let_def split: if_splits sum.splits)
  have "pa_method pa = kHead \<longleftrightarrow> before_first (CHR '' '') ?line = ''HEAD''" unfolding line(2) by (simp add: ParseMethod_def)
  also have "\<dots> \<longleftrightarrow> starts_with ''HEAD '' ?line"
  proof
    assume "before_first (CHR '' '') ?line = ''HEAD''"
    then have "?line = ''HEAD '' @ after_first (CHR '' '') ?line" using first_sep_split [OF line(1)] by simp
    then show "starts_with ''HEAD '' ?line" by (metis starts_with_append)
  next
    assume "starts_with ''HEAD '' ?line"
    then obtain r where "?line = ''HEAD'' @ CHR '' '' # r" by (auto simp: starts_with_iff)
    then show "before_first (CHR '' '') ?line = ''HEAD''" by (simp add: before_first_def)
  qed
  also have "\<dots> \<longleftrightarrow> starts_with ''HEAD '' head" by (rule starts_in_first_line) simp
  finally show ?thesis using pa by (auto simp: head_request_def)
qed

lemma ParseRangeHeader_single:
  assumes "0 \<le> total_size" "rr_status (ParseRangeHeader h total_size) = kSingle"
  obtains r where "rr_ranges (ParseRangeHeader h total_size) = [r]" "in_object total_size r"
  using range_header_parts(1) [OF assms(1), of 0 0 h] assms(2)
  by (auto simp: Let_def i64_max_def length_Suc_conv)

lemma Prepare_valid: "stream_valid (Prepare opt req res)"
proof (cases "resp_stream res = None \<or> resp_stream_length res < 0")
  case True
  then show ?thesis by (auto simp: Prepare_def stream_valid_def json_error_def Let_def split: option.splits)
next
  case False
  then have n: "0 \<le> resp_stream_length res" by simp
  show ?thesis
  proof (cases "HeaderGet ''Range'' (hq_headers req)")
    case (Some h)
    show ?thesis
    proof (cases "rr_status (ParseRangeHeader h (resp_stream_length res)) = kSingle")
      case True
      obtain r where "rr_ranges (ParseRangeHeader h (resp_stream_length res)) = [r]" "in_object (resp_stream_length res) r"
        by (rule ParseRangeHeader_single [OF n True])
      then show ?thesis using False True Some by (auto simp: Prepare_def stream_valid_def in_object_def Let_def split: option.splits)
    qed (use False Some n in \<open>auto simp: Prepare_def stream_valid_def json_error_def Let_def split: RangeStatus.splits option.splits\<close>)
  qed (use False n in \<open>auto simp: Prepare_def stream_valid_def Let_def split: option.splits\<close>)
qed

lemma Prepare_head_only: "og_head_only (Prepare opt req res) = hq_is_head req"
  by (auto simp: Prepare_def json_error_def Let_def split: option.splits RangeStatus.splits)

lemma answer_framed:
  assumes "WriteResponse opt S req out served s = (s', out', ok)" "bounded_reader (ls_read S)" "stream_valid out"
  shows "\<exists>w. pl_out s' = pl_out s @ w \<and> (ok \<longrightarrow> complete_answer (og_head_only out) w) \<and> cut_answer w"
proof -
  from WriteResponse_part [OF assms] obtain w body where w: "out' = final_headers opt req served out" "pl_out s' = pl_out s @ w"
      "prefix w (head_text (og_status out') (og_headers out') @ body)"
      "ok \<longrightarrow> w = head_text (og_status out') (og_headers out') @ body" "answer_body S out ok body"
    by blast
  have len: "header_values ''content-length'' (og_headers out') = [to_string (declared_length out)]"
    unfolding w(1) by (rule final_headers_one_length)
  have "int (length body) \<le> declared_length out" "ok \<longrightarrow> (if og_head_only out then body = [] else int (length body) = declared_length out)"
    using w(5) assms(3) by (auto simp: answer_body_def declared_length_def stream_valid_def split: option.splits if_splits)
  then show ?thesis using w(2-4) len unfolding complete_answer_def cut_answer_def by metis
qed

lemma plane_finish_framed:
  assumes "plane_finish opt S env req out res note fc pending served s = (s', over)" "bounded_reader (ls_read S)" "stream_valid out"
  shows "\<exists>w. pl_out s' = pl_out s @ w \<and> (complete_answer (og_head_only out) w \<or> over \<and> cut_answer w)"
proof -
  let ?out = "out\<lparr>og_close := og_close out \<or> fc\<rparr>"
  obtain s1 out1 ok where run: "WriteResponse opt S req ?out served s = (s1, out1, ok)" by (metis prod_cases3)
  have "stream_valid ?out" "og_head_only ?out = og_head_only out" using assms(3) by (simp_all add: stream_valid_def)
  with answer_framed [OF run assms(2)] obtain w where "pl_out s1 = pl_out s @ w" "ok \<longrightarrow> complete_answer (og_head_only out) w" "cut_answer w"
    by auto
  then show ?thesis using assms(1) by (auto simp: plane_finish_def run)
qed

lemma serve_request_framed:
  assumes "serve_request opt S handler env head pending served s = (s', over)" "bounded_reader (ls_read S)"
  shows "\<exists>w. pl_out s' = pl_out s @ w \<and> (complete_answer (head_request opt head) w \<or> over \<and> cut_answer w)"
proof -
  have bad: "\<not> head_request opt head" if "ParseHead opt head = Inl e" for e using that by (simp add: head_request_def)
  have "\<exists>env req out res note fc s1. stream_valid out \<and> og_head_only out = head_request opt head \<and> pl_out s1 = pl_out s \<and>
      plane_finish opt S env req out res note fc pending served s1 = (s', over)"
  proof (cases "ParseHead opt head")
    case (Inr pa)
    let ?req = "plane_request env served pa"
    show ?thesis
    proof (cases "plane_refusal opt ?req :: ('b HttpResponse \<times> string) option")
      case None
      let ?req = "?req\<lparr>hq_route_name := ''transfer.get'',
                       hq_route_params := [(''token'', drop (length (plane_prefix opt)) (hq_path ?req))]\<rparr>"
      obtain s1 res where call: "CallHandler opt handler ?req s = (s1, res)" by fastforce
      have "pl_out s1 = pl_out s" using call by (auto simp: CallHandler_def split: prod.splits HandlerOutcome.splits)
      moreover have "plane_finish opt S env ?req (Prepare opt ?req res) res (og_note (Prepare opt ?req res))
          (\<not> og_status (Prepare opt ?req res) < 400) pending served s1 = (s', over)"
        using assms(1) None call by (simp add: serve_request_def Inr Let_def)
      moreover have "og_head_only (Prepare opt ?req res) = head_request opt head"
        by (simp add: Prepare_head_only head_request_parsed [OF Inr] plane_request_def)
      ultimately show ?thesis using Prepare_valid by blast
    next
      case (Some rn)
      obtain res remark where rn: "rn = (res, remark)" by fastforce
      have "plane_finish opt S env ?req (Prepare opt ?req res) res remark True pending served s = (s', over)"
        using assms(1) Some by (simp add: serve_request_def Inr Let_def rn)
      moreover have "og_head_only (Prepare opt ?req res) = head_request opt head"
        by (simp add: Prepare_head_only head_request_parsed [OF Inr] plane_request_def)
      ultimately show ?thesis using Prepare_valid by blast
    qed
  next
    case (Inl e)
    let ?req = "empty_request\<lparr>hq_remote_addr := pe_remote_addr env\<rparr>"
    obtain status detail where e: "e = (status, detail)" by fastforce
    let ?res = "HandlerError opt status detail"
    have "plane_finish opt S env ?req (Prepare opt ?req ?res) ?res (if status = 414 then ''uri_too_long_414'' else []) True pending served s =
        (s', over)"
      using assms(1) by (simp add: serve_request_def Inl e Let_def)
    moreover have "og_head_only (Prepare opt ?req ?res) = head_request opt head"
      using bad [OF Inl] by (simp add: Prepare_head_only empty_request_def)
    ultimately show ?thesis using Prepare_valid by blast
  qed
  then obtain env req out res remark fc s1 where f: "stream_valid out" "og_head_only out = head_request opt head" "pl_out s1 = pl_out s"
      "plane_finish opt S env req out res remark fc pending served s1 = (s', over)" by blast
  show ?thesis using plane_finish_framed [OF f(4) assms(2) f(1)] f(2,3) by simp
qed

lemma serve_timeout_framed:
  assumes "bounded_reader (ls_read S)"
  shows "\<exists>w. pl_out (serve_timeout opt S pending served s) = pl_out s @ w \<and> (w = [] \<or> cut_answer w)"
proof (cases "pending = [] \<and> served \<noteq> 0")
  case False
  obtain s1 out1 ok where run: "WriteResponse opt S empty_request (timeout_out opt) served s = (s1, out1, ok)" by (metis prod_cases3)
  have "stream_valid (timeout_out opt)" using Prepare_valid [of opt empty_request] by (simp add: stream_valid_def timeout_out_def)
  from answer_framed [OF run assms this] show ?thesis using False by (auto simp: serve_timeout_def run)
qed (simp add: serve_timeout_def)

lemma serve_too_large_framed:
  assumes "bounded_reader (ls_read S)"
  shows "\<exists>w. pl_out (serve_too_large opt S served s) = pl_out s @ w \<and> cut_answer w"
proof -
  obtain s1 out1 ok where run: "WriteResponse opt S empty_request (too_large_out opt) served s = (s1, out1, ok)" by (metis prod_cases3)
  have "stream_valid (too_large_out opt)" using Prepare_valid [of opt empty_request] by (simp add: stream_valid_def too_large_out_def)
  from answer_framed [OF run assms this] show ?thesis by (auto simp: serve_too_large_def run)
qed

text \<open>What arrives on a connection, and the heads found in it: each ends at the first blank line after the one before.\<close>

fun arriving :: "RecvEvent list \<Rightarrow> string" where
  "arriving [] = []"
| "arriving (RecvData d # es) = d @ arriving es"
| "arriving (e # es) = arriving es"

definition whole_head :: "string \<Rightarrow> bool" where
  "whole_head head \<longleftrightarrow> (\<forall>a b. head @ head_mark = a @ head_mark @ b \<longrightarrow> b = [])"

lemma split_head_parts: "split_head s = Some (head, rest) \<Longrightarrow> s = head @ head_mark @ rest \<and> whole_head head"
proof (induction s arbitrary: head rest)
  case (Cons c s)
  show ?case
  proof (cases "starts_with head_mark (c # s)")
    case True
    then have "head = []" "rest = drop 3 s" using Cons.prems by simp_all
    moreover have "c # s = head_mark @ drop 4 (c # s)"
      using True by (auto simp: starts_with_iff head_mark_def crlf_def)
    moreover have "whole_head []" by (auto simp: whole_head_def dest: arg_cong [where f = length])
    ultimately show ?thesis by simp
  next
    case False
    then obtain h where h: "head = c # h" "split_head s = Some (h, rest)" using Cons.prems by auto
    note IH = Cons.IH [OF h(2)]
    have "b = []" if "(c # h) @ head_mark = a @ head_mark @ b" for a b
    proof (cases a)
      case Nil
      then have "c # s = head_mark @ b @ rest" using IH that by (metis append.assoc append_Cons append_Nil)
      then show ?thesis using False by (simp add: starts_with_iff)
    next
      case (Cons d a')
      then show ?thesis using IH that by (auto simp: whole_head_def)
    qed
    then show ?thesis using IH h(1) by (simp add: whole_head_def)
  qed
qed simp

lemma read_head_parts:
  "read_head opt pending es = (HeadOk head, rest, es') \<Longrightarrow>
   pending @ arriving es = head @ head_mark @ rest @ arriving es' \<and> whole_head head"
proof (induction opt pending es rule: read_head.induct)
  case (1 opt pending es)
  show ?case
  proof (cases "split_head pending")
    case (Some hr)
    then show ?thesis using "1.prems" split_head_parts [of pending head rest] by (cases hr) (simp add: read_head.simps)
  next
    case None
    then have small: "\<not> int (length pending) > lo_max_header_bytes opt + lo_max_uri_bytes opt"
      using "1.prems" by (auto simp: read_head.simps)
    note IH = "1.IH" [OF None small]
    show ?thesis
    proof (cases es)
      case (Cons e es0)
      show ?thesis
      proof (cases e)
        case (RecvData d)
        then have d: "d \<noteq> []" using "1.prems" None small Cons by (auto simp: read_head.simps)
        have "read_head opt (pending @ take kHeadChunk d)
            (if kHeadChunk < length d then RecvData (drop kHeadChunk d) # es0 else es0) = (HeadOk head, rest, es')"
          using "1.prems" None small Cons RecvData d by (simp add: read_head.simps [of opt pending])
        note IH(1) [OF Cons RecvData d this]
        moreover have "take kHeadChunk d @ arriving (if kHeadChunk < length d then RecvData (drop kHeadChunk d) # es0 else es0) = d @ arriving es0"
          by (cases "kHeadChunk < length d") (simp_all flip: append_assoc)
        ultimately show ?thesis unfolding Cons RecvData arriving.simps(2) by (metis append_assoc)
      next
        case RecvInterrupted
        then show ?thesis using IH(2) [OF Cons RecvInterrupted] "1.prems" None small Cons
          by (simp add: read_head.simps [of opt pending])
      qed (use "1.prems" None small Cons in \<open>auto simp: read_head.simps\<close>)
    qed (use "1.prems" None small in \<open>auto simp: read_head.simps\<close>)
  qed
qed

text \<open>Whole answers to the heads that arrive, in their order, then at most the beginning of one more.\<close>

definition framed :: "LargeFilePlaneOptions \<Rightarrow> string \<Rightarrow> string \<Rightarrow> bool" where
  "framed opt arrived w \<longleftrightarrow> (\<exists>exchanges cut.
     w = concat (map snd exchanges) @ cut \<and> (cut = [] \<or> cut_answer cut) \<and>
     prefix (concat (map (\<lambda>(head, a). head @ head_mark) exchanges)) arrived \<and>
     (\<forall>(head, a) \<in> set exchanges. whole_head head \<and> complete_answer (head_request opt head) a))"

lemma framed_simps: "framed opt r []" "cut_answer w \<Longrightarrow> framed opt r w"
    "complete_answer (head_request opt head) a \<Longrightarrow> whole_head head \<Longrightarrow> framed opt r w \<Longrightarrow> framed opt (head @ head_mark @ r) (a @ w)"
proof -
  show "framed opt r []" unfolding framed_def by (intro exI [of _ "[]"]) simp
  show "framed opt r w" if "cut_answer w" unfolding framed_def using that by (intro exI [of _ "[]"] exI [of _ w]) simp
  assume a: "complete_answer (head_request opt head) a" "whole_head head" and "framed opt r w"
  then obtain exchanges cut where e: "w = concat (map snd exchanges) @ cut" "cut = [] \<or> cut_answer cut"
      "prefix (concat (map (\<lambda>(head, a). head @ head_mark) exchanges)) r"
      "\<forall>(head, a) \<in> set exchanges. whole_head head \<and> complete_answer (head_request opt head) a"
    by (auto simp: framed_def)
  then show "framed opt (head @ head_mark @ r) (a @ w)"
    unfolding framed_def using a by (intro exI [of _ "(head, a) # exchanges"] exI [of _ cut]) auto
qed

lemma serve_loop_framed:
  "bounded_reader (ls_read S) \<Longrightarrow>
   \<exists>w. pl_out (serve_loop opt S handler env pending es served s) = pl_out s @ w \<and> framed opt (pending @ arriving es) w"
proof (induction opt S handler env pending es served s rule: serve_loop.induct)
  case (1 opt S handler env pending es served s)
  note unfold = serve_loop.simps [of opt S handler env pending es served s]
  show ?case
  proof (cases "pe_stop env served")
    case False
    obtain st rest es' where head: "read_head opt pending es = (st, rest, es')" by (metis prod_cases3)
    show ?thesis
    proof (cases st)
      case (HeadOk h)
      note parts = read_head_parts [OF head [unfolded HeadOk]]
      obtain s1 over where run: "serve_request opt S handler env h rest served s = (s1, over)" by fastforce
      from serve_request_framed [OF run "1.prems"] obtain w where
        w: "pl_out s1 = pl_out s @ w" "complete_answer (head_request opt h) w \<or> over \<and> cut_answer w" by blast
      show ?thesis
      proof (cases over)
        case True
        then have "pl_out (serve_loop opt S handler env pending es served s) = pl_out s @ w"
          by (simp add: unfold False head HeadOk run w(1))
        moreover have "framed opt (pending @ arriving es) w"
          using w(2) framed_simps(1,2) framed_simps(3) [of opt h w "rest @ arriving es'" "[]"] parts by auto
        ultimately show ?thesis by blast
      next
        case go_on: False
        obtain v where v: "pl_out (serve_loop opt S handler env rest es' (Suc served) s1) = pl_out s1 @ v"
            "framed opt (rest @ arriving es') v"
          using "1.IH" [OF False head [symmetric] HeadOk refl run [symmetric] go_on "1.prems"] by blast
        have "framed opt (pending @ arriving es) (w @ v)" using framed_simps(3) [OF _ _ v(2), of h w] w(2) go_on parts by simp
        then show ?thesis using w(1) v(1) go_on by (auto simp: unfold False head HeadOk run)
      qed
    next
      case HeadTimeout
      then show ?thesis using serve_timeout_framed [OF "1.prems", of opt rest served "s\<lparr>pl_recv := es'\<rparr>"] framed_simps(1,2)
        by (auto simp: unfold False head)
    next
      case HeadTooLarge
      then show ?thesis using serve_too_large_framed [OF "1.prems", of opt served "s\<lparr>pl_recv := es'\<rparr>"] framed_simps(2)
        by (auto simp: unfold False head)
    qed (simp add: unfold False head framed_simps(1))
  qed (simp add: unfold framed_simps(1))
qed

text \<open>A string as a source, and as a file with a native descriptor.\<close>

definition text_source :: "StringSource PlaneSource" where
  "text_source = \<lparr>ls_read = StringSourceRead, ls_seek = StringSourceSeek, ls_native = (\<lambda>s. Some (ss_data s))\<rparr>"

lemma string_source_bounded: "bounded_reader StringSourceRead"
  by (auto simp: bounded_reader_def StringSourceRead_def Let_def Ok_def)

lemma string_source_step:
  assumes "0 < m"
  shows "\<exists>k n'. StringSourceRead m \<lparr>ss_data = c, ss_pos = n\<rparr> = (\<lparr>ss_data = c, ss_pos = n'\<rparr>, Ok (take k (drop n c))) \<and> k \<le> m \<and>
    (drop n c \<noteq> [] \<longrightarrow> 0 < k) \<and> drop k (drop n c) = drop n' c"
  using assms
  by (intro exI [of _ "min m (length c - n)"] exI [of _ "n + min m (length c - n)"])
     (auto simp: StringSourceRead_def Let_def add.commute)

lemma string_source_serves: "serves StringSourceRead \<lparr>ss_data = c, ss_pos = n\<rparr> (drop n c)"
proof (coinduction arbitrary: n)
  case (serves n)
  show ?case
  proof (rule exI, rule exI, intro conjI refl allI impI)
    fix m :: nat
    assume "0 < m"
    from string_source_step [OF this, of c n]
    show "\<exists>k s'. StringSourceRead m \<lparr>ss_data = c, ss_pos = n\<rparr> = (s', Ok (take k (drop n c))) \<and> k \<le> m \<and>
        (drop n c \<noteq> [] \<longrightarrow> 0 < k) \<and>
        ((\<exists>j. s' = \<lparr>ss_data = c, ss_pos = j\<rparr> \<and> drop k (drop n c) = drop j c) \<or> serves StringSourceRead s' (drop k (drop n c)))"
      by blast
  qed simp_all
qed

lemma text_source_holds: "source_holds text_source \<lparr>ss_data = c, ss_pos = 0\<rparr> c"
  by (auto simp: source_holds_def text_source_def StringSourceSeek_def string_source_serves)


section \<open>Downloads\<close>

definition requested_range :: "HeaderMap \<Rightarrow> int \<Rightarrow> RangeResult" where
  "requested_range h total_size =
     (case HeaderGet ''Range'' h of
        None \<Rightarrow> \<lparr>rr_status = kAbsent, rr_ranges = [], rr_detail = []\<rparr> | Some v \<Rightarrow> ParseRangeHeader v total_size)"

definition range_part :: "HttpRange \<Rightarrow> string \<Rightarrow> string" where
  "range_part r c = take (nat (hr_last r - hr_first r + 1)) (drop (nat (hr_first r)) c)"

definition content_answer :: "RangeResult \<Rightarrow> string \<Rightarrow> int \<times> string" where
  "content_answer rng c = (if rr_status rng = kSingle then (206, range_part (hd (rr_ranges rng)) c) else (200, c))"

lemma prefix_same_length: "prefix a b \<Longrightarrow> length a = length b \<Longrightarrow> a = b"
  by (metis append_Nil2 append_eq_append_conv prefix_def)

lemma prefix_take: "prefix b x \<Longrightarrow> length b \<le> n \<Longrightarrow> prefix b (take n x)"
  by (auto simp: prefix_def)

lemma EqualsNoCase_same: "EqualsNoCase a a"
  by (simp add: EqualsNoCase_def list_all2_refl)

lemma Prepare_content:
  fixes src :: 's and opt :: LargeFilePlaneOptions and content_type :: string and req :: HttpRequest and c :: string
  assumes "rr_status (requested_range (hq_headers req) (int (length c))) \<noteq> kUnsatisfiable" "\<not> hq_is_head req"
  defines "out \<equiv> Prepare opt req (StreamResponse 200 content_type (Some src) (int (length c)))"
    and "rng \<equiv> requested_range (hq_headers req) (int (length c))"
  shows "og_status out = fst (content_answer rng c) \<and> og_stream out = Some src \<and> \<not> og_head_only out \<and>
    og_offset out \<le> int (length c) \<and> int (length (snd (content_answer rng c))) = og_length out \<and>
    snd (content_answer rng c) = take (nat (og_length out)) (drop (nat (og_offset out)) c) \<and>
    (rr_status rng = kSingle \<longrightarrow>
       HeaderGet ''Content-Range'' (og_headers out) = Some (FormatContentRange (hd (rr_ranges rng)) (int (length c))))"
proof (cases "HeaderGet ''Range'' (hq_headers req)")
  case None
  then show ?thesis using assms(2)
    by (simp add: out_def rng_def Prepare_def StreamResponse_def EmptyResponse_def requested_range_def content_answer_def Let_def)
next
  case (Some v)
  show ?thesis
  proof (cases "rr_status (ParseRangeHeader v (int (length c))) = kSingle")
    case True
    obtain r where r: "rr_ranges (ParseRangeHeader v (int (length c))) = [r]" "in_object (int (length c)) r"
      by (rule ParseRangeHeader_single [OF _ True]) simp
    have bounds: "0 \<le> hr_first r" "hr_first r \<le> hr_last r" "hr_last r < int (length c)" using r(2) by (simp_all add: in_object_def)
    have body: "int (length (range_part r c)) = hr_last r - hr_first r + 1" using bounds by (simp add: range_part_def)
    have rng: "rng = ParseRangeHeader v (int (length c))" by (simp add: rng_def requested_range_def Some)
    have out: "og_status out = 206" "og_stream out = Some src" "\<not> og_head_only out" "og_offset out = hr_first r"
        "og_length out = hr_last r - hr_first r + 1"
        "HeaderGet ''Content-Range'' (og_headers out) = Some (FormatContentRange r (int (length c)))"
      using assms(2) by (simp_all add: out_def Prepare_def StreamResponse_def EmptyResponse_def Some Let_def True r(1) HeaderGet_Set
        EqualsNoCase_same del: HeaderSet.simps)
    have ans: "content_answer rng c = (206, range_part r c)" by (simp add: content_answer_def rng True r(1))
    show ?thesis unfolding ans using out body bounds by (simp add: rng True r(1)) (simp add: range_part_def)
  next
    case False
    then show ?thesis using Some assms(1,2)
      by (auto simp: out_def rng_def Prepare_def StreamResponse_def EmptyResponse_def requested_range_def content_answer_def Let_def
          split: RangeStatus.splits)
  qed
qed

lemma final_headers_range:
  "HeaderGet ''Content-Range'' (og_headers (final_headers opt req served out)) = HeaderGet ''Content-Range'' (og_headers out)"
  by (simp add: final_headers_def HeaderGet_Set HeaderGet_Remove EqualsNoCase_def Let_def)


text \<open>
  C14. A download carries what was asked for. When a GET on the transfer path is answered by the handler with a source that holds a
  content, the answer is, up to the point where sending may fail, the status line and headers followed by the requested part of
  the content: the range of a single satisfiable \<open>Range\<close>, with status 206 and its \<open>Content-Range\<close>, and otherwise, several ranges and
  malformed headers included, all of it with status 200. The declared length is that of the part, and a connection that stays open has
  got the whole answer. It is the same with \<open>sendfile\<close> and from user space.
\<close>

theorem download_exact:
  fixes src :: 's and handler :: "('w, 's) PlaneHandler"
  assumes "ParseHead opt head = Inr pa" "plane_refusal opt (plane_request env served pa) = (None :: ('s HttpResponse \<times> string) option)"
    and "pa_method pa = kGet"
    and "\<And>req. hq_route_name req = ''transfer.get'' \<Longrightarrow> hq_path req = pa_path pa \<Longrightarrow> hq_headers req = pa_headers pa \<Longrightarrow>
      handler (pl_world s) req = (w, Returned (StreamResponse 200 content_type (Some src) (int (length c))))"
    and "source_holds S src c" "bounded_reader (ls_read S)"
    and "rr_status (requested_range (pa_headers pa) (int (length c))) \<noteq> kUnsatisfiable"
  shows "let (s', over) = serve_request opt S handler env head pending served s;
      rng = requested_range (pa_headers pa) (int (length c));
      (status, body) = content_answer rng c in
    \<exists>h sent. pl_out s' = pl_out s @ sent \<and> prefix sent (head_text status h @ body) \<and>
      (over \<or> sent = head_text status h @ body) \<and>
      HeaderGet ''Content-Length'' h = Some (to_string (int (length body))) \<and>
      (rr_status rng \<noteq> kSingle \<or>
       HeaderGet ''Content-Range'' h = Some (FormatContentRange (hd (rr_ranges rng)) (int (length c))))"
proof -
  let ?req = "(plane_request env served pa)\<lparr>hq_route_name := ''transfer.get'',
    hq_route_params := [(''token'', drop (length (plane_prefix opt)) (hq_path (plane_request env served pa)))]\<rparr>"
  let ?res = "StreamResponse 200 content_type (Some src) (int (length c)) :: 's HttpResponse"
  let ?rng = "requested_range (pa_headers pa) (int (length c))"
  define out where "out = Prepare opt ?req ?res"
  let ?out = "out\<lparr>og_close := og_close out \<or> \<not> og_status out < 400\<rparr>"
  let ?s = "s\<lparr>pl_world := w\<rparr>"
  have req: "hq_headers ?req = pa_headers pa" "\<not> hq_is_head ?req" using assms(3) by (simp_all add: plane_request_def)
  note content = Prepare_content [where req = ?req, unfolded req(1), OF assms(7) req(2), of opt content_type src, folded out_def]
  obtain s1 out1 ok where run: "WriteResponse opt S ?req ?out served ?s = (s1, out1, ok)" by (metis prod_cases3)
  have same: "og_status ?out = og_status out" "og_stream ?out = og_stream out" "og_offset ?out = og_offset out" "og_length ?out = og_length out"
    "og_head_only ?out = og_head_only out" "og_headers ?out = og_headers out" "og_body ?out = og_body out"
    by simp_all
  have "stream_valid ?out" using Prepare_valid [of opt ?req ?res] by (simp add: stream_valid_def out_def [symmetric])
  from WriteResponse_part [OF run assms(6) this] obtain sent body where
    out1: "out1 = final_headers opt ?req served ?out" and
    sent: "pl_out s1 = pl_out ?s @ sent" "prefix sent (head_text (og_status out1) (og_headers out1) @ body)"
      "ok \<longrightarrow> sent = head_text (og_status out1) (og_headers out1) @ body" "answer_body S ?out ok body"
    by blast
  let ?part = "snd (content_answer ?rng c)"
  have valid: "0 \<le> og_offset out" "0 \<le> og_length out"
    using Prepare_valid [of opt ?req ?res] content by (auto simp: stream_valid_def out_def [symmetric])
  have body: "int (length body) \<le> og_length out" "ok \<longrightarrow> int (length body) = og_length out" "prefix body (drop (nat (og_offset out)) c)"
    using sent(4) content assms(5) by (auto simp: answer_body_def same)
  have part_length: "int (length ?part) = og_length out" using content by blast
  have "prefix body ?part"
  proof -
    have "?part = take (nat (og_length out)) (drop (nat (og_offset out)) c)" using content by blast
    moreover have "length body \<le> nat (og_length out)" using body(1) by linarith
    ultimately show ?thesis using prefix_take [OF body(3)] by simp
  qed
  moreover have "ok \<longrightarrow> body = ?part"
    using calculation body(2) content prefix_same_length [of body ?part] by auto
  ultimately have "prefix sent (head_text (og_status out1) (og_headers out1) @ ?part)"
      "ok \<longrightarrow> sent = head_text (og_status out1) (og_headers out1) @ ?part"
    using sent(2,3) by (auto intro: prefix_order.trans simp: same_prefix_prefix)
  moreover have "og_status out1 = fst (content_answer ?rng c)"
    using content by (simp add: out1 final_headers_keep same)
  moreover have "HeaderGet ''Content-Length'' (og_headers out1) = Some (to_string (int (length ?part)))"
    using conjunct1 [OF conjunct2 [OF content]] part_length by (simp add: out1 final_headers_length declared_length_def same)
  moreover have "rr_status ?rng = kSingle \<longrightarrow>
      HeaderGet ''Content-Range'' (og_headers out1) = Some (FormatContentRange (hd (rr_ranges ?rng)) (int (length c)))"
    using content by (simp add: out1 final_headers_range same)
  moreover have "serve_request opt S handler env head pending served s =
      (s1\<lparr>pl_log := pl_log s1 @ [access_fields ?req (?res\<lparr>resp_status := og_status out1\<rparr>) (pe_duration_ms env served) (og_note out)]\<rparr>,
       \<not> ok \<or> og_close out1 \<or> pending \<noteq> [])"
    using assms(1,2) run
    by (simp add: serve_request_def CallHandler_def assms(4) plane_request_def [of env served pa] plane_finish_def Let_def out_def)
  ultimately show ?thesis using sent(1)
    by (auto simp: Let_def split: prod.splits intro!: exI [of _ "og_headers out1"])
qed


section \<open>Instances\<close>

definition sample_plane :: LargeFilePlaneOptions where
  "sample_plane =
     \<lparr>lo_use_sendfile = True, lo_sendfile_chunk_bytes = 1073741824, lo_base_path = ''/api/file'', lo_error_format = ''apperror'',
      lo_idle_timeout_sec = 60, lo_keep_alive_max_count = 100, lo_max_uri_bytes = 8192, lo_max_header_bytes = 16384,
      lo_userspace_buffer_bytes = 65536, lo_metrics = False, lo_on_native_bytes = False\<rparr>"

definition plane_env :: PlaneEnv where
  "plane_env = \<lparr>pe_remote_addr = [], pe_new_uuid = (\<lambda>n. []), pe_duration_ms = (\<lambda>n. 0), pe_stop = (\<lambda>n. False)\<rparr>"

definition sample_connection :: "RecvEvent list \<Rightarrow> 'w \<Rightarrow> 'w Plane" where
  "sample_connection es w =
     \<lparr>pl_recv = es, pl_send = [], pl_out = [], pl_world = w, pl_log = [], pl_warnings = [], pl_metrics = mr_empty,
      pl_native_bytes = [], pl_sendfile_calls = 0, pl_sendfile_bytes = 0, pl_userspace_calls = 0, pl_userspace_bytes = 0\<rparr>"

definition sample_head :: string where
  "sample_head = ''GET /api/file/v1/transfer/t HTTP/1.1'' @ crlf @ ''Range: bytes=1-2''"

definition sample_parsed :: Parsed where
  "sample_parsed =
     \<lparr>pa_method = kGet, pa_method_raw = ''GET'', pa_target = ''/api/file/v1/transfer/t'', pa_path = ''/api/file/v1/transfer/t'',
      pa_query = [], pa_headers = [(''Range'', ''bytes=1-2'')], pa_content_length = - 1, pa_is_chunked = False\<rparr>"

definition serve_abcde :: "(unit, StringSource) PlaneHandler" where
  "serve_abcde w req = (w, Returned (StreamResponse 200 ''text/plain'' (Some \<lparr>ss_data = ''abcde'', ss_pos = 0\<rparr>) 5))"

lemma sample_parsed: "ParseHead sample_plane sample_head = Inr sample_parsed"
  by code_simp

lemma sample_range: "requested_range (pa_headers sample_parsed) 5 =
    \<lparr>rr_status = kSingle, rr_ranges = [\<lparr>hr_first = 1, hr_last = 2\<rparr>], rr_detail = []\<rparr>"
proof -
  have "ParseRangeHeader (''bytes='' @ byte_range_text (Some 1) (Some 2)) 5 = one_range 5 (Satisfiable \<lparr>hr_first = 1, hr_last = 2\<rparr>)"
    using range_header_parts(2) [of 5 1 2] by (simp add: i64_max_def)
  moreover have "''bytes='' @ byte_range_text (Some 1) (Some 2) = ''bytes=1-2''" by code_simp
  ultimately show ?thesis by (simp add: requested_range_def sample_parsed_def EqualsNoCase_same one_range_def)
qed

lemma sample_free: "plane_refusal sample_plane (plane_request plane_env 0 sample_parsed) = (None :: ('s HttpResponse \<times> string) option)"
  by (simp add: plane_refusal_def plane_request_def sample_parsed_def smuggling_def HeaderCount_def EqualsNoCase_def plane_prefix_def
    sample_plane_def starts_with_def)



theorem download_exact_witness:
  "\<exists>h sent. pl_out (fst (serve_request sample_plane text_source serve_abcde plane_env sample_head [] 0 (sample_connection [] ()))) = sent \<and>
     prefix sent (head_text 206 h @ ''bc'') \<and> HeaderGet ''Content-Length'' h = Some (to_string 2) \<and>
     HeaderGet ''Content-Range'' h = Some (FormatContentRange \<lparr>hr_first = 1, hr_last = 2\<rparr> 5)"
proof -
  let ?src = "\<lparr>ss_data = ''abcde'', ss_pos = 0\<rparr>"
  have "pa_method sample_parsed = kGet" "bounded_reader (ls_read text_source)"
    by (simp_all add: sample_parsed_def text_source_def string_source_bounded)
  moreover have "rr_status (requested_range (pa_headers sample_parsed) (int (length ''abcde''))) \<noteq> kUnsatisfiable"
    by (simp add: sample_range)
  ultimately have this: "pa_method sample_parsed = kGet" "bounded_reader (ls_read text_source)"
    "rr_status (requested_range (pa_headers sample_parsed) (int (length ''abcde''))) \<noteq> kUnsatisfiable" by blast+
  from download_exact [where c = "''abcde''" and src = ?src and handler = serve_abcde and w = "()" and s = "sample_connection [] ()" and
      content_type = "''text/plain''", OF sample_parsed sample_free this(1) _ text_source_holds this(2,3), of "[]"]
  show ?thesis
    by (simp add: serve_abcde_def sample_range content_answer_def range_part_def sample_connection_def numeral_2_eq_2 split: prod.splits)
       (metis fst_conv)
qed

text \<open>A body that a GET declares is never read: what arrives of it later is served as a request of its own.\<close>

definition request_with_body :: "RecvEvent list" where
  "request_with_body =
     [RecvData (''GET /api/file/v1/transfer/t HTTP/1.1'' @ crlf @ ''Content-Length: 40'' @ head_mark),
      RecvData (''GET /api/file/v1/transfer/u HTTP/1.1'' @ head_mark)]"

definition record_paths :: "(string list, StringSource) PlaneHandler" where
  "record_paths w req = (w @ [hq_path req], Returned (EmptyResponse 204))"

lemma send_all_free: "send_all [] d = ([], d, True)"
  by (cases d) simp_all

lemma WriteResponse_free:
  assumes "pl_send s = []" "og_stream out = None"
  shows "\<exists>d. WriteResponse opt S req out served s = (s\<lparr>pl_out := pl_out s @ d\<rparr>, final_headers opt req served out, True)"
proof -
  have send: "SendAll d t = (t\<lparr>pl_out := pl_out t @ d\<rparr>, True)" if "pl_send t = []" for d and t :: "'a Plane"
    using that by (simp add: SendAll_def send_all_free)
  show ?thesis
    using assms by (auto simp: WriteResponse_def send Let_def final_headers_keep intro: exI [of _ "a @ b" for a b])
qed

lemma final_headers_close:
  "og_close (final_headers opt req served out) \<longleftrightarrow>
     og_close out \<or> int served + 1 \<ge> max 1 (lo_keep_alive_max_count opt) \<or> HeaderGet ''Connection'' (hq_headers req) = Some ''close''"
  by (simp add: final_headers_def Let_def)

lemma serve_request_empty:
  fixes handler :: "('w, 's) PlaneHandler"
  assumes "ParseHead opt head = Inr pa" "plane_refusal opt (plane_request env served pa) = (None :: ('s HttpResponse \<times> string) option)"
    and "\<And>req. hq_path req = pa_path pa \<Longrightarrow> handler (pl_world s) req = (w, Returned (EmptyResponse 204))"
    and "pl_send s = []" "int served + 1 < lo_keep_alive_max_count opt" "HeaderGet ''Connection'' (pa_headers pa) = None"
  shows "\<exists>s'. serve_request opt S handler env head [] served s = (s', False) \<and> pl_world s' = w \<and> pl_send s' = []"
proof -
  let ?req = "(plane_request env served pa)\<lparr>hq_route_name := ''transfer.get'',
    hq_route_params := [(''token'', drop (length (plane_prefix opt)) (hq_path (plane_request env served pa)))]\<rparr>"
  let ?out = "Prepare opt ?req (EmptyResponse 204 :: 's HttpResponse)"
  have out: "og_stream ?out = None" "og_status ?out = 204" "\<not> og_close ?out" by (simp_all add: Prepare_def EmptyResponse_def)
  let ?o = "?out\<lparr>og_close := og_close ?out \<or> \<not> og_status ?out < 400\<rparr>"
  obtain d where "WriteResponse opt S ?req ?o served (s\<lparr>pl_world := w\<rparr>) =
      (s\<lparr>pl_world := w, pl_out := pl_out s @ d\<rparr>, final_headers opt ?req served ?o, True)"
    using WriteResponse_free [of "s\<lparr>pl_world := w\<rparr>" ?o opt S ?req served] assms(4) out(1) by auto
  moreover have "\<not> og_close (final_headers opt ?req served ?o)"
    using out assms(5,6) by (simp add: final_headers_close plane_request_def)
  moreover have "CallHandler opt handler ?req s = (s\<lparr>pl_world := w\<rparr>, EmptyResponse 204)"
    using assms(3) by (simp add: CallHandler_def plane_request_def)
  ultimately show ?thesis using assms(1,2,4) by (simp add: serve_request_def plane_finish_def Let_def)
qed

definition body_parsed :: "string \<Rightarrow> HeaderMap \<Rightarrow> int \<Rightarrow> Parsed" where
  "body_parsed path h n =
     \<lparr>pa_method = kGet, pa_method_raw = ''GET'', pa_target = path, pa_path = path, pa_query = [], pa_headers = h,
      pa_content_length = n, pa_is_chunked = False\<rparr>"

definition first_head :: string where
  "first_head = ''GET /api/file/v1/transfer/t HTTP/1.1'' @ crlf @ ''Content-Length: 40''"

definition second_head :: string where
  "second_head = ''GET /api/file/v1/transfer/u HTTP/1.1''"

lemma body_splits: "split_head [] = None" "split_head (first_head @ head_mark) = Some (first_head, [])"
    "split_head (second_head @ head_mark) = Some (second_head, [])" "length (first_head @ head_mark) = 60" "length (second_head @ head_mark) = 40"
  by code_simp+

lemma read_one_piece:
  assumes "split_head d = Some (h, [])" "d \<noteq> []" "length d \<le> kHeadChunk"
  shows "read_head sample_plane [] (RecvData d # es) = (HeadOk h, [], es)"
  using assms body_splits(1) by (simp add: read_head.simps sample_plane_def)

lemma body_heads:
  "read_head sample_plane [] request_with_body = (HeadOk first_head, [], tl request_with_body)"
  "read_head sample_plane [] (tl request_with_body) = (HeadOk second_head, [], [])"
  using read_one_piece [OF body_splits(2)] read_one_piece [OF body_splits(3)] body_splits(4,5)
  by (simp_all add: request_with_body_def first_head_def second_head_def kHeadChunk_def)

lemma body_parsed:
  "ParseHead sample_plane first_head =
     Inr (body_parsed ''/api/file/v1/transfer/t'' [(''Content-Length'', ''40'')] 40)"
  "ParseHead sample_plane second_head = Inr (body_parsed ''/api/file/v1/transfer/u'' [] (- 1))"
  by code_simp+

lemma body_free:
  "plane_refusal sample_plane (plane_request plane_env n (body_parsed ''/api/file/v1/transfer/t'' [(''Content-Length'', ''40'')] 40)) =
     (None :: ('s HttpResponse \<times> string) option)"
  "plane_refusal sample_plane (plane_request plane_env n (body_parsed ''/api/file/v1/transfer/u'' [] (- 1))) =
     (None :: ('s HttpResponse \<times> string) option)"
  by (simp_all add: plane_refusal_def plane_request_def body_parsed_def smuggling_def HeaderCount_def EqualsNoCase_same plane_prefix_def
    sample_plane_def starts_with_def)

lemma body_served_as_request:
  "pl_world (ServeConnection sample_plane text_source record_paths plane_env (sample_connection request_with_body [])) =
   [''/api/file/v1/transfer/t'', ''/api/file/v1/transfer/u'']"
proof -
  let ?serve = "serve_request sample_plane text_source record_paths plane_env"
  let ?s = "sample_connection request_with_body []"
  have env: "\<not> pe_stop plane_env n" "lo_keep_alive_max_count sample_plane = 100" for n by (simp_all add: plane_env_def sample_plane_def)
  have "HeaderGet ''Connection'' [(''Content-Length'', ''40'')] = None" by (simp add: EqualsNoCase_def)
  then obtain s1 where s1: "?serve first_head [] 0 ?s = (s1, False)"
      "pl_world s1 = [''/api/file/v1/transfer/t'']" "pl_send s1 = []"
    using serve_request_empty [where served = 0, OF body_parsed(1) body_free(1), where handler = record_paths and s = ?s and w = "[''/api/file/v1/transfer/t'']" and S = text_source]
    by (auto simp: record_paths_def sample_connection_def body_parsed_def env)
  obtain s2 where s2: "?serve second_head [] 1 s1 = (s2, False)"
      "pl_world s2 = [''/api/file/v1/transfer/t'', ''/api/file/v1/transfer/u'']"
    using serve_request_empty [where served = 1, OF body_parsed(2) body_free(2), where handler = record_paths and s = s1 and
        w = "[''/api/file/v1/transfer/t'', ''/api/file/v1/transfer/u'']" and S = text_source] s1(2,3)
    by (auto simp: record_paths_def body_parsed_def env)
  have closed: "read_head sample_plane [] [] = (HeadClosed, [], [])" by code_simp
  show ?thesis
    using s1(1) s2
    by (simp add: ServeConnection_def sample_connection_def serve_loop.simps [of _ _ _ _ _ _ 0] serve_loop.simps [of _ _ _ _ _ _ "Suc 0"]
        serve_loop.simps [of _ _ _ _ _ _ "Suc (Suc 0)"] body_heads env closed)
qed

end
