(* ===== verification/Host.thy ===== *)
theory Host
  imports Metrics
begin

text \<open>
  \<^verbatim>\<open>common/fs\<close> and the calls it and the POSIX store make to the operating system.

  \<open>Host\<close> is what those calls act on: the files and directories by their path, the process's open descriptors and
  \<^verbatim>\<open>errno\<close>, and the history of the effects the calls had. \<open>hs_script\<close> holds the outcomes the next calls will have:
  each call takes the first, which may make it fail with an error or transfer fewer bytes than asked, and once the script
  is used up calls do what they are asked. Every behaviour of a run that ends is the script of some host, so a statement
  about all hosts covers all failures. A file is durable once a sync covered everything written to it. What symbolic links
  make of a path is the argument \<open>hs_canonical\<close>, \<^verbatim>\<open>weakly_canonical\<close> of the run; the files are otherwise those at
  the path as it is spelt. \<open>hs_tmp_counter\<close> is the static counter of the process's temporary files, \<open>hs_metrics\<close> the registry
  the store counts its batches in.
\<close>

section \<open>The operating system\<close>

datatype Errno = EPERM | ENOENT | EINTR | EIO | EACCES | EEXIST | EXDEV | ENOTDIR | EISDIR | EINVAL | ENOSPC | ENOSYS | EDQUOT

fun strerror :: "Errno option \<Rightarrow> string" where
  "strerror None = ''Success''"
| "strerror (Some EPERM) = ''Operation not permitted''"
| "strerror (Some ENOENT) = ''No such file or directory''"
| "strerror (Some EINTR) = ''Interrupted system call''"
| "strerror (Some EIO) = ''Input/output error''"
| "strerror (Some EACCES) = ''Permission denied''"
| "strerror (Some EEXIST) = ''File exists''"
| "strerror (Some EXDEV) = ''Invalid cross-device link''"
| "strerror (Some ENOTDIR) = ''Not a directory''"
| "strerror (Some EISDIR) = ''Is a directory''"
| "strerror (Some EINVAL) = ''Invalid argument''"
| "strerror (Some ENOSPC) = ''No space left on device''"
| "strerror (Some ENOSYS) = ''Function not implemented''"
| "strerror (Some EDQUOT) = ''Disk quota exceeded''"

fun errno_code :: "Errno option \<Rightarrow> nat" where
  "errno_code None = 0"
| "errno_code (Some EPERM) = 1"
| "errno_code (Some ENOENT) = 2"
| "errno_code (Some EINTR) = 4"
| "errno_code (Some EIO) = 5"
| "errno_code (Some EACCES) = 13"
| "errno_code (Some EEXIST) = 17"
| "errno_code (Some EXDEV) = 18"
| "errno_code (Some ENOTDIR) = 20"
| "errno_code (Some EISDIR) = 21"
| "errno_code (Some EINVAL) = 22"
| "errno_code (Some ENOSPC) = 28"
| "errno_code (Some ENOSYS) = 38"
| "errno_code (Some EDQUOT) = 122"

datatype Outcome = Full | Short nat | Fails Errno

text \<open>The effects, in the order they happened; a rename records whether what it made visible was durable.\<close>

datatype FsEvent =
    EvCreate string
  | EvWrite string
  | EvDataSync string
  | EvSyncFs string
  | EvRename string string bool
  | EvUnlink string
  | EvDirSync string
  | EvAdvise string

record HostFile =
  hf_data :: string
  hf_mtime :: int
  hf_mode :: nat
  hf_durable :: bool

record Host =
  hs_files :: "(string \<times> HostFile) list"
  hs_dirs :: "string list"
  hs_dir_modes :: "(string \<times> nat) list"
  hs_time :: int
  hs_script :: "Outcome list"
  hs_errno :: "Errno option"
  hs_fds :: int
  hs_trace :: "FsEvent list"
  hs_pid :: int
  hs_hex :: "nat \<Rightarrow> string"
  hs_draws :: nat
  hs_canonical :: "string \<Rightarrow> string option"
  hs_dir_size :: nat
  hs_tmp_counter :: nat
  hs_metrics :: "MetricsRegistry option"

definition dir_of :: "string \<Rightarrow> string" where
  "dir_of p = rev (tl (dropWhile (\<lambda>c. c \<noteq> CHR ''/'') (rev p)))"

definition parent_path :: "string \<Rightarrow> string" where
  "parent_path p = (if CHR ''/'' \<notin> set p then [] else if dir_of p = [] then ''/'' else dir_of p)"

definition is_dir :: "Host \<Rightarrow> string \<Rightarrow> bool" where
  "is_dir h p \<longleftrightarrow> p = ''/'' \<or> p \<in> set (hs_dirs h)"

definition file_at :: "Host \<Rightarrow> string \<Rightarrow> HostFile option" where
  "file_at h p = map_of (hs_files h) p"

definition sys_pop :: "Host \<Rightarrow> Host \<times> Outcome" where
  "sys_pop h = (case hs_script h of [] \<Rightarrow> (h, Full) | oc # ocs \<Rightarrow> (h\<lparr>hs_script := ocs\<rparr>, oc))"

definition sys_fail :: "Errno \<Rightarrow> Host \<Rightarrow> Host \<times> 'a option" where
  "sys_fail e h = (h\<lparr>hs_errno := Some e\<rparr>, None)"

text \<open>A call that its outcome does not make fail.\<close>

definition sys_call :: "Host \<Rightarrow> (Host \<Rightarrow> Host \<times> 'a option) \<Rightarrow> Host \<times> 'a option" where
  "sys_call h f = (case sys_pop h of (h, Fails e) \<Rightarrow> sys_fail e h | (h, _) \<Rightarrow> f h)"

definition set_file :: "string \<Rightarrow> HostFile \<Rightarrow> Host \<Rightarrow> Host" where
  "set_file p f h = h\<lparr>hs_files := map_put p f (hs_files h)\<rparr>"

definition emit :: "FsEvent \<Rightarrow> Host \<Rightarrow> Host" where
  "emit ev h = h\<lparr>hs_trace := hs_trace h @ [ev]\<rparr>"

definition new_file :: "nat \<Rightarrow> Host \<Rightarrow> HostFile" where
  "new_file mode h = \<lparr>hf_data = [], hf_mtime = hs_time h, hf_mode = mode, hf_durable = False\<rparr>"

text \<open>\<^verbatim>\<open>open\<close> for writing: \<open>excl\<close> is \<^verbatim>\<open>O_CREAT|O_EXCL\<close>, otherwise \<^verbatim>\<open>O_CREAT|O_TRUNC\<close>, which keeps the mode of a
  file that exists.\<close>

definition sys_open_write :: "bool \<Rightarrow> string \<Rightarrow> nat \<Rightarrow> Host \<Rightarrow> Host \<times> unit option" where
  "sys_open_write excl p mode h =
     sys_call h (\<lambda>h.
       if is_dir h p then sys_fail (if excl then EEXIST else EISDIR) h
       else if \<not> is_dir h (parent_path p) then sys_fail ENOENT h
       else (case file_at h p of
               Some f \<Rightarrow>
                 if excl then sys_fail EEXIST h
                 else (emit (EvCreate p) (set_file p ((new_file (hf_mode f) h)) (h\<lparr>hs_fds := hs_fds h + 1\<rparr>)), Some ())
             | None \<Rightarrow> (emit (EvCreate p) (set_file p (new_file mode h) (h\<lparr>hs_fds := hs_fds h + 1\<rparr>)), Some ())))"

definition sys_open_read :: "string \<Rightarrow> Host \<Rightarrow> Host \<times> unit option" where
  "sys_open_read p h =
     sys_call h (\<lambda>h.
       if is_dir h p \<or> file_at h p \<noteq> None then (h\<lparr>hs_fds := hs_fds h + 1\<rparr>, Some ()) else sys_fail ENOENT h)"

text \<open>\<^verbatim>\<open>write\<close> to the file opened at the path: how many bytes were taken.\<close>

definition append_to :: "string \<Rightarrow> string \<Rightarrow> Host \<Rightarrow> Host" where
  "append_to p d h =
     (case file_at h p of
        None \<Rightarrow> h
      | Some f \<Rightarrow> set_file p (f\<lparr>hf_data := hf_data f @ d, hf_mtime := hs_time h, hf_durable := False\<rparr>) h)"

definition sys_write :: "string \<Rightarrow> string \<Rightarrow> Host \<Rightarrow> Host \<times> nat option" where
  "sys_write p d h =
     (case sys_pop h of
        (h, Fails e) \<Rightarrow> sys_fail e h
      | (h, Short n) \<Rightarrow> (emit (EvWrite p) (append_to p (take n d) h), Some (min n (length d)))
      | (h, Full) \<Rightarrow> (emit (EvWrite p) (append_to p d h), Some (length d)))"

text \<open>A descriptor is gone after \<^verbatim>\<open>close\<close> even when it reports an error.\<close>

definition sys_close :: "Host \<Rightarrow> Host \<times> unit option" where
  "sys_close h = (case sys_pop (h\<lparr>hs_fds := hs_fds h - 1\<rparr>) of (h, Fails e) \<Rightarrow> sys_fail e h | (h, _) \<Rightarrow> (h, Some ()))"

definition sys_unlink :: "string \<Rightarrow> Host \<Rightarrow> Host \<times> unit option" where
  "sys_unlink p h =
     sys_call h (\<lambda>h.
       if is_dir h p then sys_fail EISDIR h
       else (case file_at h p of
               None \<Rightarrow> sys_fail ENOENT h
             | Some _ \<Rightarrow> (emit (EvUnlink p) (h\<lparr>hs_files := map_erase p (hs_files h)\<rparr>), Some ())))"

definition sys_rename :: "string \<Rightarrow> string \<Rightarrow> Host \<Rightarrow> Host \<times> unit option" where
  "sys_rename tmp target h =
     sys_call h (\<lambda>h.
       case file_at h tmp of
         None \<Rightarrow> sys_fail ENOENT h
       | Some f \<Rightarrow>
           if is_dir h target then sys_fail EISDIR h
           else if \<not> is_dir h (parent_path target) then sys_fail ENOENT h
           else (emit (EvRename tmp target (hf_durable f)) (h\<lparr>hs_files := map_put target f (map_erase tmp (hs_files h))\<rparr>), Some ()))"

text \<open>\<^verbatim>\<open>stat\<close> and \<^verbatim>\<open>fstat\<close>: size and modification time; a directory has both too.\<close>

definition sys_stat :: "string \<Rightarrow> Host \<Rightarrow> Host \<times> (nat \<times> int) option" where
  "sys_stat p h =
     sys_call h (\<lambda>h.
       case file_at h p of
         Some f \<Rightarrow> (h, Some (length (hf_data f), hf_mtime f))
       | None \<Rightarrow> if is_dir h p then (h, Some (hs_dir_size h, hs_time h)) else sys_fail ENOENT h)"

definition sys_pread :: "string \<Rightarrow> nat \<Rightarrow> nat \<Rightarrow> Host \<Rightarrow> Host \<times> string option" where
  "sys_pread p offset want h =
     (case sys_pop h of
        (h, Fails e) \<Rightarrow> sys_fail e h
      | (h, oc) \<Rightarrow>
          (case file_at h p of
             None \<Rightarrow> if is_dir h p then sys_fail EISDIR h else (h, Some [])
           | Some f \<Rightarrow>
               (h, Some (take (case oc of Short n \<Rightarrow> min n want | _ \<Rightarrow> want) (drop offset (hf_data f))))))"

definition sys_fdatasync :: "string \<Rightarrow> Host \<Rightarrow> Host \<times> unit option" where
  "sys_fdatasync p h =
     sys_call h (\<lambda>h.
       (emit (EvDataSync p) (case file_at h p of None \<Rightarrow> h | Some f \<Rightarrow> set_file p (f\<lparr>hf_durable := True\<rparr>) h), Some ()))"

definition sys_open_dir :: "string \<Rightarrow> Host \<Rightarrow> Host \<times> unit option" where
  "sys_open_dir p h =
     sys_call h (\<lambda>h.
       if is_dir h p then (h\<lparr>hs_fds := hs_fds h + 1\<rparr>, Some ())
       else sys_fail (if file_at h p = None then ENOENT else ENOTDIR) h)"

text \<open>\<^verbatim>\<open>syncfs\<close> covers every file of the host: the store has one file system.\<close>

definition sys_syncfs :: "string \<Rightarrow> Host \<Rightarrow> Host \<times> unit option" where
  "sys_syncfs d h =
     sys_call h (\<lambda>h.
       (emit (EvSyncFs d) (h\<lparr>hs_files := map (\<lambda>(p, f). (p, f\<lparr>hf_durable := True\<rparr>)) (hs_files h)\<rparr>), Some ()))"

definition sys_fsync_dir :: "string \<Rightarrow> Host \<Rightarrow> Host \<times> unit option" where
  "sys_fsync_dir d h = sys_call h (\<lambda>h. (emit (EvDirSync d) h, Some ()))"

definition dir_prefixes :: "string \<Rightarrow> string list" where
  "dir_prefixes p = map (\<lambda>i. take i p) (filter (\<lambda>i. p ! i = CHR ''/'') [1..<length p]) @ [p]"

text \<open>\<^verbatim>\<open>std::filesystem::create_directories\<close>, \<^verbatim>\<open>exists\<close>.\<close>

definition create_directories :: "string \<Rightarrow> Host \<Rightarrow> Host \<times> unit option" where
  "create_directories p h =
     sys_call h (\<lambda>h.
       if \<exists>q \<in> set (dir_prefixes p). file_at h q \<noteq> None then sys_fail ENOTDIR h
       else (h\<lparr>hs_dirs := hs_dirs h @ filter (\<lambda>q. \<not> is_dir h q) (dir_prefixes p)\<rparr>, Some ()))"

definition Exists :: "string \<Rightarrow> Host \<Rightarrow> Host \<times> bool" where
  "Exists p h = (case sys_pop h of (h, Fails e) \<Rightarrow> (h, False) | (h, _) \<Rightarrow> (h, is_dir h p \<or> file_at h p \<noteq> None))"

definition RandomHex :: "Host \<Rightarrow> Host \<times> string" where
  "RandomHex h = (h\<lparr>hs_draws := Suc (hs_draws h)\<rparr>, hs_hex h (hs_draws h))"

section \<open>Paths\<close>

definition kMaxKeyBytes :: nat where "kMaxKeyBytes = 1024"

definition PathError :: "string \<Rightarrow> string \<Rightarrow> 'a Result" where
  "PathError key reason =
     Inl (With ''reason'' reason (mk_error kInvalidArgument (msg_bad_path_key @ key @ ''\": '' @ reason)))"

definition SysError :: "ErrorKind \<Rightarrow> string \<Rightarrow> string \<Rightarrow> Host \<Rightarrow> 'a Result" where
  "SysError k m p h = Inl (With ''errno'' (nat_to_string (errno_code (hs_errno h))) (With ''path'' p (mk_error k m)))"

fun normalize_segments :: "string \<Rightarrow> string list \<Rightarrow> string \<Rightarrow> string Result" where
  "normalize_segments key [] out = Ok out"
| "normalize_segments key (seg # segs) out =
     (if seg = [] then PathError key msg_empty_segment
      else if seg = ''.'' then PathError key msg_dot_segment
      else if seg = ''..'' then PathError key msg_dotdot_segment
      else normalize_segments key segs ((if out = [] then [] else out @ ''/'') @ seg))"

definition NormalizeKey :: "string \<Rightarrow> string Result" where
  "NormalizeKey key =
     (if key = [] then PathError key msg_key_empty
      else if length key > kMaxKeyBytes
      then PathError key (msg_key_too_long @ nat_to_string kMaxKeyBytes @ msg_key_too_long_end)
      else if CHR 0x00 \<in> set key then PathError key msg_key_nul
      else if hd key = CHR ''/'' then PathError key msg_key_absolute
      else if last key = CHR ''/'' then PathError key msg_key_slash_end
      else normalize_segments key (split_on (CHR ''/'') key) [])"

definition path_parts :: "string \<Rightarrow> string list" where
  "path_parts p = (if starts_with ''/'' p then [''/''] else []) @ filter (\<lambda>w. w \<noteq> []) (split_on (CHR ''/'') p)"

definition IsWithin :: "string \<Rightarrow> string \<Rightarrow> bool" where
  "IsWithin root p \<longleftrightarrow> take (length (path_parts root)) (path_parts p) = path_parts root"

definition LexicalJoin :: "string \<Rightarrow> string \<Rightarrow> string Result" where
  "LexicalJoin root key =
     FSS_TRY (NormalizeKey key) (\<lambda>norm.
       if root = [] then Err kInvalidArgument msg_root_empty
       else Ok ((if last root = CHR ''/'' then butlast root else root) @ ''/'' @ norm))"

lemma sys_pop_script: "sys_pop h = (h1, oc) \<Longrightarrow> length (hs_script h1) \<le> length (hs_script h)"
  by (auto simp: sys_pop_def split: list.splits)

lemma dir_of_shorter: "p \<noteq> [] \<Longrightarrow> length (dir_of p) < length p"
  using length_dropWhile_le [of "\<lambda>c. c \<noteq> CHR ''/''" "rev p"] by (cases p) (simp_all add: dir_of_def)

lemma parent_path_shorter:
  assumes "p \<noteq> []" "p \<noteq> ''/''"
  shows "length (parent_path p) < length p"
proof (cases "CHR ''/'' \<in> set p \<and> dir_of p = []")
  case True
  then have "p \<noteq> [c]" for c using assms by auto
  then show ?thesis using True assms by (cases p; cases "tl p") (auto simp: parent_path_def)
next
  case False
  then show ?thesis using dir_of_shorter [OF assms(1)] assms by (auto simp: parent_path_def)
qed

text \<open>The longest prefix of the path that exists, \<^const>\<open>None\<close> where the search runs out of path.\<close>

function existing_prefix :: "string \<Rightarrow> Host \<Rightarrow> Host \<times> string option" where
  "existing_prefix probe h =
     (if probe = [] then (h, None)
      else (case Exists probe h of
              (h1, ok) \<Rightarrow> if ok then (h1, Some probe)
              else existing_prefix (parent_path probe) h1))"
  by pat_completeness auto
termination
proof (relation "measure (\<lambda>(p, h). length p + length (hs_script h))")
  fix probe :: string and h h1 ex
  assume asm: "probe \<noteq> []" "(h1, ex) = Exists probe h" "\<not> ex"
  have le: "length (parent_path probe) \<le> length probe"
    using parent_path_shorter [of probe] asm(1) by (cases "probe = ''/''") (auto simp: parent_path_def dir_of_def)
  show "((parent_path probe, h1), (probe, h)) \<in> measure (\<lambda>(p, h). length p + length (hs_script h))"
  proof (cases "hs_script h")
    case Nil
    then have "probe \<noteq> ''/''" "h1 = h" using asm by (auto simp: Exists_def sys_pop_def is_dir_def)
    then show ?thesis using parent_path_shorter asm(1) by simp
  next
    case (Cons oc ocs)
    then show ?thesis
      using asm le parent_path_shorter [of probe]
      by (cases oc; cases "probe = ''/''") (auto simp: Exists_def sys_pop_def is_dir_def)
  qed
qed simp

declare existing_prefix.simps [simp del]

definition VerifyResolvedWithinRoot :: "string \<Rightarrow> string \<Rightarrow> Host \<Rightarrow> Host \<times> unit Result" where
  "VerifyResolvedWithinRoot root p h =
     (case hs_canonical h root of
        None \<Rightarrow> (h, SysError kInvalidArgument msg_root_unresolvable root h)
      | Some root_canon \<Rightarrow>
          (case existing_prefix p h of
             (h, None) \<Rightarrow> (h, Err kInvalidArgument msg_no_ancestor)
           | (h, Some probe) \<Rightarrow>
               (case hs_canonical h probe of
                  None \<Rightarrow> (h, SysError kInvalidArgument msg_path_unresolvable p h)
                | Some probe_canon \<Rightarrow>
                    (h, if IsWithin root_canon probe_canon then Ok ()
                        else Inl (With ''resolved'' probe_canon (With ''root'' root_canon
                               (mk_error kInvalidArgument msg_path_escapes)))))))"

definition SafeJoin :: "string \<Rightarrow> string \<Rightarrow> Host \<Rightarrow> Host \<times> string Result" where
  "SafeJoin root key h =
     FSS_TRY_ST (h, LexicalJoin root key) (\<lambda>h joined.
     FSS_TRY_ST (VerifyResolvedWithinRoot root joined h) (\<lambda>h _. (h, Ok joined)))"

section \<open>Files\<close>

text \<open>The copy loop of \<^verbatim>\<open>AtomicWriteFile\<close>, which gives up at the first call that takes nothing.\<close>

function atomic_write_loop :: "string \<Rightarrow> string \<Rightarrow> Host \<Rightarrow> Host \<times> bool" where
  "atomic_write_loop p data h =
     (if data = [] then (h, True)
      else (case sys_write p data h of
              (h1, None) \<Rightarrow> (h1, False)
            | (h1, Some n) \<Rightarrow> if n = 0 then (h1, False) else atomic_write_loop p (drop n data) h1))"
  by pat_completeness auto
termination by (relation "measure (\<lambda>(p, data, h). length data)") auto

declare atomic_write_loop.simps [simp del]

record WriteOptions =
  wo_fsync_data :: bool
  wo_fsync_dir :: bool
  wo_mode :: nat
  wo_tmp_suffix :: string

definition default_WriteOptions :: WriteOptions where
  "default_WriteOptions = \<lparr>wo_fsync_data = True, wo_fsync_dir = True, wo_mode = 420, wo_tmp_suffix = []\<rparr>"

definition atomic_tmp :: "string \<Rightarrow> WriteOptions \<Rightarrow> Host \<Rightarrow> Host \<times> string" where
  "atomic_tmp p opts h =
     (case RandomHex h of (h, hex) \<Rightarrow>
       (h, p @ ''.tmp.'' @ to_string (hs_pid h) @ ''.'' @ wo_tmp_suffix opts @
           (if wo_tmp_suffix opts = [] then [] else ''.'') @ hex))"

text \<open>\<open>saved_unlink\<close> keeps the error number of the failure over the clean-up.\<close>

definition saved_unlink :: "string \<Rightarrow> Host \<Rightarrow> Host" where
  "saved_unlink p h = (fst (sys_unlink p h))\<lparr>hs_errno := hs_errno h\<rparr>"

definition sync_parent :: "string \<Rightarrow> Host \<Rightarrow> Host \<times> unit Result" where
  "sync_parent p h =
     (if parent_path p = [] then (h, Ok ())
      else (case sys_open_dir (parent_path p) h of
              (h, None) \<Rightarrow> (h, SysError kInternal msg_open_dir_failed (parent_path p) h)
            | (h, Some _) \<Rightarrow>
                (case sys_fsync_dir (parent_path p) h of
                   (h, None) \<Rightarrow>
                     (case sys_close h of (h, _) \<Rightarrow> (h, SysError kInternal msg_fsync_dir_failed (parent_path p) h))
                 | (h, Some _) \<Rightarrow> (fst (sys_close h), Ok ()))))"

definition write_then_sync :: "string \<Rightarrow> string \<Rightarrow> bool \<Rightarrow> Host \<Rightarrow> Host \<times> bool" where
  "write_then_sync tmp data fsync h =
     (case atomic_write_loop tmp data h of
        (h, wrote_ok) \<Rightarrow>
          (case (if wrote_ok \<and> fsync then map_prod id (\<lambda>r. r \<noteq> None) (sys_fdatasync tmp h) else (h, wrote_ok)) of
             (h, wrote_ok) \<Rightarrow> (case sys_close h of (h, c) \<Rightarrow> (h, wrote_ok \<and> c \<noteq> None))))"

definition AtomicWriteFile :: "string \<Rightarrow> string \<Rightarrow> WriteOptions \<Rightarrow> Host \<Rightarrow> Host \<times> unit Result" where
  "AtomicWriteFile p data opts h =
     (case atomic_tmp p opts h of (h, tmp) \<Rightarrow>
       case sys_open_write False tmp (wo_mode opts) h of
         (h, None) \<Rightarrow> (h, SysError kInternal msg_create_tmp_failed tmp h)
       | (h, Some _) \<Rightarrow>
           (case write_then_sync tmp data (wo_fsync_data opts) h of
              (h, ok) \<Rightarrow> if \<not> ok then (let h = saved_unlink tmp h in (h, SysError kInternal msg_write_tmp_failed tmp h))
              else
                (case sys_rename tmp p h of
                   (h, None) \<Rightarrow> (let h = saved_unlink tmp h in (h, SysError kInternal msg_rename_failed p h))
                 | (h, Some _) \<Rightarrow> if wo_fsync_dir opts then sync_parent p h else (h, Ok ()))))"

definition EnsureDir :: "string \<Rightarrow> nat \<Rightarrow> Host \<Rightarrow> Host \<times> unit Result" where
  "EnsureDir p mode h =
     (case create_directories p h of
        (h, None) \<Rightarrow>
          (h, Inl (With ''path'' p (mk_error kInternal (msg_mkdir_failed @ strerror (hs_errno h)))))
      | (h, Some _) \<Rightarrow>
          (fst (sys_call h (\<lambda>h. (h\<lparr>hs_dir_modes := map_put p mode (hs_dir_modes h)\<rparr>, Some ()))), Ok ()))"

definition FileSize :: "string \<Rightarrow> Host \<Rightarrow> Host \<times> nat Result" where
  "FileSize p h =
     (case sys_stat p h of
        (h, None) \<Rightarrow> (h, SysError kNotFound msg_file_size_failed p h)
      | (h, Some (n, _)) \<Rightarrow>
          if is_dir h p then (h\<lparr>hs_errno := Some EISDIR\<rparr>, SysError kNotFound msg_file_size_failed p h) else (h, Ok n))"

text \<open>A read that fails ends the stream the text is collected from; nothing reports it.\<close>

definition ReadFile :: "string \<Rightarrow> Host \<Rightarrow> Host \<times> string Result" where
  "ReadFile p h =
     (case sys_open_read p h of
        (h, None) \<Rightarrow> (h, SysError kNotFound msg_open_file_failed p h)
      | (h, Some _) \<Rightarrow>
          (case sys_pop h of
             (h, oc) \<Rightarrow>
               (h\<lparr>hs_fds := hs_fds h - 1\<rparr>,
                Ok (case file_at h p of
                      None \<Rightarrow> []
                    | Some f \<Rightarrow> (case oc of Full \<Rightarrow> hf_data f | Short n \<Rightarrow> take n (hf_data f) | Fails _ \<Rightarrow> [])))))"

definition RemoveFile :: "string \<Rightarrow> Host \<Rightarrow> Host \<times> unit Result" where
  "RemoveFile p h =
     (case sys_unlink p h of
        (h, None) \<Rightarrow> if hs_errno h = Some ENOENT then (h, Ok ()) else (h, SysError kInternal msg_remove_failed p h)
      | (h, Some _) \<Rightarrow> (h, Ok ()))"

function read_at_loop :: "string \<Rightarrow> nat \<Rightarrow> nat \<Rightarrow> string \<Rightarrow> Host \<Rightarrow> Host \<times> string option" where
  "read_at_loop p offset count buf h =
     (if length buf < count then
        (case sys_pread p (offset + length buf) (count - length buf) h of
           (h, None) \<Rightarrow> (h, None)
         | (h, Some d) \<Rightarrow> if d = [] then (h, Some buf) else read_at_loop p offset count (buf @ d) h)
      else (h, Some buf))"
  by pat_completeness auto
termination by (relation "measure (\<lambda>(p, offset, count, buf, h). count - length buf)") (auto simp flip: length_greater_0_conv)

declare read_at_loop.simps [simp del]

definition ReadAt :: "string \<Rightarrow> nat \<Rightarrow> nat \<Rightarrow> Host \<Rightarrow> Host \<times> string Result" where
  "ReadAt p offset count h =
     (case sys_open_read p h of
        (h, None) \<Rightarrow> (h, SysError kNotFound msg_open_file_failed p h)
      | (h, Some _) \<Rightarrow>
          (case read_at_loop p offset count [] h of
             (h, None) \<Rightarrow> (let e = hs_errno h; h = (fst (sys_close h))\<lparr>hs_errno := e\<rparr>
                          in (h, SysError kInternal msg_pread_failed p h))
           | (h, Some buf) \<Rightarrow> (fst (sys_close h), Ok buf)))"

end
