(* ===== verification/Posix_Store.thy ===== *)
theory Posix_Store
  imports Host Blob_Store Byte_Stream
begin

text \<open>
  \<^verbatim>\<open>infra/blob/posix/posix_blob_store\<close>, \<^verbatim>\<open>infra/io/file_sync\<close> and \<^verbatim>\<open>infra/transfer/posix_file_byte_source\<close>: the object
  store over a directory tree, on the host of theory \<open>Host\<close>. An object is a file, its media type and checksum a second
  file beside it. A source is the list of what its reads return, a sink its write operation. SHA-256 and the JSON text of
  the vendored library are the arguments \<open>sha256_hex\<close>, \<open>dump\<close> and \<open>parse\<close>. The injected observers and gates of the tests
  are absent, as in the service; the group commit of concurrent writers is theory \<open>Group_Commit\<close>.
\<close>

section \<open>Syncing\<close>

datatype FsyncPolicy = fsyncAlways | fsyncBySize | fsyncNever

fun ShouldFsync :: "FsyncPolicy \<Rightarrow> int \<Rightarrow> int \<Rightarrow> bool" where
  "ShouldFsync fsyncAlways object_bytes threshold_bytes = True"
| "ShouldFsync fsyncNever object_bytes threshold_bytes = False"
| "ShouldFsync fsyncBySize object_bytes threshold_bytes = (threshold_bytes \<le> 0 \<or> object_bytes \<ge> threshold_bytes)"

definition sync_error_kind :: "Errno option \<Rightarrow> ErrorKind" where
  "sync_error_kind e =
     (if e = Some ENOENT then kNotFound
      else if e = Some EACCES \<or> e = Some EPERM then kPermissionDenied
      else if e = Some ENOSPC \<or> e = Some EDQUOT then kUnavailable
      else if e = Some EINVAL \<or> e = Some ENOSYS then kUnimplemented
      else kInternal)"

definition SyncErr :: "string \<Rightarrow> Host \<Rightarrow> 'a Result" where
  "SyncErr what h = Err (sync_error_kind (hs_errno h)) (what @ msg_colon @ strerror (hs_errno h))"

definition DataSync :: "string \<Rightarrow> Host \<Rightarrow> Host \<times> unit Result" where
  "DataSync p h =
     (case sys_fdatasync p h of
        (h, None) \<Rightarrow> (h, SyncErr msg_fdatasync_failed h)
      | (h, Some _) \<Rightarrow> (h, Ok ()))"

text \<open>The two operations on a directory's descriptor keep the error number of the sync over the \<^verbatim>\<open>close\<close>.\<close>

definition with_directory ::
  "(Host \<Rightarrow> Host \<times> unit option) \<Rightarrow> string \<Rightarrow> string \<Rightarrow> Host \<Rightarrow> Host \<times> unit Result" where
  "with_directory sync failed directory h =
     (case sys_open_dir directory h of
        (h, None) \<Rightarrow> (h, SyncErr msg_open_dir_failed h)
      | (h, Some _) \<Rightarrow>
          (case sync h of
             (h, rc) \<Rightarrow>
               (let saved = hs_errno h; h = fst (sys_close h) in
                if rc = None then (let h = h\<lparr>hs_errno := saved\<rparr> in (h, SyncErr failed h)) else (h, Ok ()))))"

definition SyncDirectory :: "string \<Rightarrow> Host \<Rightarrow> Host \<times> unit Result" where
  "SyncDirectory directory = with_directory (sys_fsync_dir directory) msg_fsync_dir_failed directory"

definition SyncFilesystem :: "string \<Rightarrow> Host \<Rightarrow> Host \<times> unit Result" where
  "SyncFilesystem directory = with_directory (sys_syncfs directory) msg_syncfs_failed directory"

section \<open>The store\<close>

record PosixOptions =
  px_fsync_policy :: FsyncPolicy
  px_fsync_threshold_bytes :: int
  px_instance_id :: string
  px_dir_mode :: nat
  px_file_mode :: nat
  px_atomic_write :: bool
  px_fadvise_random :: bool
  px_fadvise_dontneed :: bool
  px_batch_commit :: bool
  px_group_commit_max_batch :: nat
  px_sync_dir_after_batch :: bool

definition default_PosixOptions :: PosixOptions where
  "default_PosixOptions = \<lparr>px_fsync_policy = fsyncAlways, px_fsync_threshold_bytes = 1048576, px_instance_id = ''local'',
     px_dir_mode = 488, px_file_mode = 420, px_atomic_write = True, px_fadvise_random = False, px_fadvise_dontneed = False,
     px_batch_commit = False, px_group_commit_max_batch = 500, px_sync_dir_after_batch = True\<rparr>"

record PosixStore =
  pb_root :: string
  pb_options :: PosixOptions
  pb_tmp_token :: string

definition kIoBufferBytes :: nat where "kIoBufferBytes = 65536"

definition kDontNeedThresholdBytes :: nat where "kDontNeedThresholdBytes = 1048576"

definition kSidecarSuffix :: string where "kSidecarSuffix = ''.fssmeta''"

definition kTempMarker :: string where "kTempMarker = ''.tmp.''"

definition posix_error_kind :: "Errno option \<Rightarrow> ErrorKind" where
  "posix_error_kind e =
     (if e = Some ENOENT then kNotFound
      else if e = Some EACCES \<or> e = Some EPERM then kPermissionDenied
      else if e = Some ENOSPC \<or> e = Some EDQUOT then kUnavailable
      else kInternal)"

definition ErrFromErrno :: "string \<Rightarrow> Host \<Rightarrow> 'a Result" where
  "ErrFromErrno what h = Err (posix_error_kind (hs_errno h)) (what @ msg_colon @ strerror (hs_errno h))"

definition MtimeEpochSeconds :: "string \<Rightarrow> Host \<Rightarrow> Host \<times> int option" where
  "MtimeEpochSeconds p h = map_prod id (map_option snd) (sys_stat p h)"

text \<open>An interrupted write is repeated.\<close>

function WriteAll :: "string \<Rightarrow> string \<Rightarrow> Host \<Rightarrow> Host \<times> bool" where
  "WriteAll p data h =
     (if data = [] then (h, True)
      else (case sys_write p data h of
              (h1, None) \<Rightarrow> if hs_errno h1 = Some EINTR then WriteAll p data h1 else (h1, False)
            | (h1, Some n) \<Rightarrow> WriteAll p (drop n data) h1))"
  by pat_completeness auto
termination
  by (relation "measure (\<lambda>(p, data, h). length data + length (hs_script h))")
    (auto simp: sys_write_def sys_pop_def sys_fail_def emit_def append_to_def set_file_def
      split: list.splits Outcome.splits option.splits)

declare WriteAll.simps [simp del]

lemma sys_write_script: "sys_write p d h = (h1, r) \<Longrightarrow> length (hs_script h1) \<le> length (hs_script h)"
  by (auto simp: sys_write_def sys_pop_def sys_fail_def emit_def append_to_def set_file_def
      split: list.splits Outcome.splits option.splits)

lemma WriteAll_script: "WriteAll p data h = (h1, b) \<Longrightarrow> length (hs_script h1) \<le> length (hs_script h)"
proof (induction p data h rule: WriteAll.induct)
  case (1 p data h)
  show ?case
  proof (cases "data = []")
    case True
    then show ?thesis using "1.prems" by (simp add: WriteAll.simps)
  next
    case False
    obtain h2 r where w: "sys_write p data h = (h2, r)" by (cases "sys_write p data h")
    have le: "length (hs_script h2) \<le> length (hs_script h)" using w by (rule sys_write_script)
    show ?thesis
    proof (cases r)
      case None
      then show ?thesis using "1.prems" False w le "1.IH"(1) [OF False w [symmetric] None]
        by (subst (asm) WriteAll.simps) (auto split: if_splits intro: order_trans)
    next
      case (Some n)
      then show ?thesis using "1.prems" False w le "1.IH"(2) [OF False w [symmetric] Some]
        by (subst (asm) WriteAll.simps) (auto intro: order_trans)
    qed
  qed
qed

definition NewStore :: "string \<Rightarrow> PosixOptions \<Rightarrow> Host \<Rightarrow> Host \<times> PosixStore" where
  "NewStore root options h =
     (case RandomHex h of (h, token) \<Rightarrow> (h, \<lparr>pb_root = root, pb_options = options, pb_tmp_token = token\<rparr>))"

definition PosixCapabilities :: BlobCapabilities where
  "PosixCapabilities = \<lparr>bc_native_presign = False, bc_server_side_copy = True, bc_range_read = True,
     bc_streaming_put = True, bc_recommended_part_size = 0, bc_driver_name = ''posix''\<rparr>"

definition IsInternalKey :: "string \<Rightarrow> bool" where
  "IsInternalKey k \<longleftrightarrow> suffix kSidecarSuffix k \<or> contains_str kTempMarker k"

definition ContainerDir :: "PosixStore \<Rightarrow> string \<Rightarrow> string Result" where
  "ContainerDir s container = LexicalJoin (pb_root s) container"

definition ObjectPath :: "PosixStore \<Rightarrow> string \<Rightarrow> string \<Rightarrow> Host \<Rightarrow> Host \<times> string Result" where
  "ObjectPath s container key h =
     FSS_TRY_ST (h, ContainerDir s container) (\<lambda>h dir.
       case Exists dir h of
         (h, ok) \<Rightarrow> if \<not> ok then (h, Err kNotFound (msg_container_missing @ container))
         else SafeJoin dir key h)"

definition WritableObjectPath :: "PosixStore \<Rightarrow> string \<Rightarrow> string \<Rightarrow> Host \<Rightarrow> Host \<times> string Result" where
  "WritableObjectPath s container key h =
     FSS_TRY_ST (ObjectPath s container key h) (\<lambda>h p.
       if CHR ''/'' \<in> set p
       then FSS_TRY_ST (EnsureDir (dir_of p) (px_dir_mode (pb_options s)) h) (\<lambda>h _. ObjectPath s container key h)
       else ObjectPath s container key h)"

definition TempPathFor :: "PosixStore \<Rightarrow> string \<Rightarrow> Host \<Rightarrow> Host \<times> string" where
  "TempPathFor s target h =
     (h\<lparr>hs_tmp_counter := Suc (hs_tmp_counter h)\<rparr>,
      target @ kTempMarker @ px_instance_id (pb_options s) @ ''.'' @ to_string (hs_pid h) @ ''.'' @
        nat_to_string (hs_tmp_counter h) @ ''.'' @ pb_tmp_token s)"

definition sidecar_json :: "ObjectStat \<Rightarrow> json" where
  "sidecar_json st = JObject (
     map_put ''last_modified_epoch_seconds'' (JInt (os_last_modified st))
    (map_put ''size'' (JInt (os_size st))
    (map_put ''checksum_algorithm'' (JString (os_checksum_algorithm st))
    (map_put ''checksum'' (JString (os_checksum st))
    (map_put ''content_type'' (JString (os_content_type st)) [])))))"

definition WriteSidecar ::
  "(json \<Rightarrow> string) \<Rightarrow> PosixStore \<Rightarrow> string \<Rightarrow> ObjectStat \<Rightarrow> bool \<Rightarrow> Host \<Rightarrow> Host \<times> unit Result" where
  "WriteSidecar dump s object_path st fsync h =
     AtomicWriteFile (object_path @ kSidecarSuffix) (dump (sidecar_json st))
       (default_WriteOptions\<lparr>wo_fsync_data := fsync, wo_fsync_dir := fsync,
          wo_tmp_suffix := px_instance_id (pb_options s)\<rparr>) h"

definition string_member :: "json \<Rightarrow> string \<Rightarrow> string" where
  "string_member v k = (case Lookup v k of Some (JString t) \<Rightarrow> t | _ \<Rightarrow> [])"

definition ReadSidecar :: "(string \<Rightarrow> json Result) \<Rightarrow> string \<Rightarrow> Host \<Rightarrow> Host \<times> ObjectStat Result" where
  "ReadSidecar parse object_path h =
     FSS_TRY_ST (ReadFile (object_path @ kSidecarSuffix) h) (\<lambda>h text'.
     FSS_TRY_ST (h, ParseObject parse text') (\<lambda>h v.
       (h, Ok (missing_stat\<lparr>os_exists := True, os_content_type := string_member v ''content_type'',
                 os_checksum := string_member v ''checksum'',
                 os_checksum_algorithm := string_member v ''checksum_algorithm''\<rparr>))))"

definition AdviseRandom :: "PosixStore \<Rightarrow> string \<Rightarrow> Host \<Rightarrow> Host" where
  "AdviseRandom s p h = (if px_fadvise_random (pb_options s) then emit (EvAdvise p) h else h)"

definition AdviseDontNeedAfterRead :: "PosixStore \<Rightarrow> string \<Rightarrow> nat \<Rightarrow> Host \<Rightarrow> Host" where
  "AdviseDontNeedAfterRead s p bytes_read h =
     (if \<not> px_fadvise_dontneed (pb_options s) then h
      else if bytes_read \<le> kDontNeedThresholdBytes then h
      else emit (EvAdvise p) h)"

definition PosixEnsureContainer :: "PosixStore \<Rightarrow> string \<Rightarrow> Host \<Rightarrow> Host \<times> unit Result" where
  "PosixEnsureContainer s container h =
     FSS_TRY_ST (h, ContainerDir s container) (\<lambda>h dir. EnsureDir dir (px_dir_mode (pb_options s)) h)"

definition PosixPresign :: "PosixStore \<Rightarrow> ObjectRef \<Rightarrow> PresignOptions \<Rightarrow> SignedLocation Result" where
  "PosixPresign s ref options = Err kUnimplemented msg_posix_no_presign"

section \<open>put\<close>

text \<open>Closing and removing what was written, then reporting the error found before.\<close>

definition put_cleanup :: "string \<Rightarrow> Host \<Rightarrow> Host" where
  "put_cleanup tmp h = fst (sys_unlink tmp (fst (sys_close h)))"

fun put_loop :: "string \<Rightarrow> string Result list \<Rightarrow> string \<Rightarrow> Host \<Rightarrow> Host \<times> string Result" where
  "put_loop tmp [] data h = (h, Ok data)"
| "put_loop tmp (Inl e # reads) data h = (put_cleanup tmp h, Inl e)"
| "put_loop tmp (Inr d # reads) data h =
     (if d = [] then (h, Ok data)
      else (case WriteAll tmp d h of
              (h1, ok) \<Rightarrow> if \<not> ok then (put_cleanup tmp h1, ErrFromErrno msg_write_failed h1)
              else put_loop tmp reads (data @ d) h1))"

definition put_open :: "PosixStore \<Rightarrow> string \<Rightarrow> Host \<Rightarrow> Host \<times> string Result" where
  "put_open s p h =
     (let atomic = px_atomic_write (pb_options s) in
      case (if atomic then TempPathFor s p h else (h, p)) of
        (h, tmp) \<Rightarrow>
          (case sys_open_write atomic tmp (px_file_mode (pb_options s)) h of
             (h, None) \<Rightarrow>
               (h, ErrFromErrno (if atomic then msg_create_tmp_failed else msg_create_target_failed) h)
           | (h, Some _) \<Rightarrow> (AdviseRandom s tmp h, Ok tmp)))"

definition put_needs_sync :: "PosixStore \<Rightarrow> nat \<Rightarrow> bool" where
  "put_needs_sync s total_bytes =
     ShouldFsync (px_fsync_policy (pb_options s)) (int total_bytes) (px_fsync_threshold_bytes (pb_options s))"

text \<open>The data checked, synced where the policy says so, and the descriptor closed.\<close>

definition put_finish ::
  "(string \<Rightarrow> string) \<Rightarrow> PosixStore \<Rightarrow> string \<Rightarrow> PutOptions \<Rightarrow> string \<Rightarrow> Host \<Rightarrow> Host \<times> unit Result" where
  "put_finish sha256_hex s tmp options data h =
     (case check_put sha256_hex options data of
        Inl e \<Rightarrow> (put_cleanup tmp h, Inl e)
      | Inr _ \<Rightarrow>
          (case (if put_needs_sync s (length data) then DataSync tmp h else (h, Ok ())) of
             (h, Inl e) \<Rightarrow> (put_cleanup tmp h, Inl e)
           | (h, Inr _) \<Rightarrow>
               (case sys_close h of
                  (h, None) \<Rightarrow> (fst (sys_unlink tmp h), ErrFromErrno msg_close_failed h)
                | (h, Some _) \<Rightarrow> (h, Ok ()))))"

definition put_stage ::
  "(string \<Rightarrow> string) \<Rightarrow> PosixStore \<Rightarrow> ObjectRef \<Rightarrow> string Result list \<Rightarrow> PutOptions \<Rightarrow> Host \<Rightarrow>
   Host \<times> (string \<times> string \<times> string) Result" where
  "put_stage sha256_hex s ref source options h =
     FSS_TRY_ST (WritableObjectPath s (or_container ref) (or_key ref) h) (\<lambda>h p.
     FSS_TRY_ST (put_open s p h) (\<lambda>h tmp.
     FSS_TRY_ST (put_loop tmp source [] h) (\<lambda>h data.
     FSS_TRY_ST (put_finish sha256_hex s tmp options data h) (\<lambda>h _. (h, Ok (p, tmp, data))))))"

definition put_stat :: "(string \<Rightarrow> string) \<Rightarrow> int \<Rightarrow> PutOptions \<Rightarrow> string \<Rightarrow> ObjectStat" where
  "put_stat sha256_hex now options data =
     \<lparr>os_size = int (length data), os_content_type = pu_content_type options, os_checksum = sha256_hex data,
      os_checksum_algorithm = ''SHA256'', os_last_modified = now, os_exists = True\<rparr>"

definition WriteTmpFile :: "PosixStore \<Rightarrow> string \<Rightarrow> string \<Rightarrow> Host \<Rightarrow> Host \<times> unit Result" where
  "WriteTmpFile s p data h =
     (case sys_open_write True p (px_file_mode (pb_options s)) h of
        (h, None) \<Rightarrow> (h, ErrFromErrno msg_create_tmp_failed h)
      | (h, Some _) \<Rightarrow>
          (case WriteAll p data h of
             (h, ok) \<Rightarrow> if \<not> ok then (put_cleanup p h, ErrFromErrno msg_write_tmp_failed h)
             else
               (case sys_close h of
                  (h, None) \<Rightarrow> (fst (sys_unlink p h), ErrFromErrno msg_close_failed h)
                | (h, Some _) \<Rightarrow> (h, Ok ()))))"

text \<open>A batch entry: the renames of one object, its data first and its sidecar second.\<close>

type_synonym BatchEntry = "(string \<times> string) list"

definition batch_stage ::
  "(json \<Rightarrow> string) \<Rightarrow> PosixStore \<Rightarrow> string \<Rightarrow> string \<Rightarrow> ObjectStat \<Rightarrow> Host \<Rightarrow> Host \<times> BatchEntry Result" where
  "batch_stage dump s p tmp st h =
     (case TempPathFor s (p @ kSidecarSuffix) h of
        (h, sidecar_tmp) \<Rightarrow>
          (case WriteTmpFile s sidecar_tmp (dump (sidecar_json st)) h of
             (h, Inl e) \<Rightarrow> (fst (sys_unlink tmp h), Inl e)
           | (h, Inr _) \<Rightarrow> (h, Ok [(tmp, p), (sidecar_tmp, p @ kSidecarSuffix)])))"

definition unlink_all :: "string list \<Rightarrow> Host \<Rightarrow> Host" where
  "unlink_all tmps h = foldl (\<lambda>h t. fst (sys_unlink t h)) h tmps"

fun commit_renames :: "BatchEntry \<Rightarrow> BatchEntry \<Rightarrow> Host \<Rightarrow> Host \<times> unit Result" where
  "commit_renames entry [] h = (h, Ok ())"
| "commit_renames entry ((tmp, target) # renames) h =
     (case sys_rename tmp target h of
        (h1, None) \<Rightarrow> (unlink_all (map fst entry) h1, ErrFromErrno msg_rename_failed h1)
      | (h1, Some _) \<Rightarrow> commit_renames entry renames h1)"

fun commit_entries :: "BatchEntry list \<Rightarrow> Host \<Rightarrow> Host \<times> unit Result list" where
  "commit_entries [] h = (h, [])"
| "commit_entries (entry # entries) h =
     (case commit_renames entry entry h of (h1, r) \<Rightarrow>
       (case commit_entries entries h1 of (h2, rs) \<Rightarrow> (h2, r # rs)))"

definition batch_directory :: "BatchEntry list \<Rightarrow> string" where
  "batch_directory entries =
     (case entries of ((tmp, target) # _) # _ \<Rightarrow> if CHR ''/'' \<in> set target then dir_of target else [] | _ \<Rightarrow> [])"

definition count_metric :: "string \<Rightarrow> int \<Rightarrow> Host \<Rightarrow> Host" where
  "count_metric name delta h = h\<lparr>hs_metrics := map_option (MetricIncrement name [] delta) (hs_metrics h)\<rparr>"

definition CommitBatch :: "PosixStore \<Rightarrow> BatchEntry list \<Rightarrow> Host \<Rightarrow> Host \<times> unit Result list" where
  "CommitBatch s entries h =
     (let directory = batch_directory entries in
      case SyncFilesystem directory h of
        (h, Inl e) \<Rightarrow>
          (count_metric ''fss_posix_group_commits_total'' 1
             (unlink_all (map fst (concat entries)) (count_metric ''fss_posix_syncfs_total'' 1 h)),
           replicate (length entries) (Inl e))
      | (h, Inr _) \<Rightarrow>
          (case commit_entries entries (count_metric ''fss_posix_syncfs_total'' 1 h) of
             (h, results) \<Rightarrow>
               (let h = (if px_sync_dir_after_batch (pb_options s) \<and> directory \<noteq> []
                         then fst (SyncDirectory directory h) else h) in
                (count_metric ''fss_posix_batch_objects_total'' (int (length entries))
                   (count_metric ''fss_posix_group_commits_total'' 1 h),
                 results))))"

text \<open>A writer that meets no other commits its own entry.\<close>

definition JoinBatchAlone :: "PosixStore \<Rightarrow> BatchEntry \<Rightarrow> Host \<Rightarrow> Host \<times> unit Result" where
  "JoinBatchAlone s entry h = (case CommitBatch s [entry] h of (h, rs) \<Rightarrow> (h, hd rs))"

definition direct_commit ::
  "(json \<Rightarrow> string) \<Rightarrow> PosixStore \<Rightarrow> string \<Rightarrow> string \<Rightarrow> ObjectStat \<Rightarrow> bool \<Rightarrow> Host \<Rightarrow> Host \<times> unit Result" where
  "direct_commit dump s p tmp st need_sync h =
     (case (if px_atomic_write (pb_options s) then sys_rename tmp p h else (h, Some ())) of
        (h, None) \<Rightarrow> (fst (sys_unlink tmp h), ErrFromErrno msg_rename_failed h)
      | (h, Some _) \<Rightarrow>
          (let h = (if need_sync \<and> px_sync_dir_after_batch (pb_options s) then fst (SyncDirectory (dir_of p) h) else h)
           in WriteSidecar dump s p st need_sync h))"

definition PosixPut ::
  "(string \<Rightarrow> string) \<Rightarrow> (json \<Rightarrow> string) \<Rightarrow> int \<Rightarrow> PosixStore \<Rightarrow> ObjectRef \<Rightarrow> string Result list \<Rightarrow> PutOptions \<Rightarrow>
   Host \<Rightarrow> Host \<times> unit Result" where
  "PosixPut sha256_hex dump now s ref source options h =
     FSS_TRY_ST (put_stage sha256_hex s ref source options h) (\<lambda>h (p, tmp, data).
       let need_sync = put_needs_sync s (length data); st = put_stat sha256_hex now options data in
       if px_atomic_write (pb_options s) \<and> px_batch_commit (pb_options s) \<and> \<not> need_sync
       then FSS_TRY_ST (batch_stage dump s p tmp st h) (\<lambda>h entry. JoinBatchAlone s entry h)
       else direct_commit dump s p tmp st need_sync h)"

section \<open>get\<close>

text \<open>The read loop; the sink is the state \<open>k\<close> with its write operation.\<close>

function get_loop :: "'k writer \<Rightarrow> string \<Rightarrow> nat \<Rightarrow> nat \<Rightarrow> nat \<Rightarrow> Host \<times> 'k \<Rightarrow> (Host \<times> 'k) \<times> nat Result" where
  "get_loop wr p offset count got (h, k) =
     (if got < count then
        (case sys_pread p (offset + got) (min kIoBufferBytes (count - got)) h of
           (h1, None) \<Rightarrow>
             if hs_errno h1 = Some EINTR
             then get_loop wr p offset count got (h1, k)
             else ((fst (sys_close h1), k), ErrFromErrno msg_pread_failed h1)
         | (h1, Some d) \<Rightarrow>
             if d = [] then ((h1, k), Ok got)
             else (case wr d k of
                     (k, Inl e) \<Rightarrow> ((h1, k), Inl e)
                   | (k, Inr _) \<Rightarrow> get_loop wr p offset count (got + length d) (h1, k)))
      else ((h, k), Ok got))"
  by pat_completeness auto
termination
  by (relation "measure (\<lambda>(wr, p, offset, count, got, h, k). count - got + length (hs_script h))")
    (auto simp: sys_pread_def sys_pop_def sys_fail_def split: list.splits Outcome.splits option.splits if_splits
      simp flip: length_greater_0_conv)

declare get_loop.simps [simp del]

definition range_count :: "ByteRange \<Rightarrow> nat \<Rightarrow> nat" where
  "range_count rg object_size =
     (if IsWholeObject rg then object_size
      else let available = object_size - br_offset rg in
           if br_length rg = 0 then available else min (br_length rg) available)"

definition PosixGet ::
  "'k writer \<Rightarrow> ('k \<Rightarrow> 'k \<times> unit Result) \<Rightarrow> PosixStore \<Rightarrow> ObjectRef \<Rightarrow> ByteRange \<Rightarrow> Host \<times> 'k \<Rightarrow>
   (Host \<times> 'k) \<times> unit Result" where
  "PosixGet wr close_sink s ref rg hk =
     (case hk of (h, k) \<Rightarrow>
      case ObjectPath s (or_container ref) (or_key ref) h of
        (h, Inl e) \<Rightarrow> ((h, k), Inl e)
      | (h, Inr p) \<Rightarrow>
          (case sys_open_read p h of
             (h, None) \<Rightarrow>
               ((h, k), if hs_errno h = Some ENOENT then object_missing ref
                        else ErrFromErrno msg_open_object_failed h)
           | (h, Some _) \<Rightarrow>
               (case sys_stat p (AdviseRandom s p h) of
                  (h, None) \<Rightarrow> ((fst (sys_close h), k), ErrFromErrno msg_fstat_failed h)
                | (h, Some (object_size, _)) \<Rightarrow>
                    if \<not> IsWholeObject rg \<and> \<not> bc_range_read PosixCapabilities
                    then ((fst (sys_close h), k), Err kUnimplemented msg_posix_no_range)
                    else if \<not> IsWholeObject rg \<and> br_offset rg \<ge> object_size
                    then ((fst (sys_close h), k), Err kInvalidArgument msg_range_start)
                    else
                      (case get_loop wr p (br_offset rg) (range_count rg object_size) 0 (h, k) of
                         ((h, k), Inl e) \<Rightarrow> ((h, k), Inl e)
                       | ((h, k), Inr got) \<Rightarrow>
                           (let h = fst (sys_close (AdviseDontNeedAfterRead s p got h)) in
                            case close_sink k of (k, r) \<Rightarrow> ((h, k), FSS_TRY r (\<lambda>_. Ok ())))))))"

section \<open>stat, remove, copy\<close>

definition PosixStat :: "(string \<Rightarrow> json Result) \<Rightarrow> PosixStore \<Rightarrow> ObjectRef \<Rightarrow> Host \<Rightarrow> Host \<times> ObjectStat Result" where
  "PosixStat parse s ref h =
     (case ContainerDir s (or_container ref) of
        Inl _ \<Rightarrow> (h, Ok missing_stat)
      | Inr dir \<Rightarrow>
          (case Exists dir h of
             (h, ok) \<Rightarrow> if \<not> ok then (h, Ok missing_stat)
             else
               FSS_TRY_ST (SafeJoin dir (or_key ref) h) (\<lambda>h p.
                 case sys_stat p h of
                   (h, None) \<Rightarrow> (h, Ok missing_stat)
                 | (h, Some (n, mtime)) \<Rightarrow>
                     (case ReadSidecar parse p h of
                        (h, Inl _) \<Rightarrow> (h, Ok (missing_stat\<lparr>os_exists := True, os_size := int n, os_last_modified := mtime\<rparr>))
                      | (h, Inr m) \<Rightarrow> (h, Ok (m\<lparr>os_exists := True, os_size := int n, os_last_modified := mtime\<rparr>))))))"

definition PosixRemove :: "PosixStore \<Rightarrow> ObjectRef \<Rightarrow> Host \<Rightarrow> Host \<times> unit Result" where
  "PosixRemove s ref h =
     FSS_TRY_ST (h, ContainerDir s (or_container ref)) (\<lambda>h dir.
       case Exists dir h of
         (h, ok) \<Rightarrow> if \<not> ok then (h, Ok ())
         else
           FSS_TRY_ST (SafeJoin dir (or_key ref) h) (\<lambda>h p.
             case sys_unlink p h of
               (h, r) \<Rightarrow>
                 if r = None \<and> hs_errno h \<noteq> Some ENOENT then (h, ErrFromErrno msg_remove_object_failed h)
                 else (fst (sys_unlink (p @ kSidecarSuffix) h), Ok ())))"

text \<open>\<^verbatim>\<open>copy_file_range\<close> until it takes nothing; an error other than an interruption leaves the loop. \<open>data\<close> is what the
  source still holds.\<close>

function copy_range_loop :: "string \<Rightarrow> string \<Rightarrow> Host \<Rightarrow> Host \<times> bool" where
  "copy_range_loop data target h =
     (case sys_pop h of
        (h1, Fails e) \<Rightarrow>
          (let h2 = h1\<lparr>hs_errno := Some e\<rparr> in
           if e = EINTR then copy_range_loop data target h2 else (h2, False))
      | (h1, oc) \<Rightarrow>
          (let n = min kIoBufferBytes (case oc of Short n \<Rightarrow> max 1 n | _ \<Rightarrow> kIoBufferBytes) in
           if data = [] then (h1, True)
           else copy_range_loop (drop n data) target (emit (EvWrite target) (append_to target (take n data) h1))))"
  by pat_completeness auto
termination
  by (relation "measure (\<lambda>(data, target, h). length data + length (hs_script h))")
    (auto simp: sys_pop_def emit_def append_to_def set_file_def kIoBufferBytes_def
      split: list.splits Outcome.splits option.splits simp flip: length_greater_0_conv)

declare copy_range_loop.simps [simp del]

lemmas WriteAll_shorter = WriteAll_script [OF sym]

function copy_read_loop :: "string \<Rightarrow> string \<Rightarrow> Host \<Rightarrow> Host \<times> bool" where
  "copy_read_loop data target h =
     (case sys_pop h of
        (h1, Fails e) \<Rightarrow>
          (let h2 = h1\<lparr>hs_errno := Some e\<rparr> in
           if e = EINTR then copy_read_loop data target h2 else (h2, False))
      | (h1, oc) \<Rightarrow>
          (let n = min kIoBufferBytes (case oc of Short n \<Rightarrow> max 1 n | _ \<Rightarrow> kIoBufferBytes) in
           if data = [] then (h1, True)
           else (case WriteAll target (take n data) h1 of
                   (h2, ok) \<Rightarrow> if \<not> ok then (h2, False)
                   else copy_read_loop (drop n data) target h2)))"
  by pat_completeness auto
termination
  by (relation "measure (\<lambda>(data, target, h). length data + length (hs_script h))")
    (auto simp: sys_pop_def kIoBufferBytes_def dest: WriteAll_shorter
      split: list.splits Outcome.splits option.splits simp flip: length_greater_0_conv)

declare copy_read_loop.simps [simp del]

definition CopyFd :: "string \<Rightarrow> string \<Rightarrow> Host \<Rightarrow> Host \<times> bool" where
  "CopyFd source target h =
     (let data = (case file_at h source of Some f \<Rightarrow> hf_data f | None \<Rightarrow> []) in
      case copy_range_loop data target h of
        (h, ok) \<Rightarrow> if ok then (h, True)
        else
          (case sys_call h (\<lambda>h. (h, Some ())) of
             (h, None) \<Rightarrow> (h, False)
           | (h, Some _) \<Rightarrow>
               (case sys_call h (\<lambda>h. (emit (EvWrite target)
                       (case file_at h target of None \<Rightarrow> h | Some f \<Rightarrow> set_file target (f\<lparr>hf_data := [], hf_durable := False\<rparr>) h),
                      Some ())) of
                  (h, None) \<Rightarrow> (h, False)
                | (h, Some _) \<Rightarrow> copy_read_loop data target h)))"

definition copy_open_target :: "PosixStore \<Rightarrow> string \<Rightarrow> Host \<Rightarrow> Host \<times> string Result" where
  "copy_open_target s to_path h =
     (let atomic = px_atomic_write (pb_options s) in
      case (if atomic then TempPathFor s to_path h else (h, to_path)) of
        (h, tmp) \<Rightarrow>
          (case sys_open_write atomic tmp (px_file_mode (pb_options s)) h of
             (h, None) \<Rightarrow> (fst (sys_close h), ErrFromErrno msg_create_copy_target_failed h)
           | (h, Some _) \<Rightarrow> (h, Ok tmp)))"

definition copy_needs_sync :: "PosixStore \<Rightarrow> int \<Rightarrow> bool" where
  "copy_needs_sync s copied_bytes \<longleftrightarrow>
     px_batch_commit (pb_options s) \<or>
     ShouldFsync (px_fsync_policy (pb_options s)) copied_bytes (px_fsync_threshold_bytes (pb_options s))"

text \<open>The bytes copied and synced and both descriptors closed: whether all of it worked.\<close>

definition copy_bytes :: "string \<Rightarrow> string \<Rightarrow> bool \<Rightarrow> Host \<Rightarrow> Host \<times> bool" where
  "copy_bytes from_path tmp need_sync h =
     (case CopyFd from_path tmp h of
        (h, ok) \<Rightarrow>
          (case (if ok \<and> need_sync then map_prod id is_ok (DataSync tmp h) else (h, ok)) of
             (h, ok) \<Rightarrow>
               (case sys_close h of
                  (h, c1) \<Rightarrow> (case sys_close h of (h, c2) \<Rightarrow> (h, ok \<and> c1 \<noteq> None \<and> c2 \<noteq> None)))))"

definition copy_move :: "PosixStore \<Rightarrow> string \<Rightarrow> string \<Rightarrow> bool \<Rightarrow> Host \<Rightarrow> Host \<times> unit Result" where
  "copy_move s tmp to_path ok h =
     (if \<not> ok then (fst (sys_unlink tmp h), Err kInternal msg_posix_copy_failed)
      else if \<not> px_atomic_write (pb_options s) then (h, Ok ())
      else (case sys_rename tmp to_path h of
              (h, None) \<Rightarrow> (fst (sys_unlink tmp h), ErrFromErrno msg_rename_failed h)
            | (h, Some _) \<Rightarrow> (h, Ok ())))"

definition PosixCopy ::
  "(json \<Rightarrow> string) \<Rightarrow> (string \<Rightarrow> json Result) \<Rightarrow> int \<Rightarrow> PosixStore \<Rightarrow> ObjectRef \<Rightarrow> ObjectRef \<Rightarrow> Host \<Rightarrow>
   Host \<times> ObjectStat Result" where
  "PosixCopy dump parse now s source_ref target_ref h =
     (if \<not> bc_server_side_copy PosixCapabilities then (h, Err kUnimplemented msg_posix_no_copy)
      else
     FSS_TRY_ST (ObjectPath s (or_container source_ref) (or_key source_ref) h) (\<lambda>h from_path.
     FSS_TRY_ST (h, ContainerDir s (or_container target_ref)) (\<lambda>h to_dir.
       case Exists to_dir h of
         (h, ok) \<Rightarrow> if \<not> ok then (h, Err kNotFound (msg_target_container_missing @ or_container target_ref))
         else
     FSS_TRY_ST (WritableObjectPath s (or_container target_ref) (or_key target_ref) h) (\<lambda>h to_path.
       case sys_open_read from_path h of
         (h, None) \<Rightarrow>
           (h, if hs_errno h = Some ENOENT then Err kNotFound (msg_copy_source_missing @ ObjectRefToString source_ref)
               else ErrFromErrno msg_open_copy_source_failed h)
       | (h, Some _) \<Rightarrow>
     FSS_TRY_ST (copy_open_target s to_path h) (\<lambda>h tmp.
       case sys_stat from_path h of
         (h, st) \<Rightarrow>
           (let need_sync = copy_needs_sync s (case st of Some (n, _) \<Rightarrow> int n | None \<Rightarrow> 0) in
            case copy_bytes from_path tmp need_sync h of
              (h, ok) \<Rightarrow>
     FSS_TRY_ST (copy_move s tmp to_path ok h) (\<lambda>h _.
       let h = (if need_sync then fst (SyncDirectory (dir_of to_path) h) else h) in
       case ReadSidecar parse from_path h of
         (h, Inl _) \<Rightarrow> PosixStat parse s target_ref h
       | (h, Inr m) \<Rightarrow>
           FSS_TRY_ST (WriteSidecar dump s to_path (m\<lparr>os_last_modified := now\<rparr>) need_sync h) (\<lambda>h _.
             PosixStat parse s target_ref h))))))))"

section \<open>list and the sweep of temporary files\<close>

text \<open>The files below a directory. A step of the iteration that fails ends it, and nothing tells.\<close>

definition files_under :: "string \<Rightarrow> Host \<Rightarrow> string list" where
  "files_under dir h = filter (starts_with (dir @ ''/'')) (map fst (hs_files h))"

fun walk_tree ::
  "(string \<Rightarrow> string \<Rightarrow> 'a \<Rightarrow> Host \<Rightarrow> Host \<times> 'a Result) \<Rightarrow> string \<Rightarrow> string list \<Rightarrow> 'a \<Rightarrow> Host \<Rightarrow> Host \<times> 'a Result" where
  "walk_tree body dir [] acc h = (h, Ok acc)"
| "walk_tree body dir (p # ps) acc h =
     (case sys_pop h of
        (h, Fails e) \<Rightarrow> (h, Ok acc)
      | (h, _) \<Rightarrow> FSS_TRY_ST (body p (drop (length dir + 1) p) acc h) (\<lambda>h acc. walk_tree body dir ps acc h))"

definition list_body ::
  "int \<Rightarrow> string \<Rightarrow> string \<Rightarrow> (string \<times> int) list \<Rightarrow> Host \<Rightarrow> Host \<times> (string \<times> int) list Result" where
  "list_body now p relative found h =
     (if IsInternalKey relative then (h, Ok found)
      else (case MtimeEpochSeconds p h of
              (h, m) \<Rightarrow> (h, Ok (found @ [(relative, case m of Some t \<Rightarrow> t | None \<Rightarrow> now)]))))"

definition posix_list_start :: "string \<Rightarrow> string \<Rightarrow> (string \<times> int) list \<Rightarrow> (string \<times> int) list" where
  "posix_list_start pfx token found =
     (if token = [] then dropWhile (\<lambda>e. fst e < pfx) found else dropWhile (\<lambda>e. fst e \<le> token) found)"

fun posix_page :: "string \<Rightarrow> string \<Rightarrow> nat \<Rightarrow> (string \<times> int) list \<Rightarrow> ListEntry list \<Rightarrow> Host \<Rightarrow> Host \<times> ListPage" where
  "posix_page dir pfx n [] acc h = (h, \<lparr>lp_entries = acc, lp_continuation_token = [], lp_truncated = False\<rparr>)"
| "posix_page dir pfx n ((k, mtime) # found) acc h =
     (if \<not> starts_with pfx k then (h, \<lparr>lp_entries = acc, lp_continuation_token = [], lp_truncated = False\<rparr>)
      else (case n of
              0 \<Rightarrow> (h, \<lparr>lp_entries = acc, lp_continuation_token = le_key (last acc), lp_truncated = True\<rparr>)
            | Suc m \<Rightarrow>
                (case FileSize (dir @ ''/'' @ k) h of
                   (h, r) \<Rightarrow>
                     posix_page dir pfx m found
                       (acc @ [\<lparr>le_key = k, le_size = int (value_or r 0), le_last_modified = mtime\<rparr>]) h)))"

definition PosixList :: "int \<Rightarrow> PosixStore \<Rightarrow> string \<Rightarrow> string \<Rightarrow> string \<Rightarrow> int \<Rightarrow> Host \<Rightarrow> Host \<times> ListPage Result" where
  "PosixList now s container pfx token limit h =
     (if limit \<le> 0 then (h, Err kInvalidArgument msg_list_limit)
      else
     FSS_TRY_ST (h, ContainerDir s container) (\<lambda>h dir.
       case Exists dir h of
         (h, ok) \<Rightarrow> if \<not> ok then (h, Err kNotFound (msg_container_missing @ container))
         else
           FSS_TRY_ST (walk_tree (list_body now) dir (files_under dir h) [] h) (\<lambda>h found.
             case posix_page dir pfx (nat limit) (posix_list_start pfx token (sort_key fst found)) [] h of
               (h, page) \<Rightarrow> (h, Ok page))))"

definition sweep_body ::
  "int \<Rightarrow> bool \<Rightarrow> string \<Rightarrow> string \<Rightarrow> TempSweepResult \<Rightarrow> Host \<Rightarrow> Host \<times> TempSweepResult Result" where
  "sweep_body older_than dry_run p relative result h =
     (if \<not> contains_str kTempMarker relative then (h, Ok result)
      else (case MtimeEpochSeconds p h of
              (h, None) \<Rightarrow> (h, Ok (result\<lparr>ts_skipped_unknown_mtime := ts_skipped_unknown_mtime result + 1\<rparr>))
            | (h, Some mtime) \<Rightarrow>
                if mtime > older_than
                then (h, Ok (result\<lparr>ts_skipped_too_young := ts_skipped_too_young result + 1\<rparr>))
                else if dry_run then (h, Ok (result\<lparr>ts_removed := ts_removed result + 1\<rparr>))
                else (case sys_unlink p h of
                        (h, r) \<Rightarrow>
                          if r = None \<and> hs_errno h \<noteq> Some ENOENT
                          then (h, Err kUnavailable (msg_remove_tmp_failed @ p @ msg_colon @ strerror (hs_errno h)))
                          else (h, Ok (result\<lparr>ts_removed := ts_removed result + 1\<rparr>)))))"

definition no_sweep :: TempSweepResult where
  "no_sweep = \<lparr>ts_removed = 0, ts_skipped_too_young = 0, ts_skipped_unknown_mtime = 0\<rparr>"

definition PosixRemoveTempFiles :: "PosixStore \<Rightarrow> string \<Rightarrow> int \<Rightarrow> bool \<Rightarrow> Host \<Rightarrow> Host \<times> TempSweepResult Result" where
  "PosixRemoveTempFiles s container older_than dry_run h =
     FSS_TRY_ST (h, ContainerDir s container) (\<lambda>h dir.
       case Exists dir h of
         (h, ok) \<Rightarrow> if \<not> ok then (h, Ok no_sweep)
         else walk_tree (sweep_body older_than dry_run) dir (files_under dir h) no_sweep h)"

section \<open>Sources with a descriptor of their own\<close>

record NativeSource =
  ns_path :: string
  ns_size :: nat
  ns_offset :: nat

definition source_error :: "string \<Rightarrow> Host \<Rightarrow> 'a Result" where
  "source_error what h = Err kInternal (what @ msg_colon @ strerror (hs_errno h))"

definition NativeOpen :: "string \<Rightarrow> bool \<Rightarrow> Host \<Rightarrow> Host \<times> NativeSource Result" where
  "NativeOpen p fadvise_random h =
     (case sys_open_read p h of
        (h, None) \<Rightarrow>
          (h, if hs_errno h = Some ENOENT then Err kNotFound (msg_object_missing_at @ p)
              else source_error msg_open_object_failed h)
      | (h, Some _) \<Rightarrow>
          (case sys_stat p (if fadvise_random then emit (EvAdvise p) h else h) of
             (h, None) \<Rightarrow> (fst (sys_close h), source_error msg_fstat_failed h)
           | (h, Some (n, _)) \<Rightarrow> (h, Ok \<lparr>ns_path = p, ns_size = n, ns_offset = 0\<rparr>)))"

function NativeRead :: "nat \<Rightarrow> NativeSource \<Rightarrow> Host \<Rightarrow> (Host \<times> NativeSource) \<times> string Result" where
  "NativeRead capacity src h =
     (if capacity = 0 \<or> ns_offset src \<ge> ns_size src then ((h, src), Ok [])
      else (case sys_pread (ns_path src) (ns_offset src) (min capacity (ns_size src - ns_offset src)) h of
              (h1, None) \<Rightarrow>
                if hs_errno h1 = Some EINTR then NativeRead capacity src h1
                else ((h1, src), source_error msg_pread_failed h1)
            | (h1, Some d) \<Rightarrow> ((h1, src\<lparr>ns_offset := ns_offset src + length d\<rparr>), Ok d)))"
  by pat_completeness auto
termination
  by (relation "measure (\<lambda>(capacity, src, h). length (hs_script h))")
    (auto simp: sys_pread_def sys_pop_def sys_fail_def split: list.splits Outcome.splits option.splits if_splits)

declare NativeRead.simps [simp del]

definition NativeSeek :: "int \<Rightarrow> NativeSource \<Rightarrow> NativeSource \<times> unit Result" where
  "NativeSeek offset src =
     (if offset < 0 \<or> offset > int (ns_size src) then (src, Err kInvalidArgument msg_seek_range)
      else (src\<lparr>ns_offset := nat offset\<rparr>, Ok ()))"

definition NativeClose :: "Host \<Rightarrow> Host" where
  "NativeClose h = fst (sys_close h)"

definition OpenNativeRead :: "PosixStore \<Rightarrow> ObjectRef \<Rightarrow> Host \<Rightarrow> Host \<times> NativeSource Result" where
  "OpenNativeRead s ref h =
     FSS_TRY_ST (ObjectPath s (or_container ref) (or_key ref) h) (\<lambda>h p. NativeOpen p (px_fadvise_random (pb_options s)) h)"

end
