(* ===== verification/Posix_Facts.thy ===== *)
theory Posix_Facts
  imports Posix_Store
begin

text \<open>
  What the calls of the host and the steps of the POSIX store leave alone. \<open>touches S h h'\<close> holds when the run from \<open>h\<close> to
  \<open>h'\<close> changed files in \<open>S\<close> only, moved nothing outside \<open>S\<close>, and removed no directory; files elsewhere may have become durable.
  Each call and each step of the store has one lemma, and the lemmas compose.
\<close>

section \<open>Touching some files only\<close>

definition same_file :: "HostFile option \<Rightarrow> HostFile option \<Rightarrow> bool" where
  "same_file f g \<longleftrightarrow>
     (case (f, g) of
        (None, None) \<Rightarrow> True
      | (Some a, Some b) \<Rightarrow>
          hf_data b = hf_data a \<and> hf_mtime b = hf_mtime a \<and> hf_mode b = hf_mode a \<and> (hf_durable a \<longrightarrow> hf_durable b)
      | _ \<Rightarrow> False)"

definition touches :: "(string \<Rightarrow> bool) \<Rightarrow> Host \<Rightarrow> Host \<Rightarrow> bool" where
  "touches S h h' \<longleftrightarrow>
     (\<forall>q. \<not> S q \<longrightarrow> same_file (file_at h q) (file_at h' q)) \<and>
     (\<exists>evs. hs_trace h' = hs_trace h @ evs \<and> (\<forall>t q d. EvRename t q d \<in> set evs \<longrightarrow> S q)) \<and>
     set (hs_dirs h) \<subseteq> set (hs_dirs h') \<and> hs_canonical h' = hs_canonical h"

text \<open>The same, with the descriptors balanced.\<close>

definition keeps :: "(string \<Rightarrow> bool) \<Rightarrow> Host \<Rightarrow> Host \<Rightarrow> bool" where
  "keeps S h h' \<longleftrightarrow> touches S h h' \<and> hs_fds h' = hs_fds h"

definition opens :: "(string \<Rightarrow> bool) \<Rightarrow> Host \<Rightarrow> Host \<Rightarrow> bool" where
  "opens S h h' \<longleftrightarrow> touches S h h' \<and> hs_fds h' = hs_fds h + 1"

definition closes :: "(string \<Rightarrow> bool) \<Rightarrow> Host \<Rightarrow> Host \<Rightarrow> bool" where
  "closes S h h' \<longleftrightarrow> touches S h h' \<and> hs_fds h' = hs_fds h - 1"

lemma same_file_refl [simp]: "same_file f f"
  by (simp add: same_file_def split: option.splits)

lemma same_file_trans: "same_file f g \<Longrightarrow> same_file g k \<Longrightarrow> same_file f k"
  by (auto simp: same_file_def split: option.splits)

lemma same_file_durable: "same_file (Some f) (Some (f\<lparr>hf_durable := True\<rparr>))"
  by (simp add: same_file_def)

lemma touches_refl: "touches S h h"
  by (simp add: touches_def)

lemma touches_trans:
  assumes "touches S h1 h2" "touches S h2 h3"
  shows "touches S h1 h3"
proof -
  obtain e1 e2 where e: "hs_trace h2 = hs_trace h1 @ e1" "\<forall>t q d. EvRename t q d \<in> set e1 \<longrightarrow> S q"
    "hs_trace h3 = hs_trace h2 @ e2" "\<forall>t q d. EvRename t q d \<in> set e2 \<longrightarrow> S q"
    using assms by (auto simp: touches_def)
  have "\<exists>evs. hs_trace h3 = hs_trace h1 @ evs \<and> (\<forall>t q d. EvRename t q d \<in> set evs \<longrightarrow> S q)"
  proof (intro exI conjI allI impI)
    show "hs_trace h3 = hs_trace h1 @ (e1 @ e2)" using e by simp
    show "S q" if "EvRename t q d \<in> set (e1 @ e2)" for t q d
      using that e(2,4) by (metis Un_iff set_append)
  qed
  then show ?thesis using assms by (auto simp: touches_def intro: same_file_trans)
qed

lemma touches_mono: "touches S h h' \<Longrightarrow> (\<And>q. S q \<Longrightarrow> T q) \<Longrightarrow> touches T h h'"
  unfolding touches_def by blast

lemma keeps_refl [intro]: "keeps S h h"
  by (simp add: keeps_def touches_refl)

lemma keeps_trans: "keeps S h1 h2 \<Longrightarrow> keeps S h2 h3 \<Longrightarrow> keeps S h1 h3"
  by (auto simp: keeps_def intro: touches_trans)

lemma keeps_opens: "keeps S h1 h2 \<Longrightarrow> opens S h2 h3 \<Longrightarrow> opens S h1 h3"
  by (auto simp: keeps_def opens_def intro: touches_trans)

lemma opens_keeps: "opens S h1 h2 \<Longrightarrow> keeps S h2 h3 \<Longrightarrow> opens S h1 h3"
  by (auto simp: keeps_def opens_def intro: touches_trans)

lemma closes_keeps: "closes S h1 h2 \<Longrightarrow> keeps S h2 h3 \<Longrightarrow> closes S h1 h3"
  by (auto simp: keeps_def closes_def intro: touches_trans)

lemma keeps_closes: "keeps S h1 h2 \<Longrightarrow> closes S h2 h3 \<Longrightarrow> closes S h1 h3"
  by (auto simp: keeps_def closes_def intro: touches_trans)

lemma opens_closes: "opens S h1 h2 \<Longrightarrow> closes S h2 h3 \<Longrightarrow> keeps S h1 h3"
  by (auto simp: keeps_def opens_def closes_def intro: touches_trans)

lemmas keeps_compose = keeps_trans keeps_opens opens_keeps closes_keeps keeps_closes opens_closes

lemma keeps_mono: "keeps S h h' \<Longrightarrow> (\<And>q. S q \<Longrightarrow> T q) \<Longrightarrow> keeps T h h'"
  by (auto simp: keeps_def intro: touches_mono)

lemma keeps_file: "keeps S h h' \<Longrightarrow> \<not> S q \<Longrightarrow> same_file (file_at h q) (file_at h' q)"
  by (simp add: keeps_def touches_def)

lemma keeps_dir: "keeps S h h' \<Longrightarrow> is_dir h p \<Longrightarrow> is_dir h' p"
  by (auto simp: keeps_def touches_def is_dir_def)

lemma quiet:
  assumes "hs_files h' = hs_files h" "hs_trace h' = hs_trace h" "set (hs_dirs h) \<subseteq> set (hs_dirs h')"
    "hs_canonical h' = hs_canonical h"
  shows "touches S h h'"
  using assms by (auto simp: touches_def file_at_def)

lemma quiet_keeps:
  "hs_files h' = hs_files h \<Longrightarrow> hs_trace h' = hs_trace h \<Longrightarrow> set (hs_dirs h) \<subseteq> set (hs_dirs h') \<Longrightarrow>
   hs_canonical h' = hs_canonical h \<Longrightarrow> hs_fds h' = hs_fds h \<Longrightarrow> keeps S h h'"
  by (simp add: keeps_def quiet)

section \<open>The calls of the host\<close>

lemma file_at_simps [simp]:
  "file_at (h\<lparr>hs_script := sc\<rparr>) q = file_at h q" "file_at (h\<lparr>hs_errno := er\<rparr>) q = file_at h q"
  "file_at (h\<lparr>hs_fds := n\<rparr>) q = file_at h q" "file_at (emit ev h) q = file_at h q"
  "file_at (set_file p f h) q = (if q = p then Some f else file_at h q)"
  "file_at (h\<lparr>hs_tmp_counter := c\<rparr>) q = file_at h q" "file_at (h\<lparr>hs_draws := c\<rparr>) q = file_at h q"
  "file_at (h\<lparr>hs_metrics := m\<rparr>) q = file_at h q" "file_at (h\<lparr>hs_dirs := ds\<rparr>) q = file_at h q"
  "file_at (h\<lparr>hs_dir_modes := dm\<rparr>) q = file_at h q"
  by (simp_all add: file_at_def emit_def set_file_def)

lemma host_simps [simp]:
  "hs_fds (emit ev h) = hs_fds h" "hs_trace (emit ev h) = hs_trace h @ [ev]" "hs_script (emit ev h) = hs_script h"
  "hs_dirs (emit ev h) = hs_dirs h" "hs_canonical (emit ev h) = hs_canonical h" "hs_errno (emit ev h) = hs_errno h"
  "hs_fds (set_file p f h) = hs_fds h" "hs_trace (set_file p f h) = hs_trace h" "hs_script (set_file p f h) = hs_script h"
  "hs_dirs (set_file p f h) = hs_dirs h" "hs_canonical (set_file p f h) = hs_canonical h" "hs_time (emit ev h) = hs_time h"
  "hs_fds (append_to p d h) = hs_fds h" "hs_trace (append_to p d h) = hs_trace h" "hs_script (append_to p d h) = hs_script h"
  "hs_dirs (append_to p d h) = hs_dirs h" "hs_canonical (append_to p d h) = hs_canonical h"
  by (simp_all add: emit_def set_file_def append_to_def split: option.splits)

lemma file_at_append [simp]:
  "file_at (append_to p d h) q =
     (if q = p then map_option (\<lambda>f. f\<lparr>hf_data := hf_data f @ d, hf_mtime := hs_time h, hf_durable := False\<rparr>) (file_at h p)
      else file_at h q)"
  by (auto simp: append_to_def split: option.splits)

lemma pop_keeps: "sys_pop h = (h1, oc) \<Longrightarrow> keeps S h h1"
  by (auto simp: sys_pop_def split: list.splits intro!: quiet_keeps)

lemma fail_keeps: "sys_fail e h = (h1, r) \<Longrightarrow> keeps S h h1"
  by (auto simp: sys_fail_def intro!: quiet_keeps)

lemma emit_keeps: "(\<And>t q d. ev \<noteq> EvRename t q d) \<Longrightarrow> keeps S h (emit ev h)"
  by (auto simp: keeps_def touches_def)

text \<open>A call that does not fail by its outcome acts on a host with the same files.\<close>

lemma sys_call_cases:
  assumes "sys_call h f = (h1, r)"
  obtains (fails) e ocs where "hs_script h = Fails e # ocs" "r = None" "h1 = h\<lparr>hs_script := ocs, hs_errno := Some e\<rparr>"
    | (acts) ocs where "f (h\<lparr>hs_script := ocs\<rparr>) = (h1, r)"
proof (cases "hs_script h")
  case Nil
  then have "f h = (h1, r)" using assms by (simp add: sys_call_def sys_pop_def)
  moreover have "h\<lparr>hs_script := hs_script h\<rparr> = h" by simp
  ultimately show ?thesis using acts [of "hs_script h"] by metis
next
  case (Cons oc ocs)
  then show ?thesis using assms fails acts
    by (cases oc) (auto simp: sys_call_def sys_pop_def sys_fail_def)
qed

lemma is_dir_simps [simp]:
  "is_dir (h\<lparr>hs_script := sc\<rparr>) q = is_dir h q" "is_dir (h\<lparr>hs_errno := er\<rparr>) q = is_dir h q"
  "is_dir (h\<lparr>hs_fds := n\<rparr>) q = is_dir h q" "is_dir (emit ev h) q = is_dir h q" "is_dir (set_file p f h) q = is_dir h q"
  "is_dir (h\<lparr>hs_files := fs\<rparr>) q = is_dir h q"
  by (simp_all add: is_dir_def emit_def set_file_def)

lemma emit_set_keeps:
  "S p \<Longrightarrow> (\<And>t q d. ev \<noteq> EvRename t q d) \<Longrightarrow> keeps S h (emit ev (set_file p f h))"
  by (auto simp: keeps_def touches_def)

lemma open_write_opens:
  assumes "sys_open_write excl p mode h = (h1, r)" "S p"
  shows "(if r = None then keeps S h h1 else opens S h h1)"
  using assms
  by (auto simp: sys_open_write_def sys_fail_def keeps_def opens_def touches_def split: if_splits option.splits
      elim!: sys_call_cases)

lemma open_read_opens:
  assumes "sys_open_read p h = (h1, r)"
  shows "(if r = None then keeps S h h1 else opens S h h1)"
  using assms
  by (auto simp: sys_open_read_def sys_fail_def keeps_def opens_def touches_def split: if_splits
      elim!: sys_call_cases)

lemma open_dir_opens:
  assumes "sys_open_dir p h = (h1, r)"
  shows "(if r = None then keeps S h h1 else opens S h h1)"
  using assms
  by (auto simp: sys_open_dir_def sys_fail_def keeps_def opens_def touches_def split: if_splits
      elim!: sys_call_cases)

lemma write_keeps: "sys_write p d h = (h1, r) \<Longrightarrow> S p \<Longrightarrow> keeps S h h1"
  by (auto simp: sys_write_def sys_pop_def sys_fail_def keeps_def touches_def split: list.splits Outcome.splits)

lemma close_closes: "sys_close h = (h1, r) \<Longrightarrow> closes S h h1"
  by (auto simp: sys_close_def sys_pop_def sys_fail_def closes_def intro!: quiet split: list.splits Outcome.splits)

lemma unlink_keeps: "sys_unlink p h = (h1, r) \<Longrightarrow> S p \<Longrightarrow> keeps S h h1"
  by (auto simp: sys_unlink_def sys_fail_def keeps_def touches_def split: if_splits option.splits
      elim!: sys_call_cases) (auto simp: file_at_def fun_eq_iff)

lemma rename_keeps: "sys_rename tmp target h = (h1, r) \<Longrightarrow> S tmp \<Longrightarrow> S target \<Longrightarrow> keeps S h h1"
  by (auto simp: sys_rename_def sys_fail_def keeps_def touches_def split: if_splits option.splits
      elim!: sys_call_cases) (auto simp: file_at_def fun_eq_iff)

lemma stat_keeps: "sys_stat p h = (h1, r) \<Longrightarrow> keeps S h h1"
  by (auto simp: sys_stat_def sys_fail_def keeps_def touches_def split: if_splits option.splits
      elim!: sys_call_cases)

lemma pread_keeps: "sys_pread p n m h = (h1, r) \<Longrightarrow> keeps S h h1"
  by (auto simp: sys_pread_def sys_pop_def sys_fail_def intro!: quiet_keeps
      split: list.splits Outcome.splits option.splits if_splits)

lemma fdatasync_keeps: "sys_fdatasync p h = (h1, r) \<Longrightarrow> keeps S h h1"
  by (auto simp: sys_fdatasync_def sys_fail_def keeps_def touches_def fun_eq_iff same_file_durable
      split: if_splits option.splits elim!: sys_call_cases)

lemma syncfs_file_at:
  "file_at (g\<lparr>hs_files := map (\<lambda>(p, f). (p, f\<lparr>hf_durable := True\<rparr>)) (hs_files h)\<rparr>) q =
     map_option (\<lambda>f. f\<lparr>hf_durable := True\<rparr>) (file_at h q)"
  by (simp add: file_at_def map_of_map comp_def)

lemma syncfs_keeps: "sys_syncfs d h = (h1, r) \<Longrightarrow> keeps S h h1"
  by (auto simp: sys_syncfs_def keeps_def touches_def syncfs_file_at same_file_def
      split: option.splits elim!: sys_call_cases)

lemma fsync_dir_keeps: "sys_fsync_dir d h = (h1, r) \<Longrightarrow> keeps S h h1"
  by (auto simp: sys_fsync_dir_def keeps_def touches_def elim!: sys_call_cases)

lemma mkdir_keeps: "create_directories p h = (h1, r) \<Longrightarrow> keeps S h h1"
  by (auto simp: create_directories_def sys_fail_def keeps_def touches_def split: if_splits
      elim!: sys_call_cases)

lemma Exists_keeps: "Exists p h = (h1, b) \<Longrightarrow> keeps S h h1"
  by (auto simp: Exists_def dest: pop_keeps split: prod.splits Outcome.splits)

section \<open>The operations on files\<close>

lemma FSS_TRY_ST_keeps:
  assumes "FSS_TRY_ST rs f = (h1, r)" "keeps S h (fst rs)" "\<And>h0 x h1 r. f h0 x = (h1, r) \<Longrightarrow> keeps S h0 h1"
  shows "keeps S h h1"
  using assms by (auto elim!: FSS_TRY_ST_E intro: keeps_trans)

lemma close_fst: "closes S h (fst (sys_close h))"
  by (metis close_closes prod.collapse)

lemma unlink_fst: "S p \<Longrightarrow> keeps S h (fst (sys_unlink p h))"
  by (metis unlink_keeps prod.collapse)

lemma existing_prefix_keeps: "existing_prefix p h = (h1, r) \<Longrightarrow> keeps S h h1"
proof (induction p h rule: existing_prefix.induct)
  case (1 p h)
  obtain h2 b where ex: "Exists p h = (h2, b)" by (cases "Exists p h")
  have k: "keeps S h h2" using ex by (rule Exists_keeps)
  show ?case
  proof (cases "p = [] \<or> b")
    case True
    then show ?thesis using "1.prems" ex k by (subst (asm) existing_prefix.simps) (auto split: if_splits)
  next
    case False
    then have "existing_prefix (parent_path p) h2 = (h1, r)"
      using "1.prems" ex by (subst (asm) existing_prefix.simps) auto
    then show ?thesis using "1.IH" False ex k by (auto intro: keeps_trans)
  qed
qed

lemma VerifyResolved_keeps: "VerifyResolvedWithinRoot root p h = (h1, r) \<Longrightarrow> keeps S h h1"
  by (auto simp: VerifyResolvedWithinRoot_def dest: existing_prefix_keeps split: option.splits prod.splits)

lemma SafeJoin_keeps: "SafeJoin root key h = (h1, r) \<Longrightarrow> keeps S h h1"
  by (auto simp: SafeJoin_def elim!: FSS_TRY_ST_E dest: VerifyResolved_keeps)

lemma EnsureDir_keeps:
  assumes "EnsureDir p mode h = (h1, r)"
  shows "keeps S h h1"
proof -
  obtain h2 q where mk: "create_directories p h = (h2, q)" by (cases "create_directories p h")
  have k: "keeps S h h2" using mk by (rule mkdir_keeps)
  have "keeps S g (fst (sys_call g (\<lambda>h. (h\<lparr>hs_dir_modes := m h\<rparr>, Some ()))))" for g m
      by (auto simp: sys_call_def sys_pop_def sys_fail_def intro!: quiet_keeps split: list.splits Outcome.splits)
  from keeps_trans [OF k this] show ?thesis using assms mk k by (auto simp: EnsureDir_def split: option.splits)
qed

lemma ObjectPath_keeps: "ObjectPath s c k h = (h1, r) \<Longrightarrow> keeps S h h1"
  by (auto simp: ObjectPath_def elim!: FSS_TRY_ST_E dest!: Exists_keeps [where S = S] SafeJoin_keeps [where S = S]
      split: prod.splits if_splits intro: keeps_trans)

lemma WritableObjectPath_keeps:
  assumes "WritableObjectPath s c k h = (h1, r)"
  shows "keeps S h h1"
  unfolding WritableObjectPath_def
proof (rule FSS_TRY_ST_keeps [OF assms [unfolded WritableObjectPath_def]])
  show "keeps S h (fst (ObjectPath s c k h))" by (rule ObjectPath_keeps [OF prod.collapse [symmetric]])
  fix h0 p h2 r2
  assume "(if CHR ''/'' \<in> set p
       then FSS_TRY_ST (EnsureDir (dir_of p) (px_dir_mode (pb_options s)) h0) (\<lambda>h _. ObjectPath s c k h)
       else ObjectPath s c k h0) = (h2, r2)"
  then show "keeps S h0 h2"
    by (auto split: if_splits elim!: FSS_TRY_ST_E dest: ObjectPath_keeps
        intro: keeps_trans EnsureDir_keeps)
qed

lemma RandomHex_keeps: "RandomHex h = (h1, r) \<Longrightarrow> keeps S h h1"
  by (auto simp: RandomHex_def intro!: quiet_keeps)

lemma TempPathFor_keeps: "TempPathFor s t h = (h1, r) \<Longrightarrow> keeps S h h1"
  by (auto simp: TempPathFor_def intro!: quiet_keeps)

lemma WriteAll_keeps: "WriteAll p data h = (h1, b) \<Longrightarrow> S p \<Longrightarrow> keeps S h h1"
proof (induction p data h rule: WriteAll.induct)
  case (1 p data h)
  obtain h2 r where w: "sys_write p data h = (h2, r)" by (cases "sys_write p data h")
  have k: "keeps S h h2" using w "1.prems"(2) by (rule write_keeps)
  then show ?case using 1 w
    by (subst (asm) (3) WriteAll.simps) (auto split: if_splits option.splits intro: keeps_trans)
qed

lemma atomic_write_loop_keeps: "atomic_write_loop p data h = (h1, b) \<Longrightarrow> S p \<Longrightarrow> keeps S h h1"
proof (induction p data h rule: atomic_write_loop.induct)
  case (1 p data h)
  obtain h2 r where w: "sys_write p data h = (h2, r)" by (cases "sys_write p data h")
  have k: "keeps S h h2" using w "1.prems"(2) by (rule write_keeps)
  then show ?case using 1 w
    by (subst (asm) (2) atomic_write_loop.simps) (auto split: if_splits option.splits intro: keeps_trans)
qed

lemma saved_unlink_keeps: "S p \<Longrightarrow> keeps S h (saved_unlink p h)"
  unfolding saved_unlink_def by (rule keeps_trans [OF unlink_fst]) (auto intro: quiet_keeps)

lemma write_then_sync_closes:
  assumes "write_then_sync tmp data fsync h = (h1, b)" "S tmp"
  shows "closes S h h1"
proof -
  obtain h2 w where l: "atomic_write_loop tmp data h = (h2, w)" by (cases "atomic_write_loop tmp data h")
  obtain h3 q where d: "sys_fdatasync tmp h2 = (h3, q)" by (cases "sys_fdatasync tmp h2")
  have k: "keeps S h h2" "keeps S h2 h3" using l d assms(2) by (auto intro: atomic_write_loop_keeps fdatasync_keeps)
  then show ?thesis using assms(1) l d
    by (auto simp: write_then_sync_def split: if_splits prod.splits dest: close_closes
        intro: keeps_closes keeps_trans)
qed

lemma sync_parent_keeps:
  assumes "sync_parent p h = (h1, r)"
  shows "keeps S h h1"
proof (cases "sys_open_dir (parent_path p) h")
  case (Pair h2 q)
  obtain h3 rc where f: "sys_fsync_dir (parent_path p) h2 = (h3, rc)" by (cases "sys_fsync_dir (parent_path p) h2")
  have k: "keeps S h2 h3" using f by (rule fsync_dir_keeps)
  show ?thesis using assms Pair f open_dir_opens [OF Pair, of S] k close_fst [of S h3]
    by (auto simp: sync_parent_def split: if_splits option.splits prod.splits
        intro: opens_closes keeps_closes)
qed

lemma AtomicWriteFile_keeps:
  assumes "AtomicWriteFile p data opts h = (h1, r)" "S p" "\<And>x. S (p @ ''.tmp.'' @ x)"
  shows "keeps S h h1"
proof -
  obtain h2 tmp where t: "atomic_tmp p opts h = (h2, tmp)" by (cases "atomic_tmp p opts h")
  have st: "S tmp" and k2: "keeps S h h2"
    using t assms(3) by (auto simp: atomic_tmp_def RandomHex_def intro!: quiet_keeps)
  obtain h3 op where o': "sys_open_write False tmp (wo_mode opts) h2 = (h3, op)"
    by (cases "sys_open_write False tmp (wo_mode opts) h2")
  obtain h4 ok where w: "write_then_sync tmp data (wo_fsync_data opts) h3 = (h4, ok)"
    by (cases "write_then_sync tmp data (wo_fsync_data opts) h3")
  obtain h5 rn where m: "sys_rename tmp p h4 = (h5, rn)" by (cases "sys_rename tmp p h4")
  have k3: "op = None \<Longrightarrow> keeps S h h3" "op \<noteq> None \<Longrightarrow> keeps S h h4"
    using open_write_opens [where S = S, OF o' st] write_then_sync_closes [where S = S, OF w st] k2 by (auto intro: keeps_compose)
  have k5: "op \<noteq> None \<Longrightarrow> keeps S h h5" using k3 rename_keeps [where S = S, OF m st assms(2)] by (auto intro: keeps_trans)
  show ?thesis using assms(1) t o' w m k3 k5 saved_unlink_keeps [where S = S and p = tmp, OF st] k2
    by (auto simp: AtomicWriteFile_def Let_def split: option.splits bool.splits if_splits
        dest!: sync_parent_keeps [where S = S] intro: keeps_trans)
qed

lemma ReadFile_keeps:
  assumes "ReadFile p h = (h1, r)"
  shows "keeps S h h1"
proof -
  obtain h2 op where o': "sys_open_read p h = (h2, op)" by (cases "sys_open_read p h")
  obtain h3 oc where c: "sys_pop h2 = (h3, oc)" by (cases "sys_pop h2")
  have "closes S h2 (h3\<lparr>hs_fds := hs_fds h3 - 1\<rparr>)"
    by (rule keeps_closes [OF pop_keeps [OF c]]) (auto simp: closes_def intro!: quiet)
  then show ?thesis using assms o' c open_read_opens [OF o', of S]
    by (auto simp: ReadFile_def split: option.splits intro: opens_closes)
qed

section \<open>The steps of a put\<close>

lemma with_directory_keeps:
  assumes "with_directory sync m d h = (h1, r)" "\<And>h1 h2 q. sync h1 = (h2, q) \<Longrightarrow> keeps S h1 h2"
  shows "keeps S h h1"
proof -
  obtain h2 op where o': "sys_open_dir d h = (h2, op)" by (cases "sys_open_dir d h")
  obtain h3 rc where f: "sync h2 = (h3, rc)" by (cases "sync h2")
  have "closes S h2 (fst (sys_close h3))" using keeps_closes [OF assms(2) [OF f] close_fst] .
  moreover have "closes S h2 ((fst (sys_close h3))\<lparr>hs_errno := e\<rparr>)" for e
    by (rule closes_keeps [OF calculation]) (auto intro: quiet_keeps)
  ultimately show ?thesis using assms(1) o' f open_dir_opens [OF o', of S]
    by (auto simp: with_directory_def Let_def split: option.splits if_splits intro: opens_closes)
qed

lemma SyncDirectory_keeps: "SyncDirectory d h = (h1, r) \<Longrightarrow> keeps S h h1"
  unfolding SyncDirectory_def by (erule with_directory_keeps) (rule fsync_dir_keeps)

lemma SyncFilesystem_keeps: "SyncFilesystem d h = (h1, r) \<Longrightarrow> keeps S h h1"
  unfolding SyncFilesystem_def by (erule with_directory_keeps) (rule syncfs_keeps)

lemma DataSync_keeps: "DataSync p h = (h1, r) \<Longrightarrow> keeps S h h1"
  by (auto simp: DataSync_def split: prod.splits option.splits dest: fdatasync_keeps)

lemma DataSync_durable:
  assumes "DataSync p h = (h1, Ok ())" "file_at h p = Some f"
  shows "file_at h1 p = Some (f\<lparr>hf_durable := True\<rparr>)"
  using assms by (auto simp: DataSync_def sys_fdatasync_def SyncErr_def split: prod.splits option.splits
      elim!: sys_call_cases)

lemma count_metric_keeps: "keeps S h (count_metric m d h)"
  by (auto simp: count_metric_def intro: quiet_keeps)

lemma put_cleanup_closes: "S p \<Longrightarrow> closes S h (put_cleanup p h)"
  unfolding put_cleanup_def by (rule closes_keeps [OF close_fst unlink_fst])

lemma sys_write_appends:
  assumes "sys_write p d h = (h1, Some n)" "file_at h p = Some f"
  shows "\<exists>f1. file_at h1 p = Some f1 \<and> hf_data f1 = hf_data f @ take n d"
  using assms by (auto simp: sys_write_def sys_pop_def sys_fail_def min_def split: list.splits Outcome.splits)

lemma sys_write_failed:
  assumes "sys_write p d h = (h1, None)"
  shows "file_at h1 p = file_at h p"
  using assms by (auto simp: sys_write_def sys_pop_def sys_fail_def split: list.splits Outcome.splits)

lemma WriteAll_appends:
  "WriteAll p data h = (h1, True) \<Longrightarrow> file_at h p = Some f \<Longrightarrow>
   \<exists>f1. file_at h1 p = Some f1 \<and> hf_data f1 = hf_data f @ data"
proof (induction p data h arbitrary: f rule: WriteAll.induct)
  case (1 p data h)
  show ?case
  proof (cases "data = []")
    case True
    then show ?thesis using "1.prems" by (subst (asm) WriteAll.simps) auto
  next
    case False
    obtain h2 r where w: "sys_write p data h = (h2, r)" by (cases "sys_write p data h")
    show ?thesis
    proof (cases r)
      case None
      then have "WriteAll p data h2 = (h1, True)" "hs_errno h2 = Some EINTR"
        using "1.prems"(1) False w by (subst (asm) WriteAll.simps; auto split: if_splits)+
      then show ?thesis using "1.IH"(1) [OF False w [symmetric] None] sys_write_failed w None "1.prems"(2) by auto
    next
      case (Some n)
      then have "WriteAll p (drop n data) h2 = (h1, True)"
        using "1.prems"(1) False w by (subst (asm) WriteAll.simps) auto
      moreover obtain f2 where "file_at h2 p = Some f2" "hf_data f2 = hf_data f @ take n data"
        using sys_write_appends w Some "1.prems"(2) by blast
      ultimately show ?thesis using "1.IH"(2) [OF False w [symmetric] Some] by fastforce
    qed
  qed
qed

text \<open>What a source gives: its reads up to the first that returns nothing, or its error.\<close>

fun source_data :: "string Result list \<Rightarrow> string Result" where
  "source_data [] = Ok []"
| "source_data (Inl e # reads) = Inl e"
| "source_data (Inr d # reads) = (if d = [] then Ok [] else FSS_TRY (source_data reads) (\<lambda>t. Ok (d @ t)))"

lemma put_loop_keeps:
  "put_loop p reads data h = (h1, r) \<Longrightarrow> S p \<Longrightarrow> (case r of Inl _ \<Rightarrow> closes S h h1 | Inr _ \<Rightarrow> keeps S h h1)"
proof (induction p reads data h rule: put_loop.induct)
  case (3 p d reads data h)
  obtain h2 b where w: "WriteAll p d h = (h2, b)" by (cases "WriteAll p d h")
  have k: "keeps S h h2" using w "3.prems"(2) by (rule WriteAll_keeps)
  show ?case
  proof (cases "d = [] \<or> \<not> b")
    case True
    then show ?thesis using 3 w k put_cleanup_closes [of S p h2, OF "3.prems"(2)]
      by (auto simp: ErrFromErrno_def Err_def Ok_def split: if_splits intro: keeps_closes)
  next
    case False
    then show ?thesis using 3 w k by (auto split: sum.splits intro: keeps_closes keeps_trans)
  qed
qed (auto simp: Ok_def intro: put_cleanup_closes)

lemma put_loop_data:
  "put_loop p reads data h = (h1, Ok data') \<Longrightarrow> file_at h p = Some f \<Longrightarrow> hf_data f = data \<Longrightarrow>
   \<exists>t f1. source_data reads = Ok t \<and> data' = data @ t \<and> file_at h1 p = Some f1 \<and> hf_data f1 = data'"
proof (induction p reads data h arbitrary: f rule: put_loop.induct)
  case (3 p d reads data h)
  obtain h2 b where w: "WriteAll p d h = (h2, b)" by (cases "WriteAll p d h")
  show ?case
  proof (cases "d = []")
    case True
    then show ?thesis using 3 by auto
  next
    case False
    then have b: "\<not> \<not> b" using "3.prems"(1) w by (cases b) (auto simp: ErrFromErrno_def)
    obtain f2 where f2: "file_at h2 p = Some f2" "hf_data f2 = data @ d"
      using WriteAll_appends [of p d h h2 f] w b "3.prems"(2,3) by auto
    have "put_loop p reads (data @ d) h2 = (h1, Ok data')" using "3.prems"(1) False w b by simp
    from "3.IH" [OF False w [symmetric] b this f2] show ?thesis using False by auto
  qed
qed auto

text \<open>The files the store keeps beside an object's own.\<close>

definition companion :: "string \<Rightarrow> string \<Rightarrow> bool" where
  "companion p q \<longleftrightarrow> (\<exists>x. x \<noteq> [] \<and> q = p @ x \<and> IsInternalKey x)"

lemma contains_str_middle: "contains_str w (a @ w @ b)"
proof (induction a)
  case Nil
  show ?case using starts_with_append [of w b] by (cases "w @ b") (auto simp del: starts_with_append)
qed simp

lemma companion_irrefl [simp]: "\<not> companion p p"
  by (simp add: companion_def)

lemma companion_tmp: "companion p (p @ a @ kTempMarker @ x)"
  unfolding companion_def IsInternalKey_def
  by (rule exI [of _ "a @ kTempMarker @ x"]) (simp add: contains_str_middle, simp add: kTempMarker_def)

lemmas companion_tmp_simps [simp] =
  companion_tmp [of p "[]" x for p x, simplified]
  companion_tmp [of p kSidecarSuffix x for p x]
  companion_tmp [of p kSidecarSuffix x for p x, simplified kTempMarker_def, simplified]

lemma companion_sidecar [simp]: "companion p (p @ kSidecarSuffix)"
  unfolding companion_def IsInternalKey_def by (rule exI [of _ kSidecarSuffix]) (simp add: kSidecarSuffix_def)

definition own_tmp :: "string \<Rightarrow> string \<Rightarrow> bool" where
  "own_tmp p q \<longleftrightarrow> (\<exists>x. q = p @ kTempMarker @ x)"

lemma own_tmp_companion: "own_tmp p q \<Longrightarrow> companion p q"
  by (auto simp: own_tmp_def)

lemma own_tmp_not_sidecar: "own_tmp p q \<Longrightarrow> \<not> own_tmp (p @ kSidecarSuffix) q"
  by (auto simp: own_tmp_def kTempMarker_def kSidecarSuffix_def)

lemma own_tmp_of_sidecar: "own_tmp (p @ kSidecarSuffix) q \<Longrightarrow> companion p q"
  by (auto simp: own_tmp_def)

lemma own_tmp_neq: "own_tmp p q \<Longrightarrow> q \<noteq> p \<and> q \<noteq> p @ kSidecarSuffix"
  by (auto simp: own_tmp_def kTempMarker_def kSidecarSuffix_def)

lemma TempPathFor_own: "TempPathFor s p h = (h1, tmp) \<Longrightarrow> own_tmp p tmp"
  by (auto simp: TempPathFor_def own_tmp_def)

lemmas TempPathFor_companion = TempPathFor_own [THEN own_tmp_companion]

lemma put_open_opens:
  assumes "put_open s p h = (h1, r)" "px_atomic_write (pb_options s)"
  shows "(case r of Inl _ \<Rightarrow> keeps (companion p) h h1
          | Inr tmp \<Rightarrow> opens (companion p) h h1 \<and> own_tmp p tmp \<and>
              (\<exists>f. file_at h1 tmp = Some f \<and> hf_data f = []))"
proof -
  obtain h2 tmp where t: "TempPathFor s p h = (h2, tmp)" by (cases "TempPathFor s p h")
  have c: "companion p tmp" and k: "keeps (companion p) h h2"
    using t by (auto intro: TempPathFor_companion TempPathFor_keeps)
  obtain h3 op where o': "sys_open_write True tmp (px_file_mode (pb_options s)) h2 = (h3, op)"
    by (cases "sys_open_write True tmp (px_file_mode (pb_options s)) h2")
  have "\<exists>f. file_at h3 tmp = Some f \<and> hf_data f = []" if "op \<noteq> None"
    using o' that by (auto simp: sys_open_write_def sys_fail_def new_file_def split: if_splits option.splits elim!: sys_call_cases)
  moreover have "op \<noteq> None \<Longrightarrow> opens (companion p) h (AdviseRandom s tmp h3)"
    using open_write_opens [where S = "companion p", OF o' c] k
    by (auto simp: AdviseRandom_def intro: emit_keeps keeps_opens opens_keeps)
  moreover have "op = None \<Longrightarrow> keeps (companion p) h h3"
    using open_write_opens [where S = "companion p", OF o' c] k by (auto intro: keeps_trans)
  moreover have "file_at (AdviseRandom s tmp h3) tmp = file_at h3 tmp" by (simp add: AdviseRandom_def)
  ultimately show ?thesis using assms t o' c TempPathFor_own [OF t]
    by (auto simp: put_open_def ErrFromErrno_def Err_def Ok_def split: option.splits)
qed

lemma close_file_at: "sys_close h = (h1, r) \<Longrightarrow> file_at h1 q = file_at h q"
  by (auto simp: sys_close_def sys_pop_def sys_fail_def split: list.splits Outcome.splits)

lemma put_finish_closes:
  assumes "put_finish sha256_hex s tmp options data h = (h1, r)" "S tmp"
  shows "closes S h h1"
proof (cases "check_put sha256_hex options data")
  case (Inl e)
  then show ?thesis using assms put_cleanup_closes [of S tmp h] by (auto simp: put_finish_def)
next
  case (Inr u)
  obtain h2 q where d: "(if put_needs_sync s (length data) then DataSync tmp h else (h, Ok ())) = (h2, q)"
    by (cases "if put_needs_sync s (length data) then DataSync tmp h else (h, Ok ())")
  have k: "keeps S h h2" using d by (auto split: if_splits intro: DataSync_keeps)
  show ?thesis
  proof (cases q)
    case (Inl e)
    then show ?thesis using assms Inr d keeps_closes [OF k put_cleanup_closes [of S tmp h2]] by (auto simp: put_finish_def)
  next
    case ok: (Inr v)
    obtain h3 c where cl: "sys_close h2 = (h3, c)" by (cases "sys_close h2")
    have "closes S h h3" using keeps_closes [OF k close_closes [OF cl]] .
    then show ?thesis using assms Inr d ok cl unlink_fst [of S tmp h3]
      by (auto simp: put_finish_def split: option.splits intro: closes_keeps)
  qed
qed

lemma put_finish_Ok:
  assumes "put_finish sha256_hex s tmp options data h = (h1, Ok u)" "file_at h tmp = Some f"
  shows "check_put sha256_hex options data = Ok () \<and>
    (\<exists>f1. file_at h1 tmp = Some f1 \<and> hf_data f1 = hf_data f \<and> (put_needs_sync s (length data) \<longrightarrow> hf_durable f1))"
  using assms DataSync_durable [of tmp h _ f]
  by (auto simp: put_finish_def ErrFromErrno_def Ok_def close_file_at split: sum.splits if_splits prod.splits option.splits)

text \<open>Where the object of a reference lies.\<close>

definition object_path :: "PosixStore \<Rightarrow> ObjectRef \<Rightarrow> string Result" where
  "object_path s ref = FSS_TRY (ContainerDir s (or_container ref)) (\<lambda>dir. LexicalJoin dir (or_key ref))"

lemma ObjectPath_Ok: "ObjectPath s (or_container ref) (or_key ref) h = (h1, Ok p) \<Longrightarrow> object_path s ref = Ok p"
  by (auto simp: ObjectPath_def object_path_def SafeJoin_def elim!: FSS_TRY_ST_E split: prod.splits if_splits)

lemma WritableObjectPath_Ok:
  "WritableObjectPath s (or_container ref) (or_key ref) h = (h1, Ok p) \<Longrightarrow> object_path s ref = Ok p"
  by (auto simp: WritableObjectPath_def FSS_TRY_ST_eq_Ok dest: ObjectPath_Ok split: if_splits)

lemma put_stage_steps:
  assumes "put_stage sha256_hex s ref source options h = (h1, r)" "px_atomic_write (pb_options s)" "object_path s ref = Ok p"
  shows "keeps (companion p) h h1" (is ?keeps)
    and "r = Ok (p', tmp, data) \<Longrightarrow>
      p' = p \<and> own_tmp p tmp \<and> source_data source = Ok data \<and> check_put sha256_hex options data = Ok () \<and>
      (\<exists>f. file_at h1 tmp = Some f \<and> hf_data f = data \<and> (put_needs_sync s (length data) \<longrightarrow> hf_durable f))" (is "_ \<Longrightarrow> ?staged")
proof -
  obtain h2 w where wp: "WritableObjectPath s (or_container ref) (or_key ref) h = (h2, w)"
    by (cases "WritableObjectPath s (or_container ref) (or_key ref) h")
  have k2: "keeps (companion p) h h2" using wp by (rule WritableObjectPath_keeps)
  have "?keeps \<and> (r = Ok (p', tmp, data) \<longrightarrow> ?staged)"
  proof (cases w)
    case (Inl e)
    then show ?thesis using assms wp k2 by (auto simp: put_stage_def)
  next
    case (Inr q)
    then have q: "q = p" using WritableObjectPath_Ok [of s ref h h2 q] wp assms(3) by (simp add: Ok_def)
    obtain h3 op where o': "put_open s p h2 = (h3, op)" by (cases "put_open s p h2")
    note po = put_open_opens [OF o' assms(2)]
    show ?thesis
    proof (cases op)
      case (Inl e)
      then show ?thesis using assms wp Inr q o' k2 po by (auto simp: put_stage_def intro: keeps_trans)
    next
      case tm: (Inr t)
      obtain f where t: "companion p t" "opens (companion p) h2 h3" "file_at h3 t = Some f" "hf_data f = []" "own_tmp p t"
        using po tm by (auto intro: own_tmp_companion)
      obtain h4 lr where l: "put_loop t source [] h3 = (h4, lr)" by (cases "put_loop t source [] h3")
      note pk = put_loop_keeps [where S = "companion p", OF l t(1)]
      show ?thesis
      proof (cases lr)
        case (Inl e)
        then show ?thesis using assms wp Inr q o' tm l k2 t(2) pk
          by (auto simp: put_stage_def intro: keeps_trans opens_closes)
      next
        case dt: (Inr d)
        obtain f1 where d: "source_data source = Ok d" "file_at h4 t = Some f1" "hf_data f1 = d"
          using put_loop_data [of t source "[]" h3 h4 d f] l dt t(3,4) by (auto simp: Ok_def)
        obtain h5 fr where fi: "put_finish sha256_hex s t options d h4 = (h5, fr)"
          by (cases "put_finish sha256_hex s t options d h4")
        have "keeps (companion p) h h5"
          using k2 t(2) pk dt put_finish_closes [where S = "companion p", OF fi t(1)]
          by (auto intro: keeps_trans opens_closes keeps_closes)
        then show ?thesis using assms wp Inr q o' tm l dt fi t(5) d put_finish_Ok [of sha256_hex s t options d h4 h5 "()" f1]
          by (cases fr) (auto simp: put_stage_def Ok_def)
      qed
    qed
  qed
  then show ?keeps "r = Ok (p', tmp, data) \<Longrightarrow> ?staged" by blast+
qed

end
