(* ===== verification/Posix_Properties.thy ===== *)
theory Posix_Properties
  imports Posix_Facts
begin

text \<open>
  What the POSIX store promises: an object is replaced as a whole or not at all, whatever call fails; what a put
  acknowledged is what a get returns; descriptors are given back; and where the code falls short of that.
\<close>

section \<open>The outcome of a put\<close>

lemma rename_Ok:
  assumes "sys_rename tmp target h = (h1, Some ())" "file_at h tmp = Some f"
  shows "file_at h1 q = (if q = target then Some f else if q = tmp then None else file_at h q)"
    and "hs_trace h1 = hs_trace h @ [EvRename tmp target (hf_durable f)]"
    and "hs_fds h1 = hs_fds h" "hs_dirs h1 = hs_dirs h" "hs_canonical h1 = hs_canonical h"
  using assms
  by (auto simp: sys_rename_def sys_fail_def split: if_splits option.splits elim!: sys_call_cases)
    (auto simp: file_at_def)

lemma rename_None: "sys_rename tmp target h = (h1, None) \<Longrightarrow> keeps S h h1"
  by (auto simp: sys_rename_def sys_fail_def split: if_splits option.splits elim!: sys_call_cases intro!: quiet_keeps)

lemma SyncFilesystem_durable:
  assumes "SyncFilesystem d h = (h1, Ok ())"
  shows "file_at h1 q = map_option (\<lambda>f. f\<lparr>hf_durable := True\<rparr>) (file_at h q)"
proof -
  obtain h2 op where o': "sys_open_dir d h = (h2, op)" by (cases "sys_open_dir d h")
  obtain h3 rc where f: "sys_syncfs d h2 = (h3, rc)" by (cases "sys_syncfs d h2")
  have ne: "op \<noteq> None" "rc \<noteq> None" and h1: "h1 = fst (sys_close h3)"
    using assms o' f by (auto simp: SyncFilesystem_def with_directory_def SyncErr_def Let_def split: option.splits if_splits)
  have "file_at h2 q = file_at h q"
    using o' by (auto simp: sys_open_dir_def sys_fail_def split: if_splits elim!: sys_call_cases)
  moreover have "file_at h3 q = map_option (\<lambda>f. f\<lparr>hf_durable := True\<rparr>) (file_at h2 q)"
    using f ne by (auto simp: sys_syncfs_def syncfs_file_at elim!: sys_call_cases)
  moreover have "file_at h1 q = file_at h3 q"
    unfolding h1 by (rule close_file_at [OF prod.collapse [symmetric]])
  ultimately show ?thesis by simp
qed

lemma WriteSidecar_keeps:
  "WriteSidecar dump s p st fsync h = (h1, r) \<Longrightarrow> keeps (companion p) h h1"
  unfolding WriteSidecar_def by (erule AtomicWriteFile_keeps) simp_all

lemma unlink_all_keeps: "(\<And>t. t \<in> set tmps \<Longrightarrow> S t) \<Longrightarrow> keeps S h (unlink_all tmps h)"
proof (induction tmps arbitrary: h)
  case Nil
  show ?case by (simp add: unlink_all_def keeps_refl)
next
  case (Cons t tmps)
  then show ?case using keeps_trans [OF unlink_fst [of S t h] Cons.IH] by (simp add: unlink_all_def)
qed

lemma WriteTmpFile_keeps:
  assumes "WriteTmpFile s p data h = (h1, r)" "S p"
  shows "keeps S h h1"
proof -
  obtain h2 op where o': "sys_open_write True p (px_file_mode (pb_options s)) h = (h2, op)"
    by (cases "sys_open_write True p (px_file_mode (pb_options s)) h")
  obtain h3 b where w: "WriteAll p data h2 = (h3, b)" by (cases "WriteAll p data h2")
  obtain h4 c where cl: "sys_close h3 = (h4, c)" by (cases "sys_close h3")
  have k: "keeps S h2 h3" "closes S h2 h4" "closes S h2 (fst (sys_unlink p h4))" "closes S h2 (put_cleanup p h3)"
  proof -
    show k: "keeps S h2 h3" using w assms(2) by (rule WriteAll_keeps)
    show c: "closes S h2 h4" using k close_closes [OF cl] by (rule keeps_closes)
    show "closes S h2 (fst (sys_unlink p h4))" using c unlink_fst [where S = S and p = p, OF assms(2)] by (rule closes_keeps)
    show "closes S h2 (put_cleanup p h3)" using k put_cleanup_closes [where S = S and p = p, OF assms(2)] by (rule keeps_closes)
  qed
  show ?thesis using assms o' w cl k open_write_opens [where S = S, OF o' assms(2)]
    by (auto simp: WriteTmpFile_def split: option.splits if_splits intro: opens_closes)
qed

lemma batch_stage_outcome:
  assumes "batch_stage dump s p tmp st h = (h1, r)" "own_tmp p tmp"
  shows "keeps (companion p) h h1" (is ?keeps)
    and "r = Ok entry \<Longrightarrow> (\<exists>st'. own_tmp (p @ kSidecarSuffix) st' \<and> entry = [(tmp, p), (st', p @ kSidecarSuffix)]) \<and>
      same_file (file_at h tmp) (file_at h1 tmp)" (is "_ \<Longrightarrow> ?staged")
proof -
  obtain h2 t where t: "TempPathFor s (p @ kSidecarSuffix) h = (h2, t)" by (cases "TempPathFor s (p @ kSidecarSuffix) h")
  obtain h3 w where w: "WriteTmpFile s t (dump (sidecar_json st)) h2 = (h3, w)"
    by (cases "WriteTmpFile s t (dump (sidecar_json st)) h2")
  have own: "own_tmp (p @ kSidecarSuffix) t" using t by (rule TempPathFor_own)
  then have ct: "companion p t" "t \<noteq> tmp" using own_tmp_not_sidecar assms(2) own_tmp_of_sidecar by blast+
  have k: "keeps (\<lambda>q. q = t) h h3" using TempPathFor_keeps [OF t] WriteTmpFile_keeps [OF w, of "\<lambda>q. q = t"] by (auto intro: keeps_trans)
  then have "keeps (companion p) h h3" using ct by (auto elim: keeps_mono)
  moreover have "keeps (companion p) h3 (fst (sys_unlink tmp h3))" using assms(2) own_tmp_companion by (blast intro: unlink_fst)
  moreover have "same_file (file_at h tmp) (file_at h3 tmp)" using keeps_file [OF k] ct by auto
  ultimately have "?keeps \<and> (r = Ok entry \<longrightarrow> ?staged)"
    using assms(1) t w own by (cases w) (auto simp: batch_stage_def Ok_def intro: keeps_trans)
  then show ?keeps "r = Ok entry \<Longrightarrow> ?staged" by blast+
qed

text \<open>The object's own rename, with everything before and after it beside the object.\<close>

definition replaced ::
  "PosixStore \<Rightarrow> string \<Rightarrow> string Result list \<Rightarrow> (string \<Rightarrow> string) \<Rightarrow> PutOptions \<Rightarrow> Host \<Rightarrow> Host \<Rightarrow> bool" where
  "replaced s p source sha256_hex options h h' \<longleftrightarrow>
     (\<exists>h1 h2 tmp f. keeps (companion p) h h1 \<and> companion p tmp \<and> file_at h1 tmp = Some f \<and>
        source_data source = Ok (hf_data f) \<and> check_put sha256_hex options (hf_data f) = Ok () \<and>
        (put_needs_sync s (length (hf_data f)) \<or> px_batch_commit (pb_options s) \<longrightarrow> hf_durable f) \<and>
        sys_rename tmp p h1 = (h2, Some ()) \<and> keeps (companion p) h2 h')"

lemma replaced_keeps:
  "replaced s p source sha256_hex options h h1 \<Longrightarrow> keeps (companion p) h1 h2 \<Longrightarrow>
   replaced s p source sha256_hex options h h2"
  unfolding replaced_def by (blast intro: keeps_trans)

lemma direct_commit_outcome:
  assumes "direct_commit dump s p tmp st need_sync h = (h1, r)" "px_atomic_write (pb_options s)" "companion p tmp"
  shows "(r \<noteq> Ok () \<and> keeps (companion p) h h1) \<or> (\<exists>h2. sys_rename tmp p h = (h2, Some ()) \<and> keeps (companion p) h2 h1)"
proof -
  obtain h2 q where m: "sys_rename tmp p h = (h2, q)" by (cases "sys_rename tmp p h")
  show ?thesis
  proof (cases q)
    case None
    then have "keeps (companion p) h (fst (sys_unlink tmp h2))"
      using keeps_trans [OF rename_None unlink_fst] m assms(3) by blast
    then show ?thesis using assms m None by (auto simp: direct_commit_def ErrFromErrno_def)
  next
    case (Some u)
    have "keeps (companion p) h2 (fst (SyncDirectory (dir_of p) h2))" by (rule SyncDirectory_keeps [OF prod.collapse [symmetric]])
    then have "keeps (companion p) h2 h1"
      using assms(1,2) m Some
      by (auto simp: direct_commit_def Let_def split: if_splits dest!: WriteSidecar_keeps intro: keeps_trans)
    then show ?thesis using m Some by auto
  qed
qed

lemma commit_renames_outcome:
  assumes "commit_renames entry entry h = (h1, r)" "entry = [(tmp, p), (st', p @ kSidecarSuffix)]"
    "companion p tmp" "companion p st'"
  shows "(r \<noteq> Ok () \<and> keeps (companion p) h h1) \<or> (\<exists>h2. sys_rename tmp p h = (h2, Some ()) \<and> keeps (companion p) h2 h1)"
proof -
  obtain h2 q where m: "sys_rename tmp p h = (h2, q)" by (cases "sys_rename tmp p h")
  obtain h3 q' where m': "sys_rename st' (p @ kSidecarSuffix) h2 = (h3, q')" by (cases "sys_rename st' (p @ kSidecarSuffix) h2")
  have un: "keeps (companion p) g (unlink_all (map fst entry) g)" for g
    by (rule unlink_all_keeps) (use assms(2,3,4) in auto)
  have k3: "keeps (companion p) h2 h3" using m' assms(4) by (rule rename_keeps) simp
  have k4: "keeps (companion p) h2 (unlink_all (map fst entry) h3)" using k3 un by (rule keeps_trans)
  show ?thesis
  proof (cases q)
    case None
    then have "keeps (companion p) h (unlink_all (map fst entry) h2)" using keeps_trans [OF rename_None un] m by blast
    then show ?thesis using assms(1,2) m None by (auto simp: ErrFromErrno_def)
  next
    case (Some u)
    then show ?thesis using assms(1,2) m m' k3 k4 by (cases q') auto
  qed
qed

lemmas count_metric_after = keeps_trans [OF _ count_metric_keeps]

lemma JoinBatchAlone_outcome:
  assumes "JoinBatchAlone s entry h = (h1, r)" "entry = [(tmp, p), (st', p @ kSidecarSuffix)]"
    "companion p tmp" "companion p st'"
  shows "(r \<noteq> Ok () \<and> keeps (companion p) h h1) \<or>
    (\<exists>hs h2. keeps (companion p) h hs \<and> file_at hs tmp = map_option (\<lambda>f. f\<lparr>hf_durable := True\<rparr>) (file_at h tmp) \<and>
       sys_rename tmp p hs = (h2, Some ()) \<and> keeps (companion p) h2 h1)"
proof -
  let ?d = "batch_directory [entry]"
  obtain hb sr where sy: "SyncFilesystem ?d h = (hb, sr)" by (cases "SyncFilesystem ?d h")
  have kb: "keeps (companion p) h hb" using sy by (rule SyncFilesystem_keeps)
  let ?hc = "count_metric ''fss_posix_syncfs_total'' 1 hb"
  have kc: "keeps (companion p) h ?hc" using kb count_metric_keeps by (rule keeps_trans)
  show ?thesis
  proof (cases sr)
    case (Inl e)
    have un: "keeps (companion p) ?hc (unlink_all (map fst (concat [entry])) ?hc)"
      by (rule unlink_all_keeps) (use assms(2,3,4) in auto)
    have "keeps (companion p) h (count_metric ''fss_posix_group_commits_total'' 1 (unlink_all (map fst (concat [entry])) ?hc))"
      using keeps_trans [OF keeps_trans [OF kc un] count_metric_keeps] .
    then show ?thesis using assms(1) sy Inl by (auto simp: JoinBatchAlone_def CommitBatch_def Let_def)
  next
    case (Inr u)
    obtain hd' cr where co: "commit_renames entry entry ?hc = (hd', cr)" by (cases "commit_renames entry entry ?hc")
    have k: "keeps (companion p) hd' h1" and r: "r = cr"
      using assms(1) sy Inr co
      by (auto simp: JoinBatchAlone_def CommitBatch_def Let_def split: if_splits
          intro!: count_metric_after count_metric_keeps intro: SyncDirectory_keeps [OF prod.collapse [symmetric]])
    have "file_at ?hc tmp = map_option (\<lambda>f. f\<lparr>hf_durable := True\<rparr>) (file_at h tmp)"
      using SyncFilesystem_durable [of ?d h hb tmp] sy Inr by (simp add: Ok_def count_metric_def)
    then show ?thesis using commit_renames_outcome [OF co assms(2,3,4)] kc k r by (blast intro: keeps_trans)
  qed
qed

lemma put_outcome:
  assumes "PosixPut sha256_hex dump now s ref source options h = (h', r)" "px_atomic_write (pb_options s)"
    "object_path s ref = Ok p"
  shows "(r \<noteq> Ok () \<and> keeps (companion p) h h') \<or> replaced s p source sha256_hex options h h'"
proof -
  obtain h1 sr where st: "put_stage sha256_hex s ref source options h = (h1, sr)"
    by (cases "put_stage sha256_hex s ref source options h")
  note k1 = put_stage_steps(1) [OF st assms(2,3)]
  show ?thesis
  proof (cases sr)
    case (Inl e)
    then show ?thesis using assms(1) st k1 by (auto simp: PosixPut_def)
  next
    case (Inr t)
    obtain p' tmp data where t: "t = (p', tmp, data)" by (cases t)
    obtain f where f: "p' = p" "own_tmp p tmp" "source_data source = Ok data" "check_put sha256_hex options data = Ok ()"
      "file_at h1 tmp = Some f" "hf_data f = data" "put_needs_sync s (length data) \<longrightarrow> hf_durable f"
      using put_stage_steps(2) [OF st assms(2,3), of p' tmp data] Inr t by (auto simp: Ok_def)
    have ct: "companion p tmp" using f(2) by (rule own_tmp_companion)
    let ?ns = "put_needs_sync s (length data)" and ?st = "put_stat sha256_hex now options data"
    show ?thesis
    proof (cases "px_batch_commit (pb_options s) \<and> \<not> ?ns")
      case False
      then have "direct_commit dump s p tmp ?st ?ns h1 = (h', r)"
        using assms(1,2) st Inr t f(1) by (auto simp: PosixPut_def Let_def)
      from direct_commit_outcome [OF this assms(2) ct] show ?thesis
      proof (elim disjE exE conjE)
        assume "r \<noteq> Ok ()" "keeps (companion p) h1 h'"
        then show ?thesis using k1 by (blast intro: keeps_trans)
      next
        fix h2 assume "sys_rename tmp p h1 = (h2, Some ())" "keeps (companion p) h2 h'"
        then have "replaced s p source sha256_hex options h h'" unfolding replaced_def
          by (intro exI [of _ h1] exI [of _ h2] exI [of _ tmp] exI [of _ f]) (use f False ct k1 in auto)
        then show ?thesis by blast
      qed
    next
      case True
      obtain h2 br where b: "batch_stage dump s p tmp ?st h1 = (h2, br)" by (cases "batch_stage dump s p tmp ?st h1")
      have k2: "keeps (companion p) h h2" using keeps_trans [OF k1 batch_stage_outcome(1) [OF b f(2)]] .
      show ?thesis
      proof (cases br)
        case (Inl e)
        then show ?thesis using assms(1,2) st True t f(1) Inr b k2 by (auto simp: PosixPut_def Let_def)
      next
        case e: (Inr entry)
        obtain st' where s': "own_tmp (p @ kSidecarSuffix) st'" "entry = [(tmp, p), (st', p @ kSidecarSuffix)]"
          "same_file (file_at h1 tmp) (file_at h2 tmp)"
          using batch_stage_outcome(2) [OF b f(2), of entry] e by (auto simp: Ok_def)
        obtain f2 where f2: "file_at h2 tmp = Some f2" "hf_data f2 = data"
          using s'(3) f(5,6) by (auto simp: same_file_def split: option.splits)
        have "JoinBatchAlone s entry h2 = (h', r)" using assms(1,2) st True t f(1) Inr b e by (auto simp: PosixPut_def Let_def)
        from JoinBatchAlone_outcome [OF this s'(2) ct own_tmp_of_sidecar [OF s'(1)]] show ?thesis
        proof (elim disjE exE conjE)
          assume "r \<noteq> Ok ()" "keeps (companion p) h2 h'"
          then show ?thesis using k2 by (blast intro: keeps_trans)
        next
          fix hs h3
          assume a: "keeps (companion p) h2 hs" "file_at hs tmp = map_option (\<lambda>f. f\<lparr>hf_durable := True\<rparr>) (file_at h2 tmp)"
            "sys_rename tmp p hs = (h3, Some ())" "keeps (companion p) h3 h'"
          have "replaced s p source sha256_hex options h h'" unfolding replaced_def
            by (rule exI [of _ hs], rule exI [of _ h3], rule exI [of _ tmp], rule exI [of _ "f2\<lparr>hf_durable := True\<rparr>"])
              (use a f2 f(3,4) ct k2 in \<open>auto intro: keeps_trans\<close>)
          then show ?thesis by blast
        qed
      qed
    qed
  qed
qed

lemma replaced_effects:
  assumes "replaced s p source sha256_hex options h h'"
  obtains f where "file_at h' p = Some f" "source_data source = Ok (hf_data f)"
    "check_put sha256_hex options (hf_data f) = Ok ()"
    "put_needs_sync s (length (hf_data f)) \<or> px_batch_commit (pb_options s) \<Longrightarrow> hf_durable f"
    "\<And>q. q \<noteq> p \<Longrightarrow> \<not> companion p q \<Longrightarrow> same_file (file_at h q) (file_at h' q)"
    "hs_fds h' = hs_fds h" "set (hs_dirs h) \<subseteq> set (hs_dirs h')" "hs_canonical h' = hs_canonical h"
    "\<exists>evs. hs_trace h' = hs_trace h @ evs \<and> (\<forall>t d. EvRename t p d \<in> set evs \<longrightarrow>
       put_needs_sync s (length (hf_data f)) \<or> px_batch_commit (pb_options s) \<longrightarrow> d)"
proof -
  obtain h1 h2 tmp g where a: "keeps (companion p) h h1" "companion p tmp" "file_at h1 tmp = Some g"
    "source_data source = Ok (hf_data g)" "check_put sha256_hex options (hf_data g) = Ok ()"
    "put_needs_sync s (length (hf_data g)) \<or> px_batch_commit (pb_options s) \<longrightarrow> hf_durable g"
    "sys_rename tmp p h1 = (h2, Some ())" "keeps (companion p) h2 h'"
    using assms unfolding replaced_def by blast
  note rn = rename_Ok [OF a(7,3)]
  have "same_file (Some g) (file_at h' p)" using keeps_file [OF a(8), of p] rn(1) by simp
  then obtain f where f: "file_at h' p = Some f" "hf_data f = hf_data g" "hf_durable g \<longrightarrow> hf_durable f"
    by (auto simp: same_file_def split: option.splits)
  have fr: "same_file (file_at h q) (file_at h' q)" if "q \<noteq> p" "\<not> companion p q" for q
  proof (rule same_file_trans [OF keeps_file [OF a(1) that(2)]])
    have "file_at h2 q = file_at h1 q" using rn(1) that a(2) by auto
    then show "same_file (file_at h1 q) (file_at h' q)" using keeps_file [OF a(8) that(2)] by simp
  qed
  obtain e1 e2 where e: "hs_trace h1 = hs_trace h @ e1" "\<forall>t q d. EvRename t q d \<in> set e1 \<longrightarrow> companion p q"
    "hs_trace h' = hs_trace h2 @ e2" "\<forall>t q d. EvRename t q d \<in> set e2 \<longrightarrow> companion p q"
    using a(1,8) unfolding keeps_def touches_def by blast
  have "\<exists>evs. hs_trace h' = hs_trace h @ evs \<and> (\<forall>t d. EvRename t p d \<in> set evs \<longrightarrow>
       put_needs_sync s (length (hf_data f)) \<or> px_batch_commit (pb_options s) \<longrightarrow> d)"
  proof (intro exI conjI allI impI)
    show "hs_trace h' = hs_trace h @ (e1 @ [EvRename tmp p (hf_durable g)] @ e2)" using e rn(2) by simp
    fix t d assume ev: "EvRename t p d \<in> set (e1 @ [EvRename tmp p (hf_durable g)] @ e2)"
      and sync: "put_needs_sync s (length (hf_data f)) \<or> px_batch_commit (pb_options s)"
    have "EvRename t p d \<notin> set e1" "EvRename t p d \<notin> set e2" using e(2,4) companion_irrefl by blast+
    then show d using ev sync a(6) f(2) by auto
  qed
  moreover have "hs_fds h' = hs_fds h" using a(1,8) rn(3) by (simp add: keeps_def)
  moreover have "set (hs_dirs h) \<subseteq> set (hs_dirs h')" "hs_canonical h' = hs_canonical h"
    using a(1,8) rn(4,5) by (auto simp: keeps_def touches_def)
  ultimately show ?thesis using that [of f] f a fr by auto
qed

text \<open>
  C9: an atomic put, whatever call of the host fails on the way, leaves under the object's path either what was there or
  all of the source's bytes, checked and, where the policy or the group commit asks for it, durable; an acknowledged put
  is always the second. Files that are not the object's own are as they were, and no descriptor is left open.
\<close>

theorem posix_put_atomic:
  assumes "PosixPut sha256_hex dump now s ref source options h = (h', r)"
    and "px_atomic_write (pb_options s)" and "object_path s ref = Ok p"
  shows "(r \<noteq> Ok () \<and> same_file (file_at h p) (file_at h' p) \<or>
      (\<exists>f. file_at h' p = Some f \<and> source_data source = Ok (hf_data f) \<and>
         check_put sha256_hex options (hf_data f) = Ok () \<and>
         (put_needs_sync s (length (hf_data f)) \<or> px_batch_commit (pb_options s) \<longrightarrow> hf_durable f))) \<and>
    (\<forall>q. q \<noteq> p \<longrightarrow> \<not> companion p q \<longrightarrow> same_file (file_at h q) (file_at h' q)) \<and> hs_fds h' = hs_fds h"
  using put_outcome [OF assms]
proof (elim disjE conjE)
  assume "r \<noteq> Ok ()" "keeps (companion p) h h'"
  then show ?thesis using keeps_file [of "companion p" h h'] by (simp add: keeps_def)
next
  assume "replaced s p source sha256_hex options h h'"
  then show ?thesis by (elim replaced_effects) blast
qed

text \<open>The promise R1 of the durability design: data is durable before the rename that makes it visible.\<close>

theorem posix_rename_durable:
  assumes "PosixPut sha256_hex dump now s ref source options h = (h', r)"
    and "px_atomic_write (pb_options s)" and "object_path s ref = Ok p"
    and "px_fsync_policy (pb_options s) = fsyncAlways \<or> px_batch_commit (pb_options s)"
  shows "\<exists>evs. hs_trace h' = hs_trace h @ evs \<and> (\<forall>t d. EvRename t p d \<in> set evs \<longrightarrow> d)"
  using put_outcome [OF assms(1,2,3)]
proof (elim disjE conjE)
  assume "keeps (companion p) h h'"
  then show ?thesis unfolding keeps_def touches_def using companion_irrefl by blast
next
  assume "replaced s p source sha256_hex options h h'"
  then show ?thesis
  proof (rule replaced_effects)
    fix f
    assume "\<exists>evs. hs_trace h' = hs_trace h @ evs \<and> (\<forall>t d. EvRename t p d \<in> set evs \<longrightarrow>
       put_needs_sync s (length (hf_data f)) \<or> px_batch_commit (pb_options s) \<longrightarrow> d)"
    moreover have "put_needs_sync s (length (hf_data f)) \<or> px_batch_commit (pb_options s)"
      using assms(4) by (auto simp: put_needs_sync_def)
    ultimately show ?thesis by blast
  qed
qed

section \<open>A host to run on\<close>

definition demo_host :: "Outcome list \<Rightarrow> Host" where
  "demo_host script = \<lparr>hs_files = [], hs_dirs = [''/d'', ''/d/c''], hs_dir_modes = [], hs_time = 5, hs_script = script,
     hs_errno = None, hs_fds = 0, hs_trace = [], hs_pid = 7, hs_hex = (\<lambda>_. ''ab''), hs_draws = 0,
     hs_canonical = Some, hs_dir_size = 40, hs_tmp_counter = 0, hs_metrics = None\<rparr>"

definition demo_store :: "bool \<Rightarrow> PosixStore" where
  "demo_store batch = \<lparr>pb_root = ''/d'',
     pb_options = \<lparr>px_fsync_policy = (if batch then fsyncBySize else fsyncAlways), px_fsync_threshold_bytes = 1000,
       px_instance_id = ''local'', px_dir_mode = 7, px_file_mode = 6, px_atomic_write = True, px_fadvise_random = False,
       px_fadvise_dontneed = False, px_batch_commit = batch, px_group_commit_max_batch = 2, px_sync_dir_after_batch = True\<rparr>,
     pb_tmp_token = ''xy''\<rparr>"

definition demo_ref :: ObjectRef where
  "demo_ref = \<lparr>or_container = ''c'', or_key = ''k'', or_version_id = None\<rparr>"

definition demo_put :: "bool \<Rightarrow> Outcome list \<Rightarrow> Host \<times> unit Result" where
  "demo_put batch script = PosixPut (\<lambda>_. ''00'') (\<lambda>_. ''{}'') 5 (demo_store batch) demo_ref [Inr ''ab'', Inr ''c''] default_PutOptions (demo_host script)"

lemma demo_path: "object_path (demo_store b) demo_ref = Ok ''/d/c/k''"
  by (cases b; simp) (code_simp, code_simp)

lemma nat_to_string_digit: "n < 10 \<Longrightarrow> nat_to_string n = [digit_char n]"
  by (subst nat_to_string.simps) simp

text \<open>The definitions a run on concrete data unfolds.\<close>

lemmas host_eval = sys_pop_def sys_call_def sys_fail_def is_dir_def sys_open_write_def sys_open_read_def sys_write_def sys_close_def
  sys_unlink_def sys_rename_def sys_stat_def sys_fdatasync_def sys_open_dir_def sys_syncfs_def sys_fsync_dir_def file_at_def
  append_to_def emit_def set_file_def new_file_def create_directories_def Exists_def RandomHex_def dir_of_def parent_path_def dir_prefixes_def
  existing_prefix.simps [of "c # p" h for c p h] VerifyResolvedWithinRoot_def SafeJoin_def LexicalJoin_def NormalizeKey_def kMaxKeyBytes_def
  path_parts_def starts_with_def IsWithin_def atomic_write_loop.simps [of p "[]" h for p h] atomic_write_loop.simps [of p "c # d" h for p c d h]
  atomic_tmp_def saved_unlink_def sync_parent_def write_then_sync_def AtomicWriteFile_def EnsureDir_def default_WriteOptions_def to_string_def
  map_erase_def nat_to_string_digit

lemmas store_eval = host_eval WriteAll.simps [of p "[]" h for p h] WriteAll.simps [of p "c # d" h for p c d h] ContainerDir_def ObjectPath_def
  WritableObjectPath_def TempPathFor_def WriteSidecar_def AdviseRandom_def put_cleanup_def put_open_def put_needs_sync_def put_finish_def
  put_stage_def put_stat_def WriteTmpFile_def batch_stage_def unlink_all_def batch_directory_def count_metric_def CommitBatch_def JoinBatchAlone_def
  direct_commit_def PosixPut_def DataSync_def with_directory_def SyncDirectory_def SyncFilesystem_def kSidecarSuffix_def kTempMarker_def
  check_put_def default_PutOptions_def Let_def demo_put_def demo_host_def demo_store_def demo_ref_def

lemma demo_put_direct: "snd (demo_put False []) = Ok ()"
  by (simp add: store_eval)

lemma demo_put_batched: "snd (demo_put True []) = Ok ()"
  by (simp add: store_eval)

lemma posix_put_atomic_witness:
  "\<exists>f. file_at (fst (demo_put False [])) ''/d/c/k'' = Some f \<and> source_data [Inr ''ab'', Inr ''c''] = Ok (hf_data f) \<and> hf_durable f"
proof -
  have run: "PosixPut (\<lambda>_. ''00'') (\<lambda>_. ''{}'') 5 (demo_store False) demo_ref [Inr ''ab'', Inr ''c''] default_PutOptions
      (demo_host []) = (fst (demo_put False []), snd (demo_put False []))"
    by (simp add: demo_put_def)
  have sync: "put_needs_sync (demo_store False) n" for n
    by (simp add: put_needs_sync_def demo_store_def)
  show ?thesis
    using posix_put_atomic [OF run _ demo_path] demo_put_direct sync by (auto simp: demo_store_def)
qed

lemma posix_rename_durable_witness:
  "\<exists>evs. hs_trace (fst (demo_put True [])) = hs_trace (demo_host []) @ evs \<and>
     (\<forall>t d. EvRename t ''/d/c/k'' d \<in> set evs \<longrightarrow> d)"
proof -
  have run: "PosixPut (\<lambda>_. ''00'') (\<lambda>_. ''{}'') 5 (demo_store True) demo_ref [Inr ''ab'', Inr ''c''] default_PutOptions
      (demo_host []) = (fst (demo_put True []), snd (demo_put True []))"
    by (simp add: demo_put_def)
  show ?thesis
    by (rule posix_rename_durable [OF run _ demo_path]) (simp_all add: demo_store_def)
qed

section \<open>What a get returns\<close>

lemma split_on_separated: "split_on sep (s @ sep # t) = split_on sep s @ split_on sep t"
proof (induction s)
  case (Cons c s)
  then show ?case by (cases "split_on sep s") auto
qed simp

lemma path_parts_join: "d \<noteq> [] \<Longrightarrow> path_parts (d @ ''/'' @ n) = path_parts d @ filter (\<lambda>w. w \<noteq> []) (split_on (CHR ''/'') n)"
  using split_on_separated [of "CHR ''/''" d n] by (cases d) (simp_all add: path_parts_def starts_with_def)

lemma IsWithin_join:
  assumes "LexicalJoin dir key = Ok p"
  shows "IsWithin dir p"
proof -
  obtain n where n: "dir \<noteq> []" "p = (if last dir = CHR ''/'' then butlast dir else dir) @ ''/'' @ n"
    using assms by (auto simp: LexicalJoin_def FSS_TRY_eq_Ok split: if_splits)
  show ?thesis
  proof (cases "last dir = CHR ''/''")
    case False
    then show ?thesis using n path_parts_join [of dir n] by (simp add: IsWithin_def)
  next
    case True
    then obtain d where d: "dir = d @ ''/''" using n(1) by (metis append_butlast_last_id)
    then show ?thesis using n path_parts_join [of d n] path_parts_join [of d "[]"]
      by (cases "d = []") (auto simp: IsWithin_def path_parts_def starts_with_def)
  qed
qed

lemma get_loop_healthy:
  "hs_script h = [] \<Longrightarrow> file_at h p = Some f \<Longrightarrow> offset + count \<le> length (hf_data f) \<Longrightarrow> got \<le> count \<Longrightarrow> \<not> sk_closed k \<Longrightarrow>
   get_loop StringSinkWrite p offset count got (h, k) =
     ((h, k\<lparr>sk_data := sk_data k @ take (count - got) (drop (offset + got) (hf_data f))\<rparr>), Ok count)"
proof (induction "count - got" arbitrary: got k rule: less_induct)
  case less
  show ?case
  proof (cases "got < count")
    case False
    then show ?thesis using less.prems by (subst get_loop.simps) simp
  next
    case True
    let ?w = "min kIoBufferBytes (count - got)"
    let ?d = "take ?w (drop (offset + got) (hf_data f))"
    have w: "0 < ?w" "length ?d = ?w" using True less.prems(3) by (auto simp: kIoBufferBytes_def)
    have read: "sys_pread p (offset + got) ?w h = (h, Some ?d)"
      using less.prems(1,2) by (simp add: sys_pread_def sys_pop_def)
    have wr: "StringSinkWrite ?d k = (k\<lparr>sk_data := sk_data k @ ?d\<rparr>, Ok ())"
      using less.prems(5) by (simp add: StringSinkWrite_def)
    have "?d @ take (count - (got + ?w)) (drop (offset + (got + ?w)) (hf_data f)) = take (count - got) (drop (offset + got) (hf_data f))"
    proof -
      have "count - got = ?w + (count - (got + ?w))" by simp
      then show ?thesis by (metis (no_types, lifting) add.assoc add.commute drop_drop take_add)
    qed
    moreover have "get_loop StringSinkWrite p offset count (got + ?w) (h, k\<lparr>sk_data := sk_data k @ ?d\<rparr>) =
      ((h, k\<lparr>sk_data := (sk_data k @ ?d) @ take (count - (got + ?w)) (drop (offset + (got + ?w)) (hf_data f))\<rparr>), Ok count)"
      by (subst less.hyps) (use True w less.prems in auto)
    moreover have "?d \<noteq> []" using w by (metis length_0_conv less_irrefl)
    ultimately show ?thesis using True w(2) by (subst get_loop.simps) (simp add: read wr del: length_take)
  qed
qed
lemma ObjectPath_healthy:
  assumes "hs_script h = []" "ContainerDir s (or_container ref) = Ok dir" "LexicalJoin dir (or_key ref) = Ok p"
    "is_dir h dir" "file_at h p = Some f" "hs_canonical h = Some"
  shows "ObjectPath s (or_container ref) (or_key ref) h = (h, Ok p)"
proof -
  have "p \<noteq> []" using assms(3) by (auto simp: LexicalJoin_def FSS_TRY_eq_Ok split: if_splits)
  then have "existing_prefix p h = (h, Some p)"
    using assms(1,5) by (subst existing_prefix.simps) (simp add: Exists_def sys_pop_def)
  then have "SafeJoin dir (or_key ref) h = (h, Ok p)"
    using assms(3,6) IsWithin_join [OF assms(3)] by (simp add: SafeJoin_def VerifyResolvedWithinRoot_def)
  then show ?thesis using assms(1,2,4) by (simp add: ObjectPath_def Exists_def sys_pop_def)
qed

lemma PosixGet_healthy:
  assumes "hs_script h = []" "ContainerDir s (or_container ref) = Ok dir" "LexicalJoin dir (or_key ref) = Ok p"
    "is_dir h dir" "file_at h p = Some f" "hs_canonical h = Some" "\<not> sk_closed k"
  obtains h2 where "PosixGet StringSinkWrite StringSinkClose s ref \<lparr>br_offset = 0, br_length = 0\<rparr> (h, k) =
    ((h2, k\<lparr>sk_data := sk_data k @ hf_data f, sk_closed := True\<rparr>), Ok ())"
proof -
  let ?h1 = "h\<lparr>hs_fds := hs_fds h + 1\<rparr>"
  let ?h2 = "AdviseRandom s p ?h1"
  have sc: "hs_script ?h2 = []" "file_at ?h2 p = Some f" using assms(1,5) by (simp_all add: AdviseRandom_def)
  have op: "sys_open_read p h = (?h1, Some ())" using assms(1,5) by (simp add: sys_open_read_def sys_call_def sys_pop_def)
  have st: "sys_stat p ?h2 = (?h2, Some (length (hf_data f), hf_mtime f))"
    using sc by (simp add: sys_stat_def sys_call_def sys_pop_def)
  have lp: "get_loop StringSinkWrite p 0 (length (hf_data f)) 0 (?h2, k) =
      ((?h2, k\<lparr>sk_data := sk_data k @ hf_data f\<rparr>), Ok (length (hf_data f)))"
    using get_loop_healthy [OF sc, of 0 "length (hf_data f)" 0 k] assms(7) by simp
  show ?thesis
    by (rule that)
      (use ObjectPath_healthy [OF assms(1-6)] op st lp in
        \<open>simp add: PosixGet_def IsWholeObject_def range_count_def StringSinkClose_def Let_def\<close>)
qed

text \<open>
  C29: what a put acknowledged is what a get returns: on a container that exists, without symbolic links, the bytes a get
  hands to its sink are those of the put's source, however the calls of the put came out.
\<close>

theorem posix_put_get:
  assumes "PosixPut sha256_hex dump now s ref source options h = (h', Ok ())"
    and "px_atomic_write (pb_options s)"
    and "ContainerDir s (or_container ref) = Ok dir" and "LexicalJoin dir (or_key ref) = Ok p"
    and "is_dir h dir" and "hs_canonical h = Some" and "\<not> sk_closed k"
  shows "\<exists>d h2. source_data source = Ok d \<and>
    PosixGet StringSinkWrite StringSinkClose s ref \<lparr>br_offset = 0, br_length = 0\<rparr> (h'\<lparr>hs_script := []\<rparr>, k) =
      ((h2, k\<lparr>sk_data := sk_data k @ d, sk_closed := True\<rparr>), Ok ())"
proof -
  have "object_path s ref = Ok p" using assms(3,4) by (simp add: object_path_def)
  then have "replaced s p source sha256_hex options h h'" using put_outcome [OF assms(1,2)] by blast
  then show ?thesis
  proof (rule replaced_effects)
    fix f
    assume f: "file_at h' p = Some f" "source_data source = Ok (hf_data f)"
      and h: "set (hs_dirs h) \<subseteq> set (hs_dirs h')" "hs_canonical h' = hs_canonical h"
    have "is_dir (h'\<lparr>hs_script := []\<rparr>) dir" using assms(5) h(1) by (auto simp: is_dir_def)
    then obtain h2 where "PosixGet StringSinkWrite StringSinkClose s ref \<lparr>br_offset = 0, br_length = 0\<rparr> (h'\<lparr>hs_script := []\<rparr>, k) =
      ((h2, k\<lparr>sk_data := sk_data k @ hf_data f, sk_closed := True\<rparr>), Ok ())"
      using PosixGet_healthy [of "h'\<lparr>hs_script := []\<rparr>" s ref dir p f k] assms(3,4,6,7) f(1) h(2) by auto
    then show ?thesis using f(2) by blast
  qed
qed

lemma posix_put_get_witness:
  "\<exists>h2. PosixGet StringSinkWrite StringSinkClose (demo_store False) demo_ref \<lparr>br_offset = 0, br_length = 0\<rparr>
      ((fst (demo_put False []))\<lparr>hs_script := []\<rparr>, \<lparr>sk_data = ''x'', sk_closed = False\<rparr>) =
    ((h2, \<lparr>sk_data = ''xabc'', sk_closed = True\<rparr>), Ok ())"
proof -
  have run: "PosixPut (\<lambda>_. ''00'') (\<lambda>_. ''{}'') 5 (demo_store False) demo_ref [Inr ''ab'', Inr ''c''] default_PutOptions
      (demo_host []) = (fst (demo_put False []), Ok ())"
    using demo_put_direct by (metis demo_put_def prod.collapse)
  have paths: "ContainerDir (demo_store False) (or_container demo_ref) = Ok ''/d/c''"
    "LexicalJoin ''/d/c'' (or_key demo_ref) = Ok ''/d/c/k''"
    by code_simp+
  have "px_atomic_write (pb_options (demo_store False))" "is_dir (demo_host []) ''/d/c''" "hs_canonical (demo_host []) = Some"
    by (simp_all add: demo_store_def demo_host_def is_dir_def)
  from posix_put_get [OF run this(1) paths this(2,3), of "\<lparr>sk_data = ''x'', sk_closed = False\<rparr>"] show ?thesis
    by auto
qed

section \<open>Where the code falls short\<close>

text \<open>In the group commit the outcome of the directory's sync is thrown away: when it fails the put is acknowledged
  although the rename may not survive a crash. \<open>fails_at\<close> is a host on which one call fails.\<close>

definition fails_at :: "nat \<Rightarrow> Outcome list" where
  "fails_at n = replicate n Full @ [Fails EIO]"

lemma fails_at_numerals:
  "fails_at 19 = [Full, Full, Full, Full, Full, Full, Full, Full, Full, Full, Full, Full, Full, Full, Full, Full, Full, Full, Full, Fails EIO]"
  "fails_at 21 = [Full, Full, Full, Full, Full, Full, Full, Full, Full, Full, Full, Full, Full, Full, Full, Full, Full, Full, Full, Full, Full, Fails EIO]"
  by (simp_all add: fails_at_def eval_nat_numeral)

lemma unsynced_directory_acknowledged:
  "snd (demo_put True (fails_at 21)) = Ok () \<and> EvDirSync ''/d/c'' \<notin> set (hs_trace (fst (demo_put True (fails_at 21))))"
  by (simp add: store_eval fails_at_numerals)

text \<open>A batch whose second rename fails reports an error although the object itself was replaced: its old sidecar, or
  none, stays beside the new data.\<close>

lemma object_replaced_without_sidecar:
  "\<not> is_ok (snd (demo_put True (fails_at 19))) \<and>
   map_option hf_data (file_at (fst (demo_put True (fails_at 19))) ''/d/c/k'') = Some ''abc'' \<and>
   file_at (fst (demo_put True (fails_at 19))) ''/d/c/k.fssmeta'' = None"
  by (simp add: store_eval fails_at_numerals ErrFromErrno_def)

text \<open>A sink that fails, a client that went away, leaves the object's descriptor open.\<close>

lemma failed_sink_leaks_descriptor:
  assumes "hs_script h = []" "ContainerDir s (or_container ref) = Ok dir" "LexicalJoin dir (or_key ref) = Ok p"
    "is_dir h dir" "file_at h p = Some f" "hs_canonical h = Some" "hf_data f \<noteq> []"
  shows "\<exists>h2. PosixGet (\<lambda>d k. (k, Inl e)) close_sink s ref \<lparr>br_offset = 0, br_length = 0\<rparr> (h, k) = ((h2, k), Inl e) \<and>
    hs_fds h2 = hs_fds h + 1"
proof -
  let ?h1 = "h\<lparr>hs_fds := hs_fds h + 1\<rparr>"
  let ?h2 = "AdviseRandom s p ?h1"
  have sc: "hs_script ?h2 = []" "file_at ?h2 p = Some f" "hs_fds ?h2 = hs_fds h + 1"
    using assms(1,5) by (simp_all add: AdviseRandom_def)
  have op: "sys_open_read p h = (?h1, Some ())" using assms(1,5) by (simp add: sys_open_read_def sys_call_def sys_pop_def)
  have st: "sys_stat p ?h2 = (?h2, Some (length (hf_data f), hf_mtime f))"
    using sc by (simp add: sys_stat_def sys_call_def sys_pop_def)
  have "get_loop (\<lambda>d k. (k, Inl e)) p 0 (length (hf_data f)) 0 (?h2, k) = ((?h2, k), Inl e)"
    using sc assms(7) by (subst get_loop.simps) (simp add: sys_pread_def sys_pop_def kIoBufferBytes_def)
  then show ?thesis using ObjectPath_healthy [OF assms(1-6)] op st sc(3)
    by (simp add: PosixGet_def IsWholeObject_def range_count_def)
qed

text \<open>The key of a directory is reported as an object: the in-memory store says there is none.\<close>

definition demo_outer :: ObjectRef where
  "demo_outer = \<lparr>or_container = ''c'', or_key = ''u'', or_version_id = None\<rparr>"

lemma directory_is_an_object:
  "(case PosixStat (\<lambda>_. Err kInternal ''json'') (demo_store False) demo_outer ((demo_host [])\<lparr>hs_dirs := [''/d'', ''/d/c'', ''/d/c/u'']\<rparr>) of
      (h, r) \<Rightarrow> (case r of Inl e \<Rightarrow> False | Inr st \<Rightarrow> os_exists st))"
  by (simp add: store_eval demo_outer_def PosixStat_def ReadSidecar_def ReadFile_def SysError_def missing_stat_def)

end
