(* ===== verification/Group_Commit.thy ===== *)
theory Group_Commit
  imports Posix_Properties
begin

text \<open>
  The group commit of \<^verbatim>\<open>PosixBlobStore::JoinBatch\<close>: concurrent puts that have written their temporary files gather in a
  batch, one of them commits it, and all return their own result. A step of the relation is one critical section of one
  writer under \<^verbatim>\<open>batch_mutex_\<close>, or one commit under \<^verbatim>\<open>batch_commit_mutex_\<close>. The leader's bounded wait may end at any time,
  by the deadline or by the condition, so its step has no guard.
\<close>

section \<open>State\<close>

record Batch =
  bt_entries :: "BatchEntry list"
  bt_results :: "unit Result list"
  bt_sealed :: bool
  bt_done :: bool

text \<open>Where a writer is. \<open>Idle\<close> holds the part of its put before \<^verbatim>\<open>JoinBatch\<close>; the numbers are the batch and the index in it.\<close>

datatype Writer =
    Idle "Host \<Rightarrow> Host \<times> BatchEntry Result"
  | Staged BatchEntry
  | Leader BatchEntry nat
  | Follower BatchEntry nat nat
  | Committing BatchEntry nat nat "BatchEntry list"
  | Returned "BatchEntry option" "unit Result"

text \<open>\<open>gr_log\<close> records each commit with its results, for the statements only.\<close>

record Group =
  gr_host :: Host
  gr_batches :: "Batch list"
  gr_current :: "nat option"
  gr_counter :: int
  gr_writers :: "Writer list"
  gr_log :: "(BatchEntry list \<times> unit Result list) list"

definition new_batch :: Batch where
  "new_batch = \<lparr>bt_entries = [], bt_results = [], bt_sealed = False, bt_done = False\<rparr>"

definition set_writer :: "nat \<Rightarrow> Writer \<Rightarrow> Group \<Rightarrow> Group" where
  "set_writer i w g = g\<lparr>gr_writers := (gr_writers g)[i := w]\<rparr>"

definition set_batch :: "nat \<Rightarrow> Batch \<Rightarrow> Group \<Rightarrow> Group" where
  "set_batch b bt g = g\<lparr>gr_batches := (gr_batches g)[b := bt]\<rparr>"

definition max_batch :: "PosixStore \<Rightarrow> nat" where
  "max_batch s = (let n = px_group_commit_max_batch (pb_options s) in if n = 0 then 1 else n)"

section \<open>Steps\<close>

text \<open>The put up to \<^verbatim>\<open>JoinBatch\<close>; the guard's counter is up while it runs and until the put returns.\<close>

definition stage_writer :: "nat \<Rightarrow> (Host \<Rightarrow> Host \<times> BatchEntry Result) \<Rightarrow> Group \<Rightarrow> Group" where
  "stage_writer i stage g =
     (case stage (gr_host g) of
        (h, Inl e) \<Rightarrow> set_writer i (Returned None (Inl e)) (g\<lparr>gr_host := h\<rparr>)
      | (h, Inr entry) \<Rightarrow> set_writer i (Staged entry) (g\<lparr>gr_host := h, gr_counter := gr_counter g + 1\<rparr>))"

text \<open>Sealing a batch and taking its entries out, on the way to commit them.\<close>

definition take_batch :: "nat \<Rightarrow> BatchEntry \<Rightarrow> nat \<Rightarrow> nat \<Rightarrow> Group \<Rightarrow> Group" where
  "take_batch i entry b my_index g =
     (let bt = gr_batches g ! b in
      set_writer i (Committing entry b my_index (bt_entries bt))
        (set_batch b (bt\<lparr>bt_sealed := True, bt_entries := []\<rparr>)
          (g\<lparr>gr_current := (if gr_current g = Some b then None else gr_current g)\<rparr>)))"

text \<open>The batch a writer joins: the current one unless there is none or it is sealed.\<close>

definition open_batch :: "Group \<Rightarrow> Group \<times> nat" where
  "open_batch g =
     (case gr_current g of
        Some b \<Rightarrow>
          if \<not> bt_sealed (gr_batches g ! b) then (g, b)
          else (g\<lparr>gr_batches := gr_batches g @ [new_batch], gr_current := Some (length (gr_batches g))\<rparr>, length (gr_batches g))
      | None \<Rightarrow> (g\<lparr>gr_batches := gr_batches g @ [new_batch], gr_current := Some (length (gr_batches g))\<rparr>, length (gr_batches g)))"

definition join_batch :: "PosixStore \<Rightarrow> nat \<Rightarrow> BatchEntry \<Rightarrow> Group \<Rightarrow> Group" where
  "join_batch s i entry g =
     (case open_batch g of (g, b) \<Rightarrow>
       let bt = gr_batches g ! b; my_index = length (bt_entries bt);
           g = set_batch b (bt\<lparr>bt_entries := bt_entries bt @ [entry]\<rparr>) g in
       if my_index + 1 \<ge> max_batch s then take_batch i entry b my_index g
       else if my_index = 0 then set_writer i (Leader entry b) g
       else set_writer i (Follower entry b my_index) g)"

definition wake_leader :: "nat \<Rightarrow> BatchEntry \<Rightarrow> nat \<Rightarrow> Group \<Rightarrow> Group" where
  "wake_leader i entry b g =
     (if bt_sealed (gr_batches g ! b) then set_writer i (Follower entry b 0) g
      else take_batch i entry b 0 g)"

definition own_result :: "nat \<Rightarrow> unit Result list \<Rightarrow> unit Result" where
  "own_result my_index results = (if my_index < length results then results ! my_index else Ok ())"

definition commit_batch :: "PosixStore \<Rightarrow> nat \<Rightarrow> BatchEntry \<Rightarrow> nat \<Rightarrow> nat \<Rightarrow> BatchEntry list \<Rightarrow> Group \<Rightarrow> Group" where
  "commit_batch s i entry b my_index committed g =
     (case CommitBatch s committed (gr_host g) of (h, results) \<Rightarrow>
       set_writer i (Returned (Some entry) (own_result my_index results))
         (set_batch b ((gr_batches g ! b)\<lparr>bt_results := results, bt_done := True\<rparr>)
           (g\<lparr>gr_host := h, gr_counter := gr_counter g - 1, gr_log := (committed, results) # gr_log g\<rparr>)))"

definition follower_returns :: "nat \<Rightarrow> BatchEntry \<Rightarrow> nat \<Rightarrow> nat \<Rightarrow> Group \<Rightarrow> Group" where
  "follower_returns i entry b my_index g =
     set_writer i (Returned (Some entry) (own_result my_index (bt_results (gr_batches g ! b))))
       (g\<lparr>gr_counter := gr_counter g - 1\<rparr>)"

inductive group_step :: "PosixStore \<Rightarrow> Group \<Rightarrow> Group \<Rightarrow> bool" for s where
  stage: "i < length (gr_writers g) \<Longrightarrow> gr_writers g ! i = Idle st \<Longrightarrow> group_step s g (stage_writer i st g)"
| join: "i < length (gr_writers g) \<Longrightarrow> gr_writers g ! i = Staged e \<Longrightarrow> group_step s g (join_batch s i e g)"
| wake: "i < length (gr_writers g) \<Longrightarrow> gr_writers g ! i = Leader e b \<Longrightarrow> group_step s g (wake_leader i e b g)"
| commit: "i < length (gr_writers g) \<Longrightarrow> gr_writers g ! i = Committing e b k es \<Longrightarrow>
    group_step s g (commit_batch s i e b k es g)"
| follow: "i < length (gr_writers g) \<Longrightarrow> gr_writers g ! i = Follower e b k \<Longrightarrow> bt_done (gr_batches g ! b) \<Longrightarrow>
    group_step s g (follower_returns i e b k g)"

definition group_start :: "Host \<Rightarrow> (Host \<Rightarrow> Host \<times> BatchEntry Result) list \<Rightarrow> Group" where
  "group_start h stages = \<lparr>gr_host = h, gr_batches = [], gr_current = None, gr_counter = 0,
     gr_writers = map Idle stages, gr_log = []\<rparr>"

inductive group_reachable :: "PosixStore \<Rightarrow> Group \<Rightarrow> bool" for s where
  start: "group_reachable s (group_start h stages)"
| step: "group_reachable s g \<Longrightarrow> group_step s g g' \<Longrightarrow> group_reachable s g'"

text \<open>The put of the store as a writer of the group.\<close>

definition put_writer ::
  "(string \<Rightarrow> string) \<Rightarrow> (json \<Rightarrow> string) \<Rightarrow> int \<Rightarrow> PosixStore \<Rightarrow> ObjectRef \<Rightarrow> string Result list \<Rightarrow> PutOptions \<Rightarrow> Writer" where
  "put_writer sha256_hex dump now s ref source options =
     Idle (\<lambda>h. FSS_TRY_ST (put_stage sha256_hex s ref source options h) (\<lambda>h (p, tmp, data).
       batch_stage dump s p tmp (put_stat sha256_hex now options data) h))"

section \<open>Every writer gets its own result\<close>

text \<open>The place of an entry: in the batch while it is open, with the committer once it is sealed, in the log once it is done.\<close>

definition has_slot :: "Group \<Rightarrow> BatchEntry \<Rightarrow> nat \<Rightarrow> nat \<Rightarrow> bool" where
  "has_slot g e b k \<longleftrightarrow> b < length (gr_batches g) \<and>
     (let bt = gr_batches g ! b in
      if \<not> bt_sealed bt then k < length (bt_entries bt) \<and> bt_entries bt ! k = e
      else if bt_done bt then \<exists>es. (es, bt_results bt) \<in> set (gr_log g) \<and> k < length es \<and> es ! k = e
      else \<exists>j e' k' es. j < length (gr_writers g) \<and> gr_writers g ! j = Committing e' b k' es \<and> k < length es \<and> es ! k = e)"

definition logged :: "Group \<Rightarrow> BatchEntry \<Rightarrow> unit Result \<Rightarrow> bool" where
  "logged g e r \<longleftrightarrow> (\<exists>es rs k. (es, rs) \<in> set (gr_log g) \<and> k < length es \<and> es ! k = e \<and> rs ! k = r)"

fun writer_ok :: "Group \<Rightarrow> nat \<Rightarrow> Writer \<Rightarrow> bool" where
  "writer_ok g m (Leader e b) = has_slot g e b 0"
| "writer_ok g m (Follower e b k) = has_slot g e b k"
| "writer_ok g m (Committing e b k es) =
     (b < length (gr_batches g) \<and> bt_sealed (gr_batches g ! b) \<and> \<not> bt_done (gr_batches g ! b) \<and>
      k < length es \<and> es ! k = e \<and> length es \<le> m)"
| "writer_ok g m (Returned (Some e) r) = logged g e r"
| "writer_ok g m w = True"

definition batch_ok :: "Group \<Rightarrow> nat \<Rightarrow> nat \<Rightarrow> bool" where
  "batch_ok g m b \<longleftrightarrow>
     (let bt = gr_batches g ! b in
      (bt_done bt \<longrightarrow> bt_sealed bt) \<and>
      (\<not> bt_sealed bt \<longrightarrow> length (bt_entries bt) < m \<and>
         (\<exists>j e. j < length (gr_writers g) \<and> gr_writers g ! j = Leader e b)))"

definition group_inv :: "nat \<Rightarrow> Group \<Rightarrow> bool" where
  "group_inv m g \<longleftrightarrow>
     (\<forall>i < length (gr_writers g). writer_ok g m (gr_writers g ! i)) \<and>
     (\<forall>b < length (gr_batches g). batch_ok g m b) \<and>
     (\<forall>b. gr_current g = Some b \<longrightarrow> b < length (gr_batches g)) \<and>
     (\<forall>i j b e e' k k' es es'. i < length (gr_writers g) \<longrightarrow> j < length (gr_writers g) \<longrightarrow>
        gr_writers g ! i = Committing e b k es \<longrightarrow> gr_writers g ! j = Committing e' b k' es' \<longrightarrow> i = j) \<and>
     (\<forall>(es, rs) \<in> set (gr_log g). length rs = length es \<and> length es \<le> m)"

lemma commit_entries_length: "commit_entries entries h = (h1, rs) \<Longrightarrow> length rs = length entries"
  by (induction entries arbitrary: h h1 rs) (auto split: prod.splits)

lemma CommitBatch_length: "CommitBatch s entries h = (h1, rs) \<Longrightarrow> length rs = length entries"
  by (auto simp: CommitBatch_def Let_def split: prod.splits sum.splits dest: commit_entries_length)

text \<open>What joining and sealing start from: all but the batch \<open>b\<close> and the writer \<open>i\<close> is in order.\<close>

definition open_for :: "nat \<Rightarrow> nat \<Rightarrow> nat \<Rightarrow> Group \<Rightarrow> bool" where
  "open_for m i b g \<longleftrightarrow>
     i < length (gr_writers g) \<and>
     (\<forall>j < length (gr_writers g). j \<noteq> i \<longrightarrow> writer_ok g m (gr_writers g ! j)) \<and>
     (\<forall>b' < length (gr_batches g). b' \<noteq> b \<longrightarrow> batch_ok g m b') \<and>
     (\<forall>b'. gr_current g = Some b' \<longrightarrow> b' < length (gr_batches g)) \<and>
     (\<forall>i j b e e' k k' es es'. i < length (gr_writers g) \<longrightarrow> j < length (gr_writers g) \<longrightarrow>
        gr_writers g ! i = Committing e b k es \<longrightarrow> gr_writers g ! j = Committing e' b k' es' \<longrightarrow> i = j) \<and>
     (\<forall>(es, rs) \<in> set (gr_log g). length rs = length es \<and> length es \<le> m) \<and>
     b < length (gr_batches g) \<and> \<not> bt_sealed (gr_batches g ! b) \<and> \<not> bt_done (gr_batches g ! b) \<and>
     (\<forall>e b' k es. gr_writers g ! i \<noteq> Committing e b' k es \<and> (gr_writers g ! i = Leader e b' \<longrightarrow> b' = b))"

lemma group_simps [simp]:
  "gr_writers (set_writer i w g) = (gr_writers g)[i := w]" "gr_batches (set_writer i w g) = gr_batches g"
  "gr_current (set_writer i w g) = gr_current g" "gr_log (set_writer i w g) = gr_log g"
  "gr_host (set_writer i w g) = gr_host g"
  "gr_writers (set_batch b bt g) = gr_writers g" "gr_batches (set_batch b bt g) = (gr_batches g)[b := bt]"
  "gr_current (set_batch b bt g) = gr_current g" "gr_log (set_batch b bt g) = gr_log g" "gr_host (set_batch b bt g) = gr_host g"
  by (simp_all add: set_writer_def set_batch_def)

lemma writer_ok_cong:
  assumes "\<And>e b k. has_slot g e b k \<Longrightarrow> has_slot g' e b k"
    and "\<And>e r. logged g e r \<Longrightarrow> logged g' e r"
    and "\<And>e b k es. w = Committing e b k es \<Longrightarrow> writer_ok g m w \<Longrightarrow> writer_ok g' m w"
    and "writer_ok g m w"
  shows "writer_ok g' m w"
proof (cases w)
  case (Returned e r)
  then show ?thesis using assms by (cases e) auto
qed (use assms in auto)

text \<open>A writer that neither commits nor leads an open batch changes its state.\<close>

lemma quiet_writer:
  assumes inv: "group_inv m g" and i: "i < length (gr_writers g)"
    and nc: "\<And>e b k es. gr_writers g ! i \<noteq> Committing e b k es"
    and nl: "\<And>e b. gr_writers g ! i = Leader e b \<Longrightarrow> bt_sealed (gr_batches g ! b)"
    and w: "writer_ok g m w" "\<And>e b k es. w \<noteq> Committing e b k es"
    and same: "gr_writers g' = (gr_writers g)[i := w]" "gr_batches g' = gr_batches g" "gr_current g' = gr_current g" "gr_log g' = gr_log g"
  shows "group_inv m g'"
proof -
  have slot: "has_slot g' e b k" if "has_slot g e b k" for e b k
    using that i nc unfolding has_slot_def Let_def same
    by (auto simp: nth_list_update split: if_splits) (metis nth_list_update_neq)
  have lg: "logged g' e r" if "logged g e r" for e r using that by (simp add: logged_def same)
  have ok: "writer_ok g' m v" if "writer_ok g m v" for v
    by (rule writer_ok_cong [OF slot lg _ that]) (auto simp: same)
  have b: "batch_ok g' m b" if "batch_ok g m b" "b < length (gr_batches g)" for b
    using that i nl unfolding batch_ok_def Let_def same
    by (auto simp: nth_list_update split: if_splits) (metis nth_list_update_neq)
  show ?thesis
    using inv ok b w i unfolding group_inv_def same by (auto simp: nth_list_update split: if_splits)
qed

lemma take_batch_inv:
  assumes g: "open_for m i b g" and k: "k < length (bt_entries (gr_batches g ! b))"
    "bt_entries (gr_batches g ! b) ! k = entry" "length (bt_entries (gr_batches g ! b)) \<le> m"
  shows "group_inv m (take_batch i entry b k g)" (is "group_inv m ?g")
proof -
  let ?bt = "gr_batches g ! b"
  let ?w = "Committing entry b k (bt_entries ?bt)"
  note G = g [unfolded open_for_def]
  have W: "gr_writers ?g = (gr_writers g)[i := ?w]" and B: "gr_batches ?g = (gr_batches g)[b := ?bt\<lparr>bt_sealed := True, bt_entries := []\<rparr>]"
    and C: "gr_current ?g = (if gr_current g = Some b then None else gr_current g)" and L: "gr_log ?g = gr_log g"
    by (simp_all add: take_batch_def Let_def)
  have slot: "has_slot ?g e b' k'" if "has_slot g e b' k'" for e b' k'
  proof (cases "b' = b")
    case True
    then have "k' < length (bt_entries ?bt)" "bt_entries ?bt ! k' = e" using that G by (auto simp: has_slot_def Let_def)
    moreover have "gr_writers ?g ! i = ?w" "i < length (gr_writers ?g)" using G W by auto
    moreover have "has_slot ?g e b k' \<longleftrightarrow> (\<exists>j e' k'' es. j < length (gr_writers ?g) \<and> gr_writers ?g ! j = Committing e' b k'' es \<and> k' < length es \<and> es ! k' = e)"
      using G by (simp add: has_slot_def B L)
    ultimately show ?thesis using True by blast
  next
    case False
    then show ?thesis using that G unfolding has_slot_def Let_def W B L
      by (auto simp: nth_list_update split: if_splits) (metis nth_list_update_neq)
  qed
  have lg: "logged ?g e r" if "logged g e r" for e r using that by (simp add: logged_def L)
  have nc: "v = Committing e b' k' es \<Longrightarrow> writer_ok g m v \<Longrightarrow> b' \<noteq> b" for v e b' k' es using G by auto
  have ok: "writer_ok ?g m v" if "writer_ok g m v" for v
    by (rule writer_ok_cong [OF slot lg _ that]) (use that G in \<open>auto simp: B nth_list_update\<close>)
  have "writer_ok ?g m ?w" using G k by (simp add: B)
  moreover have "batch_ok ?g m b'" if "b' < length (gr_batches g)" for b'
  proof (cases "b' = b")
    case True
    then show ?thesis using that by (simp add: batch_ok_def B)
  next
    case False
    then have "batch_ok g m b'" using G that by blast
    then show ?thesis using False G unfolding batch_ok_def Let_def W B
      by (auto simp: nth_list_update split: if_splits) (metis nth_list_update_neq)
  qed
  moreover have "gr_writers g ! j \<noteq> Committing e b k' es" if "j < length (gr_writers g)" for j e k' es
  proof
    assume c: "gr_writers g ! j = Committing e b k' es"
    then have "j \<noteq> i" using G by blast
    then have "writer_ok g m (gr_writers g ! j)" using that G by blast
    then show False using nc [OF c] by blast
  qed
  ultimately show ?thesis
    using G ok unfolding group_inv_def W C L B by (auto simp: nth_list_update split: if_splits)
qed

text \<open>The batch that is joined, and the entry appended to it.\<close>

lemma open_batch_open:
  assumes inv: "group_inv m g" and i: "i < length (gr_writers g)" "gr_writers g ! i = Staged e" and m: "0 < m"
    and o': "open_batch g = (g', b)"
  shows "open_for m i b g' \<and> gr_writers g' = gr_writers g \<and> length (bt_entries (gr_batches g' ! b)) < m \<and>
    (bt_entries (gr_batches g' ! b) \<noteq> [] \<longrightarrow> (\<exists>j e. j < length (gr_writers g) \<and> gr_writers g ! j = Leader e b))"
proof (cases "gr_batches g' = gr_batches g")
  case True
  then have gb: "g' = g" "gr_current g = Some b" "\<not> bt_sealed (gr_batches g ! b)"
    using o' by (auto simp: open_batch_def split: option.splits if_splits)
  then have "b < length (gr_batches g)" "batch_ok g m b" using inv by (auto simp: group_inv_def)
  then show ?thesis using gb inv i unfolding open_for_def group_inv_def batch_ok_def Let_def by auto
next
  case False
  then have gb: "b = length (gr_batches g)" "g' = g\<lparr>gr_batches := gr_batches g @ [new_batch], gr_current := Some b\<rparr>"
    using o' by (auto simp: open_batch_def split: option.splits if_splits)
  have slot: "has_slot g' e b' k'" if "has_slot g e b' k'" for e b' k'
    using that unfolding has_slot_def Let_def gb by (auto simp: nth_append split: if_splits)
  have lg: "logged g' e r" if "logged g e r" for e r using that by (simp add: logged_def gb)
  have ok: "writer_ok g' m v" if "writer_ok g m v" for v
    by (rule writer_ok_cong [OF slot lg _ that]) (auto simp: gb nth_append)
  have "batch_ok g' m b'" if "b' < length (gr_batches g)" for b'
    using inv that by (simp add: group_inv_def batch_ok_def gb nth_append)
  then show ?thesis
    using inv ok i m unfolding open_for_def group_inv_def by (auto simp: gb new_batch_def)
qed

lemma append_open:
  assumes "open_for m i b g"
  shows "open_for m i b (set_batch b ((gr_batches g ! b)\<lparr>bt_entries := bt_entries (gr_batches g ! b) @ [entry]\<rparr>) g)"
    (is "open_for m i b ?g")
proof -
  note G = assms [unfolded open_for_def]
  have slot: "has_slot ?g e b' k'" if "has_slot g e b' k'" for e b' k'
    using that G unfolding has_slot_def Let_def by (auto simp: nth_list_update nth_append)
  have lg: "logged ?g e r" if "logged g e r" for e r using that by (simp add: logged_def)
  have ok: "writer_ok ?g m v" if "writer_ok g m v" for v
    by (rule writer_ok_cong [OF slot lg _ that]) (use G that in \<open>auto simp: nth_list_update\<close>)
  have "batch_ok ?g m b'" if "b' < length (gr_batches g)" "b' \<noteq> b" for b'
    using G that by (simp add: batch_ok_def)
  then show ?thesis using G ok unfolding open_for_def by (simp add: nth_list_update)
qed

text \<open>A writer waits in a batch that stays open.\<close>

lemma wait_inv:
  assumes g: "open_for m i b g" and st: "\<And>e b'. gr_writers g ! i \<noteq> Leader e b'"
    and k: "k < length (bt_entries (gr_batches g ! b))" "bt_entries (gr_batches g ! b) ! k = entry"
      "length (bt_entries (gr_batches g ! b)) < m"
    and w: "w = (if k = 0 then Leader entry b else Follower entry b k)"
    and l: "k \<noteq> 0 \<Longrightarrow> \<exists>j e. j < length (gr_writers g) \<and> gr_writers g ! j = Leader e b"
  shows "group_inv m (set_writer i w g)" (is "group_inv m ?g")
proof -
  note G = g [unfolded open_for_def]
  have slot: "has_slot ?g e b' k'" if "has_slot g e b' k'" for e b' k'
    using that G unfolding has_slot_def Let_def
    by (auto simp: nth_list_update split: if_splits) (metis nth_list_update_neq)
  have lg: "logged ?g e r" if "logged g e r" for e r using that by (simp add: logged_def)
  have ok: "writer_ok ?g m v" if "writer_ok g m v" for v
    by (rule writer_ok_cong [OF slot lg _ that]) auto
  have "has_slot g entry b k" using G k by (simp add: has_slot_def)
  from slot [OF this] have wok: "writer_ok ?g m w" using w by (cases "k = 0") simp_all
  have keep: "\<exists>j e. j < length (gr_writers ?g) \<and> gr_writers ?g ! j = Leader e b'"
    if "\<exists>j e. j < length (gr_writers g) \<and> gr_writers g ! j = Leader e b'" for b'
    using that st by (metis group_simps(1) length_list_update nth_list_update_neq)
  have lead: "\<exists>j e. j < length (gr_writers ?g) \<and> gr_writers ?g ! j = Leader e b"
  proof (cases "k = 0")
    case True
    then show ?thesis using w G by (intro exI [of _ i] exI [of _ entry]) simp
  next
    case False
    then show ?thesis using l keep by blast
  qed
  have "batch_ok ?g m b'" if "b' < length (gr_batches g)" for b'
  proof (cases "b' = b")
    case True
    then show ?thesis using G k lead by (simp add: batch_ok_def)
  next
    case False
    then have "batch_ok g m b'" using G that by blast
    then show ?thesis using keep unfolding batch_ok_def Let_def by simp
  qed
  then show ?thesis using G ok wok w unfolding group_inv_def by (auto simp: nth_list_update split: if_splits)
qed

lemma group_inv_open:
  assumes "group_inv m g" "i < length (gr_writers g)" "gr_writers g ! i = Leader e b" "\<not> bt_sealed (gr_batches g ! b)"
  shows "open_for m i b g"
proof -
  have w: "writer_ok g m (gr_writers g ! i)" using assms(1,2) by (simp add: group_inv_def)
  then have b: "b < length (gr_batches g)" using assms(3) by (simp add: has_slot_def)
  then have "batch_ok g m b" using assms(1) by (simp add: group_inv_def)
  then have "\<not> bt_done (gr_batches g ! b)" using assms(4) by (auto simp: batch_ok_def Let_def)
  then show ?thesis using assms b unfolding open_for_def group_inv_def by auto
qed

lemma join_batch_inv:
  assumes inv: "group_inv m g" and i: "i < length (gr_writers g)" "gr_writers g ! i = Staged e" and m: "m = max_batch s" "0 < m"
  shows "group_inv m (join_batch s i e g)"
proof -
  obtain g1 b where o': "open_batch g = (g1, b)" by (cases "open_batch g")
  note ob = open_batch_open [OF inv i m(2) o']
  let ?bt = "gr_batches g1 ! b"
  let ?g2 = "set_batch b (?bt\<lparr>bt_entries := bt_entries ?bt @ [e]\<rparr>) g1"
  have op: "open_for m i b ?g2" using ob append_open by blast
  have b: "b < length (gr_batches g1)" using ob by (simp add: open_for_def)
  have es: "bt_entries (gr_batches ?g2 ! b) = bt_entries ?bt @ [e]" using b by simp
  show ?thesis
  proof (cases "length (bt_entries ?bt) + 1 \<ge> m")
    case True
    have "group_inv m (take_batch i e b (length (bt_entries ?bt)) ?g2)"
      by (rule take_batch_inv [OF op]) (use es ob in auto)
    then show ?thesis using True o' m(1) by (simp add: join_batch_def Let_def)
  next
    case False
    let ?k = "length (bt_entries ?bt)"
    let ?w = "if ?k = 0 then Leader e b else Follower e b ?k"
    have "group_inv m (set_writer i ?w ?g2)"
    proof (rule wait_inv [OF op _ _ _ _ refl])
      show "gr_writers ?g2 ! i \<noteq> Leader e' b'" for e' b' using ob i by simp
      show "\<exists>j e. j < length (gr_writers ?g2) \<and> gr_writers ?g2 ! j = Leader e b" if "?k \<noteq> 0" using ob that by auto
    qed (use es False in simp_all)
    then show ?thesis using False o' m(1) by (cases "?k = 0") (simp_all add: join_batch_def Let_def)
  qed
qed

lemma wake_leader_inv:
  assumes inv: "group_inv m g" and i: "i < length (gr_writers g)" "gr_writers g ! i = Leader e b"
  shows "group_inv m (wake_leader i e b g)"
proof -
  have slot: "has_slot g e b 0" using inv i by (auto simp: group_inv_def)
  show ?thesis
  proof (cases "bt_sealed (gr_batches g ! b)")
    case True
    have "group_inv m (set_writer i (Follower e b 0) g)"
      by (rule quiet_writer [OF inv i(1)]) (use True slot i in auto)
    then show ?thesis using True by (simp add: wake_leader_def)
  next
    case False
    have "batch_ok g m b" using inv slot by (auto simp: group_inv_def has_slot_def)
    then have "group_inv m (take_batch i e b 0 g)"
      by (intro take_batch_inv [OF group_inv_open [OF inv i False]])
        (use slot False in \<open>auto simp: has_slot_def batch_ok_def Let_def\<close>)
    then show ?thesis using False by (simp add: wake_leader_def)
  qed
qed

lemma commit_batch_inv:
  assumes inv: "group_inv m g" and i: "i < length (gr_writers g)" "gr_writers g ! i = Committing e b k es"
  shows "group_inv m (commit_batch s i e b k es g)" (is "group_inv m ?g")
proof -
  obtain h rs where c: "CommitBatch s es (gr_host g) = (h, rs)" by (cases "CommitBatch s es (gr_host g)")
  have len: "length rs = length es" using c by (rule CommitBatch_length)
  have w: "b < length (gr_batches g)" "bt_sealed (gr_batches g ! b)" "\<not> bt_done (gr_batches g ! b)" "k < length es" "es ! k = e" "length es \<le> m"
    using inv i by (auto simp: group_inv_def)
  let ?w = "Returned (Some e) (own_result k rs)"
  have W: "gr_writers ?g = (gr_writers g)[i := ?w]" and B: "gr_batches ?g = (gr_batches g)[b := (gr_batches g ! b)\<lparr>bt_results := rs, bt_done := True\<rparr>]"
    and C: "gr_current ?g = gr_current g" and L: "gr_log ?g = (es, rs) # gr_log g"
    using c by (simp_all add: commit_batch_def)
  have uniq: "j = i" if "j < length (gr_writers g)" "gr_writers g ! j = Committing e' b k' es'" for j e' k' es'
    using that inv i unfolding group_inv_def by blast
  have slot: "has_slot ?g e' b' k'" if sl: "has_slot g e' b' k'" for e' b' k'
  proof (cases "b' = b")
    case True
    then obtain j e2 k2 es2 where j: "j < length (gr_writers g)" "gr_writers g ! j = Committing e2 b k2 es2" "k' < length es2" "es2 ! k' = e'"
      using sl w by (auto simp: has_slot_def)
    then have "es2 = es" using uniq i by auto
    then show ?thesis using j w True by (auto simp: has_slot_def B L)
  next
    case False
    then show ?thesis using sl i unfolding has_slot_def Let_def W B L
      by (auto simp: nth_list_update split: if_splits) (metis Writer.inject(5) nth_list_update_neq)
  qed
  have lg: "logged ?g e' r" if "logged g e' r" for e' r using that unfolding logged_def L by (metis list.set_intros(2))
  have ok: "writer_ok ?g m v" if "writer_ok g m v" "\<And>e' b' k' es'. v = Committing e' b' k' es' \<Longrightarrow> b' \<noteq> b" for v
    by (rule writer_ok_cong [OF slot lg _ that(1)]) (use that in \<open>auto simp: B nth_list_update\<close>)
  have "logged ?g e (own_result k rs)"
    unfolding logged_def L by (rule exI [of _ es], rule exI [of _ rs], rule exI [of _ k]) (simp add: w len own_result_def)
  moreover have batch: "batch_ok ?g m b'" if "b' < length (gr_batches g)" for b'
  proof (cases "b' = b")
    case True
    then show ?thesis using that w by (simp add: batch_ok_def B)
  next
    case False
    have "batch_ok g m b'" using inv that by (simp add: group_inv_def)
    then show ?thesis using False i unfolding batch_ok_def Let_def W B
      by (auto simp: nth_list_update split: if_splits) (metis Writer.distinct nth_list_update_neq)
  qed
  moreover have "writer_ok ?g m (gr_writers g ! j)" if "j < length (gr_writers g)" "j \<noteq> i" for j
    by (rule ok) (use inv that uniq in \<open>auto simp: group_inv_def\<close>)
  ultimately have "writer_ok ?g m (gr_writers ?g ! j)" if "j < length (gr_writers ?g)" for j
    using that i by (cases "j = i") (simp_all add: W)
  moreover have "batch_ok ?g m b'" if "b' < length (gr_batches ?g)" for b'
    using batch that by (simp add: B)
  moreover have "j = j'"
    if "j < length (gr_writers ?g)" "j' < length (gr_writers ?g)" "gr_writers ?g ! j = Committing e1 b1 k1 es1"
      "gr_writers ?g ! j' = Committing e2 b1 k2 es2" for j j' b1 e1 e2 k1 k2 es1 es2
  proof -
    have "gr_writers g ! j = Committing e1 b1 k1 es1" "gr_writers g ! j' = Committing e2 b1 k2 es2"
      using that i unfolding W by (auto simp: nth_list_update split: if_splits)
    then show ?thesis using inv that unfolding group_inv_def W by (metis length_list_update)
  qed
  moreover have "\<forall>b'. gr_current ?g = Some b' \<longrightarrow> b' < length (gr_batches ?g)"
    using inv by (simp add: group_inv_def C B)
  moreover have "\<forall>(es, rs) \<in> set (gr_log ?g). length rs = length es \<and> length es \<le> m"
    using inv w len by (auto simp: group_inv_def L)
  ultimately show ?thesis unfolding group_inv_def by blast
qed

lemma max_batch_pos: "0 < max_batch s"
  by (simp add: max_batch_def Let_def)

lemma group_step_inv:
  assumes "group_step s g g'" "group_inv (max_batch s) g"
  shows "group_inv (max_batch s) g'"
  using assms
proof cases
  case (stage i st)
  obtain h r where r: "st (gr_host g) = (h, r)" by (cases "st (gr_host g)")
  let ?w = "(case r of Inl er \<Rightarrow> Returned None (Inl er) | Inr entry \<Rightarrow> Staged entry)"
  show ?thesis
    by (rule quiet_writer [where w = ?w, OF assms(2) stage(2)])
      (use stage r in \<open>auto simp: stage_writer_def split: sum.splits\<close>)
next
  case (join i e)
  then show ?thesis using join_batch_inv [OF assms(2)] max_batch_pos by simp
next
  case (wake i e b)
  then show ?thesis using wake_leader_inv [OF assms(2)] by simp
next
  case (commit i e b k es)
  then show ?thesis using commit_batch_inv [OF assms(2)] by simp
next
  case (follow i e b k)
  have sl: "has_slot g e b k" using assms(2) follow by (auto simp: group_inv_def)
  moreover have "batch_ok g (max_batch s) b" using sl assms(2) by (simp add: group_inv_def has_slot_def)
  ultimately obtain es where es: "(es, bt_results (gr_batches g ! b)) \<in> set (gr_log g)" "k < length es" "es ! k = e"
    using follow by (auto simp: has_slot_def batch_ok_def Let_def split: if_splits)
  moreover have "length (bt_results (gr_batches g ! b)) = length es" using es assms(2) by (auto simp: group_inv_def)
  ultimately have "logged g e (own_result k (bt_results (gr_batches g ! b)))"
    by (auto simp: logged_def own_result_def)
  then show ?thesis unfolding follow(1)
    by (intro quiet_writer [where w = "Returned (Some e) (own_result k (bt_results (gr_batches g ! b)))", OF assms(2) follow(2)])
      (use follow in \<open>auto simp: follower_returns_def\<close>)
qed

lemma group_start_inv: "group_inv m (group_start h stages)"
  by (auto simp: group_start_def group_inv_def)

lemma group_reachable_inv: "group_reachable s g \<Longrightarrow> group_inv (max_batch s) g"
  by (induction rule: group_reachable.induct) (auto intro: group_start_inv group_step_inv)

text \<open>
  C11: however concurrent puts interleave, a put that went through the group commit returns the result that the commit had
  for its own object, and no commit takes more objects than configured.
\<close>

theorem group_own_result:
  assumes "group_reachable s g" and "Returned (Some entry) r \<in> set (gr_writers g)"
  shows "\<exists>es rs k. (es, rs) \<in> set (gr_log g) \<and> length rs = length es \<and> length es \<le> max_batch s \<and>
    k < length es \<and> es ! k = entry \<and> rs ! k = r"
proof -
  obtain i where "i < length (gr_writers g)" "gr_writers g ! i = Returned (Some entry) r"
    using assms(2) by (auto simp: in_set_conv_nth)
  moreover have inv: "group_inv (max_batch s) g" using assms(1) by (rule group_reachable_inv)
  ultimately have "logged g entry r" by (auto simp: group_inv_def dest!: spec [of _ i])
  then show ?thesis using inv unfolding logged_def group_inv_def by fastforce
qed

section \<open>Every writer returns\<close>

fun rank :: "Writer \<Rightarrow> nat" where
  "rank (Idle st) = 5"
| "rank (Staged e) = 4"
| "rank (Leader e b) = 3"
| "rank (Follower e b k) = 2"
| "rank (Committing e b k es) = 1"
| "rank (Returned e r) = 0"

definition work_left :: "Group \<Rightarrow> nat" where
  "work_left g = sum_list (map rank (gr_writers g))"

lemma work_left_less:
  assumes "i < length (gr_writers g)" "gr_writers g' = (gr_writers g)[i := w]" "rank w < rank (gr_writers g ! i)"
  shows "work_left g' < work_left g"
proof -
  have "map rank (gr_writers g') = (map rank (gr_writers g))[i := rank w]" by (simp add: assms(2) map_update)
  moreover have "rank (gr_writers g ! i) \<le> sum_list (map rank (gr_writers g))"
    using assms(1) by (intro member_le_sum_list) simp_all
  ultimately show ?thesis using assms(1,3) by (simp add: work_left_def sum_list_update)
qed

lemma open_batch_writers: "open_batch g = (g1, b) \<Longrightarrow> gr_writers g1 = gr_writers g"
  by (auto simp: open_batch_def split: option.splits if_splits)

lemma group_step_less:
  assumes "group_step s g g'"
  shows "work_left g' < work_left g"
  using assms
proof cases
  case (stage i st)
  then show ?thesis
    by (cases "st (gr_host g)"; cases "snd (st (gr_host g))")
      (auto simp: stage_writer_def intro!: work_left_less [of i])
next
  case (join i e)
  obtain g1 b where o': "open_batch g = (g1, b)" by (cases "open_batch g")
  have W: "\<exists>w. gr_writers (join_batch s i e g) = (gr_writers g)[i := w] \<and> rank w < 4"
    using open_batch_writers [OF o'] o' by (auto simp: join_batch_def Let_def take_batch_def)
  then show ?thesis using join work_left_less [of i g] by fastforce
next
  case (wake i e b)
  then show ?thesis by (auto simp: wake_leader_def take_batch_def Let_def intro!: work_left_less [of i])
next
  case (commit i e b k es)
  then show ?thesis
    by (cases "CommitBatch s es (gr_host g)") (auto simp: commit_batch_def intro!: work_left_less [of i])
next
  case (follow i e b k)
  then show ?thesis by (auto simp: follower_returns_def intro!: work_left_less [of i])
qed

lemma group_progress:
  assumes inv: "group_inv m g" and i: "i < length (gr_writers g)" "\<And>e r. gr_writers g ! i \<noteq> Returned e r"
  shows "\<exists>g'. group_step s g g'"
proof (cases "gr_writers g ! i")
  case (Follower e b k)
  have sl: "has_slot g e b k" using inv i Follower by (auto simp: group_inv_def)
  then have ok: "batch_ok g m b" using inv by (simp add: group_inv_def has_slot_def)
  show ?thesis
  proof (cases "bt_sealed (gr_batches g ! b)")
    case False
    then obtain j e' where "j < length (gr_writers g)" "gr_writers g ! j = Leader e' b"
      using ok by (auto simp: batch_ok_def Let_def)
    then show ?thesis by (blast intro: group_step.wake)
  next
    case True
    then show ?thesis using sl i(1) Follower
      by (auto simp: has_slot_def Let_def split: if_splits intro: group_step.commit group_step.follow)
  qed
qed (use i in \<open>auto intro: group_step.intros\<close>)

text \<open>
  C12: the group commit cannot get stuck and cannot go on for ever: every step uses up part of a bounded amount of work, and
  from every reachable state the writers can run on until each of them has returned.
\<close>

theorem group_commit_returns:
  assumes "group_reachable s g"
  shows "(\<forall>g'. group_step s g g' \<longrightarrow> work_left g' < work_left g) \<and>
    (\<exists>g'. (group_step s)\<^sup>*\<^sup>* g g' \<and> (\<forall>w \<in> set (gr_writers g'). \<exists>e r. w = Returned e r))"
proof (intro conjI allI impI)
  show "\<exists>g'. (group_step s)\<^sup>*\<^sup>* g g' \<and> (\<forall>w \<in> set (gr_writers g'). \<exists>e r. w = Returned e r)"
    using assms
  proof (induction "work_left g" arbitrary: g rule: less_induct)
    case less
    show ?case
    proof (cases "\<forall>w \<in> set (gr_writers g). \<exists>e r. w = Returned e r")
      case False
      then obtain i where "i < length (gr_writers g)" "\<And>e r. gr_writers g ! i \<noteq> Returned e r"
        by (metis in_set_conv_nth)
      then obtain g1 where g1: "group_step s g g1" using group_progress [OF group_reachable_inv [OF less.prems]] by blast
      from less.hyps [OF group_step_less [OF g1] group_reachable.step [OF less.prems g1]]
      show ?thesis using g1 by (meson converse_rtranclp_into_rtranclp)
    qed blast
  qed
qed (rule group_step_less)

section \<open>Durable before visible\<close>

definition all_durable :: "Host \<Rightarrow> bool" where
  "all_durable h \<longleftrightarrow> (\<forall>p f. file_at h p = Some f \<longrightarrow> hf_durable f)"

definition durable_run :: "Host \<Rightarrow> Host \<Rightarrow> bool" where
  "durable_run h h' \<longleftrightarrow> (all_durable h \<longrightarrow> all_durable h' \<and>
     (\<exists>evs. hs_trace h' = hs_trace h @ evs \<and> (\<forall>t q d. EvRename t q d \<in> set evs \<longrightarrow> d)))"

lemma durable_run_refl: "durable_run h h"
  by (simp add: durable_run_def)

lemma durable_run_trans:
  assumes "durable_run h1 h2" "durable_run h2 h3"
  shows "durable_run h1 h3"
  unfolding durable_run_def
proof (intro impI)
  assume "all_durable h1"
  then obtain e1 e2 where "all_durable h3" "hs_trace h2 = hs_trace h1 @ e1" "\<forall>t q d. EvRename t q d \<in> set e1 \<longrightarrow> d"
    "hs_trace h3 = hs_trace h2 @ e2" "\<forall>t q d. EvRename t q d \<in> set e2 \<longrightarrow> d"
    using assms unfolding durable_run_def by blast
  then have "all_durable h3" "hs_trace h3 = hs_trace h1 @ (e1 @ e2)" "\<forall>t q d. EvRename t q d \<in> set (e1 @ e2) \<longrightarrow> d"
    by (simp, simp, metis Un_iff set_append)
  then show "all_durable h3 \<and> (\<exists>evs. hs_trace h3 = hs_trace h1 @ evs \<and> (\<forall>t q d. EvRename t q d \<in> set evs \<longrightarrow> d))"
    by blast
qed

lemma keeps_durable_run: "keeps (\<lambda>_. False) h h' \<Longrightarrow> durable_run h h'"
proof -
  assume k: "keeps (\<lambda>_. False) h h'"
  have "all_durable h'" if "all_durable h"
    unfolding all_durable_def
  proof (intro allI impI)
    fix p f assume "file_at h' p = Some f"
    then show "hf_durable f" using keeps_file [OF k, of p] that
      by (cases "file_at h p") (auto simp: same_file_def all_durable_def)
  qed
  moreover obtain evs where "hs_trace h' = hs_trace h @ evs" "\<forall>t q d. EvRename t q d \<notin> set evs"
    using k unfolding keeps_def touches_def by blast
  ultimately show ?thesis unfolding durable_run_def by blast
qed

lemma unlink_durable_run: "durable_run h (fst (sys_unlink p h))"
proof -
  obtain h1 r where "sys_unlink p h = (h1, r)" by (cases "sys_unlink p h")
  then show ?thesis
    by (auto simp: sys_unlink_def sys_fail_def durable_run_def all_durable_def split: if_splits option.splits elim!: sys_call_cases)
      (auto simp: file_at_def split: if_splits)
qed

lemma unlink_all_trace: "\<exists>evs. hs_trace (unlink_all tmps h) = hs_trace h @ evs \<and> (\<forall>t q d. EvRename t q d \<notin> set evs)"
proof (induction tmps arbitrary: h)
  case Nil
  show ?case by (simp add: unlink_all_def)
next
  case (Cons t tmps)
  obtain h1 r where u: "sys_unlink t h = (h1, r)" by (cases "sys_unlink t h")
  then obtain e1 where e1: "hs_trace h1 = hs_trace h @ e1" "\<forall>t q d. EvRename t q d \<notin> set e1"
    by (auto simp: sys_unlink_def sys_fail_def split: if_splits option.splits elim!: sys_call_cases)
  obtain e2 where "hs_trace (unlink_all tmps h1) = hs_trace h1 @ e2" "\<forall>t q d. EvRename t q d \<notin> set e2"
    using Cons by blast
  then show ?case using u e1 by (intro exI [of _ "e1 @ e2"]) (auto simp: unlink_all_def)
qed

lemma unlink_all_durable_run: "durable_run h (unlink_all tmps h)"
proof (induction tmps arbitrary: h)
  case Nil
  show ?case by (simp add: unlink_all_def durable_run_refl)
next
  case (Cons t tmps)
  from durable_run_trans [OF unlink_durable_run Cons] show ?case by (simp add: unlink_all_def)
qed

lemma rename_durable_run: "sys_rename tmp target h = (h1, r) \<Longrightarrow> durable_run h h1"
  by (auto simp: sys_rename_def sys_fail_def durable_run_def all_durable_def split: if_splits option.splits elim!: sys_call_cases)
    (auto simp: file_at_def split: if_splits)

lemma commit_renames_durable: "commit_renames entry renames h = (h1, r) \<Longrightarrow> durable_run h h1"
proof (induction renames arbitrary: h)
  case (Cons rn renames)
  obtain tmp target where rn: "rn = (tmp, target)" by (cases rn)
  obtain h2 q where m: "sys_rename tmp target h = (h2, q)" by (cases "sys_rename tmp target h")
  have "durable_run h h2" using m by (rule rename_durable_run)
  then show ?case using Cons m rn unlink_all_durable_run by (cases q) (auto intro: durable_run_trans)
qed (simp add: durable_run_refl)

lemma commit_entries_durable: "commit_entries entries h = (h1, rs) \<Longrightarrow> durable_run h h1"
proof (induction entries arbitrary: h h1 rs)
  case (Cons entry entries)
  obtain h2 r where r: "commit_renames entry entry h = (h2, r)" by (cases "commit_renames entry entry h")
  obtain h3 q where q: "commit_entries entries h2 = (h3, q)" by (cases "commit_entries entries h2")
  have "durable_run h h3" using durable_run_trans [OF commit_renames_durable [OF r] Cons.IH [OF q]] .
  then show ?case using Cons.prems r q by simp
qed (simp add: durable_run_refl)

lemma count_metric_durable: "durable_run h h' \<Longrightarrow> durable_run h (count_metric m d h')"
  by (erule durable_run_trans) (rule keeps_durable_run [OF count_metric_keeps])

text \<open>
  C10: a commit makes nothing visible that is not durable: every rename of a batch moves a file that the batch's sync has
  covered, and when that sync fails nothing is renamed and every writer of the batch is told.
\<close>

theorem commit_batch_durable:
  assumes "CommitBatch s entries h = (h', results)"
  shows "(\<exists>evs. hs_trace h' = hs_trace h @ evs \<and> (\<forall>t q d. EvRename t q d \<in> set evs \<longrightarrow> d)) \<and>
    length results = length entries \<and>
    (\<forall>e. snd (SyncFilesystem (batch_directory entries) h) = Inl e \<longrightarrow>
       results = replicate (length entries) (Inl e) \<and> (\<forall>t q d. EvRename t q d \<in> set (hs_trace h') \<longrightarrow> EvRename t q d \<in> set (hs_trace h)))"
proof -
  let ?d = "batch_directory entries"
  obtain hb sr where sy: "SyncFilesystem ?d h = (hb, sr)" by (cases "SyncFilesystem ?d h")
  have kb: "keeps (\<lambda>_. False) h hb" using sy by (rule SyncFilesystem_keeps)
  show ?thesis
  proof (cases sr)
    case (Inl e)
    let ?hc = "count_metric ''fss_posix_syncfs_total'' 1 hb"
    have h': "hs_trace h' = hs_trace (unlink_all (map fst (concat entries)) ?hc)" "results = replicate (length entries) (Inl e)"
      using assms sy Inl by (auto simp: CommitBatch_def Let_def count_metric_def)
    obtain e1 where e1: "hs_trace hb = hs_trace h @ e1" "\<forall>t q d. EvRename t q d \<notin> set e1"
      using kb unfolding keeps_def touches_def by blast
    obtain e2 where e2: "hs_trace h' = hs_trace hb @ e2" "\<forall>t q d. EvRename t q d \<notin> set e2"
      using unlink_all_trace [of "map fst (concat entries)" ?hc] unfolding h'(1) by (auto simp: count_metric_def)
    have "hs_trace h' = hs_trace h @ (e1 @ e2)" "\<forall>t q d. EvRename t q d \<notin> set (e1 @ e2)" using e1 e2 by auto
    then have "\<exists>evs. hs_trace h' = hs_trace h @ evs \<and> (\<forall>t q d. EvRename t q d \<notin> set evs)" by blast
    then show ?thesis using h'(2) sy Inl by auto
  next
    case (Inr u)
    obtain hc cr where co: "commit_entries entries (count_metric ''fss_posix_syncfs_total'' 1 hb) = (hc, cr)"
      by (cases "commit_entries entries (count_metric ''fss_posix_syncfs_total'' 1 hb)")
    have "all_durable hb" using SyncFilesystem_durable [of ?d h hb] sy Inr
      by (auto simp: all_durable_def Ok_def)
    moreover have "durable_run hb h'"
    proof -
      have "durable_run hb hc" using durable_run_trans [OF count_metric_durable [OF durable_run_refl] commit_entries_durable [OF co]] .
      moreover have "durable_run hc (fst (SyncDirectory ?d hc))"
        by (rule keeps_durable_run [OF SyncDirectory_keeps [OF prod.collapse [symmetric]]])
      ultimately have "durable_run hb (if c then fst (SyncDirectory ?d hc) else hc)" for c
        by (auto intro: durable_run_trans)
      then show ?thesis using assms sy Inr co
        by (auto simp: CommitBatch_def Let_def simp del: if_split intro!: count_metric_durable)
    qed
    moreover obtain evs where "hs_trace hb = hs_trace h @ evs" "\<forall>t q d. EvRename t q d \<notin> set evs"
      using kb unfolding keeps_def touches_def by blast
    ultimately have "\<exists>evs. hs_trace h' = hs_trace h @ evs \<and> (\<forall>t q d. EvRename t q d \<in> set evs \<longrightarrow> d)"
      unfolding durable_run_def by (metis Un_iff append.assoc set_append)
    then show ?thesis using CommitBatch_length [OF assms] sy Inr by simp
  qed
qed

section \<open>A group that runs\<close>

definition pair_host :: Host where
  "pair_host = (demo_host [])\<lparr>hs_files :=
     [(''/d/t'', \<lparr>hf_data = ''a'', hf_mtime = 1, hf_mode = 6, hf_durable = False\<rparr>),
      (''/d/u'', \<lparr>hf_data = ''b'', hf_mtime = 1, hf_mode = 6, hf_durable = False\<rparr>)]\<rparr>"

definition pair_entry :: "bool \<Rightarrow> BatchEntry" where
  "pair_entry b = (if b then [(''/d/t'', ''/d/x'')] else [(''/d/u'', ''/d/y'')])"

definition pair_start :: Group where
  "pair_start = group_start pair_host [\<lambda>h. (h, Ok (pair_entry True)), \<lambda>h. (h, Ok (pair_entry False))]"

definition pair_staged :: Group where
  "pair_staged = stage_writer 1 (\<lambda>h. (h, Ok (pair_entry False))) (stage_writer 0 (\<lambda>h. (h, Ok (pair_entry True))) pair_start)"

definition pair_joined :: Group where
  "pair_joined = join_batch (demo_store True) 1 (pair_entry False) (join_batch (demo_store True) 0 (pair_entry True) pair_staged)"

definition pair_done :: Group where
  "pair_done = commit_batch (demo_store True) 1 (pair_entry False) 0 1 [pair_entry True, pair_entry False] pair_joined"

lemmas group_eval = pair_start_def pair_staged_def pair_joined_def group_start_def stage_writer_def join_batch_def open_batch_def
  take_batch_def new_batch_def max_batch_def set_writer_def set_batch_def Let_def demo_store_def Ok_def

lemma pair_joined_writers:
  "gr_writers pair_joined = [Leader (pair_entry True) 0, Committing (pair_entry False) 0 1 [pair_entry True, pair_entry False]]"
  by (simp add: group_eval)

lemma pair_commit: "snd (CommitBatch (demo_store True) [pair_entry True, pair_entry False] pair_host) = [Ok (), Ok ()]"
  by (simp add: store_eval pair_host_def pair_entry_def)

lemma pair_reachable: "group_reachable (demo_store True) pair_done"
proof -
  note go = group_reachable.step
  have "group_reachable (demo_store True) pair_start" unfolding pair_start_def by (rule group_reachable.start)
  from go [OF this group_step.stage [of 0 _ "\<lambda>h. (h, Ok (pair_entry True))"]]
  have "group_reachable (demo_store True) (stage_writer 0 (\<lambda>h. (h, Ok (pair_entry True))) pair_start)"
    by (simp add: pair_start_def group_start_def)
  from go [OF this group_step.stage [of 1 _ "\<lambda>h. (h, Ok (pair_entry False))"]]
  have "group_reachable (demo_store True) pair_staged"
    by (simp add: pair_staged_def pair_start_def group_start_def stage_writer_def set_writer_def Ok_def)
  from go [OF this group_step.join [of 0 _ "pair_entry True"]]
  have "group_reachable (demo_store True) (join_batch (demo_store True) 0 (pair_entry True) pair_staged)"
    by (simp add: pair_staged_def pair_start_def group_start_def stage_writer_def set_writer_def Ok_def)
  from go [OF this group_step.join [of 1 _ "pair_entry False"]]
  have "group_reachable (demo_store True) pair_joined"
    by (simp add: pair_joined_def [symmetric]) (simp add: group_eval)
  from go [OF this group_step.commit [of 1 _ "pair_entry False" 0 1 "[pair_entry True, pair_entry False]"]]
  show ?thesis by (simp add: pair_done_def pair_joined_writers)
qed

lemma group_own_result_witness:
  "\<exists>es rs k. (es, rs) \<in> set (gr_log pair_done) \<and> length rs = length es \<and> length es \<le> max_batch (demo_store True) \<and>
     k < length es \<and> es ! k = pair_entry False \<and> rs ! k = Ok ()"
proof (rule group_own_result [OF pair_reachable])
  have h: "gr_host pair_joined = pair_host" by (simp add: group_eval)
  obtain hc where c: "CommitBatch (demo_store True) [pair_entry True, pair_entry False] pair_host = (hc, [Ok (), Ok ()])"
    using pair_commit by (metis prod.collapse)
  show "Returned (Some (pair_entry False)) (Ok ()) \<in> set (gr_writers pair_done)"
    by (simp add: pair_done_def commit_batch_def h c pair_joined_writers own_result_def)
qed

lemma group_commit_returns_witness:
  "\<exists>g'. (group_step (demo_store True))\<^sup>*\<^sup>* pair_start g' \<and> (\<forall>w \<in> set (gr_writers g'). \<exists>e r. w = Returned e r)"
proof -
  have "group_reachable (demo_store True) pair_start" unfolding pair_start_def by (rule group_reachable.start)
  from group_commit_returns [OF this] show ?thesis by blast
qed

lemma commit_batch_durable_witness:
  "\<exists>evs. hs_trace (fst (CommitBatch (demo_store True) [pair_entry True, pair_entry False] pair_host)) = hs_trace pair_host @ evs \<and>
     (\<forall>t q d. EvRename t q d \<in> set evs \<longrightarrow> d)"
  using commit_batch_durable [OF prod.collapse [symmetric]] by blast

end
