(* ===== verification/Spec2Isabelle.thy ===== *)
theory Spec2Isabelle
  imports Error_Contract Expiry_Policy Time_Format Kind_Validator Object_Key_Policy File_Metadata
    Location_Repository Lease_Repository Metadata_Repository Blob_Store Crypto Transfer_Token
    Registration Gc_Safety Jwt_Authorizer Sigv4 Http_Properties Router_Properties Byte_Stream
    Registry Config_Properties Remote_Properties Metered_Store Large_File_Properties
    Group_Commit
begin

text \<open>
  A verification library for the OSDU file service (C++, under \<^verbatim>\<open>src/src\<close>).

  \<^bold>\<open>The program.\<close> A client asks for an upload location, puts the content of a file into the staging
  zone of an object store, and then registers it: the service claims the file source in the metadata
  repository, copies the object to the persistent zone, checks its digest, marks the record ready and
  points the location at the new object. Later it hands out download locations, deletes records and
  collects what was left behind. The use cases (\<^verbatim>\<open>app/usecases\<close>) reach object stores, repositories, the
  authorizer, the audit log, the clock and the event publisher only through ports
  (\<^verbatim>\<open>domain/ports/ports.h\<close>); the repository has in-memory implementations of every port, and those are
  modelled too, so that the composition of use case and repository can be reasoned about.

  \<^bold>\<open>The theories\<close>, in the order of import:
  \<^item> \<open>Prelude\<close>: ordered maps as sorted association lists (\<^verbatim>\<open>std::map\<close>), string functions, integer
    wrap-around, shared lemmas. \<open>Messages\<close>: the error texts of the source, as byte strings.
  \<^item> \<open>Result_Type\<close> (\<^verbatim>\<open>common/result\<close>): \<open>ErrorKind\<close>, \<open>Error\<close>, \<open>Result\<close> as a sum with the error on the left, the
    early return \<^verbatim>\<open>FSS_TRY\<close> and its form for functions with state.
  \<^item> \<open>Json\<close> (\<^verbatim>\<open>common/json\<close>): JSON values and typed member access; \<open>Error_Contract\<close>
    (\<^verbatim>\<open>domain/contract/error_table\<close>, \<^verbatim>\<open>adapters/http/http_error_mapper\<close>): error kinds to HTTP and gRPC.
  \<^item> \<open>Regex\<close>, \<open>Kind_Validator\<close>, \<open>Expiry_Policy\<close>, \<open>Object_Key_Policy\<close> (\<^verbatim>\<open>app/services\<close>), \<open>Time_Format\<close>
    (\<^verbatim>\<open>common/time\<close>), \<open>Domain_Types\<close> and \<open>File_Metadata\<close> (\<^verbatim>\<open>domain/model\<close>): parsing, printing and validation.
  \<^item> \<open>Location_Repository\<close>, \<open>Lease_Repository\<close>, \<open>Metadata_Repository\<close>, \<open>Blob_Store\<close> (\<^verbatim>\<open>infra/*/memory\<close>): the
    stateful components. Each operation is one function from the state to the new state and a
    result, which is what one call under the mutex does; interleavings are sequences of such steps.
    Each theory has an invariant, a reachability relation and a locale with the laws its clients use,
    interpreted on the operations.
  \<^item> \<open>Crypto\<close> (\<^verbatim>\<open>common/crypto\<close>), \<open>Transfer_Token\<close> (\<^verbatim>\<open>infra/transfer\<close>): encodings, signed tokens and the endpoint
    that serves them; the digest functions of the crypto library are arguments.
  \<^item> \<open>Ports\<close>: the record of ports and the location issuer; \<open>Use_Cases\<close>: the sixteen use cases, for
    any implementation of the ports; \<open>Memory_World\<close>: the ports of the service without external systems
    (\<^verbatim>\<open>main/server_main\<close>), over one state record \<open>World\<close>, with one object store for all partitions and zones, as
    \<^verbatim>\<open>SingleStoreFactory\<close> has it, and any audit sink.
  \<^item> \<open>Use_Case_Properties\<close>, \<open>Registration\<close>: authorization, termination and atomicity of the use cases, and
    what a registration does in the assembled world.
  \<^item> \<open>Gc_Task\<close> (\<^verbatim>\<open>app/tasks/gc_task\<close>), \<open>Gc_Properties\<close>, \<open>Gc_Safety\<close>: the garbage collector, and that it ends,
    never touches what is registered and changes nothing in a dry run. The locale \<open>gc_frame\<close> carries
    any property that the single steps keep to whole runs.
  \<^item> \<open>Jwt_Authorizer\<close> (\<^verbatim>\<open>infra/auth/local\<close>), \<open>Sigv4\<close> (\<^verbatim>\<open>infra/blob/s3/sigv4_signer\<close>), \<open>Net\<close> (\<^verbatim>\<open>common/net\<close>), \<open>Byte_Range\<close> and
    \<open>Byte_Stream\<close> (\<^verbatim>\<open>common/bytes\<close>): bearer tokens, request signatures, URLs and query strings, range headers, and the
    sources and sinks that carry file contents, with a locale \<open>byte_source\<close> for what a reader promises.
  \<^item> \<open>Http_Message\<close>, \<open>Http_Server\<close>, \<open>Http_Properties\<close> (\<^verbatim>\<open>common/http/http.h\<close>, \<^verbatim>\<open>common/http/server.cpp\<close>): header maps, route
    patterns, body limits, the body pump between the reading thread and a streaming handler as a machine driven by a
    schedule of events, dispatch of a request, ranges of a response and admission control. The parsed request
    and the body reader come from the socket library and are arguments.
  \<^item> \<open>Router\<close>, \<open>Router_Properties\<close> (\<^verbatim>\<open>adapters/http\<close>): the REST interface, one action per route over the use cases and the
    collector, wrapped by authorization, error mapping and request counting.
  \<^item> \<open>Config_Loader\<close>, \<open>Config_Schema\<close>, \<open>Config_Properties\<close> (\<^verbatim>\<open>common/config\<close>): layered configuration, the fields of the service
    with the rules that span them, and what an accepted configuration guarantees.
  \<^item> \<open>Registry\<close>: an abstract registry of claims and record histories, the locale \<open>simulation\<close>, and the proof that
    the metadata repository implements the registry.
  \<^item> \<open>Metrics\<close> (\<^verbatim>\<open>common/metrics\<close>), \<open>Metered_Store\<close> (\<^verbatim>\<open>infra/blob/metered\<close>): counters, and the store that counts what passes
    through another one, which is any tree of requests on a source or a sink.
  \<^item> \<open>Large_File_Plane\<close>, \<open>Large_File_Properties\<close> (\<^verbatim>\<open>common/http/large_file_plane\<close>): the listener for large downloads, from the
    bytes a client sends in arbitrary pieces to the bytes it gets, with \<^verbatim>\<open>sendfile\<close> and partial writes as lists of events.
  \<^item> \<open>Host\<close> (\<^verbatim>\<open>common/fs\<close>), \<open>Posix_Store\<close> (\<^verbatim>\<open>infra/blob/posix\<close>, \<^verbatim>\<open>infra/io/file_sync\<close>, \<^verbatim>\<open>infra/transfer/posix_file_byte_source\<close>),
    \<open>Posix_Facts\<close>, \<open>Posix_Properties\<close>: the object store over a directory tree. The host is an explicit state of files,
    directories, descriptors and a history of effects; each call takes the next outcome of a script, so every system call
    may fail or do less than asked. \<open>touches\<close> is the frame of a run, and each step has one lemma about it.
  \<^item> \<open>Group_Commit\<close> (\<^verbatim>\<open>PosixBlobStore::JoinBatch\<close>): concurrent writers as a step relation on critical sections, with an
    invariant by rule induction, progress and a bounded amount of work.
  \<^item> \<open>Remote_Services\<close>, \<open>Remote_Metadata\<close>, \<open>Remote_Properties\<close> (\<^verbatim>\<open>infra/auth/remote\<close>, \<^verbatim>\<open>infra/legal\<close>, \<^verbatim>\<open>infra/schema\<close>,
    \<^verbatim>\<open>infra/event\<close>, \<^verbatim>\<open>infra/metadata/remote\<close>): the clients of other services over an HTTP library that is an argument.

  \<^bold>\<open>What is shown.\<close> Parsers and printers are inverse on the values they accept and accept exactly what
  the contract says; the repositories keep their indexes and version chains consistent in every
  reachable state, a claim and a lease have one owner, listings deliver every entry once; tokens
  confine the transfer endpoint to one object and operation; a refused caller causes no effect; a
  failed registration leaves records and objects as they were, unless the audit sink refuses its success event under
  \<open>audit_fail_closed\<close>, when it is complete and visible although the caller gets an error (\<open>complete_but_refused\<close>); a successful one
  moves the object and makes exactly the new record visible, with the digest of the object. A request signature covers method, path, query, headers
  and payload, and the clients of remote services report success only for the answers that mean it. At the interface, every endpoint resolves to its own route, a route that is not public runs only
  for a caller with its roles, a request is refused before its body is read or handled with its whole body, and
  no more requests than configured are inside at a time, as long as every response the server wrote belonged to a routed request; a
  response written without routing lowers the counter for good (\<open>admission_bypassed\<close>). On the POSIX store an object is replaced as a whole or not at all
  whatever call fails, nothing is renamed before it is durable where durability is asked for, and concurrent puts each
  get their own result from a group commit that always ends. Where the code does something else than its comments say, a
  lemma states what it does (for example \<open>admission_bypassed\<close>, \<open>create_claim_leak\<close>, \<open>ExpiryParse_overflow\<close>, \<open>dry_run_reclaims\<close>, \<open>foreign_record_read\<close>,
  \<open>body_served_as_request\<close>, \<open>unsynced_directory_acknowledged\<close>, \<open>failed_sink_leaks_descriptor\<close>).

  \<^bold>\<open>Loops and bounds.\<close> Loops over containers are structural. The waiting loop of a registration and the
  paging loops of the collector are partial functions with option result, and \<open>create_returns\<close> and
  \<open>gc_returns\<close> prove that they return: the first when the clock advances with every sleep, the second when
  a partition has fewer than \<open>2 ^ 31\<close> locations, because the running offset is an \<^verbatim>\<open>int\<close>. 32- and
  64-bit arithmetic is wrapped where the source can overflow; counters of reports and clock values are
  integers without bound.

  \<^bold>\<open>Modelling remarks.\<close> A \<^verbatim>\<open>get\<close> of the JSON library on a value of another type throws; that is the error
  \<open>type_error\<close> of the model. The renewal thread of a lease runs in rounds; how many rounds happen between two
  checkpoints of a registration is an argument (\<open>p_renew_rounds\<close>). What a failed read has already written to its
  sink is lost. The collector runs without a metrics registry. The server keeps its last body error in a member that all requests
  share; the model keeps one for each request. The histogram of request durations only counts.

  \<^bold>\<open>Not modelled.\<close> Sockets, thread pools and system calls (the socket library under \<^verbatim>\<open>common/http\<close>,
  the I/O engines of \<^verbatim>\<open>infra/io\<close>; the calls of the POSIX store are modelled by what POSIX says of them, with one file
  system and without symbolic links other than as an argument), SQL repositories, whose behaviour is that of statements run by an external engine, the S3
  store, generated gRPC code, process start-up and logging.
\<close>

end
